(* ===== verification/Prelude.thy ===== *)
theory Prelude
  imports Main "HOL-Library.Code_Target_Numeral" "HOL-Library.AList" "HOL-Library.Multiset"
begin

text \<open>
  Shared vocabulary of the development: JavaScript's \<open>Map\<close> and \<open>Set\<close> as association
  lists and lists in insertion order, the truthiness of optional strings, filters with
  optional fields, and the collections of facts the component proofs use.

  A JavaScript \<open>Map\<close> keeps its entries in insertion order and \<open>set\<close> on an existing key
  keeps the entry's position; \<open>AList.update\<close> does exactly that. A \<open>Set\<close> is a list
  without duplicates, grown at the end.
\<close>

named_theorems model_defs \<open>definitions unfolded together by the component proofs\<close>
named_theorems store_simps \<open>how the store operations act on the components of the state\<close>

type_synonym ('k, 'v) js_map = "('k \<times> 'v) list"

abbreviation map_get :: "('k, 'v) js_map \<Rightarrow> 'k \<Rightarrow> 'v option" where
  "map_get m k \<equiv> map_of m k"

abbreviation map_set :: "'k \<Rightarrow> 'v \<Rightarrow> ('k, 'v) js_map \<Rightarrow> ('k, 'v) js_map" where
  "map_set k v m \<equiv> AList.update k v m"

abbreviation map_delete :: "'k \<Rightarrow> ('k, 'v) js_map \<Rightarrow> ('k, 'v) js_map" where
  "map_delete k m \<equiv> AList.delete k m"

abbreviation map_values :: "('k, 'v) js_map \<Rightarrow> 'v list" where
  "map_values m \<equiv> map snd m"

definition wf_map :: "('k, 'v) js_map \<Rightarrow> bool" where
  "wf_map m \<longleftrightarrow> distinct (map fst m)"

lemma wf_map_Nil [simp, intro]: "wf_map []"
  by (simp add: wf_map_def)

lemma wf_map_set [simp, intro]: "wf_map m \<Longrightarrow> wf_map (map_set k v m)"
  by (simp add: wf_map_def distinct_update)

lemma wf_map_delete [simp, intro]: "wf_map m \<Longrightarrow> wf_map (map_delete k m)"
  by (simp add: wf_map_def distinct_delete)

lemma map_get_set [simp]: "map_get (map_set k v m) k' = (if k' = k then Some v else map_get m k')"
  by (simp add: update_conv)

lemma map_get_delete [simp]: "map_get (map_delete k m) k' = (if k' = k then None else map_get m k')"
  by (simp add: delete_conv)

lemma map_get_mem: "map_get m k = Some v \<Longrightarrow> v \<in> set (map_values m)"
  by (auto dest!: map_of_SomeD intro: rev_image_eqI)

lemma wf_map_get: "wf_map m \<Longrightarrow> (k, v) \<in> set m \<Longrightarrow> map_get m k = Some v"
  by (simp add: wf_map_def)

lemma wf_map_get_iff: "wf_map m \<Longrightarrow> map_get m k = Some v \<longleftrightarrow> (k, v) \<in> set m"
  by (auto dest: map_of_SomeD wf_map_get)

lemma wf_map_Cons [simp]: "wf_map ((k, v) # m) \<longleftrightarrow> k \<notin> fst ` set m \<and> wf_map m"
  by (auto simp: wf_map_def)

lemma map_set_fresh:
  "k \<notin> fst ` set m \<Longrightarrow> map_set k v m = m @ [(k, v)]"
  by (induction m) auto

text \<open>
  What a \<open>set\<close> does to the values, as a bag: it adds the new value and removes the value
  the key had, if any.
\<close>

lemma map_values_set:
  assumes "wf_map m"
  shows "mset (map_values (map_set k v m)) =
    add_mset v (case map_get m k of None \<Rightarrow> mset (map_values m)
                | Some u \<Rightarrow> mset (map_values m) - {#u#})"
  using assms
proof (induction m)
  case Nil
  then show ?case by simp
next
  case (Cons p m)
  obtain k' u where p: "p = (k', u)" by (cases p)
  show ?case
  proof (cases "k' = k")
    case True
    then show ?thesis by (simp add: p)
  next
    case False
    with Cons have IH: "mset (map_values (map_set k v m)) =
      add_mset v (case map_get m k of None \<Rightarrow> mset (map_values m)
                | Some u \<Rightarrow> mset (map_values m) - {#u#})" by (simp add: p)
    have "w \<in># mset (map_values m)" if "map_get m k = Some w" for w
      using map_get_mem [OF that] by simp
    with False IH show ?thesis
      by (auto simp: p split: option.splits)
  qed
qed

text \<open>Rebuilding a map from its own values, as a constructor that replays a seed does.\<close>

definition map_put_all :: "('v \<Rightarrow> 'k) \<Rightarrow> 'v list \<Rightarrow> ('k, 'v) js_map \<Rightarrow> ('k, 'v) js_map" where
  "map_put_all key vs m = fold (\<lambda>v. map_set (key v) v) vs m"

definition keyed :: "('v \<Rightarrow> 'k) \<Rightarrow> ('k, 'v) js_map \<Rightarrow> bool" where
  "keyed key m \<longleftrightarrow> wf_map m \<and> (\<forall>(k, v) \<in> set m. k = key v)"

lemma keyed_Nil [simp, intro]: "keyed key []"
  by (simp add: keyed_def)

lemma set_map_set_subset: "set (map_set k v m) \<subseteq> insert (k, v) (set m)"
  by (induction m) auto

lemma keyed_set [simp, intro]: "keyed key m \<Longrightarrow> keyed key (map_set (key v) v m)"
  using set_map_set_subset [of "key v" v m] by (auto simp: keyed_def)

lemma keyed_delete [simp, intro]: "keyed key m \<Longrightarrow> keyed key (map_delete k m)"
  using wf_map_delete [of m k] by (auto simp: keyed_def AList.delete_eq)

lemma keyed_wf [dest]: "keyed key m \<Longrightarrow> wf_map m"
  by (simp add: keyed_def)

lemma keyed_get: "keyed key m \<Longrightarrow> map_get m k = Some v \<Longrightarrow> key v = k"
  by (auto simp: keyed_def dest!: map_of_SomeD)

lemma map_put_all_append:
  "keyed key (m @ n) \<Longrightarrow> map_put_all key (map_values n) m = m @ n"
proof (induction n arbitrary: m)
  case Nil
  then show ?case by (simp add: map_put_all_def)
next
  case (Cons p n)
  obtain k v where p: "p = (k, v)" by (cases p)
  from Cons.prems have k: "k = key v" and fresh: "k \<notin> fst ` set m"
    by (auto simp: keyed_def wf_map_def p)
  have "map_put_all key (map_values (p # n)) m = map_put_all key (map_values n) (map_set (key v) v m)"
    by (simp add: map_put_all_def p)
  also have "map_set (key v) v m = m @ [p]"
    using fresh k by (simp add: map_set_fresh p)
  also have "map_put_all key (map_values n) (m @ [p]) = (m @ [p]) @ n"
    using Cons.prems by (intro Cons.IH) simp
  finally show ?case by simp
qed

lemma map_put_all_values: "keyed key m \<Longrightarrow> map_put_all key (map_values m) [] = m"
  using map_put_all_append [of key "[]" m] by simp

lemma map_put_all_fresh:
  "distinct (map key vs) \<Longrightarrow> key ` set vs \<inter> fst ` set m = {} \<Longrightarrow>
     map_put_all key vs m = m @ map (\<lambda>v. (key v, v)) vs"
proof (induction vs arbitrary: m)
  case (Cons v vs)
  then have "map_set (key v) v m = m @ [(key v, v)]" by (intro map_set_fresh) auto
  with Cons show ?case by (simp add: map_put_all_def)
qed (simp add: map_put_all_def)

text \<open>A \<open>Set\<close> in insertion order.\<close>

definition set_add :: "'a \<Rightarrow> 'a list \<Rightarrow> 'a list" where
  "set_add x xs = (if x \<in> set xs then xs else xs @ [x])"

lemma set_set_add [simp]: "set (set_add x xs) = insert x (set xs)"
  by (auto simp: set_add_def)

lemma distinct_set_add [simp, intro]: "distinct xs \<Longrightarrow> distinct (set_add x xs)"
  by (auto simp: set_add_def)

lemma length_set_add: "length xs \<le> length (set_add x xs)"
  by (simp add: set_add_def)

text \<open>Truthiness of an optional string: \<open>undefined\<close> and the empty string are falsy.\<close>

definition truthy :: "string option \<Rightarrow> bool" where
  "truthy s = (case s of None \<Rightarrow> False | Some t \<Rightarrow> t \<noteq> [])"

lemma truthy_simps [simp]: "\<not> truthy None" "truthy (Some s) \<longleftrightarrow> s \<noteq> []"
  by (simp_all add: truthy_def)

text \<open>\<open>a ?? b\<close> on an optional value.\<close>

definition coalesce :: "'a option \<Rightarrow> 'a \<Rightarrow> 'a" where
  "coalesce a b = (case a of None \<Rightarrow> b | Some x \<Rightarrow> x)"

definition coalesce_opt :: "'a option \<Rightarrow> 'a option \<Rightarrow> 'a option" where
  "coalesce_opt a b = (case a of None \<Rightarrow> b | Some x \<Rightarrow> Some x)"

lemma coalesce_simps [simp]: "coalesce None b = b" "coalesce (Some x) b = x"
  by (simp_all add: coalesce_def)

lemma coalesce_opt_simps [simp]: "coalesce_opt None b = b" "coalesce_opt (Some x) b = Some x"
  by (simp_all add: coalesce_opt_def)

text \<open>
  \<open>!filter.f || item.f === filter.f\<close>: an absent or empty filter field matches everything.
\<close>

definition matches_filter :: "string option \<Rightarrow> string \<Rightarrow> bool" where
  "matches_filter f v = (\<not> truthy f \<or> f = Some v)"

definition matches_filter_opt :: "string option \<Rightarrow> string option \<Rightarrow> bool" where
  "matches_filter_opt f v = (\<not> truthy f \<or> f = v)"

definition matches_enum :: "'e option \<Rightarrow> 'e \<Rightarrow> bool" where
  "matches_enum f v = (case f of None \<Rightarrow> True | Some x \<Rightarrow> x = v)"

lemma matches_filter_None [simp]: "matches_filter None v" "matches_filter_opt None w" "matches_enum None e"
  by (simp_all add: matches_filter_def matches_filter_opt_def matches_enum_def)

end
