(* ===== verification/Js_Values.thy ===== *)
theory Js_Values
  imports Prelude Complex_Main "HOL-Library.List_Lexorder" "HOL-Library.Char_ord"
begin

text \<open>
  The JavaScript values the program handles as untyped data (\<open>unknown\<close>, \<open>JsonRecord\<close>), the
  string functions it calls, decimal numerals, and \<open>stableStringify\<close> of
  \<open>packages/core/src/audit.ts\<close> with the proof that it is injective up to the order of keys
  and absent fields.

  A string is a list of code units up to 255. A number is the rational a finite double
  denotes; how ECMAScript prints a number is the parameter \<open>number_text\<close> of the runtime
  record, next to the hexadecimal SHA-256 digest of \<open>node:crypto\<close>.
\<close>

datatype js =
    JUndefined
  | JNull
  | JBool bool
  | JNum rat
  | JStr string
  | JArr "js list"
  | JObj "(string \<times> js) list"

type_synonym json_record = "(string \<times> js) list"

record runtime =
  sha256_hex :: "string \<Rightarrow> string"
  number_text :: "rat \<Rightarrow> string"

text \<open>\<open>typeof\<close>, and \<open>===\<close> for operands that are not the same object.\<close>

fun js_typeof :: "js \<Rightarrow> string" where
  "js_typeof JUndefined = ''undefined''"
| "js_typeof JNull = ''object''"
| "js_typeof (JBool _) = ''boolean''"
| "js_typeof (JNum _) = ''number''"
| "js_typeof (JStr _) = ''string''"
| "js_typeof (JArr _) = ''object''"
| "js_typeof (JObj _) = ''object''"

fun strict_equals :: "js \<Rightarrow> js \<Rightarrow> bool" where
  "strict_equals JUndefined JUndefined = True"
| "strict_equals JNull JNull = True"
| "strict_equals (JBool a) (JBool b) = (a = b)"
| "strict_equals (JNum a) (JNum b) = (a = b)"
| "strict_equals (JStr a) (JStr b) = (a = b)"
| "strict_equals _ _ = False"

definition opt_str :: "string option \<Rightarrow> js" where
  "opt_str s = (case s of None \<Rightarrow> JUndefined | Some t \<Rightarrow> JStr t)"

definition opt_obj :: "json_record option \<Rightarrow> js" where
  "opt_obj r = (case r of None \<Rightarrow> JUndefined | Some fs \<Rightarrow> JObj fs)"

definition js_nat :: "nat \<Rightarrow> js" where
  "js_nat n = JNum (of_nat n)"

text \<open>
  \<open>{...base, key: value}\<close>: spreading copies the fields of \<open>base\<close> in order, a later field
  with the same key keeps the earlier position and takes the later value.
\<close>

definition spread :: "json_record \<Rightarrow> json_record \<Rightarrow> json_record" where
  "spread base fs = fold (\<lambda>(k, v). map_set k v) fs base"

subsection \<open>Characters and strings\<close>

definition code_unit :: "char \<Rightarrow> nat" where
  "code_unit c = of_char c"

definition lower_char :: "char \<Rightarrow> char" where
  "lower_char c =
     (let n = code_unit c in
      if 65 \<le> n \<and> n \<le> 90 \<or> 192 \<le> n \<and> n \<le> 222 \<and> n \<noteq> 215 then char_of (n + 32) else c)"

definition to_lower_case :: "string \<Rightarrow> string" where
  "to_lower_case s = map lower_char s"

definition is_space :: "char \<Rightarrow> bool" where
  "is_space c = (let n = code_unit c in 9 \<le> n \<and> n \<le> 13 \<or> n = 32 \<or> n = 160)"

definition trim :: "string \<Rightarrow> string" where
  "trim s = rev (dropWhile is_space (rev (dropWhile is_space s)))"

fun join :: "string \<Rightarrow> string list \<Rightarrow> string" where
  "join sep [] = []"
| "join sep [s] = s"
| "join sep (s # t # ss) = s @ sep @ join sep (t # ss)"

subsection \<open>Decimal numerals\<close>

definition digit_char :: "nat \<Rightarrow> char" where
  "digit_char d = char_of (48 + d)"

definition is_digit :: "char \<Rightarrow> bool" where
  "is_digit c \<longleftrightarrow> 48 \<le> code_unit c \<and> code_unit c \<le> 57"

definition digit_val :: "char \<Rightarrow> nat" where
  "digit_val c = code_unit c - 48"

fun nat_str :: "nat \<Rightarrow> string" where
  "nat_str n = (if n < 10 then [digit_char n] else nat_str (n div 10) @ [digit_char (n mod 10)])"

declare nat_str.simps [simp del]

definition int_str :: "int \<Rightarrow> string" where
  "int_str i = (if i < 0 then CHR ''-'' # nat_str (nat (- i)) else nat_str (nat i))"

definition digits_val :: "string \<Rightarrow> nat" where
  "digits_val s = foldl (\<lambda>n c. 10 * n + digit_val c) 0 s"

lemma code_unit_digit [simp]: "d < 10 \<Longrightarrow> code_unit (digit_char d) = 48 + d"
  by (simp add: code_unit_def digit_char_def of_char_of)

lemma digit_val_char [simp]: "d < 10 \<Longrightarrow> digit_val (digit_char d) = d"
  by (simp add: digit_val_def)

lemma is_digit_char [simp]: "d < 10 \<Longrightarrow> is_digit (digit_char d)"
  by (simp add: is_digit_def)

lemma digits_val_snoc [simp]: "digits_val (s @ [c]) = 10 * digits_val s + digit_val c"
  by (simp add: digits_val_def)

lemma digits_val_Nil [simp]: "digits_val [] = 0"
  by (simp add: digits_val_def)

lemma nat_str_val [simp]: "digits_val (nat_str n) = n"
proof (induction n rule: nat_str.induct)
  case (1 n)
  then show ?case
    using digits_val_snoc [of "[]" "digit_char n"]
    by (cases "n < 10") (simp_all add: nat_str.simps [of n])
qed

lemma nat_str_digits: "list_all is_digit (nat_str n)"
proof (induction n rule: nat_str.induct)
  case (1 n)
  then show ?case by (cases "n < 10") (simp_all add: nat_str.simps [of n])
qed

lemma nat_str_nonempty [simp]: "nat_str n \<noteq> []"
  by (simp add: nat_str.simps [of n])

lemma nat_str_inject [simp]: "nat_str m = nat_str n \<longleftrightarrow> m = n"
  by (metis nat_str_val)

lemma not_digit_minus [simp]: "\<not> is_digit (CHR ''-'')"
  by (simp add: is_digit_def code_unit_def)

lemma hd_nat_str: "is_digit (hd (nat_str n))"
  using nat_str_digits [of n] by (cases "nat_str n") auto

lemma int_str_inject [simp]: "int_str i = int_str j \<longleftrightarrow> i = j"
proof
  assume eq: "int_str i = int_str j"
  have no: "CHR ''-'' # s \<noteq> nat_str n" for s n
    using hd_nat_str [of n] by (metis list.sel(1) not_digit_minus)
  from eq no no [symmetric] show "i = j"
    by (auto simp: int_str_def split: if_splits)
qed simp

text \<open>Fixed-width numerals, as \<open>padStart(width, "0")\<close> or \<open>toISOString\<close> print them.\<close>

fun padded :: "nat \<Rightarrow> nat \<Rightarrow> string" where
  "padded 0 n = []"
| "padded (Suc w) n = padded w (n div 10) @ [digit_char (n mod 10)]"

lemma length_padded [simp]: "length (padded w n) = w"
  by (induction w arbitrary: n) auto

lemma padded_digits: "list_all is_digit (padded w n)"
  by (induction w arbitrary: n) auto

lemma padded_val: "n < 10 ^ w \<Longrightarrow> digits_val (padded w n) = n"
  by (induction w arbitrary: n) (auto simp: less_mult_imp_div_less)

subsection \<open>JSON text\<close>

text \<open>\<open>JSON.stringify\<close> of a string (\<open>QuoteJSONString\<close> of ECMAScript).\<close>

definition hex_char :: "nat \<Rightarrow> char" where
  "hex_char d = (if d < 10 then char_of (48 + d) else char_of (87 + d))"

definition quote_char :: "char \<Rightarrow> string" where
  "quote_char c =
     (let n = code_unit c in
      if n = 34 then [char_of (92::nat), char_of (34::nat)]
      else if n = 92 then [char_of (92::nat), char_of (92::nat)]
      else if n = 8 then [char_of (92::nat), CHR ''b'']
      else if n = 12 then [char_of (92::nat), CHR ''f'']
      else if n = 10 then [char_of (92::nat), CHR ''n'']
      else if n = 13 then [char_of (92::nat), CHR ''r'']
      else if n = 9 then [char_of (92::nat), CHR ''t'']
      else if n < 32 then [char_of (92::nat), CHR ''u'', CHR ''0'', CHR ''0'', hex_char (n div 16), hex_char (n mod 16)]
      else [c])"

definition quote_string :: "string \<Rightarrow> string" where
  "quote_string s = char_of (34::nat) # concat (map quote_char s) @ [char_of (34::nat)]"

text \<open>
  \<open>stableStringify\<close>: keys sorted by code units, undefined fields dropped. On
  \<open>undefined\<close> itself the code returns \<open>undefined\<close>; the only place where that value is
  used is \<open>join\<close> of an array, which writes the empty string for it.
\<close>

fun stable_stringify :: "runtime \<Rightarrow> js \<Rightarrow> string" where
  "stable_stringify rt JUndefined = []"
| "stable_stringify rt JNull = ''null''"
| "stable_stringify rt (JBool b) = (if b then ''true'' else ''false'')"
| "stable_stringify rt (JNum q) = number_text rt q"
| "stable_stringify rt (JStr s) = quote_string s"
| "stable_stringify rt (JArr vs) = ''['' @ join '','' (map (stable_stringify rt) vs) @ '']''"
| "stable_stringify rt (JObj fs) =
     ''{'' @ join '',''
       (map (\<lambda>(k, t). quote_string k @ '':'' @ t)
         (sort_key fst (map (\<lambda>(k, v). (k, stable_stringify rt v)) (filter (\<lambda>(k, v). v \<noteq> JUndefined) fs))))
     @ ''}''"

definition sha256 :: "runtime \<Rightarrow> js \<Rightarrow> string" where
  "sha256 rt v = sha256_hex rt (stable_stringify rt v)"

definition hash_reference :: "runtime \<Rightarrow> js \<Rightarrow> string" where
  "hash_reference rt v = ''sha256:'' @ sha256 rt v"

subsection \<open>The canonical text determines the value\<close>

text \<open>
  A value that JSON can carry: no undefined element in an array, no repeated key in an
  object. Its canonical form drops undefined fields and sorts the keys. \<open>number_text_ok\<close>
  is what ECMAScript guarantees of \<open>Number::toString\<close> on finite numbers: different numbers
  print differently, in the characters of a decimal literal.
\<close>

fun js_wf :: "js \<Rightarrow> bool" where
  "js_wf JUndefined = False"
| "js_wf (JArr vs) = list_all js_wf vs"
| "js_wf (JObj fs) = (distinct (map fst fs) \<and> list_all (\<lambda>(k, v). v = JUndefined \<or> js_wf v) fs)"
| "js_wf _ = True"

fun js_canon :: "js \<Rightarrow> js" where
  "js_canon (JArr vs) = JArr (map js_canon vs)"
| "js_canon (JObj fs) =
     JObj (sort_key fst (map (\<lambda>(k, v). (k, js_canon v)) (filter (\<lambda>(k, v). v \<noteq> JUndefined) fs)))"
| "js_canon v = v"

definition number_char :: "char \<Rightarrow> bool" where
  "number_char c \<longleftrightarrow> is_digit c \<or> c \<in> set ''+-.e''"

definition number_text_ok :: "runtime \<Rightarrow> bool" where
  "number_text_ok rt \<longleftrightarrow> inj (number_text rt) \<and>
     (\<forall>q. number_text rt q \<noteq> [] \<and> list_all number_char (number_text rt q))"

definition stops_number :: "string \<Rightarrow> bool" where
  "stops_number s \<longleftrightarrow> (case s of [] \<Rightarrow> True | c # _ \<Rightarrow> \<not> number_char c)"

lemma stops_number_simps [simp]:
  "stops_number []" "stops_number (c # s) \<longleftrightarrow> \<not> number_char c"
  by (simp_all add: stops_number_def)

lemma number_char_simps [simp]:
  "\<not> number_char (CHR '','')" "\<not> number_char (CHR '']'')" "\<not> number_char (CHR ''}'')"
  "\<not> number_char (CHR ''['')" "\<not> number_char (CHR ''{'')" "\<not> number_char (CHR ''n'')"
  "\<not> number_char (CHR ''t'')" "\<not> number_char (CHR ''f'')" "\<not> number_char (CHR 0x22)"
  by (simp_all add: number_char_def is_digit_def code_unit_def)

lemma char_34: "char_of (34::nat) = CHR 0x22"
  by code_simp

lemma char_92: "char_of (92::nat) = CHR 0x5C"
  by code_simp

lemma code_unit_inject [simp]: "code_unit c = code_unit d \<longleftrightarrow> c = d"
  by (simp add: code_unit_def)

definition hex_val :: "char \<Rightarrow> nat" where
  "hex_val c = (if code_unit c < 58 then code_unit c - 48 else code_unit c - 87)"

lemma hex_val_char [simp]: "d < 16 \<Longrightarrow> hex_val (hex_char d) = d"
  by (simp add: hex_val_def hex_char_def code_unit_def of_char_of)

text \<open>Reading one quoted character back.\<close>

definition unquote_char :: "string \<Rightarrow> (char \<times> string) option" where
  "unquote_char s =
     (case s of
        [] \<Rightarrow> None
      | c # r \<Rightarrow>
          if code_unit c \<noteq> 92 then Some (c, r)
          else (case r of
             [] \<Rightarrow> None
           | d # r' \<Rightarrow>
               if d = CHR ''b'' then Some (char_of (8::nat), r')
               else if d = CHR ''f'' then Some (char_of (12::nat), r')
               else if d = CHR ''n'' then Some (char_of (10::nat), r')
               else if d = CHR ''r'' then Some (char_of (13::nat), r')
               else if d = CHR ''t'' then Some (char_of (9::nat), r')
               else if d = CHR ''u'' then Some (char_of (16 * hex_val (r' ! 2) + hex_val (r' ! 3)), drop 4 r')
               else Some (d, r')))"

lemma code_unit_char_of: "code_unit c = n \<Longrightarrow> char_of n = c"
  by (auto simp: code_unit_def)

lemma code_unit_chars [simp]:
  "code_unit (CHR 0x22) = 34" "code_unit (CHR 0x5C) = 92"
  by (simp_all add: code_unit_def)

lemma unquote_quote_char: "unquote_char (quote_char c @ s) = Some (c, s)"
proof -
  consider "code_unit c = 34" | "code_unit c = 92" | "code_unit c = 8" | "code_unit c = 12"
    | "code_unit c = 10" | "code_unit c = 13" | "code_unit c = 9"
    | "code_unit c < 32" "code_unit c \<notin> {8, 9, 10, 12, 13}"
    | "32 \<le> code_unit c" "code_unit c \<noteq> 34" "code_unit c \<noteq> 92"
    by force
  then show ?thesis
  proof cases
    case 8
    have "16 * (code_unit c div 16) + code_unit c mod 16 = code_unit c" by simp
    moreover have "code_unit c div 16 < 16" using 8 by simp
    ultimately have "char_of (16 * hex_val (hex_char (code_unit c div 16)) + hex_val (hex_char (code_unit c mod 16))) = c"
      by (simp add: code_unit_char_of)
    with 8 show ?thesis by (simp add: unquote_char_def quote_char_def Let_def char_92)
  qed (auto simp: unquote_char_def quote_char_def Let_def char_34 char_92 dest: code_unit_char_of)
qed

lemma quote_char_nonempty [simp]: "quote_char c \<noteq> []"
  by (simp add: quote_char_def Let_def)

lemma hd_quote_char: "hd (quote_char c) \<noteq> CHR 0x22"
proof -
  have "code_unit c = 34" if "c = CHR 0x22" using that by (simp add: code_unit_def)
  then show ?thesis by (auto simp: quote_char_def Let_def char_92)
qed

lemma quote_char_prefix:
  assumes "quote_char c @ s = quote_char d @ t"
  shows "c = d \<and> s = t"
  using arg_cong [OF assms, of unquote_char] by (simp add: unquote_quote_char)

lemma quote_body_prefix:
  "concat (map quote_char s) @ CHR 0x22 # x = concat (map quote_char t) @ CHR 0x22 # y \<Longrightarrow> s = t \<and> x = y"
proof (induction s arbitrary: t)
  case Nil
  then show ?case
  proof (cases t)
    case (Cons d t')
    with Nil have "hd (quote_char d) = CHR 0x22"
      by (cases "quote_char d") auto
    then show ?thesis using hd_quote_char by blast
  qed simp
next
  case (Cons c s)
  show ?case
  proof (cases t)
    case Nil
    with Cons.prems have "hd (quote_char c) = CHR 0x22"
      by (cases "quote_char c") auto
    then show ?thesis using hd_quote_char by blast
  next
    case (Cons d t')
    from Cons.prems Cons have "quote_char c @ (concat (map quote_char s) @ CHR 0x22 # x)
        = quote_char d @ (concat (map quote_char t') @ CHR 0x22 # y)" by simp
    then have "c = d" "concat (map quote_char s) @ CHR 0x22 # x = concat (map quote_char t') @ CHR 0x22 # y"
      using quote_char_prefix by blast+
    with Cons.IH Cons show ?thesis by blast
  qed
qed

lemma quote_string_prefix: "quote_string s @ x = quote_string t @ y \<Longrightarrow> s = t \<and> x = y"
  unfolding quote_string_def char_34 using quote_body_prefix [of s x t y] by simp

lemma quote_string_inject [simp]: "quote_string s = quote_string t \<longleftrightarrow> s = t"
  using quote_string_prefix [of s "[]" t "[]"] by auto

lemma join_Cons: "join sep (s # ss) = s @ concat (map (\<lambda>t. sep @ t) ss)"
  by (induction ss arbitrary: s) auto

text \<open>
  A comma-separated list ended by a closing character is read back item by item, whenever
  the items can be.
\<close>

lemma items_prefix:
  assumes "\<And>x y s t. x \<in> set xs \<Longrightarrow> y \<in> set ys \<Longrightarrow> stops_number s \<Longrightarrow> stops_number t \<Longrightarrow>
      f x @ s = f y @ t \<Longrightarrow> g x = g y \<and> s = t"
    and "stops_number (e # s)" "e \<noteq> CHR '',''"
    and "concat (map (\<lambda>x. '','' @ f x) xs) @ e # s = concat (map (\<lambda>y. '','' @ f y) ys) @ e # t"
  shows "map g xs = map g ys \<and> s = t"
  using assms
proof (induction xs arbitrary: ys)
  case Nil
  then show ?case by (cases ys) auto
next
  case (Cons x xs)
  show ?case
  proof (cases ys)
    case Nil
    with Cons.prems(3,4) show ?thesis by auto
  next
    case (Cons y ys')
    let ?X = "concat (map (\<lambda>x. '','' @ f x) xs) @ e # s"
    let ?Y = "concat (map (\<lambda>y. '','' @ f y) ys') @ e # t"
    have stop: "stops_number (concat (map (\<lambda>x. '','' @ f x) zs) @ e # u)" for zs u
      using Cons.prems(2) by (cases zs) simp_all
    from Cons.prems(4) Cons have "f x @ ?X = f y @ ?Y" by simp
    with Cons.prems(1) [of x y ?X ?Y] Cons stop have "g x = g y" "?X = ?Y" by auto
    moreover have "map g xs = map g ys' \<and> s = t"
      using Cons.prems(1) Cons
      by (intro Cons.IH [OF _ Cons.prems(2,3) \<open>?X = ?Y\<close>]) auto
    ultimately show ?thesis using Cons by simp
  qed
qed

lemma joined_prefix:
  assumes step: "\<And>x y s t. x \<in> set xs \<Longrightarrow> y \<in> set ys \<Longrightarrow> stops_number s \<Longrightarrow> stops_number t \<Longrightarrow>
      f x @ s = f y @ t \<Longrightarrow> g x = g y \<and> s = t"
    and e: "stops_number (e # s)" "e \<noteq> CHR '',''"
    and hd: "\<And>x. x \<in> set xs \<union> set ys \<Longrightarrow> f x \<noteq> [] \<and> hd (f x) \<noteq> e"
    and eq: "join '','' (map f xs) @ e # s = join '','' (map f ys) @ e # t"
  shows "map g xs = map g ys \<and> s = t"
proof (cases "xs = [] \<or> ys = []")
  case True
  have "hd (join '','' (map f zs) @ e # u) = e \<longleftrightarrow> zs = []" if "set zs \<subseteq> set xs \<union> set ys" for zs u
  proof (cases zs)
    case (Cons z zs')
    with hd [of z] that show ?thesis by (cases "f z") (auto simp: join_Cons)
  qed simp
  from this [of xs s] this [of ys t] eq True have "xs = []" "ys = []" by auto
  with eq show ?thesis by simp
next
  case False
  with eq have "concat (map (\<lambda>x. '','' @ f x) xs) @ e # s = concat (map (\<lambda>y. '','' @ f y) ys) @ e # t"
    by (cases xs; cases ys) (simp_all add: join_Cons comp_def)
  from items_prefix [where f = f and e = e and xs = xs and ys = ys, OF step e this] show ?thesis .
qed

text \<open>Sorting by key commutes with a map that keeps the keys.\<close>

lemma insort_key_map_snd:
  "insort_key fst (k, g v) (map (\<lambda>(k, v). (k, g v)) xs) = map (\<lambda>(k, v). (k, g v)) (insort_key fst (k, v) xs)"
  by (induction xs) auto

lemma sort_key_map_snd:
  "sort_key fst (map (\<lambda>(k, v). (k, g v)) xs) = map (\<lambda>(k, v). (k, g v)) (sort_key fst xs)"
proof (induction xs)
  case (Cons p xs)
  then show ?case by (cases p) (simp add: insort_key_map_snd)
qed simp

definition defined_fields :: "json_record \<Rightarrow> json_record" where
  "defined_fields fs = sort_key fst (filter (\<lambda>(k, v). v \<noteq> JUndefined) fs)"

lemma set_defined_fields: "set (defined_fields fs) = {(k, v) \<in> set fs. v \<noteq> JUndefined}"
  by (auto simp: defined_fields_def)

lemma stringify_obj:
  "stable_stringify rt (JObj fs) =
     ''{'' @ join '','' (map (\<lambda>(k, v). quote_string k @ '':'' @ stable_stringify rt v) (defined_fields fs)) @ ''}''"
  by (simp only: stable_stringify.simps sort_key_map_snd defined_fields_def map_map comp_def)
    (simp add: case_prod_unfold)

lemma canon_obj: "js_canon (JObj fs) = JObj (map (\<lambda>(k, v). (k, js_canon v)) (defined_fields fs))"
  by (simp add: sort_key_map_snd defined_fields_def)

lemma stringify_hd:
  assumes "number_text_ok rt" "js_wf v"
  shows "stable_stringify rt v \<noteq> [] \<and> hd (stable_stringify rt v) \<noteq> CHR '']''"
proof (cases v)
  case (JNum q)
  have "number_text rt q \<noteq> []" "list_all number_char (number_text rt q)"
    using assms(1) by (simp_all add: number_text_ok_def)
  then have "number_char (hd (number_text rt q))"
    by (cases "number_text rt q") auto
  with \<open>number_text rt q \<noteq> []\<close> JNum show ?thesis by auto
qed (use assms in \<open>auto simp: quote_string_def char_34\<close>)

lemma number_prefix:
  assumes "list_all number_char a" "list_all number_char b" "stops_number s" "stops_number t" "a @ s = b @ t"
  shows "a = b \<and> s = t"
  using assms
proof (induction a arbitrary: b)
  case Nil
  then show ?case by (cases b) auto
next
  case (Cons c a)
  then show ?case by (cases b) auto
qed

lemma number_text_neq:
  assumes "number_text_ok rt" "\<not> number_char c"
  shows "c # x \<noteq> number_text rt q @ y"
proof
  assume eq: "c # x = number_text rt q @ y"
  from assms(1) have "number_text rt q \<noteq> []" "list_all number_char (number_text rt q)"
    by (simp_all add: number_text_ok_def)
  with eq assms(2) show False by (cases "number_text rt q") auto
qed

lemmas text_shapes = quote_string_def char_34 number_text_neq number_text_neq [symmetric]

theorem stringify_prefix:
  assumes rt: "number_text_ok rt"
  shows "js_wf v \<Longrightarrow> js_wf w \<Longrightarrow> stops_number s \<Longrightarrow> stops_number t \<Longrightarrow>
    stable_stringify rt v @ s = stable_stringify rt w @ t \<Longrightarrow> js_canon v = js_canon w \<and> s = t"
proof (induction v arbitrary: w s t)
  case JUndefined
  then show ?case by simp
next
  case JNull
  then show ?case using rt by (cases w) (auto simp: text_shapes split: if_splits)
next
  case (JBool b)
  then show ?case using rt
    by (cases w) (auto simp: text_shapes split: if_splits)
next
  case (JNum q)
  have num: "number_text rt q \<noteq> []" "list_all number_char (number_text rt q)" for q
    using rt by (simp_all add: number_text_ok_def)
  show ?case
  proof (cases w)
    case (JNum r)
    with \<open>stops_number s\<close> \<open>stops_number t\<close> JNum.prems(5) num number_prefix
    have "number_text rt q = number_text rt r \<and> s = t" by (metis stable_stringify.simps(4))
    with rt JNum show ?thesis by (auto simp: number_text_ok_def dest: injD)
  qed (use JNum.prems rt in \<open>auto simp: text_shapes split: if_splits\<close>)
next
  case (JStr x)
  show ?case
  proof (cases w)
    case (JStr y)
    with JStr.prems(5) quote_string_prefix [of x s y t] show ?thesis by simp
  qed (use JStr.prems rt in \<open>auto simp: text_shapes split: if_splits\<close>)
next
  case (JArr xs)
  show ?case
  proof (cases w)
    case (JArr ys)
    let ?f = "stable_stringify rt"
    from JArr JArr.prems have "join '','' (map ?f xs) @ CHR '']'' # s = join '','' (map ?f ys) @ CHR '']'' # t"
      by simp
    moreover have "?f x \<noteq> [] \<and> hd (?f x) \<noteq> CHR '']''" if "x \<in> set xs \<union> set ys" for x
      using that JArr JArr.prems(1,2) by (intro stringify_hd [OF rt]) (auto simp: list_all_iff)
    ultimately have "map js_canon xs = map js_canon ys \<and> s = t"
      using JArr JArr.prems(1,2) JArr.IH
      by (intro joined_prefix [where f = ?f and e = "CHR '']''"]) (auto simp: list_all_iff)
    with JArr show ?thesis by simp
  qed (use JArr.prems rt in \<open>auto simp: text_shapes split: if_splits\<close>)
next
  case (JObj fs)
  show ?case
  proof (cases w)
    case (JObj gs)
    let ?f = "\<lambda>(k, v). quote_string k @ '':'' @ stable_stringify rt v"
    let ?g = "\<lambda>(k, v). (k, js_canon v)"
    let ?xs = "defined_fields fs" and ?ys = "defined_fields gs"
    from JObj JObj.prems(5) have "join '','' (map ?f ?xs) @ CHR ''}'' # s = join '','' (map ?f ?ys) @ CHR ''}'' # t"
      by (simp only: stringify_obj) simp
    note eq = this
    have step: "?g x = ?g y \<and> s' = t'"
      if xy: "x \<in> set ?xs" "y \<in> set ?ys" "stops_number s'" "stops_number t'" "?f x @ s' = ?f y @ t'" for x y s' t'
    proof -
      obtain k u l v where [simp]: "x = (k, u)" "y = (l, v)" by (cases x; cases y)
      from xy(1,2) JObj JObj.prems(1,2) have mem: "(k, u) \<in> set fs" "js_wf u" "js_wf v"
        by (auto simp: set_defined_fields list_all_iff)
      from quote_string_prefix [of k _ l] xy(5)
      have "k = l" "stable_stringify rt u @ s' = stable_stringify rt v @ t'" by auto
      with JObj.IH [of "(k, u)" u v s' t'] mem xy(3,4) show ?thesis by simp
    qed
    have hd: "?f x \<noteq> [] \<and> hd (?f x) \<noteq> CHR ''}''" for x
      by (cases x) (simp add: quote_string_def char_34)
    have "map ?g ?xs = map ?g ?ys \<and> s = t"
      by (rule joined_prefix [where f = ?f and e = "CHR ''}''", OF step _ _ hd eq]) simp_all
    with JObj show ?thesis by (simp only: canon_obj)
  qed (use JObj.prems rt in \<open>auto simp: text_shapes split: if_splits\<close>)
qed

corollary stringify_inject:
  "number_text_ok rt \<Longrightarrow> js_wf v \<Longrightarrow> js_wf w \<Longrightarrow>
   stable_stringify rt v = stable_stringify rt w \<Longrightarrow> js_canon v = js_canon w"
  using stringify_prefix [of rt v w "[]" "[]"] by simp

lemma canon_undefined [simp]: "js_canon v = JUndefined \<longleftrightarrow> v = JUndefined"
  by (cases v) auto

lemma stringify_canon: "stable_stringify rt (js_canon v) = stable_stringify rt v"
proof (induction v)
  case (JArr vs)
  then have "map (stable_stringify rt \<circ> js_canon) vs = map (stable_stringify rt) vs" by simp
  then show ?case by (simp only: stable_stringify.simps js_canon.simps map_map)
next
  case (JObj fs)
  let ?c = "map (\<lambda>(k, v). (k, js_canon v)) (defined_fields fs)"
  have "filter (\<lambda>(k, v). v \<noteq> JUndefined) ?c = ?c"
    by (auto simp: filter_id_conv set_defined_fields)
  moreover have "sorted (map fst ?c)"
    by (simp add: defined_fields_def comp_def case_prod_unfold)
  ultimately have c: "defined_fields ?c = ?c"
    by (simp add: defined_fields_def [of ?c] sort_key_id_if_sorted)
  have "stable_stringify rt (js_canon (snd p)) = stable_stringify rt (snd p)" if "p \<in> set (defined_fields fs)" for p
    using JObj.IH [of p "snd p"] that by (cases p) (auto simp: set_defined_fields)
  then have "map ((\<lambda>(k, v). quote_string k @ '':'' @ stable_stringify rt v) \<circ> (\<lambda>(k, v). (k, js_canon v))) (defined_fields fs)
      = map (\<lambda>(k, v). quote_string k @ '':'' @ stable_stringify rt v) (defined_fields fs)"
    by auto
  then show ?case by (simp only: canon_obj stringify_obj c map_map)
qed simp_all

text \<open>A concrete runtime that meets the hypothesis on numerals.\<close>

definition ratio_text :: "rat \<Rightarrow> string" where
  "ratio_text q = (case quotient_of q of (n, d) \<Rightarrow> int_str n @ ''e'' @ int_str d)"

lemma is_digit_e [simp]: "\<not> is_digit (CHR ''e'')"
  by (simp add: is_digit_def code_unit_def)

lemma int_str_chars: "list_all (\<lambda>c. is_digit c \<or> c = CHR ''-'') (int_str i)"
  using nat_str_digits by (auto simp: int_str_def list_all_iff)

lemma ratio_text_ok: "number_text_ok \<lparr>sha256_hex = h, number_text = ratio_text\<rparr>"
proof -
  have before: "takeWhile (\<lambda>c. c \<noteq> CHR ''e'') (a @ CHR ''e'' # x) = a" if "CHR ''e'' \<notin> set a" for a x
    using that by (induction a) auto
  have split: "a = b \<and> x = y" if "a @ CHR ''e'' # x = b @ CHR ''e'' # y"
    "CHR ''e'' \<notin> set a" "CHR ''e'' \<notin> set b" for a b x y :: string
    using that before [of a x] before [of b y] by simp
  have no_e: "CHR ''e'' \<notin> set (int_str i)" for i
    using int_str_chars [of i] by (auto simp: list_all_iff)
  have "inj ratio_text"
  proof (rule injI)
    fix p q assume eq: "ratio_text p = ratio_text q"
    obtain a b c d where pq: "quotient_of p = (a, b)" "quotient_of q = (c, d)" by fastforce
    with eq have "int_str a @ CHR ''e'' # int_str b = int_str c @ CHR ''e'' # int_str d"
      by (simp add: ratio_text_def)
    from split [OF this no_e no_e] pq have "quotient_of p = quotient_of q" by simp
    then show "p = q" by (rule quotient_of_inject)
  qed
  moreover have "ratio_text q \<noteq> [] \<and> list_all number_char (ratio_text q)" for q
    using int_str_chars
    by (auto simp: ratio_text_def number_char_def list_all_iff split: prod.split)
  ultimately show ?thesis by (simp add: number_text_ok_def)
qed

end
