(* ===== verification/Domain.thy ===== *)
theory Domain
  imports Js_Values
begin

text \<open>
  The domain types of \<open>packages/core/src/domain/\<close> that the graph store, the decision engine
  and the audit log work on. An interface that extends \<open>VersionedEntity\<close> is a record that
  extends \<open>versioned_entity\<close>; the fields common to subjects and resources, which the engine
  reads through the union type, are the record \<open>graph_node\<close>. A string literal union is a
  datatype; an optional field is an option.
\<close>

type_synonym canonical_id = string
type_synonym iso_date_time = string

subsection \<open>Shared enumerations\<close>

datatype subject_type =
  User | Group | Service_account | Service_principal | Managed_identity | Device | Workload

datatype resource_type =
    Organization | Workspace | Application | Sharepoint_site | Team | Folder | Document | Power_app
  | Flow | Dataverse_environment | Aws_account | Aws_role | Dataset | Api

datatype lifecycle_state = Active | Inactive | Suspended | Terminated | Deleted

datatype decision_value = Allow | Deny

datatype native_grant_type = Direct_grant | Inherited_grant | Group_grant

datatype native_principal_type =
    Principal_user | Principal_group | Principal_service_account | Principal_service_principal
  | Principal_managed_identity | Principal_external_user | Principal_unknown

datatype check_status = Check_pass | Check_warn | Check_fail

datatype tuple_status = Tuple_active | Tuple_expired | Tuple_deleted

datatype native_grant_status = Grant_observed | Grant_managed | Grant_revoked | Grant_unknown

subsection \<open>Entities of the graph\<close>

record versioned_entity =
  entity_id :: canonical_id
  version :: string
  createdAt :: iso_date_time
  updatedAt :: "iso_date_time option"

record graph_node = versioned_entity +
  displayName :: string
  sourceSystem :: string
  lifecycleState :: lifecycle_state
  attributes :: "json_record option"
  lastSeenAt :: "iso_date_time option"

record subject = graph_node +
  subject_type :: subject_type
  identifiers :: "(string \<times> string) list"

record resource = graph_node +
  resource_type :: resource_type
  ownerId :: canonical_id
  dataStewardId :: canonical_id
  technicalOwnerId :: canonical_id
  classification :: string
  parentId :: "canonical_id option"

record relationship = versioned_entity +
  subjectId :: canonical_id
  relation :: string
  objectId :: canonical_id
  tuple_sourceSystem :: string
  assertedAt :: iso_date_time
  assertedBy :: "canonical_id option"
  expiresAt :: "iso_date_time option"
  tuple_status :: tuple_status
  tuple_attributes :: "json_record option"

record native_grant = versioned_entity +
  targetPlatform :: string
  targetObjectId :: canonical_id
  grantee_subjectId :: canonical_id
  principalType :: native_principal_type
  nativePermission :: string
  grantType :: native_grant_type
  sourceConnectorId :: string
  grant_status :: native_grant_status
  observedAt :: iso_date_time
  inheritedFromObjectId :: "canonical_id option"
  grant_expiresAt :: "iso_date_time option"
  grant_attributes :: "json_record option"

subsection \<open>Decisions\<close>

record decision_request =
  req_subjectId :: canonical_id
  req_action :: string
  req_resourceId :: canonical_id
  req_context :: "json_record option"
  req_policyVersion :: "string option"
  req_modelVersion :: "string option"
  req_relationshipVersion :: "string option"
  req_tupleVersion :: "string option"
  req_contextVersion :: "string option"
  req_asOf :: "iso_date_time option"

record relationship_path_step =
  step_subjectId :: canonical_id
  step_relation :: string
  step_objectId :: canonical_id

record decision_result =
  decisionId :: canonical_id
  decision :: decision_value
  res_subjectId :: canonical_id
  res_action :: string
  res_resourceId :: canonical_id
  reasonCode :: string
  res_policyVersion :: string
  res_modelVersion :: string
  res_relationshipVersion :: string
  res_tupleVersion :: string
  res_contextVersion :: string
  res_asOf :: iso_date_time
  relationshipPath :: "relationship_path_step list"
  constraints :: json_record
  evaluatedAt :: iso_date_time

subsection \<open>The audit log\<close>

record audit_event =
  eventId :: canonical_id
  eventType :: string
  occurredAt :: iso_date_time
  actor :: canonical_id
  event_subjectId :: "canonical_id option"
  event_resourceId :: "canonical_id option"
  correlationId :: canonical_id
  event_policyVersion :: "string option"
  event_relationshipVersion :: "string option"
  payloadHash :: string
  previousEventHash :: "string option"
  payload :: json_record

datatype finding_severity = Sev_low | Sev_medium | Sev_high | Sev_critical

record audit_integrity_finding =
  finding_code :: string
  finding_message :: string
  finding_severity :: finding_severity
  finding_eventId :: "canonical_id option"
  finding_expected :: "string option"
  finding_actual :: "string option"

datatype audit_integrity_status = Verified | Failed

record audit_integrity_report =
  integrity_status :: audit_integrity_status
  eventCount :: nat
  verifiedAt :: iso_date_time
  firstEventId :: "canonical_id option"
  lastEventId :: "canonical_id option"
  firstEventHash :: "string option"
  lastEventHash :: "string option"
  findings :: "audit_integrity_finding list"
  report_auditEventId :: "canonical_id option"
  report_version :: string

datatype degraded_component =
  Degraded_audit | Degraded_evidence | Degraded_graph | Degraded_job | Degraded_state

record persistence_degradation =
  degraded_component :: degraded_component
  degraded_operation :: string
  degraded_occurredAt :: string
  degraded_message :: string

subsection \<open>The JavaScript objects these values are when they are hashed\<close>

fun decision_text :: "decision_value \<Rightarrow> string" where
  "decision_text Allow = ''allow''"
| "decision_text Deny = ''deny''"

definition request_js :: "decision_request \<Rightarrow> js" where
  "request_js r = JObj
    [(''subjectId'', JStr (req_subjectId r)),
     (''action'', JStr (req_action r)),
     (''resourceId'', JStr (req_resourceId r)),
     (''context'', opt_obj (req_context r)),
     (''policyVersion'', opt_str (req_policyVersion r)),
     (''modelVersion'', opt_str (req_modelVersion r)),
     (''relationshipVersion'', opt_str (req_relationshipVersion r)),
     (''tupleVersion'', opt_str (req_tupleVersion r)),
     (''contextVersion'', opt_str (req_contextVersion r)),
     (''asOf'', opt_str (req_asOf r))]"

definition step_js :: "relationship_path_step \<Rightarrow> js" where
  "step_js s = JObj
    [(''subjectId'', JStr (step_subjectId s)),
     (''relation'', JStr (step_relation s)),
     (''objectId'', JStr (step_objectId s))]"

definition event_fields :: "audit_event \<Rightarrow> json_record" where
  "event_fields e =
    [(''eventId'', JStr (eventId e)),
     (''eventType'', JStr (eventType e)),
     (''occurredAt'', JStr (occurredAt e)),
     (''actor'', JStr (actor e)),
     (''subjectId'', opt_str (event_subjectId e)),
     (''resourceId'', opt_str (event_resourceId e)),
     (''correlationId'', JStr (correlationId e)),
     (''policyVersion'', opt_str (event_policyVersion e)),
     (''relationshipVersion'', opt_str (event_relationshipVersion e)),
     (''payloadHash'', JStr (payloadHash e)),
     (''previousEventHash'', opt_str (previousEventHash e)),
     (''payload'', JObj (payload e))]"

definition event_js :: "audit_event \<Rightarrow> js" where
  "event_js e = JObj (event_fields e)"

end
