(* ===== verification/Policy_Model.thy ===== *)
theory Policy_Model
  imports Domain
begin

text \<open>
  \<open>packages/core/src/policy-model.ts\<close>: the policy model, the built-in default model and
  \<open>compilePolicyModel\<close>, which turns the declared relations, action mappings, inheritance
  rules and deny rules into the relation sets the decision engine consults.

  A model can reach the compiler as decoded JSON, so the literal unions whose members the
  code checks at run time have an extra constructor for any other string.
\<close>

datatype relation_kind =
  Membership | Grant | Containment | Deny_kind | Unsupported_kind string

datatype context_type =
  Type_string | Type_number | Type_boolean | Type_datetime | Unsupported_type string

datatype caveat_operator =
    Equals | One_of | Less_than_or_equal | Greater_than_or_equal | Before | After
  | Unsupported_operator string

datatype condition_source =
  From_subject | From_resource | From_relationship | From_context | From_environment

datatype tenant_boundary_source = Tenant_from_subject | Tenant_from_resource | Tenant_from_context

record policy_resource_type =
  rt_type :: string
  rt_allowedParentTypes :: "string list option"
  rt_classifications :: "string list"

record policy_relation =
  relation_name :: string
  relation_kind :: relation_kind
  relation_subjectTypes :: "string list"
  relation_objectTypes :: "string list"

record policy_action =
  action_name :: string
  action_grants :: "string list"

record policy_inheritance_rule =
  inh_name :: string
  inh_relation :: string
  inh_through :: string
  inh_actions :: "string list"

record policy_deny_rule =
  deny_name :: string
  deny_relation :: string
  deny_actions :: "string list option"

record policy_context_constraint =
  cc_key :: string
  cc_type :: context_type
  cc_required :: "bool option"
  cc_auditable :: "bool option"
  cc_min :: "rat option"
  cc_max :: "rat option"
  cc_maxLength :: "rat option"
  cc_allowedValues :: "js list option"

record policy_classification_constraint =
  cl_classification :: string
  cl_allowedActions :: "string list"

record policy_tenant_boundary =
  tb_key :: string
  tb_source :: tenant_boundary_source
  tb_crossTenantTraversal :: bool

record policy_migration =
  mig_fromVersion :: string
  mig_toVersion :: string
  mig_operations :: "string list"

record caveat_condition =
  cond_source :: condition_source
  cond_key :: string
  cond_type :: context_type
  cond_operator :: caveat_operator
  cond_value :: js

record policy_caveat =
  caveat_name :: string
  caveat_failClosed :: bool
  caveat_reasonCode :: string
  caveat_conditions :: "caveat_condition list"

record conditional_relationship =
  cr_relation :: string
  cr_caveats :: "string list"
  cr_actions :: "string list option"

record explanation_policy =
  ex_deterministic :: bool
  ex_includeContextKeys :: "string list"
  ex_includeCaveatNames :: "string list"

record policy_model =
  pm_schemaVersion :: string
  pm_id :: string
  pm_version :: string
  pm_resourceTypes :: "policy_resource_type list"
  pm_relations :: "policy_relation list"
  pm_actions :: "policy_action list"
  pm_inheritanceRules :: "policy_inheritance_rule list"
  pm_denyRules :: "policy_deny_rule list"
  pm_contextConstraints :: "policy_context_constraint list"
  pm_classificationConstraints :: "policy_classification_constraint list"
  pm_tenantBoundary :: policy_tenant_boundary
  pm_migrations :: "policy_migration list"
  pm_caveats :: "policy_caveat list option"
  pm_conditionalRelationships :: "conditional_relationship list option"
  pm_explanation :: "explanation_policy option"
  pm_metadata :: "json_record option"

definition policy_model_schema_version :: string where
  "policy_model_schema_version = ''access-kit.policy-model.v1''"

subsection \<open>The default model\<close>

definition default_action_grants :: "(string \<times> string list) list" where
  "default_action_grants =
    [(''read'', [''viewer_of'', ''reader_of'', ''contributor_to'', ''owner_of'', ''admin_of'']),
     (''view'', [''viewer_of'', ''reader_of'', ''contributor_to'', ''owner_of'', ''admin_of'']),
     (''write'', [''contributor_to'', ''owner_of'', ''admin_of'']),
     (''contribute'', [''contributor_to'', ''owner_of'', ''admin_of'']),
     (''admin'', [''owner_of'', ''admin_of'']),
     (''administer'', [''owner_of'', ''admin_of'']),
     (''manage'', [''owner_of'', ''admin_of''])]"

definition grantable_types :: "string list" where
  "grantable_types = [''workspace'', ''folder'', ''document'', ''application'', ''dataset'', ''api'']"

definition grant_relation :: "relation_kind \<Rightarrow> string \<Rightarrow> policy_relation" where
  "grant_relation k n =
    \<lparr>relation_name = n, relation_kind = k,
     relation_subjectTypes = [''user'', ''group'', ''service_account''],
     relation_objectTypes = grantable_types\<rparr>"

definition default_relations :: "policy_relation list" where
  "default_relations =
    [\<lparr>relation_name = ''member_of'', relation_kind = Membership,
      relation_subjectTypes = [''user'', ''group''], relation_objectTypes = [''group'']\<rparr>,
     \<lparr>relation_name = ''contains'', relation_kind = Containment,
      relation_subjectTypes = [''organization'', ''workspace'', ''folder''],
      relation_objectTypes = grantable_types\<rparr>,
     grant_relation Grant ''viewer_of'',
     grant_relation Grant ''reader_of'',
     grant_relation Grant ''contributor_to'',
     grant_relation Grant ''owner_of'',
     grant_relation Grant ''admin_of'',
     grant_relation Deny_kind ''denied'',
     grant_relation Deny_kind ''denied_read'',
     grant_relation Deny_kind ''quarantined_from'']"

definition default_policy_model :: policy_model where
  "default_policy_model =
    \<lparr>pm_schemaVersion = policy_model_schema_version,
     pm_id = ''policy-model:local-rebac-v1'',
     pm_version = ''policy:local-v1'',
     pm_resourceTypes =
       [\<lparr>rt_type = ''organization'', rt_allowedParentTypes = None, rt_classifications = [''internal'']\<rparr>,
        \<lparr>rt_type = ''workspace'', rt_allowedParentTypes = Some [''organization''], rt_classifications = [''internal'']\<rparr>,
        \<lparr>rt_type = ''folder'', rt_allowedParentTypes = Some [''workspace'', ''folder''], rt_classifications = [''internal'', ''confidential'']\<rparr>,
        \<lparr>rt_type = ''document'', rt_allowedParentTypes = Some [''workspace'', ''folder''], rt_classifications = [''internal'', ''confidential'']\<rparr>,
        \<lparr>rt_type = ''application'', rt_allowedParentTypes = Some [''organization''], rt_classifications = [''internal'']\<rparr>,
        \<lparr>rt_type = ''dataset'', rt_allowedParentTypes = Some [''workspace''], rt_classifications = [''internal'', ''confidential'']\<rparr>,
        \<lparr>rt_type = ''api'', rt_allowedParentTypes = Some [''application''], rt_classifications = [''internal'']\<rparr>],
     pm_relations = default_relations,
     pm_actions = map (\<lambda>(name, grants). \<lparr>action_name = name, action_grants = grants\<rparr>) default_action_grants,
     pm_inheritanceRules =
       [\<lparr>inh_name = ''group-membership-grants'', inh_relation = ''member_of'', inh_through = ''member_of'',
         inh_actions = map fst default_action_grants\<rparr>,
        \<lparr>inh_name = ''container-resource-grants'', inh_relation = ''contains'', inh_through = ''contains'',
         inh_actions = [''read'', ''view'', ''write'', ''contribute'', ''admin'', ''administer'', ''manage'']\<rparr>],
     pm_denyRules =
       [\<lparr>deny_name = ''explicit-deny'', deny_relation = ''denied'', deny_actions = None\<rparr>,
        \<lparr>deny_name = ''read-deny'', deny_relation = ''denied_read'', deny_actions = Some [''read'', ''view'']\<rparr>,
        \<lparr>deny_name = ''quarantine-deny'', deny_relation = ''quarantined_from'', deny_actions = None\<rparr>],
     pm_contextConstraints =
       [\<lparr>cc_key = ''purpose'', cc_type = Type_string, cc_required = None, cc_auditable = None,
         cc_min = None, cc_max = None, cc_maxLength = None, cc_allowedValues = None\<rparr>,
        \<lparr>cc_key = ''riskScore'', cc_type = Type_number, cc_required = None, cc_auditable = None,
         cc_min = None, cc_max = None, cc_maxLength = None, cc_allowedValues = None\<rparr>],
     pm_classificationConstraints =
       [\<lparr>cl_classification = ''internal'', cl_allowedActions = map fst default_action_grants\<rparr>,
        \<lparr>cl_classification = ''confidential'',
         cl_allowedActions = [''read'', ''view'', ''write'', ''contribute'', ''admin'', ''administer'', ''manage'']\<rparr>],
     pm_tenantBoundary = \<lparr>tb_key = ''tenantId'', tb_source = Tenant_from_resource, tb_crossTenantTraversal = False\<rparr>,
     pm_migrations = [],
     pm_caveats = Some [],
     pm_conditionalRelationships = Some [],
     pm_explanation = Some \<lparr>ex_deterministic = True, ex_includeContextKeys = [], ex_includeCaveatNames = []\<rparr>,
     pm_metadata = None\<rparr>"

subsection \<open>Compilation\<close>

record compiled_policy =
  membershipRelations :: "string list"
  containmentRelations :: "string list"
  grantRelationsByAction :: "(string, string list) js_map"
  traversalRelationsByAction :: "(string, string list) js_map"
  denyRelationsByAction :: "(string, string list) js_map"
  unscopedDenyRelations :: "string list"

datatype compile_error = Unsupported_relation_kind string

record relation_sets =
  rs_membership :: "string list"
  rs_containment :: "string list"
  rs_grant :: "string list"
  rs_deny :: "string list"

definition empty_relation_sets :: relation_sets where
  "empty_relation_sets = \<lparr>rs_membership = [], rs_containment = [], rs_grant = [], rs_deny = []\<rparr>"

fun sort_relations :: "policy_relation list \<Rightarrow> relation_sets \<Rightarrow> compile_error + relation_sets" where
  "sort_relations [] s = Inr s"
| "sort_relations (r # rs) s =
     (case relation_kind r of
        Membership \<Rightarrow> sort_relations rs (s\<lparr>rs_membership := set_add (relation_name r) (rs_membership s)\<rparr>)
      | Containment \<Rightarrow> sort_relations rs (s\<lparr>rs_containment := set_add (relation_name r) (rs_containment s)\<rparr>)
      | Grant \<Rightarrow> sort_relations rs (s\<lparr>rs_grant := set_add (relation_name r) (rs_grant s)\<rparr>)
      | Deny_kind \<Rightarrow> sort_relations rs (s\<lparr>rs_deny := set_add (relation_name r) (rs_deny s)\<rparr>)
      | Unsupported_kind k \<Rightarrow> Inl (Unsupported_relation_kind k))"

text \<open>\<open>const s = m.get(k) ?? new Set(); s.add(x); m.set(k, s)\<close>\<close>

definition add_to_set_at :: "string \<Rightarrow> string \<Rightarrow> (string, string list) js_map \<Rightarrow> (string, string list) js_map" where
  "add_to_set_at k x m = map_set k (set_add x (coalesce (map_get m k) [])) m"

definition compile_action :: "string list \<Rightarrow> policy_action \<Rightarrow> (string, string list) js_map \<Rightarrow> (string, string list) js_map" where
  "compile_action grantRelations a m =
     (let k = to_lower_case (action_name a);
          grants = coalesce (map_get m k) []
      in map_set k (fold (\<lambda>g s. if g \<in> set grantRelations then set_add g s else s) (action_grants a) grants) m)"

definition compile_inheritance ::
  "relation_sets \<Rightarrow> policy_inheritance_rule \<Rightarrow> (string, string list) js_map \<Rightarrow> (string, string list) js_map" where
  "compile_inheritance s r m =
     (if inh_through r \<notin> set (rs_membership s) \<and> inh_through r \<notin> set (rs_containment s) then m
      else fold (\<lambda>a. add_to_set_at (to_lower_case a) (inh_through r)) (inh_actions r) m)"

definition compile_deny ::
  "string list \<Rightarrow> policy_deny_rule \<Rightarrow> string list \<times> (string, string list) js_map \<Rightarrow> string list \<times> (string, string list) js_map" where
  "compile_deny denyRelations r = (\<lambda>(unscoped, scoped).
     if deny_relation r \<notin> set denyRelations then (unscoped, scoped)
     else (case deny_actions r of
         None \<Rightarrow> (set_add (deny_relation r) unscoped, scoped)
       | Some as \<Rightarrow> (unscoped, fold (\<lambda>a. add_to_set_at (to_lower_case a) (deny_relation r)) as scoped)))"

definition set_union :: "string list \<Rightarrow> string list \<Rightarrow> string list" where
  "set_union xs ys = fold set_add ys (fold set_add xs [])"

definition compile_policy_model :: "policy_model \<Rightarrow> compile_error + compiled_policy" where
  "compile_policy_model model =
     (case sort_relations (pm_relations model) empty_relation_sets of
        Inl e \<Rightarrow> Inl e
      | Inr s \<Rightarrow>
          (let grants = fold (compile_action (rs_grant s)) (pm_actions model) [];
               traversal = fold (compile_inheritance s) (pm_inheritanceRules model) [];
               (unscoped, scoped) = fold (compile_deny (rs_deny s)) (pm_denyRules model) ([], []);
               denies = fold (\<lambda>(k, rels). map_set k (set_union unscoped rels)) scoped []
           in Inr \<lparr>membershipRelations = rs_membership s,
                   containmentRelations = rs_containment s,
                   grantRelationsByAction = grants,
                   traversalRelationsByAction = traversal,
                   denyRelationsByAction = denies,
                   unscopedDenyRelations = unscoped\<rparr>))"

subsection \<open>What compilation yields\<close>

definition relations_of_kind :: "policy_relation list \<Rightarrow> relation_kind \<Rightarrow> string set" where
  "relations_of_kind rs k = relation_name ` {r \<in> set rs. relation_kind r = k}"

lemma relations_of_kind_simps [simp]:
  "relations_of_kind [] k = {}"
  "relations_of_kind (r # rs) k =
     (if relation_kind r = k then insert (relation_name r) (relations_of_kind rs k) else relations_of_kind rs k)"
  by (auto simp: relations_of_kind_def)

lemma sort_relations_sets:
  "sort_relations rs s = Inr s' \<Longrightarrow>
     set (rs_membership s') = set (rs_membership s) \<union> relations_of_kind rs Membership \<and>
     set (rs_containment s') = set (rs_containment s) \<union> relations_of_kind rs Containment \<and>
     set (rs_grant s') = set (rs_grant s) \<union> relations_of_kind rs Grant \<and>
     set (rs_deny s') = set (rs_deny s) \<union> relations_of_kind rs Deny_kind"
  by (induction rs s rule: sort_relations.induct) (auto split: relation_kind.splits)

lemma sort_relations_error:
  "(\<exists>e. sort_relations rs s = Inl e) \<longleftrightarrow> (\<exists>r \<in> set rs. \<exists>k. relation_kind r = Unsupported_kind k)"
  by (induction rs s rule: sort_relations.induct) (auto split: relation_kind.splits)

lemma set_fold_add_if:
  "set (fold (\<lambda>g s. if g \<in> G then set_add g s else s) gs s) = set s \<union> (set gs \<inter> G)"
  by (induction gs arbitrary: s) auto

lemma set_fold_add [simp]: "set (fold set_add gs s) = set s \<union> set gs"
  by (induction gs arbitrary: s) auto

lemma set_set_union [simp]: "set (set_union xs ys) = set xs \<union> set ys"
  by (simp add: set_union_def)

text \<open>The set stored under a key, empty when the key is absent.\<close>

definition set_at :: "(string, string list) js_map \<Rightarrow> string \<Rightarrow> string set" where
  "set_at m k = set (coalesce (map_get m k) [])"

lemma set_at_Nil [simp]: "set_at [] k = {}"
  by (simp add: set_at_def)

lemma set_at_add: "set_at (add_to_set_at k x m) j = (if j = k then insert x (set_at m j) else set_at m j)"
  by (simp add: add_to_set_at_def set_at_def)

lemma set_at_compile_action:
  "set_at (compile_action G a m) j =
     (if j = to_lower_case (action_name a) then set_at m j \<union> (set (action_grants a) \<inter> set G) else set_at m j)"
  by (auto simp: compile_action_def set_at_def Let_def set_fold_add_if)

lemma set_at_compile_actions:
  "set_at (fold (compile_action G) as m) j =
     set_at m j \<union> {g \<in> set G. \<exists>a \<in> set as. to_lower_case (action_name a) = j \<and> g \<in> set (action_grants a)}"
  by (induction as arbitrary: m) (auto simp: set_at_compile_action split: if_splits)

lemma set_at_add_all:
  "set_at (fold (\<lambda>a. add_to_set_at (to_lower_case a) x) as m) j =
     set_at m j \<union> (if j \<in> to_lower_case ` set as then {x} else {})"
  by (induction as arbitrary: m) (auto simp: set_at_add)

lemma set_at_compile_rule:
  "set_at (compile_inheritance s r m) j = set_at m j \<union>
     (if inh_through r \<in> set (rs_membership s) \<union> set (rs_containment s) \<and> j \<in> to_lower_case ` set (inh_actions r)
      then {inh_through r} else {})"
  by (auto simp: compile_inheritance_def set_at_add_all)

lemma set_at_compile_inheritance:
  "set_at (fold (compile_inheritance s) rules m) j =
     set_at m j \<union> {t \<in> set (rs_membership s) \<union> set (rs_containment s).
       \<exists>r \<in> set rules. inh_through r = t \<and> j \<in> to_lower_case ` set (inh_actions r)}"
  by (induction rules arbitrary: m) (auto simp: set_at_compile_rule)

definition scopes_deny :: "policy_deny_rule \<Rightarrow> string \<Rightarrow> bool" where
  "scopes_deny r k = (case deny_actions r of None \<Rightarrow> False | Some as \<Rightarrow> k \<in> to_lower_case ` set as)"

lemma compile_denies:
  assumes "fold (compile_deny D) rules (u, m) = (u', m')"
  shows "set u' = set u \<union> {d \<in> set D. \<exists>r \<in> set rules. deny_relation r = d \<and> deny_actions r = None} \<and>
    (\<forall>j. set_at m' j = set_at m j \<union> {d \<in> set D. \<exists>r \<in> set rules. deny_relation r = d \<and> scopes_deny r j})"
  using assms
proof (induction rules arbitrary: u m)
  case (Cons r rules)
  obtain u1 m1 where s1: "compile_deny D r (u, m) = (u1, m1)" by (cases "compile_deny D r (u, m)")
  have head: "set u1 = set u \<union> (if deny_relation r \<in> set D \<and> deny_actions r = None then {deny_relation r} else {})"
    "\<And>j. set_at m1 j = set_at m j \<union> (if deny_relation r \<in> set D \<and> scopes_deny r j then {deny_relation r} else {})"
    using s1 by (auto simp: compile_deny_def scopes_deny_def set_at_add_all split: if_splits option.splits)
  from Cons.prems s1 have "fold (compile_deny D) rules (u1, m1) = (u', m')" by simp
  from Cons.IH [OF this] show ?case
    by (auto simp: head split: if_splits)
qed simp

lemma map_get_fold_update:
  "distinct (map fst ps) \<Longrightarrow>
     map_get (fold (\<lambda>(k, v). map_set k (f v)) ps m) j =
       (case map_get ps j of Some v \<Rightarrow> Some (f v) | None \<Rightarrow> map_get m j)"
proof (induction ps arbitrary: m)
  case (Cons p ps)
  obtain k v where p: "p = (k, v)" by (cases p)
  with Cons.prems have "map_get ps k = None" by (simp add: map_of_eq_None_iff)
  with Cons show ?case by (auto simp: p split: option.splits)
qed simp

lemma wf_map_add_all: "wf_map m \<Longrightarrow> wf_map (fold (\<lambda>a. add_to_set_at (to_lower_case a) x) as m)"
  by (induction as arbitrary: m) (auto simp: add_to_set_at_def)

lemma wf_map_compile_deny:
  "fold (compile_deny D) rules (u, m) = (u', m') \<Longrightarrow> wf_map m \<Longrightarrow> wf_map m'"
proof (induction rules arbitrary: u m)
  case (Cons r rules)
  obtain u1 m1 where s1: "compile_deny D r (u, m) = (u1, m1)" by (cases "compile_deny D r (u, m)")
  then have "wf_map m1"
    using Cons.prems(2) by (auto simp: compile_deny_def wf_map_add_all split: if_splits option.splits)
  with Cons s1 show ?case by simp
qed simp

text \<open>
  \<open>compiled.denyRelationsByAction.get(action) ?? compiled.unscopedDenyRelations\<close>, as the
  engine reads the deny relations of an action.
\<close>

definition deny_relations_for :: "compiled_policy \<Rightarrow> string \<Rightarrow> string list" where
  "deny_relations_for c k = coalesce (map_get (denyRelationsByAction c) k) (unscopedDenyRelations c)"

lemma compile_cases:
  assumes "compile_policy_model m = Inr c"
  obtains s u sc where
    "sort_relations (pm_relations m) empty_relation_sets = Inr s"
    "fold (compile_deny (rs_deny s)) (pm_denyRules m) ([], []) = (u, sc)"
    "c = \<lparr>membershipRelations = rs_membership s, containmentRelations = rs_containment s,
          grantRelationsByAction = fold (compile_action (rs_grant s)) (pm_actions m) [],
          traversalRelationsByAction = fold (compile_inheritance s) (pm_inheritanceRules m) [],
          denyRelationsByAction = fold (\<lambda>(k, rels). map_set k (set_union u rels)) sc [],
          unscopedDenyRelations = u\<rparr>"
proof -
  obtain s where s: "sort_relations (pm_relations m) empty_relation_sets = Inr s"
    using assms by (auto simp: compile_policy_model_def split: sum.splits)
  obtain u sc where d: "fold (compile_deny (rs_deny s)) (pm_denyRules m) ([], []) = (u, sc)"
    by (cases "fold (compile_deny (rs_deny s)) (pm_denyRules m) ([], [])")
  show ?thesis
    using that [OF s d] assms s d by (simp add: compile_policy_model_def Let_def)
qed

lemma compile_sets:
  assumes "compile_policy_model m = Inr c"
  shows "set (membershipRelations c) = relations_of_kind (pm_relations m) Membership"
    and "set (containmentRelations c) = relations_of_kind (pm_relations m) Containment"
    and "set_at (grantRelationsByAction c) k =
      {g \<in> relations_of_kind (pm_relations m) Grant.
         \<exists>a \<in> set (pm_actions m). to_lower_case (action_name a) = k \<and> g \<in> set (action_grants a)}"
    and "set_at (traversalRelationsByAction c) k =
      {t \<in> relations_of_kind (pm_relations m) Membership \<union> relations_of_kind (pm_relations m) Containment.
         \<exists>r \<in> set (pm_inheritanceRules m). inh_through r = t \<and> k \<in> to_lower_case ` set (inh_actions r)}"
    and "set (deny_relations_for c k) =
      {d \<in> relations_of_kind (pm_relations m) Deny_kind.
         \<exists>r \<in> set (pm_denyRules m). deny_relation r = d \<and> (deny_actions r = None \<or> scopes_deny r k)}"
proof -
  from assms obtain s u sc where s: "sort_relations (pm_relations m) empty_relation_sets = Inr s"
    and d: "fold (compile_deny (rs_deny s)) (pm_denyRules m) ([], []) = (u, sc)"
    and c: "c = \<lparr>membershipRelations = rs_membership s, containmentRelations = rs_containment s,
          grantRelationsByAction = fold (compile_action (rs_grant s)) (pm_actions m) [],
          traversalRelationsByAction = fold (compile_inheritance s) (pm_inheritanceRules m) [],
          denyRelationsByAction = fold (\<lambda>(k, rels). map_set k (set_union u rels)) sc [],
          unscopedDenyRelations = u\<rparr>"
    by (rule compile_cases)
  note sets = sort_relations_sets [OF s, unfolded empty_relation_sets_def, simplified]
  show "set (membershipRelations c) = relations_of_kind (pm_relations m) Membership"
    and "set (containmentRelations c) = relations_of_kind (pm_relations m) Containment"
    by (simp_all add: c sets)
  show "set_at (grantRelationsByAction c) k =
      {g \<in> relations_of_kind (pm_relations m) Grant.
         \<exists>a \<in> set (pm_actions m). to_lower_case (action_name a) = k \<and> g \<in> set (action_grants a)}"
    by (simp add: c set_at_compile_actions sets)
  show "set_at (traversalRelationsByAction c) k =
      {t \<in> relations_of_kind (pm_relations m) Membership \<union> relations_of_kind (pm_relations m) Containment.
         \<exists>r \<in> set (pm_inheritanceRules m). inh_through r = t \<and> k \<in> to_lower_case ` set (inh_actions r)}"
    by (simp add: c set_at_compile_inheritance sets)
  have "distinct (map fst sc)"
    using wf_map_compile_deny [OF d] by (simp add: wf_map_def)
  then have "set (deny_relations_for c k) = set u \<union> set_at sc k"
    by (auto simp: c deny_relations_for_def set_at_def map_get_fold_update split: option.splits)
  also have "\<dots> = {d \<in> relations_of_kind (pm_relations m) Deny_kind.
         \<exists>r \<in> set (pm_denyRules m). deny_relation r = d \<and> (deny_actions r = None \<or> scopes_deny r k)}"
    using compile_denies [OF d] by (auto simp: sets)
  finally show "set (deny_relations_for c k) =
      {d \<in> relations_of_kind (pm_relations m) Deny_kind.
         \<exists>r \<in> set (pm_denyRules m). deny_relation r = d \<and> (deny_actions r = None \<or> scopes_deny r k)}" .
qed

lemma compile_error_iff:
  "(\<exists>e. compile_policy_model m = Inl e) \<longleftrightarrow>
     (\<exists>r \<in> set (pm_relations m). \<exists>k. relation_kind r = Unsupported_kind k)"
proof -
  have "(\<exists>e. compile_policy_model m = Inl e) \<longleftrightarrow>
      (\<exists>e. sort_relations (pm_relations m) empty_relation_sets = Inl e)"
    by (auto simp: compile_policy_model_def Let_def split: sum.splits prod.splits)
  then show ?thesis by (simp add: sort_relations_error)
qed

end
