(* ===== verification/Js_Date.thy ===== *)
theory Js_Date
  imports Js_Values
begin

text \<open>
  The part of ECMAScript's \<open>Date\<close> the program uses: \<open>Date.parse\<close> on the date-time string
  format, \<open>new Date(ms).toISOString()\<close>, and adding a number of milliseconds to an ISO
  string. A time is an integer number of milliseconds since the epoch; \<open>None\<close> of
  \<open>date_parse\<close> is \<open>NaN\<close>, \<open>None\<close> of \<open>to_iso_string\<close> is the \<open>RangeError\<close> of an invalid time.

  Outside the date-time string format ECMAScript leaves \<open>Date.parse\<close> to the implementation;
  such a string is taken as unparseable here. A local time (no zone designator) is read in
  the time zone UTC, the one the service's containers run in. As in V8, a day of the month up to 31 is
  accepted and carried over.
\<close>

subsection \<open>The calendar\<close>

definition ms_per_day :: int where
  "ms_per_day = 86400000"

definition day_from_year :: "int \<Rightarrow> int" where
  "day_from_year y = 365 * (y - 1970) + (y - 1969) div 4 - (y - 1901) div 100 + (y - 1601) div 400"

definition is_leap :: "int \<Rightarrow> bool" where
  "is_leap y \<longleftrightarrow> y mod 4 = 0 \<and> (y mod 100 \<noteq> 0 \<or> y mod 400 = 0)"

definition year_from_day :: "int \<Rightarrow> int" where
  "year_from_day d =
     (let y = 400 * d div 146097 + 1970 in
      if d < day_from_year y then y - 1
      else if day_from_year (y + 1) \<le> d then y + 1
      else y)"

definition month_lengths :: "int \<Rightarrow> int list" where
  "month_lengths y = [31, if is_leap y then 29 else 28, 31, 30, 31, 30, 31, 31, 30, 31, 30, 31]"

text \<open>Splitting a day of the year into month and day of the month, and back.\<close>

fun split_months :: "int list \<Rightarrow> int \<Rightarrow> nat \<times> int" where
  "split_months [] d = (1, d + 1)"
| "split_months (l # ls) d = (if d < l then (1, d + 1) else (case split_months ls (d - l) of (m, e) \<Rightarrow> (Suc m, e)))"

definition day_within_year :: "int \<Rightarrow> nat \<Rightarrow> int \<Rightarrow> int" where
  "day_within_year y m d = sum_list (take (m - 1) (month_lengths y)) + d - 1"

definition make_day :: "int \<Rightarrow> nat \<Rightarrow> int \<Rightarrow> int" where
  "make_day y m d = day_from_year y + day_within_year y m d"

lemma int_div_bounds: "0 < n \<Longrightarrow> n * (z div n) \<le> z \<and> z < n * (z div n) + (n::int)"
  using mult_div_mod_eq [of n z] pos_mod_sign [of n z] pos_mod_bound [of n z] by linarith

lemma int_div_plus_1:
  assumes "0 < n"
  shows "(z + 1) div n = z div n + (if (z + 1) mod n = 0 then 1 else (0::int))"
proof (cases "z mod n + 1 < n")
  case True
  have "z + 1 = n * (z div n) + (z mod n + 1)" by simp
  with True assms have "(z + 1) div n = z div n" "(z + 1) mod n = z mod n + 1"
    using int_div_pos_eq [of "z + 1" n "z div n" "z mod n + 1"]
      int_mod_pos_eq [of "z + 1" n "z div n" "z mod n + 1"] pos_mod_sign [of n z] by simp_all
  moreover have "z mod n + 1 \<noteq> 0" using assms pos_mod_sign [of n z] by linarith
  ultimately show ?thesis by simp
next
  case False
  with pos_mod_bound [OF assms, of z] have "z mod n = n - 1" by linarith
  then have "z + 1 = n * (z div n + 1) + 0"
    using mult_div_mod_eq [of n z] by (simp add: distrib_left)
  with assms have "(z + 1) div n = z div n + 1" "(z + 1) mod n = 0"
    using int_div_pos_eq [of "z + 1" n "z div n + 1" 0]
      int_mod_pos_eq [of "z + 1" n "z div n + 1" 0] by simp_all
  then show ?thesis by simp
qed

lemma day_from_year_Suc: "day_from_year (y + 1) = day_from_year y + (if is_leap y then 366 else 365)"
proof -
  define a b c where "a = (y - 1969) div 4" and "b = (y - 1901) div 100" and "c = (y - 1601) div 400"
  have m4: "(y - 1968) mod 4 = y mod 4" using mod_mult_self2 [of y 4 "- 492"] by simp
  have m100: "(y - 1900) mod 100 = y mod 100" using mod_mult_self2 [of y 100 "- 19"] by simp
  have m400: "(y - 1600) mod 400 = y mod 400" using mod_mult_self2 [of y 400 "- 4"] by simp
  have "(y + 1 - 1969) div 4 = a + (if y mod 4 = 0 then 1 else 0)"
    using int_div_plus_1 [of 4 "y - 1969"] m4 unfolding a_def by (simp only: diff_add_eq) simp
  moreover have "(y + 1 - 1901) div 100 = b + (if y mod 100 = 0 then 1 else 0)"
    using int_div_plus_1 [of 100 "y - 1901"] m100 unfolding b_def by (simp only: diff_add_eq) simp
  moreover have "(y + 1 - 1601) div 400 = c + (if y mod 400 = 0 then 1 else 0)"
    using int_div_plus_1 [of 400 "y - 1601"] m400 unfolding c_def by (simp only: diff_add_eq) simp
  ultimately have next_year: "day_from_year (y + 1) = 365 * (y + 1 - 1970) + (a + (if y mod 4 = 0 then 1 else 0))
      - (b + (if y mod 100 = 0 then 1 else 0)) + (c + (if y mod 400 = 0 then 1 else 0))"
    by (simp only: day_from_year_def)
  have this_year: "day_from_year y = 365 * (y - 1970) + a - b + c"
    by (simp only: day_from_year_def a_def b_def c_def)
  have "y mod 100 mod 4 = y mod 4" "y mod 400 mod 100 = y mod 100"
    by (rule mod_mod_cancel, simp)+
  then have "y mod 100 = 0 \<Longrightarrow> y mod 4 = 0" "y mod 400 = 0 \<Longrightarrow> y mod 100 = 0" by (metis mod_0)+
  then show ?thesis
    unfolding next_year this_year is_leap_def
    by (cases "y mod 4 = 0"; cases "y mod 100 = 0"; cases "y mod 400 = 0") simp_all
qed

lemma day_from_year_bounds:
  "146097 * (y - 1970) - 1200 \<le> 400 * day_from_year y \<and> 400 * day_from_year y \<le> 146097 * (y - 1970) + 1200"
  using int_div_bounds [of 4 "y - 1969"] int_div_bounds [of 100 "y - 1901"] int_div_bounds [of 400 "y - 1601"]
  by (simp add: day_from_year_def)

lemma year_from_day_correct:
  "day_from_year (year_from_day d) \<le> d \<and> d < day_from_year (year_from_day d + 1)"
proof -
  define y where "y = 400 * d div 146097 + 1970"
  have est: "146097 * (y - 1970) \<le> 400 * d" "400 * d < 146097 * (y - 1970) + 146097"
    using int_div_bounds [of 146097 "400 * d"] by (simp_all add: y_def)
  have low: "day_from_year (y - 1) \<le> d"
    using day_from_year_bounds [of "y - 1"] est by simp
  have high: "d < day_from_year (y + 2)"
    using day_from_year_bounds [of "y + 2"] est by simp
  show ?thesis
    unfolding year_from_day_def Let_def y_def [symmetric] using low high by (auto simp: algebra_simps)
qed

lemma day_from_year_mono: "x \<le> y \<Longrightarrow> day_from_year x \<le> day_from_year y"
proof (induction "nat (y - x)" arbitrary: y)
  case (Suc n)
  then have "day_from_year x \<le> day_from_year (y - 1)" by (intro Suc.hyps(1)) auto
  also have "\<dots> \<le> day_from_year y" using day_from_year_Suc [of "y - 1"] by (simp split: if_splits)
  finally show ?case .
qed simp

lemma year_from_day_unique:
  assumes "day_from_year y \<le> d" "d < day_from_year (y + 1)"
  shows "year_from_day d = y"
proof (rule ccontr)
  assume "year_from_day d \<noteq> y"
  then consider "year_from_day d + 1 \<le> y" | "y + 1 \<le> year_from_day d" by force
  then show False
    using assms year_from_day_correct [of d] day_from_year_mono by cases fastforce+
qed

lemma split_months_inverse:
  assumes "0 \<le> d" "d < sum_list ls" "split_months ls d = (m, e)"
  shows "1 \<le> m \<and> m \<le> length ls \<and> sum_list (take (m - 1) ls) + e - 1 = d \<and> 1 \<le> e \<and> e \<le> ls ! (m - 1)"
  using assms
proof (induction ls arbitrary: d m e)
  case Nil
  then show ?case by simp
next
  case (Cons l ls)
  show ?case
  proof (cases "d < l")
    case True
    with Cons.prems show ?thesis by auto
  next
    case False
    obtain m' where m': "split_months ls (d - l) = (m', e)" "m = Suc m'"
      using Cons.prems False by (auto split: prod.splits)
    with Cons.IH [of "d - l" m' e] Cons.prems False
    have IH: "1 \<le> m'" "m' \<le> length ls" "sum_list (take (m' - 1) ls) + e - 1 = d - l" "1 \<le> e" "e \<le> ls ! (m' - 1)"
      by auto
    then obtain k where "m' = Suc k" by (cases m') auto
    with m'(2) IH show ?thesis by auto
  qed
qed

subsection \<open>Printing\<close>

definition max_time :: int where
  "max_time = 8640000000000000"

definition iso_year :: "int \<Rightarrow> string" where
  "iso_year y =
     (if 0 \<le> y \<and> y \<le> 9999 then padded 4 (nat y)
      else (if y < 0 then CHR ''-'' else CHR ''+'') # padded 6 (nat \<bar>y\<bar>))"

definition iso_text :: "int \<Rightarrow> string" where
  "iso_text t =
     (let day = t div ms_per_day; r = t mod ms_per_day;
          y = year_from_day day;
          (m, d) = split_months (month_lengths y) (day - day_from_year y)
      in iso_year y @ ''-'' @ padded 2 m @ ''-'' @ padded 2 (nat d) @ ''T''
         @ padded 2 (nat (r div 3600000)) @ '':'' @ padded 2 (nat (r div 60000 mod 60)) @ '':''
         @ padded 2 (nat (r div 1000 mod 60)) @ ''.'' @ padded 3 (nat (r mod 1000)) @ ''Z'')"

definition to_iso_string :: "int \<Rightarrow> string option" where
  "to_iso_string t = (if \<bar>t\<bar> \<le> max_time then Some (iso_text t) else None)"

subsection \<open>Parsing\<close>

definition take_digits :: "nat \<Rightarrow> string \<Rightarrow> (nat \<times> string) option" where
  "take_digits n s =
     (if n \<le> length s \<and> list_all is_digit (take n s) then Some (digits_val (take n s), drop n s) else None)"

fun expect :: "char \<Rightarrow> string \<Rightarrow> string option" where
  "expect c [] = None"
| "expect c (d # s) = (if d = c then Some s else None)"

definition parse_year :: "string \<Rightarrow> (int \<times> string) option" where
  "parse_year s =
     (case expect (CHR ''+'') s of
        Some r \<Rightarrow> map_option (map_prod int id) (take_digits 6 r)
      | None \<Rightarrow> (case expect (CHR ''-'') s of
          Some r \<Rightarrow> Option.bind (take_digits 6 r) (\<lambda>(n, r'). if n = 0 then None else Some (- int n, r'))
        | None \<Rightarrow> map_option (map_prod int id) (take_digits 4 s)))"

text \<open>\<open>-MM\<close> and \<open>-DD\<close>, each of them optional, with 1 as the default.\<close>

definition parse_part :: "nat \<Rightarrow> string \<Rightarrow> (nat \<times> string) option" where
  "parse_part high s =
     (case expect (CHR ''-'') s of
        None \<Rightarrow> Some (1, s)
      | Some r \<Rightarrow> Option.bind (take_digits 2 r) (\<lambda>(n, r'). if 1 \<le> n \<and> n \<le> high then Some (n, r') else None))"

definition parse_day :: "string \<Rightarrow> (int \<times> string) option" where
  "parse_day s =
     Option.bind (parse_year s) (\<lambda>(y, s1).
     Option.bind (parse_part 12 s1) (\<lambda>(m, s2).
     Option.bind (parse_part 31 s2) (\<lambda>(d, s3).
       Some (make_day y m (int d), s3))))"

definition parse_fraction :: "string \<Rightarrow> (nat \<times> string) option" where
  "parse_fraction s =
     (case expect (CHR ''.'') s of
        None \<Rightarrow> Some (0, s)
      | Some r \<Rightarrow>
          (let ds = takeWhile is_digit r in
           if ds = [] then None
           else Some (digits_val (take 3 (ds @ ''00'')), dropWhile is_digit r)))"

definition parse_seconds :: "string \<Rightarrow> (nat \<times> nat \<times> string) option" where
  "parse_seconds s =
     (case expect (CHR '':'') s of
        None \<Rightarrow> Some (0, 0, s)
      | Some r \<Rightarrow>
          Option.bind (take_digits 2 r) (\<lambda>(sec, s1).
          Option.bind (parse_fraction s1) (\<lambda>(ms, s2).
            if sec < 60 then Some (sec, ms, s2) else None)))"

definition parse_time :: "string \<Rightarrow> (int \<times> string) option" where
  "parse_time s =
     Option.bind (take_digits 2 s) (\<lambda>(h, s1).
     Option.bind (expect (CHR '':'') s1) (\<lambda>s2.
     Option.bind (take_digits 2 s2) (\<lambda>(mi, s3).
     Option.bind (parse_seconds s3) (\<lambda>(sec, ms, s4).
       if h < 24 \<and> mi < 60 \<or> h = 24 \<and> mi = 0 \<and> sec = 0 \<and> ms = 0
       then Some (int h * 3600000 + int mi * 60000 + int sec * 1000 + int ms, s4) else None))))"

definition parse_offset :: "string \<Rightarrow> int option" where
  "parse_offset s =
     Option.bind (take_digits 2 s) (\<lambda>(h, s1).
     Option.bind (expect (CHR '':'') s1) (\<lambda>s2.
     Option.bind (take_digits 2 s2) (\<lambda>(mi, s3).
       if h < 24 \<and> mi < 60 \<and> s3 = [] then Some (int h * 3600000 + int mi * 60000) else None)))"

definition parse_zone :: "string \<Rightarrow> int option" where
  "parse_zone s =
     (case s of
        [] \<Rightarrow> Some 0
      | c # r \<Rightarrow>
          if c = CHR ''Z'' then (if r = [] then Some 0 else None)
          else if c = CHR ''+'' then parse_offset r
          else if c = CHR ''-'' then map_option uminus (parse_offset r)
          else None)"

definition time_clip :: "int \<Rightarrow> int option" where
  "time_clip t = (if \<bar>t\<bar> \<le> max_time then Some t else None)"

definition date_parse :: "string \<Rightarrow> int option" where
  "date_parse s =
     Option.bind (parse_day s) (\<lambda>(day, s1).
       case s1 of
         [] \<Rightarrow> time_clip (day * ms_per_day)
       | c # s2 \<Rightarrow>
           if c = CHR ''T'' then
             Option.bind (parse_time s2) (\<lambda>(time, s3).
             Option.bind (parse_zone s3) (\<lambda>offset.
               time_clip (day * ms_per_day + time - offset)))
           else None)"

text \<open>\<open>new Date(Date.parse(iso) + ms).toISOString()\<close>; \<open>None\<close> when it throws.\<close>

definition add_milliseconds :: "string \<Rightarrow> int \<Rightarrow> string option" where
  "add_milliseconds s ms = Option.bind (date_parse s) (\<lambda>t. to_iso_string (t + ms))"

subsection \<open>Parsing what was printed\<close>

lemma take_digits_padded [simp]: "k < 10 ^ n \<Longrightarrow> take_digits n (padded n k @ r) = Some (k, r)"
  by (simp add: take_digits_def padded_digits padded_val)

lemma expect_padded [simp]: "0 < w \<Longrightarrow> \<not> is_digit c \<Longrightarrow> expect c (padded w k @ r) = None"
  using padded_digits [of w k] length_padded [of w k] by (cases "padded w k") auto

lemma separators_not_digits [simp]:
  "\<not> is_digit (CHR ''+'')" "\<not> is_digit (CHR ''T'')" "\<not> is_digit (CHR '':'')"
  "\<not> is_digit (CHR ''.'')" "\<not> is_digit (CHR ''Z'')"
  by (simp_all add: is_digit_def code_unit_def)

lemma parse_year_text:
  "\<bar>y\<bar> < 1000000 \<Longrightarrow> parse_year (iso_year y @ r) = Some (y, r)"
  by (auto simp: parse_year_def iso_year_def)

lemma parse_part_text:
  "1 \<le> n \<Longrightarrow> n \<le> high \<Longrightarrow> high < 100 \<Longrightarrow> parse_part high (CHR ''-'' # padded 2 n @ r) = Some (n, r)"
  by (simp add: parse_part_def)

lemma parse_fraction_text:
  assumes "n < 1000" "\<not> is_digit c"
  shows "parse_fraction (CHR ''.'' # padded 3 n @ c # r) = Some (n, c # r)"
proof -
  have tw: "takeWhile is_digit (padded 3 n @ c # r) = padded 3 n"
    and dw: "dropWhile is_digit (padded 3 n @ c # r) = c # r"
    using padded_digits [of 3 n] assms(2)
    by (simp_all add: takeWhile_append2 dropWhile_append2 list_all_iff)
  have "padded 3 n \<noteq> []" using length_padded [of 3 n] by force
  with tw dw assms(1) show ?thesis by (simp add: parse_fraction_def Let_def padded_val)
qed

lemma clock_fields:
  assumes "0 \<le> r" "r < ms_per_day"
  shows "r div 3600000 * 3600000 + r div 60000 mod 60 * 60000 + r div 1000 mod 60 * 1000 + r mod 1000 = (r::int)"
    "0 \<le> r div 3600000 \<and> r div 3600000 < 24"
proof -
  have "r div (1000 * 60) = r div 1000 div 60" by (rule zdiv_zmult2_eq) simp
  then have b: "r div 60000 = r div 1000 div 60" by simp
  have "r div (60000 * 60) = r div 60000 div 60" by (rule zdiv_zmult2_eq) simp
  then have c: "r div 3600000 = r div 60000 div 60" by simp
  have "r div 60000 div 60 * 60 + r div 60000 mod 60 = r div 60000" by (rule div_mult_mod_eq)
  moreover have "r div 1000 div 60 * 60 + r div 1000 mod 60 = r div 1000" by (rule div_mult_mod_eq)
  moreover have "r div 1000 * 1000 + r mod 1000 = r" by (rule div_mult_mod_eq)
  ultimately show "r div 3600000 * 3600000 + r div 60000 mod 60 * 60000 + r div 1000 mod 60 * 1000 + r mod 1000 = r"
    using b c by linarith
  show "0 \<le> r div 3600000 \<and> r div 3600000 < 24"
    using int_div_bounds [of 3600000 r] assms unfolding ms_per_day_def by linarith
qed

lemma parse_time_fields:
  assumes "h < 24" "mi < 60" "sec < 60" "ms < 1000"
  shows "parse_time (padded 2 h @ CHR '':'' # padded 2 mi @ CHR '':'' # padded 2 sec @ CHR ''.'' # padded 3 ms @ CHR ''Z'' # s)
    = Some (int h * 3600000 + int mi * 60000 + int sec * 1000 + int ms, CHR ''Z'' # s)"
proof -
  have "parse_fraction (CHR ''.'' # padded 3 ms @ CHR ''Z'' # s) = Some (ms, CHR ''Z'' # s)"
    using assms(4) by (rule parse_fraction_text) simp
  then have "parse_seconds (CHR '':'' # padded 2 sec @ CHR ''.'' # padded 3 ms @ CHR ''Z'' # s) = Some (sec, ms, CHR ''Z'' # s)"
    using assms(3) by (simp add: parse_seconds_def)
  with assms(1,2) show ?thesis by (simp add: parse_time_def)
qed

lemma parse_time_text:
  assumes "0 \<le> r" "r < ms_per_day"
  shows "parse_time (padded 2 (nat (r div 3600000)) @ CHR '':'' # padded 2 (nat (r div 60000 mod 60)) @ CHR '':'' #
      padded 2 (nat (r div 1000 mod 60)) @ CHR ''.'' # padded 3 (nat (r mod 1000)) @ CHR ''Z'' # s)
    = Some (r, CHR ''Z'' # s)"
proof -
  have small: "nat (r div 3600000) < 24" "nat (r div 60000 mod 60) < 60" "nat (r div 1000 mod 60) < 60"
    "nat (r mod 1000) < 1000"
    using clock_fields(2) [OF assms] by (auto simp: nat_less_iff)
  have "0 \<le> r div 3600000" "0 \<le> r div 60000 mod 60" "0 \<le> r div 1000 mod 60" "0 \<le> r mod 1000"
    using clock_fields(2) [OF assms] by simp_all
  then have sum_back: "int (nat (r div 3600000)) * 3600000 + int (nat (r div 60000 mod 60)) * 60000
      + int (nat (r div 1000 mod 60)) * 1000 + int (nat (r mod 1000)) = r"
    using clock_fields(1) [OF assms] by (simp only: nat_0_le)
  show ?thesis using parse_time_fields [OF small, of s] unfolding sum_back .
qed

lemma year_bound:
  fixes y a b d :: int
  assumes "a \<le> d" "d < b" "146097 * (y - 1970) - 1200 \<le> 400 * a" "400 * b \<le> 146097 * (y + 1 - 1970) + 1200"
    "- 100000000 \<le> d" "d \<le> 100000000"
  shows "\<bar>y\<bar> < 1000000"
proof -
  have "146097 * y \<le> 146097 * 300000" using assms(1,3,6) by simp
  moreover have "146097 * (- 300000) \<le> 146097 * y" using assms(2,4,5) by simp
  ultimately show ?thesis by simp
qed

lemma valid_year:
  assumes "\<bar>t\<bar> \<le> max_time"
  shows "\<bar>year_from_day (t div ms_per_day)\<bar> < 1000000"
proof -
  define d where "d = t div ms_per_day"
  have "- 100000000 \<le> d" "d \<le> 100000000"
    using assms int_div_bounds [of ms_per_day t] by (auto simp: d_def max_time_def ms_per_day_def)
  then show ?thesis
    unfolding d_def [symmetric] using year_from_day_correct [of d] day_from_year_bounds
    by (blast intro: year_bound)
qed

theorem date_parse_iso_text:
  assumes "\<bar>t\<bar> \<le> max_time"
  shows "date_parse (iso_text t) = Some t"
proof -
  define day r y where "day = t div ms_per_day" and "r = t mod ms_per_day" and "y = year_from_day day"
  obtain m d where md: "split_months (month_lengths y) (day - day_from_year y) = (m, d)" by fastforce
  have "day - day_from_year y < sum_list (month_lengths y)" "0 \<le> day - day_from_year y"
    using year_from_day_correct [of day] day_from_year_Suc [of y]
    by (auto simp: y_def [symmetric] month_lengths_def split: if_splits)
  from split_months_inverse [OF this(2,1) md]
  have m: "1 \<le> m" "m \<le> 12" and d: "1 \<le> d" "d \<le> month_lengths y ! (m - 1)"
    and day_back: "make_day y m d = day"
    by (auto simp: month_lengths_def make_day_def day_within_year_def)
  have "\<forall>l \<in> set (month_lengths y). l \<le> 31" by (simp add: month_lengths_def)
  moreover have "month_lengths y ! (m - 1) \<in> set (month_lengths y)"
    using m by (intro nth_mem) (simp add: month_lengths_def)
  ultimately have "month_lengths y ! (m - 1) \<le> 31" by blast
  with d have d31: "nat d \<le> 31" "1 \<le> nat d" by linarith+
  have r: "0 \<le> r" "r < ms_per_day" by (simp_all add: r_def ms_per_day_def)
  have y: "\<bar>y\<bar> < 1000000" using valid_year [OF assms] by (simp add: y_def day_def)
  have "iso_text t = iso_year y @ CHR ''-'' # padded 2 m @ CHR ''-'' # padded 2 (nat d) @ CHR ''T'' #
      padded 2 (nat (r div 3600000)) @ CHR '':'' # padded 2 (nat (r div 60000 mod 60)) @ CHR '':'' #
      padded 2 (nat (r div 1000 mod 60)) @ CHR ''.'' # padded 3 (nat (r mod 1000)) @ CHR ''Z'' # []"
    by (simp add: iso_text_def Let_def day_def [symmetric] r_def [symmetric] y_def [symmetric] md)
  moreover have "day * ms_per_day + r = t" by (simp add: day_def r_def)
  ultimately show ?thesis
    using y m d(1) d31 day_back r assms
    by (simp add: date_parse_def parse_day_def parse_year_text parse_part_text parse_time_text parse_zone_def time_clip_def)
qed


subsection \<open>The characters of a date\<close>

definition date_chars :: "char set" where
  "date_chars = {c. is_digit c} \<union> set ''+-:.TZ''"

lemma take_digits_chars: "take_digits n s = Some (v, r) \<Longrightarrow> set s \<subseteq> date_chars \<union> set r"
proof -
  assume "take_digits n s = Some (v, r)"
  then have "list_all is_digit (take n s)" "r = drop n s"
    by (auto simp: take_digits_def split: if_splits)
  then show ?thesis
    using set_append [of "take n s" "drop n s"] by (auto simp: date_chars_def list_all_iff)
qed

lemma expect_chars: "c \<in> date_chars \<Longrightarrow> expect c s = Some r \<Longrightarrow> set s \<subseteq> date_chars \<union> set r"
  by (cases s) (auto split: if_splits)

lemma separators_date_chars [simp]:
  "CHR ''+'' \<in> date_chars" "CHR ''-'' \<in> date_chars" "CHR '':'' \<in> date_chars" "CHR ''.'' \<in> date_chars"
  "CHR ''T'' \<in> date_chars" "CHR ''Z'' \<in> date_chars"
  by (simp_all add: date_chars_def)

lemma nul_not_date_char [simp]: "CHR 0x00 \<notin> date_chars"
  by (simp add: date_chars_def is_digit_def code_unit_def)

lemma parse_year_chars: "parse_year s = Some (v, r) \<Longrightarrow> set s \<subseteq> date_chars \<union> set r"
  by (auto simp: parse_year_def bind_eq_Some_conv split: option.splits if_splits
      dest!: take_digits_chars expect_chars [rotated])

lemma parse_part_chars: "parse_part h s = Some (v, r) \<Longrightarrow> set s \<subseteq> date_chars \<union> set r"
  by (auto simp: parse_part_def bind_eq_Some_conv split: option.splits if_splits
      dest!: take_digits_chars expect_chars [rotated])

lemma parse_day_chars: "parse_day s = Some (v, r) \<Longrightarrow> set s \<subseteq> date_chars \<union> set r"
  by (auto simp: parse_day_def bind_eq_Some_conv dest!: parse_year_chars parse_part_chars)

lemma parse_fraction_chars: "parse_fraction s = Some (v, r) \<Longrightarrow> set s \<subseteq> date_chars \<union> set r"
proof -
  assume some: "parse_fraction s = Some (v, r)"
  have "set x \<subseteq> date_chars \<union> set (dropWhile is_digit x)" for x
    by (induction x) (auto simp: date_chars_def)
  with some show ?thesis
    by (fastforce simp: parse_fraction_def Let_def split: option.splits if_splits dest!: expect_chars [rotated])
qed

lemma parse_seconds_chars: "parse_seconds s = Some (a, b, r) \<Longrightarrow> set s \<subseteq> date_chars \<union> set r"
  by (auto simp: parse_seconds_def bind_eq_Some_conv split: option.splits if_splits
      dest!: take_digits_chars parse_fraction_chars expect_chars [rotated])

lemma parse_time_chars: "parse_time s = Some (v, r) \<Longrightarrow> set s \<subseteq> date_chars \<union> set r"
  by (auto simp: parse_time_def bind_eq_Some_conv split: if_splits
      dest!: take_digits_chars parse_seconds_chars expect_chars [rotated])

lemma parse_offset_chars: "parse_offset s = Some v \<Longrightarrow> set s \<subseteq> date_chars"
proof -
  assume "parse_offset s = Some v"
  then obtain h s1 s2 mi where "take_digits 2 s = Some (h, s1)" "expect (CHR '':'') s1 = Some s2"
    "take_digits 2 s2 = Some (mi, [])"
    by (auto simp: parse_offset_def bind_eq_Some_conv split: if_splits)
  then have "set s \<subseteq> date_chars \<union> set s1" "set s1 \<subseteq> date_chars \<union> set s2" "set s2 \<subseteq> date_chars"
    using take_digits_chars expect_chars [of "CHR '':''"] by fastforce+
  then show ?thesis by blast
qed

lemma parse_zone_chars: "parse_zone s = Some v \<Longrightarrow> set s \<subseteq> date_chars"
  by (auto simp: parse_zone_def split: list.splits if_splits dest!: parse_offset_chars)

lemma date_parse_chars: "date_parse s = Some v \<Longrightarrow> set s \<subseteq> date_chars"
proof -
  assume some: "date_parse s = Some v"
  then obtain d s1 where d: "parse_day s = Some (d, s1)" by (auto simp: date_parse_def bind_eq_Some_conv)
  show ?thesis
  proof (cases s1)
    case Nil
    with parse_day_chars [OF d] show ?thesis by simp
  next
    case (Cons c s2)
    with some d obtain t s3 z where "c = CHR ''T''" "parse_time s2 = Some (t, s3)" "parse_zone s3 = Some z"
      by (auto simp: date_parse_def bind_eq_Some_conv split: if_splits)
    with parse_day_chars [OF d] parse_time_chars [of s2 t s3] parse_zone_chars [of s3 z] Cons
    have "set s \<subseteq> date_chars \<union> insert (CHR ''T'') (set s2)" "set s2 \<subseteq> date_chars \<union> set s3" "set s3 \<subseteq> date_chars"
      by simp_all
    moreover have "CHR ''T'' \<in> date_chars" by simp
    ultimately show ?thesis by blast
  qed
qed

end
