(* ===== verification/Policy_Validation.thy ===== *)
theory Policy_Validation
  imports Policy_Model Js_Date
begin

text \<open>
  \<open>validatePolicyModel\<close> of \<open>packages/core/src/policy-model.ts\<close>: one definition per check, in
  the order the code runs them, each producing the check records (name, status, message) the
  code produces. A \<open>for\<close> loop with an early return is a recursion that stops at the first
  failing element.
\<close>

record policy_check =
  pc_name :: string
  pc_status :: check_status
  pc_message :: string

record policy_validation =
  pv_valid :: bool
  pv_checks :: "policy_check list"

definition pass_check :: "string \<Rightarrow> string \<Rightarrow> policy_check" where
  "pass_check name message = \<lparr>pc_name = name, pc_status = Check_pass, pc_message = message\<rparr>"

definition fail_check :: "string \<Rightarrow> string \<Rightarrow> policy_check" where
  "fail_check name message = \<lparr>pc_name = name, pc_status = Check_fail, pc_message = message\<rparr>"

lemma check_status_simps [simp]:
  "pc_status (pass_check n m) = Check_pass" "pc_status (fail_check n m) = Check_fail"
  by (simp_all add: pass_check_def fail_check_def)

text \<open>The first element for which the loop body returns.\<close>

fun first_some :: "('a \<Rightarrow> 'b option) \<Rightarrow> 'a list \<Rightarrow> 'b option" where
  "first_some f [] = None"
| "first_some f (x # xs) = (case f x of Some y \<Rightarrow> Some y | None \<Rightarrow> first_some f xs)"

lemma first_some_None: "first_some f xs = None \<longleftrightarrow> (\<forall>x \<in> set xs. f x = None)"
  by (induction xs) (auto split: option.splits)

lemma first_some_mem: "first_some f xs = Some y \<Longrightarrow> \<exists>x \<in> set xs. f x = Some y"
  by (induction xs) (auto split: option.splits)

text \<open>A loop that returns the first failure it meets, then the passing check.\<close>

definition first_failure :: "('a \<Rightarrow> policy_check option) \<Rightarrow> 'a list \<Rightarrow> policy_check \<Rightarrow> policy_check" where
  "first_failure f xs ok = (case first_some f xs of Some c \<Rightarrow> c | None \<Rightarrow> ok)"

definition only_fails :: "('a \<Rightarrow> policy_check option) \<Rightarrow> bool" where
  "only_fails f \<longleftrightarrow> (\<forall>x c. f x = Some c \<longrightarrow> pc_status c = Check_fail)"

lemma first_failure_passes:
  assumes "only_fails f" "pc_status (first_failure f xs ok) \<noteq> Check_fail"
  shows "\<forall>x \<in> set xs. f x = None"
  using assms by (auto simp: first_failure_def only_fails_def simp flip: first_some_None
      dest!: first_some_mem split: option.splits)

lemma only_fails_first_some: "only_fails f \<Longrightarrow> first_some f xs = Some c \<Longrightarrow> pc_status c = Check_fail"
  by (auto simp: only_fails_def dest: first_some_mem)

subsection \<open>Texts and tables\<close>

fun context_type_text :: "context_type \<Rightarrow> string" where
  "context_type_text Type_string = ''string''"
| "context_type_text Type_number = ''number''"
| "context_type_text Type_boolean = ''boolean''"
| "context_type_text Type_datetime = ''datetime''"
| "context_type_text (Unsupported_type s) = s"

fun operator_text :: "caveat_operator \<Rightarrow> string" where
  "operator_text Equals = ''equals''"
| "operator_text One_of = ''one_of''"
| "operator_text Less_than_or_equal = ''less_than_or_equal''"
| "operator_text Greater_than_or_equal = ''greater_than_or_equal''"
| "operator_text Before = ''before''"
| "operator_text After = ''after''"
| "operator_text (Unsupported_operator s) = s"

fun supported_context_type :: "context_type \<Rightarrow> bool" where
  "supported_context_type (Unsupported_type _) = False"
| "supported_context_type _ = True"

fun supported_caveat_operator :: "caveat_operator \<Rightarrow> bool" where
  "supported_caveat_operator (Unsupported_operator _) = False"
| "supported_caveat_operator _ = True"

definition known_resource_types :: "string list" where
  "known_resource_types =
    [''organization'', ''workspace'', ''application'', ''sharepoint_site'', ''team'', ''folder'',
     ''document'', ''power_app'', ''flow'', ''dataverse_environment'', ''aws_account'', ''aws_role'',
     ''dataset'', ''api'']"

subsection \<open>Names, resource types, relations\<close>

definition check_schema_version :: "policy_model \<Rightarrow> policy_check" where
  "check_schema_version m =
     (if pm_schemaVersion m \<noteq> policy_model_schema_version
      then fail_check ''schema_version'' (''Unsupported policy model schema version: '' @ pm_schemaVersion m)
      else pass_check ''schema_version'' ''Policy model schema version is supported.'')"

text \<open>\<open>values.filter((value, index) => values.indexOf(value) !== index)\<close>\<close>

fun repeated :: "string list \<Rightarrow> string list \<Rightarrow> string list" where
  "repeated seen [] = []"
| "repeated seen (v # vs) = (if v \<in> set seen then v # repeated seen vs else repeated (v # seen) vs)"

definition check_unique :: "string \<Rightarrow> string list \<Rightarrow> policy_check" where
  "check_unique name vs =
     (let duplicates = repeated [] vs in
      if duplicates \<noteq> []
      then fail_check name (''Duplicate values are not allowed: '' @ join '', '' (fold set_add duplicates []))
      else pass_check name ''Names are unique.'')"

definition check_known_resource_types :: "policy_model \<Rightarrow> policy_check list" where
  "check_known_resource_types m =
     (let names = map rt_type (pm_resourceTypes m);
          known = pass_check ''resource_types_known'' ''Resource types are supported.'';
          parents = pass_check ''resource_parent_types_known'' ''Resource parent references are known.'';
          declared = pass_check ''resource_classifications_declared'' ''Resource classifications are declared.''
      in case first_some (\<lambda>t. if rt_type t \<in> set known_resource_types then None
             else Some (fail_check ''resource_types_known'' (''Unsupported resource type: '' @ rt_type t)))
             (pm_resourceTypes m) of
           Some f \<Rightarrow> [f]
         | None \<Rightarrow>
      (case first_some (\<lambda>t. first_some (\<lambda>p. if p \<in> set names then None
             else Some (fail_check ''resource_parent_types_known''
               (''Resource type '' @ rt_type t @ '' references unknown parent type '' @ p @ ''.'')))
             (coalesce (rt_allowedParentTypes t) [])) (pm_resourceTypes m) of
           Some f \<Rightarrow> [known, f]
         | None \<Rightarrow>
      (case first_some (\<lambda>t. if rt_classifications t \<noteq> [] then None
             else Some (fail_check ''resource_classifications_declared''
               (''Resource type '' @ rt_type t @ '' must declare at least one classification.'')))
             (pm_resourceTypes m) of
           Some f \<Rightarrow> [known, parents, f]
         | None \<Rightarrow> [known, parents, declared])))"

definition check_relations :: "policy_model \<Rightarrow> policy_check" where
  "check_relations m =
     first_failure (\<lambda>r. if relation_subjectTypes r = [] \<or> relation_objectTypes r = []
         then Some (fail_check ''relation_endpoints_declared''
           (''Relation '' @ relation_name r @ '' must declare subject and object types.'')) else None)
       (pm_relations m)
       (pass_check ''relation_endpoints_declared'' ''Relations declare subject and object types.'')"

definition relation_names_of_kind :: "policy_model \<Rightarrow> relation_kind \<Rightarrow> string list" where
  "relation_names_of_kind m k =
     fold set_add (map relation_name (filter (\<lambda>r. relation_kind r = k) (pm_relations m))) []"

definition action_mapping_failure :: "policy_model \<Rightarrow> string list \<Rightarrow> policy_action \<Rightarrow> policy_check option" where
  "action_mapping_failure m relationNames a =
     (if action_grants a = [] then Some (fail_check ''action_grants_declared''
        (''Action '' @ action_name a @ '' must map to at least one grant relation.''))
      else first_some (\<lambda>g.
        if g \<notin> set relationNames then Some (fail_check ''action_grants_known''
          (''Action '' @ action_name a @ '' references unknown relation '' @ g @ ''.''))
        else if g \<notin> set (relation_names_of_kind m Grant) then Some (fail_check ''action_grants_grant_kind''
          (''Action '' @ action_name a @ '' references relation '' @ g @ '', which is not declared as a grant relation.''))
        else None) (action_grants a))"

definition check_action_mappings :: "policy_model \<Rightarrow> string list \<Rightarrow> policy_check" where
  "check_action_mappings m relationNames =
     first_failure (action_mapping_failure m relationNames) (pm_actions m)
       (pass_check ''action_grants_grant_kind'' ''Action mappings reference declared grant relations.'')"

subsection \<open>Inheritance and deny rules\<close>

definition inheritance_rule_failure ::
  "policy_model \<Rightarrow> string list \<Rightarrow> string list \<Rightarrow> policy_inheritance_rule \<Rightarrow> policy_check option" where
  "inheritance_rule_failure m relationNames actionNames r =
     (let traversalRelations = fold set_add (relation_names_of_kind m Containment) (relation_names_of_kind m Membership) in
      if inh_relation r \<notin> set relationNames then Some (fail_check ''inheritance_relations_known''
        (''Inheritance rule '' @ inh_name r @ '' references unknown relation '' @ inh_relation r @ ''.''))
      else if inh_through r \<notin> set relationNames then Some (fail_check ''inheritance_paths_known''
        (''Inheritance rule '' @ inh_name r @ '' references unknown traversal relation '' @ inh_through r @ ''.''))
      else if inh_through r \<notin> set traversalRelations then Some (fail_check ''inheritance_traversal_kinds''
        (''Inheritance rule '' @ inh_name r @ '' traverses '' @ inh_through r
          @ '', which is not declared as a membership or containment relation.''))
      else if inh_actions r = [] then Some (fail_check ''inheritance_actions_declared''
        (''Inheritance rule '' @ inh_name r @ '' must declare at least one action.''))
      else first_some (\<lambda>a. if a \<in> set actionNames then None
        else Some (fail_check ''inheritance_actions_known''
          (''Inheritance rule '' @ inh_name r @ '' references unknown action '' @ a @ ''.''))) (inh_actions r))"

definition check_inheritance_rules :: "policy_model \<Rightarrow> string list \<Rightarrow> string list \<Rightarrow> policy_check" where
  "check_inheritance_rules m relationNames actionNames =
     (if pm_inheritanceRules m = []
      then fail_check ''inheritance_rules_declared'' ''At least one inheritance rule is required.''
      else first_failure (inheritance_rule_failure m relationNames actionNames) (pm_inheritanceRules m)
        (pass_check ''inheritance_rules_declared''
          ''Inheritance rules reference known relations, traversal paths, and actions.''))"

definition deny_rule_failure ::
  "policy_model \<Rightarrow> string list \<Rightarrow> string list \<Rightarrow> policy_deny_rule \<Rightarrow> policy_check option" where
  "deny_rule_failure m relationNames actionNames r =
     (if deny_relation r \<notin> set relationNames then Some (fail_check ''deny_relations_known''
        (''Deny rule '' @ deny_name r @ '' references unknown relation '' @ deny_relation r @ ''.''))
      else if deny_relation r \<notin> set (relation_names_of_kind m Deny_kind) then Some (fail_check ''deny_relations_deny_kind''
        (''Deny rule '' @ deny_name r @ '' references relation '' @ deny_relation r
          @ '', which is not declared as a deny relation.''))
      else if deny_actions r = Some [] then Some (fail_check ''deny_actions_declared''
        (''Deny rule '' @ deny_name r @ '' must declare at least one action when actions are scoped.''))
      else first_some (\<lambda>a. if a \<in> set actionNames then None
        else Some (fail_check ''deny_actions_known''
          (''Deny rule '' @ deny_name r @ '' references unknown action '' @ a @ ''.''))) (coalesce (deny_actions r) []))"

definition check_deny_rules :: "policy_model \<Rightarrow> string list \<Rightarrow> string list \<Rightarrow> policy_check" where
  "check_deny_rules m relationNames actionNames =
     (if pm_denyRules m = []
      then fail_check ''deny_rules_present''
        ''At least one override deny rule is required to keep the deny-by-default posture.''
      else first_failure (deny_rule_failure m relationNames actionNames) (pm_denyRules m)
        (pass_check ''deny_rules_present''
          ''Override deny rules are declared and reference declared deny relations.''))"

subsection \<open>Tenant boundary and classifications\<close>

definition check_tenant_boundary :: "policy_model \<Rightarrow> policy_check" where
  "check_tenant_boundary m =
     (if tb_key (pm_tenantBoundary m) = [] \<or> tb_crossTenantTraversal (pm_tenantBoundary m)
      then fail_check ''tenant_boundary_fail_closed'' ''Tenant boundary must name a key and disable cross-tenant traversal.''
      else pass_check ''tenant_boundary_fail_closed'' ''Tenant boundary is explicit and fail-closed.'')"

definition check_classification_constraints :: "policy_model \<Rightarrow> string list \<Rightarrow> policy_check" where
  "check_classification_constraints m actionNames =
     (if pm_classificationConstraints m = []
      then fail_check ''classification_constraints_declared'' ''At least one classification constraint is required.''
      else first_failure (\<lambda>c.
          if cl_classification c = [] \<or> cl_allowedActions c = [] then Some (fail_check ''classification_constraints_declared''
            ''Classification constraints must name a classification and allowed actions.'')
          else first_some (\<lambda>a. if a \<in> set actionNames then None
            else Some (fail_check ''classification_actions_known''
              (''Classification '' @ cl_classification c @ '' references unknown action '' @ a @ ''.''))) (cl_allowedActions c))
          (pm_classificationConstraints m)
        (pass_check ''classification_constraints_declared''
          ''Classification constraints are declared and reference known actions.''))"

subsection \<open>Context constraints and caveats\<close>

definition value_matches_type :: "js \<Rightarrow> context_type \<Rightarrow> bool" where
  "value_matches_type v t =
     (if t = Type_datetime
      then (case v of JStr s \<Rightarrow> date_parse s \<noteq> None | _ \<Rightarrow> False)
      else js_typeof v = context_type_text t)"

definition operator_matches_type :: "caveat_operator \<Rightarrow> context_type \<Rightarrow> bool" where
  "operator_matches_type op t =
     (if t = Type_datetime then op = Before \<or> op = After
      else if op = Before \<or> op = After then False
      else if op = Less_than_or_equal \<or> op = Greater_than_or_equal then t = Type_number
      else True)"

definition condition_value_matches_type :: "js \<Rightarrow> context_type \<Rightarrow> caveat_operator \<Rightarrow> bool" where
  "condition_value_matches_type v t op =
     (if op = One_of
      then (case v of JArr vs \<Rightarrow> vs \<noteq> [] \<and> list_all (\<lambda>e. value_matches_type e t) vs | _ \<Rightarrow> False)
      else (case v of JArr _ \<Rightarrow> False | _ \<Rightarrow> value_matches_type v t))"

definition context_constraint_is_bounded :: "policy_context_constraint \<Rightarrow> caveat_condition \<Rightarrow> bool" where
  "context_constraint_is_bounded c cond =
     (if cc_type c = Type_boolean then True
      else if coalesce (cc_allowedValues c) [] \<noteq> [] then True
      else if cc_type c = Type_number then cc_min c \<noteq> None \<and> cc_max c \<noteq> None
      else if cc_type c = Type_string then (case cc_maxLength c of None \<Rightarrow> False | Some l \<Rightarrow> 0 < l)
      else cond_operator cond = Before \<or> cond_operator cond = After)"

definition context_constraint_failure :: "policy_context_constraint \<Rightarrow> policy_check option" where
  "context_constraint_failure c =
     (if \<not> supported_context_type (cc_type c) then Some (fail_check ''context_constraint_types_known''
        (''Context constraint '' @ cc_key c @ '' has unsupported type '' @ context_type_text (cc_type c) @ ''.''))
      else if (case (cc_min c, cc_max c) of (Some lo, Some hi) \<Rightarrow> lo > hi | _ \<Rightarrow> False)
      then Some (fail_check ''context_constraint_bounds_valid''
        (''Context constraint '' @ cc_key c @ '' declares min greater than max.''))
      else if (case cc_maxLength c of None \<Rightarrow> False | Some l \<Rightarrow> cc_type c \<noteq> Type_string \<or> l < 1)
      then Some (fail_check ''context_constraint_bounds_valid''
        (''Context constraint '' @ cc_key c @ '' has an invalid maxLength bound.''))
      else first_some (\<lambda>v. if value_matches_type v (cc_type c) then None
        else Some (fail_check ''context_constraint_bounds_valid''
          (''Context constraint '' @ cc_key c @ '' has an allowed value with the wrong type.'')))
        (coalesce (cc_allowedValues c) []))"

definition check_context_constraints :: "policy_model \<Rightarrow> policy_check list" where
  "check_context_constraints m =
     (let unique = check_unique ''context_constraints_unique'' (map cc_key (pm_contextConstraints m)) in
      if pc_status unique = Check_fail then [unique]
      else case first_some context_constraint_failure (pm_contextConstraints m) of
        Some f \<Rightarrow> [f]
      | None \<Rightarrow>
          [pass_check ''context_constraint_types_known'' ''Context constraint types are supported.'',
           pass_check ''context_constraint_bounds_valid'' ''Context constraint bounds are valid.''])"

definition context_condition_failure ::
  "policy_caveat \<Rightarrow> caveat_condition \<Rightarrow> (string, policy_context_constraint) js_map \<Rightarrow> policy_check option" where
  "context_condition_failure cv cond ctx =
     (case map_get ctx (cond_key cond) of
        None \<Rightarrow> Some (fail_check ''policy_caveat_context_known''
          (''Policy caveat '' @ caveat_name cv @ '' references unknown context key '' @ cond_key cond @ ''.''))
      | Some c \<Rightarrow>
          if cc_type c \<noteq> cond_type cond then Some (fail_check ''policy_caveat_conditions_typed''
            (''Policy caveat '' @ caveat_name cv @ '' type does not match context key '' @ cond_key cond @ ''.''))
          else if cc_required c \<noteq> Some True \<or> cc_auditable c \<noteq> Some True
          then Some (fail_check ''policy_caveat_context_auditable''
            (''Policy caveat '' @ caveat_name cv @ '' requires '' @ cond_key cond @ '' to be required and auditable.''))
          else if \<not> context_constraint_is_bounded c cond then Some (fail_check ''policy_caveat_context_bounded''
            (''Policy caveat '' @ caveat_name cv @ '' requires bounded context key '' @ cond_key cond @ ''.''))
          else None)"

definition validate_caveat_condition ::
  "policy_caveat \<Rightarrow> caveat_condition \<Rightarrow> (string, policy_context_constraint) js_map \<Rightarrow> policy_check option" where
  "validate_caveat_condition cv cond ctx =
     (if \<not> supported_context_type (cond_type cond) \<or> \<not> supported_caveat_operator (cond_operator cond)
      then Some (fail_check ''policy_caveat_conditions_typed''
        (''Policy caveat '' @ caveat_name cv @ '' uses an unsupported condition type or operator.''))
      else if \<not> operator_matches_type (cond_operator cond) (cond_type cond)
      then Some (fail_check ''policy_caveat_conditions_typed''
        (''Policy caveat '' @ caveat_name cv @ '' operator '' @ operator_text (cond_operator cond)
          @ '' is not supported for '' @ context_type_text (cond_type cond) @ ''.''))
      else if \<not> condition_value_matches_type (cond_value cond) (cond_type cond) (cond_operator cond)
      then Some (fail_check ''policy_caveat_conditions_typed''
        (''Policy caveat '' @ caveat_name cv @ '' compares '' @ cond_key cond @ '' to a value with the wrong type.''))
      else case (if cond_source cond = From_context then context_condition_failure cv cond ctx else None) of
        Some f \<Rightarrow> Some f
      | None \<Rightarrow>
          if cond_source cond = From_environment \<and> (cond_key cond \<noteq> ''evaluatedAt'' \<or> cond_type cond \<noteq> Type_datetime)
          then Some (fail_check ''policy_caveat_conditions_typed''
            (''Policy caveat '' @ caveat_name cv @ '' can only use environment.evaluatedAt datetime conditions.''))
          else None)"

definition model_caveats :: "policy_model \<Rightarrow> policy_caveat list" where
  "model_caveats m = coalesce (pm_caveats m) []"

definition model_conditionals :: "policy_model \<Rightarrow> conditional_relationship list" where
  "model_conditionals m = coalesce (pm_conditionalRelationships m) []"

definition caveat_failure ::
  "(string, policy_context_constraint) js_map \<Rightarrow> policy_caveat \<Rightarrow> policy_check option" where
  "caveat_failure ctx cv =
     (if \<not> caveat_failClosed cv \<or> caveat_reasonCode cv = [] then Some (fail_check ''policy_caveats_fail_closed''
        (''Policy caveat '' @ caveat_name cv @ '' must declare a fail-closed reason code.''))
      else if caveat_conditions cv = [] then Some (fail_check ''policy_caveat_conditions_declared''
        (''Policy caveat '' @ caveat_name cv @ '' must declare at least one condition.''))
      else first_some (\<lambda>cond. validate_caveat_condition cv cond ctx) (caveat_conditions cv))"

definition check_caveats :: "policy_model \<Rightarrow> policy_check" where
  "check_caveats m =
     (let ctx = map_put_all cc_key (pm_contextConstraints m) [];
          unique = check_unique ''policy_caveats_unique'' (map caveat_name (model_caveats m))
      in if pc_status unique = Check_fail then unique
      else first_failure (caveat_failure ctx) (model_caveats m)
        (pass_check ''policy_caveats_fail_closed'' ''Policy caveats are typed and fail closed.''))"

subsection \<open>Conditional relationships\<close>

text \<open>
  The set of bindings \<open>relation:action\<close> seen so far is threaded through the loops. As in the
  code, a duplicate ends the whole check.
\<close>

fun add_bindings :: "string \<Rightarrow> string list \<Rightarrow> string list \<Rightarrow> policy_check + string list" where
  "add_bindings r [] seen = Inr seen"
| "add_bindings r (a # as) seen =
     (let binding = r @ '':'' @ a in
      if binding \<in> set seen then Inl (fail_check ''conditional_relationships_unique''
        (''Conditional relationship '' @ r @ '' has duplicate conditionals for action '' @ a @ ''.''))
      else add_bindings r as (set_add binding seen))"

definition scoped_actions :: "string list \<Rightarrow> conditional_relationship \<Rightarrow> string list" where
  "scoped_actions actionNames c = coalesce (cr_actions c) (sort actionNames)"

definition check_conditional ::
  "string list \<Rightarrow> string list \<Rightarrow> string list \<Rightarrow> conditional_relationship \<Rightarrow> string list \<Rightarrow> policy_check + string list" where
  "check_conditional relationNames actionNames caveatNames c seen =
     (let r = cr_relation c;
          scoped = scoped_actions actionNames c;
          uniqueScoped = fold set_add scoped []
      in if r \<notin> set relationNames then Inl (fail_check ''conditional_relationships_known''
           (''Conditional relationship references unknown relation '' @ r @ ''.''))
      else if cr_caveats c = [] then Inl (fail_check ''conditional_relationships_caveats_known''
           (''Conditional relationship '' @ r @ '' must name at least one caveat.''))
      else case first_some (\<lambda>cv. if cv \<in> set caveatNames then None
             else Some (fail_check ''conditional_relationships_caveats_known''
               (''Conditional relationship '' @ r @ '' references unknown caveat '' @ cv @ ''.''))) (cr_caveats c) of
        Some f \<Rightarrow> Inl f
      | None \<Rightarrow>
      (if cr_actions c = Some [] then Inl (fail_check ''conditional_relationships_actions_known''
           (''Conditional relationship '' @ r @ '' must name at least one action when actions are declared.''))
       else case first_some (\<lambda>a. if a \<in> set actionNames then None
             else Some (fail_check ''conditional_relationships_actions_known''
               (''Conditional relationship '' @ r @ '' references unknown action '' @ a @ ''.''))) (coalesce (cr_actions c) []) of
        Some f \<Rightarrow> Inl f
      | None \<Rightarrow>
      (if length uniqueScoped \<noteq> length scoped then Inl (fail_check ''conditional_relationships_unique''
           (''Conditional relationship '' @ r @ '' declares duplicate actions.''))
       else add_bindings r uniqueScoped seen)))"

fun check_conditionals_from ::
  "string list \<Rightarrow> string list \<Rightarrow> string list \<Rightarrow> conditional_relationship list \<Rightarrow> string list \<Rightarrow> policy_check option" where
  "check_conditionals_from relationNames actionNames caveatNames [] seen = None"
| "check_conditionals_from relationNames actionNames caveatNames (c # cs) seen =
     (case check_conditional relationNames actionNames caveatNames c seen of
        Inl f \<Rightarrow> Some f
      | Inr seen' \<Rightarrow> check_conditionals_from relationNames actionNames caveatNames cs seen')"

definition check_conditional_relationships :: "policy_model \<Rightarrow> string list \<Rightarrow> string list \<Rightarrow> policy_check list" where
  "check_conditional_relationships m relationNames actionNames =
     (case check_conditionals_from relationNames actionNames (map caveat_name (model_caveats m)) (model_conditionals m) [] of
        Some f \<Rightarrow> [f]
      | None \<Rightarrow>
          [pass_check ''conditional_relationships_unique''
             ''Conditional relationship relation/action bindings are unique.'',
           pass_check ''conditional_relationships_known''
             ''Conditional relationships reference known relations, actions, and caveats.''])"

subsection \<open>Explanation policy, migrations, metadata\<close>

definition check_explanation_policy :: "policy_model \<Rightarrow> policy_check" where
  "check_explanation_policy m =
     (case pm_explanation m of
        None \<Rightarrow> pass_check ''deterministic_explanation_policy'' ''No advanced explanation policy is declared.''
      | Some e \<Rightarrow>
          if \<not> ex_deterministic e
          then fail_check ''deterministic_explanation_policy'' ''Explanation policy must be deterministic.''
          else case first_some (\<lambda>k. if k \<in> set (map cc_key (pm_contextConstraints m)) then None
              else Some (fail_check ''deterministic_explanation_policy''
                (''Explanation policy references unknown context key '' @ k @ ''.''))) (ex_includeContextKeys e) of
            Some f \<Rightarrow> f
          | None \<Rightarrow>
          (case first_some (\<lambda>c. if c \<in> set (map caveat_name (model_caveats m)) then None
              else Some (fail_check ''deterministic_explanation_policy''
                (''Explanation policy references unknown caveat '' @ c @ ''.''))) (ex_includeCaveatNames e) of
            Some f \<Rightarrow> f
          | None \<Rightarrow> pass_check ''deterministic_explanation_policy''
              ''Explanation policy references known context keys and caveats.''))"

fun check_migrations_from :: "string \<Rightarrow> string list \<Rightarrow> policy_migration list \<Rightarrow> policy_check" where
  "check_migrations_from expected seen [] = pass_check ''migrations_ordered'' ''Migrations are ordered and reviewable.''"
| "check_migrations_from expected seen (g # gs) =
     (if mig_fromVersion g \<noteq> expected then fail_check ''migrations_ordered''
        (''Migration from '' @ mig_fromVersion g @ '' does not follow expected version '' @ expected @ ''.'')
      else if mig_toVersion g = mig_fromVersion g \<or> mig_toVersion g \<in> set seen then fail_check ''migrations_acyclic''
        (''Migration '' @ mig_fromVersion g @ '' -> '' @ mig_toVersion g @ '' would create a policy version cycle.'')
      else if mig_operations g = [] then fail_check ''migrations_have_operations''
        (''Migration '' @ mig_fromVersion g @ '' -> '' @ mig_toVersion g @ '' must declare operations.'')
      else check_migrations_from (mig_toVersion g) (set_add (mig_toVersion g) seen) gs)"

definition check_migrations :: "policy_model \<Rightarrow> policy_check" where
  "check_migrations m = check_migrations_from (pm_version m) [pm_version m] (pm_migrations m)"

definition record_field :: "json_record option \<Rightarrow> string \<Rightarrow> js" where
  "record_field r k = (case r of None \<Rightarrow> JUndefined | Some fs \<Rightarrow> coalesce (map_get fs k) JUndefined)"

definition nullish :: "js \<Rightarrow> bool" where
  "nullish v \<longleftrightarrow> v = JUndefined \<or> v = JNull"

definition check_generated_metadata :: "policy_model \<Rightarrow> policy_check" where
  "check_generated_metadata m =
     (let source = record_field (pm_metadata m) ''source'';
          origin = (if nullish source then record_field (pm_metadata m) ''generatedBy'' else source)
      in if strict_equals origin (JStr ''llm'')
      then \<lparr>pc_name = ''generated_policy_validated'', pc_status = Check_warn,
             pc_message = ''Generated policy metadata is allowed only after the same deterministic validation passes.''\<rparr>
      else pass_check ''generated_policy_validated'' ''No generated-policy bypass metadata is present.'')"

subsection \<open>The validation\<close>

definition model_relation_names :: "policy_model \<Rightarrow> string list" where
  "model_relation_names m = fold set_add (map relation_name (pm_relations m)) []"

definition model_action_names :: "policy_model \<Rightarrow> string list" where
  "model_action_names m = fold set_add (map action_name (pm_actions m)) []"

definition validation_checks :: "policy_model \<Rightarrow> policy_check list" where
  "validation_checks m =
     (let relationNames = model_relation_names m; actionNames = model_action_names m in
      [check_schema_version m,
       check_unique ''resource_types_unique'' (map rt_type (pm_resourceTypes m)),
       check_unique ''relations_unique'' (map relation_name (pm_relations m)),
       check_unique ''actions_unique'' (map action_name (pm_actions m))]
      @ check_known_resource_types m
      @ [check_relations m,
         check_action_mappings m relationNames,
         check_inheritance_rules m relationNames actionNames,
         check_deny_rules m relationNames actionNames,
         check_tenant_boundary m,
         check_classification_constraints m actionNames]
      @ check_context_constraints m
      @ [check_caveats m]
      @ check_conditional_relationships m relationNames actionNames
      @ [check_explanation_policy m, check_migrations m, check_generated_metadata m])"

definition validate_policy_model :: "policy_model \<Rightarrow> policy_validation" where
  "validate_policy_model m =
     \<lparr>pv_valid = list_all (\<lambda>c. pc_status c \<noteq> Check_fail) (validation_checks m), pv_checks = validation_checks m\<rparr>"

subsection \<open>What a valid model satisfies\<close>

lemma set_model_names [simp]:
  "set (model_relation_names m) = relation_name ` set (pm_relations m)"
  "set (model_action_names m) = action_name ` set (pm_actions m)"
  by (simp_all add: model_relation_names_def model_action_names_def)

lemma distinct_fold_set_add [simp]: "distinct s \<Longrightarrow> distinct (fold set_add xs s)"
  by (induction xs arbitrary: s) auto

lemma set_relation_names_of_kind [simp]:
  "set (relation_names_of_kind m k) = relations_of_kind (pm_relations m) k"
  by (auto simp: relation_names_of_kind_def relations_of_kind_def)

lemma valid_checks: "pv_valid (validate_policy_model m) \<Longrightarrow> c \<in> set (validation_checks m) \<Longrightarrow> pc_status c \<noteq> Check_fail"
  by (simp add: validate_policy_model_def list_all_iff)

lemma member_check_fails [simp]:
  "only_fails (\<lambda>x. if P x then None else Some (fail_check n (msg x)))"
  by (simp add: only_fails_def)

lemma failures_only_fail [simp]:
  "only_fails (action_mapping_failure m rn)"
  "only_fails (inheritance_rule_failure m rn an)"
  "only_fails (deny_rule_failure m rn an)"
  by (auto simp: only_fails_def action_mapping_failure_def inheritance_rule_failure_def deny_rule_failure_def Let_def
      split: if_splits dest!: first_some_mem)

lemma context_condition_fails: "context_condition_failure cv cond ctx = Some c \<Longrightarrow> pc_status c = Check_fail"
  by (auto simp: context_condition_failure_def split: option.splits if_splits)

lemma caveat_condition_fails: "validate_caveat_condition cv cond ctx = Some c \<Longrightarrow> pc_status c = Check_fail"
  by (auto simp: validate_caveat_condition_def split: if_splits option.splits dest: context_condition_fails)

lemma caveat_failure_only_fails [simp]: "only_fails (caveat_failure ctx)"
  by (auto simp: only_fails_def caveat_failure_def split: if_splits dest!: first_some_mem caveat_condition_fails)

lemma valid_action:
  assumes "pv_valid (validate_policy_model m)" "a \<in> set (pm_actions m)"
  shows "action_grants a \<noteq> []" and "set (action_grants a) \<subseteq> relations_of_kind (pm_relations m) Grant"
proof -
  have "pc_status (check_action_mappings m (model_relation_names m)) \<noteq> Check_fail"
    by (rule valid_checks [OF assms(1)]) (simp add: validation_checks_def Let_def)
  then have "action_mapping_failure m (model_relation_names m) a = None"
    using assms(2) first_failure_passes [OF failures_only_fail(1)] by (simp add: check_action_mappings_def)
  then show "action_grants a \<noteq> []" "set (action_grants a) \<subseteq> relations_of_kind (pm_relations m) Grant"
    by (auto simp: action_mapping_failure_def first_some_None split: if_splits)
qed

lemma valid_inheritance_rule:
  assumes "pv_valid (validate_policy_model m)" "r \<in> set (pm_inheritanceRules m)"
  shows "inh_through r \<in> relations_of_kind (pm_relations m) Membership \<union> relations_of_kind (pm_relations m) Containment"
    and "inh_actions r \<noteq> []" and "set (inh_actions r) \<subseteq> action_name ` set (pm_actions m)"
proof -
  have "pc_status (check_inheritance_rules m (model_relation_names m) (model_action_names m)) \<noteq> Check_fail"
    by (rule valid_checks [OF assms(1)]) (simp add: validation_checks_def Let_def)
  then have "inheritance_rule_failure m (model_relation_names m) (model_action_names m) r = None"
    using assms(2) first_failure_passes [OF failures_only_fail(2)]
    by (auto simp: check_inheritance_rules_def split: if_splits)
  then show "inh_through r \<in> relations_of_kind (pm_relations m) Membership \<union> relations_of_kind (pm_relations m) Containment"
      "inh_actions r \<noteq> []" "set (inh_actions r) \<subseteq> action_name ` set (pm_actions m)"
    by (auto simp: inheritance_rule_failure_def first_some_None Let_def split: if_splits)
qed

lemma valid_has_action:
  assumes "pv_valid (validate_policy_model m)"
  shows "pm_actions m \<noteq> []"
proof -
  have "pc_status (check_inheritance_rules m (model_relation_names m) (model_action_names m)) \<noteq> Check_fail"
    by (rule valid_checks [OF assms(1)]) (simp add: validation_checks_def Let_def)
  then obtain r where "r \<in> set (pm_inheritanceRules m)"
    by (cases "pm_inheritanceRules m") (auto simp: check_inheritance_rules_def)
  from valid_inheritance_rule [OF assms this] show ?thesis by auto
qed

lemma valid_deny_rule:
  assumes "pv_valid (validate_policy_model m)" "r \<in> set (pm_denyRules m)"
  shows "deny_relation r \<in> relations_of_kind (pm_relations m) Deny_kind" and "deny_actions r \<noteq> Some []"
    and "set (coalesce (deny_actions r) []) \<subseteq> action_name ` set (pm_actions m)"
proof -
  have "pc_status (check_deny_rules m (model_relation_names m) (model_action_names m)) \<noteq> Check_fail"
    by (rule valid_checks [OF assms(1)]) (simp add: validation_checks_def Let_def)
  then have "deny_rule_failure m (model_relation_names m) (model_action_names m) r = None"
    using assms(2) first_failure_passes [OF failures_only_fail(3)]
    by (auto simp: check_deny_rules_def split: if_splits)
  then show "deny_relation r \<in> relations_of_kind (pm_relations m) Deny_kind" "deny_actions r \<noteq> Some []"
      "set (coalesce (deny_actions r) []) \<subseteq> action_name ` set (pm_actions m)"
    by (auto simp: deny_rule_failure_def first_some_None split: if_splits)
qed

lemma repeated_empty: "repeated seen vs = [] \<longleftrightarrow> distinct vs \<and> set vs \<inter> set seen = {}"
  by (induction vs arbitrary: seen) auto

lemma check_unique_passes: "pc_status (check_unique n vs) \<noteq> Check_fail \<longleftrightarrow> distinct vs"
  by (auto simp: check_unique_def Let_def repeated_empty)

lemma valid_caveat:
  assumes "pv_valid (validate_policy_model m)" "cv \<in> set (model_caveats m)"
  shows "caveat_failClosed cv" and "caveat_conditions cv \<noteq> []" and "distinct (map caveat_name (model_caveats m))"
proof -
  have st: "pc_status (check_caveats m) \<noteq> Check_fail"
    by (rule valid_checks [OF assms(1)]) (simp add: validation_checks_def Let_def)
  then have u: "pc_status (check_unique ''policy_caveats_unique'' (map caveat_name (model_caveats m))) \<noteq> Check_fail"
    by (auto simp: check_caveats_def Let_def)
  then show "distinct (map caveat_name (model_caveats m))" by (simp only: check_unique_passes)
  from st u have "caveat_failure (map_put_all cc_key (pm_contextConstraints m) []) cv = None"
    using assms(2) first_failure_passes [OF caveat_failure_only_fails] by (simp add: check_caveats_def)
  then show "caveat_failClosed cv" "caveat_conditions cv \<noteq> []"
    by (auto simp: caveat_failure_def split: if_splits)
qed

text \<open>Bindings of a relation and an action are never declared by two conditional relationships.\<close>

lemma add_bindings_ok:
  "add_bindings r as seen = Inr seen' \<Longrightarrow>
     set seen' = set seen \<union> (\<lambda>a. r @ '':'' @ a) ` set as \<and> set seen \<inter> (\<lambda>a. r @ '':'' @ a) ` set as = {}"
proof (induction as arbitrary: seen)
  case (Cons a as)
  then have "r @ '':'' @ a \<notin> set seen" and "add_bindings r as (set_add (r @ '':'' @ a) seen) = Inr seen'"
    by (auto simp: Let_def split: if_splits)
  from Cons.IH [OF this(2)] this(1) show ?case by auto
qed simp

lemma length_filter_mono:
  "(\<And>x. x \<in> set xs \<Longrightarrow> P x \<Longrightarrow> Q x) \<Longrightarrow> length (filter P xs) \<le> length (filter Q xs)"
  by (induction xs) (auto intro: le_SucI)

lemma check_conditional_ok:
  assumes "check_conditional rn an cn c seen = Inr seen'"
  shows "set seen' = set seen \<union> (\<lambda>a. cr_relation c @ '':'' @ a) ` set (scoped_actions an c)"
    and "set seen \<inter> (\<lambda>a. cr_relation c @ '':'' @ a) ` set (scoped_actions an c) = {}"
    and "set (coalesce (cr_actions c) []) \<subseteq> set an" and "set (cr_caveats c) \<subseteq> set cn"
    and "cr_actions c \<noteq> Some []"
  using assms by (auto simp: check_conditional_def Let_def first_some_None split: if_splits option.splits
      dest!: add_bindings_ok)

definition binds :: "string list \<Rightarrow> string \<Rightarrow> string \<Rightarrow> conditional_relationship \<Rightarrow> bool" where
  "binds an r a c \<longleftrightarrow> cr_relation c = r \<and> a \<in> set (scoped_actions an c)"

lemma bindings_unique:
  assumes "check_conditionals_from rn an cn cs seen = None"
  shows "length (filter (binds an r a) cs) \<le> (if r @ '':'' @ a \<in> set seen then 0 else 1)"
  using assms
proof (induction cs arbitrary: seen)
  case (Cons c cs)
  then obtain seen' where s: "check_conditional rn an cn c seen = Inr seen'"
    and rest: "check_conditionals_from rn an cn cs seen' = None"
    by (auto split: sum.splits)
  note ok = check_conditional_ok [OF s]
  from Cons.IH [OF rest] ok(1,2) show ?case by (auto simp: binds_def split: if_splits)
qed simp

lemma conditionals_ok:
  "check_conditionals_from rn an cn cs seen = None \<Longrightarrow> c \<in> set cs \<Longrightarrow>
     \<exists>s s'. check_conditional rn an cn c s = Inr s'"
  by (induction cs arbitrary: seen) (auto split: sum.splits)

text \<open>
  The conditional relationships the engine applies to a step with relation \<open>r\<close> of a request
  for action \<open>a\<close> (the two \<open>filter\<close> calls of \<open>evaluateConditionalRelationshipCaveats\<close>).
\<close>

definition conditional_in_scope :: "string \<Rightarrow> conditional_relationship \<Rightarrow> bool" where
  "conditional_in_scope a c = (case cr_actions c of None \<Rightarrow> True | Some as \<Rightarrow> a \<in> set as)"

definition matching_conditionals :: "policy_model \<Rightarrow> string \<Rightarrow> string \<Rightarrow> conditional_relationship list" where
  "matching_conditionals m a r =
     filter (\<lambda>c. cr_relation c = r) (filter (conditional_in_scope a) (model_conditionals m))"

lemma valid_conditionals:
  assumes "pv_valid (validate_policy_model m)"
  shows "check_conditionals_from (model_relation_names m) (model_action_names m)
           (map caveat_name (model_caveats m)) (model_conditionals m) [] = None"
proof (rule ccontr)
  let ?k = "check_conditionals_from (model_relation_names m) (model_action_names m)
           (map caveat_name (model_caveats m)) (model_conditionals m) []"
  have fails: "pc_status f = Check_fail"
    if "check_conditionals_from rn an cn cs seen = Some f" for rn an cn cs seen f
  proof -
    have add: "add_bindings r as s = Inl f \<Longrightarrow> pc_status f = Check_fail" for r as s
      by (induction as arbitrary: s) (auto simp: Let_def split: if_splits)
    have "check_conditional rn an cn c s = Inl f \<Longrightarrow> pc_status f = Check_fail" for c s
      by (auto simp: check_conditional_def Let_def split: if_splits option.splits dest!: add first_some_mem)
    with that show ?thesis by (induction cs arbitrary: seen) (auto split: sum.splits)
  qed
  assume "?k \<noteq> None"
  then obtain f where f: "?k = Some f" by blast
  then have "f \<in> set (validation_checks m)"
    by (simp add: validation_checks_def check_conditional_relationships_def Let_def)
  from valid_checks [OF assms this] fails [OF f] show False by simp
qed

lemma at_most_one_conditional:
  assumes valid: "pv_valid (validate_policy_model m)"
  shows "length (matching_conditionals m a r) \<le> 1"
proof -
  let ?an = "model_action_names m" and ?cs = "model_conditionals m"
  note none = valid_conditionals [OF valid]
  obtain b where b: "b \<in> set ?an" using valid_has_action [OF valid] by (cases "pm_actions m") auto
  define a' where "a' = (if a \<in> set ?an then a else b)"
  have "binds ?an r a' c" if "c \<in> set ?cs" "cr_relation c = r" "conditional_in_scope a c" for c
  proof -
    from conditionals_ok [OF none that(1)] obtain s s' where
      "check_conditional (model_relation_names m) ?an (map caveat_name (model_caveats m)) c s = Inr s'" by blast
    from check_conditional_ok(3) [OF this] that b show ?thesis
      by (cases "cr_actions c") (auto simp: binds_def scoped_actions_def conditional_in_scope_def a'_def)
  qed
  then have "length (matching_conditionals m a r) \<le> length (filter (binds ?an r a') ?cs)"
    unfolding matching_conditionals_def filter_filter by (intro length_filter_mono) auto
  also have "\<dots> \<le> 1"
    using bindings_unique [OF none, of r a'] by simp
  finally show ?thesis .
qed


subsection \<open>Properties\<close>

text \<open>
  compilation fails exactly on a relation kind that is not one of the four, and
  otherwise yields, for every action key, exactly the declared relations of the right kind:
  the grants of the actions with that lower-cased name, the membership and containment
  relations the inheritance rules name for it, and the deny relations of the unscoped deny
  rules and of the rules scoped to it.
\<close>
theorem compile_policy_model_meaning:
  "case compile_policy_model m of
     Inl _ \<Rightarrow> \<exists>r \<in> set (pm_relations m). \<exists>k. relation_kind r = Unsupported_kind k
   | Inr c \<Rightarrow>
       set (membershipRelations c) = relations_of_kind (pm_relations m) Membership \<and>
       set (containmentRelations c) = relations_of_kind (pm_relations m) Containment \<and>
       (\<forall>k. set_at (grantRelationsByAction c) k =
          {g \<in> relations_of_kind (pm_relations m) Grant.
             \<exists>a \<in> set (pm_actions m). to_lower_case (action_name a) = k \<and> g \<in> set (action_grants a)}) \<and>
       (\<forall>k. set_at (traversalRelationsByAction c) k =
          {t \<in> relations_of_kind (pm_relations m) Membership \<union> relations_of_kind (pm_relations m) Containment.
             \<exists>r \<in> set (pm_inheritanceRules m). inh_through r = t \<and> k \<in> to_lower_case ` set (inh_actions r)}) \<and>
       (\<forall>k. set (deny_relations_for c k) =
          {d \<in> relations_of_kind (pm_relations m) Deny_kind.
             \<exists>r \<in> set (pm_denyRules m). deny_relation r = d \<and> (deny_actions r = None \<or> scopes_deny r k)})"
proof (cases "compile_policy_model m")
  case (Inl e)
  then show ?thesis using compile_error_iff [of m] by simp
next
  case (Inr c)
  then show ?thesis using compile_sets [OF Inr] by simp
qed

text \<open>
  C37: compiling a valid model drops nothing it declares: every grant of every action, every
  inheritance rule for each of its actions, and every deny rule for the actions it is scoped
  to, or for every action when it is unscoped, is in force in the compiled policy.
\<close>
theorem valid_model_fully_compiled:
  assumes valid: "pv_valid (validate_policy_model m)" and compiled: "compile_policy_model m = Inr c"
  shows "(\<forall>a \<in> set (pm_actions m). \<forall>g \<in> set (action_grants a).
            g \<in> set_at (grantRelationsByAction c) (to_lower_case (action_name a))) \<and>
         (\<forall>r \<in> set (pm_inheritanceRules m). \<forall>a \<in> set (inh_actions r).
            inh_through r \<in> set_at (traversalRelationsByAction c) (to_lower_case a)) \<and>
         (\<forall>r \<in> set (pm_denyRules m). \<forall>k. deny_actions r = None \<longrightarrow> deny_relation r \<in> set (deny_relations_for c k)) \<and>
         (\<forall>r \<in> set (pm_denyRules m). \<forall>a \<in> set (coalesce (deny_actions r) []).
            deny_relation r \<in> set (deny_relations_for c (to_lower_case a)))"
  using valid_action(2) [OF valid] valid_inheritance_rule(1) [OF valid] valid_deny_rule(1) [OF valid]
  by (auto simp: compile_sets [OF compiled] scopes_deny_def coalesce_def split: option.splits)

text \<open>A model with a caveat on one grant relation, for the examples.\<close>

definition caveat_policy_model :: policy_model where
  "caveat_policy_model = default_policy_model
     \<lparr>pm_contextConstraints :=
        [\<lparr>cc_key = ''riskScore'', cc_type = Type_number, cc_required = Some True, cc_auditable = Some True,
          cc_min = Some 0, cc_max = Some 100, cc_maxLength = None, cc_allowedValues = None\<rparr>],
      pm_caveats := Some
        [\<lparr>caveat_name = ''low-risk'', caveat_failClosed = True, caveat_reasonCode = ''DENY_RISK_TOO_HIGH'',
          caveat_conditions = [\<lparr>cond_source = From_context, cond_key = ''riskScore'', cond_type = Type_number,
            cond_operator = Less_than_or_equal, cond_value = JNum 50\<rparr>]\<rparr>],
      pm_conditionalRelationships := Some
        [\<lparr>cr_relation = ''viewer_of'', cr_caveats = [''low-risk''], cr_actions = Some [''read'']\<rparr>]\<rparr>"

lemma caveat_policy_model_valid: "pv_valid (validate_policy_model caveat_policy_model)"
  by code_simp

lemma valid_model_fully_compiled_witness:
  "\<exists>c. compile_policy_model caveat_policy_model = Inr c \<and>
     ''viewer_of'' \<in> set_at (grantRelationsByAction c) ''read''"
proof -
  have "case compile_policy_model caveat_policy_model of Inl _ \<Rightarrow> False | Inr _ \<Rightarrow> True" by code_simp
  then obtain c where c: "compile_policy_model caveat_policy_model = Inr c" by (auto split: sum.splits)
  have "\<lparr>action_name = ''read'', action_grants = [''viewer_of'', ''reader_of'', ''contributor_to'', ''owner_of'', ''admin_of'']\<rparr>
      \<in> set (pm_actions caveat_policy_model)" by code_simp
  from valid_model_fully_compiled [OF caveat_policy_model_valid c, THEN conjunct1, rule_format, OF this, of "''viewer_of''"]
  have "''viewer_of'' \<in> set_at (grantRelationsByAction c) (to_lower_case ''read'')" by simp
  moreover have "to_lower_case ''read'' = ''read''" by code_simp
  ultimately show ?thesis using c by auto
qed

text \<open>
  In a valid model at most one conditional relationship applies to a step of a decision
  path, whatever the requested action, so that the engine never meets the ambiguity it
  reports as an invalid caveat.
\<close>
theorem valid_model_conditionals_unique:
  assumes "pv_valid (validate_policy_model m)"
  shows "length (matching_conditionals m a r) \<le> 1"
  using assms by (rule at_most_one_conditional)

lemma valid_model_conditionals_unique_witness:
  "length (matching_conditionals caveat_policy_model ''read'' ''viewer_of'') \<le> 1 \<and>
   matching_conditionals caveat_policy_model ''read'' ''viewer_of'' \<noteq> []"
proof -
  have "matching_conditionals caveat_policy_model ''read'' ''viewer_of'' \<noteq> []" by code_simp
  with valid_model_conditionals_unique [OF caveat_policy_model_valid, of "''read''" "''viewer_of''"]
  show ?thesis by simp
qed

text \<open>
  the built-in model is valid and compiles to its declared table: the grants of each of
  the seven actions, membership and containment for each of them, and \<open>denied_read\<close> on top
  of the two unscoped deny relations for reading and viewing.
\<close>
theorem default_policy_model_compiles:
  "pv_valid (validate_policy_model default_policy_model) \<and>
   compile_policy_model default_policy_model = Inr
     \<lparr>membershipRelations = [''member_of''], containmentRelations = [''contains''],
      grantRelationsByAction = default_action_grants,
      traversalRelationsByAction = map (\<lambda>(a, _). (a, [''member_of'', ''contains''])) default_action_grants,
      denyRelationsByAction =
        [(''read'', [''denied'', ''quarantined_from'', ''denied_read'']),
         (''view'', [''denied'', ''quarantined_from'', ''denied_read''])],
      unscopedDenyRelations = [''denied'', ''quarantined_from'']\<rparr>"
proof
  show "pv_valid (validate_policy_model default_policy_model)" by code_simp
  show "compile_policy_model default_policy_model = Inr
     \<lparr>membershipRelations = [''member_of''], containmentRelations = [''contains''],
      grantRelationsByAction = default_action_grants,
      traversalRelationsByAction = map (\<lambda>(a, _). (a, [''member_of'', ''contains''])) default_action_grants,
      denyRelationsByAction =
        [(''read'', [''denied'', ''quarantined_from'', ''denied_read'']),
         (''view'', [''denied'', ''quarantined_from'', ''denied_read''])],
      unscopedDenyRelations = [''denied'', ''quarantined_from'']\<rparr>" by code_simp
qed

text \<open>
  validation does not look at the kind of a relation: a model with a kind the compiler
  rejects passes every check, and the compiler throws on it.
\<close>
lemma valid_model_that_does_not_compile:
  "let m = default_policy_model\<lparr>pm_relations :=
       \<lparr>relation_name = ''watches'', relation_kind = Unsupported_kind ''observer'',
        relation_subjectTypes = [''user''], relation_objectTypes = [''document'']\<rparr> # default_relations\<rparr>
   in pv_valid (validate_policy_model m) \<and> compile_policy_model m = Inl (Unsupported_relation_kind ''observer'')"
  by code_simp

end
