(* ===== verification/Domain_Records.thy ===== *)
theory Domain_Records
  imports Domain
begin

text \<open>
  The operational records of \<open>packages/core/src/domain/\<close>: connector discovery runs,
  provisioning plans and jobs, enforcement readiness, drift findings and reconciliation
  runs, and the governance records (campaigns, findings, exception requests).
\<close>

subsection \<open>Connectors (connector.ts)\<close>

datatype discovery_run_status =
  Run_queued | Run_running | Run_completed | Run_completed_with_warnings | Run_failed

datatype discovery_warning_severity = Warn_info | Warn_warning | Warn_error

datatype discovery_warning_scope =
  Scope_connector | Scope_subjects | Scope_resources | Scope_relationships | Scope_native_grants

record discovery_run_counts =
  count_subjects :: nat
  count_resources :: nat
  count_relationships :: nat
  count_nativeGrants :: nat
  count_warnings :: nat

record discovery_run_warning =
  warn_code :: string
  warn_message :: string
  warn_severity :: discovery_warning_severity
  warn_scope :: discovery_warning_scope
  warn_retryable :: bool
  warn_objectId :: "canonical_id option"

datatype deleted_object_behavior = Mark_deleted | Ignore_deleted | Deletion_unsupported

record discovery_cursor =
  startedFrom :: "string option"
  cursor_next :: "string option"
  highWatermark :: string
  deletedObjectBehavior :: deleted_object_behavior

record discovery_evidence =
  ev_readOnly :: bool
  ev_schemas :: "string list"
  ev_connectorCapabilities :: "string list"
  ev_nativeAccessReadback :: bool

record discovery_run = versioned_entity +
  run_connectorId :: string
  run_status :: discovery_run_status
  run_startedAt :: iso_date_time
  run_completedAt :: "iso_date_time option"
  run_counts :: discovery_run_counts
  run_warnings :: "discovery_run_warning list"
  run_cursor :: "discovery_cursor option"
  run_evidence :: discovery_evidence
  run_auditEventIds :: "canonical_id list"

subsection \<open>Provisioning (provisioning.ts)\<close>

datatype provisioning_mode = Dry_run | Enforcement
datatype provisioning_operation = Op_grant | Op_revoke | Op_expire | Op_repair | Op_verify
datatype provisioning_step_status = Step_planned | Step_skipped | Step_verified | Step_applied | Step_failed
datatype provisioning_verification_status = Ver_pending | Ver_verified | Ver_skipped | Ver_failed
datatype provisioning_compensation_status = Comp_planned | Comp_not_required | Comp_skipped | Comp_failed
datatype enforcement_readiness_status = Readiness_ready | Readiness_blocked
datatype plan_status = Plan_planned | Plan_approved | Plan_applied | Plan_failed | Plan_rolled_back
datatype job_status = Job_queued | Job_running | Job_completed | Job_failed | Job_rolled_back

record provisioning_verification =
  ver_status :: provisioning_verification_status
  ver_method :: string
  ver_expectedState :: json_record
  ver_readbackState :: "json_record option"
  ver_checkedAt :: "iso_date_time option"
  ver_message :: "string option"

record provisioning_compensation =
  comp_operation :: provisioning_operation
  comp_reason :: string
  comp_status :: provisioning_compensation_status
  comp_idempotencyKey :: string

record provisioning_action =
  act_actionId :: canonical_id
  act_operation :: provisioning_operation
  act_targetPlatform :: string
  act_targetObjectId :: canonical_id
  act_requestedState :: json_record
  act_previousState :: "json_record option"
  act_dryRun :: bool
  act_idempotencyKey :: string
  act_status :: provisioning_step_status
  act_verification :: provisioning_verification
  act_compensation :: "provisioning_compensation option"

record provisioning_approval =
  approverId :: canonical_id
  changeTicket :: canonical_id
  approvedAt :: iso_date_time
  approval_expiresAt :: "iso_date_time option"
  approval_reason :: "string option"

record enforcement_control =
  syntheticOnly :: bool
  liveProviderWrites :: bool
  incidentMode :: bool
  breakGlass :: bool

record readiness_check =
  check_name :: string
  check_status_of :: check_status
  check_message :: string
  check_evidence :: "json_record option"

record enforcement_readiness_report = versioned_entity +
  rep_connectorId :: string
  rep_provider :: string
  rep_tenantBoundary :: string
  rep_status :: enforcement_readiness_status
  rep_checkedAt :: iso_date_time
  rep_control :: enforcement_control
  rep_checks :: "readiness_check list"
  rep_requiredApproverRole :: string
  rep_changeTicketPattern :: string
  rep_liveProviderWritesAllowed :: bool
  rep_auditEventIds :: "canonical_id list"

record provisioning_plan = versioned_entity +
  plan_sourceDecisionId :: "canonical_id option"
  plan_idempotencyKey :: "string option"
  plan_connectorId :: string
  plan_subjectId :: canonical_id
  plan_resourceId :: canonical_id
  plan_action :: string
  plan_mode :: provisioning_mode
  plan_status :: plan_status
  plan_actions :: "provisioning_action list"
  plan_approval :: "provisioning_approval option"
  plan_control :: "enforcement_control option"
  plan_readinessReportId :: "canonical_id option"

record provisioning_action_result =
  result_actionId :: canonical_id
  result_operation :: provisioning_operation
  result_status :: provisioning_step_status
  result_dryRun :: bool
  result_idempotencyKey :: string
  result_message :: string
  result_verification :: provisioning_verification
  result_compensation :: "provisioning_compensation option"

record provisioning_job = versioned_entity +
  job_planId :: canonical_id
  job_connectorId :: string
  job_mode :: provisioning_mode
  job_dryRun :: bool
  job_status :: job_status
  job_approverId :: canonical_id
  job_idempotencyKey :: string
  job_actionResults :: "provisioning_action_result list"
  job_verification :: provisioning_verification
  job_auditEventIds :: "canonical_id list"
  job_approval :: "provisioning_approval option"
  job_control :: "enforcement_control option"
  job_startedAt :: iso_date_time
  job_completedAt :: "iso_date_time option"

subsection \<open>Drift (drift.ts)\<close>

datatype drift_severity = Drift_low | Drift_medium | Drift_high | Drift_critical

datatype drift_lifecycle_state =
  Ds_open | Ds_triaged | Ds_accepted | Ds_remediation_pending | Ds_repairing | Ds_resolved | Ds_expired_exception

datatype drift_finding_status = Df_open | Df_accepted | Df_repairing | Df_resolved

datatype drift_recommended_action = Do_revoke | Do_exception | Do_repair | Do_review

datatype reconciliation_trigger = Manual_trigger | Scheduled_trigger

datatype schedule_cadence = Cadence_manual | Cadence_hourly | Cadence_daily | Cadence_weekly

record reconciliation_schedule =
  cadence :: schedule_cadence
  scheduledAt :: iso_date_time
  windowStart :: "iso_date_time option"
  windowEnd :: "iso_date_time option"
  nextRunAt :: "iso_date_time option"
  gracePeriodHours :: int
  overdue :: bool

datatype hook_system = Hook_ticket | Hook_siem
datatype hook_status = Hook_pending | Hook_linked | Hook_notified | Hook_failed

record drift_hook_evidence =
  hook_system :: hook_system
  hook_referenceId :: canonical_id
  hook_status :: hook_status
  hook_recordedAt :: iso_date_time
  hook_url :: "string option"
  hook_evidence :: "json_record option"

record drift_auto_repair_policy =
  repair_enabled :: bool
  repair_allowedActions :: "drift_recommended_action list"
  repair_maxSeverity :: drift_severity
  repair_requireApproval :: bool
  repair_requireConnectorReadiness :: bool
  repair_liveProviderWrites :: bool
  repair_reason :: "string option"

datatype dry_run_repair_status = Repair_planned | Repair_blocked | Repair_verified

record dry_run_repair_evidence =
  dry_planId :: canonical_id
  dry_action :: drift_recommended_action
  dry_status :: dry_run_repair_status
  dry_generatedAt :: iso_date_time
  dry_idempotencyKey :: string
  dry_evidence :: json_record

record drift_remediation =
  remediation_approval :: "provisioning_approval option"
  remediation_approvedAt :: "iso_date_time option"
  remediation_dryRunRepair :: "dry_run_repair_evidence option"

record drift_finding = versioned_entity +
  drift_resourceId :: canonical_id
  drift_subjectId :: canonical_id
  drift_nativeGrantId :: "canonical_id option"
  drift_nativeAccess :: string
  drift_intendedAccess :: string
  drift_severity :: drift_severity
  drift_lifecycleState :: drift_lifecycle_state
  drift_ownerId :: canonical_id
  drift_assigneeId :: canonical_id
  drift_detectedAt :: iso_date_time
  drift_exceptionExpiresAt :: "iso_date_time option"
  drift_sourceConnectorId :: string
  drift_recommendedAction :: drift_recommended_action
  drift_status :: drift_finding_status
  drift_schedule :: reconciliation_schedule
  drift_hookEvidence :: "drift_hook_evidence list"
  drift_remediation :: drift_remediation
  drift_autoRepairPolicy :: drift_auto_repair_policy

datatype reconciliation_status = Recon_completed | Recon_failed

record reconciliation_run = versioned_entity +
  recon_connectorId :: string
  recon_trigger :: reconciliation_trigger
  recon_schedule :: "reconciliation_schedule option"
  recon_status :: reconciliation_status
  recon_findings :: "drift_finding list"
  recon_count_findings :: nat
  recon_count_highOrCritical :: nat
  recon_auditEventIds :: "canonical_id list"
  recon_completedAt :: "iso_date_time option"

subsection \<open>Governance (governance.ts, evidence-governance.ts)\<close>

datatype approval_decision = Approval_pending | Approval_approved | Approval_rejected
datatype governance_source = Source_drift | Source_access_review | Source_manual
datatype remediation_status = Rem_open | Rem_planned | Rem_in_progress | Rem_completed | Rem_overdue
datatype risk_acceptance_status = Risk_pending | Risk_accepted | Risk_expired | Risk_revoked
datatype exception_request_status =
  Exc_requested | Exc_owner_approved | Exc_risk_accepted | Exc_expired | Exc_revoked | Exc_remediated
datatype campaign_status = Campaign_planned | Campaign_active | Campaign_completed
datatype governance_finding_status =
  Gov_open | Gov_risk_accepted | Gov_remediation_planned | Gov_remediated | Gov_expired

record governance_approval =
  approverRole :: string
  approval_decision :: approval_decision
  decidedAt :: "iso_date_time option"
  approval_evidenceRefs :: "string list"

record remediation_tracking =
  rem_status :: remediation_status
  rem_ownerRole :: string
  rem_plan :: string
  rem_dueAt :: iso_date_time
  rem_completedAt :: "iso_date_time option"
  rem_evidenceRefs :: "string list"
  rem_poamItemId :: canonical_id

record risk_acceptance =
  risk_status :: risk_acceptance_status
  risk_acceptedByRole :: "string option"
  risk_acceptedAt :: "iso_date_time option"
  risk_rationale :: string
  risk_residualRisk :: drift_severity
  risk_expiresAt :: iso_date_time
  risk_reviewRequiredAt :: iso_date_time
  risk_evidenceRefs :: "string list"

record access_review_campaign = versioned_entity +
  campaign_name :: string
  campaign_scope :: string
  campaign_ownerRole :: string
  campaign_reviewerRole :: string
  campaign_status :: campaign_status
  campaign_startedAt :: iso_date_time
  campaign_dueAt :: iso_date_time
  campaign_completedAt :: "iso_date_time option"
  campaign_subjectCount :: nat
  campaign_resourceCount :: nat
  campaign_findingIds :: "canonical_id list"
  campaign_exceptionRequestIds :: "canonical_id list"
  campaign_remediationItemIds :: "canonical_id list"
  campaign_sourceEventIds :: "canonical_id list"
  campaign_ownerApprovals :: "governance_approval list"

record governance_finding = versioned_entity +
  gov_campaignId :: canonical_id
  gov_subjectId :: canonical_id
  gov_resourceId :: canonical_id
  gov_action :: string
  gov_severity :: drift_severity
  gov_status :: governance_finding_status
  gov_source :: governance_source
  gov_sourceFindingId :: "canonical_id option"
  gov_ownerRole :: string
  gov_weakness :: string
  gov_recommendedAction :: drift_recommended_action
  gov_detectedAt :: iso_date_time
  gov_dueAt :: iso_date_time
  gov_controlId :: string
  gov_remediation :: remediation_tracking
  gov_exceptionRequestId :: "canonical_id option"
  gov_evidenceRefs :: "string list"

record exception_request = versioned_entity +
  exc_campaignId :: canonical_id
  exc_findingId :: canonical_id
  exc_subjectId :: canonical_id
  exc_resourceId :: canonical_id
  exc_action :: string
  exc_justification :: string
  exc_status :: exception_request_status
  exc_requesterRole :: string
  exc_ownerRole :: string
  exc_requestedAt :: iso_date_time
  exc_expiresAt :: iso_date_time
  exc_reviewRequiredAt :: iso_date_time
  exc_ownerApprovals :: "governance_approval list"
  exc_riskAcceptance :: risk_acceptance
  exc_remediation :: remediation_tracking
  exc_source :: governance_source
  exc_sourceFindingId :: "canonical_id option"
  exc_controlIds :: "string list"
  exc_evidenceRefs :: "string list"

end
