(* ===== verification/Rebac_Store.thy ===== *)
theory Rebac_Store
  imports Domain_Records Policy_Validation
begin

text \<open>
  \<open>packages/core/src/store.ts\<close>: \<open>InMemoryRebacStore\<close>, one record field per private map or
  list, one definition per method. A method that returns its argument is modelled by the
  state it leaves; a method that throws returns a sum. \<open>drift-finding-filter.ts\<close> is
  \<open>matches_drift_finding_filter\<close>.
\<close>

datatype policy_status = Policy_draft | Policy_validated | Policy_approved | Policy_published | Policy_rolled_back

record policy_summary =
  sum_id :: string
  sum_version :: string
  sum_status :: policy_status
  sum_createdAt :: string
  sum_publishedAt :: "string option"

record policy_draft =
  draft_name :: string
  draft_model :: policy_model
  draft_tests :: "json_record list"

record policy_record =
  pr_draft :: policy_draft
  pr_summary :: policy_summary
  pr_validation :: "policy_validation option"

record policy_idempotency =
  pi_key :: string
  pi_summary :: policy_summary

record seed_data =
  seed_subjects :: "subject list option"
  seed_resources :: "resource list option"
  seed_relationships :: "relationship list option"
  seed_nativeGrants :: "native_grant list option"
  seed_discoveryRuns :: "discovery_run list option"
  seed_readinessReports :: "enforcement_readiness_report list option"
  seed_provisioningPlans :: "provisioning_plan list option"
  seed_provisioningJobs :: "provisioning_job list option"
  seed_driftFindings :: "drift_finding list option"
  seed_campaigns :: "access_review_campaign list option"
  seed_governanceFindings :: "governance_finding list option"
  seed_exceptionRequests :: "exception_request list option"
  seed_reconciliationRuns :: "reconciliation_run list option"
  seed_decisions :: "decision_result list option"
  seed_auditEvents :: "audit_event list option"
  seed_degradations :: "persistence_degradation list option"
  seed_policies :: "policy_record list option"
  seed_policyIdempotency :: "policy_idempotency list option"

definition max_persistence_degradations :: nat where
  "max_persistence_degradations = 20"

record graph_size =
  size_subjects :: nat
  size_resources :: nat
  size_relationships :: nat

record rebac_store =
  st_subjects :: "(canonical_id, subject) js_map"
  st_resources :: "(canonical_id, resource) js_map"
  st_relationships :: "(canonical_id, relationship) js_map"
  st_bySubject :: "(canonical_id, relationship list) js_map"
  st_nativeGrants :: "(canonical_id, native_grant) js_map"
  st_discoveryRuns :: "(canonical_id, discovery_run) js_map"
  st_readinessReports :: "(canonical_id, enforcement_readiness_report) js_map"
  st_provisioningPlans :: "(canonical_id, provisioning_plan) js_map"
  st_provisioningJobs :: "(canonical_id, provisioning_job) js_map"
  st_driftFindings :: "(canonical_id, drift_finding) js_map"
  st_campaigns :: "(canonical_id, access_review_campaign) js_map"
  st_governanceFindings :: "(canonical_id, governance_finding) js_map"
  st_exceptionRequests :: "(canonical_id, exception_request) js_map"
  st_reconciliationRuns :: "(canonical_id, reconciliation_run) js_map"
  st_decisions :: "(canonical_id, decision_result) js_map"
  st_auditEvents :: "audit_event list"
  st_degradations :: "persistence_degradation list"
  st_policies :: "(string, policy_record) js_map"
  st_policyIdempotency :: "(string, policy_idempotency) js_map"
  st_revision :: nat

definition empty_store :: rebac_store where
  "empty_store =
    \<lparr>st_subjects = [], st_resources = [], st_relationships = [], st_bySubject = [],
     st_nativeGrants = [], st_discoveryRuns = [], st_readinessReports = [],
     st_provisioningPlans = [], st_provisioningJobs = [], st_driftFindings = [],
     st_campaigns = [], st_governanceFindings = [], st_exceptionRequests = [],
     st_reconciliationRuns = [], st_decisions = [], st_auditEvents = [], st_degradations = [],
     st_policies = [], st_policyIdempotency = [], st_revision = 0\<rparr>"

datatype store_error = Already_recorded string canonical_id

subsection \<open>Subjects and resources\<close>

definition graph_size_of :: "rebac_store \<Rightarrow> graph_size" where
  "graph_size_of s =
    \<lparr>size_subjects = length (st_subjects s), size_resources = length (st_resources s),
     size_relationships = length (st_relationships s)\<rparr>"

definition get_subject :: "rebac_store \<Rightarrow> canonical_id \<Rightarrow> subject option" where
  "get_subject s i = map_get (st_subjects s) i"

definition list_subjects :: "rebac_store \<Rightarrow> subject list" where
  "list_subjects s = map_values (st_subjects s)"

definition upsert_subject :: "subject \<Rightarrow> rebac_store \<Rightarrow> rebac_store" where
  "upsert_subject v s = s\<lparr>st_subjects := map_set (entity_id v) v (st_subjects s)\<rparr>"

definition get_resource :: "rebac_store \<Rightarrow> canonical_id \<Rightarrow> resource option" where
  "get_resource s i = map_get (st_resources s) i"

definition list_resources :: "rebac_store \<Rightarrow> resource list" where
  "list_resources s = map_values (st_resources s)"

definition upsert_resource :: "resource \<Rightarrow> rebac_store \<Rightarrow> rebac_store" where
  "upsert_resource v s = s\<lparr>st_resources := map_set (entity_id v) v (st_resources s)\<rparr>"

subsection \<open>Relationships and the index by subject\<close>

record relationship_filter =
  rf_subjectId :: "string option"
  rf_objectId :: "string option"
  rf_relation :: "string option"

definition get_relationship :: "rebac_store \<Rightarrow> canonical_id \<Rightarrow> relationship option" where
  "get_relationship s i = map_get (st_relationships s) i"

definition list_relationships_for_subject :: "rebac_store \<Rightarrow> canonical_id \<Rightarrow> relationship list" where
  "list_relationships_for_subject s x = coalesce (map_get (st_bySubject s) x) []"

definition list_relationships :: "rebac_store \<Rightarrow> relationship_filter \<Rightarrow> relationship list" where
  "list_relationships s f =
     filter (\<lambda>r. matches_filter (rf_subjectId f) (subjectId r)
               \<and> matches_filter (rf_objectId f) (objectId r)
               \<and> matches_filter (rf_relation f) (relation r)) (map_values (st_relationships s))"

definition index_add ::
  "relationship \<Rightarrow> (canonical_id, relationship list) js_map \<Rightarrow> (canonical_id, relationship list) js_map" where
  "index_add r idx =
     (case map_get idx (subjectId r) of
        Some rs \<Rightarrow> map_set (subjectId r) (rs @ [r]) idx
      | None \<Rightarrow> map_set (subjectId r) [r] idx)"

text \<open>\<open>findIndex\<close> by id and \<open>splice(index, 1)\<close>.\<close>

fun remove_by_id :: "canonical_id \<Rightarrow> relationship list \<Rightarrow> relationship list" where
  "remove_by_id i [] = []"
| "remove_by_id i (r # rs) = (if entity_id r = i then rs else r # remove_by_id i rs)"

definition index_remove ::
  "relationship \<Rightarrow> (canonical_id, relationship list) js_map \<Rightarrow> (canonical_id, relationship list) js_map" where
  "index_remove r idx =
     (case map_get idx (subjectId r) of
        None \<Rightarrow> idx
      | Some rs \<Rightarrow>
          (let rs' = remove_by_id (entity_id r) rs in
           if rs' = [] then map_delete (subjectId r) idx else map_set (subjectId r) rs' idx))"

definition upsert_relationship :: "relationship \<Rightarrow> rebac_store \<Rightarrow> rebac_store" where
  "upsert_relationship r s =
     (let idx = (case map_get (st_relationships s) (entity_id r) of
                   Some existing \<Rightarrow> index_remove existing (st_bySubject s)
                 | None \<Rightarrow> st_bySubject s)
      in s\<lparr>st_relationships := map_set (entity_id r) r (st_relationships s),
            st_bySubject := index_add r idx,
            st_revision := st_revision s + 1\<rparr>)"

definition delete_relationship :: "canonical_id \<Rightarrow> string \<Rightarrow> rebac_store \<Rightarrow> relationship option \<times> rebac_store" where
  "delete_relationship i deletedAt s =
     (case map_get (st_relationships s) i of
        None \<Rightarrow> (None, s)
      | Some r \<Rightarrow>
          (let deleted = r\<lparr>tuple_status := Tuple_deleted, updatedAt := Some deletedAt\<rparr>
           in (Some deleted,
               s\<lparr>st_relationships := map_set i deleted (st_relationships s),
                  st_bySubject := index_add deleted (index_remove r (st_bySubject s)),
                  st_revision := st_revision s + 1\<rparr>)))"

subsection \<open>Native grants\<close>

record native_grant_filter =
  ngf_sourceConnectorId :: "string option"
  ngf_targetObjectId :: "string option"
  ngf_subjectId :: "string option"
  ngf_nativePermission :: "string option"
  ngf_grantType :: "native_grant_type option"
  ngf_principalType :: "native_principal_type option"
  ngf_status :: "native_grant_status option"

definition list_native_grants :: "rebac_store \<Rightarrow> native_grant_filter \<Rightarrow> native_grant list" where
  "list_native_grants s f =
     filter (\<lambda>g. matches_filter (ngf_sourceConnectorId f) (sourceConnectorId g)
               \<and> matches_filter (ngf_targetObjectId f) (targetObjectId g)
               \<and> matches_filter (ngf_subjectId f) (grantee_subjectId g)
               \<and> matches_filter (ngf_nativePermission f) (nativePermission g)
               \<and> matches_enum (ngf_grantType f) (grantType g)
               \<and> matches_enum (ngf_principalType f) (principalType g)
               \<and> matches_enum (ngf_status f) (grant_status g)) (map_values (st_nativeGrants s))"

definition upsert_native_grant :: "native_grant \<Rightarrow> rebac_store \<Rightarrow> rebac_store" where
  "upsert_native_grant v s = s\<lparr>st_nativeGrants := map_set (entity_id v) v (st_nativeGrants s)\<rparr>"

definition replace_native_grants_for_connector :: "canonical_id \<Rightarrow> native_grant list \<Rightarrow> rebac_store \<Rightarrow> rebac_store" where
  "replace_native_grants_for_connector c grants s =
     fold upsert_native_grant grants
       (s\<lparr>st_nativeGrants := filter (\<lambda>(_, g). sourceConnectorId g \<noteq> c) (st_nativeGrants s)\<rparr>)"

subsection \<open>Recorded runs and reports\<close>

text \<open>\<open>assertNotRecorded\<close>, then \<open>set\<close>.\<close>

definition record_once :: "string \<Rightarrow> string \<Rightarrow> 'v \<Rightarrow> (string, 'v) js_map \<Rightarrow> store_error + (string, 'v) js_map" where
  "record_once entityName i v m =
     (case map_get m i of Some _ \<Rightarrow> Inl (Already_recorded entityName i) | None \<Rightarrow> Inr (map_set i v m))"

definition record_discovery_run :: "discovery_run \<Rightarrow> rebac_store \<Rightarrow> store_error + rebac_store" where
  "record_discovery_run v s =
     map_sum id (\<lambda>m. s\<lparr>st_discoveryRuns := m\<rparr>) (record_once ''Discovery run'' (entity_id v) v (st_discoveryRuns s))"

definition list_discovery_runs :: "rebac_store \<Rightarrow> string option \<Rightarrow> discovery_run_status option \<Rightarrow> discovery_run list" where
  "list_discovery_runs s c st =
     filter (\<lambda>r. matches_filter c (run_connectorId r) \<and> matches_enum st (run_status r)) (map_values (st_discoveryRuns s))"

definition get_readiness_report :: "rebac_store \<Rightarrow> canonical_id \<Rightarrow> enforcement_readiness_report option" where
  "get_readiness_report s i = map_get (st_readinessReports s) i"

definition list_readiness_reports ::
  "rebac_store \<Rightarrow> string option \<Rightarrow> enforcement_readiness_status option \<Rightarrow> enforcement_readiness_report list" where
  "list_readiness_reports s c st =
     filter (\<lambda>r. matches_filter c (rep_connectorId r) \<and> matches_enum st (rep_status r)) (map_values (st_readinessReports s))"

definition record_readiness_report :: "enforcement_readiness_report \<Rightarrow> rebac_store \<Rightarrow> store_error + rebac_store" where
  "record_readiness_report v s =
     map_sum id (\<lambda>m. s\<lparr>st_readinessReports := m\<rparr>)
       (record_once ''Enforcement readiness report'' (entity_id v) v (st_readinessReports s))"

definition record_reconciliation_run :: "reconciliation_run \<Rightarrow> rebac_store \<Rightarrow> store_error + rebac_store" where
  "record_reconciliation_run v s =
     map_sum id (\<lambda>m. s\<lparr>st_reconciliationRuns := m\<rparr>)
       (record_once ''Reconciliation run'' (entity_id v) v (st_reconciliationRuns s))"

definition list_reconciliation_runs :: "rebac_store \<Rightarrow> reconciliation_run list" where
  "list_reconciliation_runs s = map_values (st_reconciliationRuns s)"

subsection \<open>Provisioning plans and jobs\<close>

definition list_provisioning_plans :: "rebac_store \<Rightarrow> provisioning_plan list" where
  "list_provisioning_plans s = map_values (st_provisioningPlans s)"

definition get_provisioning_plan :: "rebac_store \<Rightarrow> canonical_id \<Rightarrow> provisioning_plan option" where
  "get_provisioning_plan s i = map_get (st_provisioningPlans s) i"

definition get_provisioning_plan_by_idempotency_key :: "rebac_store \<Rightarrow> string \<Rightarrow> provisioning_plan option" where
  "get_provisioning_plan_by_idempotency_key s k =
     find (\<lambda>p. plan_idempotencyKey p = Some k) (map_values (st_provisioningPlans s))"

definition upsert_provisioning_plan :: "provisioning_plan \<Rightarrow> rebac_store \<Rightarrow> rebac_store" where
  "upsert_provisioning_plan v s = s\<lparr>st_provisioningPlans := map_set (entity_id v) v (st_provisioningPlans s)\<rparr>"

definition get_provisioning_job :: "rebac_store \<Rightarrow> canonical_id \<Rightarrow> provisioning_job option" where
  "get_provisioning_job s i = map_get (st_provisioningJobs s) i"

definition get_provisioning_job_by_idempotency_key :: "rebac_store \<Rightarrow> string \<Rightarrow> provisioning_job option" where
  "get_provisioning_job_by_idempotency_key s k =
     find (\<lambda>j. job_idempotencyKey j = k) (map_values (st_provisioningJobs s))"

definition list_provisioning_jobs :: "rebac_store \<Rightarrow> provisioning_job list" where
  "list_provisioning_jobs s = map_values (st_provisioningJobs s)"

definition upsert_provisioning_job :: "provisioning_job \<Rightarrow> rebac_store \<Rightarrow> rebac_store" where
  "upsert_provisioning_job v s = s\<lparr>st_provisioningJobs := map_set (entity_id v) v (st_provisioningJobs s)\<rparr>"

subsection \<open>Drift findings and governance records\<close>

record drift_finding_filter =
  dff_severity :: "drift_severity option"
  dff_status :: "drift_finding_status option"
  dff_lifecycleState :: "drift_lifecycle_state option"
  dff_ownerId :: "string option"
  dff_assigneeId :: "string option"

definition matches_drift_finding_filter :: "drift_finding \<Rightarrow> drift_finding_filter \<Rightarrow> bool" where
  "matches_drift_finding_filter v f \<longleftrightarrow>
     matches_enum (dff_severity f) (drift_severity v) \<and> matches_enum (dff_status f) (drift_status v)
     \<and> matches_enum (dff_lifecycleState f) (drift_lifecycleState v)
     \<and> matches_filter (dff_ownerId f) (drift_ownerId v) \<and> matches_filter (dff_assigneeId f) (drift_assigneeId v)"

definition list_drift_findings :: "rebac_store \<Rightarrow> drift_finding_filter \<Rightarrow> drift_finding list" where
  "list_drift_findings s f = filter (\<lambda>v. matches_drift_finding_filter v f) (map_values (st_driftFindings s))"

definition get_drift_finding :: "rebac_store \<Rightarrow> canonical_id \<Rightarrow> drift_finding option" where
  "get_drift_finding s i = map_get (st_driftFindings s) i"

definition upsert_drift_finding :: "drift_finding \<Rightarrow> rebac_store \<Rightarrow> rebac_store" where
  "upsert_drift_finding v s = s\<lparr>st_driftFindings := map_set (entity_id v) v (st_driftFindings s)\<rparr>"

definition list_campaigns :: "rebac_store \<Rightarrow> access_review_campaign list" where
  "list_campaigns s = map_values (st_campaigns s)"

definition get_campaign :: "rebac_store \<Rightarrow> canonical_id \<Rightarrow> access_review_campaign option" where
  "get_campaign s i = map_get (st_campaigns s) i"

definition upsert_campaign :: "access_review_campaign \<Rightarrow> rebac_store \<Rightarrow> rebac_store" where
  "upsert_campaign v s = s\<lparr>st_campaigns := map_set (entity_id v) v (st_campaigns s)\<rparr>"

definition list_governance_findings ::
  "rebac_store \<Rightarrow> governance_finding_status option \<Rightarrow> drift_severity option \<Rightarrow> governance_finding list" where
  "list_governance_findings s st sev =
     filter (\<lambda>v. matches_enum st (gov_status v) \<and> matches_enum sev (gov_severity v)) (map_values (st_governanceFindings s))"

definition get_governance_finding :: "rebac_store \<Rightarrow> canonical_id \<Rightarrow> governance_finding option" where
  "get_governance_finding s i = map_get (st_governanceFindings s) i"

definition upsert_governance_finding :: "governance_finding \<Rightarrow> rebac_store \<Rightarrow> rebac_store" where
  "upsert_governance_finding v s = s\<lparr>st_governanceFindings := map_set (entity_id v) v (st_governanceFindings s)\<rparr>"

definition list_exception_requests :: "rebac_store \<Rightarrow> exception_request_status option \<Rightarrow> exception_request list" where
  "list_exception_requests s st = filter (\<lambda>v. matches_enum st (exc_status v)) (map_values (st_exceptionRequests s))"

definition get_exception_request :: "rebac_store \<Rightarrow> canonical_id \<Rightarrow> exception_request option" where
  "get_exception_request s i = map_get (st_exceptionRequests s) i"

definition upsert_exception_request :: "exception_request \<Rightarrow> rebac_store \<Rightarrow> rebac_store" where
  "upsert_exception_request v s = s\<lparr>st_exceptionRequests := map_set (entity_id v) v (st_exceptionRequests s)\<rparr>"

subsection \<open>Decisions, policies, audit events, degradation receipts\<close>

definition record_decision :: "decision_result \<Rightarrow> rebac_store \<Rightarrow> rebac_store" where
  "record_decision v s = s\<lparr>st_decisions := map_set (decisionId v) v (st_decisions s)\<rparr>"

definition list_decisions :: "rebac_store \<Rightarrow> decision_result list" where
  "list_decisions s = map_values (st_decisions s)"

definition get_policy :: "rebac_store \<Rightarrow> string \<Rightarrow> policy_record option" where
  "get_policy s i = map_get (st_policies s) i"

definition list_policies :: "rebac_store \<Rightarrow> policy_record list" where
  "list_policies s = map_values (st_policies s)"

definition policy_key :: "policy_record \<Rightarrow> string" where
  "policy_key v = sum_id (pr_summary v)"

definition upsert_policy :: "policy_record \<Rightarrow> rebac_store \<Rightarrow> rebac_store" where
  "upsert_policy v s = s\<lparr>st_policies := map_set (policy_key v) v (st_policies s)\<rparr>"

definition get_policy_idempotency :: "rebac_store \<Rightarrow> string \<Rightarrow> policy_idempotency option" where
  "get_policy_idempotency s k = map_get (st_policyIdempotency s) k"

definition list_policy_idempotency :: "rebac_store \<Rightarrow> policy_idempotency list" where
  "list_policy_idempotency s = map_values (st_policyIdempotency s)"

definition set_policy_idempotency :: "policy_idempotency \<Rightarrow> rebac_store \<Rightarrow> rebac_store" where
  "set_policy_idempotency v s = s\<lparr>st_policyIdempotency := map_set (pi_key v) v (st_policyIdempotency s)\<rparr>"

definition record_audit_event :: "audit_event \<Rightarrow> rebac_store \<Rightarrow> rebac_store" where
  "record_audit_event e s = s\<lparr>st_auditEvents := st_auditEvents s @ [e]\<rparr>"

record audit_event_filter =
  aef_subjectId :: "string option"
  aef_resourceId :: "string option"
  aef_from :: "string option"

definition list_audit_events :: "rebac_store \<Rightarrow> audit_event_filter \<Rightarrow> audit_event list" where
  "list_audit_events s f =
     filter (\<lambda>e. matches_filter_opt (aef_subjectId f) (event_subjectId e)
               \<and> matches_filter_opt (aef_resourceId f) (event_resourceId e)
               \<and> (\<not> truthy (aef_from f) \<or> the (aef_from f) \<le> occurredAt e)) (st_auditEvents s)"

definition record_persistence_degradation :: "persistence_degradation \<Rightarrow> rebac_store \<Rightarrow> rebac_store" where
  "record_persistence_degradation d s =
     (let ds = st_degradations s;
          kept = (if length ds \<ge> max_persistence_degradations then tl ds else ds)
      in s\<lparr>st_degradations := kept @ [d]\<rparr>)"

definition replace_persistence_degradations :: "persistence_degradation list \<Rightarrow> rebac_store \<Rightarrow> rebac_store" where
  "replace_persistence_degradations ds s =
     s\<lparr>st_degradations := drop (length ds - max_persistence_degradations) ds\<rparr>"

definition list_persistence_degradations :: "rebac_store \<Rightarrow> persistence_degradation list" where
  "list_persistence_degradations s = st_degradations s"


subsection \<open>Seeding and exporting\<close>

text \<open>A \<open>forEach\<close> over an optional list with a method that can throw.\<close>

fun try_each :: "('v \<Rightarrow> 's \<Rightarrow> 'e + 's) \<Rightarrow> 'v list \<Rightarrow> 's \<Rightarrow> 'e + 's" where
  "try_each f [] s = Inr s"
| "try_each f (v # vs) s = (case f v s of Inl e \<Rightarrow> Inl e | Inr s' \<Rightarrow> try_each f vs s')"

definition for_each :: "('v \<Rightarrow> 's \<Rightarrow> 's) \<Rightarrow> 'v list option \<Rightarrow> 's \<Rightarrow> 's" where
  "for_each f vs s = fold f (coalesce vs []) s"

definition bind_result :: "'e + 'a \<Rightarrow> ('a \<Rightarrow> 'e + 'b) \<Rightarrow> 'e + 'b" where
  "bind_result r f = (case r of Inl e \<Rightarrow> Inl e | Inr a \<Rightarrow> f a)"

definition seed_graph :: "seed_data \<Rightarrow> rebac_store \<Rightarrow> rebac_store" where
  "seed_graph d s =
     for_each upsert_native_grant (seed_nativeGrants d)
       (for_each upsert_relationship (seed_relationships d)
         (for_each upsert_resource (seed_resources d)
           (for_each upsert_subject (seed_subjects d) s)))"

definition seed_records :: "seed_data \<Rightarrow> rebac_store \<Rightarrow> rebac_store" where
  "seed_records d s =
     for_each upsert_exception_request (seed_exceptionRequests d)
       (for_each upsert_governance_finding (seed_governanceFindings d)
         (for_each upsert_campaign (seed_campaigns d)
           (for_each upsert_drift_finding (seed_driftFindings d)
             (for_each upsert_provisioning_job (seed_provisioningJobs d)
               (for_each upsert_provisioning_plan (seed_provisioningPlans d) s)))))"

definition seed_logs :: "seed_data \<Rightarrow> rebac_store \<Rightarrow> rebac_store" where
  "seed_logs d s =
     for_each set_policy_idempotency (seed_policyIdempotency d)
       (for_each upsert_policy (seed_policies d)
         (for_each record_persistence_degradation (seed_degradations d)
           (for_each record_audit_event (seed_auditEvents d)
             (for_each record_decision (seed_decisions d) s))))"

definition create_store :: "seed_data \<Rightarrow> store_error + rebac_store" where
  "create_store d =
     bind_result (try_each record_discovery_run (coalesce (seed_discoveryRuns d) []) (seed_graph d empty_store)) (\<lambda>s1.
     bind_result (try_each record_readiness_report (coalesce (seed_readinessReports d) []) s1) (\<lambda>s2.
     bind_result (try_each record_reconciliation_run (coalesce (seed_reconciliationRuns d) []) (seed_records d s2)) (\<lambda>s3.
     Inr (seed_logs d s3))))"

definition no_relationship_filter :: relationship_filter where
  "no_relationship_filter = \<lparr>rf_subjectId = None, rf_objectId = None, rf_relation = None\<rparr>"

definition no_grant_filter :: native_grant_filter where
  "no_grant_filter = \<lparr>ngf_sourceConnectorId = None, ngf_targetObjectId = None, ngf_subjectId = None,
     ngf_nativePermission = None, ngf_grantType = None, ngf_principalType = None, ngf_status = None\<rparr>"

definition no_drift_filter :: drift_finding_filter where
  "no_drift_filter = \<lparr>dff_severity = None, dff_status = None, dff_lifecycleState = None, dff_ownerId = None, dff_assigneeId = None\<rparr>"

definition no_audit_filter :: audit_event_filter where
  "no_audit_filter = \<lparr>aef_subjectId = None, aef_resourceId = None, aef_from = None\<rparr>"

definition export_seed_data :: "rebac_store \<Rightarrow> seed_data" where
  "export_seed_data s =
    \<lparr>seed_subjects = Some (list_subjects s),
     seed_resources = Some (list_resources s),
     seed_relationships = Some (list_relationships s no_relationship_filter),
     seed_nativeGrants = Some (list_native_grants s no_grant_filter),
     seed_discoveryRuns = Some (list_discovery_runs s None None),
     seed_readinessReports = Some (list_readiness_reports s None None),
     seed_provisioningPlans = Some (list_provisioning_plans s),
     seed_provisioningJobs = Some (list_provisioning_jobs s),
     seed_driftFindings = Some (list_drift_findings s no_drift_filter),
     seed_campaigns = Some (list_campaigns s),
     seed_governanceFindings = Some (list_governance_findings s None None),
     seed_exceptionRequests = Some (list_exception_requests s None),
     seed_reconciliationRuns = Some (list_reconciliation_runs s),
     seed_decisions = Some (list_decisions s),
     seed_auditEvents = Some (list_audit_events s no_audit_filter),
     seed_degradations = Some (list_persistence_degradations s),
     seed_policies = Some (list_policies s),
     seed_policyIdempotency = Some (list_policy_idempotency s)\<rparr>"

subsection \<open>Keyed collections\<close>

text \<open>
  What every upsertable collection of the store is: a map read out of the state, an update of
  that map alone, and a method that puts a value under its own key.
\<close>

locale keyed_collection =
  fixes key :: "'v \<Rightarrow> string"
    and items :: "'s \<Rightarrow> (string, 'v) js_map"
    and upd :: "((string, 'v) js_map \<Rightarrow> (string, 'v) js_map) \<Rightarrow> 's \<Rightarrow> 's"
    and put :: "'v \<Rightarrow> 's \<Rightarrow> 's"
  assumes items_upd: "items (upd f s) = f (items s)"
    and upd_upd: "upd f (upd g s) = upd (f \<circ> g) s"
    and upd_same: "f (items s) = items s \<Longrightarrow> upd f s = s"
    and put_def: "put v s = upd (map_set (key v) v) s"
begin

lemma items_put: "items (put v s) = map_set (key v) v (items s)"
  by (simp add: put_def items_upd)

lemma get_put: "map_get (items (put v s)) k = (if k = key v then Some v else map_get (items s) k)"
  by (simp add: items_put)

lemma put_keyed: "keyed key (items s) \<Longrightarrow> keyed key (items (put v s))"
  by (simp add: items_put)

lemma values_put:
  assumes "keyed key (items s)"
  shows "mset (map_values (items (put v s))) =
    add_mset v (case map_get (items s) (key v) of None \<Rightarrow> mset (map_values (items s))
                | Some u \<Rightarrow> mset (map_values (items s)) - {#u#})"
  unfolding items_put using assms by (intro map_values_set) blast

lemma put_known: "map_get (items s) (key v) = Some v \<Longrightarrow> put v s = s"
proof -
  assume known: "map_get (items s) (key v) = Some v"
  have "map_set k u m = m" if "map_get m k = Some u" for k u and m :: "(string, 'v) js_map"
    using that by (induction m) (auto split: if_splits)
  with known show ?thesis by (simp add: put_def upd_same)
qed

lemma fold_put: "fold put vs s = upd (map_put_all key vs) s"
proof (induction vs arbitrary: s)
  case Nil
  then show ?case by (simp add: map_put_all_def upd_same)
next
  case (Cons v vs)
  have "map_put_all key vs \<circ> map_set (key v) v = map_put_all key (v # vs)"
    by (simp add: map_put_all_def fun_eq_iff)
  with Cons show ?case by (simp add: put_def upd_upd)
qed

lemma restore:
  "keyed key m \<Longrightarrow> items s = [] \<Longrightarrow> fold put (map_values m) s = upd (\<lambda>_. m) s"
proof -
  assume m: "keyed key m" and s: "items s = []"
  have "upd (map_put_all key (map_values m)) s = upd (\<lambda>_. m) (upd (map_put_all key (map_values m)) s)"
    by (rule upd_same [symmetric]) (simp add: items_upd s map_put_all_values [OF m])
  also have "\<dots> = upd (\<lambda>_. m) s" by (simp add: upd_upd comp_def)
  finally show ?thesis by (simp add: fold_put)
qed

end

interpretation subjects: keyed_collection entity_id st_subjects st_subjects_update upsert_subject
  by unfold_locales (simp_all add: upsert_subject_def)

interpretation resources: keyed_collection entity_id st_resources st_resources_update upsert_resource
  by unfold_locales (simp_all add: upsert_resource_def)

interpretation native_grants: keyed_collection entity_id st_nativeGrants st_nativeGrants_update upsert_native_grant
  by unfold_locales (simp_all add: upsert_native_grant_def)

interpretation plans: keyed_collection entity_id st_provisioningPlans st_provisioningPlans_update upsert_provisioning_plan
  by unfold_locales (simp_all add: upsert_provisioning_plan_def)

interpretation jobs: keyed_collection entity_id st_provisioningJobs st_provisioningJobs_update upsert_provisioning_job
  by unfold_locales (simp_all add: upsert_provisioning_job_def)

interpretation drift_findings: keyed_collection entity_id st_driftFindings st_driftFindings_update upsert_drift_finding
  by unfold_locales (simp_all add: upsert_drift_finding_def)

interpretation campaigns: keyed_collection entity_id st_campaigns st_campaigns_update upsert_campaign
  by unfold_locales (simp_all add: upsert_campaign_def)

interpretation governance_findings: keyed_collection entity_id st_governanceFindings st_governanceFindings_update upsert_governance_finding
  by unfold_locales (simp_all add: upsert_governance_finding_def)

interpretation exception_requests: keyed_collection entity_id st_exceptionRequests st_exceptionRequests_update upsert_exception_request
  by unfold_locales (simp_all add: upsert_exception_request_def)

interpretation decisions: keyed_collection decisionId st_decisions st_decisions_update record_decision
  by unfold_locales (simp_all add: record_decision_def)

interpretation policies: keyed_collection policy_key st_policies st_policies_update upsert_policy
  by unfold_locales (simp_all add: upsert_policy_def)

interpretation policy_keys: keyed_collection pi_key st_policyIdempotency st_policyIdempotency_update set_policy_idempotency
  by unfold_locales (simp_all add: set_policy_idempotency_def)

text \<open>A collection whose values are recorded once: a second value under a key is refused.\<close>

locale recorded_collection = keyed_collection +
  fixes record_value :: "'a \<Rightarrow> 'b \<Rightarrow> store_error + 'b" and entityName :: string
  assumes record_value_def: "record_value v s =
    (case map_get (items s) (key v) of Some _ \<Rightarrow> Inl (Already_recorded entityName (key v)) | None \<Rightarrow> Inr (put v s))"
begin

lemma record_again: "record_value v s = Inr s' \<Longrightarrow> key u = key v \<Longrightarrow>
    record_value u s' = Inl (Already_recorded entityName (key v))"
  by (auto simp: record_value_def get_put split: option.splits)

lemma record_all:
  "distinct (map key vs) \<Longrightarrow> (\<forall>v \<in> set vs. map_get (items s) (key v) = None) \<Longrightarrow>
     try_each record_value vs s = Inr (fold put vs s)"
proof (induction vs arbitrary: s)
  case (Cons v vs)
  then have "\<forall>u \<in> set vs. map_get (items (put v s)) (key u) = None"
    by (auto simp: get_put) (metis image_eqI)
  with Cons show ?case by (simp add: record_value_def)
qed simp

lemma restore_recorded:
  assumes "keyed key m" "items s = []"
  shows "try_each record_value (map_values m) s = Inr (upd (\<lambda>_. m) s)"
proof -
  have "map key (map_values m) = map fst m"
    using assms(1) by (auto simp: keyed_def)
  moreover have "distinct (map fst m)"
    using assms(1) by (simp add: keyed_def wf_map_def)
  ultimately have "distinct (map key (map_values m))"
    by (simp only:)
  then show ?thesis
    using assms by (simp add: record_all restore)
qed

end

definition put_discovery_run :: "discovery_run \<Rightarrow> rebac_store \<Rightarrow> rebac_store" where
  "put_discovery_run v s = s\<lparr>st_discoveryRuns := map_set (entity_id v) v (st_discoveryRuns s)\<rparr>"

definition put_readiness_report :: "enforcement_readiness_report \<Rightarrow> rebac_store \<Rightarrow> rebac_store" where
  "put_readiness_report v s = s\<lparr>st_readinessReports := map_set (entity_id v) v (st_readinessReports s)\<rparr>"

definition put_reconciliation_run :: "reconciliation_run \<Rightarrow> rebac_store \<Rightarrow> rebac_store" where
  "put_reconciliation_run v s = s\<lparr>st_reconciliationRuns := map_set (entity_id v) v (st_reconciliationRuns s)\<rparr>"

interpretation discovery_runs: recorded_collection entity_id st_discoveryRuns st_discoveryRuns_update
    put_discovery_run record_discovery_run "''Discovery run''"
  by unfold_locales (auto simp: put_discovery_run_def record_discovery_run_def record_once_def split: option.splits)

interpretation readiness_reports: recorded_collection entity_id st_readinessReports st_readinessReports_update
    put_readiness_report record_readiness_report "''Enforcement readiness report''"
  by unfold_locales (auto simp: put_readiness_report_def record_readiness_report_def record_once_def split: option.splits)

interpretation reconciliation_runs: recorded_collection entity_id st_reconciliationRuns st_reconciliationRuns_update
    put_reconciliation_run record_reconciliation_run "''Reconciliation run''"
  by unfold_locales (auto simp: put_reconciliation_run_def record_reconciliation_run_def record_once_def split: option.splits)

subsection \<open>The index agrees with the relationships\<close>

definition of_subject :: "canonical_id \<Rightarrow> (canonical_id, relationship) js_map \<Rightarrow> relationship multiset" where
  "of_subject x rels = mset (filter (\<lambda>r. subjectId r = x) (map_values rels))"

definition index_ok :: "(canonical_id, relationship) js_map \<Rightarrow> (canonical_id, relationship list) js_map \<Rightarrow> bool" where
  "index_ok rels idx \<longleftrightarrow>
     (\<forall>x. mset (coalesce (map_get idx x) []) = of_subject x rels \<and> map_get idx x \<noteq> Some [])"

lemma mset_remove_by_id:
  assumes "r \<in> set rs" "inj_on entity_id (set rs)"
  shows "mset (remove_by_id (entity_id r) rs) = mset rs - {#r#}"
  using assms by (induction rs) (auto simp: inj_on_def)

lemma keyed_mem: "keyed key m \<Longrightarrow> v \<in> set (map_values m) \<Longrightarrow> map_get m (key v) = Some v"
proof -
  assume k: "keyed key m" and "v \<in> set (map_values m)"
  then obtain i where i: "(i, v) \<in> set m" by auto
  with k have "i = key v" by (auto simp: keyed_def)
  with i k show ?thesis by (auto intro: wf_map_get)
qed

lemma keyed_inj: "keyed key m \<Longrightarrow> inj_on key (set (map_values m))"
  by (rule inj_onI) (metis keyed_mem option.inject)

lemma of_subject_mset: "of_subject x rels = filter_mset (\<lambda>r. subjectId r = x) (mset (map_values rels))"
  by (simp only: of_subject_def mset_filter)

lemma of_subject_set:
  assumes "keyed entity_id rels"
  shows "of_subject x (map_set (entity_id r) r rels) =
    (case map_get rels (entity_id r) of
       None \<Rightarrow> of_subject x rels
     | Some old \<Rightarrow> of_subject x rels - (if subjectId old = x then {#old#} else {#}))
    + (if subjectId r = x then {#r#} else {#})"
proof -
  define M where "M = mset (map_values rels)"
  have *: "mset (map_values (map_set (entity_id r) r rels)) =
      add_mset r (case map_get rels (entity_id r) of None \<Rightarrow> M | Some u \<Rightarrow> M - {#u#})"
    unfolding M_def using assms by (intro map_values_set) blast
  show ?thesis
    unfolding of_subject_mset * M_def [symmetric] by (auto split: option.splits)
qed

lemma index_add_get:
  "coalesce (map_get (index_add r idx) x) [] = coalesce (map_get idx x) [] @ (if subjectId r = x then [r] else [])"
  "map_get (index_add r idx) x = Some [] \<longleftrightarrow> subjectId r \<noteq> x \<and> map_get idx x = Some []"
  by (auto simp: index_add_def split: option.splits)

lemma index_remove_get:
  assumes "\<And>x. map_get idx x \<noteq> Some []"
  shows "coalesce (map_get (index_remove r idx) x) [] =
      (if subjectId r = x then remove_by_id (entity_id r) (coalesce (map_get idx x) []) else coalesce (map_get idx x) [])"
    and "map_get (index_remove r idx) x \<noteq> Some []"
  using assms by (auto simp: index_remove_def Let_def split: option.splits)

lemma index_upsert:
  assumes keyed: "keyed entity_id rels" and ok: "index_ok rels idx" and old: "map_get rels (entity_id r) = Some old"
  shows "index_ok (map_set (entity_id r) r rels) (index_add r (index_remove old idx))"
proof -
  have ne: "map_get idx x \<noteq> Some []" for x using ok by (simp add: index_ok_def)
  have idx: "mset (coalesce (map_get idx x) []) = of_subject x rels" for x using ok by (simp add: index_ok_def)
  have elems: "set (coalesce (map_get idx x) []) = {r \<in> set (map_values rels). subjectId r = x}" for x
    using arg_cong [OF idx [of x], of set_mset] by (auto simp: of_subject_def)
  have old_mem: "old \<in> set (coalesce (map_get idx (subjectId old)) [])"
    using map_get_mem [OF old] by (simp add: elems)
  have "inj_on entity_id (set (coalesce (map_get idx (subjectId old)) []))"
    using keyed_inj [OF keyed] by (rule inj_on_subset) (auto simp: elems)
  note rm = mset_remove_by_id [OF old_mem this]
  show ?thesis
    unfolding index_ok_def
    by (auto simp: index_add_get index_remove_get [OF ne] of_subject_set [OF keyed] old rm idx)
qed

lemma index_insert:
  assumes "keyed entity_id rels" "index_ok rels idx" "map_get rels (entity_id r) = None"
  shows "index_ok (map_set (entity_id r) r rels) (index_add r idx)"
  using assms by (auto simp: index_ok_def index_add_get of_subject_set)

subsection \<open>The invariant of the store\<close>

definition store_inv :: "rebac_store \<Rightarrow> bool" where
  "store_inv s \<longleftrightarrow>
     keyed entity_id (st_subjects s) \<and> keyed entity_id (st_resources s) \<and>
     keyed entity_id (st_relationships s) \<and> index_ok (st_relationships s) (st_bySubject s) \<and>
     keyed entity_id (st_nativeGrants s) \<and> keyed entity_id (st_discoveryRuns s) \<and>
     keyed entity_id (st_readinessReports s) \<and> keyed entity_id (st_provisioningPlans s) \<and>
     keyed entity_id (st_provisioningJobs s) \<and> keyed entity_id (st_driftFindings s) \<and>
     keyed entity_id (st_campaigns s) \<and> keyed entity_id (st_governanceFindings s) \<and>
     keyed entity_id (st_exceptionRequests s) \<and> keyed entity_id (st_reconciliationRuns s) \<and>
     keyed decisionId (st_decisions s) \<and> keyed policy_key (st_policies s) \<and>
     keyed pi_key (st_policyIdempotency s) \<and> length (st_degradations s) \<le> max_persistence_degradations"

inductive store_step :: "rebac_store \<Rightarrow> rebac_store \<Rightarrow> bool" where
  upsert_subject: "store_step s (upsert_subject v1 s)"
| upsert_resource: "store_step s (upsert_resource v2 s)"
| upsert_relationship: "store_step s (upsert_relationship v3 s)"
| delete_relationship: "store_step s (snd (delete_relationship i t s))"
| upsert_native_grant: "store_step s (upsert_native_grant v4 s)"
| replace_native_grants: "store_step s (replace_native_grants_for_connector c gs s)"
| record_discovery_run: "record_discovery_run v5 s = Inr s' \<Longrightarrow> store_step s s'"
| record_readiness_report: "record_readiness_report v6 s = Inr s' \<Longrightarrow> store_step s s'"
| upsert_plan: "store_step s (upsert_provisioning_plan v7 s)"
| upsert_job: "store_step s (upsert_provisioning_job v8 s)"
| upsert_drift: "store_step s (upsert_drift_finding v9 s)"
| upsert_campaign: "store_step s (upsert_campaign v10 s)"
| upsert_governance: "store_step s (upsert_governance_finding v11 s)"
| upsert_exception: "store_step s (upsert_exception_request v12 s)"
| record_reconciliation: "record_reconciliation_run v13 s = Inr s' \<Longrightarrow> store_step s s'"
| record_decision: "store_step s (record_decision v14 s)"
| upsert_policy: "store_step s (upsert_policy v15 s)"
| set_policy_idempotency: "store_step s (set_policy_idempotency v16 s)"
| record_audit_event: "store_step s (record_audit_event e s)"
| record_degradation: "store_step s (record_persistence_degradation d s)"
| replace_degradations: "store_step s (replace_persistence_degradations ds s)"

inductive store_reachable :: "rebac_store \<Rightarrow> bool" where
  created: "create_store d = Inr s \<Longrightarrow> store_reachable s"
| stepped: "store_reachable s \<Longrightarrow> store_step s s' \<Longrightarrow> store_reachable s'"

lemma empty_store_inv: "store_inv empty_store"
  by (simp add: store_inv_def empty_store_def index_ok_def of_subject_def)

lemma upsert_relationship_inv: "store_inv s \<Longrightarrow> store_inv (upsert_relationship r s)"
  by (auto simp: store_inv_def upsert_relationship_def Let_def intro: index_upsert index_insert split: option.split)

lemma delete_relationship_inv: "store_inv s \<Longrightarrow> store_inv (snd (delete_relationship i t s))"
proof (cases "map_get (st_relationships s) i")
  case (Some r)
  assume inv: "store_inv s"
  let ?d = "r\<lparr>tuple_status := Tuple_deleted, updatedAt := Some t\<rparr>"
  from inv Some have i: "entity_id ?d = i" by (auto simp: store_inv_def dest: keyed_get)
  have "index_ok (map_set (entity_id ?d) ?d (st_relationships s)) (index_add ?d (index_remove r (st_bySubject s)))"
    using inv Some by (intro index_upsert) (simp_all only: i, simp_all add: store_inv_def)
  with inv Some i show ?thesis
    using keyed_set [of entity_id "st_relationships s" ?d]
    by (simp add: store_inv_def delete_relationship_def Let_def)
qed (simp add: delete_relationship_def)

lemma replace_grants_inv: "store_inv s \<Longrightarrow> store_inv (replace_native_grants_for_connector c gs s)"
proof -
  assume inv: "store_inv s"
  define s0 where "s0 = s\<lparr>st_nativeGrants := filter (\<lambda>(_, g). sourceConnectorId g \<noteq> c) (st_nativeGrants s)\<rparr>"
  have "wf_map (filter P m)" if "wf_map m" for P and m :: "(string, native_grant) js_map"
    using that by (simp add: wf_map_def distinct_map_filter)
  with inv have "store_inv s0" by (auto simp: store_inv_def s0_def keyed_def)
  then have "store_inv (fold upsert_native_grant gs s0)"
    by (induction gs arbitrary: s0) (simp_all add: store_inv_def upsert_native_grant_def)
  then show ?thesis by (simp add: replace_native_grants_for_connector_def s0_def)
qed

lemma degradations_inv:
  "store_inv s \<Longrightarrow> store_inv (record_persistence_degradation d s)"
  "store_inv s \<Longrightarrow> store_inv (replace_persistence_degradations ds s)"
  by (auto simp: store_inv_def record_persistence_degradation_def replace_persistence_degradations_def Let_def
      max_persistence_degradations_def)

lemmas store_defs =
  upsert_subject_def upsert_resource_def upsert_native_grant_def upsert_provisioning_plan_def
  upsert_provisioning_job_def upsert_drift_finding_def upsert_campaign_def
  upsert_governance_finding_def upsert_exception_request_def record_decision_def
  upsert_policy_def set_policy_idempotency_def record_audit_event_def

lemma recorded:
  "record_discovery_run v s = Inr s' \<longleftrightarrow> map_get (st_discoveryRuns s) (entity_id v) = None \<and> s' = put_discovery_run v s"
  "record_readiness_report w s = Inr s' \<longleftrightarrow> map_get (st_readinessReports s) (entity_id w) = None \<and> s' = put_readiness_report w s"
  "record_reconciliation_run x s = Inr s' \<longleftrightarrow> map_get (st_reconciliationRuns s) (entity_id x) = None \<and> s' = put_reconciliation_run x s"
  by (auto simp: discovery_runs.record_value_def readiness_reports.record_value_def
      reconciliation_runs.record_value_def split: option.splits)

lemmas put_record_defs = put_discovery_run_def put_readiness_report_def put_reconciliation_run_def

lemma store_step_inv: "store_step s s' \<Longrightarrow> store_inv s \<Longrightarrow> store_inv s'"
proof (induction rule: store_step.induct)
  case (upsert_relationship s v3) then show ?case by (rule upsert_relationship_inv)
next
  case (delete_relationship s i t) then show ?case by (rule delete_relationship_inv)
next
  case (replace_native_grants s c gs) then show ?case by (rule replace_grants_inv)
next
  case (record_degradation s d) then show ?case by (rule degradations_inv)
next
  case (replace_degradations s ds) then show ?case by (rule degradations_inv)
qed (simp_all add: store_inv_def store_defs recorded put_record_defs)

text \<open>Every phase of the constructor is a sequence of the methods.\<close>

lemma for_each_inv: "(\<And>v s. store_step s (f v s)) \<Longrightarrow> store_inv s \<Longrightarrow> store_inv (for_each f vs s)"
proof -
  assume step: "\<And>v s. store_step s (f v s)" and inv: "store_inv s"
  have "store_inv (fold f us s)" for us
    using inv by (induction us arbitrary: s) (auto intro: store_step_inv [OF step])
  then show ?thesis by (simp add: for_each_def)
qed

lemma try_each_inv:
  assumes "\<And>v s s'. f v s = Inr s' \<Longrightarrow> store_step s s'"
  shows "try_each f vs s = Inr s' \<Longrightarrow> store_inv s \<Longrightarrow> store_inv s'"
  by (induction vs arbitrary: s) (auto split: sum.splits dest: store_step_inv [OF assms])

lemmas phases_inv = for_each_inv [of upsert_subject] for_each_inv [of upsert_resource]
  for_each_inv [of upsert_relationship] for_each_inv [of upsert_native_grant]
  for_each_inv [of upsert_provisioning_plan] for_each_inv [of upsert_provisioning_job]
  for_each_inv [of upsert_drift_finding] for_each_inv [of upsert_campaign]
  for_each_inv [of upsert_governance_finding] for_each_inv [of upsert_exception_request]
  for_each_inv [of record_decision] for_each_inv [of record_audit_event]
  for_each_inv [of record_persistence_degradation] for_each_inv [of upsert_policy]
  for_each_inv [of set_policy_idempotency]

lemma create_store_inv: "create_store d = Inr s \<Longrightarrow> store_inv s"
proof -
  assume "create_store d = Inr s"
  then obtain s1 s2 s3 where
    s1: "try_each record_discovery_run (coalesce (seed_discoveryRuns d) []) (seed_graph d empty_store) = Inr s1" and
    s2: "try_each record_readiness_report (coalesce (seed_readinessReports d) []) s1 = Inr s2" and
    s3: "try_each record_reconciliation_run (coalesce (seed_reconciliationRuns d) []) (seed_records d s2) = Inr s3" and
    s: "s = seed_logs d s3"
    by (auto simp: create_store_def bind_result_def split: sum.splits)
  have "store_inv (seed_graph d empty_store)"
    by (auto simp: seed_graph_def intro!: phases_inv empty_store_inv store_step.intros)
  from try_each_inv [OF store_step.record_discovery_run s1 this] have "store_inv s1" .
  from try_each_inv [OF store_step.record_readiness_report s2 this] have "store_inv s2" .
  then have "store_inv (seed_records d s2)"
    by (auto simp: seed_records_def intro!: phases_inv store_step.intros)
  from try_each_inv [OF store_step.record_reconciliation s3 this] have "store_inv s3" .
  then show ?thesis
    by (auto simp: s seed_logs_def intro!: phases_inv store_step.intros)
qed

lemma reachable_inv: "store_reachable s \<Longrightarrow> store_inv s"
  by (induction rule: store_reachable.induct) (auto intro: create_store_inv store_step_inv)

text \<open>The relationship revision changes whenever a relationship does.\<close>

lemma relationships_revision:
  "store_step s s' \<Longrightarrow>
     st_revision s < st_revision s' \<or>
     st_revision s' = st_revision s \<and> st_relationships s' = st_relationships s \<and> st_bySubject s' = st_bySubject s"
proof (induction rule: store_step.induct)
  case (delete_relationship s i t)
  then show ?case by (simp add: delete_relationship_def Let_def split: option.splits)
next
  case (replace_native_grants s c gs)
  show ?case by (simp add: replace_native_grants_for_connector_def native_grants.fold_put)
qed (simp_all add: store_defs upsert_relationship_def record_persistence_degradation_def
    replace_persistence_degradations_def recorded put_record_defs Let_def)

lemma index_permutation:
  assumes "store_inv s"
  shows "mset (list_relationships_for_subject s x) = of_subject x (st_relationships s)"
  using assms by (simp add: store_inv_def index_ok_def list_relationships_for_subject_def)

lemma index_elements:
  assumes "store_inv s"
  shows "set (list_relationships_for_subject s x) =
    {r. map_get (st_relationships s) (entity_id r) = Some r \<and> subjectId r = x}"
proof -
  have keyed: "keyed entity_id (st_relationships s)" using assms by (simp add: store_inv_def)
  have "set (list_relationships_for_subject s x) = {r \<in> set (map_values (st_relationships s)). subjectId r = x}"
    using arg_cong [OF index_permutation [OF assms, of x], of set_mset] by (auto simp: of_subject_def)
  also have "\<dots> = {r. map_get (st_relationships s) (entity_id r) = Some r \<and> subjectId r = x}"
    using keyed_mem [OF keyed] map_get_mem by fastforce
  finally show ?thesis .
qed
subsection \<open>Restoring an exported store\<close>

lemma degradations_recorded:
  "length (st_degradations s) \<le> max_persistence_degradations \<Longrightarrow>
     st_degradations (record_persistence_degradation d s) =
       drop (length (st_degradations s @ [d]) - max_persistence_degradations) (st_degradations s @ [d])"
  by (cases "st_degradations s")
    (auto simp: record_persistence_degradation_def Let_def max_persistence_degradations_def)

lemma degradations_replayed:
  "length (st_degradations s) \<le> max_persistence_degradations \<Longrightarrow>
     st_degradations (fold record_persistence_degradation ds s) =
       drop (length (st_degradations s @ ds) - max_persistence_degradations) (st_degradations s @ ds)"
proof (induction ds arbitrary: s)
  case (Cons d ds)
  let ?m = max_persistence_degradations
  define D where "D = st_degradations s @ [d]"
  have rec: "st_degradations (record_persistence_degradation d s) = drop (length D - ?m) D"
    using degradations_recorded [OF Cons.prems] by (simp add: D_def)
  have "st_degradations (fold record_persistence_degradation (d # ds) s) =
      drop (length (drop (length D - ?m) D @ ds) - ?m) (drop (length D - ?m) D @ ds)"
    using Cons.IH [of "record_persistence_degradation d s"] by (simp add: rec)
  also have "drop (length D - ?m) D @ ds = drop (length D - ?m) (D @ ds)"
    by simp
  also have "drop (length (drop (length D - ?m) (D @ ds)) - ?m) (drop (length D - ?m) (D @ ds)) = drop (length (D @ ds) - ?m) (D @ ds)"
    unfolding drop_drop by (rule arg_cong [where f = "\<lambda>n. drop n (D @ ds)"]) auto
  finally show ?case by (simp add: D_def)
qed simp

lemma degradations_fold:
  "fold record_persistence_degradation ds s =
     s\<lparr>st_degradations := st_degradations (fold record_persistence_degradation ds s)\<rparr>"
proof (induction ds arbitrary: s)
  case (Cons d ds)
  from Cons.IH [of "record_persistence_degradation d s"] show ?case
    by (simp add: record_persistence_degradation_def Let_def)
qed simp

lemma audit_events_fold:
  "fold record_audit_event es s = s\<lparr>st_auditEvents := st_auditEvents s @ es\<rparr>"
  by (induction es arbitrary: s) (simp_all add: record_audit_event_def)

lemma relationships_fold:
  "\<exists>idx. fold upsert_relationship rs s =
     s\<lparr>st_relationships := map_put_all entity_id rs (st_relationships s), st_bySubject := idx,
       st_revision := st_revision s + length rs\<rparr>"
proof (induction rs arbitrary: s)
  case Nil
  show ?case by (intro exI [of _ "st_bySubject s"]) (simp add: map_put_all_def)
next
  case (Cons r rs)
  obtain idx where idx: "upsert_relationship r s =
      s\<lparr>st_relationships := map_set (entity_id r) r (st_relationships s), st_bySubject := idx,
        st_revision := st_revision s + 1\<rparr>"
    by (simp add: upsert_relationship_def Let_def)
  from Cons.IH [of "upsert_relationship r s"] show ?case
    by (auto simp: idx map_put_all_def)
qed

lemma list_all_filters [simp]:
  "list_relationships s no_relationship_filter = map_values (st_relationships s)"
  "list_native_grants s no_grant_filter = map_values (st_nativeGrants s)"
  "list_discovery_runs s None None = map_values (st_discoveryRuns s)"
  "list_readiness_reports s None None = map_values (st_readinessReports s)"
  "list_drift_findings s no_drift_filter = map_values (st_driftFindings s)"
  "list_governance_findings s None None = map_values (st_governanceFindings s)"
  "list_exception_requests s None = map_values (st_exceptionRequests s)"
  "list_audit_events s no_audit_filter = st_auditEvents s"
  by (simp_all add: list_relationships_def no_relationship_filter_def list_native_grants_def
      no_grant_filter_def list_discovery_runs_def list_readiness_reports_def list_drift_findings_def
      no_drift_filter_def matches_drift_finding_filter_def list_governance_findings_def
      list_exception_requests_def list_audit_events_def no_audit_filter_def)

lemmas list_defs = list_subjects_def list_resources_def list_provisioning_plans_def
  list_provisioning_jobs_def list_campaigns_def list_reconciliation_runs_def list_decisions_def
  list_policies_def list_policy_idempotency_def list_persistence_degradations_def

lemmas restore_phases = subjects.restore resources.restore native_grants.restore plans.restore
  jobs.restore drift_findings.restore campaigns.restore governance_findings.restore
  exception_requests.restore decisions.restore policies.restore policy_keys.restore
  discovery_runs.restore_recorded readiness_reports.restore_recorded reconciliation_runs.restore_recorded

lemma create_from_export:
  assumes inv: "store_inv s"
  shows "\<exists>idx. create_store (export_seed_data s) =
    Inr (s\<lparr>st_bySubject := idx, st_revision := length (st_relationships s)\<rparr>)"
proof -
  let ?d = "export_seed_data s"
  note keyed = inv [unfolded store_inv_def]
  let ?g0 = "empty_store\<lparr>st_subjects := st_subjects s, st_resources := st_resources s\<rparr>"
  have "for_each upsert_resource (seed_resources ?d) (for_each upsert_subject (seed_subjects ?d) empty_store) = ?g0"
    using keyed by (simp add: for_each_def export_seed_data_def list_defs restore_phases empty_store_def)
  moreover obtain idx where "fold upsert_relationship (map_values (st_relationships s)) ?g0 =
      ?g0\<lparr>st_relationships := map_put_all entity_id (map_values (st_relationships s)) (st_relationships ?g0),
           st_bySubject := idx, st_revision := st_revision ?g0 + length (map_values (st_relationships s))\<rparr>"
    using relationships_fold [of "map_values (st_relationships s)" ?g0] by blast
  ultimately have graph: "seed_graph ?d empty_store =
      ?g0\<lparr>st_relationships := st_relationships s, st_bySubject := idx,
           st_revision := length (st_relationships s), st_nativeGrants := st_nativeGrants s\<rparr>"
    using keyed map_put_all_values [of entity_id "st_relationships s"]
    by (simp add: seed_graph_def for_each_def export_seed_data_def empty_store_def restore_phases)
  define s1 where "s1 = (seed_graph ?d empty_store)\<lparr>st_discoveryRuns := st_discoveryRuns s\<rparr>"
  have s1: "try_each record_discovery_run (coalesce (seed_discoveryRuns ?d) []) (seed_graph ?d empty_store) = Inr s1"
    using keyed unfolding s1_def graph by (simp add: export_seed_data_def restore_phases empty_store_def)
  define s2 where "s2 = s1\<lparr>st_readinessReports := st_readinessReports s\<rparr>"
  have s2: "try_each record_readiness_report (coalesce (seed_readinessReports ?d) []) s1 = Inr s2"
    using keyed unfolding s2_def s1_def graph by (simp add: export_seed_data_def restore_phases empty_store_def)
  define s3 where "s3 = s2\<lparr>st_provisioningPlans := st_provisioningPlans s, st_provisioningJobs := st_provisioningJobs s,
      st_driftFindings := st_driftFindings s, st_campaigns := st_campaigns s,
      st_governanceFindings := st_governanceFindings s, st_exceptionRequests := st_exceptionRequests s\<rparr>"
  have s3: "seed_records ?d s2 = s3"
    using keyed unfolding s3_def s2_def s1_def graph
    by (simp add: seed_records_def for_each_def export_seed_data_def restore_phases empty_store_def list_defs)
  define s4 where "s4 = s3\<lparr>st_reconciliationRuns := st_reconciliationRuns s\<rparr>"
  have s4: "try_each record_reconciliation_run (coalesce (seed_reconciliationRuns ?d) []) s3 = Inr s4"
    using keyed unfolding s4_def s3_def s2_def s1_def graph
    by (simp add: export_seed_data_def restore_phases empty_store_def list_defs)
  have "st_degradations (fold record_persistence_degradation (st_degradations s) t) = st_degradations s"
    if "st_degradations t = []" for t
    using keyed degradations_replayed [of t "st_degradations s"] that by simp
  then have kept: "fold record_persistence_degradation (st_degradations s) t = t\<lparr>st_degradations := st_degradations s\<rparr>"
    if "st_degradations t = []" for t
    using that by (subst degradations_fold) simp
  have "seed_logs ?d s4 = s4\<lparr>st_decisions := st_decisions s, st_auditEvents := st_auditEvents s,
      st_degradations := st_degradations s, st_policies := st_policies s, st_policyIdempotency := st_policyIdempotency s\<rparr>"
    using keyed unfolding s4_def s3_def s2_def s1_def graph
    by (simp add: seed_logs_def for_each_def export_seed_data_def list_defs restore_phases audit_events_fold
        empty_store_def kept)
  also have "\<dots> = s\<lparr>st_bySubject := idx, st_revision := length (st_relationships s)\<rparr>"
    unfolding s4_def s3_def s2_def s1_def graph by (simp add: empty_store_def)
  finally show ?thesis
    using s1 s2 s4 by (auto simp: create_store_def bind_result_def s3)
qed

subsection \<open>A small graph for the examples\<close>

definition sample_time :: string where
  "sample_time = ''2026-01-01T00:00:00.000Z''"

definition sample_subject :: "canonical_id \<Rightarrow> subject_type \<Rightarrow> subject" where
  "sample_subject i t =
    \<lparr>entity_id = i, version = ''subject:v1'', createdAt = sample_time, updatedAt = None,
     displayName = i, sourceSystem = ''hr'', lifecycleState = Active,
     attributes = Some [(''tenantId'', JStr ''tenant:a'')], lastSeenAt = None,
     subject_type = t, identifiers = []\<rparr>"

definition sample_resource :: "canonical_id \<Rightarrow> resource_type \<Rightarrow> resource" where
  "sample_resource i t =
    \<lparr>entity_id = i, version = ''resource:v1'', createdAt = sample_time, updatedAt = None,
     displayName = i, sourceSystem = ''cms'', lifecycleState = Active,
     attributes = Some [(''tenantId'', JStr ''tenant:a'')], lastSeenAt = None,
     resource_type = t, ownerId = ''user:o'', dataStewardId = ''user:o'', technicalOwnerId = ''user:o'',
     classification = ''internal'', parentId = None\<rparr>"

definition sample_tuple :: "canonical_id \<Rightarrow> canonical_id \<Rightarrow> string \<Rightarrow> canonical_id \<Rightarrow> relationship" where
  "sample_tuple i s r ob =
    \<lparr>entity_id = i, version = ''tuple:v1'', createdAt = sample_time, updatedAt = None,
     subjectId = s, relation = r, objectId = ob, tuple_sourceSystem = ''hr'', assertedAt = sample_time,
     assertedBy = None, expiresAt = None, tuple_status = Tuple_active, tuple_attributes = None\<rparr>"

definition no_seed :: seed_data where
  "no_seed =
    \<lparr>seed_subjects = None, seed_resources = None, seed_relationships = None, seed_nativeGrants = None,
     seed_discoveryRuns = None, seed_readinessReports = None, seed_provisioningPlans = None,
     seed_provisioningJobs = None, seed_driftFindings = None, seed_campaigns = None,
     seed_governanceFindings = None, seed_exceptionRequests = None, seed_reconciliationRuns = None,
     seed_decisions = None, seed_auditEvents = None, seed_degradations = None, seed_policies = None,
     seed_policyIdempotency = None\<rparr>"

text \<open>Ada is a member of a group that can view a folder, which contains a document.\<close>

definition sample_seed :: seed_data where
  "sample_seed = no_seed
     \<lparr>seed_subjects := Some [sample_subject ''user:ada'' User, sample_subject ''group:eng'' Group],
      seed_resources := Some [sample_resource ''folder:f'' Folder, sample_resource ''doc:d'' Document],
      seed_relationships := Some
        [sample_tuple ''t1'' ''user:ada'' ''member_of'' ''group:eng'',
         sample_tuple ''t2'' ''group:eng'' ''viewer_of'' ''folder:f'',
         sample_tuple ''t3'' ''folder:f'' ''contains'' ''doc:d'']\<rparr>"

definition sample_store :: rebac_store where
  "sample_store = seed_graph sample_seed empty_store"

lemma create_sample_store: "create_store sample_seed = Inr sample_store"
  by (simp add: create_store_def sample_store_def bind_result_def sample_seed_def no_seed_def
      seed_records_def seed_logs_def for_each_def)

lemma sample_store_reachable: "store_reachable sample_store"
  by (rule store_reachable.created [OF create_sample_store])

subsection \<open>Properties\<close>

text \<open>
  C38: in every reachable store the per-subject index holds, for every subject, exactly the
  relationships of that subject, each as often as the collection does: scanning the index
  and filtering the collection give the same relationships up to their order.
\<close>
theorem index_matches_collection:
  assumes "store_reachable s"
  shows "mset (list_relationships_for_subject s x) =
           mset (filter (\<lambda>r. subjectId r = x) (list_relationships s no_relationship_filter)) \<and>
         set (list_relationships_for_subject s x) = {r. get_relationship s (entity_id r) = Some r \<and> subjectId r = x}"
  using index_permutation [OF reachable_inv [OF assms]] index_elements [OF reachable_inv [OF assms]]
  by (simp add: of_subject_def get_relationship_def)

lemma index_matches_collection_witness:
  "let s = snd (delete_relationship ''t1'' ''2026-02-01T00:00:00.000Z'' sample_store) in
   mset (list_relationships_for_subject s ''user:ada'') =
     mset (filter (\<lambda>r. subjectId r = ''user:ada'') (list_relationships s no_relationship_filter))"
  using index_matches_collection [OF store_reachable.stepped [OF sample_store_reachable
      store_step.delete_relationship [where i = "''t1''" and t = "''2026-02-01T00:00:00.000Z''"]]]
  unfolding Let_def by blast

text \<open>
  C39: exporting a reachable store and constructing a new store from the export succeeds, and
  gives back every collection with its order, the audit log and the degradation receipts; the
  index may list a subject's relationships in another order but lists the same ones.
\<close>
theorem export_create_round_trip:
  assumes "store_reachable s"
  shows "\<exists>s'. create_store (export_seed_data s) = Inr s' \<and> export_seed_data s' = export_seed_data s \<and>
           (\<forall>x. mset (list_relationships_for_subject s' x) = mset (list_relationships_for_subject s x))"
proof -
  have inv: "store_inv s" using assms by (rule reachable_inv)
  obtain idx where s': "create_store (export_seed_data s) =
      Inr (s\<lparr>st_bySubject := idx, st_revision := length (st_relationships s)\<rparr>)"
    using create_from_export [OF inv] by blast
  let ?s' = "s\<lparr>st_bySubject := idx, st_revision := length (st_relationships s)\<rparr>"
  have "mset (list_relationships_for_subject ?s' x) = mset (list_relationships_for_subject s x)" for x
    using index_permutation [OF create_store_inv [OF s'], of x] index_permutation [OF inv, of x] by simp
  moreover have "export_seed_data ?s' = export_seed_data s"
    by (simp add: export_seed_data_def list_defs)
  ultimately show ?thesis using s' by blast
qed

lemma export_create_round_trip_witness:
  "\<exists>s'. create_store (export_seed_data sample_store) = Inr s' \<and> export_seed_data s' = export_seed_data sample_store"
  using export_create_round_trip [OF sample_store_reachable] by blast

text \<open>
  no operation changes a relationship or the index without increasing the relationship
  revision, the number the decision engine keys its cache of active relationships with.
\<close>
theorem revision_tracks_relationships:
  assumes "store_step s s'"
  shows "st_revision s < st_revision s' \<or>
    (st_revision s' = st_revision s \<and> list_relationships s' f = list_relationships s f \<and>
     list_relationships_for_subject s' x = list_relationships_for_subject s x)"
  using relationships_revision [OF assms]
  by (auto simp: list_relationships_def list_relationships_for_subject_def)

lemma revision_tracks_relationships_witness:
  "st_revision sample_store < st_revision (upsert_relationship (sample_tuple ''t4'' ''user:ada'' ''denied'' ''doc:d'') sample_store)"
  using revision_tracks_relationships [OF store_step.upsert_relationship
      [where s = sample_store and ?v3.0 = "sample_tuple ''t4'' ''user:ada'' ''denied'' ''doc:d''"]]
  by (simp add: upsert_relationship_def Let_def)

text \<open>
  the evidence collections are append-only: no operation removes, replaces or reorders an
  audit event, and a recorded discovery run, readiness report or reconciliation run stays what
  it was, since recording a second one under the same id is refused.
\<close>
theorem evidence_is_append_only:
  assumes "store_step s s'"
  shows "(\<exists>es. st_auditEvents s' = st_auditEvents s @ es) \<and>
    (\<forall>i v. map_get (st_discoveryRuns s) i = Some v \<longrightarrow> map_get (st_discoveryRuns s') i = Some v) \<and>
    (\<forall>i v. map_get (st_readinessReports s) i = Some v \<longrightarrow> map_get (st_readinessReports s') i = Some v) \<and>
    (\<forall>i v. map_get (st_reconciliationRuns s) i = Some v \<longrightarrow> map_get (st_reconciliationRuns s') i = Some v)"
  using assms
proof (induction rule: store_step.induct)
  case (delete_relationship s i t)
  show ?case by (simp add: delete_relationship_def Let_def split: option.splits)
next
  case (replace_native_grants s c gs)
  show ?case by (simp add: replace_native_grants_for_connector_def native_grants.fold_put)
qed (auto simp: store_defs upsert_relationship_def record_persistence_degradation_def
    replace_persistence_degradations_def recorded put_record_defs Let_def)

lemma evidence_is_append_only_witness:
  "\<exists>es. st_auditEvents (upsert_subject (sample_subject ''user:bob'' User) sample_store) = st_auditEvents sample_store @ es"
  using evidence_is_append_only [OF store_step.upsert_subject] by blast

text \<open>
  The store keeps the last twenty degradation receipts, in order, however many are recorded.
\<close>
theorem last_degradations_kept:
  assumes "store_reachable s"
  shows "list_persistence_degradations (fold record_persistence_degradation ds s) =
    drop (length (list_persistence_degradations s @ ds) - 20) (list_persistence_degradations s @ ds)"
  using degradations_replayed [of s ds] reachable_inv [OF assms]
  by (simp add: store_inv_def list_persistence_degradations_def max_persistence_degradations_def)

definition sample_degradation :: "string \<Rightarrow> persistence_degradation" where
  "sample_degradation m = \<lparr>degraded_component = Degraded_audit, degraded_operation = ''append'',
     degraded_occurredAt = sample_time, degraded_message = m\<rparr>"

lemma last_degradations_kept_witness:
  "list_persistence_degradations
     (fold record_persistence_degradation (map sample_degradation (replicate 3 ''a'' @ replicate 20 ''b'')) sample_store) =
   map sample_degradation (replicate 20 ''b'')"
proof -
  have "list_persistence_degradations sample_store = []" by code_simp
  with last_degradations_kept [OF sample_store_reachable, of "map sample_degradation (replicate 3 ''a'' @ replicate 20 ''b'')"]
  show ?thesis by simp
qed

text \<open>
  Replacing the native grants of a connector keeps the grants of every other connector in
  their order and appends the new ones, when the new grants are of that connector, have
  different ids, and share no id with a grant of another connector.
\<close>
theorem replace_native_grants_exact:
  assumes reach: "store_reachable s"
    and mine: "\<forall>g \<in> set grants. sourceConnectorId g = c"
    and ids: "distinct (map entity_id grants)"
    and apart: "\<forall>g \<in> set grants. \<forall>h \<in> set (map_values (st_nativeGrants s)).
                  sourceConnectorId h \<noteq> c \<longrightarrow> entity_id g \<noteq> entity_id h"
  shows "list_native_grants (replace_native_grants_for_connector c grants s) no_grant_filter =
    filter (\<lambda>g. sourceConnectorId g \<noteq> c) (list_native_grants s no_grant_filter) @ grants"
proof -
  define kept where "kept = filter (\<lambda>(_, g). sourceConnectorId g \<noteq> c) (st_nativeGrants s)"
  have keyed: "keyed entity_id (st_nativeGrants s)"
    using reachable_inv [OF reach] by (simp add: store_inv_def)
  have vals: "map_values kept = filter (\<lambda>g. sourceConnectorId g \<noteq> c) (map_values (st_nativeGrants s))"
    by (simp add: kept_def filter_map comp_def case_prod_unfold)
  have fresh: "entity_id ` set grants \<inter> fst ` set kept = {}"
    using apart keyed by (fastforce simp: kept_def keyed_def)
  from map_put_all_fresh [OF ids fresh] show ?thesis
    by (simp add: replace_native_grants_for_connector_def native_grants.fold_put kept_def [symmetric] vals comp_def)
qed

definition sample_grant :: "canonical_id \<Rightarrow> string \<Rightarrow> native_grant" where
  "sample_grant i c =
    \<lparr>entity_id = i, version = ''grant:v1'', createdAt = sample_time, updatedAt = None,
     targetPlatform = ''drive'', targetObjectId = ''doc:d'', grantee_subjectId = ''user:ada'',
     principalType = Principal_user, nativePermission = ''read'', grantType = Direct_grant,
     sourceConnectorId = c, grant_status = Grant_observed, observedAt = sample_time,
     inheritedFromObjectId = None, grant_expiresAt = None, grant_attributes = None\<rparr>"

lemma replace_native_grants_exact_witness:
  "list_native_grants
     (replace_native_grants_for_connector ''conn:a'' [sample_grant ''g3'' ''conn:a'']
        (upsert_native_grant (sample_grant ''g2'' ''conn:b'') (upsert_native_grant (sample_grant ''g1'' ''conn:a'') sample_store)))
     no_grant_filter = [sample_grant ''g2'' ''conn:b'', sample_grant ''g3'' ''conn:a'']"
proof -
  let ?s = "upsert_native_grant (sample_grant ''g2'' ''conn:b'') (upsert_native_grant (sample_grant ''g1'' ''conn:a'') sample_store)"
  have "store_reachable ?s"
    by (rule store_reachable.stepped [OF store_reachable.stepped [OF sample_store_reachable]]; rule store_step.upsert_native_grant)
  moreover have "st_nativeGrants sample_store = []" by code_simp
  then have grants: "st_nativeGrants ?s = [(''g1'', sample_grant ''g1'' ''conn:a''), (''g2'', sample_grant ''g2'' ''conn:b'')]"
    by (simp add: upsert_native_grant_def sample_grant_def)
  ultimately show ?thesis
    using replace_native_grants_exact [of ?s "[sample_grant ''g3'' ''conn:a'']" "''conn:a''"]
    by (simp add: sample_grant_def)
qed

end
