(* ===== verification/Audit_Chain.thy ===== *)
theory Audit_Chain
  imports Domain
begin

text \<open>
  \<open>packages/core/src/audit.ts\<close>: the audit recorder, whose events are chained by the hash of
  the previous event, and \<open>verifyAuditChain\<close>. The lemmas relate the verification report to
  the chain condition it is meant to check, and show what the hashes protect.
\<close>

record audit_input =
  in_eventType :: string
  in_actor :: canonical_id
  in_subjectId :: "canonical_id option"
  in_resourceId :: "canonical_id option"
  in_correlationId :: canonical_id
  in_policyVersion :: "string option"
  in_relationshipVersion :: "string option"
  in_payload :: json_record

definition audit_event_hash :: "runtime \<Rightarrow> audit_event \<Rightarrow> string" where
  "audit_event_hash rt e = hash_reference rt (event_js e)"

definition audit_payload_hash :: "runtime \<Rightarrow> json_record \<Rightarrow> string" where
  "audit_payload_hash rt p = hash_reference rt (JObj p)"

subsection \<open>The recorder\<close>

definition input_js :: "audit_input \<Rightarrow> iso_date_time \<Rightarrow> string option \<Rightarrow> js" where
  "input_js i occ previous = JObj
    [(''eventType'', JStr (in_eventType i)),
     (''actor'', JStr (in_actor i)),
     (''subjectId'', opt_str (in_subjectId i)),
     (''resourceId'', opt_str (in_resourceId i)),
     (''correlationId'', JStr (in_correlationId i)),
     (''policyVersion'', opt_str (in_policyVersion i)),
     (''relationshipVersion'', opt_str (in_relationshipVersion i)),
     (''payload'', JObj (in_payload i)),
     (''occurredAt'', JStr occ),
     (''previousEventHash'', opt_str previous)]"

definition last_hash :: "runtime \<Rightarrow> audit_event list \<Rightarrow> string option" where
  "last_hash rt es = (if es = [] then None else Some (audit_event_hash rt (last es)))"

definition record_event :: "runtime \<Rightarrow> audit_input \<Rightarrow> iso_date_time \<Rightarrow> audit_event list \<Rightarrow> audit_event \<times> audit_event list" where
  "record_event rt i occ events =
     (let previous = last_hash rt events;
          event =
            \<lparr>eventId = ''evt:'' @ take 24 (sha256 rt (input_js i occ previous)),
             eventType = in_eventType i,
             occurredAt = occ,
             actor = in_actor i,
             event_subjectId = in_subjectId i,
             event_resourceId = in_resourceId i,
             correlationId = in_correlationId i,
             event_policyVersion = in_policyVersion i,
             event_relationshipVersion = in_relationshipVersion i,
             payloadHash = hash_reference rt (JObj (in_payload i)),
             previousEventHash = previous,
             payload = in_payload i\<rparr>
      in (event, events @ [event]))"

subsection \<open>Verification\<close>

definition payload_findings :: "runtime \<Rightarrow> audit_event \<Rightarrow> audit_integrity_finding list" where
  "payload_findings rt e =
     (let expected = audit_payload_hash rt (payload e) in
      if payloadHash e \<noteq> expected
      then [\<lparr>finding_code = ''PAYLOAD_HASH_MISMATCH'',
             finding_message = ''Audit event payload hash does not match the current payload.'',
             finding_severity = Sev_critical,
             finding_eventId = Some (eventId e),
             finding_expected = Some expected,
             finding_actual = Some (payloadHash e)\<rparr>]
      else [])"

definition link_findings :: "runtime \<Rightarrow> audit_event option \<Rightarrow> audit_event \<Rightarrow> audit_integrity_finding list" where
  "link_findings rt previous e =
     (let expected = map_option (audit_event_hash rt) previous in
      if previousEventHash e \<noteq> expected
      then [\<lparr>finding_code = ''PREVIOUS_EVENT_HASH_MISMATCH'',
             finding_message = ''Audit event previousEventHash does not match the prior event in append-only order.'',
             finding_severity = Sev_critical,
             finding_eventId = Some (eventId e),
             finding_expected = Some (coalesce expected ''<none>''),
             finding_actual = Some (coalesce (previousEventHash e) ''<none>'')\<rparr>]
      else [])"

fun chain_findings :: "runtime \<Rightarrow> audit_event option \<Rightarrow> audit_event list \<Rightarrow> audit_integrity_finding list" where
  "chain_findings rt previous [] = []"
| "chain_findings rt previous (e # es) =
     payload_findings rt e @ link_findings rt previous e @ chain_findings rt (Some e) es"

definition verify_audit_chain :: "runtime \<Rightarrow> audit_event list \<Rightarrow> iso_date_time \<Rightarrow> audit_integrity_report" where
  "verify_audit_chain rt events occ =
     (let found = chain_findings rt None events in
      \<lparr>integrity_status = (if length found = 0 then Verified else Failed),
       eventCount = length events,
       verifiedAt = occ,
       firstEventId = (if events = [] then None else Some (eventId (hd events))),
       lastEventId = (if events = [] then None else Some (eventId (last events))),
       firstEventHash = (if events = [] then None else Some (audit_event_hash rt (hd events))),
       lastEventHash = last_hash rt events,
       findings = found,
       report_auditEventId = None,
       report_version = ''audit-integrity:v1''\<rparr>)"

subsection \<open>The chain condition\<close>

text \<open>The contract: every payload matches its hash, every event names the hash of the one before.\<close>

definition chained :: "runtime \<Rightarrow> audit_event list \<Rightarrow> bool" where
  "chained rt es \<longleftrightarrow>
     (\<forall>i < length es. payloadHash (es ! i) = audit_payload_hash rt (payload (es ! i)) \<and>
        previousEventHash (es ! i) = (if i = 0 then None else Some (audit_event_hash rt (es ! (i - 1)))))"

fun chained_from :: "runtime \<Rightarrow> string option \<Rightarrow> audit_event list \<Rightarrow> bool" where
  "chained_from rt h [] = True"
| "chained_from rt h (e # es) =
     (payloadHash e = audit_payload_hash rt (payload e) \<and> previousEventHash e = h \<and>
      chained_from rt (Some (audit_event_hash rt e)) es)"

lemma no_findings: "chain_findings rt p es = [] \<longleftrightarrow> chained_from rt (map_option (audit_event_hash rt) p) es"
  by (induction es arbitrary: p) (auto simp: payload_findings_def link_findings_def Let_def)

lemma chained_from_nth:
  "chained_from rt h es \<longleftrightarrow>
     (\<forall>i < length es. payloadHash (es ! i) = audit_payload_hash rt (payload (es ! i)) \<and>
        previousEventHash (es ! i) = (if i = 0 then h else Some (audit_event_hash rt (es ! (i - 1)))))"
proof (induction es arbitrary: h)
  case (Cons e es)
  show ?case
    unfolding chained_from.simps Cons.IH
    by (auto simp: All_less_Suc2 nth_Cons')
qed simp

lemma chained_iff: "chained rt es \<longleftrightarrow> chained_from rt None es"
  by (simp add: chained_def chained_from_nth)

lemma verified_iff_chained_from:
  "integrity_status (verify_audit_chain rt es occ) = Verified \<longleftrightarrow> chained_from rt None es"
  using no_findings [of rt None es] by (simp add: verify_audit_chain_def Let_def)

lemma report_last_hash: "lastEventHash (verify_audit_chain rt es occ) = last_hash rt es"
  by (simp add: verify_audit_chain_def Let_def)

lemma chained_from_append:
  "chained_from rt h (es @ fs) \<longleftrightarrow>
     chained_from rt h es \<and> chained_from rt (if es = [] then h else last_hash rt es) fs"
  by (induction es arbitrary: h) (auto simp: last_hash_def)

lemma record_event_chained:
  "chained_from rt None es \<Longrightarrow> chained_from rt None (snd (record_event rt i occ es))"
  by (auto simp: record_event_def Let_def chained_from_append audit_payload_hash_def last_hash_def)

lemma record_event_appends: "snd (record_event rt i occ es) = es @ [fst (record_event rt i occ es)]"
  by (simp add: record_event_def Let_def)

subsection \<open>What the hashes protect\<close>

text \<open>Two events agree when all their fields do, payloads up to key order and absent fields.\<close>

definition same_event :: "audit_event \<Rightarrow> audit_event \<Rightarrow> bool" where
  "same_event e f \<longleftrightarrow>
     eventId e = eventId f \<and> eventType e = eventType f \<and> occurredAt e = occurredAt f \<and> actor e = actor f \<and>
     event_subjectId e = event_subjectId f \<and> event_resourceId e = event_resourceId f \<and>
     correlationId e = correlationId f \<and> event_policyVersion e = event_policyVersion f \<and>
     event_relationshipVersion e = event_relationshipVersion f \<and> payloadHash e = payloadHash f \<and>
     previousEventHash e = previousEventHash f \<and>
     js_canon (JObj (payload e)) = js_canon (JObj (payload f))"

definition canonical_text :: "runtime \<Rightarrow> audit_event \<Rightarrow> string" where
  "canonical_text rt e = stable_stringify rt (event_js e)"

definition no_collision :: "runtime \<Rightarrow> string set \<Rightarrow> bool" where
  "no_collision rt T \<longleftrightarrow> inj_on (sha256_hex rt) T"

lemma event_js_wf: "js_wf (event_js e) \<longleftrightarrow> js_wf (JObj (payload e))"
  by (auto simp: event_js_def event_fields_def opt_str_def split: option.splits)

lemma opt_str_simps [simp]:
  "opt_str s = opt_str t \<longleftrightarrow> s = t" "opt_str s = JUndefined \<longleftrightarrow> s = None"
  "js_canon (opt_str s) = opt_str s"
  by (auto simp: opt_str_def split: option.splits)

lemma canon_fields:
  "js_canon (JObj fs) = js_canon (JObj gs) \<Longrightarrow>
     (\<exists>v. (k, v) \<in> set fs \<and> v \<noteq> JUndefined \<and> w = js_canon v) \<longleftrightarrow>
     (\<exists>v. (k, v) \<in> set gs \<and> v \<noteq> JUndefined \<and> w = js_canon v)"
proof -
  assume eq: "js_canon (JObj fs) = js_canon (JObj gs)"
  let ?d = "\<lambda>fs. map (\<lambda>(k, v). (k, js_canon v)) (filter (\<lambda>(k, v). v \<noteq> JUndefined) fs)"
  from eq have "set (sort_key fst (?d fs)) = set (sort_key fst (?d gs))" by (simp only: js_canon.simps js.inject)
  then have "set (?d fs) = set (?d gs)" by (simp only: set_sort)
  moreover have mem: "(\<exists>v. (k, v) \<in> set hs \<and> v \<noteq> JUndefined \<and> w = js_canon v) \<longleftrightarrow> (k, w) \<in> set (?d hs)" for hs
    by auto
  ultimately show ?thesis unfolding mem by (simp only:)
qed

lemma canon_event: "js_canon (event_js e) = js_canon (event_js f) \<Longrightarrow> same_event e f"
proof -
  assume eq: "js_canon (event_js e) = js_canon (event_js f)"
  note fields = canon_fields [OF eq [unfolded event_js_def]]
  note scalar = fields [unfolded event_fields_def, simplified]
  have opt: "s = t" if "\<And>w. (s \<noteq> None \<and> w = opt_str s) \<longleftrightarrow> (t \<noteq> None \<and> w = opt_str t)" for s t :: "string option"
    using that [of "opt_str s"] that [of "opt_str t"] by auto
  have "event_subjectId e = event_subjectId f"
    using scalar [of "''subjectId''"] by (intro opt) auto
  moreover have "event_resourceId e = event_resourceId f"
    using scalar [of "''resourceId''"] by (intro opt) auto
  moreover have "event_policyVersion e = event_policyVersion f"
    using scalar [of "''policyVersion''"] by (intro opt) auto
  moreover have "event_relationshipVersion e = event_relationshipVersion f"
    using scalar [of "''relationshipVersion''"] by (intro opt) auto
  moreover have "previousEventHash e = previousEventHash f"
    using scalar [of "''previousEventHash''"] by (intro opt) auto
  moreover have "eventId e = eventId f" "eventType e = eventType f" "occurredAt e = occurredAt f"
    "actor e = actor f" "correlationId e = correlationId f" "payloadHash e = payloadHash f"
    using scalar [of "''eventId''" "JStr (eventId e)"] scalar [of "''eventType''" "JStr (eventType e)"]
      scalar [of "''occurredAt''" "JStr (occurredAt e)"] scalar [of "''actor''" "JStr (actor e)"]
      scalar [of "''correlationId''" "JStr (correlationId e)"] scalar [of "''payloadHash''" "JStr (payloadHash e)"]
    by simp_all
  moreover have "js_canon (JObj (payload e)) = js_canon (JObj (payload f))"
    using scalar [of "''payload''" "js_canon (JObj (payload e))"] by (simp del: js_canon.simps)
  ultimately show ?thesis by (simp add: same_event_def del: js_canon.simps)
qed

text \<open>Equal event hashes, in a set of texts without collisions, mean equal events.\<close>

lemma equal_hash:
  assumes rt: "number_text_ok rt" and col: "no_collision rt T"
    and T: "canonical_text rt e \<in> T" "canonical_text rt f \<in> T"
    and wf: "js_wf (JObj (payload e))" "js_wf (JObj (payload f))"
    and eq: "audit_event_hash rt e = audit_event_hash rt f"
  shows "same_event e f"
proof -
  from eq have "sha256_hex rt (canonical_text rt e) = sha256_hex rt (canonical_text rt f)"
    by (simp add: audit_event_hash_def hash_reference_def sha256_def canonical_text_def)
  with col T have "canonical_text rt e = canonical_text rt f"
    by (auto simp: no_collision_def dest: inj_onD)
  then have "js_canon (event_js e) = js_canon (event_js f)"
    using wf by (intro stringify_inject [OF rt]) (simp_all only: event_js_wf canonical_text_def)
  then show ?thesis by (rule canon_event)
qed

lemma chained_from_snoc:
  "chained_from rt None (es @ [e]) \<longleftrightarrow>
     chained_from rt None es \<and> payloadHash e = audit_payload_hash rt (payload e) \<and> previousEventHash e = last_hash rt es"
  by (cases "es = []") (auto simp: chained_from_append last_hash_def)

lemma equal_last_hash:
  assumes rt: "number_text_ok rt" and col: "no_collision rt T"
  shows "chained_from rt None es \<Longrightarrow> chained_from rt None fs \<Longrightarrow>
    canonical_text rt ` set (es @ fs) \<subseteq> T \<Longrightarrow> (\<forall>e \<in> set (es @ fs). js_wf (JObj (payload e))) \<Longrightarrow>
    last_hash rt es = last_hash rt fs \<Longrightarrow> list_all2 same_event es fs"
proof (induction es arbitrary: fs rule: rev_induct)
  case Nil
  then show ?case by (auto simp: last_hash_def split: if_splits)
next
  case (snoc e es)
  then obtain f fs' where fs: "fs = fs' @ [f]"
    by (cases fs rule: rev_cases) (auto simp: last_hash_def split: if_splits)
  have "same_event e f"
    using snoc.prems by (intro equal_hash [OF rt col]) (simp_all add: fs last_hash_def del: js_wf.simps)
  then have "last_hash rt es = last_hash rt fs'"
    using snoc.prems(1,2) by (simp add: fs chained_from_snoc same_event_def)
  then have "list_all2 same_event es fs'"
    using snoc.prems by (intro snoc.IH) (simp_all add: fs chained_from_snoc del: js_wf.simps)
  with \<open>same_event e f\<close> show ?case by (simp add: fs list_all2_appendI)
qed

subsection \<open>Properties\<close>

text \<open>
  C40: the text that is hashed determines the hashed value: two JSON values have the same
  \<open>stableStringify\<close> exactly when they differ only in the order of keys and in absent fields.
\<close>
theorem canonical_text_determines_value:
  assumes "number_text_ok rt" "js_wf v" "js_wf w"
  shows "stable_stringify rt v = stable_stringify rt w \<longleftrightarrow> js_canon v = js_canon w"
  using stringify_inject [OF assms] stringify_canon [of rt v] stringify_canon [of rt w] by metis

definition sample_runtime :: runtime where
  "sample_runtime = \<lparr>sha256_hex = (\<lambda>s. s), number_text = ratio_text\<rparr>"

lemma sample_runtime_ok: "number_text_ok sample_runtime"
  unfolding sample_runtime_def by (rule ratio_text_ok)

lemma canonical_text_determines_value_witness:
  "stable_stringify sample_runtime (JObj [(''b'', JNum 1), (''a'', JArr [JNull, JBool True])]) =
   stable_stringify sample_runtime (JObj [(''a'', JArr [JNull, JBool True]), (''c'', JUndefined), (''b'', JNum 1)])"
  using canonical_text_determines_value [OF sample_runtime_ok,
      of "JObj [(''b'', JNum 1), (''a'', JArr [JNull, JBool True])]"
         "JObj [(''a'', JArr [JNull, JBool True]), (''c'', JUndefined), (''b'', JNum 1)]"]
  by simp

text \<open>
  \<open>verifyAuditChain\<close> reports a log as verified exactly when every event's payload has the
  recorded hash and every event names the hash of the event before it, none for the first.
\<close>
theorem verify_reports_chain:
  "integrity_status (verify_audit_chain rt es occ) = Verified \<longleftrightarrow> chained rt es"
  by (simp only: verified_iff_chained_from chained_iff)

text \<open>
  Whatever is recorded, at whatever times, the recorder's log verifies as long as the log
  it was seeded with does, and the recorder only ever appends.
\<close>
theorem recorder_keeps_log_verified:
  assumes "integrity_status (verify_audit_chain rt es occ) = Verified"
  shows "let log = fold (\<lambda>(i, t) es. snd (record_event rt i t es)) inputs es in
    integrity_status (verify_audit_chain rt log occ) = Verified \<and> take (length es) log = es \<and>
    length log = length es + length inputs"
  using assms unfolding verified_iff_chained_from Let_def
proof (induction inputs arbitrary: es)
  case (Cons p inputs)
  obtain i t where p: "p = (i, t)" by (cases p)
  let ?es = "snd (record_event rt i t es)"
  have "chained_from rt None ?es" using Cons.prems by (rule record_event_chained)
  from Cons.IH [OF this] have ih: "chained_from rt None (fold (\<lambda>(i, t) es. snd (record_event rt i t es)) inputs ?es)"
    "take (Suc (length es)) (fold (\<lambda>(i, t) es. snd (record_event rt i t es)) inputs ?es) = ?es"
    "length (fold (\<lambda>(i, t) es. snd (record_event rt i t es)) inputs ?es) = Suc (length es) + length inputs"
    by (simp_all add: record_event_appends)
  from arg_cong [OF ih(2), of "take (length es)"] have
    "take (length es) (fold (\<lambda>(i, t) es. snd (record_event rt i t es)) inputs ?es) = es"
    by (simp add: record_event_appends)
  with ih show ?case by (simp add: p)
qed simp

definition sample_input :: "string \<Rightarrow> audit_input" where
  "sample_input a = \<lparr>in_eventType = ''decision.allowed'', in_actor = a, in_subjectId = Some ''user:ada'',
     in_resourceId = None, in_correlationId = ''corr:1'', in_policyVersion = None,
     in_relationshipVersion = None, in_payload = [(''n'', JNum 1)]\<rparr>"

lemma recorder_keeps_log_verified_witness:
  "integrity_status (verify_audit_chain sample_runtime
     (fold (\<lambda>(i, t) es. snd (record_event sample_runtime i t es)) [(sample_input ''a'', ''t1''), (sample_input ''b'', ''t2'')] []) ''now'') =
   Verified"
  using recorder_keeps_log_verified [of sample_runtime "[]" "''now''" "[(sample_input ''a'', ''t1''), (sample_input ''b'', ''t2'')]"]
  by (simp add: verify_audit_chain_def Let_def)

text \<open>
  the log is tamper-evident. Of two logs that both verify and report the same last event
  hash, with no SHA-256 collision among their events' texts, every event of one is the event of
  the other at the same position: an edited, dropped, inserted or reordered event changes the
  last hash.
\<close>
theorem last_hash_determines_log:
  assumes rt: "number_text_ok rt"
    and verified: "integrity_status (verify_audit_chain rt es occ) = Verified"
      "integrity_status (verify_audit_chain rt fs occ') = Verified"
    and hash: "lastEventHash (verify_audit_chain rt es occ) = lastEventHash (verify_audit_chain rt fs occ')"
    and collisions: "no_collision rt (canonical_text rt ` set (es @ fs))"
    and json: "\<forall>e \<in> set (es @ fs). js_wf (JObj (payload e))"
  shows "length es = length fs \<and> (\<forall>i < length es. same_event (es ! i) (fs ! i))"
proof -
  have "list_all2 same_event es fs"
    using verified [unfolded verified_iff_chained_from] hash [unfolded report_last_hash] json
    by (intro equal_last_hash [OF rt collisions]) simp_all
  then show ?thesis by (simp add: list_all2_conv_all_nth)
qed

definition sample_log :: "audit_event list" where
  "sample_log = snd (record_event sample_runtime (sample_input ''a'') ''t1'' [])"

lemma last_hash_determines_log_witness:
  "let fs = map (\<lambda>e. e\<lparr>payload := [(''m'', JUndefined), (''n'', JNum 1)]\<rparr>) sample_log in
   fs \<noteq> sample_log \<and> length sample_log = length fs \<and> (\<forall>i < length sample_log. same_event (sample_log ! i) (fs ! i))"
proof -
  let ?fs = "map (\<lambda>e. e\<lparr>payload := [(''m'', JUndefined), (''n'', JNum 1)]\<rparr>) sample_log"
  have log: "integrity_status (verify_audit_chain sample_runtime sample_log ''now'') = Verified"
    "integrity_status (verify_audit_chain sample_runtime ?fs ''now'') = Verified"
    "lastEventHash (verify_audit_chain sample_runtime sample_log ''now'') =
     lastEventHash (verify_audit_chain sample_runtime ?fs ''now'')"
    by (simp_all add: sample_log_def record_event_def Let_def verify_audit_chain_def sample_input_def payload_findings_def
        link_findings_def audit_payload_hash_def hash_reference_def sha256_def last_hash_def audit_event_hash_def
        event_js_def event_fields_def insort_key_def)
  have free: "no_collision sample_runtime T" for T
    by (simp add: no_collision_def sample_runtime_def)
  have json: "\<forall>e \<in> set (sample_log @ ?fs). js_wf (JObj (payload e))"
    by (simp add: sample_log_def record_event_def sample_input_def Let_def)
  have "?fs \<noteq> sample_log"
    by (simp add: sample_log_def record_event_def sample_input_def Let_def)
  with last_hash_determines_log [OF sample_runtime_ok log free json] show ?thesis
    unfolding Let_def by blast
qed

text \<open>
  Verification is about the events that are there: dropping any number of events from the
  end of a verified log leaves a verified log, so a truncated tail shows only against a last
  hash kept elsewhere.
\<close>
theorem truncation_is_not_detected:
  assumes "integrity_status (verify_audit_chain rt es occ) = Verified"
  shows "integrity_status (verify_audit_chain rt (take n es) occ) = Verified"
  using assms chained_from_append [of rt None "take n es" "drop n es"]
  by (simp add: verified_iff_chained_from)

lemma truncation_is_not_detected_witness:
  "integrity_status (verify_audit_chain sample_runtime (take 0 sample_log) ''now'') = Verified \<and> sample_log \<noteq> []"
proof -
  have "integrity_status (verify_audit_chain sample_runtime sample_log ''now'') = Verified"
    by (simp add: sample_log_def record_event_def Let_def verify_audit_chain_def payload_findings_def
        link_findings_def audit_payload_hash_def last_hash_def)
  from truncation_is_not_detected [OF this, of 0] show ?thesis
    by (simp add: sample_log_def record_event_def Let_def)
qed

end
