(* ===== verification/Decision_Runtime.thy ===== *)
theory Decision_Runtime
  imports Rebac_Store Audit_Chain
begin

text \<open>
  \<open>packages/core/src/decision-runtime.ts\<close>: version pins, the traversal guard with its three
  bounds, latency targets, cache metadata and the graph fixtures.

  Bounds and counters are natural numbers, clock readings and latencies rationals. The guard
  is a record; its three recording methods return whether the bound still holds, with the
  guard they leave.
\<close>

record version_pins =
  pin_policyVersion :: string
  pin_modelVersion :: string
  pin_relationshipVersion :: string
  pin_tupleVersion :: string
  pin_contextVersion :: string
  pin_asOf :: iso_date_time

record version_defaults =
  def_policyVersion :: string
  def_modelVersion :: string
  def_relationshipVersion :: string
  def_tupleVersion :: string
  def_contextVersion :: "string option"

record traversal_bounds =
  maxDepth :: nat
  maxRelationshipScans :: nat
  maxVisitedNodes :: nat

datatype traversal_bound = Bound_maxDepth | Bound_maxRelationshipScans | Bound_maxVisitedNodes

record traversal_report =
  tr_bounds :: traversal_bounds
  tr_graphSize :: graph_size
  tr_relationshipScans :: nat
  tr_visitedNodes :: nat
  tr_maxDepthReached :: nat
  tr_boundsExceeded :: "traversal_bound option"

record latency_targets =
  targetMs :: nat
  regressionGateMs :: nat

record performance_report =
  elapsedMs :: rat
  perf_targetMs :: nat
  perf_regressionGateMs :: nat
  withinTarget :: bool
  withinRegressionGate :: bool

definition default_traversal_bounds :: traversal_bounds where
  "default_traversal_bounds = \<lparr>maxDepth = 16, maxRelationshipScans = 10000, maxVisitedNodes = 2000\<rparr>"

subsection \<open>The traversal guard\<close>

record traversal_guard =
  g_bounds :: traversal_bounds
  g_graphSize :: graph_size
  g_visited :: "string list"
  g_scans :: nat
  g_maxDepth :: nat
  g_exceeded :: "traversal_bound option"

fun bound_value :: "traversal_bounds \<Rightarrow> traversal_bound \<Rightarrow> nat" where
  "bound_value b Bound_maxDepth = maxDepth b"
| "bound_value b Bound_maxRelationshipScans = maxRelationshipScans b"
| "bound_value b Bound_maxVisitedNodes = maxVisitedNodes b"

definition require_within_bound :: "traversal_bound \<Rightarrow> nat \<Rightarrow> traversal_guard \<Rightarrow> bool \<times> traversal_guard" where
  "require_within_bound b n g =
     (if n \<le> bound_value (g_bounds g) b then (True, g)
      else (False, g\<lparr>g_exceeded := Some (coalesce (g_exceeded g) b)\<rparr>))"

definition record_relationship_scan :: "traversal_guard \<Rightarrow> bool \<times> traversal_guard" where
  "record_relationship_scan g =
     (let g' = g\<lparr>g_scans := g_scans g + 1\<rparr> in require_within_bound Bound_maxRelationshipScans (g_scans g') g')"

definition record_visited_node :: "string \<Rightarrow> traversal_guard \<Rightarrow> bool \<times> traversal_guard" where
  "record_visited_node x g =
     (let g' = g\<lparr>g_visited := set_add x (g_visited g)\<rparr>
      in require_within_bound Bound_maxVisitedNodes (length (g_visited g')) g')"

definition record_depth :: "nat \<Rightarrow> traversal_guard \<Rightarrow> bool \<times> traversal_guard" where
  "record_depth d g =
     (let g' = g\<lparr>g_maxDepth := max (g_maxDepth g) d\<rparr> in require_within_bound Bound_maxDepth d g')"

definition new_guard :: "traversal_bounds \<Rightarrow> graph_size \<Rightarrow> string \<Rightarrow> traversal_guard" where
  "new_guard b n start =
     snd (record_visited_node start
       \<lparr>g_bounds = b, g_graphSize = n, g_visited = [], g_scans = 0, g_maxDepth = 0, g_exceeded = None\<rparr>)"

definition guard_report :: "traversal_guard \<Rightarrow> traversal_report" where
  "guard_report g =
    \<lparr>tr_bounds = g_bounds g, tr_graphSize = g_graphSize g, tr_relationshipScans = g_scans g,
     tr_visitedNodes = length (g_visited g), tr_maxDepthReached = g_maxDepth g, tr_boundsExceeded = g_exceeded g\<rparr>"

subsection \<open>Version pins and bounds\<close>

definition derive_context_version :: "runtime \<Rightarrow> json_record option \<Rightarrow> string" where
  "derive_context_version rt c =
     (if c = None \<or> c = Some [] then ''context:none''
      else ''context:'' @ take 16 (sha256 rt (opt_obj c)))"

definition normalize_version_pins :: "runtime \<Rightarrow> decision_request \<Rightarrow> version_defaults \<Rightarrow> string \<Rightarrow> version_pins" where
  "normalize_version_pins rt r d evaluated =
    \<lparr>pin_policyVersion = coalesce (req_policyVersion r) (def_policyVersion d),
     pin_modelVersion = coalesce (req_modelVersion r) (def_modelVersion d),
     pin_relationshipVersion = coalesce (req_relationshipVersion r) (def_relationshipVersion d),
     pin_tupleVersion = coalesce (req_tupleVersion r) (def_tupleVersion d),
     pin_contextVersion =
       coalesce (req_contextVersion r) (coalesce (def_contextVersion d) (derive_context_version rt (req_context r))),
     pin_asOf = coalesce (req_asOf r) evaluated\<rparr>"

text \<open>An override counts only when it is a positive integer.\<close>

definition positive_integer_or_default :: "rat option \<Rightarrow> nat \<Rightarrow> nat" where
  "positive_integer_or_default v fallback =
     (case v of None \<Rightarrow> fallback
      | Some q \<Rightarrow> (case quotient_of q of (n, d) \<Rightarrow> if d = 1 \<and> 0 < n then nat n else fallback))"

record bound_overrides =
  over_maxDepth :: "rat option"
  over_maxRelationshipScans :: "rat option"
  over_maxVisitedNodes :: "rat option"

definition merge_traversal_bounds :: "traversal_bounds \<Rightarrow> bound_overrides option \<Rightarrow> traversal_bounds" where
  "merge_traversal_bounds d overrides =
    \<lparr>maxDepth = positive_integer_or_default (Option.bind overrides over_maxDepth) (maxDepth d),
     maxRelationshipScans =
       positive_integer_or_default (Option.bind overrides over_maxRelationshipScans) (maxRelationshipScans d),
     maxVisitedNodes =
       positive_integer_or_default (Option.bind overrides over_maxVisitedNodes) (maxVisitedNodes d)\<rparr>"

subsection \<open>Latency\<close>

datatype fixture_name = Small | Medium | Large

fun fixture_text :: "fixture_name \<Rightarrow> string" where
  "fixture_text Small = ''small''"
| "fixture_text Medium = ''medium''"
| "fixture_text Large = ''large''"

record graph_fixture =
  fix_name :: fixture_name
  minSubjects :: nat
  minResources :: nat
  minRelationships :: nat
  fix_latencyTargets :: latency_targets

fun graph_fixture_of :: "fixture_name \<Rightarrow> graph_fixture" where
  "graph_fixture_of Small =
    \<lparr>fix_name = Small, minSubjects = 10, minResources = 10, minRelationships = 50,
     fix_latencyTargets = \<lparr>targetMs = 25, regressionGateMs = 100\<rparr>\<rparr>"
| "graph_fixture_of Medium =
    \<lparr>fix_name = Medium, minSubjects = 100, minResources = 100, minRelationships = 1000,
     fix_latencyTargets = \<lparr>targetMs = 75, regressionGateMs = 250\<rparr>\<rparr>"
| "graph_fixture_of Large =
    \<lparr>fix_name = Large, minSubjects = 500, minResources = 500, minRelationships = 5000,
     fix_latencyTargets = \<lparr>targetMs = 150, regressionGateMs = 750\<rparr>\<rparr>"

definition reaches_fixture :: "graph_size \<Rightarrow> fixture_name \<Rightarrow> bool" where
  "reaches_fixture n f \<longleftrightarrow>
     size_subjects n \<ge> minSubjects (graph_fixture_of f) \<or>
     size_resources n \<ge> minResources (graph_fixture_of f) \<or>
     size_relationships n \<ge> minRelationships (graph_fixture_of f)"

definition latency_targets_for_graph_size :: "graph_size \<Rightarrow> latency_targets" where
  "latency_targets_for_graph_size n =
     (if reaches_fixture n Large then fix_latencyTargets (graph_fixture_of Large)
      else if reaches_fixture n Medium then fix_latencyTargets (graph_fixture_of Medium)
      else fix_latencyTargets (graph_fixture_of Small))"

text \<open>\<open>Number(x.toFixed(3))\<close> for \<open>0 \<le> x < 10\<^sup>2\<^sup>1\<close>: the nearest multiple of 1/1000, ties upwards.\<close>

definition to_fixed_3 :: "rat \<Rightarrow> rat" where
  "to_fixed_3 x = of_int \<lfloor>x * 1000 + 1 / 2\<rfloor> / 1000"

definition create_performance_report :: "rat \<Rightarrow> latency_targets \<Rightarrow> performance_report" where
  "create_performance_report elapsed t =
     (let rounded = to_fixed_3 elapsed in
      \<lparr>elapsedMs = rounded, perf_targetMs = targetMs t, perf_regressionGateMs = regressionGateMs t,
       withinTarget = (rounded \<le> of_nat (targetMs t)),
       withinRegressionGate = (rounded \<le> of_nat (regressionGateMs t))\<rparr>)"

subsection \<open>Cache metadata\<close>

text \<open>
  The time to live is looked up in an object literal, so that a classification that names a
  member of \<open>Object.prototype\<close> (in lower case only \<open>constructor\<close> and \<open>__proto__\<close>) finds that
  member instead of a number.
\<close>

datatype ttl_value = Ttl_seconds nat | Ttl_inherited string

definition ttl_by_classification :: "(string \<times> nat) list" where
  "ttl_by_classification =
    [(''public'', 300), (''internal'', 120), (''confidential'', 60), (''controlled'', 30),
     (''restricted'', 30), (''secret'', 15)]"

definition max_ttl_seconds :: "string \<Rightarrow> ttl_value" where
  "max_ttl_seconds c =
     (case map_of ttl_by_classification c of
        Some n \<Rightarrow> Ttl_seconds n
      | None \<Rightarrow> if c \<in> set [''constructor'', ''__proto__''] then Ttl_inherited c else Ttl_seconds 30)"

definition normalize_classification :: "string option \<Rightarrow> string" where
  "normalize_classification c =
     (case c of None \<Rightarrow> ''unknown''
      | Some s \<Rightarrow> (let n = to_lower_case (trim s) in if n = [] then ''unknown'' else n))"

datatype range_error = Invalid_time_value

text \<open>\<open>addSeconds\<close>; \<open>seconds * 1000\<close> is \<open>NaN\<close> for an inherited member, and \<open>toISOString\<close> then throws.\<close>

definition add_seconds :: "string \<Rightarrow> ttl_value \<Rightarrow> range_error + string" where
  "add_seconds stamp ttl =
     (case date_parse stamp of
        None \<Rightarrow> Inr stamp
      | Some ms \<Rightarrow>
          (case ttl of
             Ttl_inherited _ \<Rightarrow> Inl Invalid_time_value
           | Ttl_seconds n \<Rightarrow>
               (case to_iso_string (ms + int n * 1000) of None \<Rightarrow> Inl Invalid_time_value | Some s \<Rightarrow> Inr s)))"

record cache_metadata =
  cache_key :: string
  cache_tenantId :: string
  cache_resourceClassification :: string
  cache_maxTtlSeconds :: ttl_value
  cache_expiresAt :: string
  cache_invalidationSignals :: "string list"

definition cache_signals :: "decision_request \<Rightarrow> version_pins \<Rightarrow> string \<Rightarrow> string \<Rightarrow> string list" where
  "cache_signals r pins tenant c =
    [''tenant:'' @ tenant,
     ''subject:'' @ req_subjectId r,
     ''resource:'' @ req_resourceId r,
     ''action:'' @ req_action r,
     ''policy:'' @ pin_policyVersion pins,
     ''model:'' @ pin_modelVersion pins,
     ''relationship-set:'' @ pin_relationshipVersion pins,
     ''tuple:'' @ pin_tupleVersion pins,
     ''context:'' @ pin_contextVersion pins,
     ''classification:'' @ c]"

definition cache_key_js :: "decision_request \<Rightarrow> version_pins \<Rightarrow> string \<Rightarrow> js" where
  "cache_key_js r pins tenant = JObj
    [(''tenantId'', JStr tenant),
     (''subjectId'', JStr (req_subjectId r)),
     (''action'', JStr (req_action r)),
     (''resourceId'', JStr (req_resourceId r)),
     (''policyVersion'', JStr (pin_policyVersion pins)),
     (''modelVersion'', JStr (pin_modelVersion pins)),
     (''relationshipVersion'', JStr (pin_relationshipVersion pins)),
     (''tupleVersion'', JStr (pin_tupleVersion pins)),
     (''contextVersion'', JStr (pin_contextVersion pins)),
     (''asOf'', JStr (pin_asOf pins))]"

definition create_cache_metadata ::
  "runtime \<Rightarrow> decision_request \<Rightarrow> version_pins \<Rightarrow> string option \<Rightarrow> string option \<Rightarrow> string \<Rightarrow> range_error + cache_metadata" where
  "create_cache_metadata rt r pins tenant classified evaluated =
     (let tenantId = coalesce tenant ''tenant:unknown'';
          c = normalize_classification classified;
          ttl = max_ttl_seconds c
      in case add_seconds evaluated ttl of
           Inl e \<Rightarrow> Inl e
         | Inr expires \<Rightarrow> Inr
             \<lparr>cache_key = ''decision-cache:'' @ take 32 (sha256 rt (cache_key_js r pins tenantId)),
              cache_tenantId = tenantId,
              cache_resourceClassification = c,
              cache_maxTtlSeconds = ttl,
              cache_expiresAt = expires,
              cache_invalidationSignals = cache_signals r pins tenantId c\<rparr>)"

subsection \<open>The reports as JSON\<close>

definition bounds_js :: "traversal_bounds \<Rightarrow> js" where
  "bounds_js b = JObj
    [(''maxDepth'', js_nat (maxDepth b)),
     (''maxRelationshipScans'', js_nat (maxRelationshipScans b)),
     (''maxVisitedNodes'', js_nat (maxVisitedNodes b))]"

definition graph_size_js :: "graph_size \<Rightarrow> js" where
  "graph_size_js n = JObj
    [(''subjects'', js_nat (size_subjects n)),
     (''resources'', js_nat (size_resources n)),
     (''relationships'', js_nat (size_relationships n))]"

fun bound_text :: "traversal_bound \<Rightarrow> string" where
  "bound_text Bound_maxDepth = ''maxDepth''"
| "bound_text Bound_maxRelationshipScans = ''maxRelationshipScans''"
| "bound_text Bound_maxVisitedNodes = ''maxVisitedNodes''"

definition traversal_js :: "traversal_report \<Rightarrow> js" where
  "traversal_js t = JObj
    [(''bounds'', bounds_js (tr_bounds t)),
     (''graphSize'', graph_size_js (tr_graphSize t)),
     (''relationshipScans'', js_nat (tr_relationshipScans t)),
     (''visitedNodes'', js_nat (tr_visitedNodes t)),
     (''maxDepthReached'', js_nat (tr_maxDepthReached t)),
     (''boundsExceeded'', opt_str (map_option bound_text (tr_boundsExceeded t)))]"

definition performance_js :: "performance_report \<Rightarrow> js" where
  "performance_js p = JObj
    [(''elapsedMs'', JNum (elapsedMs p)),
     (''targetMs'', js_nat (perf_targetMs p)),
     (''regressionGateMs'', js_nat (perf_regressionGateMs p)),
     (''withinTarget'', JBool (withinTarget p)),
     (''withinRegressionGate'', JBool (withinRegressionGate p))]"

text \<open>An inherited member has no JSON; it stands as \<open>null\<close> here.\<close>

fun ttl_js :: "ttl_value \<Rightarrow> js" where
  "ttl_js (Ttl_seconds n) = js_nat n"
| "ttl_js (Ttl_inherited _) = JNull"

definition cache_js :: "cache_metadata \<Rightarrow> js" where
  "cache_js c = JObj
    [(''key'', JStr (cache_key c)),
     (''tenantId'', JStr (cache_tenantId c)),
     (''resourceClassification'', JStr (cache_resourceClassification c)),
     (''maxTtlSeconds'', ttl_js (cache_maxTtlSeconds c)),
     (''expiresAt'', JStr (cache_expiresAt c)),
     (''invalidationSignals'', JArr (map JStr (cache_invalidationSignals c))),
     (''failClosed'', JBool True),
     (''localFallbackAllowed'', JBool False),
     (''staleDecisionBehavior'', JStr ''deny''),
     (''audit'', JObj
       [(''eventType'', JStr ''decision.cache_policy_evaluated''),
        (''requiredFields'', JArr (map JStr
          [''key'', ''tenantId'', ''resourceClassification'', ''maxTtlSeconds'', ''expiresAt'',
           ''invalidationSignals'', ''failClosed'', ''localFallbackAllowed'', ''staleDecisionBehavior'']))])]"

subsection \<open>Graph fixtures\<close>

definition fixture_subject :: "string \<Rightarrow> subject_type \<Rightarrow> string \<Rightarrow> (string \<times> string) list \<Rightarrow> string \<Rightarrow> subject" where
  "fixture_subject i t name idents created =
    \<lparr>entity_id = i, version = ''subject:runtime-v1'', createdAt = created, updatedAt = None,
     displayName = name, sourceSystem = ''runtime-fixture'', lifecycleState = Active, attributes = None,
     lastSeenAt = None, subject_type = t, identifiers = idents\<rparr>"

definition fixture_resource :: "string \<Rightarrow> string \<Rightarrow> string \<Rightarrow> resource" where
  "fixture_resource i name created =
    \<lparr>entity_id = i, version = ''resource:runtime-v1'', createdAt = created, updatedAt = None,
     displayName = name, sourceSystem = ''runtime-fixture'', lifecycleState = Active, attributes = None,
     lastSeenAt = None, resource_type = Document, ownerId = ''user:runtime-owner'',
     dataStewardId = ''user:runtime-steward'', technicalOwnerId = ''user:runtime-tech-owner'',
     classification = ''internal'', parentId = None\<rparr>"

definition fixture_relationship :: "string \<Rightarrow> string \<Rightarrow> string \<Rightarrow> string \<Rightarrow> string \<Rightarrow> relationship" where
  "fixture_relationship i s r ob created =
    \<lparr>entity_id = i, version = ''tuple:runtime-v1'', createdAt = created, updatedAt = None,
     subjectId = s, relation = r, objectId = ob, tuple_sourceSystem = ''runtime-fixture'',
     assertedAt = created, assertedBy = None, expiresAt = None, tuple_status = Tuple_active,
     tuple_attributes = None\<rparr>"

definition filler_relationship :: "nat \<Rightarrow> nat \<Rightarrow> string \<Rightarrow> nat \<Rightarrow> relationship" where
  "filler_relationship groupCount resourceCount created k =
     fixture_relationship (''relationship:runtime-filler-'' @ nat_str k)
       (''group:runtime-'' @ nat_str (k mod groupCount)) ''viewer_of''
       (''document:runtime-'' @ nat_str (k mod resourceCount)) created"

text \<open>\<open>for (let index = 0; relationships.length < min; index += 1) relationships.push(\<dots>)\<close>\<close>

function fill_relationships :: "(nat \<Rightarrow> relationship) \<Rightarrow> nat \<Rightarrow> nat \<Rightarrow> relationship list \<Rightarrow> relationship list" where
  "fill_relationships f least k rels =
     (if length rels < least then fill_relationships f least (k + 1) (rels @ [f k]) else rels)"
  by pat_completeness auto
termination by (relation "measure (\<lambda>(f, least, k, rels). least - length rels)") auto

declare fill_relationships.simps [simp del]

definition fixture_subjects :: "graph_fixture \<Rightarrow> string \<Rightarrow> subject list" where
  "fixture_subjects f created =
     fixture_subject ''user:runtime-subject'' User ''Runtime Subject'' [(''fixture'', fixture_text (fix_name f))] created
     # map (\<lambda>k. fixture_subject (''group:runtime-'' @ nat_str k) Group (''Runtime Group '' @ nat_str k)
         [(''fixture'', fixture_text (fix_name f)), (''index'', nat_str k)] created) [0..<max 1 (minSubjects f - 1)]"

definition fixture_resources :: "graph_fixture \<Rightarrow> string \<Rightarrow> resource list" where
  "fixture_resources f created =
     fixture_resource ''document:runtime-target'' ''Runtime Target'' created
     # map (\<lambda>k. fixture_resource (''document:runtime-'' @ nat_str k) (''Runtime Document '' @ nat_str k) created)
         [0..<max 1 (minResources f - 1)]"

definition fixture_relationships :: "graph_fixture \<Rightarrow> string \<Rightarrow> relationship list" where
  "fixture_relationships f created =
     (let groupCount = max 1 (minSubjects f - 1);
          resourceCount = max 1 (minResources f - 1);
          direct =
            [fixture_relationship ''relationship:runtime-subject-group-0'' ''user:runtime-subject'' ''member_of''
               ''group:runtime-0'' created,
             fixture_relationship ''relationship:runtime-group-0-target'' ''group:runtime-0'' ''reader_of''
               ''document:runtime-target'' created]
      in fill_relationships (filler_relationship groupCount resourceCount created) (minRelationships f) 0 direct)"

definition fixture_seed :: "fixture_name \<Rightarrow> string \<Rightarrow> seed_data" where
  "fixture_seed name created =
     (let f = graph_fixture_of name in
      no_seed\<lparr>seed_subjects := Some (fixture_subjects f created),
        seed_resources := Some (fixture_resources f created),
        seed_relationships := Some (fixture_relationships f created)\<rparr>)"

subsection \<open>The guard's laws\<close>

definition guard_ok :: "traversal_guard \<Rightarrow> bool" where
  "guard_ok g \<longleftrightarrow> (g_exceeded g = None \<longleftrightarrow>
     g_scans g \<le> maxRelationshipScans (g_bounds g) \<and> length (g_visited g) \<le> maxVisitedNodes (g_bounds g) \<and>
     g_maxDepth g \<le> maxDepth (g_bounds g))"

lemmas record_defs = record_relationship_scan_def record_visited_node_def record_depth_def require_within_bound_def

lemma record_bounds:
  "record_relationship_scan g = (b, g') \<Longrightarrow> g_bounds g' = g_bounds g"
  "record_visited_node x g = (b, g') \<Longrightarrow> g_bounds g' = g_bounds g"
  "record_depth d g = (b, g') \<Longrightarrow> g_bounds g' = g_bounds g"
  by (auto simp: record_defs Let_def split: if_splits)

lemma record_graph_size:
  "record_relationship_scan g = (b, g') \<Longrightarrow> g_graphSize g' = g_graphSize g"
  "record_visited_node x g = (b, g') \<Longrightarrow> g_graphSize g' = g_graphSize g"
  "record_depth d g = (b, g') \<Longrightarrow> g_graphSize g' = g_graphSize g"
  by (auto simp: record_defs Let_def split: if_splits)

lemma record_fails:
  "record_relationship_scan g = (False, g') \<Longrightarrow> g_exceeded g' \<noteq> None"
  "record_visited_node x g = (False, g') \<Longrightarrow> g_exceeded g' \<noteq> None"
  "record_depth d g = (False, g') \<Longrightarrow> g_exceeded g' \<noteq> None"
  by (auto simp: record_defs Let_def split: if_splits)

lemma record_succeeds:
  "record_relationship_scan g = (True, g') \<Longrightarrow> g_exceeded g' = g_exceeded g \<and> g_scans g' = Suc (g_scans g) \<and> g_scans g' \<le> maxRelationshipScans (g_bounds g)"
  "record_visited_node x g = (True, g') \<Longrightarrow> g_exceeded g' = g_exceeded g \<and> g_scans g' = g_scans g"
  "record_depth d g = (True, g') \<Longrightarrow> g_exceeded g' = g_exceeded g \<and> g_scans g' = g_scans g \<and> d \<le> maxDepth (g_bounds g)"
  by (auto simp: record_defs Let_def split: if_splits)

lemma record_guard_ok:
  "guard_ok g \<Longrightarrow> record_relationship_scan g = (b, g') \<Longrightarrow> guard_ok g'"
  "guard_ok g \<Longrightarrow> record_visited_node x g = (b, g') \<Longrightarrow> guard_ok g'"
  "guard_ok g \<Longrightarrow> record_depth d g = (b, g') \<Longrightarrow> guard_ok g'"
  by (auto simp: record_defs Let_def guard_ok_def set_add_def split: if_splits)

lemma new_guard_ok: "guard_ok (new_guard b n x)"
  by (simp add: new_guard_def record_defs Let_def guard_ok_def)

lemma new_guard_simps [simp]:
  "g_bounds (new_guard b n x) = b" "g_graphSize (new_guard b n x) = n" "g_scans (new_guard b n x) = 0"
  "0 < maxVisitedNodes b \<Longrightarrow> g_exceeded (new_guard b n x) = None"
  by (simp_all add: new_guard_def record_defs Let_def set_add_def)

lemma positive_default: "0 < d \<Longrightarrow> 0 < positive_integer_or_default v d"
  by (auto simp: positive_integer_or_default_def split: option.splits prod.splits)

lemma merged_bounds_positive:
  assumes "0 < maxDepth d" "0 < maxRelationshipScans d" "0 < maxVisitedNodes d"
  shows "0 < maxDepth (merge_traversal_bounds d ov) \<and> 0 < maxRelationshipScans (merge_traversal_bounds d ov) \<and>
         0 < maxVisitedNodes (merge_traversal_bounds d ov)"
  using assms by (simp add: merge_traversal_bounds_def positive_default)

subsection \<open>Properties\<close>

lemma fill_relationships_map:
  "length rels \<le> least \<Longrightarrow> fill_relationships f least k rels = rels @ map f [k..<k + (least - length rels)]"
proof (induction "least - length rels" arbitrary: k rels)
  case 0
  then show ?case by (subst fill_relationships.simps) simp
next
  case (Suc n)
  then have less: "length rels < least" by simp
  define m where "m = least - length (rels @ [f k])"
  have m: "least - length rels = Suc m" using less by (simp add: m_def)
  have "fill_relationships f least (k + 1) (rels @ [f k]) = (rels @ [f k]) @ map f [k + 1..<k + 1 + m]"
    using Suc less unfolding m_def by (intro Suc(1)) auto
  moreover have "fill_relationships f least k rels = fill_relationships f least (k + 1) (rels @ [f k])"
    using less by (subst fill_relationships.simps) simp
  ultimately show ?case by (simp add: m upt_conv_Cons del: upt_Suc)
qed

lemma not_nat_str [simp]: "\<not> is_digit c \<Longrightarrow> c # s \<noteq> nat_str n" "\<not> is_digit c \<Longrightarrow> nat_str n \<noteq> c # s"
  using hd_nat_str [of n] by (metis list.sel(1))+

lemma inj_nat_str [simp]: "inj_on nat_str A"
  by (rule inj_onI) simp

lemma relationships_put_all:
  "st_relationships (fold upsert_relationship rs s) = map_put_all entity_id rs (st_relationships s)"
  "st_subjects (fold upsert_relationship rs s) = st_subjects s"
  "st_resources (fold upsert_relationship rs s) = st_resources s"
  using relationships_fold [of rs s] by auto

lemma seeded_graph_size:
  assumes "distinct (map entity_id us)" "distinct (map entity_id vs)" "distinct (map entity_id rs)"
  shows "create_store (no_seed\<lparr>seed_subjects := Some us, seed_resources := Some vs, seed_relationships := Some rs\<rparr>) =
      Inr (fold upsert_relationship rs (fold upsert_resource vs (fold upsert_subject us empty_store)))"
    and "graph_size_of (fold upsert_relationship rs (fold upsert_resource vs (fold upsert_subject us empty_store))) =
      \<lparr>size_subjects = length us, size_resources = length vs, size_relationships = length rs\<rparr>"
  using assms
  by (simp_all add: create_store_def bind_result_def no_seed_def seed_graph_def seed_records_def seed_logs_def
      for_each_def graph_size_of_def relationships_put_all subjects.fold_put resources.fold_put
      empty_store_def map_put_all_fresh)

lemma fixture_ids:
  "distinct (map entity_id (fixture_subjects f created))"
  "distinct (map entity_id (fixture_resources f created))"
  "2 \<le> minRelationships f \<Longrightarrow> distinct (map entity_id (fixture_relationships f created))"
  by (auto simp: fixture_subjects_def fixture_resources_def fixture_relationships_def fixture_subject_def
      fixture_resource_def fixture_relationship_def filler_relationship_def fill_relationships_map Let_def
      distinct_map is_digit_def code_unit_def intro!: inj_onI)

lemma fixture_lengths:
  "2 \<le> minSubjects f \<Longrightarrow> length (fixture_subjects f created) = minSubjects f"
  "2 \<le> minResources f \<Longrightarrow> length (fixture_resources f created) = minResources f"
  "2 \<le> minRelationships f \<Longrightarrow> length (fixture_relationships f created) = minRelationships f"
  by (auto simp: fixture_subjects_def fixture_resources_def fixture_relationships_def fill_relationships_map Let_def)

text \<open>
  Each graph fixture builds a store of exactly the advertised number of subjects, resources
  and relationships, and a graph of that size is measured against that fixture's own latency
  targets.
\<close>
theorem fixture_builds_advertised_graph:
  "\<exists>s. create_store (fixture_seed name created) = Inr s \<and>
     graph_size_of s = \<lparr>size_subjects = minSubjects (graph_fixture_of name),
       size_resources = minResources (graph_fixture_of name),
       size_relationships = minRelationships (graph_fixture_of name)\<rparr> \<and>
     latency_targets_for_graph_size (graph_size_of s) = fix_latencyTargets (graph_fixture_of name)"
proof -
  let ?f = "graph_fixture_of name"
  have large: "2 \<le> minSubjects ?f" "2 \<le> minResources ?f" "2 \<le> minRelationships ?f"
    by (cases name; simp)+
  note built = seeded_graph_size [OF fixture_ids(1) [of ?f created] fixture_ids(2) [of ?f created] fixture_ids(3) [OF large(3), of created]]
  have "latency_targets_for_graph_size \<lparr>size_subjects = minSubjects ?f, size_resources = minResources ?f,
      size_relationships = minRelationships ?f\<rparr> = fix_latencyTargets ?f"
    by (cases name) (simp_all add: latency_targets_for_graph_size_def reaches_fixture_def)
  with built show ?thesis
    by (simp add: fixture_seed_def Let_def fixture_lengths large)
qed

lemma ttl_bounds:
  assumes "c \<notin> {''constructor'', ''__proto__''}"
  shows "\<exists>n. max_ttl_seconds c = Ttl_seconds n \<and> 15 \<le> n \<and> n \<le> 300"
proof (cases "map_of ttl_by_classification c")
  case None
  with assms show ?thesis by (simp add: max_ttl_seconds_def)
next
  case (Some n)
  then have "(c, n) \<in> set ttl_by_classification" by (rule map_of_SomeD)
  then have "15 \<le> n \<and> n \<le> 300" by (auto simp: ttl_by_classification_def)
  with Some show ?thesis by (simp add: max_ttl_seconds_def)
qed

text \<open>
  when the evaluation time is a valid instant and the classification is not the name of an
  inherited property, the cache metadata is produced, and the entry expires at the evaluation
  time plus a time to live between 15 and 300 seconds.
\<close>
theorem cache_expiry_bounded:
  assumes range: "\<bar>t\<bar> + 300000 \<le> max_time"
    and named: "normalize_classification classified \<notin> {''constructor'', ''__proto__''}"
  shows "\<exists>c n. create_cache_metadata rt r pins tenant classified (iso_text t) = Inr c \<and>
    cache_maxTtlSeconds c = Ttl_seconds n \<and> 15 \<le> n \<and> n \<le> 300 \<and>
    date_parse (cache_expiresAt c) = Some (t + 1000 * int n)"
proof -
  let ?c = "normalize_classification classified"
  obtain n where n: "max_ttl_seconds ?c = Ttl_seconds n" "15 \<le> n" "n \<le> 300"
    using ttl_bounds [OF named] by blast
  define e where "e = t + int n * 1000"
  have e: "\<bar>e\<bar> \<le> max_time" "\<bar>t\<bar> \<le> max_time"
    using range n(2,3) unfolding e_def by linarith+
  have "add_seconds (iso_text t) (Ttl_seconds n) = Inr (iso_text e)"
    unfolding add_seconds_def date_parse_iso_text [OF e(2)] option.case ttl_value.case e_def [symmetric] to_iso_string_def
    using e(1) by (simp only: if_True option.case)
  then have "create_cache_metadata rt r pins tenant classified (iso_text t) = Inr
      \<lparr>cache_key = ''decision-cache:'' @ take 32 (sha256 rt (cache_key_js r pins (coalesce tenant ''tenant:unknown''))),
       cache_tenantId = coalesce tenant ''tenant:unknown'', cache_resourceClassification = ?c,
       cache_maxTtlSeconds = Ttl_seconds n, cache_expiresAt = iso_text e,
       cache_invalidationSignals = cache_signals r pins (coalesce tenant ''tenant:unknown'') ?c\<rparr>"
    by (simp only: create_cache_metadata_def Let_def n(1) sum.case)
  moreover have "date_parse (iso_text e) = Some (t + 1000 * int n)"
    unfolding date_parse_iso_text [OF e(1)] by (simp add: e_def)
  ultimately show ?thesis using n(2,3) by (auto intro!: exI)
qed

definition sample_request :: decision_request where
  "sample_request =
    \<lparr>req_subjectId = ''user:ada'', req_action = ''read'', req_resourceId = ''doc:d'', req_context = None,
     req_policyVersion = None, req_modelVersion = None, req_relationshipVersion = None,
     req_tupleVersion = None, req_contextVersion = None, req_asOf = None\<rparr>"

definition sample_pins :: version_pins where
  "sample_pins =
    \<lparr>pin_policyVersion = ''p1'', pin_modelVersion = ''m1'', pin_relationshipVersion = ''r1'',
     pin_tupleVersion = ''t1'', pin_contextVersion = ''c1'', pin_asOf = sample_time\<rparr>"

lemma cache_expiry_bounded_witness:
  "\<exists>c n. create_cache_metadata sample_runtime sample_request sample_pins None (Some '' Secret '') (iso_text 1000) = Inr c \<and>
    cache_maxTtlSeconds c = Ttl_seconds n \<and> 15 \<le> n \<and> n \<le> 300 \<and>
    date_parse (cache_expiresAt c) = Some (1000 + 1000 * int n)"
proof -
  have "normalize_classification (Some '' Secret '') = ''secret''" by code_simp
  then show ?thesis
    using cache_expiry_bounded [of 1000 "Some '' Secret ''" sample_runtime sample_request sample_pins None]
    by (simp add: max_time_def)
qed

text \<open>
  A resource classified \<open>constructor\<close> has no time to live: producing the metadata throws, and
  with it the decision, for every valid evaluation time.
\<close>
lemma inherited_classification_throws:
  assumes "\<bar>t\<bar> \<le> max_time"
  shows "create_cache_metadata rt r pins tenant (Some ''Constructor'') (iso_text t) = Inl Invalid_time_value"
proof -
  have "normalize_classification (Some ''Constructor'') = ''constructor''" by code_simp
  then show ?thesis
    by (simp add: create_cache_metadata_def Let_def max_ttl_seconds_def ttl_by_classification_def
        add_seconds_def date_parse_iso_text [OF assms])
qed

lemma cache_key_js_determines:
  assumes "js_canon (cache_key_js r pins t) = js_canon (cache_key_js r' pins' t')"
  shows "t = t' \<and> req_subjectId r = req_subjectId r' \<and> req_action r = req_action r' \<and>
    req_resourceId r = req_resourceId r' \<and> pins = pins'"
proof -
  note fields = canon_fields [OF assms [unfolded cache_key_js_def]]
  have "t = t'" "req_subjectId r = req_subjectId r'" "req_action r = req_action r'" "req_resourceId r = req_resourceId r'"
    using fields [of "''tenantId''" "JStr t"] fields [of "''subjectId''" "JStr (req_subjectId r)"]
      fields [of "''action''" "JStr (req_action r)"] fields [of "''resourceId''" "JStr (req_resourceId r)"]
    by simp_all
  moreover have "pin_policyVersion pins = pin_policyVersion pins'" "pin_modelVersion pins = pin_modelVersion pins'"
    "pin_relationshipVersion pins = pin_relationshipVersion pins'" "pin_tupleVersion pins = pin_tupleVersion pins'"
    "pin_contextVersion pins = pin_contextVersion pins'" "pin_asOf pins = pin_asOf pins'"
    using fields [of "''policyVersion''" "JStr (pin_policyVersion pins)"] fields [of "''modelVersion''" "JStr (pin_modelVersion pins)"]
      fields [of "''relationshipVersion''" "JStr (pin_relationshipVersion pins)"]
      fields [of "''tupleVersion''" "JStr (pin_tupleVersion pins)"]
      fields [of "''contextVersion''" "JStr (pin_contextVersion pins)"] fields [of "''asOf''" "JStr (pin_asOf pins)"]
    by simp_all
  ultimately show ?thesis by simp
qed

lemma cache_key_js_wf: "js_wf (cache_key_js r pins t)"
  by (simp add: cache_key_js_def)

lemma cache_key_text:
  assumes "create_cache_metadata rt r pins tenant cls ev = Inr c"
  shows "cache_key c = ''decision-cache:'' @ take 32 (sha256_hex rt (stable_stringify rt (cache_key_js r pins (cache_tenantId c))))"
  using assms by (auto simp: create_cache_metadata_def Let_def sha256_def simp del: append.simps split: sum.splits)

text \<open>
  two decisions get the same cache key only if they agree on the tenant, the subject, the
  action, the resource, every version pin and the instant they are about, unless the truncated
  digests of the two key texts collide.
\<close>
theorem cache_key_separates:
  assumes rt: "number_text_ok rt"
    and c: "create_cache_metadata rt r pins tenant cls ev = Inr c"
      "create_cache_metadata rt r' pins' tenant' cls' ev' = Inr c'"
    and same: "cache_key c = cache_key c'"
    and free: "inj_on (\<lambda>s. take 32 (sha256_hex rt s))
      {stable_stringify rt (cache_key_js r pins (cache_tenantId c)),
       stable_stringify rt (cache_key_js r' pins' (cache_tenantId c'))}"
  shows "cache_tenantId c = cache_tenantId c' \<and> req_subjectId r = req_subjectId r' \<and>
    req_action r = req_action r' \<and> req_resourceId r = req_resourceId r' \<and> pins = pins'"
proof -
  let ?s = "stable_stringify rt (cache_key_js r pins (cache_tenantId c))"
    and ?s' = "stable_stringify rt (cache_key_js r' pins' (cache_tenantId c'))"
  have "take 32 (sha256_hex rt ?s) = take 32 (sha256_hex rt ?s')"
    using same unfolding cache_key_text [OF c(1)] cache_key_text [OF c(2)] by (simp only: same_append_eq)
  then have "?s = ?s'" by (rule inj_onD [OF free]) simp_all
  then have "js_canon (cache_key_js r pins (cache_tenantId c)) = js_canon (cache_key_js r' pins' (cache_tenantId c'))"
    by (rule stringify_inject [OF rt cache_key_js_wf cache_key_js_wf])
  then show ?thesis by (rule cache_key_js_determines)
qed

lemma cache_key_separates_witness:
  "\<exists>c c'. create_cache_metadata sample_runtime sample_request sample_pins (Some ''t'') None ''x'' = Inr c \<and>
     create_cache_metadata sample_runtime (sample_request\<lparr>req_context := Some [(''k'', JNull)]\<rparr>) sample_pins (Some ''t'') (Some ''secret'') ''y'' = Inr c' \<and>
     cache_key c = cache_key c' \<and> c \<noteq> c' \<and> cache_tenantId c = cache_tenantId c'"
proof -
  have no_date: "date_parse ''x'' = None" "date_parse ''y'' = None" by code_simp+
  obtain c where c: "create_cache_metadata sample_runtime sample_request sample_pins (Some ''t'') None ''x'' = Inr c"
    "cache_tenantId c = ''t''" "cache_expiresAt c = ''x''"
    by (simp add: create_cache_metadata_def Let_def add_seconds_def no_date)
  obtain c' where c': "create_cache_metadata sample_runtime (sample_request\<lparr>req_context := Some [(''k'', JNull)]\<rparr>) sample_pins (Some ''t'') (Some ''secret'') ''y'' = Inr c'"
    "cache_tenantId c' = ''t''" "cache_expiresAt c' = ''y''"
    by (simp add: create_cache_metadata_def Let_def add_seconds_def no_date)
  have js: "cache_key_js (sample_request\<lparr>req_context := Some [(''k'', JNull)]\<rparr>) sample_pins ''t'' = cache_key_js sample_request sample_pins ''t''"
    by (simp add: cache_key_js_def)
  have key: "cache_key c = cache_key c'"
    using c(1) c'(1) by (auto simp: create_cache_metadata_def Let_def js split: sum.splits)
  have "cache_tenantId c = cache_tenantId c'"
    using cache_key_separates [OF sample_runtime_ok c(1) c'(1) key] by (simp add: c(2) c'(2) js)
  moreover have "c \<noteq> c'" using c(3) c'(3) by auto
  ultimately show ?thesis using c(1) c'(1) key by blast
qed

end
