(* ===== verification/Secret_Material.thy ===== *)
theory Secret_Material
  imports Domain_Records "HOL-Library.Sublist"
begin

text \<open>
  \<open>secret-material-heuristics.ts\<close> and \<open>reference-repository-security-utils.ts\<close>: which field names
  look like secrets, the check that nothing persisted has such a field, the tenant checks on
  evidence, and the deep copy through JSON that the reference adapters make of what they store.
\<close>

subsection \<open>Sensitive names\<close>

definition sensitive_fragments :: "string list" where
  "sensitive_fragments =
    [''secret'', ''token'', ''password'', ''credential'', ''accesskey'', ''privatekey'', ''signingkey'', ''hmackey'', ''encryptionkey'']"

definition sensitive_key_names :: "string list" where
  "sensitive_key_names =
    [''accesskey'', ''accesstoken'', ''apikey'', ''apisecret'', ''apitoken'', ''authtoken'', ''authorization'', ''bearertoken'',
     ''clientkey'', ''clientsecret'', ''cookie'', ''idtoken'', ''refreshtoken'', ''sessiontoken'', ''setcookie'', ''token'',
     ''tokenmaterial'', ''tokenvalue'', ''xapikey'']"

text \<open>\<open>key.replaceAll(/[-_\s]/g, "").toLowerCase()\<close>\<close>

definition normalize_key :: "string \<Rightarrow> string" where
  "normalize_key k = to_lower_case (filter (\<lambda>c. c \<notin> set ''-_'' \<and> \<not> is_space c) k)"

definition is_secret_material_sensitive_key :: "string \<Rightarrow> bool" where
  "is_secret_material_sensitive_key k =
     (let normalized = normalize_key k
      in list_ex (\<lambda>f. sublist f normalized) sensitive_fragments \<or> normalized \<in> set sensitive_key_names)"

subsection \<open>The check\<close>

text \<open>
  \<open>assertNoSecretMaterial\<close>: the path of the first offending field, which the thrown error names, or
  nothing when the check passes.
\<close>

definition index_path :: "string \<Rightarrow> nat \<Rightarrow> string" where
  "index_path path i = path @ ''['' @ nat_str i @ '']''"

fun secret_path :: "string \<Rightarrow> js \<Rightarrow> string option" and
  secret_path_items :: "string \<Rightarrow> nat \<Rightarrow> js list \<Rightarrow> string option" and
  secret_path_fields :: "string \<Rightarrow> (string \<times> js) list \<Rightarrow> string option" where
  "secret_path path (JArr vs) = secret_path_items path 0 vs"
| "secret_path path (JObj fs) = secret_path_fields path fs"
| "secret_path path _ = None"
| "secret_path_items path i [] = None"
| "secret_path_items path i (v # vs) =
     (case secret_path (index_path path i) v of
        Some p \<Rightarrow> Some p
      | None \<Rightarrow> secret_path_items path (Suc i) vs)"
| "secret_path_fields path [] = None"
| "secret_path_fields path ((k, v) # fs) =
     (if is_secret_material_sensitive_key k then Some (path @ CHR ''.'' # k)
      else case secret_path (path @ CHR ''.'' # k) v of
          Some p \<Rightarrow> Some p
        | None \<Rightarrow> secret_path_fields path fs)"

subsection \<open>The copy through JSON\<close>

text \<open>\<open>JSON.parse(JSON.stringify(value))\<close>: absent fields disappear, an absent array element becomes \<open>null\<close>.\<close>

fun js_clone :: "js \<Rightarrow> js" where
  "js_clone (JArr vs) = JArr (map (\<lambda>v. if v = JUndefined then JNull else js_clone v) vs)"
| "js_clone (JObj fs) = JObj (map (\<lambda>(k, v). (k, js_clone v)) (filter (\<lambda>(k, v). v \<noteq> JUndefined) fs))"
| "js_clone v = v"

definition clone_record :: "json_record \<Rightarrow> json_record" where
  "clone_record fs = map (\<lambda>(k, v). (k, js_clone v)) (filter (\<lambda>(k, v). v \<noteq> JUndefined) fs)"

lemma js_clone_defined [simp]: "js_clone v = JUndefined \<longleftrightarrow> v = JUndefined"
  by (cases v) simp_all

lemma js_clone_idem [simp]: "js_clone (js_clone v) = js_clone v"
  by (induction v rule: js_clone.induct) (auto simp: comp_def filter_map case_prod_unfold)

lemma clone_record_idem [simp]: "clone_record (clone_record fs) = clone_record fs"
  by (auto simp: clone_record_def comp_def filter_map case_prod_unfold)

subsection \<open>What the check guarantees\<close>

text \<open>The names of the fields of a value, at any depth.\<close>

fun field_names :: "js \<Rightarrow> string set" where
  "field_names (JArr vs) = (\<Union>v \<in> set vs. field_names v)"
| "field_names (JObj fs) = (\<Union>(k, v) \<in> set fs. insert k (field_names v))"
| "field_names _ = {}"

lemma secret_path_iff:
  "secret_path path v = None \<longleftrightarrow> (\<forall>k \<in> field_names v. \<not> is_secret_material_sensitive_key k)"
  "secret_path_items path i vs = None \<longleftrightarrow> (\<forall>v \<in> set vs. \<forall>k \<in> field_names v. \<not> is_secret_material_sensitive_key k)"
  "secret_path_fields path fs = None \<longleftrightarrow>
     (\<forall>(k, v) \<in> set fs. \<not> is_secret_material_sensitive_key k \<and> (\<forall>k' \<in> field_names v. \<not> is_secret_material_sensitive_key k'))"
  by (induction path v and path i vs and path fs rule: secret_path_secret_path_items_secret_path_fields.induct)
    (auto split: option.splits)

text \<open>Copying a value never brings a field into it.\<close>

lemma field_names_clone: "field_names (js_clone v) \<subseteq> field_names v"
  by (induction v rule: js_clone.induct) (fastforce split: if_splits)+

lemma secret_path_clone: "secret_path path v = None \<Longrightarrow> secret_path path' (js_clone v) = None"
  using field_names_clone [of v] by (auto simp: secret_path_iff)

end
