(* ===== verification/Job_Queue.thy ===== *)
theory Job_Queue
  imports Secret_Material Js_Date
begin

text \<open>
  The data of \<open>reference-job-queue.ts\<close> and what its functions compute from it: queued jobs, leases,
  retries with backoff, priorities, connector health, idempotency records, and the evidence an
  enforcement job needs.

  Entities of the job repository (runs, plans, findings, ...) are stored as the JSON objects they
  are: the queue reads only their ids and, of provisioning plans and jobs, the fields named here.
  The locale-dependent \<open>localeCompare\<close> that orders request times is a parameter.
\<close>

subsection \<open>Jobs\<close>

datatype queued_job_kind = Kind_discovery | Kind_reconciliation | Kind_provisioning | Kind_evidence | Kind_revocation
datatype queued_job_priority = Emergency | High | Normal | Low
datatype queued_job_status = Queued | Running | Completed | Failed_job | Dead_lettered
datatype connector_health_status = Healthy | Degraded | Offline

record backoff_policy =
  backoff_initialDelayMs :: rat
  backoff_maxDelayMs :: rat
  backoff_multiplier :: "rat option"

record enqueue_request =
  enq_kind :: queued_job_kind
  enq_connectorId :: canonical_id
  enq_idempotencyKey :: string
  enq_payload :: json_record
  enq_priority :: "queued_job_priority option"
  enq_requestedAt :: "string option"
  enq_maxAttempts :: "rat option"
  enq_backoff :: "backoff_policy option"
  enq_approval :: "json_record option"
  enq_control :: "json_record option"
  enq_readinessReportId :: "canonical_id option"
  enq_replayedFromJobId :: "canonical_id option"

record normalized_request =
  nr_kind :: queued_job_kind
  nr_connectorId :: canonical_id
  nr_idempotencyKey :: string
  nr_payload :: json_record
  nr_priority :: queued_job_priority
  nr_requestedAt :: string
  nr_maxAttempts :: rat
  nr_backoff :: backoff_policy
  nr_approval :: "json_record option"
  nr_control :: "json_record option"
  nr_readinessReportId :: "canonical_id option"
  nr_requestHash :: string
  nr_replayedFromJobId :: "canonical_id option"

record queued_job =
  qj_id :: canonical_id
  qj_kind :: queued_job_kind
  qj_connectorId :: canonical_id
  qj_status :: queued_job_status
  qj_priority :: queued_job_priority
  qj_idempotencyKey :: string
  qj_requestHash :: string
  qj_payload :: json_record
  qj_attempts :: nat
  qj_maxAttempts :: rat
  qj_backoff :: backoff_policy
  qj_requestedAt :: string
  qj_availableAt :: string
  qj_updatedAt :: string
  qj_workerId :: "canonical_id option"
  qj_startedAt :: "string option"
  qj_leaseExpiresAt :: "string option"
  qj_completedAt :: "string option"
  qj_failedAt :: "string option"
  qj_deadLetteredAt :: "string option"
  qj_lastError :: "string option"
  qj_replayedFromJobId :: "canonical_id option"
  qj_approval :: "json_record option"
  qj_control :: "json_record option"
  qj_readinessReportId :: "canonical_id option"

record idempotency_record =
  ir_idempotencyKey :: string
  ir_jobId :: canonical_id
  ir_requestHash :: string
  ir_recordedAt :: string

record connector_health =
  ch_connectorId :: canonical_id
  ch_status :: connector_health_status
  ch_updatedAt :: string
  ch_reason :: "string option"
  ch_lastSuccessAt :: "string option"
  ch_lastFailureAt :: "string option"

record queue_snapshot =
  queuedJobs :: "queued_job list"
  connectorHealth :: "connector_health list"
  idempotencyRecords :: "idempotency_record list"

definition empty_queue_snapshot :: queue_snapshot where
  "empty_queue_snapshot = \<lparr>queuedJobs = [], connectorHealth = [], idempotencyRecords = []\<rparr>"

text \<open>What an operation throws.\<close>

datatype queue_error =
    Secret_material string
  | Evidence_crosses_tenant string
  | Report_crosses_tenant string
  | No_tenant_boundary
  | No_idempotency_key
  | No_connector_id
  | No_enforcement_evidence
  | Idempotency_key_reused string
  | Job_does_not_exist canonical_id
  | Job_not_running string canonical_id queued_job_status
  | Lease_expired string canonical_id string
  | Reserved_by_other_worker canonical_id canonical_id canonical_id
  | Not_dead_lettered canonical_id
  | Has_been_recorded string js
  | Backup_does_not_exist canonical_id
  | Wrong_envelope
  | Wrong_tenant_boundary
  | Wrong_jobs_hash
  | Wrong_queue_hash
  | Write_conflict
  | Invalid_time
  | Type_error

subsection \<open>The text of the enumerations, and the objects that are hashed\<close>

fun kind_text :: "queued_job_kind \<Rightarrow> string" where
  "kind_text Kind_discovery = ''discovery''"
| "kind_text Kind_reconciliation = ''reconciliation''"
| "kind_text Kind_provisioning = ''provisioning''"
| "kind_text Kind_evidence = ''evidence''"
| "kind_text Kind_revocation = ''revocation''"

fun priority_text :: "queued_job_priority \<Rightarrow> string" where
  "priority_text Emergency = ''emergency''"
| "priority_text High = ''high''"
| "priority_text Normal = ''normal''"
| "priority_text Low = ''low''"

fun job_status_text :: "queued_job_status \<Rightarrow> string" where
  "job_status_text Queued = ''queued''"
| "job_status_text Running = ''running''"
| "job_status_text Completed = ''completed''"
| "job_status_text Failed_job = ''failed''"
| "job_status_text Dead_lettered = ''dead_lettered''"

fun health_text :: "connector_health_status \<Rightarrow> string" where
  "health_text Healthy = ''healthy''"
| "health_text Degraded = ''degraded''"
| "health_text Offline = ''offline''"

definition opt_num :: "rat option \<Rightarrow> js" where
  "opt_num n = (case n of None \<Rightarrow> JUndefined | Some q \<Rightarrow> JNum q)"

definition backoff_js :: "backoff_policy \<Rightarrow> js" where
  "backoff_js b = JObj
    [(''strategy'', JStr ''exponential''),
     (''initialDelayMs'', JNum (backoff_initialDelayMs b)),
     (''maxDelayMs'', JNum (backoff_maxDelayMs b)),
     (''multiplier'', opt_num (backoff_multiplier b))]"

definition queued_job_js :: "queued_job \<Rightarrow> js" where
  "queued_job_js j = JObj
    [(''id'', JStr (qj_id j)),
     (''kind'', JStr (kind_text (qj_kind j))),
     (''connectorId'', JStr (qj_connectorId j)),
     (''status'', JStr (job_status_text (qj_status j))),
     (''priority'', JStr (priority_text (qj_priority j))),
     (''idempotencyKey'', JStr (qj_idempotencyKey j)),
     (''requestHash'', JStr (qj_requestHash j)),
     (''payload'', JObj (qj_payload j)),
     (''attempts'', js_nat (qj_attempts j)),
     (''maxAttempts'', JNum (qj_maxAttempts j)),
     (''backoff'', backoff_js (qj_backoff j)),
     (''requestedAt'', JStr (qj_requestedAt j)),
     (''availableAt'', JStr (qj_availableAt j)),
     (''updatedAt'', JStr (qj_updatedAt j)),
     (''workerId'', opt_str (qj_workerId j)),
     (''startedAt'', opt_str (qj_startedAt j)),
     (''leaseExpiresAt'', opt_str (qj_leaseExpiresAt j)),
     (''completedAt'', opt_str (qj_completedAt j)),
     (''failedAt'', opt_str (qj_failedAt j)),
     (''deadLetteredAt'', opt_str (qj_deadLetteredAt j)),
     (''lastError'', opt_str (qj_lastError j)),
     (''replayedFromJobId'', opt_str (qj_replayedFromJobId j)),
     (''approval'', opt_obj (qj_approval j)),
     (''control'', opt_obj (qj_control j)),
     (''readinessReportId'', opt_str (qj_readinessReportId j)),
     (''version'', JStr ''production-queued-job:v1'')]"

definition health_js :: "connector_health \<Rightarrow> js" where
  "health_js h = JObj
    [(''connectorId'', JStr (ch_connectorId h)),
     (''status'', JStr (health_text (ch_status h))),
     (''updatedAt'', JStr (ch_updatedAt h)),
     (''reason'', opt_str (ch_reason h)),
     (''lastSuccessAt'', opt_str (ch_lastSuccessAt h)),
     (''lastFailureAt'', opt_str (ch_lastFailureAt h)),
     (''version'', JStr ''production-connector-health:v1'')]"

definition idempotency_js :: "idempotency_record \<Rightarrow> js" where
  "idempotency_js r = JObj
    [(''idempotencyKey'', JStr (ir_idempotencyKey r)),
     (''jobId'', JStr (ir_jobId r)),
     (''requestHash'', JStr (ir_requestHash r)),
     (''recordedAt'', JStr (ir_recordedAt r)),
     (''version'', JStr ''production-job-idempotency:v1'')]"

definition queue_js :: "queue_snapshot \<Rightarrow> js" where
  "queue_js q = JObj
    [(''queuedJobs'', JArr (map queued_job_js (queuedJobs q))),
     (''connectorHealth'', JArr (map health_js (connectorHealth q))),
     (''idempotencyRecords'', JArr (map idempotency_js (idempotencyRecords q)))]"

subsection \<open>Making a job of a request\<close>

fun default_priority :: "queued_job_kind \<Rightarrow> queued_job_priority" where
  "default_priority k = (if k = Kind_revocation then Emergency else Normal)"

definition default_backoff_policy :: backoff_policy where
  "default_backoff_policy = \<lparr>backoff_initialDelayMs = 30000, backoff_maxDelayMs = 900000, backoff_multiplier = Some 2\<rparr>"

definition default_lease_duration_ms :: rat where
  "default_lease_duration_ms = 300000"

definition request_hash_js :: "normalized_request \<Rightarrow> js" where
  "request_hash_js n = JObj
    [(''kind'', JStr (kind_text (nr_kind n))),
     (''connectorId'', JStr (nr_connectorId n)),
     (''idempotencyKey'', JStr (nr_idempotencyKey n)),
     (''payload'', JObj (nr_payload n)),
     (''priority'', JStr (priority_text (nr_priority n))),
     (''maxAttempts'', JNum (nr_maxAttempts n)),
     (''backoff'', backoff_js (nr_backoff n)),
     (''approval'', opt_obj (nr_approval n)),
     (''control'', opt_obj (nr_control n)),
     (''readinessReportId'', opt_str (nr_readinessReportId n)),
     (''replayedFromJobId'', opt_str (nr_replayedFromJobId n))]"

definition normalize_enqueue_request :: "runtime \<Rightarrow> string \<Rightarrow> enqueue_request \<Rightarrow> queue_error + normalized_request" where
  "normalize_enqueue_request rt now r =
     (if enq_idempotencyKey r = [] then Inl No_idempotency_key
      else if enq_connectorId r = [] then Inl No_connector_id
      else
        (let n = \<lparr>nr_kind = enq_kind r, nr_connectorId = enq_connectorId r, nr_idempotencyKey = enq_idempotencyKey r,
               nr_payload = clone_record (enq_payload r),
               nr_priority = coalesce (enq_priority r) (default_priority (enq_kind r)),
               nr_requestedAt = coalesce (enq_requestedAt r) now,
               nr_maxAttempts = coalesce (enq_maxAttempts r) 3,
               nr_backoff = coalesce (enq_backoff r) default_backoff_policy,
               nr_approval = enq_approval r, nr_control = enq_control r,
               nr_readinessReportId = enq_readinessReportId r, nr_requestHash = [],
               nr_replayedFromJobId = enq_replayedFromJobId r\<rparr>
         in Inr (n\<lparr>nr_requestHash := hash_reference rt (request_hash_js n)\<rparr>)))"

definition job_id_js :: "canonical_id \<Rightarrow> string \<Rightarrow> queued_job_kind \<Rightarrow> js" where
  "job_id_js connector key kind = JObj
    [(''connectorId'', JStr connector), (''idempotencyKey'', JStr key), (''kind'', JStr (kind_text kind))]"

definition create_queued_job :: "runtime \<Rightarrow> normalized_request \<Rightarrow> queued_job" where
  "create_queued_job rt n =
    \<lparr>qj_id = ''queue:'' @ take 24 (sha256 rt (job_id_js (nr_connectorId n) (nr_idempotencyKey n) (nr_kind n))),
     qj_kind = nr_kind n, qj_connectorId = nr_connectorId n, qj_status = Queued, qj_priority = nr_priority n,
     qj_idempotencyKey = nr_idempotencyKey n, qj_requestHash = nr_requestHash n, qj_payload = nr_payload n,
     qj_attempts = 0, qj_maxAttempts = nr_maxAttempts n, qj_backoff = nr_backoff n,
     qj_requestedAt = nr_requestedAt n, qj_availableAt = nr_requestedAt n, qj_updatedAt = nr_requestedAt n,
     qj_workerId = None, qj_startedAt = None, qj_leaseExpiresAt = None, qj_completedAt = None, qj_failedAt = None,
     qj_deadLetteredAt = None, qj_lastError = None, qj_replayedFromJobId = nr_replayedFromJobId n,
     qj_approval = nr_approval n, qj_control = nr_control n, qj_readinessReportId = nr_readinessReportId n\<rparr>"

text \<open>
  \<open>assertEnforcementEvidence\<close>. The payload is an ordinary object, so an absent \<open>mode\<close> is \<open>undefined\<close>.
\<close>

definition payload_field :: "json_record \<Rightarrow> string \<Rightarrow> js" where
  "payload_field p k = coalesce (map_get p k) JUndefined"

definition assert_enforcement_evidence :: "normalized_request \<Rightarrow> queue_error option" where
  "assert_enforcement_evidence n =
     (if nr_kind n \<noteq> Kind_provisioning then None
      else if \<not> (payload_field (nr_payload n) ''mode'' = JStr ''enforcement'' \<or>
                 payload_field (nr_payload n) ''dryRun'' = JBool False) then None
      else if nr_approval n = None \<or> nr_control n = None \<or> \<not> truthy (nr_readinessReportId n)
      then Some No_enforcement_evidence else None)"

subsection \<open>Lists keyed by a field\<close>

text \<open>\<open>upsertById\<close> and its variants: the first item of the same key is replaced in place.\<close>

fun replace_first :: "('a \<Rightarrow> bool) \<Rightarrow> 'a \<Rightarrow> 'a list \<Rightarrow> 'a list" where
  "replace_first P y [] = []"
| "replace_first P y (x # xs) = (if P x then y # xs else x # replace_first P y xs)"

definition upsert_by :: "('a \<Rightarrow> 'k) \<Rightarrow> 'a list \<Rightarrow> 'a \<Rightarrow> 'a list" where
  "upsert_by key xs y =
     (if find (\<lambda>x. key x = key y) xs = None then xs @ [y] else replace_first (\<lambda>x. key x = key y) y xs)"

definition append_unique_by :: "('a \<Rightarrow> js) \<Rightarrow> string \<Rightarrow> 'a list \<Rightarrow> 'a \<Rightarrow> queue_error + 'a list" where
  "append_unique_by key label xs y =
     (if list_ex (\<lambda>x. key x = key y) xs then Inl (Has_been_recorded label (key y)) else Inr (xs @ [y]))"

definition find_job :: "queue_snapshot \<Rightarrow> canonical_id \<Rightarrow> queued_job option" where
  "find_job q i = find (\<lambda>j. qj_id j = i) (queuedJobs q)"

definition required_queued_job :: "queue_snapshot \<Rightarrow> canonical_id \<Rightarrow> queue_error + queued_job" where
  "required_queued_job q i = (case find_job q i of None \<Rightarrow> Inl (Job_does_not_exist i) | Some j \<Rightarrow> Inr j)"

definition put_job :: "queued_job \<Rightarrow> queue_snapshot \<Rightarrow> queue_snapshot" where
  "put_job j q = q\<lparr>queuedJobs := upsert_by qj_id (queuedJobs q) j\<rparr>"

subsection \<open>Time\<close>

text \<open>\<open>new Date(Date.parse(isoDate) + milliseconds).toISOString()\<close>: a fraction of a millisecond is cut off.\<close>

definition cut_off :: "rat \<Rightarrow> int" where
  "cut_off q = (if 0 \<le> q then \<lfloor>q\<rfloor> else \<lceil>q\<rceil>)"

definition add_ms :: "string \<Rightarrow> rat \<Rightarrow> queue_error + string" where
  "add_ms date ms =
     (case date_parse date of
        None \<Rightarrow> Inl Invalid_time
      | Some t \<Rightarrow>
          (case to_iso_string (cut_off (of_int t + ms)) of None \<Rightarrow> Inl Invalid_time | Some s \<Rightarrow> Inr s))"

text \<open>A whole number of milliseconds is added as it is.\<close>

lemma add_ms_whole:
  assumes "date_parse s = Some t" "ms = of_int k" "iso_text (t + k) = s'" "\<bar>t + k\<bar> \<le> max_time"
  shows "add_ms s ms = Inr s'"
proof -
  have "cut_off (of_int t + ms) = t + k" using assms(2) by (simp add: cut_off_def flip: of_int_add)
  with assms(1,3,4) show ?thesis by (simp add: add_ms_def to_iso_string_def)
qed

definition backoff_delay_ms :: "queued_job \<Rightarrow> rat" where
  "backoff_delay_ms j =
     (let multiplier = coalesce (backoff_multiplier (qj_backoff j)) 2
      in min (backoff_maxDelayMs (qj_backoff j)) (backoff_initialDelayMs (qj_backoff j) * multiplier ^ (qj_attempts j - 1)))"

subsection \<open>Reservation\<close>

fun priority_rank :: "queued_job_priority \<Rightarrow> int" where
  "priority_rank Emergency = 0"
| "priority_rank High = 1"
| "priority_rank Normal = 2"
| "priority_rank Low = 3"

definition compare_queued_jobs :: "(string \<Rightarrow> string \<Rightarrow> int) \<Rightarrow> queued_job \<Rightarrow> queued_job \<Rightarrow> int" where
  "compare_queued_jobs collate l r =
     (let d = priority_rank (qj_priority l) - priority_rank (qj_priority r)
      in if d \<noteq> 0 then d else collate (qj_requestedAt l) (qj_requestedAt r))"

text \<open>\<open>Array.prototype.sort\<close> is stable; with a comparator, insertion from the right is.\<close>

fun insert_job :: "('a \<Rightarrow> 'a \<Rightarrow> int) \<Rightarrow> 'a \<Rightarrow> 'a list \<Rightarrow> 'a list" where
  "insert_job cmp x [] = [x]"
| "insert_job cmp x (y # ys) = (if cmp x y \<le> 0 then x # y # ys else y # insert_job cmp x ys)"

definition sort_jobs :: "('a \<Rightarrow> 'a \<Rightarrow> int) \<Rightarrow> 'a list \<Rightarrow> 'a list" where
  "sort_jobs cmp xs = foldr (insert_job cmp) xs []"

definition recover_job :: "string \<Rightarrow> queued_job \<Rightarrow> queued_job" where
  "recover_job recoveredAt j =
     (case qj_leaseExpiresAt j of
        None \<Rightarrow> j
      | Some lease \<Rightarrow>
          if qj_status j \<noteq> Running \<or> lease = [] \<or> lease > recoveredAt then j
          else j\<lparr>qj_status := Queued, qj_workerId := None, qj_leaseExpiresAt := None,
                 qj_availableAt := recoveredAt, qj_updatedAt := recoveredAt,
                 qj_lastError := Some (''Worker lease expired at '' @ lease @ ''; job returned to queue.'')\<rparr>)"

definition recover_expired_running_jobs :: "queue_snapshot \<Rightarrow> string \<Rightarrow> queue_snapshot" where
  "recover_expired_running_jobs q recoveredAt = q\<lparr>queuedJobs := map (recover_job recoveredAt) (queuedJobs q)\<rparr>"

definition is_connector_reservable :: "queued_job \<Rightarrow> queue_snapshot \<Rightarrow> bool" where
  "is_connector_reservable j q =
     (case find (\<lambda>h. ch_connectorId h = qj_connectorId j) (connectorHealth q) of
        None \<Rightarrow> True
      | Some h \<Rightarrow> ch_status h = Healthy \<or> qj_kind j = Kind_revocation \<and> qj_priority j = Emergency)"

definition eligible_job :: "queue_snapshot \<Rightarrow> string \<Rightarrow> queued_job \<Rightarrow> bool" where
  "eligible_job q reservedAt j \<longleftrightarrow> qj_status j = Queued \<and> qj_availableAt j \<le> reservedAt \<and> is_connector_reservable j q"

definition next_job :: "(string \<Rightarrow> string \<Rightarrow> int) \<Rightarrow> queue_snapshot \<Rightarrow> string \<Rightarrow> queued_job option" where
  "next_job collate q reservedAt =
     (case sort_jobs (compare_queued_jobs collate) (filter (eligible_job q reservedAt) (queuedJobs q)) of
        [] \<Rightarrow> None
      | j # _ \<Rightarrow> Some j)"

subsection \<open>Guards\<close>

definition assert_worker_matches :: "queued_job \<Rightarrow> canonical_id option \<Rightarrow> queue_error option" where
  "assert_worker_matches j worker =
     (if truthy worker \<and> truthy (qj_workerId j) \<and> worker \<noteq> qj_workerId j
      then Some (Reserved_by_other_worker (qj_id j) (coalesce (qj_workerId j) []) (coalesce worker [])) else None)"

definition assert_job_running :: "queued_job \<Rightarrow> string \<Rightarrow> queue_error option" where
  "assert_job_running j operation =
     (if qj_status j \<noteq> Running then Some (Job_not_running operation (qj_id j) (qj_status j)) else None)"

definition assert_lease_active :: "queued_job \<Rightarrow> string \<Rightarrow> string \<Rightarrow> queue_error option" where
  "assert_lease_active j checkedAt operation =
     (case qj_leaseExpiresAt j of
        None \<Rightarrow> None
      | Some lease \<Rightarrow>
          if lease \<noteq> [] \<and> lease \<le> checkedAt then Some (Lease_expired operation (qj_id j) lease) else None)"

subsection \<open>What each operation does to the queue\<close>

text \<open>The functions the adapter's operations commit: the new queue and the result, or the error thrown.\<close>

definition enqueue_in_queue :: "runtime \<Rightarrow> normalized_request \<Rightarrow> queue_snapshot \<Rightarrow> queue_error + (queue_snapshot \<times> queued_job \<times> bool)" where
  "enqueue_in_queue rt n q =
     (case find (\<lambda>r. ir_idempotencyKey r = nr_idempotencyKey n) (idempotencyRecords q) of
        Some existing \<Rightarrow>
          if ir_requestHash existing \<noteq> nr_requestHash n then Inl (Idempotency_key_reused (nr_idempotencyKey n))
          else (case required_queued_job q (ir_jobId existing) of Inl e \<Rightarrow> Inl e | Inr j \<Rightarrow> Inr (q, j, False))
      | None \<Rightarrow>
          (let j = create_queued_job rt n
           in Inr (q\<lparr>queuedJobs := queuedJobs q @ [j],
                     idempotencyRecords := idempotencyRecords q @
                       [\<lparr>ir_idempotencyKey = qj_idempotencyKey j, ir_jobId = qj_id j, ir_requestHash = qj_requestHash j,
                         ir_recordedAt = qj_requestedAt j\<rparr>]\<rparr>, j, True)))"

definition reserve_in_queue ::
  "(string \<Rightarrow> string \<Rightarrow> int) \<Rightarrow> canonical_id \<Rightarrow> string \<Rightarrow> rat option \<Rightarrow> queue_snapshot \<Rightarrow>
   queue_error + (queue_snapshot \<times> queued_job option)" where
  "reserve_in_queue collate worker reservedAt leaseDurationMs q =
     (let recovered = recover_expired_running_jobs q reservedAt in
      case next_job collate recovered reservedAt of
        None \<Rightarrow> Inr (recovered, None)
      | Some j \<Rightarrow>
          (case add_ms reservedAt (coalesce leaseDurationMs default_lease_duration_ms) of
             Inl e \<Rightarrow> Inl e
           | Inr lease \<Rightarrow>
               (let running = j\<lparr>qj_status := Running, qj_workerId := Some worker, qj_startedAt := Some reservedAt,
                      qj_leaseExpiresAt := Some lease, qj_updatedAt := reservedAt, qj_attempts := qj_attempts j + 1\<rparr>
                in Inr (put_job running recovered, Some running))))"

definition complete_in_queue ::
  "canonical_id \<Rightarrow> canonical_id option \<Rightarrow> string \<Rightarrow> queue_snapshot \<Rightarrow> queue_error + (queue_snapshot \<times> queued_job)" where
  "complete_in_queue i worker completedAt q =
     (case required_queued_job q i of
        Inl e \<Rightarrow> Inl e
      | Inr j \<Rightarrow>
     (case assert_job_running j ''complete'' of
        Some e \<Rightarrow> Inl e
      | None \<Rightarrow>
     (case assert_lease_active j completedAt ''complete'' of
        Some e \<Rightarrow> Inl e
      | None \<Rightarrow>
     (case assert_worker_matches j worker of
        Some e \<Rightarrow> Inl e
      | None \<Rightarrow>
          (let completed = j\<lparr>qj_status := Completed, qj_workerId := coalesce_opt worker (qj_workerId j),
                 qj_completedAt := Some completedAt, qj_updatedAt := completedAt\<rparr>
           in Inr (put_job completed q, completed))))))"

definition failed_job :: "queued_job \<Rightarrow> canonical_id option \<Rightarrow> string \<Rightarrow> string \<Rightarrow> queue_error + queued_job" where
  "failed_job j worker failedAt reason =
     (if of_nat (qj_attempts j) < qj_maxAttempts j
      then (case add_ms failedAt (backoff_delay_ms j) of
              Inl e \<Rightarrow> Inl e
            | Inr available \<Rightarrow> Inr (j\<lparr>qj_status := Queued, qj_workerId := None, qj_leaseExpiresAt := None,
                qj_failedAt := Some failedAt, qj_lastError := Some reason, qj_availableAt := available,
                qj_updatedAt := failedAt\<rparr>))
      else Inr (j\<lparr>qj_status := Dead_lettered, qj_workerId := coalesce_opt worker (qj_workerId j),
             qj_failedAt := Some failedAt, qj_deadLetteredAt := Some failedAt, qj_lastError := Some reason,
             qj_updatedAt := failedAt\<rparr>))"

definition fail_in_queue ::
  "canonical_id \<Rightarrow> canonical_id option \<Rightarrow> string \<Rightarrow> string \<Rightarrow> queue_snapshot \<Rightarrow> queue_error + (queue_snapshot \<times> queued_job)" where
  "fail_in_queue i worker failedAt reason q =
     (case required_queued_job q i of
        Inl e \<Rightarrow> Inl e
      | Inr j \<Rightarrow>
     (case assert_job_running j ''record failure for'' of
        Some e \<Rightarrow> Inl e
      | None \<Rightarrow>
     (case assert_worker_matches j worker of
        Some e \<Rightarrow> Inl e
      | None \<Rightarrow>
     (case failed_job j worker failedAt reason of
        Inl e \<Rightarrow> Inl e
      | Inr failed \<Rightarrow> Inr (put_job failed q, failed)))))"

definition set_health_in_queue :: "connector_health \<Rightarrow> queue_snapshot \<Rightarrow> queue_snapshot" where
  "set_health_in_queue h q = q\<lparr>connectorHealth := upsert_by ch_connectorId (connectorHealth q) h\<rparr>"

end
