(* ===== verification/Job_Queue_Laws.thy ===== *)
theory Job_Queue_Laws
  imports Job_Queue
begin

text \<open>
  The queue as a state machine: its steps, the invariant every reachable queue satisfies, the life
  of a single job, and what reserving, failing and re-submitting a job do.
\<close>

subsection \<open>Keyed lists\<close>

lemma replace_first_absent: "(\<And>x. x \<in> set xs \<Longrightarrow> \<not> P x) \<Longrightarrow> replace_first P y xs = xs"
  by (induction xs) auto

lemma replace_first_keys:
  "replace_first (\<lambda>x. key x = key y) y xs = map (\<lambda>x. if key x = key y then y else x) xs" if "distinct (map key xs)"
  using that
proof (induction xs)
  case (Cons x xs)
  then have "key x = key y \<Longrightarrow> map (\<lambda>z. if key z = key y then y else z) xs = xs"
    by (intro map_idI) (auto simp: image_iff)
  with Cons show ?case by auto
qed simp

lemma upsert_by_present:
  assumes "distinct (map key xs)" "x \<in> set xs" "key x = key y"
  shows "upsert_by key xs y = map (\<lambda>z. if key z = key y then y else z) xs"
proof -
  have "find (\<lambda>z. key z = key y) xs \<noteq> None" using assms(2,3) by (auto simp: find_None_iff)
  then show ?thesis using assms(1) by (simp add: upsert_by_def replace_first_keys)
qed

lemma map_same_key:
  "key x = key y \<Longrightarrow> map key (map (\<lambda>z. if key z = key y then y else z) xs) = map key xs"
  by (induction xs) auto

lemma find_distinct:
  "distinct (map key xs) \<Longrightarrow> x \<in> set xs \<Longrightarrow> find (\<lambda>z. key z = key x) xs = Some x"
  by (induction xs) (auto simp: image_iff)

lemma find_Some_mem: "find P xs = Some x \<Longrightarrow> x \<in> set xs \<and> P x"
  by (induction xs) (auto split: if_splits)

lemma required_job: "required_queued_job q i = Inr j \<Longrightarrow> j \<in> set (queuedJobs q) \<and> qj_id j = i"
  by (auto simp: required_queued_job_def find_job_def split: option.splits dest: find_Some_mem)

subsection \<open>The first of a sorted list\<close>

lemma set_insert_job [simp]: "set (insert_job cmp x xs) = insert x (set xs)"
  by (induction xs) auto

lemma set_sort_jobs [simp]: "set (sort_jobs cmp xs) = set xs"
  by (induction xs) (simp_all add: sort_jobs_def)

text \<open>Whatever order the comparison implies, the first item of the sorted list is least in it.\<close>

lemma sort_jobs_first:
  assumes refl: "\<And>x. R x x" and trans: "\<And>x y z. R x y \<Longrightarrow> R y z \<Longrightarrow> R x z"
    and le: "\<And>x y. cmp x y \<le> 0 \<Longrightarrow> R x y" and gt: "\<And>x y. 0 < cmp x y \<Longrightarrow> R y x"
    and sorted: "sort_jobs cmp xs = j # js"
  shows "\<forall>x \<in> set xs. R j x"
proof -
  have insert: "\<forall>x \<in> set (insert_job cmp z ys). R (hd (insert_job cmp z ys)) x"
    if least: "\<forall>x \<in> set ys. R (hd ys) x" for z ys
  proof (cases ys)
    case (Cons y zs)
    with least have y: "R y x" if "x \<in> set zs" for x using that by simp
    show ?thesis
    proof (cases "cmp z y \<le> 0")
      case True
      with Cons y refl show ?thesis by (auto intro: le trans [OF le])
    next
      case False
      with Cons y refl gt [of z y] show ?thesis by (auto simp: not_le)
    qed
  qed (simp add: refl)
  have "\<forall>x \<in> set (sort_jobs cmp xs). R (hd (sort_jobs cmp xs)) x"
    by (induction xs) (simp_all add: sort_jobs_def insert)
  with sorted show ?thesis using set_sort_jobs [of cmp xs] by auto
qed

lemma next_job_eligible: "next_job collate q t = Some j \<Longrightarrow> j \<in> set (queuedJobs q) \<and> eligible_job q t j"
proof -
  assume "next_job collate q t = Some j"
  then obtain js where "sort_jobs (compare_queued_jobs collate) (filter (eligible_job q t) (queuedJobs q)) = j # js"
    by (auto simp: next_job_def split: list.splits)
  then have "j \<in> set (filter (eligible_job q t) (queuedJobs q))"
    by (metis list.set_intros(1) set_sort_jobs)
  then show ?thesis by simp
qed

lemma next_job_first:
  assumes "next_job collate q t = Some j" "k \<in> set (queuedJobs q)" "eligible_job q t k"
    and "\<And>x. R x x" "\<And>x y z. R x y \<Longrightarrow> R y z \<Longrightarrow> R x z"
    and "\<And>x y. compare_queued_jobs collate x y \<le> 0 \<Longrightarrow> R x y" "\<And>x y. 0 < compare_queued_jobs collate x y \<Longrightarrow> R y x"
  shows "R j k"
proof -
  obtain js where "sort_jobs (compare_queued_jobs collate) (filter (eligible_job q t) (queuedJobs q)) = j # js"
    using assms(1) by (auto simp: next_job_def split: list.splits)
  from sort_jobs_first [of R "compare_queued_jobs collate", OF assms(4-7) this] assms(2,3) show ?thesis by auto
qed

lemma next_job_None: "next_job collate q t = None \<longleftrightarrow> (\<forall>j \<in> set (queuedJobs q). \<not> eligible_job q t j)"
proof -
  have "next_job collate q t = None \<longleftrightarrow> sort_jobs (compare_queued_jobs collate) (filter (eligible_job q t) (queuedJobs q)) = []"
    by (auto simp: next_job_def split: list.splits)
  also have "\<dots> \<longleftrightarrow> set (filter (eligible_job q t) (queuedJobs q)) = {}"
    by (metis set_empty set_sort_jobs)
  finally show ?thesis by auto
qed

subsection \<open>The invariant\<close>

text \<open>What holds of a job in each status.\<close>

definition needs_evidence :: "queued_job \<Rightarrow> bool" where
  "needs_evidence j \<longleftrightarrow> qj_kind j = Kind_provisioning \<and>
     (payload_field (qj_payload j) ''mode'' = JStr ''enforcement'' \<or> payload_field (qj_payload j) ''dryRun'' = JBool False)"

definition job_ok :: "queued_job \<Rightarrow> bool" where
  "job_ok j \<longleftrightarrow>
     (case qj_status j of
        Queued \<Rightarrow> qj_workerId j = None \<and> qj_leaseExpiresAt j = None \<and> qj_completedAt j = None \<and> qj_deadLetteredAt j = None
      | Running \<Rightarrow> qj_workerId j \<noteq> None \<and> qj_startedAt j \<noteq> None \<and> qj_leaseExpiresAt j \<noteq> None \<and> 0 < qj_attempts j \<and>
          qj_completedAt j = None \<and> qj_deadLetteredAt j = None
      | Completed \<Rightarrow> qj_workerId j \<noteq> None \<and> qj_completedAt j \<noteq> None \<and> 0 < qj_attempts j
      | Dead_lettered \<Rightarrow> qj_deadLetteredAt j \<noteq> None \<and> qj_lastError j \<noteq> None \<and> qj_maxAttempts j \<le> of_nat (qj_attempts j)
      | Failed_job \<Rightarrow> False) \<and>
     clone_record (qj_payload j) = qj_payload j \<and>
     (needs_evidence j \<longrightarrow> qj_approval j \<noteq> None \<and> qj_control j \<noteq> None \<and> truthy (qj_readinessReportId j))"

definition recorded_as :: "idempotency_record \<Rightarrow> queued_job \<Rightarrow> bool" where
  "recorded_as r j \<longleftrightarrow> ir_jobId r = qj_id j \<and> ir_idempotencyKey r = qj_idempotencyKey j \<and> ir_requestHash r = qj_requestHash j"

definition queue_inv :: "queue_snapshot \<Rightarrow> bool" where
  "queue_inv q \<longleftrightarrow>
     distinct (map qj_id (queuedJobs q)) \<and> distinct (map ir_idempotencyKey (idempotencyRecords q)) \<and>
     distinct (map ch_connectorId (connectorHealth q)) \<and>
     list_all2 recorded_as (idempotencyRecords q) (queuedJobs q) \<and>
     (\<forall>j \<in> set (queuedJobs q). job_ok j)"

subsection \<open>What the steps do to the jobs\<close>

text \<open>A step changes no field of a job that says what the job is.\<close>

definition same_job :: "queued_job \<Rightarrow> queued_job \<Rightarrow> bool" where
  "same_job j k \<longleftrightarrow>
     qj_id k = qj_id j \<and> qj_kind k = qj_kind j \<and> qj_connectorId k = qj_connectorId j \<and> qj_priority k = qj_priority j \<and>
     qj_idempotencyKey k = qj_idempotencyKey j \<and> qj_requestHash k = qj_requestHash j \<and> qj_payload k = qj_payload j \<and>
     qj_maxAttempts k = qj_maxAttempts j \<and> qj_backoff k = qj_backoff j \<and> qj_requestedAt k = qj_requestedAt j \<and>
     qj_replayedFromJobId k = qj_replayedFromJobId j \<and> qj_approval k = qj_approval j \<and> qj_control k = qj_control j \<and>
     qj_readinessReportId k = qj_readinessReportId j"

text \<open>The life of a job, one change at a time.\<close>

inductive job_change :: "queued_job \<Rightarrow> queued_job \<Rightarrow> bool" where
  reserved: "qj_status j = Queued \<Longrightarrow> qj_status k = Running \<Longrightarrow> qj_attempts k = qj_attempts j + 1 \<Longrightarrow> same_job j k \<Longrightarrow> job_change j k"
| returned: "qj_status j = Running \<Longrightarrow> qj_status k = Queued \<Longrightarrow> qj_attempts k = qj_attempts j \<Longrightarrow> same_job j k \<Longrightarrow> job_change j k"
| completed: "qj_status j = Running \<Longrightarrow> qj_status k = Completed \<Longrightarrow> qj_attempts k = qj_attempts j \<Longrightarrow> same_job j k \<Longrightarrow> job_change j k"
| buried: "qj_status j = Running \<Longrightarrow> qj_status k = Dead_lettered \<Longrightarrow> qj_attempts k = qj_attempts j \<Longrightarrow>
    qj_maxAttempts j \<le> of_nat (qj_attempts j) \<Longrightarrow> same_job j k \<Longrightarrow> job_change j k"

lemma same_job_refl [simp]: "same_job j j"
  by (simp add: same_job_def)

lemma same_job_trans [trans]: "same_job i j \<Longrightarrow> same_job j k \<Longrightarrow> same_job i k"
  by (simp add: same_job_def)

lemma same_job_id: "same_job j k \<Longrightarrow> qj_id k = qj_id j"
  by (simp add: same_job_def)

lemma job_change_same: "job_change j k \<Longrightarrow> same_job j k"
  by (auto elim: job_change.cases)

lemma job_change_final: "job_change\<^sup>*\<^sup>* j k \<Longrightarrow> qj_status j \<in> {Completed, Dead_lettered} \<Longrightarrow> k = j"
  by (induction rule: rtranclp_induct) (auto elim: job_change.cases)

lemma job_changes_same: "job_change\<^sup>*\<^sup>* j k \<Longrightarrow> same_job j k"
  by (induction rule: rtranclp_induct) (auto intro: same_job_trans dest: job_change_same)

lemma job_changes_attempts: "job_change\<^sup>*\<^sup>* j k \<Longrightarrow> qj_attempts j \<le> qj_attempts k"
  by (induction rule: rtranclp_induct) (auto elim!: job_change.cases)

subsection \<open>Each operation, as it acts on the list of jobs\<close>

lemma recover_job_id [simp]: "qj_id (recover_job t j) = qj_id j"
  by (simp add: recover_job_def split: option.split)

lemma recover_job_change: "recover_job t j = j \<or> job_change j (recover_job t j)"
  by (auto simp: recover_job_def same_job_def intro!: job_change.returned split: option.split)

lemma recover_job_ok: "job_ok j \<Longrightarrow> job_ok (recover_job t j)"
  by (auto simp: recover_job_def job_ok_def needs_evidence_def split: option.split queued_job_status.splits)

lemma recovered_jobs [simp]:
  "queuedJobs (recover_expired_running_jobs q t) = map (recover_job t) (queuedJobs q)"
  "idempotencyRecords (recover_expired_running_jobs q t) = idempotencyRecords q"
  "connectorHealth (recover_expired_running_jobs q t) = connectorHealth q"
  by (simp_all add: recover_expired_running_jobs_def)

lemma put_job_fields [simp]:
  "idempotencyRecords (put_job k q) = idempotencyRecords q" "connectorHealth (put_job k q) = connectorHealth q"
  by (simp_all add: put_job_def)

lemma put_job_jobs:
  assumes "distinct (map qj_id (queuedJobs q))" "j \<in> set (queuedJobs q)" "qj_id j = qj_id k"
  shows "queuedJobs (put_job k q) = map (\<lambda>x. if qj_id x = qj_id k then k else x) (queuedJobs q)"
  using upsert_by_present [where key = qj_id, OF assms] by (simp add: put_job_def)

lemma reserve_cases:
  assumes "reserve_in_queue collate w t ms q = Inr (q', r)"
  obtains (none) "r = None" "q' = recover_expired_running_jobs q t" "next_job collate (recover_expired_running_jobs q t) t = None"
  | (some) j lease k where "r = Some k" "next_job collate (recover_expired_running_jobs q t) t = Some j"
      "add_ms t (coalesce ms default_lease_duration_ms) = Inr lease"
      "k = j\<lparr>qj_status := Running, qj_workerId := Some w, qj_startedAt := Some t,
             qj_leaseExpiresAt := Some lease, qj_updatedAt := t, qj_attempts := qj_attempts j + 1\<rparr>"
      "q' = put_job k (recover_expired_running_jobs q t)"
  using assms that by (auto simp: reserve_in_queue_def Let_def split: option.splits sum.splits)

lemma complete_cases:
  assumes "complete_in_queue i w t q = Inr (q', k)"
  obtains j where "j \<in> set (queuedJobs q)" "qj_id j = i" "qj_status j = Running" "q' = put_job k q"
    "assert_lease_active j t ''complete'' = None" "assert_worker_matches j w = None"
    "k = j\<lparr>qj_status := Completed, qj_workerId := coalesce_opt w (qj_workerId j), qj_completedAt := Some t, qj_updatedAt := t\<rparr>"
  using assms that required_job
  by (fastforce simp: complete_in_queue_def assert_job_running_def Let_def split: option.splits sum.splits if_splits)

lemma fail_cases:
  assumes "fail_in_queue i w t reason q = Inr (q', k)"
  obtains j where "j \<in> set (queuedJobs q)" "qj_id j = i" "qj_status j = Running" "q' = put_job k q"
    "assert_worker_matches j w = None" "failed_job j w t reason = Inr k"
  using assms that required_job
  by (fastforce simp: fail_in_queue_def assert_job_running_def split: option.splits sum.splits if_splits)

lemma enqueue_cases:
  assumes "enqueue_in_queue rt n q = Inr (q', k, new)"
  obtains (old) r where "\<not> new" "q' = q" "r \<in> set (idempotencyRecords q)" "ir_idempotencyKey r = nr_idempotencyKey n"
      "ir_requestHash r = nr_requestHash n" "k \<in> set (queuedJobs q)" "qj_id k = ir_jobId r"
  | (new) "new" "k = create_queued_job rt n" "\<forall>r \<in> set (idempotencyRecords q). ir_idempotencyKey r \<noteq> nr_idempotencyKey n"
      "queuedJobs q' = queuedJobs q @ [k]" "connectorHealth q' = connectorHealth q"
      "idempotencyRecords q' = idempotencyRecords q @
         [\<lparr>ir_idempotencyKey = qj_idempotencyKey k, ir_jobId = qj_id k, ir_requestHash = qj_requestHash k, ir_recordedAt = qj_requestedAt k\<rparr>]"
proof (cases "find (\<lambda>r. ir_idempotencyKey r = nr_idempotencyKey n) (idempotencyRecords q)")
  case None
  with assms that(2) show ?thesis by (auto simp: enqueue_in_queue_def Let_def find_None_iff)
next
  case (Some r)
  then have "r \<in> set (idempotencyRecords q)" "ir_idempotencyKey r = nr_idempotencyKey n" by (auto dest: find_Some_mem)
  with Some assms that(1) [of r] show ?thesis
    by (auto simp: enqueue_in_queue_def split: if_splits sum.splits dest: required_job)
qed

subsection \<open>The queue as a state machine\<close>

text \<open>
  One committed operation. A job's id is 24 characters of a hash; \<open>upsertById\<close> relies on no two
  different requests having the same one, which the step of enqueueing states of the ids in the queue.
\<close>

inductive queue_step :: "(string \<Rightarrow> string \<Rightarrow> int) \<Rightarrow> runtime \<Rightarrow> queue_snapshot \<Rightarrow> queue_snapshot \<Rightarrow> bool" for collate rt where
  enqueue: "normalize_enqueue_request rt now r = Inr n \<Longrightarrow> assert_enforcement_evidence n = None \<Longrightarrow>
    enqueue_in_queue rt n q = Inr (q', j, new) \<Longrightarrow> (new \<Longrightarrow> qj_id j \<notin> qj_id ` set (queuedJobs q)) \<Longrightarrow> queue_step collate rt q q'"
| reserve: "reserve_in_queue collate w t ms q = Inr (q', r) \<Longrightarrow> queue_step collate rt q q'"
| complete: "complete_in_queue i w' t q = Inr (q', j) \<Longrightarrow> queue_step collate rt q q'"
| fail: "fail_in_queue i w' t reason q = Inr (q', j) \<Longrightarrow> queue_step collate rt q q'"
| health: "queue_step collate rt q (set_health_in_queue h q)"

definition queue_reachable :: "(string \<Rightarrow> string \<Rightarrow> int) \<Rightarrow> runtime \<Rightarrow> queue_snapshot \<Rightarrow> bool" where
  "queue_reachable collate rt q \<longleftrightarrow> (queue_step collate rt)\<^sup>*\<^sup>* empty_queue_snapshot q"

text \<open>What a step does to the list of jobs: every job stays in its place, possibly changed, or one job and its record are added.\<close>

definition jobs_kept :: "queue_snapshot \<Rightarrow> queue_snapshot \<Rightarrow> bool" where
  "jobs_kept q q' \<longleftrightarrow>
     idempotencyRecords q' = idempotencyRecords q \<and> list_all2 job_change\<^sup>*\<^sup>* (queuedJobs q) (queuedJobs q')"

definition job_added :: "queue_snapshot \<Rightarrow> queue_snapshot \<Rightarrow> bool" where
  "job_added q q' \<longleftrightarrow>
     (\<exists>k r. queuedJobs q' = queuedJobs q @ [k] \<and> idempotencyRecords q' = idempotencyRecords q @ [r] \<and> recorded_as r k \<and>
        qj_id k \<notin> qj_id ` set (queuedJobs q) \<and> ir_idempotencyKey r \<notin> ir_idempotencyKey ` set (idempotencyRecords q))"

lemma put_job_follows:
  assumes "distinct (map qj_id (queuedJobs q))" "j \<in> set (queuedJobs q)" "job_change j k"
  shows "list_all2 job_change\<^sup>*\<^sup>* (queuedJobs q) (queuedJobs (put_job k q))"
proof -
  have same: "qj_id k = qj_id j" using assms(3) by (simp add: same_job_id job_change_same)
  have "x = j" if "x \<in> set (queuedJobs q)" "qj_id x = qj_id k" for x
    using that same assms(1,2) by (simp add: distinct_map inj_on_def)
  then show ?thesis
    using assms(3) same
    by (subst put_job_jobs [OF assms(1,2)])
      (auto simp: list.rel_map intro!: list.rel_refl_strong)
qed

lemma put_job_ids:
  assumes "distinct (map qj_id (queuedJobs q))" "j \<in> set (queuedJobs q)" "qj_id k = qj_id j"
  shows "map qj_id (queuedJobs (put_job k q)) = map qj_id (queuedJobs q)"
  by (subst put_job_jobs [OF assms(1,2)]) (auto simp: assms(3))

lemma put_job_set:
  assumes "distinct (map qj_id (queuedJobs q))" "j \<in> set (queuedJobs q)" "qj_id k = qj_id j"
  shows "set (queuedJobs (put_job k q)) \<subseteq> insert k (set (queuedJobs q))"
  by (subst put_job_jobs [OF assms(1,2)]) (auto simp: assms(3))

lemma recovered_follows: "list_all2 job_change\<^sup>*\<^sup>* js (map (recover_job t) js)"
  using recover_job_change by (auto simp: list.rel_map intro!: list.rel_refl_strong) (metis r_into_rtranclp rtranclp.rtrancl_refl)

lemma recovered_ids: "map qj_id (map (recover_job t) js) = map qj_id js"
  by simp

lemma changes_trans:
  "list_all2 job_change\<^sup>*\<^sup>* xs ys \<Longrightarrow> list_all2 job_change\<^sup>*\<^sup>* ys zs \<Longrightarrow> list_all2 job_change\<^sup>*\<^sup>* xs zs"
  by (rule list_all2_trans [of "job_change\<^sup>*\<^sup>*" "job_change\<^sup>*\<^sup>*" "job_change\<^sup>*\<^sup>*"]) (auto intro: rtranclp_trans)

lemma reserve_change:
  assumes "next_job collate q t = Some j"
    and "k = j\<lparr>qj_status := Running, qj_workerId := Some w, qj_startedAt := Some t,
             qj_leaseExpiresAt := Some lease, qj_updatedAt := t, qj_attempts := qj_attempts j + 1\<rparr>"
  shows "j \<in> set (queuedJobs q) \<and> job_change j k"
  using next_job_eligible [OF assms(1)] assms(2) by (auto simp: eligible_job_def same_job_def intro!: job_change.reserved)

lemma complete_change:
  assumes "qj_status j = Running"
    and "k = j\<lparr>qj_status := Completed, qj_workerId := w, qj_completedAt := Some t, qj_updatedAt := t\<rparr>"
  shows "job_change j k"
  using assms by (auto simp: same_job_def intro!: job_change.completed)

lemma fail_change: "failed_job j w t reason = Inr k \<Longrightarrow> qj_status j = Running \<Longrightarrow> job_change j k"
  by (auto simp: failed_job_def same_job_def not_less intro: job_change.returned job_change.buried
      split: if_splits sum.splits)

lemma step_shape:
  assumes "queue_step collate rt q q'" "distinct (map qj_id (queuedJobs q))"
  shows "jobs_kept q q' \<or> job_added q q'"
  using assms(1)
proof cases
  case (enqueue now r n j new)
  from enqueue(3) show ?thesis
    by (cases rule: enqueue_cases) (use enqueue(4) in \<open>auto simp: jobs_kept_def job_added_def recorded_as_def create_queued_job_def intro!: list.rel_refl\<close>)
next
  case (reserve w t ms r)
  from reserve show ?thesis
  proof (cases rule: reserve_cases)
    case none
    then show ?thesis by (simp add: jobs_kept_def recovered_follows)
  next
    case (some j lease k)
    note change = reserve_change [OF some(2,4)]
    have "list_all2 job_change\<^sup>*\<^sup>* (map (recover_job t) (queuedJobs q)) (queuedJobs q')"
      using put_job_follows [of "recover_expired_running_jobs q t" j k] change assms(2) some(5) by (simp add: comp_def)
    from changes_trans [OF recovered_follows this] some(5) show ?thesis
      by (simp add: jobs_kept_def)
  qed
next
  case (complete i w' t j)
  then show ?thesis
  proof (cases rule: complete_cases)
    case (1 j')
    with put_job_follows [OF assms(2) 1(1) complete_change [OF 1(3) 1(7)]] show ?thesis
      by (simp add: jobs_kept_def)
  qed
next
  case (fail i w' t reason j)
  then show ?thesis
  proof (cases rule: fail_cases)
    case (1 j')
    with put_job_follows [OF assms(2) 1(1) fail_change [OF 1(6) 1(3)]] show ?thesis
      by (simp add: jobs_kept_def)
  qed
next
  case (health h)
  then show ?thesis by (simp add: jobs_kept_def set_health_in_queue_def list.rel_refl)
qed

subsection \<open>Every step keeps the invariant\<close>

lemma changes_ids: "list_all2 job_change\<^sup>*\<^sup>* js ks \<Longrightarrow> map qj_id ks = map qj_id js"
  by (induction rule: list_all2_induct) (auto dest: job_changes_same same_job_id)

lemma changes_recorded:
  "list_all2 recorded_as rs js \<Longrightarrow> list_all2 job_change\<^sup>*\<^sup>* js ks \<Longrightarrow> list_all2 recorded_as rs ks"
  by (erule list_all2_trans [of recorded_as "job_change\<^sup>*\<^sup>*" recorded_as, rotated])
    (auto simp: recorded_as_def same_job_def dest!: job_changes_same)

lemma upsert_by_keys:
  "distinct (map key xs) \<Longrightarrow> distinct (map key (upsert_by key xs y))"
proof (cases "find (\<lambda>x. key x = key y) xs")
  case (Some x)
  assume distinct: "distinct (map key xs)"
  from Some have x: "x \<in> set xs" "key x = key y" by (auto dest: find_Some_mem)
  have "map key (map (\<lambda>z. if key z = key y then y else z) xs) = map key xs" using x(2) by (rule map_same_key)
  with distinct show ?thesis by (simp only: upsert_by_present [OF distinct x])
qed (auto simp: upsert_by_def find_None_iff)

lemma created_ok:
  assumes "normalize_enqueue_request rt now r = Inr n" "assert_enforcement_evidence n = None"
  shows "job_ok (create_queued_job rt n)"
proof -
  have "clone_record (nr_payload n) = nr_payload n"
    using assms(1) by (auto simp: normalize_enqueue_request_def Let_def split: if_splits)
  with assms(2) show ?thesis
    by (auto simp: job_ok_def create_queued_job_def needs_evidence_def assert_enforcement_evidence_def split: if_splits)
qed

lemma reserved_ok:
  assumes "job_ok j" "qj_status j = Queued"
    and "k = j\<lparr>qj_status := Running, qj_workerId := Some w, qj_startedAt := Some t,
             qj_leaseExpiresAt := Some lease, qj_updatedAt := t, qj_attempts := qj_attempts j + 1\<rparr>"
  shows "job_ok k"
  using assms by (auto simp: job_ok_def needs_evidence_def)

lemma completed_ok:
  assumes "job_ok j" "qj_status j = Running"
    and "k = j\<lparr>qj_status := Completed, qj_workerId := coalesce_opt w (qj_workerId j), qj_completedAt := Some t, qj_updatedAt := t\<rparr>"
  shows "job_ok k"
  using assms by (cases w) (auto simp: job_ok_def needs_evidence_def coalesce_opt_def)

lemma failed_ok:
  assumes "job_ok j" "qj_status j = Running" "failed_job j w t reason = Inr k"
  shows "job_ok k"
  using assms by (auto simp: failed_job_def job_ok_def needs_evidence_def not_less split: if_splits sum.splits)

text \<open>The jobs of a step's result are jobs of before, changed by one of the above, or the one added.\<close>

lemma step_jobs_ok:
  assumes "queue_step collate rt q q'" "distinct (map qj_id (queuedJobs q))" "\<forall>j \<in> set (queuedJobs q). job_ok j"
  shows "\<forall>j \<in> set (queuedJobs q'). job_ok j"
  using assms(1)
proof cases
  case (enqueue now r n j new)
  from enqueue(3) show ?thesis
    by (cases rule: enqueue_cases) (use assms(3) created_ok [OF enqueue(1,2)] in auto)
next
  case (reserve w t ms r)
  then show ?thesis
  proof (cases rule: reserve_cases)
    case none
    with assms(3) show ?thesis by (auto intro: recover_job_ok)
  next
    case (some j lease k)
    let ?r = "recover_expired_running_jobs q t"
    have j: "j \<in> set (queuedJobs ?r)" "qj_status j = Queued" using next_job_eligible [OF some(2)] by (auto simp: eligible_job_def)
    then have "job_ok k" using reserved_ok [OF _ _ some(4)] assms(3) by (auto intro: recover_job_ok)
    moreover have "set (queuedJobs q') \<subseteq> insert k (set (queuedJobs ?r))"
      using put_job_set [of ?r j k] j(1) assms(2) some(4,5) by (simp add: comp_def)
    ultimately show ?thesis using assms(3) by (auto intro: recover_job_ok)
  qed
next
  case (complete i w' t j)
  then show ?thesis
  proof (cases rule: complete_cases)
    case (1 j')
    with assms(3) have "job_ok j" using completed_ok [OF _ 1(3) 1(7)] by blast
    with put_job_set [OF assms(2) 1(1), of j] 1(2,4,7) assms(3) show ?thesis by auto
  qed
next
  case (fail i w' t reason j)
  then show ?thesis
  proof (cases rule: fail_cases)
    case (1 j')
    with assms(3) have "job_ok j" using failed_ok [OF _ 1(3) 1(6)] by blast
    moreover have "qj_id j = qj_id j'" using same_job_id job_change_same fail_change 1(3,6) by metis
    ultimately show ?thesis using put_job_set [OF assms(2) 1(1), of j] 1(4) assms(3) by auto
  qed
next
  case (health h)
  with assms(3) show ?thesis by (simp add: set_health_in_queue_def)
qed

lemma step_health:
  assumes "queue_step collate rt q q'" "distinct (map ch_connectorId (connectorHealth q))"
  shows "distinct (map ch_connectorId (connectorHealth q'))"
  using assms
  by cases (auto elim!: enqueue_cases reserve_cases complete_cases fail_cases simp: set_health_in_queue_def upsert_by_keys)

theorem step_inv:
  assumes "queue_step collate rt q q'" "queue_inv q"
  shows "queue_inv q'"
proof -
  have ids: "distinct (map qj_id (queuedJobs q))" and recs: "list_all2 recorded_as (idempotencyRecords q) (queuedJobs q)"
    and keys: "distinct (map ir_idempotencyKey (idempotencyRecords q))" and ok: "\<forall>j \<in> set (queuedJobs q). job_ok j"
    and health: "distinct (map ch_connectorId (connectorHealth q))"
    using assms(2) by (simp_all add: queue_inv_def)
  have "distinct (map qj_id (queuedJobs q')) \<and> distinct (map ir_idempotencyKey (idempotencyRecords q')) \<and>
    list_all2 recorded_as (idempotencyRecords q') (queuedJobs q')"
    using step_shape [OF assms(1) ids]
  proof
    assume "jobs_kept q q'"
    then show ?thesis using changes_ids changes_recorded recs ids keys by (metis jobs_kept_def)
  next
    assume "job_added q q'"
    then show ?thesis using recs ids keys by (auto simp: job_added_def intro: list_all2_appendI)
  qed
  with step_jobs_ok [OF assms(1) ids ok] step_health [OF assms(1) health] show ?thesis by (simp add: queue_inv_def)
qed

lemma empty_queue_inv: "queue_inv empty_queue_snapshot"
  by (simp add: queue_inv_def empty_queue_snapshot_def)

lemma steps_inv: "(queue_step collate rt)\<^sup>*\<^sup>* q q' \<Longrightarrow> queue_inv q \<Longrightarrow> queue_inv q'"
  by (induction rule: rtranclp_induct) (auto intro: step_inv)

lemma queue_reachable_inv: "queue_reachable collate rt q \<Longrightarrow> queue_inv q"
  unfolding queue_reachable_def by (rule steps_inv [OF _ empty_queue_inv])

text \<open>Over any number of steps no job and no record is lost.\<close>

definition queue_extends :: "queue_snapshot \<Rightarrow> queue_snapshot \<Rightarrow> bool" where
  "queue_extends q q' \<longleftrightarrow>
     list_all2 job_change\<^sup>*\<^sup>* (queuedJobs q) (take (length (queuedJobs q)) (queuedJobs q')) \<and>
     idempotencyRecords q = take (length (idempotencyRecords q)) (idempotencyRecords q')"

lemma queue_extends_refl: "queue_extends q q"
  by (simp add: queue_extends_def list.rel_refl)

lemma queue_extends_step:
  assumes "queue_extends q q1" "jobs_kept q1 q2 \<or> job_added q1 q2"
  shows "queue_extends q q2"
  using assms(2)
proof
  assume kept: "jobs_kept q1 q2"
  then have "list_all2 job_change\<^sup>*\<^sup>* (take (length (queuedJobs q)) (queuedJobs q1)) (take (length (queuedJobs q)) (queuedJobs q2))"
    by (simp add: jobs_kept_def list_all2_takeI)
  with assms(1) kept show ?thesis by (auto simp: queue_extends_def jobs_kept_def intro: changes_trans)
next
  assume "job_added q1 q2"
  then obtain k r where added: "queuedJobs q2 = queuedJobs q1 @ [k]" "idempotencyRecords q2 = idempotencyRecords q1 @ [r]"
    by (auto simp: job_added_def)
  have "length (queuedJobs q) \<le> length (queuedJobs q1)" "length (idempotencyRecords q) \<le> length (idempotencyRecords q1)"
    using assms(1) by (auto simp: queue_extends_def dest: list_all2_lengthD) (metis length_take min.absorb_iff2)+
  with assms(1) added show ?thesis by (simp add: queue_extends_def)
qed

lemma steps_extend: "(queue_step collate rt)\<^sup>*\<^sup>* q q' \<Longrightarrow> queue_inv q \<Longrightarrow> queue_extends q q'"
proof (induction rule: rtranclp_induct)
  case base
  then show ?case by (simp add: queue_extends_refl)
next
  case (step q1 q2)
  then have "distinct (map qj_id (queuedJobs q1))" using steps_inv by (auto simp: queue_inv_def)
  from step step_shape [OF step(2) this] show ?case by (blast intro: queue_extends_step)
qed

lemma extended_job:
  assumes "queue_extends q q'" "j \<in> set (queuedJobs q)"
  shows "\<exists>k \<in> set (queuedJobs q'). job_change\<^sup>*\<^sup>* j k"
proof -
  obtain i where i: "i < length (queuedJobs q)" "j = queuedJobs q ! i" using assms(2) by (auto simp: in_set_conv_nth)
  have all: "list_all2 job_change\<^sup>*\<^sup>* (queuedJobs q) (take (length (queuedJobs q)) (queuedJobs q'))"
    using assms(1) by (simp add: queue_extends_def)
  from list_all2_nthD [OF all i(1)] list_all2_lengthD [OF all] i show ?thesis by (metis in_set_takeD nth_mem)
qed

lemma extended_record: "queue_extends q q' \<Longrightarrow> r \<in> set (idempotencyRecords q) \<Longrightarrow> r \<in> set (idempotencyRecords q')"
  unfolding queue_extends_def by (metis in_set_takeD)

end
