(* ===== verification/Job_Store.thy ===== *)
theory Job_Store
  imports Job_Queue_Laws
begin

text \<open>
  Where the job queue is stored: the records of \<open>reference-job-snapshot-store.ts\<close> and
  \<open>repository-envelopes.ts\<close> with the checks made when one is written and when one is read back, the
  interface \<open>ExternalSnapshotStore\<close>, and the in-memory store of \<open>reference-repositories.ts\<close>.

  An external store is a record of operations on a state of its own. A stored record is typed here,
  so the checks that its fields are arrays of objects are left out.
\<close>

subsection \<open>Fields of JSON objects\<close>

definition text_field :: "json_record \<Rightarrow> string \<Rightarrow> string" where
  "text_field r k = (case payload_field r k of JStr s \<Rightarrow> s | _ \<Rightarrow> [])"

definition text_field_opt :: "json_record \<Rightarrow> string \<Rightarrow> string option" where
  "text_field_opt r k = (case payload_field r k of JStr s \<Rightarrow> Some s | _ \<Rightarrow> None)"

definition object_field_opt :: "json_record \<Rightarrow> string \<Rightarrow> json_record option" where
  "object_field_opt r k = (case payload_field r k of JObj fs \<Rightarrow> Some fs | _ \<Rightarrow> None)"

definition array_field :: "json_record \<Rightarrow> string \<Rightarrow> js list" where
  "array_field r k = (case payload_field r k of JArr vs \<Rightarrow> vs | _ \<Rightarrow> [])"

definition record_id :: "json_record \<Rightarrow> js" where
  "record_id r = payload_field r ''id''"

subsection \<open>Snapshots\<close>

record job_snapshot =
  sj_discoveryRuns :: "json_record list"
  sj_enforcementReadinessReports :: "json_record list"
  sj_provisioningPlans :: "json_record list"
  sj_provisioningJobs :: "json_record list"
  sj_driftFindings :: "json_record list"
  sj_accessReviewCampaigns :: "json_record list"
  sj_governanceFindings :: "json_record list"
  sj_exceptionRequests :: "json_record list"
  sj_reconciliationRuns :: "json_record list"
  sj_decisions :: "json_record list"

definition empty_job_snapshot :: job_snapshot where
  "empty_job_snapshot = \<lparr>sj_discoveryRuns = [], sj_enforcementReadinessReports = [], sj_provisioningPlans = [],
     sj_provisioningJobs = [], sj_driftFindings = [], sj_accessReviewCampaigns = [], sj_governanceFindings = [],
     sj_exceptionRequests = [], sj_reconciliationRuns = [], sj_decisions = []\<rparr>"

definition normalize_job_snapshot :: "job_snapshot \<Rightarrow> job_snapshot" where
  "normalize_job_snapshot s =
    \<lparr>sj_discoveryRuns = map clone_record (sj_discoveryRuns s),
     sj_enforcementReadinessReports = map clone_record (sj_enforcementReadinessReports s),
     sj_provisioningPlans = map clone_record (sj_provisioningPlans s),
     sj_provisioningJobs = map clone_record (sj_provisioningJobs s),
     sj_driftFindings = map clone_record (sj_driftFindings s),
     sj_accessReviewCampaigns = map clone_record (sj_accessReviewCampaigns s),
     sj_governanceFindings = map clone_record (sj_governanceFindings s),
     sj_exceptionRequests = map clone_record (sj_exceptionRequests s),
     sj_reconciliationRuns = map clone_record (sj_reconciliationRuns s),
     sj_decisions = map clone_record (sj_decisions s)\<rparr>"

definition objects_js :: "json_record list \<Rightarrow> js" where
  "objects_js rs = JArr (map JObj rs)"

definition job_snapshot_js :: "job_snapshot \<Rightarrow> js" where
  "job_snapshot_js s = JObj
    [(''discoveryRuns'', objects_js (sj_discoveryRuns s)),
     (''enforcementReadinessReports'', objects_js (sj_enforcementReadinessReports s)),
     (''provisioningPlans'', objects_js (sj_provisioningPlans s)),
     (''provisioningJobs'', objects_js (sj_provisioningJobs s)),
     (''driftFindings'', objects_js (sj_driftFindings s)),
     (''accessReviewCampaigns'', objects_js (sj_accessReviewCampaigns s)),
     (''governanceFindings'', objects_js (sj_governanceFindings s)),
     (''exceptionRequests'', objects_js (sj_exceptionRequests s)),
     (''reconciliationRuns'', objects_js (sj_reconciliationRuns s)),
     (''decisions'', objects_js (sj_decisions s))]"

definition count_job_entities :: "job_snapshot \<Rightarrow> json_record" where
  "count_job_entities s =
    [(''discoveryRuns'', js_nat (length (sj_discoveryRuns s))),
     (''enforcementReadinessReports'', js_nat (length (sj_enforcementReadinessReports s))),
     (''provisioningPlans'', js_nat (length (sj_provisioningPlans s))),
     (''provisioningJobs'', js_nat (length (sj_provisioningJobs s))),
     (''driftFindings'', js_nat (length (sj_driftFindings s))),
     (''accessReviewCampaigns'', js_nat (length (sj_accessReviewCampaigns s))),
     (''governanceFindings'', js_nat (length (sj_governanceFindings s))),
     (''exceptionRequests'', js_nat (length (sj_exceptionRequests s))),
     (''reconciliationRuns'', js_nat (length (sj_reconciliationRuns s))),
     (''decisions'', js_nat (length (sj_decisions s)))]"

definition count_queue_entities :: "job_snapshot \<Rightarrow> queue_snapshot \<Rightarrow> json_record" where
  "count_queue_entities s q = count_job_entities s @
    [(''queuedJobs'', js_nat (length (queuedJobs q))),
     (''deadLetteredJobs'', js_nat (length (filter (\<lambda>j. qj_status j = Dead_lettered) (queuedJobs q)))),
     (''connectorHealth'', js_nat (length (connectorHealth q))),
     (''idempotencyRecords'', js_nat (length (idempotencyRecords q)))]"

definition clone_job :: "queued_job \<Rightarrow> queued_job" where
  "clone_job j = j\<lparr>qj_payload := clone_record (qj_payload j), qj_approval := map_option clone_record (qj_approval j),
     qj_control := map_option clone_record (qj_control j)\<rparr>"

text \<open>The other entries of the queue hold only texts, which a copy does not change.\<close>

definition normalize_queue_snapshot :: "queue_snapshot \<Rightarrow> queue_snapshot" where
  "normalize_queue_snapshot q = q\<lparr>queuedJobs := map clone_job (queuedJobs q)\<rparr>"

subsection \<open>Records\<close>

record backup_metadata =
  bm_id :: canonical_id
  bm_component :: string
  bm_createdAt :: string
  bm_location :: string
  bm_snapshotHash :: string
  bm_tenantBoundary :: string
  bm_entityCounts :: json_record

record queue_record =
  qr_version :: string
  qr_storedAt :: string
  qr_tenantBoundary :: string
  qr_jobsHash :: string
  qr_queueHash :: string
  qr_jobs :: job_snapshot
  qr_queue :: queue_snapshot
  qr_entityCounts :: json_record
  qr_backupMetadata :: "backup_metadata list"

definition backup_js :: "backup_metadata \<Rightarrow> js" where
  "backup_js b = JObj
    [(''id'', JStr (bm_id b)), (''component'', JStr (bm_component b)), (''createdAt'', JStr (bm_createdAt b)),
     (''location'', JStr (bm_location b)), (''snapshotHash'', JStr (bm_snapshotHash b)),
     (''tenantBoundary'', JStr (bm_tenantBoundary b)), (''entityCounts'', JObj (bm_entityCounts b)),
     (''version'', JStr ''production-repository-backup:v1'')]"

definition queue_record_js :: "queue_record \<Rightarrow> js" where
  "queue_record_js r = JObj
    [(''version'', JStr (qr_version r)), (''storedAt'', JStr (qr_storedAt r)), (''tenantBoundary'', JStr (qr_tenantBoundary r)),
     (''jobsHash'', JStr (qr_jobsHash r)), (''queueHash'', JStr (qr_queueHash r)), (''jobs'', job_snapshot_js (qr_jobs r)),
     (''queue'', queue_js (qr_queue r)), (''entityCounts'', JObj (qr_entityCounts r)),
     (''backupMetadata'', JArr (map backup_js (qr_backupMetadata r)))]"

definition clone_backup :: "backup_metadata \<Rightarrow> backup_metadata" where
  "clone_backup b = b\<lparr>bm_entityCounts := clone_record (bm_entityCounts b)\<rparr>"

definition clone_queue_record :: "queue_record \<Rightarrow> queue_record" where
  "clone_queue_record r = r\<lparr>qr_jobs := normalize_job_snapshot (qr_jobs r), qr_queue := normalize_queue_snapshot (qr_queue r),
     qr_entityCounts := clone_record (qr_entityCounts r), qr_backupMetadata := map clone_backup (qr_backupMetadata r)\<rparr>"

subsection \<open>Checks\<close>

definition assert_evidence_tenant_boundary :: "js \<Rightarrow> string \<Rightarrow> string \<Rightarrow> queue_error option" where
  "assert_evidence_tenant_boundary evidence tenantBoundary label =
     (if evidence = JUndefined \<or> evidence = JNull then Some Type_error
      else if (case evidence of JObj fs \<Rightarrow> payload_field fs ''tenantBoundary'' | _ \<Rightarrow> JUndefined) \<noteq> JStr tenantBoundary
      then Some (Evidence_crosses_tenant label) else None)"

definition assert_report_tenant_boundary :: "json_record \<Rightarrow> string \<Rightarrow> queue_error option" where
  "assert_report_tenant_boundary report tenantBoundary =
     (if payload_field report ''tenantBoundary'' \<noteq> JStr tenantBoundary
      then Some (Report_crosses_tenant (text_field report ''id'')) else None)"

fun first_error :: "queue_error option list \<Rightarrow> queue_error option" where
  "first_error [] = None"
| "first_error (Some e # es) = Some e"
| "first_error (None # es) = first_error es"

definition run_label :: "json_record \<Rightarrow> string" where
  "run_label run = ''Discovery run '' @ text_field run ''id''"

definition assert_job_tenant_boundary :: "job_snapshot \<Rightarrow> string \<Rightarrow> queue_error option" where
  "assert_job_tenant_boundary s tenantBoundary =
     first_error
       (map (\<lambda>run. assert_evidence_tenant_boundary (payload_field run ''evidence'') tenantBoundary (run_label run)) (sj_discoveryRuns s) @
        map (\<lambda>report. assert_report_tenant_boundary report tenantBoundary) (sj_enforcementReadinessReports s))"

definition assert_no_secret_material :: "js \<Rightarrow> string \<Rightarrow> queue_error option" where
  "assert_no_secret_material v path = map_option Secret_material (secret_path path v)"

definition snapshot_label :: string where
  "snapshot_label = ''Reference job queue job snapshot''"

definition queue_label :: string where
  "queue_label = ''Reference job queue snapshot''"

definition record_version :: string where
  "record_version = ''production-job-queue-store:v1''"

text \<open>\<open>createSnapshotFields\<close>, and \<open>#createRecord\<close>, which adds the queue to them.\<close>

definition create_snapshot_fields :: "string \<Rightarrow> job_snapshot \<Rightarrow> queue_error + job_snapshot" where
  "create_snapshot_fields tenantBoundary snapshot =
     (let jobs = normalize_job_snapshot snapshot in
      case first_error [assert_job_tenant_boundary jobs tenantBoundary, assert_no_secret_material (job_snapshot_js jobs) snapshot_label] of
        Some e \<Rightarrow> Inl e
      | None \<Rightarrow> Inr jobs)"

definition create_record ::
  "runtime \<Rightarrow> string \<Rightarrow> string \<Rightarrow> job_snapshot \<Rightarrow> queue_snapshot \<Rightarrow> backup_metadata list \<Rightarrow> queue_error + queue_record" where
  "create_record rt tenantBoundary storedAt snapshot q backups =
     (case create_snapshot_fields tenantBoundary snapshot of
        Inl e \<Rightarrow> Inl e
      | Inr jobs \<Rightarrow>
          (let queue = normalize_queue_snapshot q in
           case assert_no_secret_material (queue_js queue) queue_label of
             Some e \<Rightarrow> Inl e
           | None \<Rightarrow> Inr
              \<lparr>qr_version = record_version, qr_storedAt = storedAt, qr_tenantBoundary = tenantBoundary,
               qr_jobsHash = hash_reference rt (job_snapshot_js jobs), qr_queueHash = hash_reference rt (queue_js queue),
               qr_jobs = jobs, qr_queue = queue, qr_entityCounts = count_queue_entities jobs queue,
               qr_backupMetadata = map clone_backup backups\<rparr>))"

text \<open>\<open>validateQueueState\<close>, and \<open>#validateStoredRecord\<close>, which ends with it.\<close>

definition validate_queue_state :: "runtime \<Rightarrow> queue_record \<Rightarrow> queue_error + queue_record" where
  "validate_queue_state rt r =
     (case first_error
        [(if qr_queueHash r \<noteq> hash_reference rt (queue_js (qr_queue r)) then Some Wrong_queue_hash else None),
         assert_no_secret_material (queue_js (qr_queue r)) queue_label] of
        Some e \<Rightarrow> Inl e
      | None \<Rightarrow> Inr (r\<lparr>qr_queue := normalize_queue_snapshot (qr_queue r),
          qr_backupMetadata := map clone_backup (qr_backupMetadata r)\<rparr>))"

definition validate_record :: "runtime \<Rightarrow> string \<Rightarrow> queue_record \<Rightarrow> queue_error + queue_record" where
  "validate_record rt tenantBoundary r =
     (case first_error
        [(if qr_version r \<noteq> record_version then Some Wrong_envelope else None),
         (if qr_tenantBoundary r \<noteq> tenantBoundary then Some Wrong_tenant_boundary else None),
         (if qr_jobsHash r \<noteq> hash_reference rt (job_snapshot_js (qr_jobs r)) then Some Wrong_jobs_hash else None),
         assert_job_tenant_boundary (qr_jobs r) tenantBoundary,
         assert_no_secret_material (job_snapshot_js (qr_jobs r)) snapshot_label] of
        Some e \<Rightarrow> Inl e
      | None \<Rightarrow> validate_queue_state rt (r\<lparr>qr_jobs := normalize_job_snapshot (qr_jobs r),
          qr_backupMetadata := map clone_backup (qr_backupMetadata r)\<rparr>))"

subsection \<open>External stores\<close>

record ('s, 'r) snapshot_store =
  read_current :: "'s \<Rightarrow> 'r option"
  write_current :: "'r \<Rightarrow> 's \<Rightarrow> 's"
  compare_exchange :: "'r option \<Rightarrow> 'r \<Rightarrow> 's \<Rightarrow> bool \<times> 's"
  read_backup :: "canonical_id \<Rightarrow> 's \<Rightarrow> 'r option"
  write_backup :: "canonical_id \<Rightarrow> 'r \<Rightarrow> 's \<Rightarrow> 's"

text \<open>\<open>InMemoryExternalSnapshotStore\<close>, given how its records are copied and hashed.\<close>

record 'r memory_store =
  ms_current :: "'r option"
  ms_backups :: "(canonical_id, 'r) js_map"

definition empty_memory_store :: "'r memory_store" where
  "empty_memory_store = \<lparr>ms_current = None, ms_backups = []\<rparr>"

definition memory_read_current :: "('r \<Rightarrow> 'r) \<Rightarrow> 'r memory_store \<Rightarrow> 'r option" where
  "memory_read_current cl s = map_option cl (ms_current s)"

definition memory_write_current :: "('r \<Rightarrow> 'r) \<Rightarrow> 'r \<Rightarrow> 'r memory_store \<Rightarrow> 'r memory_store" where
  "memory_write_current cl r s = s\<lparr>ms_current := Some (cl r)\<rparr>"

definition memory_compare_exchange ::
  "('r \<Rightarrow> 'r) \<Rightarrow> ('r \<Rightarrow> string) \<Rightarrow> 'r option \<Rightarrow> 'r \<Rightarrow> 'r memory_store \<Rightarrow> bool \<times> 'r memory_store" where
  "memory_compare_exchange cl hash expected r s =
     (let currentHash = map_option hash (ms_current s);
          expectedHash = map_option hash expected
      in if currentHash \<noteq> expectedHash then (False, s) else (True, memory_write_current cl r s))"

definition memory_read_backup :: "('r \<Rightarrow> 'r) \<Rightarrow> canonical_id \<Rightarrow> 'r memory_store \<Rightarrow> 'r option" where
  "memory_read_backup cl i s = map_option cl (map_get (ms_backups s) i)"

definition memory_write_backup :: "('r \<Rightarrow> 'r) \<Rightarrow> canonical_id \<Rightarrow> 'r \<Rightarrow> 'r memory_store \<Rightarrow> 'r memory_store" where
  "memory_write_backup cl i r s = s\<lparr>ms_backups := map_set i (cl r) (ms_backups s)\<rparr>"

definition memory_snapshot_store :: "runtime \<Rightarrow> (queue_record memory_store, queue_record) snapshot_store" where
  "memory_snapshot_store rt =
    \<lparr>read_current = memory_read_current clone_queue_record,
     write_current = memory_write_current clone_queue_record,
     compare_exchange = memory_compare_exchange clone_queue_record (\<lambda>r. sha256 rt (queue_record_js r)),
     read_backup = memory_read_backup clone_queue_record,
     write_backup = memory_write_backup clone_queue_record\<rparr>"

end
