(* ===== verification/Job_Queue_Adapter.thy ===== *)
theory Job_Queue_Adapter
  imports Job_Store
begin

text \<open>
  \<open>ReferenceJobQueueAdapter\<close> of \<open>reference-job-queue.ts\<close>: every operation on the queue and on the job
  repository, as it reads, checks, changes and commits the stored record.

  The state is the adapter's cached copy and the external store. Other processes may change the
  store between the moment a commit reads it and the moment it exchanges it; what they do at each
  of the five attempts is a parameter. Clock readings are arguments.
\<close>

record queue_adapter =
  qa_jobs :: job_snapshot
  qa_queue :: queue_snapshot
  qa_backupMetadata :: "backup_metadata list"

record 's adapter_options =
  ao_runtime :: runtime
  ao_store :: "('s, queue_record) snapshot_store"
  ao_tenantBoundary :: string
  ao_location :: string
  ao_collate :: "string \<Rightarrow> string \<Rightarrow> int"
  ao_others :: "nat \<Rightarrow> 's \<Rightarrow> 's"

type_synonym ('a, 's) outcome = "(queue_error + 'a) \<times> queue_adapter \<times> 's"

subsection \<open>Reading and committing\<close>

definition read_queue_record :: "'s adapter_options \<Rightarrow> 's \<Rightarrow> queue_error + queue_record option" where
  "read_queue_record opts s =
     (case read_current (ao_store opts) s of
        None \<Rightarrow> Inr None
      | Some r \<Rightarrow> (case validate_record (ao_runtime opts) (ao_tenantBoundary opts) r of Inl e \<Rightarrow> Inl e | Inr v \<Rightarrow> Inr (Some v)))"

definition read_queue_backup :: "'s adapter_options \<Rightarrow> canonical_id \<Rightarrow> 's \<Rightarrow> queue_error + queue_record" where
  "read_queue_backup opts i s =
     (case read_backup (ao_store opts) i s of
        None \<Rightarrow> Inl (Backup_does_not_exist i)
      | Some r \<Rightarrow> validate_record (ao_runtime opts) (ao_tenantBoundary opts) r)"

definition adapter_of :: "queue_record option \<Rightarrow> queue_adapter" where
  "adapter_of stored =
     (case stored of
        None \<Rightarrow> \<lparr>qa_jobs = empty_job_snapshot, qa_queue = empty_queue_snapshot, qa_backupMetadata = []\<rparr>
      | Some r \<Rightarrow> \<lparr>qa_jobs = qr_jobs r, qa_queue = qr_queue r, qa_backupMetadata = qr_backupMetadata r\<rparr>)"

definition refresh_from_store :: "'s adapter_options \<Rightarrow> 's \<Rightarrow> queue_error + queue_adapter" where
  "refresh_from_store opts s = (case read_queue_record opts s of Inl e \<Rightarrow> Inl e | Inr stored \<Rightarrow> Inr (adapter_of stored))"

text \<open>The constructor. Its check of the location looks at a text, in which there are no field names.\<close>

definition create_adapter :: "'s adapter_options \<Rightarrow> 's \<Rightarrow> queue_error + queue_adapter" where
  "create_adapter opts s =
     (if ao_tenantBoundary opts = [] then Inl No_tenant_boundary
      else case assert_no_secret_material (JStr (ao_location opts)) ''production job queue location'' of
          Some e \<Rightarrow> Inl e
        | None \<Rightarrow> refresh_from_store opts s)"

definition new_record :: "'s adapter_options \<Rightarrow> string \<Rightarrow> job_snapshot \<Rightarrow> queue_snapshot \<Rightarrow> backup_metadata list \<Rightarrow> queue_error + queue_record" where
  "new_record opts = create_record (ao_runtime opts) (ao_tenantBoundary opts)"

type_synonym 'a mutation = "job_snapshot \<Rightarrow> queue_snapshot \<Rightarrow> queue_error + (job_snapshot \<times> queue_snapshot \<times> 'a)"

text \<open>What one attempt would write, and its result.\<close>

definition mutate_record :: "'s adapter_options \<Rightarrow> string \<Rightarrow> 'a mutation \<Rightarrow> queue_record option \<Rightarrow> queue_error + (queue_record \<times> 'a)" where
  "mutate_record opts storedAt mutate expected =
     (let a = adapter_of expected in
      case mutate (normalize_job_snapshot (qa_jobs a)) (normalize_queue_snapshot (qa_queue a)) of
        Inl e \<Rightarrow> Inl e
      | Inr (jobs, queue, result) \<Rightarrow>
          (case new_record opts storedAt jobs queue (qa_backupMetadata a) of Inl e \<Rightarrow> Inl e | Inr r \<Rightarrow> Inr (r, result)))"

fun commit_attempts :: "nat \<Rightarrow> nat \<Rightarrow> 's adapter_options \<Rightarrow> string \<Rightarrow> 'a mutation \<Rightarrow> queue_adapter \<times> 's \<Rightarrow> ('a, 's) outcome" where
  "commit_attempts 0 attempt opts storedAt mutate (a, s) = (Inl Write_conflict, a, s)"
| "commit_attempts (Suc n) attempt opts storedAt mutate (a, s) =
     (case read_queue_record opts s of
        Inl e \<Rightarrow> (Inl e, a, s)
      | Inr expected \<Rightarrow>
     (case mutate_record opts storedAt mutate expected of
        Inl e \<Rightarrow> (Inl e, a, s)
      | Inr (r, result) \<Rightarrow>
     (case compare_exchange (ao_store opts) expected r (ao_others opts attempt s) of
        (exchanged, s') \<Rightarrow>
          if exchanged then (Inr result, adapter_of (Some r), s')
          else commit_attempts n (Suc attempt) opts storedAt mutate (a, s'))))"

definition commit_snapshot :: "'s adapter_options \<Rightarrow> string \<Rightarrow> 'a mutation \<Rightarrow> queue_adapter \<times> 's \<Rightarrow> ('a, 's) outcome" where
  "commit_snapshot opts = commit_attempts 5 0 opts"

definition with_refreshed :: "'s adapter_options \<Rightarrow> (queue_adapter \<Rightarrow> 'a) \<Rightarrow> queue_adapter \<times> 's \<Rightarrow> ('a, 's) outcome" where
  "with_refreshed opts f st =
     (case refresh_from_store opts (snd st) of Inl e \<Rightarrow> (Inl e, st) | Inr a \<Rightarrow> (Inr (f a), a, snd st))"

subsection \<open>Enqueueing\<close>

definition payload_label :: "normalized_request \<Rightarrow> string" where
  "payload_label n = ''Queued '' @ kind_text (nr_kind n) @ '' job payload''"

definition enqueue_normalized_job ::
  "'s adapter_options \<Rightarrow> normalized_request \<Rightarrow> (job_snapshot \<Rightarrow> job_snapshot) \<Rightarrow> queue_adapter \<times> 's \<Rightarrow> (queued_job, 's) outcome" where
  "enqueue_normalized_job opts n mutate_jobs =
     commit_snapshot opts (nr_requestedAt n) (\<lambda>jobs queue.
       case enqueue_in_queue (ao_runtime opts) n queue of
         Inl e \<Rightarrow> Inl e
       | Inr (queue', j, new) \<Rightarrow> Inr (if new then mutate_jobs jobs else jobs, queue', clone_job j))"

definition enqueue_job :: "'s adapter_options \<Rightarrow> string \<Rightarrow> enqueue_request \<Rightarrow> queue_adapter \<times> 's \<Rightarrow> (queued_job, 's) outcome" where
  "enqueue_job opts now request st =
     (case normalize_enqueue_request (ao_runtime opts) now request of
        Inl e \<Rightarrow> (Inl e, st)
      | Inr n \<Rightarrow>
     (case first_error [assert_enforcement_evidence n, assert_no_secret_material (JObj (nr_payload n)) (payload_label n)] of
        Some e \<Rightarrow> (Inl e, st)
      | None \<Rightarrow> enqueue_normalized_job opts n (\<lambda>jobs. jobs) st))"

definition has_revocation :: "js list \<Rightarrow> bool" where
  "has_revocation items = list_ex (\<lambda>v. case v of JObj fs \<Rightarrow> payload_field fs ''operation'' = JStr ''revoke'' | _ \<Rightarrow> False) items"

definition plan_has_revocation :: "json_record option \<Rightarrow> bool" where
  "plan_has_revocation plan = (case plan of None \<Rightarrow> False | Some p \<Rightarrow> has_revocation (array_field p ''actions''))"

definition job_has_revocation :: "json_record \<Rightarrow> bool" where
  "job_has_revocation job = has_revocation (array_field job ''actionResults'')"

record provisioning_options =
  po_plan :: "json_record option"
  po_requestedAt :: "string option"
  po_priority :: "queued_job_priority option"
  po_maxAttempts :: "rat option"
  po_backoff :: "backoff_policy option"
  po_readinessReportId :: "canonical_id option"

definition plan_field :: "(json_record \<Rightarrow> string \<Rightarrow> 'a option) \<Rightarrow> json_record option \<Rightarrow> string \<Rightarrow> 'a option" where
  "plan_field read plan k = (case plan of None \<Rightarrow> None | Some p \<Rightarrow> read p k)"

definition provisioning_request :: "json_record \<Rightarrow> json_record option \<Rightarrow> provisioning_options \<Rightarrow> enqueue_request" where
  "provisioning_request job plan options =
     (let revocation = plan_has_revocation plan \<or> job_has_revocation job in
      \<lparr>enq_kind = (if revocation then Kind_revocation else Kind_provisioning),
       enq_connectorId = text_field job ''connectorId'', enq_idempotencyKey = text_field job ''idempotencyKey'',
       enq_payload = map (\<lambda>(k, f). (k, payload_field job f))
         [(''jobId'', ''id''), (''planId'', ''planId''), (''connectorId'', ''connectorId''), (''mode'', ''mode''),
          (''dryRun'', ''dryRun''), (''status'', ''status'')],
       enq_priority = coalesce_opt (po_priority options) (if revocation then Some Emergency else None),
       enq_requestedAt = po_requestedAt options, enq_maxAttempts = po_maxAttempts options, enq_backoff = po_backoff options,
       enq_approval = coalesce_opt (object_field_opt job ''approval'') (plan_field object_field_opt plan ''approval''),
       enq_control = coalesce_opt (object_field_opt job ''control'') (plan_field object_field_opt plan ''control''),
       enq_readinessReportId = coalesce_opt (po_readinessReportId options) (plan_field text_field_opt plan ''readinessReportId''),
       enq_replayedFromJobId = None\<rparr>)"

definition find_entity :: "string \<Rightarrow> string \<Rightarrow> json_record list \<Rightarrow> json_record option" where
  "find_entity key v rs = map_option clone_record (find (\<lambda>r. payload_field r key = JStr v) rs)"

definition store_plan_and_job :: "json_record option \<Rightarrow> json_record \<Rightarrow> job_snapshot \<Rightarrow> job_snapshot" where
  "store_plan_and_job plan job s =
     s\<lparr>sj_provisioningPlans := (case plan of None \<Rightarrow> sj_provisioningPlans s
         | Some p \<Rightarrow> upsert_by record_id (sj_provisioningPlans s) (clone_record p)),
       sj_provisioningJobs := upsert_by record_id (sj_provisioningJobs s) (clone_record job)\<rparr>"

definition enqueue_provisioning_job ::
  "'s adapter_options \<Rightarrow> string \<Rightarrow> json_record \<Rightarrow> provisioning_options \<Rightarrow> queue_adapter \<times> 's \<Rightarrow> (queued_job, 's) outcome" where
  "enqueue_provisioning_job opts now job options st =
     (case refresh_from_store opts (snd st) of
        Inl e \<Rightarrow> (Inl e, st)
      | Inr a \<Rightarrow>
     (let plan = coalesce_opt (po_plan options) (find_entity ''id'' (text_field job ''planId'') (sj_provisioningPlans (qa_jobs a))) in
      case normalize_enqueue_request (ao_runtime opts) now (provisioning_request job plan options) of
        Inl e \<Rightarrow> (Inl e, a, snd st)
      | Inr n \<Rightarrow>
     (case first_error
        [assert_enforcement_evidence n, assert_no_secret_material (JObj (nr_payload n)) (payload_label n),
         assert_no_secret_material (JObj job) (''Provisioning job '' @ text_field job ''id''),
         (case plan of None \<Rightarrow> None | Some p \<Rightarrow> assert_no_secret_material (JObj p) (''Provisioning plan '' @ text_field p ''id''))] of
        Some e \<Rightarrow> (Inl e, a, snd st)
      | None \<Rightarrow> enqueue_normalized_job opts n (store_plan_and_job plan job) (a, snd st))))"

record revocation_request =
  rv_connectorId :: canonical_id
  rv_nativeGrantId :: canonical_id
  rv_idempotencyKey :: string
  rv_requestedAt :: "string option"
  rv_reason :: "string option"
  rv_approval :: "json_record option"
  rv_control :: "json_record option"
  rv_readinessReportId :: "canonical_id option"
  rv_maxAttempts :: "rat option"
  rv_backoff :: "backoff_policy option"

definition enqueue_revocation_job ::
  "'s adapter_options \<Rightarrow> string \<Rightarrow> revocation_request \<Rightarrow> queue_adapter \<times> 's \<Rightarrow> (queued_job, 's) outcome" where
  "enqueue_revocation_job opts now r = enqueue_job opts now
    \<lparr>enq_kind = Kind_revocation, enq_connectorId = rv_connectorId r, enq_idempotencyKey = rv_idempotencyKey r,
     enq_payload = [(''nativeGrantId'', JStr (rv_nativeGrantId r)),
       (''reason'', JStr (coalesce (rv_reason r) ''operator_requested_revocation''))],
     enq_priority = Some Emergency, enq_requestedAt = rv_requestedAt r, enq_maxAttempts = rv_maxAttempts r,
     enq_backoff = rv_backoff r, enq_approval = rv_approval r, enq_control = rv_control r,
     enq_readinessReportId = rv_readinessReportId r, enq_replayedFromJobId = None\<rparr>"

subsection \<open>Working on jobs\<close>

definition reserve_next_job ::
  "'s adapter_options \<Rightarrow> string \<Rightarrow> canonical_id \<Rightarrow> string option \<Rightarrow> rat option \<Rightarrow> queue_adapter \<times> 's \<Rightarrow> (queued_job option, 's) outcome" where
  "reserve_next_job opts now worker given leaseDurationMs =
     (let reservedAt = coalesce given now in
      commit_snapshot opts reservedAt (\<lambda>jobs queue.
        case reserve_in_queue (ao_collate opts) worker reservedAt leaseDurationMs queue of
          Inl e \<Rightarrow> Inl e
        | Inr (queue', r) \<Rightarrow> Inr (jobs, queue', map_option clone_job r)))"

definition complete_job ::
  "'s adapter_options \<Rightarrow> string \<Rightarrow> canonical_id \<Rightarrow> canonical_id option \<Rightarrow> string option \<Rightarrow> queue_adapter \<times> 's \<Rightarrow> (queued_job, 's) outcome" where
  "complete_job opts now i worker given =
     (let completedAt = coalesce given now in
      commit_snapshot opts completedAt (\<lambda>jobs queue.
        case complete_in_queue i worker completedAt queue of
          Inl e \<Rightarrow> Inl e
        | Inr (queue', j) \<Rightarrow> Inr (jobs, queue', clone_job j)))"

definition record_job_failure ::
  "'s adapter_options \<Rightarrow> string \<Rightarrow> canonical_id \<Rightarrow> canonical_id option \<Rightarrow> string option \<Rightarrow> string \<Rightarrow> queue_adapter \<times> 's \<Rightarrow> (queued_job, 's) outcome" where
  "record_job_failure opts now i worker given reason =
     (let failedAt = coalesce given now in
      commit_snapshot opts failedAt (\<lambda>jobs queue.
        case fail_in_queue i worker failedAt reason queue of
          Inl e \<Rightarrow> Inl e
        | Inr (queue', j) \<Rightarrow> Inr (jobs, queue', clone_job j)))"

definition replay_key :: "runtime \<Rightarrow> queued_job \<Rightarrow> string \<Rightarrow> string" where
  "replay_key rt j requestedAt = qj_idempotencyKey j @ '':replay:'' @
     take 12 (sha256 rt (JObj [(''jobId'', JStr (qj_id j)), (''requestedAt'', JStr requestedAt)]))"

definition replay_request :: "runtime \<Rightarrow> queued_job \<Rightarrow> string \<Rightarrow> string option \<Rightarrow> enqueue_request" where
  "replay_request rt j requestedAt key =
    \<lparr>enq_kind = qj_kind j, enq_connectorId = qj_connectorId j,
     enq_idempotencyKey = coalesce key (replay_key rt j requestedAt),
     enq_payload = map_set ''replayedFromJobId'' (JStr (qj_id j)) (qj_payload j),
     enq_priority = Some (qj_priority j), enq_requestedAt = Some requestedAt, enq_maxAttempts = Some (qj_maxAttempts j),
     enq_backoff = Some (qj_backoff j), enq_approval = qj_approval j, enq_control = qj_control j,
     enq_readinessReportId = qj_readinessReportId j, enq_replayedFromJobId = Some (qj_id j)\<rparr>"

definition replay_dead_lettered_job ::
  "'s adapter_options \<Rightarrow> string \<Rightarrow> canonical_id \<Rightarrow> string option \<Rightarrow> string option \<Rightarrow> queue_adapter \<times> 's \<Rightarrow> (queued_job, 's) outcome" where
  "replay_dead_lettered_job opts now i given key st =
     (let requestedAt = coalesce given now in
      case refresh_from_store opts (snd st) of
        Inl e \<Rightarrow> (Inl e, st)
      | Inr a \<Rightarrow>
     (case required_queued_job (qa_queue a) i of
        Inl e \<Rightarrow> (Inl e, a, snd st)
      | Inr j \<Rightarrow>
          if qj_status j \<noteq> Dead_lettered then (Inl (Not_dead_lettered i), a, snd st)
          else enqueue_job opts now (replay_request (ao_runtime opts) j requestedAt key) (a, snd st)))"

subsection \<open>Looking at the queue\<close>

record queued_job_filter =
  jf_kind :: "queued_job_kind option"
  jf_connectorId :: "string option"
  jf_status :: "queued_job_status option"

definition matches_job_filter :: "queued_job_filter \<Rightarrow> queued_job \<Rightarrow> bool" where
  "matches_job_filter f j \<longleftrightarrow>
     (jf_kind f = None \<or> jf_kind f = Some (qj_kind j)) \<and>
     matches_filter (jf_connectorId f) (qj_connectorId j) \<and>
     (jf_status f = None \<or> jf_status f = Some (qj_status j))"

definition get_queued_job :: "'s adapter_options \<Rightarrow> canonical_id \<Rightarrow> queue_adapter \<times> 's \<Rightarrow> (queued_job option, 's) outcome" where
  "get_queued_job opts i = with_refreshed opts (\<lambda>a. map_option clone_job (find_job (qa_queue a) i))"

definition list_queued_jobs :: "'s adapter_options \<Rightarrow> queued_job_filter \<Rightarrow> queue_adapter \<times> 's \<Rightarrow> (queued_job list, 's) outcome" where
  "list_queued_jobs opts f = with_refreshed opts (\<lambda>a. map clone_job (filter (matches_job_filter f) (queuedJobs (qa_queue a))))"

definition list_dead_lettered_jobs :: "'s adapter_options \<Rightarrow> queue_adapter \<times> 's \<Rightarrow> (queued_job list, 's) outcome" where
  "list_dead_lettered_jobs opts =
     list_queued_jobs opts \<lparr>jf_kind = None, jf_connectorId = None, jf_status = Some Dead_lettered\<rparr>"

definition set_connector_health :: "'s adapter_options \<Rightarrow> connector_health \<Rightarrow> queue_adapter \<times> 's \<Rightarrow> (connector_health, 's) outcome" where
  "set_connector_health opts h st =
     (case assert_no_secret_material (health_js h) (''Connector health '' @ ch_connectorId h) of
        Some e \<Rightarrow> (Inl e, st)
      | None \<Rightarrow> commit_snapshot opts (ch_updatedAt h) (\<lambda>jobs queue. Inr (jobs, set_health_in_queue h queue, h)) st)"

definition get_connector_health :: "'s adapter_options \<Rightarrow> string \<Rightarrow> canonical_id \<Rightarrow> queue_adapter \<times> 's \<Rightarrow> (connector_health, 's) outcome" where
  "get_connector_health opts now connector = with_refreshed opts (\<lambda>a.
     coalesce (find (\<lambda>h. ch_connectorId h = connector) (connectorHealth (qa_queue a)))
       \<lparr>ch_connectorId = connector, ch_status = Healthy, ch_updatedAt = now, ch_reason = None, ch_lastSuccessAt = None,
        ch_lastFailureAt = None\<rparr>)"

definition list_connector_health :: "'s adapter_options \<Rightarrow> queue_adapter \<times> 's \<Rightarrow> (connector_health list, 's) outcome" where
  "list_connector_health opts = with_refreshed opts (\<lambda>a. connectorHealth (qa_queue a))"

definition export_queue :: "'s adapter_options \<Rightarrow> queue_adapter \<times> 's \<Rightarrow> (queue_snapshot, 's) outcome" where
  "export_queue opts = with_refreshed opts (\<lambda>a. normalize_queue_snapshot (qa_queue a))"

subsection \<open>The job repository\<close>

text \<open>
  Recording something: the check, then the commit of one changed collection. Runs and reports are
  only ever added; the rest replaces what has the same id.
\<close>

definition commit_entity ::
  "'s adapter_options \<Rightarrow> string \<Rightarrow> string \<Rightarrow> json_record \<Rightarrow> (job_snapshot \<Rightarrow> queue_error + job_snapshot) \<Rightarrow>
   queue_adapter \<times> 's \<Rightarrow> (json_record, 's) outcome" where
  "commit_entity opts storedAt label r change st =
     (case assert_no_secret_material (JObj r) label of
        Some e \<Rightarrow> (Inl e, st)
      | None \<Rightarrow> commit_snapshot opts storedAt (\<lambda>jobs queue.
          case change jobs of Inl e \<Rightarrow> Inl e | Inr jobs' \<Rightarrow> Inr (jobs', queue, clone_record r)) st)"

definition entity_label :: "string \<Rightarrow> json_record \<Rightarrow> string" where
  "entity_label kind r = kind @ '' '' @ text_field r ''id''"

definition record_discovery_run_q :: "'s adapter_options \<Rightarrow> string \<Rightarrow> json_record \<Rightarrow> queue_adapter \<times> 's \<Rightarrow> (json_record, 's) outcome" where
  "record_discovery_run_q opts now run st =
     (case assert_evidence_tenant_boundary (payload_field run ''evidence'') (ao_tenantBoundary opts) (run_label run) of
        Some e \<Rightarrow> (Inl e, st)
      | None \<Rightarrow> commit_entity opts now (run_label run) run (\<lambda>jobs.
          case append_unique_by record_id ''Discovery run'' (sj_discoveryRuns jobs) (clone_record run) of
            Inl e \<Rightarrow> Inl e
          | Inr runs \<Rightarrow> Inr (jobs\<lparr>sj_discoveryRuns := runs\<rparr>)) st)"

definition record_readiness_report_q :: "'s adapter_options \<Rightarrow> string \<Rightarrow> json_record \<Rightarrow> queue_adapter \<times> 's \<Rightarrow> (json_record, 's) outcome" where
  "record_readiness_report_q opts now report st =
     (case assert_report_tenant_boundary report (ao_tenantBoundary opts) of
        Some e \<Rightarrow> (Inl e, st)
      | None \<Rightarrow> commit_entity opts now (entity_label ''Enforcement readiness report'' report) report (\<lambda>jobs.
          case append_unique_by record_id ''Enforcement readiness report'' (sj_enforcementReadinessReports jobs) (clone_record report) of
            Inl e \<Rightarrow> Inl e
          | Inr reports \<Rightarrow> Inr (jobs\<lparr>sj_enforcementReadinessReports := reports\<rparr>)) st)"

definition record_reconciliation_run_q :: "'s adapter_options \<Rightarrow> string \<Rightarrow> json_record \<Rightarrow> queue_adapter \<times> 's \<Rightarrow> (json_record, 's) outcome" where
  "record_reconciliation_run_q opts now run =
     commit_entity opts now (entity_label ''Reconciliation run'' run) run (\<lambda>jobs.
       case append_unique_by record_id ''Reconciliation run'' (sj_reconciliationRuns jobs) (clone_record run) of
         Inl e \<Rightarrow> Inl e
       | Inr runs \<Rightarrow> Inr (jobs\<lparr>sj_reconciliationRuns := runs\<rparr>))"

definition upsert_provisioning_plan_q :: "'s adapter_options \<Rightarrow> string \<Rightarrow> json_record \<Rightarrow> queue_adapter \<times> 's \<Rightarrow> (json_record, 's) outcome" where
  "upsert_provisioning_plan_q opts now plan =
     commit_entity opts now (entity_label ''Provisioning plan'' plan) plan
       (\<lambda>jobs. Inr (jobs\<lparr>sj_provisioningPlans := upsert_by record_id (sj_provisioningPlans jobs) (clone_record plan)\<rparr>))"

definition upsert_provisioning_job_q :: "'s adapter_options \<Rightarrow> string \<Rightarrow> json_record \<Rightarrow> queue_adapter \<times> 's \<Rightarrow> (json_record, 's) outcome" where
  "upsert_provisioning_job_q opts now job =
     commit_entity opts now (entity_label ''Provisioning job'' job) job
       (\<lambda>jobs. Inr (jobs\<lparr>sj_provisioningJobs := upsert_by record_id (sj_provisioningJobs jobs) (clone_record job)\<rparr>))"

definition upsert_drift_finding_q :: "'s adapter_options \<Rightarrow> string \<Rightarrow> json_record \<Rightarrow> queue_adapter \<times> 's \<Rightarrow> (json_record, 's) outcome" where
  "upsert_drift_finding_q opts now finding =
     commit_entity opts now (entity_label ''Drift finding'' finding) finding
       (\<lambda>jobs. Inr (jobs\<lparr>sj_driftFindings := upsert_by record_id (sj_driftFindings jobs) (clone_record finding)\<rparr>))"

definition upsert_campaign_q :: "'s adapter_options \<Rightarrow> string \<Rightarrow> json_record \<Rightarrow> queue_adapter \<times> 's \<Rightarrow> (json_record, 's) outcome" where
  "upsert_campaign_q opts now campaign =
     commit_entity opts now (entity_label ''Access review campaign'' campaign) campaign
       (\<lambda>jobs. Inr (jobs\<lparr>sj_accessReviewCampaigns := upsert_by record_id (sj_accessReviewCampaigns jobs) (clone_record campaign)\<rparr>))"

definition upsert_governance_finding_q :: "'s adapter_options \<Rightarrow> string \<Rightarrow> json_record \<Rightarrow> queue_adapter \<times> 's \<Rightarrow> (json_record, 's) outcome" where
  "upsert_governance_finding_q opts now finding =
     commit_entity opts now (entity_label ''Governance finding'' finding) finding
       (\<lambda>jobs. Inr (jobs\<lparr>sj_governanceFindings := upsert_by record_id (sj_governanceFindings jobs) (clone_record finding)\<rparr>))"

definition upsert_exception_request_q :: "'s adapter_options \<Rightarrow> string \<Rightarrow> json_record \<Rightarrow> queue_adapter \<times> 's \<Rightarrow> (json_record, 's) outcome" where
  "upsert_exception_request_q opts now request =
     commit_entity opts now (entity_label ''Exception request'' request) request
       (\<lambda>jobs. Inr (jobs\<lparr>sj_exceptionRequests := upsert_by record_id (sj_exceptionRequests jobs) (clone_record request)\<rparr>))"

definition record_decision_q :: "'s adapter_options \<Rightarrow> json_record \<Rightarrow> queue_adapter \<times> 's \<Rightarrow> (json_record, 's) outcome" where
  "record_decision_q opts d =
     commit_entity opts (text_field d ''evaluatedAt'') (''Decision '' @ text_field d ''decisionId'') d
       (\<lambda>jobs. Inr (jobs\<lparr>sj_decisions :=
          upsert_by (\<lambda>r. payload_field r ''decisionId'') (sj_decisions jobs) (clone_record d)\<rparr>))"

text \<open>Reading: \<open>!filter || item.field === filter\<close>.\<close>

definition field_matches :: "json_record \<Rightarrow> string \<Rightarrow> string option \<Rightarrow> bool" where
  "field_matches r k f \<longleftrightarrow> \<not> truthy f \<or> payload_field r k = JStr (coalesce f [])"

definition all_match :: "json_record \<Rightarrow> (string \<times> string option) list \<Rightarrow> bool" where
  "all_match r fs = list_all (\<lambda>(k, f). field_matches r k f) fs"

definition list_discovery_runs_q ::
  "'s adapter_options \<Rightarrow> string option \<Rightarrow> string option \<Rightarrow> queue_adapter \<times> 's \<Rightarrow> (json_record list, 's) outcome" where
  "list_discovery_runs_q opts connector status = with_refreshed opts (\<lambda>a. map clone_record
     (filter (\<lambda>r. all_match r [(''connectorId'', connector), (''status'', status)]) (sj_discoveryRuns (qa_jobs a))))"

definition get_readiness_report_q :: "'s adapter_options \<Rightarrow> string \<Rightarrow> queue_adapter \<times> 's \<Rightarrow> (json_record option, 's) outcome" where
  "get_readiness_report_q opts i = with_refreshed opts (\<lambda>a. find_entity ''id'' i (sj_enforcementReadinessReports (qa_jobs a)))"

definition list_readiness_reports_q ::
  "'s adapter_options \<Rightarrow> string option \<Rightarrow> string option \<Rightarrow> queue_adapter \<times> 's \<Rightarrow> (json_record list, 's) outcome" where
  "list_readiness_reports_q opts connector status = with_refreshed opts (\<lambda>a. map clone_record
     (filter (\<lambda>r. all_match r [(''connectorId'', connector), (''status'', status)]) (sj_enforcementReadinessReports (qa_jobs a))))"

definition get_provisioning_plan_q :: "'s adapter_options \<Rightarrow> string \<Rightarrow> queue_adapter \<times> 's \<Rightarrow> (json_record option, 's) outcome" where
  "get_provisioning_plan_q opts i = with_refreshed opts (\<lambda>a. find_entity ''id'' i (sj_provisioningPlans (qa_jobs a)))"

definition get_provisioning_plan_by_key_q :: "'s adapter_options \<Rightarrow> string \<Rightarrow> queue_adapter \<times> 's \<Rightarrow> (json_record option, 's) outcome" where
  "get_provisioning_plan_by_key_q opts k = with_refreshed opts (\<lambda>a. find_entity ''idempotencyKey'' k (sj_provisioningPlans (qa_jobs a)))"

definition list_provisioning_plans_q :: "'s adapter_options \<Rightarrow> queue_adapter \<times> 's \<Rightarrow> (json_record list, 's) outcome" where
  "list_provisioning_plans_q opts = with_refreshed opts (\<lambda>a. map clone_record (sj_provisioningPlans (qa_jobs a)))"

definition get_provisioning_job_q :: "'s adapter_options \<Rightarrow> string \<Rightarrow> queue_adapter \<times> 's \<Rightarrow> (json_record option, 's) outcome" where
  "get_provisioning_job_q opts i = with_refreshed opts (\<lambda>a. find_entity ''id'' i (sj_provisioningJobs (qa_jobs a)))"

definition get_provisioning_job_by_key_q :: "'s adapter_options \<Rightarrow> string \<Rightarrow> queue_adapter \<times> 's \<Rightarrow> (json_record option, 's) outcome" where
  "get_provisioning_job_by_key_q opts k = with_refreshed opts (\<lambda>a. find_entity ''idempotencyKey'' k (sj_provisioningJobs (qa_jobs a)))"

definition list_provisioning_jobs_q :: "'s adapter_options \<Rightarrow> queue_adapter \<times> 's \<Rightarrow> (json_record list, 's) outcome" where
  "list_provisioning_jobs_q opts = with_refreshed opts (\<lambda>a. map clone_record (sj_provisioningJobs (qa_jobs a)))"

definition get_drift_finding_q :: "'s adapter_options \<Rightarrow> string \<Rightarrow> queue_adapter \<times> 's \<Rightarrow> (json_record option, 's) outcome" where
  "get_drift_finding_q opts i = with_refreshed opts (\<lambda>a. find_entity ''id'' i (sj_driftFindings (qa_jobs a)))"

text \<open>\<open>matchesDriftFindingFilter\<close>: severity, status, lifecycle state, owner and assignee.\<close>

record drift_filter =
  df_severity :: "string option"
  df_status :: "string option"
  df_lifecycleState :: "string option"
  df_ownerId :: "string option"
  df_assigneeId :: "string option"

definition list_drift_findings_q :: "'s adapter_options \<Rightarrow> drift_filter \<Rightarrow> queue_adapter \<times> 's \<Rightarrow> (json_record list, 's) outcome" where
  "list_drift_findings_q opts f = with_refreshed opts (\<lambda>a. map clone_record
     (filter (\<lambda>r. all_match r
        [(''severity'', df_severity f), (''status'', df_status f), (''lifecycleState'', df_lifecycleState f),
         (''ownerId'', df_ownerId f), (''assigneeId'', df_assigneeId f)]) (sj_driftFindings (qa_jobs a))))"

definition get_campaign_q :: "'s adapter_options \<Rightarrow> string \<Rightarrow> queue_adapter \<times> 's \<Rightarrow> (json_record option, 's) outcome" where
  "get_campaign_q opts i = with_refreshed opts (\<lambda>a. find_entity ''id'' i (sj_accessReviewCampaigns (qa_jobs a)))"

definition list_campaigns_q :: "'s adapter_options \<Rightarrow> queue_adapter \<times> 's \<Rightarrow> (json_record list, 's) outcome" where
  "list_campaigns_q opts = with_refreshed opts (\<lambda>a. map clone_record (sj_accessReviewCampaigns (qa_jobs a)))"

definition get_governance_finding_q :: "'s adapter_options \<Rightarrow> string \<Rightarrow> queue_adapter \<times> 's \<Rightarrow> (json_record option, 's) outcome" where
  "get_governance_finding_q opts i = with_refreshed opts (\<lambda>a. find_entity ''id'' i (sj_governanceFindings (qa_jobs a)))"

definition list_governance_findings_q ::
  "'s adapter_options \<Rightarrow> string option \<Rightarrow> string option \<Rightarrow> queue_adapter \<times> 's \<Rightarrow> (json_record list, 's) outcome" where
  "list_governance_findings_q opts status severity = with_refreshed opts (\<lambda>a. map clone_record
     (filter (\<lambda>r. all_match r [(''status'', status), (''severity'', severity)]) (sj_governanceFindings (qa_jobs a))))"

definition get_exception_request_q :: "'s adapter_options \<Rightarrow> string \<Rightarrow> queue_adapter \<times> 's \<Rightarrow> (json_record option, 's) outcome" where
  "get_exception_request_q opts i = with_refreshed opts (\<lambda>a. find_entity ''id'' i (sj_exceptionRequests (qa_jobs a)))"

definition list_exception_requests_q :: "'s adapter_options \<Rightarrow> string option \<Rightarrow> queue_adapter \<times> 's \<Rightarrow> (json_record list, 's) outcome" where
  "list_exception_requests_q opts status = with_refreshed opts (\<lambda>a. map clone_record
     (filter (\<lambda>r. field_matches r ''status'' status) (sj_exceptionRequests (qa_jobs a))))"

definition list_reconciliation_runs_q :: "'s adapter_options \<Rightarrow> queue_adapter \<times> 's \<Rightarrow> (json_record list, 's) outcome" where
  "list_reconciliation_runs_q opts = with_refreshed opts (\<lambda>a. map clone_record (sj_reconciliationRuns (qa_jobs a)))"

definition list_decisions_q :: "'s adapter_options \<Rightarrow> queue_adapter \<times> 's \<Rightarrow> (json_record list, 's) outcome" where
  "list_decisions_q opts = with_refreshed opts (\<lambda>a. map clone_record (sj_decisions (qa_jobs a)))"

definition export_jobs :: "'s adapter_options \<Rightarrow> queue_adapter \<times> 's \<Rightarrow> (job_snapshot, 's) outcome" where
  "export_jobs opts = with_refreshed opts (\<lambda>a. normalize_job_snapshot (qa_jobs a))"

subsection \<open>Backups\<close>

record storage_receipt =
  sr_storedAt :: string
  sr_location :: string
  sr_jobsHash :: string
  sr_entityCounts :: json_record

text \<open>\<open>#persist\<close> writes the adapter's copy without looking at what is stored.\<close>

definition persist :: "'s adapter_options \<Rightarrow> string \<Rightarrow> queue_adapter \<times> 's \<Rightarrow> (storage_receipt, 's) outcome" where
  "persist opts storedAt st =
     (case st of (a, s) \<Rightarrow>
      case new_record opts storedAt (qa_jobs a) (qa_queue a) (qa_backupMetadata a) of
        Inl e \<Rightarrow> (Inl e, a, s)
      | Inr r \<Rightarrow> (Inr \<lparr>sr_storedAt = storedAt, sr_location = ao_location opts, sr_jobsHash = qr_jobsHash r,
             sr_entityCounts = count_job_entities (qr_jobs r)\<rparr>,
           adapter_of (Some r), write_current (ao_store opts) r s))"

definition flush :: "'s adapter_options \<Rightarrow> string \<Rightarrow> queue_adapter \<times> 's \<Rightarrow> (storage_receipt, 's) outcome" where
  "flush opts storedAt st =
     (case refresh_from_store opts (snd st) of Inl e \<Rightarrow> (Inl e, st) | Inr a \<Rightarrow> persist opts storedAt (a, snd st))"

definition create_backup_metadata :: "'s adapter_options \<Rightarrow> canonical_id \<Rightarrow> string \<Rightarrow> job_snapshot \<Rightarrow> queue_snapshot \<Rightarrow> backup_metadata" where
  "create_backup_metadata opts i created jobs queue =
    \<lparr>bm_id = i, bm_component = ''job'', bm_createdAt = created, bm_location = ao_location opts @ ''#backup:'' @ i,
     bm_snapshotHash = hash_reference (ao_runtime opts) (JObj [(''jobs'', job_snapshot_js jobs), (''queue'', queue_js queue)]),
     bm_tenantBoundary = ao_tenantBoundary opts, bm_entityCounts = count_queue_entities jobs queue\<rparr>"

definition create_backup :: "'s adapter_options \<Rightarrow> canonical_id \<Rightarrow> string \<Rightarrow> queue_adapter \<times> 's \<Rightarrow> (backup_metadata, 's) outcome" where
  "create_backup opts i created st =
     (case refresh_from_store opts (snd st) of
        Inl e \<Rightarrow> (Inl e, st)
      | Inr a \<Rightarrow>
     (case create_snapshot_fields (ao_tenantBoundary opts) (qa_jobs a) of
        Inl e \<Rightarrow> (Inl e, a, snd st)
      | Inr jobs \<Rightarrow>
     (let queue = normalize_queue_snapshot (qa_queue a);
          metadata = create_backup_metadata opts i created jobs queue in
      case new_record opts created jobs queue (qa_backupMetadata a @ [metadata]) of
        Inl e \<Rightarrow> (Inl e, a, snd st)
      | Inr r \<Rightarrow> (Inr (clone_backup metadata), adapter_of (Some r),
           write_backup (ao_store opts) i r (write_current (ao_store opts) r (snd st))))))"

definition restore_backup :: "'s adapter_options \<Rightarrow> canonical_id \<Rightarrow> string \<Rightarrow> queue_adapter \<times> 's \<Rightarrow> (storage_receipt, 's) outcome" where
  "restore_backup opts i restoredAt st =
     (case read_queue_backup opts i (snd st) of
        Inl e \<Rightarrow> (Inl e, st)
      | Inr backup \<Rightarrow> persist opts restoredAt (adapter_of (Some backup), snd st))"

definition list_backup_metadata :: "'s adapter_options \<Rightarrow> queue_adapter \<times> 's \<Rightarrow> (backup_metadata list, 's) outcome" where
  "list_backup_metadata opts = with_refreshed opts (\<lambda>a. map clone_backup (qa_backupMetadata a))"

end
