(* ===== verification/Job_Adapter_Laws.thy ===== *)
theory Job_Adapter_Laws
  imports Job_Queue_Adapter
begin

text \<open>
  What holds of the stored queue: a record that is written can be read back, a commit is one atomic
  change of the stored record whatever other processes do, and every stored record and backup
  satisfies the invariant of the queue. The contract of an external store is a locale, which the
  in-memory store satisfies.
\<close>

subsection \<open>Copies\<close>

lemma clone_job_idem [simp]: "clone_job (clone_job j) = clone_job j"
  by (cases "qj_approval j"; cases "qj_control j") (simp_all add: clone_job_def)

lemma normalize_job_snapshot_idem [simp]: "normalize_job_snapshot (normalize_job_snapshot s) = normalize_job_snapshot s"
  by (simp add: normalize_job_snapshot_def)

lemma normalize_queue_snapshot_idem [simp]: "normalize_queue_snapshot (normalize_queue_snapshot q) = normalize_queue_snapshot q"
  by (simp add: normalize_queue_snapshot_def)

lemma clone_backup_idem [simp]: "clone_backup (clone_backup b) = clone_backup b"
  by (simp add: clone_backup_def)

lemma clone_queue_record_idem [simp]: "clone_queue_record (clone_queue_record r) = clone_queue_record r"
  by (simp add: clone_queue_record_def)

lemma clone_counts [simp]: "clone_record (count_queue_entities s q) = count_queue_entities s q"
  by (simp add: clone_record_def count_queue_entities_def count_job_entities_def js_nat_def)

text \<open>A record that is its own copy.\<close>

definition clean :: "queue_record \<Rightarrow> bool" where
  "clean r \<longleftrightarrow> clone_queue_record r = r"

lemma clean_clone [simp]: "clean (clone_queue_record r)"
  by (simp add: clean_def)

lemma clean_parts:
  assumes "clean r"
  shows "normalize_job_snapshot (qr_jobs r) = qr_jobs r" "normalize_queue_snapshot (qr_queue r) = qr_queue r"
    "map clone_backup (qr_backupMetadata r) = qr_backupMetadata r" "clone_record (qr_entityCounts r) = qr_entityCounts r"
  using arg_cong [OF assms [unfolded clean_def], of qr_jobs] arg_cong [OF assms [unfolded clean_def], of qr_queue]
    arg_cong [OF assms [unfolded clean_def], of qr_backupMetadata] arg_cong [OF assms [unfolded clean_def], of qr_entityCounts]
  by (simp_all add: clone_queue_record_def)

lemma first_error_None: "first_error es = None \<longleftrightarrow> (\<forall>e \<in> set es. e = None)"
  by (induction es rule: first_error.induct) auto

lemma create_record_parts:
  assumes "create_record rt tb t jobs q bs = Inr r"
  shows "clean r" "validate_record rt tb r = Inr r" "qr_jobs r = normalize_job_snapshot jobs"
    "qr_queue r = normalize_queue_snapshot q" "qr_backupMetadata r = map clone_backup bs"
    "qr_jobsHash r = hash_reference rt (job_snapshot_js (qr_jobs r))"
proof -
  from assms have checks: "assert_job_tenant_boundary (normalize_job_snapshot jobs) tb = None"
      "assert_no_secret_material (job_snapshot_js (normalize_job_snapshot jobs)) snapshot_label = None"
      "assert_no_secret_material (queue_js (normalize_queue_snapshot q)) queue_label = None"
    and r: "r = \<lparr>qr_version = record_version, qr_storedAt = t, qr_tenantBoundary = tb,
      qr_jobsHash = hash_reference rt (job_snapshot_js (normalize_job_snapshot jobs)),
      qr_queueHash = hash_reference rt (queue_js (normalize_queue_snapshot q)),
      qr_jobs = normalize_job_snapshot jobs, qr_queue = normalize_queue_snapshot q,
      qr_entityCounts = count_queue_entities (normalize_job_snapshot jobs) (normalize_queue_snapshot q),
      qr_backupMetadata = map clone_backup bs\<rparr>"
    by (auto simp: create_record_def create_snapshot_fields_def Let_def first_error_None split: option.splits)
  show "clean r" by (simp add: r clean_def clone_queue_record_def)
  show "qr_jobs r = normalize_job_snapshot jobs" "qr_queue r = normalize_queue_snapshot q"
    "qr_backupMetadata r = map clone_backup bs" "qr_jobsHash r = hash_reference rt (job_snapshot_js (qr_jobs r))"
    by (simp_all add: r)
  show "validate_record rt tb r = Inr r" using checks by (simp add: r validate_record_def validate_queue_state_def)
qed

lemma validated_clean: "validate_record rt tb r = Inr v \<Longrightarrow> clean r \<Longrightarrow> v = r"
  by (auto simp: validate_record_def validate_queue_state_def clean_parts split: option.splits)

lemma validated_secret_free:
  assumes "validate_record rt tb r = Inr v"
  shows "\<forall>k \<in> field_names (job_snapshot_js (qr_jobs r)) \<union> field_names (queue_js (qr_queue r)). \<not> is_secret_material_sensitive_key k"
  using assms
  by (auto simp: validate_record_def validate_queue_state_def first_error_None assert_no_secret_material_def secret_path_iff split: option.splits)

subsection \<open>Interference\<close>

text \<open>What other processes made of the store before an attempt.\<close>

definition before_attempt :: "'s adapter_options \<Rightarrow> nat \<Rightarrow> nat \<Rightarrow> 's \<Rightarrow> 's" where
  "before_attempt opts k m s = fold (ao_others opts) [k..<k + m] s"

lemma before_attempt_simps [simp]:
  "before_attempt opts k 0 s = s"
  "before_attempt opts k (Suc m) s = before_attempt opts (Suc k) m (ao_others opts k s)"
  by (simp_all add: before_attempt_def upt_conv_Cons del: upt_Suc)

subsection \<open>The contract of an external store\<close>

text \<open>
  \<open>ok\<close> says of the store's state that it was made by the store's own operations; \<open>same\<close> is how the
  store tells records apart when it compares before it exchanges.
\<close>

locale external_store =
  fixes store :: "('s, queue_record) snapshot_store"
    and ok :: "'s \<Rightarrow> bool"
    and same :: "queue_record \<Rightarrow> queue_record \<Rightarrow> bool"
  assumes read_clean: "ok s \<Longrightarrow> read_current store s = Some r \<Longrightarrow> clean r"
    and backup_clean: "ok s \<Longrightarrow> read_backup store i s = Some r \<Longrightarrow> clean r"
    and write_ok: "ok s \<Longrightarrow> ok (write_current store r s)"
    and write_backup_ok: "ok s \<Longrightarrow> ok (write_backup store i r s)"
    and read_written: "clean r \<Longrightarrow> read_current store (write_current store r s) = Some r"
    and write_keeps_backups: "read_backup store i (write_current store r s) = read_backup store i s"
    and read_backup_written:
      "clean r \<Longrightarrow> read_backup store i (write_backup store j r s) = (if i = j then Some r else read_backup store i s)"
    and backup_keeps_current: "read_current store (write_backup store i r s) = read_current store s"
    and exchanged: "ok s \<Longrightarrow> compare_exchange store expected r s = (True, s') \<Longrightarrow>
      s' = write_current store r s \<and> rel_option same (read_current store s) expected"
    and refused: "compare_exchange store expected r s = (False, s') \<Longrightarrow> s' = s"
    and exchange_current: "ok s \<Longrightarrow> compare_exchange store (read_current store s) r s = (True, write_current store r s)"
begin

lemma commit_attempts_serial:
  assumes "commit_attempts n k opts t mutate (a, s) = (out, a', s')" "ao_store opts = store" "ok s"
    and "\<And>k s. ok s \<Longrightarrow> ok (ao_others opts k s)"
  shows "case out of
      Inl e \<Rightarrow> a' = a \<and> (\<exists>m \<le> n. s' = before_attempt opts k m s)
    | Inr result \<Rightarrow> \<exists>m < n. \<exists>expected r. let now = before_attempt opts k (Suc m) s in
        ok now \<and> rel_option same (read_current store now) expected \<and>
        mutate_record opts t mutate expected = Inr (r, result) \<and>
        s' = write_current store r now \<and> a' = adapter_of (Some r)"
  using assms(1,3)
proof (induction n arbitrary: k s)
  case 0
  then show ?case by (auto simp: Let_def)
next
  case (Suc n)
  let ?s = "ao_others opts k s"
  have ok: "ok ?s" by (rule assms(4) [OF Suc.prems(2)])
  show ?case
  proof (cases "read_queue_record opts s")
    case (Inl e)
    with Suc.prems(1) show ?thesis by (auto intro!: exI [of _ "0::nat"])
  next
    case (Inr expected)
    show ?thesis
    proof (cases "mutate_record opts t mutate expected")
      case (Inl e)
      with Inr Suc.prems(1) show ?thesis by (auto intro!: exI [of _ "0::nat"])
    next
      case mutated: (Inr rr)
      obtain r result where rr: "rr = (r, result)" by (cases rr)
      obtain b s1 where exchange: "compare_exchange store expected r ?s = (b, s1)" by (cases "compare_exchange store expected r ?s")
      show ?thesis
      proof (cases b)
        case True
        with Suc.prems(1) Inr mutated rr exchange assms(2) have "out = Inr result" "a' = adapter_of (Some r)" "s' = s1" by auto
        moreover have "s1 = write_current store r ?s \<and> rel_option same (read_current store ?s) expected"
          using exchanged [OF ok] exchange True by simp
        ultimately show ?thesis using ok mutated rr by (auto simp: Let_def intro!: exI [of _ 0])
      next
        case False
        with exchange have "compare_exchange store expected r ?s = (False, s1)" by simp
        then have s1: "s1 = ?s" by (rule refused)
        with Suc.prems(1) Inr mutated rr exchange False assms(2)
        have "commit_attempts n (Suc k) opts t mutate (a, ?s) = (out, a', s')" by auto
        note IH = Suc.IH [OF this ok]
        show ?thesis
        proof (cases out)
          case (Inl e)
          with IH obtain m where "a' = a" "m \<le> n" "s' = before_attempt opts k (Suc m) s" by auto
          with Inl show ?thesis by (auto simp del: before_attempt_simps intro!: exI [of _ "Suc m"])
        next
          case out: (Inr res)
          with IH obtain m e r where "m < n" and now: "ok (before_attempt opts k (Suc (Suc m)) s)"
              "rel_option same (read_current store (before_attempt opts k (Suc (Suc m)) s)) e"
              "mutate_record opts t mutate e = Inr (r, res)"
              "s' = write_current store r (before_attempt opts k (Suc (Suc m)) s)" "a' = adapter_of (Some r)"
            by (auto simp: Let_def)
          then have "Suc m < Suc n" by simp
          with now out show ?thesis by (simp only: sum.case Let_def) blast
        qed
      qed
    qed
  qed
qed

text \<open>Undisturbed, a commit succeeds at once.\<close>

lemma commit_undisturbed:
  assumes "ao_store opts = store" "ok s" "ao_others opts 0 s = s"
  shows "commit_snapshot opts t mutate (a, s) =
    (case read_queue_record opts s of
       Inl e \<Rightarrow> (Inl e, a, s)
     | Inr expected \<Rightarrow> (case mutate_record opts t mutate expected of
         Inl e \<Rightarrow> (Inl e, a, s)
       | Inr (r, result) \<Rightarrow> (Inr result, adapter_of (Some r), write_current store r s)))"
proof -
  have current: "expected = read_current store s" if "read_queue_record opts s = Inr expected" for expected
    using that read_clean [OF assms(2)] assms(1) validated_clean
    by (auto simp: read_queue_record_def split: option.splits sum.splits)
  have exchange: "compare_exchange store expected r s = (True, write_current store r s)"
    if "read_queue_record opts s = Inr expected" for expected r
    using exchange_current [OF assms(2)] current [OF that] by simp
  show ?thesis
    using assms(1,3) exchange
    by (auto simp: commit_snapshot_def eval_nat_numeral split: sum.split prod.split)
qed

subsection \<open>Invariants of what is stored\<close>

end

text \<open>
  The ids of jobs are 24 characters of a hash of connector, key and kind. \<open>K\<close> is the set of those that
  are ever enqueued; on it the ids are told apart.
\<close>

definition job_id_of :: "runtime \<Rightarrow> canonical_id \<times> string \<times> queued_job_kind \<Rightarrow> string" where
  "job_id_of rt = (\<lambda>(connector, key, kind). ''queue:'' @ take 24 (sha256 rt (job_id_js connector key kind)))"

definition job_key :: "queued_job \<Rightarrow> canonical_id \<times> string \<times> queued_job_kind" where
  "job_key j = (qj_connectorId j, qj_idempotencyKey j, qj_kind j)"

definition queue_ok :: "runtime \<Rightarrow> (canonical_id \<times> string \<times> queued_job_kind) set \<Rightarrow> queue_snapshot \<Rightarrow> bool" where
  "queue_ok rt K q \<longleftrightarrow> queue_inv q \<and> (\<forall>j \<in> set (queuedJobs q). job_key j \<in> K \<and> qj_id j = job_id_of rt (job_key j))"

definition record_ok :: "'s adapter_options \<Rightarrow> (canonical_id \<times> string \<times> queued_job_kind) set \<Rightarrow> queue_record \<Rightarrow> bool" where
  "record_ok opts K r \<longleftrightarrow> clean r \<and> validate_record (ao_runtime opts) (ao_tenantBoundary opts) r = Inr r \<and>
     queue_ok (ao_runtime opts) K (qr_queue r)"

definition store_ok :: "'s adapter_options \<Rightarrow> (canonical_id \<times> string \<times> queued_job_kind) set \<Rightarrow> 's \<Rightarrow> bool" where
  "store_ok opts K s \<longleftrightarrow>
     (\<forall>r. read_current (ao_store opts) s = Some r \<longrightarrow> record_ok opts K r) \<and>
     (\<forall>i r. read_backup (ao_store opts) i s = Some r \<longrightarrow> record_ok opts K r)"

definition keeps_queue :: "'s adapter_options \<Rightarrow> (canonical_id \<times> string \<times> queued_job_kind) set \<Rightarrow> 'a mutation \<Rightarrow> bool" where
  "keeps_queue opts K mutate \<longleftrightarrow>
     (\<forall>jobs q jobs' q' result. queue_ok (ao_runtime opts) K q \<longrightarrow> mutate jobs q = Inr (jobs', q', result) \<longrightarrow>
        queue_ok (ao_runtime opts) K q')"

lemma clone_job_parts [simp]:
  "qj_id (clone_job j) = qj_id j" "qj_idempotencyKey (clone_job j) = qj_idempotencyKey j" "qj_requestHash (clone_job j) = qj_requestHash j"
  "job_key (clone_job j) = job_key j"
  by (simp_all add: clone_job_def job_key_def)

lemma recorded_clone [simp]: "recorded_as r (clone_job j) \<longleftrightarrow> recorded_as r j"
  by (simp add: recorded_as_def)

lemma clone_job_ok: "job_ok j \<Longrightarrow> job_ok (clone_job j)"
  by (cases "qj_status j") (auto simp: job_ok_def clone_job_def needs_evidence_def)

lemma normalized_queue_ok: "queue_ok rt K q \<Longrightarrow> queue_ok rt K (normalize_queue_snapshot q)"
  by (auto simp: queue_ok_def queue_inv_def normalize_queue_snapshot_def list_all2_map2 comp_def
      intro: clone_job_ok)

lemma empty_queue_ok: "queue_ok rt K empty_queue_snapshot"
  using empty_queue_inv by (simp add: queue_ok_def) (simp add: empty_queue_snapshot_def)

lemma same_job_key: "same_job j k \<Longrightarrow> job_key k = job_key j"
  by (simp add: same_job_def job_key_def)

lemma kept_queue_ok:
  assumes "queue_ok rt K q" "queue_step collate rt q q'" "jobs_kept q q'"
  shows "queue_ok rt K q'"
proof -
  have "queue_inv q'" using step_inv assms(1,2) by (auto simp: queue_ok_def)
  moreover have "job_key k \<in> K \<and> qj_id k = job_id_of rt (job_key k)" if mem: "k \<in> set (queuedJobs q')" for k
  proof -
    have all: "list_all2 job_change\<^sup>*\<^sup>* (queuedJobs q) (queuedJobs q')" using assms(3) by (simp add: jobs_kept_def)
    obtain i where i: "i < length (queuedJobs q')" "k = queuedJobs q' ! i" using mem by (auto simp: in_set_conv_nth)
    then have j: "same_job (queuedJobs q ! i) k" "queuedJobs q ! i \<in> set (queuedJobs q)"
      using job_changes_same list_all2_nthD2 [OF all] list_all2_lengthD [OF all] by auto
    then have "job_key (queuedJobs q ! i) \<in> K \<and> qj_id (queuedJobs q ! i) = job_id_of rt (job_key (queuedJobs q ! i))"
      using assms(1) unfolding queue_ok_def by blast
    then show ?thesis by (simp only: same_job_key [OF j(1)] same_job_id [OF j(1)])
  qed
  ultimately show ?thesis by (simp add: queue_ok_def)
qed

lemma steps_kept:
  assumes "queue_ok rt K q"
  shows "reserve_in_queue collate w t ms q = Inr (q', r) \<Longrightarrow> queue_ok rt K q'"
    and "complete_in_queue i v t q = Inr (q', j) \<Longrightarrow> queue_ok rt K q'"
    and "fail_in_queue i v t reason q = Inr (q', j) \<Longrightarrow> queue_ok rt K q'"
    and "queue_ok rt K (set_health_in_queue h q)"
proof -
  have distinct: "distinct (map qj_id (queuedJobs q))" using assms by (simp add: queue_ok_def queue_inv_def)
  have kept: "queue_ok rt K q'" if "queue_step c rt q q'" "idempotencyRecords q' = idempotencyRecords q" for c q'
    using kept_queue_ok [OF assms that(1)] step_shape [OF that(1) distinct] that(2) by (auto simp: job_added_def)
  show "reserve_in_queue collate w t ms q = Inr (q', r) \<Longrightarrow> queue_ok rt K q'"
    by (rule kept [OF queue_step.reserve]) (auto elim: reserve_cases)
  show "complete_in_queue i v t q = Inr (q', j) \<Longrightarrow> queue_ok rt K q'"
    by (rule kept [OF queue_step.complete]) (auto elim: complete_cases)
  show "fail_in_queue i v t reason q = Inr (q', j) \<Longrightarrow> queue_ok rt K q'"
    by (rule kept [OF queue_step.fail]) (auto elim: fail_cases)
  show "queue_ok rt K (set_health_in_queue h q)"
    by (rule kept [OF queue_step.health]) (simp add: set_health_in_queue_def)
qed

text \<open>Ids are told apart on \<open>K\<close>, so a new key makes a new id.\<close>

lemma created_key:
  "job_key (create_queued_job rt n) = (nr_connectorId n, nr_idempotencyKey n, nr_kind n)"
  "qj_id (create_queued_job rt n) = job_id_of rt (nr_connectorId n, nr_idempotencyKey n, nr_kind n)"
  by (simp_all add: create_queued_job_def job_key_def job_id_of_def)

lemma recorded_key:
  assumes "queue_inv q" "j \<in> set (queuedJobs q)"
  shows "\<exists>r \<in> set (idempotencyRecords q). ir_idempotencyKey r = qj_idempotencyKey j"
proof -
  have all: "list_all2 recorded_as (idempotencyRecords q) (queuedJobs q)" using assms(1) by (simp add: queue_inv_def)
  obtain i where "i < length (queuedJobs q)" "j = queuedJobs q ! i" using assms(2) by (auto simp: in_set_conv_nth)
  with list_all2_nthD2 [OF all] list_all2_lengthD [OF all] show ?thesis by (force simp: recorded_as_def)
qed

lemma enqueue_kept:
  assumes "queue_ok rt K q" "enqueue_in_queue rt n q = Inr (q', j, new)" "inj_on (job_id_of rt) K"
    and "normalize_enqueue_request rt now r = Inr n" "assert_enforcement_evidence n = None"
    and "(nr_connectorId n, nr_idempotencyKey n, nr_kind n) \<in> K"
  shows "queue_ok rt K q'"
  using assms(2)
proof (cases rule: enqueue_cases)
  case (old rec)
  with assms(1) show ?thesis by simp
next
  case new
  have "qj_id j \<notin> qj_id ` set (queuedJobs q)"
  proof
    assume "qj_id j \<in> qj_id ` set (queuedJobs q)"
    then obtain i where i: "i \<in> set (queuedJobs q)" "qj_id i = qj_id j" by auto
    with assms(1) have "job_key i \<in> K" "job_id_of rt (job_key i) = job_id_of rt (nr_connectorId n, nr_idempotencyKey n, nr_kind n)"
      using new(2) by (simp_all add: queue_ok_def created_key)
    with assms(3,6) have "job_key i = (nr_connectorId n, nr_idempotencyKey n, nr_kind n)" by (simp add: inj_on_eq_iff)
    then have "qj_idempotencyKey i = nr_idempotencyKey n" by (simp add: job_key_def)
    moreover have "queue_inv q" using assms(1) by (simp add: queue_ok_def)
    ultimately show False using recorded_key [of q i] i(1) new(3) by auto
  qed
  then have "queue_step (\<lambda>_ _. 0) rt q q'" using queue_step.enqueue [OF assms(4,5,2)] by blast
  then have "queue_inv q'" using step_inv assms(1) by (auto simp: queue_ok_def)
  then show ?thesis using assms(1,6) new(2,4) by (auto simp: queue_ok_def created_key)
qed

subsection \<open>Every mutation keeps the queue's invariant\<close>

lemma keep_jobs_queue: "keeps_queue opts K (\<lambda>jobs q. case change jobs of Inl e \<Rightarrow> Inl e | Inr jobs' \<Rightarrow> Inr (jobs', q, r))"
  by (auto simp: keeps_queue_def split: sum.splits)

lemma reserve_keeps: "keeps_queue opts K (\<lambda>jobs q. case reserve_in_queue collate w t ms q of
    Inl e \<Rightarrow> Inl e | Inr (q', r) \<Rightarrow> Inr (jobs, q', map_option clone_job r))"
  by (auto simp: keeps_queue_def split: sum.splits intro: steps_kept)

lemma complete_keeps: "keeps_queue opts K (\<lambda>jobs q. case complete_in_queue i w t q of
    Inl e \<Rightarrow> Inl e | Inr (q', j) \<Rightarrow> Inr (jobs, q', clone_job j))"
  by (auto simp: keeps_queue_def split: sum.splits intro: steps_kept)

lemma fail_keeps: "keeps_queue opts K (\<lambda>jobs q. case fail_in_queue i w t reason q of
    Inl e \<Rightarrow> Inl e | Inr (q', j) \<Rightarrow> Inr (jobs, q', clone_job j))"
  by (auto simp: keeps_queue_def split: sum.splits intro: steps_kept)

lemma health_keeps: "keeps_queue opts K (\<lambda>jobs q. Inr (jobs, set_health_in_queue h q, h))"
  by (auto simp: keeps_queue_def intro: steps_kept)

lemma enqueue_keeps:
  assumes "inj_on (job_id_of (ao_runtime opts)) K" "normalize_enqueue_request (ao_runtime opts) now r = Inr n"
    and "assert_enforcement_evidence n = None" "(enq_connectorId r, enq_idempotencyKey r, enq_kind r) \<in> K"
  shows "keeps_queue opts K (\<lambda>jobs q. case enqueue_in_queue (ao_runtime opts) n q of
    Inl e \<Rightarrow> Inl e | Inr (q', j, new) \<Rightarrow> Inr (if new then f jobs else jobs, q', clone_job j))"
proof -
  have "(nr_connectorId n, nr_idempotencyKey n, nr_kind n) \<in> K"
    using assms(2,4) by (auto simp: normalize_enqueue_request_def Let_def split: if_splits)
  then show ?thesis
    using enqueue_kept [OF _ _ assms(1-3)] by (auto simp: keeps_queue_def split: sum.splits)
qed

subsection \<open>Every write keeps the invariant of the store\<close>

context external_store
begin

definition stored :: "'s adapter_options \<Rightarrow> (canonical_id \<times> string \<times> queued_job_kind) set \<Rightarrow> 's \<Rightarrow> bool" where
  "stored opts K s \<longleftrightarrow> ok s \<and> store_ok opts K s"

lemma read_valid:
  assumes "stored opts K s" "ao_store opts = store"
  shows "read_queue_record opts s = Inr (read_current store s)"
  using assms by (auto simp: stored_def store_ok_def record_ok_def read_queue_record_def split: option.split)

lemma refresh_valid:
  "stored opts K s \<Longrightarrow> ao_store opts = store \<Longrightarrow> refresh_from_store opts s = Inr (adapter_of (read_current store s))"
  by (simp add: refresh_from_store_def read_valid)

lemma adapter_queue_ok:
  assumes "stored opts K s" "ao_store opts = store"
  shows "queue_ok (ao_runtime opts) K (qa_queue (adapter_of (read_current store s)))"
  using assms empty_queue_ok by (auto simp: stored_def store_ok_def record_ok_def adapter_of_def split: option.split)

lemma write_stored:
  assumes "stored opts K s" "ao_store opts = store" "record_ok opts K r"
  shows "stored opts K (write_current store r s)"
  using assms write_ok read_written write_keeps_backups by (auto simp: stored_def store_ok_def record_ok_def)

lemma write_backup_stored:
  assumes "stored opts K s" "ao_store opts = store" "record_ok opts K r"
  shows "stored opts K (write_backup store i r s)"
  using assms write_backup_ok read_backup_written backup_keeps_current
  by (auto simp: stored_def store_ok_def record_ok_def split: if_splits)

lemma new_record_ok:
  assumes "new_record opts t jobs q bs = Inr r" "queue_ok (ao_runtime opts) K q"
  shows "record_ok opts K r"
  using create_record_parts [OF assms(1) [unfolded new_record_def]] assms(2)
  by (simp add: record_ok_def normalized_queue_ok)

lemma mutated_ok:
  assumes "mutate_record opts t mutate expected = Inr (r, result)" "keeps_queue opts K mutate"
    and "queue_ok (ao_runtime opts) K (qa_queue (adapter_of expected))"
  shows "record_ok opts K r"
  using assms new_record_ok normalized_queue_ok unfolding mutate_record_def keeps_queue_def Let_def
  by (auto split: sum.splits) blast

lemma commit_stored:
  assumes "stored opts K s" "ao_store opts = store" "\<And>k s. stored opts K s \<Longrightarrow> stored opts K (ao_others opts k s)"
    and "keeps_queue opts K mutate"
  shows "stored opts K (snd (snd (commit_attempts n k opts t mutate (a, s))))"
  using assms(1)
proof (induction n arbitrary: k s)
  case 0
  then show ?case by simp
next
  case (Suc n)
  let ?s = "ao_others opts k s"
  let ?e = "read_current store s"
  have others: "stored opts K ?s" by (rule assms(3) [OF Suc.prems])
  show ?case
  proof (cases "mutate_record opts t mutate ?e")
    case (Inl e)
    with Suc.prems show ?thesis by (simp add: read_valid [OF Suc.prems assms(2)])
  next
    case (Inr rr)
    obtain r result where rr: "rr = (r, result)" by (cases rr)
    obtain b s1 where exchange: "compare_exchange store ?e r ?s = (b, s1)" by (cases "compare_exchange store ?e r ?s")
    have r: "record_ok opts K r"
      using mutated_ok [OF _ assms(4) adapter_queue_ok [OF Suc.prems assms(2)]] Inr rr by simp
    show ?thesis
    proof (cases b)
      case True
      then have "s1 = write_current store r ?s" using exchanged exchange others by (auto simp: stored_def)
      with True Inr rr exchange write_stored [OF others assms(2) r] show ?thesis
        by (simp add: read_valid [OF Suc.prems assms(2)] assms(2))
    next
      case False
      with exchange have "compare_exchange store ?e r ?s = (False, s1)" by simp
      then have "s1 = ?s" by (rule refused)
      with False Inr rr exchange Suc.IH [OF others] show ?thesis
        by (simp add: read_valid [OF Suc.prems assms(2)] assms(2))
    qed
  qed
qed

lemma persist_stored:
  assumes "stored opts K s" "ao_store opts = store" "queue_ok (ao_runtime opts) K (qa_queue a)"
  shows "stored opts K (snd (snd (persist opts t (a, s))))"
  using assms(1,2) write_stored [OF assms(1,2)] new_record_ok [OF _ assms(3)] by (auto simp: persist_def split: sum.split)

lemma flush_stored:
  assumes "stored opts K s" "ao_store opts = store"
  shows "stored opts K (snd (snd (flush opts t (a, s))))"
  using persist_stored [OF assms adapter_queue_ok [OF assms]] by (simp add: flush_def refresh_valid [OF assms])

lemma restore_stored:
  assumes "stored opts K s" "ao_store opts = store"
  shows "stored opts K (snd (snd (restore_backup opts i t (a, s))))"
proof (cases "read_backup store i s")
  case None
  with assms show ?thesis by (simp add: restore_backup_def read_queue_backup_def)
next
  case (Some r)
  then have "record_ok opts K r" using assms by (auto simp: stored_def store_ok_def)
  then show ?thesis
    using Some assms(2) persist_stored [OF assms, of "adapter_of (Some r)"]
    by (simp add: restore_backup_def read_queue_backup_def record_ok_def adapter_of_def)
qed

lemma backup_stored:
  assumes "stored opts K s" "ao_store opts = store"
  shows "stored opts K (snd (snd (create_backup opts i t (a, s))))"
  using write_backup_stored [OF write_stored [OF assms] assms(2)]
    new_record_ok [OF _ normalized_queue_ok [OF adapter_queue_ok [OF assms]]] assms
  by (auto simp: create_backup_def refresh_valid [OF assms] Let_def split: sum.split)

lemma adapter_jobs_clean:
  "ok s \<Longrightarrow> normalize_job_snapshot (qa_jobs (adapter_of (read_current store s))) = qa_jobs (adapter_of (read_current store s))"
  "ok s \<Longrightarrow> normalize_queue_snapshot (qa_queue (adapter_of (read_current store s))) = qa_queue (adapter_of (read_current store s))"
  "ok s \<Longrightarrow> map clone_backup (qa_backupMetadata (adapter_of (read_current store s))) = qa_backupMetadata (adapter_of (read_current store s))"
  by (auto simp: adapter_of_def empty_job_snapshot_def empty_queue_snapshot_def normalize_job_snapshot_def
      normalize_queue_snapshot_def clean_parts [OF read_clean, unfolded normalize_job_snapshot_def normalize_queue_snapshot_def]
      split: option.split)

text \<open>A validated record can be written again.\<close>

lemma recreate:
  assumes "validate_record (ao_runtime opts) (ao_tenantBoundary opts) r = Inr r" "clean r"
  shows "\<exists>r'. new_record opts t (qr_jobs r) (qr_queue r) bs = Inr r'"
  using assms
  by (auto simp: validate_record_def validate_queue_state_def new_record_def create_record_def create_snapshot_fields_def clean_parts Let_def first_error_None
      split: option.splits)

lemma restored:
  assumes "stored opts K s" "ao_store opts = store" "create_backup opts i t (a, s) = (Inr m, a1, s1)"
    and "stored opts K s2" "read_backup store i s2 = read_backup store i s1" "restore_backup opts i t' (a2, s2) = (out, a3, s3)"
  shows "\<exists>receipt. out = Inr receipt \<and> refresh_from_store opts s3 = Inr a3 \<and>
    qa_jobs a3 = qa_jobs (adapter_of (read_current store s)) \<and> qa_queue a3 = qa_queue (adapter_of (read_current store s)) \<and>
    qa_backupMetadata a3 = qa_backupMetadata (adapter_of (read_current store s)) @ [m]"
proof -
  let ?a = "adapter_of (read_current store s)"
  note clean_a = adapter_jobs_clean [OF assms(1) [unfolded stored_def, THEN conjunct1]]
  obtain r where backup: "read_backup store i s1 = Some r" "record_ok opts K r"
    and r: "qr_jobs r = qa_jobs ?a" "qr_queue r = qa_queue ?a" "qr_backupMetadata r = qa_backupMetadata ?a @ [m]"
    using assms(3) create_record_parts read_backup_written new_record_ok [OF _ adapter_queue_ok [OF assms(1,2)]]
    by (fastforce simp: create_backup_def refresh_valid [OF assms(1,2)] create_snapshot_fields_def new_record_def assms(2) Let_def clean_a
        split: sum.splits option.splits)
  have valid: "validate_record (ao_runtime opts) (ao_tenantBoundary opts) r = Inr r" "clean r"
    using backup(2) by (simp_all add: record_ok_def)
  then obtain r' where r': "new_record opts t' (qr_jobs r) (qr_queue r) (qr_backupMetadata r) = Inr r'" using recreate by blast
  note parts = create_record_parts [OF r' [unfolded new_record_def]]
  have same: "adapter_of (Some r') = adapter_of (Some r)" using parts(3-5) clean_parts [OF valid(2)] by (simp add: adapter_of_def)
  have out: "\<exists>receipt. out = Inr receipt" "a3 = adapter_of (Some r')" "s3 = write_current store r' s2"
    using assms(6) backup(1) assms(2,5) valid(1) r' by (auto simp: restore_backup_def read_queue_backup_def persist_def adapter_of_def)
  have "read_current store s3 = Some r'" using read_written [OF parts(1)] out(3) by simp
  then have "refresh_from_store opts s3 = Inr a3"
    using parts(2) out(2) assms(2) by (simp add: refresh_from_store_def read_queue_record_def)
  with out same r show ?thesis by (simp add: adapter_of_def)
qed

end

end
