(* ===== verification/Job_Queue_Properties.thy ===== *)
theory Job_Queue_Properties
  imports Job_Queue_Laws Audit_Chain
begin

text \<open>
  What the job queue promises its clients: its invariant, the life of a job, idempotent submission,
  the order of reservations, exclusive leases, bounded retries, and the evidence of enforcement jobs.
\<close>

subsection \<open>Samples\<close>

definition sample_collate :: "string \<Rightarrow> string \<Rightarrow> int" where
  "sample_collate a b = (if a = b then 0 else if a < b then -1 else 1)"

definition sample_request :: enqueue_request where
  "sample_request = \<lparr>enq_kind = Kind_provisioning, enq_connectorId = ''c'', enq_idempotencyKey = ''k'',
     enq_payload = [(''mode'', JStr ''enforcement'')], enq_priority = None, enq_requestedAt = Some ''2026-01-01T00:00:00.000Z'',
     enq_maxAttempts = Some 1, enq_backoff = None, enq_approval = Some [], enq_control = Some [],
     enq_readinessReportId = Some ''r'', enq_replayedFromJobId = None\<rparr>"

definition sample_normalized :: normalized_request where
  "sample_normalized = projr (normalize_enqueue_request sample_runtime [] sample_request)"

definition sample_queued :: queue_snapshot where
  "sample_queued = fst (projr (enqueue_in_queue sample_runtime sample_normalized empty_queue_snapshot))"

definition sample_running :: queue_snapshot where
  "sample_running = fst (projr (reserve_in_queue sample_collate ''w'' ''2026-01-01T00:00:01.000Z'' (Some 1000) sample_queued))"

definition sample_running_again :: queue_snapshot where
  "sample_running_again = fst (projr (reserve_in_queue sample_collate ''x'' ''2026-01-01T00:00:05.000Z'' (Some 1000) sample_running))"

lemma sample_normalize: "normalize_enqueue_request sample_runtime [] sample_request = Inr sample_normalized"
  by (simp add: sample_normalized_def normalize_enqueue_request_def sample_request_def Let_def)

definition sample_job :: queued_job where
  "sample_job = create_queued_job sample_runtime sample_normalized"

lemma sample_normalized_fields:
  "nr_requestedAt sample_normalized = ''2026-01-01T00:00:00.000Z''" "nr_maxAttempts sample_normalized = 1"
  "nr_kind sample_normalized = Kind_provisioning" "nr_approval sample_normalized = Some []"
  "nr_control sample_normalized = Some []" "nr_readinessReportId sample_normalized = Some ''r''"
  "nr_payload sample_normalized = [(''mode'', JStr ''enforcement'')]"
  by (simp_all add: sample_normalized_def normalize_enqueue_request_def sample_request_def clone_record_def Let_def)

lemma sample_job_fields:
  "qj_status sample_job = Queued" "qj_availableAt sample_job = ''2026-01-01T00:00:00.000Z''" "qj_attempts sample_job = 0"
  "qj_maxAttempts sample_job = 1" "qj_leaseExpiresAt sample_job = None"
  by (simp_all add: sample_job_def create_queued_job_def sample_normalized_fields)

lemma sample_enqueue:
  "enqueue_in_queue sample_runtime sample_normalized empty_queue_snapshot = Inr (sample_queued, sample_job, True)"
  by (simp add: sample_queued_def sample_job_def enqueue_in_queue_def empty_queue_snapshot_def Let_def)

lemma sample_queued_jobs: "queuedJobs sample_queued = [sample_job]" "connectorHealth sample_queued = []"
  by (simp_all add: sample_queued_def sample_job_def enqueue_in_queue_def empty_queue_snapshot_def Let_def)

text \<open>A queue with a single job that nothing holds back.\<close>

lemma reserve_single:
  assumes "queuedJobs q = [j]" "connectorHealth q = []" "recover_job t j = i" "qj_status i = Queued" "qj_availableAt i \<le> t"
    and "add_ms t ms = Inr lease"
    and "k = i\<lparr>qj_status := Running, qj_workerId := Some w, qj_startedAt := Some t,
           qj_leaseExpiresAt := Some lease, qj_updatedAt := t, qj_attempts := qj_attempts i + 1\<rparr>"
  shows "reserve_in_queue collate w t (Some ms) q = Inr (q\<lparr>queuedJobs := [k]\<rparr>, Some k)"
  using assms
  by (simp add: reserve_in_queue_def recover_expired_running_jobs_def next_job_def eligible_job_def is_connector_reservable_def
      sort_jobs_def put_job_def upsert_by_def Let_def)

definition sample_reserved :: queued_job where
  "sample_reserved = sample_job\<lparr>qj_status := Running, qj_workerId := Some ''w'', qj_startedAt := Some ''2026-01-01T00:00:01.000Z'',
     qj_leaseExpiresAt := Some ''2026-01-01T00:00:02.000Z'', qj_updatedAt := ''2026-01-01T00:00:01.000Z'', qj_attempts := 1\<rparr>"

lemma sample_reserve:
  "reserve_in_queue sample_collate ''w'' ''2026-01-01T00:00:01.000Z'' (Some 1000) sample_queued =
     Inr (sample_queued\<lparr>queuedJobs := [sample_reserved]\<rparr>, Some sample_reserved)"
proof (rule reserve_single [where j = sample_job and i = sample_job and lease = "''2026-01-01T00:00:02.000Z''"])
  show "add_ms ''2026-01-01T00:00:01.000Z'' 1000 = Inr ''2026-01-01T00:00:02.000Z''"
    by (rule add_ms_whole [where t = 1767225601000 and k = 1000], code_simp, simp, code_simp, code_simp)
qed (simp_all add: sample_queued_jobs sample_reserved_def sample_job_fields recover_job_def split: option.split)

lemma sample_running_fields:
  "queuedJobs sample_running = [sample_reserved]" "connectorHealth sample_running = []"
  "sample_running = sample_queued\<lparr>queuedJobs := [sample_reserved]\<rparr>"
  by (simp_all add: sample_running_def sample_reserve sample_queued_jobs)

lemma sample_reserve_again:
  "\<exists>k. reserve_in_queue sample_collate ''x'' ''2026-01-01T00:00:05.000Z'' (Some 1000) sample_running = Inr (sample_running_again, Some k) \<and>
     queuedJobs sample_running_again = [k] \<and> qj_attempts k = 2 \<and> qj_maxAttempts k = 1"
proof -
  have lease: "add_ms ''2026-01-01T00:00:05.000Z'' 1000 = Inr ''2026-01-01T00:00:06.000Z''"
    by (rule add_ms_whole [where t = 1767225605000 and k = 1000], code_simp, simp, code_simp, code_simp)
  show ?thesis
    using reserve_single [OF sample_running_fields(1,2) refl _ _ lease refl, where w = "''x''" and collate = sample_collate]
    by (simp add: sample_running_again_def sample_reserved_def recover_job_def sample_job_fields)
qed

lemma sample_steps:
  "queue_step sample_collate sample_runtime empty_queue_snapshot sample_queued"
  "queue_step sample_collate sample_runtime sample_queued sample_running"
  "queue_step sample_collate sample_runtime sample_running sample_running_again"
proof -
  show "queue_step sample_collate sample_runtime empty_queue_snapshot sample_queued"
    by (rule queue_step.enqueue [OF sample_normalize _ sample_enqueue])
      (simp_all add: assert_enforcement_evidence_def sample_normalized_fields empty_queue_snapshot_def)
  show "queue_step sample_collate sample_runtime sample_queued sample_running"
    using queue_step.reserve [OF sample_reserve] by (simp add: sample_running_fields)
  show "queue_step sample_collate sample_runtime sample_running sample_running_again"
    using sample_reserve_again by (blast intro: queue_step.reserve)
qed

lemma sample_reachable:
  "queue_reachable sample_collate sample_runtime sample_queued"
  "queue_reachable sample_collate sample_runtime sample_running"
  "queue_reachable sample_collate sample_runtime sample_running_again"
  using sample_steps unfolding queue_reachable_def by (meson rtranclp.rtrancl_refl rtranclp.rtrancl_into_rtrancl)+

subsection \<open>Invariant and life of a job\<close>

text \<open>
  in every queue the operations can produce, job ids, idempotency keys and connector health
  entries are unique, every job has exactly its idempotency record, and every job has the fields
  its status calls for: a running job a worker, a start and a lease, a queued one none of these, a
  dead-lettered one its error and all its attempts used, and no job is ever stored as failed.
\<close>

theorem queue_keeps_its_invariant: "queue_reachable collate rt q \<Longrightarrow> queue_inv q"
  by (rule queue_reachable_inv)

lemma queue_keeps_its_invariant_witness: "queue_inv sample_running_again"
  by (rule queue_keeps_its_invariant [OF sample_reachable(3)])

text \<open>
  C35: whatever jobs are enqueued, reserved, completed or failed later, and however often the health of
  the queue is reported, a job in the queue stays in it and stays the same job (kind, connector,
  payload, evidence, limits), its attempts never decrease, and once completed or dead-lettered it
  does not change any more. The condition of \<open>queue_step\<close> on enqueueing is assumed: the hash that names
  a job does not give a new request the id of a stored job. Restoring a backup, which replaces the
  whole queue and so drops the jobs enqueued since, is not among these operations.
\<close>

theorem jobs_are_never_lost:
  assumes "queue_reachable collate rt q" "(queue_step collate rt)\<^sup>*\<^sup>* q q'" "j \<in> set (queuedJobs q)"
  shows "\<exists>k \<in> set (queuedJobs q'). same_job j k \<and> qj_attempts j \<le> qj_attempts k \<and>
           (qj_status j \<in> {Completed, Dead_lettered} \<longrightarrow> k = j)"
proof -
  have "queue_extends q q'" by (rule steps_extend [OF assms(2) queue_reachable_inv [OF assms(1)]])
  from extended_job [OF this assms(3)] show ?thesis
    using job_changes_same job_changes_attempts job_change_final by blast
qed

lemma jobs_are_never_lost_witness:
  "\<exists>k \<in> set (queuedJobs sample_running_again). same_job sample_reserved k \<and> qj_attempts sample_reserved \<le> qj_attempts k \<and>
     (qj_status sample_reserved \<in> {Completed, Dead_lettered} \<longrightarrow> k = sample_reserved)"
proof (rule jobs_are_never_lost [OF sample_reachable(2)])
  show "(queue_step sample_collate sample_runtime)\<^sup>*\<^sup>* sample_running sample_running_again" using sample_steps(3) by blast
  show "sample_reserved \<in> set (queuedJobs sample_running)" by (simp add: sample_running_fields(1))
qed

subsection \<open>Enforcement\<close>

text \<open>
  a queued provisioning job that would change access (its payload says enforcement, or not a dry
  run) carries an approval, an enforcement control and the id of a readiness report, at every
  moment of its life.
\<close>

theorem enforcement_jobs_carry_evidence:
  assumes "queue_reachable collate rt q" "j \<in> set (queuedJobs q)" "qj_kind j = Kind_provisioning"
    and "payload_field (qj_payload j) ''mode'' = JStr ''enforcement'' \<or> payload_field (qj_payload j) ''dryRun'' = JBool False"
  shows "qj_approval j \<noteq> None \<and> qj_control j \<noteq> None \<and> truthy (qj_readinessReportId j)"
  using queue_reachable_inv [OF assms(1)] assms(2-4) by (auto simp: queue_inv_def job_ok_def needs_evidence_def)

lemma enforcement_jobs_carry_evidence_witness:
  "qj_approval sample_job \<noteq> None \<and> qj_control sample_job \<noteq> None \<and> truthy (qj_readinessReportId sample_job)"
  by (rule enforcement_jobs_carry_evidence [OF sample_reachable(1)])
    (simp_all add: sample_queued_jobs, simp_all add: sample_job_def create_queued_job_def sample_normalized_fields payload_field_def)

subsection \<open>Idempotent submission\<close>

lemma record_of_key:
  assumes "queue_inv q" "r \<in> set (idempotencyRecords q)"
  shows "find (\<lambda>x. ir_idempotencyKey x = ir_idempotencyKey r) (idempotencyRecords q) = Some r"
  by (rule find_distinct [where key = ir_idempotencyKey]) (use assms in \<open>simp_all add: queue_inv_def\<close>)

lemma job_of_id: "queue_inv q \<Longrightarrow> j \<in> set (queuedJobs q) \<Longrightarrow> required_queued_job q (qj_id j) = Inr j"
  using find_distinct [where key = qj_id and xs = "queuedJobs q" and x = j]
  by (simp add: queue_inv_def required_queued_job_def find_job_def)

lemma created_fields:
  "qj_idempotencyKey (create_queued_job rt n) = nr_idempotencyKey n" "qj_requestHash (create_queued_job rt n) = nr_requestHash n"
  by (simp_all add: create_queued_job_def)

text \<open>
  once a request has been enqueued, enqueueing it again, after any other operations, changes
  nothing and returns the job it made, whatever has become of it; a different request under the same
  idempotency key is refused.
\<close>

theorem resubmission_returns_the_same_job:
  assumes "enqueue_in_queue rt n q = Inr (q1, j, True)" "queue_reachable collate rt q1" "(queue_step collate rt)\<^sup>*\<^sup>* q1 q2"
  shows "(\<exists>k. enqueue_in_queue rt n q2 = Inr (q2, k, False) \<and> same_job j k) \<and>
         (\<forall>m. nr_idempotencyKey m = nr_idempotencyKey n \<longrightarrow> nr_requestHash m \<noteq> nr_requestHash n \<longrightarrow>
            enqueue_in_queue rt m q2 = Inl (Idempotency_key_reused (nr_idempotencyKey n)))"
proof -
  have inv: "queue_inv q2" and ext: "queue_extends q1 q2"
    using steps_inv steps_extend assms(2,3) queue_reachable_inv by blast+
  obtain r where r: "r \<in> set (idempotencyRecords q1)" "ir_jobId r = qj_id j" "ir_idempotencyKey r = nr_idempotencyKey n"
      "ir_requestHash r = nr_requestHash n" and j: "j \<in> set (queuedJobs q1)"
    using assms(1) by (cases rule: enqueue_cases) (fastforce simp: created_fields)+
  obtain k where k: "k \<in> set (queuedJobs q2)" "same_job j k"
    using extended_job [OF ext j] job_changes_same by blast
  have "required_queued_job q2 (qj_id j) = Inr k" using job_of_id [OF inv k(1)] same_job_id [OF k(2)] by simp
  with k(2) r(2-4) record_of_key [OF inv extended_record [OF ext r(1)]] show ?thesis
    by (simp add: enqueue_in_queue_def)
qed

lemma resubmission_returns_the_same_job_witness:
  "\<exists>k. enqueue_in_queue sample_runtime sample_normalized sample_running_again = Inr (sample_running_again, k, False)"
  using resubmission_returns_the_same_job [OF sample_enqueue sample_reachable(1), of sample_running_again] sample_steps(2,3)
  by (meson rtranclp.rtrancl_refl rtranclp.rtrancl_into_rtrancl)

subsection \<open>Reserving\<close>

text \<open>What the code needs of \<open>localeCompare\<close>: that it compares.\<close>

definition collation :: "(string \<Rightarrow> string \<Rightarrow> int) \<Rightarrow> bool" where
  "collation collate \<longleftrightarrow>
     (\<forall>a b. collate a b \<le> 0 \<longleftrightarrow> 0 \<le> collate b a) \<and>
     (\<forall>a b c. collate a b \<le> 0 \<longrightarrow> collate b c \<le> 0 \<longrightarrow> collate a c \<le> 0)"

definition more_urgent :: "(string \<Rightarrow> string \<Rightarrow> int) \<Rightarrow> queued_job \<Rightarrow> queued_job \<Rightarrow> bool" where
  "more_urgent collate j k \<longleftrightarrow>
     priority_rank (qj_priority j) < priority_rank (qj_priority k) \<or>
     priority_rank (qj_priority j) = priority_rank (qj_priority k) \<and> collate (qj_requestedAt j) (qj_requestedAt k) \<le> 0"

lemma next_job_most_urgent:
  assumes "collation collate" "next_job collate q t = Some j" "k \<in> set (queuedJobs q)" "eligible_job q t k"
  shows "more_urgent collate j k"
proof (rule next_job_first [where R = "more_urgent collate", OF assms(2-4)])
  have swap: "collate a b \<le> 0 \<longleftrightarrow> 0 \<le> collate b a" for a b using assms(1) by (simp add: collation_def)
  have trans: "collate a b \<le> 0 \<Longrightarrow> collate b c \<le> 0 \<Longrightarrow> collate a c \<le> 0" for a b c
    using assms(1) by (auto simp: collation_def)
  show "more_urgent collate x x" for x using swap [of "qj_requestedAt x" "qj_requestedAt x"] by (auto simp: more_urgent_def)
  show "more_urgent collate x z" if "more_urgent collate x y" "more_urgent collate y z" for x y z
    using that trans by (auto simp: more_urgent_def)
  show "more_urgent collate x y" if "compare_queued_jobs collate x y \<le> 0" for x y
    using that by (auto simp: more_urgent_def compare_queued_jobs_def Let_def split: if_splits)
  show "more_urgent collate y x" if "0 < compare_queued_jobs collate x y" for x y
    using that swap [of "qj_requestedAt y" "qj_requestedAt x"]
    by (auto simp: more_urgent_def compare_queued_jobs_def Let_def split: if_splits)
qed

text \<open>
  a reservation gives the worker a job only if one is queued, due and on a reservable connector,
  after expired leases have been returned; among those it picks one of the highest priority and,
  within it, of the earliest request; the job it hands out is that job running, leased to the
  worker, with one more attempt. It finds nothing only when there is nothing to find.
\<close>

theorem reservation_takes_the_most_urgent:
  assumes "collation collate" "reserve_in_queue collate w t ms q = Inr (q', r)"
  shows "case r of
      None \<Rightarrow> q' = recover_expired_running_jobs q t \<and> (\<forall>i \<in> set (queuedJobs q'). \<not> eligible_job q' t i)
    | Some k \<Rightarrow> \<exists>j \<in> set (queuedJobs (recover_expired_running_jobs q t)).
        eligible_job (recover_expired_running_jobs q t) t j \<and> same_job j k \<and> qj_status k = Running \<and>
        qj_workerId k = Some w \<and> qj_startedAt k = Some t \<and> qj_attempts k = qj_attempts j + 1 \<and>
        add_ms t (coalesce ms default_lease_duration_ms) = Inr (coalesce (qj_leaseExpiresAt k) []) \<and>
        (\<forall>i \<in> set (queuedJobs (recover_expired_running_jobs q t)).
           eligible_job (recover_expired_running_jobs q t) t i \<longrightarrow> more_urgent collate k i)"
  using assms(2)
proof (cases rule: reserve_cases)
  case none
  then show ?thesis using next_job_None by simp
next
  case (some j lease k)
  have "more_urgent collate k i" if "i \<in> set (queuedJobs (recover_expired_running_jobs q t))"
      "eligible_job (recover_expired_running_jobs q t) t i" for i
    using next_job_most_urgent [OF assms(1) some(2) that] some(4) by (simp add: more_urgent_def)
  with next_job_eligible [OF some(2)] some(1,3,4) show ?thesis by (auto simp: same_job_def simp del: recovered_jobs)
qed

lemma sample_collation: "collation sample_collate"
  by (auto simp: collation_def sample_collate_def)

lemma reservation_takes_the_most_urgent_witness:
  "\<exists>j \<in> set (queuedJobs (recover_expired_running_jobs sample_queued ''2026-01-01T00:00:01.000Z'')). same_job j sample_reserved"
  using reservation_takes_the_most_urgent [OF sample_collation sample_reserve] by (auto simp del: recovered_jobs)

lemma leased_job_kept:
  assumes "queue_inv q" "j \<in> set (queuedJobs q)" "qj_status j = Running" "qj_leaseExpiresAt j = Some lease" "t < lease"
    and "reserve_in_queue collate v t ms q = Inr (q', r)"
  shows "j \<in> set (queuedJobs q') \<and> (\<forall>k. r = Some k \<longrightarrow> qj_id k \<noteq> qj_id j)"
proof -
  let ?r = "recover_expired_running_jobs q t"
  have distinct: "distinct (map qj_id (queuedJobs ?r))" using assms(1) by (simp add: queue_inv_def comp_def)
  have "recover_job t j = j" using assms(4,5) by (simp add: recover_job_def)
  then have j: "j \<in> set (queuedJobs ?r)" using rev_image_eqI [OF assms(2), of j "recover_job t"] by simp
  from assms(6) show ?thesis
  proof (cases rule: reserve_cases)
    case none
    with j show ?thesis by simp
  next
    case (some i expires k)
    have i: "i \<in> set (queuedJobs ?r)" "qj_status i = Queued" "qj_id i = qj_id k"
      using next_job_eligible [OF some(2)] some(4) by (simp_all add: eligible_job_def del: recovered_jobs)
    have other: "qj_id j \<noteq> qj_id k"
    proof
      assume "qj_id j = qj_id k"
      then have "j = i" using distinct i(1,3) j by (simp add: distinct_map inj_on_def del: recovered_jobs)
      with i(2) assms(3) show False by simp
    qed
    have "queuedJobs q' = map (\<lambda>x. if qj_id x = qj_id k then k else x) (queuedJobs ?r)"
      unfolding some(5) by (rule put_job_jobs [OF distinct i(1,3)])
    then have "j \<in> set (queuedJobs q')"
      using imageI [OF j, of "\<lambda>x. if qj_id x = qj_id k then k else x"] other by (simp del: recovered_jobs)
    with other some(1) show ?thesis by simp
  qed
qed

text \<open>
  C36: while its lease lasts, a running job belongs to its worker: a reservation leaves it untouched
  and hands out another job, and no other worker can complete it or record its failure.
\<close>

theorem running_job_is_exclusive:
  assumes "queue_reachable collate rt q" "j \<in> set (queuedJobs q)" "qj_status j = Running"
    and "qj_leaseExpiresAt j = Some lease" "t < lease" "qj_workerId j = Some w" "w \<noteq> []" "v \<noteq> []" "v \<noteq> w"
  shows "(\<forall>q' r. reserve_in_queue collate v t ms q = Inr (q', r) \<longrightarrow>
            j \<in> set (queuedJobs q') \<and> (\<forall>k. r = Some k \<longrightarrow> qj_id k \<noteq> qj_id j)) \<and>
         complete_in_queue (qj_id j) (Some v) t q = Inl (Reserved_by_other_worker (qj_id j) w v) \<and>
         fail_in_queue (qj_id j) (Some v) t reason q = Inl (Reserved_by_other_worker (qj_id j) w v)"
proof -
  have inv: "queue_inv q" by (rule queue_reachable_inv [OF assms(1)])
  note job = job_of_id [OF inv assms(2)]
  have "complete_in_queue (qj_id j) (Some v) t q = Inl (Reserved_by_other_worker (qj_id j) w v)"
    using assms(3-9) by (simp add: complete_in_queue_def job assert_job_running_def assert_lease_active_def assert_worker_matches_def not_le)
  moreover have "fail_in_queue (qj_id j) (Some v) t reason q = Inl (Reserved_by_other_worker (qj_id j) w v)"
    using assms(3,6-9) by (simp add: fail_in_queue_def job assert_job_running_def assert_worker_matches_def)
  ultimately show ?thesis using leased_job_kept [OF inv assms(2-5)] by blast
qed

lemma running_job_is_exclusive_witness:
  "complete_in_queue (qj_id sample_reserved) (Some ''x'') ''2026-01-01T00:00:01.500Z'' sample_running =
     Inl (Reserved_by_other_worker (qj_id sample_reserved) ''w'' ''x'')"
  using running_job_is_exclusive [OF sample_reachable(2), of sample_reserved "''2026-01-01T00:00:02.000Z''" "''2026-01-01T00:00:01.500Z''"
      "''w''" "''x''" None "[]"]
  by (simp add: sample_running_fields(1), simp add: sample_reserved_def)

subsection \<open>Failing\<close>

lemma add_ms_parses:
  assumes "add_ms t ms = Inr s"
  obtains u where "date_parse t = Some u" "date_parse s = Some (cut_off (of_int u + ms))"
  using assms that date_parse_iso_text by (auto simp: add_ms_def to_iso_string_def split: option.splits if_splits)

lemma cut_off_bounds: "of_int (cut_off q) < q + 1"
proof (cases "0 \<le> q")
  case True
  then have "cut_off q = \<lfloor>q\<rfloor>" by (simp add: cut_off_def)
  with of_int_floor_le [of q] show ?thesis by linarith
next
  case False
  then have "cut_off q = \<lceil>q\<rceil>" by (simp add: cut_off_def)
  with ceiling_correct [of q] show ?thesis by linarith
qed

lemma cut_off_mono: "of_int n \<le> q \<Longrightarrow> n \<le> cut_off q"
  by (auto simp: cut_off_def le_floor_iff) (metis ceiling_mono ceiling_of_int)

lemma backoff_nonneg:
  assumes "0 \<le> backoff_initialDelayMs (qj_backoff j)" "0 \<le> backoff_maxDelayMs (qj_backoff j)"
    and "0 \<le> coalesce (backoff_multiplier (qj_backoff j)) 2"
  shows "0 \<le> backoff_delay_ms j"
  using assms by (simp add: backoff_delay_ms_def Let_def)

lemma backoff_bounded: "backoff_delay_ms j \<le> backoff_maxDelayMs (qj_backoff j)"
  by (simp add: backoff_delay_ms_def Let_def)

lemma failed_job_shape:
  assumes "failed_job j w t reason = Inr k"
  shows "qj_lastError k = Some reason \<and> qj_failedAt k = Some t \<and> qj_attempts k = qj_attempts j \<and> same_job j k \<and>
    (if of_nat (qj_attempts j) < qj_maxAttempts j
     then qj_status k = Queued \<and> qj_workerId k = None \<and> add_ms t (backoff_delay_ms j) = Inr (qj_availableAt k)
     else qj_status k = Dead_lettered \<and> qj_deadLetteredAt k = Some t)"
  using assms by (auto simp: failed_job_def same_job_def split: if_splits sum.splits)

text \<open>
  recording a failure of a running job keeps its error and either puts it back in the queue,
  when attempts are left, to be due no earlier than the failure and no later than the policy's
  largest delay after it (in whole milliseconds), or, when they are used up, dead-letters it.
\<close>

theorem failures_are_retried_within_bounds:
  assumes "queue_reachable collate rt q" "fail_in_queue i w t reason q = Inr (q', k)"
  shows "k \<in> set (queuedJobs q') \<and> (\<exists>j \<in> set (queuedJobs q). qj_id j = i \<and> qj_status j = Running \<and> same_job j k \<and>
    qj_attempts k = qj_attempts j \<and> qj_lastError k = Some reason \<and>
    (if of_nat (qj_attempts j) < qj_maxAttempts j
     then qj_status k = Queued \<and> qj_workerId k = None \<and>
       (\<exists>s u. date_parse t = Some s \<and> date_parse (qj_availableAt k) = Some u \<and>
          of_int u < of_int s + backoff_maxDelayMs (qj_backoff j) + 1 \<and>
          (0 \<le> backoff_initialDelayMs (qj_backoff j) \<and> 0 \<le> backoff_maxDelayMs (qj_backoff j) \<and>
           0 \<le> coalesce (backoff_multiplier (qj_backoff j)) 2 \<longrightarrow> s \<le> u))
     else qj_status k = Dead_lettered \<and> qj_deadLetteredAt k = Some t))"
  using assms(2)
proof (cases rule: fail_cases)
  case (1 j)
  note shape = failed_job_shape [OF 1(6)]
  have distinct: "distinct (map qj_id (queuedJobs q))" using queue_reachable_inv [OF assms(1)] by (simp add: queue_inv_def)
  have id: "qj_id j = qj_id k" using shape same_job_id [of j k] by simp
  have mem: "k \<in> set (queuedJobs q')" using put_job_jobs [OF distinct 1(1) id] 1(1,4) id by (force simp: image_iff)
  have due: "\<exists>s u. date_parse t = Some s \<and> date_parse (qj_availableAt k) = Some u \<and>
      of_int u < of_int s + backoff_maxDelayMs (qj_backoff j) + 1 \<and>
      (0 \<le> backoff_initialDelayMs (qj_backoff j) \<and> 0 \<le> backoff_maxDelayMs (qj_backoff j) \<and>
       0 \<le> coalesce (backoff_multiplier (qj_backoff j)) 2 \<longrightarrow> s \<le> u)"
    if delayed: "add_ms t (backoff_delay_ms j) = Inr (qj_availableAt k)"
  proof -
    obtain s where s: "date_parse t = Some s" "date_parse (qj_availableAt k) = Some (cut_off (of_int s + backoff_delay_ms j))"
      using delayed by (rule add_ms_parses)
    have "of_int (cut_off (of_int s + backoff_delay_ms j)) < of_int s + backoff_maxDelayMs (qj_backoff j) + 1"
      using cut_off_bounds [of "of_int s + backoff_delay_ms j"] backoff_bounded [of j] by linarith
    moreover have "s \<le> cut_off (of_int s + backoff_delay_ms j)" if "0 \<le> backoff_delay_ms j"
      by (rule cut_off_mono) (use that in simp)
    ultimately show ?thesis using s backoff_nonneg [of j] by blast
  qed
  show ?thesis
  proof (intro conjI [OF mem] bexI [OF _ 1(1)])
    show "qj_id j = i \<and> qj_status j = Running \<and> same_job j k \<and> qj_attempts k = qj_attempts j \<and> qj_lastError k = Some reason \<and>
      (if of_nat (qj_attempts j) < qj_maxAttempts j
       then qj_status k = Queued \<and> qj_workerId k = None \<and>
         (\<exists>s u. date_parse t = Some s \<and> date_parse (qj_availableAt k) = Some u \<and>
            of_int u < of_int s + backoff_maxDelayMs (qj_backoff j) + 1 \<and>
            (0 \<le> backoff_initialDelayMs (qj_backoff j) \<and> 0 \<le> backoff_maxDelayMs (qj_backoff j) \<and>
             0 \<le> coalesce (backoff_multiplier (qj_backoff j)) 2 \<longrightarrow> s \<le> u))
       else qj_status k = Dead_lettered \<and> qj_deadLetteredAt k = Some t)"
      using shape due 1(2,3) by presburger
  qed
qed

lemma sample_fail:
  "\<exists>q' k. fail_in_queue (qj_id sample_reserved) None ''2026-01-01T00:00:01.500Z'' ''boom'' sample_running = Inr (q', k)"
  by (simp add: fail_in_queue_def required_queued_job_def find_job_def sample_running_fields(1) assert_job_running_def
      assert_worker_matches_def failed_job_def)
    (simp add: sample_reserved_def sample_job_fields)

lemma failures_are_retried_within_bounds_witness:
  "\<exists>q' k. fail_in_queue (qj_id sample_reserved) None ''2026-01-01T00:00:01.500Z'' ''boom'' sample_running = Inr (q', k) \<and>
     k \<in> set (queuedJobs q')"
  using sample_fail failures_are_retried_within_bounds [OF sample_reachable(2)] by blast

text \<open>
  the limit on attempts is not kept when workers die: a job whose lease expires goes back to the
  queue whatever its attempts, so the queue reaches a state in which a job allowed one attempt is on
  its second.
\<close>

theorem expired_leases_outlive_the_attempt_limit:
  "\<exists>q. queue_reachable sample_collate sample_runtime q \<and> (\<exists>j \<in> set (queuedJobs q). qj_maxAttempts j < of_nat (qj_attempts j))"
proof -
  obtain k where "queuedJobs sample_running_again = [k]" "qj_attempts k = 2" "qj_maxAttempts k = 1"
    using sample_reserve_again by blast
  then show ?thesis using sample_reachable(3) by force
qed

end
