(* ===== verification/Job_Adapter_Properties.thy ===== *)
theory Job_Adapter_Properties
  imports Job_Adapter_Laws Job_Queue_Properties
begin

text \<open>
  The in-memory store keeps the contract of an external store, and with it the adapter's promises
  hold of the code: atomic commits, an invariant that every stored record and every backup
  satisfies, readable and secret-free records, and backups that bring back what was stored.
\<close>

subsection \<open>The in-memory store\<close>

definition memory_ok :: "queue_record memory_store \<Rightarrow> bool" where
  "memory_ok s \<longleftrightarrow> (\<forall>r. ms_current s = Some r \<longrightarrow> clean r) \<and> (\<forall>i r. map_get (ms_backups s) i = Some r \<longrightarrow> clean r)"

definition same_text :: "runtime \<Rightarrow> queue_record \<Rightarrow> queue_record \<Rightarrow> bool" where
  "same_text rt a b \<longleftrightarrow> sha256 rt (queue_record_js a) = sha256 rt (queue_record_js b)"

lemma memory_ops [simp]:
  "read_current (memory_snapshot_store rt) = memory_read_current clone_queue_record"
  "write_current (memory_snapshot_store rt) = memory_write_current clone_queue_record"
  "compare_exchange (memory_snapshot_store rt) = memory_compare_exchange clone_queue_record (\<lambda>r. sha256 rt (queue_record_js r))"
  "read_backup (memory_snapshot_store rt) = memory_read_backup clone_queue_record"
  "write_backup (memory_snapshot_store rt) = memory_write_backup clone_queue_record"
  by (simp_all add: memory_snapshot_store_def)

interpretation memory: external_store "memory_snapshot_store rt" memory_ok "same_text rt" for rt
proof
  fix s :: "queue_record memory_store" and r i j
  show "read_current (memory_snapshot_store rt) s = Some r \<Longrightarrow> clean r" "read_backup (memory_snapshot_store rt) i s = Some r \<Longrightarrow> clean r"
    by (auto simp: memory_read_current_def memory_read_backup_def)
  show "memory_ok s \<Longrightarrow> memory_ok (write_current (memory_snapshot_store rt) r s)"
    "memory_ok s \<Longrightarrow> memory_ok (write_backup (memory_snapshot_store rt) i r s)"
    by (auto simp: memory_ok_def memory_write_current_def memory_write_backup_def split: if_splits)
  show "clean r \<Longrightarrow> read_current (memory_snapshot_store rt) (write_current (memory_snapshot_store rt) r s) = Some r"
    by (simp add: memory_read_current_def memory_write_current_def clean_def)
  show "read_backup (memory_snapshot_store rt) i (write_current (memory_snapshot_store rt) r s) = read_backup (memory_snapshot_store rt) i s"
    by (simp add: memory_read_backup_def memory_write_current_def)
  show "clean r \<Longrightarrow> read_backup (memory_snapshot_store rt) i (write_backup (memory_snapshot_store rt) j r s) =
      (if i = j then Some r else read_backup (memory_snapshot_store rt) i s)"
    by (auto simp: memory_read_backup_def memory_write_backup_def clean_def)
  show "read_current (memory_snapshot_store rt) (write_backup (memory_snapshot_store rt) i r s) = read_current (memory_snapshot_store rt) s"
    by (simp add: memory_read_current_def memory_write_backup_def)
next
  fix s s' :: "queue_record memory_store" and expected r
  assume ok: "memory_ok s"
  have read: "read_current (memory_snapshot_store rt) s = ms_current s"
    using ok by (auto simp: memory_read_current_def memory_ok_def clean_def intro: option.expand)
  show "compare_exchange (memory_snapshot_store rt) (read_current (memory_snapshot_store rt) s) r s =
      (True, write_current (memory_snapshot_store rt) r s)"
    unfolding read by (simp add: memory_compare_exchange_def)
  assume "compare_exchange (memory_snapshot_store rt) expected r s = (True, s')"
  then show "s' = write_current (memory_snapshot_store rt) r s \<and>
      rel_option (same_text rt) (read_current (memory_snapshot_store rt) s) expected"
    unfolding read
    by (cases expected; cases "ms_current s") (auto simp: memory_compare_exchange_def Let_def same_text_def split: if_splits)
next
  fix s s' :: "queue_record memory_store" and expected r
  show "compare_exchange (memory_snapshot_store rt) expected r s = (False, s') \<Longrightarrow> s' = s"
    by (auto simp: memory_compare_exchange_def Let_def split: if_splits)
qed

subsection \<open>Everything an adapter does to its store\<close>

type_synonym request_keys = "(canonical_id \<times> string \<times> queued_job_kind) set"

inductive adapter_step :: "'s adapter_options \<Rightarrow> request_keys \<Rightarrow> 's \<Rightarrow> 's \<Rightarrow> bool" for opts K where
  enqueue: "(enq_connectorId r, enq_idempotencyKey r, enq_kind r) \<in> K \<Longrightarrow>
    enqueue_job opts now r (a, s) = (out, a', s') \<Longrightarrow> adapter_step opts K s s'"
| provisioning: "\<forall>kd \<in> {Kind_provisioning, Kind_revocation}. (text_field job ''connectorId'', text_field job ''idempotencyKey'', kd) \<in> K \<Longrightarrow>
    enqueue_provisioning_job opts now job options (a, s) = (out, a', s') \<Longrightarrow> adapter_step opts K s s'"
| revocation: "(rv_connectorId v, rv_idempotencyKey v, Kind_revocation) \<in> K \<Longrightarrow>
    enqueue_revocation_job opts now v (a, s) = (out, a', s') \<Longrightarrow> adapter_step opts K s s'"
| reserve: "reserve_next_job opts now w given ms (a, s) = (out', a', s') \<Longrightarrow> adapter_step opts K s s'"
| complete: "complete_job opts now i worker given (a, s) = (out, a', s') \<Longrightarrow> adapter_step opts K s s'"
| fail: "record_job_failure opts now i worker given reason (a, s) = (out, a', s') \<Longrightarrow> adapter_step opts K s s'"
| replay: "(\<And>b j. refresh_from_store opts s = Inr b \<Longrightarrow> required_queued_job (qa_queue b) i = Inr j \<Longrightarrow>
      (qj_connectorId j, coalesce key (replay_key (ao_runtime opts) j (coalesce given now)), qj_kind j) \<in> K) \<Longrightarrow>
    replay_dead_lettered_job opts now i given key (a, s) = (out, a', s') \<Longrightarrow> adapter_step opts K s s'"
| health: "set_connector_health opts h (a, s) = (out'', a', s') \<Longrightarrow> adapter_step opts K s s'"
| entity: "commit_entity opts t label e change (a, s) = (recorded, a', s') \<Longrightarrow> adapter_step opts K s s'"
| flush: "flush opts t (a, s) = (receipt, a', s') \<Longrightarrow> adapter_step opts K s s'"
| backup: "create_backup opts i t (a, s) = (made, a', s') \<Longrightarrow> adapter_step opts K s s'"
| restore: "restore_backup opts i t (a, s) = (receipt, a', s') \<Longrightarrow> adapter_step opts K s s'"

text \<open>An adapter that works alone, and what other processes may do: any operations of such an adapter.\<close>

definition alone :: "'s adapter_options \<Rightarrow> 's adapter_options" where
  "alone opts = opts\<lparr>ao_others := (\<lambda>_ s. s)\<rparr>"

definition others_are_adapters :: "'s adapter_options \<Rightarrow> request_keys \<Rightarrow> bool" where
  "others_are_adapters opts K \<longleftrightarrow> (\<forall>k s. (adapter_step (alone opts) K)\<^sup>*\<^sup>* s (ao_others opts k s))"

definition others_keep :: "queue_record memory_store adapter_options \<Rightarrow> request_keys \<Rightarrow> bool" where
  "others_keep opts K \<longleftrightarrow> (\<forall>k s. memory.stored opts K s \<longrightarrow> memory.stored opts K (ao_others opts k s))"

lemma commit_kept:
  assumes "memory.stored opts K s" "ao_store opts = memory_snapshot_store rt" "others_keep opts K" "keeps_queue opts K mutate"
  shows "memory.stored opts K (snd (snd (commit_attempts n k opts t mutate (a, s))))"
  by (rule memory.commit_stored [OF assms(1,2) _ assms(4)]) (use assms(3) in \<open>simp add: others_keep_def\<close>)

lemma enqueue_normalized_stored:
  assumes "memory.stored opts K s" "ao_store opts = memory_snapshot_store rt" "inj_on (job_id_of (ao_runtime opts)) K"
    and "others_keep opts K"
    and "normalize_enqueue_request (ao_runtime opts) now r = Inr n" "assert_enforcement_evidence n = None"
    and "(enq_connectorId r, enq_idempotencyKey r, enq_kind r) \<in> K"
  shows "memory.stored opts K (snd (snd (enqueue_normalized_job opts n f (a, s))))"
  unfolding enqueue_normalized_job_def commit_snapshot_def
  by (rule commit_kept [OF assms(1,2,4) enqueue_keeps [OF assms(3,5-7)]])

lemma enqueue_stored:
  assumes "memory.stored opts K s" "ao_store opts = memory_snapshot_store rt" "inj_on (job_id_of (ao_runtime opts)) K"
    and "others_keep opts K"
    and "(enq_connectorId r, enq_idempotencyKey r, enq_kind r) \<in> K"
  shows "memory.stored opts K (snd (snd (enqueue_job opts now r (a, s))))"
  using assms(1) enqueue_normalized_stored [OF assms(1-4) _ _ assms(5)]
  by (auto simp: enqueue_job_def first_error_None split: sum.split option.split)

text \<open>One operation, with others that keep the invariant.\<close>

lemma step_stored:
  assumes "adapter_step opts K s s'" "memory.stored opts K s" "ao_store opts = memory_snapshot_store rt"
    and "inj_on (job_id_of (ao_runtime opts)) K"
    and others: "others_keep opts K"
  shows "memory.stored opts K s'"
proof -
  note commit = commit_kept [OF assms(2,3) others]
  from assms(1) show ?thesis
  proof cases
    case (enqueue r now a out a')
    then show ?thesis using enqueue_stored [OF assms(2-4) others, of r now a] by simp
  next
    case (provisioning job now options a out a')
    have "memory.stored opts K (snd (snd (enqueue_provisioning_job opts now job options (a, s))))"
    proof (cases "normalize_enqueue_request (ao_runtime opts) now (provisioning_request job (coalesce_opt (po_plan options)
        (find_entity ''id'' (text_field job ''planId'') (sj_provisioningPlans (qa_jobs (adapter_of (read_current (ao_store opts) s)))))) options)")
      case (Inl e)
      with assms(2,3) show ?thesis
        by (simp add: enqueue_provisioning_job_def memory.refresh_valid [OF assms(2,3)])
    next
      case (Inr n)
      with assms(2,3) provisioning(1) show ?thesis
        using enqueue_normalized_stored [OF assms(2-4) others Inr]
        by (auto simp: enqueue_provisioning_job_def memory.refresh_valid [OF assms(2,3)] provisioning_request_def first_error_None Let_def
            split: option.split)
    qed
    with provisioning(2) show ?thesis by simp
  next
    case (revocation v now a out a')
    have "memory.stored opts K (snd (snd (enqueue_revocation_job opts now v (a, s))))"
      unfolding enqueue_revocation_job_def by (rule enqueue_stored [OF assms(2-4) others]) (simp_all add: revocation(1))
    with revocation(2) show ?thesis by simp
  next
    case (reserve now w given ms a out' a')
    have "memory.stored opts K (snd (snd (reserve_next_job opts now w given ms (a, s))))"
      unfolding reserve_next_job_def commit_snapshot_def Let_def by (rule commit [OF reserve_keeps])
    with reserve show ?thesis by simp
  next
    case (complete now i worker given a out a')
    have "memory.stored opts K (snd (snd (complete_job opts now i worker given (a, s))))"
      unfolding complete_job_def commit_snapshot_def Let_def by (rule commit [OF complete_keeps])
    with complete show ?thesis by simp
  next
    case (fail now i worker given reason a out a')
    have "memory.stored opts K (snd (snd (record_job_failure opts now i worker given reason (a, s))))"
      unfolding record_job_failure_def commit_snapshot_def Let_def by (rule commit [OF fail_keeps])
    with fail show ?thesis by simp
  next
    case (replay i key given now a out a')
    have "memory.stored opts K (snd (snd (replay_dead_lettered_job opts now i given key (a, s))))"
    proof (cases "required_queued_job (qa_queue (adapter_of (read_current (ao_store opts) s))) i")
      case (Inl e)
      with assms(2,3) show ?thesis by (simp add: replay_dead_lettered_job_def memory.refresh_valid [OF assms(2,3)])
    next
      case (Inr j)
      have "(qj_connectorId j, coalesce key (replay_key (ao_runtime opts) j (coalesce given now)), qj_kind j) \<in> K"
        by (rule replay(1) [OF memory.refresh_valid [OF assms(2,3)]]) (use Inr assms(3) in simp)
      then have "memory.stored opts K (snd (snd (enqueue_job opts now (replay_request (ao_runtime opts) j (coalesce given now) key) (b, s))))" for b
        by (intro enqueue_stored [OF assms(2-4) others]) (simp_all add: replay_request_def)
      with Inr assms(2,3) show ?thesis
        by (simp add: replay_dead_lettered_job_def memory.refresh_valid [OF assms(2,3)] Let_def)
    qed
    with replay(2) show ?thesis by simp
  next
    case (health h a out'' a')
    have "memory.stored opts K (snd (snd (set_connector_health opts h (a, s))))"
      unfolding set_connector_health_def commit_snapshot_def
      using assms(2) commit [OF health_keeps] by (simp split: option.split)
    with health show ?thesis by simp
  next
    case (entity t label e change a recorded a')
    have "memory.stored opts K (snd (snd (commit_entity opts t label e change (a, s))))"
      unfolding commit_entity_def commit_snapshot_def
      using assms(2) commit [OF keep_jobs_queue [where change = change and r = "clone_record e"]] by (simp split: option.split)
    with entity show ?thesis by simp
  next
    case (flush t a receipt a')
    then show ?thesis using memory.flush_stored [OF assms(2,3), of t a] by simp
  next
    case (backup i t a made a')
    then show ?thesis using memory.backup_stored [OF assms(2,3), of i t a] by simp
  next
    case (restore i t a receipt a')
    then show ?thesis using memory.restore_stored [OF assms(2,3), of i t a] by simp
  qed
qed

lemma alone_parts [simp]:
  "ao_store (alone opts) = ao_store opts" "ao_runtime (alone opts) = ao_runtime opts"
  "ao_others (alone opts) k s = s" "memory.stored (alone opts) K s = memory.stored opts K s"
  by (simp_all add: alone_def memory.stored_def store_ok_def record_ok_def)

lemma steps_stored:
  assumes "(adapter_step opts K)\<^sup>*\<^sup>* s s'" "memory.stored opts K s" "ao_store opts = memory_snapshot_store rt"
    and "inj_on (job_id_of (ao_runtime opts)) K" "others_are_adapters opts K"
  shows "memory.stored opts K s'"
proof -
  have alone: "memory.stored opts K s'" if "(adapter_step (alone opts) K)\<^sup>*\<^sup>* s s'" "memory.stored opts K s" for s s'
    using that
  proof (induction rule: rtranclp_induct)
    case (step s1 s2)
    then have "memory.stored (alone opts) K s2"
      using step_stored [of "alone opts" K s1 s2 rt] assms(3,4) by (simp add: others_keep_def)
    then show ?case by simp
  qed
  then have others: "others_keep opts K"
    using assms(5) by (auto simp: others_are_adapters_def others_keep_def)
  from assms(1,2) show ?thesis
    by (induction rule: rtranclp_induct) (auto intro: step_stored [OF _ _ assms(3,4) others])
qed

lemma empty_store_stored: "ao_store opts = memory_snapshot_store rt \<Longrightarrow> memory.stored opts K empty_memory_store"
  by (simp add: memory.stored_def memory_ok_def store_ok_def memory_read_current_def memory_read_backup_def empty_memory_store_def)

lemma stored_record:
  assumes "memory.stored opts K s" "ao_store opts = memory_snapshot_store rt"
    and "ms_current s = Some r \<or> map_get (ms_backups s) i = Some r"
  shows "record_ok opts K r"
proof -
  have "clone_queue_record r = r" using assms(1,3) by (auto simp: memory.stored_def memory_ok_def clean_def)
  with assms(3) have "read_current (ao_store opts) s = Some r \<or> read_backup (ao_store opts) i s = Some r"
    using assms(2) by (auto simp: memory_read_current_def memory_read_backup_def)
  with assms(1) show ?thesis by (auto simp: memory.stored_def store_ok_def)
qed

subsection \<open>A sample adapter\<close>

definition sample_options :: "queue_record memory_store adapter_options" where
  "sample_options = \<lparr>ao_runtime = sample_runtime, ao_store = memory_snapshot_store sample_runtime, ao_tenantBoundary = ''t'',
     ao_location = ''here'', ao_collate = sample_collate, ao_others = (\<lambda>_ s. s)\<rparr>"

definition sample_adapter :: queue_adapter where
  "sample_adapter = adapter_of None"

definition sample_keys :: request_keys where
  "sample_keys = {(''c'', ''k'', Kind_provisioning)}"

definition sample_enqueued :: "queued_job \<times> queue_adapter \<times> queue_record memory_store" where
  "sample_enqueued = map_prod projr id (enqueue_job sample_options [] sample_request (sample_adapter, empty_memory_store))"

lemma sample_option_parts [simp]:
  "ao_store sample_options = memory_snapshot_store sample_runtime" "ao_runtime sample_options = sample_runtime"
  "ao_others sample_options k s = s" "ao_tenantBoundary sample_options = ''t''" "ao_collate sample_options = sample_collate"
  by (simp_all add: sample_options_def)

lemma sample_ids: "inj_on (job_id_of (ao_runtime sample_options)) sample_keys"
  by (simp add: sample_keys_def)

lemma sample_others: "others_are_adapters sample_options sample_keys"
  by (simp add: others_are_adapters_def)

lemma sample_empty_stored: "memory.stored sample_options sample_keys empty_memory_store"
  by (rule empty_store_stored) simp

text \<open>Whether a queue holds secret material depends on what its jobs carry, not on the fields of the queue itself.\<close>

definition secret_free :: "js \<Rightarrow> bool" where
  "secret_free v \<longleftrightarrow> (\<forall>k \<in> field_names v. \<not> is_secret_material_sensitive_key k)"

lemma secret_free_simps [simp]:
  "secret_free (JObj []) \<longleftrightarrow> True"
  "secret_free (JObj ((k, v) # fs)) \<longleftrightarrow> \<not> is_secret_material_sensitive_key k \<and> secret_free v \<and> secret_free (JObj fs)"
  "secret_free (JArr vs) \<longleftrightarrow> (\<forall>v \<in> set vs. secret_free v)"
  "secret_free (JStr s)" "secret_free (JNum n)" "secret_free JUndefined" "secret_free JNull" "secret_free (JBool b)"
  by (auto simp: secret_free_def)

lemma secret_free_opt_str [simp]: "secret_free (opt_str s)" "secret_free (opt_num n)"
  by (auto simp: opt_str_def opt_num_def split: option.split)

text \<open>Every sensitive name has one of four marks, which most names lack.\<close>

definition unmarked :: "string \<Rightarrow> bool" where
  "unmarked s \<longleftrightarrow> list_all (\<lambda>c. c \<notin> set ''kwz'') s \<and> \<not> sublist ''cre'' s"

lemma marked_part:
  assumes "sublist t s" "unmarked s"
  shows "unmarked t"
  using set_mono_sublist [OF assms(1)] assms(2) sublist_order.order.trans [OF _ assms(1), of "''cre''"]
  unfolding unmarked_def list_all_iff by blast

lemma unmarked_not_sensitive:
  assumes "unmarked (normalize_key k)"
  shows "\<not> is_secret_material_sensitive_key k"
proof -
  have "\<forall>f \<in> set (sensitive_fragments @ sensitive_key_names). \<not> unmarked f"
    unfolding list_all_iff [symmetric] by code_simp
  then have "\<not> sublist f (normalize_key k)" if "f \<in> set (sensitive_fragments @ sensitive_key_names)" for f
    using that assms marked_part by blast
  then show ?thesis by (auto simp: is_secret_material_sensitive_key_def Let_def list_ex_iff)
qed

definition queue_field_names :: "string list" where
  "queue_field_names =
    [''queuedJobs'', ''connectorHealth'', ''idempotencyRecords'', ''id'', ''connectorId'', ''status'', ''priority'', ''requestHash'', ''payload'', ''attempts'', ''maxAttempts'', ''requestedAt'', ''availableAt'', ''updatedAt'', ''startedAt'', ''leaseExpiresAt'', ''completedAt'', ''failedAt'', ''deadLetteredAt'', ''lastError'', ''replayedFromJobId'', ''approval'', ''control'', ''readinessReportId'', ''version'', ''strategy'', ''initialDelayMs'', ''maxDelayMs'', ''multiplier'', ''reason'', ''lastSuccessAt'', ''lastFailureAt'', ''jobId'', ''recordedAt'', ''discoveryRuns'', ''enforcementReadinessReports'', ''provisioningPlans'', ''provisioningJobs'', ''driftFindings'', ''governanceFindings'', ''exceptionRequests'', ''reconciliationRuns'', ''decisions'', ''mode'']"

lemma queue_field_names_unmarked: "list_all (\<lambda>k. unmarked (normalize_key k)) queue_field_names"
  by code_simp

lemma queue_field_names_plain: "list_all (\<lambda>k. \<not> is_secret_material_sensitive_key k) queue_field_names"
  using queue_field_names_unmarked unmarked_not_sensitive by (simp add: list_all_iff)

lemma queue_field_names_marked:
  "\<not> is_secret_material_sensitive_key ''kind''"
  "\<not> is_secret_material_sensitive_key ''idempotencyKey''"
  "\<not> is_secret_material_sensitive_key ''backoff''"
  "\<not> is_secret_material_sensitive_key ''workerId''"
  "\<not> is_secret_material_sensitive_key ''accessReviewCampaigns''"
  by code_simp+

lemmas queue_field_names_fine =
  queue_field_names_plain [unfolded queue_field_names_def list.pred_inject] queue_field_names_marked

lemma job_secret_free:
  "secret_free (queued_job_js j) \<longleftrightarrow> secret_free (JObj (qj_payload j)) \<and> secret_free (opt_obj (qj_approval j)) \<and> secret_free (opt_obj (qj_control j))"
  by (simp add: queue_field_names_fine queued_job_js_def backoff_js_def js_nat_def)

lemma queue_secret_free:
  "assert_no_secret_material (queue_js q) label = None \<longleftrightarrow> (\<forall>j \<in> set (queuedJobs q). secret_free (queued_job_js j))"
proof -
  have "assert_no_secret_material (queue_js q) label = None \<longleftrightarrow> secret_free (queue_js q)"
    by (simp add: assert_no_secret_material_def secret_path_iff secret_free_def)
  also have "\<dots> \<longleftrightarrow> (\<forall>j \<in> set (queuedJobs q). secret_free (queued_job_js j))"
    by (simp add: queue_field_names_fine queue_js_def health_js_def idempotency_js_def)
  finally show ?thesis .
qed

lemma sample_not_secret:
  "assert_no_secret_material (job_snapshot_js empty_job_snapshot) snapshot_label = None"
  "assert_no_secret_material (queue_js (normalize_queue_snapshot sample_queued)) queue_label = None"
proof -
  show "assert_no_secret_material (job_snapshot_js empty_job_snapshot) snapshot_label = None"
    by (simp add: queue_field_names_fine assert_no_secret_material_def job_snapshot_js_def empty_job_snapshot_def objects_js_def)
  show "assert_no_secret_material (queue_js (normalize_queue_snapshot sample_queued)) queue_label = None"
    by (simp add: queue_field_names_fine queue_secret_free job_secret_free normalize_queue_snapshot_def sample_queued_jobs clone_job_def sample_job_def
        create_queued_job_def sample_normalized_fields clone_record_def opt_obj_def)
qed

lemma sample_record:
  "\<exists>r. new_record sample_options t empty_job_snapshot sample_queued [] = Inr r \<and> qr_queue r = normalize_queue_snapshot sample_queued"
proof -
  have "assert_job_tenant_boundary empty_job_snapshot ''t'' = None"
    by (simp add: assert_job_tenant_boundary_def empty_job_snapshot_def)
  moreover have "normalize_job_snapshot empty_job_snapshot = empty_job_snapshot"
    by (simp add: normalize_job_snapshot_def empty_job_snapshot_def)
  ultimately show ?thesis
    using sample_not_secret by (simp add: new_record_def create_record_def create_snapshot_fields_def Let_def)
qed

lemma sample_enqueues:
  "\<exists>r. enqueue_job sample_options [] sample_request (sample_adapter, empty_memory_store) =
     (Inr (clone_job sample_job), adapter_of (Some r), memory_write_current clone_queue_record r empty_memory_store) \<and>
     qr_queue r = normalize_queue_snapshot sample_queued"
proof -
  have checks: "assert_enforcement_evidence sample_normalized = None"
      "assert_no_secret_material (JObj (nr_payload sample_normalized)) (payload_label sample_normalized) = None"
    by (simp_all add: queue_field_names_fine assert_enforcement_evidence_def sample_normalized_fields assert_no_secret_material_def)
  have empty: "normalize_job_snapshot empty_job_snapshot = empty_job_snapshot" "normalize_queue_snapshot empty_queue_snapshot = empty_queue_snapshot"
    by (simp_all add: normalize_job_snapshot_def empty_job_snapshot_def normalize_queue_snapshot_def empty_queue_snapshot_def)
  obtain r where r: "new_record sample_options (nr_requestedAt sample_normalized) empty_job_snapshot sample_queued [] = Inr r"
      "qr_queue r = normalize_queue_snapshot sample_queued"
    using sample_record by blast
  have read: "read_queue_record sample_options empty_memory_store = Inr None"
    by (simp add: read_queue_record_def memory_read_current_def empty_memory_store_def)
  have adapter: "adapter_of None = \<lparr>qa_jobs = empty_job_snapshot, qa_queue = empty_queue_snapshot, qa_backupMetadata = []\<rparr>"
    by (simp add: adapter_of_def)
  have ok: "memory_ok empty_memory_store" using sample_empty_stored by (simp add: memory.stored_def)
  let ?mutate = "\<lambda>jobs queue. case enqueue_in_queue sample_runtime sample_normalized queue of
      Inl e \<Rightarrow> Inl e | Inr (queue', j, new) \<Rightarrow> Inr (if new then jobs else jobs, queue', clone_job j)"
  have mutate: "mutate_record sample_options (nr_requestedAt sample_normalized) ?mutate None = Inr (r, clone_job sample_job)"
    using r(1) by (simp add: mutate_record_def adapter empty sample_enqueue)
  have "commit_snapshot sample_options (nr_requestedAt sample_normalized) ?mutate (sample_adapter, empty_memory_store) =
     (Inr (clone_job sample_job), adapter_of (Some r), write_current (memory_snapshot_store sample_runtime) r empty_memory_store)"
    using memory.commit_undisturbed [of sample_options sample_runtime empty_memory_store "nr_requestedAt sample_normalized" ?mutate sample_adapter] ok
    by (simp only: read mutate sum.case prod.case sample_option_parts simp_thms)
  moreover have "first_error [assert_enforcement_evidence sample_normalized,
      assert_no_secret_material (JObj (nr_payload sample_normalized)) (payload_label sample_normalized)] = None"
    by (simp only: checks first_error.simps)
  ultimately show ?thesis
    using r(2) by (simp only: enqueue_job_def sample_normalize enqueue_normalized_job_def sum.case option.case sample_option_parts memory_ops) blast
qed

subsection \<open>The properties\<close>

text \<open>
  C7: whatever adapters do to a shared in-memory store, however their operations interleave, the
  queue in the stored record and in every backup satisfies the invariant of the queue, and its job
  ids are those of their keys, as long as the shortened hashes tell the keys in use apart.
\<close>

theorem stored_queue_keeps_its_invariant:
  assumes "ao_store opts = memory_snapshot_store rt" "inj_on (job_id_of (ao_runtime opts)) K" "others_are_adapters opts K"
    and "(adapter_step opts K)\<^sup>*\<^sup>* empty_memory_store s"
    and "ms_current s = Some r \<or> map_get (ms_backups s) i = Some r"
  shows "queue_inv (qr_queue r) \<and> (\<forall>j \<in> set (queuedJobs (qr_queue r)). job_key j \<in> K \<and> qj_id j = job_id_of (ao_runtime opts) (job_key j))"
proof -
  have stored: "memory.stored opts K s"
    by (rule steps_stored [OF assms(4) empty_store_stored [OF assms(1)] assms(1-3)])
  from stored_record [OF this assms(1,5)] show ?thesis by (simp add: record_ok_def queue_ok_def)
qed

lemma sample_adapter_step:
  "\<exists>r. adapter_step sample_options sample_keys empty_memory_store (memory_write_current clone_queue_record r empty_memory_store) \<and>
     qr_queue r = normalize_queue_snapshot sample_queued"
  using sample_enqueues adapter_step.enqueue [of sample_request sample_keys sample_options "[]" sample_adapter empty_memory_store]
  by (fastforce simp: sample_request_def sample_keys_def)

lemma stored_queue_keeps_its_invariant_witness:
  "\<exists>s r. (adapter_step sample_options sample_keys)\<^sup>*\<^sup>* empty_memory_store s \<and> ms_current s = Some r \<and> queue_inv (qr_queue r)"
proof -
  obtain r where step: "adapter_step sample_options sample_keys empty_memory_store (memory_write_current clone_queue_record r empty_memory_store)"
    using sample_adapter_step by blast
  then have steps: "(adapter_step sample_options sample_keys)\<^sup>*\<^sup>* empty_memory_store (memory_write_current clone_queue_record r empty_memory_store)"
    by blast
  have "ms_current (memory_write_current clone_queue_record r empty_memory_store) = Some (clone_queue_record r)"
    by (simp add: memory_write_current_def)
  with stored_queue_keeps_its_invariant [OF _ sample_ids sample_others steps] steps show ?thesis
    by (metis sample_option_parts(1))
qed

text \<open>
  every record and backup the adapters leave in the store passes the checks made when it is read
  back (envelope, tenant, both hashes, tenants of the evidence, secrets), unchanged, and no field of
  it, at any depth, has a name that looks like a secret.
\<close>

theorem stored_records_are_readable:
  assumes "ao_store opts = memory_snapshot_store rt" "inj_on (job_id_of (ao_runtime opts)) K" "others_are_adapters opts K"
    and "(adapter_step opts K)\<^sup>*\<^sup>* empty_memory_store s"
  shows "read_queue_record opts s = Inr (ms_current s) \<and>
    (\<forall>i r. map_get (ms_backups s) i = Some r \<longrightarrow> read_queue_backup opts i s = Inr r) \<and>
    (\<forall>r. ms_current s = Some r \<or> (\<exists>i. map_get (ms_backups s) i = Some r) \<longrightarrow>
       (\<forall>k \<in> field_names (job_snapshot_js (qr_jobs r)) \<union> field_names (queue_js (qr_queue r)). \<not> is_secret_material_sensitive_key k))"
proof -
  have stored: "memory.stored opts K s"
    by (rule steps_stored [OF assms(4) empty_store_stored [OF assms(1)] assms(1-3)])
  have clean: "clone_queue_record r = r" if "ms_current s = Some r \<or> map_get (ms_backups s) i = Some r" for r i
    using stored that by (auto simp: memory.stored_def memory_ok_def clean_def)
  have current: "memory_read_current clone_queue_record s = ms_current s"
    using clean by (auto simp: memory_read_current_def map_option_case split: option.split)
  have backup: "memory_read_backup clone_queue_record i s = map_get (ms_backups s) i" for i
    using clean [of _ i] by (auto simp: memory_read_backup_def map_option_case split: option.split)
  have valid: "validate_record (ao_runtime opts) (ao_tenantBoundary opts) r = Inr r"
    if "ms_current s = Some r \<or> map_get (ms_backups s) i = Some r" for r i
    using stored_record [OF stored assms(1) that] by (simp add: record_ok_def)
  show ?thesis
  proof (intro conjI allI impI)
    show "read_queue_record opts s = Inr (ms_current s)"
      using memory.read_valid [OF stored assms(1)] current by simp
    show "read_queue_backup opts i s = Inr r" if "map_get (ms_backups s) i = Some r" for i r
      using that valid [of r i] backup assms(1) by (simp add: read_queue_backup_def)
    show "\<forall>k \<in> field_names (job_snapshot_js (qr_jobs r)) \<union> field_names (queue_js (qr_queue r)). \<not> is_secret_material_sensitive_key k"
      if "ms_current s = Some r \<or> (\<exists>i. map_get (ms_backups s) i = Some r)" for r
      using that valid validated_secret_free by blast
  qed
qed

lemma stored_records_are_readable_witness:
  "\<exists>s r. (adapter_step sample_options sample_keys)\<^sup>*\<^sup>* empty_memory_store s \<and> ms_current s = Some r \<and>
     read_queue_record sample_options s = Inr (Some r)"
proof -
  obtain r where step: "adapter_step sample_options sample_keys empty_memory_store (memory_write_current clone_queue_record r empty_memory_store)"
    using sample_adapter_step by blast
  then have steps: "(adapter_step sample_options sample_keys)\<^sup>*\<^sup>* empty_memory_store (memory_write_current clone_queue_record r empty_memory_store)"
    by blast
  have "ms_current (memory_write_current clone_queue_record r empty_memory_store) = Some (clone_queue_record r)"
    by (simp add: memory_write_current_def)
  with stored_records_are_readable [OF _ sample_ids sample_others steps] steps show ?thesis
    by (metis sample_option_parts(1))
qed

text \<open>
  C34: a commit on a shared in-memory store is atomic. When it returns a result, there is one attempt
  at which the store held a record with the very text of the one the change was computed from, and
  then holds the changed record, which is also the adapter's copy; when it throws, neither the
  store nor the adapter's copy has changed by it. What the store held at an attempt is what it held
  at the beginning, changed by the other processes only.
\<close>

theorem commit_is_atomic:
  assumes "ao_store opts = memory_snapshot_store rt" "memory_ok s" "\<forall>k s. memory_ok s \<longrightarrow> memory_ok (ao_others opts k s)"
    and "commit_snapshot opts t mutate (a, s) = (out, a', s')"
  shows "case out of
      Inl e \<Rightarrow> a' = a \<and> (\<exists>m \<le> 5. s' = before_attempt opts 0 m s)
    | Inr result \<Rightarrow> \<exists>m < 5. \<exists>expected r. let now = before_attempt opts 0 (Suc m) s in
        rel_option (same_text rt) (ms_current now) expected \<and> mutate_record opts t mutate expected = Inr (r, result) \<and>
        s' = now\<lparr>ms_current := Some r\<rparr> \<and> a' = adapter_of (Some r)"
proof -
  have read: "read_current (memory_snapshot_store rt) s = ms_current s" if "memory_ok s" for s
    using that by (auto simp: memory_read_current_def memory_ok_def clean_def map_option_case split: option.split)
  have written: "write_current (memory_snapshot_store rt) r s = s\<lparr>ms_current := Some r\<rparr>"
    if "mutate_record opts t mutate expected = Inr (r, result)" for r result expected s
  proof -
    have "clean r" using that create_record_parts(1)
      by (auto simp: mutate_record_def new_record_def Let_def split: sum.splits)
    then show ?thesis by (simp add: memory_write_current_def clean_def)
  qed
  have serial: "case out of
      Inl e \<Rightarrow> a' = a \<and> (\<exists>m \<le> 5. s' = before_attempt opts 0 m s)
    | Inr result \<Rightarrow> \<exists>m < 5. \<exists>expected r. let now = before_attempt opts 0 (Suc m) s in
        memory_ok now \<and> rel_option (same_text rt) (read_current (memory_snapshot_store rt) now) expected \<and>
        mutate_record opts t mutate expected = Inr (r, result) \<and>
        s' = write_current (memory_snapshot_store rt) r now \<and> a' = adapter_of (Some r)"
    by (rule memory.commit_attempts_serial [OF assms(4) [unfolded commit_snapshot_def] assms(1,2)]) (use assms(3) in blast)
  show ?thesis
  proof (cases out)
    case (Inl e)
    with serial show ?thesis by simp
  next
    case (Inr result)
    from serial obtain m expected r where m: "m < 5" "memory_ok (before_attempt opts 0 (Suc m) s)"
        "rel_option (same_text rt) (read_current (memory_snapshot_store rt) (before_attempt opts 0 (Suc m) s)) expected"
        "mutate_record opts t mutate expected = Inr (r, result)"
        "s' = write_current (memory_snapshot_store rt) r (before_attempt opts 0 (Suc m) s)" "a' = adapter_of (Some r)"
      unfolding Inr sum.case Let_def by blast
    show ?thesis
      unfolding Inr sum.case Let_def
      using m(1,4,6) m(3) [unfolded read [OF m(2)]] m(5) [unfolded written [OF m(4)]] by blast
  qed
qed

lemma sample_memory_ok: "memory_ok empty_memory_store"
  using sample_empty_stored by (simp add: memory.stored_def)

lemma commit_is_atomic_witness:
  "let (out, a', s') = commit_snapshot sample_options ''now'' (\<lambda>jobs q. Inr (jobs, sample_queued, ())) (sample_adapter, empty_memory_store)
   in case out of Inl e \<Rightarrow> a' = sample_adapter | Inr u \<Rightarrow> \<exists>r. a' = adapter_of (Some r) \<and> ms_current s' = Some r"
proof -
  obtain out a' s' where commit: "commit_snapshot sample_options ''now'' (\<lambda>jobs q. Inr (jobs, sample_queued, ())) (sample_adapter, empty_memory_store)
      = (out, a', s')" by (metis prod_cases3)
  have "case out of Inl e \<Rightarrow> a' = sample_adapter | Inr u \<Rightarrow> \<exists>r. a' = adapter_of (Some r) \<and> ms_current s' = Some r"
    using commit_is_atomic [OF sample_option_parts(1) sample_memory_ok _ commit] by (fastforce simp: Let_def split: sum.splits)
  with commit show ?thesis by simp
qed

text \<open>
  undisturbed, a commit never reports a conflict: it fails only if the stored record cannot be
  read or the change itself throws, and otherwise stores exactly the changed record.
\<close>

theorem undisturbed_commit_succeeds:
  assumes "ao_store opts = memory_snapshot_store rt" "memory_ok s" "ao_others opts 0 s = s"
  shows "commit_snapshot opts t mutate (a, s) =
    (case read_queue_record opts s of
       Inl e \<Rightarrow> (Inl e, a, s)
     | Inr expected \<Rightarrow> (case mutate_record opts t mutate expected of
         Inl e \<Rightarrow> (Inl e, a, s)
       | Inr (r, result) \<Rightarrow> (Inr result, adapter_of (Some r), s\<lparr>ms_current := Some (clone_queue_record r)\<rparr>)))"
  unfolding memory.commit_undisturbed [OF assms] by (simp add: memory_write_current_def split: sum.split prod.split)

lemma undisturbed_commit_succeeds_witness:
  "\<exists>r. commit_snapshot sample_options ''now'' (\<lambda>jobs q. Inr (jobs, sample_queued, ())) (sample_adapter, empty_memory_store) =
     (Inr (), adapter_of (Some r), empty_memory_store\<lparr>ms_current := Some (clone_queue_record r)\<rparr>)"
proof -
  have read: "read_queue_record sample_options empty_memory_store = Inr None"
    by (simp add: read_queue_record_def memory_read_current_def empty_memory_store_def)
  have jobs: "normalize_job_snapshot empty_job_snapshot = empty_job_snapshot"
    by (simp add: normalize_job_snapshot_def empty_job_snapshot_def)
  obtain r where "new_record sample_options ''now'' empty_job_snapshot sample_queued [] = Inr r" using sample_record by blast
  then have "mutate_record sample_options ''now'' (\<lambda>jobs q. Inr (jobs, sample_queued, ())) None = Inr (r, ())"
    by (simp add: mutate_record_def adapter_of_def jobs)
  then show ?thesis
    using undisturbed_commit_succeeds [OF sample_option_parts(1) sample_memory_ok sample_option_parts(3),
        of "''now''" "\<lambda>jobs q. Inr (jobs, sample_queued, ())" sample_adapter]
    by (simp only: read sum.case prod.case) blast
qed

text \<open>
  restoring a backup brings back the jobs and the queue as they were when it was made, whatever
  happened since, and the list of backups of that moment, with the new one last: backups made later
  are no longer listed.
\<close>

theorem restoring_brings_back_the_backup:
  assumes "ao_store opts = memory_snapshot_store rt" "inj_on (job_id_of (ao_runtime opts)) K" "others_are_adapters opts K"
    and "(adapter_step opts K)\<^sup>*\<^sup>* empty_memory_store s" "create_backup opts i t (a, s) = (Inr m, a1, s1)"
    and "(adapter_step opts K)\<^sup>*\<^sup>* empty_memory_store s2" "map_get (ms_backups s2) i = map_get (ms_backups s1) i"
    and "restore_backup opts i t' (a2, s2) = (out, a3, s3)" "refresh_from_store opts s = Inr b"
  shows "\<exists>receipt. out = Inr receipt \<and> refresh_from_store opts s3 = Inr a3 \<and>
    qa_jobs a3 = qa_jobs b \<and> qa_queue a3 = qa_queue b \<and> qa_backupMetadata a3 = qa_backupMetadata b @ [m]"
proof -
  have stored: "memory.stored opts K s" "memory.stored opts K s2"
    using steps_stored [OF _ empty_store_stored [OF assms(1)] assms(1-3)] assms(4,6) by blast+
  have b: "b = adapter_of (read_current (ao_store opts) s)"
    using memory.refresh_valid [OF stored(1) assms(1)] assms(1,9) by simp
  show ?thesis
    using memory.restored [OF stored(1) assms(1,5) stored(2) _ assms(8)] assms(1,7) unfolding b
    by (simp add: memory_read_backup_def)
qed

lemma sample_backup:
  "\<exists>m a1 s1. create_backup sample_options ''b'' ''now'' (sample_adapter, empty_memory_store) = (Inr m, a1, s1)"
proof -
  have empty: "normalize_job_snapshot empty_job_snapshot = empty_job_snapshot" "normalize_queue_snapshot empty_queue_snapshot = empty_queue_snapshot"
    by (simp_all add: normalize_job_snapshot_def empty_job_snapshot_def normalize_queue_snapshot_def empty_queue_snapshot_def)
  have "assert_job_tenant_boundary empty_job_snapshot ''t'' = None"
    by (simp add: assert_job_tenant_boundary_def empty_job_snapshot_def)
  then have fields: "create_snapshot_fields ''t'' empty_job_snapshot = Inr empty_job_snapshot"
    using sample_not_secret(1) by (simp add: create_snapshot_fields_def empty)
  have "assert_no_secret_material (queue_js empty_queue_snapshot) queue_label = None"
    unfolding queue_secret_free by (simp add: empty_queue_snapshot_def)
  then have "\<exists>r. new_record sample_options ''now'' empty_job_snapshot empty_queue_snapshot bs = Inr r" for bs
    by (simp add: new_record_def create_record_def fields empty Let_def)
  then obtain r where r: "new_record sample_options ''now'' empty_job_snapshot empty_queue_snapshot
      [create_backup_metadata sample_options ''b'' ''now'' empty_job_snapshot empty_queue_snapshot] = Inr r" by blast
  have "refresh_from_store sample_options empty_memory_store =
      Inr \<lparr>qa_jobs = empty_job_snapshot, qa_queue = empty_queue_snapshot, qa_backupMetadata = []\<rparr>"
    using memory.refresh_valid [OF sample_empty_stored sample_option_parts(1)]
    by (simp add: memory_read_current_def empty_memory_store_def adapter_of_def)
  then show ?thesis by (simp add: create_backup_def fields empty r Let_def del: memory_ops)
qed

lemma restoring_brings_back_the_backup_witness:
  "\<exists>m a1 s1 receipt a3 s3. create_backup sample_options ''b'' ''now'' (sample_adapter, empty_memory_store) = (Inr m, a1, s1) \<and>
     restore_backup sample_options ''b'' ''later'' (sample_adapter, s1) = (Inr receipt, a3, s3) \<and> qa_jobs a3 = empty_job_snapshot"
proof -
  obtain m a1 s1 where backup: "create_backup sample_options ''b'' ''now'' (sample_adapter, empty_memory_store) = (Inr m, a1, s1)"
    using sample_backup by blast
  then have steps: "(adapter_step sample_options sample_keys)\<^sup>*\<^sup>* empty_memory_store s1"
    by (blast intro: adapter_step.backup)
  obtain out a3 s3 where restore: "restore_backup sample_options ''b'' ''later'' (sample_adapter, s1) = (out, a3, s3)" by (metis prod_cases3)
  have refresh: "refresh_from_store sample_options empty_memory_store = Inr (adapter_of None)"
    using memory.refresh_valid [OF sample_empty_stored sample_option_parts(1)] by (simp add: memory_read_current_def empty_memory_store_def)
  from restoring_brings_back_the_backup [OF sample_option_parts(1) sample_ids sample_others rtranclp.rtrancl_refl backup steps refl restore refresh]
  obtain receipt where "out = Inr receipt" "qa_jobs a3 = empty_job_snapshot" by (auto simp: adapter_of_def)
  with backup restore show ?thesis by blast
qed

end
