(* ===== verification/Graph_Search.thy ===== *)
theory Graph_Search
  imports Decision_Runtime
begin

text \<open>
  The contract of the bounded breadth-first searches of the decision engine. A walk is a list
  of relationships from a start node, each listed for the node reached so far and admitted,
  along which a flag evolves, ending in a relationship that is a hit for the flag it is met
  with. The locales state what one pass over a node's relationships and the loop over the
  queue do; the lemmas show that the search finds a walk whenever there is one and no bound is
  exceeded, and only walks within the depth bound.
\<close>

record traversal_path =
  path_steps :: "relationship_path_step list"
  path_relationships :: "relationship list"

definition empty_path :: traversal_path where
  "empty_path = \<lparr>path_steps = [], path_relationships = []\<rparr>"

definition to_path_step :: "relationship \<Rightarrow> relationship_path_step" where
  "to_path_step r = \<lparr>step_subjectId = subjectId r, step_relation = relation r, step_objectId = objectId r\<rparr>"

definition path_ok :: "traversal_path \<Rightarrow> bool" where
  "path_ok p \<longleftrightarrow> path_steps p = map to_path_step (path_relationships p)"

lemma empty_path_simps [simp]: "path_relationships empty_path = []" "path_steps empty_path = []" "path_ok empty_path"
  by (simp_all add: empty_path_def path_ok_def)

fun walk ::
  "(string \<Rightarrow> relationship list) \<Rightarrow> (relationship \<Rightarrow> bool) \<Rightarrow> ('f \<Rightarrow> relationship \<Rightarrow> bool) \<Rightarrow>
   ('f \<Rightarrow> relationship \<Rightarrow> 'f option) \<Rightarrow> string \<Rightarrow> 'f \<Rightarrow> relationship list \<Rightarrow> bool" where
  "walk rels admits hit nxt x f [] = False"
| "walk rels admits hit nxt x f (r # p) =
     (r \<in> set (rels x) \<and> admits r \<and>
      (if p = [] then hit f r
       else case nxt f r of None \<Rightarrow> False | Some f' \<Rightarrow> walk rels admits hit nxt (objectId r) f' p))"

fun leads ::
  "(string \<Rightarrow> relationship list) \<Rightarrow> (relationship \<Rightarrow> bool) \<Rightarrow> ('f \<Rightarrow> relationship \<Rightarrow> 'f option) \<Rightarrow>
   string \<Rightarrow> 'f \<Rightarrow> relationship list \<Rightarrow> string \<Rightarrow> 'f \<Rightarrow> bool" where
  "leads rels admits nxt x f [] y f' = (y = x \<and> f' = f)"
| "leads rels admits nxt x f (r # p) y f' =
     (r \<in> set (rels x) \<and> admits r \<and> (\<exists>f1. nxt f r = Some f1 \<and> leads rels admits nxt (objectId r) f1 p y f'))"

lemma leads_snoc:
  "leads rels admits nxt x f p y f1 \<Longrightarrow> r \<in> set (rels y) \<Longrightarrow> admits r \<Longrightarrow> nxt f1 r = Some f2 \<Longrightarrow>
   leads rels admits nxt x f (p @ [r]) (objectId r) f2"
  by (induction p arbitrary: x f) auto

lemma leads_hit:
  "leads rels admits nxt x f p y f1 \<Longrightarrow> r \<in> set (rels y) \<Longrightarrow> admits r \<Longrightarrow> hit f1 r \<Longrightarrow>
   walk rels admits hit nxt x f (p @ [r])"
  by (induction p arbitrary: x f) auto

definition scans_left :: "traversal_guard \<Rightarrow> nat" where
  "scans_left g = maxRelationshipScans (g_bounds g) - g_scans g"

subsection \<open>One pass over the relationships of a node\<close>

locale scanning =
  fixes admits :: "relationship \<Rightarrow> bool"
    and hit :: "'f :: order \<Rightarrow> relationship \<Rightarrow> bool"
    and nxt :: "'f \<Rightarrow> relationship \<Rightarrow> 'f option"
    and covers :: "'m \<Rightarrow> string \<Rightarrow> 'f \<Rightarrow> bool"
    and mark :: "'m \<Rightarrow> string \<Rightarrow> 'f \<Rightarrow> 'm"
    and cur :: "'e \<Rightarrow> string" and dep :: "'e \<Rightarrow> nat" and flg :: "'e \<Rightarrow> 'f"
    and chain :: "'e \<Rightarrow> relationship list"
    and mk :: "'e \<Rightarrow> relationship \<Rightarrow> nat \<Rightarrow> 'f \<Rightarrow> 'e"
    and found :: "'e \<Rightarrow> relationship \<Rightarrow> traversal_path"
    and scan :: "'e \<Rightarrow> relationship list \<Rightarrow> traversal_guard \<Rightarrow> 'm \<Rightarrow> 'e list \<Rightarrow>
      (traversal_path \<times> traversal_guard) + (traversal_guard \<times> 'm \<times> 'e list)"
  assumes scan_Nil: "scan e [] g m q = Inr (g, m, q)"
    and scan_Cons: "scan e (r # rs) g m q =
      (case record_relationship_scan g of
         (False, g1) \<Rightarrow> Inl (empty_path, g1)
       | (True, g1) \<Rightarrow>
           if \<not> admits r then scan e rs g1 m q
           else (case record_depth (dep e + 1) g1 of
               (False, g2) \<Rightarrow> Inl (empty_path, g2)
             | (True, g2) \<Rightarrow>
                 if hit (flg e) r then Inl (found e r, g2)
                 else (case nxt (flg e) r of
                     None \<Rightarrow> scan e rs g2 m q
                   | Some f \<Rightarrow>
                       if covers m (objectId r) f then scan e rs g2 m q
                       else (case record_visited_node (objectId r) g2 of
                           (False, g3) \<Rightarrow> Inl (empty_path, g3)
                         | (True, g3) \<Rightarrow>
                             scan e rs g3 (mark m (objectId r) f) (q @ [mk e r (dep e + 1) f])))))"
    and mk_simps: "cur (mk e r d f) = objectId r" "dep (mk e r d f) = d" "flg (mk e r d f) = f"
      "chain (mk e r d f) = chain e @ [r]"
    and found_path: "path_relationships (found e r) = chain e @ [r]" "path_ok (found e r)"
begin

text \<open>The ways a pass can go on from its first relationship, or stop there.\<close>

lemma scan_cases:
  obtains
    (stopped) g' where "scan e (r # rs) g m q = Inl (empty_path, g')" "g_exceeded g' \<noteq> None"
      "g_bounds g' = g_bounds g" "g_graphSize g' = g_graphSize g" "guard_ok g \<Longrightarrow> guard_ok g'"
  | (found) g' where "scan e (r # rs) g m q = Inl (found e r, g')" "admits r" "hit (flg e) r"
      "dep e + 1 \<le> maxDepth (g_bounds g)" "g_exceeded g' = g_exceeded g"
      "g_bounds g' = g_bounds g" "g_graphSize g' = g_graphSize g" "guard_ok g \<Longrightarrow> guard_ok g'"
  | (skipped) g' where "scan e (r # rs) g m q = scan e rs g' m q"
      "admits r \<Longrightarrow> \<not> hit (flg e) r \<and> (\<forall>f. nxt (flg e) r = Some f \<longrightarrow> covers m (objectId r) f)"
      "g_exceeded g' = g_exceeded g" "g_scans g' = Suc (g_scans g)" "g_scans g' \<le> maxRelationshipScans (g_bounds g)"
      "g_bounds g' = g_bounds g" "g_graphSize g' = g_graphSize g" "guard_ok g \<Longrightarrow> guard_ok g'"
  | (pushed) g' f where "scan e (r # rs) g m q = scan e rs g' (mark m (objectId r) f) (q @ [mk e r (dep e + 1) f])"
      "admits r" "\<not> hit (flg e) r" "nxt (flg e) r = Some f" "\<not> covers m (objectId r) f"
      "dep e + 1 \<le> maxDepth (g_bounds g)"
      "g_exceeded g' = g_exceeded g" "g_scans g' = Suc (g_scans g)" "g_scans g' \<le> maxRelationshipScans (g_bounds g)"
      "g_bounds g' = g_bounds g" "g_graphSize g' = g_graphSize g" "guard_ok g \<Longrightarrow> guard_ok g'"
proof -
  obtain b1 g1 where s1: "record_relationship_scan g = (b1, g1)" by (cases "record_relationship_scan g")
  obtain b2 g2 where s2: "record_depth (dep e + 1) g1 = (b2, g2)" by (cases "record_depth (dep e + 1) g1")
  obtain b3 g3 where s3: "record_visited_node (objectId r) g2 = (b3, g3)" by (cases "record_visited_node (objectId r) g2")
  note eq = scan_Cons [of e r rs g m q, unfolded s1 s2 s3 prod.case]
  note same1 = record_bounds(1) [OF s1] record_graph_size(1) [OF s1] record_guard_ok(1) [OF _ s1]
  note same2 = record_bounds(3) [OF s2] record_graph_size(3) [OF s2] record_guard_ok(3) [OF _ s2]
  note same3 = record_bounds(2) [OF s3] record_graph_size(2) [OF s3] record_guard_ok(2) [OF _ s3]
  show thesis
  proof (cases b1)
    case False
    with eq record_fails(1) s1 same1 show thesis by (intro stopped [of g1]) auto
  next
    case True
    note b1 = this
    with s1 have "record_relationship_scan g = (True, g1)" by simp
    note ok1 = record_succeeds(1) [OF this]
    show thesis
    proof (cases "admits r")
      case False
      with eq b1 ok1 same1 show thesis by (intro skipped [of g1]) auto
    next
      case True
      note admits = this
      show thesis
      proof (cases b2)
        case False
        with eq b1 admits record_fails(3) s2 same1 same2 show thesis by (intro stopped [of g2]) auto
      next
        case True
        note b2 = this
        with s2 have "record_depth (dep e + 1) g1 = (True, g2)" by simp
        note ok2 = record_succeeds(3) [OF this]
        consider "hit (flg e) r" | "\<not> hit (flg e) r" "\<forall>f. nxt (flg e) r = Some f \<longrightarrow> covers m (objectId r) f"
          | f where "\<not> hit (flg e) r" "nxt (flg e) r = Some f" "\<not> covers m (objectId r) f"
          by blast
        then show thesis
        proof cases
          case 1
          with eq b1 b2 admits ok1 ok2 same1 same2 show thesis by (intro found [of g2]) auto
        next
          case 2
          with eq b1 b2 admits ok1 ok2 same1 same2 show thesis
            by (intro skipped [of g2]) (auto split: option.splits)
        next
          case (3 f)
          show thesis
          proof (cases b3)
            case False
            with 3 eq b1 b2 admits record_fails(2) s3 same1 same2 same3 show thesis by (intro stopped [of g3]) auto
          next
            case True
            with s3 have "record_visited_node (objectId r) g2 = (True, g3)" by simp
            note ok3 = record_succeeds(2) [OF this]
            from 3 True eq b1 b2 admits ok1 ok2 ok3 same1 same2 same3 show thesis
              by (intro pushed [of g3 f]) auto
          qed
        qed
      qed
    qed
  qed
qed

lemma scan_progress:
  "scan e rs g m q = Inr (g', m', q') \<Longrightarrow> scans_left g' + length q' \<le> scans_left g + length q"
proof (induction rs arbitrary: g m q)
  case Nil
  then show ?case by (simp add: scan_Nil)
next
  case (Cons r rs)
  show ?case
  proof (cases rule: scan_cases [of e r rs g m q])
    case (skipped g1)
    with Cons.IH [of g1 m q] Cons.prems show ?thesis by (simp add: scans_left_def)
  next
    case (pushed g1 f)
    with Cons.IH [of g1 "mark m (objectId r) f" "q @ [mk e r (dep e + 1) f]"] Cons.prems
    show ?thesis by (simp add: scans_left_def)
  qed (use Cons.prems in simp_all)
qed

lemma scan_guard:
  "scan e rs g m q = Inr (g', m', q') \<Longrightarrow>
     g_exceeded g' = g_exceeded g \<and> g_bounds g' = g_bounds g \<and> g_graphSize g' = g_graphSize g \<and> (guard_ok g \<longrightarrow> guard_ok g')"
proof (induction rs arbitrary: g m q)
  case Nil
  then show ?case by (simp add: scan_Nil)
next
  case (Cons r rs)
  show ?case
  proof (cases rule: scan_cases [of e r rs g m q])
    case (skipped g1)
    with Cons.IH [of g1 m q] Cons.prems show ?thesis by simp
  next
    case (pushed g1 f)
    with Cons.IH [of g1 "mark m (objectId r) f" "q @ [mk e r (dep e + 1) f]"] Cons.prems show ?thesis by simp
  qed (use Cons.prems in simp_all)
qed

lemma scan_result:
  "scan e rs g m q = Inl (p, g') \<Longrightarrow>
     g_bounds g' = g_bounds g \<and> g_graphSize g' = g_graphSize g \<and> (guard_ok g \<longrightarrow> guard_ok g') \<and>
     (p = empty_path \<and> g_exceeded g' \<noteq> None \<or>
      g_exceeded g' = g_exceeded g \<and> dep e + 1 \<le> maxDepth (g_bounds g) \<and>
      (\<exists>r \<in> set rs. p = found e r \<and> admits r \<and> hit (flg e) r))"
proof (induction rs arbitrary: g m q)
  case Nil
  then show ?case by (simp add: scan_Nil)
next
  case (Cons r rs)
  show ?case
  proof (cases rule: scan_cases [of e r rs g m q])
    case (skipped g1)
    with Cons.IH [of g1 m q] Cons.prems show ?thesis by auto
  next
    case (pushed g1 f)
    with Cons.IH [of g1 "mark m (objectId r) f" "q @ [mk e r (dep e + 1) f]"] Cons.prems show ?thesis by auto
  qed (use Cons.prems in auto)
qed

end

subsection \<open>The search\<close>

text \<open>
  The loop over the queue. The relationships of a node come from a cache that is filled on the
  way; \<open>good\<close> is the cache's invariant. Flags only help: whatever a flag allows, a greater flag
  allows.
\<close>

locale search = scanning +
  fixes rels :: "string \<Rightarrow> relationship list"
    and good :: "'s \<Rightarrow> bool"
    and fetch :: "'s \<Rightarrow> string \<Rightarrow> relationship list \<times> 's"
    and loop :: "'c list \<Rightarrow> traversal_guard \<Rightarrow> 'b \<Rightarrow> 's \<Rightarrow> traversal_path \<times> traversal_guard \<times> 's"
  assumes fetch: "good s \<Longrightarrow> fst (fetch s x) = rels x" "good s \<Longrightarrow> good (snd (fetch s x))"
    and loop_Nil: "loop [] g m s = (empty_path, g, s)"
    and loop_Cons: "loop (e # q) g m s =
      (case fetch s (cur e) of (rs, s1) \<Rightarrow>
         (case scan e rs g m q of
            Inl (p, g1) \<Rightarrow> (p, g1, s1)
          | Inr (g1, m1, q1) \<Rightarrow> loop q1 g1 m1 s1))"
    and hit_dom: "f \<le> f' \<Longrightarrow> hit f r \<Longrightarrow> hit f' r"
    and nxt_dom: "f \<le> f' \<Longrightarrow> nxt f r = Some f1 \<Longrightarrow> \<exists>f2. nxt f' r = Some f2 \<and> f1 \<le> f2"
    and covers_mark: "\<not> covers m x f \<Longrightarrow> covers (mark m x f) x f"
      "\<not> covers m x f \<Longrightarrow> covers m y f' \<Longrightarrow> covers (mark m x f) y f'"
      "\<not> covers m x f \<Longrightarrow> covers (mark m x f) y f' \<Longrightarrow> covers m y f' \<or> y = x \<and> f' \<le> f"
begin

abbreviation walks :: "string \<Rightarrow> 'a \<Rightarrow> relationship list \<Rightarrow> bool" where
  "walks \<equiv> walk rels admits hit nxt"

definition entry_ok :: "string \<Rightarrow> 'a \<Rightarrow> nat \<Rightarrow> 'c \<Rightarrow> bool" where
  "entry_ok x f n e \<longleftrightarrow>
     leads rels admits nxt x f (chain e) (cur e) (flg e) \<and> dep e = length (chain e) \<and> dep e \<le> n"

definition closed :: "'b \<Rightarrow> string \<Rightarrow> 'a \<Rightarrow> bool" where
  "closed m x f \<longleftrightarrow>
     (\<forall>r \<in> set (rels x). admits r \<longrightarrow>
        \<not> hit f r \<and> (\<forall>f'. nxt f r = Some f' \<longrightarrow> covers m (objectId r) f'))"

definition pending :: "'c list \<Rightarrow> 'b \<Rightarrow> bool" where
  "pending q m \<longleftrightarrow>
     (\<forall>x f. covers m x f \<longrightarrow>
        (\<exists>e \<in> set q. cur e = x \<and> f \<le> flg e) \<or> (\<exists>f'. f \<le> f' \<and> closed m x f'))"

lemma scan_entries:
  "scan e rs g m q = Inr (g', m', q') \<Longrightarrow> set rs \<subseteq> set (rels (cur e)) \<Longrightarrow>
   entry_ok x f (maxDepth (g_bounds g)) e \<Longrightarrow> (\<forall>e' \<in> set q. entry_ok x f (maxDepth (g_bounds g)) e') \<Longrightarrow>
   \<forall>e' \<in> set q'. entry_ok x f (maxDepth (g_bounds g)) e'"
proof (induction rs arbitrary: g m q)
  case Nil
  then show ?case by (simp add: scan_Nil)
next
  case (Cons r rs)
  show ?case
  proof (cases rule: scan_cases [of e r rs g m q])
    case (skipped g1)
    with Cons.IH [of g1 m q] Cons.prems show ?thesis by simp
  next
    case (pushed g1 f1)
    then have "entry_ok x f (maxDepth (g_bounds g)) (mk e r (dep e + 1) f1)"
      using Cons.prems by (auto simp: entry_ok_def mk_simps intro: leads_snoc)
    with pushed Cons.IH [of g1 "mark m (objectId r) f1" "q @ [mk e r (dep e + 1) f1]"] Cons.prems
    show ?thesis by simp
  qed (use Cons.prems in simp_all)
qed

lemma scan_coverage:
  "scan e rs g m q = Inr (g', m', q') \<Longrightarrow>
     (\<forall>r \<in> set rs. admits r \<longrightarrow> \<not> hit (flg e) r \<and> (\<forall>f. nxt (flg e) r = Some f \<longrightarrow> covers m' (objectId r) f)) \<and>
     (\<forall>x f. covers m x f \<longrightarrow> covers m' x f) \<and>
     (\<forall>x f. covers m' x f \<longrightarrow> covers m x f \<or> (\<exists>e' \<in> set q'. cur e' = x \<and> f \<le> flg e')) \<and>
     set q \<subseteq> set q'"
proof (induction rs arbitrary: g m q)
  case Nil
  then show ?case by (simp add: scan_Nil)
next
  case (Cons r rs)
  show ?case
  proof (cases rule: scan_cases [of e r rs g m q])
    case (skipped g1)
    from skipped(1) Cons.prems have "scan e rs g1 m q = Inr (g', m', q')" by simp
    note ih = Cons.IH [OF this]
    then have "admits r \<longrightarrow> \<not> hit (flg e) r \<and> (\<forall>f. nxt (flg e) r = Some f \<longrightarrow> covers m' (objectId r) f)"
      using skipped(2) by blast
    with ih show ?thesis by simp
  next
    case (pushed g1 f1)
    let ?m = "mark m (objectId r) f1" and ?e = "mk e r (dep e + 1) f1"
    from pushed(1) Cons.prems have "scan e rs g1 ?m (q @ [?e]) = Inr (g', m', q')" by simp
    note ih = Cons.IH [OF this]
    have new: "covers ?m (objectId r) f1" and old: "\<And>y f. covers m y f \<Longrightarrow> covers ?m y f"
      and only: "\<And>y f. covers ?m y f \<Longrightarrow> covers m y f \<or> y = objectId r \<and> f \<le> f1"
      by (fact covers_mark [OF pushed(5)])+
    note ih1 = ih [THEN conjunct1] and ih2 = ih [THEN conjunct2, THEN conjunct1]
      and ih3 = ih [THEN conjunct2, THEN conjunct2, THEN conjunct1]
      and ih4 = ih [THEN conjunct2, THEN conjunct2, THEN conjunct2]
    have pushed_entry: "?e \<in> set q'" "cur ?e = objectId r" "flg ?e = f1" and ih5: "set q \<subseteq> set q'"
      using ih4 by (simp_all add: mk_simps)
    have "covers m' (objectId r) f1" using ih2 new by simp
    then have c1: "\<forall>r' \<in> set (r # rs). admits r' \<longrightarrow>
        \<not> hit (flg e) r' \<and> (\<forall>f. nxt (flg e) r' = Some f \<longrightarrow> covers m' (objectId r') f)"
      using ih1 pushed(3,4) by simp
    have c2: "\<forall>x f. covers m x f \<longrightarrow> covers m' x f"
      using ih2 old by simp
    have c3: "\<forall>x f. covers m' x f \<longrightarrow> covers m x f \<or> (\<exists>e' \<in> set q'. cur e' = x \<and> f \<le> flg e')"
    proof (intro allI impI)
      fix x f
      assume "covers m' x f"
      with ih3 consider "covers ?m x f" | "\<exists>e' \<in> set q'. cur e' = x \<and> f \<le> flg e'" by blast
      then show "covers m x f \<or> (\<exists>e' \<in> set q'. cur e' = x \<and> f \<le> flg e')"
      proof cases
        case 1
        from only [OF this] show ?thesis
        proof
          assume "x = objectId r \<and> f \<le> f1"
          with pushed_entry show ?thesis by (intro disjI2 bexI [of _ ?e]) simp_all
        qed simp
      qed simp
    qed
    show ?thesis by (intro conjI c1 c2 c3 ih5)
  qed (use Cons.prems in simp_all)
qed

lemma scan_pending:
  assumes "scan e (rels (cur e)) g m q = Inr (g', m', q')" "pending (e # q) m"
  shows "pending q' m'"
proof -
  note cov = scan_coverage [OF assms(1)]
  then have closed_e: "closed m' (cur e) (flg e)" and grow: "\<And>x f. covers m x f \<Longrightarrow> covers m' x f"
    by (auto simp: closed_def)
  have keep: "closed m' x f" if "closed m x f" for x f
    using that grow by (auto simp: closed_def)
  show ?thesis
    unfolding pending_def
  proof (intro allI impI)
    fix x f
    assume "covers m' x f"
    with cov consider "covers m x f" | "\<exists>e' \<in> set q'. cur e' = x \<and> f \<le> flg e'" by blast
    then show "(\<exists>e \<in> set q'. cur e = x \<and> f \<le> flg e) \<or> (\<exists>f'. f \<le> f' \<and> closed m' x f')"
    proof cases
      case 1
      with assms(2) consider e' where "e' \<in> set (e # q)" "cur e' = x" "f \<le> flg e'" | f' where "f \<le> f'" "closed m x f'"
        unfolding pending_def by blast
      then show ?thesis using cov closed_e keep by cases auto
    qed auto
  qed
qed

lemma closed_no_walk:
  "pending [] m \<Longrightarrow> covers m x f' \<Longrightarrow> f \<le> f' \<Longrightarrow> \<not> walks x f p"
proof (induction p arbitrary: x f f')
  case (Cons r p)
  from Cons.prems obtain f2 where f2: "f' \<le> f2" "closed m x f2"
    by (auto simp: pending_def)
  then have le: "f \<le> f2" using Cons.prems(3) by auto
  show ?case
  proof
    assume w: "walks x f (r # p)"
    show False
    proof (cases "p = []")
      case True
      with w f2 show False using hit_dom [OF le] by (auto simp: closed_def)
    next
      case False
      with w obtain f1 where f1: "nxt f r = Some f1" "walks (objectId r) f1 p" "r \<in> set (rels x)" "admits r"
        by (auto split: option.splits)
      obtain f3 where "nxt f2 r = Some f3" "f1 \<le> f3" using nxt_dom [OF le f1(1)] by blast
      with f1 f2 Cons.IH [OF Cons.prems(1), of "objectId r" f3 f1] show False by (auto simp: closed_def)
    qed
  qed
qed simp

lemma scan_walk:
  assumes "scan e (rels (cur e)) g m q = Inl (p, g')" "entry_ok x f (maxDepth (g_bounds g)) e"
  shows "p = empty_path \<and> g_exceeded g' \<noteq> None \<or>
    g_exceeded g' = g_exceeded g \<and> walks x f (path_relationships p) \<and> path_ok p \<and>
    length (path_relationships p) \<le> maxDepth (g_bounds g)"
  using scan_result [OF assms(1)] assms(2)
  by (auto simp: entry_ok_def found_path intro: leads_hit)

theorem search_correct:
  assumes "good s" "pending q m" "\<forall>e \<in> set q. entry_ok x f (maxDepth (g_bounds g)) e" "covers m x f"
    and "loop q g m s = (p, g', s')"
  shows "good s' \<and> g_bounds g' = g_bounds g \<and> g_graphSize g' = g_graphSize g \<and> (guard_ok g \<longrightarrow> guard_ok g') \<and> path_ok p \<and>
    (g_exceeded g' = g_exceeded g \<or> g_exceeded g' \<noteq> None \<and> path_relationships p = []) \<and>
    (path_relationships p \<noteq> [] \<longrightarrow>
       walks x f (path_relationships p) \<and> length (path_relationships p) \<le> maxDepth (g_bounds g)) \<and>
    (path_relationships p = [] \<longrightarrow> g_exceeded g' \<noteq> None \<or> (\<forall>w. \<not> walks x f w))"
  using assms
proof (induction "scans_left g + length q" arbitrary: q g m s rule: less_induct)
  case less
  show ?case
  proof (cases q)
    case Nil
    with less.prems closed_no_walk [of m x f f] show ?thesis by (auto simp: loop_Nil)
  next
    case (Cons e q0)
    obtain s1 where fetched: "fetch s (cur e) = (rels (cur e), s1)" "good s1"
      using fetch [OF less.prems(1), of "cur e"] by (cases "fetch s (cur e)") auto
    show ?thesis
    proof (cases "scan e (rels (cur e)) g m q0")
      case (Inl r)
      obtain p1 g1 where r: "r = (p1, g1)" by (cases r)
      with Inl less.prems(5) have eq: "p = p1" "g' = g1" "s' = s1" by (simp_all add: Cons loop_Cons fetched)
      from scan_walk [OF Inl [unfolded r], of x f] scan_result [OF Inl [unfolded r]] less.prems(3) fetched(2)
      show ?thesis by (auto simp: eq Cons)
    next
      case (Inr r)
      obtain g1 m1 q1 where r: "r = (g1, m1, q1)" by (cases r)
      note scanned = Inr [unfolded r]
      have next_loop: "loop q1 g1 m1 s1 = (p, g', s')"
        using scanned less.prems(5) by (simp add: Cons loop_Cons fetched)
      have "scans_left g1 + length q1 < scans_left g + length q"
        using scan_progress [OF scanned] by (simp add: Cons)
      moreover have "pending q1 m1" using scan_pending [OF scanned] less.prems(2) by (simp add: Cons)
      moreover note guard = scan_guard [OF scanned]
      moreover have "\<forall>e \<in> set q1. entry_ok x f (maxDepth (g_bounds g)) e"
        using scan_entries [OF scanned, of x f] less.prems(3) by (simp add: Cons)
      moreover have "covers m1 x f" using scan_coverage [OF scanned] less.prems(4) by blast
      ultimately show ?thesis
        using less.hyps [of g1 q1 s1 m1] next_loop fetched(2) by auto
    qed
  qed
qed

text \<open>What the cache already holds makes no difference to the outcome.\<close>

lemma cache_irrelevant:
  assumes "good s" "good s'"
  shows "fst (loop q g m s) = fst (loop q g m s') \<and> fst (snd (loop q g m s)) = fst (snd (loop q g m s'))"
  using assms
proof (induction "scans_left g + length q" arbitrary: q g m s s' rule: less_induct)
  case less
  show ?case
  proof (cases q)
    case Nil
    then show ?thesis by (simp add: loop_Nil)
  next
    case (Cons e q0)
    obtain s1 where s1: "fetch s (cur e) = (rels (cur e), s1)" "good s1"
      using fetch [OF less.prems(1), of "cur e"] by (cases "fetch s (cur e)") auto
    obtain s2 where s2: "fetch s' (cur e) = (rels (cur e), s2)" "good s2"
      using fetch [OF less.prems(2), of "cur e"] by (cases "fetch s' (cur e)") auto
    show ?thesis
    proof (cases "scan e (rels (cur e)) g m q0")
      case (Inl r)
      then show ?thesis by (cases r) (simp add: Cons loop_Cons s1 s2)
    next
      case (Inr r)
      obtain g1 m1 q1 where r: "r = (g1, m1, q1)" by (cases r)
      have "scans_left g1 + length q1 < scans_left g + length q"
        using scan_progress [OF Inr [unfolded r]] by (simp add: Cons)
      from less.hyps [OF this s1(2) s2(2), of m1] show ?thesis
        by (simp add: Cons loop_Cons s1 s2 Inr [unfolded r])
    qed
  qed
qed

end

end
