(* ===== verification/Engine_Paths.thy ===== *)
theory Engine_Paths
  imports Graph_Search
begin

text \<open>
  The graph part of \<open>packages/core/src/engine.ts\<close>: which entities and relationships are
  visible and active at an instant, the tenant boundary, and the two breadth-first searches
  \<open>findAllowPath\<close> and \<open>findDenyPath\<close>. A pass over the relationships of a node is a recursion
  that either stops with the search's result (\<open>Inl\<close>) or goes on with the guard, the marks and
  the grown queue (\<open>Inr\<close>); a queue entry holds its predecessor, as in the code.
\<close>

subsection \<open>Instants\<close>

text \<open>Comparisons of \<open>Date.parse\<close> results; a comparison with \<open>NaN\<close> is false.\<close>

definition later :: "int option \<Rightarrow> int option \<Rightarrow> bool" where
  "later a b = (case (a, b) of (Some x, Some y) \<Rightarrow> x > y | _ \<Rightarrow> False)"

definition not_later :: "int option \<Rightarrow> int option \<Rightarrow> bool" where
  "not_later a b = (case (a, b) of (Some x, Some y) \<Rightarrow> x \<le> y | _ \<Rightarrow> False)"

definition opt_parse :: "string option \<Rightarrow> int option" where
  "opt_parse s = Option.bind s date_parse"

subsection \<open>Visible and active entities\<close>

definition is_visible_at :: "string \<Rightarrow> string option \<Rightarrow> bool \<Rightarrow> string \<Rightarrow> bool" where
  "is_visible_at created updated deleted asOf =
     (if later (date_parse created) (date_parse asOf) then False
      else \<not> (deleted \<and> truthy updated \<and> not_later (opt_parse updated) (date_parse asOf)))"

definition visible_subject_at :: "rebac_store \<Rightarrow> canonical_id \<Rightarrow> string \<Rightarrow> subject option" where
  "visible_subject_at st i asOf =
     (case get_subject st i of
        Some v \<Rightarrow> if is_visible_at (createdAt v) (updatedAt v) False asOf then Some v else None
      | None \<Rightarrow> None)"

definition visible_resource_at :: "rebac_store \<Rightarrow> canonical_id \<Rightarrow> string \<Rightarrow> resource option" where
  "visible_resource_at st i asOf =
     (case get_resource st i of
        Some v \<Rightarrow> if is_visible_at (createdAt v) (updatedAt v) False asOf then Some v else None
      | None \<Rightarrow> None)"

text \<open>The lifecycle state at an instant; \<open>None\<close> is the code's \<open>unknown\<close>.\<close>

definition effective_lifecycle_state_at :: "'a graph_node_scheme \<Rightarrow> string \<Rightarrow> lifecycle_state option" where
  "effective_lifecycle_state_at n asOf =
     (if truthy (updatedAt n) \<and> later (opt_parse (updatedAt n)) (date_parse asOf) then None
      else Some (lifecycleState n))"

definition is_active_graph_node_at :: "rebac_store \<Rightarrow> canonical_id \<Rightarrow> string \<Rightarrow> bool" where
  "is_active_graph_node_at st i asOf =
     (case visible_subject_at st i asOf of
        Some v \<Rightarrow> effective_lifecycle_state_at v asOf = Some Active
      | None \<Rightarrow>
          (case visible_resource_at st i asOf of
             Some v \<Rightarrow> effective_lifecycle_state_at v asOf = Some Active
           | None \<Rightarrow> False))"

definition is_active_relationship_at :: "relationship \<Rightarrow> string \<Rightarrow> string option \<Rightarrow> bool" where
  "is_active_relationship_at r asOf pinned =
     (if truthy pinned \<and> Some (version r) \<noteq> pinned then False
      else if \<not> is_visible_at (createdAt r) (updatedAt r) (tuple_status r = Tuple_deleted) asOf then False
      else if later (date_parse (assertedAt r)) (date_parse asOf) then False
      else (case tuple_status r of
          Tuple_deleted \<Rightarrow>
            truthy (updatedAt r) \<and> later (opt_parse (updatedAt r)) (date_parse asOf) \<and>
            (\<not> truthy (expiresAt r) \<or> later (opt_parse (expiresAt r)) (date_parse asOf))
        | Tuple_expired \<Rightarrow>
            truthy (expiresAt r) \<and> later (opt_parse (expiresAt r)) (date_parse asOf)
        | Tuple_active \<Rightarrow>
            \<not> truthy (expiresAt r) \<or> later (opt_parse (expiresAt r)) (date_parse asOf)))"

subsection \<open>Tenants\<close>

definition string_attribute :: "json_record option \<Rightarrow> string \<Rightarrow> string option" where
  "string_attribute a k =
     (case record_field a k of JStr s \<Rightarrow> if s \<noteq> [] then Some s else None | _ \<Rightarrow> None)"

definition tenant_id_for :: "'a graph_node_scheme option \<Rightarrow> string option" where
  "tenant_id_for n = (case n of None \<Rightarrow> None | Some v \<Rightarrow> string_attribute (attributes v) ''tenantId'')"

definition tenant_boundary_denies :: "subject \<Rightarrow> resource \<Rightarrow> bool" where
  "tenant_boundary_denies s r =
     (let ts = tenant_id_for (Some s); tr = tenant_id_for (Some r) in
      if \<not> truthy ts \<and> \<not> truthy tr then False
      else \<not> truthy ts \<or> \<not> truthy tr \<or> ts \<noteq> tr)"

text \<open>\<open>visibleSubjectAt(\<dots>) ?? visibleResourceAt(\<dots>)\<close>, as far as tenants are concerned.\<close>

definition visible_node_at :: "rebac_store \<Rightarrow> canonical_id \<Rightarrow> string \<Rightarrow> graph_node option" where
  "visible_node_at st i asOf =
     (case visible_subject_at st i asOf of
        Some v \<Rightarrow> Some (graph_node.truncate v)
      | None \<Rightarrow> map_option graph_node.truncate (visible_resource_at st i asOf))"

definition relationship_matches_tenant_boundary ::
  "rebac_store \<Rightarrow> relationship \<Rightarrow> string option \<Rightarrow> string \<Rightarrow> bool" where
  "relationship_matches_tenant_boundary st r rootTenant asOf =
     (let own = string_attribute (tuple_attributes r) ''tenantId'';
          node = tenant_id_for (visible_node_at st (objectId r) asOf)
      in if \<not> truthy rootTenant then \<not> truthy own \<and> \<not> truthy node
         else if truthy own \<and> own \<noteq> rootTenant then False
         else node = rootTenant)"

subsection \<open>Active relationships, cached per scope\<close>

record active_scope =
  scope_revision :: nat
  scope_asOf :: string
  scope_pinned :: "string option"
  scope_bySubject :: "(canonical_id, relationship list) js_map"

definition active_relationships_for_subject ::
  "rebac_store \<Rightarrow> active_scope \<Rightarrow> canonical_id \<Rightarrow> relationship list \<times> active_scope" where
  "active_relationships_for_subject st sc x =
     (case map_get (scope_bySubject sc) x of
        Some cached \<Rightarrow> (cached, sc)
      | None \<Rightarrow>
          (let active = filter (\<lambda>r. is_active_relationship_at r (scope_asOf sc) (scope_pinned sc))
                          (list_relationships_for_subject st x)
           in (active, sc\<lparr>scope_bySubject := map_set x active (scope_bySubject sc)\<rparr>)))"

subsection \<open>Traversal rules\<close>

definition can_traverse_relationship :: "compiled_policy \<Rightarrow> string list \<Rightarrow> relationship \<Rightarrow> bool \<Rightarrow> bool \<Rightarrow> bool" where
  "can_traverse_relationship cp traversal r grantsAction hasActionGrant =
     (if relation r \<in> set (membershipRelations cp) then relation r \<in> set traversal
      else if relation r \<in> set (containmentRelations cp) then relation r \<in> set traversal \<and> hasActionGrant
      else grantsAction)"

definition can_traverse_deny_relationship :: "compiled_policy \<Rightarrow> relationship \<Rightarrow> bool" where
  "can_traverse_deny_relationship cp r \<longleftrightarrow> relation r \<in> set (membershipRelations cp)"

text \<open>The arguments the two searches share.\<close>

record search_env =
  env_store :: rebac_store
  env_policy :: compiled_policy
  env_resourceId :: canonical_id
  env_action :: string
  env_rootTenant :: "string option"
  env_asOf :: string

definition allowed_relations :: "search_env \<Rightarrow> string list" where
  "allowed_relations env =
     coalesce (map_get (grantRelationsByAction (env_policy env)) (to_lower_case (env_action env))) []"

definition traversal_relations :: "search_env \<Rightarrow> string list" where
  "traversal_relations env =
     coalesce (map_get (traversalRelationsByAction (env_policy env)) (to_lower_case (env_action env))) []"

definition deny_relations :: "search_env \<Rightarrow> string list" where
  "deny_relations env = deny_relations_for (env_policy env) (to_lower_case (env_action env))"

definition in_tenant :: "search_env \<Rightarrow> relationship \<Rightarrow> bool" where
  "in_tenant env r = relationship_matches_tenant_boundary (env_store env) r (env_rootTenant env) (env_asOf env)"

subsection \<open>The search for a grant\<close>

datatype allow_entry =
  Allow_entry (ae_currentId: canonical_id) (ae_depth: nat) (ae_hasActionGrant: bool)
    (ae_previous: "allow_entry option") (ae_relationship: "relationship option")

fun allow_climb :: "allow_entry \<Rightarrow> relationship list" where
  "allow_climb (Allow_entry i d g p r) =
     (case r of
        None \<Rightarrow> []
      | Some rel \<Rightarrow> rel # (case p of None \<Rightarrow> [] | Some e \<Rightarrow> allow_climb e))"

definition build_allow_path :: "allow_entry \<Rightarrow> relationship \<Rightarrow> traversal_path" where
  "build_allow_path e final =
     (let rels = rev (final # allow_climb e)
      in \<lparr>path_steps = map to_path_step rels, path_relationships = rels\<rparr>)"

fun allow_scan ::
  "search_env \<Rightarrow> allow_entry \<Rightarrow> relationship list \<Rightarrow> traversal_guard \<Rightarrow> (canonical_id, bool) js_map \<Rightarrow> allow_entry list \<Rightarrow>
   (traversal_path \<times> traversal_guard) + (traversal_guard \<times> (canonical_id, bool) js_map \<times> allow_entry list)" where
  "allow_scan env next [] g best q = Inr (g, best, q)"
| "allow_scan env next (r # rs) g best q =
     (case record_relationship_scan g of
        (False, g1) \<Rightarrow> Inl (empty_path, g1)
      | (True, g1) \<Rightarrow>
          if \<not> in_tenant env r then allow_scan env next rs g1 best q
          else (case record_depth (ae_depth next + 1) g1 of
              (False, g2) \<Rightarrow> Inl (empty_path, g2)
            | (True, g2) \<Rightarrow>
               (let grantsAction = (relation r \<in> set (allowed_relations env));
                    traversable = can_traverse_relationship (env_policy env) (traversal_relations env) r
                      grantsAction (ae_hasActionGrant next)
                in if objectId r = env_resourceId env \<and> grantsAction then Inl (build_allow_path next r, g2)
                   else if relation r \<in> set (containmentRelations (env_policy env)) \<and>
                     relation r \<in> set (traversal_relations env) \<and>
                     objectId r = env_resourceId env \<and> ae_hasActionGrant next
                   then Inl (build_allow_path next r, g2)
                   else if objectId r = env_resourceId env then allow_scan env next rs g2 best q
                   else if \<not> traversable \<or> \<not> is_active_graph_node_at (env_store env) (objectId r) (env_asOf env)
                   then allow_scan env next rs g2 best q
                   else
                     (let hasActionGrant = (ae_hasActionGrant next \<or> grantsAction);
                          previousBest = map_get best (objectId r)
                      in if previousBest \<noteq> Some True \<and> previousBest \<noteq> Some hasActionGrant
                         then (case record_visited_node (objectId r) g2 of
                             (False, g3) \<Rightarrow> Inl (empty_path, g3)
                           | (True, g3) \<Rightarrow>
                               allow_scan env next rs g3 (map_set (objectId r) hasActionGrant best)
                                 (q @ [Allow_entry (objectId r) (ae_depth next + 1) hasActionGrant (Some next) (Some r)]))
                         else allow_scan env next rs g2 best q))))"

subsection \<open>The search for an explicit deny\<close>

datatype deny_entry =
  Deny_entry (de_currentId: canonical_id) (de_depth: nat)
    (de_previous: "deny_entry option") (de_relationship: "relationship option")

fun deny_climb :: "deny_entry \<Rightarrow> relationship list" where
  "deny_climb (Deny_entry i d p r) =
     (case r of
        None \<Rightarrow> []
      | Some rel \<Rightarrow> rel # (case p of None \<Rightarrow> [] | Some e \<Rightarrow> deny_climb e))"

definition build_deny_path :: "deny_entry \<Rightarrow> relationship \<Rightarrow> traversal_path" where
  "build_deny_path e final =
     (let rels = rev (final # deny_climb e)
      in \<lparr>path_steps = map to_path_step rels, path_relationships = rels\<rparr>)"

fun deny_scan ::
  "search_env \<Rightarrow> deny_entry \<Rightarrow> relationship list \<Rightarrow> traversal_guard \<Rightarrow> canonical_id list \<Rightarrow> deny_entry list \<Rightarrow>
   (traversal_path \<times> traversal_guard) + (traversal_guard \<times> canonical_id list \<times> deny_entry list)" where
  "deny_scan env next [] g visited q = Inr (g, visited, q)"
| "deny_scan env next (r # rs) g visited q =
     (case record_relationship_scan g of
        (False, g1) \<Rightarrow> Inl (empty_path, g1)
      | (True, g1) \<Rightarrow>
          if \<not> in_tenant env r then deny_scan env next rs g1 visited q
          else (case record_depth (de_depth next + 1) g1 of
              (False, g2) \<Rightarrow> Inl (empty_path, g2)
            | (True, g2) \<Rightarrow>
                if objectId r = env_resourceId env \<and> relation r \<in> set (deny_relations env)
                then Inl (build_deny_path next r, g2)
                else if objectId r = env_resourceId env \<or> \<not> can_traverse_deny_relationship (env_policy env) r \<or>
                  \<not> is_active_graph_node_at (env_store env) (objectId r) (env_asOf env)
                then deny_scan env next rs g2 visited q
                else if objectId r \<notin> set visited
                then (case record_visited_node (objectId r) g2 of
                    (False, g3) \<Rightarrow> Inl (empty_path, g3)
                  | (True, g3) \<Rightarrow>
                      deny_scan env next rs g3 (set_add (objectId r) visited)
                        (q @ [Deny_entry (objectId r) (de_depth next + 1) (Some next) (Some r)]))
                else deny_scan env next rs g2 visited q))"

subsection \<open>Both searches meet the contract\<close>

definition allow_hit :: "search_env \<Rightarrow> bool \<Rightarrow> relationship \<Rightarrow> bool" where
  "allow_hit env f r \<longleftrightarrow> objectId r = env_resourceId env \<and>
     (relation r \<in> set (allowed_relations env) \<or>
      relation r \<in> set (containmentRelations (env_policy env)) \<and> relation r \<in> set (traversal_relations env) \<and> f)"

definition allow_next :: "search_env \<Rightarrow> bool \<Rightarrow> relationship \<Rightarrow> bool option" where
  "allow_next env f r =
     (let grants = (relation r \<in> set (allowed_relations env)) in
      if objectId r \<noteq> env_resourceId env \<and>
        can_traverse_relationship (env_policy env) (traversal_relations env) r grants f \<and>
        is_active_graph_node_at (env_store env) (objectId r) (env_asOf env)
      then Some (f \<or> grants) else None)"

definition allow_covers :: "(canonical_id, bool) js_map \<Rightarrow> canonical_id \<Rightarrow> bool \<Rightarrow> bool" where
  "allow_covers m x f \<longleftrightarrow> map_get m x = Some True \<or> map_get m x = Some f"

definition deny_hit :: "search_env \<Rightarrow> unit \<Rightarrow> relationship \<Rightarrow> bool" where
  "deny_hit env f r \<longleftrightarrow> objectId r = env_resourceId env \<and> relation r \<in> set (deny_relations env)"

definition deny_next :: "search_env \<Rightarrow> unit \<Rightarrow> relationship \<Rightarrow> unit option" where
  "deny_next env f r =
     (if objectId r \<noteq> env_resourceId env \<and> can_traverse_deny_relationship (env_policy env) r \<and>
        is_active_graph_node_at (env_store env) (objectId r) (env_asOf env)
      then Some () else None)"

interpretation allow_pass: scanning "in_tenant env" "allow_hit env" "allow_next env" allow_covers
    "\<lambda>m x f. map_set x f m" ae_currentId ae_depth ae_hasActionGrant "\<lambda>e. rev (allow_climb e)"
    "\<lambda>e r d f. Allow_entry (objectId r) d f (Some e) (Some r)" build_allow_path "allow_scan env" for env
proof unfold_locales
  show "allow_scan env e (r # rs) g m q =
      (case record_relationship_scan g of
         (False, g1) \<Rightarrow> Inl (empty_path, g1)
       | (True, g1) \<Rightarrow>
           if \<not> in_tenant env r then allow_scan env e rs g1 m q
           else (case record_depth (ae_depth e + 1) g1 of
               (False, g2) \<Rightarrow> Inl (empty_path, g2)
             | (True, g2) \<Rightarrow>
                 if allow_hit env (ae_hasActionGrant e) r then Inl (build_allow_path e r, g2)
                 else (case allow_next env (ae_hasActionGrant e) r of
                     None \<Rightarrow> allow_scan env e rs g2 m q
                   | Some f \<Rightarrow>
                       if allow_covers m (objectId r) f then allow_scan env e rs g2 m q
                       else (case record_visited_node (objectId r) g2 of
                           (False, g3) \<Rightarrow> Inl (empty_path, g3)
                         | (True, g3) \<Rightarrow>
                             allow_scan env e rs g3 (map_set (objectId r) f m)
                               (q @ [Allow_entry (objectId r) (ae_depth e + 1) f (Some e) (Some r)])))))"
    for e r rs g m q
    by (auto simp: allow_hit_def allow_next_def allow_covers_def Let_def split: prod.split bool.split)
qed (simp_all add: build_allow_path_def path_ok_def Let_def)

interpretation deny_pass: scanning "in_tenant env" "deny_hit env" "deny_next env" "\<lambda>m x _. x \<in> set m"
    "\<lambda>m x _. set_add x m" de_currentId de_depth "\<lambda>_. ()" "\<lambda>e. rev (deny_climb e)"
    "\<lambda>e r d _. Deny_entry (objectId r) d (Some e) (Some r)" build_deny_path "deny_scan env" for env
proof unfold_locales
  show "deny_scan env e (r # rs) g m q =
      (case record_relationship_scan g of
         (False, g1) \<Rightarrow> Inl (empty_path, g1)
       | (True, g1) \<Rightarrow>
           if \<not> in_tenant env r then deny_scan env e rs g1 m q
           else (case record_depth (de_depth e + 1) g1 of
               (False, g2) \<Rightarrow> Inl (empty_path, g2)
             | (True, g2) \<Rightarrow>
                 if deny_hit env () r then Inl (build_deny_path e r, g2)
                 else (case deny_next env () r of
                     None \<Rightarrow> deny_scan env e rs g2 m q
                   | Some f \<Rightarrow>
                       if objectId r \<in> set m then deny_scan env e rs g2 m q
                       else (case record_visited_node (objectId r) g2 of
                           (False, g3) \<Rightarrow> Inl (empty_path, g3)
                         | (True, g3) \<Rightarrow>
                             deny_scan env e rs g3 (set_add (objectId r) m)
                               (q @ [Deny_entry (objectId r) (de_depth e + 1) (Some e) (Some r)])))))"
    for e r rs g m q
    by (auto simp: deny_hit_def deny_next_def split: prod.split bool.split)
qed (simp_all add: build_deny_path_def path_ok_def Let_def)

subsection \<open>The loops over the queue\<close>

function allow_loop ::
  "search_env \<Rightarrow> allow_entry list \<Rightarrow> traversal_guard \<Rightarrow> (canonical_id, bool) js_map \<Rightarrow> active_scope \<Rightarrow>
   traversal_path \<times> traversal_guard \<times> active_scope" where
  "allow_loop env [] g best sc = (empty_path, g, sc)"
| "allow_loop env (next # q) g best sc =
     (case active_relationships_for_subject (env_store env) sc (ae_currentId next) of (rs, sc1) \<Rightarrow>
        (case allow_scan env next rs g best q of
           Inl (p, g1) \<Rightarrow> (p, g1, sc1)
         | Inr (g1, best1, q1) \<Rightarrow> allow_loop env q1 g1 best1 sc1))"
  by pat_completeness auto
termination
  by (relation "measure (\<lambda>(env, q, g, best, sc). scans_left g + length q)")
    (auto simp: less_Suc_eq_le dest: allow_pass.scan_progress)

function deny_loop ::
  "search_env \<Rightarrow> deny_entry list \<Rightarrow> traversal_guard \<Rightarrow> canonical_id list \<Rightarrow> active_scope \<Rightarrow>
   traversal_path \<times> traversal_guard \<times> active_scope" where
  "deny_loop env [] g visited sc = (empty_path, g, sc)"
| "deny_loop env (next # q) g visited sc =
     (case active_relationships_for_subject (env_store env) sc (de_currentId next) of (rs, sc1) \<Rightarrow>
        (case deny_scan env next rs g visited q of
           Inl (p, g1) \<Rightarrow> (p, g1, sc1)
         | Inr (g1, visited1, q1) \<Rightarrow> deny_loop env q1 g1 visited1 sc1))"
  by pat_completeness auto
termination
  by (relation "measure (\<lambda>(env, q, g, visited, sc). scans_left g + length q)")
    (auto simp: less_Suc_eq_le dest: deny_pass.scan_progress)

definition find_allow_path ::
  "search_env \<Rightarrow> active_scope \<Rightarrow> traversal_guard \<Rightarrow> canonical_id \<Rightarrow> traversal_path \<times> traversal_guard \<times> active_scope" where
  "find_allow_path env sc g subject =
     allow_loop env [Allow_entry subject 0 False None None] g [(subject, False)] sc"

definition find_deny_path ::
  "search_env \<Rightarrow> active_scope \<Rightarrow> traversal_guard \<Rightarrow> canonical_id \<Rightarrow> traversal_path \<times> traversal_guard \<times> active_scope" where
  "find_deny_path env sc g subject =
     deny_loop env [Deny_entry subject 0 None None] g [subject] sc"

subsection \<open>The cache of active relationships\<close>

definition active_rels :: "rebac_store \<Rightarrow> string \<Rightarrow> string option \<Rightarrow> canonical_id \<Rightarrow> relationship list" where
  "active_rels st asOf pinned x =
     filter (\<lambda>r. is_active_relationship_at r asOf pinned) (list_relationships_for_subject st x)"

text \<open>An absent and an empty pin are the same: both are falsy.\<close>

definition same_pin :: "string option \<Rightarrow> string option \<Rightarrow> bool" where
  "same_pin p p' \<longleftrightarrow> p = p' \<or> \<not> truthy p \<and> \<not> truthy p'"

lemma same_pin_active:
  "same_pin p p' \<Longrightarrow> is_active_relationship_at r asOf p = is_active_relationship_at r asOf p'"
  by (auto simp: same_pin_def is_active_relationship_at_def)

lemma same_pin_rels: "same_pin p p' \<Longrightarrow> active_rels st asOf p = active_rels st asOf p'"
  by (rule ext) (simp add: active_rels_def same_pin_active)

definition scope_good :: "rebac_store \<Rightarrow> string \<Rightarrow> string option \<Rightarrow> active_scope \<Rightarrow> bool" where
  "scope_good st asOf pinned sc \<longleftrightarrow> scope_asOf sc = asOf \<and> same_pin (scope_pinned sc) pinned \<and>
     (\<forall>x rs. map_get (scope_bySubject sc) x = Some rs \<longrightarrow> rs = active_rels st asOf pinned x)"

lemma active_relationships_good:
  assumes "scope_good st asOf pinned sc"
  shows "fst (active_relationships_for_subject st sc x) = active_rels st asOf pinned x"
    and "scope_good st asOf pinned (snd (active_relationships_for_subject st sc x))"
  using assms
  by (auto simp: active_relationships_for_subject_def scope_good_def active_rels_def Let_def same_pin_active
      split: option.splits)

subsection \<open>The searches are correct\<close>

interpretation allow: search "in_tenant env" "allow_hit env" "allow_next env" allow_covers
    "\<lambda>m x f. map_set x f m" ae_currentId ae_depth ae_hasActionGrant "\<lambda>e. rev (allow_climb e)"
    "\<lambda>e r d f. Allow_entry (objectId r) d f (Some e) (Some r)" build_allow_path "allow_scan env"
    "active_rels (env_store env) asOf pinned" "scope_good (env_store env) asOf pinned"
    "active_relationships_for_subject (env_store env)" "allow_loop env" for env asOf pinned
proof unfold_locales
  show "allow_covers (map_set x f m) x f" for m x f
    by (simp add: allow_covers_def)
  show "allow_covers (map_set x f m) y f'" if "\<not> allow_covers m x f" "allow_covers m y f'" for m x f y f'
    using that by (cases f; cases f'; auto simp: allow_covers_def)
  show "allow_covers m y f' \<or> y = x \<and> f' \<le> f" if "allow_covers (map_set x f m) y f'" for m x f y f'
    using that by (cases f; cases f'; auto simp: allow_covers_def split: if_splits)
  show "allow_hit env f' r" if "f \<le> f'" "allow_hit env f r" for f f' r
    using that by (auto simp: allow_hit_def)
  show "\<exists>f2. allow_next env f' r = Some f2 \<and> f1 \<le> f2" if "f \<le> f'" "allow_next env f r = Some f1" for f f' r f1
    using that by (auto simp: allow_next_def can_traverse_relationship_def Let_def split: if_splits)
qed (simp_all add: active_relationships_good)

interpretation deny: search "in_tenant env" "deny_hit env" "deny_next env" "\<lambda>m x _. x \<in> set m"
    "\<lambda>m x _. set_add x m" de_currentId de_depth "\<lambda>_. ()" "\<lambda>e. rev (deny_climb e)"
    "\<lambda>e r d _. Deny_entry (objectId r) d (Some e) (Some r)" build_deny_path "deny_scan env"
    "active_rels (env_store env) asOf pinned" "scope_good (env_store env) asOf pinned"
    "active_relationships_for_subject (env_store env)" "deny_loop env" for env asOf pinned
  by unfold_locales (auto simp: active_relationships_good)

text \<open>What a grant and a deny for a request are, independently of any search.\<close>

definition grants_access ::
  "search_env \<Rightarrow> string option \<Rightarrow> canonical_id \<Rightarrow> relationship list \<Rightarrow> bool" where
  "grants_access env pinned subject =
     walk (active_rels (env_store env) (env_asOf env) pinned) (in_tenant env) (allow_hit env) (allow_next env) subject False"

definition denies_access ::
  "search_env \<Rightarrow> string option \<Rightarrow> canonical_id \<Rightarrow> relationship list \<Rightarrow> bool" where
  "denies_access env pinned subject =
     walk (active_rels (env_store env) (env_asOf env) pinned) (in_tenant env) (deny_hit env) (deny_next env) subject ()"

definition search_outcome ::
  "(relationship list \<Rightarrow> bool) \<Rightarrow> traversal_guard \<Rightarrow> traversal_path \<Rightarrow> traversal_guard \<Rightarrow> bool" where
  "search_outcome P g p g' \<longleftrightarrow>
     g_bounds g' = g_bounds g \<and> g_graphSize g' = g_graphSize g \<and> (guard_ok g \<longrightarrow> guard_ok g') \<and> path_ok p \<and>
     (g_exceeded g' = g_exceeded g \<or> g_exceeded g' \<noteq> None \<and> path_relationships p = []) \<and>
     (path_relationships p \<noteq> [] \<longrightarrow>
        P (path_relationships p) \<and> length (path_relationships p) \<le> maxDepth (g_bounds g)) \<and>
     (path_relationships p = [] \<longrightarrow> g_exceeded g' \<noteq> None \<or> (\<forall>w. \<not> P w))"

lemma find_allow_path_correct:
  assumes good: "scope_good (env_store env) (env_asOf env) pinned sc"
    and found: "find_allow_path env sc g subject = (p, g', sc')"
  shows "scope_good (env_store env) (env_asOf env) pinned sc' \<and> search_outcome (grants_access env pinned subject) g p g'"
proof -
  have "allow.pending env (env_asOf env) pinned [Allow_entry subject 0 False None None] [(subject, False)]"
    by (auto simp: allow.pending_def allow_covers_def)
  moreover have "\<forall>e \<in> set [Allow_entry subject 0 False None None]. allow.entry_ok env (env_asOf env) pinned subject False (maxDepth (g_bounds g)) e"
    by (simp add: allow.entry_ok_def)
  moreover have "allow_covers [(subject, False)] subject False" by (simp add: allow_covers_def)
  ultimately show ?thesis
    using allow.search_correct [OF good, of _ _ subject False g p g' sc'] found
    by (auto simp: find_allow_path_def search_outcome_def grants_access_def)
qed

lemma find_deny_path_correct:
  assumes good: "scope_good (env_store env) (env_asOf env) pinned sc"
    and found: "find_deny_path env sc g subject = (p, g', sc')"
  shows "scope_good (env_store env) (env_asOf env) pinned sc' \<and> search_outcome (denies_access env pinned subject) g p g'"
proof -
  have "deny.pending env (env_asOf env) pinned [Deny_entry subject 0 None None] [subject]"
    by (auto simp: deny.pending_def)
  moreover have "\<forall>e \<in> set [Deny_entry subject 0 None None]. deny.entry_ok env (env_asOf env) pinned subject () (maxDepth (g_bounds g)) e"
    by (simp add: deny.entry_ok_def)
  ultimately show ?thesis
    using deny.search_correct [OF good, of _ _ subject "()" g p g' sc'] found
    by (auto simp: find_deny_path_def search_outcome_def denies_access_def)
qed

lemma find_paths_cache_irrelevant:
  assumes "scope_good (env_store env) asOf pinned sc" "scope_good (env_store env) asOf pinned sc'"
  shows "fst (find_allow_path env sc g subject) = fst (find_allow_path env sc' g subject)"
    "fst (snd (find_allow_path env sc g subject)) = fst (snd (find_allow_path env sc' g subject))"
    "fst (find_deny_path env sc g subject) = fst (find_deny_path env sc' g subject)"
    "fst (snd (find_deny_path env sc g subject)) = fst (snd (find_deny_path env sc' g subject))"
  using allow.cache_irrelevant [OF assms] deny.cache_irrelevant [OF assms]
  unfolding find_allow_path_def find_deny_path_def by blast+

subsection \<open>What a grant or a deny consists of\<close>

fun connected :: "canonical_id \<Rightarrow> relationship list \<Rightarrow> canonical_id \<Rightarrow> bool" where
  "connected x [] y \<longleftrightarrow> x = y"
| "connected x (r # p) y \<longleftrightarrow> subjectId r = x \<and> connected (objectId r) p y"

lemma active_rels_stored:
  assumes "store_inv st" "r \<in> set (active_rels st asOf pinned x)"
  shows "subjectId r = x" "get_relationship st (entity_id r) = Some r" "is_active_relationship_at r asOf pinned"
  using assms index_elements [OF assms(1), of x] by (auto simp: active_rels_def get_relationship_def)

text \<open>Every step of a walk is a stored, active relationship inside the tenant.\<close>

definition steps_hold :: "search_env \<Rightarrow> string option \<Rightarrow> relationship list \<Rightarrow> bool" where
  "steps_hold env pinned p \<longleftrightarrow>
     (\<forall>r \<in> set p. get_relationship (env_store env) (entity_id r) = Some r \<and>
        is_active_relationship_at r (env_asOf env) pinned \<and> in_tenant env r)"

definition through_active_nodes :: "search_env \<Rightarrow> relationship list \<Rightarrow> bool" where
  "through_active_nodes env p \<longleftrightarrow>
     (\<forall>r \<in> set (butlast p). is_active_graph_node_at (env_store env) (objectId r) (env_asOf env))"

lemma walk_connected:
  assumes inv: "store_inv (env_store env)" and hit: "\<And>f r. hit f r \<Longrightarrow> objectId r = env_resourceId env"
    and nxt: "\<And>f r f'. nxt f r = Some f' \<Longrightarrow> is_active_graph_node_at (env_store env) (objectId r) (env_asOf env)"
  shows "walk (active_rels (env_store env) (env_asOf env) pinned) (in_tenant env) hit nxt x f p \<Longrightarrow>
    connected x p (env_resourceId env) \<and> steps_hold env pinned p \<and> through_active_nodes env p"
proof (induction p arbitrary: x f)
  case (Cons r p)
  then have r: "r \<in> set (active_rels (env_store env) (env_asOf env) pinned x)" "in_tenant env r" by simp_all
  note stored = active_rels_stored [OF inv r(1)]
  show ?case
  proof (cases "p = []")
    case True
    with Cons.prems r stored show ?thesis by (auto simp: steps_hold_def through_active_nodes_def dest: hit)
  next
    case False
    with Cons.prems obtain f' where f': "nxt f r = Some f'"
      "walk (active_rels (env_store env) (env_asOf env) pinned) (in_tenant env) hit nxt (objectId r) f' p"
      by (auto split: option.splits)
    from Cons.IH [OF f'(2)] nxt [OF f'(1)] False r stored show ?thesis
      by (auto simp: steps_hold_def through_active_nodes_def)
  qed
qed simp

lemma grant_walk:
  assumes "store_inv (env_store env)" "grants_access env pinned subject p"
  shows "connected subject p (env_resourceId env) \<and> steps_hold env pinned p \<and> through_active_nodes env p"
  using assms unfolding grants_access_def
  by (intro walk_connected) (auto simp: allow_hit_def allow_next_def Let_def split: if_splits)

lemma deny_walk:
  assumes "store_inv (env_store env)" "denies_access env pinned subject p"
  shows "connected subject p (env_resourceId env) \<and> steps_hold env pinned p \<and> through_active_nodes env p"
  using assms unfolding denies_access_def
  by (intro walk_connected) (auto simp: deny_hit_def deny_next_def split: if_splits)

text \<open>A grant needs a relationship whose relation the policy lists for the action.\<close>

lemma grant_uses_allowed:
  "walk rels (in_tenant env) (allow_hit env) (allow_next env) x f p \<Longrightarrow> \<not> f \<Longrightarrow>
     \<exists>r \<in> set p. relation r \<in> set (allowed_relations env)"
proof (induction p arbitrary: x f)
  case (Cons r p)
  show ?case
  proof (cases "p = [] \<or> relation r \<in> set (allowed_relations env)")
    case True
    with Cons.prems show ?thesis by (auto simp: allow_hit_def)
  next
    case False
    with Cons.prems obtain f' where f': "allow_next env f r = Some f'"
      "walk rels (in_tenant env) (allow_hit env) (allow_next env) (objectId r) f' p"
      by (auto split: option.splits)
    with False Cons.prems(2) have "\<not> f'" by (auto simp: allow_next_def Let_def split: if_splits)
    from Cons.IH [OF f'(2) this] show ?thesis by simp
  qed
qed simp

text \<open>A deny reaches the resource by a deny relation, through memberships only.\<close>

lemma deny_walk_shape:
  "walk rels (in_tenant env) (deny_hit env) (deny_next env) x f p \<Longrightarrow>
     p \<noteq> [] \<and> relation (last p) \<in> set (deny_relations env) \<and>
     (\<forall>r \<in> set (butlast p). relation r \<in> set (membershipRelations (env_policy env)))"
proof (induction p arbitrary: x f)
  case (Cons r p)
  then show ?case
    by (auto simp: deny_hit_def deny_next_def can_traverse_deny_relationship_def split: if_splits option.splits)
qed simp

end
