(* ===== verification/Caveats.thy ===== *)
theory Caveats
  imports Engine_Paths
begin

text \<open>
  The caveats of conditional relationships in \<open>packages/core/src/engine.ts\<close>:
  \<open>evaluateConditionalRelationshipCaveats\<close> and what it calls. The explanations are the JSON
  records the code builds.
\<close>

subsection \<open>Looking a condition's value up\<close>

text \<open>
  \<open>record[key]\<close> on an ordinary object also finds the members of \<open>Object.prototype\<close>. They are
  functions or objects, never strings, numbers or booleans, and stand as an empty object here.
\<close>

definition object_prototype_keys :: "string list" where
  "object_prototype_keys =
    [''constructor'', ''__proto__'', ''__defineGetter__'', ''__defineSetter__'', ''__lookupGetter__'',
     ''__lookupSetter__'', ''hasOwnProperty'', ''isPrototypeOf'', ''propertyIsEnumerable'',
     ''toLocaleString'', ''toString'', ''valueOf'']"

definition js_member :: "json_record \<Rightarrow> string \<Rightarrow> js" where
  "js_member fs k =
     (case map_get fs k of
        Some v \<Rightarrow> v
      | None \<Rightarrow> if k \<in> set object_prototype_keys then JObj [] else JUndefined)"

text \<open>\<open>valueAt\<close>: \<open>None\<close> is \<open>{ present: false }\<close>.\<close>

definition value_at :: "json_record option \<Rightarrow> string \<Rightarrow> js option" where
  "value_at r k =
     (case r of None \<Rightarrow> None | Some fs \<Rightarrow> (let v = js_member fs k in if nullish v then None else Some v))"

fun tuple_status_text :: "tuple_status \<Rightarrow> string" where
  "tuple_status_text Tuple_active = ''active''"
| "tuple_status_text Tuple_expired = ''expired''"
| "tuple_status_text Tuple_deleted = ''deleted''"

fun lifecycle_text :: "lifecycle_state \<Rightarrow> string" where
  "lifecycle_text Active = ''active''"
| "lifecycle_text Inactive = ''inactive''"
| "lifecycle_text Suspended = ''suspended''"
| "lifecycle_text Terminated = ''terminated''"
| "lifecycle_text Deleted = ''deleted''"

text \<open>
  \<open>directAndAttributeRecord\<close>: the attributes, then five direct fields, each undefined where the
  entity does not have it; an undefined direct field hides an attribute of the same name.
\<close>

definition direct_fields :: "json_record option \<Rightarrow> js \<Rightarrow> js \<Rightarrow> js \<Rightarrow> js \<Rightarrow> js \<Rightarrow> json_record" where
  "direct_fields attrs status lifecycle classified asserted expires =
     spread (coalesce attrs [])
       [(''status'', status), (''lifecycleState'', lifecycle), (''classification'', classified),
        (''assertedAt'', asserted), (''expiresAt'', expires)]"

definition subject_record :: "subject \<Rightarrow> json_record" where
  "subject_record s =
     direct_fields (attributes s) JUndefined (JStr (lifecycle_text (lifecycleState s))) JUndefined JUndefined JUndefined"

definition resource_record :: "resource \<Rightarrow> json_record" where
  "resource_record r =
     direct_fields (attributes r) JUndefined (JStr (lifecycle_text (lifecycleState r))) (JStr (classification r))
       JUndefined JUndefined"

definition relationship_record :: "relationship \<Rightarrow> json_record" where
  "relationship_record r =
     direct_fields (tuple_attributes r) (JStr (tuple_status_text (tuple_status r))) JUndefined JUndefined
       (JStr (assertedAt r)) (opt_str (expiresAt r))"

definition resolve_condition_value ::
  "rebac_store \<Rightarrow> decision_request \<Rightarrow> relationship \<Rightarrow> string \<Rightarrow> caveat_condition \<Rightarrow> js option" where
  "resolve_condition_value st req r evaluated c =
     (case cond_source c of
        From_context \<Rightarrow> value_at (req_context req) (cond_key c)
      | From_environment \<Rightarrow> if cond_key c = ''evaluatedAt'' then Some (JStr evaluated) else None
      | From_relationship \<Rightarrow> value_at (Some (relationship_record r)) (cond_key c)
      | From_subject \<Rightarrow> value_at (map_option subject_record (get_subject st (req_subjectId req))) (cond_key c)
      | From_resource \<Rightarrow> value_at (map_option resource_record (get_resource st (req_resourceId req))) (cond_key c))"

subsection \<open>Conditions\<close>

definition value_matches_context_type :: "js \<Rightarrow> context_type \<Rightarrow> bool" where
  "value_matches_context_type v t =
     (if t = Type_datetime
      then (case v of JStr s \<Rightarrow> date_parse s \<noteq> None | _ \<Rightarrow> False)
      else js_typeof v = context_type_text t)"

fun compare_condition :: "js \<Rightarrow> caveat_operator \<Rightarrow> js \<Rightarrow> bool" where
  "compare_condition actual Equals v = strict_equals actual v"
| "compare_condition actual One_of v =
     (case v of JArr vs \<Rightarrow> list_ex (\<lambda>candidate. strict_equals candidate actual) vs | _ \<Rightarrow> False)"
| "compare_condition actual Less_than_or_equal v =
     (case (actual, v) of (JNum a, JNum b) \<Rightarrow> a \<le> b | _ \<Rightarrow> False)"
| "compare_condition actual Greater_than_or_equal v =
     (case (actual, v) of (JNum a, JNum b) \<Rightarrow> a \<ge> b | _ \<Rightarrow> False)"
| "compare_condition actual Before v =
     (case (actual, v) of (JStr a, JStr b) \<Rightarrow> later (date_parse b) (date_parse a) | _ \<Rightarrow> False)"
| "compare_condition actual After v =
     (case (actual, v) of (JStr a, JStr b) \<Rightarrow> later (date_parse a) (date_parse b) | _ \<Rightarrow> False)"
| "compare_condition actual (Unsupported_operator _) v = False"

fun source_text :: "condition_source \<Rightarrow> string" where
  "source_text From_subject = ''subject''"
| "source_text From_resource = ''resource''"
| "source_text From_relationship = ''relationship''"
| "source_text From_context = ''context''"
| "source_text From_environment = ''environment''"

definition condition_explanation :: "caveat_condition \<Rightarrow> string \<Rightarrow> json_record" where
  "condition_explanation c status =
     [(''source'', JStr (source_text (cond_source c))),
      (''key'', JStr (cond_key c)),
      (''operator'', JStr (operator_text (cond_operator c))),
      (''status'', JStr status)]"

definition condition_status ::
  "rebac_store \<Rightarrow> decision_request \<Rightarrow> relationship \<Rightarrow> string \<Rightarrow> caveat_condition \<Rightarrow> string" where
  "condition_status st req r evaluated c =
     (case resolve_condition_value st req r evaluated c of
        None \<Rightarrow> ''missing''
      | Some v \<Rightarrow>
          if \<not> value_matches_context_type v (cond_type c) then ''invalid''
          else if compare_condition v (cond_operator c) (cond_value c) then ''pass'' else ''fail'')"

definition evaluate_caveat_condition ::
  "rebac_store \<Rightarrow> decision_request \<Rightarrow> relationship \<Rightarrow> string \<Rightarrow> caveat_condition \<Rightarrow> json_record" where
  "evaluate_caveat_condition st req r evaluated c =
     condition_explanation c (condition_status st req r evaluated c)"

subsection \<open>Caveats along a path\<close>

definition caveat_constraints :: "policy_model \<Rightarrow> json_record list \<Rightarrow> json_record" where
  "caveat_constraints m explanations =
     (if explanations = [] then []
      else [(''policyCaveats'', JObj
              [(''deterministic'', JBool True),
               (''policyModelVersion'', JStr (pm_version m)),
               (''results'', JArr (map JObj explanations))])])"

definition caveat_explanation :: "string \<Rightarrow> string \<Rightarrow> string \<Rightarrow> string option \<Rightarrow> json_record list \<Rightarrow> json_record" where
  "caveat_explanation name rel status reason conditions =
     [(''caveat'', JStr name),
      (''relation'', JStr rel),
      (''status'', JStr status),
      (''reasonCode'', opt_str reason),
      (''conditions'', JArr (map JObj conditions))]"

record caveat_env =
  ce_store :: rebac_store
  ce_model :: policy_model
  ce_request :: decision_request
  ce_evaluatedAt :: string

text \<open>\<open>new Map(caveats.map(c => [c.name, c]))\<close>\<close>

definition caveats_by_name :: "policy_model \<Rightarrow> (string, policy_caveat) js_map" where
  "caveats_by_name m = map_put_all caveat_name (model_caveats m) []"

text \<open>
  The loop over the caveat names of one conditional relationship: \<open>Inl\<close> is the early return
  with its reason code, both sides carry the explanations so far.
\<close>

fun check_caveat_names ::
  "caveat_env \<Rightarrow> string \<Rightarrow> relationship option \<Rightarrow> string list \<Rightarrow> json_record list \<Rightarrow>
   (string \<times> json_record list) + json_record list" where
  "check_caveat_names env rel r [] expl = Inr expl"
| "check_caveat_names env rel r (n # ns) expl =
     (case (map_get (caveats_by_name (ce_model env)) n, r) of
        (Some cv, Some tuple) \<Rightarrow>
          (let check = condition_status (ce_store env) (ce_request env) tuple (ce_evaluatedAt env);
               results = map (evaluate_caveat_condition (ce_store env) (ce_request env) tuple (ce_evaluatedAt env))
                           (caveat_conditions cv);
               failed = list_ex (\<lambda>c. check c \<noteq> ''pass'') (caveat_conditions cv);
               expl' = expl @ [caveat_explanation (caveat_name cv) rel (if failed then ''fail'' else ''pass'')
                                (if failed then Some (caveat_reasonCode cv) else None) results]
           in if failed then Inl (caveat_reasonCode cv, expl') else check_caveat_names env rel r ns expl')
      | (cv, _) \<Rightarrow>
          (let reason = (case cv of Some c \<Rightarrow> caveat_reasonCode c | None \<Rightarrow> ''DENY_POLICY_CAVEAT_INVALID'')
           in Inl (reason, expl @ [caveat_explanation n rel ''invalid'' (Some reason) []])))"

text \<open>The loop over the steps of the path, the relationships read at the same index.\<close>

fun check_path_steps ::
  "caveat_env \<Rightarrow> relationship_path_step list \<Rightarrow> relationship list \<Rightarrow> json_record list \<Rightarrow>
   (string \<times> json_record list) + json_record list" where
  "check_path_steps env [] rels expl = Inr expl"
| "check_path_steps env (s # ss) rels expl =
     (let matching = matching_conditionals (ce_model env) (req_action (ce_request env)) (step_relation s) in
      case matching of
        [] \<Rightarrow> check_path_steps env ss (tl rels) expl
      | [c] \<Rightarrow>
          (case check_caveat_names env (step_relation s) (case rels of [] \<Rightarrow> None | r # _ \<Rightarrow> Some r) (cr_caveats c) expl of
             Inl early \<Rightarrow> Inl early
           | Inr expl' \<Rightarrow> check_path_steps env ss (tl rels) expl')
      | _ \<Rightarrow> Inl (''DENY_POLICY_CAVEAT_INVALID'',
               expl @ [caveat_explanation ''duplicate-conditional-relationship'' (step_relation s) ''invalid''
                         (Some ''DENY_POLICY_CAVEAT_INVALID'') []]))"

datatype caveat_result =
    Caveats_allow json_record
  | Caveats_deny string json_record

definition evaluate_conditional_caveats :: "caveat_env \<Rightarrow> traversal_path \<Rightarrow> caveat_result" where
  "evaluate_conditional_caveats env p =
     (case check_path_steps env (path_steps p) (path_relationships p) [] of
        Inl (reason, expl) \<Rightarrow> Caveats_deny reason (caveat_constraints (ce_model env) expl)
      | Inr expl \<Rightarrow> Caveats_allow (caveat_constraints (ce_model env) expl))"

subsection \<open>When the caveats allow\<close>

text \<open>
  The contract: every step whose relation is conditional for the action has exactly one
  conditional relationship, and each caveat it names exists and has all its conditions pass on
  the step's relationship.
\<close>

definition caveat_holds :: "caveat_env \<Rightarrow> relationship \<Rightarrow> string \<Rightarrow> bool" where
  "caveat_holds env r n \<longleftrightarrow>
     (case map_get (caveats_by_name (ce_model env)) n of
        None \<Rightarrow> False
      | Some cv \<Rightarrow> \<forall>c \<in> set (caveat_conditions cv).
          condition_status (ce_store env) (ce_request env) r (ce_evaluatedAt env) c = ''pass'')"

definition step_allowed :: "caveat_env \<Rightarrow> relationship \<Rightarrow> bool" where
  "step_allowed env r \<longleftrightarrow>
     (case matching_conditionals (ce_model env) (req_action (ce_request env)) (relation r) of
        [] \<Rightarrow> True
      | [c] \<Rightarrow> \<forall>n \<in> set (cr_caveats c). caveat_holds env r n
      | _ \<Rightarrow> False)"

lemma check_caveat_names_iff:
  "(\<exists>expl'. check_caveat_names env rel (Some r) ns expl = Inr expl') \<longleftrightarrow> (\<forall>n \<in> set ns. caveat_holds env r n)"
  by (induction ns arbitrary: expl)
    (auto simp: caveat_holds_def Let_def list_ex_iff split: option.splits)

lemma check_path_steps_iff:
  "(\<exists>expl'. check_path_steps env (map to_path_step rels) rels expl = Inr expl') \<longleftrightarrow>
     (\<forall>r \<in> set rels. step_allowed env r)"
proof (induction rels arbitrary: expl)
  case (Cons r rels)
  let ?m = "matching_conditionals (ce_model env) (req_action (ce_request env)) (relation r)"
  have rel: "step_relation (to_path_step r) = relation r" by (simp add: to_path_step_def)
  consider "?m = []" | c where "?m = [c]" | c d cs where "?m = c # d # cs"
    by (metis neq_Nil_conv)
  then show ?case
  proof cases
    case (2 c)
    with check_caveat_names_iff [of env "relation r" r "cr_caveats c" expl] Cons.IH show ?thesis
      by (auto simp: rel step_allowed_def split: sum.splits)
  qed (use Cons.IH in \<open>auto simp: rel step_allowed_def\<close>)
qed simp

lemma caveats_allow_iff:
  assumes "path_ok p"
  shows "(\<exists>cs. evaluate_conditional_caveats env p = Caveats_allow cs) \<longleftrightarrow>
    (\<forall>r \<in> set (path_relationships p). step_allowed env r)"
  using check_path_steps_iff [of env "path_relationships p" "[]"] assms
  by (auto simp: evaluate_conditional_caveats_def path_ok_def split: sum.splits)

end
