(* ===== verification/Decision_Engine.thy ===== *)
theory Decision_Engine
  imports Caveats
begin

text \<open>
  \<open>RebacDecisionEngine\<close> of \<open>packages/core/src/engine.ts\<close>: construction, the decision itself
  (\<open>#buildDecisionContext\<close>, with every denial in the code's order), the result, and
  \<open>#evaluate\<close>, which stores the decision and its audit event.

  The clock readings and the resolved audit actor are inputs of an evaluation. The engine's
  state is the store, the audit recorder's log and the cache of active relationship scopes. The
  best-effort callback on the audit event has no effect on that state; the one the runtime gives is
  \<open>on_audit_event\<close> of \<open>Runtime_State\<close>.
\<close>

subsection \<open>Construction\<close>

record engine_options =
  eo_policyVersion :: "string option"
  eo_modelVersion :: "string option"
  eo_relationshipVersion :: "string option"
  eo_tupleVersion :: "string option"
  eo_contextVersion :: "string option"
  eo_traversalBounds :: "bound_overrides option"
  eo_actor :: "string option"
  eo_policyModel :: "policy_model option"
  eo_auditRecorder :: "audit_event list option"

record normalized_options =
  no_defaults :: version_defaults
  no_enforceTupleVersion :: bool
  no_traversalBounds :: traversal_bounds
  no_actor :: string

record engine =
  en_store :: rebac_store
  en_recorder :: "audit_event list"
  en_policyModel :: policy_model
  en_compiled :: compiled_policy
  en_options :: normalized_options
  en_scopes :: "(string, active_scope) js_map"

definition max_active_relationship_scopes :: nat where
  "max_active_relationship_scopes = 32"

definition normalize_options :: "engine_options \<Rightarrow> normalized_options" where
  "normalize_options o' =
    \<lparr>no_defaults =
       \<lparr>def_policyVersion = coalesce (eo_policyVersion o') ''policy:local-v1'',
        def_modelVersion = coalesce (eo_modelVersion o') ''model:local-v1'',
        def_relationshipVersion = coalesce (eo_relationshipVersion o') ''tuple-set:local-v1'',
        def_tupleVersion = coalesce (eo_tupleVersion o') ''tuple:v1'',
        def_contextVersion = eo_contextVersion o'\<rparr>,
     no_enforceTupleVersion = truthy (eo_tupleVersion o'),
     no_traversalBounds = merge_traversal_bounds default_traversal_bounds (eo_traversalBounds o'),
     no_actor = coalesce (eo_actor o') ''service:decision-engine''\<rparr>"

definition create_engine :: "rebac_store \<Rightarrow> engine_options \<Rightarrow> compile_error + engine" where
  "create_engine st o' =
     (let model = coalesce (eo_policyModel o') default_policy_model in
      case compile_policy_model model of
        Inl e \<Rightarrow> Inl e
      | Inr cp \<Rightarrow> Inr
          \<lparr>en_store = st,
           en_recorder = coalesce (eo_auditRecorder o') (list_audit_events st no_audit_filter),
           en_policyModel = model,
           en_compiled = cp,
           en_options = normalize_options o',
           en_scopes = []\<rparr>)"

subsection \<open>The scope cache\<close>

definition scope_key :: "nat \<Rightarrow> string \<Rightarrow> string option \<Rightarrow> string" where
  "scope_key revision asOf pinned =
     nat_str revision @ CHR 0x00 # asOf @ CHR 0x00 # coalesce pinned []"

definition active_relationship_scope ::
  "rebac_store \<Rightarrow> (string, active_scope) js_map \<Rightarrow> string \<Rightarrow> string option \<Rightarrow>
   string \<times> active_scope \<times> (string, active_scope) js_map" where
  "active_relationship_scope st scopes asOf pinned =
     (let revision = st_revision st; key = scope_key revision asOf pinned in
      case map_get scopes key of
        Some cached \<Rightarrow> (key, cached, scopes)
      | None \<Rightarrow>
          (let scope = \<lparr>scope_revision = revision, scope_asOf = asOf, scope_pinned = pinned, scope_bySubject = []\<rparr>;
               scopes1 = map_set key scope scopes;
               scopes2 = (if length scopes1 > max_active_relationship_scopes
                          then map_delete (fst (hd scopes1)) scopes1 else scopes1)
           in (key, scope, scopes2)))"

text \<open>The searches fill the scope object in place: what the map holds under its key changes with it.\<close>

definition write_back :: "string \<Rightarrow> active_scope \<Rightarrow> (string, active_scope) js_map \<Rightarrow> (string, active_scope) js_map" where
  "write_back key sc scopes = (case map_get scopes key of None \<Rightarrow> scopes | Some _ \<Rightarrow> map_set key sc scopes)"

subsection \<open>The decision\<close>

record decision_context =
  dc_request :: decision_request
  dc_evaluatedAt :: string
  dc_pins :: version_pins
  dc_tenantId :: "string option"
  dc_classification :: "string option"
  dc_reasonCode :: string
  dc_decision :: decision_value
  dc_path :: traversal_path
  dc_traversal :: traversal_report
  dc_constraints :: "json_record option"

text \<open>A denial before the graph is searched: reason, pins, and the cache scope known by then.\<close>

record early_denial =
  ed_reasonCode :: string
  ed_pins :: version_pins
  ed_tenantId :: "string option"
  ed_classification :: "string option"

definition check_instant :: "version_pins \<Rightarrow> string \<Rightarrow> string option" where
  "check_instant pins evaluated =
     (case date_parse (pin_asOf pins) of
        None \<Rightarrow> Some ''DENY_INVALID_AS_OF''
      | Some t \<Rightarrow> if later (Some t) (date_parse evaluated) then Some ''DENY_AS_OF_IN_FUTURE'' else None)"

definition check_subject :: "rebac_store \<Rightarrow> canonical_id \<Rightarrow> string \<Rightarrow> (string \<times> string option) + subject" where
  "check_subject st i asOf =
     (case visible_subject_at st i asOf of
        None \<Rightarrow> Inl (''DENY_SUBJECT_NOT_FOUND'', None)
      | Some s \<Rightarrow>
          (case effective_lifecycle_state_at s asOf of
             None \<Rightarrow> Inl (''DENY_SUBJECT_LIFECYCLE_UNKNOWN_AS_OF'', tenant_id_for (Some s))
           | Some l \<Rightarrow> if l \<noteq> Active then Inl (''DENY_SUBJECT_NOT_ACTIVE'', tenant_id_for (Some s)) else Inr s))"

definition check_resource ::
  "rebac_store \<Rightarrow> subject \<Rightarrow> canonical_id \<Rightarrow> string \<Rightarrow> (string \<times> string option \<times> string option) + resource" where
  "check_resource st s i asOf =
     (case visible_resource_at st i asOf of
        None \<Rightarrow> Inl (''DENY_RESOURCE_NOT_FOUND'', tenant_id_for (Some s), None)
      | Some r \<Rightarrow>
          (let tenant = coalesce_opt (tenant_id_for (Some s)) (tenant_id_for (Some r)) in
           case effective_lifecycle_state_at r asOf of
             None \<Rightarrow> Inl (''DENY_RESOURCE_LIFECYCLE_UNKNOWN_AS_OF'', tenant, Some (classification r))
           | Some l \<Rightarrow>
               if l \<noteq> Active then Inl (''DENY_RESOURCE_NOT_ACTIVE'', tenant, Some (classification r))
               else if tenant_boundary_denies s r then Inl (''DENY_TENANT_BOUNDARY'', tenant, Some (classification r))
               else Inr r))"

definition admit_request ::
  "rebac_store \<Rightarrow> decision_request \<Rightarrow> string \<Rightarrow> version_pins \<Rightarrow> early_denial + (subject \<times> resource)" where
  "admit_request st req evaluated pins =
     (case check_instant pins evaluated of
        Some reason \<Rightarrow> Inl
          \<lparr>ed_reasonCode = reason, ed_pins = pins\<lparr>pin_asOf := evaluated\<rparr>, ed_tenantId = None, ed_classification = None\<rparr>
      | None \<Rightarrow>
     (case check_subject st (req_subjectId req) (pin_asOf pins) of
        Inl (reason, tenant) \<Rightarrow> Inl
          \<lparr>ed_reasonCode = reason, ed_pins = pins, ed_tenantId = tenant, ed_classification = None\<rparr>
      | Inr s \<Rightarrow>
     (case check_resource st s (req_resourceId req) (pin_asOf pins) of
        Inl (reason, tenant, cls) \<Rightarrow> Inl
          \<lparr>ed_reasonCode = reason, ed_pins = pins, ed_tenantId = tenant, ed_classification = cls\<rparr>
      | Inr r \<Rightarrow> Inr (s, r))))"

text \<open>
  The decision on the graph: deny paths first, then the bounds, then grants, then the bounds
  again, then caveats. The result is the decision, its reason, path and constraints.
\<close>

definition decide_on_graph ::
  "engine \<Rightarrow> decision_request \<Rightarrow> string \<Rightarrow> search_env \<Rightarrow> active_scope \<Rightarrow> traversal_guard \<Rightarrow>
   (decision_value \<times> string \<times> traversal_path \<times> json_record option) \<times> traversal_guard \<times> active_scope" where
  "decide_on_graph en req evaluated env sc g =
     (case find_deny_path env sc g (req_subjectId req) of (explicitDeny, g1, sc1) \<Rightarrow>
        if path_steps explicitDeny \<noteq> [] then ((Deny, ''DENY_EXPLICIT_OVERRIDE'', explicitDeny, None), g1, sc1)
        else if g_exceeded g1 \<noteq> None then ((Deny, ''DENY_TRAVERSAL_BOUND_EXCEEDED'', empty_path, None), g1, sc1)
        else (case find_allow_path env sc1 g1 (req_subjectId req) of (path, g2, sc2) \<Rightarrow>
          if g_exceeded g2 \<noteq> None then ((Deny, ''DENY_TRAVERSAL_BOUND_EXCEEDED'', path, None), g2, sc2)
          else if path_steps path = [] then ((Deny, ''DENY_DEFAULT_NO_RELATIONSHIP_PATH'', empty_path, None), g2, sc2)
          else (case evaluate_conditional_caveats
                  \<lparr>ce_store = en_store en, ce_model = en_policyModel en, ce_request = req, ce_evaluatedAt = evaluated\<rparr> path of
              Caveats_deny reason cs \<Rightarrow> ((Deny, reason, path, Some cs), g2, sc2)
            | Caveats_allow cs \<Rightarrow> ((Allow, ''ALLOW_VIA_RELATIONSHIP_PATH'', path, Some cs), g2, sc2))))"

text \<open>\<open>request.tupleVersion ?? (enforceTupleVersion ? versionPins.tupleVersion : undefined)\<close>\<close>

definition pinned_tuple_version :: "engine \<Rightarrow> decision_request \<Rightarrow> version_pins \<Rightarrow> string option" where
  "pinned_tuple_version en req pins =
     coalesce_opt (req_tupleVersion req)
       (if no_enforceTupleVersion (en_options en) then Some (pin_tupleVersion pins) else None)"

definition engine_search_env :: "engine \<Rightarrow> decision_request \<Rightarrow> version_pins \<Rightarrow> subject \<Rightarrow> search_env" where
  "engine_search_env en req pins s =
    \<lparr>env_store = en_store en, env_policy = en_compiled en, env_resourceId = req_resourceId req,
     env_action = req_action req, env_rootTenant = tenant_id_for (Some s), env_asOf = pin_asOf pins\<rparr>"

definition build_decision_context ::
  "engine \<Rightarrow> decision_request \<Rightarrow> string \<Rightarrow> version_pins \<Rightarrow> decision_context \<times> (string, active_scope) js_map" where
  "build_decision_context en req evaluated pins =
     (let guard = new_guard (no_traversalBounds (en_options en)) (graph_size_of (en_store en)) (req_subjectId req) in
      case admit_request (en_store en) req evaluated pins of
        Inl d \<Rightarrow>
          (\<lparr>dc_request = req, dc_evaluatedAt = evaluated, dc_pins = ed_pins d, dc_tenantId = ed_tenantId d,
            dc_classification = ed_classification d, dc_reasonCode = ed_reasonCode d, dc_decision = Deny,
            dc_path = empty_path, dc_traversal = guard_report guard, dc_constraints = None\<rparr>, en_scopes en)
      | Inr (s, r) \<Rightarrow>
          (case active_relationship_scope (en_store en) (en_scopes en) (pin_asOf pins) (pinned_tuple_version en req pins) of
             (key, sc, scopes) \<Rightarrow>
          (case decide_on_graph en req evaluated (engine_search_env en req pins s) sc guard of
             ((decided, reason, path, cs), g, sc') \<Rightarrow>
               (\<lparr>dc_request = req, dc_evaluatedAt = evaluated, dc_pins = pins,
                 dc_tenantId = coalesce_opt (tenant_id_for (Some s)) (tenant_id_for (Some r)),
                 dc_classification = Some (classification r), dc_reasonCode = reason, dc_decision = decided,
                 dc_path = path, dc_traversal = guard_report g, dc_constraints = cs\<rparr>,
                write_back key sc' scopes))))"

subsection \<open>The result\<close>

definition pins_js :: "version_pins \<Rightarrow> js" where
  "pins_js p = JObj
    [(''policyVersion'', JStr (pin_policyVersion p)),
     (''modelVersion'', JStr (pin_modelVersion p)),
     (''relationshipVersion'', JStr (pin_relationshipVersion p)),
     (''tupleVersion'', JStr (pin_tupleVersion p)),
     (''contextVersion'', JStr (pin_contextVersion p)),
     (''asOf'', JStr (pin_asOf p))]"

definition decision_hash_js :: "decision_context \<Rightarrow> bool \<Rightarrow> js" where
  "decision_hash_js c explain = JObj
    [(''request'', request_js (dc_request c)),
     (''asOf'', JStr (pin_asOf (dc_pins c))),
     (''versionPins'', pins_js (dc_pins c)),
     (''decision'', JStr (decision_text (dc_decision c))),
     (''reasonCode'', JStr (dc_reasonCode c)),
     (''explain'', JBool explain)]"

definition time_travel_js :: "decision_context \<Rightarrow> js" where
  "time_travel_js c =
     (let a = date_parse (pin_asOf (dc_pins c)); e = date_parse (dc_evaluatedAt c) in
      JObj
       [(''asOf'', JStr (pin_asOf (dc_pins c))),
        (''evaluatedAt'', JStr (dc_evaluatedAt c)),
        (''historical'', JBool (a = None \<or> a \<noteq> e))])"

definition decision_constraints ::
  "decision_context \<Rightarrow> bool \<Rightarrow> performance_report \<Rightarrow> cache_metadata \<Rightarrow> json_record" where
  "decision_constraints c explain perf cache =
     spread
       [(''deterministic'', JBool True),
        (''denyByDefault'', JBool True),
        (''llmDecisioning'', JBool False),
        (''explain'', JBool explain),
        (''timeTravel'', time_travel_js c),
        (''traversal'', traversal_js (dc_traversal c)),
        (''performance'', performance_js perf),
        (''cache'', cache_js cache)]
       (coalesce (dc_constraints c) [])"

definition to_decision_result ::
  "runtime \<Rightarrow> decision_context \<Rightarrow> bool \<Rightarrow> performance_report \<Rightarrow> range_error + decision_result" where
  "to_decision_result rt c explain perf =
     (case create_cache_metadata rt (dc_request c) (dc_pins c) (dc_tenantId c) (dc_classification c) (dc_evaluatedAt c) of
        Inl e \<Rightarrow> Inl e
      | Inr cache \<Rightarrow> Inr
          \<lparr>decisionId = ''decision:'' @ take 24 (sha256 rt (decision_hash_js c explain)),
           decision = dc_decision c,
           res_subjectId = req_subjectId (dc_request c),
           res_action = req_action (dc_request c),
           res_resourceId = req_resourceId (dc_request c),
           reasonCode = dc_reasonCode c,
           res_policyVersion = pin_policyVersion (dc_pins c),
           res_modelVersion = pin_modelVersion (dc_pins c),
           res_relationshipVersion = pin_relationshipVersion (dc_pins c),
           res_tupleVersion = pin_tupleVersion (dc_pins c),
           res_contextVersion = pin_contextVersion (dc_pins c),
           res_asOf = pin_asOf (dc_pins c),
           relationshipPath = (if explain then path_steps (dc_path c) else []),
           constraints = decision_constraints c explain perf cache,
           evaluatedAt = dc_evaluatedAt c\<rparr>)"

subsection \<open>Evaluation\<close>

text \<open>What an evaluation reads from outside: two monotonic clock readings, the time, the resolved actor.\<close>

record evaluation_inputs =
  ev_startedAt :: rat
  ev_finishedAt :: rat
  ev_now :: string
  ev_auditActor :: "string option"

definition decision_audit_payload ::
  "decision_result \<Rightarrow> bool \<Rightarrow> traversal_report \<Rightarrow> performance_report \<Rightarrow> json_record" where
  "decision_audit_payload r explain tr perf =
    [(''decisionId'', JStr (decisionId r)),
     (''decision'', JStr (decision_text (decision r))),
     (''reasonCode'', JStr (reasonCode r)),
     (''explain'', JBool explain),
     (''relationshipPath'', JArr (map step_js (relationshipPath r))),
     (''modelVersion'', JStr (res_modelVersion r)),
     (''tupleVersion'', JStr (res_tupleVersion r)),
     (''contextVersion'', JStr (res_contextVersion r)),
     (''asOf'', JStr (res_asOf r)),
     (''cache'', coalesce (map_get (constraints r) ''cache'') JUndefined),
     (''traversal'', traversal_js tr),
     (''performance'', performance_js perf)]"

definition decision_audit_input ::
  "engine \<Rightarrow> evaluation_inputs \<Rightarrow> decision_result \<Rightarrow> json_record \<Rightarrow> audit_input" where
  "decision_audit_input en inp r p =
    \<lparr>in_eventType = (if decision r = Allow then ''decision.allowed'' else ''decision.denied''),
     in_actor = coalesce (ev_auditActor inp) (no_actor (en_options en)),
     in_subjectId = Some (res_subjectId r),
     in_resourceId = Some (res_resourceId r),
     in_correlationId = ''corr:'' @ decisionId r,
     in_policyVersion = Some (res_policyVersion r),
     in_relationshipVersion = Some (res_relationshipVersion r),
     in_payload = p\<rparr>"

definition evaluate ::
  "runtime \<Rightarrow> engine \<Rightarrow> decision_request \<Rightarrow> bool \<Rightarrow> evaluation_inputs \<Rightarrow> (range_error + decision_result) \<times> engine" where
  "evaluate rt en req explain inp =
     (let pins = normalize_version_pins rt req (no_defaults (en_options en)) (ev_now inp) in
      case build_decision_context en req (ev_now inp) pins of (c, scopes) \<Rightarrow>
        (let perf = create_performance_report (max 0 (ev_finishedAt inp - ev_startedAt inp))
               (latency_targets_for_graph_size (tr_graphSize (dc_traversal c)))
         in case to_decision_result rt c explain perf of
              Inl e \<Rightarrow> (Inl e, en\<lparr>en_scopes := scopes\<rparr>)
            | Inr r \<Rightarrow>
                (case record_event rt
                   (decision_audit_input en inp r (decision_audit_payload r explain (dc_traversal c) perf))
                   (ev_now inp) (en_recorder en) of (event, events) \<Rightarrow>
                   (Inr r,
                    en\<lparr>en_store := record_audit_event event (record_decision r (en_store en)),
                       en_recorder := events, en_scopes := scopes\<rparr>))))"

definition check :: "runtime \<Rightarrow> engine \<Rightarrow> decision_request \<Rightarrow> evaluation_inputs \<Rightarrow> (range_error + decision_result) \<times> engine" where
  "check rt en req inp = evaluate rt en req False inp"

definition explain :: "runtime \<Rightarrow> engine \<Rightarrow> decision_request \<Rightarrow> evaluation_inputs \<Rightarrow> (range_error + decision_result) \<times> engine" where
  "explain rt en req inp = evaluate rt en req True inp"

end
