(* ===== verification/Engine_State.thy ===== *)
theory Engine_State
  imports Decision_Engine
begin

text \<open>
  The state of the decision engine between evaluations: the invariant of its cache of active
  relationship scopes, the engines a program can reach, and the laws of one evaluation that the
  properties of \<open>Engine_Decisions\<close> rest on.
\<close>

subsection \<open>Scope keys\<close>

lemma split_at_separator:
  assumes "z \<notin> set x" "z \<notin> set x'" "x @ z # y = x' @ z # y'"
  shows "x = x' \<and> y = y'"
  using assms by (auto simp: append_eq_append_conv2 Cons_eq_append_conv append_eq_Cons_conv)

lemma nul_not_in_nat_str: "CHR 0x00 \<notin> set (nat_str n)"
proof
  assume "CHR 0x00 \<in> set (nat_str n)"
  with nat_str_digits [of n] have "is_digit (CHR 0x00)" by (auto simp: list_all_iff)
  then show False by (simp add: is_digit_def code_unit_def)
qed

lemma scope_key_inject:
  assumes "scope_key n a p = scope_key n' a' p'" and dates: "date_parse a \<noteq> None" "date_parse a' \<noteq> None"
  shows "n = n' \<and> a = a' \<and> same_pin p p'"
proof -
  have "CHR 0x00 \<notin> set a" "CHR 0x00 \<notin> set a'"
    using dates date_parse_chars nul_not_date_char by fastforce+
  moreover have "nat_str n = nat_str n' \<and> a @ CHR 0x00 # coalesce p [] = a' @ CHR 0x00 # coalesce p' []"
    using assms(1) unfolding scope_key_def
    by (rule split_at_separator [OF nul_not_in_nat_str nul_not_in_nat_str])
  ultimately show ?thesis
    using split_at_separator [of "CHR 0x00" a a' "coalesce p []" "coalesce p' []"]
    by (auto simp: same_pin_def coalesce_def truthy_def split: option.splits)
qed

subsection \<open>The invariant of the scope cache\<close>

text \<open>
  Every entry is stored under the key of some revision, instant and pin. An entry of the current
  revision holds only active relationships of the current store; entries of earlier revisions
  are never read again, since the revision only grows.
\<close>

definition scope_ok :: "rebac_store \<Rightarrow> string \<Rightarrow> active_scope \<Rightarrow> bool" where
  "scope_ok st k sc \<longleftrightarrow>
     (\<exists>n a p. k = scope_key n a p \<and> date_parse a \<noteq> None \<and> n \<le> st_revision st \<and>
        (n = st_revision st \<longrightarrow> scope_good st a p sc))"

definition scopes_ok :: "rebac_store \<Rightarrow> (string, active_scope) js_map \<Rightarrow> bool" where
  "scopes_ok st m \<longleftrightarrow> wf_map m \<and> length m \<le> max_active_relationship_scopes \<and>
     (\<forall>k sc. map_get m k = Some sc \<longrightarrow> scope_ok st k sc)"

lemma scopes_ok_empty [simp]: "scopes_ok st []"
  by (simp add: scopes_ok_def wf_map_def)

lemma scope_good_pin: "scope_good st a p sc \<Longrightarrow> same_pin p q \<Longrightarrow> scope_good st a q sc"
  using same_pin_rels [of p q st a] by (auto simp: scope_good_def same_pin_def)

lemma scope_ok_current:
  assumes "scope_ok st (scope_key (st_revision st) a p) sc" "date_parse a \<noteq> None"
  shows "scope_good st a p sc"
proof -
  obtain n a' p' where k: "scope_key (st_revision st) a p = scope_key n a' p'" "date_parse a' \<noteq> None"
    "n = st_revision st \<longrightarrow> scope_good st a' p' sc"
    using assms(1) unfolding scope_ok_def by blast
  from scope_key_inject [OF k(1) assms(2) k(2)] have "st_revision st = n" "a = a'" "same_pin p' p"
    by (auto simp: same_pin_def)
  with k(3) scope_good_pin show ?thesis by blast
qed

text \<open>Looking a scope up, and storing what the searches have filled it with, keep the cache sound.\<close>

lemma wf_map_drop_oldest: "wf_map m \<Longrightarrow> m \<noteq> [] \<Longrightarrow> length (map_delete (fst (hd m)) m) = length m - 1"
  by (cases m) (auto simp: wf_map_def filter_id_conv image_iff)

lemma active_scope_sound:
  assumes ok: "scopes_ok st m" and date: "date_parse a \<noteq> None"
    and scope: "active_relationship_scope st m a p = (k, sc, m')"
  shows "k = scope_key (st_revision st) a p" "scope_good st a p sc" "scopes_ok st m'"
proof -
  show k: "k = scope_key (st_revision st) a p"
    using scope by (auto simp: active_relationship_scope_def Let_def split: option.splits)
  have "scope_good st a p sc \<and> scopes_ok st m'"
  proof (cases "map_get m k")
    case (Some c)
    with scope k have "sc = c" "m' = m" by (simp_all add: active_relationship_scope_def Let_def)
    with Some ok k have "scope_ok st (scope_key (st_revision st) a p) sc" by (auto simp: scopes_ok_def)
    with scope_ok_current date ok \<open>m' = m\<close> show ?thesis by blast
  next
    case None
    define new where "new = map_set k sc m"
    from None scope k have sc: "sc = \<lparr>scope_revision = st_revision st, scope_asOf = a, scope_pinned = p, scope_bySubject = []\<rparr>"
      and m': "m' = (if length new > max_active_relationship_scopes then map_delete (fst (hd new)) new else new)"
      by (auto simp: active_relationship_scope_def Let_def new_def)
    have good: "scope_good st a p sc" by (simp add: scope_good_def sc same_pin_def)
    have wf: "wf_map new" using ok by (simp add: new_def scopes_ok_def)
    have len: "length new = Suc (length m)" using None map_set_fresh [of k m sc] by (simp add: new_def map_of_eq_None_iff)
    have "length m' \<le> max_active_relationship_scopes"
      using m' wf_map_drop_oldest [OF wf] len ok by (cases new) (auto simp: scopes_ok_def)
    moreover have "wf_map m'" using m' wf by auto
    moreover have "scope_ok st k' c" if "map_get m' k' = Some c" for k' c
    proof -
      have "map_get new k' = Some c" using that m' by (auto split: if_splits)
      then show ?thesis
        using ok good date k by (auto simp: new_def scopes_ok_def scope_ok_def split: if_splits)
    qed
    ultimately show ?thesis using good by (simp add: scopes_ok_def)
  qed
  then show "scope_good st a p sc" "scopes_ok st m'" by simp_all
qed

lemma map_set_present: "map_get m k = Some w \<Longrightarrow> length (map_set k v m) = length m"
  by (induction m) auto

lemma write_back_sound:
  assumes "scopes_ok st m" "date_parse a \<noteq> None" "scope_good st a p sc"
  shows "scopes_ok st (write_back (scope_key (st_revision st) a p) sc m)"
  using assms by (auto simp: write_back_def scopes_ok_def scope_ok_def map_set_present split: option.splits if_splits)

text \<open>Whatever happens to the store, the cache stays sound: the revision shows every relevant change.\<close>

lemma scopes_ok_step:
  assumes "store_step st st'" "scopes_ok st m"
  shows "scopes_ok st' m"
proof -
  have "scope_ok st' k sc" if "scope_ok st k sc" for k sc
  proof (cases "st_revision st < st_revision st'")
    case True
    with that show ?thesis by (force simp: scope_ok_def)
  next
    case False
    with relationships_revision [OF assms(1)]
    have same: "st_revision st' = st_revision st" "st_bySubject st' = st_bySubject st" by auto
    then have "active_rels st' = active_rels st"
      by (intro ext) (simp add: active_rels_def list_relationships_for_subject_def)
    with that same show ?thesis by (simp add: scope_ok_def scope_good_def)
  qed
  with assms(2) show ?thesis by (simp add: scopes_ok_def)
qed

subsection \<open>The verdict, independently of any search\<close>

text \<open>
  What a decision on the graph may be. An allow needs a grant whose every step's caveats hold, and
  no deny at all; a denial is an explicit deny, a bound that was exceeded, the absence of any grant,
  or a grant whose caveats do not hold.
\<close>

inductive verdict ::
  "search_env \<Rightarrow> caveat_env \<Rightarrow> string option \<Rightarrow> canonical_id \<Rightarrow> nat \<Rightarrow> bool \<Rightarrow>
   decision_value \<Rightarrow> string \<Rightarrow> relationship list \<Rightarrow> bool"
  for env cenv pinned subject limit exceeded where
  explicit: "denies_access env pinned subject p \<Longrightarrow> length p \<le> limit \<Longrightarrow> \<not> exceeded \<Longrightarrow>
    verdict env cenv pinned subject limit exceeded Deny ''DENY_EXPLICIT_OVERRIDE'' p"
| bound: "exceeded \<Longrightarrow> verdict env cenv pinned subject limit exceeded Deny ''DENY_TRAVERSAL_BOUND_EXCEEDED'' []"
| no_path: "\<forall>w. \<not> denies_access env pinned subject w \<Longrightarrow> \<forall>w. \<not> grants_access env pinned subject w \<Longrightarrow> \<not> exceeded \<Longrightarrow>
    verdict env cenv pinned subject limit exceeded Deny ''DENY_DEFAULT_NO_RELATIONSHIP_PATH'' []"
| caveat: "\<forall>w. \<not> denies_access env pinned subject w \<Longrightarrow> grants_access env pinned subject p \<Longrightarrow> length p \<le> limit \<Longrightarrow>
    \<not> exceeded \<Longrightarrow> \<exists>r \<in> set p. \<not> step_allowed cenv r \<Longrightarrow>
    verdict env cenv pinned subject limit exceeded Deny reason p"
| allowed: "\<forall>w. \<not> denies_access env pinned subject w \<Longrightarrow> grants_access env pinned subject p \<Longrightarrow> length p \<le> limit \<Longrightarrow>
    \<not> exceeded \<Longrightarrow> \<forall>r \<in> set p. step_allowed cenv r \<Longrightarrow>
    verdict env cenv pinned subject limit exceeded Allow ''ALLOW_VIA_RELATIONSHIP_PATH'' p"

lemma verdict_allow:
  assumes "verdict env cenv pinned subject limit exceeded Allow reason p"
  shows "grants_access env pinned subject p" "length p \<le> limit" "\<forall>r \<in> set p. step_allowed cenv r"
    "\<not> denies_access env pinned subject w" "\<not> exceeded" "reason = ''ALLOW_VIA_RELATIONSHIP_PATH''"
  using assms by (cases; simp)+

lemma path_ok_empty: "path_ok p \<Longrightarrow> path_steps p = [] \<longleftrightarrow> path_relationships p = []"
  by (simp add: path_ok_def)

lemma decide_verdict:
  assumes good: "scope_good (env_store env) (env_asOf env) pinned sc"
    and fresh: "g_exceeded g = None" "guard_ok g"
    and decided: "decide_on_graph en req ev env sc g = ((d, reason, p, cs), g', sc')"
  shows "verdict env \<lparr>ce_store = en_store en, ce_model = en_policyModel en, ce_request = req, ce_evaluatedAt = ev\<rparr>
           pinned (req_subjectId req) (maxDepth (g_bounds g)) (g_exceeded g' \<noteq> None) d reason (path_relationships p)"
    "path_ok p" "scope_good (env_store env) (env_asOf env) pinned sc'"
    "g_bounds g' = g_bounds g" "g_graphSize g' = g_graphSize g" "guard_ok g'"
proof -
  let ?cenv = "\<lparr>ce_store = en_store en, ce_model = en_policyModel en, ce_request = req, ce_evaluatedAt = ev\<rparr>"
  obtain p1 g1 sc1 where deny: "find_deny_path env sc g (req_subjectId req) = (p1, g1, sc1)" by (metis prod_cases3)
  from find_deny_path_correct [OF good deny]
  have good1: "scope_good (env_store env) (env_asOf env) pinned sc1"
    and out1: "search_outcome (denies_access env pinned (req_subjectId req)) g p1 g1" by simp_all
  obtain p2 g2 sc2 where allow: "find_allow_path env sc1 g1 (req_subjectId req) = (p2, g2, sc2)" by (metis prod_cases3)
  from find_allow_path_correct [OF good1 allow]
  have good2: "scope_good (env_store env) (env_asOf env) pinned sc2"
    and out2: "search_outcome (grants_access env pinned (req_subjectId req)) g1 p2 g2" by simp_all
  note empty1 = path_ok_empty [of p1] and empty2 = path_ok_empty [of p2]
  consider (explicit) "path_steps p1 \<noteq> []" | (bound1) "path_steps p1 = []" "g_exceeded g1 \<noteq> None"
    | (bound2) "path_steps p1 = []" "g_exceeded g1 = None" "g_exceeded g2 \<noteq> None"
    | (none) "path_steps p1 = []" "g_exceeded g1 = None" "g_exceeded g2 = None" "path_steps p2 = []"
    | (found) "path_steps p1 = []" "g_exceeded g1 = None" "g_exceeded g2 = None" "path_steps p2 \<noteq> []"
    by blast
  then have "verdict env ?cenv pinned (req_subjectId req) (maxDepth (g_bounds g)) (g_exceeded g' \<noteq> None) d reason (path_relationships p) \<and>
    path_ok p \<and> scope_good (env_store env) (env_asOf env) pinned sc' \<and> g_bounds g' = g_bounds g \<and>
    g_graphSize g' = g_graphSize g \<and> guard_ok g'"
  proof cases
    case explicit
    with decided deny have eq: "d = Deny" "reason = ''DENY_EXPLICIT_OVERRIDE''" "p = p1" "g' = g1" "sc' = sc1"
      by (simp_all add: decide_on_graph_def)
    from out1 explicit empty1 fresh show ?thesis
      unfolding eq by (auto simp: search_outcome_def good1 intro: verdict.explicit)
  next
    case bound1
    with decided deny have eq: "d = Deny" "reason = ''DENY_TRAVERSAL_BOUND_EXCEEDED''" "p = empty_path" "g' = g1" "sc' = sc1"
      by (simp_all add: decide_on_graph_def)
    from out1 bound1 fresh show ?thesis
      unfolding eq by (auto simp: search_outcome_def good1 intro: verdict.bound)
  next
    case bound2
    with decided deny allow have eq: "d = Deny" "reason = ''DENY_TRAVERSAL_BOUND_EXCEEDED''" "p = p2" "g' = g2" "sc' = sc2"
      by (simp_all add: decide_on_graph_def)
    from out1 out2 bound2 fresh have "path_relationships p2 = []" by (simp add: search_outcome_def)
    with out1 out2 bound2 fresh show ?thesis
      unfolding eq by (auto simp: search_outcome_def good2 intro: verdict.bound)
  next
    case none
    with decided deny allow have eq: "d = Deny" "reason = ''DENY_DEFAULT_NO_RELATIONSHIP_PATH''" "p = empty_path" "g' = g2" "sc' = sc2"
      by (simp_all add: decide_on_graph_def)
    from out1 out2 none fresh empty1 empty2 show ?thesis
      unfolding eq by (auto simp: search_outcome_def good2 intro: verdict.no_path)
  next
    case found
    have no_deny: "\<forall>w. \<not> denies_access env pinned (req_subjectId req) w"
      using out1 found empty1 by (simp add: search_outcome_def)
    have grant: "grants_access env pinned (req_subjectId req) (path_relationships p2)"
      "length (path_relationships p2) \<le> maxDepth (g_bounds g)" "path_ok p2"
      using out1 out2 found empty2 by (simp_all add: search_outcome_def)
    note caveats = caveats_allow_iff [OF grant(3), of ?cenv]
    from decided deny allow found have eq: "p = p2" "g' = g2" "sc' = sc2"
      "(case evaluate_conditional_caveats ?cenv p2 of
          Caveats_deny x _ \<Rightarrow> d = Deny \<and> reason = x
        | Caveats_allow _ \<Rightarrow> d = Allow \<and> reason = ''ALLOW_VIA_RELATIONSHIP_PATH'')"
      by (auto simp: decide_on_graph_def split: caveat_result.splits)
    have "verdict env ?cenv pinned (req_subjectId req) (maxDepth (g_bounds g)) (g_exceeded g' \<noteq> None) d reason (path_relationships p)"
    proof (cases "evaluate_conditional_caveats ?cenv p2")
      case (Caveats_allow x)
      with caveats eq grant no_deny found show ?thesis by (auto intro: verdict.allowed)
    next
      case (Caveats_deny y x)
      with caveats have "\<exists>r \<in> set (path_relationships p2). \<not> step_allowed ?cenv r" by simp
      with Caveats_deny eq grant no_deny found show ?thesis by (auto intro: verdict.caveat)
    qed
    with out1 out2 fresh show ?thesis unfolding eq by (simp add: search_outcome_def good2)
  qed
  then show "verdict env ?cenv pinned (req_subjectId req) (maxDepth (g_bounds g)) (g_exceeded g' \<noteq> None) d reason (path_relationships p)"
    "path_ok p" "scope_good (env_store env) (env_asOf env) pinned sc'"
    "g_bounds g' = g_bounds g" "g_graphSize g' = g_graphSize g" "guard_ok g'" by simp_all
qed

subsection \<open>Engines a program can reach\<close>

definition engine_inv :: "engine \<Rightarrow> bool" where
  "engine_inv en \<longleftrightarrow> store_inv (en_store en) \<and> scopes_ok (en_store en) (en_scopes en) \<and>
     0 < maxVisitedNodes (no_traversalBounds (en_options en)) \<and>
     compile_policy_model (en_policyModel en) = Inr (en_compiled en)"

text \<open>
  The engine shares its store and its audit recorder with the rest of the program: between
  evaluations any operation of either may run.
\<close>

inductive engine_reachable :: "engine \<Rightarrow> bool" where
  created: "store_reachable st \<Longrightarrow> create_engine st options = Inr en \<Longrightarrow> engine_reachable en"
| evaluated: "engine_reachable en \<Longrightarrow> engine_reachable (snd (evaluate rt en req explained inp))"
| store_changed: "engine_reachable en \<Longrightarrow> store_step (en_store en) st \<Longrightarrow> engine_reachable (en\<lparr>en_store := st\<rparr>)"
| event_recorded: "engine_reachable en \<Longrightarrow> engine_reachable (en\<lparr>en_recorder := snd (record_event rt i t (en_recorder en))\<rparr>)"

text \<open>The pins an evaluation works with, and the arguments of its searches.\<close>

definition request_pins :: "runtime \<Rightarrow> engine \<Rightarrow> decision_request \<Rightarrow> evaluation_inputs \<Rightarrow> version_pins" where
  "request_pins rt en req inp = normalize_version_pins rt req (no_defaults (en_options en)) (ev_now inp)"

definition caveat_context :: "engine \<Rightarrow> decision_request \<Rightarrow> string \<Rightarrow> caveat_env" where
  "caveat_context en req now =
    \<lparr>ce_store = en_store en, ce_model = en_policyModel en, ce_request = req, ce_evaluatedAt = now\<rparr>"

lemma engine_search_env_simps [simp]:
  "env_store (engine_search_env en req pins s) = en_store en"
  "env_policy (engine_search_env en req pins s) = en_compiled en"
  "env_resourceId (engine_search_env en req pins s) = req_resourceId req"
  "env_action (engine_search_env en req pins s) = req_action req"
  "env_rootTenant (engine_search_env en req pins s) = tenant_id_for (Some s)"
  "env_asOf (engine_search_env en req pins s) = pin_asOf pins"
  by (simp_all add: engine_search_env_def)

lemma admitted_date: "admit_request st req now pins = Inr x \<Longrightarrow> date_parse (pin_asOf pins) \<noteq> None"
  by (auto simp: admit_request_def check_instant_def split: option.splits)

lemma context_refused:
  assumes "admit_request (en_store en) req now pins = Inl d"
    and "build_decision_context en req now pins = (c, scopes)"
  shows "dc_decision c = Deny" "dc_reasonCode c = ed_reasonCode d" "dc_pins c = ed_pins d" "dc_request c = req"
    "dc_path c = empty_path" "dc_evaluatedAt c = now" "scopes = en_scopes en"
    "dc_tenantId c = ed_tenantId d" "dc_classification c = ed_classification d"
  using assms by (auto simp: build_decision_context_def Let_def)

lemma context_admitted:
  assumes inv: "engine_inv en" and admitted: "admit_request (en_store en) req now pins = Inr (s, r)"
    and built: "build_decision_context en req now pins = (c, scopes)"
  shows "verdict (engine_search_env en req pins s) (caveat_context en req now) (pinned_tuple_version en req pins)
      (req_subjectId req) (maxDepth (no_traversalBounds (en_options en))) (tr_boundsExceeded (dc_traversal c) \<noteq> None)
      (dc_decision c) (dc_reasonCode c) (path_relationships (dc_path c))"
    "path_ok (dc_path c)" "scopes_ok (en_store en) scopes"
    "dc_pins c = pins" "dc_request c = req" "dc_evaluatedAt c = now"
    "dc_tenantId c = coalesce_opt (tenant_id_for (Some s)) (tenant_id_for (Some r))" "dc_classification c = Some (classification r)"
    "\<exists>g. guard_ok g \<and> dc_traversal c = guard_report g \<and> g_bounds g = no_traversalBounds (en_options en) \<and>
       g_graphSize g = graph_size_of (en_store en)"
proof -
  let ?env = "engine_search_env en req pins s" and ?pinned = "pinned_tuple_version en req pins"
  define g0 where "g0 = new_guard (no_traversalBounds (en_options en)) (graph_size_of (en_store en)) (req_subjectId req)"
  have date: "date_parse (pin_asOf pins) \<noteq> None" using admitted by (rule admitted_date)
  obtain k sc scopes0 where scope: "active_relationship_scope (en_store en) (en_scopes en) (pin_asOf pins) ?pinned = (k, sc, scopes0)"
    by (metis prod_cases3)
  obtain d reason p cs g sc' where decided: "decide_on_graph en req now ?env sc g0 = ((d, reason, p, cs), g, sc')"
    by (metis prod_cases4 prod_cases3)
  have ok: "scopes_ok (en_store en) (en_scopes en)" using inv by (simp add: engine_inv_def)
  note sound = active_scope_sound [OF ok date scope]
  have good: "scope_good (env_store ?env) (env_asOf ?env) ?pinned sc" using sound(2) by simp
  have fresh: "g_exceeded g0 = None" "guard_ok g0"
    using inv by (simp_all add: g0_def engine_inv_def new_guard_ok)
  note v = decide_verdict [OF good fresh decided]
  from built admitted scope decided
  have c: "c = \<lparr>dc_request = req, dc_evaluatedAt = now, dc_pins = pins,
      dc_tenantId = coalesce_opt (tenant_id_for (Some s)) (tenant_id_for (Some r)),
      dc_classification = Some (classification r), dc_reasonCode = reason, dc_decision = d,
      dc_path = p, dc_traversal = guard_report g, dc_constraints = cs\<rparr>"
    and scopes: "scopes = write_back k sc' scopes0"
    by (simp_all add: build_decision_context_def Let_def g0_def)
  show "verdict ?env (caveat_context en req now) ?pinned (req_subjectId req) (maxDepth (no_traversalBounds (en_options en)))
      (tr_boundsExceeded (dc_traversal c) \<noteq> None) (dc_decision c) (dc_reasonCode c) (path_relationships (dc_path c))"
    using v(1) by (simp add: c g0_def guard_report_def caveat_context_def)
  show "path_ok (dc_path c)" using v(2) by (simp add: c)
  show "scopes_ok (en_store en) scopes"
    unfolding scopes sound(1) using sound(3) date v(3) by (intro write_back_sound) simp_all
  show "\<exists>g. guard_ok g \<and> dc_traversal c = guard_report g \<and> g_bounds g = no_traversalBounds (en_options en) \<and>
       g_graphSize g = graph_size_of (en_store en)"
    using v(4-6) by (auto simp: c g0_def)
qed (use assms in \<open>auto simp: build_decision_context_def Let_def split: prod.splits\<close>)

lemma context_scopes_ok:
  assumes "engine_inv en" "build_decision_context en req now pins = (c, scopes)"
  shows "scopes_ok (en_store en) scopes"
proof (cases "admit_request (en_store en) req now pins")
  case (Inl d)
  with context_refused(7) [OF Inl assms(2)] assms(1) show ?thesis by (simp add: engine_inv_def)
next
  case (Inr x)
  then show ?thesis using context_admitted(3) [OF assms(1) _ assms(2)] by (cases x) blast
qed

subsection \<open>One evaluation\<close>

lemma result_fields:
  assumes "to_decision_result rt c explained perf = Inr res"
  shows "decision res = dc_decision c" "reasonCode res = dc_reasonCode c" "res_asOf res = pin_asOf (dc_pins c)"
    "relationshipPath res = (if explained then path_steps (dc_path c) else [])"
    "res_subjectId res = req_subjectId (dc_request c)" "res_action res = req_action (dc_request c)"
    "res_resourceId res = req_resourceId (dc_request c)" "evaluatedAt res = dc_evaluatedAt c"
    "res_policyVersion res = pin_policyVersion (dc_pins c)" "res_modelVersion res = pin_modelVersion (dc_pins c)"
    "res_relationshipVersion res = pin_relationshipVersion (dc_pins c)" "res_tupleVersion res = pin_tupleVersion (dc_pins c)"
    "res_contextVersion res = pin_contextVersion (dc_pins c)"
  using assms unfolding to_decision_result_def by (auto simp del: append.simps split: sum.splits)

lemma evaluate_returns:
  assumes "evaluate rt en req explained inp = (Inr res, en')"
    and "build_decision_context en req (ev_now inp) (request_pins rt en req inp) = (c, scopes)"
  obtains perf e p where "to_decision_result rt c explained perf = Inr res"
    "e = fst (record_event rt (decision_audit_input en inp res p) (ev_now inp) (en_recorder en))"
    "p = decision_audit_payload res explained (dc_traversal c) perf"
    "en' = en\<lparr>en_store := record_audit_event e (record_decision res (en_store en)),
       en_recorder := en_recorder en @ [e], en_scopes := scopes\<rparr>"
proof -
  define perf where "perf = create_performance_report (max 0 (ev_finishedAt inp - ev_startedAt inp))
    (latency_targets_for_graph_size (tr_graphSize (dc_traversal c)))"
  show ?thesis
  proof (cases "to_decision_result rt c explained perf")
    case (Inl x)
    with assms show ?thesis by (simp add: evaluate_def request_pins_def Let_def perf_def)
  next
    case (Inr r)
    obtain e es where rec: "record_event rt (decision_audit_input en inp r (decision_audit_payload r explained (dc_traversal c) perf))
        (ev_now inp) (en_recorder en) = (e, es)" by (metis prod.exhaust)
    moreover have "es = en_recorder en @ [e]" using record_event_appends [of rt _ _ "en_recorder en"] rec by (metis fst_conv snd_conv)
    ultimately have "r = res \<and> en' = en\<lparr>en_store := record_audit_event e (record_decision res (en_store en)),
       en_recorder := en_recorder en @ [e], en_scopes := scopes\<rparr>"
      using assms Inr by (auto simp: evaluate_def request_pins_def Let_def perf_def)
    with that [OF Inr [THEN trans]] Inr rec show ?thesis
      using that [of perf e "decision_audit_payload res explained (dc_traversal c) perf"] by auto
  qed
qed

lemma evaluate_throws:
  assumes "evaluate rt en req explained inp = (Inl x, en')"
    and "build_decision_context en req (ev_now inp) (request_pins rt en req inp) = (c, scopes)"
  shows "en' = en\<lparr>en_scopes := scopes\<rparr>"
  using assms unfolding evaluate_def request_pins_def [symmetric] Let_def
  by (simp split: sum.splits prod.splits)

lemma engine_inv_evaluate:
  assumes inv: "engine_inv en" shows "engine_inv (snd (evaluate rt en req explained inp))"
proof -
  obtain x en' where ev: "evaluate rt en req explained inp = (x, en')" by (metis prod.exhaust)
  obtain c scopes where built: "build_decision_context en req (ev_now inp) (request_pins rt en req inp) = (c, scopes)"
    by (metis prod.exhaust)
  have ok: "scopes_ok (en_store en) scopes" using context_scopes_ok [OF inv built] .
  show ?thesis
  proof (cases x)
    case (Inl y)
    with evaluate_throws [of rt en req explained inp y en' c scopes] ev built ok inv show ?thesis by (simp add: engine_inv_def)
  next
    case (Inr res)
    with ev obtain e where en': "en' = en\<lparr>en_store := record_audit_event e (record_decision res (en_store en)),
       en_recorder := en_recorder en @ [e], en_scopes := scopes\<rparr>"
      using evaluate_returns [of rt en req explained inp res en' c scopes] built by metis
    have "store_step (en_store en) (record_decision res (en_store en))"
      "store_step (record_decision res (en_store en)) (record_audit_event e (record_decision res (en_store en)))"
      by (rule store_step.record_decision store_step.record_audit_event)+
    then show ?thesis
      using inv ok ev en' store_step_inv scopes_ok_step by (auto simp: engine_inv_def)
  qed
qed

lemma created_inv:
  assumes "store_inv st" "create_engine st options = Inr en"
  shows "engine_inv en"
  using assms merged_bounds_positive [of default_traversal_bounds "eo_traversalBounds options"]
  by (auto simp: create_engine_def engine_inv_def Let_def normalize_options_def default_traversal_bounds_def split: sum.splits)

lemma engine_reachable_inv: "engine_reachable en \<Longrightarrow> engine_inv en"
proof (induction rule: engine_reachable.induct)
  case (created st options en)
  then show ?case using created_inv reachable_inv by blast
next
  case (evaluated en rt req explained inp)
  then show ?case using engine_inv_evaluate by blast
next
  case (store_changed en st)
  then show ?case using store_step_inv scopes_ok_step by (auto simp: engine_inv_def)
qed (simp add: engine_inv_def)

text \<open>
  The shape of what an evaluation returns: either the request is refused before the graph is
  looked at, or its result is a verdict.
\<close>

lemma evaluation_refused:
  assumes "engine_inv en" and ev: "evaluate rt en req explained inp = (Inr res, en')"
    and refused: "admit_request (en_store en) req (ev_now inp) (request_pins rt en req inp) = Inl d"
  shows "decision res = Deny" "reasonCode res = ed_reasonCode d" "relationshipPath res = []" "res_asOf res = pin_asOf (ed_pins d)"
proof -
  obtain c scopes where built: "build_decision_context en req (ev_now inp) (request_pins rt en req inp) = (c, scopes)"
    by (metis prod.exhaust)
  from evaluate_returns [OF ev built] obtain perf where res: "to_decision_result rt c explained perf = Inr res" by metis
  note fields = result_fields [OF res] and c = context_refused [OF refused built]
  show "decision res = Deny" "reasonCode res = ed_reasonCode d" "relationshipPath res = []" "res_asOf res = pin_asOf (ed_pins d)"
    using fields c by simp_all
qed

lemma evaluation_verdict:
  assumes inv: "engine_inv en" and ev: "evaluate rt en req explained inp = (Inr res, en')"
    and admitted: "admit_request (en_store en) req (ev_now inp) (request_pins rt en req inp) = Inr (s, r)"
  obtains p exceeded where
    "verdict (engine_search_env en req (request_pins rt en req inp) s) (caveat_context en req (ev_now inp))
       (pinned_tuple_version en req (request_pins rt en req inp)) (req_subjectId req)
       (maxDepth (no_traversalBounds (en_options en))) exceeded (decision res) (reasonCode res) p"
    "relationshipPath res = (if explained then map to_path_step p else [])"
proof -
  obtain c scopes where built: "build_decision_context en req (ev_now inp) (request_pins rt en req inp) = (c, scopes)"
    by (metis prod.exhaust)
  from evaluate_returns [OF ev built] obtain perf where res: "to_decision_result rt c explained perf = Inr res" by metis
  note fields = result_fields [OF res] and c = context_admitted [OF inv admitted built]
  show thesis
    by (rule that [of "tr_boundsExceeded (dc_traversal c) \<noteq> None" "path_relationships (dc_path c)"])
      (use fields c in \<open>simp_all add: path_ok_def\<close>)
qed

end
