(* ===== verification/Provisioning_Records.thy ===== *)
theory Provisioning_Records
  imports Engine_State
begin

text \<open>
  The JavaScript objects that the records of \<open>packages/core/src/domain/provisioning.ts\<close> are when
  they become audit payloads, with their keys in the order of the interfaces and the constant
  fields the records leave out.

  The runtime compares approvals and controls by \<open>JSON.stringify\<close>. Two such texts with the keys
  in the same order are equal exactly when the values are, so those comparisons are equality of
  the records; an optional value compared after \<open>?? null\<close> is equality of the options.
\<close>

subsection \<open>The string literals\<close>

fun mode_text :: "provisioning_mode \<Rightarrow> string" where
  "mode_text Dry_run = ''dry_run''"
| "mode_text Enforcement = ''enforcement''"

fun operation_text :: "provisioning_operation \<Rightarrow> string" where
  "operation_text Op_grant = ''grant''"
| "operation_text Op_revoke = ''revoke''"
| "operation_text Op_expire = ''expire''"
| "operation_text Op_repair = ''repair''"
| "operation_text Op_verify = ''verify''"

fun step_status_text :: "provisioning_step_status \<Rightarrow> string" where
  "step_status_text Step_planned = ''planned''"
| "step_status_text Step_skipped = ''skipped''"
| "step_status_text Step_verified = ''verified''"
| "step_status_text Step_applied = ''applied''"
| "step_status_text Step_failed = ''failed''"

fun verification_status_text :: "provisioning_verification_status \<Rightarrow> string" where
  "verification_status_text Ver_pending = ''pending''"
| "verification_status_text Ver_verified = ''verified''"
| "verification_status_text Ver_skipped = ''skipped''"
| "verification_status_text Ver_failed = ''failed''"

fun compensation_status_text :: "provisioning_compensation_status \<Rightarrow> string" where
  "compensation_status_text Comp_planned = ''planned''"
| "compensation_status_text Comp_not_required = ''not_required''"
| "compensation_status_text Comp_skipped = ''skipped''"
| "compensation_status_text Comp_failed = ''failed''"

fun plan_status_text :: "plan_status \<Rightarrow> string" where
  "plan_status_text Plan_planned = ''planned''"
| "plan_status_text Plan_approved = ''approved''"
| "plan_status_text Plan_applied = ''applied''"
| "plan_status_text Plan_failed = ''failed''"
| "plan_status_text Plan_rolled_back = ''rolled_back''"

fun provisioning_job_status_text :: "job_status \<Rightarrow> string" where
  "provisioning_job_status_text Job_queued = ''queued''"
| "provisioning_job_status_text Job_running = ''running''"
| "provisioning_job_status_text Job_completed = ''completed''"
| "provisioning_job_status_text Job_failed = ''failed''"
| "provisioning_job_status_text Job_rolled_back = ''rolled_back''"

fun readiness_status_text :: "enforcement_readiness_status \<Rightarrow> string" where
  "readiness_status_text Readiness_ready = ''ready''"
| "readiness_status_text Readiness_blocked = ''blocked''"

fun check_status_text :: "check_status \<Rightarrow> string" where
  "check_status_text Check_pass = ''pass''"
| "check_status_text Check_warn = ''warn''"
| "check_status_text Check_fail = ''fail''"

subsection \<open>The objects\<close>

definition opt_json :: "('a \<Rightarrow> js) \<Rightarrow> 'a option \<Rightarrow> js" where
  "opt_json f v = (case v of None \<Rightarrow> JUndefined | Some x \<Rightarrow> f x)"

definition verification_js :: "provisioning_verification \<Rightarrow> js" where
  "verification_js v = JObj
    [(''status'', JStr (verification_status_text (ver_status v))),
     (''method'', JStr (ver_method v)),
     (''expectedState'', JObj (ver_expectedState v)),
     (''readbackState'', opt_obj (ver_readbackState v)),
     (''checkedAt'', opt_str (ver_checkedAt v)),
     (''message'', opt_str (ver_message v))]"

definition compensation_js :: "provisioning_compensation \<Rightarrow> js" where
  "compensation_js c = JObj
    [(''operation'', JStr (operation_text (comp_operation c))),
     (''reason'', JStr (comp_reason c)),
     (''status'', JStr (compensation_status_text (comp_status c))),
     (''idempotencyKey'', JStr (comp_idempotencyKey c))]"

definition approval_js :: "provisioning_approval \<Rightarrow> js" where
  "approval_js a = JObj
    [(''decision'', JStr ''approved''),
     (''approverId'', JStr (approverId a)),
     (''changeTicket'', JStr (changeTicket a)),
     (''approvedAt'', JStr (approvedAt a)),
     (''expiresAt'', opt_str (approval_expiresAt a)),
     (''reason'', opt_str (approval_reason a))]"

definition control_js :: "enforcement_control \<Rightarrow> js" where
  "control_js c = JObj
    [(''syntheticOnly'', JBool (syntheticOnly c)),
     (''liveProviderWrites'', JBool (liveProviderWrites c)),
     (''incidentMode'', JBool (incidentMode c)),
     (''breakGlass'', JBool (breakGlass c))]"

definition action_js :: "provisioning_action \<Rightarrow> js" where
  "action_js a = JObj
    [(''actionId'', JStr (act_actionId a)),
     (''operation'', JStr (operation_text (act_operation a))),
     (''targetPlatform'', JStr (act_targetPlatform a)),
     (''targetObjectId'', JStr (act_targetObjectId a)),
     (''requestedState'', JObj (act_requestedState a)),
     (''previousState'', opt_obj (act_previousState a)),
     (''dryRun'', JBool (act_dryRun a)),
     (''idempotencyKey'', JStr (act_idempotencyKey a)),
     (''status'', JStr (step_status_text (act_status a))),
     (''verification'', verification_js (act_verification a)),
     (''compensation'', opt_json compensation_js (act_compensation a))]"

definition entity_fields :: "'a versioned_entity_scheme \<Rightarrow> json_record" where
  "entity_fields e =
    [(''version'', JStr (version e)),
     (''createdAt'', JStr (createdAt e)),
     (''updatedAt'', opt_str (updatedAt e))]"

definition plan_fields :: "provisioning_plan \<Rightarrow> json_record" where
  "plan_fields p =
    [(''id'', JStr (entity_id p)),
     (''sourceDecisionId'', opt_str (plan_sourceDecisionId p)),
     (''idempotencyKey'', opt_str (plan_idempotencyKey p)),
     (''connectorId'', JStr (plan_connectorId p)),
     (''subjectId'', JStr (plan_subjectId p)),
     (''resourceId'', JStr (plan_resourceId p)),
     (''action'', JStr (plan_action p)),
     (''mode'', JStr (mode_text (plan_mode p))),
     (''status'', JStr (plan_status_text (plan_status p))),
     (''actions'', JArr (map action_js (plan_actions p))),
     (''approval'', opt_json approval_js (plan_approval p)),
     (''control'', opt_json control_js (plan_control p)),
     (''readinessReportId'', opt_str (plan_readinessReportId p))] @ entity_fields p"

definition action_result_js :: "provisioning_action_result \<Rightarrow> js" where
  "action_result_js r = JObj
    [(''actionId'', JStr (result_actionId r)),
     (''operation'', JStr (operation_text (result_operation r))),
     (''status'', JStr (step_status_text (result_status r))),
     (''dryRun'', JBool (result_dryRun r)),
     (''idempotencyKey'', JStr (result_idempotencyKey r)),
     (''message'', JStr (result_message r)),
     (''verification'', verification_js (result_verification r)),
     (''compensation'', opt_json compensation_js (result_compensation r))]"

definition job_fields :: "provisioning_job \<Rightarrow> json_record" where
  "job_fields j =
    [(''id'', JStr (entity_id j)),
     (''planId'', JStr (job_planId j)),
     (''connectorId'', JStr (job_connectorId j)),
     (''mode'', JStr (mode_text (job_mode j))),
     (''dryRun'', JBool (job_dryRun j)),
     (''status'', JStr (provisioning_job_status_text (job_status j))),
     (''approverId'', JStr (job_approverId j)),
     (''idempotencyKey'', JStr (job_idempotencyKey j)),
     (''actionResults'', JArr (map action_result_js (job_actionResults j))),
     (''verification'', verification_js (job_verification j)),
     (''auditEventIds'', JArr (map JStr (job_auditEventIds j))),
     (''approval'', opt_json approval_js (job_approval j)),
     (''control'', opt_json control_js (job_control j)),
     (''startedAt'', JStr (job_startedAt j)),
     (''completedAt'', opt_str (job_completedAt j))] @ entity_fields j"

definition readiness_check_js :: "readiness_check \<Rightarrow> js" where
  "readiness_check_js c = JObj
    [(''name'', JStr (check_name c)),
     (''status'', JStr (check_status_text (check_status_of c))),
     (''message'', JStr (check_message c)),
     (''evidence'', opt_obj (check_evidence c))]"

definition report_fields :: "enforcement_readiness_report \<Rightarrow> json_record" where
  "report_fields r =
    [(''id'', JStr (entity_id r)),
     (''connectorId'', JStr (rep_connectorId r)),
     (''provider'', JStr (rep_provider r)),
     (''tenantBoundary'', JStr (rep_tenantBoundary r)),
     (''mode'', JStr ''enforcement''),
     (''status'', JStr (readiness_status_text (rep_status r))),
     (''checkedAt'', JStr (rep_checkedAt r)),
     (''control'', control_js (rep_control r)),
     (''checks'', JArr (map readiness_check_js (rep_checks r))),
     (''requiredApproverRole'', JStr (rep_requiredApproverRole r)),
     (''changeTicketPattern'', JStr (rep_changeTicketPattern r)),
     (''liveProviderWritesAllowed'', JBool (rep_liveProviderWritesAllowed r)),
     (''auditEventIds'', JArr (map JStr (rep_auditEventIds r)))] @ entity_fields r"

end
