(* ===== verification/Drift_Lifecycle.thy ===== *)
theory Drift_Lifecycle
  imports Provisioning_Records
begin

text \<open>
  \<open>packages/core/src/drift-lifecycle.ts\<close>: the defaults of a drift finding, its lifecycle state, its
  auto-repair policy and its reconciliation schedule. A connector may report a finding without the
  lifecycle fields, so the input is a record in which those are optional.
\<close>

subsection \<open>Findings as reported\<close>

record reported_finding = versioned_entity +
  raw_resourceId :: canonical_id
  raw_subjectId :: canonical_id
  raw_nativeGrantId :: "canonical_id option"
  raw_nativeAccess :: string
  raw_intendedAccess :: string
  raw_severity :: drift_severity
  raw_lifecycleState :: "drift_lifecycle_state option"
  raw_ownerId :: "canonical_id option"
  raw_assigneeId :: "canonical_id option"
  raw_detectedAt :: iso_date_time
  raw_exceptionExpiresAt :: "iso_date_time option"
  raw_sourceConnectorId :: string
  raw_recommendedAction :: drift_recommended_action
  raw_status :: drift_finding_status
  raw_schedule :: "reconciliation_schedule option"
  raw_hookEvidence :: "drift_hook_evidence list option"
  raw_remediation :: "drift_remediation option"
  raw_autoRepairPolicy :: "drift_auto_repair_policy option"

definition report_of :: "drift_finding \<Rightarrow> reported_finding" where
  "report_of f =
    \<lparr>entity_id = entity_id f, version = version f, createdAt = createdAt f, updatedAt = updatedAt f,
     raw_resourceId = drift_resourceId f, raw_subjectId = drift_subjectId f, raw_nativeGrantId = drift_nativeGrantId f,
     raw_nativeAccess = drift_nativeAccess f, raw_intendedAccess = drift_intendedAccess f,
     raw_severity = drift_severity f, raw_lifecycleState = Some (drift_lifecycleState f),
     raw_ownerId = Some (drift_ownerId f), raw_assigneeId = Some (drift_assigneeId f),
     raw_detectedAt = drift_detectedAt f, raw_exceptionExpiresAt = drift_exceptionExpiresAt f,
     raw_sourceConnectorId = drift_sourceConnectorId f, raw_recommendedAction = drift_recommendedAction f,
     raw_status = drift_status f, raw_schedule = Some (drift_schedule f),
     raw_hookEvidence = Some (drift_hookEvidence f), raw_remediation = Some (drift_remediation f),
     raw_autoRepairPolicy = Some (drift_autoRepairPolicy f)\<rparr>"

text \<open>\<open>Partial<ReconciliationScheduleEvidence>\<close> and \<open>Partial<DriftAutoRepairPolicy>\<close>.\<close>

record schedule_patch =
  sp_cadence :: "schedule_cadence option"
  sp_scheduledAt :: "iso_date_time option"
  sp_windowStart :: "iso_date_time option"
  sp_windowEnd :: "iso_date_time option"
  sp_nextRunAt :: "iso_date_time option"
  sp_gracePeriodHours :: "int option"
  sp_overdue :: "bool option"

record repair_policy_patch =
  rp_enabled :: "bool option"
  rp_allowedActions :: "drift_recommended_action list option"
  rp_maxSeverity :: "drift_severity option"
  rp_requireApproval :: "bool option"
  rp_requireConnectorReadiness :: "bool option"
  rp_liveProviderWrites :: "bool option"
  rp_reason :: "string option"

record lifecycle_options =
  lo_now :: "string option"
  lo_trigger :: reconciliation_trigger
  lo_schedule :: schedule_patch
  lo_ownerId :: "canonical_id option"
  lo_assigneeId :: "canonical_id option"
  lo_nativeGrantId :: "canonical_id option"
  lo_hookEvidence :: "drift_hook_evidence list option"
  lo_autoRepairPolicy :: repair_policy_patch

definition no_schedule_patch :: schedule_patch where
  "no_schedule_patch = \<lparr>sp_cadence = None, sp_scheduledAt = None, sp_windowStart = None, sp_windowEnd = None,
     sp_nextRunAt = None, sp_gracePeriodHours = None, sp_overdue = None\<rparr>"

definition no_repair_patch :: repair_policy_patch where
  "no_repair_patch = \<lparr>rp_enabled = None, rp_allowedActions = None, rp_maxSeverity = None, rp_requireApproval = None,
     rp_requireConnectorReadiness = None, rp_liveProviderWrites = None, rp_reason = None\<rparr>"

definition no_lifecycle_options :: lifecycle_options where
  "no_lifecycle_options = \<lparr>lo_now = None, lo_trigger = Manual_trigger, lo_schedule = no_schedule_patch,
     lo_ownerId = None, lo_assigneeId = None, lo_nativeGrantId = None, lo_hookEvidence = None,
     lo_autoRepairPolicy = no_repair_patch\<rparr>"

text \<open>A schedule passed on as the partial schedule of another call.\<close>

definition whole_schedule :: "reconciliation_schedule \<Rightarrow> schedule_patch" where
  "whole_schedule s = \<lparr>sp_cadence = Some (cadence s), sp_scheduledAt = Some (scheduledAt s),
     sp_windowStart = windowStart s, sp_windowEnd = windowEnd s, sp_nextRunAt = nextRunAt s,
     sp_gracePeriodHours = Some (gracePeriodHours s), sp_overdue = Some (overdue s)\<rparr>"

subsection \<open>Severity\<close>

fun severity_rank :: "drift_severity \<Rightarrow> nat" where
  "severity_rank Drift_low = 1"
| "severity_rank Drift_medium = 2"
| "severity_rank Drift_high = 3"
| "severity_rank Drift_critical = 4"

definition drift_severity_allowed :: "drift_severity \<Rightarrow> drift_severity \<Rightarrow> bool" where
  "drift_severity_allowed s most \<longleftrightarrow> severity_rank s \<le> severity_rank most"

definition default_drift_owner :: "drift_severity \<Rightarrow> canonical_id" where
  "default_drift_owner s =
     (if s = Drift_critical \<or> s = Drift_high then ''role:security-operations'' else ''role:resource-owner'')"

definition default_drift_assignee :: "drift_severity \<Rightarrow> canonical_id" where
  "default_drift_assignee s =
     (if s = Drift_critical then ''role:incident-commander'' else ''role:security-engineer'')"

definition default_auto_repair_policy :: "drift_severity \<Rightarrow> drift_recommended_action \<Rightarrow> drift_auto_repair_policy" where
  "default_auto_repair_policy s act =
    \<lparr>repair_enabled = False,
     repair_allowedActions = (if act = Do_repair \<or> act = Do_revoke then [act] else []),
     repair_maxSeverity = (if s = Drift_critical then Drift_high else s),
     repair_requireApproval = True, repair_requireConnectorReadiness = True, repair_liveProviderWrites = False,
     repair_reason = Some ''Auto-repair remains disabled until approval, connector readiness, and live-write policy controls explicitly allow it.''\<rparr>"

text \<open>
  \<open>{...defaults, ...policy, ...patch}\<close>; a policy without a \<open>reason\<close> keeps the default one.
\<close>

definition merge_repair_policy ::
  "drift_auto_repair_policy \<Rightarrow> drift_auto_repair_policy option \<Rightarrow> repair_policy_patch \<Rightarrow> drift_auto_repair_policy" where
  "merge_repair_policy defaults policy patch =
     (let base = (case policy of None \<Rightarrow> defaults
                  | Some p \<Rightarrow> p\<lparr>repair_reason := coalesce_opt (repair_reason p) (repair_reason defaults)\<rparr>)
      in \<lparr>repair_enabled = coalesce (rp_enabled patch) (repair_enabled base),
          repair_allowedActions = coalesce (rp_allowedActions patch) (repair_allowedActions base),
          repair_maxSeverity = coalesce (rp_maxSeverity patch) (repair_maxSeverity base),
          repair_requireApproval = coalesce (rp_requireApproval patch) (repair_requireApproval base),
          repair_requireConnectorReadiness =
            coalesce (rp_requireConnectorReadiness patch) (repair_requireConnectorReadiness base),
          repair_liveProviderWrites = coalesce (rp_liveProviderWrites patch) (repair_liveProviderWrites base),
          repair_reason = coalesce_opt (rp_reason patch) (repair_reason base)\<rparr>)"

subsection \<open>The schedule\<close>

definition hours_ms :: "int \<Rightarrow> int" where
  "hours_ms h = h * 3600000"

definition default_grace_period_hours :: "schedule_cadence \<Rightarrow> int" where
  "default_grace_period_hours c =
     (if c = Cadence_hourly then 2
      else if c = Cadence_weekly then 48
      else if c = Cadence_manual then 0 else 24)"

definition cadence_hours :: "schedule_cadence \<Rightarrow> int" where
  "cadence_hours c = (if c = Cadence_hourly then 1 else if c = Cadence_daily then 24 else 24 * 7)"

text \<open>Adding hours in UTC adds milliseconds; \<open>toISOString\<close> throws on an invalid or unrepresentable date.\<close>

definition next_scheduled_run :: "string \<Rightarrow> schedule_cadence \<Rightarrow> range_error + string option" where
  "next_scheduled_run scheduled c =
     (if c = Cadence_manual then Inr None
      else case add_milliseconds scheduled (hours_ms (cadence_hours c)) of
             None \<Rightarrow> Inl Invalid_time_value
           | Some s \<Rightarrow> Inr (Some s))"

definition is_schedule_overdue :: "string \<Rightarrow> string option \<Rightarrow> int \<Rightarrow> bool" where
  "is_schedule_overdue now nextRun grace =
     (if \<not> truthy nextRun then False
      else case (Option.bind (date_parse (the nextRun)) (\<lambda>t. time_clip (t + hours_ms grace)), date_parse now) of
             (Some due, Some n) \<Rightarrow> due < n
           | _ \<Rightarrow> False)"

definition build_reconciliation_schedule ::
  "string \<Rightarrow> reconciliation_trigger \<Rightarrow> schedule_patch \<Rightarrow> range_error + reconciliation_schedule" where
  "build_reconciliation_schedule now trigger patch =
     (let c = coalesce (sp_cadence patch) (if trigger = Scheduled_trigger then Cadence_daily else Cadence_manual);
          scheduled = coalesce (sp_scheduledAt patch) now;
          grace = coalesce (sp_gracePeriodHours patch) (default_grace_period_hours c)
      in bind_result
           (case sp_nextRunAt patch of Some t \<Rightarrow> Inr (Some t) | None \<Rightarrow> next_scheduled_run scheduled c)
           (\<lambda>nextRun. Inr
             \<lparr>cadence = c, scheduledAt = scheduled, windowStart = sp_windowStart patch, windowEnd = sp_windowEnd patch,
              nextRunAt = nextRun, gracePeriodHours = grace,
              overdue = coalesce (sp_overdue patch) (is_schedule_overdue now nextRun grace)\<rparr>))"

subsection \<open>The lifecycle\<close>

definition exception_lapsed :: "string option \<Rightarrow> string \<Rightarrow> bool" where
  "exception_lapsed expires now \<longleftrightarrow>
     truthy expires \<and>
     (case (date_parse (the expires), date_parse now) of (Some e, Some n) \<Rightarrow> e \<le> n | _ \<Rightarrow> False)"

definition resolve_drift_lifecycle_state :: "reported_finding \<Rightarrow> string \<Rightarrow> drift_lifecycle_state" where
  "resolve_drift_lifecycle_state f now =
     (case raw_lifecycleState f of
        Some s \<Rightarrow> s
      | None \<Rightarrow>
          if exception_lapsed (raw_exceptionExpiresAt f) now then Ds_expired_exception
          else if raw_status f = Df_accepted then Ds_accepted
          else if raw_status f = Df_repairing then Ds_repairing
          else if raw_status f = Df_resolved then Ds_resolved
          else Ds_open)"

definition enrich_drift_finding_lifecycle :: "reported_finding \<Rightarrow> lifecycle_options \<Rightarrow> range_error + drift_finding" where
  "enrich_drift_finding_lifecycle f options =
     (let now = coalesce (lo_now options) (raw_detectedAt f)
      in bind_result
           (case raw_schedule f of
              Some s \<Rightarrow> Inr s
            | None \<Rightarrow> build_reconciliation_schedule now (lo_trigger options) (lo_schedule options))
           (\<lambda>schedule. Inr
             \<lparr>entity_id = entity_id f, version = version f, createdAt = createdAt f, updatedAt = updatedAt f,
              drift_resourceId = raw_resourceId f, drift_subjectId = raw_subjectId f,
              drift_nativeGrantId = coalesce_opt (raw_nativeGrantId f) (lo_nativeGrantId options),
              drift_nativeAccess = raw_nativeAccess f, drift_intendedAccess = raw_intendedAccess f,
              drift_severity = raw_severity f,
              drift_lifecycleState = resolve_drift_lifecycle_state f now,
              drift_ownerId = coalesce (coalesce_opt (raw_ownerId f) (lo_ownerId options)) (default_drift_owner (raw_severity f)),
              drift_assigneeId =
                coalesce (coalesce_opt (raw_assigneeId f) (lo_assigneeId options)) (default_drift_assignee (raw_severity f)),
              drift_detectedAt = raw_detectedAt f, drift_exceptionExpiresAt = raw_exceptionExpiresAt f,
              drift_sourceConnectorId = raw_sourceConnectorId f, drift_recommendedAction = raw_recommendedAction f,
              drift_status = raw_status f, drift_schedule = schedule,
              drift_hookEvidence = coalesce (coalesce_opt (raw_hookEvidence f) (lo_hookEvidence options)) [],
              drift_remediation = coalesce (raw_remediation f)
                \<lparr>remediation_approval = None, remediation_approvedAt = None, remediation_dryRunRepair = None\<rparr>,
              drift_autoRepairPolicy =
                merge_repair_policy (default_auto_repair_policy (raw_severity f) (raw_recommendedAction f))
                  (raw_autoRepairPolicy f) (lo_autoRepairPolicy options)\<rparr>))"

subsection \<open>Audit payloads\<close>

fun severity_text :: "drift_severity \<Rightarrow> string" where
  "severity_text Drift_low = ''low''"
| "severity_text Drift_medium = ''medium''"
| "severity_text Drift_high = ''high''"
| "severity_text Drift_critical = ''critical''"

fun lifecycle_state_text :: "drift_lifecycle_state \<Rightarrow> string" where
  "lifecycle_state_text Ds_open = ''open''"
| "lifecycle_state_text Ds_triaged = ''triaged''"
| "lifecycle_state_text Ds_accepted = ''accepted''"
| "lifecycle_state_text Ds_remediation_pending = ''remediation_pending''"
| "lifecycle_state_text Ds_repairing = ''repairing''"
| "lifecycle_state_text Ds_resolved = ''resolved''"
| "lifecycle_state_text Ds_expired_exception = ''expired_exception''"

fun drift_status_text :: "drift_finding_status \<Rightarrow> string" where
  "drift_status_text Df_open = ''open''"
| "drift_status_text Df_accepted = ''accepted''"
| "drift_status_text Df_repairing = ''repairing''"
| "drift_status_text Df_resolved = ''resolved''"

fun recommended_action_text :: "drift_recommended_action \<Rightarrow> string" where
  "recommended_action_text Do_revoke = ''revoke''"
| "recommended_action_text Do_exception = ''exception''"
| "recommended_action_text Do_repair = ''repair''"
| "recommended_action_text Do_review = ''review''"

fun trigger_text :: "reconciliation_trigger \<Rightarrow> string" where
  "trigger_text Manual_trigger = ''manual''"
| "trigger_text Scheduled_trigger = ''scheduled''"

fun cadence_text :: "schedule_cadence \<Rightarrow> string" where
  "cadence_text Cadence_manual = ''manual''"
| "cadence_text Cadence_hourly = ''hourly''"
| "cadence_text Cadence_daily = ''daily''"
| "cadence_text Cadence_weekly = ''weekly''"

fun hook_system_text :: "hook_system \<Rightarrow> string" where
  "hook_system_text Hook_ticket = ''ticket''"
| "hook_system_text Hook_siem = ''siem''"

fun hook_status_text :: "hook_status \<Rightarrow> string" where
  "hook_status_text Hook_pending = ''pending''"
| "hook_status_text Hook_linked = ''linked''"
| "hook_status_text Hook_notified = ''notified''"
| "hook_status_text Hook_failed = ''failed''"

fun repair_status_text :: "dry_run_repair_status \<Rightarrow> string" where
  "repair_status_text Repair_planned = ''planned''"
| "repair_status_text Repair_blocked = ''blocked''"
| "repair_status_text Repair_verified = ''verified''"

definition schedule_js :: "reconciliation_schedule \<Rightarrow> js" where
  "schedule_js s = JObj
    [(''cadence'', JStr (cadence_text (cadence s))),
     (''scheduledAt'', JStr (scheduledAt s)),
     (''windowStart'', opt_str (windowStart s)),
     (''windowEnd'', opt_str (windowEnd s)),
     (''nextRunAt'', opt_str (nextRunAt s)),
     (''gracePeriodHours'', JNum (of_int (gracePeriodHours s))),
     (''overdue'', JBool (overdue s))]"

definition hook_js :: "drift_hook_evidence \<Rightarrow> js" where
  "hook_js h = JObj
    [(''system'', JStr (hook_system_text (hook_system h))),
     (''referenceId'', JStr (hook_referenceId h)),
     (''status'', JStr (hook_status_text (hook_status h))),
     (''recordedAt'', JStr (hook_recordedAt h)),
     (''url'', opt_str (hook_url h)),
     (''evidence'', opt_obj (hook_evidence h))]"

definition repair_policy_js :: "drift_auto_repair_policy \<Rightarrow> js" where
  "repair_policy_js p = JObj
    [(''enabled'', JBool (repair_enabled p)),
     (''allowedActions'', JArr (map (JStr \<circ> recommended_action_text) (repair_allowedActions p))),
     (''maxSeverity'', JStr (severity_text (repair_maxSeverity p))),
     (''requireApproval'', JBool (repair_requireApproval p)),
     (''requireConnectorReadiness'', JBool (repair_requireConnectorReadiness p)),
     (''liveProviderWrites'', JBool (repair_liveProviderWrites p)),
     (''reason'', opt_str (repair_reason p))]"

definition dry_run_repair_js :: "dry_run_repair_evidence \<Rightarrow> js" where
  "dry_run_repair_js d = JObj
    [(''planId'', JStr (dry_planId d)),
     (''mode'', JStr ''dry_run''),
     (''action'', JStr (recommended_action_text (dry_action d))),
     (''status'', JStr (repair_status_text (dry_status d))),
     (''providerWrite'', JBool False),
     (''generatedAt'', JStr (dry_generatedAt d)),
     (''idempotencyKey'', JStr (dry_idempotencyKey d)),
     (''evidence'', JObj (dry_evidence d))]"

definition remediation_js :: "drift_remediation \<Rightarrow> js" where
  "remediation_js r = JObj
    [(''approval'', opt_json approval_js (remediation_approval r)),
     (''approvedAt'', opt_str (remediation_approvedAt r)),
     (''dryRunRepair'', opt_json dry_run_repair_js (remediation_dryRunRepair r))]"

definition drift_fields :: "drift_finding \<Rightarrow> json_record" where
  "drift_fields f =
    [(''id'', JStr (entity_id f)),
     (''resourceId'', JStr (drift_resourceId f)),
     (''subjectId'', JStr (drift_subjectId f)),
     (''nativeGrantId'', opt_str (drift_nativeGrantId f)),
     (''nativeAccess'', JStr (drift_nativeAccess f)),
     (''intendedAccess'', JStr (drift_intendedAccess f)),
     (''severity'', JStr (severity_text (drift_severity f))),
     (''lifecycleState'', JStr (lifecycle_state_text (drift_lifecycleState f))),
     (''ownerId'', JStr (drift_ownerId f)),
     (''assigneeId'', JStr (drift_assigneeId f)),
     (''detectedAt'', JStr (drift_detectedAt f)),
     (''exceptionExpiresAt'', opt_str (drift_exceptionExpiresAt f)),
     (''sourceConnectorId'', JStr (drift_sourceConnectorId f)),
     (''recommendedAction'', JStr (recommended_action_text (drift_recommendedAction f))),
     (''status'', JStr (drift_status_text (drift_status f))),
     (''scheduledReconciliation'', schedule_js (drift_schedule f)),
     (''hookEvidence'', JArr (map hook_js (drift_hookEvidence f))),
     (''remediation'', remediation_js (drift_remediation f)),
     (''autoRepairPolicy'', repair_policy_js (drift_autoRepairPolicy f))] @ entity_fields f"

subsection \<open>Laws\<close>

lemma severity_rank_inject [simp]: "severity_rank s = severity_rank t \<longleftrightarrow> s = t"
  by (cases s; cases t) simp_all

lemma severity_allowed_refl [simp]: "drift_severity_allowed s s"
  by (simp add: drift_severity_allowed_def)

lemma severity_allowed_trans:
  "drift_severity_allowed s t \<Longrightarrow> drift_severity_allowed t u \<Longrightarrow> drift_severity_allowed s u"
  by (simp add: drift_severity_allowed_def)

text \<open>A finding that has every lifecycle field keeps them all, and enriching it cannot fail.\<close>

lemma enrich_known:
  "enrich_drift_finding_lifecycle (report_of f) (no_lifecycle_options\<lparr>lo_now := t\<rparr>) =
     Inr (f\<lparr>drift_autoRepairPolicy := (drift_autoRepairPolicy f)
       \<lparr>repair_reason := coalesce_opt (repair_reason (drift_autoRepairPolicy f))
          (repair_reason (default_auto_repair_policy (drift_severity f) (drift_recommendedAction f)))\<rparr>\<rparr>)"
  by (simp add: enrich_drift_finding_lifecycle_def report_of_def bind_result_def Let_def no_lifecycle_options_def
      resolve_drift_lifecycle_state_def coalesce_opt_def coalesce_def merge_repair_policy_def no_repair_patch_def
      split: option.split)

end
