(* ===== verification/Connector_Adapter.thy ===== *)
theory Connector_Adapter
  imports Drift_Lifecycle
begin

text \<open>
  The connector interface of \<open>packages/core/src/domain/connector.ts\<close>: what the runtime knows of a
  connector, and its operations. A connector is outside the program: its operations read and change
  a provider whose state is the type parameter \<open>'c\<close>, and each of them can throw. The two
  operations the runtime does not call in the modelled parts (\<open>getSecurityReview\<close>,
  \<open>emitEvidence\<close>) are left out.
\<close>

text \<open>What a \<open>catch\<close> clause can receive: an \<open>Error\<close> with its message, or another value as text.\<close>

datatype js_thrown = Error_object string | Other_value string

fun thrown_message :: "js_thrown \<Rightarrow> string" where
  "thrown_message (Error_object m) = m"
| "thrown_message (Other_value s) = s"

type_synonym ('c, 'a) provider_call = "'c \<Rightarrow> (js_thrown + 'a) \<times> 'c"

datatype connector_mode = Connector_read_only | Connector_simulation | Connector_dry_run | Connector_enforcement

record connector_capabilities =
  supportsDiscovery :: bool
  supportsProvisioning :: bool
  supportsReconciliation :: bool
  supportsDirectPermissions :: bool
  supportsInheritedPermissions :: bool
  supportsExternalUsers :: bool
  supportsTimeBoundAccess :: bool

record connector_health_check =
  health_name :: string
  health_check_status :: check_status
  health_message :: "string option"
  health_check_evidence :: "json_record option"

record connector_metadata =
  md_provider :: string
  md_tenantBoundary :: string
  md_requiredReadScopes :: "string list"
  md_synthetic :: bool
  md_warnings :: "discovery_run_warning list"
  md_nativeAccessReadbackComplete :: "bool option"
  md_cursor :: "discovery_cursor option"

record 'c connector_adapter =
  con_id :: string
  con_mode :: connector_mode
  con_capabilities :: connector_capabilities
  con_provider :: "string option"
  con_tenantBoundary :: "string option"
  con_requiredReadScopes :: "string list option"
  con_discoverSubjects :: "('c, subject list) provider_call"
  con_discoverResources :: "('c, resource list) provider_call"
  con_discoverRelationships :: "('c, relationship list) provider_call"
  con_readCurrentAccess :: "canonical_id \<Rightarrow> ('c, native_grant list) provider_call"
  con_testReadOnlyAccess :: "('c, connector_health_check list) provider_call option"
  con_getDiscoveryMetadata :: "('c, connector_metadata) provider_call option"
  con_planProvisioningChange :: "decision_result \<Rightarrow> ('c, provisioning_plan) provider_call"
  con_applyProvisioningChange :: "provisioning_plan \<Rightarrow> ('c, provisioning_plan) provider_call"
  con_verifyProvisioningChange :: "provisioning_plan \<Rightarrow> ('c, bool) provider_call"
  con_revokeAccess :: "canonical_id \<Rightarrow> ('c, provisioning_plan) provider_call"
  con_detectDrift :: "('c, reported_finding list) provider_call"

text \<open>\<open>connector.provider ?? connector.id\<close> and \<open>connector.tenantBoundary ?? "synthetic:unknown"\<close>.\<close>

definition provider_of :: "'c connector_adapter \<Rightarrow> string" where
  "provider_of c = coalesce (con_provider c) (con_id c)"

definition boundary_of :: "'c connector_adapter \<Rightarrow> string" where
  "boundary_of c = coalesce (con_tenantBoundary c) ''synthetic:unknown''"

subsection \<open>Watching a connector\<close>

text \<open>
  What a connector is asked to do can be observed by putting a log around it: the provider state
  gains the list of the provisioning calls made so far. The properties say what the runtime asks of
  any connector by running it on a watched one.
\<close>

datatype connector_call =
  Called_plan decision_result
| Called_apply provisioning_plan
| Called_verify provisioning_plan
| Called_revoke canonical_id

definition below :: "('c, 'a) provider_call \<Rightarrow> ('c \<times> connector_call list, 'a) provider_call" where
  "below f w = (case f (fst w) of (r, c) \<Rightarrow> (r, (c, snd w)))"

definition logged :: "connector_call \<Rightarrow> ('c, 'a) provider_call \<Rightarrow> ('c \<times> connector_call list, 'a) provider_call" where
  "logged l f w = (case f (fst w) of (r, c) \<Rightarrow> (r, (c, snd w @ [l])))"

definition watched :: "'c connector_adapter \<Rightarrow> ('c \<times> connector_call list) connector_adapter" where
  "watched c =
    \<lparr>con_id = con_id c, con_mode = con_mode c, con_capabilities = con_capabilities c,
     con_provider = con_provider c, con_tenantBoundary = con_tenantBoundary c,
     con_requiredReadScopes = con_requiredReadScopes c,
     con_discoverSubjects = below (con_discoverSubjects c),
     con_discoverResources = below (con_discoverResources c),
     con_discoverRelationships = below (con_discoverRelationships c),
     con_readCurrentAccess = (\<lambda>r. below (con_readCurrentAccess c r)),
     con_testReadOnlyAccess = map_option below (con_testReadOnlyAccess c),
     con_getDiscoveryMetadata = map_option below (con_getDiscoveryMetadata c),
     con_planProvisioningChange = (\<lambda>d. logged (Called_plan d) (con_planProvisioningChange c d)),
     con_applyProvisioningChange = (\<lambda>p. logged (Called_apply p) (con_applyProvisioningChange c p)),
     con_verifyProvisioningChange = (\<lambda>p. logged (Called_verify p) (con_verifyProvisioningChange c p)),
     con_revokeAccess = (\<lambda>g. logged (Called_revoke g) (con_revokeAccess c g)),
     con_detectDrift = below (con_detectDrift c)\<rparr>"

lemma watched_simps [simp]:
  "con_id (watched c) = con_id c" "con_capabilities (watched c) = con_capabilities c"
  "con_provider (watched c) = con_provider c" "con_tenantBoundary (watched c) = con_tenantBoundary c"
  "con_requiredReadScopes (watched c) = con_requiredReadScopes c"
  "con_planProvisioningChange (watched c) d = logged (Called_plan d) (con_planProvisioningChange c d)"
  "con_applyProvisioningChange (watched c) p = logged (Called_apply p) (con_applyProvisioningChange c p)"
  "con_verifyProvisioningChange (watched c) p = logged (Called_verify p) (con_verifyProvisioningChange c p)"
  "con_revokeAccess (watched c) g = logged (Called_revoke g) (con_revokeAccess c g)"
  by (simp_all add: watched_def)

lemma snd_logged [simp]: "snd (snd (logged l f w)) = snd w @ [l]"
  by (simp add: logged_def split: prod.split)

lemma provider_watched [simp]: "provider_of (watched c) = provider_of c" "boundary_of (watched c) = boundary_of c"
  by (simp_all add: provider_of_def boundary_of_def)

end
