(* ===== verification/Runtime_State.thy ===== *)
theory Runtime_State
  imports Connector_Adapter
begin

text \<open>
  The state of the API runtime: \<open>runtime-app.ts\<close>, \<open>runtime-state.ts\<close> and \<open>runtime-shared.ts\<close> of
  \<open>packages/api/src\<close>. The store and the audit recorder of the app are those of its engine, as in
  \<open>createRebacLocalApp\<close>. The repositories are outside the program: each write either succeeds or
  throws and changes a disk whose state is the type parameter \<open>'p\<close>; what the runtime does with the
  failures is modelled here. The clock is a sequence of readings, one for each call of \<open>now\<close>. The
  regular expressions a user supplies are matched by a parameter: \<open>None\<close> where \<open>new RegExp\<close> throws,
  otherwise the function \<open>test\<close>.

  The last part holds the computations of the runtime, which thread the app and can throw, and the
  laws that carry a reflexive and transitive relation on apps through them.
\<close>

subsection \<open>Repositories\<close>

datatype graph_write =
  Write_subject subject
| Write_resource resource
| Write_relationship relationship
| Write_native_grant native_grant

datatype job_write =
  Write_discovery_run discovery_run
| Write_readiness_report enforcement_readiness_report
| Write_drift_finding drift_finding
| Write_campaign access_review_campaign
| Write_governance_finding governance_finding
| Write_exception_request exception_request
| Write_reconciliation_run reconciliation_run
| Write_decision decision_result
| Write_plan provisioning_plan
| Write_job provisioning_job

fun graph_write_name :: "graph_write \<Rightarrow> string" where
  "graph_write_name (Write_subject _) = ''upsertSubject''"
| "graph_write_name (Write_resource _) = ''upsertResource''"
| "graph_write_name (Write_relationship _) = ''upsertRelationship''"
| "graph_write_name (Write_native_grant _) = ''upsertNativeGrant''"

fun job_write_name :: "job_write \<Rightarrow> string" where
  "job_write_name (Write_discovery_run _) = ''recordDiscoveryRun''"
| "job_write_name (Write_readiness_report _) = ''recordEnforcementReadinessReport''"
| "job_write_name (Write_drift_finding _) = ''upsertDriftFinding''"
| "job_write_name (Write_campaign _) = ''upsertAccessReviewCampaign''"
| "job_write_name (Write_governance_finding _) = ''upsertGovernanceFinding''"
| "job_write_name (Write_exception_request _) = ''upsertExceptionRequest''"
| "job_write_name (Write_reconciliation_run _) = ''recordReconciliationRun''"
| "job_write_name (Write_decision _) = ''recordDecision''"
| "job_write_name (Write_plan _) = ''upsertProvisioningPlan''"
| "job_write_name (Write_job _) = ''upsertProvisioningJob''"

record 'p audit_repository =
  repo_list :: "'p \<Rightarrow> js_thrown + audit_event list"
  repo_append :: "audit_event \<Rightarrow> string \<Rightarrow> 'p \<Rightarrow> js_thrown option \<times> 'p"
  repo_verify :: "string \<Rightarrow> 'p \<Rightarrow> js_thrown + audit_integrity_report"

record 'p runtime_persistence =
  graphRepository :: "(graph_write \<Rightarrow> 'p \<Rightarrow> js_thrown option \<times> 'p) option"
  jobRepository :: "(job_write \<Rightarrow> 'p \<Rightarrow> js_thrown option \<times> 'p) option"
  stateRepository :: "(seed_data \<Rightarrow> string \<Rightarrow> 'p \<Rightarrow> js_thrown option \<times> 'p) option"
  auditRepository :: "'p audit_repository option"

subsection \<open>The app\<close>

record ('c, 'p) local_app =
  app_engine :: engine
  app_persistence :: "'p runtime_persistence"
  app_degradations :: "persistence_degradation list"
  app_connectors :: "(string, 'c connector_adapter) js_map"
  app_actor :: canonical_id
  app_requestActor :: "canonical_id option"
  app_sequences :: "(string, nat) js_map"
  app_clock :: "nat \<Rightarrow> string"
  app_ticks :: nat
  app_regexp :: "string \<Rightarrow> (string \<Rightarrow> bool) option"
  app_provider :: 'c
  app_disk :: 'p

definition app_store :: "('c, 'p) local_app \<Rightarrow> rebac_store" where
  "app_store a = en_store (app_engine a)"

definition with_store :: "(rebac_store \<Rightarrow> rebac_store) \<Rightarrow> ('c, 'p) local_app \<Rightarrow> ('c, 'p) local_app" where
  "with_store f a = a\<lparr>app_engine := (app_engine a)\<lparr>en_store := f (en_store (app_engine a))\<rparr>\<rparr>"

subsection \<open>Degradation receipts\<close>

definition runtime_max_degradations :: nat where
  "runtime_max_degradations = 20"

definition add_degradation :: "persistence_degradation \<Rightarrow> persistence_degradation list \<Rightarrow> persistence_degradation list" where
  "add_degradation d ds = (if length ds \<ge> runtime_max_degradations then tl ds else ds) @ [d]"

definition degrade :: "degraded_component \<Rightarrow> string \<Rightarrow> string \<Rightarrow> string \<Rightarrow> ('c, 'p) local_app \<Rightarrow> ('c, 'p) local_app" where
  "degrade component operation occurred message a =
     a\<lparr>app_degradations := add_degradation
          \<lparr>degraded_component = component, degraded_operation = operation,
           degraded_occurredAt = occurred, degraded_message = message\<rparr> (app_degradations a)\<rparr>"

definition repository_error ::
  "degraded_component \<Rightarrow> string \<Rightarrow> string \<Rightarrow> js_thrown \<Rightarrow> ('c, 'p) local_app \<Rightarrow> ('c, 'p) local_app" where
  "repository_error component operation occurred e a = degrade component operation occurred (thrown_message e) a"

text \<open>A repository write inside \<open>try\<close>: the disk changes, and a failure leaves a receipt.\<close>

definition try_write ::
  "degraded_component \<Rightarrow> string \<Rightarrow> string \<Rightarrow> ('p \<Rightarrow> js_thrown option \<times> 'p) \<Rightarrow> ('c, 'p) local_app \<Rightarrow> ('c, 'p) local_app" where
  "try_write component operation occurred wr a =
     (case wr (app_disk a) of
        (None, d) \<Rightarrow> a\<lparr>app_disk := d\<rparr>
      | (Some e, d) \<Rightarrow> repository_error component operation occurred e (a\<lparr>app_disk := d\<rparr>))"

subsection \<open>Persistence\<close>

definition audit_repository_matches :: "runtime \<Rightarrow> audit_event list \<Rightarrow> audit_event list \<Rightarrow> bool" where
  "audit_repository_matches rt stored expected \<longleftrightarrow>
     length stored = length expected \<and>
     list_all2 (\<lambda>e f. stable_stringify rt (event_js e) = stable_stringify rt (event_js f)) stored expected"

definition append_audit_event ::
  "runtime \<Rightarrow> audit_event \<Rightarrow> string \<Rightarrow> audit_event list option \<Rightarrow> ('c, 'p) local_app \<Rightarrow> ('c, 'p) local_app" where
  "append_audit_event rt e storedAt prior a =
     (case auditRepository (app_persistence a) of
        None \<Rightarrow> a
      | Some repo \<Rightarrow>
          (case (case prior of
                   None \<Rightarrow> Inr True
                 | Some es \<Rightarrow> map_sum id (\<lambda>stored. audit_repository_matches rt stored es) (repo_list repo (app_disk a))) of
             Inl err \<Rightarrow> repository_error Degraded_audit ''appendAuditEvent'' storedAt err a
           | Inr matches \<Rightarrow>
               if \<not> matches
               then degrade Degraded_audit ''appendAuditEvent'' storedAt
                      ''Audit repository did not match the authoritative runtime snapshot; append was skipped.'' a
               else try_write Degraded_audit ''appendAuditEvent'' storedAt (repo_append repo e storedAt) a))"

definition persist_store_snapshot :: "string \<Rightarrow> ('c, 'p) local_app \<Rightarrow> ('c, 'p) local_app" where
  "persist_store_snapshot storedAt a =
     (case stateRepository (app_persistence a) of
        None \<Rightarrow> a
      | Some wr \<Rightarrow>
          (case wr (export_seed_data (app_store a)) storedAt (app_disk a) of
             (None, d) \<Rightarrow> a\<lparr>app_disk := d\<rparr>
           | (Some e, d) \<Rightarrow>
               (let a' = repository_error Degraded_state ''writeState'' storedAt e (a\<lparr>app_disk := d\<rparr>)
                in with_store (replace_persistence_degradations (app_degradations a')) a')))"

definition persist_app_state :: "string \<Rightarrow> ('c, 'p) local_app \<Rightarrow> ('c, 'p) local_app" where
  "persist_app_state storedAt a = persist_store_snapshot storedAt a"

definition commit_runtime_persistence ::
  "string \<Rightarrow> (('c, 'p) local_app \<Rightarrow> ('c, 'p) local_app) list \<Rightarrow> bool \<Rightarrow> ('c, 'p) local_app \<Rightarrow> ('c, 'p) local_app" where
  "commit_runtime_persistence storedAt operations persistState a =
     (let a1 = fold (\<lambda>f. f) operations a;
          a2 = with_store (replace_persistence_degradations (app_degradations a1)) a1
      in if persistState then persist_app_state storedAt a2 else a2)"

definition persist_graph :: "graph_write \<Rightarrow> string \<Rightarrow> ('c, 'p) local_app \<Rightarrow> ('c, 'p) local_app" where
  "persist_graph w storedAt a =
     (case graphRepository (app_persistence a) of
        None \<Rightarrow> a
      | Some wr \<Rightarrow> try_write Degraded_graph (graph_write_name w) storedAt (wr w) a)"

definition persist_connector_discovery_graph ::
  "subject list \<Rightarrow> resource list \<Rightarrow> relationship list \<Rightarrow> native_grant list \<Rightarrow> string \<Rightarrow>
   ('c, 'p) local_app \<Rightarrow> ('c, 'p) local_app" where
  "persist_connector_discovery_graph ss rs ts gs storedAt a =
     fold (\<lambda>g. persist_graph (Write_native_grant g) storedAt) gs
       (fold (\<lambda>t. persist_graph (Write_relationship t) storedAt) ts
         (fold (\<lambda>r. persist_graph (Write_resource r) storedAt) rs
           (fold (\<lambda>s. persist_graph (Write_subject s) storedAt) ss a)))"

definition persist_job :: "job_write \<Rightarrow> string \<Rightarrow> ('c, 'p) local_app \<Rightarrow> ('c, 'p) local_app" where
  "persist_job w storedAt a =
     (case jobRepository (app_persistence a) of
        None \<Rightarrow> a
      | Some wr \<Rightarrow> try_write Degraded_job (job_write_name w) storedAt (wr w) a)"

definition persist_job_decision :: "decision_result \<Rightarrow> ('c, 'p) local_app \<Rightarrow> ('c, 'p) local_app" where
  "persist_job_decision r a = persist_job (Write_decision r) (evaluatedAt r) a"

subsection \<open>Clock and audit\<close>

definition app_now :: "('c, 'p) local_app \<Rightarrow> string \<times> ('c, 'p) local_app" where
  "app_now a = (app_clock a (app_ticks a), a\<lparr>app_ticks := Suc (app_ticks a)\<rparr>)"

text \<open>\<open>recordAudit\<close>: the prior events are read before the event reaches the store.\<close>

definition record_audit ::
  "runtime \<Rightarrow> audit_input \<Rightarrow> string option \<Rightarrow> bool \<Rightarrow> ('c, 'p) local_app \<Rightarrow> audit_event \<times> ('c, 'p) local_app" where
  "record_audit rt input given persistState a =
     (let audited = input\<lparr>in_actor := coalesce (app_requestActor a) (in_actor input)\<rparr>
      in case (case given of Some t \<Rightarrow> (t, a) | None \<Rightarrow> app_now a) of (occurred, a1) \<Rightarrow>
         case record_event rt audited occurred (en_recorder (app_engine a1)) of (event, events) \<Rightarrow>
           (let prior = (case stateRepository (app_persistence a1) of
                           None \<Rightarrow> None | Some _ \<Rightarrow> Some (list_audit_events (app_store a1) no_audit_filter));
                a2 = a1\<lparr>app_engine := (app_engine a1)\<lparr>en_recorder := events\<rparr>\<rparr>;
                a3 = with_store (record_audit_event event) a2
            in (event, commit_runtime_persistence occurred [append_audit_event rt event occurred prior] persistState a3)))"

text \<open>The hook the runtime gives the engine for the event of an evaluation.\<close>

definition on_audit_event :: "runtime \<Rightarrow> audit_event \<Rightarrow> ('c, 'p) local_app \<Rightarrow> ('c, 'p) local_app" where
  "on_audit_event rt event a =
     (let prior = (case stateRepository (app_persistence a) of
                     None \<Rightarrow> None | Some _ \<Rightarrow> Some (butlast (list_audit_events (app_store a) no_audit_filter)));
          a1 = append_audit_event rt event (occurredAt event) prior a;
          a2 = with_store (replace_persistence_degradations (app_degradations a1)) a1
      in persist_store_snapshot (occurredAt event) a2)"

definition initial_audit_events ::
  "'p runtime_persistence \<Rightarrow> rebac_store \<Rightarrow> 'p \<Rightarrow> js_thrown + audit_event list" where
  "initial_audit_events per st disk =
     (if stateRepository per \<noteq> None then Inr (list_audit_events st no_audit_filter)
      else case auditRepository per of
             Some repo \<Rightarrow> repo_list repo disk
           | None \<Rightarrow> Inr (list_audit_events st no_audit_filter))"

definition authoritative_audit_events :: "('c, 'p) local_app \<Rightarrow> js_thrown + audit_event list" where
  "authoritative_audit_events a = initial_audit_events (app_persistence a) (app_store a) (app_disk a)"

definition verify_runtime_audit_integrity :: "runtime \<Rightarrow> string \<Rightarrow> ('c, 'p) local_app \<Rightarrow> js_thrown + audit_integrity_report" where
  "verify_runtime_audit_integrity rt t a =
     (case auditRepository (app_persistence a) of
        Some repo \<Rightarrow> repo_verify repo t (app_disk a)
      | None \<Rightarrow> map_sum id (\<lambda>es. verify_audit_chain rt es t) (authoritative_audit_events a))"

subsection \<open>Shared helpers\<close>

definition is_alphanumeric :: "char \<Rightarrow> bool" where
  "is_alphanumeric c \<longleftrightarrow>
     (let n = code_unit c in 48 \<le> n \<and> n \<le> 57 \<or> 65 \<le> n \<and> n \<le> 90 \<or> 97 \<le> n \<and> n \<le> 122)"

definition compact_timestamp :: "string \<Rightarrow> string" where
  "compact_timestamp t = to_lower_case (filter is_alphanumeric t)"

definition next_record_sequence :: "string \<Rightarrow> nat \<Rightarrow> ('c, 'p) local_app \<Rightarrow> nat \<times> ('c, 'p) local_app" where
  "next_record_sequence key existing a =
     (let n = max (coalesce (map_get (app_sequences a) key) 0) existing + 1
      in (n, a\<lparr>app_sequences := map_set key n (app_sequences a)\<rparr>))"

subsection \<open>Computations\<close>

text \<open>
  \<open>RebacLocalAppError\<close> with its HTTP status, code and message, or what a connector, the engine or
  the store threw. A computation reads and changes the app and returns a value or throws; what it
  did before throwing stays done.
\<close>

datatype app_error = Local_app_error nat string string | Raised js_thrown

type_synonym ('c, 'p, 'a) run = "('c, 'p) local_app \<Rightarrow> (app_error + 'a) \<times> ('c, 'p) local_app"

definition give :: "'a \<Rightarrow> ('c, 'p, 'a) run" where
  "give x a = (Inr x, a)"

definition raise :: "app_error \<Rightarrow> ('c, 'p, 'a) run" where
  "raise e a = (Inl e, a)"

definition andthen :: "('c, 'p, 'a) run \<Rightarrow> ('a \<Rightarrow> ('c, 'p, 'b) run) \<Rightarrow> ('c, 'p, 'b) run" where
  "andthen m f a = (case m a of (Inl e, b) \<Rightarrow> (Inl e, b) | (Inr x, b) \<Rightarrow> f x b)"

definition look :: "(('c, 'p) local_app \<Rightarrow> 'a) \<Rightarrow> ('c, 'p, 'a) run" where
  "look f a = (Inr (f a), a)"

definition change :: "(('c, 'p) local_app \<Rightarrow> ('c, 'p) local_app) \<Rightarrow> ('c, 'p, unit) run" where
  "change f a = (Inr (), f a)"

definition perform :: "(('c, 'p) local_app \<Rightarrow> 'a \<times> ('c, 'p) local_app) \<Rightarrow> ('c, 'p, 'a) run" where
  "perform f a = (case f a of (x, b) \<Rightarrow> (Inr x, b))"

definition guard_by :: "app_error option \<Rightarrow> ('c, 'p, unit) run" where
  "guard_by e = (case e of None \<Rightarrow> give () | Some err \<Rightarrow> raise err)"

definition ask_provider :: "('c, 'a) provider_call \<Rightarrow> ('c, 'p, 'a) run" where
  "ask_provider f a =
     (case f (app_provider a) of (r, c) \<Rightarrow> (map_sum Raised id r, a\<lparr>app_provider := c\<rparr>))"

fun store_error_text :: "store_error \<Rightarrow> string" where
  "store_error_text (Already_recorded name i) = name @ '' '' @ i @ '' has already been recorded.''"

definition try_store :: "(rebac_store \<Rightarrow> store_error + rebac_store) \<Rightarrow> ('c, 'p, unit) run" where
  "try_store f a =
     (case f (app_store a) of
        Inl e \<Rightarrow> (Inl (Raised (Error_object (store_error_text e))), a)
      | Inr st \<Rightarrow> (Inr (), with_store (\<lambda>_. st) a))"

fun collect_each :: "('x \<Rightarrow> ('c, 'p, 'a) run) \<Rightarrow> 'x list \<Rightarrow> ('c, 'p, 'a list) run" where
  "collect_each f [] = give []"
| "collect_each f (x # xs) = andthen (f x) (\<lambda>y. andthen (collect_each f xs) (\<lambda>ys. give (y # ys)))"

definition get_connector :: "string \<Rightarrow> ('c, 'p, 'c connector_adapter) run" where
  "get_connector i a =
     (case map_get (app_connectors a) i of
        None \<Rightarrow> (Inl (Raised (Error_object (''Unknown connector: '' @ i))), a)
      | Some c \<Rightarrow> (Inr c, a))"

definition get_default_connector_id :: "('c, 'p, string) run" where
  "get_default_connector_id a =
     (case app_connectors a of
        [] \<Rightarrow> (Inl (Raised (Error_object ''No connectors are registered'')), a)
      | (i, _) # _ \<Rightarrow>
          if i = [] then (Inl (Raised (Error_object ''No connectors are registered'')), a) else (Inr i, a))"

definition audit :: "runtime \<Rightarrow> audit_input \<Rightarrow> bool \<Rightarrow> ('c, 'p, audit_event) run" where
  "audit rt input persistState = perform (record_audit rt input None persistState)"

text \<open>
  \<open>explain\<close> and \<open>check\<close> of the engine as the app calls them: one reading of the clock for the
  evaluation, two monotonic readings for its duration, and the hook for the event it records.
\<close>

definition app_evaluate ::
  "runtime \<Rightarrow> bool \<Rightarrow> decision_request \<Rightarrow> rat \<times> rat \<Rightarrow> ('c, 'p, decision_result) run" where
  "app_evaluate rt explained req timing a =
     (case app_now a of (t, a1) \<Rightarrow>
        (case evaluate rt (app_engine a1) req explained
                \<lparr>ev_startedAt = fst timing, ev_finishedAt = snd timing, ev_now = t, ev_auditActor = app_requestActor a1\<rparr> of
           (Inl Invalid_time_value, en) \<Rightarrow> (Inl (Raised (Error_object ''Invalid time value'')), a1\<lparr>app_engine := en\<rparr>)
         | (Inr d, en) \<Rightarrow> (Inr d, on_audit_event rt (last (en_recorder en)) (a1\<lparr>app_engine := en\<rparr>))))"

definition decide_and_persist ::
  "runtime \<Rightarrow> bool \<Rightarrow> decision_request \<Rightarrow> rat \<times> rat \<Rightarrow> ('c, 'p, decision_result) run" where
  "decide_and_persist rt explained req timing =
     andthen (app_evaluate rt explained req timing) (\<lambda>d.
     andthen (change (persist_job_decision d)) (\<lambda>_. give d))"

lemma run_simps [simp]:
  "give x a = (Inr x, a)" "raise e a = (Inl e, a)" "look f a = (Inr (f a), a)" "change h a = (Inr (), h a)"
  by (simp_all add: give_def raise_def look_def change_def)

lemma andthen_simps [simp]:
  "m a = (Inl e, b) \<Longrightarrow> andthen m f a = (Inl e, b)"
  "m a = (Inr x, b) \<Longrightarrow> andthen m f a = f x b"
  by (simp_all add: andthen_def)

lemma andthen_Inr:
  "andthen m f a = (Inr y, c) \<longleftrightarrow> (\<exists>x b. m a = (Inr x, b) \<and> f x b = (Inr y, c))"
  by (auto simp: andthen_def split: prod.splits sum.splits)

lemma guard_by_simps [simp]: "guard_by None = give ()" "guard_by (Some e) = raise e"
  by (simp_all add: guard_by_def)

end
