(* ===== verification/Enforcement.thy ===== *)
theory Enforcement
  imports Runtime_State
begin

text \<open>
  Controlled enforcement of \<open>packages/api/src/runtime-enforcement.ts\<close> and
  \<open>runtime-provisioning.ts\<close>: the guards a provisioning plan and a provisioning job pass before a
  connector may change a provider, the readiness report, the execution of a job and the audit
  events of each.
\<close>

subsection \<open>Requests\<close>

record execution_options =
  opt_mode :: "provisioning_mode option"
  opt_approval :: "provisioning_approval option"
  opt_control :: "enforcement_control option"
  opt_readinessReportId :: "canonical_id option"

record readiness_request =
  rr_control :: enforcement_control
  rr_requiredApproverRole :: "string option"
  rr_changeTicketPattern :: "string option"

record controlled_job_request =
  cj_approverId :: canonical_id
  cj_idempotencyKey :: string
  cj_jobId :: canonical_id
  cj_startedAt :: string
  cj_approval :: "provisioning_approval option"
  cj_control :: "enforcement_control option"

record controlled_job_execution =
  ex_completedAt :: string
  ex_updatedPlan :: provisioning_plan
  ex_job :: provisioning_job
  ex_auditInputs :: "audit_input list"

subsection \<open>Change tickets\<close>

definition change_ticket_pattern_max_length :: nat where
  "change_ticket_pattern_max_length = 128"

definition change_ticket_value_max_length :: nat where
  "change_ticket_value_max_length = 256"

text \<open>\<open>/[()|]/\<close> finds a parenthesis or a bar, \<open>/\\[1-9]/\<close> a backslash before a digit from 1 to 9.\<close>

fun has_back_reference :: "string \<Rightarrow> bool" where
  "has_back_reference (b # d # cs) =
     (code_unit b = 92 \<and> 49 \<le> code_unit d \<and> code_unit d \<le> 57 \<or> has_back_reference (d # cs))"
| "has_back_reference _ = False"

definition is_safe_change_ticket_pattern :: "(string \<Rightarrow> (string \<Rightarrow> bool) option) \<Rightarrow> string \<Rightarrow> bool" where
  "is_safe_change_ticket_pattern regexp pattern =
     (if length pattern > change_ticket_pattern_max_length
         \<or> list_ex (\<lambda>c. c \<in> {CHR ''('', CHR '')'', CHR ''|''}) pattern
         \<or> has_back_reference pattern
      then False
      else regexp pattern \<noteq> None)"

definition change_ticket_matches :: "(string \<Rightarrow> (string \<Rightarrow> bool) option) \<Rightarrow> string \<Rightarrow> string \<Rightarrow> bool" where
  "change_ticket_matches regexp pattern ticket =
     (if \<not> is_safe_change_ticket_pattern regexp pattern \<or> length ticket > change_ticket_value_max_length
      then False
      else (case regexp pattern of None \<Rightarrow> False | Some test \<Rightarrow> test ticket))"

subsection \<open>The guards\<close>

definition guardrail_error :: "'c connector_adapter \<Rightarrow> enforcement_control \<Rightarrow> app_error option" where
  "guardrail_error c control =
     (if \<not> syntheticOnly control \<or> liveProviderWrites control \<or> breakGlass control
      then Some (Local_app_error 403 ''CONTROLLED_ENFORCEMENT_GUARDRAIL_REQUIRED''
        ''Phase 4 enforcement must be synthetic-only, must not allow live provider writes, and must not use break-glass.'')
      else if incidentMode control
      then Some (Local_app_error 409 ''CONTROLLED_ENFORCEMENT_INCIDENT_MODE_BLOCKED''
        ''Controlled enforcement is blocked while incident mode is active.'')
      else if \<not> supportsProvisioning (con_capabilities c)
      then Some (Local_app_error 403 ''CONNECTOR_ENFORCEMENT_DISABLED'' (con_id c @ '' does not support provisioning.''))
      else if con_provider c \<noteq> Some ''mock'' \<or> con_tenantBoundary c \<noteq> Some ''synthetic:local''
      then Some (Local_app_error 403 ''CONNECTOR_ENFORCEMENT_NOT_ALLOWED''
        ''Phase 4 controlled enforcement is limited to the synthetic mock connector.'')
      else None)"

definition invalid_timestamp :: app_error where
  "invalid_timestamp = Local_app_error 400 ''CONTROLLED_ENFORCEMENT_APPROVAL_INVALID''
     ''Controlled enforcement approval timestamps must be valid date-times.''"

definition assert_not_expired :: "provisioning_approval \<Rightarrow> ('c, 'p, unit) run" where
  "assert_not_expired approval =
     (case approval_expiresAt approval of
        None \<Rightarrow> give ()
      | Some expires \<Rightarrow>
          andthen (perform app_now) (\<lambda>now.
            case (date_parse expires, date_parse now) of
              (Some e, Some n) \<Rightarrow>
                if e \<le> n
                then raise (Local_app_error 400 ''CONTROLLED_ENFORCEMENT_APPROVAL_EXPIRED''
                       ''Controlled enforcement approval has expired.'')
                else give ()
            | _ \<Rightarrow> raise invalid_timestamp))"

text \<open>
  \<open>approval.decision\<close> has the single type \<open>"approved"\<close>, so only the empty fields of the approval
  remain to be refused.
\<close>

definition assert_controlled_enforcement_allowed ::
  "'c connector_adapter \<Rightarrow> provisioning_approval option \<Rightarrow> enforcement_control option \<Rightarrow> canonical_id option \<Rightarrow>
   ('c, 'p, unit) run" where
  "assert_controlled_enforcement_allowed c approval control approver =
     (case approval of
        None \<Rightarrow> raise (Local_app_error 400 ''CONTROLLED_ENFORCEMENT_APPROVAL_REQUIRED''
                  ''Controlled enforcement requires an approved change ticket.'')
      | Some ap \<Rightarrow>
     (case control of
        None \<Rightarrow> raise (Local_app_error 400 ''CONTROLLED_ENFORCEMENT_CONTROL_REQUIRED''
                  ''Controlled enforcement requires explicit synthetic-only control settings.'')
      | Some co \<Rightarrow>
          if approverId ap = [] \<or> changeTicket ap = [] \<or> approvedAt ap = []
          then raise (Local_app_error 400 ''CONTROLLED_ENFORCEMENT_APPROVAL_INVALID''
                 ''Controlled enforcement approval must include decision, approverId, changeTicket, and approvedAt.'')
          else if truthy approver \<and> approver \<noteq> Some (approverId ap)
          then raise (Local_app_error 400 ''CONTROLLED_ENFORCEMENT_APPROVER_MISMATCH''
                 ''The job approverId must match the approved change ticket.'')
          else if date_parse (approvedAt ap) = None then raise invalid_timestamp
          else andthen (assert_not_expired ap) (\<lambda>_. guard_by (guardrail_error c co))))"

definition readiness_error ::
  "(string \<Rightarrow> (string \<Rightarrow> bool) option) \<Rightarrow> rebac_store \<Rightarrow> 'c connector_adapter \<Rightarrow> string \<Rightarrow> canonical_id option \<Rightarrow>
   provisioning_approval option \<Rightarrow> enforcement_control option \<Rightarrow> app_error option" where
  "readiness_error regexp st c connectorId reportId approval control =
     (if \<not> truthy reportId
      then Some (Local_app_error 400 ''ENFORCEMENT_READINESS_REQUIRED''
        ''Controlled enforcement requires a ready connector readiness report.'')
      else case get_readiness_report st (the reportId) of
        None \<Rightarrow> Some (Local_app_error 400 ''ENFORCEMENT_READINESS_NOT_FOUND''
          (''Readiness report '' @ the reportId @ '' was not found.''))
      | Some report \<Rightarrow>
          if rep_connectorId report \<noteq> connectorId
          then Some (Local_app_error 400 ''ENFORCEMENT_READINESS_CONNECTOR_MISMATCH''
            ''The readiness report connector must match the provisioning connector.'')
          else if rep_provider report \<noteq> provider_of c \<or> rep_tenantBoundary report \<noteq> boundary_of c
          then Some (Local_app_error 400 ''ENFORCEMENT_READINESS_BOUNDARY_MISMATCH''
            ''The readiness report provider boundary must match the current connector registration.'')
          else if rep_status report \<noteq> Readiness_ready
          then Some (Local_app_error 403 ''ENFORCEMENT_READINESS_BLOCKED''
            ''The connector readiness report is blocked and cannot authorize controlled enforcement.'')
          else if rep_liveProviderWritesAllowed report
          then Some (Local_app_error 403 ''ENFORCEMENT_READINESS_LIVE_WRITES_BLOCKED''
            ''Phase 4 readiness reports must not allow live provider writes.'')
          else if (case control of None \<Rightarrow> False | Some co \<Rightarrow> rep_control report \<noteq> co)
          then Some (Local_app_error 400 ''ENFORCEMENT_READINESS_CONTROL_MISMATCH''
            ''The readiness report controls must match the provisioning controls.'')
          else if (case approval of None \<Rightarrow> False
                   | Some ap \<Rightarrow> \<not> change_ticket_matches regexp (rep_changeTicketPattern report) (changeTicket ap))
          then Some (Local_app_error 400 ''ENFORCEMENT_READINESS_CHANGE_TICKET_MISMATCH''
            ''The approval change ticket must match the readiness report change-ticket pattern.'')
          else None)"

definition assert_enforcement_readiness ::
  "'c connector_adapter \<Rightarrow> string \<Rightarrow> canonical_id option \<Rightarrow> provisioning_approval option \<Rightarrow>
   enforcement_control option \<Rightarrow> ('c, 'p, unit) run" where
  "assert_enforcement_readiness c connectorId reportId approval control =
     andthen (look (\<lambda>a. readiness_error (app_regexp a) (app_store a) c connectorId reportId approval control)) guard_by"

definition job_controls_error ::
  "provisioning_plan \<Rightarrow> provisioning_approval option \<Rightarrow> enforcement_control option \<Rightarrow> app_error option" where
  "job_controls_error plan approval control =
     (if approval \<noteq> None \<and> plan_approval plan \<noteq> None \<and> approval \<noteq> plan_approval plan
      then Some (Local_app_error 400 ''CONTROLLED_ENFORCEMENT_APPROVAL_MISMATCH''
        ''The job approval must match the approved provisioning plan.'')
      else if control \<noteq> None \<and> plan_control plan \<noteq> None \<and> control \<noteq> plan_control plan
      then Some (Local_app_error 400 ''CONTROLLED_ENFORCEMENT_CONTROL_MISMATCH''
        ''The job control settings must match the approved provisioning plan.'')
      else None)"

subsection \<open>The readiness report\<close>

definition pass_if :: "bool \<Rightarrow> check_status" where
  "pass_if b = (if b then Check_pass else Check_fail)"

definition compensation_probe_decision :: "string \<Rightarrow> decision_result" where
  "compensation_probe_decision evaluated =
    \<lparr>decisionId = ''decision:enforcement-readiness-compensation-probe'',
     decision = Allow,
     res_subjectId = ''user:readiness-probe'',
     res_action = ''read'',
     res_resourceId = ''document:readiness-probe'',
     reasonCode = ''ALLOW_READINESS_COMPENSATION_PROBE'',
     res_policyVersion = ''readiness-probe'',
     res_modelVersion = ''readiness-probe'',
     res_relationshipVersion = ''readiness-probe'',
     res_tupleVersion = ''readiness-probe'',
     res_contextVersion = ''context:none'',
     res_asOf = evaluated,
     relationshipPath = [],
     constraints = [],
     evaluatedAt = evaluated\<rparr>"

definition has_planned_compensation :: "provisioning_action \<Rightarrow> bool" where
  "has_planned_compensation a =
     (case act_compensation a of None \<Rightarrow> False
      | Some c \<Rightarrow> comp_status c = Comp_planned \<and> comp_idempotencyKey c \<noteq> [])"

definition compensation_check :: "js_thrown + provisioning_plan \<Rightarrow> readiness_check" where
  "compensation_check probe =
     (case probe of
        Inr plan \<Rightarrow>
          (let compensated = filter has_planned_compensation (plan_actions plan)
           in \<lparr>check_name = ''rollback_compensation_required'',
               check_status_of = pass_if (plan_actions plan \<noteq> [] \<and> length compensated = length (plan_actions plan)),
               check_message = ''Provisioning plans must carry compensation intent before enforcement jobs can run.'',
               check_evidence = Some
                 [(''compensationRequired'', JBool True),
                  (''actionCount'', js_nat (length (plan_actions plan))),
                  (''compensatedActionCount'', js_nat (length compensated))]\<rparr>)
      | Inl e \<Rightarrow>
          \<lparr>check_name = ''rollback_compensation_required'', check_status_of = Check_fail,
           check_message = ''Provisioning compensation readiness could not be verified.'',
           check_evidence = Some
             [(''error'', JStr (case e of Error_object m \<Rightarrow> m | Other_value _ \<Rightarrow> ''Unknown compensation probe failure''))]\<rparr>)"

text \<open>The probe runs inside \<open>try\<close>: what the connector throws becomes the failed check.\<close>

definition probe_provider :: "('c, 'a) provider_call \<Rightarrow> ('c, 'p, js_thrown + 'a) run" where
  "probe_provider f a = (case f (app_provider a) of (r, c) \<Rightarrow> (Inr r, a\<lparr>app_provider := c\<rparr>))"

definition enforcement_readiness_checks ::
  "'c connector_adapter \<Rightarrow> enforcement_control \<Rightarrow> readiness_check \<Rightarrow> readiness_check list" where
  "enforcement_readiness_checks c control compensation =
     (let provider = provider_of c; boundary = boundary_of c; scopes = coalesce (con_requiredReadScopes c) [];
          caps = con_capabilities c
      in
       [\<lparr>check_name = ''connector_registered'', check_status_of = Check_pass,
         check_message = con_id c @ '' is registered.'',
         check_evidence = Some
           [(''connectorId'', JStr (con_id c)), (''provider'', JStr provider), (''tenantBoundary'', JStr boundary)]\<rparr>,
        \<lparr>check_name = ''synthetic_only_guardrail'',
         check_status_of = pass_if (syntheticOnly control \<and> \<not> liveProviderWrites control),
         check_message = ''Phase 4 readiness requires synthetic-only enforcement with live provider writes disabled.'',
         check_evidence = Some
           [(''syntheticOnly'', JBool (syntheticOnly control)),
            (''liveProviderWrites'', JBool (liveProviderWrites control))]\<rparr>,
        \<lparr>check_name = ''mock_enforcement_boundary'',
         check_status_of = pass_if (provider = ''mock'' \<and> boundary = ''synthetic:local''),
         check_message = ''Phase 4 enforcement readiness is limited to the synthetic mock connector.'',
         check_evidence = Some [(''provider'', JStr provider), (''tenantBoundary'', JStr boundary)]\<rparr>,
        \<lparr>check_name = ''provisioning_capability'',
         check_status_of = pass_if (supportsProvisioning caps),
         check_message = ''Connector must declare provisioning support before enforcement can be planned.'',
         check_evidence = Some [(''supportsProvisioning'', JBool (supportsProvisioning caps))]\<rparr>,
        \<lparr>check_name = ''readback_capability'',
         check_status_of = pass_if (supportsDiscovery caps \<and> supportsReconciliation caps),
         check_message = ''Connector must support discovery and reconciliation readback for enforcement verification.'',
         check_evidence = Some
           [(''supportsDiscovery'', JBool (supportsDiscovery caps)),
            (''supportsReconciliation'', JBool (supportsReconciliation caps)),
            (''requiredReadScopes'', JArr (map JStr scopes))]\<rparr>,
        \<lparr>check_name = ''incident_mode_clear'',
         check_status_of = pass_if (\<not> incidentMode control),
         check_message = ''Incident mode must be clear before controlled enforcement can be planned.'',
         check_evidence = Some [(''incidentMode'', JBool (incidentMode control))]\<rparr>,
        \<lparr>check_name = ''break_glass_disabled'',
         check_status_of = pass_if (\<not> breakGlass control),
         check_message = ''Break-glass cannot be used for Phase 4 controlled enforcement readiness.'',
         check_evidence = Some [(''breakGlass'', JBool (breakGlass control))]\<rparr>,
        compensation,
        \<lparr>check_name = ''least_privilege_review'',
         check_status_of = pass_if (provider = ''mock''),
         check_message = ''Live connector least-privilege review remains incomplete for Phase 4.'',
         check_evidence = Some
           [(''provider'', JStr provider), (''requiredReadScopes'', JArr (map JStr scopes)),
            (''liveWriteScopesReviewed'', JBool False)]\<rparr>])"

definition readiness_report ::
  "'c connector_adapter \<Rightarrow> string \<Rightarrow> readiness_request \<Rightarrow> canonical_id \<Rightarrow> string \<Rightarrow> readiness_check list \<Rightarrow>
   enforcement_readiness_report" where
  "readiness_report c connectorId req reportId checkedAt checks =
    \<lparr>entity_id = reportId, version = ''enforcement-readiness:v1'', createdAt = checkedAt, updatedAt = None,
     rep_connectorId = connectorId,
     rep_provider = provider_of c,
     rep_tenantBoundary = boundary_of c,
     rep_status = (if list_ex (\<lambda>k. check_status_of k = Check_fail) checks then Readiness_blocked else Readiness_ready),
     rep_checkedAt = checkedAt,
     rep_control = rr_control req,
     rep_checks = checks,
     rep_requiredApproverRole = coalesce (rr_requiredApproverRole req) ''access-approver'',
     rep_changeTicketPattern = coalesce (rr_changeTicketPattern req) ''^chg:[a-z0-9_:-]+$'',
     rep_liveProviderWritesAllowed = False,
     rep_auditEventIds = []\<rparr>"

definition plan_readiness_report ::
  "'c connector_adapter \<Rightarrow> string \<Rightarrow> readiness_request \<Rightarrow> canonical_id \<Rightarrow> string \<Rightarrow>
   ('c, 'p, enforcement_readiness_report \<times> audit_input) run" where
  "plan_readiness_report c connectorId req reportId checkedAt =
     andthen (probe_provider (con_planProvisioningChange c (compensation_probe_decision checkedAt))) (\<lambda>probe.
     andthen (look app_actor) (\<lambda>actor.
       let report = readiness_report c connectorId req reportId checkedAt
             (enforcement_readiness_checks c (rr_control req) (compensation_check probe))
       in give (report,
            \<lparr>in_eventType = ''connector.enforcement_readiness_checked'', in_actor = actor,
             in_subjectId = None, in_resourceId = None, in_correlationId = ''corr:'' @ reportId,
             in_policyVersion = None, in_relationshipVersion = None, in_payload = report_fields report\<rparr>)))"

end
