(* ===== verification/Provisioning_Jobs.thy ===== *)
theory Provisioning_Jobs
  imports Enforcement
begin

text \<open>
  Provisioning plans and jobs: the planning and execution half of
  \<open>packages/api/src/runtime-enforcement.ts\<close> and the flows of \<open>runtime-jobs.ts\<close>. A flow that awaits a
  connector runs here without another flow in between.
\<close>

subsection \<open>Preparing a plan\<close>

definition prepare_plan_for_execution ::
  "'c connector_adapter \<Rightarrow> provisioning_plan \<Rightarrow> execution_options \<Rightarrow> ('c, 'p, provisioning_plan) run" where
  "prepare_plan_for_execution c plan options =
     (if coalesce (opt_mode options) Dry_run = Dry_run
      then give (plan\<lparr>plan_mode := Dry_run, plan_status := Plan_planned,
             plan_actions := map (\<lambda>a. a\<lparr>act_dryRun := True, act_status := Step_planned\<rparr>) (plan_actions plan)\<rparr>)
      else
        andthen (assert_controlled_enforcement_allowed c (opt_approval options) (opt_control options)
                   (map_option approverId (opt_approval options))) (\<lambda>_.
        andthen (assert_enforcement_readiness c (plan_connectorId plan) (opt_readinessReportId options)
                   (opt_approval options) (opt_control options)) (\<lambda>_.
        give (plan\<lparr>plan_mode := Enforcement, plan_status := Plan_approved,
               plan_actions := map (\<lambda>a. a\<lparr>act_dryRun := False, act_status := Step_planned\<rparr>) (plan_actions plan),
               plan_approval := opt_approval options, plan_control := opt_control options,
               plan_readinessReportId := opt_readinessReportId options\<rparr>))))"

text \<open>An audit input about a plan: its actor, subject and resource, no versions.\<close>

definition plan_audit ::
  "canonical_id \<Rightarrow> provisioning_plan \<Rightarrow> string \<Rightarrow> string \<Rightarrow> json_record \<Rightarrow> audit_input" where
  "plan_audit who plan type corr content =
    \<lparr>in_eventType = type, in_actor = who, in_subjectId = Some (plan_subjectId plan),
     in_resourceId = Some (plan_resourceId plan), in_correlationId = corr,
     in_policyVersion = None, in_relationshipVersion = None, in_payload = content\<rparr>"

definition compensation_audit_inputs :: "canonical_id \<Rightarrow> provisioning_plan \<Rightarrow> audit_input list" where
  "compensation_audit_inputs who plan =
     map (\<lambda>a. plan_audit who plan ''provisioning.compensation_planned''
            (''corr:'' @ entity_id plan @ '':'' @ act_actionId a @ '':compensation'')
            [(''planId'', JStr (entity_id plan)), (''actionId'', JStr (act_actionId a)),
             (''compensation'', opt_json compensation_js (act_compensation a))])
       (filter (\<lambda>a. act_compensation a \<noteq> None) (plan_actions plan))"

definition plan_audit_inputs :: "canonical_id \<Rightarrow> provisioning_plan \<Rightarrow> audit_input list" where
  "plan_audit_inputs who plan =
     [plan_audit who plan ''provisioning.requested'' (''corr:'' @ entity_id plan) (plan_fields plan),
      plan_audit who plan ''provisioning.planned'' (''corr:'' @ entity_id plan @ '':planned'')
        [(''planId'', JStr (entity_id plan)), (''connectorId'', JStr (plan_connectorId plan)),
         (''mode'', JStr (mode_text (plan_mode plan))), (''status'', JStr (plan_status_text (plan_status plan))),
         (''actionIds'', JArr (map (JStr \<circ> act_actionId) (plan_actions plan))),
         (''idempotencyKeys'', JArr (map (JStr \<circ> act_idempotencyKey) (plan_actions plan)))]]
     @ (if plan_mode plan = Enforcement \<and> plan_approval plan \<noteq> None \<and> plan_control plan \<noteq> None
        then [plan_audit who plan ''provisioning.approved'' (''corr:'' @ entity_id plan @ '':approved'')
               [(''planId'', JStr (entity_id plan)), (''connectorId'', JStr (plan_connectorId plan)),
                (''mode'', JStr (mode_text (plan_mode plan))), (''status'', JStr (plan_status_text (plan_status plan))),
                (''approval'', opt_json approval_js (plan_approval plan)),
                (''control'', opt_json control_js (plan_control plan))]]
        else [])
     @ compensation_audit_inputs who plan"

subsection \<open>Executing a controlled job\<close>

definition enforcement_verification :: "provisioning_plan \<Rightarrow> string \<Rightarrow> bool \<Rightarrow> provisioning_verification" where
  "enforcement_verification plan checkedAt verified =
    \<lparr>ver_status = (if verified then Ver_verified else Ver_failed),
     ver_method = ''connector.verifyProvisioningChange'',
     ver_expectedState =
       [(''planId'', JStr (entity_id plan)), (''actionCount'', js_nat (length (plan_actions plan))),
        (''mode'', JStr ''enforcement'')],
     ver_readbackState = Some
       [(''dryRun'', JBool False), (''providerWrite'', JBool False), (''syntheticProviderWrite'', JBool verified),
        (''liveProviderWrite'', JBool False), (''verificationHook'', JBool verified)],
     ver_checkedAt = Some checkedAt,
     ver_message = Some
       (if verified then ''Controlled synthetic enforcement verified; no live provider mutation occurred.''
        else ''Controlled enforcement verification failed; compensation must be reviewed before retry.'')\<rparr>"

text \<open>\<open>{...action.verification, status, readbackState, checkedAt, message}\<close>\<close>

definition merge_verification :: "provisioning_verification \<Rightarrow> provisioning_verification \<Rightarrow> provisioning_verification" where
  "merge_verification planned outcome =
     planned\<lparr>ver_status := ver_status outcome, ver_readbackState := ver_readbackState outcome,
       ver_checkedAt := ver_checkedAt outcome, ver_message := ver_message outcome\<rparr>"

definition controlled_action_result ::
  "bool \<Rightarrow> provisioning_verification \<Rightarrow> provisioning_action \<Rightarrow> provisioning_action_result" where
  "controlled_action_result completed outcome a =
    \<lparr>result_actionId = act_actionId a, result_operation = act_operation a,
     result_status = (if completed then Step_applied else Step_failed), result_dryRun = False,
     result_idempotencyKey = act_idempotencyKey a,
     result_message =
       (if completed then ''Controlled synthetic enforcement executed through the mock connector and verified by readback.''
        else ''Controlled enforcement did not verify; rollback or compensation is required.''),
     result_verification = merge_verification (act_verification a) outcome,
     result_compensation = act_compensation a\<rparr>"

definition rollback_planned_audit_inputs ::
  "canonical_id \<Rightarrow> canonical_id \<Rightarrow> provisioning_plan \<Rightarrow> audit_input list" where
  "rollback_planned_audit_inputs who jobId plan =
     map (\<lambda>a. plan_audit who plan ''provisioning.rollback_planned''
            (''corr:'' @ jobId @ '':'' @ act_actionId a @ '':rollback-planned'')
            [(''jobId'', JStr jobId), (''planId'', JStr (entity_id plan)), (''actionId'', JStr (act_actionId a)),
             (''compensation'', opt_json compensation_js (act_compensation a))])
       (filter (\<lambda>a. act_compensation a \<noteq> None) (plan_actions plan))"

definition controlled_job_audit_inputs ::
  "canonical_id \<Rightarrow> canonical_id \<Rightarrow> provisioning_plan \<Rightarrow> provisioning_job \<Rightarrow> provisioning_action_result list \<Rightarrow>
   provisioning_verification \<Rightarrow> bool \<Rightarrow> audit_input list" where
  "controlled_job_audit_inputs who jobId plan job results outcome completed =
     map (\<lambda>r. plan_audit who plan ''connector.permission_changed''
            (''corr:'' @ jobId @ '':'' @ result_actionId r @ '':permission-changed'')
            [(''jobId'', JStr jobId), (''planId'', JStr (entity_id plan)),
             (''connectorId'', JStr (plan_connectorId plan)), (''actionId'', JStr (result_actionId r)),
             (''operation'', JStr (operation_text (result_operation r))), (''dryRun'', JBool False),
             (''syntheticProviderWrite'', JBool True), (''liveProviderWrite'', JBool False),
             (''providerWrite'', JBool False), (''approval'', opt_json approval_js (job_approval job)),
             (''control'', opt_json control_js (job_control job))]) results
     @ [plan_audit who plan ''provisioning.verified'' (''corr:'' @ jobId @ '':verified'')
          [(''jobId'', JStr jobId), (''planId'', JStr (entity_id plan)),
           (''connectorId'', JStr (plan_connectorId plan)), (''verification'', verification_js outcome)]]
     @ (if completed then [] else rollback_planned_audit_inputs who jobId plan)
     @ [plan_audit who plan (if completed then ''provisioning.completed'' else ''provisioning.failed'')
          (''corr:'' @ jobId @ '':'' @ (if completed then ''completed'' else ''failed'')) (job_fields job)]"

definition controlled_job ::
  "provisioning_plan \<Rightarrow> controlled_job_request \<Rightarrow> provisioning_approval option \<Rightarrow> enforcement_control option \<Rightarrow>
   string \<Rightarrow> provisioning_verification \<Rightarrow> bool \<Rightarrow> provisioning_job" where
  "controlled_job plan req approval control completedAt outcome completed =
    \<lparr>entity_id = cj_jobId req, version = ''provisioning-job:v1'', createdAt = cj_startedAt req, updatedAt = None,
     job_planId = entity_id plan, job_connectorId = plan_connectorId plan, job_mode = Enforcement,
     job_dryRun = False, job_status = (if completed then Job_completed else Job_failed),
     job_approverId = cj_approverId req, job_idempotencyKey = cj_idempotencyKey req,
     job_actionResults = map (controlled_action_result completed outcome) (plan_actions plan),
     job_verification = outcome, job_auditEventIds = [], job_approval = approval, job_control = control,
     job_startedAt = cj_startedAt req, job_completedAt = Some completedAt\<rparr>"

text \<open>The checks of a job before its connector is asked to change anything.\<close>

definition admit_controlled_job ::
  "'c connector_adapter \<Rightarrow> provisioning_plan \<Rightarrow> controlled_job_request \<Rightarrow> ('c, 'p, unit) run" where
  "admit_controlled_job c plan req =
     (let approval = coalesce_opt (cj_approval req) (plan_approval plan);
          control = coalesce_opt (cj_control req) (plan_control plan)
      in andthen (guard_by (job_controls_error plan (cj_approval req) (cj_control req))) (\<lambda>_.
         andthen (assert_controlled_enforcement_allowed c approval control (Some (cj_approverId req))) (\<lambda>_.
         assert_enforcement_readiness c (plan_connectorId plan) (plan_readinessReportId plan) approval control)))"

definition execute_controlled_job ::
  "'c connector_adapter \<Rightarrow> provisioning_plan \<Rightarrow> controlled_job_request \<Rightarrow> ('c, 'p, controlled_job_execution) run" where
  "execute_controlled_job c plan req =
     andthen (admit_controlled_job c plan req) (\<lambda>_.
     andthen (ask_provider (con_applyProvisioningChange c plan)) (\<lambda>applied.
     andthen (perform app_now) (\<lambda>completedAt.
     andthen (ask_provider (con_verifyProvisioningChange c applied)) (\<lambda>verified.
     andthen (look app_actor) (\<lambda>who.
       let approval = coalesce_opt (cj_approval req) (plan_approval plan);
           control = coalesce_opt (cj_control req) (plan_control plan);
           outcome = enforcement_verification applied completedAt verified;
           completed = (plan_status applied = Plan_applied \<and> ver_status outcome = Ver_verified);
           job = controlled_job plan req approval control completedAt outcome completed
       in give
         \<lparr>ex_completedAt = completedAt,
          ex_updatedPlan = plan\<lparr>plan_status := (if completed then Plan_applied else Plan_failed),
                             updatedAt := Some completedAt\<rparr>,
          ex_job = job,
          ex_auditInputs = controlled_job_audit_inputs who (cj_jobId req) plan job
            (job_actionResults job) outcome completed\<rparr>)))))"

subsection \<open>Readiness\<close>

definition readiness_report_id :: "string \<Rightarrow> string \<Rightarrow> ('c, 'p, canonical_id) run" where
  "readiness_report_id connectorId checkedAt =
     andthen (look (\<lambda>a. length (list_readiness_reports (app_store a) (Some connectorId) None))) (\<lambda>n.
     andthen (perform (next_record_sequence (''readiness:'' @ connectorId) n)) (\<lambda>sequence.
     give (''readiness:'' @ connectorId @ '':'' @ compact_timestamp checkedAt @ '':'' @ nat_str sequence)))"

definition check_enforcement_readiness ::
  "runtime \<Rightarrow> string \<Rightarrow> readiness_request \<Rightarrow> ('c, 'p, enforcement_readiness_report) run" where
  "check_enforcement_readiness rt connectorId req =
     andthen (get_connector connectorId) (\<lambda>c.
     andthen (perform app_now) (\<lambda>checkedAt.
     andthen (readiness_report_id connectorId checkedAt) (\<lambda>reportId.
     andthen (plan_readiness_report c connectorId req reportId checkedAt) (\<lambda>(planned, input).
     andthen (audit rt input False) (\<lambda>event.
       let report = planned\<lparr>rep_auditEventIds := [eventId event]\<rparr>
       in andthen (try_store (record_readiness_report report)) (\<lambda>_.
          andthen (change (persist_job (Write_readiness_report report) checkedAt)) (\<lambda>_.
          andthen (change (persist_app_state checkedAt)) (\<lambda>_. give report))))))))"

subsection \<open>Plans\<close>

definition normalize_approval_for_replay :: "bool \<Rightarrow> provisioning_approval option \<Rightarrow> provisioning_approval option" where
  "normalize_approval_for_replay ignoreApprovedAt approval =
     (if ignoreApprovedAt then map_option (\<lambda>a. a\<lparr>approvedAt := ''idempotency-replay-normalized''\<rparr>) approval
      else approval)"

definition plan_matches_options :: "bool \<Rightarrow> provisioning_plan \<Rightarrow> execution_options \<Rightarrow> bool" where
  "plan_matches_options ignoreApprovedAt plan options \<longleftrightarrow>
     plan_mode plan = coalesce (opt_mode options) Dry_run \<and>
     normalize_approval_for_replay ignoreApprovedAt (plan_approval plan)
       = normalize_approval_for_replay ignoreApprovedAt (opt_approval options) \<and>
     plan_control plan = opt_control options \<and>
     plan_readinessReportId plan = opt_readinessReportId options"

definition plan_matches_decision_request ::
  "decision_request \<Rightarrow> string \<Rightarrow> execution_options \<Rightarrow> provisioning_plan \<Rightarrow> bool" where
  "plan_matches_decision_request req connectorId options plan \<longleftrightarrow>
     plan_connectorId plan = connectorId \<and> plan_subjectId plan = req_subjectId req \<and>
     plan_resourceId plan = req_resourceId req \<and> plan_action plan = req_action req \<and>
     plan_matches_options False plan options"

definition plan_matches_revocation_request ::
  "canonical_id \<Rightarrow> string \<Rightarrow> execution_options \<Rightarrow> provisioning_plan \<Rightarrow> bool" where
  "plan_matches_revocation_request grantId connectorId options plan \<longleftrightarrow>
     plan_connectorId plan = connectorId \<and>
     list_ex (\<lambda>a. act_operation a = Op_revoke \<and>
                 map_get (act_requestedState a) ''nativeGrantId'' = Some (JStr grantId)) (plan_actions plan) \<and>
     plan_matches_options True plan options"

definition idempotency_key_reused :: "string \<Rightarrow> app_error" where
  "idempotency_key_reused what = Local_app_error 409 ''IDEMPOTENCY_KEY_REUSED''
     (''Idempotency-Key was already used for a different provisioning '' @ what @ '' request.'')"

definition record_plan_audit :: "runtime \<Rightarrow> provisioning_plan \<Rightarrow> ('c, 'p, unit) run" where
  "record_plan_audit rt plan =
     andthen (look app_actor) (\<lambda>who.
     andthen (collect_each (\<lambda>i. audit rt i False) (plan_audit_inputs who plan)) (\<lambda>_. give ()))"

definition store_new_plan :: "runtime \<Rightarrow> provisioning_plan \<Rightarrow> ('c, 'p, provisioning_plan) run" where
  "store_new_plan rt plan =
     andthen (change (with_store (upsert_provisioning_plan plan))) (\<lambda>_.
     andthen (record_plan_audit rt plan) (\<lambda>_.
     andthen (change (commit_runtime_persistence (createdAt plan) [persist_job (Write_plan plan) (createdAt plan)] True)) (\<lambda>_.
     give plan)))"

definition provisioning_plan_flow ::
  "runtime \<Rightarrow> string \<Rightarrow> execution_options \<Rightarrow> string option \<Rightarrow> (provisioning_plan \<Rightarrow> bool) \<Rightarrow>
   ('c connector_adapter \<Rightarrow> ('c, 'p, provisioning_plan) run) \<Rightarrow> ('c, 'p, provisioning_plan) run" where
  "provisioning_plan_flow rt connectorId options key matches prepare =
     andthen (get_connector connectorId) (\<lambda>c.
     andthen (look (\<lambda>a. if truthy key then get_provisioning_plan_by_idempotency_key (app_store a) (the key) else None))
       (\<lambda>existing.
       case existing of
         Some plan \<Rightarrow> if matches plan then give plan else raise (idempotency_key_reused ''plan'')
       | None \<Rightarrow>
           andthen (prepare c) (\<lambda>proposed.
           andthen (prepare_plan_for_execution c (proposed\<lparr>plan_connectorId := connectorId\<rparr>) options) (\<lambda>plan.
           store_new_plan rt (plan\<lparr>plan_idempotencyKey := key\<rparr>)))))"

definition with_default_connector :: "string option \<Rightarrow> (string \<Rightarrow> ('c, 'p, 'a) run) \<Rightarrow> ('c, 'p, 'a) run" where
  "with_default_connector connectorId f =
     (case connectorId of Some i \<Rightarrow> f i | None \<Rightarrow> andthen get_default_connector_id f)"

definition create_provisioning_plan ::
  "runtime \<Rightarrow> decision_request \<Rightarrow> rat \<times> rat \<Rightarrow> string option \<Rightarrow> execution_options \<Rightarrow> string option \<Rightarrow>
   ('c, 'p, provisioning_plan) run" where
  "create_provisioning_plan rt req timing connectorId options key =
     with_default_connector connectorId (\<lambda>i.
       provisioning_plan_flow rt i options key (plan_matches_decision_request req i options)
         (\<lambda>c. andthen (decide_and_persist rt True req timing)
                (\<lambda>d. ask_provider (con_planProvisioningChange c d))))"

definition create_revocation_plan ::
  "runtime \<Rightarrow> canonical_id \<Rightarrow> string option \<Rightarrow> execution_options \<Rightarrow> string option \<Rightarrow> ('c, 'p, provisioning_plan) run" where
  "create_revocation_plan rt grantId connectorId options key =
     with_default_connector connectorId (\<lambda>i.
       provisioning_plan_flow rt i options key (plan_matches_revocation_request grantId i options)
         (\<lambda>c. ask_provider (con_revokeAccess c grantId)))"

subsection \<open>Jobs\<close>

record job_request =
  jr_planId :: canonical_id
  jr_approverId :: canonical_id
  jr_idempotencyKey :: string
  jr_mode :: "provisioning_mode option"
  jr_approval :: "provisioning_approval option"
  jr_control :: "enforcement_control option"

definition job_id_for :: "runtime \<Rightarrow> job_request \<Rightarrow> canonical_id" where
  "job_id_for rt req = ''job:'' @ take 24 (sha256 rt (JObj
     [(''planId'', JStr (jr_planId req)), (''idempotencyKey'', JStr (jr_idempotencyKey req))]))"

text \<open>The job is stored, its audit events recorded, and the job stored again with their ids.\<close>

definition store_job_with_audit ::
  "runtime \<Rightarrow> provisioning_job \<Rightarrow> audit_input list \<Rightarrow> ('c, 'p, provisioning_job) run" where
  "store_job_with_audit rt job inputs =
     andthen (change (with_store (upsert_provisioning_job job))) (\<lambda>_.
     andthen (collect_each (\<lambda>i. audit rt i False) inputs) (\<lambda>events.
       let final = job\<lparr>job_auditEventIds := map eventId events\<rparr>
       in andthen (change (with_store (upsert_provisioning_job final))) (\<lambda>_. give final)))"

definition create_controlled_enforcement_job ::
  "runtime \<Rightarrow> 'c connector_adapter \<Rightarrow> provisioning_plan \<Rightarrow> controlled_job_request \<Rightarrow> ('c, 'p, provisioning_job) run" where
  "create_controlled_enforcement_job rt c plan req =
     andthen (execute_controlled_job c plan req) (\<lambda>ex.
     andthen (change (with_store (upsert_provisioning_plan (ex_updatedPlan ex)))) (\<lambda>_.
     andthen (store_job_with_audit rt (ex_job ex) (ex_auditInputs ex)) (\<lambda>job.
     andthen (change (persist_job (Write_plan (ex_updatedPlan ex)) (ex_completedAt ex))) (\<lambda>_.
     andthen (change (persist_job (Write_job job) (ex_completedAt ex))) (\<lambda>_.
     andthen (change (persist_app_state (ex_completedAt ex))) (\<lambda>_. give job))))))"

definition dry_run_verification :: "provisioning_plan \<Rightarrow> string \<Rightarrow> bool \<Rightarrow> provisioning_verification" where
  "dry_run_verification plan checkedAt verified =
    \<lparr>ver_status = (if verified then Ver_verified else Ver_skipped),
     ver_method = ''connector.verifyProvisioningChange'',
     ver_expectedState =
       [(''planId'', JStr (entity_id plan)), (''actionCount'', js_nat (length (plan_actions plan)))],
     ver_readbackState = Some
       [(''dryRun'', JBool True), (''providerWrite'', JBool False), (''verificationHook'', JBool verified)],
     ver_checkedAt = Some checkedAt,
     ver_message = Some
       (if verified then ''Dry-run verification hook completed without provider mutation.''
        else ''Connector did not provide positive dry-run verification; provider write remains skipped.'')\<rparr>"

definition dry_run_message :: string where
  "dry_run_message = ''Dry-run only: provider write was not executed.''"

definition dry_run_action_result :: "provisioning_verification \<Rightarrow> provisioning_action \<Rightarrow> provisioning_action_result" where
  "dry_run_action_result outcome a =
    \<lparr>result_actionId = act_actionId a, result_operation = act_operation a, result_status = Step_skipped,
     result_dryRun = True, result_idempotencyKey = act_idempotencyKey a, result_message = dry_run_message,
     result_verification = merge_verification (act_verification a) outcome,
     result_compensation = act_compensation a\<rparr>"

definition dry_run_job ::
  "provisioning_plan \<Rightarrow> job_request \<Rightarrow> canonical_id \<Rightarrow> string \<Rightarrow> string \<Rightarrow> provisioning_verification \<Rightarrow> provisioning_job" where
  "dry_run_job plan req jobId startedAt completedAt outcome =
    \<lparr>entity_id = jobId, version = ''provisioning-job:v1'', createdAt = startedAt, updatedAt = None,
     job_planId = entity_id plan, job_connectorId = plan_connectorId plan, job_mode = Dry_run, job_dryRun = True,
     job_status = Job_completed, job_approverId = jr_approverId req, job_idempotencyKey = jr_idempotencyKey req,
     job_actionResults = map (dry_run_action_result outcome) (plan_actions plan),
     job_verification = outcome, job_auditEventIds = [], job_approval = None, job_control = None,
     job_startedAt = startedAt, job_completedAt = Some completedAt\<rparr>"

definition dry_run_audit_inputs ::
  "canonical_id \<Rightarrow> provisioning_plan \<Rightarrow> provisioning_job \<Rightarrow> audit_input list" where
  "dry_run_audit_inputs who plan job =
     (let jobId = entity_id job in
      map (\<lambda>r. plan_audit who plan ''provisioning.skipped'' (''corr:'' @ jobId @ '':'' @ result_actionId r @ '':skipped'')
             [(''jobId'', JStr jobId), (''planId'', JStr (entity_id plan)), (''actionId'', JStr (result_actionId r)),
              (''operation'', JStr (operation_text (result_operation r))), (''dryRun'', JBool True),
              (''reason'', JStr (result_message r)), (''providerWrite'', JBool False)]) (job_actionResults job)
      @ [plan_audit who plan ''provisioning.verified'' (''corr:'' @ jobId @ '':verified'')
           [(''jobId'', JStr jobId), (''planId'', JStr (entity_id plan)),
            (''connectorId'', JStr (plan_connectorId plan)), (''verification'', verification_js (job_verification job))],
         plan_audit who plan ''provisioning.completed'' (''corr:'' @ jobId @ '':completed'') (job_fields job)])"

definition create_dry_run_job ::
  "runtime \<Rightarrow> 'c connector_adapter \<Rightarrow> provisioning_plan \<Rightarrow> job_request \<Rightarrow> canonical_id \<Rightarrow> string \<Rightarrow> ('c, 'p, provisioning_job) run" where
  "create_dry_run_job rt c plan req jobId startedAt =
     andthen (ask_provider (con_verifyProvisioningChange c plan)) (\<lambda>verified.
     andthen (perform app_now) (\<lambda>checkedAt.
     andthen (look app_actor) (\<lambda>who.
       let job = dry_run_job plan req jobId startedAt checkedAt (dry_run_verification plan checkedAt verified)
       in andthen (store_job_with_audit rt job (dry_run_audit_inputs who plan job)) (\<lambda>final.
          andthen (change (persist_job (Write_job final) checkedAt)) (\<lambda>_.
          andthen (change (persist_app_state checkedAt)) (\<lambda>_. give final))))))"

definition create_provisioning_job :: "runtime \<Rightarrow> job_request \<Rightarrow> ('c, 'p, provisioning_job option) run" where
  "create_provisioning_job rt req =
     andthen (look (\<lambda>a. get_provisioning_job_by_idempotency_key (app_store a) (jr_idempotencyKey req))) (\<lambda>existing.
       case existing of
         Some job \<Rightarrow>
           if job_planId job \<noteq> jr_planId req \<or> job_approverId job \<noteq> jr_approverId req
           then raise (idempotency_key_reused ''job'') else give (Some job)
       | None \<Rightarrow>
     andthen (look (\<lambda>a. get_provisioning_plan (app_store a) (jr_planId req))) (\<lambda>found.
       case found of
         None \<Rightarrow> give None
       | Some plan \<Rightarrow>
     andthen (get_connector (plan_connectorId plan)) (\<lambda>c.
     andthen (perform app_now) (\<lambda>startedAt.
       let jobId = job_id_for rt req; requested = coalesce (jr_mode req) (plan_mode plan)
       in if requested \<noteq> plan_mode plan
          then raise (Local_app_error 400 ''PROVISIONING_MODE_MISMATCH''
                 (''Plan '' @ entity_id plan @ '' is '' @ mode_text (plan_mode plan) @ '', not '' @ mode_text requested @ ''.''))
          else if requested = Enforcement
          then andthen (create_controlled_enforcement_job rt c plan
                 \<lparr>cj_approverId = jr_approverId req, cj_idempotencyKey = jr_idempotencyKey req, cj_jobId = jobId,
                  cj_startedAt = startedAt, cj_approval = jr_approval req, cj_control = jr_control req\<rparr>) (\<lambda>job. give (Some job))
          else andthen (create_dry_run_job rt c plan req jobId startedAt) (\<lambda>job. give (Some job))))))"

end
