(* ===== verification/Runtime_Reconciliation.thy ===== *)
theory Runtime_Reconciliation
  imports Provisioning_Jobs
begin

text \<open>
  Reconciliation runs and the dry-run remediation of drift: \<open>packages/api/src/runtime-reconciliation.ts\<close>.
\<close>

definition lift_range :: "range_error + 'a \<Rightarrow> ('c, 'p, 'a) run" where
  "lift_range r = (case r of Inl Invalid_time_value \<Rightarrow> raise (Raised (Error_object ''Invalid time value'')) | Inr x \<Rightarrow> give x)"

definition infer_native_grant_id :: "rebac_store \<Rightarrow> string \<Rightarrow> canonical_id \<Rightarrow> canonical_id \<Rightarrow> string \<Rightarrow> canonical_id option" where
  "infer_native_grant_id st connectorId resource s access =
     (let candidates = list_native_grants st (no_grant_filter
            \<lparr>ngf_sourceConnectorId := Some connectorId, ngf_targetObjectId := Some resource, ngf_subjectId := Some s\<rparr>)
      in map_option entity_id
           (coalesce_opt (find (\<lambda>g. nativePermission g = access) candidates)
              (case candidates of [] \<Rightarrow> None | g # _ \<Rightarrow> Some g)))"

definition infer_for_report :: "rebac_store \<Rightarrow> reported_finding \<Rightarrow> canonical_id option" where
  "infer_for_report st f =
     infer_native_grant_id st (raw_sourceConnectorId f) (raw_resourceId f) (raw_subjectId f) (raw_nativeAccess f)"

definition infer_for_finding :: "rebac_store \<Rightarrow> drift_finding \<Rightarrow> canonical_id option" where
  "infer_for_finding st f =
     infer_native_grant_id st (drift_sourceConnectorId f) (drift_resourceId f) (drift_subjectId f) (drift_nativeAccess f)"

subsection \<open>Reconciliation runs\<close>

definition drift_audit :: "canonical_id \<Rightarrow> drift_finding \<Rightarrow> string \<Rightarrow> string \<Rightarrow> json_record \<Rightarrow> audit_input" where
  "drift_audit who f type corr content =
    \<lparr>in_eventType = type, in_actor = who, in_subjectId = Some (drift_subjectId f),
     in_resourceId = Some (drift_resourceId f), in_correlationId = corr,
     in_policyVersion = None, in_relationshipVersion = None, in_payload = content\<rparr>"

definition store_drift_finding :: "runtime \<Rightarrow> drift_finding \<Rightarrow> ('c, 'p, canonical_id) run" where
  "store_drift_finding rt f =
     andthen (change (with_store (upsert_drift_finding f))) (\<lambda>_.
     andthen (change (persist_job (Write_drift_finding f) (drift_detectedAt f))) (\<lambda>_.
     andthen (look app_actor) (\<lambda>who.
     andthen (audit rt (drift_audit who f ''drift.detected'' (''corr:'' @ entity_id f) (drift_fields f)) True) (\<lambda>event.
     give (eventId event)))))"

definition high_or_critical :: "drift_finding \<Rightarrow> bool" where
  "high_or_critical f \<longleftrightarrow> drift_severity f = Drift_high \<or> drift_severity f = Drift_critical"

definition reconciliation_run_of ::
  "string \<Rightarrow> string \<Rightarrow> nat \<Rightarrow> reconciliation_trigger \<Rightarrow> reconciliation_schedule \<Rightarrow> drift_finding list \<Rightarrow>
   canonical_id list \<Rightarrow> string \<Rightarrow> reconciliation_run" where
  "reconciliation_run_of connectorId started sequence trigger schedule fs ids completed =
    \<lparr>entity_id = ''reconciliation:'' @ connectorId @ '':'' @ compact_timestamp started @ '':'' @ nat_str sequence,
     version = ''reconciliation-run:v1'', createdAt = started, updatedAt = None,
     recon_connectorId = connectorId, recon_trigger = trigger, recon_schedule = Some schedule,
     recon_status = Recon_completed, recon_findings = fs,
     recon_count_findings = length fs, recon_count_highOrCritical = length (filter high_or_critical fs),
     recon_auditEventIds = ids, recon_completedAt = Some completed\<rparr>"

definition reconciliation_audit :: "canonical_id \<Rightarrow> reconciliation_run \<Rightarrow> audit_input" where
  "reconciliation_audit who run =
    \<lparr>in_eventType = ''reconciliation.completed'', in_actor = who, in_subjectId = None, in_resourceId = None,
     in_correlationId = ''corr:'' @ entity_id run @ '':completed'',
     in_policyVersion = None, in_relationshipVersion = None,
     in_payload =
       [(''runId'', JStr (entity_id run)), (''connectorId'', JStr (recon_connectorId run)), (''dryRun'', JBool True),
        (''trigger'', JStr (trigger_text (recon_trigger run))),
        (''schedule'', opt_json schedule_js (recon_schedule run)),
        (''counts'', JObj [(''findings'', js_nat (recon_count_findings run)),
                        (''highOrCritical'', js_nat (recon_count_highOrCritical run))]),
        (''findingIds'', JArr (map (JStr \<circ> entity_id) (recon_findings run)))]\<rparr>"

definition enrich_reported ::
  "string \<Rightarrow> reconciliation_trigger \<Rightarrow> reconciliation_schedule \<Rightarrow> reported_finding \<Rightarrow> ('c, 'p, drift_finding) run" where
  "enrich_reported started trigger schedule f =
     andthen (look (\<lambda>a. infer_for_report (app_store a) f)) (\<lambda>inferred.
       lift_range (enrich_drift_finding_lifecycle f
         (no_lifecycle_options\<lparr>lo_now := Some started, lo_trigger := trigger, lo_schedule := whole_schedule schedule,
            lo_nativeGrantId := coalesce_opt (raw_nativeGrantId f) inferred\<rparr>)))"

definition run_reconciliation ::
  "runtime \<Rightarrow> string \<Rightarrow> reconciliation_trigger option \<Rightarrow> schedule_patch \<Rightarrow> ('c, 'p, reconciliation_run) run" where
  "run_reconciliation rt connectorId wanted patch =
     andthen (get_connector connectorId) (\<lambda>c.
     andthen (perform app_now) (\<lambda>started.
       let trigger = coalesce wanted Manual_trigger in
     andthen (lift_range (build_reconciliation_schedule started trigger patch)) (\<lambda>schedule.
     andthen (look (\<lambda>a. length (filter (\<lambda>r. recon_connectorId r = connectorId) (list_reconciliation_runs (app_store a)))))
       (\<lambda>existing.
     andthen (perform (next_record_sequence (''reconciliation:'' @ connectorId) existing)) (\<lambda>sequence.
     andthen (ask_provider (con_detectDrift c)) (\<lambda>reported.
     andthen (collect_each (enrich_reported started trigger schedule) reported) (\<lambda>fs.
     andthen (collect_each (store_drift_finding rt) fs) (\<lambda>ids.
     andthen (perform app_now) (\<lambda>completed.
     andthen (look app_actor) (\<lambda>who.
       let run = reconciliation_run_of connectorId started sequence trigger schedule fs ids completed
       in andthen (audit rt (reconciliation_audit who run) False) (\<lambda>event.
          let completedRun = run\<lparr>recon_auditEventIds := ids @ [eventId event]\<rparr>
          in andthen (try_store (record_reconciliation_run completedRun)) (\<lambda>_.
             andthen (change (persist_job (Write_reconciliation_run completedRun) completed)) (\<lambda>_.
             andthen (change (persist_app_state completed)) (\<lambda>_. give completedRun))))))))))))))"

subsection \<open>Remediation\<close>

record remediation_request =
  rq_approval :: "provisioning_approval option"
  rq_autoRepairPolicy :: drift_auto_repair_policy
  rq_readinessReportId :: "canonical_id option"
  rq_hookEvidence :: "drift_hook_evidence list option"

definition drift_remediation_action :: "drift_recommended_action \<Rightarrow> drift_recommended_action" where
  "drift_remediation_action act = (if act = Do_exception then Do_review else act)"

definition remediation_error :: "drift_finding \<Rightarrow> remediation_request \<Rightarrow> app_error option" where
  "remediation_error f req =
     (let policy = rq_autoRepairPolicy req; act = drift_remediation_action (drift_recommendedAction f) in
      if repair_liveProviderWrites policy
      then Some (Local_app_error 403 ''DRIFT_AUTO_REPAIR_LIVE_WRITES_BLOCKED''
        ''Drift remediation dry-runs cannot enable live provider writes.'')
      else if \<not> repair_requireApproval policy \<or> rq_approval req = None
      then Some (Local_app_error 409 ''DRIFT_REMEDIATION_APPROVAL_REQUIRED''
        ''Drift remediation requires explicit approval evidence.'')
      else if \<not> repair_requireConnectorReadiness policy
      then Some (Local_app_error 409 ''DRIFT_CONNECTOR_READINESS_REQUIRED''
        ''Drift remediation must require connector readiness before any auto-repair policy can be accepted.'')
      else if \<not> drift_severity_allowed (drift_severity f) (repair_maxSeverity policy)
      then Some (Local_app_error 409 ''DRIFT_AUTO_REPAIR_SEVERITY_BLOCKED''
        (''Finding '' @ entity_id f @ '' severity '' @ severity_text (drift_severity f)
         @ '' exceeds auto-repair policy maximum '' @ severity_text (repair_maxSeverity policy) @ ''.''))
      else if act \<notin> set (repair_allowedActions policy)
      then Some (Local_app_error 409 ''DRIFT_AUTO_REPAIR_ACTION_BLOCKED''
        (''Finding '' @ entity_id f @ '' recommended action '' @ recommended_action_text act @ '' is not allowed by policy.''))
      else None)"

definition hook_key :: "drift_hook_evidence \<Rightarrow> string" where
  "hook_key h = hook_system_text (hook_system h) @ '':'' @ hook_referenceId h"

definition merge_hook_evidence :: "drift_hook_evidence list \<Rightarrow> drift_hook_evidence list \<Rightarrow> drift_hook_evidence list" where
  "merge_hook_evidence old incoming =
     map_values (map_put_all hook_key incoming (map_put_all hook_key old []))"

definition repairing_finding ::
  "drift_finding \<Rightarrow> remediation_request \<Rightarrow> canonical_id option \<Rightarrow> provisioning_plan \<Rightarrow> string \<Rightarrow> string \<Rightarrow> drift_finding" where
  "repairing_finding f req grant plan plannedAt key =
     f\<lparr>drift_nativeGrantId := grant,
       drift_status := Df_repairing,
       drift_lifecycleState := Ds_repairing,
       drift_hookEvidence := merge_hook_evidence (drift_hookEvidence f) (coalesce (rq_hookEvidence req) []),
       drift_autoRepairPolicy := rq_autoRepairPolicy req,
       drift_remediation :=
         \<lparr>remediation_approval = rq_approval req,
          remediation_approvedAt = map_option approvedAt (rq_approval req),
          remediation_dryRunRepair = Some
            \<lparr>dry_planId = entity_id plan, dry_action = drift_remediation_action (drift_recommendedAction f),
             dry_status = Repair_planned, dry_generatedAt = plannedAt, dry_idempotencyKey = key,
             dry_evidence =
               [(''connectorId'', JStr (drift_sourceConnectorId f)),
                (''readinessReportId'', opt_str (rq_readinessReportId req)),
                (''planId'', JStr (entity_id plan)),
                (''actionIds'', JArr (map (JStr \<circ> act_actionId) (plan_actions plan))),
                (''dryRun'', JBool True), (''liveProviderWrites'', JBool False)]\<rparr>\<rparr>,
       updatedAt := Some plannedAt\<rparr>"

definition plain_request :: "canonical_id \<Rightarrow> string \<Rightarrow> canonical_id \<Rightarrow> decision_request" where
  "plain_request s act r =
    \<lparr>req_subjectId = s, req_action = act, req_resourceId = r, req_context = None, req_policyVersion = None,
     req_modelVersion = None, req_relationshipVersion = None, req_tupleVersion = None,
     req_contextVersion = None, req_asOf = None\<rparr>"

definition dry_run_options :: execution_options where
  "dry_run_options = \<lparr>opt_mode = Some Dry_run, opt_approval = None, opt_control = None, opt_readinessReportId = None\<rparr>"

definition remediation_plan ::
  "runtime \<Rightarrow> drift_finding \<Rightarrow> canonical_id option \<Rightarrow> rat \<times> rat \<Rightarrow> string \<Rightarrow> ('c, 'p, provisioning_plan) run" where
  "remediation_plan rt f grant timing key =
     (if drift_recommendedAction f = Do_revoke \<and> truthy grant
      then create_revocation_plan rt (the grant) (Some (drift_sourceConnectorId f)) dry_run_options (Some key)
      else create_provisioning_plan rt
             (plain_request (drift_subjectId f)
                (if drift_intendedAccess f = ''none'' then ''review'' else drift_intendedAccess f) (drift_resourceId f))
             timing (Some (drift_sourceConnectorId f)) dry_run_options (Some key))"

definition record_remediation :: "runtime \<Rightarrow> drift_finding \<Rightarrow> remediation_request \<Rightarrow> provisioning_plan \<Rightarrow> ('c, 'p, unit) run" where
  "record_remediation rt f req plan =
     andthen (look app_actor) (\<lambda>who.
     andthen (audit rt (drift_audit who f ''drift.remediation_approved'' (''corr:'' @ entity_id f @ '':remediation-approved'')
         [(''findingId'', JStr (entity_id f)), (''approval'', opt_json approval_js (rq_approval req)),
          (''autoRepairPolicy'', repair_policy_js (rq_autoRepairPolicy req)),
          (''readinessReportId'', opt_str (rq_readinessReportId req)),
          (''hookEvidence'', JArr (map hook_js (drift_hookEvidence f)))]) False) (\<lambda>_.
     andthen (audit rt (drift_audit who f ''drift.repair_dry_run_planned'' (''corr:'' @ entity_id f @ '':repair-dry-run'')
         [(''findingId'', JStr (entity_id f)), (''planId'', JStr (entity_id plan)), (''providerWrite'', JBool False),
          (''liveProviderWrites'', JBool False),
          (''dryRunRepair'', opt_json dry_run_repair_js (remediation_dryRunRepair (drift_remediation f)))]) False) (\<lambda>_.
     give ())))"

definition plan_drift_remediation_dry_run ::
  "runtime \<Rightarrow> canonical_id \<Rightarrow> remediation_request \<Rightarrow> rat \<times> rat \<Rightarrow> string \<Rightarrow> ('c, 'p, drift_finding option) run" where
  "plan_drift_remediation_dry_run rt findingId req timing key =
     andthen (look (\<lambda>a. get_drift_finding (app_store a) findingId)) (\<lambda>found.
       case found of
         None \<Rightarrow> give None
       | Some f \<Rightarrow>
     andthen (guard_by (remediation_error f req)) (\<lambda>_.
     andthen (get_connector (drift_sourceConnectorId f)) (\<lambda>c.
     andthen (assert_enforcement_readiness c (drift_sourceConnectorId f) (rq_readinessReportId req) (rq_approval req) None) (\<lambda>_.
     andthen (look (\<lambda>a. coalesce_opt (drift_nativeGrantId f) (infer_for_finding (app_store a) f))) (\<lambda>grant.
       if \<not> truthy grant \<and> drift_recommendedAction f = Do_revoke
       then raise (Local_app_error 409 ''DRIFT_REPAIR_TARGET_MISSING''
              (''Finding '' @ entity_id f @ '' cannot be dry-run repaired because no native grant target is available.''))
       else
     andthen (remediation_plan rt f grant timing key) (\<lambda>plan.
     andthen (perform app_now) (\<lambda>plannedAt.
     andthen (lift_range (enrich_drift_finding_lifecycle (report_of (repairing_finding f req grant plan plannedAt key))
         (no_lifecycle_options\<lparr>lo_now := Some plannedAt\<rparr>))) (\<lambda>updated.
     andthen (change (with_store (upsert_drift_finding updated))) (\<lambda>_.
     andthen (change (persist_job (Write_drift_finding updated) plannedAt)) (\<lambda>_.
     andthen (record_remediation rt updated req plan) (\<lambda>_.
     andthen (change (persist_app_state plannedAt)) (\<lambda>_. give (Some updated)))))))))))))"

end
