(* ===== verification/Runtime_Discovery.thy ===== *)
theory Runtime_Discovery
  imports Runtime_State
begin

text \<open>
  The graph operations and connector discovery of the API runtime: \<open>runtime-graph.ts\<close> and
  \<open>runtime-discovery.ts\<close> of \<open>packages/api/src\<close>.
\<close>

subsection \<open>Entities as audit payloads\<close>

fun subject_type_text :: "subject_type \<Rightarrow> string" where
  "subject_type_text User = ''user''"
| "subject_type_text Group = ''group''"
| "subject_type_text Service_account = ''service_account''"
| "subject_type_text Service_principal = ''service_principal''"
| "subject_type_text Managed_identity = ''managed_identity''"
| "subject_type_text Device = ''device''"
| "subject_type_text Workload = ''workload''"

fun resource_type_text :: "resource_type \<Rightarrow> string" where
  "resource_type_text Organization = ''organization''"
| "resource_type_text Workspace = ''workspace''"
| "resource_type_text Application = ''application''"
| "resource_type_text Sharepoint_site = ''sharepoint_site''"
| "resource_type_text Team = ''team''"
| "resource_type_text Folder = ''folder''"
| "resource_type_text Document = ''document''"
| "resource_type_text Power_app = ''power_app''"
| "resource_type_text Flow = ''flow''"
| "resource_type_text Dataverse_environment = ''dataverse_environment''"
| "resource_type_text Aws_account = ''aws_account''"
| "resource_type_text Aws_role = ''aws_role''"
| "resource_type_text Dataset = ''dataset''"
| "resource_type_text Api = ''api''"

definition subject_fields :: "subject \<Rightarrow> json_record" where
  "subject_fields s =
    [(''id'', JStr (entity_id s)),
     (''type'', JStr (subject_type_text (subject_type s))),
     (''displayName'', JStr (displayName s)),
     (''sourceSystem'', JStr (sourceSystem s)),
     (''lifecycleState'', JStr (lifecycle_text (lifecycleState s))),
     (''identifiers'', JObj (map (\<lambda>(k, v). (k, JStr v)) (identifiers s))),
     (''attributes'', opt_obj (attributes s)),
     (''lastSeenAt'', opt_str (lastSeenAt s))] @ entity_fields s"

definition resource_fields :: "resource \<Rightarrow> json_record" where
  "resource_fields r =
    [(''id'', JStr (entity_id r)),
     (''type'', JStr (resource_type_text (resource_type r))),
     (''displayName'', JStr (displayName r)),
     (''sourceSystem'', JStr (sourceSystem r)),
     (''ownerId'', JStr (ownerId r)),
     (''dataStewardId'', JStr (dataStewardId r)),
     (''technicalOwnerId'', JStr (technicalOwnerId r)),
     (''classification'', JStr (classification r)),
     (''lifecycleState'', JStr (lifecycle_text (lifecycleState r))),
     (''parentId'', opt_str (parentId r)),
     (''attributes'', opt_obj (attributes r)),
     (''lastSeenAt'', opt_str (lastSeenAt r))] @ entity_fields r"

definition relationship_fields :: "relationship \<Rightarrow> json_record" where
  "relationship_fields t =
    [(''id'', JStr (entity_id t)),
     (''subjectId'', JStr (subjectId t)),
     (''relation'', JStr (relation t)),
     (''objectId'', JStr (objectId t)),
     (''sourceSystem'', JStr (tuple_sourceSystem t)),
     (''assertedAt'', JStr (assertedAt t)),
     (''assertedBy'', opt_str (assertedBy t)),
     (''expiresAt'', opt_str (expiresAt t)),
     (''status'', JStr (tuple_status_text (tuple_status t))),
     (''attributes'', opt_obj (tuple_attributes t))] @ entity_fields t"

definition entity_audit ::
  "string \<Rightarrow> canonical_id \<Rightarrow> canonical_id option \<Rightarrow> canonical_id option \<Rightarrow> string \<Rightarrow> json_record \<Rightarrow> audit_input" where
  "entity_audit type who s r corr content =
    \<lparr>in_eventType = type, in_actor = who, in_subjectId = s, in_resourceId = r, in_correlationId = corr,
     in_policyVersion = None, in_relationshipVersion = None, in_payload = content\<rparr>"

subsection \<open>The graph\<close>

definition save_and_audit ::
  "runtime \<Rightarrow> (rebac_store \<Rightarrow> rebac_store) \<Rightarrow> (canonical_id \<Rightarrow> audit_input) \<Rightarrow> graph_write \<Rightarrow> 'a \<Rightarrow> ('c, 'p, 'a) run" where
  "save_and_audit rt save input wr saved =
     andthen (change (with_store save)) (\<lambda>_.
     andthen (look app_actor) (\<lambda>who.
     andthen (audit rt (input who) True) (\<lambda>event.
     andthen (change (persist_graph wr (occurredAt event))) (\<lambda>_. give saved))))"

definition create_subject :: "runtime \<Rightarrow> subject \<Rightarrow> ('c, 'p, subject) run" where
  "create_subject rt s =
     save_and_audit rt (upsert_subject s)
       (\<lambda>who. entity_audit ''subject.created'' who (Some (entity_id s)) None
          (''corr:'' @ entity_id s @ '':'' @ version s) (subject_fields s))
       (Write_subject s) s"

definition create_resource :: "runtime \<Rightarrow> resource \<Rightarrow> ('c, 'p, resource) run" where
  "create_resource rt r =
     save_and_audit rt (upsert_resource r)
       (\<lambda>who. entity_audit ''resource.discovered'' who None (Some (entity_id r))
          (''corr:'' @ entity_id r @ '':'' @ version r) (resource_fields r))
       (Write_resource r) r"

definition put_relationship :: "runtime \<Rightarrow> relationship \<Rightarrow> ('c, 'p, relationship) run" where
  "put_relationship rt t =
     save_and_audit rt (upsert_relationship t)
       (\<lambda>who. entity_audit ''relationship.created'' who (Some (subjectId t)) (Some (objectId t))
          (''corr:'' @ entity_id t @ '':'' @ version t) (relationship_fields t))
       (Write_relationship t) t"

definition remove_relationship :: "runtime \<Rightarrow> canonical_id \<Rightarrow> ('c, 'p, relationship option) run" where
  "remove_relationship rt i =
     andthen (perform app_now) (\<lambda>deletedAt.
     andthen (look (\<lambda>a. fst (delete_relationship i deletedAt (app_store a)))) (\<lambda>deleted.
     andthen (change (with_store (\<lambda>s. snd (delete_relationship i deletedAt s)))) (\<lambda>_.
       case deleted of
         None \<Rightarrow> give None
       | Some t \<Rightarrow>
           andthen (look app_actor) (\<lambda>who.
           andthen (audit rt
             (entity_audit ''relationship.deleted'' who (Some (subjectId t)) (Some (objectId t))
                (''corr:'' @ entity_id t @ '':deleted'') (relationship_fields t)) True) (\<lambda>event.
           andthen (change (persist_graph (Write_relationship t) (occurredAt event))) (\<lambda>_. give (Some t)))))))"

subsection \<open>Discovery\<close>

fun run_status_text :: "discovery_run_status \<Rightarrow> string" where
  "run_status_text Run_queued = ''queued''"
| "run_status_text Run_running = ''running''"
| "run_status_text Run_completed = ''completed''"
| "run_status_text Run_completed_with_warnings = ''completed_with_warnings''"
| "run_status_text Run_failed = ''failed''"

fun warning_severity_text :: "discovery_warning_severity \<Rightarrow> string" where
  "warning_severity_text Warn_info = ''info''"
| "warning_severity_text Warn_warning = ''warning''"
| "warning_severity_text Warn_error = ''error''"

fun warning_scope_text :: "discovery_warning_scope \<Rightarrow> string" where
  "warning_scope_text Scope_connector = ''connector''"
| "warning_scope_text Scope_subjects = ''subjects''"
| "warning_scope_text Scope_resources = ''resources''"
| "warning_scope_text Scope_relationships = ''relationships''"
| "warning_scope_text Scope_native_grants = ''native_grants''"

fun deleted_behavior_text :: "deleted_object_behavior \<Rightarrow> string" where
  "deleted_behavior_text Mark_deleted = ''mark_deleted''"
| "deleted_behavior_text Ignore_deleted = ''ignore''"
| "deleted_behavior_text Deletion_unsupported = ''unsupported''"

definition counts_js :: "discovery_run_counts \<Rightarrow> js" where
  "counts_js c = JObj
    [(''subjects'', js_nat (count_subjects c)), (''resources'', js_nat (count_resources c)),
     (''relationships'', js_nat (count_relationships c)), (''nativeGrants'', js_nat (count_nativeGrants c)),
     (''warnings'', js_nat (count_warnings c))]"

definition warning_js :: "discovery_run_warning \<Rightarrow> js" where
  "warning_js w = JObj
    [(''code'', JStr (warn_code w)), (''message'', JStr (warn_message w)),
     (''severity'', JStr (warning_severity_text (warn_severity w))),
     (''scope'', JStr (warning_scope_text (warn_scope w))),
     (''retryable'', JBool (warn_retryable w)), (''objectId'', opt_str (warn_objectId w))]"

definition cursor_js :: "discovery_cursor \<Rightarrow> js" where
  "cursor_js c = JObj
    [(''startedFrom'', opt_str (startedFrom c)), (''next'', opt_str (cursor_next c)),
     (''highWatermark'', JStr (highWatermark c)),
     (''deletedObjectBehavior'', JStr (deleted_behavior_text (deletedObjectBehavior c)))]"

definition discovery_evidence_js :: "discovery_evidence \<Rightarrow> js" where
  "discovery_evidence_js e = JObj
    [(''readOnly'', JBool (ev_readOnly e)), (''schemas'', JArr (map JStr (ev_schemas e))),
     (''connectorCapabilities'', JArr (map JStr (ev_connectorCapabilities e))),
     (''nativeAccessReadback'', JBool (ev_nativeAccessReadback e))]"

text \<open>The names of the capabilities that are set, in the order of the interface.\<close>

definition enabled_capabilities :: "connector_capabilities \<Rightarrow> string list" where
  "enabled_capabilities c =
     map fst (filter snd
       [(''supportsDiscovery'', supportsDiscovery c), (''supportsProvisioning'', supportsProvisioning c),
        (''supportsReconciliation'', supportsReconciliation c),
        (''supportsDirectPermissions'', supportsDirectPermissions c),
        (''supportsInheritedPermissions'', supportsInheritedPermissions c),
        (''supportsExternalUsers'', supportsExternalUsers c),
        (''supportsTimeBoundAccess'', supportsTimeBoundAccess c)])"

definition ask_metadata :: "'c connector_adapter \<Rightarrow> ('c, 'p, connector_metadata option) run" where
  "ask_metadata c =
     (case con_getDiscoveryMetadata c of
        None \<Rightarrow> give None
      | Some f \<Rightarrow> andthen (ask_provider f) (\<lambda>m. give (Some m)))"

definition set_connector_mode :: "string \<Rightarrow> connector_mode \<Rightarrow> ('c, 'p) local_app \<Rightarrow> ('c, 'p) local_app" where
  "set_connector_mode i m a =
     (case map_get (app_connectors a) i of
        None \<Rightarrow> a
      | Some c \<Rightarrow> a\<lparr>app_connectors := map_set i (c\<lparr>con_mode := m\<rparr>) (app_connectors a)\<rparr>)"

definition discovery_run_of ::
  "'c connector_adapter \<Rightarrow> string \<Rightarrow> string \<Rightarrow> string \<Rightarrow> string \<Rightarrow> subject list \<Rightarrow> resource list \<Rightarrow>
   relationship list \<Rightarrow> native_grant list \<Rightarrow> connector_metadata option \<Rightarrow> discovery_run" where
  "discovery_run_of c connectorId runKey started completed ss rs ts gs metadata =
     (let warnings = (case metadata of None \<Rightarrow> [] | Some m \<Rightarrow> md_warnings m) in
      \<lparr>entity_id = ''discovery:'' @ runKey, version = ''discovery-run:v1'', createdAt = started,
       updatedAt = Some completed,
       run_connectorId = connectorId,
       run_status = (if warnings \<noteq> [] then Run_completed_with_warnings else Run_completed),
       run_startedAt = started, run_completedAt = Some completed,
       run_counts =
         \<lparr>count_subjects = length ss, count_resources = length rs, count_relationships = length ts,
          count_nativeGrants = length gs, count_warnings = length warnings\<rparr>,
       run_warnings = warnings,
       run_cursor = Option.bind metadata md_cursor,
       run_evidence =
         \<lparr>ev_readOnly = True,
          ev_schemas = [''subject'', ''resource'', ''relationship'', ''native-grant'', ''discovery-run''],
          ev_connectorCapabilities = enabled_capabilities (con_capabilities c),
          ev_nativeAccessReadback = (gs \<noteq> [])\<rparr>,
       run_auditEventIds = []\<rparr>)"

definition discovery_audit ::
  "canonical_id \<Rightarrow> 'c connector_adapter \<Rightarrow> string \<Rightarrow> connector_metadata option \<Rightarrow> discovery_run \<Rightarrow> audit_input" where
  "discovery_audit who c runKey metadata run =
     entity_audit ''connector.discovery_completed'' who None None (''corr:connector-discovery:'' @ runKey)
       [(''action'', JStr ''connector.discovery.read_only''),
        (''connectorId'', JStr (run_connectorId run)),
        (''provider'', JStr (case metadata of Some m \<Rightarrow> md_provider m | None \<Rightarrow> provider_of c)),
        (''tenantBoundary'', JStr (case metadata of Some m \<Rightarrow> md_tenantBoundary m | None \<Rightarrow> boundary_of c)),
        (''mode'', JStr ''read_only''),
        (''status'', JStr (run_status_text (run_status run))),
        (''counts'', counts_js (run_counts run)),
        (''warnings'', JArr (map warning_js (run_warnings run))),
        (''cursor'', opt_json cursor_js (run_cursor run)),
        (''evidence'', discovery_evidence_js (run_evidence run)),
        (''discoveryRunId'', JStr (entity_id run))]"

text \<open>
  The connector's graph is stored before its grants are read back. The grants replace the
  connector's earlier ones unless the metadata says that the readback was incomplete.
\<close>

definition store_discovered :: "subject list \<Rightarrow> resource list \<Rightarrow> relationship list \<Rightarrow> rebac_store \<Rightarrow> rebac_store" where
  "store_discovered ss rs ts s =
     fold upsert_relationship ts (fold upsert_resource rs (fold upsert_subject ss s))"

definition finish_discovery ::
  "runtime \<Rightarrow> 'c connector_adapter \<Rightarrow> string \<Rightarrow> string \<Rightarrow> string \<Rightarrow> subject list \<Rightarrow> resource list \<Rightarrow>
   relationship list \<Rightarrow> native_grant list \<Rightarrow> connector_metadata option \<Rightarrow> ('c, 'p, discovery_run) run" where
  "finish_discovery rt c connectorId runKey started ss rs ts gs readback =
     andthen (perform app_now) (\<lambda>completed.
     andthen (ask_metadata c) (\<lambda>final.
     andthen (look app_actor) (\<lambda>who.
       let metadata = coalesce_opt final readback;
           run = discovery_run_of c connectorId runKey started completed ss rs ts gs metadata
       in andthen (audit rt (discovery_audit who c runKey metadata run) False) (\<lambda>event.
          let completedRun = run\<lparr>run_auditEventIds := [eventId event]\<rparr>
          in andthen (try_store (record_discovery_run completedRun)) (\<lambda>_.
             andthen (change (persist_connector_discovery_graph ss rs ts gs completed)) (\<lambda>_.
             andthen (change (persist_job (Write_discovery_run completedRun) completed)) (\<lambda>_.
             andthen (change (persist_app_state completed)) (\<lambda>_. give completedRun))))))))"

definition sync_connector :: "runtime \<Rightarrow> string \<Rightarrow> ('c, 'p, discovery_run) run" where
  "sync_connector rt connectorId =
     andthen (get_connector connectorId) (\<lambda>c.
     andthen (perform app_now) (\<lambda>started.
     andthen (look (\<lambda>a. length (list_discovery_runs (app_store a) (Some connectorId) None))) (\<lambda>existing.
     andthen (perform (next_record_sequence (''discovery:'' @ connectorId) existing)) (\<lambda>sequence.
       let runKey = connectorId @ '':'' @ compact_timestamp started @ '':'' @ nat_str sequence in
     andthen (change (set_connector_mode connectorId Connector_read_only)) (\<lambda>_.
     andthen (ask_metadata c) (\<lambda>initial.
     andthen (ask_provider (con_discoverSubjects c)) (\<lambda>ss.
     andthen (ask_provider (con_discoverResources c)) (\<lambda>rs.
     andthen (ask_provider (con_discoverRelationships c)) (\<lambda>ts.
     andthen (change (with_store (store_discovered ss rs ts))) (\<lambda>_.
     andthen (collect_each (\<lambda>r. ask_provider (con_readCurrentAccess c (entity_id r))) rs) (\<lambda>gss.
     andthen (ask_metadata c) (\<lambda>read.
       let gs = concat gss; readback = coalesce_opt read initial in
     andthen (if Option.bind readback md_nativeAccessReadbackComplete \<noteq> Some False
              then change (with_store (replace_native_grants_for_connector connectorId gs)) else give ()) (\<lambda>_.
     finish_discovery rt c connectorId runKey started ss rs ts gs readback)))))))))))))"

record native_access_filter =
  naf_sourceConnectorId :: "string option"
  naf_subjectId :: "string option"
  naf_nativePermission :: "string option"
  naf_grantType :: "native_grant_type option"
  naf_principalType :: "native_principal_type option"

definition full_grant_filter :: "canonical_id \<Rightarrow> native_access_filter \<Rightarrow> native_grant_filter" where
  "full_grant_filter resource f =
    \<lparr>ngf_sourceConnectorId = naf_sourceConnectorId f, ngf_targetObjectId = Some resource,
     ngf_subjectId = naf_subjectId f, ngf_nativePermission = naf_nativePermission f,
     ngf_grantType = naf_grantType f, ngf_principalType = naf_principalType f, ngf_status = None\<rparr>"

fun runtime_grant_type_text :: "native_grant_type \<Rightarrow> string" where
  "runtime_grant_type_text Direct_grant = ''direct''"
| "runtime_grant_type_text Inherited_grant = ''inherited''"
| "runtime_grant_type_text Group_grant = ''group''"

fun principal_type_text :: "native_principal_type \<Rightarrow> string" where
  "principal_type_text Principal_user = ''user''"
| "principal_type_text Principal_group = ''group''"
| "principal_type_text Principal_service_account = ''service_account''"
| "principal_type_text Principal_service_principal = ''service_principal''"
| "principal_type_text Principal_managed_identity = ''managed_identity''"
| "principal_type_text Principal_external_user = ''external_user''"
| "principal_type_text Principal_unknown = ''unknown''"

definition access_filter_js :: "native_access_filter \<Rightarrow> js" where
  "access_filter_js f = JObj
    [(''sourceConnectorId'', opt_str (naf_sourceConnectorId f)),
     (''subjectId'', opt_str (naf_subjectId f)),
     (''nativePermission'', opt_str (naf_nativePermission f)),
     (''grantType'', opt_json (JStr \<circ> runtime_grant_type_text) (naf_grantType f)),
     (''principalType'', opt_json (JStr \<circ> principal_type_text) (naf_principalType f))]"

definition read_native_access :: "runtime \<Rightarrow> canonical_id \<Rightarrow> native_access_filter \<Rightarrow> ('c, 'p, native_grant list) run" where
  "read_native_access rt resource f =
     andthen (look (\<lambda>a. list_native_grants (app_store a) (full_grant_filter resource f))) (\<lambda>grants.
     andthen (look app_actor) (\<lambda>who.
     andthen (perform app_now) (\<lambda>t.
     andthen (audit rt
       (entity_audit ''connector.current_access_read'' who None (Some resource)
          (''corr:connector-current-access:'' @ resource @ '':'' @ compact_timestamp t)
          [(''action'', JStr ''connector.current_access.read''), (''resourceId'', JStr resource),
           (''filters'', access_filter_js f), (''resultCount'', js_nat (length grants))]) True) (\<lambda>_.
     give grants))))"

definition test_connector :: "string \<Rightarrow> ('c, 'p, bool \<times> connector_health_check list) run" where
  "test_connector connectorId =
     andthen (look (\<lambda>a. map_get (app_connectors a) connectorId)) (\<lambda>found.
       case found of
         None \<Rightarrow> give (False,
           [\<lparr>health_name = ''connector_registered'', health_check_status = Check_fail,
             health_message = Some (''Connector '' @ connectorId @ '' is not registered.''), health_check_evidence = None\<rparr>])
       | Some c \<Rightarrow>
           andthen (case con_testReadOnlyAccess c of
                      Some f \<Rightarrow> ask_provider f
                    | None \<Rightarrow> give
                        [\<lparr>health_name = ''connector_registered'', health_check_status = Check_pass,
                          health_message = Some (connectorId @ '' is registered.''), health_check_evidence = None\<rparr>]) (\<lambda>checks.
           give (list_all (\<lambda>k. health_check_status k \<noteq> Check_fail) checks, checks)))"

end
