(* ===== verification/Runtime_Policies.thy ===== *)
theory Runtime_Policies
  imports Runtime_State
begin

text \<open>
  The policy lifecycle of \<open>packages/api/src/runtime-policies.ts\<close>: drafts, validation, publication and
  rollback, each replayed from its idempotency record when its key was used before.
\<close>

subsection \<open>The draft as it is hashed\<close>

definition strings_js :: "string list \<Rightarrow> js" where
  "strings_js ss = JArr (map JStr ss)"

fun relation_kind_text :: "relation_kind \<Rightarrow> string" where
  "relation_kind_text Membership = ''membership''"
| "relation_kind_text Grant = ''grant''"
| "relation_kind_text Containment = ''containment''"
| "relation_kind_text Deny_kind = ''deny''"
| "relation_kind_text (Unsupported_kind s) = s"

fun tenant_source_text :: "tenant_boundary_source \<Rightarrow> string" where
  "tenant_source_text Tenant_from_subject = ''subject''"
| "tenant_source_text Tenant_from_resource = ''resource''"
| "tenant_source_text Tenant_from_context = ''context''"

definition context_constraint_js :: "policy_context_constraint \<Rightarrow> js" where
  "context_constraint_js c = JObj
    [(''key'', JStr (cc_key c)), (''type'', JStr (context_type_text (cc_type c))),
     (''required'', opt_json JBool (cc_required c)), (''auditable'', opt_json JBool (cc_auditable c)),
     (''min'', opt_json JNum (cc_min c)), (''max'', opt_json JNum (cc_max c)),
     (''maxLength'', opt_json JNum (cc_maxLength c)), (''allowedValues'', opt_json JArr (cc_allowedValues c))]"

definition caveat_js :: "policy_caveat \<Rightarrow> js" where
  "caveat_js c = JObj
    [(''name'', JStr (caveat_name c)), (''failClosed'', JBool (caveat_failClosed c)),
     (''reasonCode'', JStr (caveat_reasonCode c)),
     (''conditions'', JArr (map (\<lambda>k. JObj
        [(''source'', JStr (source_text (cond_source k))), (''key'', JStr (cond_key k)),
         (''type'', JStr (context_type_text (cond_type k))),
         (''operator'', JStr (operator_text (cond_operator k))), (''value'', cond_value k)])
        (caveat_conditions c)))]"

definition policy_model_js :: "policy_model \<Rightarrow> js" where
  "policy_model_js m = JObj
    [(''schemaVersion'', JStr (pm_schemaVersion m)), (''id'', JStr (pm_id m)), (''version'', JStr (pm_version m)),
     (''resourceTypes'', JArr (map (\<lambda>r. JObj
        [(''type'', JStr (rt_type r)), (''allowedParentTypes'', opt_json strings_js (rt_allowedParentTypes r)),
         (''classifications'', strings_js (rt_classifications r))]) (pm_resourceTypes m))),
     (''relations'', JArr (map (\<lambda>r. JObj
        [(''name'', JStr (relation_name r)), (''kind'', JStr (relation_kind_text (relation_kind r))),
         (''subjectTypes'', strings_js (relation_subjectTypes r)),
         (''objectTypes'', strings_js (relation_objectTypes r))]) (pm_relations m))),
     (''actions'', JArr (map (\<lambda>x. JObj
        [(''name'', JStr (action_name x)), (''grants'', strings_js (action_grants x))]) (pm_actions m))),
     (''inheritanceRules'', JArr (map (\<lambda>r. JObj
        [(''name'', JStr (inh_name r)), (''relation'', JStr (inh_relation r)), (''through'', JStr (inh_through r)),
         (''actions'', strings_js (inh_actions r))]) (pm_inheritanceRules m))),
     (''denyRules'', JArr (map (\<lambda>r. JObj
        [(''name'', JStr (deny_name r)), (''relation'', JStr (deny_relation r)),
         (''actions'', opt_json strings_js (deny_actions r)), (''precedence'', JStr ''override'')]) (pm_denyRules m))),
     (''contextConstraints'', JArr (map context_constraint_js (pm_contextConstraints m))),
     (''classificationConstraints'', JArr (map (\<lambda>c. JObj
        [(''classification'', JStr (cl_classification c)), (''allowedActions'', strings_js (cl_allowedActions c))])
        (pm_classificationConstraints m))),
     (''tenantBoundary'', JObj
        [(''key'', JStr (tb_key (pm_tenantBoundary m))),
         (''source'', JStr (tenant_source_text (tb_source (pm_tenantBoundary m)))),
         (''crossTenantTraversal'', JBool (tb_crossTenantTraversal (pm_tenantBoundary m)))]),
     (''migrations'', JArr (map (\<lambda>g. JObj
        [(''fromVersion'', JStr (mig_fromVersion g)), (''toVersion'', JStr (mig_toVersion g)),
         (''operations'', strings_js (mig_operations g))]) (pm_migrations m))),
     (''caveats'', opt_json (\<lambda>cs. JArr (map caveat_js cs)) (pm_caveats m)),
     (''conditionalRelationships'', opt_json (\<lambda>rs. JArr (map (\<lambda>r. JObj
        [(''relation'', JStr (cr_relation r)), (''caveats'', strings_js (cr_caveats r)),
         (''actions'', opt_json strings_js (cr_actions r))]) rs)) (pm_conditionalRelationships m)),
     (''explanation'', opt_json (\<lambda>x. JObj
        [(''deterministic'', JBool (ex_deterministic x)), (''includeContextKeys'', strings_js (ex_includeContextKeys x)),
         (''includeCaveatNames'', strings_js (ex_includeCaveatNames x))]) (pm_explanation m)),
     (''metadata'', opt_obj (pm_metadata m))]"

definition policy_draft_js :: "policy_draft \<Rightarrow> js" where
  "policy_draft_js d = JObj
    [(''name'', JStr (draft_name d)), (''model'', policy_model_js (draft_model d)),
     (''tests'', JArr (map JObj (draft_tests d)))]"

subsection \<open>Helpers\<close>

text \<open>
  \<open>slugify\<close>: every run of other characters becomes one dash, then one dash is dropped at each end.
\<close>

definition is_slug_char :: "char \<Rightarrow> bool" where
  "is_slug_char c \<longleftrightarrow> (let n = code_unit c in 48 \<le> n \<and> n \<le> 57 \<or> 97 \<le> n \<and> n \<le> 122)"

fun dash_runs :: "bool \<Rightarrow> string \<Rightarrow> string" where
  "dash_runs dashed [] = []"
| "dash_runs dashed (c # cs) =
     (if is_slug_char c then c # dash_runs False cs
      else if dashed then dash_runs True cs else CHR ''-'' # dash_runs True cs)"

definition drop_dash :: "string \<Rightarrow> string" where
  "drop_dash s = (case s of c # cs \<Rightarrow> if c = CHR ''-'' then cs else s | [] \<Rightarrow> [])"

definition slugify :: "string \<Rightarrow> string" where
  "slugify s =
     (let slug = rev (drop_dash (rev (drop_dash (dash_runs False (to_lower_case s)))))
      in if slug = [] then ''draft'' else slug)"

fun policy_status_text :: "policy_status \<Rightarrow> string" where
  "policy_status_text Policy_draft = ''draft''"
| "policy_status_text Policy_validated = ''validated''"
| "policy_status_text Policy_approved = ''approved''"
| "policy_status_text Policy_published = ''published''"
| "policy_status_text Policy_rolled_back = ''rolled_back''"

definition record_policy_audit ::
  "runtime \<Rightarrow> string \<Rightarrow> policy_summary \<Rightarrow> string \<Rightarrow> json_record \<Rightarrow> ('c, 'p, unit) run" where
  "record_policy_audit rt type summary occurred content =
     andthen (look app_actor) (\<lambda>who.
     andthen (perform (record_audit rt
       \<lparr>in_eventType = type, in_actor = who, in_subjectId = None, in_resourceId = Some (sum_id summary),
        in_correlationId = ''corr:'' @ sum_id summary @ '':'' @ type @ '':'' @
          take 12 (sha256 rt (JObj [(''occurredAt'', JStr occurred), (''payload'', JObj content)])),
        in_policyVersion = Some (sum_version summary), in_relationshipVersion = None, in_payload = content\<rparr>
       (Some occurred) True)) (\<lambda>_. give ()))"

definition summary_payload :: "policy_summary \<Rightarrow> json_record" where
  "summary_payload s =
    [(''policyId'', JStr (sum_id s)), (''version'', JStr (sum_version s)), (''status'', JStr (policy_status_text (sum_status s)))]"

definition policy_not_found :: "string \<Rightarrow> app_error" where
  "policy_not_found i = Local_app_error 404 ''POLICY_NOT_FOUND'' (''Policy '' @ i @ '' was not found.'')"

text \<open>The summary of an earlier request with the same scope and key, or the request itself.\<close>

definition replayed :: "string \<Rightarrow> ('c, 'p, policy_summary) run \<Rightarrow> ('c, 'p, policy_summary) run" where
  "replayed scope request =
     andthen (look (\<lambda>a. get_policy_idempotency (app_store a) scope)) (\<lambda>existing.
       case existing of Some r \<Rightarrow> give (pi_summary r) | None \<Rightarrow> request)"

definition with_policy :: "string \<Rightarrow> (policy_record \<Rightarrow> ('c, 'p, 'a) run) \<Rightarrow> ('c, 'p, 'a) run" where
  "with_policy i f =
     andthen (look (\<lambda>a. get_policy (app_store a) i)) (\<lambda>found.
       case found of None \<Rightarrow> raise (policy_not_found i) | Some r \<Rightarrow> f r)"

definition save_policy :: "policy_record \<Rightarrow> ('c, 'p, unit) run" where
  "save_policy r = change (with_store (upsert_policy r))"

definition save_idempotency :: "string \<Rightarrow> policy_summary \<Rightarrow> ('c, 'p, unit) run" where
  "save_idempotency scope s = change (with_store (set_policy_idempotency \<lparr>pi_key = scope, pi_summary = s\<rparr>))"

subsection \<open>The operations\<close>

definition list_policy_summaries :: "('c, 'p) local_app \<Rightarrow> policy_summary list" where
  "list_policy_summaries a = map pr_summary (list_policies (app_store a))"

definition create_policy :: "runtime \<Rightarrow> policy_draft \<Rightarrow> string \<Rightarrow> ('c, 'p, policy_summary) run" where
  "create_policy rt draft key =
     replayed (''create:'' @ key)
       (andthen (perform app_now) (\<lambda>created.
        let i = ''policy:'' @ slugify (draft_name draft) @ '':'' @ take 12 (sha256 rt (policy_draft_js draft));
            summary = \<lparr>sum_id = i, sum_version = i @ '':draft'', sum_status = Policy_draft, sum_createdAt = created,
                       sum_publishedAt = None\<rparr>
        in andthen (save_policy \<lparr>pr_draft = draft, pr_summary = summary, pr_validation = None\<rparr>) (\<lambda>_.
           andthen (save_idempotency (''create:'' @ key) summary) (\<lambda>_.
           andthen (record_policy_audit rt ''policy.created'' summary created (summary_payload summary)) (\<lambda>_.
           give summary)))))"

definition validation_outcome :: "bool \<Rightarrow> policy_record \<Rightarrow> policy_validation" where
  "validation_outcome test existing =
     (let v = validate_policy_model (draft_model (pr_draft existing))
      in \<lparr>pv_valid = pv_valid v,
          pv_checks = (if test \<and> pv_valid v
            then pv_checks v @ [pass_check ''proof_points''
                   ''Policy model is eligible for deterministic proof-point execution.'']
            else pv_checks v)\<rparr>)"

definition validated_summary :: "bool \<Rightarrow> policy_summary \<Rightarrow> policy_summary" where
  "validated_summary valid s =
     (if valid \<and> sum_status s \<in> {Policy_draft, Policy_rolled_back, Policy_validated}
      then s\<lparr>sum_status := Policy_validated\<rparr>
      else if \<not> valid \<and> sum_status s = Policy_validated then s\<lparr>sum_status := Policy_draft\<rparr> else s)"

definition validate_policy :: "runtime \<Rightarrow> string \<Rightarrow> bool \<Rightarrow> ('c, 'p, policy_validation) run" where
  "validate_policy rt i test =
     with_policy i (\<lambda>existing.
       let result = validation_outcome test existing; summary = validated_summary (pv_valid result) (pr_summary existing)
       in andthen (perform app_now) (\<lambda>t.
          andthen (save_policy (existing\<lparr>pr_summary := summary, pr_validation := Some result\<rparr>)) (\<lambda>_.
          andthen (record_policy_audit rt (if pv_valid result then ''policy.validated'' else ''policy.validation_failed'')
            summary t
            [(''policyId'', JStr i), (''version'', JStr (sum_version summary)),
             (''status'', JStr (policy_status_text (sum_status summary))),
             (''mode'', JStr (if test then ''test'' else ''validate'')), (''valid'', JBool (pv_valid result))]) (\<lambda>_.
          give result))))"

definition publication_refused :: "runtime \<Rightarrow> string \<Rightarrow> policy_record \<Rightarrow> policy_validation \<Rightarrow> ('c, 'p, policy_summary) run" where
  "publication_refused rt i prior validation =
     andthen (perform app_now) (\<lambda>t.
       let summary = (pr_summary prior)\<lparr>sum_status := Policy_draft\<rparr>
       in andthen (save_policy (prior\<lparr>pr_summary := summary, pr_validation := Some validation\<rparr>)) (\<lambda>_.
          andthen (record_policy_audit rt ''policy.validation_failed'' summary t
            [(''policyId'', JStr i), (''version'', JStr (sum_version summary)),
             (''status'', JStr (policy_status_text (sum_status summary))), (''valid'', JBool False)]) (\<lambda>_.
          raise (Local_app_error 422 ''POLICY_VALIDATION_FAILED''
            (''Policy '' @ i @ '' failed deterministic validation.'')))))"

definition publish_policy :: "runtime \<Rightarrow> string \<Rightarrow> string \<Rightarrow> string \<Rightarrow> string \<Rightarrow> ('c, 'p, policy_summary) run" where
  "publish_policy rt i ticket approver key =
     (let scope = ''publish:'' @ i @ '':'' @ key in
      replayed scope (with_policy i (\<lambda>prior.
        if sum_status (pr_summary prior) \<noteq> Policy_validated
        then raise (Local_app_error 409 ''POLICY_NOT_VALIDATED''
               (''Policy '' @ i @ '' must pass validation before publication.''))
        else let validation = validate_policy_model (draft_model (pr_draft prior)) in
          if \<not> pv_valid validation then publication_refused rt i prior validation
          else andthen (perform app_now) (\<lambda>t.
            let summary = \<lparr>sum_id = i, sum_version = i @ '':published'', sum_status = Policy_published,
                  sum_createdAt = sum_createdAt (pr_summary prior), sum_publishedAt = Some t\<rparr>
            in andthen (save_policy (prior\<lparr>pr_summary := summary, pr_validation := Some validation\<rparr>)) (\<lambda>_.
               andthen (save_idempotency scope summary) (\<lambda>_.
               andthen (record_policy_audit rt ''policy.published'' summary t
                 (summary_payload summary @ [(''changeTicket'', JStr ticket), (''approverId'', JStr approver)])) (\<lambda>_.
               give summary)))))))"

definition rollback_target :: "rebac_store \<Rightarrow> string \<Rightarrow> string \<Rightarrow> policy_summary \<Rightarrow> policy_idempotency option" where
  "rollback_target st i target current =
     find (\<lambda>r. sum_id (pi_summary r) = i \<and> sum_version (pi_summary r) = target \<and>
               sum_version (pi_summary r) \<noteq> sum_version current) (list_policy_idempotency st)"

definition rollback_policy :: "runtime \<Rightarrow> string \<Rightarrow> string \<Rightarrow> string \<Rightarrow> string \<Rightarrow> string \<Rightarrow> ('c, 'p, policy_summary) run" where
  "rollback_policy rt i target ticket approver key =
     (let scope = ''rollback:'' @ i @ '':'' @ key in
      replayed scope (with_policy i (\<lambda>prior.
        if sum_status (pr_summary prior) \<noteq> Policy_published
        then raise (Local_app_error 409 ''POLICY_NOT_PUBLISHED''
               (''Policy '' @ i @ '' must be published before rollback.''))
        else andthen (look (\<lambda>a. rollback_target (app_store a) i target (pr_summary prior))) (\<lambda>found.
          case found of
            None \<Rightarrow> raise (Local_app_error 404 ''POLICY_VERSION_NOT_FOUND''
                      (''Policy '' @ i @ '' has no prior snapshot for version '' @ target @ ''.''))
          | Some r \<Rightarrow> andthen (perform app_now) (\<lambda>t.
              let summary = \<lparr>sum_id = i, sum_version = sum_version (pi_summary r), sum_status = Policy_rolled_back,
                    sum_createdAt = sum_createdAt (pr_summary prior), sum_publishedAt = sum_publishedAt (pr_summary prior)\<rparr>
              in andthen (save_policy (prior\<lparr>pr_summary := summary\<rparr>)) (\<lambda>_.
                 andthen (save_idempotency scope summary) (\<lambda>_.
                 andthen (record_policy_audit rt ''policy.rolled_back'' summary t
                   (summary_payload summary @ [(''targetVersion'', JStr target), (''changeTicket'', JStr ticket),
                      (''approverId'', JStr approver)])) (\<lambda>_.
                 give summary))))))))"

end
