(* ===== verification/Runtime_Laws.thy ===== *)
theory Runtime_Laws
  imports Runtime_Reconciliation Runtime_Discovery Runtime_Policies
begin

text \<open>
  How the computations of the runtime change the app. A relation on apps that is reflexive and
  transitive and holds across each primitive effect holds across every flow: the locales below
  state that once, for the audit and persistence layer (\<open>runtime_order\<close>), for the flows that also ask
  connectors and store plans (\<open>plan_order\<close>), and for those that store jobs (\<open>job_order\<close>). They are
  interpreted on the relations the properties need.
\<close>

definition evolves :: "(('c, 'p) local_app \<Rightarrow> ('c, 'p) local_app \<Rightarrow> bool) \<Rightarrow> ('c, 'p, 'a) run \<Rightarrow> bool" where
  "evolves R m \<longleftrightarrow> (\<forall>a. R a (snd (m a)))"

lemma evolvesD: "evolves R m \<Longrightarrow> m a = (r, b) \<Longrightarrow> R a b"
  unfolding evolves_def using snd_conv by metis

text \<open>
  What the runtime keeps of every stored plan and job, beyond their HOL types: a dry run changes
  nothing and carries no authority, an enforcement carries its approval, safe controls and a
  readiness report, and a job's results agree with its outcome.
\<close>

definition safe_controls :: "enforcement_control \<Rightarrow> bool" where
  "safe_controls co \<longleftrightarrow> syntheticOnly co \<and> \<not> liveProviderWrites co \<and> \<not> incidentMode co \<and> \<not> breakGlass co"

definition plan_typed :: "provisioning_plan \<Rightarrow> bool" where
  "plan_typed p \<longleftrightarrow>
     (case plan_mode p of
        Dry_run \<Rightarrow> plan_status p = Plan_planned \<and> list_all act_dryRun (plan_actions p)
      | Enforcement \<Rightarrow>
          plan_status p \<in> {Plan_approved, Plan_applied, Plan_failed} \<and> list_all (\<lambda>x. \<not> act_dryRun x) (plan_actions p) \<and>
          plan_approval p \<noteq> None \<and> truthy (plan_readinessReportId p) \<and>
          (case plan_control p of None \<Rightarrow> False | Some co \<Rightarrow> safe_controls co))"

definition results_agree :: "provisioning_step_status \<Rightarrow> provisioning_job \<Rightarrow> bool" where
  "results_agree s j \<longleftrightarrow>
     list_all (\<lambda>r. result_status r = s \<and> result_dryRun r = job_dryRun j \<and>
       ver_status (result_verification r) = ver_status (job_verification j)) (job_actionResults j)"

definition job_typed :: "provisioning_job \<Rightarrow> bool" where
  "job_typed j \<longleftrightarrow> job_completedAt j \<noteq> None \<and>
     (case job_mode j of
        Dry_run \<Rightarrow> job_dryRun j \<and> job_status j = Job_completed \<and> job_approval j = None \<and> job_control j = None \<and>
          ver_status (job_verification j) \<in> {Ver_verified, Ver_skipped} \<and> results_agree Step_skipped j
      | Enforcement \<Rightarrow> \<not> job_dryRun j \<and>
          (case job_approval j of None \<Rightarrow> False
           | Some ap \<Rightarrow> job_approverId j = [] \<or> job_approverId j = approverId ap) \<and>
          (case job_control j of None \<Rightarrow> False | Some co \<Rightarrow> safe_controls co) \<and>
          (job_status j = Job_completed \<and> ver_status (job_verification j) = Ver_verified \<and> results_agree Step_applied j \<or>
           job_status j = Job_failed \<and> results_agree Step_failed j))"

text \<open>A connector all of whose operations but \<open>applyProvisioningChange\<close> move the provider along a relation.\<close>

definition confined :: "('c \<Rightarrow> 'c \<Rightarrow> bool) \<Rightarrow> 'c connector_adapter \<Rightarrow> bool" where
  "confined moves c \<longleftrightarrow> (\<forall>w.
     moves w (snd (con_discoverSubjects c w)) \<and> moves w (snd (con_discoverResources c w)) \<and>
     moves w (snd (con_discoverRelationships c w)) \<and> moves w (snd (con_detectDrift c w)) \<and>
     (\<forall>r. moves w (snd (con_readCurrentAccess c r w))) \<and>
     (\<forall>d. moves w (snd (con_planProvisioningChange c d w))) \<and>
     (\<forall>g. moves w (snd (con_revokeAccess c g w))) \<and>
     (\<forall>p. moves w (snd (con_verifyProvisioningChange c p w))) \<and>
     (\<forall>f. con_testReadOnlyAccess c = Some f \<longrightarrow> moves w (snd (f w))) \<and>
     (\<forall>f. con_getDiscoveryMetadata c = Some f \<longrightarrow> moves w (snd (f w))))"

lemma typed_with_key: "plan_typed (p\<lparr>plan_idempotencyKey := key\<rparr>) = plan_typed p"
  by (cases "plan_mode p") (simp_all add: plan_typed_def)

lemma prepared_typed:
  assumes "prepare_plan_for_execution c p o' a = (Inr q, b)"
  shows "plan_typed q"
proof (cases "coalesce (opt_mode o') Dry_run = Dry_run")
  case True
  with assms show ?thesis
    by (auto simp: prepare_plan_for_execution_def plan_typed_def list_all_iff)
next
  case False
  with assms obtain x b1 y b2 where
      allowed: "assert_controlled_enforcement_allowed c (opt_approval o') (opt_control o')
        (map_option approverId (opt_approval o')) a = (Inr x, b1)"
    and ready: "assert_enforcement_readiness c (plan_connectorId p) (opt_readinessReportId o')
        (opt_approval o') (opt_control o') b1 = (Inr y, b2)"
    and q: "q = p\<lparr>plan_mode := Enforcement, plan_status := Plan_approved,
      plan_actions := map (\<lambda>a. a\<lparr>act_dryRun := False, act_status := Step_planned\<rparr>) (plan_actions p),
      plan_approval := opt_approval o', plan_control := opt_control o',
      plan_readinessReportId := opt_readinessReportId o'\<rparr>"
    by (auto simp: prepare_plan_for_execution_def andthen_Inr)
  from ready have "truthy (opt_readinessReportId o')"
    by (auto simp: assert_enforcement_readiness_def andthen_Inr readiness_error_def guard_by_def split: if_splits)
  moreover from allowed obtain ap co where "opt_approval o' = Some ap" "opt_control o' = Some co" "guardrail_error c co = None"
    by (auto simp: assert_controlled_enforcement_allowed_def andthen_Inr guard_by_def
        split: option.splits if_splits)
  ultimately show ?thesis
    by (auto simp: q plan_typed_def list_all_iff guardrail_error_def safe_controls_def split: if_splits)
qed

subsection \<open>Threading a relation through computations\<close>

locale app_order =
  fixes R :: "('c, 'p) local_app \<Rightarrow> ('c, 'p) local_app \<Rightarrow> bool"
  assumes refl: "R a a"
    and trans: "R a b \<Longrightarrow> R b c \<Longrightarrow> R a c"
begin

lemma still: "evolves R (give x)" "evolves R (raise e)" "evolves R (look f)"
  by (simp_all add: evolves_def refl)

lemma bind: "evolves R m \<Longrightarrow> (\<And>x. evolves R (f x)) \<Longrightarrow> evolves R (andthen m f)"
  unfolding evolves_def andthen_def by (auto split: prod.split sum.split intro: trans dest: spec) (metis snd_conv trans)+

lemma bind_post:
  assumes "evolves R m" "\<And>a x b. m a = (Inr x, b) \<Longrightarrow> evolves R (f x)"
  shows "evolves R (andthen m f)"
proof -
  have "R a (snd (andthen m f a))" for a
  proof (cases "m a")
    case (Pair r b)
    note step = evolvesD [OF assms(1) Pair]
    show ?thesis
    proof (cases r)
      case (Inr x)
      from assms(2) [OF Pair [unfolded Inr]] have "R b (snd (f x b))" by (simp add: evolves_def)
      with step Pair Inr show ?thesis by (auto intro: trans)
    qed (use step Pair in auto)
  qed
  then show ?thesis by (simp add: evolves_def)
qed

lemma changed: "(\<And>a. R a (f a)) \<Longrightarrow> evolves R (change f)"
  by (simp add: evolves_def)

lemma performed: "(\<And>a. R a (snd (f a))) \<Longrightarrow> evolves R (perform f)"
  by (simp add: evolves_def perform_def split: prod.split) (metis snd_conv)

lemma guarded: "evolves R (guard_by e)"
  by (cases e) (simp_all add: still)

lemma each: "(\<And>x. evolves R (f x)) \<Longrightarrow> evolves R (collect_each f xs)"
  by (induction xs) (auto intro: bind still)

lemma default_connector: "evolves R get_default_connector_id"
  by (auto simp: evolves_def get_default_connector_id_def refl split: list.split)

lemma branches:
  "evolves R m \<Longrightarrow> evolves R n \<Longrightarrow> evolves R (if b then m else n)"
  "evolves R m \<Longrightarrow> (\<And>y. evolves R (f y)) \<Longrightarrow> evolves R (case z of None \<Rightarrow> m | Some y \<Rightarrow> f y)"
  "(\<And>y w. evolves R (g y w)) \<Longrightarrow> evolves R (case p of (y, w) \<Rightarrow> g y w)"
  by (auto split: option.split prod.split)

lemma ranged: "evolves R (lift_range r)"
  by (auto simp: lift_range_def still split: sum.split range_error.split)

lemma folded: "(\<And>x a. R a (f x a)) \<Longrightarrow> R a (fold f xs a)"
  by (induction xs arbitrary: a) (auto intro: refl trans)

lemmas flow = still bind guarded each default_connector branches ranged

end

subsection \<open>The audit and persistence layer\<close>

locale runtime_order = app_order R for R :: "('c, 'p) local_app \<Rightarrow> ('c, 'p) local_app \<Rightarrow> bool" +
  fixes rt :: runtime and keep :: "rebac_store \<Rightarrow> rebac_store \<Rightarrow> bool"
  assumes quiet: "app_engine b = app_engine a \<Longrightarrow> app_degradations b = app_degradations a \<Longrightarrow>
      app_provider b = app_provider a \<Longrightarrow> app_connectors b = app_connectors a \<Longrightarrow> app_actor b = app_actor a \<Longrightarrow> R a b"
    and degraded: "R a (a\<lparr>app_degradations := add_degradation d (app_degradations a)\<rparr>)"
    and stored: "store_step (app_store a) st \<Longrightarrow> st_auditEvents st = st_auditEvents (app_store a) \<Longrightarrow>
      keep (app_store a) st \<Longrightarrow> R a (with_store (\<lambda>_. st) a)"
    and audited: "record_event rt i t (en_recorder (app_engine a)) = (e, es) \<Longrightarrow>
      R a (with_store (record_audit_event e) (a\<lparr>app_engine := (app_engine a)\<lparr>en_recorder := es\<rparr>\<rparr>))"
    and evaluated: "R a (a\<lparr>app_engine := snd (evaluate rt (app_engine a) req x inp)\<rparr>)"
    and keep_rest: "st_provisioningPlans st = st_provisioningPlans s \<Longrightarrow>
      st_provisioningJobs st = st_provisioningJobs s \<Longrightarrow> keep s st"
begin

lemma with_step:
  "store_step (app_store a) (f (app_store a)) \<Longrightarrow> st_auditEvents (f (app_store a)) = st_auditEvents (app_store a) \<Longrightarrow>
     keep (app_store a) (f (app_store a)) \<Longrightarrow> R a (with_store f a)"
  using stored [of a "f (app_store a)"] by (simp add: with_store_def app_store_def)

lemma degradation: "R a (degrade c i t m a)"
  unfolding degrade_def by (rule degraded)

lemma write_tried: "R a (try_write c i t f a)"
proof -
  have disk: "R a (a\<lparr>app_disk := d\<rparr>)" for d by (rule quiet) simp_all
  show ?thesis
    by (auto simp: try_write_def repository_error_def split: prod.split option.split intro: disk trans [OF disk degradation])
qed

lemma receipts: "R a (with_store (replace_persistence_degradations ds) a)"
  by (intro with_step store_step.replace_degradations)
    (simp_all add: replace_persistence_degradations_def keep_rest)

lemma appended: "R a (append_audit_event rt e t prior a)"
  unfolding append_audit_event_def repository_error_def
  by (auto split: option.split sum.split simp: refl intro: degradation write_tried)

lemma snapshot: "R a (persist_store_snapshot t a)"
proof -
  have disk: "R a (a\<lparr>app_disk := d\<rparr>)" for d by (rule quiet) simp_all
  show ?thesis
    by (auto simp: persist_store_snapshot_def repository_error_def Let_def refl
        split: option.split prod.split intro: disk trans [OF trans [OF disk degradation] receipts])
qed

lemma app_state: "R a (persist_app_state t a)"
  unfolding persist_app_state_def by (rule snapshot)

lemma jobs_written: "R a (persist_job w t a)"
  by (auto simp: persist_job_def refl split: option.split intro: write_tried)

lemma decision_written: "R a (persist_job_decision d a)"
  unfolding persist_job_decision_def by (rule jobs_written)

lemma graph_written: "R a (persist_graph w t a)"
  by (auto simp: persist_graph_def refl split: option.split intro: write_tried)

lemma discovered_written: "R a (persist_connector_discovery_graph ss rs ts gs t a)"
proof -
  have each: "R b (fold (\<lambda>x. persist_graph (w x) t) xs b)" for b and w :: "'x \<Rightarrow> graph_write" and xs
    by (rule folded [OF graph_written])
  show ?thesis
    unfolding persist_connector_discovery_graph_def by (rule trans [OF trans [OF trans [OF each each] each] each])
qed

lemma committed: "(\<And>f b. f \<in> set fs \<Longrightarrow> R b (f b)) \<Longrightarrow> R a (commit_runtime_persistence t fs p a)"
proof -
  assume ops: "\<And>f b. f \<in> set fs \<Longrightarrow> R b (f b)"
  then have "R a (fold (\<lambda>f. f) fs a)"
    by (induction fs arbitrary: a) (auto intro: refl trans)
  then show ?thesis
    unfolding commit_runtime_persistence_def Let_def
    by (auto intro: trans [OF _ receipts] trans [OF trans [OF _ receipts] app_state])
qed

lemma ticked: "R a (snd (app_now a))"
  unfolding app_now_def by (rule quiet) simp_all

lemma sequenced: "R a (snd (next_record_sequence k n a))"
  unfolding next_record_sequence_def Let_def by (rule quiet) simp_all

lemma audit_related: "R a (snd (record_audit rt i given p a))"
proof -
  let ?i = "i\<lparr>in_actor := coalesce (app_requestActor a) (in_actor i)\<rparr>"
  obtain t a1 where now: "(case given of Some t \<Rightarrow> (t, a) | None \<Rightarrow> app_now a) = (t, a1)" by fastforce
  obtain e es where ev: "record_event rt ?i t (en_recorder (app_engine a1)) = (e, es)" by fastforce
  have "R a a1" using ticked [of a] refl [of a] now by (auto split: option.splits)
  moreover have "R a1 (with_store (record_audit_event e) (a1\<lparr>app_engine := (app_engine a1)\<lparr>en_recorder := es\<rparr>\<rparr>))"
    by (rule audited [OF ev])
  moreover have "R b (commit_runtime_persistence t [append_audit_event rt e t prior] p b)" for prior b
    by (rule committed) (auto intro: appended)
  ultimately show ?thesis
    by (auto simp: record_audit_def now ev Let_def intro: trans)
qed

lemma audit_run: "evolves R (audit rt i p)"
  unfolding audit_def by (rule performed [OF audit_related])

lemma hooked: "R a (on_audit_event rt e a)"
  unfolding on_audit_event_def Let_def by (rule trans [OF trans [OF appended receipts] snapshot])

lemma evaluation: "evolves R (app_evaluate rt x req timing)"
proof -
  have "R a (snd (app_evaluate rt x req timing a))" for a
  proof -
    obtain t a1 where now: "app_now a = (t, a1)" by (cases "app_now a")
    let ?inp = "\<lparr>ev_startedAt = fst timing, ev_finishedAt = snd timing, ev_now = t, ev_auditActor = app_requestActor a1\<rparr>"
    obtain r en where ev: "evaluate rt (app_engine a1) req x ?inp = (r, en)" by fastforce
    have "R a (a1\<lparr>app_engine := en\<rparr>)"
      using trans [OF ticked [of a] evaluated [of "snd (app_now a)" req x ?inp]] now ev by simp
    then show ?thesis
      by (cases r) (auto simp: app_evaluate_def now ev split: range_error.split intro: trans [OF _ hooked])
  qed
  then show ?thesis by (simp add: evolves_def)
qed

lemma decided: "evolves R (decide_and_persist rt x req timing)"
  unfolding decide_and_persist_def by (intro bind evaluation changed decision_written still)

lemma store_tried:
  assumes "\<And>s st. f s = Inr st \<Longrightarrow> store_step s st \<and> st_auditEvents st = st_auditEvents s \<and> keep s st"
  shows "evolves R (try_store f)"
  unfolding evolves_def try_store_def
  using assms stored by (auto simp: refl split: sum.split)

lemma store_changed:
  assumes "\<And>s. store_step s (f s) \<and> st_auditEvents (f s) = st_auditEvents s \<and> keep s (f s)"
  shows "evolves R (change (with_store f))"
  using assms by (intro changed with_step) auto

lemma store_folded:
  assumes "\<And>v s. store_step s (f v s) \<and> st_auditEvents (f v s) = st_auditEvents s \<and> keep s (f v s)"
  shows "evolves R (change (with_store (fold f vs)))"
proof (rule changed)
  fix a :: "('c, 'p) local_app"
  have "R a (fold (\<lambda>v. with_store (f v)) vs a)" using assms by (intro folded with_step) auto
  moreover have "fold (\<lambda>v. with_store (f v)) vs a = with_store (fold f vs) a"
    by (induction vs arbitrary: a) (simp_all add: with_store_def)
  ultimately show "R a (with_store (fold f vs) a)" by simp
qed

lemma job_stored:
  assumes "\<And>s ids. keep s (upsert_provisioning_job (job\<lparr>job_auditEventIds := ids\<rparr>) s)"
  shows "evolves R (store_job_with_audit rt job inputs)"
proof -
  have "keep s (upsert_provisioning_job job s)" for s using assms [of s "job_auditEventIds job"] by simp
  with assms show ?thesis
    unfolding store_job_with_audit_def Let_def
    by (intro flow audit_run store_changed conjI store_step.upsert_job) (simp_all add: upsert_provisioning_job_def)
qed

lemmas layer = flow audit_run decided performed [OF ticked] performed [OF sequenced]
  changed [OF app_state] changed [OF jobs_written] changed [OF graph_written] changed [OF discovered_written]

lemma expiry_checked: "evolves R (assert_not_expired ap)"
  unfolding assert_not_expired_def prod.case by (intro layer)

lemma allowed: "evolves R (assert_controlled_enforcement_allowed c ap co who)"
  unfolding assert_controlled_enforcement_allowed_def by (intro layer expiry_checked)

lemma ready: "evolves R (assert_enforcement_readiness c i k ap co)"
  unfolding assert_enforcement_readiness_def by (intro layer)

lemma job_admitted: "evolves R (admit_controlled_job c p req)"
  unfolding admit_controlled_job_def Let_def by (intro layer allowed ready)

end

subsection \<open>Flows that ask connectors and store plans\<close>

locale plan_order = runtime_order R rt keep
  for R :: "('c, 'p) local_app \<Rightarrow> ('c, 'p) local_app \<Rightarrow> bool" and rt and keep +
  fixes moves :: "'c \<Rightarrow> 'c \<Rightarrow> bool"
  assumes asked: "moves (app_provider a) w \<Longrightarrow> R a (a\<lparr>app_provider := w\<rparr>)"
    and moded: "R a (set_connector_mode i m a)"
    and unconfined: "map_get (app_connectors a) i = Some c \<Longrightarrow> \<not> confined moves c \<Longrightarrow> R a b"
    and keep_plan: "plan_typed p \<Longrightarrow> keep s (upsert_provisioning_plan p s)"
begin

lemma provider_asked:
  "(\<And>w. moves w (snd (f w))) \<Longrightarrow> evolves R (ask_provider f)"
  "(\<And>w. moves w (snd (f w))) \<Longrightarrow> evolves R (probe_provider f)"
  by (auto simp: evolves_def ask_provider_def probe_provider_def split: prod.split intro!: asked) (metis snd_conv)+

lemma operations:
  assumes "confined moves c"
  shows "evolves R (ask_provider (con_discoverSubjects c))" "evolves R (ask_provider (con_discoverResources c))"
    "evolves R (ask_provider (con_discoverRelationships c))" "evolves R (ask_provider (con_detectDrift c))"
    "evolves R (ask_provider (con_readCurrentAccess c r))" "evolves R (ask_provider (con_planProvisioningChange c d))"
    "evolves R (probe_provider (con_planProvisioningChange c d))"
    "evolves R (ask_provider (con_revokeAccess c g))" "evolves R (ask_provider (con_verifyProvisioningChange c p))"
    "con_testReadOnlyAccess c = Some f \<Longrightarrow> evolves R (ask_provider f)"
    "con_getDiscoveryMetadata c = Some h \<Longrightarrow> evolves R (ask_provider h)"
  using assms by (auto simp: confined_def intro!: provider_asked split: option.splits)

lemma found_connector:
  assumes "\<And>c. confined moves c \<Longrightarrow> evolves R (f c)"
  shows "evolves R (andthen (get_connector i) f)"
proof -
  have "R a (snd (andthen (get_connector i) f a))" for a
  proof (cases "map_get (app_connectors a) i")
    case None
    then show ?thesis by (simp add: get_connector_def andthen_def refl)
  next
    case (Some c)
    then show ?thesis
      using assms [of c] unconfined [OF Some]
      by (cases "confined moves c") (auto simp: get_connector_def andthen_def evolves_def)
  qed
  then show ?thesis by (simp add: evolves_def)
qed

lemma looked_connector:
  assumes "\<And>c. confined moves c \<Longrightarrow> evolves R (f (Some c))" "evolves R (f None)"
  shows "evolves R (andthen (look (\<lambda>a. map_get (app_connectors a) i)) f)"
proof -
  have "R a (snd (f (map_get (app_connectors a) i) a))" for a
    using assms unconfined [of a i] by (cases "map_get (app_connectors a) i") (auto simp: evolves_def)
  then show ?thesis by (simp add: evolves_def andthen_def)
qed

lemmas asking = found_connector layer operations

lemma graph_saved:
  assumes "\<And>s. store_step s (save s) \<and> st_auditEvents (save s) = st_auditEvents s \<and> keep s (save s)"
  shows "evolves R (save_and_audit rt save i w x)"
  using assms unfolding save_and_audit_def by (intro asking store_changed) simp_all

lemma subject_created: "evolves R (create_subject rt s)"
  unfolding create_subject_def
  by (rule graph_saved) (intro conjI store_step.upsert_subject keep_rest; simp add: upsert_subject_def)

lemma resource_created: "evolves R (create_resource rt r)"
  unfolding create_resource_def
  by (rule graph_saved) (intro conjI store_step.upsert_resource keep_rest; simp add: upsert_resource_def)

lemma relationship_put: "evolves R (put_relationship rt r)"
  unfolding put_relationship_def
  by (rule graph_saved) (intro conjI store_step.upsert_relationship keep_rest; simp add: upsert_relationship_def Let_def)

lemma relationship_removed: "evolves R (remove_relationship rt i)"
  unfolding remove_relationship_def
  by (intro asking store_changed conjI store_step.delete_relationship keep_rest)
    (simp_all add: delete_relationship_def Let_def split: option.split)

lemma metadata_asked: "confined moves c \<Longrightarrow> evolves R (ask_metadata c)"
  unfolding ask_metadata_def by (auto split: option.split intro!: still bind operations(11))

lemma mode_set: "evolves R (change (set_connector_mode i m))"
  by (intro changed moded)

lemma graph_discovered: "evolves R (change (with_store (store_discovered ss rs ts)))"
proof -
  have subjects: "evolves R (change (with_store (fold upsert_subject ss)))"
    by (rule store_folded) (intro conjI store_step.upsert_subject keep_rest; simp add: upsert_subject_def)
  have resources: "evolves R (change (with_store (fold upsert_resource rs)))"
    by (rule store_folded) (intro conjI store_step.upsert_resource keep_rest; simp add: upsert_resource_def)
  have tuples: "evolves R (change (with_store (fold upsert_relationship ts)))"
    by (rule store_folded)
      (intro conjI store_step.upsert_relationship keep_rest; simp add: upsert_relationship_def Let_def)
  have "evolves R (andthen (change (with_store (fold upsert_subject ss))) (\<lambda>_.
      andthen (change (with_store (fold upsert_resource rs))) (\<lambda>_.
      change (with_store (fold upsert_relationship ts)))))"
    by (intro bind subjects resources tuples)
  then show ?thesis
    by (simp add: evolves_def with_store_def store_discovered_def)
qed

lemma fold_grants:
  "st_auditEvents (fold upsert_native_grant gs s) = st_auditEvents s"
  "st_provisioningPlans (fold upsert_native_grant gs s) = st_provisioningPlans s"
  "st_provisioningJobs (fold upsert_native_grant gs s) = st_provisioningJobs s"
  by (induction gs arbitrary: s) (simp_all add: upsert_native_grant_def)

lemma grants_replaced: "evolves R (change (with_store (replace_native_grants_for_connector i gs)))"
  by (intro store_changed conjI store_step.replace_native_grants keep_rest)
    (simp_all add: replace_native_grants_for_connector_def fold_grants)

lemma discovery_recorded: "evolves R (try_store (record_discovery_run v))"
  by (rule store_tried)
    (auto simp: record_discovery_run_def record_once_def split: option.splits
      intro!: store_step.record_discovery_run keep_rest)

lemma discovery_finished: "confined moves c \<Longrightarrow> evolves R (finish_discovery rt c i k t ss rs ts gs m)"
  unfolding finish_discovery_def Let_def by (intro asking metadata_asked discovery_recorded)

lemma connector_synced: "evolves R (sync_connector rt i)"
  unfolding sync_connector_def Let_def
  by (intro asking metadata_asked mode_set graph_discovered grants_replaced discovery_finished; assumption)

lemma access_read: "evolves R (read_native_access rt r f)"
  unfolding read_native_access_def by (intro asking)

lemma connector_tested: "evolves R (test_connector i)"
  unfolding test_connector_def
  by (intro looked_connector still) (auto split: option.split intro!: still bind operations(10))

lemma report_planned: "confined moves c \<Longrightarrow> evolves R (plan_readiness_report c i req k t)"
  unfolding plan_readiness_report_def Let_def by (intro asking)

lemma report_recorded: "evolves R (try_store (record_readiness_report v))"
  by (rule store_tried)
    (auto simp: record_readiness_report_def record_once_def split: option.splits
      intro!: store_step.record_readiness_report keep_rest)

lemma readiness_checked: "evolves R (check_enforcement_readiness rt i req)"
  unfolding check_enforcement_readiness_def readiness_report_id_def Let_def
  by (intro asking report_planned report_recorded; assumption)

lemma plan_prepared:
  assumes "\<And>q. plan_typed q \<Longrightarrow> evolves R (f q)"
  shows "evolves R (andthen (prepare_plan_for_execution c p opts) f)"
proof (rule bind_post)
  show "evolves R (prepare_plan_for_execution c p opts)"
    unfolding prepare_plan_for_execution_def by (intro asking allowed ready)
qed (use assms prepared_typed in blast)

lemma plan_upserted: "plan_typed p \<Longrightarrow> evolves R (change (with_store (upsert_provisioning_plan p)))"
  by (intro store_changed conjI store_step.upsert_plan keep_plan) (simp_all add: upsert_provisioning_plan_def)

lemma plan_stored: "plan_typed p \<Longrightarrow> evolves R (store_new_plan rt p)"
  unfolding store_new_plan_def record_plan_audit_def
  by (intro asking plan_upserted changed committed) (auto intro: jobs_written)

lemma plan_flow:
  "(\<And>c. confined moves c \<Longrightarrow> evolves R (prepare c)) \<Longrightarrow> evolves R (provisioning_plan_flow rt i opts key matches prepare)"
  unfolding provisioning_plan_flow_def
  by (intro found_connector plan_prepared asking plan_stored) (simp_all add: typed_with_key)

lemma plan_created: "evolves R (create_provisioning_plan rt req timing i opts key)"
  unfolding create_provisioning_plan_def with_default_connector_def by (intro asking plan_flow; assumption)

lemma revocation_created: "evolves R (create_revocation_plan rt g i opts key)"
  unfolding create_revocation_plan_def with_default_connector_def by (intro asking plan_flow; assumption)

lemma drift_upserted: "evolves R (change (with_store (upsert_drift_finding f)))"
  by (intro store_changed conjI store_step.upsert_drift keep_rest) (simp_all add: upsert_drift_finding_def)

lemma drift_stored: "evolves R (store_drift_finding rt f)"
  unfolding store_drift_finding_def by (intro asking drift_upserted)

lemma reconciliation_recorded: "evolves R (try_store (record_reconciliation_run v))"
  by (rule store_tried)
    (auto simp: record_reconciliation_run_def record_once_def split: option.splits
      intro!: store_step.record_reconciliation keep_rest)

lemma reconciled: "evolves R (run_reconciliation rt i trigger patch)"
  unfolding run_reconciliation_def enrich_reported_def Let_def
  by (intro asking drift_stored reconciliation_recorded; assumption)

lemma remediated: "evolves R (plan_drift_remediation_dry_run rt f req timing key)"
  unfolding plan_drift_remediation_dry_run_def remediation_plan_def record_remediation_def Let_def
  by (intro asking ready plan_created revocation_created drift_upserted)

lemma validated: "evolves R (record_policy_audit rt type s t content)"
  unfolding record_policy_audit_def by (intro asking performed [OF audit_related])

lemma policy_saved: "evolves R (save_policy r)" "evolves R (save_idempotency scope s)"
  unfolding save_policy_def save_idempotency_def
  by (intro store_changed conjI store_step.upsert_policy store_step.set_policy_idempotency keep_rest;
      simp add: upsert_policy_def set_policy_idempotency_def)+

lemmas policing = asking validated policy_saved

lemma policy_created: "evolves R (create_policy rt draft key)"
  unfolding create_policy_def replayed_def Let_def by (intro policing)

lemma policy_validated: "evolves R (validate_policy rt i test)"
  unfolding validate_policy_def with_policy_def Let_def by (intro policing)

lemma policy_published: "evolves R (publish_policy rt i ticket who key)"
  unfolding publish_policy_def publication_refused_def replayed_def with_policy_def Let_def by (intro policing)

lemma policy_rolled_back: "evolves R (rollback_policy rt i target ticket who key)"
  unfolding rollback_policy_def replayed_def with_policy_def Let_def by (intro policing)

end

subsection \<open>Flows that store jobs\<close>

text \<open>Where the provider may change in any way.\<close>

locale free_order = plan_order R rt keep moves
  for R :: "('c, 'p) local_app \<Rightarrow> ('c, 'p) local_app \<Rightarrow> bool" and rt and keep and moves +
  assumes free: "moves w w'"
begin

lemma applied: "evolves R (ask_provider (con_applyProvisioningChange c p))"
  by (intro provider_asked free)

lemma all_confined: "confined moves c"
  by (simp add: confined_def free)

lemma job_executed: "evolves R (execute_controlled_job c p req)"
  unfolding execute_controlled_job_def Let_def by (intro applied asking job_admitted all_confined)

lemma plan_updated:
  "(\<And>s. keep s (upsert_provisioning_plan p s)) \<Longrightarrow> evolves R (change (with_store (upsert_provisioning_plan p)))"
  by (intro store_changed conjI store_step.upsert_plan) (simp_all add: upsert_provisioning_plan_def)

lemma controlled_stored:
  assumes "\<And>(a :: ('c, 'p) local_app) ex b s ids. execute_controlled_job c p req a = (Inr ex, b) \<Longrightarrow>
    keep s (upsert_provisioning_plan (ex_updatedPlan ex) s) \<and>
    keep s (upsert_provisioning_job ((ex_job ex)\<lparr>job_auditEventIds := ids\<rparr>) s)"
  shows "evolves R (create_controlled_enforcement_job rt c p req)"
  unfolding create_controlled_enforcement_job_def
proof (rule bind_post [OF job_executed])
  fix a :: "('c, 'p) local_app" and ex b
  assume "execute_controlled_job c p req a = (Inr ex, b)"
  from assms [OF this] show "evolves R (andthen (change (with_store (upsert_provisioning_plan (ex_updatedPlan ex)))) (\<lambda>_.
     andthen (store_job_with_audit rt (ex_job ex) (ex_auditInputs ex)) (\<lambda>job.
     andthen (change (persist_job (Write_plan (ex_updatedPlan ex)) (ex_completedAt ex))) (\<lambda>_.
     andthen (change (persist_job (Write_job job) (ex_completedAt ex))) (\<lambda>_.
     andthen (change (persist_app_state (ex_completedAt ex))) (\<lambda>_. give job))))))"
    by (intro asking plan_updated job_stored) simp_all
qed

lemma dry_run_stored:
  assumes "\<And>t v s ids. keep s (upsert_provisioning_job
     ((dry_run_job p req k started t (dry_run_verification p t v))\<lparr>job_auditEventIds := ids\<rparr>) s)"
  shows "evolves R (create_dry_run_job rt c p req k started)"
  unfolding create_dry_run_job_def Let_def by (intro asking all_confined job_stored assms)

end

locale job_order = free_order R rt keep moves
  for R :: "('c, 'p) local_app \<Rightarrow> ('c, 'p) local_app \<Rightarrow> bool" and rt and keep and moves +
  assumes keep_any_plan: "keep s (upsert_provisioning_plan p s)"
    and keep_job: "keep s (upsert_provisioning_job j s)"
begin

lemma job_created: "evolves R (create_provisioning_job rt req)"
  unfolding create_provisioning_job_def Let_def
  by (intro asking controlled_stored dry_run_stored conjI keep_any_plan keep_job)

end

end
