(* ===== verification/Js_Regexp.thy ===== *)
theory Js_Regexp
  imports Js_Values
begin

text \<open>
  Regular expressions, as far as the sources use them: \<open>RegExp.prototype.test\<close>, and \<open>replaceAll\<close> of
  runs of characters. A position of a text is the character before it, if any, and the rest of the
  text. \<open>rx_ends\<close> computes where the matches that start at a position may end; \<open>rx_ends_iff\<close> says
  that these are the ends the language of the expression allows.
\<close>

type_synonym text_position = "char option \<times> string"

datatype rx =
    Any_of "char \<Rightarrow> bool"
  | Nothing
  | Then rx rx
  | Or rx rx
  | Star rx
  | Word_boundary
  | Text_start

definition word_char :: "char \<Rightarrow> bool" where
  "word_char c = (let n = code_unit c in 65 \<le> n \<and> n \<le> 90 \<or> 97 \<le> n \<and> n \<le> 122 \<or> 48 \<le> n \<and> n \<le> 57 \<or> n = 95)"

definition at_boundary :: "text_position \<Rightarrow> bool" where
  "at_boundary x =
     ((case fst x of None \<Rightarrow> False | Some c \<Rightarrow> word_char c) \<noteq> (case snd x of [] \<Rightarrow> False | c # _ \<Rightarrow> word_char c))"

fun rx_repeat :: "nat \<Rightarrow> (text_position \<Rightarrow> text_position list) \<Rightarrow> text_position \<Rightarrow> text_position list" where
  "rx_repeat 0 f x = [x]"
| "rx_repeat (Suc n) f x = x # concat (map (rx_repeat n f) (filter (\<lambda>y. length (snd y) < length (snd x)) (f x)))"

fun rx_ends :: "rx \<Rightarrow> text_position \<Rightarrow> text_position list" where
  "rx_ends (Any_of p) x = (case snd x of [] \<Rightarrow> [] | c # cs \<Rightarrow> if p c then [(Some c, cs)] else [])"
| "rx_ends Nothing x = [x]"
| "rx_ends (Then a b) x = concat (map (rx_ends b) (rx_ends a x))"
| "rx_ends (Or a b) x = rx_ends a x @ rx_ends b x"
| "rx_ends (Star a) x = rx_repeat (length (snd x)) (rx_ends a) x"
| "rx_ends Word_boundary x = (if at_boundary x then [x] else [])"
| "rx_ends Text_start x = (if fst x = None then [x] else [])"

fun positions :: "char option \<Rightarrow> string \<Rightarrow> text_position list" where
  "positions before [] = [(before, [])]"
| "positions before (c # cs) = (before, c # cs) # positions (Some c) cs"

definition rx_test :: "rx \<Rightarrow> string \<Rightarrow> bool" where
  "rx_test r s = list_ex (\<lambda>x. rx_ends r x \<noteq> []) (positions None s)"

subsection \<open>Writing expressions\<close>

fun literal :: "string \<Rightarrow> rx" where
  "literal [] = Nothing"
| "literal (c # cs) = Then (Any_of ((=) c)) (literal cs)"

text \<open>Under the flag \<open>i\<close>; only ASCII letters occur in the expressions of the sources.\<close>

definition fold_case :: "char \<Rightarrow> char" where
  "fold_case c = (let n = code_unit c in if 97 \<le> n \<and> n \<le> 122 then char_of (n - 32) else c)"

fun literal_i :: "string \<Rightarrow> rx" where
  "literal_i [] = Nothing"
| "literal_i (c # cs) = Then (Any_of (\<lambda>d. fold_case d = fold_case c)) (literal_i cs)"

fun times :: "nat \<Rightarrow> rx \<Rightarrow> rx" where
  "times 0 r = Nothing"
| "times (Suc n) r = Then r (times n r)"

definition at_least :: "nat \<Rightarrow> rx \<Rightarrow> rx" where
  "at_least n r = Then (times n r) (Star r)"

definition maybe :: "rx \<Rightarrow> rx" where
  "maybe r = Or r Nothing"

fun one_of :: "rx list \<Rightarrow> rx" where
  "one_of [] = Any_of (\<lambda>_. False)"
| "one_of [r] = r"
| "one_of (r # s # rs) = Or r (one_of (s # rs))"

fun in_order :: "rx list \<Rightarrow> rx" where
  "in_order [] = Nothing"
| "in_order [r] = r"
| "in_order (r # s # rs) = Then r (in_order (s # rs))"

definition upper_letter :: "char \<Rightarrow> bool" where
  "upper_letter c = (let n = code_unit c in 65 \<le> n \<and> n \<le> 90)"

definition lower_letter :: "char \<Rightarrow> bool" where
  "lower_letter c = (let n = code_unit c in 97 \<le> n \<and> n \<le> 122)"

text \<open>\<open>[A-Za-z0-9...]\<close>, with the other characters of the class.\<close>

definition alnum_or :: "string \<Rightarrow> char \<Rightarrow> bool" where
  "alnum_or others c = (upper_letter c \<or> lower_letter c \<or> is_digit c \<or> c \<in> set others)"

text \<open>\<open>s.replaceAll(/[^...]+/g, r)\<close>: every run of characters that are not kept becomes \<open>r\<close>.\<close>

fun replace_runs :: "(char \<Rightarrow> bool) \<Rightarrow> string \<Rightarrow> bool \<Rightarrow> string \<Rightarrow> string" where
  "replace_runs keep r inside [] = []"
| "replace_runs keep r inside (c # cs) =
     (if keep c then c # replace_runs keep r False cs
      else (if inside then [] else r) @ replace_runs keep r True cs)"

subsection \<open>The matcher computes the language\<close>

inductive rx_match :: "rx \<Rightarrow> text_position \<Rightarrow> text_position \<Rightarrow> bool" where
  any_of: "p c \<Longrightarrow> rx_match (Any_of p) (before, c # cs) (Some c, cs)"
| nothing: "rx_match Nothing x x"
| then_both: "rx_match a x y \<Longrightarrow> rx_match b y z \<Longrightarrow> rx_match (Then a b) x z"
| or_left: "rx_match a x y \<Longrightarrow> rx_match (Or a b) x y"
| or_right: "rx_match b x y \<Longrightarrow> rx_match (Or a b) x y"
| star_stop: "rx_match (Star a) x x"
| star_more: "rx_match a x y \<Longrightarrow> rx_match (Star a) y z \<Longrightarrow> rx_match (Star a) x z"
| boundary: "at_boundary x \<Longrightarrow> rx_match Word_boundary x x"
| text_start: "rx_match Text_start (None, cs) (None, cs)"

inductive_cases rx_matchE:
  "rx_match (Any_of p) x y" "rx_match Nothing x y" "rx_match (Then a b) x y" "rx_match (Or a b) x y"
  "rx_match Word_boundary x y" "rx_match Text_start x y"

lemma rx_match_rest: "rx_match r x y \<Longrightarrow> y = x \<or> length (snd y) < length (snd x)"
  by (induction rule: rx_match.induct) auto

lemma rx_repeat_sound:
  "(\<And>u v. v \<in> set (f u) \<Longrightarrow> rx_match a u v) \<Longrightarrow> y \<in> set (rx_repeat n f x) \<Longrightarrow> rx_match (Star a) x y"
  by (induction n arbitrary: x) (auto intro: rx_match.star_stop, metis rx_match.star_more)

lemma rx_repeat_complete:
  assumes f: "\<And>u v. rx_match a u v \<Longrightarrow> v \<in> set (f u)"
    and "rx_match (Star a) x y" "length (snd x) \<le> n"
  shows "y \<in> set (rx_repeat n f x)"
  using assms(2,3)
proof (induction "Star a" x y arbitrary: n)
  case (star_stop x)
  then show ?case by (cases n) auto
next
  case (star_more x y z)
  show ?case
  proof (cases "y = x")
    case True
    with star_more show ?thesis by simp
  next
    case False
    with rx_match_rest [OF star_more(1)] have shorter: "length (snd y) < length (snd x)" by simp
    with star_more obtain m where n: "n = Suc m" "length (snd y) \<le> m" by (cases n) auto
    from f [OF star_more(1)] shorter have "y \<in> set (filter (\<lambda>y. length (snd y) < length (snd x)) (f x))" by simp
    with star_more(4) [OF n(2)] show ?thesis unfolding n(1) by (simp only: rx_repeat.simps set_simps set_concat set_map) blast
  qed
qed

lemma rx_ends_iff: "y \<in> set (rx_ends r x) \<longleftrightarrow> rx_match r x y"
proof (induction r arbitrary: x y)
  case (Any_of p)
  show ?case
    by (cases x) (auto elim: rx_matchE intro: rx_match.any_of split: list.splits)
next
  case (Star r)
  then show ?case
    using rx_repeat_sound [of "rx_ends r" r y "length (snd x)" x] rx_repeat_complete [of r "rx_ends r" x y "length (snd x)"] by auto
next
  case Text_start
  then show ?case by (cases x) (auto elim: rx_matchE intro: rx_match.text_start)
qed (auto elim!: rx_matchE intro: rx_match.intros)

lemma position_of: "x \<in> set (positions before s) \<longleftrightarrow>
    (\<exists>p q. s = p @ q \<and> x = (if p = [] then before else Some (last p), q))"
proof (induction s arbitrary: before)
  case (Cons c cs)
  have "(\<exists>p q. c # cs = p @ q \<and> x = (if p = [] then before else Some (last p), q)) \<longleftrightarrow>
      x = (before, c # cs) \<or> (\<exists>p q. cs = p @ q \<and> x = (Some (last (c # p)), q))"
    by (subst Cons_eq_append_conv) fastforce
  with Cons.IH show ?case by simp
qed auto

lemma rx_test_iff:
  "rx_test r s \<longleftrightarrow> (\<exists>p q y. s = p @ q \<and> rx_match r (if p = [] then None else Some (last p), q) y)"
proof -
  have "rx_ends r x \<noteq> [] \<longleftrightarrow> (\<exists>y. rx_match r x y)" for x
    by (cases "rx_ends r x") (auto simp flip: rx_ends_iff)
  then have "rx_test r s \<longleftrightarrow> (\<exists>x. x \<in> set (positions None s) \<and> (\<exists>y. rx_match r x y))"
    by (simp add: rx_test_def list_ex_iff Bex_def)
  then show ?thesis unfolding position_of by blast
qed


subsection \<open>Short texts\<close>

text \<open>The least number of characters a match takes.\<close>

fun rx_least :: "rx \<Rightarrow> nat" where
  "rx_least (Any_of p) = 1"
| "rx_least (Then a b) = rx_least a + rx_least b"
| "rx_least (Or a b) = min (rx_least a) (rx_least b)"
| "rx_least _ = 0"

lemma rx_match_least: "rx_match r x y \<Longrightarrow> length (snd y) + rx_least r \<le> length (snd x)"
  by (induction rule: rx_match.induct) auto

lemma rx_test_least: "rx_test r s \<Longrightarrow> rx_least r \<le> length s"
  by (fastforce simp: rx_test_iff dest!: rx_match_least)

lemma rx_least_literal [simp]: "rx_least (literal s) = length s" "rx_least (literal_i s) = length s"
  by (induction s) simp_all

lemma rx_least_times [simp]: "rx_least (times n r) = n * rx_least r"
  by (induction n) simp_all

end
