(* ===== verification/Evidence_Package.thy ===== *)
theory Evidence_Package
  imports Runtime_Policies Js_Regexp
begin

text \<open>
  The content of an evidence package, \<open>packages/core/src/evidence-package-builder.ts\<close>, with the
  records of \<open>domain/evidence.ts\<close> it is made of. A package is an object literal; the records here are
  the parts the code reads again, and each has its object form. What a draft may already contain (the
  POA&M export, the OSCAL fragments, the trace views) is optional, as in \<open>EvidenceExportDraft\<close>.
\<close>

subsection \<open>Reading untyped objects\<close>

text \<open>\<open>v?.k\<close>: absent where \<open>v\<close> is no object. A value read from JSON has no such field of its own otherwise.\<close>

fun field :: "js \<Rightarrow> string \<Rightarrow> js" where
  "field (JObj fs) k = coalesce (map_get fs k) JUndefined"
| "field _ k = JUndefined"

definition is_record :: "js \<Rightarrow> bool" where
  "is_record v = (case v of JObj _ \<Rightarrow> True | _ \<Rightarrow> False)"

definition is_falsy :: "js \<Rightarrow> bool" where
  "is_falsy v \<longleftrightarrow> v \<in> {JUndefined, JNull, JBool False, JNum 0, JStr []}"

subsection \<open>Records\<close>

datatype evidence_framework = Nist_800_53 | Fedramp_rev5 | Custom_framework
datatype evidence_format = Format_json | Format_zip | Format_markdown | Format_jsonl
datatype implementation_status = Implemented | Partially_implemented | Planned_control

record control_mapping =
  cm_controlId :: string
  cm_family :: string
  cm_status :: implementation_status
  cm_implementationSummary :: string
  cm_evidenceTypes :: "string list"
  cm_sourceEventIds :: "canonical_id list"
  cm_gaps :: "string list"

record control_statement =
  cs_controlId :: string
  cs_status :: implementation_status
  cs_statement :: string
  cs_responsibleRole :: string
  cs_reviewerRole :: string
  cs_reviewedAt :: iso_date_time
  cs_evidenceTypes :: "string list"
  cs_sourceArtifactNames :: "string list"
  cs_gaps :: "string list"

record evidence_artifact =
  ea_name :: string
  ea_type :: string
  ea_description :: string
  ea_eventCount :: "nat option"
  ea_format :: evidence_format

record conmon_metric =
  mt_name :: string
  mt_value :: nat
  mt_unit :: string
  mt_source :: string

record poam_item =
  pi_id :: canonical_id
  pi_controlId :: string
  pi_weakness :: string
  pi_status :: string
  pi_ownerRole :: string
  pi_plannedCompletion :: iso_date_time
  pi_source :: string

record boundary_component =
  bc_id :: canonical_id
  bc_name :: string
  bc_type :: string
  bc_trustZone :: string
  bc_dataClassification :: string
  bc_description :: string

record system_boundary =
  sb_boundaryId :: canonical_id
  sb_name :: string
  sb_description :: string
  sb_environment :: string
  sb_liveTenantData :: bool
  sb_components :: "boundary_component list"
  sb_externalSystems :: "string list"
  sb_assumptions :: "string list"
  sb_version :: string

record data_flow =
  flow_id :: canonical_id
  flow_name :: string
  flow_source :: canonical_id
  flow_destination :: canonical_id
  flow_dataTypes :: "string list"
  flow_protections :: "string list"
  flow_liveTenantData :: bool

record operational_evidence =
  oe_id :: canonical_id
  oe_type :: string
  oe_status :: string
  oe_ownerRole :: string
  oe_generatedAt :: iso_date_time
  oe_summary :: string
  oe_evidenceRefs :: "string list"
  oe_gaps :: "string list"

record deployment_scope =
  ds_boundaryId :: canonical_id
  ds_environment :: string
  ds_liveTenantData :: bool
  ds_controls :: "string list"
  ds_periodStart :: iso_date_time
  ds_periodEnd :: iso_date_time
  ds_componentIds :: "canonical_id list"

record evidence_draft =
  dr_exportId :: canonical_id
  dr_framework :: evidence_framework
  dr_controls :: "string list"
  dr_periodStart :: iso_date_time
  dr_periodEnd :: iso_date_time
  dr_generatedAt :: iso_date_time
  dr_evidenceTypes :: "string list"
  dr_sourceEventIds :: "canonical_id list"
  dr_responsibleRole :: string
  dr_format :: evidence_format
  dr_auditIntegrity :: js
  dr_controlMappings :: "control_mapping list"
  dr_artifacts :: "evidence_artifact list"
  dr_conmonMetrics :: "conmon_metric list"
  dr_poamItems :: "poam_item list"
  dr_siemExport :: js
  dr_systemBoundary :: system_boundary
  dr_dataFlows :: "data_flow list"
  dr_controlStatements :: "control_statement list"
  dr_accessReviews :: "js list"
  dr_exceptionRegister :: "js list"
  dr_operationalEvidence :: "operational_evidence list"
  dr_poamExport :: "js option"
  dr_oscal :: "js option"
  dr_controlTraceViews :: "js list option"

subsection \<open>Their objects\<close>

fun framework_text :: "evidence_framework \<Rightarrow> string" where
  "framework_text Nist_800_53 = ''nist-800-53''"
| "framework_text Fedramp_rev5 = ''fedramp-rev5''"
| "framework_text Custom_framework = ''custom''"

fun evidence_format_text :: "evidence_format \<Rightarrow> string" where
  "evidence_format_text Format_json = ''json''"
| "evidence_format_text Format_zip = ''zip''"
| "evidence_format_text Format_markdown = ''markdown''"
| "evidence_format_text Format_jsonl = ''jsonl''"

fun implementation_text :: "implementation_status \<Rightarrow> string" where
  "implementation_text Implemented = ''implemented''"
| "implementation_text Partially_implemented = ''partially_implemented''"
| "implementation_text Planned_control = ''planned''"

definition mapping_js :: "control_mapping \<Rightarrow> js" where
  "mapping_js m = JObj
    [(''controlId'', JStr (cm_controlId m)), (''family'', JStr (cm_family m)),
     (''status'', JStr (implementation_text (cm_status m))),
     (''implementationSummary'', JStr (cm_implementationSummary m)), (''evidenceTypes'', strings_js (cm_evidenceTypes m)),
     (''sourceEventIds'', strings_js (cm_sourceEventIds m)), (''gaps'', strings_js (cm_gaps m))]"

definition statement_js :: "control_statement \<Rightarrow> js" where
  "statement_js s = JObj
    [(''controlId'', JStr (cs_controlId s)), (''status'', JStr (implementation_text (cs_status s))),
     (''statement'', JStr (cs_statement s)), (''responsibleRole'', JStr (cs_responsibleRole s)),
     (''reviewerRole'', JStr (cs_reviewerRole s)), (''reviewedAt'', JStr (cs_reviewedAt s)),
     (''evidenceTypes'', strings_js (cs_evidenceTypes s)), (''sourceArtifactNames'', strings_js (cs_sourceArtifactNames s)),
     (''gaps'', strings_js (cs_gaps s))]"

definition artifact_js :: "evidence_artifact \<Rightarrow> js" where
  "artifact_js a = JObj
    [(''name'', JStr (ea_name a)), (''type'', JStr (ea_type a)), (''description'', JStr (ea_description a)),
     (''eventCount'', (case ea_eventCount a of None \<Rightarrow> JUndefined | Some n \<Rightarrow> js_nat n)),
     (''format'', JStr (evidence_format_text (ea_format a)))]"

definition metric_js :: "conmon_metric \<Rightarrow> js" where
  "metric_js m = JObj
    [(''name'', JStr (mt_name m)), (''value'', js_nat (mt_value m)), (''unit'', JStr (mt_unit m)), (''source'', JStr (mt_source m))]"

definition poam_item_js :: "poam_item \<Rightarrow> js" where
  "poam_item_js i = JObj
    [(''id'', JStr (pi_id i)), (''controlId'', JStr (pi_controlId i)), (''weakness'', JStr (pi_weakness i)),
     (''status'', JStr (pi_status i)), (''ownerRole'', JStr (pi_ownerRole i)),
     (''plannedCompletion'', JStr (pi_plannedCompletion i)), (''source'', JStr (pi_source i))]"

definition component_js :: "boundary_component \<Rightarrow> js" where
  "component_js c = JObj
    [(''id'', JStr (bc_id c)), (''name'', JStr (bc_name c)), (''type'', JStr (bc_type c)), (''trustZone'', JStr (bc_trustZone c)),
     (''dataClassification'', JStr (bc_dataClassification c)), (''description'', JStr (bc_description c))]"

definition boundary_js :: "system_boundary \<Rightarrow> js" where
  "boundary_js b = JObj
    [(''boundaryId'', JStr (sb_boundaryId b)), (''name'', JStr (sb_name b)), (''description'', JStr (sb_description b)),
     (''environment'', JStr (sb_environment b)), (''liveTenantData'', JBool (sb_liveTenantData b)),
     (''components'', JArr (map component_js (sb_components b))), (''externalSystems'', strings_js (sb_externalSystems b)),
     (''assumptions'', strings_js (sb_assumptions b)), (''version'', JStr (sb_version b))]"

definition data_flow_js :: "data_flow \<Rightarrow> js" where
  "data_flow_js f = JObj
    [(''id'', JStr (flow_id f)), (''name'', JStr (flow_name f)), (''source'', JStr (flow_source f)),
     (''destination'', JStr (flow_destination f)), (''dataTypes'', strings_js (flow_dataTypes f)),
     (''protections'', strings_js (flow_protections f)), (''liveTenantData'', JBool (flow_liveTenantData f))]"

definition operational_js :: "operational_evidence \<Rightarrow> js" where
  "operational_js e = JObj
    [(''id'', JStr (oe_id e)), (''type'', JStr (oe_type e)), (''status'', JStr (oe_status e)), (''ownerRole'', JStr (oe_ownerRole e)),
     (''generatedAt'', JStr (oe_generatedAt e)), (''summary'', JStr (oe_summary e)),
     (''evidenceRefs'', strings_js (oe_evidenceRefs e)), (''gaps'', strings_js (oe_gaps e))]"

definition scope_js :: "deployment_scope \<Rightarrow> js" where
  "scope_js s = JObj
    [(''boundaryId'', JStr (ds_boundaryId s)), (''environment'', JStr (ds_environment s)),
     (''liveTenantData'', JBool (ds_liveTenantData s)), (''controls'', strings_js (ds_controls s)),
     (''periodStart'', JStr (ds_periodStart s)), (''periodEnd'', JStr (ds_periodEnd s)),
     (''componentIds'', strings_js (ds_componentIds s)), (''version'', JStr ''evidence-deployment-scope:v1'')]"

definition draft_fields :: "evidence_draft \<Rightarrow> json_record" where
  "draft_fields d =
    [(''exportId'', JStr (dr_exportId d)), (''framework'', JStr (framework_text (dr_framework d))),
     (''controls'', strings_js (dr_controls d)), (''periodStart'', JStr (dr_periodStart d)), (''periodEnd'', JStr (dr_periodEnd d)),
     (''generatedAt'', JStr (dr_generatedAt d)), (''evidenceTypes'', strings_js (dr_evidenceTypes d)),
     (''sourceEventIds'', strings_js (dr_sourceEventIds d)), (''responsibleRole'', JStr (dr_responsibleRole d)),
     (''format'', JStr (evidence_format_text (dr_format d))), (''auditIntegrity'', dr_auditIntegrity d),
     (''controlMappings'', JArr (map mapping_js (dr_controlMappings d))),
     (''artifacts'', JArr (map artifact_js (dr_artifacts d))), (''conmonMetrics'', JArr (map metric_js (dr_conmonMetrics d))),
     (''poamItems'', JArr (map poam_item_js (dr_poamItems d))), (''siemExport'', dr_siemExport d),
     (''systemBoundary'', boundary_js (dr_systemBoundary d)), (''dataFlows'', JArr (map data_flow_js (dr_dataFlows d))),
     (''controlStatements'', JArr (map statement_js (dr_controlStatements d))),
     (''accessReviews'', JArr (dr_accessReviews d)), (''exceptionRegister'', JArr (dr_exceptionRegister d)),
     (''operationalEvidence'', JArr (map operational_js (dr_operationalEvidence d)))]"

subsection \<open>The builder\<close>

definition default_signature_key_id :: string where
  "default_signature_key_id = ''key:local-proof-point-evidence-runtime-ed25519''"

definition sanitize_canonical_id :: "string \<Rightarrow> string" where
  "sanitize_canonical_id s =
     to_lower_case (map (\<lambda>c. if upper_letter c \<or> lower_letter c \<or> is_digit c \<or> c \<in> set ''_:-'' then c else CHR ''_'') s)"

definition build_deployment_scope :: "evidence_draft \<Rightarrow> deployment_scope" where
  "build_deployment_scope d =
     (let b = dr_systemBoundary d in
      \<lparr>ds_boundaryId = sb_boundaryId b, ds_environment = sb_environment b, ds_liveTenantData = sb_liveTenantData b,
       ds_controls = dr_controls d, ds_periodStart = dr_periodStart d, ds_periodEnd = dr_periodEnd d,
       ds_componentIds = map bc_id (sb_components b)\<rparr>)"

definition build_poam_export :: "canonical_id \<Rightarrow> poam_item list \<Rightarrow> string list \<Rightarrow> iso_date_time \<Rightarrow> js" where
  "build_poam_export exportId items controls generated = JObj
     [(''uuid'', JStr (''oscal-poam:'' @ sanitize_canonical_id exportId)), (''title'', JStr ''Access Kit evidence POA&M export''),
      (''generatedAt'', JStr generated), (''items'', JArr (map poam_item_js items)), (''sourceControlIds'', strings_js controls),
      (''version'', JStr ''oscal-poam-export:v1'')]"

definition statement_for :: "control_statement list \<Rightarrow> control_mapping \<Rightarrow> control_statement option" where
  "statement_for statements m = find (\<lambda>s. cs_controlId s = cm_controlId m) statements"

definition build_implementation :: "control_statement list \<Rightarrow> control_mapping \<Rightarrow> js" where
  "build_implementation statements m =
     (let s = statement_for statements m in JObj
      [(''controlId'', JStr (cm_controlId m)),
       (''status'', JStr (implementation_text (coalesce (map_option cs_status s) (cm_status m)))),
       (''statement'', JStr (coalesce (map_option cs_statement s) (cm_implementationSummary m))),
       (''responsibleRole'', JStr (coalesce (map_option cs_responsibleRole s) ''ISSO'')),
       (''reviewerRole'', JStr (coalesce (map_option cs_reviewerRole s) ''Security Control Assessor'')),
       (''reviewedAt'', JStr (coalesce (map_option cs_reviewedAt s) ''1970-01-01T00:00:00.000Z'')),
       (''sourceEventIds'', strings_js (cm_sourceEventIds m)),
       (''sourceArtifactNames'', strings_js (coalesce (map_option cs_sourceArtifactNames s) [])),
       (''gaps'', strings_js (coalesce (map_option cs_gaps s) (cm_gaps m)))])"

definition observation_js :: "control_statement list \<Rightarrow> control_mapping \<Rightarrow> js" where
  "observation_js statements m =
     (let s = statement_for statements m in JObj
      [(''controlId'', JStr (cm_controlId m)),
       (''status'', JStr (implementation_text (coalesce (map_option cs_status s) (cm_status m)))),
       (''sourceEventIds'', strings_js (cm_sourceEventIds m)),
       (''gaps'', strings_js (coalesce (map_option cs_gaps s) (cm_gaps m)))])"

definition build_oscal_artifacts :: "evidence_draft \<Rightarrow> deployment_scope \<Rightarrow> js \<Rightarrow> js" where
  "build_oscal_artifacts d scope poam =
     (let implementations = JArr (map (build_implementation (dr_controlStatements d)) (dr_controlMappings d));
          exportId = sanitize_canonical_id (dr_exportId d); boundary = dr_systemBoundary d
      in JObj
       [(''componentDefinition'', JObj
          [(''uuid'', JStr (''oscal-component-definition:'' @ exportId)),
           (''title'', JStr ''Access Kit evidence component definition''),
           (''framework'', JStr (framework_text (dr_framework d))), (''generatedAt'', JStr (dr_generatedAt d)),
           (''components'', JArr (map component_js (sb_components boundary))),
           (''implementedRequirements'', implementations), (''version'', JStr ''oscal-component-definition-fragment:v1'')]),
        (''systemSecurityPlan'', JObj
          [(''uuid'', JStr (''oscal-ssp:'' @ exportId)), (''title'', JStr ''Access Kit evidence SSP fragment''),
           (''systemName'', JStr (sb_name boundary)), (''boundaryId'', JStr (sb_boundaryId boundary)),
           (''deploymentScope'', scope_js scope), (''dataFlows'', JArr (map data_flow_js (dr_dataFlows d))),
           (''controlImplementationStatements'', implementations), (''version'', JStr ''oscal-ssp-fragment:v1'')]),
        (''assessmentResults'', JObj
          [(''uuid'', JStr (''oscal-assessment-results:'' @ exportId)),
           (''title'', JStr ''Access Kit evidence assessment-results fragment''),
           (''generatedAt'', JStr (dr_generatedAt d)), (''reviewedControls'', implementations),
           (''observations'', JArr (map (observation_js (dr_controlStatements d)) (dr_controlMappings d))),
           (''version'', JStr ''oscal-assessment-results-fragment:v1'')]),
        (''planOfActionAndMilestones'', poam),
        (''version'', JStr ''oscal-evidence-artifacts:v1'')])"

definition build_control_trace_views ::
  "canonical_id \<Rightarrow> control_mapping list \<Rightarrow> control_statement list \<Rightarrow> deployment_scope \<Rightarrow> js \<Rightarrow> string \<times> string \<Rightarrow> js list" where
  "build_control_trace_views exportId mappings statements scope oscal ref =
     map (\<lambda>m. let s = statement_for statements m in JObj
       [(''traceId'', JStr (''control-trace:'' @ sanitize_canonical_id exportId @ '':'' @ sanitize_canonical_id (cm_controlId m))),
        (''controlId'', JStr (cm_controlId m)), (''status'', JStr (implementation_text (cm_status m))),
        (''sourceEventIds'', strings_js (cm_sourceEventIds m)),
        (''reviewedStatement'', JObj
          [(''reviewerRole'', JStr (coalesce (map_option cs_reviewerRole s) ''Security Control Assessor'')),
           (''reviewedAt'', JStr (coalesce (map_option cs_reviewedAt s) (ds_periodEnd scope))),
           (''sourceArtifactNames'', strings_js (coalesce (map_option cs_sourceArtifactNames s) []))]),
        (''signatureRef'', JObj [(''packageId'', JStr (fst ref)), (''keyId'', JStr (snd ref))]),
        (''deploymentScope'', scope_js scope),
        (''oscalRefs'', JObj
          [(''componentDefinitionUuid'', field (field oscal ''componentDefinition'') ''uuid''),
           (''sspUuid'', field (field oscal ''systemSecurityPlan'') ''uuid''),
           (''assessmentResultsUuid'', field (field oscal ''assessmentResults'') ''uuid''),
           (''poamUuid'', field (field oscal ''planOfActionAndMilestones'') ''uuid'')]),
        (''gaps'', strings_js (cm_gaps m)), (''version'', JStr ''evidence-control-trace-view:v1'')]) mappings"

definition signed_package_id :: "canonical_id \<Rightarrow> canonical_id" where
  "signed_package_id exportId = ''signed-package:'' @ sanitize_canonical_id exportId"

definition control_statement_ref :: "string \<Rightarrow> string" where
  "control_statement_ref controlId =
     ''control-statement:'' @
     replace_runs (\<lambda>c. lower_letter c \<or> is_digit c) ''-'' False (to_lower_case controlId)"

text \<open>\<open>buildEvidencePackageContent\<close>, for the key the package will be signed with.\<close>

definition build_package_content :: "evidence_draft \<Rightarrow> string \<Rightarrow> json_record" where
  "build_package_content d keyId =
     (let scope = build_deployment_scope d;
          poam = coalesce (dr_poamExport d) (build_poam_export (dr_exportId d) (dr_poamItems d) (dr_controls d) (dr_generatedAt d));
          oscal = coalesce (dr_oscal d) (build_oscal_artifacts d scope poam);
          traces = coalesce (dr_controlTraceViews d)
            (build_control_trace_views (dr_exportId d) (dr_controlMappings d) (dr_controlStatements d) scope oscal
               (signed_package_id (dr_exportId d), keyId))
      in draft_fields d @ [(''poamExport'', poam), (''oscal'', oscal), (''controlTraceViews'', JArr traces)])"

end
