(* ===== verification/Audit_Store.thy ===== *)
theory Audit_Store
  imports Audit_Chain Job_Store Js_Regexp
begin

text \<open>
  The records of the reference audit log (\<open>reference-audit-models.ts\<close>), the in-memory external store
  (\<open>reference-audit-memory-store.ts\<close>), and the helpers of \<open>reference-audit-utils.ts\<close>: which values count
  as secret material, how a record is hashed, and the findings of an integrity check. An evidence
  package is the JSON object it is; \<open>hmac\<close>, from \<open>node:crypto\<close>, is a parameter. An error is its message.
\<close>

subsection \<open>Records\<close>

record retention_policy =
  rtp_policyId :: canonical_id
  rtp_retentionDays :: rat
  rtp_legalHold :: bool

record audit_record =
  ar_version :: string
  ar_tenantBoundary :: string
  ar_sequence :: nat
  ar_storedAt :: string
  ar_eventHash :: string
  ar_previousEventHash :: "string option"
  ar_retentionPolicy :: retention_policy
  ar_event :: audit_event
  ar_recordHash :: string

record evidence_receipt =
  er_exportId :: canonical_id
  er_packageHash :: string
  er_storedAt :: string
  er_location :: string

record evidence_record =
  ed_version :: string
  ed_tenantBoundary :: string
  ed_exportId :: canonical_id
  ed_storedAt :: string
  ed_packageHash :: string
  ed_retentionPolicy :: retention_policy
  ed_evidence :: json_record
  ed_receipt :: evidence_receipt
  ed_recordHash :: string

record signed_window =
  sw_tenantBoundary :: string
  sw_windowId :: canonical_id
  sw_periodStart :: string
  sw_periodEnd :: string
  sw_signedAt :: string
  sw_signingKeyId :: canonical_id
  sw_eventCount :: nat
  sw_sourceEventIds :: "canonical_id list"
  sw_firstEventHash :: "string option"
  sw_lastEventHash :: "string option"
  sw_retentionPolicy :: retention_policy
  sw_signatureAlgorithm :: string
  sw_signatureHash :: string
  sw_recordHash :: string

datatype delivery_status = Delivered | Delivery_failed

record siem_delivery =
  sd_tenantBoundary :: string
  sd_deliveryId :: canonical_id
  sd_windowId :: canonical_id
  sd_destination :: string
  sd_status :: delivery_status
  sd_attemptedAt :: string
  sd_sourceEventIds :: "canonical_id list"
  sd_eventCount :: nat
  sd_lastEventHash :: "string option"
  sd_deliveredAt :: "string option"
  sd_error :: "string option"
  sd_replayOfDeliveryId :: "canonical_id option"
  sd_recordHash :: string

record audit_snapshot =
  as_auditRecords :: "audit_record list"
  as_evidenceRecords :: "evidence_record list"
  as_signedWindows :: "signed_window list"
  as_siemDeliveries :: "siem_delivery list"
  as_backupMetadata :: "backup_metadata list"

record audit_backup =
  ab_version :: string
  ab_id :: canonical_id
  ab_tenantBoundary :: string
  ab_createdAt :: string
  ab_snapshot :: audit_snapshot
  ab_backupHash :: string

record audit_store = audit_snapshot +
  as_backups :: "(canonical_id, audit_backup) js_map"

subsection \<open>Their JSON\<close>

definition retention_js :: "retention_policy \<Rightarrow> js" where
  "retention_js p = JObj
    [(''policyId'', JStr (rtp_policyId p)), (''retentionDays'', JNum (rtp_retentionDays p)), (''legalHold'', JBool (rtp_legalHold p)),
     (''version'', JStr ''production-audit-retention-policy:v1'')]"

definition audit_record_fields :: "audit_record \<Rightarrow> json_record" where
  "audit_record_fields r =
    [(''version'', JStr (ar_version r)), (''tenantBoundary'', JStr (ar_tenantBoundary r)), (''sequence'', js_nat (ar_sequence r)),
     (''storedAt'', JStr (ar_storedAt r)), (''eventHash'', JStr (ar_eventHash r)),
     (''previousEventHash'', opt_str (ar_previousEventHash r)), (''retentionPolicy'', retention_js (ar_retentionPolicy r)),
     (''event'', event_js (ar_event r))]"

definition receipt_js :: "evidence_receipt \<Rightarrow> js" where
  "receipt_js r = JObj
    [(''exportId'', JStr (er_exportId r)), (''packageHash'', JStr (er_packageHash r)), (''storedAt'', JStr (er_storedAt r)),
     (''backend'', JStr ''external''), (''location'', JStr (er_location r)), (''immutable'', JBool True),
     (''version'', JStr ''evidence-storage-receipt:v1'')]"

definition evidence_record_fields :: "evidence_record \<Rightarrow> json_record" where
  "evidence_record_fields r =
    [(''version'', JStr (ed_version r)), (''tenantBoundary'', JStr (ed_tenantBoundary r)), (''exportId'', JStr (ed_exportId r)),
     (''storedAt'', JStr (ed_storedAt r)), (''packageHash'', JStr (ed_packageHash r)),
     (''retentionPolicy'', retention_js (ed_retentionPolicy r)), (''evidence'', JObj (ed_evidence r)),
     (''receipt'', receipt_js (ed_receipt r))]"

definition texts_js :: "string list \<Rightarrow> js" where
  "texts_js ss = JArr (map JStr ss)"

definition signature_payload :: "signed_window \<Rightarrow> json_record" where
  "signature_payload w =
    [(''version'', JStr ''production-signed-audit-window:v1''), (''tenantBoundary'', JStr (sw_tenantBoundary w)),
     (''windowId'', JStr (sw_windowId w)), (''periodStart'', JStr (sw_periodStart w)), (''periodEnd'', JStr (sw_periodEnd w)),
     (''signedAt'', JStr (sw_signedAt w)), (''signingKeyId'', JStr (sw_signingKeyId w)), (''eventCount'', js_nat (sw_eventCount w)),
     (''sourceEventIds'', texts_js (sw_sourceEventIds w)), (''firstEventHash'', opt_str (sw_firstEventHash w)),
     (''lastEventHash'', opt_str (sw_lastEventHash w)), (''retentionPolicy'', retention_js (sw_retentionPolicy w)),
     (''signatureAlgorithm'', JStr (sw_signatureAlgorithm w))]"

definition window_fields :: "signed_window \<Rightarrow> json_record" where
  "window_fields w = signature_payload w @ [(''signatureHash'', JStr (sw_signatureHash w))]"

fun delivery_status_text :: "delivery_status \<Rightarrow> string" where
  "delivery_status_text Delivered = ''delivered''"
| "delivery_status_text Delivery_failed = ''failed''"

definition delivery_fields :: "siem_delivery \<Rightarrow> json_record" where
  "delivery_fields d =
    [(''version'', JStr ''production-siem-delivery:v1''), (''tenantBoundary'', JStr (sd_tenantBoundary d)),
     (''deliveryId'', JStr (sd_deliveryId d)), (''windowId'', JStr (sd_windowId d)), (''destination'', JStr (sd_destination d)),
     (''status'', JStr (delivery_status_text (sd_status d))), (''attemptedAt'', JStr (sd_attemptedAt d)),
     (''sourceEventIds'', texts_js (sd_sourceEventIds d)), (''eventCount'', js_nat (sd_eventCount d)),
     (''lastEventHash'', opt_str (sd_lastEventHash d)), (''deliveredAt'', opt_str (sd_deliveredAt d)),
     (''error'', opt_str (sd_error d)), (''replayOfDeliveryId'', opt_str (sd_replayOfDeliveryId d))]"

text \<open>Records as they are stored carry their hash as one more field.\<close>

definition stored_js :: "json_record \<Rightarrow> string \<Rightarrow> js" where
  "stored_js fs h = JObj (fs @ [(''recordHash'', JStr h)])"

definition snapshot_fields :: "audit_snapshot \<Rightarrow> json_record" where
  "snapshot_fields s =
    [(''auditRecords'', JArr (map (\<lambda>r. stored_js (audit_record_fields r) (ar_recordHash r)) (as_auditRecords s))),
     (''evidenceRecords'', JArr (map (\<lambda>r. stored_js (evidence_record_fields r) (ed_recordHash r)) (as_evidenceRecords s))),
     (''signedWindows'', JArr (map (\<lambda>w. stored_js (window_fields w) (sw_recordHash w)) (as_signedWindows s))),
     (''siemDeliveries'', JArr (map (\<lambda>d. stored_js (delivery_fields d) (sd_recordHash d)) (as_siemDeliveries s)))]"

subsection \<open>Hashes\<close>

definition hash_record :: "runtime \<Rightarrow> json_record \<Rightarrow> string" where
  "hash_record rt fs = hash_reference rt (JObj fs)"

definition hash_backup :: "runtime \<Rightarrow> audit_backup \<Rightarrow> string" where
  "hash_backup rt b = hash_reference rt (JObj
    ([(''version'', JStr (ab_version b)), (''id'', JStr (ab_id b)), (''tenantBoundary'', JStr (ab_tenantBoundary b)),
      (''createdAt'', JStr (ab_createdAt b))] @ snapshot_fields (ab_snapshot b) @
     [(''backupMetadata'', JArr (map backup_js (as_backupMetadata (ab_snapshot b))))]))"

subsection \<open>Secret material\<close>

text \<open>\<open>isSensitiveString\<close>, expression by expression.\<close>

definition spaces :: rx where
  "spaces = Any_of is_space"

definition separated :: "string \<Rightarrow> string \<Rightarrow> rx" where
  "separated a b = in_order [literal_i a, maybe (Any_of (\<lambda>c. c \<in> set ''_-'')), literal_i b]"

definition bearer_or_basic :: rx where
  "bearer_or_basic = in_order [Word_boundary,
     one_of [in_order [literal_i ''Bearer'', at_least 1 spaces, at_least 8 (Any_of (alnum_or ''._~+/=-''))],
             in_order [literal_i ''Basic'', at_least 1 spaces, at_least 12 (Any_of (alnum_or ''+/=''))]],
     Word_boundary]"

definition sensitive_names :: "rx list" where
  "sensitive_names =
    [separated ''access'' ''token'', separated ''refresh'' ''token'', separated ''id'' ''token'', separated ''api'' ''key'',
     separated ''api'' ''token'', separated ''auth'' ''token'', literal_i ''authorization'', separated ''bearer'' ''token'',
     in_order [literal_i ''client'', maybe (Any_of (\<lambda>c. c \<in> set ''_-'')), one_of [literal_i ''key'', literal_i ''secret'']],
     literal_i ''credential'', literal_i ''password'', literal_i ''secret'', separated ''session'' ''token'', literal_i ''token'',
     in_order [literal_i ''x'', maybe (Any_of (\<lambda>c. c \<in> set ''_-'')), separated ''api'' ''key'']]"

definition quote_chars :: string where
  "quote_chars = [char_of (34::nat), char_of (39::nat)]"

definition named_secret :: rx where
  "named_secret = in_order
    [one_of [Text_start, Any_of (\<lambda>c. is_space c \<or> c \<in> set (''?&{,;'' @ quote_chars))], one_of sensitive_names, Word_boundary,
     maybe (Any_of (\<lambda>c. c \<in> set quote_chars)), Star spaces, Any_of (\<lambda>c. c \<in> set '':='')]"

definition vendor_key :: rx where
  "vendor_key = in_order [Word_boundary,
     one_of
      [in_order [literal_i ''sk-'', at_least 12 (Any_of (alnum_or ''_-''))],
       in_order [literal_i ''xox'', Any_of (\<lambda>c. fold_case c \<in> set ''BAPRS''), literal ''-'', at_least 12 (Any_of (alnum_or ''-''))],
       in_order [literal_i ''gh'', Any_of (\<lambda>c. fold_case c \<in> set ''POUSR''), literal ''_'', at_least 16 (Any_of (alnum_or ''_''))],
       in_order [literal_i ''github_pat_'', at_least 16 (Any_of (alnum_or ''_''))],
       in_order [literal_i ''glpat-'', at_least 16 (Any_of (alnum_or ''_-''))],
       in_order [literal_i ''AKIA'', times 16 (Any_of (alnum_or []))]],
     Word_boundary]"

definition web_token :: rx where
  "web_token =
     (let part = at_least 10 (Any_of (alnum_or ''_-''))
      in in_order [Word_boundary, literal ''eyJ'', part, literal ''.'', part, literal ''.'', part, Word_boundary])"

definition private_key :: rx where
  "private_key = in_order [literal ''-----BEGIN '', maybe (at_least 1 (Any_of (\<lambda>c. upper_letter c \<or> c = CHR '' ''))),
     literal ''PRIVATE KEY-----'']"

definition is_sensitive_string :: "string \<Rightarrow> bool" where
  "is_sensitive_string s \<longleftrightarrow>
     rx_test bearer_or_basic s \<or> rx_test named_secret s \<or> rx_test vendor_key s \<or> rx_test web_token s \<or> rx_test private_key s"

text \<open>\<open>secretMaterialFindings\<close>; each finding is critical and its \<open>actual\<close> is the path.\<close>

definition secret_finding :: "string \<Rightarrow> string \<Rightarrow> audit_integrity_finding" where
  "secret_finding path what =
    \<lparr>finding_code = ''SECRET_MATERIAL_NOT_REDACTED'',
     finding_message = path @ '' contains '' @ what @ '' material and must be redacted before production audit persistence.'',
     finding_severity = Sev_critical, finding_eventId = None, finding_expected = None, finding_actual = Some path\<rparr>"

fun secret_findings :: "string \<Rightarrow> js \<Rightarrow> audit_integrity_finding list" and
  secret_findings_items :: "string \<Rightarrow> nat \<Rightarrow> js list \<Rightarrow> audit_integrity_finding list" and
  secret_findings_fields :: "string \<Rightarrow> (string \<times> js) list \<Rightarrow> audit_integrity_finding list" where
  "secret_findings path (JStr s) = (if is_sensitive_string s then [secret_finding path ''secret-looking''] else [])"
| "secret_findings path (JArr vs) = secret_findings_items path 0 vs"
| "secret_findings path (JObj fs) = secret_findings_fields path fs"
| "secret_findings path _ = []"
| "secret_findings_items path i [] = []"
| "secret_findings_items path i (v # vs) = secret_findings (index_path path i) v @ secret_findings_items path (Suc i) vs"
| "secret_findings_fields path [] = []"
| "secret_findings_fields path ((k, v) # fs) =
     (let next = path @ CHR ''.'' # k in
      (if is_secret_material_sensitive_key k then [secret_finding next ''secret''] else []) @
      secret_findings next v @ secret_findings_fields path fs)"

definition assert_no_secrets :: "js \<Rightarrow> string \<Rightarrow> string option" where
  "assert_no_secrets v path =
     (case secret_findings path v of [] \<Rightarrow> None | f # _ \<Rightarrow> Some (finding_message f))"

definition assert_no_integrity_findings :: "audit_integrity_finding list \<Rightarrow> string \<Rightarrow> string option" where
  "assert_no_integrity_findings fs label =
     (case fs of [] \<Rightarrow> None | f # _ \<Rightarrow> Some (label @ '': '' @ finding_message f))"

text \<open>\<open>String(value)\<close> of a value read from JSON.\<close>

fun js_to_string :: "runtime \<Rightarrow> js \<Rightarrow> string" where
  "js_to_string rt JUndefined = ''undefined''"
| "js_to_string rt JNull = ''null''"
| "js_to_string rt (JBool b) = (if b then ''true'' else ''false'')"
| "js_to_string rt (JNum q) = number_text rt q"
| "js_to_string rt (JStr s) = s"
| "js_to_string rt (JArr vs) = join '','' (map (\<lambda>v. if v = JUndefined \<or> v = JNull then [] else js_to_string rt v) vs)"
| "js_to_string rt (JObj fs) = ''[object Object]''"

definition assert_optional_tenant_boundary :: "runtime \<Rightarrow> json_record \<Rightarrow> string \<Rightarrow> string \<Rightarrow> string option" where
  "assert_optional_tenant_boundary rt p tenantBoundary label =
     (let own = payload_field p ''tenantBoundary'' in
      if own \<noteq> JUndefined \<and> own \<noteq> JStr tenantBoundary
      then Some (label @ '' includes tenantBoundary '' @ js_to_string rt own @ '' outside '' @ tenantBoundary @ ''.'')
      else None)"

definition finding :: "string \<Rightarrow> string \<Rightarrow> canonical_id \<Rightarrow> string option \<Rightarrow> string option \<Rightarrow> audit_integrity_finding" where
  "finding code message i expected actual =
    \<lparr>finding_code = code, finding_message = message, finding_severity = Sev_critical, finding_eventId = Some i,
     finding_expected = expected, finding_actual = actual\<rparr>"

subsection \<open>The in-memory store\<close>

definition clone_event :: "audit_event \<Rightarrow> audit_event" where
  "clone_event e = e\<lparr>payload := clone_record (payload e)\<rparr>"

definition clone_audit_record :: "audit_record \<Rightarrow> audit_record" where
  "clone_audit_record r = r\<lparr>ar_event := clone_event (ar_event r)\<rparr>"

definition clone_evidence_record :: "evidence_record \<Rightarrow> evidence_record" where
  "clone_evidence_record r = r\<lparr>ed_evidence := clone_record (ed_evidence r)\<rparr>"

definition clone_snapshot :: "audit_snapshot \<Rightarrow> audit_snapshot" where
  "clone_snapshot s = s\<lparr>as_auditRecords := map clone_audit_record (as_auditRecords s),
     as_evidenceRecords := map clone_evidence_record (as_evidenceRecords s),
     as_backupMetadata := map clone_backup (as_backupMetadata s)\<rparr>"

definition clone_audit_backup :: "audit_backup \<Rightarrow> audit_backup" where
  "clone_audit_backup b = b\<lparr>ab_snapshot := clone_snapshot (ab_snapshot b)\<rparr>"

definition empty_audit_store :: audit_store where
  "empty_audit_store = \<lparr>as_auditRecords = [], as_evidenceRecords = [], as_signedWindows = [], as_siemDeliveries = [],
     as_backupMetadata = [], as_backups = []\<rparr>"

definition read_audit_records :: "audit_store \<Rightarrow> audit_record list" where
  "read_audit_records st = map clone_audit_record (as_auditRecords st)"

definition read_evidence_records :: "audit_store \<Rightarrow> evidence_record list" where
  "read_evidence_records st = map clone_evidence_record (as_evidenceRecords st)"

definition read_backup_metadata :: "audit_store \<Rightarrow> backup_metadata list" where
  "read_backup_metadata st = map clone_backup (as_backupMetadata st)"

definition append_audit_record :: "audit_record \<Rightarrow> audit_store \<Rightarrow> string + audit_store" where
  "append_audit_record r st =
     (let i = eventId (ar_event r) in
      if i \<in> set (map (\<lambda>x. eventId (ar_event x)) (as_auditRecords st))
      then Inl (''Reference audit event '' @ i @ '' has already been appended.'')
      else Inr (st\<lparr>as_auditRecords := as_auditRecords st @ [clone_audit_record r]\<rparr>))"

definition append_evidence_record :: "evidence_record \<Rightarrow> audit_store \<Rightarrow> string + audit_store" where
  "append_evidence_record r st =
     (if ed_exportId r \<in> set (map ed_exportId (as_evidenceRecords st))
      then Inl (''Reference evidence package '' @ ed_exportId r @ '' has already been retained.'')
      else Inr (st\<lparr>as_evidenceRecords := as_evidenceRecords st @ [clone_evidence_record r]\<rparr>))"

definition append_signed_window :: "signed_window \<Rightarrow> audit_store \<Rightarrow> string + audit_store" where
  "append_signed_window w st =
     (if sw_windowId w \<in> set (map sw_windowId (as_signedWindows st))
      then Inl (''Reference audit window '' @ sw_windowId w @ '' has already been signed.'')
      else Inr (st\<lparr>as_signedWindows := as_signedWindows st @ [w]\<rparr>))"

definition append_siem_delivery :: "siem_delivery \<Rightarrow> audit_store \<Rightarrow> string + audit_store" where
  "append_siem_delivery d st =
     (if sd_deliveryId d \<in> set (map sd_deliveryId (as_siemDeliveries st))
      then Inl (''Reference SIEM delivery '' @ sd_deliveryId d @ '' has already been recorded.'')
      else Inr (st\<lparr>as_siemDeliveries := as_siemDeliveries st @ [d]\<rparr>))"

definition write_backup_metadata :: "backup_metadata list \<Rightarrow> audit_store \<Rightarrow> audit_store" where
  "write_backup_metadata bs st = st\<lparr>as_backupMetadata := map clone_backup bs\<rparr>"

definition read_stored_backup :: "canonical_id \<Rightarrow> audit_store \<Rightarrow> audit_backup option" where
  "read_stored_backup i st = map_option clone_audit_backup (map_get (as_backups st) i)"

definition write_stored_backup :: "canonical_id \<Rightarrow> audit_backup \<Rightarrow> audit_store \<Rightarrow> audit_store" where
  "write_stored_backup i b st = st\<lparr>as_backups := map_set i (clone_audit_backup b) (as_backups st)\<rparr>"

definition restore_snapshot :: "audit_snapshot \<Rightarrow> audit_store \<Rightarrow> audit_store" where
  "restore_snapshot s st = audit_snapshot.extend (clone_snapshot s) \<lparr>as_backups = as_backups st\<rparr>"

end
