(* ===== verification/Evidence_Integrity.thy ===== *)
theory Evidence_Integrity
  imports Evidence_Package Audit_Store
begin

text \<open>
  Evidence packages, \<open>packages/core/src/evidence-integrity.ts\<close>: the manifest of hashes, the signed
  metadata, the embedded verifier checks, and the verifier, which takes any JSON value. A package is
  its object. Ed25519 is a parameter: a signer has the function from a message to the base64url text
  of its signature, a trusted key the check of one. What a \<open>TypeError\<close> of the engine says is a
  parameter as well; such an error inside a check is that check's failure, one outside is thrown.
  Names of \<open>Object.prototype\<close> are looked up as absent.
\<close>

record evidence_signer =
  es_keyId :: string
  es_algorithm :: string
  es_role :: string
  es_sign :: "string \<Rightarrow> string"

record trusted_key =
  tk_algorithm :: string
  tk_verify :: "string \<Rightarrow> string \<Rightarrow> bool"

type_synonym key_registry = "(string, trusted_key) js_map"

record verifier_check =
  vc_name :: string
  vc_pass :: bool
  vc_message :: string
  vc_expected :: "string option"
  vc_actual :: "string option"

record verification_report =
  vr_verified :: bool
  vr_verifiedAt :: string
  vr_packageHash :: js
  vr_checks :: "verifier_check list"

definition default_signature_algorithm :: string where
  "default_signature_algorithm = ''ed25519-local-proof-signature''"

definition default_signer_role :: string where
  "default_signer_role = ''ISSO''"

definition fixture_key_id :: string where
  "fixture_key_id = ''key:local-proof-point-evidence-ed25519''"

text \<open>\<open>createEd25519EvidenceSigner\<close> on the private key \<open>sign\<close>.\<close>

definition create_evidence_signer :: "string \<Rightarrow> (string \<Rightarrow> string) \<Rightarrow> string option \<Rightarrow> string option \<Rightarrow> evidence_signer" where
  "create_evidence_signer keyId sign role algorithm =
     (let alg = coalesce algorithm default_signature_algorithm in
      \<lparr>es_keyId = keyId, es_algorithm = alg, es_role = coalesce role default_signer_role,
       es_sign = (\<lambda>message. alg @ '':'' @ sign message)\<rparr>)"

definition default_evidence_signer :: "(string \<Rightarrow> string) \<Rightarrow> evidence_signer" where
  "default_evidence_signer sign = create_evidence_signer default_signature_key_id sign None None"

definition default_trusted_keys :: "(string \<Rightarrow> string \<Rightarrow> bool) \<Rightarrow> (string \<Rightarrow> string \<Rightarrow> bool) \<Rightarrow> key_registry" where
  "default_trusted_keys runtimeKey fixtureKey =
     [(default_signature_key_id, \<lparr>tk_algorithm = default_signature_algorithm, tk_verify = runtimeKey\<rparr>),
      (fixture_key_id, \<lparr>tk_algorithm = default_signature_algorithm, tk_verify = fixtureKey\<rparr>)]"

subsection \<open>The manifest\<close>

definition attestation_names :: "string list" where
  "attestation_names = [''integrityManifest'', ''signedPackage'', ''verifierChecks'', ''storageReceipt'']"

definition canonical_content :: "json_record \<Rightarrow> json_record" where
  "canonical_content e = filter (\<lambda>(k, v). k \<notin> set attestation_names) e"

definition section_names :: "string list" where
  "section_names =
    [''auditIntegrity'', ''controlMappings'', ''artifacts'', ''conmonMetrics'', ''poamItems'', ''poamExport'', ''siemExport'',
     ''systemBoundary'', ''dataFlows'', ''controlStatements'', ''accessReviews'', ''exceptionRegister'', ''operationalEvidence'',
     ''oscal'', ''controlTraceViews'']"

definition section_hash :: "runtime \<Rightarrow> json_record \<Rightarrow> string \<Rightarrow> js" where
  "section_hash rt e name =
     (let v = field (JObj e) name in JObj
      ([(''name'', JStr name), (''hash'', JStr (hash_reference rt v))] @
       (case v of JArr vs \<Rightarrow> [(''itemCount'', js_nat (length vs))] | _ \<Rightarrow> [])))"

definition verifier_documentation :: js where
  "verifier_documentation = JObj
    [(''documentationPath'', JStr ''docs/evidence-integrity-verifier.md''),
     (''summary'', JStr ''Recompute the stable-json package content hash before attestation metadata is added and compare section hashes.''),
     (''verificationSteps'', strings_js
       [''Remove storageReceipt if present.'', ''Remove integrityManifest from the evidence package.'',
        ''Remove signedPackage and verifierChecks from the evidence package.'',
        ''Canonicalize the remaining package content with stable JSON key ordering.'',
        ''Compute sha256 over the canonical package and compare it with integrityManifest.packageHash.'',
        ''Canonicalize each named section and compare sha256 values with integrityManifest.sections.'',
        ''Verify signedPackage.signature over the signed metadata using the trusted public key for signedPackage.keyId.''])]"

definition integrity_manifest :: "runtime \<Rightarrow> json_record \<Rightarrow> js" where
  "integrity_manifest rt e = JObj
    [(''packageHash'', JStr (hash_reference rt (JObj (canonical_content e)))), (''hashAlgorithm'', JStr ''sha256''),
     (''canonicalization'', JStr ''stable-json''), (''generatedAt'', field (JObj e) ''generatedAt''),
     (''sections'', JArr (map (section_hash rt e) section_names)), (''verifier'', verifier_documentation),
     (''version'', JStr ''evidence-integrity-manifest:v1'')]"

definition attach_integrity_manifest :: "runtime \<Rightarrow> json_record \<Rightarrow> json_record" where
  "attach_integrity_manifest rt e = map_set ''integrityManifest'' (integrity_manifest rt e) e"

subsection \<open>The signature\<close>

definition items_of :: "js \<Rightarrow> js list" where
  "items_of v = (case v of JArr vs \<Rightarrow> vs | _ \<Rightarrow> [])"

definition text_of :: "js \<Rightarrow> string" where
  "text_of v = (case v of JStr s \<Rightarrow> s | _ \<Rightarrow> [])"

definition unsigned_package :: "evidence_signer \<Rightarrow> json_record \<Rightarrow> json_record" where
  "unsigned_package signer e =
     (let p = field (JObj e) in
      [(''packageId'', JStr (signed_package_id (text_of (p ''exportId'')))),
       (''packageHash'', field (p ''integrityManifest'') ''packageHash''), (''hashAlgorithm'', JStr ''sha256''),
       (''canonicalization'', JStr ''stable-json''), (''signatureAlgorithm'', JStr (es_algorithm signer)),
       (''keyId'', JStr (es_keyId signer)), (''signedAt'', p ''generatedAt''), (''signerRole'', JStr (es_role signer)),
       (''deploymentScope'', field (field (p ''oscal'') ''systemSecurityPlan'') ''deploymentScope''),
       (''sourceEventIds'', p ''sourceEventIds''),
       (''reviewedStatementRefs'', strings_js (map (\<lambda>s. control_statement_ref (text_of (field s ''controlId''))) (items_of (p ''controlStatements'')))),
       (''controlTraceIds'', JArr (map (\<lambda>t. field t ''traceId'') (items_of (p ''controlTraceViews'')))),
       (''version'', JStr ''signed-evidence-package:v1'')])"

definition attach_signed_package :: "runtime \<Rightarrow> evidence_signer \<Rightarrow> json_record \<Rightarrow> json_record" where
  "attach_signed_package rt signer e =
     (let unsigned = unsigned_package signer e in
      map_set ''signedPackage'' (JObj (unsigned @ [(''signature'', JStr (es_sign signer (stable_stringify rt (JObj unsigned))))])) e)"

subsection \<open>Checks\<close>

definition check_pass :: "string \<Rightarrow> string \<Rightarrow> verifier_check" where
  "check_pass name message = \<lparr>vc_name = name, vc_pass = True, vc_message = message, vc_expected = None, vc_actual = None\<rparr>"

definition check_fail :: "runtime \<Rightarrow> string \<Rightarrow> string \<Rightarrow> js \<Rightarrow> js \<Rightarrow> verifier_check" where
  "check_fail rt name message expected actual =
     \<lparr>vc_name = name, vc_pass = False, vc_message = message,
      vc_expected = (if expected = JUndefined then None else Some (js_to_string rt expected)),
      vc_actual = (if actual = JUndefined then None else Some (js_to_string rt actual))\<rparr>"

text \<open>\<open>runCheck\<close>: the check, or the message it threw.\<close>

definition run_check :: "runtime \<Rightarrow> string \<Rightarrow> string \<Rightarrow> string + verifier_check \<Rightarrow> verifier_check" where
  "run_check rt name success outcome =
     (case outcome of
        Inr c \<Rightarrow> c
      | Inl message \<Rightarrow> check_fail rt name (success @ '' Verification threw: '' @ message) JUndefined JUndefined)"

definition compare_check :: "runtime \<Rightarrow> string \<Rightarrow> string \<Rightarrow> string \<Rightarrow> js \<Rightarrow> js \<Rightarrow> verifier_check" where
  "compare_check rt name success failure expected actual =
     (if strict_equals actual expected then check_pass name success else check_fail rt name failure expected actual)"

definition or_nullish :: "js \<Rightarrow> js \<Rightarrow> js" where
  "or_nullish v w = (if v = JUndefined \<or> v = JNull then w else v)"

definition stable_comparable :: "runtime \<Rightarrow> js \<Rightarrow> js" where
  "stable_comparable rt v = (if v = JUndefined then JUndefined else JStr (stable_stringify rt (js_clone v)))"

text \<open>\<open>xs.map(x => x.k)\<close> on a value that need not be an array of objects.\<close>

definition map_field :: "(string \<Rightarrow> string) \<Rightarrow> string \<Rightarrow> js \<Rightarrow> string + js list" where
  "map_field engine k v =
     (case v of
        JArr vs \<Rightarrow> if list_ex (\<lambda>x. x = JUndefined \<or> x = JNull) vs then Inl (engine k) else Inr (map (\<lambda>x. field x k) vs)
      | _ \<Rightarrow> Inl (engine ''map''))"

text \<open>\<open>xs.sort()\<close> puts undefined values last; \<open>join(",")\<close> writes them and null as nothing.\<close>

definition js_sort :: "runtime \<Rightarrow> js list \<Rightarrow> js list" where
  "js_sort rt vs = sort_key (js_to_string rt) (filter (\<lambda>v. v \<noteq> JUndefined) vs) @ filter (\<lambda>v. v = JUndefined) vs"

definition js_join :: "runtime \<Rightarrow> js list \<Rightarrow> string" where
  "js_join rt vs = join '','' (map (\<lambda>v. if v = JUndefined \<or> v = JNull then [] else js_to_string rt v) vs)"

definition package_hash_check :: "runtime \<Rightarrow> json_record \<Rightarrow> verifier_check" where
  "package_hash_check rt e =
     compare_check rt ''package_hash'' ''Integrity manifest package hash matches canonical content.''
       ''Integrity manifest package hash does not match canonical content.''
       (JStr (hash_reference rt (JObj (canonical_content e)))) (field (field (JObj e) ''integrityManifest'') ''packageHash'')"

definition section_check :: "runtime \<Rightarrow> json_record \<Rightarrow> js \<Rightarrow> verifier_check" where
  "section_check rt content s =
     (let name = js_to_string rt (field s ''name'') in
      if name \<notin> fst ` set content
      then check_fail rt (''section_hash:'' @ name) (''Section '' @ name @ '' is not present in the canonical content.'') JUndefined JUndefined
      else compare_check rt (''section_hash:'' @ name) (''Section '' @ name @ '' hash matches canonical content.'')
        (''Section '' @ name @ '' hash does not match canonical content.'')
        (JStr (hash_reference rt (field (JObj content) name))) (field s ''hash''))"

text \<open>The names of the sections are read outside \<open>runCheck\<close>: what they throw leaves the verifier.\<close>

definition verify_section_hashes :: "(string \<Rightarrow> string) \<Rightarrow> runtime \<Rightarrow> json_record \<Rightarrow> js_thrown + verifier_check list" where
  "verify_section_hashes engine rt e =
     (case or_nullish (field (field (JObj e) ''integrityManifest'') ''sections'') (JArr []) of
        JArr vs \<Rightarrow>
          if vs = []
          then Inr [check_fail rt ''section_hashes'' ''Integrity manifest does not contain section hashes.'' JUndefined JUndefined]
          else if list_ex (\<lambda>s. s = JUndefined \<or> s = JNull) vs then Inl (Error_object (engine ''name''))
          else Inr (map (section_check rt (canonical_content e)) vs)
      | v \<Rightarrow>
          if v = JStr [] \<or> field v ''length'' = JNum 0
          then Inr [check_fail rt ''section_hashes'' ''Integrity manifest does not contain section hashes.'' JUndefined JUndefined]
          else Inl (Error_object (engine ''map'')))"

definition signed_hash_check :: "runtime \<Rightarrow> json_record \<Rightarrow> verifier_check" where
  "signed_hash_check rt e =
     compare_check rt ''signed_package_hash'' ''Signed package metadata references the integrity manifest hash.''
       ''Signed package metadata does not reference the integrity manifest hash.''
       (field (field (JObj e) ''integrityManifest'') ''packageHash'') (field (field (JObj e) ''signedPackage'') ''packageHash'')"

definition without_signature :: "js \<Rightarrow> js" where
  "without_signature v = JObj (case v of JObj fs \<Rightarrow> filter (\<lambda>(k, w). k \<noteq> ''signature'') fs | _ \<Rightarrow> [])"

definition verify_signed_signature :: "(string \<Rightarrow> string) \<Rightarrow> runtime \<Rightarrow> js \<Rightarrow> trusted_key \<Rightarrow> string + bool" where
  "verify_signed_signature engine rt signed k =
     (case field signed ''signature'' of
        JStr s \<Rightarrow>
          (let start = js_to_string rt (field signed ''signatureAlgorithm'') @ '':'' in
           if \<not> prefix start s then Inr False
           else Inr (tk_verify k (stable_stringify rt (without_signature signed)) (drop (length start) s)))
      | _ \<Rightarrow> Inl (engine ''startsWith''))"

definition signature_check :: "(string \<Rightarrow> string) \<Rightarrow> runtime \<Rightarrow> key_registry \<Rightarrow> json_record \<Rightarrow> string + verifier_check" where
  "signature_check engine rt keys e =
     (let signed = field (JObj e) ''signedPackage''; name = ''signed_package_signature'' in
      if is_falsy signed then Inr (check_fail rt name ''Signed package metadata is missing.'' JUndefined JUndefined)
      else case map_get keys (js_to_string rt (field signed ''keyId'')) of
        None \<Rightarrow> Inr (check_fail rt name ''Signed package key is not trusted by this verifier.''
          (JStr (join '','' (map fst keys))) (field signed ''keyId''))
      | Some k \<Rightarrow>
          if JStr (tk_algorithm k) \<noteq> field signed ''signatureAlgorithm''
          then Inr (check_fail rt name ''Signed package algorithm does not match the trusted key.''
            (JStr (tk_algorithm k)) (field signed ''signatureAlgorithm''))
          else bind_result (verify_signed_signature engine rt signed k) (\<lambda>ok.
            Inr (if ok then check_pass name ''Signed package proof signature verifies with a trusted key.''
              else check_fail rt name ''Signed package proof signature does not verify with a trusted key.''
                (JStr (tk_algorithm k @ '':<trusted-signature>'')) (field signed ''signature''))))"

definition expected_scope :: "(string \<Rightarrow> string) \<Rightarrow> json_record \<Rightarrow> string + js" where
  "expected_scope engine e =
     (let p = field (JObj e); b = p ''systemBoundary'' in
      if is_falsy b \<or> is_falsy (p ''periodStart'') \<or> is_falsy (p ''periodEnd'') \<or> is_falsy (field b ''components'')
      then Inr JUndefined
      else bind_result (map_field engine ''id'' (field b ''components'')) (\<lambda>ids.
        Inr (JObj
          [(''boundaryId'', or_nullish (field b ''boundaryId'') (JStr ''boundary:unknown'')),
           (''environment'', or_nullish (field b ''environment'') (JStr ''local_proof_point'')),
           (''liveTenantData'', or_nullish (field b ''liveTenantData'') (JBool False)),
           (''controls'', or_nullish (p ''controls'') (JArr [])),
           (''periodStart'', p ''periodStart''), (''periodEnd'', p ''periodEnd''),
           (''componentIds'', JArr ids), (''version'', JStr ''evidence-deployment-scope:v1'')])))"

definition deployment_scope_check :: "(string \<Rightarrow> string) \<Rightarrow> runtime \<Rightarrow> json_record \<Rightarrow> string + verifier_check" where
  "deployment_scope_check engine rt e =
     bind_result (expected_scope engine e) (\<lambda>expected.
       Inr (compare_check rt ''deployment_scope'' ''Signed deployment scope matches the exported system boundary and period.''
         ''Signed deployment scope does not match the exported system boundary and period.''
         (stable_comparable rt expected)
         (stable_comparable rt (field (field (JObj e) ''signedPackage'') ''deploymentScope''))))"

definition oscal_check :: "runtime \<Rightarrow> json_record \<Rightarrow> verifier_check" where
  "oscal_check rt e =
     (let oscal = field (JObj e) ''oscal'' in
      if list_all (\<lambda>k. \<not> is_falsy (field oscal k))
        [''componentDefinition'', ''systemSecurityPlan'', ''assessmentResults'', ''planOfActionAndMilestones'']
      then check_pass ''oscal_fragments'' ''OSCAL component, SSP, assessment-results, and POA&M fragments are present.''
      else check_fail rt ''oscal_fragments'' ''One or more OSCAL fragments are missing.'' JUndefined JUndefined)"

definition poam_check :: "(string \<Rightarrow> string) \<Rightarrow> runtime \<Rightarrow> json_record \<Rightarrow> string + verifier_check" where
  "poam_check engine rt e =
     bind_result (map_field engine ''id'' (or_nullish (field (JObj e) ''poamItems'') (JArr []))) (\<lambda>expected.
     bind_result (map_field engine ''id'' (or_nullish (field (field (JObj e) ''poamExport'') ''items'') (JArr []))) (\<lambda>actual.
       Inr (compare_check rt ''poam_export'' ''POA&M export mirrors evidence POA&M items.''
         ''POA&M export items do not match evidence POA&M items.''
         (JStr (js_join rt (js_sort rt expected))) (JStr (js_join rt (js_sort rt actual))))))"

subsection \<open>Trace views\<close>

text \<open>\<open>[...v]\<close>: the elements of an array, the characters of a string.\<close>

definition spread_items :: "(string \<Rightarrow> string) \<Rightarrow> js \<Rightarrow> string + js list" where
  "spread_items engine v =
     (case v of JArr vs \<Rightarrow> Inr vs | JStr s \<Rightarrow> Inr (map (\<lambda>c. JStr [c]) s) | _ \<Rightarrow> Inl (engine ''spread''))"

text \<open>\<open>v.k\<close> without \<open>?.\<close>.\<close>

definition strict_field :: "(string \<Rightarrow> string) \<Rightarrow> js \<Rightarrow> string \<Rightarrow> string + js" where
  "strict_field engine v k = (if v = JUndefined \<or> v = JNull then Inl (engine k) else Inr (field v k))"

definition trace_is_complete ::
  "(string \<Rightarrow> string) \<Rightarrow> runtime \<Rightarrow> js option \<Rightarrow> js \<Rightarrow> js \<Rightarrow> js \<Rightarrow> js \<Rightarrow> string + bool" where
  "trace_is_complete engine rt trace sourceEventIds packageId keyId scope =
     (case trace of
        None \<Rightarrow> Inr False
      | Some t \<Rightarrow>
          if is_falsy t \<or> is_falsy packageId \<or> is_falsy keyId \<or> is_falsy scope then Inr False
          else bind_result (strict_field engine (field t ''signatureRef'') ''packageId'') (\<lambda>p.
            if \<not> strict_equals p packageId then Inr False
            else if \<not> strict_equals (field (field t ''signatureRef'') ''keyId'') keyId then Inr False
            else if stable_comparable rt (field t ''deploymentScope'') \<noteq> stable_comparable rt scope then Inr False
            else bind_result (spread_items engine (field t ''sourceEventIds'')) (\<lambda>own.
              bind_result (spread_items engine sourceEventIds) (\<lambda>others.
                if stable_comparable rt (JArr (js_sort rt own)) \<noteq> stable_comparable rt (JArr (js_sort rt others)) then Inr False
                else bind_result (strict_field engine (field t ''reviewedStatement'') ''reviewedAt'') (\<lambda>reviewed.
                  Inr (\<not> is_falsy reviewed \<and> \<not> is_falsy (field (field t ''reviewedStatement'') ''reviewerRole'')))))))"

definition trace_for :: "js list \<Rightarrow> js \<Rightarrow> js option" where
  "trace_for traces controlId = find (\<lambda>t. strict_equals (field t ''controlId'') controlId) (rev traces)"

fun missing_traces ::
  "(string \<Rightarrow> string) \<Rightarrow> runtime \<Rightarrow> js list \<Rightarrow> json_record \<Rightarrow> js list \<Rightarrow> string + js list" where
  "missing_traces engine rt traces e [] = Inr []"
| "missing_traces engine rt traces e (m # ms) =
     (let signed = field (JObj e) ''signedPackage'' in
      bind_result (strict_field engine m ''controlId'') (\<lambda>controlId.
      bind_result (trace_is_complete engine rt (trace_for traces controlId) (field m ''sourceEventIds'')
          (field signed ''packageId'') (field signed ''keyId'') (field signed ''deploymentScope'')) (\<lambda>complete.
      bind_result (missing_traces engine rt traces e ms) (\<lambda>rest.
        Inr (if complete then rest else controlId # rest)))))"

definition missing_control_trace_ids :: "(string \<Rightarrow> string) \<Rightarrow> runtime \<Rightarrow> json_record \<Rightarrow> string + js list" where
  "missing_control_trace_ids engine rt e =
     (let traces = or_nullish (field (JObj e) ''controlTraceViews'') (JArr []) in
      bind_result (map_field engine ''controlId'' traces) (\<lambda>_.
        case or_nullish (field (JObj e) ''controlMappings'') (JArr []) of
          JArr ms \<Rightarrow> missing_traces engine rt (items_of traces) e ms
        | _ \<Rightarrow> Inl (engine ''filter'')))"

definition trace_check :: "(string \<Rightarrow> string) \<Rightarrow> runtime \<Rightarrow> json_record \<Rightarrow> string + verifier_check" where
  "trace_check engine rt e =
     bind_result (missing_control_trace_ids engine rt e) (\<lambda>missing.
       Inr (if missing = []
            then check_pass ''control_trace_views'' ''Control trace views link controls to source events, reviewed statements, signatures, and deployment scope.''
            else check_fail rt ''control_trace_views'' ''One or more controls are missing a complete trace view.''
              (JStr ''<none>'') (JStr (js_join rt missing))))"

subsection \<open>The verifier\<close>

text \<open>\<open>wallClock\<close> is what \<open>new Date().toISOString()\<close> gives.\<close>

definition verify_package ::
  "(string \<Rightarrow> string) \<Rightarrow> runtime \<Rightarrow> key_registry \<Rightarrow> string \<Rightarrow> string option \<Rightarrow> json_record \<Rightarrow> js_thrown + verification_report" where
  "verify_package engine rt keys wallClock given e =
     bind_result (verify_section_hashes engine rt e) (\<lambda>sections.
       let checks = [package_hash_check rt e] @ sections @
         [signed_hash_check rt e,
          run_check rt ''signed_package_signature'' ''Signed package proof signature verifies.'' (signature_check engine rt keys e),
          run_check rt ''deployment_scope'' ''Signed deployment scope matches the exported system boundary and period.''
            (deployment_scope_check engine rt e),
          oscal_check rt e,
          run_check rt ''poam_export'' ''POA&M export mirrors evidence POA&M items.'' (poam_check engine rt e),
          run_check rt ''control_trace_views''
            ''Control trace views link controls to source events, reviewed statements, signatures, and deployment scope.''
            (trace_check engine rt e)]
       in Inr \<lparr>vr_verified = list_all vc_pass checks,
               vr_verifiedAt =
                 (case given of Some t \<Rightarrow> t
                  | None \<Rightarrow> (case field (JObj e) ''generatedAt'' of JStr t \<Rightarrow> t | _ \<Rightarrow> wallClock)),
               vr_packageHash = field (field (JObj e) ''integrityManifest'') ''packageHash'', vr_checks = checks\<rparr>)"

definition verify_evidence_export ::
  "(string \<Rightarrow> string) \<Rightarrow> runtime \<Rightarrow> key_registry \<Rightarrow> string \<Rightarrow> string option \<Rightarrow> js \<Rightarrow> js_thrown + verification_report" where
  "verify_evidence_export engine rt keys wallClock given v =
     (case v of
        JObj e \<Rightarrow> verify_package engine rt keys wallClock given e
      | _ \<Rightarrow> Inr \<lparr>vr_verified = False, vr_verifiedAt = coalesce given wallClock, vr_packageHash = JUndefined,
          vr_checks = [check_fail rt ''package_shape'' ''Evidence package must be a JSON object.'' JUndefined JUndefined]\<rparr>)"

definition check_js :: "verifier_check \<Rightarrow> js" where
  "check_js c = JObj
    ([(''name'', JStr (vc_name c)), (''status'', JStr (if vc_pass c then ''pass'' else ''fail'')), (''message'', JStr (vc_message c))] @
     (case vc_expected c of None \<Rightarrow> [] | Some s \<Rightarrow> [(''expected'', JStr s)]) @
     (case vc_actual c of None \<Rightarrow> [] | Some s \<Rightarrow> [(''actual'', JStr s)]))"

subsection \<open>Finishing a package\<close>

text \<open>\<open>custom\<close> is a signer of the caller's own, \<open>trusted\<close> the registry that comes with it.\<close>

definition finalize_evidence_export ::
  "(string \<Rightarrow> string) \<Rightarrow> runtime \<Rightarrow> evidence_signer \<Rightarrow> key_registry \<Rightarrow> evidence_signer option \<Rightarrow> key_registry option \<Rightarrow>
   string \<Rightarrow> evidence_draft \<Rightarrow> js_thrown + json_record" where
  "finalize_evidence_export engine rt default_signer default_keys custom trusted wallClock d =
     (let signer = coalesce custom default_signer in
      if custom \<noteq> None \<and> Option.bind trusted (\<lambda>ks. map_get ks (es_keyId signer)) = None
      then Inl (Error_object (''Evidence trustedKeys must include custom signer key '' @ es_keyId signer @
        '' before verifier checks can be embedded.''))
      else let signed = attach_signed_package rt signer (attach_integrity_manifest rt (build_package_content d (es_keyId signer)))
        in map_sum id (\<lambda>report. map_set ''verifierChecks'' (JArr (map check_js (vr_checks report))) signed)
             (verify_evidence_export engine rt (coalesce trusted default_keys) wallClock None
               (JObj (map_set ''verifierChecks'' (JArr []) signed))))"

end
