(* ===== verification/Governance.thy ===== *)
theory Governance
  imports Drift_Lifecycle Job_Queue Js_Regexp "HOL-Library.Sublist"
begin

text \<open>
  The governance workflow, \<open>packages/core/src/governance.ts\<close>: drift findings become governance findings
  and exception requests of the local access review campaign, over what earlier runs left. \<open>collate\<close>
  is \<open>localeCompare\<close>; a date that is none makes the whole run throw.
\<close>

subsection \<open>Identifiers and dates\<close>

definition local_campaign_id :: canonical_id where
  "local_campaign_id = ''access-review:campaign:local-governance''"

definition evidence_id_char :: "char \<Rightarrow> bool" where
  "evidence_id_char c \<longleftrightarrow> lower_letter c \<or> is_digit c \<or> c \<in> set ''_:-''"

definition strip_underscores :: "string \<Rightarrow> string" where
  "strip_underscores s =
     (let t = (if s \<noteq> [] \<and> hd s = CHR ''_'' then tl s else s)
      in if t \<noteq> [] \<and> last t = CHR ''_'' then butlast t else t)"

definition governance_evidence_id :: "string \<Rightarrow> canonical_id" where
  "governance_evidence_id s =
     (let t = strip_underscores (replace_runs (\<lambda>c. c \<noteq> CHR ''_'') ''_'' False
                (replace_runs evidence_id_char ''_'' False (to_lower_case s)))
      in if t = [] then ''unknown'' else t)"

definition governance_finding_id :: "string \<Rightarrow> canonical_id" where
  "governance_finding_id s = ''governance-finding:'' @ governance_evidence_id s"

definition exception_request_id :: "string \<Rightarrow> canonical_id" where
  "exception_request_id s = ''exception:'' @ governance_evidence_id s"

definition add_days :: "string \<Rightarrow> int \<Rightarrow> range_error + string" where
  "add_days timestamp days =
     (case add_milliseconds timestamp (days * 86400000) of None \<Rightarrow> Inl Invalid_time_value | Some s \<Rightarrow> Inr s)"

definition is_after :: "string \<Rightarrow> string \<Rightarrow> bool" where
  "is_after v w = (case (date_parse v, date_parse w) of (Some a, Some b) \<Rightarrow> a > b | _ \<Rightarrow> False)"

text \<open>\<open>existing ?? addDays(...)\<close>\<close>

definition kept_or_days :: "string option \<Rightarrow> string \<Rightarrow> int \<Rightarrow> range_error + string" where
  "kept_or_days kept from days = (case kept of Some s \<Rightarrow> Inr s | None \<Rightarrow> add_days from days)"

definition kept_refs :: "string list option \<Rightarrow> string list \<Rightarrow> string list" where
  "kept_refs kept fresh = (case kept of Some (r # rs) \<Rightarrow> r # rs | _ \<Rightarrow> fresh)"

subsection \<open>Statuses\<close>

definition remediation_status_of :: "drift_finding \<Rightarrow> string \<Rightarrow> string \<Rightarrow> remediation_status" where
  "remediation_status_of f generated due =
     (if drift_status f = Df_resolved then Rem_completed
      else if drift_status f = Df_repairing then Rem_in_progress
      else if is_after generated due then Rem_overdue
      else if drift_recommendedAction f = Do_review then Rem_open else Rem_planned)"

definition governance_status_of :: "drift_finding \<Rightarrow> remediation_status \<Rightarrow> string \<Rightarrow> string \<Rightarrow> governance_finding_status" where
  "governance_status_of f rem generated riskExpires =
     (if drift_status f = Df_resolved \<or> rem = Rem_completed then Gov_remediated
      else if drift_status f = Df_accepted then (if is_after generated riskExpires then Gov_expired else Gov_risk_accepted)
      else if drift_status f = Df_repairing then Gov_remediation_planned
      else Gov_open)"

definition exception_status_of :: "drift_finding \<Rightarrow> string \<Rightarrow> string \<Rightarrow> exception_request_status" where
  "exception_status_of f generated expires =
     (if drift_status f = Df_resolved then Exc_remediated
      else if is_after generated expires then Exc_expired
      else if drift_status f = Df_accepted then Exc_risk_accepted
      else Exc_requested)"

definition risk_status_of :: "risk_acceptance_status option \<Rightarrow> exception_request_status \<Rightarrow> risk_acceptance_status" where
  "risk_status_of existing request =
     (if request = Exc_expired then Risk_expired
      else if request = Exc_revoked then Risk_revoked
      else if request = Exc_risk_accepted \<or> existing = Some Risk_accepted then Risk_accepted
      else Risk_pending)"

fun governance_plan :: "drift_recommended_action \<Rightarrow> string" where
  "governance_plan Do_revoke = ''Validate intended access, plan revocation, and verify reconciliation closure.''"
| "governance_plan Do_repair = ''Repair intended relationship or native grant mismatch and rerun reconciliation.''"
| "governance_plan Do_exception =
     ''Obtain owner approval, document risk acceptance, set expiry, and track remediation before access can remain.''"
| "governance_plan Do_review =
     ''Review access with the resource owner and choose revoke, repair, or time-bound exception handling.''"

definition requires_exception_request :: "drift_finding \<Rightarrow> bool" where
  "requires_exception_request f \<longleftrightarrow>
     drift_recommendedAction f = Do_exception \<or> drift_severity f = Drift_high \<or> drift_severity f = Drift_critical"

subsection \<open>Records\<close>

definition drift_refs :: "drift_finding \<Rightarrow> string \<Rightarrow> string list" where
  "drift_refs f runbook = [''drift:'' @ governance_evidence_id (entity_id f), runbook]"

definition owner_approval :: "string \<Rightarrow> approval_decision \<Rightarrow> string option \<Rightarrow> string list \<Rightarrow> governance_approval" where
  "owner_approval role given decided refs =
     \<lparr>approverRole = role, approval_decision = given, decidedAt = decided, approval_evidenceRefs = refs\<rparr>"

definition kept_approvals :: "governance_approval list option \<Rightarrow> governance_approval \<Rightarrow> governance_approval list" where
  "kept_approvals kept fresh = (case kept of Some (a # as) \<Rightarrow> a # as | _ \<Rightarrow> [fresh])"

definition build_remediation_tracking ::
  "drift_finding \<Rightarrow> remediation_tracking option \<Rightarrow> string \<Rightarrow> range_error + remediation_tracking" where
  "build_remediation_tracking f existing generated =
     bind_result (kept_or_days (map_option rem_dueAt existing) (drift_detectedAt f) 14) (\<lambda>due.
       let status = remediation_status_of f generated due in
       Inr \<lparr>rem_status = status,
            rem_ownerRole = coalesce (map_option rem_ownerRole existing) ''Resource Owner'',
            rem_plan = coalesce (map_option rem_plan existing) (governance_plan (drift_recommendedAction f)),
            rem_dueAt = due,
            rem_completedAt =
              (if status = Rem_completed then Some (coalesce (Option.bind existing rem_completedAt) generated)
               else Option.bind existing rem_completedAt),
            rem_evidenceRefs = kept_refs (map_option rem_evidenceRefs existing) (drift_refs f ''runbooks/drift-remediation.md''),
            rem_poamItemId = coalesce (map_option rem_poamItemId existing) (''poam:governance:'' @ governance_evidence_id (entity_id f))\<rparr>)"

definition build_governance_finding ::
  "drift_finding \<Rightarrow> governance_finding option \<Rightarrow> string \<Rightarrow> string \<Rightarrow> range_error + governance_finding" where
  "build_governance_finding f existing generated riskExpires =
     bind_result (build_remediation_tracking f (map_option gov_remediation existing) generated) (\<lambda>remediation.
       Inr \<lparr>entity_id = governance_finding_id (entity_id f),
            version = ''governance-finding:v1'',
            createdAt = coalesce (map_option createdAt existing) (createdAt f),
            updatedAt = Some generated,
            gov_campaignId = coalesce (map_option gov_campaignId existing) local_campaign_id,
            gov_subjectId = governance_evidence_id (drift_subjectId f),
            gov_resourceId = governance_evidence_id (drift_resourceId f),
            gov_action = (if drift_nativeAccess f = [] then ''review'' else drift_nativeAccess f),
            gov_severity = drift_severity f,
            gov_status = governance_status_of f (rem_status remediation) generated riskExpires,
            gov_source = Source_drift,
            gov_sourceFindingId = Some (governance_evidence_id (entity_id f)),
            gov_ownerRole = coalesce (map_option gov_ownerRole existing) ''Resource Owner'',
            gov_weakness = ''Native '' @ drift_nativeAccess f @ '' access for '' @ drift_subjectId f @ '' on '' @ drift_resourceId f @
              '' differs from intended '' @ drift_intendedAccess f @ '' access.'',
            gov_recommendedAction = drift_recommendedAction f,
            gov_detectedAt = drift_detectedAt f,
            gov_dueAt = rem_dueAt remediation,
            gov_controlId = ''CA-7'',
            gov_remediation = remediation,
            gov_exceptionRequestId = Option.bind existing gov_exceptionRequestId,
            gov_evidenceRefs = kept_refs (map_option gov_evidenceRefs existing) (drift_refs f ''runbooks/access-review-exceptions.md'')\<rparr>)"

definition build_risk_acceptance ::
  "risk_acceptance option \<Rightarrow> drift_finding \<Rightarrow> exception_request_status \<Rightarrow> string \<Rightarrow> string \<Rightarrow> string \<Rightarrow> risk_acceptance" where
  "build_risk_acceptance existing f request generated expires review =
     (let status = risk_status_of (map_option risk_status existing) request in
      \<lparr>risk_status = status,
       risk_acceptedByRole =
         (if status = Risk_accepted then Some (coalesce (Option.bind existing risk_acceptedByRole) ''Authorizing Official'')
          else Option.bind existing risk_acceptedByRole),
       risk_acceptedAt =
         (if status = Risk_accepted then Some (coalesce (Option.bind existing risk_acceptedAt) generated)
          else Option.bind existing risk_acceptedAt),
       risk_rationale = coalesce (map_option risk_rationale existing)
         (''Residual access drift '' @ entity_id f @ '' is tracked for owner review, remediation, or time-bound acceptance.''),
       risk_residualRisk = coalesce (map_option risk_residualRisk existing) (drift_severity f),
       risk_expiresAt = expires, risk_reviewRequiredAt = review,
       risk_evidenceRefs = kept_refs (map_option risk_evidenceRefs existing) (drift_refs f ''runbooks/access-review-exceptions.md'')\<rparr>)"

definition exception_expires_at :: "drift_finding \<Rightarrow> exception_request option \<Rightarrow> range_error + string" where
  "exception_expires_at f existing =
     kept_or_days (map_option exc_expiresAt existing) (coalesce (map_option exc_requestedAt existing) (drift_detectedAt f)) 30"

definition build_exception_request ::
  "drift_finding \<Rightarrow> governance_finding \<Rightarrow> exception_request option \<Rightarrow> string \<Rightarrow> range_error + exception_request" where
  "build_exception_request f finding existing generated =
     (let requested = coalesce (map_option exc_requestedAt existing) (drift_detectedAt f) in
      bind_result (kept_or_days (map_option exc_expiresAt existing) requested 30) (\<lambda>expires.
      bind_result (kept_or_days (map_option exc_reviewRequiredAt existing) requested 14) (\<lambda>review.
        let status = exception_status_of f generated expires;
            risk = build_risk_acceptance (map_option exc_riskAcceptance existing) f status generated expires review
        in Inr \<lparr>entity_id = exception_request_id (entity_id f),
                version = ''exception-request:v1'',
                createdAt = coalesce (map_option createdAt existing) requested,
                updatedAt = Some generated,
                exc_campaignId = gov_campaignId finding,
                exc_findingId = entity_id finding,
                exc_subjectId = gov_subjectId finding,
                exc_resourceId = gov_resourceId finding,
                exc_action = gov_action finding,
                exc_justification = coalesce (map_option exc_justification existing)
                  (''Drift finding '' @ entity_id f @ '' requires documented risk acceptance or remediation.''),
                exc_status = status,
                exc_requesterRole = coalesce (map_option exc_requesterRole existing) ''Security Engineer'',
                exc_ownerRole = coalesce (map_option exc_ownerRole existing) ''Resource Owner'',
                exc_requestedAt = requested,
                exc_expiresAt = expires,
                exc_reviewRequiredAt = review,
                exc_ownerApprovals =
                  kept_approvals (map_option exc_ownerApprovals existing)
                    (owner_approval ''Resource Owner'' (if status = Exc_risk_accepted then Approval_approved else Approval_pending)
                       (risk_acceptedAt risk) [''evidence:exception-request'']),
                exc_riskAcceptance = risk,
                exc_remediation = gov_remediation finding,
                exc_source = Source_drift,
                exc_sourceFindingId = Some (governance_evidence_id (entity_id f)),
                exc_controlIds = kept_refs (map_option exc_controlIds existing) [''CA-7'', ''RA-5''],
                exc_evidenceRefs = kept_refs (map_option exc_evidenceRefs existing)
                  (drift_refs f ''runbooks/access-review-exceptions.md'')\<rparr>)))"

subsection \<open>The campaign\<close>

record governance_input =
  gi_generatedAt :: string
  gi_subjectCount :: nat
  gi_resourceCount :: nat
  gi_sourceEventIds :: "canonical_id list"
  gi_driftFindings :: "drift_finding list"
  gi_existingCampaigns :: "access_review_campaign list"
  gi_existingFindings :: "governance_finding list"
  gi_existingExceptionRequests :: "exception_request list"

record governance_records =
  gr_campaigns :: "access_review_campaign list"
  gr_findings :: "governance_finding list"
  gr_exceptionRequests :: "exception_request list"

definition build_access_review_campaign ::
  "access_review_campaign option \<Rightarrow> governance_input \<Rightarrow> governance_finding list \<Rightarrow> exception_request list \<Rightarrow>
   range_error + access_review_campaign" where
  "build_access_review_campaign existing input fs rs =
     (let generated = gi_generatedAt input;
          hasEvidence = (gi_sourceEventIds input \<noteq> [] \<or> fs \<noteq> [] \<or> rs \<noteq> []);
          approvals = coalesce (map_option campaign_ownerApprovals existing) [];
          approved = find (\<lambda>a. approval_decision a = Approval_approved) approvals;
          status = (if approved \<noteq> None then Campaign_completed else if hasEvidence then Campaign_active else Campaign_planned)
      in bind_result (kept_or_days (map_option campaign_dueAt existing) generated 30) (\<lambda>due.
        Inr \<lparr>entity_id = local_campaign_id,
             version = ''access-review-campaign:v1'',
             createdAt = coalesce (map_option createdAt existing) generated,
             updatedAt = Some generated,
             campaign_name = ''Local access review and exception governance campaign'',
             campaign_scope = ''synthetic local subjects, resources, relationship tuples, native grants, drift findings, exception requests, and remediation records'',
             campaign_ownerRole = ''Data Owner'',
             campaign_reviewerRole = ''Data Steward'',
             campaign_status = status,
             campaign_startedAt = coalesce (map_option campaign_startedAt existing) generated,
             campaign_dueAt = due,
             campaign_completedAt =
               (if status = Campaign_completed
                then Some (coalesce (Option.bind existing campaign_completedAt) (coalesce (Option.bind approved decidedAt) generated))
                else None),
             campaign_subjectCount = gi_subjectCount input,
             campaign_resourceCount = gi_resourceCount input,
             campaign_findingIds = sort (map entity_id fs),
             campaign_exceptionRequestIds = sort (map entity_id rs),
             campaign_remediationItemIds =
               sort (map (\<lambda>f. rem_poamItemId (gov_remediation f)) (filter (\<lambda>f. gov_status f \<noteq> Gov_remediated) fs)),
             campaign_sourceEventIds = sort (remdups (gi_sourceEventIds input)),
             campaign_ownerApprovals =
               (if approvals \<noteq> [] then approvals
                else [owner_approval ''Data Owner'' Approval_pending None [''evidence:access-review-campaign'']])\<rparr>))"

subsection \<open>A run\<close>

definition to_id_map :: "'a versioned_entity_scheme list \<Rightarrow> (canonical_id, 'a versioned_entity_scheme) js_map" where
  "to_id_map xs = map_put_all entity_id xs []"

definition sort_by_id :: "(string \<Rightarrow> string \<Rightarrow> int) \<Rightarrow> 'a versioned_entity_scheme list \<Rightarrow> 'a versioned_entity_scheme list" where
  "sort_by_id collate xs = sort_jobs (\<lambda>l r. collate (entity_id l) (entity_id r)) xs"

type_synonym governance_maps =
  "(canonical_id, governance_finding) js_map \<times> (canonical_id, exception_request) js_map"

definition govern_finding :: "string \<Rightarrow> drift_finding \<Rightarrow> governance_maps \<Rightarrow> range_error + governance_maps" where
  "govern_finding generated f maps =
     (case maps of (found, requests) \<Rightarrow>
        let existing = map_get requests (exception_request_id (entity_id f)) in
        bind_result (exception_expires_at f existing) (\<lambda>expires.
        bind_result (build_governance_finding f (map_get found (governance_finding_id (entity_id f))) generated expires) (\<lambda>finding.
          if requires_exception_request f
          then bind_result (build_exception_request f finding existing generated) (\<lambda>request.
            Inr (map_set (entity_id finding)
                   (finding\<lparr>gov_exceptionRequestId := Some (entity_id request), updatedAt := Some generated\<rparr>)
                   (map_set (entity_id finding) finding found),
                 map_set (entity_id request) request requests))
          else Inr (map_set (entity_id finding) finding found, requests))))"

fun govern_findings :: "string \<Rightarrow> drift_finding list \<Rightarrow> governance_maps \<Rightarrow> range_error + governance_maps" where
  "govern_findings generated [] maps = Inr maps"
| "govern_findings generated (f # fs) maps =
     bind_result (govern_finding generated f maps) (govern_findings generated fs)"

definition build_access_review_governance ::
  "(string \<Rightarrow> string \<Rightarrow> int) \<Rightarrow> governance_input \<Rightarrow> range_error + governance_records" where
  "build_access_review_governance collate input =
     (let campaigns = to_id_map (gi_existingCampaigns input) in
      bind_result (govern_findings (gi_generatedAt input) (gi_driftFindings input)
                     (to_id_map (gi_existingFindings input), to_id_map (gi_existingExceptionRequests input))) (\<lambda>(found, requests).
      bind_result (build_access_review_campaign (map_get campaigns local_campaign_id) input
                     (filter (\<lambda>f. gov_campaignId f = local_campaign_id) (map_values found))
                     (filter (\<lambda>r. exc_campaignId r = local_campaign_id) (map_values requests))) (\<lambda>campaign.
        Inr \<lparr>gr_campaigns = sort_by_id collate (map_values (map_set (entity_id campaign) campaign campaigns)),
             gr_findings = sort_by_id collate (map_values found),
             gr_exceptionRequests = sort_by_id collate (map_values requests)\<rparr>)))"

definition source_event_ids_for_access_review :: "audit_event list \<Rightarrow> canonical_id list" where
  "source_event_ids_for_access_review es =
     map eventId (filter (\<lambda>e. prefix ''decision.'' (eventType e) \<or> prefix ''relationship.'' (eventType e) \<or>
       prefix ''connector.current_access_read'' (eventType e) \<or> prefix ''reconciliation.'' (eventType e)) es)"

end
