(* ===== verification/Runtime_Evidence.thy ===== *)
theory Runtime_Evidence
  imports Evidence_Integrity Governance Runtime_Reconciliation
begin

text \<open>
  The evidence endpoints of the runtime, \<open>packages/api/src/runtime-evidence.ts\<close> and
  \<open>runtime-evidence-export.ts\<close>: audit exports, evidence packages, their verification, and the integrity
  of the audit log. What they need from outside the program is one record: the signing key of the
  process and the keys it trusts, the wall clock, the messages of the engine's type errors,
  \<open>localeCompare\<close>, and the repository of evidence packages, if any.
\<close>

record 'p evidence_services =
  es_engine :: "string \<Rightarrow> string"
  es_signer :: evidence_signer
  es_keys :: key_registry
  es_wallClock :: string
  es_collate :: "string \<Rightarrow> string \<Rightarrow> int"
  es_repository :: "(json_record \<Rightarrow> string \<Rightarrow> 'p \<Rightarrow> (js_thrown + json_record) \<times> 'p) option"

subsection \<open>The catalog\<close>

record control_definition =
  def_summary :: string
  def_evidenceTypes :: "string list"
  def_eventPrefixes :: "string list"

definition control_catalog :: "(string \<times> control_definition) list" where
  "control_catalog =
    [(''AC-2'', \<lparr>def_summary = ''Account lifecycle evidence is produced through subject inventory, provisioning, revocation, and native-access readback events.'',
       def_evidenceTypes = [''subject_inventory'', ''provisioning_logs'', ''native_access_readback''],
       def_eventPrefixes = [''subject.'', ''provisioning.'', ''access.'', ''connector.current_access_read'']\<rparr>),
     (''AC-3'', \<lparr>def_summary = ''Access enforcement evidence is produced through deterministic decision events, relationship facts, and provisioning records.'',
       def_evidenceTypes = [''decision_logs'', ''relationship_tuples'', ''provisioning_logs''],
       def_eventPrefixes = [''decision.'', ''relationship.'', ''provisioning.'', ''connector.permission_changed'']\<rparr>),
     (''AC-6'', \<lparr>def_summary = ''Least-privilege evidence is produced through connector readiness, approval, and scoped provisioning evidence.'',
       def_evidenceTypes = [''connector_readiness'', ''approval_records'', ''provisioning_logs''],
       def_eventPrefixes = [''connector.enforcement_readiness_checked'', ''provisioning.approved'', ''connector.permission_changed'']\<rparr>),
     (''AU-2'', \<lparr>def_summary = ''Auditable events are emitted for decisions, relationship writes, connector actions, provisioning, reconciliation, and evidence generation.'',
       def_evidenceTypes = [''audit_events''],
       def_eventPrefixes = ['''']\<rparr>),
     (''AU-6'', \<lparr>def_summary = ''Audit review evidence includes hash-chain integrity verification and evidence-package generation.'',
       def_evidenceTypes = [''audit_integrity'', ''evidence_exports''],
       def_eventPrefixes = [''audit.integrity_verified'', ''evidence.generated'']\<rparr>),
     (''CM-3'', \<lparr>def_summary = ''Configuration change evidence is produced through policy, relationship, connector, and provisioning change events.'',
       def_evidenceTypes = [''policy_changes'', ''relationship_tuples'', ''connector_logs'', ''provisioning_logs''],
       def_eventPrefixes = [''policy.'', ''relationship.'', ''connector.'', ''provisioning.'']\<rparr>),
     (''CA-7'', \<lparr>def_summary = ''Continuous monitoring evidence is produced through reconciliation, drift findings, ConMon metrics, and evidence exports.'',
       def_evidenceTypes = [''reconciliation_runs'', ''drift_findings'', ''conmon_metrics'', ''evidence_exports''],
       def_eventPrefixes = [''reconciliation.'', ''drift.'', ''evidence.generated'']\<rparr>),
     (''IR-4'', \<lparr>def_summary = ''Incident response evidence is represented through rollback, break-glass, incident-mode, and failed-provisioning records.'',
       def_evidenceTypes = [''incident_records'', ''rollback_records'', ''provisioning_logs''],
       def_eventPrefixes = [''breakglass.'', ''provisioning.rollback_'', ''provisioning.failed'']\<rparr>)]"

definition operational ::
  "string \<Rightarrow> string \<Rightarrow> string \<Rightarrow> string \<Rightarrow> string \<Rightarrow> string \<Rightarrow> string list \<Rightarrow> string list \<Rightarrow> operational_evidence" where
  "operational generated i type status owner summary refs gaps =
     \<lparr>oe_id = i, oe_type = type, oe_status = status, oe_ownerRole = owner, oe_generatedAt = generated, oe_summary = summary,
      oe_evidenceRefs = refs, oe_gaps = gaps\<rparr>"

definition build_operational_evidence :: "string \<Rightarrow> operational_evidence list" where
  "build_operational_evidence generated =
    [operational generated ''operational:break-glass-runbook'' ''break_glass'' ''implemented'' ''ISSO''
       ''Local proof-point documents break-glass as a governed exception source and blocks break-glass use in controlled synthetic enforcement.''
       [''docs/security-model.md'', ''packages/api/src/runtime-app.ts'']
       [''Production break-glass identity, approval, expiry, and post-action review workflow must be integrated with the deployment identity provider.''],
     operational generated ''operational:incident-response-runbook'' ''incident_response'' ''implemented'' ''Incident Commander''
       ''Incident-mode guardrails block controlled enforcement and evidence exports include IR-4 control mapping hooks for failed provisioning and rollback events.''
       [''docs/security-model.md'', ''docs/ato-evidence-model.md'']
       [''Production incident ticketing, notification, and post-incident review integrations remain deployment work.''],
     operational generated ''operational:backup-restore-proof'' ''backup_restore'' ''planned'' ''System Owner''
       ''Evidence package declares backup and restore evidence requirements for future durable graph, audit, and evidence stores.''
       [''docs/implementation-backlog.md'']
       [''No production database, retention policy, restore test, or recovery time objective exists in the local runtime.''],
     operational generated ''operational:contingency-plan'' ''contingency'' ''planned'' ''System Owner''
       ''Contingency evidence is represented as package metadata until deployment architecture and storage services are selected.''
       [''docs/ato-evidence-model.md'']
       [''Define deployment-specific contingency plan, alternate processing procedures, and recovery test cadence.''],
     operational generated ''operational:sbom'' ''sbom'' ''implemented'' ''DevSecOps''
       ''Workspace dependency inventory is represented through package manifests, lockfile, and CI dependency audit evidence.''
       [''package.json'', ''pnpm-lock.yaml'', ''.github/workflows/security.yml'']
       [''Generate and archive a formal CycloneDX or SPDX SBOM artifact in release CI.''],
     operational generated ''operational:dependency-scan'' ''dependency_scan'' ''implemented'' ''DevSecOps''
       ''Security workflow runs dependency audit, secret scan, and CodeQL checks for pull requests.''
       [''.github/workflows/security.yml'', ''docs/ci.md'']
       [''Add release-retained scan artifacts and vulnerability exception workflow.''],
     operational generated ''operational:vulnerability-scan'' ''vulnerability_scan'' ''planned'' ''DevSecOps''
       ''Static analysis proof points exist in CI, while authenticated DAST and infrastructure vulnerability scanning remain deployment-specific.''
       [''.github/workflows/security.yml'']
       [''Add DAST, container/image scans, infrastructure scans, and remediation SLA evidence once deployable packaging exists.''],
     operational generated ''operational:configuration-baseline'' ''configuration_baseline'' ''implemented'' ''Configuration Manager''
       ''Configuration baseline evidence is represented by strict TypeScript, validated OpenAPI/JSON Schemas, CI workflow validation, and ADRs.''
       [''tsconfig.json'', ''openapi/rebac-control-plane.yaml'', ''schemas'', ''adrs'']
       [''Add deployment IaC baseline, environment hardening checklist, and drift monitoring for production configuration.'']]"

definition artifact :: "string \<Rightarrow> string \<Rightarrow> string \<Rightarrow> nat option \<Rightarrow> evidence_format \<Rightarrow> evidence_artifact" where
  "artifact name type description events fmt =
     \<lparr>ea_name = name, ea_type = type, ea_description = description, ea_eventCount = events, ea_format = fmt\<rparr>"

definition build_evidence_artifacts :: "evidence_format \<Rightarrow> nat \<Rightarrow> evidence_artifact list" where
  "build_evidence_artifacts fmt events =
    [artifact ''audit-events'' ''audit_events''
       ''Time-bounded audit events with payload hashes and previous-event hash references.'' (Some events) fmt,
     artifact ''control-mapping'' ''control_mapping''
       ''Requested controls mapped to implementation statements, source events, and gaps.'' None fmt,
     artifact ''poam'' ''poam''
       ''Machine-readable POA&M inputs for incomplete or failed evidence checks.'' None fmt,
     artifact ''poam-export'' ''poam_export''
       ''OSCAL-oriented POA&M export derived from the same POA&M evidence items.'' None fmt,
     artifact ''siem-events'' ''siem_export''
       ''JSONL-ready SIEM export metadata for the same audit-event scope.'' (Some events) Format_jsonl,
     artifact ''oscal-component-definition'' ''oscal_component_definition''
       ''OSCAL component-definition fragment generated from boundary components and reviewed control statements.'' None fmt,
     artifact ''oscal-ssp-fragment'' ''oscal_ssp''
       ''OSCAL SSP fragment generated from deployment scope, data flows, and control statements.'' None fmt,
     artifact ''oscal-assessment-results'' ''oscal_assessment_results''
       ''OSCAL assessment-results fragment linking reviewed controls to observed audit evidence.'' None fmt,
     artifact ''signed-evidence-package'' ''signed_evidence_package''
       ''Signed package metadata that binds the evidence hash to source events, reviewed statements, and deployment scope.'' None fmt,
     artifact ''control-trace-views'' ''control_trace''
       ''Control-to-event trace views linking source events, reviewed statements, signatures, and deployment scope.'' None fmt,
     artifact ''system-boundary'' ''system_boundary''
       ''Synthetic local system boundary and component inventory for ATO inspection.'' None fmt,
     artifact ''data-flows'' ''data_flow''
       ''Synthetic data-flow inventory with protections and live-tenant-data flags.'' None fmt,
     artifact ''control-statements'' ''control_statement''
       ''Control implementation statements generated from source evidence and gaps.'' None fmt,
     artifact ''access-reviews'' ''access_review''
       ''Synthetic access review summary for relationship, native-access, and drift evidence.'' None fmt,
     artifact ''exception-register'' ''exception_register''
       ''Risk exception records derived from drift findings that require review.'' None fmt,
     artifact ''operational-evidence'' ''security_evidence''
       ''Operational proof points for SBOM, dependency scanning, incident response, contingency, and configuration baseline evidence.'' None fmt,
     artifact ''evidence-integrity-verifier'' ''security_evidence''
       ''Verifier documentation for recomputing stable-json package and section hashes.'' None Format_markdown]"

subsection \<open>Audit reports as objects\<close>

definition finding_severity_text :: "finding_severity \<Rightarrow> string" where
  "finding_severity_text s =
     (case s of Sev_low \<Rightarrow> ''low'' | Sev_medium \<Rightarrow> ''medium'' | Sev_high \<Rightarrow> ''high'' | Sev_critical \<Rightarrow> ''critical'')"

definition integrity_finding_js :: "audit_integrity_finding \<Rightarrow> js" where
  "integrity_finding_js f = JObj
    [(''code'', JStr (finding_code f)), (''message'', JStr (finding_message f)),
     (''severity'', JStr (finding_severity_text (finding_severity f))), (''eventId'', opt_str (finding_eventId f)),
     (''expected'', opt_str (finding_expected f)), (''actual'', opt_str (finding_actual f))]"

definition integrity_status_text :: "audit_integrity_status \<Rightarrow> string" where
  "integrity_status_text s = (case s of Verified \<Rightarrow> ''verified'' | Failed \<Rightarrow> ''failed'')"

definition integrity_report_fields :: "audit_integrity_report \<Rightarrow> json_record" where
  "integrity_report_fields r =
    [(''status'', JStr (integrity_status_text (integrity_status r))), (''eventCount'', js_nat (eventCount r)),
     (''verifiedAt'', JStr (verifiedAt r)), (''firstEventId'', opt_str (firstEventId r)),
     (''lastEventId'', opt_str (lastEventId r)), (''firstEventHash'', opt_str (firstEventHash r)),
     (''lastEventHash'', opt_str (lastEventHash r)), (''findings'', JArr (map integrity_finding_js (findings r))),
     (''auditEventId'', opt_str (report_auditEventId r)), (''version'', JStr (report_version r))]"

definition evidence_audit :: "string \<Rightarrow> canonical_id \<Rightarrow> string \<Rightarrow> json_record \<Rightarrow> audit_input" where
  "evidence_audit type who corr content =
    \<lparr>in_eventType = type, in_actor = who, in_subjectId = None, in_resourceId = None, in_correlationId = corr,
     in_policyVersion = None, in_relationshipVersion = None, in_payload = content\<rparr>"

subsection \<open>Audit exports\<close>

definition lift_thrown :: "js_thrown + 'a \<Rightarrow> ('c, 'p, 'a) run" where
  "lift_thrown r = (case r of Inl e \<Rightarrow> raise (Raised e) | Inr x \<Rightarrow> give x)"

text \<open>\<open>events.map(e => e.occurredAt).sort().at(0) ?? generatedAt\<close>\<close>

definition first_time :: "audit_event list \<Rightarrow> string \<Rightarrow> string" where
  "first_time es generated = (case sort (map occurredAt es) of [] \<Rightarrow> generated | t # _ \<Rightarrow> t)"

definition events_between :: "string \<Rightarrow> string \<Rightarrow> audit_event list \<Rightarrow> audit_event list" where
  "events_between start stop es = filter (\<lambda>e. start \<le> occurredAt e \<and> occurredAt e \<le> stop) es"

datatype export_target = Operator_download | Siem_forwarder

definition export_target_text :: "export_target \<Rightarrow> string" where
  "export_target_text t = (case t of Operator_download \<Rightarrow> ''operator_download'' | Siem_forwarder \<Rightarrow> ''siem_forwarder'')"

record audit_event_export =
  ax_exportId :: canonical_id
  ax_generatedAt :: string
  ax_periodStart :: string
  ax_periodEnd :: string
  ax_target :: export_target
  ax_sourceEventIds :: "canonical_id list"
  ax_records :: "string list"
  ax_auditIntegrity :: audit_integrity_report

definition audit_export_payload :: "audit_event_export \<Rightarrow> json_record" where
  "audit_export_payload x =
    [(''exportId'', JStr (ax_exportId x)), (''periodStart'', JStr (ax_periodStart x)), (''periodEnd'', JStr (ax_periodEnd x)),
     (''format'', JStr ''jsonl''), (''target'', JStr (export_target_text (ax_target x))),
     (''exportedEventCount'', js_nat (length (ax_sourceEventIds x))), (''sourceEventIds'', strings_js (ax_sourceEventIds x)),
     (''auditIntegrityStatus'', JStr (integrity_status_text (integrity_status (ax_auditIntegrity x)))),
     (''version'', JStr ''audit-event-export:v1'')]"

definition export_audit_events ::
  "runtime \<Rightarrow> string option \<Rightarrow> string option \<Rightarrow> export_target option \<Rightarrow> ('c, 'p, audit_event_export) run" where
  "export_audit_events rt from until target =
     andthen (perform app_now) (\<lambda>generated.
     andthen (look authoritative_audit_events) (\<lambda>stored.
     andthen (lift_thrown stored) (\<lambda>allEvents.
       let start = coalesce from (first_time allEvents generated); stop = coalesce until generated;
           es = events_between start stop allEvents
       in andthen (look (verify_runtime_audit_integrity rt generated)) (\<lambda>verified.
          andthen (lift_thrown verified) (\<lambda>report.
            let x = \<lparr>ax_exportId = ''audit-export:'' @ compact_timestamp generated, ax_generatedAt = generated,
                     ax_periodStart = start, ax_periodEnd = stop, ax_target = coalesce target Operator_download,
                     ax_sourceEventIds = map eventId es, ax_records = map (\<lambda>e. stable_stringify rt (event_js e)) es,
                     ax_auditIntegrity = report\<rparr>
            in andthen (look app_actor) (\<lambda>who.
               andthen (audit rt (evidence_audit ''audit.exported'' who (''corr:'' @ ax_exportId x) (audit_export_payload x)) True)
                 (\<lambda>_. give x)))))))"

definition verify_audit_integrity :: "runtime \<Rightarrow> ('c, 'p, audit_integrity_report) run" where
  "verify_audit_integrity rt =
     andthen (perform app_now) (\<lambda>t.
     andthen (look (verify_runtime_audit_integrity rt t)) (\<lambda>verified.
     andthen (lift_thrown verified) (\<lambda>report.
     andthen (look app_actor) (\<lambda>who.
     andthen (audit rt (evidence_audit ''audit.integrity_verified'' who
         (''corr:audit-integrity:'' @ compact_timestamp (verifiedAt report)) (integrity_report_fields report)) True) (\<lambda>event.
       give (report\<lparr>report_auditEventId := Some (eventId event)\<rparr>))))))"

subsection \<open>Parts of an evidence package\<close>

definition control_family :: "string \<Rightarrow> string" where
  "control_family controlId = takeWhile (\<lambda>c. c \<noteq> CHR ''-'') controlId"

definition matches_any_prefix :: "string \<Rightarrow> string list \<Rightarrow> bool" where
  "matches_any_prefix s ps = list_ex (\<lambda>p. prefix p s) ps"

definition build_control_mapping :: "audit_event list \<Rightarrow> string \<Rightarrow> control_mapping" where
  "build_control_mapping es controlId =
     (case map_get control_catalog controlId of
        None \<Rightarrow>
          \<lparr>cm_controlId = controlId, cm_family = control_family controlId, cm_status = Planned_control,
           cm_implementationSummary = ''Control mapping is not yet defined for this local proof-point package.'',
           cm_evidenceTypes = [], cm_sourceEventIds = [],
           cm_gaps = [''Define implementation statement and source evidence selectors for this control.'']\<rparr>
      | Some d \<Rightarrow>
          (let ids = map eventId (filter (\<lambda>e. matches_any_prefix (eventType e) (def_eventPrefixes d)) es) in
           \<lparr>cm_controlId = controlId, cm_family = control_family controlId,
            cm_status = (if ids \<noteq> [] then Implemented else Partially_implemented),
            cm_implementationSummary = def_summary d, cm_evidenceTypes = def_evidenceTypes d, cm_sourceEventIds = ids,
            cm_gaps = (if ids \<noteq> [] then []
              else [''No matching audit events were observed for this control in the selected evidence period.''])\<rparr>))"

definition materialize_governance ::
  "(string \<Rightarrow> string \<Rightarrow> int) \<Rightarrow> audit_event list \<Rightarrow> string \<Rightarrow> ('c, 'p, governance_records) run" where
  "materialize_governance collate es generated =
     andthen (look (\<lambda>a. let st = app_store a in build_access_review_governance collate
       \<lparr>gi_generatedAt = generated, gi_subjectCount = length (list_subjects st), gi_resourceCount = length (list_resources st),
        gi_sourceEventIds = source_event_ids_for_access_review es, gi_driftFindings = list_drift_findings st no_drift_filter,
        gi_existingCampaigns = list_campaigns st, gi_existingFindings = list_governance_findings st None None,
        gi_existingExceptionRequests = list_exception_requests st None\<rparr>)) (\<lambda>built.
     andthen (lift_range built) (\<lambda>records.
     andthen (collect_each (\<lambda>c. change (\<lambda>a. persist_job (Write_campaign c) generated (with_store (upsert_campaign c) a)))
       (gr_campaigns records)) (\<lambda>_.
     andthen (collect_each (\<lambda>f. change (\<lambda>a. persist_job (Write_governance_finding f) generated (with_store (upsert_governance_finding f) a)))
       (gr_findings records)) (\<lambda>_.
     andthen (collect_each (\<lambda>r. change (\<lambda>a. persist_job (Write_exception_request r) generated (with_store (upsert_exception_request r) a)))
       (gr_exceptionRequests records)) (\<lambda>_. give records)))))"

definition count_events :: "audit_event list \<Rightarrow> string \<Rightarrow> nat" where
  "count_events es type = length (filter (\<lambda>e. eventType e = type) es)"

definition metric :: "string \<Rightarrow> nat \<Rightarrow> string \<Rightarrow> string \<Rightarrow> conmon_metric" where
  "metric name n unit source = \<lparr>mt_name = name, mt_value = n, mt_unit = unit, mt_source = source\<rparr>"

definition has_pending_approval :: "governance_approval list \<Rightarrow> bool" where
  "has_pending_approval as = list_ex (\<lambda>a. approval_decision a = Approval_pending) as"

definition build_conmon_metrics ::
  "rebac_store \<Rightarrow> audit_event list \<Rightarrow> audit_integrity_report \<Rightarrow> governance_records \<Rightarrow> conmon_metric list" where
  "build_conmon_metrics st es report g =
     (let drift = list_drift_findings st no_drift_filter; fs = gr_findings g; rs = gr_exceptionRequests g
      in [metric ''audit_events_in_period'' (length es) ''count'' ''audit_log'',
          metric ''audit_chain_verified'' (if integrity_status report = Verified then 1 else 0) ''boolean'' ''audit_integrity'',
          metric ''audit_integrity_findings'' (length (findings report)) ''count'' ''audit_integrity'',
          metric ''allowed_decisions'' (count_events es ''decision.allowed'') ''count'' ''audit_log'',
          metric ''denied_decisions'' (count_events es ''decision.denied'') ''count'' ''audit_log'',
          metric ''provisioning_jobs'' (length (list_provisioning_jobs st)) ''count'' ''provisioning_store'',
          metric ''open_drift_findings'' (length (filter (\<lambda>f. drift_status f = Df_open) drift)) ''count'' ''drift_store'',
          metric ''high_or_critical_drift_findings'' (length (filter high_or_critical drift)) ''count'' ''drift_store'',
          metric ''enforcement_readiness_reports'' (length (list_readiness_reports st None None)) ''count'' ''connector_readiness_store'',
          metric ''access_review_campaigns'' (length (gr_campaigns g)) ''count'' ''governance_store'',
          metric ''open_governance_findings'' (length (filter (\<lambda>f. gov_status f \<noteq> Gov_remediated) fs)) ''count'' ''governance_store'',
          metric ''open_exception_requests''
            (length (filter (\<lambda>r. exc_status r \<notin> {Exc_expired, Exc_revoked, Exc_remediated}) rs)) ''count'' ''governance_store'',
          metric ''expired_exception_requests'' (length (filter (\<lambda>r. exc_status r = Exc_expired) rs)) ''count'' ''governance_store'',
          metric ''pending_owner_approvals''
            (length (filter has_pending_approval (map campaign_ownerApprovals (gr_campaigns g) @ map exc_ownerApprovals rs)))
            ''count'' ''governance_store'',
          metric ''pending_risk_acceptances''
            (length (filter (\<lambda>r. risk_status (exc_riskAcceptance r) = Risk_pending) rs)) ''count'' ''governance_store'',
          metric ''overdue_remediation_items''
            (length (filter (\<lambda>f. rem_status (gov_remediation f) = Rem_overdue) fs)) ''count'' ''governance_store''])"

definition build_poam_control_id :: "string \<Rightarrow> string" where
  "build_poam_control_id controlId =
     (let slug = rev (drop_dash (rev (drop_dash (replace_runs is_slug_char ''-'' False (to_lower_case controlId)))))
      in ''poam:'' @ (if slug = [] then ''control'' else slug))"

definition build_poam_items ::
  "control_mapping list \<Rightarrow> audit_integrity_report \<Rightarrow> string \<Rightarrow> governance_finding list \<Rightarrow> range_error + poam_item list" where
  "build_poam_items mappings report generated fs =
     bind_result (add_days generated 30) (\<lambda>planned.
       Inr ((if integrity_status report \<noteq> Verified
             then [\<lparr>pi_id = ''poam:audit-integrity'', pi_controlId = ''AU-6'',
               pi_weakness = ''Audit hash-chain verification reported one or more findings.'', pi_status = ''open'',
               pi_ownerRole = ''ISSO'', pi_plannedCompletion = planned, pi_source = ''audit_integrity''\<rparr>]
             else []) @
            map (\<lambda>m. \<lparr>pi_id = build_poam_control_id (cm_controlId m), pi_controlId = cm_controlId m,
                pi_weakness = (case cm_gaps m of [] \<Rightarrow> ''Control implementation evidence is incomplete.'' | g # _ \<Rightarrow> g),
                pi_status = ''planned'', pi_ownerRole = ''ISSO'', pi_plannedCompletion = planned, pi_source = ''control_mapping''\<rparr>)
              (filter (\<lambda>m. cm_status m \<noteq> Implemented) mappings) @
            map (\<lambda>f. \<lparr>pi_id = rem_poamItemId (gov_remediation f), pi_controlId = gov_controlId f, pi_weakness = gov_weakness f,
                pi_status = (if rem_status (gov_remediation f) \<in> {Rem_planned, Rem_in_progress} then ''planned'' else ''open''),
                pi_ownerRole = rem_ownerRole (gov_remediation f), pi_plannedCompletion = rem_dueAt (gov_remediation f),
                pi_source = ''governance_findings''\<rparr>)
              (filter (\<lambda>f. gov_status f \<noteq> Gov_remediated) fs)))"

end
