(* ===== verification/Evidence_Export.thy ===== *)
theory Evidence_Export
  imports Runtime_Evidence
begin

text \<open>
  The second half of \<open>packages/api/src/runtime-evidence-export.ts\<close>: the boundary and data flows of the
  app, the control statements, the reviews and exceptions as evidence, and the two flows that export
  a package and verify one. An export writes governance records, an audit event and, where there is
  a repository, the package itself.
\<close>

subsection \<open>The system boundary\<close>

definition connector_component_id :: "string \<Rightarrow> string" where
  "connector_component_id i = ''component:connector:'' @ sanitize_canonical_id i"

definition connector_component :: "'c connector_adapter \<Rightarrow> boundary_component" where
  "connector_component c =
    \<lparr>bc_id = connector_component_id (con_id c), bc_name = con_id c @ '' connector'', bc_type = ''connector'',
     bc_trustZone = (if con_provider c = Some ''mock'' then ''local_runtime'' else ''synthetic_provider''),
     bc_dataClassification = ''synthetic'',
     bc_description = provider_of c @
       '' adapter boundary for discovery, readback, reconciliation, and proof-point evidence.''\<rparr>"

definition synthetic_component :: "string \<Rightarrow> string \<Rightarrow> string \<Rightarrow> string \<Rightarrow> string \<Rightarrow> boundary_component" where
  "synthetic_component i name type zone description =
    \<lparr>bc_id = i, bc_name = name, bc_type = type, bc_trustZone = zone, bc_dataClassification = ''synthetic'',
     bc_description = description\<rparr>"

definition app_connector_list :: "('c, 'p) local_app \<Rightarrow> 'c connector_adapter list" where
  "app_connector_list a = map_values (app_connectors a)"

definition build_system_boundary :: "('c, 'p) local_app \<Rightarrow> system_boundary" where
  "build_system_boundary a =
    \<lparr>sb_boundaryId = ''boundary:local-rebac-control-plane'', sb_name = ''Local ReBAC control plane proof-point boundary'',
     sb_description = ''Synthetic local runtime boundary used to prove ATO evidence package shape without live tenant data, secrets, or provider writes.'',
     sb_environment = ''local_proof_point'', sb_liveTenantData = False,
     sb_components =
       [synthetic_component ''component:operator-cli'' ''rebac CLI'' ''operator'' ''operator_boundary''
          ''Operator and assessor command surface that wraps the API contract.'',
        synthetic_component ''component:api-runtime'' ''Local API runtime'' ''control_plane'' ''local_runtime''
          ''HTTP API runtime for decisions, provisioning, audit, reconciliation, and evidence export.'',
        synthetic_component ''component:rebac-engine'' ''Deterministic ReBAC engine'' ''control_plane'' ''local_runtime''
          ''Non-LLM authorization engine for deterministic check and explain decisions.'',
        synthetic_component ''component:local-store'' ''Restartable proof-point store'' ''data_store'' ''local_runtime''
          ''Local proof-point store for subjects, resources, relationships, native grants, jobs, findings, audit events, and optional JSON state snapshots.'',
        synthetic_component ''component:local-evidence-repository'' ''Local file evidence repository'' ''data_store'' ''local_runtime''
          ''Optional JSONL/JSON proof-point repository for audit events and evidence packages; not production WORM storage.''] @
       map connector_component (app_connector_list a),
     sb_externalSystems = rev (remdups (rev (map provider_of (app_connector_list a)))),
     sb_assumptions =
       [''All examples are synthetic and must not include real tenant identifiers, secrets, production users, or sensitive records.'',
        ''Authorization decisions are deterministic and never made by an LLM.'',
        ''Live connector writes remain out of scope for this local Phase 5 package.''],
     sb_version = ''system-boundary:v1''\<rparr>"

definition connector_flow :: "'c connector_adapter \<Rightarrow> data_flow" where
  "connector_flow c =
    \<lparr>flow_id = ''data-flow:api-connector:'' @ sanitize_canonical_id (con_id c),
     flow_name = ''API to '' @ con_id c @ '' connector'', flow_source = ''component:api-runtime'',
     flow_destination = connector_component_id (con_id c),
     flow_dataTypes = [''discovery_requests'', ''readback_requests''] @
       (if supportsProvisioning (con_capabilities c) then [''dry_run_or_synthetic_enforcement_requests''] else []) @
       (if supportsReconciliation (con_capabilities c) then [''reconciliation_findings''] else []),
     flow_protections =
       [''connector_boundary'',
        if con_mode c = Connector_read_only then ''read_only_synthetic_providers'' else ''controlled_enforcement_guardrails'',
        if con_provider c = Some ''mock'' then ''controlled_enforcement_guardrails'' else ''synthetic_provider_boundary''],
     flow_liveTenantData = False\<rparr>"

definition local_flow :: "string \<Rightarrow> string \<Rightarrow> string \<Rightarrow> string \<Rightarrow> string list \<Rightarrow> string list \<Rightarrow> data_flow" where
  "local_flow i name source destination types protections =
    \<lparr>flow_id = i, flow_name = name, flow_source = source, flow_destination = destination, flow_dataTypes = types,
     flow_protections = protections, flow_liveTenantData = False\<rparr>"

definition build_data_flows :: "('c, 'p) local_app \<Rightarrow> data_flow list" where
  "build_data_flows a =
    [local_flow ''data-flow:cli-api'' ''Operator CLI to API'' ''component:operator-cli'' ''component:api-runtime''
       [''operator_requests'', ''synthetic_subject_ids'', ''synthetic_resource_ids'']
       [''api_contract_validation'', ''idempotency_keys_for_writes'', ''audit_event_emission''],
     local_flow ''data-flow:api-engine'' ''API to deterministic ReBAC engine'' ''component:api-runtime'' ''component:rebac-engine''
       [''decision_requests'', ''relationship_tuples'', ''policy_versions'']
       [''deny_by_default'', ''versioned_decisions'', ''explainable_paths''],
     local_flow ''data-flow:api-store'' ''API to local proof-point store'' ''component:api-runtime'' ''component:local-store''
       [''inventory'', ''native_grants'', ''provisioning_jobs'', ''audit_events'', ''drift_findings'']
       [''synthetic_data_only'', ''hash_chained_audit_events'', ''state_snapshot_hashes'', ''separate_intended_and_native_access'']] @
    map connector_flow (app_connector_list a) @
    [local_flow ''data-flow:evidence-repository'' ''API to local evidence repository'' ''component:api-runtime''
       ''component:local-evidence-repository'' [''audit_jsonl'', ''evidence_package_json'', ''storage_receipts'']
       [''payload_hashes'', ''storage_receipts'', ''explicit_non_worm_flag'']]"

subsection \<open>Statements, reviews and exceptions\<close>

definition artifact_supports_mapping :: "evidence_artifact \<Rightarrow> control_mapping \<Rightarrow> bool" where
  "artifact_supports_mapping x m \<longleftrightarrow>
     ea_type x = ''control_mapping'' \<or>
     list_ex (\<lambda>t. sublist (map (\<lambda>c. if c = CHR ''_'' then CHR ''-'' else c) t) (ea_name x)) (cm_evidenceTypes m)"

definition build_control_statement :: "evidence_artifact list \<Rightarrow> string \<Rightarrow> control_mapping \<Rightarrow> control_statement" where
  "build_control_statement artifacts generated m =
    \<lparr>cs_controlId = cm_controlId m, cs_status = cm_status m,
     cs_statement = cm_implementationSummary m @
       '' This statement is generated from the local synthetic Phase 5 proof-point package and requires assessor review before production use.'',
     cs_responsibleRole = ''ISSO'', cs_reviewerRole = ''Security Control Assessor'', cs_reviewedAt = generated,
     cs_evidenceTypes = cm_evidenceTypes m,
     cs_sourceArtifactNames = map ea_name (filter (\<lambda>x. artifact_supports_mapping x m) artifacts), cs_gaps = cm_gaps m\<rparr>"

definition approval_decision_text :: "approval_decision \<Rightarrow> string" where
  "approval_decision_text d =
     (case d of Approval_pending \<Rightarrow> ''pending'' | Approval_approved \<Rightarrow> ''approved'' | Approval_rejected \<Rightarrow> ''rejected'')"

definition governance_approval_js :: "governance_approval \<Rightarrow> js" where
  "governance_approval_js a = JObj
    [(''approverRole'', JStr (approverRole a)), (''decision'', JStr (approval_decision_text (approval_decision a))),
     (''decidedAt'', opt_str (decidedAt a)), (''evidenceRefs'', strings_js (approval_evidenceRefs a))]"

definition tracking_status_text :: "remediation_status \<Rightarrow> string" where
  "tracking_status_text s =
     (case s of Rem_open \<Rightarrow> ''open'' | Rem_planned \<Rightarrow> ''planned'' | Rem_in_progress \<Rightarrow> ''in_progress''
      | Rem_completed \<Rightarrow> ''completed'' | Rem_overdue \<Rightarrow> ''overdue'')"

definition tracking_js :: "remediation_tracking \<Rightarrow> js" where
  "tracking_js r = JObj
    [(''status'', JStr (tracking_status_text (rem_status r))), (''ownerRole'', JStr (rem_ownerRole r)), (''plan'', JStr (rem_plan r)),
     (''dueAt'', JStr (rem_dueAt r)), (''completedAt'', opt_str (rem_completedAt r)),
     (''evidenceRefs'', strings_js (rem_evidenceRefs r)), (''poamItemId'', JStr (rem_poamItemId r))]"

definition risk_status_text :: "risk_acceptance_status \<Rightarrow> string" where
  "risk_status_text s =
     (case s of Risk_pending \<Rightarrow> ''pending'' | Risk_accepted \<Rightarrow> ''accepted'' | Risk_expired \<Rightarrow> ''expired'' | Risk_revoked \<Rightarrow> ''revoked'')"

definition risk_js :: "risk_acceptance \<Rightarrow> js" where
  "risk_js r = JObj
    [(''status'', JStr (risk_status_text (risk_status r))), (''acceptedByRole'', opt_str (risk_acceptedByRole r)),
     (''acceptedAt'', opt_str (risk_acceptedAt r)), (''rationale'', JStr (risk_rationale r)),
     (''residualRisk'', JStr (severity_text (risk_residualRisk r))), (''expiresAt'', JStr (risk_expiresAt r)),
     (''reviewRequiredAt'', JStr (risk_reviewRequiredAt r)), (''evidenceRefs'', strings_js (risk_evidenceRefs r))]"

definition build_access_review :: "string \<Rightarrow> access_review_campaign \<Rightarrow> js" where
  "build_access_review reviewed c = JObj
    [(''reviewId'', JStr (entity_id c)), (''campaignId'', JStr (entity_id c)), (''scope'', JStr (campaign_scope c)),
     (''ownerRole'', JStr (campaign_ownerRole c)), (''reviewerRole'', JStr (campaign_reviewerRole c)),
     (''status'', JStr (if campaign_status c = Campaign_completed then ''completed'' else ''planned'')),
     (''reviewedAt'', JStr (coalesce (campaign_completedAt c) reviewed)), (''dueAt'', JStr (campaign_dueAt c)),
     (''completedAt'', opt_str (campaign_completedAt c)), (''subjectCount'', js_nat (campaign_subjectCount c)),
     (''resourceCount'', js_nat (campaign_resourceCount c)), (''findingCount'', js_nat (length (campaign_findingIds c))),
     (''exceptionCount'', js_nat (length (campaign_exceptionRequestIds c))), (''findingIds'', strings_js (campaign_findingIds c)),
     (''exceptionRequestIds'', strings_js (campaign_exceptionRequestIds c)),
     (''remediationItemIds'', strings_js (campaign_remediationItemIds c)),
     (''ownerApprovals'', JArr (map governance_approval_js (campaign_ownerApprovals c))),
     (''sourceEventIds'', strings_js (campaign_sourceEventIds c)), (''version'', JStr ''access-review:v2'')]"

definition exception_record_status :: "exception_request_status \<Rightarrow> string" where
  "exception_record_status s =
     (if s = Exc_risk_accepted \<or> s = Exc_owner_approved then ''approved''
      else if s = Exc_expired then ''expired'' else if s = Exc_revoked then ''revoked''
      else if s = Exc_remediated then ''remediated'' else ''open'')"

definition exception_status_text :: "exception_request_status \<Rightarrow> string" where
  "exception_status_text s =
     (case s of Exc_requested \<Rightarrow> ''requested'' | Exc_owner_approved \<Rightarrow> ''owner_approved'' | Exc_risk_accepted \<Rightarrow> ''risk_accepted''
      | Exc_expired \<Rightarrow> ''expired'' | Exc_revoked \<Rightarrow> ''revoked'' | Exc_remediated \<Rightarrow> ''remediated'')"

definition governance_source_text :: "governance_source \<Rightarrow> string" where
  "governance_source_text s = (case s of Source_drift \<Rightarrow> ''drift'' | Source_access_review \<Rightarrow> ''access_review'' | Source_manual \<Rightarrow> ''manual'')"

definition build_exception_record :: "exception_request \<Rightarrow> js" where
  "build_exception_record r = JObj
    [(''id'', JStr (entity_id r)), (''subjectId'', JStr (exc_subjectId r)), (''resourceId'', JStr (exc_resourceId r)),
     (''action'', JStr (exc_action r)), (''reason'', JStr (exc_justification r)),
     (''status'', JStr (exception_record_status (exc_status r))), (''requestStatus'', JStr (exception_status_text (exc_status r))),
     (''requesterRole'', JStr (exc_requesterRole r)), (''ownerRole'', JStr (exc_ownerRole r)),
     (''approverRole'', JStr ''Authorizing Official''), (''requestedAt'', JStr (exc_requestedAt r)),
     (''expiresAt'', JStr (exc_expiresAt r)), (''reviewRequiredAt'', JStr (exc_reviewRequiredAt r)),
     (''ownerApprovals'', JArr (map governance_approval_js (exc_ownerApprovals r))),
     (''riskAcceptance'', risk_js (exc_riskAcceptance r)), (''remediation'', tracking_js (exc_remediation r)),
     (''source'', JStr (governance_source_text (exc_source r))), (''findingId'', JStr (exc_findingId r)),
     (''sourceFindingId'', opt_str (exc_sourceFindingId r)), (''controlIds'', strings_js (exc_controlIds r)),
     (''evidenceRefs'', strings_js (exc_evidenceRefs r)), (''version'', JStr ''exception-record:v2'')]"

subsection \<open>The export\<close>

definition exported_evidence_types :: "string list" where
  "exported_evidence_types =
    [''audit_events'', ''decision_logs'', ''provisioning_plans'', ''drift_findings'', ''audit_integrity'', ''control_mappings'',
     ''conmon_metrics'', ''poam_items'', ''siem_export'', ''system_boundary'', ''data_flows'', ''control_statements'',
     ''access_reviews'', ''exception_register'', ''operational_evidence'', ''oscal_component_definition'', ''oscal_ssp'',
     ''oscal_assessment_results'', ''poam_export'', ''signed_evidence_package'', ''control_trace_views'', ''verifier_checks'']"

definition siem_export_js :: "nat \<Rightarrow> js" where
  "siem_export_js n = JObj
    [(''format'', JStr ''jsonl''), (''eventCount'', js_nat n), (''schemaVersion'', JStr ''audit-event:v1''),
     (''includesPayloadHashes'', JBool True), (''target'', JStr ''operator_download'')]"

definition evidence_draft_of ::
  "('c, 'p) local_app \<Rightarrow> string list \<Rightarrow> evidence_format \<Rightarrow> evidence_framework \<Rightarrow> string \<Rightarrow> string \<Rightarrow> string \<Rightarrow> audit_event list \<Rightarrow>
   audit_integrity_report \<Rightarrow> governance_records \<Rightarrow> poam_item list \<Rightarrow> evidence_draft" where
  "evidence_draft_of a controls fmt framework generated start stop es report g poam =
     (let mappings = map (build_control_mapping es) controls; artifacts = build_evidence_artifacts fmt (length es) in
      \<lparr>dr_exportId = ''evidence:'' @ compact_timestamp generated, dr_framework = framework, dr_controls = controls,
       dr_periodStart = start, dr_periodEnd = stop, dr_generatedAt = generated, dr_evidenceTypes = exported_evidence_types,
       dr_sourceEventIds = map eventId es, dr_responsibleRole = ''ISSO'', dr_format = fmt,
       dr_auditIntegrity = JObj (integrity_report_fields report), dr_controlMappings = mappings, dr_artifacts = artifacts,
       dr_conmonMetrics = build_conmon_metrics (app_store a) es report g, dr_poamItems = poam,
       dr_siemExport = siem_export_js (length es), dr_systemBoundary = build_system_boundary a, dr_dataFlows = build_data_flows a,
       dr_controlStatements = map (build_control_statement artifacts generated) mappings,
       dr_accessReviews = map (build_access_review generated) (gr_campaigns g),
       dr_exceptionRegister = map build_exception_record (gr_exceptionRequests g),
       dr_operationalEvidence = build_operational_evidence generated,
       dr_poamExport = None, dr_oscal = None, dr_controlTraceViews = None\<rparr>)"

text \<open>\<open>writeEvidenceExport\<close>: a repository that throws leaves a receipt of degradation.\<close>

definition write_package ::
  "'p evidence_services \<Rightarrow> json_record \<Rightarrow> string \<Rightarrow> ('c, 'p, json_record option) run" where
  "write_package services package storedAt a =
     (case es_repository services of
        None \<Rightarrow> (Inr None, a)
      | Some wr \<Rightarrow>
          (case wr package storedAt (app_disk a) of
             (Inr receipt, d) \<Rightarrow> (Inr (Some receipt), a\<lparr>app_disk := d\<rparr>)
           | (Inl e, d) \<Rightarrow> (Inr None,
               repository_error Degraded_evidence ''writeEvidenceExport'' storedAt e (a\<lparr>app_disk := d\<rparr>))))"

definition export_evidence_package ::
  "runtime \<Rightarrow> 'p evidence_services \<Rightarrow> string list \<Rightarrow> evidence_format \<Rightarrow> evidence_framework option \<Rightarrow> string option \<Rightarrow> string option \<Rightarrow>
   ('c, 'p, json_record) run" where
  "export_evidence_package rt services controls fmt framework from until =
     andthen (perform app_now) (\<lambda>generated.
     andthen (look (\<lambda>a. list_audit_events (app_store a) no_audit_filter)) (\<lambda>allEvents.
       let start = coalesce from (first_time allEvents generated); stop = coalesce until generated;
           es = events_between start stop allEvents
       in andthen (look (verify_runtime_audit_integrity rt generated)) (\<lambda>verified.
          andthen (lift_thrown verified) (\<lambda>report.
          andthen (materialize_governance (es_collate services) es generated) (\<lambda>g.
          andthen (lift_range (build_poam_items (map (build_control_mapping es) controls) report generated (gr_findings g))) (\<lambda>poam.
          andthen (look (\<lambda>a. finalize_evidence_export (es_engine services) rt (es_signer services) (es_keys services) None None
              (es_wallClock services)
              (evidence_draft_of a controls fmt (coalesce framework Nist_800_53) generated start stop es report g poam))) (\<lambda>final.
          andthen (lift_thrown final) (\<lambda>package.
          andthen (look app_actor) (\<lambda>who.
          andthen (audit rt (evidence_audit ''evidence.generated'' who (''corr:evidence:'' @ compact_timestamp generated) package) False)
            (\<lambda>event.
          andthen (write_package services package (occurredAt event)) (\<lambda>receipt.
          andthen (change (commit_runtime_persistence (occurredAt event) [] True)) (\<lambda>_.
            give (case receipt of None \<Rightarrow> package | Some r \<Rightarrow> map_set ''storageReceipt'' (JObj r) package)))))))))))))"

definition export_evidence ::
  "runtime \<Rightarrow> 'p evidence_services \<Rightarrow> string list \<Rightarrow> evidence_format \<Rightarrow> ('c, 'p, json_record) run" where
  "export_evidence rt services controls fmt = export_evidence_package rt services controls fmt None None None"

definition verify_evidence_package ::
  "runtime \<Rightarrow> 'p evidence_services \<Rightarrow> js \<Rightarrow> string \<Rightarrow> ('c, 'p, verification_report) run" where
  "verify_evidence_package rt services package key =
     andthen (perform app_now) (\<lambda>t.
     andthen (lift_thrown (verify_evidence_export (es_engine services) rt (es_keys services) (es_wallClock services) (Some t) package))
       (\<lambda>report.
     andthen (look app_actor) (\<lambda>who.
     andthen (audit rt (evidence_audit ''evidence.verified'' who (''corr:evidence-verify:'' @ compact_timestamp (vr_verifiedAt report))
         [(''status'', JStr (if vr_verified report then ''verified'' else ''failed'')), (''packageHash'', vr_packageHash report),
          (''verifiedAt'', JStr (vr_verifiedAt report)), (''idempotencyKey'', JStr key),
          (''checkCount'', js_nat (length (vr_checks report))),
          (''failedChecks'', strings_js (map vc_name (filter (\<lambda>c. \<not> vc_pass c) (vr_checks report))))]) True) (\<lambda>_.
       give report))))"

end
