(* ===== verification/Api_Auth.thy ===== *)
theory Api_Auth
  imports Runtime_State Js_Regexp "HOL-Library.Sublist"
begin

text \<open>
  Authentication of the HTTP API, \<open>packages/api/src/api-auth.ts\<close>: the configured keys, the bearer
  token of a request, the comparison of the two over their UTF-8 bytes, and the audit of refused
  requests, which is sampled.

  A request is what the server reads of it: the method, the pathname and the search parameters of its
  URL, the two headers, and the body. Header values are texts of 8-bit characters, as Node delivers
  them.
\<close>

datatype authentication_failure = Missing_token | Invalid_token

record authentication_sample =
  smp_sampledAtMs :: int
  smp_suppressedCount :: nat

record parsed_api_key =
  key_raw :: string
  key_token :: string
  key_label :: "string option"

datatype authentication_result = Authenticated "string option" | Refused authentication_failure

record http_request =
  rq_method :: "string option"
  rq_pathname :: string
  rq_search :: "(string \<times> string) list"
  rq_authorization :: "string option"
  rq_idempotencyKey :: "string option"
  rq_body :: "nat list list"

definition bearer_scheme :: string where "bearer_scheme = ''bearer ''"
definition max_authorization_header_bytes :: nat where "max_authorization_header_bytes = 8192"
definition max_bearer_token_bytes :: nat where "max_bearer_token_bytes = 4096"
definition sample_window_ms :: int where "sample_window_ms = 60000"

subsection \<open>Bytes\<close>

definition utf8_char :: "char \<Rightarrow> nat list" where
  "utf8_char c = (let n = code_unit c in if n < 128 then [n] else [192 + n div 64, 128 + n mod 64])"

definition utf8 :: "string \<Rightarrow> nat list" where
  "utf8 s = concat (map utf8_char s)"

definition byte_length :: "string \<Rightarrow> nat" where
  "byte_length s = length (utf8 s)"

text \<open>\<open>Buffer.alloc(4096)\<close> with a copy of as many bytes as fit.\<close>

definition padded_bytes :: "nat list \<Rightarrow> nat list" where
  "padded_bytes bs = take max_bearer_token_bytes bs @ replicate (max_bearer_token_bytes - length bs) 0"

definition constant_time_equal :: "string \<Rightarrow> string \<Rightarrow> bool" where
  "constant_time_equal expected actual \<longleftrightarrow>
     (let e = utf8 expected; a = utf8 actual in
      padded_bytes e = padded_bytes a \<and> length e = length a \<and>
      length e \<le> max_bearer_token_bytes \<and> length a \<le> max_bearer_token_bytes)"

subsection \<open>Keys\<close>

definition parse_api_key_entry :: "string \<Rightarrow> parsed_api_key" where
  "parse_api_key_entry entry =
     (let trimmed = trim entry;
          i = length (takeWhile (\<lambda>c. c \<noteq> CHR '':'') trimmed);
          whole = \<lparr>key_raw = trimmed, key_token = trimmed, key_label = None\<rparr>
      in if i = 0 \<or> i = length trimmed then whole
         else let label = trim (take i trimmed); token = trim (drop (i + 1) trimmed)
              in if label = [] \<or> token = [] then whole
                 else \<lparr>key_raw = trimmed, key_token = token, key_label = Some label\<rparr>)"

fun unique_tokens :: "string list \<Rightarrow> parsed_api_key list \<Rightarrow> parsed_api_key list" where
  "unique_tokens seen [] = []"
| "unique_tokens seen (k # ks) =
     (if key_token k \<in> set seen then unique_tokens seen ks
      else k # unique_tokens (key_token k # seen) ks)"

definition key_too_long :: js_thrown where
  "key_too_long = Error_object ''API keys must be 4096 bytes or less.''"

definition parse_api_keys :: "string list option \<Rightarrow> js_thrown + parsed_api_key list" where
  "parse_api_keys keys =
     (let parsed = filter (\<lambda>k. key_token k \<noteq> []) (map parse_api_key_entry (coalesce keys []))
      in if list_ex (\<lambda>k. byte_length (key_token k) > max_bearer_token_bytes) parsed then Inl key_too_long
         else Inr (unique_tokens [] parsed))"

definition normalize_api_keys :: "string list option \<Rightarrow> js_thrown + string list" where
  "normalize_api_keys keys =
     (let normalized = filter (\<lambda>k. k \<noteq> []) (map trim (coalesce keys []))
      in if list_ex (\<lambda>k. byte_length k > max_bearer_token_bytes) normalized then Inl key_too_long
         else Inr (rev (remdups (rev normalized))))"

subsection \<open>Requests\<close>

definition resolve_request_audit_actor :: "canonical_id \<Rightarrow> string option \<Rightarrow> canonical_id" where
  "resolve_request_audit_actor configured label =
     (case label of Some (c # cs) \<Rightarrow> ''api-key:'' @ c # cs | _ \<Rightarrow> configured)"

definition has_bearer_authorization :: "http_request \<Rightarrow> bool" where
  "has_bearer_authorization r =
     (case rq_authorization r of None \<Rightarrow> False | Some h \<Rightarrow> prefix bearer_scheme (to_lower_case (trim h)))"

definition read_bearer_token :: "http_request \<Rightarrow> string option" where
  "read_bearer_token r =
     (case rq_authorization r of
        None \<Rightarrow> None
      | Some h \<Rightarrow>
          if byte_length h > max_authorization_header_bytes then None
          else if \<not> prefix bearer_scheme (to_lower_case (trim h)) then None
          else let token = trim (drop (length bearer_scheme) (trim h))
               in if byte_length token > max_bearer_token_bytes then None
                  else if token = [] then None else Some token)"

fun scan_keys :: "string \<Rightarrow> bool \<Rightarrow> string option \<Rightarrow> parsed_api_key list \<Rightarrow> bool \<times> string option" where
  "scan_keys token found label [] = (found, label)"
| "scan_keys token found label (k # ks) =
     (let hit = constant_time_equal (key_token k) token
      in if hit \<and> \<not> found then scan_keys token True (key_label k) ks else scan_keys token found label ks)"

definition authenticate_request :: "http_request \<Rightarrow> parsed_api_key list \<Rightarrow> authentication_result" where
  "authenticate_request r keys =
     (if keys = [] then Authenticated None
      else case read_bearer_token r of
             None \<Rightarrow> Refused (if has_bearer_authorization r then Invalid_token else Missing_token)
           | Some token \<Rightarrow>
               (case scan_keys token False None keys of
                  (True, label) \<Rightarrow> Authenticated label
                | (False, _) \<Rightarrow> Refused Invalid_token))"

definition bearer_challenge :: "authentication_failure \<Rightarrow> string" where
  "bearer_challenge f =
     (if f = Invalid_token then ''Bearer realm=\"rebac-control-plane\", error=\"invalid_token\"''
      else ''Bearer realm=\"rebac-control-plane\"'')"

subsection \<open>The audit of refused requests\<close>

definition failure_text :: "authentication_failure \<Rightarrow> string" where
  "failure_text f = (case f of Missing_token \<Rightarrow> ''missing'' | Invalid_token \<Rightarrow> ''invalid'')"

definition timestamp_ms :: "int \<Rightarrow> string \<Rightarrow> int" where
  "timestamp_ms wallClock s = (case date_parse s of Some n \<Rightarrow> n | None \<Rightarrow> wallClock)"

definition sample_window_start :: "int \<Rightarrow> int" where
  "sample_window_start n = (n div sample_window_ms) * sample_window_ms"

definition sanitize_audit_path :: "string \<Rightarrow> string" where
  "sanitize_audit_path p =
     to_lower_case (map (\<lambda>c. if upper_letter c \<or> lower_letter c \<or> is_digit c \<or> c \<in> set ''_:-'' then c else CHR ''_'') p)"

type_synonym authentication_samples = "(authentication_failure, authentication_sample) js_map"

definition failure_audit ::
  "http_request \<Rightarrow> authentication_failure \<Rightarrow> string \<Rightarrow> int \<Rightarrow> nat \<Rightarrow> audit_input" where
  "failure_audit r f scope ms suppressed =
     \<lparr>in_eventType = ''api.authentication_failed'', in_actor = ''anonymous'', in_subjectId = None, in_resourceId = None,
      in_correlationId = ''corr:auth:'' @ failure_text f @ '':'' @ scope @ '':'' @ int_str (sample_window_start ms) @ '':'' @
        sanitize_audit_path (rq_pathname r),
      in_policyVersion = None, in_relationshipVersion = None,
      in_payload =
        [(''method'', JStr (coalesce (rq_method r) ''GET'')), (''path'', JStr (rq_pathname r)),
         (''reason'', JStr (if f = Invalid_token then ''invalid_bearer_token'' else ''missing_bearer_token'')),
         (''sampled'', JBool True), (''sampleWindowMs'', JNum (of_int sample_window_ms)),
         (''suppressedSinceLastSample'', js_nat suppressed), (''tokenLogged'', JBool False)]\<rparr>"

definition record_authentication_failure ::
  "runtime \<Rightarrow> int \<Rightarrow> http_request \<Rightarrow> authentication_failure \<Rightarrow> string \<Rightarrow>
   authentication_samples \<Rightarrow> ('c, 'p) local_app \<Rightarrow> authentication_samples \<times> ('c, 'p) local_app" where
  "record_authentication_failure rt wallClock r f scope samples a =
     (case app_now a of (occurred, a1) \<Rightarrow>
        let ms = timestamp_ms wallClock occurred; prior = map_get samples f in
        if (case prior of None \<Rightarrow> False | Some p \<Rightarrow> ms - smp_sampledAtMs p < sample_window_ms)
        then (map_set f ((the prior)\<lparr>smp_suppressedCount := Suc (smp_suppressedCount (the prior))\<rparr>) samples, a1)
        else (map_set f \<lparr>smp_sampledAtMs = ms, smp_suppressedCount = 0\<rparr> samples,
              snd (record_audit rt (failure_audit r f scope ms (case prior of None \<Rightarrow> 0 | Some p \<Rightarrow> smp_suppressedCount p))
                     (Some occurred) False a1)))"

subsection \<open>The comparison is equality\<close>

lemma code_unit_less: "code_unit c < 256"
  by (simp add: code_unit_def)

lemma code_unit_eq: "code_unit c = code_unit d \<longleftrightarrow> c = d"
  by (simp add: code_unit_def)

lemma utf8_char_prefix: "utf8_char c @ bs = utf8_char d @ es \<Longrightarrow> c = d \<and> bs = es"
proof -
  have split: "code_unit c = 64 * (code_unit c div 64) + code_unit c mod 64" for c by simp
  assume "utf8_char c @ bs = utf8_char d @ es"
  then show ?thesis
    using split [of c] split [of d]
    by (auto simp: utf8_char_def Let_def split: if_splits simp flip: code_unit_eq) (metis split)
qed

lemma utf8_inj: "utf8 s = utf8 t \<longleftrightarrow> s = t"
proof
  show "utf8 s = utf8 t \<Longrightarrow> s = t"
  proof (induction s arbitrary: t)
    case Nil
    then show ?case by (cases t) (auto simp: utf8_def utf8_char_def Let_def split: if_splits)
  next
    case (Cons c s)
    then obtain d u where t: "t = d # u"
      by (cases t) (auto simp: utf8_def utf8_char_def Let_def split: if_splits)
    with Cons.prems have "c = d \<and> utf8 s = utf8 u" by (intro utf8_char_prefix) (simp add: utf8_def)
    with Cons.IH t show ?case by simp
  qed
qed simp

lemma constant_time_equal_iff [simp]:
  "constant_time_equal e a \<longleftrightarrow> e = a \<and> byte_length e \<le> max_bearer_token_bytes"
proof -
  have "utf8 e = utf8 a" if "padded_bytes (utf8 e) = padded_bytes (utf8 a)" "length (utf8 e) = length (utf8 a)"
    "length (utf8 e) \<le> max_bearer_token_bytes"
    using that by (simp add: padded_bytes_def)
  then show ?thesis by (auto simp: constant_time_equal_def Let_def byte_length_def utf8_inj)
qed

lemma unique_tokens_tokens: "key_token ` set (unique_tokens seen ks) = key_token ` set ks - set seen"
  by (induction seen ks rule: unique_tokens.induct) auto

lemma unique_tokens_distinct: "distinct (map key_token (unique_tokens seen ks))"
proof (induction seen ks rule: unique_tokens.induct)
  case (2 seen k ks)
  then show ?case using unique_tokens_tokens [of "key_token k # seen" ks] by (auto simp flip: set_map)
qed simp

lemma unique_tokens_subset: "set (unique_tokens seen ks) \<subseteq> set ks"
  by (induction seen ks rule: unique_tokens.induct) auto

lemma scan_keys_found:
  "scan_keys token found label ks =
     (if found then (True, label)
      else case find (\<lambda>k. constant_time_equal (key_token k) token) ks of
             None \<Rightarrow> (False, label) | Some k \<Rightarrow> (True, key_label k))"
  by (induction ks arbitrary: found label) (auto simp: Let_def)

end
