(* ===== verification/Flow_Laws.thy ===== *)
theory Flow_Laws
  imports Runtime_Laws Evidence_Export Api_Auth
begin

text \<open>
  The flows that the locale of \<open>Runtime_Laws\<close> does not reach by itself: those of
  \<open>runtime-evidence-export.ts\<close>, and the recording of a failed authentication by the server. What holds
  across each primitive effect holds across them too. An export of a package stores governance
  records and asks the repository of packages, which may throw.
\<close>

context runtime_order
begin

lemma thrown_lifted: "evolves R (lift_thrown r)"
  by (auto simp: lift_thrown_def still split: sum.split js_thrown.split)

lemmas evidence_layer = layer thrown_lifted

lemma events_exported: "evolves R (export_audit_events rt from until target)"
  unfolding export_audit_events_def Let_def by (intro evidence_layer)

lemma integrity_verified: "evolves R (verify_audit_integrity rt)"
  unfolding verify_audit_integrity_def Let_def by (intro evidence_layer)

lemma governance_written:
  assumes "\<And>s. store_step s (f s) \<and> st_auditEvents (f s) = st_auditEvents s \<and> keep s (f s)"
  shows "evolves R (change (\<lambda>a. persist_job w t (with_store f a)))"
  using assms by (intro changed trans [OF with_step jobs_written]) auto

lemma governance_materialized: "evolves R (materialize_governance collate es t)"
proof -
  have "evolves R (change (\<lambda>a. persist_job (Write_campaign c) t (with_store (upsert_campaign c) a)))" for c
    by (rule governance_written) (intro conjI store_step.upsert_campaign keep_rest; simp add: upsert_campaign_def)
  moreover have "evolves R (change (\<lambda>a. persist_job (Write_governance_finding f) t (with_store (upsert_governance_finding f) a)))" for f
    by (rule governance_written)
      (intro conjI store_step.upsert_governance keep_rest; simp add: upsert_governance_finding_def)
  moreover have "evolves R (change (\<lambda>a. persist_job (Write_exception_request r) t (with_store (upsert_exception_request r) a)))" for r
    by (rule governance_written)
      (intro conjI store_step.upsert_exception keep_rest; simp add: upsert_exception_request_def)
  ultimately show ?thesis
    unfolding materialize_governance_def by (intro evidence_layer)
qed

lemma package_written: "evolves R (write_package services package t)"
proof -
  have disk: "R a (a\<lparr>app_disk := d\<rparr>)" for a d by (rule quiet) simp_all
  show ?thesis
    by (auto simp: evolves_def write_package_def repository_error_def refl split: option.split prod.split sum.split
        intro: disk trans [OF disk degradation])
qed

lemma package_exported: "evolves R (export_evidence_package rt services controls fmt framework from until)"
proof -
  have "evolves R (change (commit_runtime_persistence t [] p))" for t p
    by (intro changed committed) simp
  then show ?thesis
    unfolding export_evidence_package_def Let_def
    by (intro evidence_layer governance_materialized package_written)
qed

lemma failure_recorded: "R a (snd (record_authentication_failure rt wallClock r f scope samples a))"
proof (cases "app_now a")
  case (Pair t a1)
  with ticked [of a] have "R a a1" by simp
  then show ?thesis
    by (auto simp: record_authentication_failure_def Pair Let_def intro: trans [OF _ audit_related])
qed

lemma package_verified: "evolves R (verify_evidence_package rt services package key)"
  unfolding verify_evidence_package_def by (intro evidence_layer)

end

end
