(* ===== verification/Runtime_Startup.thy ===== *)
theory Runtime_Startup
  imports Runtime_State
begin

text \<open>
  How the API runtime starts: \<open>runtime-seed.ts\<close> and \<open>createRebacLocalApp\<close> of \<open>local-app.ts\<close>. The seed
  is chosen among the stored state, the given or default seed, and what the graph, job and audit
  repositories kept; repositories that kept nothing are filled from the store. What the repositories
  return when they are read is an input; a read that throws ends the start.
\<close>

subsection \<open>What the repositories kept\<close>

record graph_snapshot =
  gs_subjects :: "subject list"
  gs_resources :: "resource list"
  gs_relationships :: "relationship list"
  gs_nativeGrants :: "native_grant list"

record runtime_jobs =
  rj_discoveryRuns :: "discovery_run list"
  rj_readinessReports :: "enforcement_readiness_report list"
  rj_provisioningPlans :: "provisioning_plan list"
  rj_provisioningJobs :: "provisioning_job list"
  rj_driftFindings :: "drift_finding list"
  rj_campaigns :: "access_review_campaign list"
  rj_governanceFindings :: "governance_finding list"
  rj_exceptionRequests :: "exception_request list"
  rj_reconciliationRuns :: "reconciliation_run list"
  rj_decisions :: "decision_result list"

definition contains_all_by_key :: "('v \<Rightarrow> string) \<Rightarrow> 'v list \<Rightarrow> 'v list option \<Rightarrow> bool" where
  "contains_all_by_key key persisted seeded =
     (case seeded of None \<Rightarrow> True
      | Some vs \<Rightarrow> list_all (\<lambda>v. key v \<in> key ` set persisted) vs)"

definition has_persisted_graph_records :: "graph_snapshot \<Rightarrow> bool" where
  "has_persisted_graph_records g \<longleftrightarrow>
     gs_subjects g \<noteq> [] \<or> gs_resources g \<noteq> [] \<or> gs_relationships g \<noteq> [] \<or> gs_nativeGrants g \<noteq> []"

definition should_use_persisted_graph :: "graph_snapshot \<Rightarrow> seed_data \<Rightarrow> bool" where
  "should_use_persisted_graph g base \<longleftrightarrow>
     has_persisted_graph_records g \<and>
     contains_all_by_key entity_id (gs_subjects g) (seed_subjects base) \<and>
     contains_all_by_key entity_id (gs_resources g) (seed_resources base) \<and>
     contains_all_by_key entity_id (gs_relationships g) (seed_relationships base) \<and>
     contains_all_by_key entity_id (gs_nativeGrants g) (seed_nativeGrants base)"

definition has_persisted_job_records :: "runtime_jobs \<Rightarrow> bool" where
  "has_persisted_job_records j \<longleftrightarrow>
     rj_discoveryRuns j \<noteq> [] \<or> rj_readinessReports j \<noteq> [] \<or> rj_provisioningPlans j \<noteq> [] \<or>
     rj_provisioningJobs j \<noteq> [] \<or> rj_driftFindings j \<noteq> [] \<or> rj_campaigns j \<noteq> [] \<or>
     rj_governanceFindings j \<noteq> [] \<or> rj_exceptionRequests j \<noteq> [] \<or> rj_reconciliationRuns j \<noteq> [] \<or>
     rj_decisions j \<noteq> []"

definition should_use_persisted_jobs :: "runtime_jobs \<Rightarrow> seed_data \<Rightarrow> bool" where
  "should_use_persisted_jobs j base \<longleftrightarrow>
     has_persisted_job_records j \<and>
     contains_all_by_key entity_id (rj_discoveryRuns j) (seed_discoveryRuns base) \<and>
     contains_all_by_key entity_id (rj_readinessReports j) (seed_readinessReports base) \<and>
     contains_all_by_key entity_id (rj_provisioningPlans j) (seed_provisioningPlans base) \<and>
     contains_all_by_key entity_id (rj_provisioningJobs j) (seed_provisioningJobs base) \<and>
     contains_all_by_key entity_id (rj_driftFindings j) (seed_driftFindings base) \<and>
     contains_all_by_key entity_id (rj_campaigns j) (seed_campaigns base) \<and>
     contains_all_by_key entity_id (rj_governanceFindings j) (seed_governanceFindings base) \<and>
     contains_all_by_key entity_id (rj_exceptionRequests j) (seed_exceptionRequests base) \<and>
     contains_all_by_key entity_id (rj_reconciliationRuns j) (seed_reconciliationRuns base) \<and>
     contains_all_by_key decisionId (rj_decisions j) (seed_decisions base)"

subsection \<open>The audit events to start from\<close>

definition audit_events_start_with :: "runtime \<Rightarrow> audit_event list \<Rightarrow> audit_event list \<Rightarrow> bool" where
  "audit_events_start_with rt events prefix \<longleftrightarrow>
     list_all2 (\<lambda>p e. stable_stringify rt (event_js p) = stable_stringify rt (event_js e))
       prefix (take (length prefix) events)"

text \<open>
  \<open>verified\<close> is the time given to the verification. The repository's events are read only where
  both repositories exist.
\<close>

definition recover_append_only_audit_events ::
  "runtime \<Rightarrow> bool \<Rightarrow> audit_event list option \<Rightarrow> seed_data \<Rightarrow> string \<Rightarrow> audit_event list option" where
  "recover_append_only_audit_events rt hasState repositoryEvents base verified =
     (case repositoryEvents of
        None \<Rightarrow> seed_auditEvents base
      | Some events \<Rightarrow>
          if \<not> hasState then seed_auditEvents base
          else let stored = coalesce (seed_auditEvents base) [] in
            if length events \<le> length stored \<or> \<not> audit_events_start_with rt events stored
            then seed_auditEvents base
            else if integrity_status (verify_audit_chain rt events verified) = Verified
            then Some events else seed_auditEvents base)"

subsection \<open>The seed\<close>

definition initial_runtime_seed ::
  "runtime \<Rightarrow> bool \<Rightarrow> audit_event list option \<Rightarrow> seed_data \<Rightarrow> graph_snapshot option \<Rightarrow> runtime_jobs option \<Rightarrow>
   string \<Rightarrow> seed_data" where
  "initial_runtime_seed rt hasState repositoryEvents base graph jobs verified =
     (let s1 = base\<lparr>seed_auditEvents := recover_append_only_audit_events rt hasState repositoryEvents base verified\<rparr>;
          s2 = (case graph of
                  None \<Rightarrow> s1
                | Some g \<Rightarrow>
                    if should_use_persisted_graph g base
                    then s1\<lparr>seed_subjects := Some (gs_subjects g), seed_resources := Some (gs_resources g),
                            seed_relationships := Some (gs_relationships g), seed_nativeGrants := Some (gs_nativeGrants g)\<rparr>
                    else s1)
      in case jobs of
           None \<Rightarrow> s2
         | Some j \<Rightarrow>
             if should_use_persisted_jobs j base
             then s2\<lparr>seed_discoveryRuns := Some (rj_discoveryRuns j), seed_readinessReports := Some (rj_readinessReports j),
                     seed_provisioningPlans := Some (rj_provisioningPlans j), seed_provisioningJobs := Some (rj_provisioningJobs j),
                     seed_driftFindings := Some (rj_driftFindings j), seed_campaigns := Some (rj_campaigns j),
                     seed_governanceFindings := Some (rj_governanceFindings j),
                     seed_exceptionRequests := Some (rj_exceptionRequests j),
                     seed_reconciliationRuns := Some (rj_reconciliationRuns j), seed_decisions := Some (rj_decisions j)\<rparr>
             else s2)"

subsection \<open>Filling empty repositories\<close>

text \<open>A sequence of writes inside one \<open>try\<close>: the first that throws ends it.\<close>

fun write_all :: "('w \<Rightarrow> 'p \<Rightarrow> js_thrown option \<times> 'p) \<Rightarrow> 'w list \<Rightarrow> 'p \<Rightarrow> js_thrown option \<times> 'p" where
  "write_all f [] d = (None, d)"
| "write_all f (w # ws) d = (case f w d of (None, d') \<Rightarrow> write_all f ws d' | (Some e, d') \<Rightarrow> (Some e, d'))"

definition graph_writes :: "seed_data \<Rightarrow> graph_write list" where
  "graph_writes s =
     map Write_subject (coalesce (seed_subjects s) []) @ map Write_resource (coalesce (seed_resources s) []) @
     map Write_relationship (coalesce (seed_relationships s) []) @ map Write_native_grant (coalesce (seed_nativeGrants s) [])"

definition job_writes :: "seed_data \<Rightarrow> job_write list" where
  "job_writes s =
     map Write_discovery_run (coalesce (seed_discoveryRuns s) []) @
     map Write_readiness_report (coalesce (seed_readinessReports s) []) @
     map Write_plan (coalesce (seed_provisioningPlans s) []) @
     map Write_job (coalesce (seed_provisioningJobs s) []) @
     map Write_drift_finding (coalesce (seed_driftFindings s) []) @
     map Write_campaign (coalesce (seed_campaigns s) []) @
     map Write_governance_finding (coalesce (seed_governanceFindings s) []) @
     map Write_exception_request (coalesce (seed_exceptionRequests s) []) @
     map Write_reconciliation_run (coalesce (seed_reconciliationRuns s) []) @
     map Write_decision (coalesce (seed_decisions s) [])"

text \<open>The receipts, the number of clock readings taken and the disk while the app is being built.\<close>

record 'p startup =
  su_degradations :: "persistence_degradation list"
  su_ticks :: nat
  su_disk :: 'p

definition seeding_result ::
  "(nat \<Rightarrow> string) \<Rightarrow> degraded_component \<Rightarrow> js_thrown option \<times> 'p \<Rightarrow> 'p startup \<Rightarrow> 'p startup" where
  "seeding_result clock component result s =
     (case result of
        (None, d) \<Rightarrow> s\<lparr>su_disk := d\<rparr>
      | (Some e, d) \<Rightarrow> s\<lparr>su_disk := d, su_ticks := Suc (su_ticks s),
          su_degradations := add_degradation
            \<lparr>degraded_component = component, degraded_operation = ''seedRuntimeRepository'',
             degraded_occurredAt = clock (su_ticks s), degraded_message = thrown_message e\<rparr> (su_degradations s)\<rparr>)"

definition seed_empty_runtime_repositories ::
  "'p runtime_persistence \<Rightarrow> rebac_store \<Rightarrow> (nat \<Rightarrow> string) \<Rightarrow> graph_snapshot option \<Rightarrow> runtime_jobs option \<Rightarrow>
   'p startup \<Rightarrow> 'p startup" where
  "seed_empty_runtime_repositories per st clock graph jobs s =
     (let seed = export_seed_data st;
          s1 = (case (graphRepository per, graph) of
                  (Some wr, Some g) \<Rightarrow>
                    if \<not> has_persisted_graph_records g
                    then seeding_result clock Degraded_graph (write_all wr (graph_writes seed) (su_disk s)) s else s
                | _ \<Rightarrow> s)
      in case (jobRepository per, jobs) of
           (Some wr, Some j) \<Rightarrow>
             if \<not> has_persisted_job_records j
             then seeding_result clock Degraded_job (write_all wr (job_writes seed) (su_disk s1)) s1 else s1
         | _ \<Rightarrow> s1)"

subsection \<open>The app\<close>

text \<open>
  What \<open>createRebacLocalApp\<close> is given: the persistence and what its repositories return when they are
  read, the given or default seed, the connectors, the clock and the actor. The check of the
  administrative authorization descriptor is not part of the model.
\<close>

record ('c, 'p) app_options =
  op_persistence :: "'p runtime_persistence"
  op_readState :: "seed_data option"
  op_graph :: "graph_snapshot option"
  op_jobs :: "runtime_jobs option"
  op_seed :: seed_data
  op_connectors :: "(string, 'c connector_adapter) js_map"
  op_actor :: "canonical_id option"
  op_clock :: "nat \<Rightarrow> string"
  op_regexp :: "string \<Rightarrow> (string \<Rightarrow> bool) option"
  op_provider :: 'c
  op_disk :: 'p

datatype start_error = Start_store store_error | Start_read js_thrown | Start_model compile_error

definition app_engine_options :: "canonical_id \<Rightarrow> audit_event list \<Rightarrow> engine_options" where
  "app_engine_options who events =
    \<lparr>eo_policyVersion = None, eo_modelVersion = None, eo_relationshipVersion = None, eo_tupleVersion = None,
     eo_contextVersion = None, eo_traversalBounds = None, eo_actor = Some who, eo_policyModel = None,
     eo_auditRecorder = Some events\<rparr>"

text \<open>
  The repository's events for the seed; the clock is read for their verification only when it is
  reached.
\<close>

definition read_repository_events :: "('c, 'p) app_options \<Rightarrow> js_thrown + audit_event list option" where
  "read_repository_events o' =
     (case (stateRepository (op_persistence o'), auditRepository (op_persistence o')) of
        (Some _, Some repo) \<Rightarrow> map_sum id Some (repo_list repo (op_disk o'))
      | _ \<Rightarrow> Inr None)"

definition reads_clock_at_start :: "runtime \<Rightarrow> seed_data \<Rightarrow> audit_event list option \<Rightarrow> bool" where
  "reads_clock_at_start rt base events =
     (case events of None \<Rightarrow> False
      | Some es \<Rightarrow> length (coalesce (seed_auditEvents base) []) < length es \<and>
          audit_events_start_with rt es (coalesce (seed_auditEvents base) []))"

text \<open>A repository that is not configured returns nothing.\<close>

definition kept_state :: "('c, 'p) app_options \<Rightarrow> seed_data option" where
  "kept_state o' = (if stateRepository (op_persistence o') = None then None else op_readState o')"

definition kept_graph :: "('c, 'p) app_options \<Rightarrow> graph_snapshot option" where
  "kept_graph o' = (if graphRepository (op_persistence o') = None then None else op_graph o')"

definition kept_jobs :: "('c, 'p) app_options \<Rightarrow> runtime_jobs option" where
  "kept_jobs o' = (if jobRepository (op_persistence o') = None then None else op_jobs o')"

definition start_app ::
  "('c, 'p) app_options \<Rightarrow> rebac_store \<Rightarrow> nat \<Rightarrow> start_error + ('c, 'p) local_app" where
  "start_app o' st0 ticks =
     (let per = op_persistence o'; who = coalesce (op_actor o') ''service:api'';
          s = seed_empty_runtime_repositories per st0 (op_clock o') (kept_graph o') (kept_jobs o')
                \<lparr>su_degradations = list_persistence_degradations st0, su_ticks = ticks, su_disk = op_disk o'\<rparr>;
          st = replace_persistence_degradations (su_degradations s) st0
      in case initial_audit_events per st (su_disk s) of
           Inl e \<Rightarrow> Inl (Start_read e)
         | Inr events \<Rightarrow>
             (case create_engine st (app_engine_options who events) of
                Inl e \<Rightarrow> Inl (Start_model e)
              | Inr en \<Rightarrow> Inr
                  \<lparr>app_engine = en, app_persistence = per, app_degradations = su_degradations s,
                   app_connectors = op_connectors o', app_actor = who, app_requestActor = None, app_sequences = [],
                   app_clock = op_clock o', app_ticks = su_ticks s, app_regexp = op_regexp o',
                   app_provider = op_provider o', app_disk = su_disk s\<rparr>))"

definition create_local_app :: "runtime \<Rightarrow> ('c, 'p) app_options \<Rightarrow> start_error + ('c, 'p) local_app" where
  "create_local_app rt o' =
     (let base = coalesce (kept_state o') (op_seed o') in
      case read_repository_events o' of
        Inl e \<Rightarrow> Inl (Start_read e)
      | Inr events \<Rightarrow>
          (let seed = initial_runtime_seed rt (stateRepository (op_persistence o') \<noteq> None) events base
                 (kept_graph o') (kept_jobs o') (op_clock o' 0)
           in case create_store seed of
                Inl e \<Rightarrow> Inl (Start_store e)
              | Inr st0 \<Rightarrow> start_app o' st0 (if reads_clock_at_start rt base events then 1 else 0)))"

subsection \<open>What the start keeps\<close>

lemma recovered_extends:
  assumes "recover_append_only_audit_events rt h es base t = Some used"
  shows "audit_events_start_with rt used (coalesce (seed_auditEvents base) [])"
proof -
  have same: "audit_events_start_with rt vs vs" for vs
    by (auto simp: audit_events_start_with_def list.rel_refl)
  from assms show ?thesis
    unfolding recover_append_only_audit_events_def
    by (auto simp: Let_def same split: option.splits if_splits)
qed

lemma recovered_verified:
  assumes "recover_append_only_audit_events rt h es base t = Some used"
  shows "used = coalesce (seed_auditEvents base) [] \<or> chained_from rt None used"
  using assms unfolding recover_append_only_audit_events_def
  by (auto simp: Let_def verified_iff_chained_from split: option.splits if_splits)

text \<open>What a key lookup finds in the seed, it finds in the kept records when those are used.\<close>

lemma contains_all_keys:
  "contains_all_by_key key persisted (Some seeded) \<Longrightarrow> key ` set seeded \<subseteq> key ` set persisted"
  by (auto simp: contains_all_by_key_def list_all_iff)

end
