(* ===== verification/Engine_Decisions.thy ===== *)
theory Engine_Decisions
  imports Engine_State
begin

text \<open>
  What the decision engine guarantees: when it allows, what overrides an allow, what it refuses,
  that its cache and its explanations do not change a decision, and what it leaves in the store
  and in the audit log.
\<close>

subsection \<open>Helper lemmas\<close>

lemma engine_inv_store: "engine_inv en \<Longrightarrow> store_inv (en_store en)"
  by (simp add: engine_inv_def)

lemma admit_iff:
  "admit_request st req now pins = Inr (s, r) \<longleftrightarrow>
     (\<exists>t. date_parse (pin_asOf pins) = Some t \<and> \<not> later (Some t) (date_parse now)) \<and>
     visible_subject_at st (req_subjectId req) (pin_asOf pins) = Some s \<and>
     effective_lifecycle_state_at s (pin_asOf pins) = Some Active \<and>
     visible_resource_at st (req_resourceId req) (pin_asOf pins) = Some r \<and>
     effective_lifecycle_state_at r (pin_asOf pins) = Some Active \<and>
     tenant_id_for (Some s) = tenant_id_for (Some r)"
proof -
  have tenant: "tenant_boundary_denies s r \<longleftrightarrow> tenant_id_for (Some s) \<noteq> tenant_id_for (Some r)" for s r
    by (auto simp: tenant_boundary_denies_def tenant_id_for_def string_attribute_def truthy_def
        split: option.splits js.splits if_splits)
  show ?thesis
    by (auto simp: admit_request_def check_instant_def check_subject_def check_resource_def Let_def tenant
        split: option.splits sum.splits if_splits)
qed

lemma in_tenant_node:
  "in_tenant env t \<Longrightarrow> env_rootTenant env = tenant_id_for (Some s) \<Longrightarrow>
     tenant_id_for (visible_node_at (env_store env) (objectId t) (env_asOf env)) = tenant_id_for (Some s)"
  by (auto simp: in_tenant_def relationship_matches_tenant_boundary_def Let_def tenant_id_for_def string_attribute_def
      truthy_def split: option.splits js.splits if_splits)

subsection \<open>A small engine for the examples\<close>

text \<open>
  A user, a group it is a member of, and a document the group can view; viewing it for \<open>read\<close> needs
  a risk score of at most 50 in the request's context.
\<close>

definition quiet_runtime :: runtime where
  "quiet_runtime = \<lparr>sha256_hex = (\<lambda>s. ''00''), number_text = (\<lambda>q. ''0'')\<rparr>"

definition small_model :: policy_model where
  "small_model = caveat_policy_model
     \<lparr>pm_relations :=
        [\<lparr>relation_name = ''member_of'', relation_kind = Membership, relation_subjectTypes = [], relation_objectTypes = []\<rparr>,
         \<lparr>relation_name = ''viewer_of'', relation_kind = Grant, relation_subjectTypes = [], relation_objectTypes = []\<rparr>,
         \<lparr>relation_name = ''denied'', relation_kind = Deny_kind, relation_subjectTypes = [], relation_objectTypes = []\<rparr>],
      pm_actions := [\<lparr>action_name = ''read'', action_grants = [''viewer_of'']\<rparr>],
      pm_inheritanceRules := [\<lparr>inh_name = ''members'', inh_relation = ''viewer_of'', inh_through = ''member_of'', inh_actions = [''read'']\<rparr>],
      pm_denyRules := [\<lparr>deny_name = ''deny'', deny_relation = ''denied'', deny_actions = None\<rparr>]\<rparr>"

definition small_seed :: seed_data where
  "small_seed = no_seed
     \<lparr>seed_subjects := Some
        [(sample_subject ''u'' User)\<lparr>createdAt := []\<rparr>, (sample_subject ''g'' Group)\<lparr>createdAt := []\<rparr>],
      seed_resources := Some [(sample_resource ''d'' Document)\<lparr>createdAt := []\<rparr>],
      seed_relationships := Some
        [(sample_tuple ''t1'' ''u'' ''member_of'' ''g'')\<lparr>createdAt := [], assertedAt := []\<rparr>,
         (sample_tuple ''t2'' ''g'' ''viewer_of'' ''d'')\<lparr>createdAt := [], assertedAt := []\<rparr>]\<rparr>"

definition small_store :: rebac_store where
  "small_store = seed_graph small_seed empty_store"

definition small_options :: engine_options where
  "small_options =
    \<lparr>eo_policyVersion = None, eo_modelVersion = None, eo_relationshipVersion = None, eo_tupleVersion = None,
     eo_contextVersion = None,
     eo_traversalBounds = Some \<lparr>over_maxDepth = Some 4, over_maxRelationshipScans = Some 20, over_maxVisitedNodes = Some 9\<rparr>,
     eo_actor = None, eo_policyModel = Some small_model, eo_auditRecorder = None\<rparr>"

definition small_engine :: engine where
  "small_engine =
    \<lparr>en_store = small_store, en_recorder = [], en_policyModel = small_model,
     en_compiled = \<lparr>membershipRelations = [''member_of''], containmentRelations = [],
        grantRelationsByAction = [(''read'', [''viewer_of''])], traversalRelationsByAction = [(''read'', [''member_of''])],
        denyRelationsByAction = [], unscopedDenyRelations = [''denied'']\<rparr>,
     en_options = \<lparr>no_defaults = \<lparr>def_policyVersion = ''policy:local-v1'', def_modelVersion = ''model:local-v1'',
          def_relationshipVersion = ''tuple-set:local-v1'', def_tupleVersion = ''tuple:v1'', def_contextVersion = None\<rparr>,
        no_enforceTupleVersion = False,
        no_traversalBounds = \<lparr>maxDepth = 4, maxRelationshipScans = 20, maxVisitedNodes = 9\<rparr>,
        no_actor = ''service:decision-engine''\<rparr>,
     en_scopes = []\<rparr>"

definition risk_request :: "string \<Rightarrow> rat \<Rightarrow> decision_request" where
  "risk_request a n = sample_request\<lparr>req_subjectId := ''u'', req_resourceId := ''d'', req_action := a,
     req_asOf := Some ''2026'', req_contextVersion := Some ''c1'', req_context := Some [(''riskScore'', JNum n)]\<rparr>"

definition sample_inputs :: evaluation_inputs where
  "sample_inputs = \<lparr>ev_startedAt = 0, ev_finishedAt = 1, ev_now = ''later'', ev_auditActor = None\<rparr>"

lemma small_store_reachable: "store_reachable small_store"
proof (rule store_reachable.created)
  show "create_store small_seed = Inr small_store"
    by (simp add: create_store_def small_store_def bind_result_def small_seed_def no_seed_def
        seed_records_def seed_logs_def for_each_def)
qed

lemma create_small_engine: "create_engine small_store small_options = Inr small_engine"
  by code_simp

lemma small_engine_reachable: "engine_reachable small_engine"
  by (rule engine_reachable.created [OF small_store_reachable create_small_engine])

lemma risk_pins: "request_pins rt small_engine (risk_request a n) sample_inputs =
    \<lparr>pin_policyVersion = ''policy:local-v1'', pin_modelVersion = ''model:local-v1'', pin_relationshipVersion = ''tuple-set:local-v1'',
     pin_tupleVersion = ''tuple:v1'', pin_contextVersion = ''c1'', pin_asOf = ''2026''\<rparr>"
  by (simp add: request_pins_def normalize_version_pins_def small_engine_def risk_request_def sample_request_def
      coalesce_def coalesce_opt_def)

definition small_user :: subject where
  "small_user = (sample_subject ''u'' User)\<lparr>createdAt := []\<rparr>"

definition small_document :: resource where
  "small_document = (sample_resource ''d'' Document)\<lparr>createdAt := []\<rparr>"

lemma admitted_risk:
  "admit_request small_store (risk_request a n) ''later''
     \<lparr>pin_policyVersion = ''policy:local-v1'', pin_modelVersion = ''model:local-v1'', pin_relationshipVersion = ''tuple-set:local-v1'',
      pin_tupleVersion = ''tuple:v1'', pin_contextVersion = ''c1'', pin_asOf = ''2026''\<rparr> =
   Inr (small_user, small_document)"
  by code_simp

text \<open>An evaluation at an unreadable time returns a result whatever the classification.\<close>

lemma context_evaluatedAt:
  assumes "engine_inv en" "build_decision_context en req now pins = (c, scopes)"
  shows "dc_evaluatedAt c = now"
proof (cases "admit_request (en_store en) req now pins")
  case (Inl d)
  then show ?thesis using context_refused(6) [OF _ assms(2)] by blast
next
  case (Inr x)
  then show ?thesis using context_admitted(6) [OF assms(1) _ assms(2)] by (cases x) blast
qed

lemma evaluate_total:
  assumes inv: "engine_inv en" and "date_parse (ev_now inp) = None"
  obtains res en' where "evaluate rt en req explained inp = (Inr res, en')"
    "decision res = dc_decision (fst (build_decision_context en req (ev_now inp) (request_pins rt en req inp)))"
proof -
  obtain c scopes where built: "build_decision_context en req (ev_now inp) (request_pins rt en req inp) = (c, scopes)"
    by (metis prod.exhaust)
  have "\<exists>res. to_decision_result rt c explained perf = Inr res" for perf
    using assms(2) context_evaluatedAt [OF inv built]
    by (auto simp: to_decision_result_def create_cache_metadata_def add_seconds_def Let_def)
  then obtain res where res: "to_decision_result rt c explained (create_performance_report (max 0 (ev_finishedAt inp - ev_startedAt inp))
      (latency_targets_for_graph_size (tr_graphSize (dc_traversal c)))) = Inr res" by blast
  then have "\<exists>en'. evaluate rt en req explained inp = (Inr res, en')"
    using built by (auto simp: evaluate_def request_pins_def Let_def split: prod.splits)
  with result_fields(1) [OF res] built that show ?thesis by auto
qed

lemma risk_10:
  "dc_decision (fst (build_decision_context small_engine (risk_request ''read'' 10) ''later''
     (request_pins quiet_runtime small_engine (risk_request ''read'' 10) sample_inputs))) = Allow"
  unfolding risk_pins by code_simp

lemma small_engine_inv: "engine_inv small_engine"
  by (rule engine_reachable_inv [OF small_engine_reachable])

lemma small_engine_store [simp]: "en_store small_engine = small_store"
  by (simp add: small_engine_def)

lemma sample_now [simp]: "ev_now sample_inputs = ''later''"
  by (simp add: sample_inputs_def)

lemma admitted_small:
  "admit_request (en_store small_engine) (risk_request a n) (ev_now sample_inputs)
     (request_pins rt small_engine (risk_request a n) sample_inputs) = Inr (small_user, small_document)"
  unfolding risk_pins small_engine_store sample_now by (rule admitted_risk)

lemma unreadable_now: "date_parse (ev_now sample_inputs) = None"
  by code_simp

lemma risk_10_allowed:
  obtains res en' where "evaluate quiet_runtime small_engine (risk_request ''read'' 10) explained sample_inputs = (Inr res, en')"
    "decision res = Allow"
  using evaluate_total [OF small_engine_inv unreadable_now, of quiet_runtime "risk_request ''read'' 10" explained]
    risk_10 unfolding sample_now by metis

subsection \<open>When the engine allows\<close>

text \<open>
  a request reaches the graph exactly when its instant is readable and not in the future, its
  subject and resource exist and are known to be active at that instant, and both belong to the
  same tenant or to none.
\<close>
theorem admission_conditions:
  "admit_request st req now pins = Inr (s, r) \<longleftrightarrow>
     (\<exists>t. date_parse (pin_asOf pins) = Some t \<and> \<not> later (Some t) (date_parse now)) \<and>
     visible_subject_at st (req_subjectId req) (pin_asOf pins) = Some s \<and>
     effective_lifecycle_state_at s (pin_asOf pins) = Some Active \<and>
     visible_resource_at st (req_resourceId req) (pin_asOf pins) = Some r \<and>
     effective_lifecycle_state_at r (pin_asOf pins) = Some Active \<and>
     tenant_id_for (Some s) = tenant_id_for (Some r)"
  by (rule admit_iff)

text \<open>
  C3: every decision on an admitted request is one the abstract specification \<open>verdict\<close> permits:
  an allow only along a grant with all caveats holding and no deny anywhere, a denial only for
  the reason it gives, whatever the state of the engine's cache.
\<close>
theorem decision_refines_verdict:
  assumes "engine_reachable en" "evaluate rt en req explained inp = (Inr res, en')"
    and "admit_request (en_store en) req (ev_now inp) (request_pins rt en req inp) = Inr (s, r)"
  shows "\<exists>p exceeded.
    verdict (engine_search_env en req (request_pins rt en req inp) s) (caveat_context en req (ev_now inp))
      (pinned_tuple_version en req (request_pins rt en req inp)) (req_subjectId req)
      (maxDepth (no_traversalBounds (en_options en))) exceeded (decision res) (reasonCode res) p \<and>
    relationshipPath res = (if explained then map to_path_step p else [])"
  using evaluation_verdict [OF engine_reachable_inv [OF assms(1)] assms(2,3)] by metis

lemma decision_refines_verdict_witness:
  "\<exists>(res :: decision_result) p exceeded.
    verdict (engine_search_env small_engine (risk_request ''read'' 10)
        (request_pins quiet_runtime small_engine (risk_request ''read'' 10) sample_inputs) small_user)
      (caveat_context small_engine (risk_request ''read'' 10) (ev_now sample_inputs))
      (pinned_tuple_version small_engine (risk_request ''read'' 10)
        (request_pins quiet_runtime small_engine (risk_request ''read'' 10) sample_inputs))
      (req_subjectId (risk_request ''read'' 10))
      (maxDepth (no_traversalBounds (en_options small_engine))) exceeded Allow (reasonCode res) p \<and>
    relationshipPath res = map to_path_step p"
proof -
  obtain res en' where ev: "evaluate quiet_runtime small_engine (risk_request ''read'' 10) True sample_inputs = (Inr res, en')"
    "decision res = Allow" by (rule risk_10_allowed)
  from decision_refines_verdict [OF small_engine_reachable ev(1) admitted_small]
  show ?thesis unfolding ev(2) if_True by blast
qed

text \<open>
  C1: an allow is justified. There is a chain of stored relationships from the subject to the
  resource, no longer than the depth bound, each active at the instant (with the pinned tuple
  version, when there is one) and inside the tenant, passing only through active nodes, using a
  relation the policy grants for the action, with every caveat of every step holding; and no
  deny relation reaches the resource. When an explanation is asked for, it is this chain.
\<close>
theorem allow_is_justified:
  assumes "engine_reachable en" "evaluate rt en req explained inp = (Inr res, en')" "decision res = Allow"
  shows "\<exists>s r p. admit_request (en_store en) req (ev_now inp) (request_pins rt en req inp) = Inr (s, r) \<and>
    (let env = engine_search_env en req (request_pins rt en req inp) s;
         pinned = pinned_tuple_version en req (request_pins rt en req inp) in
     connected (req_subjectId req) p (req_resourceId req) \<and> steps_hold env pinned p \<and> through_active_nodes env p \<and>
     (\<exists>t \<in> set p. relation t \<in> set (allowed_relations env)) \<and>
     length p \<le> maxDepth (no_traversalBounds (en_options en)) \<and>
     (\<forall>t \<in> set p. step_allowed (caveat_context en req (ev_now inp)) t) \<and>
     (\<forall>w. \<not> denies_access env pinned (req_subjectId req) w) \<and>
     relationshipPath res = (if explained then map to_path_step p else []))"
proof -
  have inv: "engine_inv en" using assms(1) by (rule engine_reachable_inv)
  show ?thesis
  proof (cases "admit_request (en_store en) req (ev_now inp) (request_pins rt en req inp)")
    case (Inl d)
    with evaluation_refused(1) [OF inv assms(2) Inl] assms(3) show ?thesis by simp
  next
    case (Inr x)
    obtain s r where x: "x = (s, r)" by (cases x)
    let ?env = "engine_search_env en req (request_pins rt en req inp) s"
    obtain p exceeded where v: "verdict ?env (caveat_context en req (ev_now inp))
        (pinned_tuple_version en req (request_pins rt en req inp)) (req_subjectId req)
        (maxDepth (no_traversalBounds (en_options en))) exceeded Allow (reasonCode res) p"
      "relationshipPath res = (if explained then map to_path_step p else [])"
      using evaluation_verdict [OF inv assms(2) Inr [unfolded x]] assms(3) by metis
    note allow = verdict_allow [OF v(1)]
    have "store_inv (env_store ?env)" using inv by (simp add: engine_inv_store)
    from grant_walk [OF this allow(1)] grant_uses_allowed [OF allow(1) [unfolded grants_access_def]]
      allow(2-4) v(2) Inr x show ?thesis by (auto simp: Let_def)
  qed
qed

lemma allow_is_justified_witness:
  "\<exists>p. connected ''u'' p ''d'' \<and> length p \<le> 4 \<and>
     (\<forall>t \<in> set p. step_allowed (caveat_context small_engine (risk_request ''read'' 10) ''later'') t)"
proof -
  obtain res en' where ev: "evaluate quiet_runtime small_engine (risk_request ''read'' 10) True sample_inputs = (Inr res, en')"
    "decision res = Allow" by (rule risk_10_allowed)
  from allow_is_justified [OF small_engine_reachable ev] show ?thesis
    unfolding Let_def by (auto simp: risk_request_def small_engine_def)
qed

subsection \<open>What overrides, and what suffices\<close>

text \<open>
  C2: an explicit deny wins. When a deny relation of the action reaches the resource from the
  subject or from a group the subject is, transitively, an active member of, the decision is a
  denial, whatever grants there are and whatever the traversal bounds: either the deny is
  reported, or that a bound stopped the search.
\<close>
theorem explicit_deny_overrides:
  assumes "engine_reachable en" "evaluate rt en req explained inp = (Inr res, en')"
    and "admit_request (en_store en) req (ev_now inp) (request_pins rt en req inp) = Inr (s, r)"
    and "denies_access (engine_search_env en req (request_pins rt en req inp) s)
      (pinned_tuple_version en req (request_pins rt en req inp)) (req_subjectId req) w"
  shows "decision res = Deny \<and> reasonCode res \<in> {''DENY_EXPLICIT_OVERRIDE'', ''DENY_TRAVERSAL_BOUND_EXCEEDED''}"
proof -
  obtain p exceeded where "verdict (engine_search_env en req (request_pins rt en req inp) s) (caveat_context en req (ev_now inp))
      (pinned_tuple_version en req (request_pins rt en req inp)) (req_subjectId req)
      (maxDepth (no_traversalBounds (en_options en))) exceeded (decision res) (reasonCode res) p"
    using evaluation_verdict [OF engine_reachable_inv [OF assms(1)] assms(2,3)] by metis
  then show ?thesis by cases (use assms(4) in auto)
qed

definition denied_tuple :: relationship where
  "denied_tuple = (sample_tuple ''t3'' ''g'' ''denied'' ''d'')\<lparr>createdAt := [], assertedAt := []\<rparr>"

definition member_tuple :: relationship where
  "member_tuple = (sample_tuple ''t1'' ''u'' ''member_of'' ''g'')\<lparr>createdAt := [], assertedAt := []\<rparr>"

definition viewer_tuple :: relationship where
  "viewer_tuple = (sample_tuple ''t2'' ''g'' ''viewer_of'' ''d'')\<lparr>createdAt := [], assertedAt := []\<rparr>"

definition denied_engine :: engine where
  "denied_engine = small_engine\<lparr>en_store := upsert_relationship denied_tuple small_store\<rparr>"

lemma denied_engine_reachable: "engine_reachable denied_engine"
  unfolding denied_engine_def
  using engine_reachable.store_changed [OF small_engine_reachable] store_step.upsert_relationship [of small_store denied_tuple]
  by simp

lemma denied_pins: "request_pins rt denied_engine (risk_request a n) sample_inputs =
    request_pins rt small_engine (risk_request a n) sample_inputs"
  by (simp add: request_pins_def denied_engine_def)

lemma denied_admitted:
  "admit_request (en_store denied_engine) (risk_request a n) (ev_now sample_inputs)
     (request_pins rt denied_engine (risk_request a n) sample_inputs) = Inr (small_user, small_document)"
proof -
  have "visible_subject_at (upsert_relationship v st) = visible_subject_at st"
    "visible_resource_at (upsert_relationship v st) = visible_resource_at st" for v st
    by (intro ext, simp add: visible_subject_at_def visible_resource_at_def get_subject_def get_resource_def
        upsert_relationship_def Let_def)+
  then show ?thesis using admitted_small unfolding admit_iff denied_pins by (simp add: denied_engine_def)
qed

lemma denied_walk:
  "denies_access (engine_search_env denied_engine (risk_request ''read'' 10)
       (request_pins rt denied_engine (risk_request ''read'' 10) sample_inputs) small_user)
     (pinned_tuple_version denied_engine (risk_request ''read'' 10)
       (request_pins rt denied_engine (risk_request ''read'' 10) sample_inputs))
     (req_subjectId (risk_request ''read'' 10)) [member_tuple, denied_tuple]"
  unfolding denied_pins risk_pins by code_simp

lemma explicit_deny_overrides_witness:
  "\<exists>res en'. evaluate quiet_runtime denied_engine (risk_request ''read'' 10) True sample_inputs = (Inr res, en') \<and>
     decision res = Deny"
proof -
  obtain res en' where ev: "evaluate quiet_runtime denied_engine (risk_request ''read'' 10) True sample_inputs = (Inr res, en')"
    using evaluate_total [OF engine_reachable_inv [OF denied_engine_reachable] unreadable_now] by metis
  from explicit_deny_overrides [OF denied_engine_reachable ev denied_admitted denied_walk] ev show ?thesis by blast
qed

text \<open>
  C5: a grant suffices. When the policy's grants connect the subject to the resource and no deny
  relation reaches it, the request is allowed, unless a traversal bound stopped the search or some
  step of a granting path within the depth bound, the path that is reported, has a caveat that does
  not hold: a path within the bounds is never missed, and only a failing caveat stands in its way.
\<close>
theorem grants_are_honoured:
  assumes "engine_reachable en" "evaluate rt en req explained inp = (Inr res, en')"
    and "admit_request (en_store en) req (ev_now inp) (request_pins rt en req inp) = Inr (s, r)"
    and "grants_access (engine_search_env en req (request_pins rt en req inp) s)
      (pinned_tuple_version en req (request_pins rt en req inp)) (req_subjectId req) w"
    and "\<forall>v. \<not> denies_access (engine_search_env en req (request_pins rt en req inp) s)
      (pinned_tuple_version en req (request_pins rt en req inp)) (req_subjectId req) v"
  shows "decision res = Allow \<or> decision res = Deny \<and>
    (reasonCode res = ''DENY_TRAVERSAL_BOUND_EXCEEDED'' \<or>
     (\<exists>p. grants_access (engine_search_env en req (request_pins rt en req inp) s)
          (pinned_tuple_version en req (request_pins rt en req inp)) (req_subjectId req) p \<and>
        length p \<le> maxDepth (no_traversalBounds (en_options en)) \<and>
        (\<exists>t \<in> set p. \<not> step_allowed (caveat_context en req (ev_now inp)) t) \<and>
        relationshipPath res = (if explained then map to_path_step p else [])))"
proof -
  obtain p exceeded where v: "verdict (engine_search_env en req (request_pins rt en req inp) s) (caveat_context en req (ev_now inp))
      (pinned_tuple_version en req (request_pins rt en req inp)) (req_subjectId req)
      (maxDepth (no_traversalBounds (en_options en))) exceeded (decision res) (reasonCode res) p"
    and path: "relationshipPath res = (if explained then map to_path_step p else [])"
    using evaluation_verdict [OF engine_reachable_inv [OF assms(1)] assms(2,3)] by metis
  from v show ?thesis
  proof cases
    case caveat
    then show ?thesis using path by blast
  qed (use assms(4,5) in auto)
qed

lemma small_relationship:
  "get_relationship small_store i = Some t \<Longrightarrow> t = member_tuple \<or> t = viewer_tuple"
proof -
  have "st_relationships small_store = [(''t1'', member_tuple), (''t2'', viewer_tuple)]" by code_simp
  then show "get_relationship small_store i = Some t \<Longrightarrow> t = member_tuple \<or> t = viewer_tuple"
    by (auto simp: get_relationship_def split: if_splits)
qed

lemma small_no_deny:
  "\<not> denies_access (engine_search_env small_engine (risk_request a n) pins small_user) pinned x w"
proof
  let ?env = "engine_search_env small_engine (risk_request a n) pins small_user"
  assume deny: "denies_access ?env pinned x w"
  from deny_walk_shape [OF deny [unfolded denies_access_def]]
  have shape: "w \<noteq> []" "relation (last w) \<in> set (deny_relations ?env)" by simp_all
  moreover have "deny_relations ?env = [''denied'']"
    by (simp add: deny_relations_def) code_simp
  moreover have "store_inv (env_store ?env)" using engine_inv_store [OF small_engine_inv] by simp
  from deny_walk [OF this deny] have "get_relationship small_store (entity_id (last w)) = Some (last w)"
    using shape(1) by (simp add: steps_hold_def)
  from small_relationship [OF this] have "relation (last w) \<in> {''member_of'', ''viewer_of''}"
    by (auto simp: member_tuple_def viewer_tuple_def sample_tuple_def)
  ultimately show False by auto
qed

lemma small_grant:
  "grants_access (engine_search_env small_engine (risk_request ''read'' 10)
       (request_pins rt small_engine (risk_request ''read'' 10) sample_inputs) small_user)
     (pinned_tuple_version small_engine (risk_request ''read'' 10)
       (request_pins rt small_engine (risk_request ''read'' 10) sample_inputs))
     (req_subjectId (risk_request ''read'' 10)) [member_tuple, viewer_tuple]"
  unfolding risk_pins by code_simp

text \<open>The conditional relationship of \<open>viewer_of\<close> is in scope for \<open>read\<close>, and its caveat holds at a score of 10.\<close>

lemma small_caveats:
  "matching_conditionals small_model ''read'' (relation viewer_tuple) \<noteq> []"
  "step_allowed (caveat_context small_engine (risk_request ''read'' 10) (ev_now sample_inputs)) member_tuple"
  "step_allowed (caveat_context small_engine (risk_request ''read'' 10) (ev_now sample_inputs)) viewer_tuple"
  by code_simp+

lemma grants_are_honoured_witness:
  "matching_conditionals small_model ''read'' (relation viewer_tuple) \<noteq> [] \<and>
   (\<exists>res en'. evaluate quiet_runtime small_engine (risk_request ''read'' 10) True sample_inputs = (Inr res, en') \<and>
     (decision res = Allow \<or> reasonCode res = ''DENY_TRAVERSAL_BOUND_EXCEEDED''))"
proof -
  obtain res en' where ev: "evaluate quiet_runtime small_engine (risk_request ''read'' 10) True sample_inputs = (Inr res, en')"
    using evaluate_total [OF small_engine_inv unreadable_now] by metis
  let ?pins = "request_pins quiet_runtime small_engine (risk_request ''read'' 10) sample_inputs"
  have "step_allowed (caveat_context small_engine (risk_request ''read'' 10) (ev_now sample_inputs)) t"
    if grant: "grants_access (engine_search_env small_engine (risk_request ''read'' 10) ?pins small_user)
        (pinned_tuple_version small_engine (risk_request ''read'' 10) ?pins) x p" and "t \<in> set p" for x p t
  proof -
    have "store_inv (env_store (engine_search_env small_engine (risk_request ''read'' 10) ?pins small_user))"
      using engine_inv_store [OF small_engine_inv] by simp
    from grant_walk [OF this grant] that(2) have "get_relationship small_store (entity_id t) = Some t"
      by (auto simp: steps_hold_def)
    from small_relationship [OF this] show ?thesis using small_caveats(2,3) by metis
  qed
  with grants_are_honoured [OF small_engine_reachable ev admitted_small small_grant] small_no_deny
  have "decision res = Allow \<or> reasonCode res = ''DENY_TRAVERSAL_BOUND_EXCEEDED''" by meson
  with ev small_caveats(1) show ?thesis by blast
qed

text \<open>
  the traversal report of a decision tells the truth about the bounds: it names an exceeded
  bound exactly when one of its counters is above its bound, and a request whose search
  exceeded a bound is never allowed.
\<close>
theorem exceeded_bound_denies:
  assumes "engine_reachable en"
    and "admit_request (en_store en) req now pins = Inr (s, r)"
    and "build_decision_context en req now pins = (c, scopes)"
  shows "let t = dc_traversal c; b = tr_bounds t in
    b = no_traversalBounds (en_options en) \<and>
    (tr_boundsExceeded t \<noteq> None \<longleftrightarrow> maxRelationshipScans b < tr_relationshipScans t \<or>
       maxVisitedNodes b < tr_visitedNodes t \<or> maxDepth b < tr_maxDepthReached t) \<and>
    (tr_boundsExceeded t \<noteq> None \<longrightarrow> dc_decision c = Deny)"
proof -
  note c = context_admitted [OF engine_reachable_inv [OF assms(1)] assms(2,3)]
  obtain g where g: "guard_ok g" "dc_traversal c = guard_report g" "g_bounds g = no_traversalBounds (en_options en)"
    using c(9) by blast
  have "tr_boundsExceeded (dc_traversal c) \<noteq> None \<Longrightarrow> dc_decision c = Deny"
    using c(1) by cases auto
  then show ?thesis using g by (auto simp: guard_report_def guard_ok_def Let_def not_le)
qed

lemma exceeded_bound_denies_witness:
  "tr_bounds (dc_traversal (fst (build_decision_context small_engine (risk_request ''read'' 10) (ev_now sample_inputs)
     (request_pins quiet_runtime small_engine (risk_request ''read'' 10) sample_inputs)))) =
   no_traversalBounds (en_options small_engine)"
proof -
  obtain c scopes where built: "build_decision_context small_engine (risk_request ''read'' 10) (ev_now sample_inputs)
     (request_pins quiet_runtime small_engine (risk_request ''read'' 10) sample_inputs) = (c, scopes)" by (metis prod.exhaust)
  from exceeded_bound_denies [OF small_engine_reachable admitted_small built] show ?thesis
    unfolding built by (simp add: Let_def)
qed

text \<open>
  tenants are isolated. Along the explained path of an allow every node reached, the resource
  included, has the tenant of the subject, or none when the subject has none.
\<close>
theorem allowed_path_stays_in_tenant:
  assumes "engine_reachable en" "evaluate rt en req True inp = (Inr res, en')" "decision res = Allow"
  shows "\<exists>s. visible_subject_at (en_store en) (req_subjectId req) (res_asOf res) = Some s \<and> relationshipPath res \<noteq> [] \<and>
    step_objectId (last (relationshipPath res)) = req_resourceId req \<and>
    (\<forall>step \<in> set (relationshipPath res).
       tenant_id_for (visible_node_at (en_store en) (step_objectId step) (res_asOf res)) = tenant_id_for (Some s))"
proof -
  have inv: "engine_inv en" using assms(1) by (rule engine_reachable_inv)
  obtain s r where admitted: "admit_request (en_store en) req (ev_now inp) (request_pins rt en req inp) = Inr (s, r)"
    using evaluation_refused(1) [OF inv assms(2)] assms(3)
    by (cases "admit_request (en_store en) req (ev_now inp) (request_pins rt en req inp)") auto
  let ?env = "engine_search_env en req (request_pins rt en req inp) s"
  obtain p exceeded where v: "verdict ?env (caveat_context en req (ev_now inp))
      (pinned_tuple_version en req (request_pins rt en req inp)) (req_subjectId req)
      (maxDepth (no_traversalBounds (en_options en))) exceeded Allow (reasonCode res) p"
    "relationshipPath res = map to_path_step p"
    using evaluation_verdict [OF inv assms(2) admitted] unfolding assms(3) if_True by blast
  have asOf: "res_asOf res = pin_asOf (request_pins rt en req inp)"
  proof -
    obtain c scopes where built: "build_decision_context en req (ev_now inp) (request_pins rt en req inp) = (c, scopes)"
      by (metis prod.exhaust)
    from evaluate_returns [OF assms(2) built] obtain perf where "to_decision_result rt c True perf = Inr res" by metis
    from result_fields(3) [OF this] context_admitted(4) [OF inv admitted built] show ?thesis by simp
  qed
  have "store_inv (env_store ?env)" using inv by (simp add: engine_inv_store)
  from grant_walk [OF this verdict_allow(1) [OF v(1)]]
  have walk: "connected (req_subjectId req) p (req_resourceId req)" "\<forall>t \<in> set p. in_tenant ?env t"
    by (auto simp: steps_hold_def)
  have "p \<noteq> []" using verdict_allow(1) [OF v(1)] by (auto simp: grants_access_def)
  moreover have "connected x p y \<Longrightarrow> p \<noteq> [] \<Longrightarrow> objectId (last p) = y" for x y
    by (induction p arbitrary: x) auto
  ultimately show ?thesis
    using walk in_tenant_node [of ?env _ s] admitted v(2) asOf
    by (auto simp: admit_iff to_path_step_def last_map)
qed

lemma allowed_path_stays_in_tenant_witness:
  "\<exists>(res :: decision_result) en'. evaluate quiet_runtime small_engine (risk_request ''read'' 10) True sample_inputs = (Inr res, en') \<and>
     relationshipPath res \<noteq> []"
proof -
  obtain res en' where ev: "evaluate quiet_runtime small_engine (risk_request ''read'' 10) True sample_inputs = (Inr res, en')"
    "decision res = Allow" by (rule risk_10_allowed)
  from allowed_path_stays_in_tenant [OF small_engine_reachable ev] ev show ?thesis by blast
qed

subsection \<open>What does not matter\<close>

lemma decide_scope_irrelevant:
  assumes "scope_good (env_store env) (env_asOf env) pinned sc" "scope_good (env_store env) (env_asOf env) pinned sc'"
  shows "fst (decide_on_graph en req now env sc g) = fst (decide_on_graph en req now env sc' g) \<and>
    fst (snd (decide_on_graph en req now env sc g)) = fst (snd (decide_on_graph en req now env sc' g))"
proof -
  obtain p g1 sc1 where deny: "find_deny_path env sc g (req_subjectId req) = (p, g1, sc1)" by (metis prod_cases3)
  moreover obtain p' g1' sc1' where deny': "find_deny_path env sc' g (req_subjectId req) = (p', g1', sc1')" by (metis prod_cases3)
  moreover have "p = p'" "g1 = g1'" using find_paths_cache_irrelevant(3,4) [OF assms, of g "req_subjectId req"] deny deny' by simp_all
  moreover have good: "scope_good (env_store env) (env_asOf env) pinned sc1" "scope_good (env_store env) (env_asOf env) pinned sc1'"
    using find_deny_path_correct [OF assms(1) deny] find_deny_path_correct [OF assms(2) deny'] by simp_all
  moreover obtain q g2 sc2 where allow: "find_allow_path env sc1 g1 (req_subjectId req) = (q, g2, sc2)" by (metis prod_cases3)
  moreover obtain q' g2' sc2' where allow': "find_allow_path env sc1' g1' (req_subjectId req) = (q', g2', sc2')" by (metis prod_cases3)
  moreover have "q = q'" "g2 = g2'"
    using find_paths_cache_irrelevant(1,2) [OF good, of g1 "req_subjectId req"] allow allow' \<open>g1 = g1'\<close> by simp_all
  ultimately show ?thesis by (simp add: decide_on_graph_def split: caveat_result.split)
qed

lemma context_scopes_irrelevant:
  assumes inv: "engine_inv en"
  shows "fst (build_decision_context en req now pins) = fst (build_decision_context (en\<lparr>en_scopes := []\<rparr>) req now pins)"
proof (cases "admit_request (en_store en) req now pins")
  case (Inr x)
  obtain s r where x: "x = (s, r)" by (cases x)
  let ?env = "engine_search_env en req pins s" and ?en = "en\<lparr>en_scopes := []\<rparr>"
  have date: "date_parse (pin_asOf pins) \<noteq> None" using Inr by (rule admitted_date)
  obtain k sc m where scope: "active_relationship_scope (en_store en) (en_scopes en) (pin_asOf pins) (pinned_tuple_version en req pins) = (k, sc, m)"
    by (metis prod_cases3)
  obtain k' sc' m' where scope': "active_relationship_scope (en_store en) [] (pin_asOf pins) (pinned_tuple_version en req pins) = (k', sc', m')"
    by (metis prod_cases3)
  have ok: "scopes_ok (en_store en) (en_scopes en)" using inv by (simp add: engine_inv_def)
  have good: "scope_good (env_store ?env) (env_asOf ?env) (pinned_tuple_version en req pins) sc"
    "scope_good (env_store ?env) (env_asOf ?env) (pinned_tuple_version en req pins) sc'"
    using active_scope_sound(2) [OF ok date scope] active_scope_sound(2) [OF scopes_ok_empty date scope'] by simp_all
  have same: "engine_search_env ?en req pins s = ?env" "pinned_tuple_version ?en req pins = pinned_tuple_version en req pins"
    by (simp_all add: engine_search_env_def pinned_tuple_version_def)
  have parts: "en_store ?en = en_store en" "en_policyModel ?en = en_policyModel en" by simp_all
  have decide: "decide_on_graph ?en = decide_on_graph en"
    by (intro ext, unfold decide_on_graph_def parts, rule refl)
  let ?g = "new_guard (no_traversalBounds (en_options en)) (graph_size_of (en_store en)) (req_subjectId req)"
  obtain d reason p cs g1 s1 where decided: "decide_on_graph en req now ?env sc ?g = ((d, reason, p, cs), g1, s1)"
    by (metis prod_cases4 prod_cases3)
  obtain s2 where "decide_on_graph en req now ?env sc' ?g = ((d, reason, p, cs), g1, s2)"
    using decide_scope_irrelevant [OF good, of en req now ?g] decided by (metis fst_conv snd_conv prod.exhaust)
  then show ?thesis
    using Inr x scope scope' decided by (simp add: build_decision_context_def Let_def same decide)
qed (simp add: build_decision_context_def Let_def)

lemma result_of_context:
  "fst (evaluate rt en req explained inp) =
     (let c = fst (build_decision_context en req (ev_now inp) (request_pins rt en req inp)) in
      to_decision_result rt c explained (create_performance_report (max 0 (ev_finishedAt inp - ev_startedAt inp))
        (latency_targets_for_graph_size (tr_graphSize (dc_traversal c)))))"
  by (simp add: evaluate_def request_pins_def Let_def split: prod.split sum.split)

text \<open>
  C4: the cache of active relationships is transparent: a reachable engine answers every request
  exactly as it would with an empty cache, whatever was decided and whatever was changed in the
  store before.
\<close>
theorem scope_cache_is_transparent:
  assumes "engine_reachable en"
  shows "fst (evaluate rt en req explained inp) = fst (evaluate rt (en\<lparr>en_scopes := []\<rparr>) req explained inp)"
proof -
  have pins: "request_pins rt (en\<lparr>en_scopes := []\<rparr>) req inp = request_pins rt en req inp" by (simp add: request_pins_def)
  show ?thesis
    unfolding result_of_context pins context_scopes_irrelevant [OF engine_reachable_inv [OF assms]] by simp
qed

lemma scope_cache_is_transparent_witness:
  "let en = snd (evaluate quiet_runtime small_engine (risk_request ''read'' 10) True sample_inputs) in
   fst (evaluate quiet_runtime en (risk_request ''read'' 10) True sample_inputs) =
   fst (evaluate quiet_runtime (en\<lparr>en_scopes := []\<rparr>) (risk_request ''read'' 10) True sample_inputs)"
  unfolding Let_def by (rule scope_cache_is_transparent [OF engine_reachable.evaluated [OF small_engine_reachable]])

text \<open>
  Checking and explaining agree: both fail with the same error, or both return the same
  decision with the same reason, pins and instants; they differ only in the relationship path,
  which a check leaves empty, and in the decision id and constraints that record the mode.
\<close>
theorem explain_agrees_with_check:
  "case (fst (check rt en req inp), fst (explain rt en req inp)) of
     (Inl e, Inl e') \<Rightarrow> e = e'
   | (Inr res, Inr res') \<Rightarrow> relationshipPath res = [] \<and>
       res' = res\<lparr>decisionId := decisionId res', relationshipPath := relationshipPath res', constraints := constraints res'\<rparr>
   | _ \<Rightarrow> False"
  unfolding check_def explain_def result_of_context to_decision_result_def Let_def
  by (simp split: sum.split)

subsection \<open>What is refused\<close>

text \<open>
  a request about an unreadable instant, or about one after the time of evaluation, is denied,
  and the decision is pinned to the time of evaluation instead.
\<close>
theorem unknowable_instants_are_denied:
  assumes reach: "engine_reachable en" and ev: "evaluate rt en req explained inp = (Inr res, en')"
    and asked: "req_asOf req = Some a"
    and bad: "date_parse a = None \<or> later (date_parse a) (date_parse (ev_now inp))"
  shows "decision res = Deny \<and> res_asOf res = ev_now inp \<and> relationshipPath res = [] \<and>
    reasonCode res = (if date_parse a = None then ''DENY_INVALID_AS_OF'' else ''DENY_AS_OF_IN_FUTURE'')"
proof -
  have pin: "pin_asOf (request_pins rt en req inp) = a"
    by (simp add: request_pins_def normalize_version_pins_def asked coalesce_def)
  obtain d where d: "admit_request (en_store en) req (ev_now inp) (request_pins rt en req inp) = Inl d"
    "pin_asOf (ed_pins d) = ev_now inp"
    "ed_reasonCode d = (if date_parse a = None then ''DENY_INVALID_AS_OF'' else ''DENY_AS_OF_IN_FUTURE'')"
    using bad by (cases "date_parse a") (auto simp: admit_request_def check_instant_def pin)
  from evaluation_refused [OF engine_reachable_inv [OF reach] ev d(1)] d(2,3) show ?thesis by simp
qed

lemma unknowable_instants_are_denied_witness:
  "\<exists>res en'. evaluate quiet_runtime small_engine ((risk_request ''read'' 10)\<lparr>req_asOf := Some ''soon''\<rparr>) True sample_inputs =
     (Inr res, en') \<and> reasonCode res = ''DENY_INVALID_AS_OF''"
proof -
  let ?req = "(risk_request ''read'' 10)\<lparr>req_asOf := Some ''soon''\<rparr>"
  obtain res en' where ev: "evaluate quiet_runtime small_engine ?req True sample_inputs = (Inr res, en')"
    using evaluate_total [OF small_engine_inv unreadable_now] by metis
  have "date_parse ''soon'' = None" by code_simp
  with unknowable_instants_are_denied [OF small_engine_reachable ev, of "''soon''"] ev show ?thesis by simp
qed

end
