(* ===== verification/Engine_Evidence.thy ===== *)
theory Engine_Evidence
  imports Engine_Decisions
begin

text \<open>
  What an evaluation leaves behind (the stored decision, one audit event, a log that still
  verifies), how caveats fail, and two behaviours of the code that the documentation does not
  mention: action names in caveats are compared with their case, and a classification named like
  an inherited property makes an evaluation fail without a trace.
\<close>

subsection \<open>The record of a decision\<close>

lemma record_event_fields:
  "eventType (fst (record_event rt i t es)) = in_eventType i" "occurredAt (fst (record_event rt i t es)) = t"
  "actor (fst (record_event rt i t es)) = in_actor i" "event_subjectId (fst (record_event rt i t es)) = in_subjectId i"
  "event_resourceId (fst (record_event rt i t es)) = in_resourceId i" "payload (fst (record_event rt i t es)) = in_payload i"
  "previousEventHash (fst (record_event rt i t es)) = last_hash rt es"
  "correlationId (fst (record_event rt i t es)) = in_correlationId i"
  by (simp_all add: record_event_def Let_def)

text \<open>
  every returned decision is on record: it is stored under its id, and exactly one event is
  appended, the same one to the recorder and to the store, saying what was decided for whom,
  chained to the recorder's last event. Relationships, nodes and the rest of the store are
  untouched.
\<close>
theorem evaluation_is_recorded:
  assumes "evaluate rt en req explained inp = (Inr res, en')"
  shows "\<exists>e. en_recorder en' = en_recorder en @ [e] \<and>
    list_audit_events (en_store en') no_audit_filter = list_audit_events (en_store en) no_audit_filter @ [e] \<and>
    map_get (st_decisions (en_store en')) (decisionId res) = Some res \<and>
    eventType e = (if decision res = Allow then ''decision.allowed'' else ''decision.denied'') \<and>
    event_subjectId e = Some (req_subjectId req) \<and> event_resourceId e = Some (req_resourceId req) \<and>
    occurredAt e = ev_now inp \<and> correlationId e = ''corr:'' @ decisionId res \<and>
    previousEventHash e = last_hash rt (en_recorder en) \<and>
    map_get (payload e) ''reasonCode'' = Some (JStr (reasonCode res)) \<and>
    en_store en' = (en_store en)\<lparr>st_decisions := st_decisions (en_store en'), st_auditEvents := st_auditEvents (en_store en')\<rparr>"
proof -
  obtain c scopes where built: "build_decision_context en req (ev_now inp) (request_pins rt en req inp) = (c, scopes)"
    by (metis prod.exhaust)
  from assms built obtain perf e p where res: "to_decision_result rt c explained perf = Inr res"
    and e: "e = fst (record_event rt (decision_audit_input en inp res p) (ev_now inp) (en_recorder en))"
    and p: "p = decision_audit_payload res explained (dc_traversal c) perf"
    and en': "en' = en\<lparr>en_store := record_audit_event e (record_decision res (en_store en)),
       en_recorder := en_recorder en @ [e], en_scopes := scopes\<rparr>"
    by (rule evaluate_returns)
  have req: "dc_request c = req"
    using built by (auto simp: build_decision_context_def Let_def split: sum.splits prod.splits)
  have "map_get p ''reasonCode'' = Some (JStr (reasonCode res))" by (simp add: p decision_audit_payload_def)
  then show ?thesis
    using result_fields(5,7) [OF res]
    by (intro exI [of _ e])
      (simp add: en' e record_event_fields decision_audit_input_def record_audit_event_def record_decision_def
        list_audit_events_def no_audit_filter_def req)
qed

lemma evaluation_is_recorded_witness:
  "\<exists>res en' e. evaluate quiet_runtime small_engine (risk_request ''read'' 10) True sample_inputs = (Inr res, en') \<and>
     en_recorder en' = [e] \<and> eventType e = ''decision.allowed''"
proof -
  obtain res en' where ev: "evaluate quiet_runtime small_engine (risk_request ''read'' 10) True sample_inputs = (Inr res, en')"
    "decision res = Allow" by (rule risk_10_allowed)
  have "en_recorder small_engine = []" by (simp add: small_engine_def)
  with evaluation_is_recorded [OF ev(1)] ev show ?thesis by auto
qed

subsection \<open>Sessions\<close>

text \<open>A session: requests evaluated one after the other, checks and explanations alike.\<close>

definition session :: "runtime \<Rightarrow> (decision_request \<times> bool \<times> evaluation_inputs) list \<Rightarrow> engine \<Rightarrow> engine" where
  "session rt requests en = fold (\<lambda>(req, explained, inp) en. snd (evaluate rt en req explained inp)) requests en"

lemma evaluate_logs:
  obtains es where "length es \<le> 1" "en_recorder (snd (evaluate rt en req explained inp)) = en_recorder en @ es"
    "st_auditEvents (en_store (snd (evaluate rt en req explained inp))) = st_auditEvents (en_store en) @ es"
    "chained_from rt None (en_recorder en) \<longrightarrow> chained_from rt None (en_recorder en @ es)"
proof -
  obtain x en' where ev: "evaluate rt en req explained inp = (x, en')" by (metis prod.exhaust)
  obtain c scopes where built: "build_decision_context en req (ev_now inp) (request_pins rt en req inp) = (c, scopes)"
    by (metis prod.exhaust)
  show thesis
  proof (cases x)
    case (Inl y)
    from evaluate_throws [OF ev [unfolded Inl] built] ev that [of "[]"] show thesis by simp
  next
    case (Inr res)
    from ev [unfolded Inr] built obtain perf e p
      where e: "e = fst (record_event rt (decision_audit_input en inp res p) (ev_now inp) (en_recorder en))"
      and en': "en' = en\<lparr>en_store := record_audit_event e (record_decision res (en_store en)),
        en_recorder := en_recorder en @ [e], en_scopes := scopes\<rparr>"
      by (rule evaluate_returns)
    have "chained_from rt None (en_recorder en) \<longrightarrow> chained_from rt None (en_recorder en @ [e])"
      unfolding e record_event_appends [symmetric] by (intro impI record_event_chained)
    then show thesis
      using that [of "[e]"] en' ev by (simp add: record_audit_event_def record_decision_def)
  qed
qed

text \<open>
  C6: over any session the recorder and the store receive the same events in the same order, at
  most one per request, nothing is removed, and a recorder log that verified before still
  verifies: decisions cannot be dropped from the log or slipped into it.
\<close>
theorem session_keeps_log_verified:
  assumes "integrity_status (verify_audit_chain rt (en_recorder en) occ) = Verified"
  shows "\<exists>es. en_recorder (session rt requests en) = en_recorder en @ es \<and>
    st_auditEvents (en_store (session rt requests en)) = st_auditEvents (en_store en) @ es \<and>
    length es \<le> length requests \<and>
    integrity_status (verify_audit_chain rt (en_recorder (session rt requests en)) occ) = Verified"
  using assms unfolding verified_iff_chained_from
proof (induction requests arbitrary: en)
  case Nil
  then show ?case by (simp add: session_def)
next
  case (Cons q requests)
  obtain req explained inp where q: "q = (req, explained, inp)" by (metis prod_cases3)
  let ?en = "snd (evaluate rt en req explained inp)"
  obtain es where es: "length es \<le> 1" "en_recorder ?en = en_recorder en @ es"
    "st_auditEvents (en_store ?en) = st_auditEvents (en_store en) @ es"
    "chained_from rt None (en_recorder en) \<longrightarrow> chained_from rt None (en_recorder en @ es)"
    by (rule evaluate_logs)
  have "chained_from rt None (en_recorder ?en)" using es(2,4) Cons.prems by simp
  from Cons.IH [OF this] obtain fs where fs: "en_recorder (session rt requests ?en) = en_recorder ?en @ fs"
    "st_auditEvents (en_store (session rt requests ?en)) = st_auditEvents (en_store ?en) @ fs"
    "length fs \<le> length requests" "chained_from rt None (en_recorder (session rt requests ?en))" by blast
  have "session rt (q # requests) en = session rt requests ?en" by (simp add: session_def q)
  with es fs show ?case by (intro exI [of _ "es @ fs"]) simp
qed

lemma session_keeps_log_verified_witness:
  "\<exists>es. en_recorder (session quiet_runtime [(risk_request ''read'' 10, True, sample_inputs), (risk_request ''read'' 90, False, sample_inputs)]
     small_engine) = es \<and> length es \<le> 2"
proof -
  have "en_recorder small_engine = []" by (simp add: small_engine_def)
  moreover have "integrity_status (verify_audit_chain quiet_runtime [] ''later'') = Verified"
    by (simp add: verify_audit_chain_def Let_def)
  ultimately show ?thesis
    using session_keeps_log_verified [of quiet_runtime small_engine "''later''"
        "[(risk_request ''read'' 10, True, sample_inputs), (risk_request ''read'' 90, False, sample_inputs)]"] by auto
qed

subsection \<open>Caveats\<close>

lemma map_put_all_get:
  "map_get (map_put_all key vs m) k = Some v \<Longrightarrow> v \<in> set vs \<and> key v = k \<or> map_get m k = Some v"
  unfolding map_put_all_def
proof (induction vs arbitrary: m)
  case (Cons w vs)
  from Cons.IH [of "map_set (key w) w m"] Cons.prems show ?case by (auto split: if_splits)
qed simp

lemma caveats_by_name_declared:
  "map_get (caveats_by_name m) n = Some cv \<Longrightarrow> cv \<in> set (model_caveats m) \<and> caveat_name cv = n"
  using map_put_all_get [of caveat_name "model_caveats m" "[]" n cv] by (simp add: caveats_by_name_def)

text \<open>
  caveats fail closed. When they allow a path, every caveat of every conditional relationship
  that applies to a step is declared in the model and each of its conditions passed on that
  step's relationship: a missing or mistyped value, an undeclared caveat or an ambiguous
  conditional relationship denies.
\<close>
theorem caveats_fail_closed:
  assumes "evaluate_conditional_caveats env p = Caveats_allow cs" "path_ok p" "r \<in> set (path_relationships p)"
    and "c \<in> set (matching_conditionals (ce_model env) (req_action (ce_request env)) (relation r))" "n \<in> set (cr_caveats c)"
  shows "\<exists>cv \<in> set (model_caveats (ce_model env)). caveat_name cv = n \<and>
    (\<forall>cond \<in> set (caveat_conditions cv). \<exists>v.
       resolve_condition_value (ce_store env) (ce_request env) r (ce_evaluatedAt env) cond = Some v \<and>
       value_matches_context_type v (cond_type cond) \<and> compare_condition v (cond_operator cond) (cond_value cond))"
proof -
  have "step_allowed env r" using caveats_allow_iff [OF assms(2), of env] assms(1,3) by auto
  then have "caveat_holds env r n" using assms(4,5) by (auto simp: step_allowed_def split: list.splits)
  then obtain cv where cv: "map_get (caveats_by_name (ce_model env)) n = Some cv"
    "\<forall>cond \<in> set (caveat_conditions cv). condition_status (ce_store env) (ce_request env) r (ce_evaluatedAt env) cond = ''pass''"
    by (auto simp: caveat_holds_def split: option.splits)
  have "cv \<in> set (model_caveats (ce_model env)) \<and> caveat_name cv = n"
    using cv(1) by (rule caveats_by_name_declared)
  with cv(2) show ?thesis
    by (force simp: condition_status_def split: option.splits if_splits)
qed

lemma caveats_fail_closed_witness:
  "\<exists>v. resolve_condition_value small_store (risk_request ''read'' 10) viewer_tuple ''later''
      \<lparr>cond_source = From_context, cond_key = ''riskScore'', cond_type = Type_number,
       cond_operator = Less_than_or_equal, cond_value = JNum 50\<rparr> = Some v \<and> compare_condition v Less_than_or_equal (JNum 50)"
proof -
  let ?env = "caveat_context small_engine (risk_request ''read'' 10) ''later''"
    and ?p = "\<lparr>path_steps = [to_path_step member_tuple, to_path_step viewer_tuple], path_relationships = [member_tuple, viewer_tuple]\<rparr>"
    and ?c = "\<lparr>cr_relation = ''viewer_of'', cr_caveats = [''low-risk''], cr_actions = Some [''read'']\<rparr>"
  have "case evaluate_conditional_caveats ?env ?p of Caveats_allow _ \<Rightarrow> True | _ \<Rightarrow> False" by code_simp
  then obtain cs where "evaluate_conditional_caveats ?env ?p = Caveats_allow cs" by (auto split: caveat_result.splits)
  moreover have "path_ok ?p" by (simp add: path_ok_def)
  moreover have "?c \<in> set (matching_conditionals (ce_model ?env) (req_action (ce_request ?env)) (relation viewer_tuple))"
    by code_simp
  ultimately obtain cv where "cv \<in> set (model_caveats (ce_model ?env))"
    "\<forall>cond \<in> set (caveat_conditions cv). \<exists>v.
       resolve_condition_value (ce_store ?env) (ce_request ?env) viewer_tuple (ce_evaluatedAt ?env) cond = Some v \<and>
       value_matches_context_type v (cond_type cond) \<and> compare_condition v (cond_operator cond) (cond_value cond)"
    using caveats_fail_closed [of ?env ?p _ viewer_tuple ?c "''low-risk''"] by auto
  then show ?thesis
    by (auto simp: caveat_context_def small_engine_def small_model_def caveat_policy_model_def model_caveats_def coalesce_def)
qed

text \<open>
  caveats are scoped to actions with their case, grants are not. Reading the document is
  denied at a risk score of 90, while the same request with the action \<open>READ\<close>, granted by the same
  relations, is allowed: the caveat for \<open>read\<close> is not consulted.
\<close>
theorem caveat_scope_is_case_sensitive:
  "(\<exists>reason cs. evaluate_conditional_caveats (caveat_context small_engine (risk_request ''read'' 90) ''later'')
      \<lparr>path_steps = map to_path_step [member_tuple, viewer_tuple], path_relationships = [member_tuple, viewer_tuple]\<rparr> =
      Caveats_deny reason cs \<and> reason = ''DENY_RISK_TOO_HIGH'') \<and>
   (\<exists>res en'. evaluate quiet_runtime small_engine (risk_request ''READ'' 90) True sample_inputs = (Inr res, en') \<and>
      decision res = Allow)"
proof
  let ?env = "caveat_context small_engine (risk_request ''read'' 90) ''later''"
    and ?p = "\<lparr>path_steps = map to_path_step [member_tuple, viewer_tuple], path_relationships = [member_tuple, viewer_tuple]\<rparr>"
  have "case evaluate_conditional_caveats ?env ?p of Caveats_deny reason _ \<Rightarrow> reason = ''DENY_RISK_TOO_HIGH'' | _ \<Rightarrow> False"
    by code_simp
  then show "\<exists>reason cs. evaluate_conditional_caveats ?env ?p = Caveats_deny reason cs \<and> reason = ''DENY_RISK_TOO_HIGH''"
    by (auto split: caveat_result.splits)
  have "dc_decision (fst (build_decision_context small_engine (risk_request ''READ'' 90) ''later''
      (request_pins quiet_runtime small_engine (risk_request ''READ'' 90) sample_inputs))) = Allow"
    unfolding risk_pins by code_simp
  then show "\<exists>res en'. evaluate quiet_runtime small_engine (risk_request ''READ'' 90) True sample_inputs = (Inr res, en') \<and>
      decision res = Allow"
    using evaluate_total [OF small_engine_inv unreadable_now, of quiet_runtime "risk_request ''READ'' 90" True]
    unfolding sample_now by metis
qed

subsection \<open>Failing evaluations\<close>

text \<open>
  an admitted request for a resource whose classification, lower-cased, is \<open>constructor\<close> never
  gets an answer at a valid time: the time to live is looked up as an inherited property, the
  expiry is no date and the evaluation throws. No decision is stored and no event is recorded.
\<close>
theorem inherited_classification_loses_decision:
  assumes reach: "engine_reachable en"
    and admitted: "admit_request (en_store en) req (ev_now inp) (request_pins rt en req inp) = Inr (s, r)"
    and inherited: "normalize_classification (Some (classification r)) = ''constructor''"
    and now: "ev_now inp = iso_text t" "\<bar>t\<bar> \<le> max_time"
  shows "\<exists>en'. evaluate rt en req explained inp = (Inl Invalid_time_value, en') \<and>
    en_store en' = en_store en \<and> en_recorder en' = en_recorder en"
proof -
  have inv: "engine_inv en" using reach by (rule engine_reachable_inv)
  obtain c scopes where built: "build_decision_context en req (ev_now inp) (request_pins rt en req inp) = (c, scopes)"
    by (metis prod.exhaust)
  note c = context_admitted [OF inv admitted built]
  have "create_cache_metadata rt (dc_request c) (dc_pins c) (dc_tenantId c) (dc_classification c) (dc_evaluatedAt c) = Inl Invalid_time_value"
    using inherited date_parse_iso_text [OF now(2)]
    by (simp add: create_cache_metadata_def Let_def max_ttl_seconds_def ttl_by_classification_def add_seconds_def c(6,8) now(1))
  then have "to_decision_result rt c explained perf = Inl Invalid_time_value" for perf
    by (simp add: to_decision_result_def)
  then have "evaluate rt en req explained inp = (Inl Invalid_time_value, en\<lparr>en_scopes := scopes\<rparr>)"
    using built by (simp add: evaluate_def request_pins_def Let_def)
  then show ?thesis by simp
qed

definition constructor_engine :: engine where
  "constructor_engine = small_engine\<lparr>en_store := upsert_resource (small_document\<lparr>classification := ''Constructor''\<rparr>) small_store\<rparr>"

lemma inherited_classification_loses_decision_witness:
  "\<exists>en'. evaluate quiet_runtime constructor_engine (risk_request ''read'' 10) True
     (sample_inputs\<lparr>ev_now := iso_text 1800000000000\<rparr>) = (Inl Invalid_time_value, en') \<and>
     en_recorder en' = en_recorder constructor_engine"
proof -
  let ?inp = "sample_inputs\<lparr>ev_now := iso_text 1800000000000\<rparr>" and ?req = "risk_request ''read'' 10"
    and ?doc = "small_document\<lparr>classification := ''Constructor''\<rparr>"
  have reach: "engine_reachable constructor_engine"
    unfolding constructor_engine_def
    using engine_reachable.store_changed [OF small_engine_reachable] store_step.upsert_resource [of small_store ?doc] by simp
  have pins: "request_pins quiet_runtime constructor_engine ?req ?inp = request_pins quiet_runtime small_engine ?req sample_inputs"
    by (simp add: request_pins_def normalize_version_pins_def constructor_engine_def risk_request_def coalesce_def)
  have small: "visible_subject_at small_store ''u'' ''2026'' = Some small_user" "effective_lifecycle_state_at small_user ''2026'' = Some Active"
    "date_parse ''2026'' = Some 1767225600000"
    by code_simp+
  have doc: "visible_resource_at (upsert_resource ?doc small_store) ''d'' ''2026'' = Some ?doc" "effective_lifecycle_state_at ?doc ''2026'' = Some Active"
    by code_simp+
  have "visible_subject_at (upsert_resource ?doc small_store) ''u'' ''2026'' = Some small_user"
    using small(1) by (simp add: visible_subject_at_def get_subject_def upsert_resource_def)
  moreover have "tenant_id_for (Some small_user) = tenant_id_for (Some ?doc)" by code_simp
  moreover have "date_parse (iso_text 1800000000000) = Some 1800000000000"
    by (rule date_parse_iso_text) (simp add: max_time_def)
  ultimately have admitted: "admit_request (en_store constructor_engine) ?req (ev_now ?inp) (request_pins quiet_runtime constructor_engine ?req ?inp) =
      Inr (small_user, ?doc)"
    unfolding admit_iff pins risk_pins
    using small doc by (simp add: constructor_engine_def risk_request_def later_def)
  have "normalize_classification (Some (classification ?doc)) = ''constructor''" by code_simp
  from inherited_classification_loses_decision [OF reach admitted this, of 1800000000000 True] show ?thesis
    by (auto simp: max_time_def)
qed

end
