(* ===== verification/Runtime_Reach.thy ===== *)
theory Runtime_Reach
  imports Flow_Laws Runtime_Startup Engine_Evidence
begin

text \<open>
  The runtime as a state machine: the apps that \<open>createRebacLocalApp\<close> starts and the flows of the
  API change, with the outside world (the provider, the repositories, the actor of the request)
  changing in between. The locales of \<open>Runtime_Laws\<close> are interpreted on the relations below, which
  gives what every reachable app satisfies.
\<close>

subsection \<open>Steps\<close>

text \<open>
  The flows that store no provisioning job, which is every flow of the runtime that changes the app but
  the creation of one; \<open>services\<close>, what an evidence package needs from outside, may differ each time.
  The last flow is the server's record of a request it refused to authenticate.
\<close>

inductive app_flow :: "runtime \<Rightarrow> ('c, 'p) local_app \<Rightarrow> ('c, 'p) local_app \<Rightarrow> bool" for rt where
  decide: "app_flow rt a (snd (decide_and_persist rt x dreq timing a))"
| subject: "app_flow rt a (snd (create_subject rt s a))"
| resource: "app_flow rt a (snd (create_resource rt r a))"
| relate: "app_flow rt a (snd (put_relationship rt t a))"
| unrelate: "app_flow rt a (snd (remove_relationship rt i a))"
| sync: "app_flow rt a (snd (sync_connector rt i a))"
| access: "app_flow rt a (snd (read_native_access rt i f a))"
| test: "app_flow rt a (snd (test_connector i a))"
| readiness: "app_flow rt a (snd (check_enforcement_readiness rt i rreq a))"
| plan: "app_flow rt a (snd (create_provisioning_plan rt dreq timing ci opts key a))"
| revoke: "app_flow rt a (snd (create_revocation_plan rt i ci opts key a))"
| reconcile: "app_flow rt a (snd (run_reconciliation rt i trigger patch a))"
| remediate: "app_flow rt a (snd (plan_drift_remediation_dry_run rt i mreq timing k a))"
| draft: "app_flow rt a (snd (create_policy rt d k a))"
| validate: "app_flow rt a (snd (validate_policy rt i x a))"
| publish: "app_flow rt a (snd (publish_policy rt i ticket who k a))"
| rollback: "app_flow rt a (snd (rollback_policy rt i target ticket who k a))"
| events: "app_flow rt a (snd (export_audit_events rt since until sink a))"
| integrity: "app_flow rt a (snd (verify_audit_integrity rt a))"
| evidence: "app_flow rt a (snd (export_evidence_package rt services controls fmt framework since until a))"
| verification: "app_flow rt a (snd (verify_evidence_package rt services package k a))"
| refused: "app_flow rt a (snd (record_authentication_failure rt wallClock hr failure scope samples a))"

inductive app_step :: "runtime \<Rightarrow> ('c, 'p) local_app \<Rightarrow> ('c, 'p) local_app \<Rightarrow> bool" for rt where
  flow: "app_flow rt a b \<Longrightarrow> app_step rt a b"
| job: "app_step rt a (snd (create_provisioning_job rt req a))"
| outside: "app_step rt a (a\<lparr>app_requestActor := u, app_ticks := n, app_provider := w, app_disk := d\<rparr>)"

abbreviation app_steps :: "runtime \<Rightarrow> ('c, 'p) local_app \<Rightarrow> ('c, 'p) local_app \<Rightarrow> bool" where
  "app_steps rt \<equiv> (app_step rt)\<^sup>*\<^sup>*"

context plan_order
begin

lemma flow_ordered:
  assumes "app_flow rt a b"
  shows "R a b"
proof -
  note flows = decided subject_created resource_created relationship_put relationship_removed
    connector_synced access_read connector_tested readiness_checked plan_created revocation_created
    reconciled remediated policy_created policy_validated policy_published policy_rolled_back events_exported
    integrity_verified package_exported package_verified
  from assms show ?thesis
    by cases (simp_all only: flows [unfolded evolves_def, THEN spec] failure_recorded)
qed

end

context job_order
begin

lemma step_ordered:
  assumes "app_step rt a b"
  shows "R a b"
  using assms
proof cases
  case (job req)
  then show ?thesis using job_created by (simp add: evolves_def)
next
  case (outside d w n u)
  have "R a (a\<lparr>app_provider := w\<rparr>)" by (rule asked [OF free])
  moreover have "R (a\<lparr>app_provider := w\<rparr>) b" unfolding outside by (rule quiet) simp_all
  ultimately show ?thesis by (rule trans)
qed (rule flow_ordered)

lemma steps_ordered: "app_steps rt a b \<Longrightarrow> R a b"
  by (induction rule: rtranclp_induct) (auto intro: refl trans step_ordered)

end

subsection \<open>The relations\<close>

definition keeps_reachable :: "('c, 'p) local_app \<Rightarrow> ('c, 'p) local_app \<Rightarrow> bool" where
  "keeps_reachable a b \<longleftrightarrow> engine_reachable (app_engine a) \<longrightarrow> engine_reachable (app_engine b)"

definition keeps_receipts :: "('c, 'p) local_app \<Rightarrow> ('c, 'p) local_app \<Rightarrow> bool" where
  "keeps_receipts a b \<longleftrightarrow>
     length (app_degradations a) \<le> runtime_max_degradations \<longrightarrow> length (app_degradations b) \<le> runtime_max_degradations"

definition extends_log :: "runtime \<Rightarrow> ('c, 'p) local_app \<Rightarrow> ('c, 'p) local_app \<Rightarrow> bool" where
  "extends_log rt a b \<longleftrightarrow> (\<exists>es. en_recorder (app_engine b) = en_recorder (app_engine a) @ es \<and>
     st_auditEvents (app_store b) = st_auditEvents (app_store a) @ es \<and>
     (chained_from rt None (en_recorder (app_engine a)) \<longrightarrow> chained_from rt None (en_recorder (app_engine b))))"

definition same_jobs :: "rebac_store \<Rightarrow> rebac_store \<Rightarrow> bool" where
  "same_jobs s s' \<longleftrightarrow> st_provisioningJobs s' = st_provisioningJobs s"

definition keeps_jobs :: "('c, 'p) local_app \<Rightarrow> ('c, 'p) local_app \<Rightarrow> bool" where
  "keeps_jobs a b \<longleftrightarrow> same_jobs (app_store a) (app_store b)"

definition same_provider :: "('c, 'p) local_app \<Rightarrow> ('c, 'p) local_app \<Rightarrow> bool" where
  "same_provider a b \<longleftrightarrow> app_provider b = app_provider a"

definition same_actor :: "('c, 'p) local_app \<Rightarrow> ('c, 'p) local_app \<Rightarrow> bool" where
  "same_actor a b \<longleftrightarrow> app_actor b = app_actor a"

definition store_typed :: "rebac_store \<Rightarrow> bool" where
  "store_typed s \<longleftrightarrow> list_all plan_typed (map_values (st_provisioningPlans s)) \<and>
     list_all job_typed (map_values (st_provisioningJobs s))"

definition types_kept :: "rebac_store \<Rightarrow> rebac_store \<Rightarrow> bool" where
  "types_kept s s' \<longleftrightarrow> store_typed s \<longrightarrow> store_typed s'"

definition keeps_types :: "('c, 'p) local_app \<Rightarrow> ('c, 'p) local_app \<Rightarrow> bool" where
  "keeps_types a b \<longleftrightarrow> types_kept (app_store a) (app_store b)"

text \<open>The calls a watched connector has logged, and the step from one log to a longer one without an apply.\<close>

definition no_apply :: "'c \<times> connector_call list \<Rightarrow> 'c \<times> connector_call list \<Rightarrow> bool" where
  "no_apply w w' \<longleftrightarrow> (\<exists>cs. snd w' = snd w @ cs \<and> (\<forall>p. Called_apply p \<notin> set cs))"

definition applies_nothing ::
  "('c \<times> connector_call list, 'p) local_app \<Rightarrow> ('c \<times> connector_call list, 'p) local_app \<Rightarrow> bool" where
  "applies_nothing a b \<longleftrightarrow>
     (\<forall>i c. map_get (app_connectors a) i = Some c \<longrightarrow> confined no_apply c) \<longrightarrow>
     no_apply (app_provider a) (app_provider b) \<and>
     (\<forall>i c. map_get (app_connectors b) i = Some c \<longrightarrow> confined no_apply c)"

subsection \<open>Their laws\<close>

lemma evaluate_store:
  "st_provisioningJobs (en_store (snd (evaluate rt en req x inp))) = st_provisioningJobs (en_store en)"
  "st_provisioningPlans (en_store (snd (evaluate rt en req x inp))) = st_provisioningPlans (en_store en)"
  by (simp_all add: evaluate_def Let_def record_audit_event_def record_decision_def split: prod.split sum.split)

lemma all_values_set:
  "list_all P (map_values m) \<Longrightarrow> P v \<Longrightarrow> list_all P (map_values (map_set k v m))"
  by (induction m) auto

lemma typed_plan_kept: "plan_typed p \<Longrightarrow> types_kept s (upsert_provisioning_plan p s)"
  by (simp add: types_kept_def store_typed_def upsert_provisioning_plan_def all_values_set)

lemma typed_job_kept: "job_typed j \<Longrightarrow> types_kept s (upsert_provisioning_job j s)"
  by (simp add: types_kept_def store_typed_def upsert_provisioning_job_def all_values_set)

lemma confined_mode [simp]: "confined moves (c\<lparr>con_mode := m\<rparr>) = confined moves c"
  by (simp add: confined_def)

lemma confined_watched: "confined no_apply (watched c)"
  by (auto simp: confined_def no_apply_def watched_def below_def logged_def split: prod.split)

lemma app_store_simps [simp]:
  "app_store (with_store f a) = f (app_store a)" "app_provider (with_store f a) = app_provider a"
  "app_degradations (with_store f a) = app_degradations a" "app_connectors (with_store f a) = app_connectors a"
  "en_recorder (app_engine (with_store f a)) = en_recorder (app_engine a)"
  by (simp_all add: with_store_def app_store_def)

lemma store_replaced: "app_engine (with_store (\<lambda>_. s) a) = (app_engine a)\<lparr>en_store := s\<rparr>"
  by (simp add: with_store_def)

lemma mode_simps [simp]:
  "app_engine (set_connector_mode i m a) = app_engine a" "app_store (set_connector_mode i m a) = app_store a"
  "app_degradations (set_connector_mode i m a) = app_degradations a"
  "app_provider (set_connector_mode i m a) = app_provider a"
  "app_actor (set_connector_mode i m a) = app_actor a"
  by (simp_all add: set_connector_mode_def app_store_def split: option.split)

interpretation reach: job_order keeps_reachable rt "\<lambda>_ _. True" "\<lambda>_ _. True" for rt
proof unfold_locales
  fix a :: "('c, 'p) local_app" and i t e es
  assume ev: "record_event rt i t (en_recorder (app_engine a)) = (e, es)"
  have "engine_reachable (app_engine a) \<Longrightarrow> engine_reachable ((app_engine a)\<lparr>en_recorder := es\<rparr>)"
    using engine_reachable.event_recorded [of "app_engine a" rt i t] ev by simp
  then show "keeps_reachable a (with_store (record_audit_event e) (a\<lparr>app_engine := (app_engine a)\<lparr>en_recorder := es\<rparr>\<rparr>))"
    using engine_reachable.store_changed [OF _ store_step.record_audit_event [of _ e]]
    by (fastforce simp: keeps_reachable_def with_store_def)
qed (auto simp: keeps_reachable_def app_store_def store_replaced confined_def
    intro: engine_reachable.store_changed engine_reachable.evaluated)

interpretation receipts: job_order keeps_receipts rt "\<lambda>_ _. True" "\<lambda>_ _. True" for rt
  by unfold_locales (auto simp: keeps_receipts_def add_degradation_def runtime_max_degradations_def confined_def)

interpretation log: job_order "extends_log rt" rt "\<lambda>_ _. True" "\<lambda>_ _. True" for rt
proof unfold_locales
  fix a b c :: "('c, 'p) local_app"
  assume "extends_log rt a b" "extends_log rt b c"
  then show "extends_log rt a c" unfolding extends_log_def by fastforce
next
  fix a :: "('c, 'p) local_app" and i t e es
  assume ev: "record_event rt i t (en_recorder (app_engine a)) = (e, es)"
  then have "es = en_recorder (app_engine a) @ [e]"
    using record_event_appends [of rt i t "en_recorder (app_engine a)"] by simp
  moreover have "chained_from rt None (en_recorder (app_engine a)) \<Longrightarrow> chained_from rt None es"
    using record_event_chained [of rt "en_recorder (app_engine a)" i t] ev by simp
  ultimately show "extends_log rt a (with_store (record_audit_event e) (a\<lparr>app_engine := (app_engine a)\<lparr>en_recorder := es\<rparr>\<rparr>))"
    by (auto simp: extends_log_def with_store_def app_store_def record_audit_event_def)
next
  fix a :: "('c, 'p) local_app" and req x inp
  obtain es where "en_recorder (snd (evaluate rt (app_engine a) req x inp)) = en_recorder (app_engine a) @ es"
    "st_auditEvents (en_store (snd (evaluate rt (app_engine a) req x inp))) = st_auditEvents (en_store (app_engine a)) @ es"
    "chained_from rt None (en_recorder (app_engine a)) \<longrightarrow> chained_from rt None (en_recorder (app_engine a) @ es)"
    by (rule evaluate_logs)
  then show "extends_log rt a (a\<lparr>app_engine := snd (evaluate rt (app_engine a) req x inp)\<rparr>)"
    by (auto simp: extends_log_def app_store_def)
qed (auto simp: extends_log_def app_store_def store_replaced confined_def)

interpretation jobs: free_order keeps_jobs rt same_jobs "\<lambda>_ _. True" for rt
  by unfold_locales
    (auto simp: keeps_jobs_def same_jobs_def app_store_def evaluate_store store_replaced with_store_def
      record_audit_event_def upsert_provisioning_plan_def confined_def)

interpretation provider: runtime_order same_provider rt "\<lambda>_ _. True" for rt
  by unfold_locales (auto simp: same_provider_def)

interpretation actors: job_order same_actor rt "\<lambda>_ _. True" "\<lambda>_ _. True" for rt
  by unfold_locales (auto simp: same_actor_def with_store_def store_replaced confined_def)

interpretation types: free_order keeps_types rt types_kept "\<lambda>_ _. True" for rt
  by unfold_locales
    (auto simp: keeps_types_def types_kept_def store_typed_def app_store_def evaluate_store store_replaced with_store_def
      record_audit_event_def upsert_provisioning_plan_def all_values_set confined_def)

interpretation calls: plan_order applies_nothing rt "\<lambda>_ _. True" no_apply for rt
proof unfold_locales
  fix a b c :: "('c \<times> connector_call list, 'p) local_app"
  assume "applies_nothing a b" "applies_nothing b c"
  then show "applies_nothing a c" unfolding applies_nothing_def no_apply_def by fastforce
next
  fix a :: "('c \<times> connector_call list, 'p) local_app" and i m
  show "applies_nothing a (set_connector_mode i m a)"
    by (auto simp: applies_nothing_def no_apply_def set_connector_mode_def split: option.split if_splits)
qed (auto simp: applies_nothing_def no_apply_def)

subsection \<open>Apps a program can start\<close>

lemma seeding_bounded:
  "length (su_degradations s) \<le> runtime_max_degradations \<Longrightarrow>
     length (su_degradations (seed_empty_runtime_repositories per st clock g j s)) \<le> runtime_max_degradations"
  by (auto simp: seed_empty_runtime_repositories_def seeding_result_def Let_def add_degradation_def runtime_max_degradations_def
      split: option.split prod.split)

lemma started_app:
  assumes "create_local_app rt o' = Inr a"
  shows "engine_reachable (app_engine a)" "length (app_degradations a) \<le> runtime_max_degradations"
    "stateRepository (op_persistence o') \<noteq> None \<or> auditRepository (op_persistence o') = None \<Longrightarrow>
       en_recorder (app_engine a) = st_auditEvents (app_store a)"
proof -
  from assms obtain seed st0 n where "create_store seed = Inr st0" and start: "start_app o' st0 n = Inr a"
    by (auto simp: create_local_app_def Let_def split: sum.splits)
  then have reach: "store_reachable st0" by (intro store_reachable.created)
  define s where "s = seed_empty_runtime_repositories (op_persistence o') st0 (op_clock o') (kept_graph o') (kept_jobs o')
       \<lparr>su_degradations = list_persistence_degradations st0, su_ticks = n, su_disk = op_disk o'\<rparr>"
  define st where "st = replace_persistence_degradations (su_degradations s) st0"
  from start obtain events en where
    events: "initial_audit_events (op_persistence o') st (su_disk s) = Inr events" and
    en: "create_engine st (app_engine_options (coalesce (op_actor o') ''service:api'') events) = Inr en" and
    a: "app_engine a = en" "app_degradations a = su_degradations s"
    by (auto simp: start_app_def Let_def s_def [symmetric] st_def [symmetric] split: sum.splits)
  have "store_reachable st" unfolding st_def by (rule store_reachable.stepped [OF reach store_step.replace_degradations])
  from engine_reachable.created [OF this en] show "engine_reachable (app_engine a)" by (simp add: a)
  have "length (st_degradations st0) \<le> max_persistence_degradations"
    using reachable_inv [OF reach] by (simp add: store_inv_def)
  then show "length (app_degradations a) \<le> runtime_max_degradations"
    unfolding a s_def
    by (intro seeding_bounded)
      (simp add: list_persistence_degradations_def max_persistence_degradations_def runtime_max_degradations_def)
  have store: "en_store en = st" and rec: "en_recorder en = events"
    using en by (auto simp: create_engine_def app_engine_options_def Let_def coalesce_def split: sum.splits)
  show "en_recorder (app_engine a) = st_auditEvents (app_store a)"
    if "stateRepository (op_persistence o') \<noteq> None \<or> auditRepository (op_persistence o') = None"
    using that events
    by (auto simp: a rec store app_store_def initial_audit_events_def list_audit_events_def no_audit_filter_def
        split: if_splits option.splits)
qed

end
