(* ===== verification/Mock_Connector.thy ===== *)
theory Mock_Connector
  imports Connector_Adapter
begin

text \<open>
  The synthetic connectors of \<open>packages/connectors-mock/src/index.ts\<close>. None of them keeps or changes
  anything: their operations work over every provider state and leave it as it is. The last part
  states the contract of a connector that plans without changing its provider as a locale, proves
  what follows from it, and shows that the mock connector and the read-only connectors keep it.

  Not modelled here: the security reviews and the evidence exports.
\<close>

subsection \<open>Synthetic entities\<close>

definition mock_now :: string where
  "mock_now = ''2026-05-21T17:00:00.000Z''"

definition mock_subject ::
  "string \<Rightarrow> string \<Rightarrow> string \<Rightarrow> subject_type \<Rightarrow> (string \<times> string) list \<Rightarrow> json_record option \<Rightarrow> subject" where
  "mock_subject i name source type idents attrs =
    \<lparr>entity_id = i, version = ''subject:v1'', createdAt = mock_now, updatedAt = None,
     displayName = name, sourceSystem = source, lifecycleState = Active, attributes = attrs,
     lastSeenAt = Some mock_now, subject_type = type, identifiers = idents\<rparr>"

definition mock_resource :: "string \<Rightarrow> string \<Rightarrow> resource_type \<Rightarrow> string \<Rightarrow> string option \<Rightarrow> resource" where
  "mock_resource i name type source parent =
    \<lparr>entity_id = i, version = ''resource:v1'', createdAt = mock_now, updatedAt = None,
     displayName = name, sourceSystem = source, lifecycleState = Active, attributes = None,
     lastSeenAt = Some mock_now, resource_type = type, ownerId = ''user:owner'',
     dataStewardId = ''user:steward'', technicalOwnerId = ''user:tech-owner'',
     classification = ''internal'', parentId = parent\<rparr>"

definition mock_relationship :: "string \<Rightarrow> string \<Rightarrow> string \<Rightarrow> string \<Rightarrow> string \<Rightarrow> relationship" where
  "mock_relationship idSuffix s r ob source =
    \<lparr>entity_id = ''relationship:'' @ idSuffix, version = ''tuple:v1'', createdAt = mock_now, updatedAt = None,
     subjectId = s, relation = r, objectId = ob, tuple_sourceSystem = source, assertedAt = mock_now,
     assertedBy = None, expiresAt = None, tuple_status = Tuple_active, tuple_attributes = None\<rparr>"

fun grant_type_text :: "native_grant_type \<Rightarrow> string" where
  "grant_type_text Direct_grant = ''direct''"
| "grant_type_text Inherited_grant = ''inherited''"
| "grant_type_text Group_grant = ''group''"

text \<open>\<open>replaceAll(/[^a-z0-9_:-]/gi, "-").toLowerCase()\<close>\<close>

definition grant_id_char :: "char \<Rightarrow> char" where
  "grant_id_char c =
     (let n = code_unit c
      in if 48 \<le> n \<and> n \<le> 58 \<or> 65 \<le> n \<and> n \<le> 90 \<or> 97 \<le> n \<and> n \<le> 122 \<or> n = 95 \<or> n = 45 then c else CHR ''-'')"

definition mock_native_grant ::
  "string \<Rightarrow> string \<Rightarrow> string \<Rightarrow> native_principal_type \<Rightarrow> string \<Rightarrow> native_grant_type \<Rightarrow>
   string option \<Rightarrow> string option \<Rightarrow> json_record option \<Rightarrow> native_grant" where
  "mock_native_grant connector target s ptype permission gtype inherited expires attrs =
    \<lparr>entity_id = to_lower_case (map grant_id_char
       (''native-grant:'' @ connector @ '':'' @ target @ '':'' @ s @ '':'' @ permission @ '':'' @ grant_type_text gtype)),
     version = ''native-grant:v1'', createdAt = mock_now, updatedAt = None,
     targetPlatform = connector, targetObjectId = target, grantee_subjectId = s, principalType = ptype,
     nativePermission = permission, grantType = gtype, sourceConnectorId = connector,
     grant_status = Grant_observed, observedAt = mock_now, inheritedFromObjectId = inherited,
     grant_expiresAt = expires, grant_attributes = attrs\<rparr>"

subsection \<open>Plans\<close>

definition planned_verification :: "json_record \<Rightarrow> provisioning_verification" where
  "planned_verification expected =
    \<lparr>ver_status = Ver_pending, ver_method = ''connector.current_access_readback'', ver_expectedState = expected,
     ver_readbackState = None, ver_checkedAt = None, ver_message = None\<rparr>"

definition create_dry_run_plan :: "decision_result \<Rightarrow> string \<Rightarrow> canonical_id \<Rightarrow> provisioning_plan" where
  "create_dry_run_plan r connectorId target =
     (let state = [(''subjectId'', JStr (res_subjectId r)), (''permission'', JStr (res_action r))];
          key = connectorId @ '':'' @ res_subjectId r @ '':'' @ res_action r @ '':'' @ res_resourceId r @ '':''
                @ res_policyVersion r
      in
      \<lparr>entity_id = ''plan:'' @ connectorId @ '':'' @ decisionId r, version = ''plan:v1'', createdAt = mock_now,
       updatedAt = None,
       plan_sourceDecisionId = Some (decisionId r), plan_idempotencyKey = None, plan_connectorId = connectorId,
       plan_subjectId = res_subjectId r, plan_resourceId = res_resourceId r, plan_action = res_action r,
       plan_mode = Dry_run, plan_status = Plan_planned,
       plan_actions =
         [\<lparr>act_actionId = ''action:'' @ connectorId @ '':'' @ decisionId r,
           act_operation = (if decision r = Allow then Op_grant else Op_revoke),
           act_targetPlatform = connectorId, act_targetObjectId = target, act_requestedState = state,
           act_previousState = None, act_dryRun = True, act_idempotencyKey = key, act_status = Step_planned,
           act_verification = planned_verification state,
           act_compensation = Some
             \<lparr>comp_operation = (if decision r = Allow then Op_revoke else Op_grant),
              comp_reason = ''Reverse provider state if later enforcement does not verify cleanly.'',
              comp_status = Comp_planned, comp_idempotencyKey = ''compensate:'' @ key\<rparr>\<rparr>],
       plan_approval = None, plan_control = None, plan_readinessReportId = None\<rparr>)"

definition revocation_action :: "string \<Rightarrow> string \<Rightarrow> canonical_id \<Rightarrow> string \<Rightarrow> string \<Rightarrow> string \<Rightarrow> provisioning_action" where
  "revocation_action connectorId grantId target actionId key compensationKey =
     (let state = [(''nativeGrantId'', JStr grantId), (''status'', JStr ''revoked'')] in
      \<lparr>act_actionId = actionId, act_operation = Op_revoke, act_targetPlatform = connectorId,
       act_targetObjectId = target, act_requestedState = state, act_previousState = None, act_dryRun = True,
       act_idempotencyKey = key, act_status = Step_planned, act_verification = planned_verification state,
       act_compensation = Some
         \<lparr>comp_operation = Op_grant,
          comp_reason = ''Restore previous native grant if revocation verification fails after enforcement is enabled.'',
          comp_status = Comp_planned, comp_idempotencyKey = compensationKey\<rparr>\<rparr>)"

definition read_only_revocation_plan :: "string \<Rightarrow> canonical_id \<Rightarrow> canonical_id \<Rightarrow> provisioning_plan" where
  "read_only_revocation_plan connectorId grantId target =
    \<lparr>entity_id = ''plan:revoke:'' @ connectorId @ '':'' @ grantId, version = ''plan:v1'', createdAt = mock_now,
     updatedAt = None, plan_sourceDecisionId = None, plan_idempotencyKey = None, plan_connectorId = connectorId,
     plan_subjectId = ''subject:unknown'', plan_resourceId = target, plan_action = ''revoke'',
     plan_mode = Dry_run, plan_status = Plan_planned,
     plan_actions =
       [revocation_action connectorId grantId target
          (''action:revoke:'' @ connectorId @ '':'' @ grantId) (''revoke:'' @ connectorId @ '':'' @ grantId)
          (''compensate:'' @ connectorId @ '':'' @ grantId)],
     plan_approval = None, plan_control = None, plan_readinessReportId = None\<rparr>"

definition mock_revocation_plan :: "canonical_id \<Rightarrow> provisioning_plan" where
  "mock_revocation_plan grantId =
    \<lparr>entity_id = ''plan:revoke:'' @ grantId, version = ''plan:v1'', createdAt = mock_now,
     updatedAt = None, plan_sourceDecisionId = None, plan_idempotencyKey = None, plan_connectorId = ''mock'',
     plan_subjectId = ''user:alice'', plan_resourceId = ''document:case-plan'', plan_action = ''read'',
     plan_mode = Dry_run, plan_status = Plan_planned,
     plan_actions =
       [revocation_action ''mock'' grantId ''document:case-plan''
          (''action:revoke:'' @ grantId) (''revoke:'' @ grantId) (''compensate:grant:'' @ grantId)],
     plan_approval = None, plan_control = None, plan_readinessReportId = None\<rparr>"

subsection \<open>The read-only connectors\<close>

record connector_seed =
  cs_id :: string
  cs_provider :: string
  cs_tenantBoundary :: string
  cs_requiredReadScopes :: "string list"
  cs_supportsExternalUsers :: bool
  cs_supportsTimeBoundAccess :: bool
  cs_subjects :: "subject list"
  cs_resources :: "resource list"
  cs_relationships :: "relationship list"
  cs_grantsByResource :: "(canonical_id \<times> native_grant list) list"
  cs_warnings :: "discovery_run_warning list option"
  cs_cursor :: "discovery_cursor option"
  cs_driftFindings :: "reported_finding list option"

text \<open>An operation that answers at once and leaves the provider alone.\<close>

definition answer :: "'a \<Rightarrow> ('c, 'a) provider_call" where
  "answer x c = (Inr x, c)"

definition scope_checks :: "string \<Rightarrow> string \<Rightarrow> string list \<Rightarrow> connector_health_check list" where
  "scope_checks provider boundary scopes =
     map (\<lambda>scope.
       \<lparr>health_name = ''scope:'' @ scope, health_check_status = Check_pass,
        health_message = Some ''Synthetic read scope is present.'',
        health_check_evidence = Some
          [(''provider'', JStr provider), (''tenantBoundary'', JStr boundary), (''synthetic'', JBool True)]\<rparr>) scopes"

definition read_only_health :: "connector_seed \<Rightarrow> connector_mode \<Rightarrow> connector_health_check list" where
  "read_only_health seed mode =
     [\<lparr>health_name = ''connector_registered'', health_check_status = Check_pass,
       health_message = Some (cs_id seed @ '' is registered with synthetic read-only credentials.''),
       health_check_evidence = None\<rparr>,
      \<lparr>health_name = ''read_only_mode'',
       health_check_status = (if mode = Connector_read_only then Check_pass else Check_fail),
       health_message = Some ''Connector must remain in read-only mode during Phase 2.'',
       health_check_evidence = None\<rparr>]
     @ scope_checks (cs_provider seed) (cs_tenantBoundary seed) (cs_requiredReadScopes seed)"

definition read_only_metadata :: "connector_seed \<Rightarrow> connector_metadata" where
  "read_only_metadata seed =
    \<lparr>md_provider = cs_provider seed, md_tenantBoundary = cs_tenantBoundary seed,
     md_requiredReadScopes = cs_requiredReadScopes seed, md_synthetic = True,
     md_warnings = coalesce (cs_warnings seed) [], md_nativeAccessReadbackComplete = None,
     md_cursor = cs_cursor seed\<rparr>"

definition read_only_connector :: "connector_seed \<Rightarrow> 'c connector_adapter" where
  "read_only_connector seed =
    \<lparr>con_id = cs_id seed, con_mode = Connector_read_only,
     con_capabilities =
       \<lparr>supportsDiscovery = True, supportsProvisioning = False, supportsReconciliation = True,
        supportsDirectPermissions = True, supportsInheritedPermissions = True,
        supportsExternalUsers = cs_supportsExternalUsers seed,
        supportsTimeBoundAccess = cs_supportsTimeBoundAccess seed\<rparr>,
     con_provider = Some (cs_provider seed), con_tenantBoundary = Some (cs_tenantBoundary seed),
     con_requiredReadScopes = Some (cs_requiredReadScopes seed),
     con_discoverSubjects = answer (cs_subjects seed),
     con_discoverResources = answer (cs_resources seed),
     con_discoverRelationships = answer (cs_relationships seed),
     con_readCurrentAccess = (\<lambda>r. answer (coalesce (map_of (cs_grantsByResource seed) r) [])),
     con_testReadOnlyAccess = Some (answer (read_only_health seed Connector_read_only)),
     con_getDiscoveryMetadata = Some (answer (read_only_metadata seed)),
     con_planProvisioningChange = (\<lambda>d. answer (create_dry_run_plan d (cs_id seed) (res_resourceId d))),
     con_applyProvisioningChange = (\<lambda>p. answer (p\<lparr>plan_status := Plan_failed\<rparr>)),
     con_verifyProvisioningChange = (\<lambda>p. answer False),
     con_revokeAccess = (\<lambda>g. answer (read_only_revocation_plan (cs_id seed) g ''resource:unknown'')),
     con_detectDrift = answer (coalesce (cs_driftFindings seed) [])\<rparr>"

definition cursor_of :: "string \<Rightarrow> string option \<Rightarrow> deleted_object_behavior \<Rightarrow> discovery_cursor" where
  "cursor_of name nxt behavior =
    \<lparr>startedFrom = Some (''cursor:'' @ name @ '':previous''), cursor_next = nxt,
     highWatermark = ''cursor:'' @ name @ '':20260521t170000000z'', deletedObjectBehavior = behavior\<rparr>"

definition entra_seed :: connector_seed where
  "entra_seed =
    \<lparr>cs_id = ''entra-readonly'', cs_provider = ''entra-id'', cs_tenantBoundary = ''synthetic:entra:tenant'',
     cs_requiredReadScopes = [''synthetic:directory.read'', ''synthetic:appRoleAssignment.read''],
     cs_supportsExternalUsers = True, cs_supportsTimeBoundAccess = True,
     cs_subjects =
       [mock_subject ''user:entra-analyst'' ''Synthetic Entra Analyst'' ''entra-readonly'' User
          [(''objectId'', ''synthetic-user-001'')] None,
        mock_subject ''group:entra-case-reviewers'' ''Synthetic Case Reviewers'' ''entra-readonly'' Group
          [(''objectId'', ''synthetic-group-001'')] None,
        mock_subject ''service-principal:case-api'' ''Synthetic Case API'' ''entra-readonly'' Service_principal
          [(''appId'', ''synthetic-app-001'')] None],
     cs_resources = [mock_resource ''application:case-portal'' ''Case Portal'' Application ''entra-readonly'' None],
     cs_relationships =
       [mock_relationship ''entra:analyst-reviewers'' ''user:entra-analyst'' ''member_of'' ''group:entra-case-reviewers'' ''entra-readonly'',
        mock_relationship ''entra:reviewers-portal'' ''group:entra-case-reviewers'' ''assigned_to'' ''application:case-portal'' ''entra-readonly''],
     cs_grantsByResource =
       [(''application:case-portal'',
         [mock_native_grant ''entra-readonly'' ''application:case-portal'' ''group:entra-case-reviewers'' Principal_group
            ''appRole:reader'' Group_grant None None (Some [(''assignmentType'', JStr ''app_role'')]),
          mock_native_grant ''entra-readonly'' ''application:case-portal'' ''service-principal:case-api''
            Principal_service_principal ''appRole:service'' Direct_grant None None None])],
     cs_warnings = None,
     cs_cursor = Some (cursor_of ''entra'' (Some ''cursor:entra:next'') Mark_deleted),
     cs_driftFindings = None\<rparr>"

definition sharepoint_seed :: connector_seed where
  "sharepoint_seed =
    \<lparr>cs_id = ''sharepoint-readonly'', cs_provider = ''sharepoint'', cs_tenantBoundary = ''synthetic:sharepoint:tenant'',
     cs_requiredReadScopes = [''synthetic:sites.read'', ''synthetic:permissions.read''],
     cs_supportsExternalUsers = True, cs_supportsTimeBoundAccess = True,
     cs_subjects =
       [mock_subject ''group:sp-case-members'' ''Synthetic SharePoint Case Members'' ''sharepoint-readonly'' Group
          [(''groupId'', ''synthetic-sp-group'')] None,
        mock_subject ''user:sp-external-reviewer'' ''Synthetic External Reviewer'' ''sharepoint-readonly'' User
          [(''externalId'', ''synthetic-ext-001'')] (Some [(''external'', JBool True)])],
     cs_resources =
       [mock_resource ''sharepoint-site:case-records'' ''Case Records Site'' Sharepoint_site ''sharepoint-readonly'' None,
        mock_resource ''folder:case-records-evidence'' ''Evidence Folder'' Folder ''sharepoint-readonly''
          (Some ''sharepoint-site:case-records''),
        mock_resource ''document:case-records-plan'' ''Case Records Plan'' Document ''sharepoint-readonly''
          (Some ''folder:case-records-evidence'')],
     cs_relationships =
       [mock_relationship ''sp:site-folder'' ''sharepoint-site:case-records'' ''contains'' ''folder:case-records-evidence'' ''sharepoint-readonly'',
        mock_relationship ''sp:folder-document'' ''folder:case-records-evidence'' ''contains'' ''document:case-records-plan'' ''sharepoint-readonly''],
     cs_grantsByResource =
       [(''sharepoint-site:case-records'',
         [mock_native_grant ''sharepoint-readonly'' ''sharepoint-site:case-records'' ''group:sp-case-members'' Principal_group
            ''read'' Direct_grant None None None]),
        (''folder:case-records-evidence'',
         [mock_native_grant ''sharepoint-readonly'' ''folder:case-records-evidence'' ''group:sp-case-members'' Principal_group
            ''read'' Inherited_grant (Some ''sharepoint-site:case-records'') None None]),
        (''document:case-records-plan'',
         [mock_native_grant ''sharepoint-readonly'' ''document:case-records-plan'' ''group:sp-case-members'' Principal_group
            ''read'' Inherited_grant (Some ''folder:case-records-evidence'') None None,
          mock_native_grant ''sharepoint-readonly'' ''document:case-records-plan'' ''user:sp-external-reviewer''
            Principal_external_user ''read'' Direct_grant None (Some ''2026-05-28T17:00:00.000Z'')
            (Some [(''external'', JBool True), (''invitationState'', JStr ''accepted'')])])],
     cs_warnings = Some
       [\<lparr>warn_code = ''SHAREPOINT_PERSONAL_SITE_SKIPPED'',
         warn_message = ''Synthetic personal site collection was skipped because it is outside the governed boundary.'',
         warn_severity = Warn_warning, warn_scope = Scope_resources, warn_retryable = False,
         warn_objectId = Some ''sharepoint-site:personal''\<rparr>],
     cs_cursor = Some (cursor_of ''sharepoint'' None Mark_deleted),
     cs_driftFindings = None\<rparr>"

definition aws_seed :: connector_seed where
  "aws_seed =
    \<lparr>cs_id = ''aws-readonly'', cs_provider = ''aws'', cs_tenantBoundary = ''synthetic:aws:organization'',
     cs_requiredReadScopes = [''synthetic:iam.read'', ''synthetic:organizations.read''],
     cs_supportsExternalUsers = False, cs_supportsTimeBoundAccess = True,
     cs_subjects =
       [mock_subject ''service-principal:aws-audit-role'' ''Synthetic AWS Audit Role'' ''aws-readonly'' Service_principal
          [(''roleId'', ''synthetic-role-001'')] None,
        mock_subject ''group:aws-case-operators'' ''Synthetic AWS Case Operators'' ''aws-readonly'' Group
          [(''groupId'', ''synthetic-aws-group'')] None],
     cs_resources =
       [mock_resource ''aws-account:case-prod'' ''Case Production Account'' Aws_account ''aws-readonly'' None,
        mock_resource ''aws-role:case-readonly'' ''Case Readonly Role'' Aws_role ''aws-readonly'' (Some ''aws-account:case-prod'')],
     cs_relationships =
       [mock_relationship ''aws:account-role'' ''aws-account:case-prod'' ''contains'' ''aws-role:case-readonly'' ''aws-readonly'',
        mock_relationship ''aws:operators-role'' ''group:aws-case-operators'' ''assumable'' ''aws-role:case-readonly'' ''aws-readonly''],
     cs_grantsByResource =
       [(''aws-account:case-prod'', []),
        (''aws-role:case-readonly'',
         [mock_native_grant ''aws-readonly'' ''aws-role:case-readonly'' ''group:aws-case-operators'' Principal_group
            ''sts:AssumeRole'' Group_grant None (Some ''2026-06-21T17:00:00.000Z'') None,
          mock_native_grant ''aws-readonly'' ''aws-role:case-readonly'' ''service-principal:aws-audit-role''
            Principal_service_principal ''iam:ReadOnlyAccess'' Direct_grant None None None])],
     cs_warnings = Some
       [\<lparr>warn_code = ''AWS_ORGANIZATION_PAGE_RETRIED'',
         warn_message = ''Synthetic Organizations page was retried before readback completed.'',
         warn_severity = Warn_info, warn_scope = Scope_connector, warn_retryable = True, warn_objectId = None\<rparr>],
     cs_cursor = Some (cursor_of ''aws'' (Some ''cursor:aws:next'') Deletion_unsupported),
     cs_driftFindings = None\<rparr>"

subsection \<open>The mock connector\<close>

definition mock_current_access :: "canonical_id \<Rightarrow> native_grant list" where
  "mock_current_access r =
     (if r = ''workspace:case''
      then [mock_native_grant ''mock'' r ''group:case-team'' Principal_group ''read'' Direct_grant None None
              (Some [(''source'', JStr ''synthetic_group_assignment'')])]
      else
        [mock_native_grant ''mock'' r ''user:alice'' Principal_user ''read'' Direct_grant None None None,
         mock_native_grant ''mock'' r ''group:case-team'' Principal_group ''read'' Inherited_grant (Some ''workspace:case'') None None,
         mock_native_grant ''mock'' r ''user:external'' Principal_external_user ''read'' Direct_grant None
           (Some ''2026-06-21T17:00:00.000Z'') (Some [(''external'', JBool True)])])"

definition mock_health :: "connector_health_check list" where
  "mock_health =
     map (\<lambda>(n, s, m). \<lparr>health_name = n, health_check_status = s, health_message = Some m, health_check_evidence = None\<rparr>)
       [(''connector_registered'', Check_pass, ''Mock connector is registered.''),
        (''read_only_mode'', Check_pass, ''Mock connector starts in read-only mode.''),
        (''scope:synthetic:mock.read'', Check_pass, ''Synthetic read scope is present.''),
        (''provisioning_deferred'', Check_warn, ''Mock dry-run planning exists; live enforcement remains disabled.'')]"

definition mock_metadata :: connector_metadata where
  "mock_metadata =
    \<lparr>md_provider = ''mock'', md_tenantBoundary = ''synthetic:local'',
     md_requiredReadScopes = [''synthetic:mock.read''], md_synthetic = True,
     md_warnings =
       [\<lparr>warn_code = ''MOCK_PERSONAL_DRAFT_SKIPPED'',
         warn_message = ''A synthetic personal draft was skipped because it is outside the governed resource boundary.'',
         warn_severity = Warn_warning, warn_scope = Scope_resources, warn_retryable = False,
         warn_objectId = Some ''document:personal-draft''\<rparr>],
     md_nativeAccessReadbackComplete = None,
     md_cursor = Some (cursor_of ''mock'' None Mark_deleted)\<rparr>"

definition mock_drift :: reported_finding where
  "mock_drift =
    \<lparr>entity_id = ''drift:001'', version = ''drift:v1'', createdAt = mock_now, updatedAt = None,
     raw_resourceId = ''document:case-plan'', raw_subjectId = ''user:external'',
     raw_nativeGrantId = Some ''native-grant:mock:document:case-plan:user:external:read:direct'',
     raw_nativeAccess = ''read'', raw_intendedAccess = ''none'', raw_severity = Drift_high,
     raw_lifecycleState = Some Ds_open, raw_ownerId = Some ''role:security-operations'',
     raw_assigneeId = Some ''role:security-engineer'', raw_detectedAt = mock_now,
     raw_exceptionExpiresAt = None, raw_sourceConnectorId = ''mock'', raw_recommendedAction = Do_revoke,
     raw_status = Df_open,
     raw_schedule = Some \<lparr>cadence = Cadence_manual, scheduledAt = mock_now, windowStart = None, windowEnd = None,
       nextRunAt = None, gracePeriodHours = 0, overdue = False\<rparr>,
     raw_hookEvidence = Some [],
     raw_remediation = Some \<lparr>remediation_approval = None, remediation_approvedAt = None, remediation_dryRunRepair = None\<rparr>,
     raw_autoRepairPolicy = Some
       \<lparr>repair_enabled = False, repair_allowedActions = [Do_revoke], repair_maxSeverity = Drift_high,
        repair_requireApproval = True, repair_requireConnectorReadiness = True, repair_liveProviderWrites = False,
        repair_reason = Some ''Mock drift findings require approval before any remediation and never auto-repair live providers.''\<rparr>\<rparr>"

definition mock_connector :: "'c connector_adapter" where
  "mock_connector =
    \<lparr>con_id = ''mock'', con_mode = Connector_read_only,
     con_capabilities =
       \<lparr>supportsDiscovery = True, supportsProvisioning = True, supportsReconciliation = True,
        supportsDirectPermissions = True, supportsInheritedPermissions = True, supportsExternalUsers = True,
        supportsTimeBoundAccess = True\<rparr>,
     con_provider = Some ''mock'', con_tenantBoundary = Some ''synthetic:local'',
     con_requiredReadScopes = Some [''synthetic:mock.read''],
     con_discoverSubjects = answer
       [mock_subject ''user:alice'' ''Alice Example'' ''mock'' User [(''employeeId'', ''E-0001'')] None,
        mock_subject ''group:case-team'' ''Case Team'' ''mock'' Group [(''groupId'', ''G-CASE'')] None,
        mock_subject ''user:external'' ''External Reviewer'' ''mock'' User [(''externalId'', ''EXT-0001'')]
          (Some [(''external'', JBool True)])],
     con_discoverResources = answer
       [mock_resource ''workspace:case'' ''Case Workspace'' Workspace ''mock'' None,
        mock_resource ''document:case-plan'' ''Case Plan'' Document ''mock'' (Some ''workspace:case'')],
     con_discoverRelationships = answer
       [mock_relationship ''mock:alice-case-team'' ''user:alice'' ''member_of'' ''group:case-team'' ''mock'',
        mock_relationship ''mock:case-team-workspace'' ''group:case-team'' ''contributor_to'' ''workspace:case'' ''mock'',
        mock_relationship ''mock:workspace-document'' ''workspace:case'' ''contains'' ''document:case-plan'' ''mock''],
     con_readCurrentAccess = (\<lambda>r. answer (mock_current_access r)),
     con_testReadOnlyAccess = Some (answer mock_health),
     con_getDiscoveryMetadata = Some (answer mock_metadata),
     con_planProvisioningChange = (\<lambda>d. answer (create_dry_run_plan d ''mock'' (res_resourceId d))),
     con_applyProvisioningChange = (\<lambda>p. answer (p\<lparr>plan_status := Plan_applied\<rparr>)),
     con_verifyProvisioningChange = (\<lambda>p. answer True),
     con_revokeAccess = (\<lambda>g. answer (mock_revocation_plan g)),
     con_detectDrift = answer [mock_drift]\<rparr>"

subsection \<open>Planning without provider writes\<close>

text \<open>
  The contract the runtime relies on when it plans or runs a dry run: planning a change, planning a
  revocation and verifying leave the provider as it is, and what they plan is a dry run with a
  compensation for every action.
\<close>

definition compensated_dry_run :: "provisioning_plan \<Rightarrow> bool" where
  "compensated_dry_run p \<longleftrightarrow>
     plan_mode p = Dry_run \<and> plan_status p = Plan_planned \<and> plan_actions p \<noteq> [] \<and>
     list_all (\<lambda>a. act_dryRun a \<and> act_status a = Step_planned \<and>
       (case act_compensation a of None \<Rightarrow> False
        | Some c \<Rightarrow> comp_status c = Comp_planned \<and> comp_idempotencyKey c \<noteq> [])) (plan_actions p)"

locale planning_connector =
  fixes plan_change :: "decision_result \<Rightarrow> ('c, provisioning_plan) provider_call"
    and revoke :: "canonical_id \<Rightarrow> ('c, provisioning_plan) provider_call"
    and verify :: "provisioning_plan \<Rightarrow> ('c, bool) provider_call"
  assumes plan_unchanged: "snd (plan_change d c) = c"
    and revoke_unchanged: "snd (revoke g c) = c"
    and verify_unchanged: "snd (verify p c) = c"
    and plan_dry_run: "fst (plan_change d c) = Inr p \<Longrightarrow> compensated_dry_run p"
    and revoke_dry_run: "fst (revoke g c) = Inr p \<Longrightarrow> compensated_dry_run p"
begin

lemma planned: "plan_change d c = (r, c') \<Longrightarrow> c' = c \<and> (\<forall>p. r = Inr p \<longrightarrow> compensated_dry_run p)"
  using plan_unchanged [of d c] plan_dry_run [of d c] by auto

lemma plan_then_verify:
  "plan_change d c = (Inr p, c') \<Longrightarrow> snd (verify p c') = c"
  using planned [of d c "Inr p" c'] by (simp add: verify_unchanged)

end

lemma dry_run_plan_compensated: "compensated_dry_run (create_dry_run_plan d i t)"
  by (simp add: compensated_dry_run_def create_dry_run_plan_def Let_def)

lemma revocation_plans_compensated:
  "compensated_dry_run (mock_revocation_plan g)" "compensated_dry_run (read_only_revocation_plan i g t)"
  by (simp_all add: compensated_dry_run_def mock_revocation_plan_def read_only_revocation_plan_def
      revocation_action_def Let_def)

lemma mock_operations:
  "con_planProvisioningChange mock_connector d c = (Inr (create_dry_run_plan d ''mock'' (res_resourceId d)), c)"
  "con_revokeAccess mock_connector g c = (Inr (mock_revocation_plan g), c)"
  "con_verifyProvisioningChange mock_connector p c = (Inr True, c)"
  "con_applyProvisioningChange mock_connector p c = (Inr (p\<lparr>plan_status := Plan_applied\<rparr>), c)"
  by (simp_all add: mock_connector_def answer_def)

lemma read_only_operations:
  "con_planProvisioningChange (read_only_connector s) d c = (Inr (create_dry_run_plan d (cs_id s) (res_resourceId d)), c)"
  "con_revokeAccess (read_only_connector s) g c = (Inr (read_only_revocation_plan (cs_id s) g ''resource:unknown''), c)"
  "con_verifyProvisioningChange (read_only_connector s) p c = (Inr False, c)"
  "con_applyProvisioningChange (read_only_connector s) p c = (Inr (p\<lparr>plan_status := Plan_failed\<rparr>), c)"
  by (simp_all add: read_only_connector_def answer_def)

interpretation mock: planning_connector
  "con_planProvisioningChange mock_connector" "con_revokeAccess mock_connector"
  "con_verifyProvisioningChange mock_connector"
  by unfold_locales (auto simp: mock_operations intro: dry_run_plan_compensated revocation_plans_compensated)

interpretation read_only: planning_connector
  "con_planProvisioningChange (read_only_connector s)" "con_revokeAccess (read_only_connector s)"
  "con_verifyProvisioningChange (read_only_connector s)" for s
  by unfold_locales (auto simp: read_only_operations intro: dry_run_plan_compensated revocation_plans_compensated)

end
