(* ===== verification/Runtime_Properties.thy ===== *)
theory Runtime_Properties
  imports Runtime_Reach Mock_Connector
begin

text \<open>
  What the runtime guarantees: about every app it can reach, and about the provisioning jobs that
  may make a connector change its provider.
\<close>

subsection \<open>Reachable apps\<close>

text \<open>
  C12: whatever flows run after a start, the exports of events and of evidence included, whatever the
  connectors and the repositories answer or throw, the engine of the app keeps its invariant (keyed
  collections, the relationship index, a scope cache that is never stale) and at most twenty
  degradation receipts are kept.
\<close>
theorem runtime_keeps_its_invariant:
  assumes "create_local_app rt o' = Inr a" "app_steps rt a b"
  shows "engine_inv (app_engine b) \<and> length (app_degradations b) \<le> runtime_max_degradations"
  using started_app(1,2) [OF assms(1)] reach.steps_ordered [OF assms(2)] receipts.steps_ordered [OF assms(2)]
  by (auto simp: keeps_reachable_def keeps_receipts_def intro: engine_reachable_inv)

text \<open>
  C13: the runtime never drops, changes or reorders an audit event: each sequence of steps, whatever
  the repositories do, appends the same events to the recorder and to the store, and a recorder log
  that verified at the start still verifies. Started with a state repository or without an audit
  repository, recorder and store are the same log; only with an audit repository and no state
  repository does the recorder start from events the store does not hold.
\<close>
theorem runtime_log_only_grows:
  assumes "create_local_app rt o' = Inr a" "app_steps rt a b"
  shows "(\<exists>es. st_auditEvents (app_store b) = st_auditEvents (app_store a) @ es \<and>
      en_recorder (app_engine b) = en_recorder (app_engine a) @ es) \<and>
    (integrity_status (verify_audit_chain rt (en_recorder (app_engine a)) t) = Verified \<longrightarrow>
     integrity_status (verify_audit_chain rt (en_recorder (app_engine b)) t') = Verified) \<and>
    (stateRepository (op_persistence o') \<noteq> None \<or> auditRepository (op_persistence o') = None \<longrightarrow>
     en_recorder (app_engine b) = st_auditEvents (app_store b))"
proof -
  from log.steps_ordered [OF assms(2)] obtain es where
    "en_recorder (app_engine b) = en_recorder (app_engine a) @ es"
      "st_auditEvents (app_store b) = st_auditEvents (app_store a) @ es"
      "chained_from rt None (en_recorder (app_engine a)) \<longrightarrow> chained_from rt None (en_recorder (app_engine b))"
    by (auto simp: extends_log_def)
  with started_app(3) [OF assms(1)] show ?thesis by (auto simp: verified_iff_chained_from)
qed

subsection \<open>What a flow of a job does\<close>

lemma look_simp [simp]: "andthen (look g) f a = f (g a) a"
  by (simp add: andthen_def)

lemma guard_simp [simp]: "andthen (guard_by e) f a = (case e of None \<Rightarrow> f () a | Some x \<Rightarrow> (Inl x, a))"
  by (cases e) (simp_all add: andthen_def)

lemma now_simp [simp]:
  "andthen (perform app_now) f a = f (app_clock a (app_ticks a)) (a\<lparr>app_ticks := Suc (app_ticks a)\<rparr>)"
  by (simp add: andthen_def perform_def app_now_def)

lemma connector_simp [simp]:
  "andthen (get_connector i) f a =
     (case map_get (app_connectors a) i of
        None \<Rightarrow> (Inl (Raised (Error_object (''Unknown connector: '' @ i))), a) | Some c \<Rightarrow> f c a)"
  by (simp add: andthen_def get_connector_def split: option.split)

definition ticked_app :: "('c, 'p) local_app \<Rightarrow> ('c, 'p) local_app" where
  "ticked_app a = a\<lparr>app_ticks := Suc (app_ticks a)\<rparr>"

lemma ticked_app_simps [simp]:
  "app_store (ticked_app a) = app_store a" "app_provider (ticked_app a) = app_provider a"
  "app_connectors (ticked_app a) = app_connectors a" "app_clock (ticked_app a) = app_clock a"
  "app_ticks (ticked_app a) = Suc (app_ticks a)" "app_regexp (ticked_app a) = app_regexp a"
  "app_engine (ticked_app a) = app_engine a"
  by (simp_all add: ticked_app_def app_store_def)

definition controlled_request :: "runtime \<Rightarrow> job_request \<Rightarrow> string \<Rightarrow> controlled_job_request" where
  "controlled_request rt req started =
    \<lparr>cj_approverId = jr_approverId req, cj_idempotencyKey = jr_idempotencyKey req, cj_jobId = job_id_for rt req,
     cj_startedAt = started, cj_approval = jr_approval req, cj_control = jr_control req\<rparr>"

text \<open>The ways a request for a job can go.\<close>

lemma create_provisioning_job_cases:
  assumes "create_provisioning_job rt req a = (r, b)"
  obtains
    (existing) j where "get_provisioning_job_by_idempotency_key (app_store a) (jr_idempotencyKey req) = Some j" "b = a"
      "r = (if job_planId j \<noteq> jr_planId req \<or> job_approverId j \<noteq> jr_approverId req
            then Inl (idempotency_key_reused ''job'') else Inr (Some j))"
  | (no_plan) "get_provisioning_job_by_idempotency_key (app_store a) (jr_idempotencyKey req) = None"
      "get_provisioning_plan (app_store a) (jr_planId req) = None" "r = Inr None" "b = a"
  | (refused) e where "r = Inl e" "b = a \<or> b = ticked_app a"
      "get_provisioning_job_by_idempotency_key (app_store a) (jr_idempotencyKey req) = None"
  | (enforce) p c r' where "get_provisioning_job_by_idempotency_key (app_store a) (jr_idempotencyKey req) = None"
      "get_provisioning_plan (app_store a) (jr_planId req) = Some p" "plan_mode p = Enforcement"
      "map_get (app_connectors a) (plan_connectorId p) = Some c" "r = map_sum id Some r'"
      "create_controlled_enforcement_job rt c p (controlled_request rt req (app_clock a (app_ticks a))) (ticked_app a) = (r', b)"
  | (dry_run) p c r' where "get_provisioning_job_by_idempotency_key (app_store a) (jr_idempotencyKey req) = None"
      "get_provisioning_plan (app_store a) (jr_planId req) = Some p" "plan_mode p = Dry_run"
      "map_get (app_connectors a) (plan_connectorId p) = Some c" "r = map_sum id Some r'"
      "create_dry_run_job rt c p req (job_id_for rt req) (app_clock a (app_ticks a)) (ticked_app a) = (r', b)"
proof -
  have some: "andthen m (\<lambda>j. give (Some j)) x = (map_sum id Some (fst (m x)), snd (m x))"
    for m :: "('a, 'b, provisioning_job) run" and x
    by (auto simp: andthen_def split: prod.split sum.split)
  show thesis
  proof (cases "get_provisioning_job_by_idempotency_key (app_store a) (jr_idempotencyKey req)")
    case (Some j)
    with assms show thesis by (intro existing [of j]) (auto simp: create_provisioning_job_def split: if_splits)
  next
    case nokey: None
    show thesis
    proof (cases "get_provisioning_plan (app_store a) (jr_planId req)")
      case None
      with nokey assms show thesis by (intro no_plan) (auto simp: create_provisioning_job_def)
    next
      case (Some p)
      show thesis
      proof (cases "map_get (app_connectors a) (plan_connectorId p)")
        case None
        with nokey Some assms show thesis
          by (intro refused) (auto simp: create_provisioning_job_def)
      next
        case conn: (Some c)
        let ?mode = "coalesce (jr_mode req) (plan_mode p)"
        have run: "create_provisioning_job rt req a =
          (if ?mode \<noteq> plan_mode p
           then (Inl (Local_app_error 400 ''PROVISIONING_MODE_MISMATCH''
                 (''Plan '' @ entity_id p @ '' is '' @ mode_text (plan_mode p) @ '', not '' @ mode_text ?mode @ ''.'')), ticked_app a)
           else if ?mode = Enforcement
           then andthen (create_controlled_enforcement_job rt c p (controlled_request rt req (app_clock a (app_ticks a))))
                  (\<lambda>j. give (Some j)) (ticked_app a)
           else andthen (create_dry_run_job rt c p req (job_id_for rt req) (app_clock a (app_ticks a)))
                  (\<lambda>j. give (Some j)) (ticked_app a))"
          using nokey Some conn
          by (simp add: create_provisioning_job_def Let_def ticked_app_def controlled_request_def)
        consider "?mode \<noteq> plan_mode p" | "plan_mode p = Enforcement" "?mode = Enforcement"
          | "plan_mode p = Dry_run" "?mode = Dry_run" by (cases ?mode; cases "plan_mode p") auto
        then show thesis
        proof cases
          case 1
          with run assms nokey show thesis by (intro refused) auto
        next
          case 2
          obtain r' b' where job: "create_controlled_enforcement_job rt c p
            (controlled_request rt req (app_clock a (app_ticks a))) (ticked_app a) = (r', b')" by fastforce
          with 2 run assms have "r = map_sum id Some r'" "b' = b" by (auto simp: some)
          with enforce [OF nokey Some 2(1) conn] job show thesis by simp
        next
          case 3
          obtain r' b' where job: "create_dry_run_job rt c p req (job_id_for rt req)
            (app_clock a (app_ticks a)) (ticked_app a) = (r', b')" by fastforce
          with 3 run assms have "r = map_sum id Some r'" "b' = b" by (auto simp: some)
          with dry_run [OF nokey Some 3(1) conn] job show thesis by simp
        qed
      qed
    qed
  qed
qed


subsection \<open>Admission\<close>

definition unexpired_at :: "string \<Rightarrow> provisioning_approval \<Rightarrow> bool" where
  "unexpired_at now ap \<longleftrightarrow>
     (case approval_expiresAt ap of
        None \<Rightarrow> True
      | Some expires \<Rightarrow> (case (date_parse expires, date_parse now) of (Some e, Some n) \<Rightarrow> n < e | _ \<Rightarrow> False))"

lemma allowed_passes:
  assumes "assert_controlled_enforcement_allowed c approval control who a = (Inr x, b)"
  obtains ap co where "approval = Some ap" "control = Some co" "approverId ap \<noteq> []" "changeTicket ap \<noteq> []"
    "\<not> truthy who \<or> who = Some (approverId ap)" "unexpired_at (app_clock a (app_ticks a)) ap"
    "guardrail_error c co = None" "b = a \<or> b = ticked_app a"
proof -
  from assms obtain ap co y a' where ap: "approval = Some ap" "control = Some co" "approverId ap \<noteq> []" "changeTicket ap \<noteq> []"
    "\<not> truthy who \<or> who = Some (approverId ap)"
    and expiry: "assert_not_expired ap a = (Inr y, a')" and guard: "guard_by (guardrail_error c co) a' = (Inr x, b)"
    by (auto simp: assert_controlled_enforcement_allowed_def andthen_Inr split: option.splits if_splits)
  from guard have "guardrail_error c co = None" "b = a'" by (auto simp: guard_by_def split: option.splits)
  moreover from expiry have "unexpired_at (app_clock a (app_ticks a)) ap" "a' = a \<or> a' = ticked_app a"
    by (auto simp: assert_not_expired_def unexpired_at_def ticked_app_def split: option.splits if_splits)
  ultimately show thesis using that ap by blast
qed

lemma ready_passes:
  "assert_enforcement_readiness c i k ap co a = (Inr x, b) \<Longrightarrow>
     readiness_error (app_regexp a) (app_store a) c i k ap co = None \<and> b = a"
  by (simp add: assert_enforcement_readiness_def guard_by_def split: option.splits)

lemma admitted:
  assumes "admit_controlled_job c p req a = (Inr x, b)"
  obtains ap co where "coalesce_opt (cj_approval req) (plan_approval p) = Some ap"
    "coalesce_opt (cj_control req) (plan_control p) = Some co" "approverId ap \<noteq> []" "changeTicket ap \<noteq> []"
    "cj_approverId req = [] \<or> cj_approverId req = approverId ap" "unexpired_at (app_clock a (app_ticks a)) ap"
    "guardrail_error c co = None" "b = a \<or> b = ticked_app a"
    "readiness_error (app_regexp a) (app_store a) c (plan_connectorId p) (plan_readinessReportId p) (Some ap) (Some co) = None"
proof -
  from assms obtain y a' where ok: "job_controls_error p (cj_approval req) (cj_control req) = None"
    "assert_controlled_enforcement_allowed c (coalesce_opt (cj_approval req) (plan_approval p))
       (coalesce_opt (cj_control req) (plan_control p)) (Some (cj_approverId req)) a = (Inr y, a')"
    "assert_enforcement_readiness c (plan_connectorId p) (plan_readinessReportId p)
       (coalesce_opt (cj_approval req) (plan_approval p)) (coalesce_opt (cj_control req) (plan_control p)) a' = (Inr x, b)"
    by (auto simp: admit_controlled_job_def Let_def andthen_Inr split: option.splits)
  from ok(2) obtain ap co where ap: "coalesce_opt (cj_approval req) (plan_approval p) = Some ap"
    "coalesce_opt (cj_control req) (plan_control p) = Some co" "approverId ap \<noteq> []" "changeTicket ap \<noteq> []"
    "\<not> truthy (Some (cj_approverId req)) \<or> Some (cj_approverId req) = Some (approverId ap)"
    "unexpired_at (app_clock a (app_ticks a)) ap" "guardrail_error c co = None" "a' = a \<or> a' = ticked_app a"
    by (rule allowed_passes)
  from ready_passes [OF ok(3)] ap show thesis by (intro that [of ap co]) auto
qed

lemma guardrails_kept:
  "guardrail_error c co = None \<Longrightarrow>
     safe_controls co \<and> supportsProvisioning (con_capabilities c) \<and> con_provider c = Some ''mock'' \<and>
     con_tenantBoundary c = Some ''synthetic:local''"
  by (auto simp: guardrail_error_def safe_controls_def split: if_splits)

lemma report_authorizes:
  assumes "readiness_error regexp st c i k (Some ap) (Some co) = None"
  obtains report where "get_readiness_report st (the k) = Some report" "rep_connectorId report = i"
    "rep_status report = Readiness_ready" "rep_control report = co"
    "change_ticket_matches regexp (rep_changeTicketPattern report) (changeTicket ap)"
  using assms by (auto simp: readiness_error_def split: if_splits option.splits)

text \<open>The stages of a controlled execution.\<close>

lemma execution:
  assumes "execute_controlled_job c p req a = (r, b)"
  obtains (refused) e where "r = Inl e" "same_provider a b"
  | (failed) x a' y where "admit_controlled_job c p req a = (Inr x, a')" "r = Inl (Raised y)"
      "con_applyProvisioningChange c p (app_provider a) = (Inl y, app_provider b)"
  | (unverified) x a' applied w y where "admit_controlled_job c p req a = (Inr x, a')" "r = Inl (Raised y)"
      "con_applyProvisioningChange c p (app_provider a) = (Inr applied, w)"
      "con_verifyProvisioningChange c applied w = (Inl y, app_provider b)"
      "app_engine b = app_engine a"
  | (executed) x a' applied w verified t who where "admit_controlled_job c p req a = (Inr x, a')"
      "con_applyProvisioningChange c p (app_provider a) = (Inr applied, w)"
      "con_verifyProvisioningChange c applied w = (Inr verified, app_provider b)"
      "app_engine b = app_engine a"
      "r = Inr (let approval = coalesce_opt (cj_approval req) (plan_approval p);
           control = coalesce_opt (cj_control req) (plan_control p);
           outcome = enforcement_verification applied t verified;
           completed = (plan_status applied = Plan_applied \<and> ver_status outcome = Ver_verified);
           job = controlled_job p req approval control t outcome completed
         in \<lparr>ex_completedAt = t,
          ex_updatedPlan = p\<lparr>plan_status := (if completed then Plan_applied else Plan_failed), updatedAt := Some t\<rparr>,
          ex_job = job,
          ex_auditInputs = controlled_job_audit_inputs who (cj_jobId req) p job
            (job_actionResults job) outcome completed\<rparr>)"
proof -
  obtain r1 a' where adm: "admit_controlled_job c p req a = (r1, a')" by fastforce
  have same: "app_provider a' = app_provider a"
    using evolvesD [OF provider.job_admitted adm] by (simp add: same_provider_def)
  show thesis
  proof (cases r1)
    case (Inl e)
    with adm assms same show thesis by (intro refused [of e]) (auto simp: execute_controlled_job_def same_provider_def)
  next
    case (Inr x)
    note adm = adm [unfolded Inr]
    from adm have engine: "app_engine a' = app_engine a" by (rule admitted) auto
    obtain r2 w where ap: "con_applyProvisioningChange c p (app_provider a) = (r2, w)" by fastforce
    show thesis
    proof (cases r2)
      case (Inl y)
      with adm assms same ap show thesis
        by (intro failed [of x a' y]) (auto simp: execute_controlled_job_def ask_provider_def andthen_def)
    next
      case (Inr applied)
      obtain r3 w' where ver: "con_verifyProvisioningChange c applied w = (r3, w')" by fastforce
      show thesis
      proof (cases r3)
        case (Inl y)
        with adm assms same ap Inr ver engine show thesis
          by (intro unverified [of x a' y applied w])
            (auto simp: execute_controlled_job_def ask_provider_def andthen_def perform_def app_now_def)
      next
        case (Inr verified)
        with adm assms same ap \<open>r2 = Inr applied\<close> ver engine show thesis
          by (intro executed [of x a' applied w verified "app_clock a' (app_ticks a')" "app_actor a'"])
            (auto simp: execute_controlled_job_def ask_provider_def andthen_def perform_def app_now_def Let_def)
      qed
    qed
  qed
qed


subsection \<open>Types of stored plans and jobs\<close>

lemma typed_job_ids [simp]: "job_typed (j\<lparr>job_auditEventIds := ids\<rparr>) = job_typed j"
  by (cases "job_mode j") (simp_all add: job_typed_def results_agree_def split: option.split)

lemma executed_typed:
  assumes "execute_controlled_job c p req a = (Inr ex, b)" "plan_mode p = Enforcement"
  shows "job_typed (ex_job ex)" "plan_typed p \<Longrightarrow> plan_typed (ex_updatedPlan ex)"
proof -
  from assms(1) show "job_typed (ex_job ex)"
  proof (cases rule: execution)
    case (executed x a' applied w verified t who)
    from executed(1) obtain ap co where ok: "coalesce_opt (cj_approval req) (plan_approval p) = Some ap"
      "coalesce_opt (cj_control req) (plan_control p) = Some co"
      "cj_approverId req = [] \<or> cj_approverId req = approverId ap" "guardrail_error c co = None"
      by (rule admitted) auto
    with executed(5) guardrails_kept [OF ok(4)] show ?thesis
      by (auto simp: Let_def job_typed_def controlled_job_def results_agree_def list_all_iff controlled_action_result_def
          merge_verification_def enforcement_verification_def)
  qed auto
  from assms show "plan_typed p \<Longrightarrow> plan_typed (ex_updatedPlan ex)"
    by (cases rule: execution) (auto simp: Let_def plan_typed_def)
qed

lemma dry_run_typed: "job_typed (dry_run_job p req k started t (dry_run_verification p t v))"
  by (auto simp: job_typed_def dry_run_job_def results_agree_def list_all_iff dry_run_action_result_def
      merge_verification_def dry_run_verification_def)

lemma job_keeps_types: "keeps_types a (snd (create_provisioning_job rt req a))"
proof (cases "store_typed (app_store a)")
  case typed: True
  obtain r b where run: "create_provisioning_job rt req a = (r, b)" by fastforce
  from run have "keeps_types a b"
  proof (cases rule: create_provisioning_job_cases)
    case (enforce p c r')
    from enforce(2) have "p \<in> set (map_values (st_provisioningPlans (app_store a)))"
      by (intro map_get_mem) (simp add: get_provisioning_plan_def)
    with typed have p: "plan_typed p" unfolding store_typed_def list_all_iff by blast
    have "evolves keeps_types (create_controlled_enforcement_job rt c p (controlled_request rt req (app_clock a (app_ticks a))))"
      by (rule types.controlled_stored) (simp add: typed_plan_kept typed_job_kept executed_typed enforce(3) p)
    from evolvesD [OF this enforce(6)] show ?thesis by (simp add: keeps_types_def)
  next
    case (dry_run p c r')
    have "evolves keeps_types (create_dry_run_job rt c p req (job_id_for rt req) (app_clock a (app_ticks a)))"
      by (rule types.dry_run_stored) (simp add: typed_job_kept dry_run_typed)
    from evolvesD [OF this dry_run(6)] show ?thesis by (simp add: keeps_types_def)
  qed (auto simp: keeps_types_def types_kept_def)
  with run show ?thesis by simp
qed (simp add: keeps_types_def types_kept_def)

text \<open>
  C11: plans and jobs stay well typed whatever runs: a stored dry-run plan is planned, with dry-run
  actions only; an enforcement plan carries an approval, a readiness report id and controls that
  are synthetic-only, without live writes, incident mode or break-glass; a dry-run job completed
  with every action skipped and without approval or controls; an enforcement job has an approval of
  its approver and safe controls, and either completed, verified, with every action applied, or
  failed with every action failed.
\<close>
theorem stored_plans_and_jobs_are_typed:
  assumes "app_steps rt a b" "store_typed (app_store a)"
  shows "list_all plan_typed (list_provisioning_plans (app_store b)) \<and>
    list_all job_typed (list_provisioning_jobs (app_store b))"
proof -
  have "keeps_types a b"
    using assms(1)
  proof (induction rule: rtranclp_induct)
    case (step b c)
    from step(2) have "keeps_types b c"
    proof cases
      case (flow)
      then show ?thesis by (rule types.flow_ordered)
    next
      case (job req)
      then show ?thesis using job_keeps_types [of b rt req] by simp
    qed (simp add: keeps_types_def types_kept_def app_store_def)
    with step(3) show ?case by (rule types.trans)
  qed (rule types.refl)
  with assms(2) show ?thesis
    by (simp add: keeps_types_def types_kept_def store_typed_def list_provisioning_plans_def list_provisioning_jobs_def)
qed

subsection \<open>Provider writes\<close>

text \<open>
  C9: no flow but the creation of a job asks a connector to apply a change: the calls the other
  flows add to the logs of watched connectors contain no apply.
\<close>
theorem only_jobs_apply_changes:
  assumes "app_flow rt a b" "\<And>i c. map_get (app_connectors a) i = Some c \<Longrightarrow> \<exists>d. c = watched d"
  shows "\<exists>cs. snd (app_provider b) = snd (app_provider a) @ cs \<and> (\<forall>p. Called_apply p \<notin> set cs)"
proof -
  have "confined no_apply c" if "map_get (app_connectors a) i = Some c" for i c
    using assms(2) [OF that] confined_watched by blast
  with calls.flow_ordered [OF assms(1)] show ?thesis by (auto simp: applies_nothing_def no_apply_def)
qed

lemma rest_keeps_provider:
  assumes "\<And>x. evolves same_provider (f x)" "andthen m f a = (r, b)" "m a = (r0, b0)"
  shows "app_provider b = app_provider b0"
proof (cases r0)
  case (Inr x)
  with assms(2,3) have "f x b0 = (r, b)" by simp
  from evolvesD [OF assms(1) this] show ?thesis by (simp add: same_provider_def)
qed (use assms in auto)

lemma controlled_provider:
  assumes "create_controlled_enforcement_job rt c p req a = (r, b)" "execute_controlled_job c p req a = (r0, b0)"
  shows "app_provider b = app_provider b0"
proof (rule rest_keeps_provider [where m = "execute_controlled_job c p req" and a = a, OF _ _ assms(2)])
  show "andthen (execute_controlled_job c p req) (\<lambda>ex.
     andthen (change (with_store (upsert_provisioning_plan (ex_updatedPlan ex)))) (\<lambda>_.
     andthen (store_job_with_audit rt (ex_job ex) (ex_auditInputs ex)) (\<lambda>job.
     andthen (change (persist_job (Write_plan (ex_updatedPlan ex)) (ex_completedAt ex))) (\<lambda>_.
     andthen (change (persist_job (Write_job job) (ex_completedAt ex))) (\<lambda>_.
     andthen (change (persist_app_state (ex_completedAt ex))) (\<lambda>_. give job)))))) a = (r, b)"
    using assms(1) by (simp add: create_controlled_enforcement_job_def)
qed (intro provider.layer provider.job_stored provider.changed TrueI; simp add: same_provider_def)

lemma dry_run_provider:
  assumes "create_dry_run_job rt c p req k started a = (r, b)" "con_verifyProvisioningChange c p (app_provider a) = (v, w)"
  shows "app_provider b = w"
proof -
  have "app_provider b = app_provider (a\<lparr>app_provider := w\<rparr>)"
    by (rule rest_keeps_provider [OF _ assms(1) [unfolded create_dry_run_job_def]])
      (auto simp: ask_provider_def assms(2) Let_def intro!: provider.layer provider.job_stored)
  then show ?thesis by simp
qed


text \<open>What authorizes a request for a job to change the provider by a plan.\<close>

definition write_authorized :: "('c, 'p) local_app \<Rightarrow> job_request \<Rightarrow> provisioning_plan \<Rightarrow> bool" where
  "write_authorized a req p \<longleftrightarrow>
     get_provisioning_job_by_idempotency_key (app_store a) (jr_idempotencyKey req) = None \<and>
     get_provisioning_plan (app_store a) (jr_planId req) = Some p \<and> plan_mode p = Enforcement \<and>
     (\<exists>c ap co report.
        map_get (app_connectors a) (plan_connectorId p) = Some c \<and> supportsProvisioning (con_capabilities c) \<and>
        con_provider c = Some ''mock'' \<and> con_tenantBoundary c = Some ''synthetic:local'' \<and>
        coalesce_opt (jr_approval req) (plan_approval p) = Some ap \<and>
        coalesce_opt (jr_control req) (plan_control p) = Some co \<and>
        changeTicket ap \<noteq> [] \<and> approverId ap \<noteq> [] \<and>
        (jr_approverId req = [] \<or> jr_approverId req = approverId ap) \<and>
        unexpired_at (app_clock a (Suc (app_ticks a))) ap \<and> safe_controls co \<and>
        get_readiness_report (app_store a) (the (plan_readinessReportId p)) = Some report \<and>
        rep_connectorId report = plan_connectorId p \<and> rep_status report = Readiness_ready \<and> rep_control report = co \<and>
        change_ticket_matches (app_regexp a) (rep_changeTicketPattern report) (changeTicket ap))"

fun is_apply :: "connector_call \<Rightarrow> bool" where
  "is_apply (Called_apply _) = True"
| "is_apply _ = False"

lemma snd_of_logged: "logged l f w = (x, w') \<Longrightarrow> snd w' = snd w @ [l]"
  using snd_logged [of l f w] by simp

lemma admission_authorizes:
  assumes "admit_controlled_job c p (controlled_request rt req started) (ticked_app a) = (Inr x, a')"
    and "get_provisioning_job_by_idempotency_key (app_store a) (jr_idempotencyKey req) = None"
    and "get_provisioning_plan (app_store a) (jr_planId req) = Some p" "plan_mode p = Enforcement"
    and "map_get (app_connectors a) (plan_connectorId p) = Some c"
  shows "write_authorized a req p"
proof -
  from assms(1) obtain ap co where ok: "coalesce_opt (jr_approval req) (plan_approval p) = Some ap"
    "coalesce_opt (jr_control req) (plan_control p) = Some co" "approverId ap \<noteq> []" "changeTicket ap \<noteq> []"
    "jr_approverId req = [] \<or> jr_approverId req = approverId ap" "unexpired_at (app_clock a (Suc (app_ticks a))) ap"
    "guardrail_error c co = None"
    "readiness_error (app_regexp a) (app_store a) c (plan_connectorId p) (plan_readinessReportId p) (Some ap) (Some co) = None"
    by (rule admitted) (simp add: controlled_request_def)
  from ok(8) obtain report where "get_readiness_report (app_store a) (the (plan_readinessReportId p)) = Some report"
    "rep_connectorId report = plan_connectorId p" "rep_status report = Readiness_ready" "rep_control report = co"
    "change_ticket_matches (app_regexp a) (rep_changeTicketPattern report) (changeTicket ap)"
    by (rule report_authorizes)
  with ok assms(2-) guardrails_kept [OF ok(7)] show ?thesis unfolding write_authorized_def by blast
qed

text \<open>
  C8: a connector is asked to apply a change at most once for a request, and only if no job has
  the request's idempotency key, the plan is stored under the requested id in enforcement mode, its
  connector is registered as the synthetic mock with provisioning support, an approval with a change
  ticket by the job's approver is present and has not expired, the controls are safe, and the plan's
  readiness report was recorded for this connector and these controls, is ready, and its pattern
  matches the ticket. What is applied is the stored plan itself.
\<close>
theorem provider_writes_are_authorized:
  assumes "create_provisioning_job rt req a = (r, b)"
    and "\<And>i c. map_get (app_connectors a) i = Some c \<Longrightarrow> \<exists>d. c = watched d"
  shows "\<exists>cs. snd (app_provider b) = snd (app_provider a) @ cs \<and> length (filter is_apply cs) \<le> 1 \<and>
    (\<forall>p. Called_apply p \<in> set cs \<longrightarrow> write_authorized a req p)"
  using assms(1)
proof (cases rule: create_provisioning_job_cases)
  case (dry_run p c r')
  from assms(2) [OF dry_run(4)] obtain d where c: "c = watched d" by blast
  obtain v w where ver: "con_verifyProvisioningChange c p (app_provider (ticked_app a)) = (v, w)" by (rule prod.exhaust)
  from dry_run_provider [OF dry_run(6) ver] have "app_provider b = w" .
  with ver show ?thesis by (intro exI [of _ "[Called_verify p]"]) (auto simp: c dest: snd_of_logged)
next
  case (enforce p c r')
  note found = enforce(1-4)
  from assms(2) [OF enforce(4)] obtain d where c: "c = watched d" by blast
  let ?req = "controlled_request rt req (app_clock a (app_ticks a))"
  obtain r0 b0 where ex: "execute_controlled_job c p ?req (ticked_app a) = (r0, b0)" by (rule prod.exhaust)
  have b: "app_provider b = app_provider b0" by (rule controlled_provider [OF enforce(6) ex])
  have auth: "admit_controlled_job c p ?req (ticked_app a) = (Inr x, a') \<Longrightarrow> write_authorized a req p" for x a'
    by (rule admission_authorizes [OF _ found])
  from ex show ?thesis
  proof (cases rule: execution)
    case (refused e)
    with b show ?thesis by (auto simp: same_provider_def)
  next
    case (failed x a' y)
    with b auth show ?thesis by (intro exI [of _ "[Called_apply p]"]) (auto simp: c dest: snd_of_logged)
  next
    case (unverified x a' applied w y)
    with b auth show ?thesis
      by (intro exI [of _ "[Called_apply p, Called_verify applied]"]) (auto simp: c dest!: snd_of_logged)
  next
    case (executed x a' applied w verified t who)
    with b auth show ?thesis
      by (intro exI [of _ "[Called_apply p, Called_verify applied]"]) (auto simp: c dest!: snd_of_logged)
  qed
qed auto


subsection \<open>Resubmission\<close>

lemma map_set_twice: "map_set i v (map_set i u m) = map_set i v m"
  by (induction m) auto

lemma find_set:
  "find P (map_values m) = None \<Longrightarrow> P v \<Longrightarrow> find P (map_values (map_set i v m)) = Some v"
  by (induction m) (auto split: if_splits)

lemma stored_job:
  assumes "store_job_with_audit rt job inputs a = (Inr j, b)"
  obtains ids where "j = job\<lparr>job_auditEventIds := ids\<rparr>"
    "st_provisioningJobs (app_store b) = map_set (entity_id job) j (st_provisioningJobs (app_store a))"
proof -
  let ?a = "with_store (upsert_provisioning_job job) a"
  from assms obtain es a' where run: "collect_each (\<lambda>i. audit rt i False) inputs ?a = (Inr es, a')"
    and j: "j = job\<lparr>job_auditEventIds := map eventId es\<rparr>" and b: "b = with_store (upsert_provisioning_job j) a'"
    by (auto simp: store_job_with_audit_def andthen_Inr Let_def)
  have "keeps_jobs ?a a'" by (rule evolvesD [OF jobs.each [OF jobs.audit_run] run])
  then show thesis
    by (intro that [OF j]) (simp add: b j keeps_jobs_def same_jobs_def upsert_provisioning_job_def map_set_twice)
qed

lemma keyed_key: "keyed key m \<Longrightarrow> map_get m i = Some v \<Longrightarrow> key v = i"
  by (auto simp: keyed_def dest!: map_of_SomeD)

lemma stored_plan_id: "store_inv s \<Longrightarrow> get_provisioning_plan s i = Some p \<Longrightarrow> entity_id p = i"
  using keyed_key [of entity_id "st_provisioningPlans s" i p] by (simp add: store_inv_def get_provisioning_plan_def)

lemma found_job_key:
  "get_provisioning_job_by_idempotency_key s k = Some j \<Longrightarrow> job_idempotencyKey j = k"
  by (auto simp: get_provisioning_job_by_idempotency_key_def find_Some_iff)

text \<open>A new job, by either way: its request's key, plan and approver, stored under its id.\<close>

definition answers_request :: "job_request \<Rightarrow> provisioning_job \<Rightarrow> bool" where
  "answers_request req j \<longleftrightarrow> job_idempotencyKey j = jr_idempotencyKey req \<and>
     job_planId j = jr_planId req \<and> job_approverId j = jr_approverId req"

lemma new_job_stored:
  assumes "store_inv (app_store a)" "create_provisioning_job rt req a = (Inr (Some j), b)"
    and new: "get_provisioning_job_by_idempotency_key (app_store a) (jr_idempotencyKey req) = None"
  shows "answers_request req j \<and>
    st_provisioningJobs (app_store b) = map_set (entity_id j) j (st_provisioningJobs (app_store a))"
  using assms(2)
proof (cases rule: create_provisioning_job_cases)
  case (enforce p c r')
  let ?req = "controlled_request rt req (app_clock a (app_ticks a))"
  have id: "entity_id p = jr_planId req"
    using enforce(2) assms(1) by (intro stored_plan_id)
  from enforce(5) have r': "r' = Inr j" by (cases r') auto
  from enforce(6) [unfolded r'] obtain ex a1 where run: "execute_controlled_job c p ?req (ticked_app a) = (Inr ex, a1)"
    and rest: "andthen (store_job_with_audit rt (ex_job ex) (ex_auditInputs ex)) (\<lambda>job.
     andthen (change (persist_job (Write_plan (ex_updatedPlan ex)) (ex_completedAt ex))) (\<lambda>_.
     andthen (change (persist_job (Write_job job) (ex_completedAt ex))) (\<lambda>_.
     andthen (change (persist_app_state (ex_completedAt ex))) (\<lambda>_. give job))))
      (with_store (upsert_provisioning_plan (ex_updatedPlan ex)) a1) = (Inr j, b)"
    unfolding create_controlled_enforcement_job_def by (subst (asm) andthen_Inr) auto
  from rest obtain a2 where stored: "store_job_with_audit rt (ex_job ex) (ex_auditInputs ex)
      (with_store (upsert_provisioning_plan (ex_updatedPlan ex)) a1) = (Inr j, a2)"
    and b: "b = persist_app_state (ex_completedAt ex) (persist_job (Write_job j) (ex_completedAt ex)
      (persist_job (Write_plan (ex_updatedPlan ex)) (ex_completedAt ex) a2))"
    by (auto simp: andthen_Inr)
  from stored obtain ids where j: "j = (ex_job ex)\<lparr>job_auditEventIds := ids\<rparr>"
    and stored: "st_provisioningJobs (app_store a2) = map_set (entity_id (ex_job ex)) j
      (st_provisioningJobs (app_store (with_store (upsert_provisioning_plan (ex_updatedPlan ex)) a1)))"
    by (rule stored_job)
  from stored have st: "st_provisioningJobs (app_store a2) =
      map_set (entity_id (ex_job ex)) j (st_provisioningJobs (app_store a1))"
    by (simp add: upsert_provisioning_plan_def)
  have "keeps_jobs a2 b" unfolding b by (intro jobs.trans [OF jobs.trans [OF jobs.jobs_written jobs.jobs_written] jobs.app_state])
  moreover from run have "app_engine a1 = app_engine a"
    by (cases rule: execution) auto
  moreover from run have "answers_request req (ex_job ex)"
    by (cases rule: execution) (auto simp: Let_def controlled_job_def controlled_request_def answers_request_def id)
  ultimately show ?thesis using st by (simp add: j answers_request_def keeps_jobs_def same_jobs_def app_store_def)
next
  case (dry_run p c r')
  have id: "entity_id p = jr_planId req"
    using dry_run(2) assms(1) by (intro stored_plan_id)
  from dry_run(5) have r': "r' = Inr j" by (cases r') auto
  from dry_run(6) [unfolded r'] obtain v a1 where ver: "ask_provider (con_verifyProvisioningChange c p) (ticked_app a) = (Inr v, a1)"
    unfolding create_dry_run_job_def by (subst (asm) andthen_Inr) auto
  let ?t = "app_clock a1 (app_ticks a1)"
  let ?job = "dry_run_job p req (job_id_for rt req) (app_clock a (app_ticks a)) ?t (dry_run_verification p ?t v)"
  from dry_run(6) [unfolded r'] ver obtain a2 where stored: "store_job_with_audit rt ?job (dry_run_audit_inputs (app_actor a1) p ?job)
      (a1\<lparr>app_ticks := Suc (app_ticks a1)\<rparr>) = (Inr j, a2)"
    and b: "b = persist_app_state ?t (persist_job (Write_job j) ?t a2)"
    by (simp add: create_dry_run_job_def Let_def) (auto simp: andthen_Inr)
  from stored obtain ids where j: "j = ?job\<lparr>job_auditEventIds := ids\<rparr>"
    and stored: "st_provisioningJobs (app_store a2) = map_set (entity_id ?job) j
      (st_provisioningJobs (app_store (a1\<lparr>app_ticks := Suc (app_ticks a1)\<rparr>)))"
    by (rule stored_job)
  from stored have st: "st_provisioningJobs (app_store a2) = map_set (entity_id ?job) j (st_provisioningJobs (app_store a1))"
    by (simp add: app_store_def)
  have "keeps_jobs a2 b" unfolding b by (intro jobs.trans [OF jobs.jobs_written jobs.app_state])
  moreover from ver have "app_engine a1 = app_engine a"
    by (auto simp: ask_provider_def split: prod.splits)
  ultimately show ?thesis using st
    by (simp add: j answers_request_def dry_run_job_def id keeps_jobs_def same_jobs_def app_store_def)
qed (use new in auto)

lemma flows_keep_jobs: "(app_flow rt)\<^sup>*\<^sup>* a b \<Longrightarrow> keeps_jobs a b"
  by (induction rule: rtranclp_induct) (auto intro: jobs.refl jobs.trans jobs.flow_ordered)

text \<open>A job that was created for a request is found under its key as long as only other flows run.\<close>

lemma job_found_again:
  assumes "store_inv (app_store a)" "create_provisioning_job rt req a = (Inr (Some j), b)" "(app_flow rt)\<^sup>*\<^sup>* b c"
  shows "get_provisioning_job_by_idempotency_key (app_store c) (jr_idempotencyKey req) = Some j \<and> answers_request req j"
proof -
  have "st_provisioningJobs (app_store c) = st_provisioningJobs (app_store b)"
    using flows_keep_jobs [OF assms(3)] by (simp add: keeps_jobs_def same_jobs_def)
  then have same: "get_provisioning_job_by_idempotency_key (app_store c) k = get_provisioning_job_by_idempotency_key (app_store b) k" for k
    by (simp add: get_provisioning_job_by_idempotency_key_def)
  have "get_provisioning_job_by_idempotency_key (app_store b) (jr_idempotencyKey req) = Some j \<and> answers_request req j"
  proof (cases "get_provisioning_job_by_idempotency_key (app_store a) (jr_idempotencyKey req)")
    case None
    from new_job_stored [OF assms(1,2) None] None show ?thesis
      by (simp add: get_provisioning_job_by_idempotency_key_def answers_request_def find_set)
  next
    case (Some j')
    from assms(2) have "b = a \<and> j' = j \<and> answers_request req j"
      by (cases rule: create_provisioning_job_cases)
        (use Some found_job_key [OF Some] in \<open>auto simp: answers_request_def split: if_splits\<close>)
    with Some show ?thesis by simp
  qed
  then show ?thesis by (simp add: same)
qed

text \<open>
  C10: submitting a request again returns the same job and changes nothing, whatever flows other than
  job creation ran in between: no second job, no second call of the connector, no event. A request
  that reuses the key for another plan or approver is refused with status 409, and changes nothing.
\<close>
theorem job_resubmission_changes_nothing:
  assumes "store_inv (app_store a)" "create_provisioning_job rt req a = (Inr (Some j), b)" "(app_flow rt)\<^sup>*\<^sup>* b c"
  shows "create_provisioning_job rt req c = (Inr (Some j), c) \<and>
    (\<forall>req'. jr_idempotencyKey req' = jr_idempotencyKey req \<longrightarrow>
       jr_planId req' \<noteq> jr_planId req \<or> jr_approverId req' \<noteq> jr_approverId req \<longrightarrow>
       create_provisioning_job rt req' c = (Inl (idempotency_key_reused ''job''), c))"
  using job_found_again [OF assms] by (auto simp: create_provisioning_job_def answers_request_def)

end
