(* ===== verification/Enforcement_Properties.thy ===== *)
theory Enforcement_Properties
  imports Runtime_Properties
begin

text \<open>
  Readiness reports, dry runs and failing connectors, with a small app that the concrete instances
  of the runtime's properties are about.
\<close>

subsection \<open>A small app\<close>

definition sample_approval :: provisioning_approval where
  "sample_approval = \<lparr>approverId = ''approver'', changeTicket = ''t'', approvedAt = ''2026'',
     approval_expiresAt = None, approval_reason = None\<rparr>"

definition sample_controls :: enforcement_control where
  "sample_controls = \<lparr>syntheticOnly = True, liveProviderWrites = False, incidentMode = False, breakGlass = False\<rparr>"

definition sample_plan :: provisioning_plan where
  "sample_plan = (mock_revocation_plan ''g'')\<lparr>entity_id := ''p'', plan_mode := Enforcement, plan_status := Plan_approved,
     plan_actions := [], plan_approval := Some sample_approval, plan_control := Some sample_controls,
     plan_readinessReportId := Some ''ready''\<rparr>"

definition sample_report :: enforcement_readiness_report where
  "sample_report = readiness_report (mock_connector :: unit connector_adapter) ''mock''
     \<lparr>rr_control = sample_controls, rr_requiredApproverRole = None, rr_changeTicketPattern = Some ''t''\<rparr> ''ready'' ''2026'' []"

definition no_persistence :: "'p runtime_persistence" where
  "no_persistence = \<lparr>graphRepository = None, jobRepository = None, stateRepository = None, auditRepository = None\<rparr>"

definition job_app :: "'c connector_adapter \<Rightarrow> provisioning_plan \<Rightarrow> 'c \<Rightarrow> ('c, unit) local_app" where
  "job_app c p w =
    \<lparr>app_engine = small_engine\<lparr>en_store := empty_store
       \<lparr>st_provisioningPlans := [(entity_id p, p)], st_readinessReports := [(''ready'', sample_report)]\<rparr>\<rparr>,
     app_persistence = no_persistence, app_degradations = [], app_connectors = [(''mock'', c)],
     app_actor = ''service:api'', app_requestActor = None, app_sequences = [], app_clock = (\<lambda>_. ''2026''), app_ticks = 0,
     app_regexp = (\<lambda>_. Some (\<lambda>_. True)), app_provider = w, app_disk = ()\<rparr>"

definition sample_job_request :: job_request where
  "sample_job_request = \<lparr>jr_planId = ''p'', jr_approverId = ''approver'', jr_idempotencyKey = ''k'', jr_mode = None,
     jr_approval = None, jr_control = None\<rparr>"

lemma job_app_store:
  "app_store (job_app c p w) = empty_store
     \<lparr>st_provisioningPlans := [(entity_id p, p)], st_readinessReports := [(''ready'', sample_report)]\<rparr>"
  by (simp add: job_app_def app_store_def small_engine_def)

lemma job_app_simps [simp]:
  "app_connectors (job_app c p w) = [(''mock'', c)]" "app_provider (job_app c p w) = w"
  "app_clock (job_app c p w) = (\<lambda>_. ''2026'')" "app_ticks (job_app c p w) = 0"
  "app_regexp (job_app c p w) = (\<lambda>_. Some (\<lambda>_. True))"
  "en_recorder (app_engine (job_app c p w)) = []"
  by (simp_all add: job_app_def app_store_def small_engine_def)

lemma job_app_found [simp]:
  "get_provisioning_job_by_idempotency_key (app_store (job_app c p w)) k = None"
  "get_provisioning_plan (app_store (job_app c p w)) (entity_id p) = Some p"
  "get_readiness_report (app_store (job_app c p w)) ''ready'' = Some sample_report"
  by (simp_all add: get_provisioning_job_by_idempotency_key_def get_provisioning_plan_def get_readiness_report_def
      empty_store_def job_app_store)

lemma job_app_inv: "store_inv (app_store (job_app c p w))"
proof -
  have "entity_id sample_report = ''ready''" by (simp add: sample_report_def readiness_report_def)
  then show ?thesis using empty_store_inv by (simp add: store_inv_def keyed_def empty_store_def job_app_store)
qed

lemma sample_date: "date_parse ''2026'' = Some 1767225600000"
  by code_simp

definition mock_like :: "'c connector_adapter \<Rightarrow> bool" where
  "mock_like c \<longleftrightarrow> supportsProvisioning (con_capabilities c) \<and> con_provider c = Some ''mock'' \<and>
     con_tenantBoundary c = Some ''synthetic:local'' \<and> con_id c = ''mock''"

lemma mock_is_like: "mock_like (watched mock_connector)" "mock_like mock_connector"
  by (simp_all add: mock_like_def mock_connector_def watched_def)

lemma sample_admitted:
  assumes "mock_like c" "plan_approval p = Some sample_approval" "plan_control p = Some sample_controls"
    "plan_readinessReportId p = Some ''ready''" "plan_connectorId p = ''mock''"
  shows "admit_controlled_job c p (controlled_request rt sample_job_request started) (ticked_app (job_app c p w)) =
    (Inr (), ticked_app (job_app c p w))"
proof -
  have guard: "guardrail_error c sample_controls = None"
    using assms(1) by (simp add: guardrail_error_def sample_controls_def mock_like_def)
  have "change_ticket_matches (\<lambda>_. Some (\<lambda>_. True)) ''t'' ''t''"
    by (simp add: change_ticket_matches_def is_safe_change_ticket_pattern_def change_ticket_pattern_max_length_def
        change_ticket_value_max_length_def)
  then have ready: "readiness_error (\<lambda>_. Some (\<lambda>_. True)) (app_store (job_app c p w)) c ''mock'' (Some ''ready'')
      (Some sample_approval) (Some sample_controls) = None"
    using assms(1) by (simp add: readiness_error_def sample_report_def readiness_report_def sample_approval_def
        sample_controls_def mock_like_def mock_connector_def provider_of_def boundary_of_def coalesce_def)
  have allowed: "assert_controlled_enforcement_allowed c (Some sample_approval) (Some sample_controls) (Some ''approver'')
      (ticked_app (job_app c p w)) = (Inr (), ticked_app (job_app c p w))"
    by (simp add: assert_controlled_enforcement_allowed_def guard sample_approval_def sample_date assert_not_expired_def andthen_def)
  have "assert_enforcement_readiness c ''mock'' (Some ''ready'') (Some sample_approval) (Some sample_controls)
      (ticked_app (job_app c p w)) = (Inr (), ticked_app (job_app c p w))"
    using ready by (simp add: assert_enforcement_readiness_def)
  with allowed assms(2-) show ?thesis
    by (simp add: admit_controlled_job_def controlled_request_def sample_job_request_def job_controls_error_def andthen_def Let_def)
qed

definition watched_app :: "provisioning_plan \<Rightarrow> (unit \<times> connector_call list, unit) local_app" where
  "watched_app p = job_app (watched mock_connector) p ((), [])"

lemma watched_app_watched:
  "map_get (app_connectors (watched_app p)) i = Some c \<Longrightarrow> \<exists>d. c = watched d"
  by (auto simp: watched_app_def split: if_splits)

subsection \<open>Writes\<close>

lemma answered: "snd (andthen m (\<lambda>j. give (Some j)) x) = snd (m x)"
  by (auto simp: andthen_def split: prod.split sum.split)

lemma admitted_plans_are_applied:
  assumes "create_provisioning_job rt req a = (r, b)"
    and "get_provisioning_job_by_idempotency_key (app_store a) (jr_idempotencyKey req) = None"
    and "get_provisioning_plan (app_store a) (jr_planId req) = Some p"
    and "plan_mode p = Enforcement" "jr_mode req \<in> {None, Some Enforcement}"
    and "map_get (app_connectors a) (plan_connectorId p) = Some (watched d)"
    and admit: "admit_controlled_job (watched d) p (controlled_request rt req (app_clock a (app_ticks a))) (ticked_app a) = (Inr x, a')"
  shows "\<exists>cs. snd (app_provider b) = snd (app_provider a) @ Called_apply p # cs"
proof -
  let ?req = "controlled_request rt req (app_clock a (app_ticks a))" and ?c = "watched d"
  obtain r1 b1 where job: "create_controlled_enforcement_job rt ?c p ?req (ticked_app a) = (r1, b1)"
    by (rule prod.exhaust)
  have "snd (create_provisioning_job rt req a) = b1"
    using assms(2-6) job
    by (auto simp: create_provisioning_job_def Let_def controlled_request_def ticked_app_def answered)
  with assms(1) have "b = b1" by simp
  moreover obtain r0 b0 where ex: "execute_controlled_job ?c p ?req (ticked_app a) = (r0, b0)"
    by (rule prod.exhaust)
  ultimately have b: "app_provider b = app_provider b0" using controlled_provider [OF job] by simp
  have a': "app_provider a' = app_provider a"
    using evolvesD [OF provider.job_admitted admit] by (simp add: same_provider_def)
  obtain r2 w where ap: "con_applyProvisioningChange ?c p (app_provider a) = (r2, w)" by (rule prod.exhaust)
  from ap have w: "snd w = snd (app_provider a) @ [Called_apply p]" by (auto dest: snd_of_logged)
  show ?thesis
  proof (cases r2)
    case (Inl y)
    with ex admit ap a' have "app_provider b0 = w"
      by (auto simp: execute_controlled_job_def ask_provider_def andthen_def)
    with w show ?thesis by (simp add: b)
  next
    case (Inr applied)
    obtain r3 w' where ver: "con_verifyProvisioningChange ?c applied w = (r3, w')" by (rule prod.exhaust)
    with ex admit ap a' Inr have "app_provider b0 = w'"
      by (cases r3) (auto simp: execute_controlled_job_def ask_provider_def andthen_def perform_def app_now_def Let_def)
    with w ver show ?thesis by (auto simp: b dest: snd_of_logged)
  qed
qed

text \<open>
  C15: whatever passes the guards is applied: a request with a fresh key for an enforcement plan
  makes the connector apply the stored plan, whatever the status of the plan. A plan that was
  applied or failed before is applied again under another key.
\<close>
theorem admitted_plans_are_applied_again:
  assumes "create_provisioning_job rt req a = (r, b)"
    and "get_provisioning_job_by_idempotency_key (app_store a) (jr_idempotencyKey req) = None"
    and "get_provisioning_plan (app_store a) (jr_planId req) = Some p"
    and "plan_mode p = Enforcement" "jr_mode req \<in> {None, Some Enforcement}"
    and "map_get (app_connectors a) (plan_connectorId p) = Some (watched d)"
    and admit: "admit_controlled_job (watched d) p (controlled_request rt req (app_clock a (app_ticks a))) (ticked_app a) = (Inr x, a')"
  shows "\<exists>cs. snd (app_provider b) = snd (app_provider a) @ Called_apply p # cs"
  by (rule admitted_plans_are_applied [OF assms])

definition applied_plan :: provisioning_plan where
  "applied_plan = sample_plan\<lparr>plan_status := Plan_applied\<rparr>"

lemma sample_plan_fields [simp]:
  "entity_id sample_plan = ''p''" "plan_mode sample_plan = Enforcement" "plan_approval sample_plan = Some sample_approval"
  "plan_control sample_plan = Some sample_controls" "plan_readinessReportId sample_plan = Some ''ready''"
  "plan_connectorId sample_plan = ''mock''"
  by (simp_all add: sample_plan_def mock_revocation_plan_def)

lemma sample_request_fields [simp]:
  "jr_planId sample_job_request = ''p''" "jr_idempotencyKey sample_job_request = ''k''" "jr_mode sample_job_request = None"
  by (simp_all add: sample_job_request_def)

lemma audits_return: "\<exists>es b. collect_each (\<lambda>i. audit rt i x) is a = (Inr es, b)"
proof (induction "is" arbitrary: a)
  case (Cons i js)
  obtain e a1 where "audit rt i x a = (Inr e, a1)"
    by (cases "record_audit rt i None x a") (simp add: audit_def perform_def)
  with Cons [of a1] show ?case by (auto simp: andthen_Inr)
qed simp

lemma stored_job_returns: "\<exists>j b. store_job_with_audit rt job inputs a = (Inr j, b)"
proof -
  obtain es b where "collect_each (\<lambda>i. audit rt i False) inputs (with_store (upsert_provisioning_job job) a) = (Inr es, b)"
    using audits_return by blast
  then show ?thesis by (auto simp: store_job_with_audit_def Let_def andthen_Inr)
qed

lemma executed_job_returns:
  assumes "execute_controlled_job c p req a = (Inr ex, b0)"
  shows "\<exists>j b. create_controlled_enforcement_job rt c p req a = (Inr j, b)"
proof -
  obtain j b1 where "store_job_with_audit rt (ex_job ex) (ex_auditInputs ex)
      (with_store (upsert_provisioning_plan (ex_updatedPlan ex)) b0) = (Inr j, b1)"
    using stored_job_returns by blast
  with assms show ?thesis by (simp add: create_controlled_enforcement_job_def andthen_def)
qed

lemma sample_run:
  assumes "p = sample_plan \<or> p = applied_plan"
  shows "get_provisioning_plan (app_store (watched_app p)) (jr_planId sample_job_request) = Some p"
    "get_provisioning_job_by_idempotency_key (app_store (watched_app p)) k = None"
    "plan_mode p = Enforcement" "jr_mode sample_job_request \<in> {None, Some Enforcement}"
    "map_get (app_connectors (watched_app p)) (plan_connectorId p) = Some (watched mock_connector)"
    "admit_controlled_job (watched mock_connector) p (controlled_request quiet_runtime sample_job_request
       (app_clock (watched_app p) (app_ticks (watched_app p)))) (ticked_app (watched_app p)) = (Inr (), ticked_app (watched_app p))"
proof -
  have p: "entity_id p = ''p''" "plan_mode p = Enforcement" "plan_approval p = Some sample_approval"
    "plan_control p = Some sample_controls" "plan_readinessReportId p = Some ''ready''" "plan_connectorId p = ''mock''"
    using assms by (auto simp: applied_plan_def)
  then show "admit_controlled_job (watched mock_connector) p (controlled_request quiet_runtime sample_job_request
       (app_clock (watched_app p) (app_ticks (watched_app p)))) (ticked_app (watched_app p)) = (Inr (), ticked_app (watched_app p))"
    unfolding watched_app_def by (intro sample_admitted mock_is_like(1))
  show "get_provisioning_plan (app_store (watched_app p)) (jr_planId sample_job_request) = Some p"
    using job_app_found(2) [of "watched mock_connector" p "((), [])"] p by (simp add: watched_app_def)
qed (use assms in \<open>auto simp: watched_app_def applied_plan_def\<close>)

lemma admitted_plans_are_applied_again_witness:
  "\<exists>cs. snd (app_provider (snd (create_provisioning_job quiet_runtime sample_job_request (watched_app applied_plan)))) =
     Called_apply applied_plan # cs \<and> plan_status applied_plan = Plan_applied"
proof -
  obtain r b where run: "create_provisioning_job quiet_runtime sample_job_request (watched_app applied_plan) = (r, b)"
    by (rule prod.exhaust)
  note sample = sample_run [OF disjI2 [OF HOL.refl]]
  from admitted_plans_are_applied_again [OF run sample(2,1,3-6)] run show ?thesis
    by (simp add: watched_app_def applied_plan_def)
qed

lemma provider_writes_are_authorized_witness:
  "\<exists>r b. create_provisioning_job quiet_runtime sample_job_request (watched_app sample_plan) = (r, b) \<and>
     Called_apply sample_plan \<in> set (snd (app_provider b)) \<and>
     write_authorized (watched_app sample_plan) sample_job_request sample_plan"
proof -
  let ?a = "watched_app sample_plan"
  obtain r b where run: "create_provisioning_job quiet_runtime sample_job_request ?a = (r, b)" by (rule prod.exhaust)
  note sample = sample_run [OF disjI1 [OF HOL.refl]]
  have called: "Called_apply sample_plan \<in> set (snd (app_provider b))"
    using admitted_plans_are_applied [OF run sample(2,1,3-6)] by auto
  have none: "snd (app_provider ?a) = []" by (simp add: watched_app_def)
  from provider_writes_are_authorized [OF run watched_app_watched] none obtain cs where cs: "snd (app_provider b) = cs"
    "\<forall>p. Called_apply p \<in> set cs \<longrightarrow> write_authorized ?a sample_job_request p"
    by auto
  with run called show ?thesis by blast
qed

lemma sample_job_runs:
  obtains j b where "create_provisioning_job quiet_runtime sample_job_request (watched_app sample_plan) = (Inr (Some j), b)"
proof -
  let ?a = "watched_app sample_plan" and ?req = "controlled_request quiet_runtime sample_job_request ''2026''"
  note sample = sample_run [OF disjI1 [OF HOL.refl]]
  have "\<exists>ex b0. execute_controlled_job (watched mock_connector) sample_plan ?req (ticked_app ?a) = (Inr ex, b0)"
    using sample(6) by (simp add: execute_controlled_job_def ask_provider_def andthen_def logged_def mock_operations
        perform_def app_now_def Let_def watched_app_def)
  then obtain j b where "create_controlled_enforcement_job quiet_runtime (watched mock_connector) sample_plan ?req (ticked_app ?a) = (Inr j, b)"
    using executed_job_returns by blast
  with sample show ?thesis
    by (intro that [of j b])
      (simp add: create_provisioning_job_def Let_def andthen_def [of "create_controlled_enforcement_job _ _ _ _"] controlled_request_def ticked_app_def watched_app_def)
qed

lemma job_resubmission_changes_nothing_witness:
  "\<exists>j b. create_provisioning_job quiet_runtime sample_job_request (watched_app sample_plan) = (Inr (Some j), b) \<and>
     create_provisioning_job quiet_runtime sample_job_request b = (Inr (Some j), b)"
proof -
  obtain j b where run: "create_provisioning_job quiet_runtime sample_job_request (watched_app sample_plan) = (Inr (Some j), b)"
    by (rule sample_job_runs)
  have "store_inv (app_store (watched_app sample_plan))" unfolding watched_app_def by (rule job_app_inv)
  from job_resubmission_changes_nothing [OF this run rtranclp.rtrancl_refl] run show ?thesis by blast
qed


subsection \<open>Failing readback\<close>

text \<open>
  C14: a write without a trace: when the connector applied a plan and its readback then throws, the
  request fails with that error; the provider has changed, but no job is stored, no event is
  recorded and the stored plan still says it was never applied.
\<close>
theorem unverified_write_leaves_no_trace:
  assumes "create_provisioning_job rt req a = (r, b)"
    and "get_provisioning_job_by_idempotency_key (app_store a) (jr_idempotencyKey req) = None"
    and "get_provisioning_plan (app_store a) (jr_planId req) = Some p"
    and "plan_mode p = Enforcement" "jr_mode req \<in> {None, Some Enforcement}"
    and "map_get (app_connectors a) (plan_connectorId p) = Some c"
    and admit: "admit_controlled_job c p (controlled_request rt req (app_clock a (app_ticks a))) (ticked_app a) = (Inr x, a')"
    and ap: "con_applyProvisioningChange c p (app_provider a) = (Inr applied, w)"
    and ver: "con_verifyProvisioningChange c applied w = (Inl y, w')"
  shows "r = Inl (Raised y) \<and> app_provider b = w' \<and> app_engine b = app_engine a"
proof -
  let ?req = "controlled_request rt req (app_clock a (app_ticks a))"
  have a': "app_provider a' = app_provider a"
    using evolvesD [OF provider.job_admitted admit] by (simp add: same_provider_def)
  have engine: "app_engine a' = app_engine a" using admit by (rule admitted) auto
  have "execute_controlled_job c p ?req (ticked_app a) = (Inl (Raised y), a'\<lparr>app_ticks := Suc (app_ticks a'), app_provider := w'\<rparr>)"
    using admit ap ver a' by (simp add: execute_controlled_job_def ask_provider_def andthen_def perform_def app_now_def)
  then have "create_controlled_enforcement_job rt c p ?req (ticked_app a) =
      (Inl (Raised y), a'\<lparr>app_ticks := Suc (app_ticks a'), app_provider := w'\<rparr>)"
    by (simp add: create_controlled_enforcement_job_def)
  with assms(1-6) have "r = Inl (Raised y) \<and> b = a'\<lparr>app_ticks := Suc (app_ticks a'), app_provider := w'\<rparr>"
    by (auto simp: create_provisioning_job_def Let_def controlled_request_def ticked_app_def)
  then show ?thesis by (simp add: engine)
qed

text \<open>A mock whose provider counts the writes and whose readback fails.\<close>

definition unreadable_mock :: "nat connector_adapter" where
  "unreadable_mock = mock_connector\<lparr>con_applyProvisioningChange := (\<lambda>p n. (Inr (p\<lparr>plan_status := Plan_applied\<rparr>), Suc n)),
     con_verifyProvisioningChange := (\<lambda>p n. (Inl (Error_object ''timeout''), n))\<rparr>"

lemma unverified_write_leaves_no_trace_witness:
  "\<exists>b. create_provisioning_job quiet_runtime sample_job_request (job_app unreadable_mock sample_plan 0) =
     (Inl (Raised (Error_object ''timeout'')), b) \<and> app_provider b = 1 \<and>
     app_engine b = app_engine (job_app unreadable_mock sample_plan 0)"
proof -
  let ?a = "job_app unreadable_mock sample_plan 0"
  obtain r b where run: "create_provisioning_job quiet_runtime sample_job_request ?a = (r, b)" by (rule prod.exhaust)
  have like: "mock_like unreadable_mock" by (simp add: mock_like_def unreadable_mock_def mock_connector_def)
  have admit: "admit_controlled_job unreadable_mock sample_plan (controlled_request quiet_runtime sample_job_request
      (app_clock ?a (app_ticks ?a))) (ticked_app ?a) = (Inr (), ticked_app ?a)"
    by (rule sample_admitted [OF like]) simp_all
  have found: "get_provisioning_plan (app_store ?a) (jr_planId sample_job_request) = Some sample_plan"
    using job_app_found(2) [of unreadable_mock sample_plan 0] by simp
  have "con_applyProvisioningChange unreadable_mock sample_plan (app_provider ?a) = (Inr applied_plan, 1)"
    "con_verifyProvisioningChange unreadable_mock applied_plan 1 = (Inl (Error_object ''timeout''), 1)"
    by (simp_all add: unreadable_mock_def applied_plan_def)
  from unverified_write_leaves_no_trace [OF run _ found _ _ _ admit this] run show ?thesis by simp
qed

subsection \<open>Dry runs\<close>

definition plans_kept :: "rebac_store \<Rightarrow> rebac_store \<Rightarrow> bool" where
  "plans_kept s s' \<longleftrightarrow> st_provisioningPlans s' = st_provisioningPlans s"

definition keeps_plans :: "('c, 'p) local_app \<Rightarrow> ('c, 'p) local_app \<Rightarrow> bool" where
  "keeps_plans a b \<longleftrightarrow> plans_kept (app_store a) (app_store b)"

interpretation plans: runtime_order keeps_plans rt plans_kept for rt
  by unfold_locales
    (auto simp: keeps_plans_def plans_kept_def app_store_def evaluate_store with_store_def record_audit_event_def)

lemma dry_run_outcome:
  assumes "create_dry_run_job rt c p req k started a = (Inr j, b)"
  obtains ids t v where "j = (dry_run_job p req k started t (dry_run_verification p t v))\<lparr>job_auditEventIds := ids\<rparr>"
    "keeps_plans a b"
proof -
  from assms obtain v a1 where ver: "ask_provider (con_verifyProvisioningChange c p) a = (Inr v, a1)"
    unfolding create_dry_run_job_def by (subst (asm) andthen_Inr) auto
  let ?t = "app_clock a1 (app_ticks a1)"
  let ?job = "dry_run_job p req k started ?t (dry_run_verification p ?t v)"
  from assms ver obtain a2 where stored: "store_job_with_audit rt ?job (dry_run_audit_inputs (app_actor a1) p ?job)
      (a1\<lparr>app_ticks := Suc (app_ticks a1)\<rparr>) = (Inr j, a2)"
    and b: "b = persist_app_state ?t (persist_job (Write_job j) ?t a2)"
    by (simp add: create_dry_run_job_def Let_def) (auto simp: andthen_Inr)
  from stored obtain ids where j: "j = ?job\<lparr>job_auditEventIds := ids\<rparr>" by (rule stored_job)
  have "evolves keeps_plans (store_job_with_audit rt ?job (dry_run_audit_inputs (app_actor a1) p ?job))"
    by (rule plans.job_stored) (simp add: plans_kept_def upsert_provisioning_job_def)
  from evolvesD [OF this stored] have first: "keeps_plans a a2"
    using ver by (auto simp: keeps_plans_def app_store_def ask_provider_def split: prod.splits)
  have "keeps_plans a2 b" unfolding b by (intro plans.trans [OF plans.jobs_written plans.app_state])
  from that [OF j plans.trans [OF first this]] show thesis .
qed

text \<open>
  a dry run asks its connector for nothing but one verification of the stored plan, and its job
  says so: completed, every action of the plan skipped in its order, with no plan changed.
\<close>
theorem dry_runs_only_verify:
  assumes "create_provisioning_job rt req a = (Inr (Some j), b)"
    and "get_provisioning_job_by_idempotency_key (app_store a) (jr_idempotencyKey req) = None"
    and "get_provisioning_plan (app_store a) (jr_planId req) = Some p" "plan_mode p = Dry_run"
    and "map_get (app_connectors a) (plan_connectorId p) = Some (watched d)"
  shows "snd (app_provider b) = snd (app_provider a) @ [Called_verify p] \<and>
    job_mode j = Dry_run \<and> job_status j = Job_completed \<and>
    map (\<lambda>x. (result_actionId x, result_status x)) (job_actionResults j) =
      map (\<lambda>x. (act_actionId x, Step_skipped)) (plan_actions p) \<and>
    list_provisioning_plans (app_store b) = list_provisioning_plans (app_store a)"
  using assms(1)
proof (cases rule: create_provisioning_job_cases)
  case (dry_run p' c r')
  with assms(3,5) have p: "p' = p" and c: "c = watched d" by auto
  from dry_run(5) have r': "r' = Inr j" by (cases r') auto
  from dry_run(6) [unfolded r'] obtain ids t v where
    j: "j = (dry_run_job p' req (job_id_for rt req) (app_clock a (app_ticks a)) t
      (dry_run_verification p' t v))\<lparr>job_auditEventIds := ids\<rparr>" and plans: "keeps_plans (ticked_app a) b"
    by (rule dry_run_outcome)
  obtain x w where ver: "con_verifyProvisioningChange c p' (app_provider (ticked_app a)) = (x, w)" by (rule prod.exhaust)
  from dry_run_provider [OF dry_run(6) ver] ver have "snd (app_provider b) = snd (app_provider a) @ [Called_verify p]"
    by (auto simp: c p dest: snd_of_logged)
  moreover have "map (\<lambda>x. (result_actionId x, result_status x)) (job_actionResults j) =
      map (\<lambda>x. (act_actionId x, Step_skipped)) (plan_actions p)"
    by (simp add: j p dry_run_job_def dry_run_action_result_def)
  ultimately show ?thesis
    using plans by (simp add: j dry_run_job_def keeps_plans_def plans_kept_def list_provisioning_plans_def)
qed (use assms in auto)

lemma dry_runs_only_verify_witness:
  "\<exists>j b. create_provisioning_job quiet_runtime sample_job_request
     (watched_app (sample_plan\<lparr>plan_mode := Dry_run\<rparr>)) = (Inr (Some j), b) \<and>
     snd (app_provider b) = [Called_verify (sample_plan\<lparr>plan_mode := Dry_run\<rparr>)]"
proof -
  let ?p = "sample_plan\<lparr>plan_mode := Dry_run\<rparr>"
  let ?a = "watched_app ?p"
  have found: "get_provisioning_plan (app_store ?a) (jr_planId sample_job_request) = Some ?p"
    using job_app_found(2) [of "watched mock_connector" ?p "((), [])"] by (simp add: watched_app_def)
  have fresh: "get_provisioning_job_by_idempotency_key (app_store ?a) (jr_idempotencyKey sample_job_request) = None"
    and conn: "map_get (app_connectors ?a) (plan_connectorId ?p) = Some (watched mock_connector)"
    by (simp_all add: watched_app_def)
  let ?start = "ticked_app ?a"
  let ?t = "app_clock ?a (app_ticks ?start)"
  let ?job = "dry_run_job ?p sample_job_request (job_id_for quiet_runtime sample_job_request) ''2026'' ?t (dry_run_verification ?p ?t True)"
  let ?asked = "?start\<lparr>app_provider := ((), [Called_verify ?p])\<rparr>"
  obtain j b where job: "store_job_with_audit quiet_runtime ?job (dry_run_audit_inputs (app_actor ?a) ?p ?job)
      (?asked\<lparr>app_ticks := Suc (app_ticks ?asked)\<rparr>) = (Inr j, b)" using stored_job_returns by blast
  have ver: "ask_provider (con_verifyProvisioningChange (watched mock_connector) ?p) ?start = (Inr True, ?asked)"
    by (simp add: ask_provider_def logged_def mock_operations watched_app_def)
  have "app_actor ?start = app_actor ?a" by (simp add: ticked_app_def)
  with job ver have "\<exists>b. create_dry_run_job quiet_runtime (watched mock_connector) ?p sample_job_request
      (job_id_for quiet_runtime sample_job_request) ''2026'' ?start = (Inr j, b)"
    by (simp add: create_dry_run_job_def Let_def andthen_def ver perform_def app_now_def del: watched_simps)
  then obtain b where "create_dry_run_job quiet_runtime (watched mock_connector) ?p sample_job_request
      (job_id_for quiet_runtime sample_job_request) ''2026'' ?start = (Inr j, b)" by blast
  with found fresh conn have run: "create_provisioning_job quiet_runtime sample_job_request ?a = (Inr (Some j), b)"
    by (simp add: create_provisioning_job_def Let_def andthen_def [of "create_dry_run_job _ _ _ _ _ _"] ticked_app_def watched_app_def)
  from dry_runs_only_verify [OF run fresh found _ conn] run show ?thesis
    by (auto simp: watched_app_def)
qed

subsection \<open>Readiness\<close>

lemma all_compensated: "length (filter P xs) = length xs \<longleftrightarrow> list_all P xs"
proof (induction xs)
  case (Cons x xs)
  have "length (filter P xs) \<noteq> Suc (length xs)" using length_filter_le [of P xs] by linarith
  with Cons show ?case by auto
qed simp

definition compensating :: "'c connector_adapter \<Rightarrow> string \<Rightarrow> 'c \<Rightarrow> bool" where
  "compensating c t w \<longleftrightarrow>
     (case fst (con_planProvisioningChange c (compensation_probe_decision t) w) of
        Inl _ \<Rightarrow> False
      | Inr p \<Rightarrow> plan_actions p \<noteq> [] \<and> list_all has_planned_compensation (plan_actions p))"

lemma planned_report:
  "plan_readiness_report c i req k t a = (Inr (x, y), b) \<Longrightarrow>
     x = readiness_report c i req k t (enforcement_readiness_checks c (rr_control req)
       (compensation_check (fst (con_planProvisioningChange c (compensation_probe_decision t) (app_provider a)))))"
  by (auto simp: plan_readiness_report_def probe_provider_def andthen_def Let_def split: prod.splits)

lemma probe_passes:
  "check_status_of (compensation_check (fst (con_planProvisioningChange c (compensation_probe_decision t) w))) = Check_fail
     \<longleftrightarrow> \<not> compensating c t w"
  by (auto simp: compensation_check_def compensating_def pass_if_def Let_def all_compensated split: sum.split)

lemma readiness_persisted [simp]:
  "app_store (persist_job w t a) = app_store a"
  "st_readinessReports (app_store (persist_app_state t a)) = st_readinessReports (app_store a)"
  by (auto simp: persist_job_def try_write_def repository_error_def degrade_def app_store_def with_store_def Let_def
      persist_app_state_def persist_store_snapshot_def replace_persistence_degradations_def split: option.split prod.split)

text \<open>
  a readiness report is ready exactly when the requested controls are safe, the connector is the
  synthetic mock, supports provisioning, discovery and reconciliation, and plans a compensation for
  every action; it never allows live writes, and it is in the store when it is returned.
\<close>
theorem readiness_means:
  assumes "check_enforcement_readiness rt i req a = (Inr report, b)"
  shows "\<exists>c. map_get (app_connectors a) i = Some c \<and>
    (rep_status report = Readiness_ready \<longleftrightarrow>
       safe_controls (rr_control req) \<and> provider_of c = ''mock'' \<and> boundary_of c = ''synthetic:local'' \<and>
       supportsProvisioning (con_capabilities c) \<and> supportsDiscovery (con_capabilities c) \<and>
       supportsReconciliation (con_capabilities c) \<and> compensating c (app_clock a (app_ticks a)) (app_provider a)) \<and>
    rep_control report = rr_control req \<and> rep_connectorId report = i \<and> \<not> rep_liveProviderWritesAllowed report \<and>
    get_readiness_report (app_store b) (entity_id report) = Some report"
proof -
  from assms obtain c where c: "map_get (app_connectors a) i = Some c"
    by (auto simp: check_enforcement_readiness_def split: option.splits)
  let ?t = "app_clock a (app_ticks a)"
  from assms c obtain k a1 where id: "readiness_report_id i ?t (ticked_app a) = (Inr k, a1)"
    and rest1: "andthen (plan_readiness_report c i req k ?t) (\<lambda>(planned, input).
     andthen (audit rt input False) (\<lambda>event.
       let report = planned\<lparr>rep_auditEventIds := [eventId event]\<rparr>
       in andthen (try_store (record_readiness_report report)) (\<lambda>_.
          andthen (change (persist_job (Write_readiness_report report) ?t)) (\<lambda>_.
          andthen (change (persist_app_state ?t)) (\<lambda>_. give report))))) a1 = (Inr report, b)"
    by (auto simp: check_enforcement_readiness_def andthen_Inr ticked_app_def)
  have provider: "app_provider a1 = app_provider a"
    using id by (auto simp: readiness_report_id_def perform_def next_record_sequence_def Let_def andthen_Inr split: prod.splits)
  from rest1 obtain planned input a2 where planned: "plan_readiness_report c i req k ?t a1 = (Inr (planned, input), a2)"
    and rest2: "andthen (audit rt input False) (\<lambda>event.
       let report = planned\<lparr>rep_auditEventIds := [eventId event]\<rparr>
       in andthen (try_store (record_readiness_report report)) (\<lambda>_.
          andthen (change (persist_job (Write_readiness_report report) ?t)) (\<lambda>_.
          andthen (change (persist_app_state ?t)) (\<lambda>_. give report)))) a2 = (Inr report, b)"
    by (subst (asm) andthen_Inr) auto
  let ?report = "\<lambda>e :: audit_event. planned\<lparr>rep_auditEventIds := [eventId e]\<rparr>"
  from iffD1 [OF andthen_Inr rest2 [unfolded Let_def]] obtain e a3 where rest3: "andthen (try_store (record_readiness_report (?report e))) (\<lambda>_.
          andthen (change (persist_job (Write_readiness_report (?report e)) ?t)) (\<lambda>_.
          andthen (change (persist_app_state ?t)) (\<lambda>_. give (?report e)))) a3 = (Inr report, b)"
    by blast
  from iffD1 [OF andthen_Inr rest3] obtain x a4 where stored: "try_store (record_readiness_report (?report e)) a3 = (Inr x, a4)"
    and "andthen (change (persist_job (Write_readiness_report (?report e)) ?t)) (\<lambda>_.
          andthen (change (persist_app_state ?t)) (\<lambda>_. give (?report e))) a4 = (Inr report, b)"
    by blast
  then have report: "report = ?report e"
    and b: "b = persist_app_state ?t (persist_job (Write_readiness_report (?report e)) ?t a4)"
    by (auto simp: andthen_def)
  from stored obtain st where st: "record_readiness_report (?report e) (app_store a3) = Inr st" "a4 = with_store (\<lambda>_. st) a3"
    by (auto simp: try_store_def split: sum.splits)
  have "st_readinessReports (app_store b) = st_readinessReports st" by (simp add: b st(2))
  with st(1) have "get_readiness_report (app_store b) (entity_id report) = Some report"
    by (auto simp: report get_readiness_report_def record_readiness_report_def record_once_def split: option.splits)
  moreover have "rep_status report = Readiness_ready \<longleftrightarrow>
       safe_controls (rr_control req) \<and> provider_of c = ''mock'' \<and> boundary_of c = ''synthetic:local'' \<and>
       supportsProvisioning (con_capabilities c) \<and> supportsDiscovery (con_capabilities c) \<and>
       supportsReconciliation (con_capabilities c) \<and> compensating c ?t (app_provider a)"
    unfolding report planned_report [OF planned] provider
    by (auto simp: readiness_report_def enforcement_readiness_checks_def Let_def probe_passes pass_if_def safe_controls_def)
  ultimately show ?thesis
    using c by (auto simp: report planned_report [OF planned] readiness_report_def)
qed

lemma mock_compensates: "compensating (mock_connector :: 'c connector_adapter) t w"
proof -
  have "compensated_dry_run (create_dry_run_plan d i x)" for d i x by (rule dry_run_plan_compensated)
  then show ?thesis
    by (auto simp: compensating_def mock_operations compensated_dry_run_def has_planned_compensation_def list_all_iff)
qed

lemma quiet_audit:
  assumes "app_persistence a = no_persistence"
  obtains e b where "audit rt i False a = (Inr e, b)" "st_readinessReports (app_store b) = st_readinessReports (app_store a)"
proof -
  obtain e es where "record_event rt (i\<lparr>in_actor := coalesce (app_requestActor a) (in_actor i)\<rparr>) (app_clock a (app_ticks a))
      (en_recorder (app_engine a)) = (e, es)" by fastforce
  with assms that show thesis
    by (simp add: audit_def perform_def record_audit_def Let_def app_now_def commit_runtime_persistence_def
        append_audit_event_def no_persistence_def app_store_def with_store_def record_audit_event_def
        replace_persistence_degradations_def)
qed

lemma readiness_means_witness:
  "\<exists>report b. check_enforcement_readiness quiet_runtime ''mock''
     \<lparr>rr_control = sample_controls, rr_requiredApproverRole = None, rr_changeTicketPattern = None\<rparr>
     (job_app (mock_connector :: unit connector_adapter) sample_plan ()) = (Inr report, b) \<and> rep_status report = Readiness_ready"
  (is "\<exists>report b. check_enforcement_readiness _ _ ?req ?a = _ \<and> _")
proof -
  obtain k a1 where id: "readiness_report_id ''mock'' ''2026'' (ticked_app ?a) = (Inr k, a1)"
    and k: "k \<noteq> ''ready''" and a1: "app_store a1 = app_store ?a" "app_persistence a1 = no_persistence"
    by (simp add: readiness_report_id_def perform_def next_record_sequence_def Let_def andthen_def app_store_def
        ticked_app_def job_app_def)
  obtain x y a2 where planned: "plan_readiness_report mock_connector ''mock'' ?req k ''2026'' a1 = (Inr (x, y), a2)"
    and a2: "app_store a2 = app_store ?a" "app_persistence a2 = no_persistence" "entity_id x = k"
    using a1 by (simp add: plan_readiness_report_def probe_provider_def mock_operations Let_def andthen_def app_store_def
        readiness_report_def)
  obtain e a3 where ev: "audit quiet_runtime y False a2 = (Inr e, a3)"
    and a3: "st_readinessReports (app_store a3) = st_readinessReports (app_store ?a)"
    using quiet_audit [OF a2(2)] a2(1) by metis
  have "map_get (st_readinessReports (app_store a3)) k = None" using k by (simp add: a3 job_app_store)
  then have "\<exists>b. try_store (record_readiness_report (x\<lparr>rep_auditEventIds := [eventId e]\<rparr>)) a3 = (Inr (), b)"
    by (simp add: try_store_def record_readiness_report_def record_once_def a2(3))
  with id planned ev have "\<exists>report b. check_enforcement_readiness quiet_runtime ''mock'' ?req ?a = (Inr report, b)"
    by (auto simp: check_enforcement_readiness_def Let_def ticked_app_def andthen_def perform_def app_now_def get_connector_def)
  then obtain report b where run: "check_enforcement_readiness quiet_runtime ''mock'' ?req ?a = (Inr report, b)" by blast
  from readiness_means [OF run] have "rep_status report = Readiness_ready"
    by (simp add: safe_controls_def sample_controls_def mock_compensates)
      (simp add: mock_connector_def provider_of_def boundary_of_def coalesce_def)
  with run show ?thesis by blast
qed

subsection \<open>Instances for reachable apps\<close>

definition empty_options :: "(unit \<times> connector_call list, unit) app_options" where
  "empty_options =
    \<lparr>op_persistence = no_persistence, op_readState = None, op_graph = None, op_jobs = None,
     op_seed = \<lparr>seed_subjects = None, seed_resources = None, seed_relationships = None, seed_nativeGrants = None,
       seed_discoveryRuns = None, seed_readinessReports = None, seed_provisioningPlans = None,
       seed_provisioningJobs = None, seed_driftFindings = None, seed_campaigns = None, seed_governanceFindings = None,
       seed_exceptionRequests = None, seed_reconciliationRuns = None, seed_decisions = None, seed_auditEvents = None,
       seed_degradations = None, seed_policies = None, seed_policyIdempotency = None\<rparr>,
     op_connectors = [(''mock'', watched mock_connector)], op_actor = None, op_clock = (\<lambda>_. ''2026''),
     op_regexp = (\<lambda>_. None), op_provider = ((), []), op_disk = ()\<rparr>"

lemma empty_options_simps [simp]:
  "op_persistence empty_options = no_persistence" "op_connectors empty_options = [(''mock'', watched mock_connector)]"
  "op_provider empty_options = ((), [])" "op_actor empty_options = None"
  "stateRepository no_persistence = None" "auditRepository no_persistence = None"
  "graphRepository no_persistence = None" "jobRepository no_persistence = None"
  by (simp_all add: empty_options_def no_persistence_def)

lemma empty_start:
  obtains a where "create_local_app quiet_runtime empty_options = Inr a" "app_store a = empty_store"
    "app_connectors a = [(''mock'', watched mock_connector)]" "app_provider a = ((), [])"
    "app_persistence a = no_persistence" "app_clock a = (\<lambda>_. ''2026'')"
proof -
  have store: "create_store (op_seed empty_options) = Inr empty_store"
    by (simp add: empty_options_def create_store_def seed_graph_def seed_records_def seed_logs_def for_each_def coalesce_def
        bind_result_def)
  have "st_degradations empty_store = []" by (simp add: empty_store_def)
  then have empty: "replace_persistence_degradations [] empty_store = empty_store"
    by (simp add: replace_persistence_degradations_def)
  have seed: "initial_runtime_seed quiet_runtime False None (op_seed empty_options) None None t = op_seed empty_options" for t
    by (simp add: initial_runtime_seed_def recover_append_only_audit_events_def empty_options_def)
  obtain cp where cp: "compile_policy_model default_policy_model = Inr cp" using default_policy_model_compiles by blast
  have "initial_runtime_seed quiet_runtime False None (op_seed empty_options) None None (op_clock empty_options 0) =
      op_seed empty_options" by (rule seed)
  then have "create_local_app quiet_runtime empty_options = start_app empty_options empty_store 0"
    using store by (simp add: create_local_app_def Let_def read_repository_events_def kept_state_def kept_graph_def
        kept_jobs_def reads_clock_at_start_def coalesce_def)
  moreover have "\<exists>a. start_app empty_options empty_store 0 = Inr a \<and> app_store a = empty_store \<and>
      app_connectors a = [(''mock'', watched mock_connector)] \<and> app_provider a = ((), []) \<and>
      app_persistence a = no_persistence \<and> app_clock a = op_clock empty_options"
    using cp empty by (simp add: start_app_def Let_def create_engine_def app_engine_options_def initial_audit_events_def
        seed_empty_runtime_repositories_def list_persistence_degradations_def app_store_def coalesce_def
        \<open>st_degradations empty_store = []\<close>)
  moreover have "op_clock empty_options = (\<lambda>_. ''2026'')" by (simp add: empty_options_def)
  ultimately show thesis using that by auto
qed

text \<open>A step of that app: an evaluation after the outside world changed the actor.\<close>

lemma runtime_keeps_its_invariant_witness:
  "\<exists>a b. create_local_app quiet_runtime empty_options = Inr a \<and> app_steps quiet_runtime a b \<and>
     engine_inv (app_engine b) \<and> length (app_degradations b) \<le> 20"
proof -
  obtain a where a: "create_local_app quiet_runtime empty_options = Inr a" by (rule empty_start)
  have "app_steps quiet_runtime a (snd (create_provisioning_job quiet_runtime sample_job_request a))"
    by (rule r_into_rtranclp) (rule app_step.job)
  with runtime_keeps_its_invariant [OF a this] a show ?thesis by (auto simp: runtime_max_degradations_def)
qed

lemma runtime_log_only_grows_witness:
  "\<exists>a b. create_local_app quiet_runtime empty_options = Inr a \<and> app_steps quiet_runtime a b \<and>
     (\<exists>es. st_auditEvents (app_store b) = st_auditEvents (app_store a) @ es \<and>
        en_recorder (app_engine b) = en_recorder (app_engine a) @ es)"
proof -
  obtain a where a: "create_local_app quiet_runtime empty_options = Inr a" by (rule empty_start)
  have steps: "app_steps quiet_runtime a (snd (create_subject quiet_runtime small_user a))"
    by (rule r_into_rtranclp) (intro app_step.flow app_flow.subject)
  from runtime_log_only_grows [OF a steps] a steps show ?thesis by blast
qed

lemma stored_plans_and_jobs_are_typed_witness:
  "\<exists>b. app_steps quiet_runtime (watched_app sample_plan) b \<and> list_all job_typed (list_provisioning_jobs (app_store b)) \<and>
     list_provisioning_plans (app_store (watched_app sample_plan)) = [sample_plan]"
proof -
  let ?a = "watched_app sample_plan"
  have steps: "app_steps quiet_runtime ?a (snd (create_provisioning_job quiet_runtime sample_job_request ?a))"
    by (rule r_into_rtranclp) (rule app_step.job)
  have "plan_typed sample_plan"
    by (simp add: plan_typed_def sample_plan_def sample_controls_def safe_controls_def)
  then have "store_typed (app_store ?a)"
    by (simp add: store_typed_def watched_app_def job_app_store empty_store_def)
  from stored_plans_and_jobs_are_typed [OF steps this]
  have "list_all job_typed (list_provisioning_jobs (app_store
      (snd (create_provisioning_job quiet_runtime sample_job_request ?a))))" by simp
  moreover have "list_provisioning_plans (app_store ?a) = [sample_plan]"
    by (simp add: watched_app_def job_app_store list_provisioning_plans_def)
  ultimately show ?thesis using steps by blast
qed

lemma only_jobs_apply_changes_witness:
  "\<exists>b. app_flow quiet_runtime (watched_app sample_plan) b \<and> (\<forall>p. Called_apply p \<notin> set (snd (app_provider b)))"
proof -
  let ?b = "snd (create_revocation_plan quiet_runtime ''g'' (Some ''mock'') dry_run_options None (watched_app sample_plan))"
  have step: "app_flow quiet_runtime (watched_app sample_plan) ?b" by (rule app_flow.revoke)
  have "snd (app_provider (watched_app sample_plan)) = []" by (simp add: watched_app_def)
  with only_jobs_apply_changes [OF step watched_app_watched] step show ?thesis by auto
qed

end
