(* ===== verification/Policy_Properties.thy ===== *)
theory Policy_Properties
  imports Enforcement_Properties
begin

text \<open>
  The policy lifecycle: what publication requires, and what creating a draft again does to a
  policy that is already published.
\<close>

lemma quiet_append:
  "app_engine (append_audit_event rt e t prior a) = app_engine a"
  by (auto simp: append_audit_event_def try_write_def repository_error_def degrade_def
      split: option.split sum.split prod.split)

lemma snapshot_policies:
  "st_policies (app_store (persist_app_state t a)) = st_policies (app_store a)"
  "st_policyIdempotency (app_store (persist_app_state t a)) = st_policyIdempotency (app_store a)"
  by (auto simp: persist_app_state_def persist_store_snapshot_def Let_def repository_error_def degrade_def app_store_def
      with_store_def replace_persistence_degradations_def split: option.split prod.split)

lemma audit_policies:
  "st_policies (app_store (snd (record_audit rt i (Some t) True a))) = st_policies (app_store a)"
  "st_policyIdempotency (app_store (snd (record_audit rt i (Some t) True a))) = st_policyIdempotency (app_store a)"
proof -
  obtain e es where ev: "record_event rt (i\<lparr>in_actor := coalesce (app_requestActor a) (in_actor i)\<rparr>) t
      (en_recorder (app_engine a)) = (e, es)" by fastforce
  have append: "app_store (append_audit_event rt e t p b) = app_store b" for p and b :: "('a, 'b) local_app"
    by (simp add: app_store_def quiet_append)
  show "st_policies (app_store (snd (record_audit rt i (Some t) True a))) = st_policies (app_store a)"
    "st_policyIdempotency (app_store (snd (record_audit rt i (Some t) True a))) = st_policyIdempotency (app_store a)"
    by (simp_all add: record_audit_def Let_def ev commit_runtime_persistence_def snapshot_policies append
        replace_persistence_degradations_def record_audit_event_def)
      (simp_all add: app_store_def with_store_def record_audit_event_def)
qed

lemma policy_audit_returns:
  obtains b where "record_policy_audit rt type s t content a = (Inr (), b)"
    "st_policies (app_store b) = st_policies (app_store a)"
    "st_policyIdempotency (app_store b) = st_policyIdempotency (app_store a)"
proof -
  let ?i = "\<lparr>in_eventType = type, in_actor = app_actor a, in_subjectId = None, in_resourceId = Some (sum_id s),
        in_correlationId = ''corr:'' @ sum_id s @ '':'' @ type @ '':'' @
          take 12 (sha256 rt (JObj [(''occurredAt'', JStr t), (''payload'', JObj content)])),
        in_policyVersion = Some (sum_version s), in_relationshipVersion = None, in_payload = content\<rparr>"
  obtain e b where run: "record_audit rt ?i (Some t) True a = (e, b)" by (rule prod.exhaust)
  then have "record_policy_audit rt type s t content a = (Inr (), b)"
    by (simp add: record_policy_audit_def andthen_def perform_def)
  from that [OF this] show thesis
    using audit_policies [of rt ?i t a] run by simp
qed

lemma now_once: "andthen (perform app_now) f a = f (app_clock a (app_ticks a)) (a\<lparr>app_ticks := Suc (app_ticks a)\<rparr>)"
  by (simp add: andthen_def perform_def app_now_def)

lemma publish_valid:
  assumes fresh: "get_policy_idempotency (app_store a) (''publish:'' @ i @ '':'' @ key) = None"
    and prior: "get_policy (app_store a) i = Some prior" and status: "sum_status (pr_summary prior) = Policy_validated"
    and v: "v = validate_policy_model (draft_model (pr_draft prior))" "pv_valid v"
  obtains s b where "publish_policy rt i ticket who key a = (Inr s, b)" "sum_status s = Policy_published"
    "get_policy (app_store b) i = Some (prior\<lparr>pr_summary := s, pr_validation := Some v\<rparr>)"
    "get_policy_idempotency (app_store b) (''publish:'' @ i @ '':'' @ key) =
       Some \<lparr>pi_key = ''publish:'' @ i @ '':'' @ key, pi_summary = s\<rparr>"
proof -
  let ?scope = "''publish:'' @ i @ '':'' @ key"
  let ?t = "app_clock a (app_ticks a)"
  define summary where "summary = \<lparr>sum_id = i, sum_version = i @ '':published'', sum_status = Policy_published,
    sum_createdAt = sum_createdAt (pr_summary prior), sum_publishedAt = Some ?t\<rparr>"
  let ?a = "with_store (set_policy_idempotency \<lparr>pi_key = ?scope, pi_summary = summary\<rparr>)
    (with_store (upsert_policy (prior\<lparr>pr_summary := summary, pr_validation := Some v\<rparr>)) (a\<lparr>app_ticks := Suc (app_ticks a)\<rparr>))"
  obtain c where audit: "record_policy_audit rt ''policy.published'' summary ?t
      (summary_payload summary @ [(''changeTicket'', JStr ticket), (''approverId'', JStr who)]) ?a = (Inr (), c)"
    and c: "st_policies (app_store c) = st_policies (app_store ?a)"
      "st_policyIdempotency (app_store c) = st_policyIdempotency (app_store ?a)"
    by (rule policy_audit_returns)
  have "publish_policy rt i ticket who key a = (Inr summary, c)"
    using fresh prior status v audit
    by (simp add: publish_policy_def replayed_def with_policy_def Let_def summary_def
        now_once andthen_def [of "look _"] andthen_def [of "save_policy _"] andthen_def [of "save_idempotency _ _"]
        andthen_def [of "record_policy_audit _ _ _ _ _"] save_policy_def save_idempotency_def)
  then show thesis
    by (rule that) (simp_all add: c get_policy_def get_policy_idempotency_def set_policy_idempotency_def upsert_policy_def
        policy_key_def summary_def)
qed

definition draft_id :: "runtime \<Rightarrow> policy_draft \<Rightarrow> string" where
  "draft_id rt draft = ''policy:'' @ slugify (draft_name draft) @ '':'' @ take 12 (sha256 rt (policy_draft_js draft))"

lemma create_fresh:
  assumes fresh: "get_policy_idempotency (app_store a) (''create:'' @ key) = None"
  obtains s b where "create_policy rt draft key a = (Inr s, b)" "sum_id s = draft_id rt draft" "sum_status s = Policy_draft"
    "get_policy (app_store b) (sum_id s) = Some \<lparr>pr_draft = draft, pr_summary = s, pr_validation = None\<rparr>"
proof -
  let ?t = "app_clock a (app_ticks a)"
  define summary where "summary = \<lparr>sum_id = draft_id rt draft, sum_version = draft_id rt draft @ '':draft'',
    sum_status = Policy_draft, sum_createdAt = ?t, sum_publishedAt = None\<rparr>"
  let ?a = "with_store (set_policy_idempotency \<lparr>pi_key = ''create:'' @ key, pi_summary = summary\<rparr>)
    (with_store (upsert_policy \<lparr>pr_draft = draft, pr_summary = summary, pr_validation = None\<rparr>) (a\<lparr>app_ticks := Suc (app_ticks a)\<rparr>))"
  obtain c where audit: "record_policy_audit rt ''policy.created'' summary ?t (summary_payload summary) ?a = (Inr (), c)"
    and c: "st_policies (app_store c) = st_policies (app_store ?a)"
    by (rule policy_audit_returns)
  have "create_policy rt draft key a = (Inr summary, c)"
    using fresh audit
    by (simp add: create_policy_def replayed_def Let_def summary_def draft_id_def now_once andthen_def [of "look _"]
        andthen_def [of "save_policy _"] andthen_def [of "save_idempotency _ _"]
        andthen_def [of "record_policy_audit _ _ _ _ _"] save_policy_def save_idempotency_def)
  then show thesis
    by (rule that) (simp_all add: c get_policy_def set_policy_idempotency_def upsert_policy_def policy_key_def summary_def)
qed

text \<open>
  C16: a policy is published only if it was validated and its draft is still valid: the stored record
  then carries the published summary and the validation just made, and publishing again under the
  same key returns the same summary and changes nothing.
\<close>
theorem publication_needs_validation:
  assumes "publish_policy rt i ticket who key a = (Inr s, b)"
    and "get_policy_idempotency (app_store a) (''publish:'' @ i @ '':'' @ key) = None"
  shows "\<exists>prior. get_policy (app_store a) i = Some prior \<and> sum_status (pr_summary prior) = Policy_validated \<and>
    pv_valid (validate_policy_model (draft_model (pr_draft prior))) \<and> sum_status s = Policy_published \<and>
    get_policy (app_store b) i =
      Some (prior\<lparr>pr_summary := s, pr_validation := Some (validate_policy_model (draft_model (pr_draft prior)))\<rparr>) \<and>
    publish_policy rt i ticket' who' key b = (Inr s, b)"
proof -
  from assms obtain prior where prior: "get_policy (app_store a) i = Some prior"
    and status: "sum_status (pr_summary prior) = Policy_validated"
    by (auto simp: publish_policy_def replayed_def with_policy_def andthen_def Let_def split: option.splits if_splits)
  let ?v = "validate_policy_model (draft_model (pr_draft prior))"
  have valid: "pv_valid ?v"
    using assms prior status
    by (auto simp: publish_policy_def replayed_def with_policy_def andthen_def Let_def
        publication_refused_def perform_def split: option.splits if_splits sum.splits prod.splits)
  from assms(2) prior status HOL.refl valid obtain s' b' where run: "publish_policy rt i ticket who key a = (Inr s', b')"
    "sum_status s' = Policy_published" "get_policy (app_store b') i = Some (prior\<lparr>pr_summary := s', pr_validation := Some ?v\<rparr>)"
    "get_policy_idempotency (app_store b') (''publish:'' @ i @ '':'' @ key) =
       Some \<lparr>pi_key = ''publish:'' @ i @ '':'' @ key, pi_summary = s'\<rparr>"
    by (rule publish_valid)
  then have "publish_policy rt i ticket' who' key b' = (Inr s', b')"
    by (simp add: publish_policy_def replayed_def andthen_def Let_def)
  with run assms(1) prior status valid show ?thesis by auto
qed

definition policy_app :: "runtime \<Rightarrow> policy_status \<Rightarrow> (unit, unit) local_app" where
  "policy_app rt status =
     (let d = \<lparr>draft_name = ''p'', draft_model = default_policy_model, draft_tests = []\<rparr> in
      with_store (upsert_policy \<lparr>pr_draft = d, pr_summary = \<lparr>sum_id = draft_id rt d, sum_version = ''v'', sum_status = status,
        sum_createdAt = ''2026'', sum_publishedAt = None\<rparr>, pr_validation = None\<rparr>) (job_app mock_connector sample_plan ()))"

definition sample_draft :: policy_draft where
  "sample_draft = \<lparr>draft_name = ''p'', draft_model = default_policy_model, draft_tests = []\<rparr>"

lemma policy_app_facts:
  "get_policy_idempotency (app_store (policy_app rt status)) k = None"
  "\<exists>r. get_policy (app_store (policy_app rt status)) (draft_id rt sample_draft) = Some r \<and>
     sum_status (pr_summary r) = status \<and> pr_draft r = sample_draft"
  by (simp_all add: policy_app_def Let_def get_policy_idempotency_def get_policy_def upsert_policy_def policy_key_def
      job_app_store empty_store_def sample_draft_def)

lemma publication_needs_validation_witness:
  "\<exists>s b. publish_policy quiet_runtime (draft_id quiet_runtime sample_draft) ''t'' ''who'' ''k''
     (policy_app quiet_runtime Policy_validated) = (Inr s, b) \<and> sum_status s = Policy_published"
proof -
  let ?a = "policy_app quiet_runtime Policy_validated" and ?i = "draft_id quiet_runtime sample_draft"
  obtain r where r: "get_policy (app_store ?a) ?i = Some r" "sum_status (pr_summary r) = Policy_validated" "pr_draft r = sample_draft"
    using policy_app_facts(2) by blast
  have "pv_valid (validate_policy_model (draft_model (pr_draft r)))"
    using default_policy_model_compiles by (simp add: r(3) sample_draft_def)
  with r policy_app_facts(1) obtain s b where run: "publish_policy quiet_runtime ?i ''t'' ''who'' ''k'' ?a = (Inr s, b)"
    using publish_valid [OF _ _ _ HOL.refl] by metis
  from publication_needs_validation [OF run policy_app_facts(1)] run show ?thesis by blast
qed

text \<open>
  creating a draft again under a new key takes its policy back to a draft, whatever its status:
  a published policy silently loses its publication and its validation.
\<close>
theorem recreated_policy_loses_publication:
  assumes "create_policy rt draft key a = (Inr s, b)" "get_policy_idempotency (app_store a) (''create:'' @ key) = None"
    and "get_policy (app_store a) (sum_id s) = Some r" "sum_status (pr_summary r) = Policy_published"
  shows "get_policy (app_store b) (sum_id s) = Some \<lparr>pr_draft = draft, pr_summary = s, pr_validation = None\<rparr> \<and>
    sum_status s = Policy_draft"
  by (rule create_fresh [OF assms(2), of rt draft]) (use assms(1) in auto)

lemma recreated_policy_loses_publication_witness:
  "\<exists>s b. create_policy quiet_runtime sample_draft ''again'' (policy_app quiet_runtime Policy_published) = (Inr s, b) \<and>
     (\<exists>r. get_policy (app_store b) (sum_id s) = Some r \<and> sum_status (pr_summary r) = Policy_draft)"
proof -
  let ?a = "policy_app quiet_runtime Policy_published"
  obtain s b where run: "create_policy quiet_runtime sample_draft ''again'' ?a = (Inr s, b)" "sum_id s = draft_id quiet_runtime sample_draft"
    by (rule create_fresh [OF policy_app_facts(1)])
  obtain r where "get_policy (app_store ?a) (sum_id s) = Some r" "sum_status (pr_summary r) = Policy_published"
    using policy_app_facts(2) run(2) by metis
  from recreated_policy_loses_publication [OF run(1) policy_app_facts(1) this] run show ?thesis by simp
qed

end
