(* ===== verification/Graph_Reader.thy ===== *)
theory Graph_Reader
  imports Runtime_Discovery Job_Queue
begin

text \<open>
  Reading collections of the Microsoft Graph: \<open>collection-reader.ts\<close> of
  \<open>packages/connectors-microsoft-graph/src\<close>, with the page types and the retry delay of \<open>client.ts\<close>
  and the delta helpers of \<open>provider-utils.ts\<close>.

  The client, the clock and the sleep are operations on a world of their own (\<open>graph_env\<close>); the
  client may answer anything and may throw. A provider object is the JSON record it came as; its
  \<open>id\<close> counts only when it is a string, as its declared type says. The two loops have no bound of
  their own, so they are \<open>partial_function (option)\<close>: \<open>None\<close> is a read that never returns.
\<close>

subsection \<open>Pages and the environment\<close>

record collection_page =
  page_value :: "json_record list"
  page_nextLink :: "string option"
  page_deltaLink :: "string option"
  page_status :: "int option"
  page_retryAfterSeconds :: "rat option"

record record_response =
  resp_value :: "json_record option"
  resp_status :: "int option"
  resp_retryAfterSeconds :: "rat option"

record collection_read =
  read_values :: "json_record list"
  read_completed :: bool

record delta_state =
  delta_token :: string
  delta_capturedAt :: string
  delta_scope :: discovery_warning_scope

record 'w graph_env =
  env_list :: "string \<Rightarrow> ('w, collection_page) provider_call"
  env_get :: "string \<Rightarrow> ('w, record_response) provider_call"
  env_now :: "'w \<Rightarrow> string \<times> 'w"
  env_sleep :: "nat \<Rightarrow> 'w \<Rightarrow> 'w"

record 'w collection_reader =
  rd_maxPages :: int
  rd_maxRetries :: int
  rd_deltaStates :: "(string, delta_state) js_map"
  rd_collectionCaches :: "(string, json_record list) js_map"
  rd_warnings :: "discovery_run_warning list"
  rd_world :: 'w

definition new_reader :: "int \<Rightarrow> int \<Rightarrow> 'w \<Rightarrow> 'w collection_reader" where
  "new_reader maxPages maxRetries w =
    \<lparr>rd_maxPages = maxPages, rd_maxRetries = maxRetries, rd_deltaStates = [], rd_collectionCaches = [],
     rd_warnings = [], rd_world = w\<rparr>"

definition max_retry_after_milliseconds :: nat where
  "max_retry_after_milliseconds = 60000"

definition retry_after_ms :: "rat option \<Rightarrow> nat" where
  "retry_after_ms v =
     (case v of Some s \<Rightarrow> if s > 0 then min (nat \<lceil>s * 1000\<rceil>) max_retry_after_milliseconds else 0
      | None \<Rightarrow> 0)"

subsection \<open>Provider objects and delta changes\<close>

definition js_truthy :: "js \<Rightarrow> bool" where
  "js_truthy v =
     (case v of JUndefined \<Rightarrow> False | JNull \<Rightarrow> False | JBool b \<Rightarrow> b | JNum n \<Rightarrow> n \<noteq> 0 | JStr s \<Rightarrow> s \<noteq> []
      | JArr _ \<Rightarrow> True | JObj _ \<Rightarrow> True)"

definition object_id :: "json_record \<Rightarrow> string option" where
  "object_id r = (case map_get r ''id'' of Some (JStr s) \<Rightarrow> if s \<noteq> [] then Some s else None | _ \<Rightarrow> None)"

definition is_graph_tombstone :: "json_record \<Rightarrow> bool" where
  "is_graph_tombstone r = js_truthy (coalesce (map_get r ''@removed'') JUndefined)"

definition graph_record_deleted :: "json_record \<Rightarrow> bool" where
  "graph_record_deleted r \<longleftrightarrow>
     js_truthy (coalesce (map_get r ''deletedDateTime'') JUndefined) \<or>
     js_truthy (coalesce (map_get r ''deleted'') JUndefined) \<or> is_graph_tombstone r"

definition objects_by_id :: "json_record list \<Rightarrow> (string, json_record) js_map" where
  "objects_by_id vs = fold (\<lambda>v m. case object_id v of None \<Rightarrow> m | Some i \<Rightarrow> map_set i v m) vs []"

definition apply_change ::
  "json_record \<Rightarrow> json_record list \<times> (string, json_record) js_map \<Rightarrow> json_record list \<times> (string, json_record) js_map" where
  "apply_change c st =
     (case object_id c of
        None \<Rightarrow> (fst st @ [c], snd st)
      | Some i \<Rightarrow>
          (fst st,
           map_set i (case map_get (snd st) i of
                        Some previous \<Rightarrow> if is_graph_tombstone c then spread previous c else c
                      | None \<Rightarrow> c) (snd st)))"

definition apply_graph_delta_changes :: "json_record list \<Rightarrow> json_record list \<Rightarrow> json_record list" where
  "apply_graph_delta_changes cached changes =
     (let (anonymous, byId) =
            fold apply_change changes (filter (\<lambda>v. object_id v = None) cached, objects_by_id cached)
      in anonymous @ map_values byId)"

subsection \<open>Warnings\<close>

definition warning_of :: "string \<Rightarrow> string \<Rightarrow> discovery_warning_severity \<Rightarrow> discovery_warning_scope \<Rightarrow> bool \<Rightarrow> discovery_run_warning" where
  "warning_of code message severity scope retryable =
    \<lparr>warn_code = code, warn_message = message, warn_severity = severity, warn_scope = scope,
     warn_retryable = retryable, warn_objectId = None\<rparr>"

definition push_warning :: "discovery_run_warning \<Rightarrow> 'w collection_reader \<Rightarrow> 'w collection_reader" where
  "push_warning x s = s\<lparr>rd_warnings := rd_warnings s @ [x]\<rparr>"

definition page_limit_reached :: "discovery_warning_scope \<Rightarrow> discovery_run_warning" where
  "page_limit_reached label =
     warning_of ''GRAPH_PAGE_LIMIT_REACHED''
       (''Microsoft Graph '' @ warning_scope_text label @ '' pagination reached the configured page limit; remaining pages were skipped.'')
       Warn_warning label True"

definition delta_token_stale :: "discovery_warning_scope \<Rightarrow> discovery_run_warning" where
  "delta_token_stale label =
     warning_of ''GRAPH_DELTA_TOKEN_STALE''
       ''Microsoft Graph rejected a stored delta token; the token was discarded without retaining raw cursor material.''
       Warn_warning label True"

definition throttle_retried :: "int \<Rightarrow> int \<Rightarrow> discovery_warning_scope \<Rightarrow> discovery_run_warning" where
  "throttle_retried retries maxRetries label =
     warning_of ''GRAPH_THROTTLE_RETRIED''
       ''Microsoft Graph throttled readback; retry metadata was captured without retaining raw request identifiers.''
       (if retries > maxRetries then Warn_warning else Warn_info) label (retries \<le> maxRetries)"

definition collection_skipped :: "int \<Rightarrow> discovery_warning_scope \<Rightarrow> discovery_run_warning" where
  "collection_skipped status label =
     warning_of ''GRAPH_COLLECTION_SKIPPED''
       (''Microsoft Graph '' @ warning_scope_text label @ '' readback returned HTTP '' @ int_str status
        @ ''; unsupported provider behavior was skipped instead of becoming canonical facts.'')
       Warn_warning label (status \<ge> 500)"

definition tombstone_observed :: "discovery_warning_scope \<Rightarrow> discovery_run_warning" where
  "tombstone_observed label =
     warning_of ''GRAPH_DELTA_TOMBSTONE_OBSERVED''
       ''Microsoft Graph returned a delta tombstone; Access Kit marked the redacted object deleted instead of dropping deletion evidence.''
       Warn_warning label False"

definition pagination_observed :: "discovery_warning_scope \<Rightarrow> discovery_run_warning" where
  "pagination_observed label =
     warning_of ''GRAPH_PAGINATION_OBSERVED''
       (''Microsoft Graph '' @ warning_scope_text label @ '' readback used paginated responses; raw nextLink values were redacted from evidence.'')
       Warn_info label False"

definition delta_captured :: "bool \<Rightarrow> discovery_warning_scope \<Rightarrow> discovery_run_warning" where
  "delta_captured incremental label =
     (if incremental
      then warning_of ''GRAPH_DELTA_SYNC_APPLIED''
             ''Microsoft Graph incremental sync applied a redacted delta cursor and retained tenant-scoped state.''
             Warn_info label False
      else warning_of ''GRAPH_DELTA_TOKEN_CAPTURED''
             ''Microsoft Graph returned a delta cursor; Access Kit stored only redacted cursor evidence for future incremental reads.''
             Warn_info label False)"

definition delta_token_missing :: "discovery_warning_scope \<Rightarrow> discovery_run_warning" where
  "delta_token_missing label =
     warning_of ''GRAPH_DELTA_TOKEN_MISSING''
       ''Microsoft Graph incremental response did not include a replacement delta token; Access Kit discarded the ambiguous incremental state.''
       Warn_warning label True"

definition full_resync :: "discovery_warning_scope \<Rightarrow> discovery_run_warning" where
  "full_resync label =
     warning_of ''GRAPH_INCREMENTAL_SYNC_FULL_RESYNC''
       ''Microsoft Graph incremental sync state was ambiguous; Access Kit discarded the delta token and recovered with a full read-only resync.''
       Warn_warning label True"

subsection \<open>Reading the pages of a collection\<close>

text \<open>
  \<open>cached\<close> is the collection an incremental read starts from; a full read has none. A read gives
  \<open>Inr (Some r)\<close>, or \<open>Inr None\<close> when an incremental read has to be given up, or what the client threw.
\<close>

definition cache_collection :: "string \<Rightarrow> json_record list \<Rightarrow> bool \<Rightarrow> 'w collection_reader \<Rightarrow> collection_read \<times> 'w collection_reader" where
  "cache_collection key values completed s =
     (\<lparr>read_values = values, read_completed = completed\<rparr>,
      s\<lparr>rd_collectionCaches := map_set key values (rd_collectionCaches s)\<rparr>)"

definition give_up ::
  "string \<Rightarrow> json_record list option \<Rightarrow> json_record list \<Rightarrow> 'w collection_reader \<Rightarrow>
   (js_thrown + collection_read option) \<times> 'w collection_reader" where
  "give_up key cached values s =
     (if cached \<noteq> None then (Inr None, s)
      else (let (r, s') = cache_collection key values False s in (Inr (Some r), s')))"

definition observe_page :: "discovery_warning_scope \<Rightarrow> collection_page \<Rightarrow> 'w collection_reader \<Rightarrow> 'w collection_reader" where
  "observe_page label page s =
     (let s' = fold (\<lambda>item s. if is_graph_tombstone item then push_warning (tombstone_observed label) s else s)
                 (page_value page) s
      in if truthy (page_nextLink page) then push_warning (pagination_observed label) s' else s')"

definition pause :: "'w graph_env \<Rightarrow> rat option \<Rightarrow> 'w collection_reader \<Rightarrow> 'w collection_reader" where
  "pause env retryAfter s =
     (if retry_after_ms retryAfter > 0 then s\<lparr>rd_world := env_sleep env (retry_after_ms retryAfter) (rd_world s)\<rparr> else s)"

definition finish_read ::
  "'w graph_env \<Rightarrow> string \<Rightarrow> discovery_warning_scope \<Rightarrow> json_record list option \<Rightarrow> json_record list \<Rightarrow>
   string option \<Rightarrow> 'w collection_reader \<Rightarrow> (js_thrown + collection_read option) \<times> 'w collection_reader" where
  "finish_read env key label cached values deltaLink s =
     (if \<not> truthy deltaLink \<and> cached \<noteq> None then (Inr None, push_warning (delta_token_missing label) s)
      else
        (let s1 = (if truthy deltaLink
                   then (let (now, w) = env_now env (rd_world s) in
                         push_warning (delta_captured (cached \<noteq> None) label)
                           (s\<lparr>rd_world := w,
                              rd_deltaStates := map_set key
                                \<lparr>delta_token = the deltaLink, delta_capturedAt = now, delta_scope = label\<rparr>
                                (rd_deltaStates s)\<rparr>))
                   else s);
             merged = (case cached of Some vs \<Rightarrow> apply_graph_delta_changes vs values | None \<Rightarrow> values);
             (r, s2) = cache_collection key merged True s1
         in (Inr (Some r), s2)))"

partial_function (option) read_collection_pages ::
  "'w graph_env \<Rightarrow> string \<Rightarrow> discovery_warning_scope \<Rightarrow> json_record list option \<Rightarrow> string option \<Rightarrow>
   json_record list \<Rightarrow> int \<Rightarrow> int \<Rightarrow> string option \<Rightarrow> 'w collection_reader \<Rightarrow>
   ((js_thrown + collection_read option) \<times> 'w collection_reader) option" where
  "read_collection_pages env key label cached nextPath values pageCount retryCount deltaLink s =
     (if \<not> truthy nextPath then Some (finish_read env key label cached values deltaLink s)
      else if pageCount \<ge> rd_maxPages s
      then Some (give_up key cached values (push_warning (page_limit_reached label) s))
      else
        (let (answer, w) = env_list env (the nextPath) (rd_world s);
             s1 = s\<lparr>rd_world := w\<rparr>
         in case answer of
              Inl e \<Rightarrow> Some (Inl e, s1)
            | Inr page \<Rightarrow>
                (let status = coalesce (page_status page) 200 in
                 if cached \<noteq> None \<and> status = 410 then Some (Inr None, push_warning (delta_token_stale label) s1)
                 else if status = 429 then
                   (let retries = retryCount + 1;
                        s2 = push_warning (throttle_retried retries (rd_maxRetries s1) label) s1
                    in if retries \<le> rd_maxRetries s2
                       then read_collection_pages env key label cached nextPath values pageCount retries deltaLink
                              (pause env (page_retryAfterSeconds page) s2)
                       else Some (give_up key cached values s2))
                 else if status \<ge> 400
                 then Some (give_up key cached values (push_warning (collection_skipped status label) s1))
                 else read_collection_pages env key label cached (page_nextLink page) (values @ page_value page)
                        (pageCount + 1) 0 (coalesce_opt (page_deltaLink page) deltaLink) (observe_page label page s1))))"

definition read_all_pages ::
  "'w graph_env \<Rightarrow> string \<Rightarrow> string \<Rightarrow> discovery_warning_scope \<Rightarrow> json_record list option \<Rightarrow> 'w collection_reader \<Rightarrow>
   ((js_thrown + collection_read option) \<times> 'w collection_reader) option" where
  "read_all_pages env key startPath label cached s =
     read_collection_pages env key label cached (Some startPath) [] 0 0 None s"

definition full_read ::
  "'w graph_env \<Rightarrow> string \<Rightarrow> discovery_warning_scope \<Rightarrow> 'w collection_reader \<Rightarrow>
   ((js_thrown + collection_read) \<times> 'w collection_reader) option" where
  "full_read env path label s =
     (case read_all_pages env path path label None s of
        None \<Rightarrow> None
      | Some (Inl e, s1) \<Rightarrow> Some (Inl e, s1)
      | Some (Inr r, s1) \<Rightarrow> Some (Inr (coalesce r \<lparr>read_values = [], read_completed = False\<rparr>), s1))"

definition read_collection_result ::
  "'w graph_env \<Rightarrow> string \<Rightarrow> discovery_warning_scope \<Rightarrow> 'w collection_reader \<Rightarrow>
   ((js_thrown + collection_read) \<times> 'w collection_reader) option" where
  "read_collection_result env path label s =
     (case (map_get (rd_deltaStates s) path, map_get (rd_collectionCaches s) path) of
        (Some d, Some cached) \<Rightarrow>
          (case read_all_pages env path (delta_token d) label (Some cached) s of
             None \<Rightarrow> None
           | Some (Inl e, s1) \<Rightarrow> Some (Inl e, s1)
           | Some (Inr (Some r), s1) \<Rightarrow> Some (Inr r, s1)
           | Some (Inr None, s1) \<Rightarrow>
               full_read env path label
                 (push_warning (full_resync label) (s1\<lparr>rd_deltaStates := map_delete path (rd_deltaStates s1)\<rparr>)))
      | _ \<Rightarrow> full_read env path label s)"

definition read_collection ::
  "'w graph_env \<Rightarrow> string \<Rightarrow> discovery_warning_scope \<Rightarrow> 'w collection_reader \<Rightarrow>
   ((js_thrown + json_record list) \<times> 'w collection_reader) option" where
  "read_collection env path label s =
     map_option (apfst (map_sum id read_values)) (read_collection_result env path label s)"

subsection \<open>Reading one record\<close>

partial_function (option) read_record_from ::
  "'w graph_env \<Rightarrow> string \<Rightarrow> discovery_warning_scope \<Rightarrow> string \<times> string \<Rightarrow> int \<Rightarrow> 'w collection_reader \<Rightarrow>
   ((js_thrown + json_record option) \<times> 'w collection_reader) option" where
  "read_record_from env path label skipped retryCount s =
     (let (answer, w) = env_get env path (rd_world s);
          s1 = s\<lparr>rd_world := w\<rparr>
      in case answer of
           Inl e \<Rightarrow> Some (Inl e, s1)
         | Inr r \<Rightarrow>
             (let status = coalesce (resp_status r) 200 in
              if status = 429 then
                (let retries = retryCount + 1;
                     s2 = push_warning (throttle_retried retries (rd_maxRetries s1) label) s1
                 in if retries \<le> rd_maxRetries s2
                    then read_record_from env path label skipped retries (pause env (resp_retryAfterSeconds r) s2)
                    else Some (Inr None, s2))
              else if status \<ge> 400
              then Some (Inr None, push_warning (warning_of (fst skipped) (snd skipped) Warn_warning label (status \<ge> 500)) s1)
              else Some (Inr (resp_value r), s1)))"

definition read_record ::
  "'w graph_env \<Rightarrow> string \<Rightarrow> discovery_warning_scope \<Rightarrow> string \<times> string \<Rightarrow> 'w collection_reader \<Rightarrow>
   ((js_thrown + json_record option) \<times> 'w collection_reader) option" where
  "read_record env path label skipped s = read_record_from env path label skipped 0 s"

subsection \<open>The delta cursor\<close>

definition redact_value :: "runtime \<Rightarrow> string \<Rightarrow> nat \<Rightarrow> string" where
  "redact_value rt v n = take n (sha256 rt (JObj [(''value'', JStr v)]))"

definition delta_cursor_hash_length :: nat where
  "delta_cursor_hash_length = 20"

text \<open>\<open>collate\<close> is \<open>localeCompare\<close>.\<close>

definition build_delta_cursor :: "runtime \<Rightarrow> (string \<Rightarrow> string \<Rightarrow> int) \<Rightarrow> 'w collection_reader \<Rightarrow> string option" where
  "build_delta_cursor rt collate s =
     (if rd_deltaStates s = [] then None
      else
        (let entries = sort_jobs (\<lambda>l r. collate (fst l) (fst r)) (rd_deltaStates s);
             material = join ''|'' (map (\<lambda>(path, d). path @ '':'' @ delta_token d @ '':'' @ delta_capturedAt d @ '':''
                                                     @ warning_scope_text (delta_scope d)) entries)
         in Some (''cursor:microsoft-graph:delta:'' @ redact_value rt material delta_cursor_hash_length)))"

end
