(* ===== verification/Graph_Reader_Laws.thy ===== *)
theory Graph_Reader_Laws
  imports Graph_Reader
begin

text \<open>
  What the reader of Microsoft Graph collections guarantees. A locale states the interface of an
  environment whose operations have a cost; inside it every read returns, at a cost bounded by the
  page limit and the retry limit. The environments that count requests and add up the time slept
  are its instances.
\<close>

subsection \<open>The operations that do not read\<close>

lemma push_warning_simps [simp]:
  "rd_maxPages (push_warning x s) = rd_maxPages s" "rd_maxRetries (push_warning x s) = rd_maxRetries s"
  "rd_deltaStates (push_warning x s) = rd_deltaStates s"
  "rd_collectionCaches (push_warning x s) = rd_collectionCaches s"
  "rd_world (push_warning x s) = rd_world s"
  by (simp_all add: push_warning_def)

lemma fold_push_simps [simp]:
  "rd_maxPages (fold (\<lambda>item s. if P item then push_warning x s else s) items s) = rd_maxPages s"
  "rd_maxRetries (fold (\<lambda>item s. if P item then push_warning x s else s) items s) = rd_maxRetries s"
  "rd_deltaStates (fold (\<lambda>item s. if P item then push_warning x s else s) items s) = rd_deltaStates s"
  "rd_collectionCaches (fold (\<lambda>item s. if P item then push_warning x s else s) items s) = rd_collectionCaches s"
  "rd_world (fold (\<lambda>item s. if P item then push_warning x s else s) items s) = rd_world s"
  by (induction items arbitrary: s) auto

lemma observe_page_simps [simp]:
  "rd_maxPages (observe_page label page s) = rd_maxPages s"
  "rd_maxRetries (observe_page label page s) = rd_maxRetries s"
  "rd_deltaStates (observe_page label page s) = rd_deltaStates s"
  "rd_collectionCaches (observe_page label page s) = rd_collectionCaches s"
  "rd_world (observe_page label page s) = rd_world s"
  by (simp_all add: observe_page_def Let_def)

lemma pause_simps [simp]:
  "rd_maxPages (pause env v s) = rd_maxPages s" "rd_maxRetries (pause env v s) = rd_maxRetries s"
  "rd_deltaStates (pause env v s) = rd_deltaStates s"
  "rd_collectionCaches (pause env v s) = rd_collectionCaches s"
  by (simp_all add: pause_def)

lemma retry_after_bounded: "retry_after_ms v \<le> max_retry_after_milliseconds"
  by (simp add: retry_after_ms_def split: option.split)

subsection \<open>One turn of the loop\<close>

text \<open>What a read that did not reach the last page can give.\<close>

definition unfinished :: "json_record list option \<Rightarrow> js_thrown + collection_read option \<Rightarrow> bool" where
  "unfinished cached r =
     (case r of Inl e \<Rightarrow> True
      | Inr None \<Rightarrow> cached \<noteq> None
      | Inr (Some x) \<Rightarrow> cached = None \<and> \<not> read_completed x)"

lemma unfinished_simps [simp]: "unfinished cached (Inl e)" "unfinished (Some vs) (Inr None)"
  "\<not> unfinished None (Inr None)" "unfinished None (Inr (Some x)) \<longleftrightarrow> \<not> read_completed x"
  "\<not> unfinished (Some vs) (Inr (Some x))"
  by (simp_all add: unfinished_def)

lemma given_up:
  assumes "give_up key cached vs s = (r, s')"
  shows "unfinished cached r" "rd_world s' = rd_world s" "rd_deltaStates s' = rd_deltaStates s"
    "rd_maxPages s' = rd_maxPages s" "rd_maxRetries s' = rd_maxRetries s"
    "map_get (rd_collectionCaches s') p = None \<Longrightarrow> map_get (rd_collectionCaches s) p = None"
  using assms by (auto simp: give_up_def cache_collection_def split: if_splits)

lemma read_pages_turn:
  obtains (finished) "\<not> truthy nextPath"
      "read_collection_pages env key label cached nextPath vs pageCount retryCount d s = Some (finish_read env key label cached vs d s)"
  | (stopped) r s' where
      "read_collection_pages env key label cached nextPath vs pageCount retryCount d s = Some (r, s')"
      "unfinished cached r" "rd_deltaStates s' = rd_deltaStates s"
      "rd_maxPages s' = rd_maxPages s" "rd_maxRetries s' = rd_maxRetries s"
      "\<And>p. map_get (rd_collectionCaches s') p = None \<Longrightarrow> map_get (rd_collectionCaches s) p = None"
      "rd_world s' = rd_world s \<or> pageCount < rd_maxPages s \<and> rd_world s' = snd (env_list env (the nextPath) (rd_world s))"
  | (throttled) page w where "truthy nextPath" "pageCount < rd_maxPages s"
      "env_list env (the nextPath) (rd_world s) = (Inr page, w)" "coalesce (page_status page) 200 = 429"
      "retryCount + 1 \<le> rd_maxRetries s"
      "read_collection_pages env key label cached nextPath vs pageCount retryCount d s =
         read_collection_pages env key label cached nextPath vs pageCount (retryCount + 1) d
           (pause env (page_retryAfterSeconds page)
             (push_warning (throttle_retried (retryCount + 1) (rd_maxRetries s) label) (s\<lparr>rd_world := w\<rparr>)))"
  | (page) page w where "truthy nextPath" "pageCount < rd_maxPages s"
      "env_list env (the nextPath) (rd_world s) = (Inr page, w)" "coalesce (page_status page) 200 < 400"
      "read_collection_pages env key label cached nextPath vs pageCount retryCount d s =
         read_collection_pages env key label cached (page_nextLink page) (vs @ page_value page) (pageCount + 1) 0
           (coalesce_opt (page_deltaLink page) d) (observe_page label page (s\<lparr>rd_world := w\<rparr>))"
proof -
  note turn = read_collection_pages.simps [of env key label cached nextPath vs pageCount retryCount d s]
  obtain answer w where answer: "env_list env (the nextPath) (rd_world s) = (answer, w)" by (rule prod.exhaust)
  have stop: thesis if "truthy nextPath" "pageCount < rd_maxPages s"
    "read_collection_pages env key label cached nextPath vs pageCount retryCount d s =
      Some (give_up key cached vs (push_warning x (s\<lparr>rd_world := w\<rparr>)))" for x
  proof -
    obtain r s' where g: "give_up key cached vs (push_warning x (s\<lparr>rd_world := w\<rparr>)) = (r, s')" by (rule prod.exhaust)
    show ?thesis by (rule stopped [of r s']) (use that given_up [OF g] answer in \<open>simp_all add: g\<close>)
  qed
  consider "\<not> truthy nextPath" | "truthy nextPath" "rd_maxPages s \<le> pageCount"
    | "truthy nextPath" "pageCount < rd_maxPages s" by linarith
  then show ?thesis
  proof cases
    case 1
    then show ?thesis by (intro finished) (simp_all add: turn)
  next
    case 2
    obtain r s' where g: "give_up key cached vs (push_warning (page_limit_reached label) s) = (r, s')" by (rule prod.exhaust)
    show ?thesis by (rule stopped [of r s']) (use 2 given_up [OF g] in \<open>simp_all add: turn g\<close>)
  next
    case 3
    note turn = turn [unfolded answer]
    show ?thesis
    proof (cases answer)
      case (Inl e)
      show ?thesis by (rule stopped [of "Inl e" "s\<lparr>rd_world := w\<rparr>"]) (use 3 in \<open>simp_all add: turn answer Inl\<close>)
    next
      case (Inr p)
      let ?status = "coalesce (page_status p) 200"
      consider "cached \<noteq> None" "?status = 410" | "?status = 429" "retryCount + 1 \<le> rd_maxRetries s"
        | "?status = 429" "\<not> retryCount + 1 \<le> rd_maxRetries s"
        | "?status \<noteq> 429" "?status \<ge> 400" "\<not> (cached \<noteq> None \<and> ?status = 410)" | "?status < 400" by linarith
      then show ?thesis
      proof cases
        case 1
        with 3 show ?thesis
          by (intro stopped [of "Inr None" "push_warning (delta_token_stale label) (s\<lparr>rd_world := w\<rparr>)"])
            (auto simp: turn answer Inr)
      next
        case 2
        with 3 answer show ?thesis by (intro throttled [of p w]) (simp_all add: turn Inr Let_def)
      next
        case c: 3
        show ?thesis by (rule stop [OF 3]) (use 3 c in \<open>simp add: turn Inr Let_def\<close>)
      next
        case 4
        show ?thesis by (rule stop [OF 3]) (use 3 4 in \<open>auto simp: turn Inr Let_def\<close>)
      next
        case 5
        with 3 answer show ?thesis by (intro page [of p w]) (simp_all add: turn Inr Let_def)
      qed
    qed
  qed
qed

subsection \<open>Every read returns\<close>

text \<open>How many requests a read can still make.\<close>

definition requests_left :: "int \<Rightarrow> int \<Rightarrow> int \<Rightarrow> int \<Rightarrow> nat" where
  "requests_left maxPages maxRetries pageCount retryCount =
     nat ((maxPages - pageCount) * (max 0 maxRetries + 1) - retryCount)"

lemma requests_left_throttled:
  assumes "pageCount < maxPages" "0 \<le> retryCount" "retryCount + 1 \<le> maxRetries"
  shows "Suc (requests_left maxPages maxRetries pageCount (retryCount + 1)) =
    requests_left maxPages maxRetries pageCount retryCount"
proof -
  define k where "k = (maxPages - pageCount) * (max 0 maxRetries + 1)"
  have "1 * (max 0 maxRetries + 1) \<le> (maxPages - pageCount) * (max 0 maxRetries + 1)"
    using assms by (intro mult_right_mono) auto
  then have "max 0 maxRetries + 1 \<le> k" by (simp only: k_def mult_1)
  with assms have "retryCount + 1 \<le> k" by linarith
  then have "Suc (nat (k - (retryCount + 1))) = nat (k - retryCount)" by simp
  then show ?thesis by (simp add: requests_left_def k_def)
qed

lemma requests_left_page:
  assumes "pageCount < maxPages" "0 \<le> retryCount" "retryCount \<le> max 0 maxRetries"
  shows "Suc (requests_left maxPages maxRetries (pageCount + 1) 0) \<le> requests_left maxPages maxRetries pageCount retryCount"
proof -
  have "(maxPages - pageCount) * (max 0 maxRetries + 1)
      = (maxPages - (pageCount + 1)) * (max 0 maxRetries + 1) + (max 0 maxRetries + 1)"
    by (simp add: algebra_simps)
  moreover have "0 \<le> (maxPages - (pageCount + 1)) * (max 0 maxRetries + 1)"
    using assms by simp
  moreover define k where "k = (maxPages - (pageCount + 1)) * (max 0 maxRetries + 1)"
  ultimately show ?thesis using assms unfolding requests_left_def k_def [symmetric] by linarith
qed

text \<open>Induction over the turns of a read that returned.\<close>

lemma read_pages_induct [consumes 3, case_names finished stopped throttled page]:
  assumes "read_collection_pages env key label cached nextPath vs pageCount retryCount d s = Some (r, s')"
    and "0 \<le> retryCount" "retryCount \<le> max 0 (rd_maxRetries s)"
    and finished: "\<And>n vs d s r s'. \<not> truthy n \<Longrightarrow> finish_read env key label cached vs d s = (r, s') \<Longrightarrow> P n vs d s r s'"
    and stopped: "\<And>n vs d s r s'. unfinished cached r \<Longrightarrow> rd_deltaStates s' = rd_deltaStates s \<Longrightarrow>
      rd_maxPages s' = rd_maxPages s \<Longrightarrow> rd_maxRetries s' = rd_maxRetries s \<Longrightarrow>
      (\<And>p. map_get (rd_collectionCaches s') p = None \<Longrightarrow> map_get (rd_collectionCaches s) p = None) \<Longrightarrow> P n vs d s r s'"
    and throttled: "\<And>n vs d s r s' page w k. truthy n \<Longrightarrow> env_list env (the n) (rd_world s) = (Inr page, w) \<Longrightarrow>
      coalesce (page_status page) 200 = 429 \<Longrightarrow>
      P n vs d (pause env (page_retryAfterSeconds page)
        (push_warning (throttle_retried k (rd_maxRetries s) label) (s\<lparr>rd_world := w\<rparr>))) r s' \<Longrightarrow> P n vs d s r s'"
    and page: "\<And>n vs d s r s' page w. truthy n \<Longrightarrow> env_list env (the n) (rd_world s) = (Inr page, w) \<Longrightarrow>
      coalesce (page_status page) 200 < 400 \<Longrightarrow>
      P (page_nextLink page) (vs @ page_value page) (coalesce_opt (page_deltaLink page) d)
        (observe_page label page (s\<lparr>rd_world := w\<rparr>)) r s' \<Longrightarrow> P n vs d s r s'"
  shows "P nextPath vs d s r s'"
  using assms(1-3)
proof (induction "requests_left (rd_maxPages s) (rd_maxRetries s) pageCount retryCount"
    arbitrary: nextPath vs pageCount retryCount d s rule: less_induct)
  case less
  let ?left = "requests_left (rd_maxPages s) (rd_maxRetries s)"
  show ?case
  proof (rule read_pages_turn [of nextPath env key label cached vs pageCount retryCount d s])
    fix p w
    assume *: "truthy nextPath" "pageCount < rd_maxPages s" "env_list env (the nextPath) (rd_world s) = (Inr p, w)"
      "coalesce (page_status p) 200 = 429" "retryCount + 1 \<le> rd_maxRetries s"
      "read_collection_pages env key label cached nextPath vs pageCount retryCount d s =
        read_collection_pages env key label cached nextPath vs pageCount (retryCount + 1) d (pause env (page_retryAfterSeconds p)
          (push_warning (throttle_retried (retryCount + 1) (rd_maxRetries s) label) (s\<lparr>rd_world := w\<rparr>)))"
    have shrinks: "?left pageCount (retryCount + 1) < ?left pageCount retryCount"
      using requests_left_throttled [of pageCount "rd_maxPages s" retryCount "rd_maxRetries s"] * less.prems by simp
    have "P nextPath vs d (pause env (page_retryAfterSeconds p)
        (push_warning (throttle_retried (retryCount + 1) (rd_maxRetries s) label) (s\<lparr>rd_world := w\<rparr>))) r s'"
      by (rule less.hyps [of _ pageCount "retryCount + 1"]) (use * less.prems shrinks in simp_all)
    then show ?case by (rule throttled [OF *(1,3,4)])
  next
    fix p w
    assume *: "truthy nextPath" "pageCount < rd_maxPages s" "env_list env (the nextPath) (rd_world s) = (Inr p, w)"
      "coalesce (page_status p) 200 < 400"
      "read_collection_pages env key label cached nextPath vs pageCount retryCount d s =
        read_collection_pages env key label cached (page_nextLink p) (vs @ page_value p) (pageCount + 1) 0
          (coalesce_opt (page_deltaLink p) d) (observe_page label p (s\<lparr>rd_world := w\<rparr>))"
    have shrinks: "?left (pageCount + 1) 0 < ?left pageCount retryCount"
      using requests_left_page [of pageCount "rd_maxPages s" retryCount "rd_maxRetries s"] * less.prems by simp
    have "P (page_nextLink p) (vs @ page_value p) (coalesce_opt (page_deltaLink p) d)
        (observe_page label p (s\<lparr>rd_world := w\<rparr>)) r s'"
      by (rule less.hyps [of _ "pageCount + 1" 0]) (use * less.prems shrinks in simp_all)
    then show ?case by (rule page [OF *(1,3,4)])
  qed (use less.prems in \<open>auto intro: finished stopped\<close>)
qed

lemma read_pages_limits:
  assumes "read_all_pages env key start label cached s = Some (r, s')"
  shows "rd_maxPages s' = rd_maxPages s \<and> rd_maxRetries s' = rd_maxRetries s"
  using assms [unfolded read_all_pages_def] order_refl [of 0] max.cobounded1 [of 0 "rd_maxRetries s"]
  by (induction rule: read_pages_induct)
    (auto simp: finish_read_def cache_collection_def Let_def split: if_splits prod.splits)

locale metered =
  fixes env :: "'w graph_env" and cost :: "'w \<Rightarrow> nat" and per_call :: nat and per_sleep :: nat
  assumes list_cost: "cost (snd (env_list env p w)) \<le> cost w + per_call"
    and get_cost: "cost (snd (env_get env p w)) \<le> cost w + per_call"
    and now_cost: "cost (snd (env_now env w)) \<le> cost w"
    and sleep_cost: "ms \<le> max_retry_after_milliseconds \<Longrightarrow> cost (env_sleep env ms w) \<le> cost w + per_sleep"
begin

lemma paused_cost: "cost (rd_world (pause env v s)) \<le> cost (rd_world s) + per_sleep"
  using sleep_cost [OF retry_after_bounded] by (simp add: pause_def)

lemma finished_cost: "cost (rd_world (snd (finish_read env key label cached vs d s))) \<le> cost (rd_world s)"
  using now_cost [of "rd_world s"]
  by (auto simp: finish_read_def cache_collection_def Let_def split: prod.split)

lemma one_call: "c \<le> b + per_call \<Longrightarrow> 1 \<le> n \<Longrightarrow> c \<le> b + (per_call + per_sleep) * n"
proof -
  assume "c \<le> b + per_call" "1 \<le> n"
  then have "c \<le> b + (per_call + per_sleep) * 1" by simp
  also have "\<dots> \<le> b + (per_call + per_sleep) * n"
    using \<open>1 \<le> n\<close> by (intro add_left_mono mult_le_mono2)
  finally show ?thesis .
qed

lemma pages_return:
  assumes "0 \<le> retryCount" "retryCount \<le> max 0 (rd_maxRetries s)"
  shows "\<exists>r s'. read_collection_pages env key label cached nextPath vs pageCount retryCount d s = Some (r, s') \<and>
    cost (rd_world s') \<le> cost (rd_world s)
      + (per_call + per_sleep) * requests_left (rd_maxPages s) (rd_maxRetries s) pageCount retryCount"
  using assms
proof (induction "requests_left (rd_maxPages s) (rd_maxRetries s) pageCount retryCount"
    arbitrary: nextPath vs pageCount retryCount d s rule: less_induct)
  case less
  let ?left = "requests_left (rd_maxPages s) (rd_maxRetries s)"
  let ?n = "?left pageCount retryCount"
  have go_on: ?case if "read_collection_pages env key label cached nextPath vs pageCount retryCount d s =
      read_collection_pages env key label cached next' vs' pages retries d' s'"
    and "rd_maxPages s' = rd_maxPages s" "rd_maxRetries s' = rd_maxRetries s" "Suc (?left pages retries) \<le> ?n"
    and "0 \<le> retries" "retries \<le> max 0 (rd_maxRetries s)"
    and "cost (rd_world s') \<le> cost (rd_world s) + (per_call + per_sleep)" for next' vs' pages retries d' s'
  proof -
    from that less.hyps [of s' pages retries next' vs' d'] obtain r s2 where
      "read_collection_pages env key label cached next' vs' pages retries d' s' = Some (r, s2)"
      "cost (rd_world s2) \<le> cost (rd_world s') + (per_call + per_sleep) * ?left pages retries" by auto
    moreover have "(per_call + per_sleep) * Suc (?left pages retries) \<le> (per_call + per_sleep) * ?n"
      using that(4) by (rule mult_le_mono2)
    ultimately show ?thesis using that(1,7) by simp
  qed
  note w = list_cost [of "the nextPath" "rd_world s"]
  show ?case
  proof (rule read_pages_turn [of nextPath env key label cached vs pageCount retryCount d s])
    assume "read_collection_pages env key label cached nextPath vs pageCount retryCount d s = Some (finish_read env key label cached vs d s)"
    then show ?case using finished_cost [of key label cached vs d s] by (cases "finish_read env key label cached vs d s") simp
  next
    fix r s'
    assume "read_collection_pages env key label cached nextPath vs pageCount retryCount d s = Some (r, s')"
      "rd_world s' = rd_world s \<or> pageCount < rd_maxPages s \<and> rd_world s' = snd (env_list env (the nextPath) (rd_world s))"
    then show ?case using one_call [OF w, of ?n] requests_left_page [of pageCount "rd_maxPages s" retryCount "rd_maxRetries s"]
      less.prems by auto
  next
    fix page w
    let ?s2 = "push_warning (throttle_retried (retryCount + 1) (rd_maxRetries s) label) (s\<lparr>rd_world := w\<rparr>)"
    assume *: "pageCount < rd_maxPages s" "env_list env (the nextPath) (rd_world s) = (Inr page, w)"
      "retryCount + 1 \<le> rd_maxRetries s"
      "read_collection_pages env key label cached nextPath vs pageCount retryCount d s =
        read_collection_pages env key label cached nextPath vs pageCount (retryCount + 1) d (pause env (page_retryAfterSeconds page) ?s2)"
    show ?case
      using * less.prems requests_left_throttled [of pageCount "rd_maxPages s" retryCount "rd_maxRetries s"]
        paused_cost [of "page_retryAfterSeconds page" ?s2] w by (intro go_on [OF *(4)]) simp_all
  next
    fix page w
    assume *: "pageCount < rd_maxPages s" "env_list env (the nextPath) (rd_world s) = (Inr page, w)"
      "read_collection_pages env key label cached nextPath vs pageCount retryCount d s =
        read_collection_pages env key label cached (page_nextLink page) (vs @ page_value page) (pageCount + 1) 0
          (coalesce_opt (page_deltaLink page) d) (observe_page label page (s\<lparr>rd_world := w\<rparr>))"
    show ?case
      using * less.prems requests_left_page [of pageCount "rd_maxPages s" retryCount "rd_maxRetries s"] w
      by (intro go_on [OF *(3)]) simp_all
  qed
qed

lemma record_returns:
  assumes "0 \<le> retryCount" "retryCount \<le> max 0 (rd_maxRetries s)"
  shows "\<exists>r s'. read_record_from env path label skipped retryCount s = Some (r, s') \<and>
    cost (rd_world s') \<le> cost (rd_world s) + (per_call + per_sleep) * nat (max 0 (rd_maxRetries s) + 1 - retryCount)"
  using assms
proof (induction "nat (max 0 (rd_maxRetries s) + 1 - retryCount)" arbitrary: retryCount s rule: less_induct)
  case less
  obtain answer w where answer: "env_get env path (rd_world s) = (answer, w)" by (rule prod.exhaust)
  note turn = read_record_from.simps [of env path label skipped retryCount s, unfolded answer]
  have w: "cost w \<le> cost (rd_world s) + per_call" using get_cost [of path "rd_world s"] by (simp add: answer)
  have one: "1 \<le> nat (max 0 (rd_maxRetries s) + 1 - retryCount)" using less.prems by linarith
  note once = one_call [OF w one]
  show ?case
  proof (cases "\<exists>r. answer = Inr r \<and> coalesce (resp_status r) 200 = 429 \<and> retryCount + 1 \<le> rd_maxRetries s")
    case True
    then obtain r where r: "answer = Inr r" "coalesce (resp_status r) 200 = 429" "retryCount + 1 \<le> rd_maxRetries s" by blast
    let ?s2 = "push_warning (throttle_retried (retryCount + 1) (rd_maxRetries s) label) (s\<lparr>rd_world := w\<rparr>)"
    let ?s3 = "pause env (resp_retryAfterSeconds r) ?s2"
    have "nat (max 0 (rd_maxRetries ?s3) + 1 - (retryCount + 1)) < nat (max 0 (rd_maxRetries s) + 1 - retryCount)"
      using r less.prems by (simp add: zless_nat_conj)
    from less.hyps [OF this] r less.prems obtain x s' where
      x: "read_record_from env path label skipped (retryCount + 1) ?s3 = Some (x, s')"
        "cost (rd_world s') \<le> cost (rd_world ?s3) + (per_call + per_sleep) * nat (max 0 (rd_maxRetries s) + 1 - (retryCount + 1))"
      by auto
    have "nat (max 0 (rd_maxRetries s) + 1 - retryCount) = Suc (nat (max 0 (rd_maxRetries s) + 1 - (retryCount + 1)))"
      using less.prems r by simp
    with x r w paused_cost [of "resp_retryAfterSeconds r" ?s2] show ?thesis by (simp add: turn Let_def)
  next
    case False
    with once show ?thesis by (auto simp: turn Let_def split: sum.split)
  qed
qed

end


subsection \<open>Counting requests and sleep\<close>

definition counted :: "'w graph_env \<Rightarrow> (nat \<times> nat \<times> 'w) graph_env" where
  "counted env =
    \<lparr>env_list = (\<lambda>p (n, t, w). let (r, w') = env_list env p w in (r, (Suc n, t, w'))),
     env_get = (\<lambda>p (n, t, w). let (r, w') = env_get env p w in (r, (Suc n, t, w'))),
     env_now = (\<lambda>(n, t, w). let (r, w') = env_now env w in (r, (n, t, w'))),
     env_sleep = (\<lambda>ms (n, t, w). (n, t + ms, env_sleep env ms w))\<rparr>"

definition requests_made :: "nat \<times> nat \<times> 'w \<Rightarrow> nat" where
  "requests_made w = fst w"

definition time_slept :: "nat \<times> nat \<times> 'w \<Rightarrow> nat" where
  "time_slept w = fst (snd w)"

interpretation requests: metered "counted env" requests_made 1 0
  by unfold_locales (simp_all add: counted_def requests_made_def split: prod.split)

interpretation sleeps: metered "counted env" time_slept 0 max_retry_after_milliseconds
  by unfold_locales (simp_all add: counted_def time_slept_def split: prod.split)

definition request_limit :: "'w collection_reader \<Rightarrow> nat" where
  "request_limit s = nat (rd_maxPages s * (max 0 (rd_maxRetries s) + 1))"

lemma first_limit: "requests_left (rd_maxPages s) (rd_maxRetries s) 0 0 = request_limit s"
  by (simp add: requests_left_def request_limit_def)

lemma all_pages_return:
  "\<exists>r s'. read_all_pages (counted env) key start label cached s = Some (r, s') \<and>
    requests_made (rd_world s') \<le> requests_made (rd_world s) + request_limit s \<and>
    time_slept (rd_world s') \<le> time_slept (rd_world s) + max_retry_after_milliseconds * request_limit s \<and>
    rd_maxPages s' = rd_maxPages s \<and> rd_maxRetries s' = rd_maxRetries s"
proof -
  have "0 \<le> max 0 (rd_maxRetries s)" by simp
  from requests.pages_return [OF order_refl this] obtain r s' where
    r: "read_all_pages (counted env) key start label cached s = Some (r, s')"
      "requests_made (rd_world s') \<le> requests_made (rd_world s) + request_limit s"
    by (fastforce simp: read_all_pages_def first_limit)
  from sleeps.pages_return [of 0 s env key label cached "Some start" "[]" 0 None] r(1)
  have "time_slept (rd_world s') \<le> time_slept (rd_world s) + max_retry_after_milliseconds * request_limit s"
    by (auto simp: read_all_pages_def first_limit)
  with r read_pages_limits [OF r(1)] show ?thesis by blast
qed

lemma full_read_returns:
  "\<exists>r s'. full_read (counted env) path label s = Some (r, s') \<and>
    requests_made (rd_world s') \<le> requests_made (rd_world s) + request_limit s \<and>
    time_slept (rd_world s') \<le> time_slept (rd_world s) + max_retry_after_milliseconds * request_limit s"
  using all_pages_return [of env path path label None s]
  by (auto simp: full_read_def split: sum.split)

end
