(* ===== verification/Graph_Reader_Properties.thy ===== *)
theory Graph_Reader_Properties
  imports Graph_Reader_Laws
begin

text \<open>
  The properties of the reader of Microsoft Graph collections: reads return after a bounded number of
  requests and a bounded time asleep, a completed read holds what every page of the collection said,
  an incomplete read leaves no delta cursor behind, and merging delta changes is the latest state of
  every object.
\<close>

subsection \<open>Termination\<close>

text \<open>
  C17: whatever the client answers, page after page or throttling for ever, reading a collection
  returns: an incremental read and the full read that may follow it make together at most twice the
  page limit times one more than the retry limit requests, and sleep at most a minute for each; reading
  one record makes at most one request more than the retry limit.
\<close>
theorem graph_reads_terminate:
  "(\<exists>r s'. read_collection_result (counted env) path label s = Some (r, s') \<and>
     requests_made (rd_world s') \<le> requests_made (rd_world s) + 2 * request_limit s \<and>
     time_slept (rd_world s') \<le> time_slept (rd_world s) + 60000 * (2 * request_limit s)) \<and>
   (\<exists>r s'. read_record (counted env) path label skipped s = Some (r, s') \<and>
     requests_made (rd_world s') \<le> requests_made (rd_world s) + nat (max 0 (rd_maxRetries s) + 1))"
proof (rule conjI [rotated])
  show "\<exists>r s'. read_record (counted env) path label skipped s = Some (r, s') \<and>
     requests_made (rd_world s') \<le> requests_made (rd_world s) + nat (max 0 (rd_maxRetries s) + 1)"
    using requests.record_returns [OF order_refl max.cobounded1] by (simp add: read_record_def)
next
  show "\<exists>r s'. read_collection_result (counted env) path label s = Some (r, s') \<and>
     requests_made (rd_world s') \<le> requests_made (rd_world s) + 2 * request_limit s \<and>
     time_slept (rd_world s') \<le> time_slept (rd_world s) + 60000 * (2 * request_limit s)"
  proof (cases "map_get (rd_deltaStates s) path = None \<or> map_get (rd_collectionCaches s) path = None")
    case True
    with full_read_returns [of env path label s] show ?thesis
      by (auto simp: read_collection_result_def max_retry_after_milliseconds_def split: option.split)
  next
    case False
    then obtain d cached where d: "map_get (rd_deltaStates s) path = Some d" "map_get (rd_collectionCaches s) path = Some cached" by auto
    from all_pages_return [of env path "delta_token d" label "Some cached" s] obtain r s1 where
      r: "read_all_pages (counted env) path (delta_token d) label (Some cached) s = Some (r, s1)"
        "requests_made (rd_world s1) \<le> requests_made (rd_world s) + request_limit s"
        "time_slept (rd_world s1) \<le> time_slept (rd_world s) + max_retry_after_milliseconds * request_limit s"
        "request_limit s1 = request_limit s" by (auto simp: request_limit_def)
    let ?s2 = "push_warning (full_resync label) (s1\<lparr>rd_deltaStates := map_delete path (rd_deltaStates s1)\<rparr>)"
    have same: "request_limit ?s2 = request_limit s" using r(4) by (simp add: request_limit_def)
    show ?thesis
    proof (cases "r = Inr None")
      case True
      from full_read_returns [of env path label ?s2] same obtain x s3 where
        x: "full_read (counted env) path label ?s2 = Some (x, s3)"
          "requests_made (rd_world s3) \<le> requests_made (rd_world s1) + request_limit s"
          "time_slept (rd_world s3) \<le> time_slept (rd_world s1) + max_retry_after_milliseconds * request_limit s"
        by auto
      then have "read_collection_result (counted env) path label s = Some (x, s3)"
        by (simp add: read_collection_result_def d r(1) True)
      with x r(2,3) show ?thesis by (auto simp: max_retry_after_milliseconds_def)
    next
      case False
      with r d show ?thesis
        by (auto simp: read_collection_result_def max_retry_after_milliseconds_def split: sum.split option.split)
    qed
  qed
qed

subsection \<open>What a completed read holds\<close>

text \<open>
  The pages a client answers from a path on, following the next links, when throttled requests are
  made again.
\<close>

inductive answered :: "'w graph_env \<Rightarrow> string option \<Rightarrow> 'w \<Rightarrow> collection_page list \<Rightarrow> 'w \<Rightarrow> bool" for env where
  last_page: "\<not> truthy n \<Longrightarrow> answered env n w [] w"
| next_page: "truthy n \<Longrightarrow> env_list env (the n) w = (Inr page, w1) \<Longrightarrow> coalesce (page_status page) 200 < 400 \<Longrightarrow>
    answered env (page_nextLink page) w1 pages w2 \<Longrightarrow> answered env n w (page # pages) w2"
| again: "truthy n \<Longrightarrow> env_list env (the n) w = (Inr page, w1) \<Longrightarrow> coalesce (page_status page) 200 = 429 \<Longrightarrow>
    answered env n (if retry_after_ms (page_retryAfterSeconds page) > 0
                    then env_sleep env (retry_after_ms (page_retryAfterSeconds page)) w1 else w1) pages w2 \<Longrightarrow>
    answered env n w pages w2"

definition last_delta_link :: "string option \<Rightarrow> collection_page list \<Rightarrow> string option" where
  "last_delta_link d pages = fold (\<lambda>page. coalesce_opt (page_deltaLink page)) pages d"

definition merged_values :: "json_record list option \<Rightarrow> json_record list \<Rightarrow> json_record list" where
  "merged_values cached vs = (case cached of None \<Rightarrow> vs | Some old \<Rightarrow> apply_graph_delta_changes old vs)"

definition page_objects :: "collection_page list \<Rightarrow> json_record list" where
  "page_objects pages = concat (map page_value pages)"

text \<open>How a finished read changes the reader.\<close>

definition finished_as ::
  "string \<Rightarrow> discovery_warning_scope \<Rightarrow> json_record list option \<Rightarrow> json_record list \<Rightarrow> string option \<Rightarrow>
   'w collection_reader \<Rightarrow> collection_read \<Rightarrow> 'w collection_reader \<Rightarrow> bool" where
  "finished_as key label cached vs d s x s' \<longleftrightarrow>
     read_completed x \<and> read_values x = merged_values cached vs \<and>
     rd_collectionCaches s' = map_set key (read_values x) (rd_collectionCaches s) \<and>
     (cached \<noteq> None \<longrightarrow> truthy d) \<and>
     (if truthy d
      then \<exists>now. rd_deltaStates s' = map_set key \<lparr>delta_token = the d, delta_capturedAt = now, delta_scope = label\<rparr> (rd_deltaStates s)
      else rd_deltaStates s' = rd_deltaStates s)"

lemma page_chain_simps [simp]:
  "page_objects [] = []" "page_objects (page # pages) = page_value page @ page_objects pages"
  "last_delta_link d [] = d"
  "last_delta_link d (page # pages) = last_delta_link (coalesce_opt (page_deltaLink page) d) pages"
  by (simp_all add: page_objects_def last_delta_link_def)

lemma finished_as_between [simp]:
  "finished_as key label cached vs d (observe_page label' page s) = finished_as key label cached vs d s"
  "finished_as key label cached vs d (push_warning x s) = finished_as key label cached vs d s"
  "finished_as key label cached vs d (pause env v s) = finished_as key label cached vs d s"
  "finished_as key label cached vs d (s\<lparr>rd_world := w\<rparr>) = finished_as key label cached vs d s"
  by (simp_all add: finished_as_def fun_eq_iff)

lemma finish_read_cases:
  assumes "finish_read env key label cached vs d s = (r, s')"
  shows "(r = Inr None \<and> cached \<noteq> None \<and> rd_deltaStates s' = rd_deltaStates s \<and> rd_collectionCaches s' = rd_collectionCaches s) \<or>
    (\<exists>x. r = Inr (Some x) \<and> finished_as key label cached vs d s x s')"
  using assms
  by (auto simp: finish_read_def cache_collection_def finished_as_def merged_values_def Let_def
      split: if_splits prod.splits option.splits)

lemma again_paused:
  assumes "truthy n" "env_list env (the n) w = (Inr page, rd_world s)" "coalesce (page_status page) 200 = 429"
    "answered env n (rd_world (pause env (page_retryAfterSeconds page) s)) pages w2"
  shows "answered env n w pages w2"
  using again [OF assms(1-3)] assms(4) by (simp add: pause_def split: if_splits)

text \<open>The outcome of a read over all pages.\<close>

lemma read_pages_outcome:
  assumes "read_collection_pages env key label cached nextPath vs 0 0 d s = Some (r, s')"
  shows "(unfinished cached r \<and> rd_deltaStates s' = rd_deltaStates s \<and>
        (\<forall>p. map_get (rd_collectionCaches s') p = None \<longrightarrow> map_get (rd_collectionCaches s) p = None)) \<or>
    (\<exists>x pages w. r = Inr (Some x) \<and> answered env nextPath (rd_world s) pages w \<and>
       finished_as key label cached (vs @ page_objects pages) (last_delta_link d pages) s x s')"
  (is "?stopped r s s' \<or> (\<exists>x pages w. ?finished nextPath vs d s r s' x pages w)")
  using assms order_refl [of 0] max.cobounded1 [of 0 "rd_maxRetries s"]
proof (induction rule: read_pages_induct)
  case (finished n vs d s r s')
  then show ?case using finish_read_cases [of env key label cached vs d s r s'] last_page [of n env "rd_world s"]
    by fastforce
next
  case (stopped n vs d s r s')
  then show ?case by blast
next
  case (throttled n vs d s r s' page w k)
  then show ?case
    using again_paused [of n env "rd_world s" page "push_warning (throttle_retried k (rd_maxRetries s) label) (s\<lparr>rd_world := w\<rparr>)"] by (simp, blast)
next
  case (page n vs d s r s' p w)
  from page(4) show ?case
  proof (elim disjE exE conjE)
    fix x pages w2
    assume "r = Inr (Some x)" "answered env (page_nextLink p) (rd_world (observe_page label p (s\<lparr>rd_world := w\<rparr>))) pages w2"
      "finished_as key label cached ((vs @ page_value p) @ page_objects pages)
        (last_delta_link (coalesce_opt (page_deltaLink p) d) pages) (observe_page label p (s\<lparr>rd_world := w\<rparr>)) x s'"
    then show ?thesis using next_page [OF page(1-3), of pages w2]
      by (intro disjI2 exI [of _ x] exI [of _ "p # pages"] exI [of _ w2]) simp
  qed simp
qed

lemma read_all_outcome:
  assumes "read_all_pages env key start label cached s = Some (r, s')"
  obtains (stopped) "unfinished cached r" "rd_deltaStates s' = rd_deltaStates s"
      "\<And>p. map_get (rd_collectionCaches s') p = None \<Longrightarrow> map_get (rd_collectionCaches s) p = None"
  | (finished) x pages w where "r = Inr (Some x)" "answered env (Some start) (rd_world s) pages w"
      "finished_as key label cached (page_objects pages) (last_delta_link None pages) s x s'"
  using read_pages_outcome [OF assms [unfolded read_all_pages_def]] by (auto intro: that)

text \<open>A read starts from the beginning of the collection, or from a stored delta token and the cached objects.\<close>

lemma full_read_outcome:
  assumes "full_read env path label s = Some (Inr x, s')"
  obtains (stopped) "\<not> read_completed x" "rd_deltaStates s' = rd_deltaStates s"
      "\<And>p. map_get (rd_collectionCaches s') p = None \<Longrightarrow> map_get (rd_collectionCaches s) p = None"
  | (finished) pages w where "answered env (Some path) (rd_world s) pages w"
      "finished_as path label None (page_objects pages) (last_delta_link None pages) s x s'"
proof -
  from assms obtain r where r: "read_all_pages env path path label None s = Some (Inr r, s')"
    "x = coalesce r \<lparr>read_values = [], read_completed = False\<rparr>"
    by (auto simp: full_read_def split: option.splits sum.splits)
  show ?thesis using r(1)
  proof (cases rule: read_all_outcome)
    case stopped
    then show ?thesis using r(2) that(1) by (cases r) auto
  next
    case (finished y pages w)
    then show ?thesis using r(2) that(2) by auto
  qed
qed

lemma finished_as_stores:
  assumes "finished_as key label cached vs d s x s'"
  shows "read_completed x" "map_get (rd_collectionCaches s') p = (if p = key then Some (read_values x) else map_get (rd_collectionCaches s) p)"
    "read_values x = merged_values cached vs" "cached \<noteq> None \<Longrightarrow> truthy d"
    "truthy d \<Longrightarrow> \<exists>t. map_get (rd_deltaStates s') key = Some t \<and> Some (delta_token t) = d"
    "p \<noteq> key \<Longrightarrow> map_get (rd_deltaStates s') p = map_get (rd_deltaStates s) p"
    "map_get (rd_deltaStates s') p \<noteq> None \<Longrightarrow> p = key \<or> map_get (rd_deltaStates s) p \<noteq> None"
  using assms by (auto simp: finished_as_def split: if_splits) (cases d; auto)

text \<open>Which reads \<open>readCollectionResult\<close> makes.\<close>

lemma read_collection_cases:
  assumes "read_collection_result env path label s = Some (r, s')"
  obtains (full) "map_get (rd_deltaStates s) path = None \<or> map_get (rd_collectionCaches s) path = None"
      "full_read env path label s = Some (r, s')"
  | (incremental) d cached x where "map_get (rd_deltaStates s) path = Some d" "map_get (rd_collectionCaches s) path = Some cached"
      "read_all_pages env path (delta_token d) label (Some cached) s = Some (x, s')" "x \<noteq> Inr None" "r = map_sum id the x"
  | (resync) d cached s1 where "map_get (rd_deltaStates s) path = Some d" "map_get (rd_collectionCaches s) path = Some cached"
      "read_all_pages env path (delta_token d) label (Some cached) s = Some (Inr None, s1)"
      "full_read env path label (push_warning (full_resync label) (s1\<lparr>rd_deltaStates := map_delete path (rd_deltaStates s1)\<rparr>)) = Some (r, s')"
  using assms by (auto simp: read_collection_result_def split: option.splits sum.splits intro: that)

lemma full_read_complete:
  assumes "full_read env path label s = Some (Inr x, s')" "read_completed x"
  shows "map_get (rd_collectionCaches s') path = Some (read_values x) \<and>
    (\<exists>w pages w'. answered env (Some path) w pages w' \<and> read_values x = page_objects pages \<and>
      (truthy (last_delta_link None pages) \<longrightarrow>
        (\<exists>d. map_get (rd_deltaStates s') path = Some d \<and> Some (delta_token d) = last_delta_link None pages)))"
  using assms(1)
proof (cases rule: full_read_outcome)
  case (finished pages w)
  with finished_as_stores(2,3,5) [OF finished(2)] show ?thesis by (auto simp: merged_values_def)
qed (use assms(2) in simp)

text \<open>
  C18: a completed read returns exactly what the client answered: all objects of the pages of the
  collection, in their order, or, after an incremental read, the cached objects with the changes of
  the pages since the stored token merged in. The same objects are cached, and the last delta link of
  the pages, if any, is stored for the next incremental read.
\<close>
theorem completed_reads_return_every_page:
  assumes "read_collection_result env path label s = Some (Inr x, s')" "read_completed x"
  shows "map_get (rd_collectionCaches s') path = Some (read_values x) \<and>
    ((\<exists>w pages w'. answered env (Some path) w pages w' \<and> read_values x = page_objects pages \<and>
        (truthy (last_delta_link None pages) \<longrightarrow>
          (\<exists>d. map_get (rd_deltaStates s') path = Some d \<and> Some (delta_token d) = last_delta_link None pages))) \<or>
     (\<exists>d cached pages w'. map_get (rd_deltaStates s) path = Some d \<and> map_get (rd_collectionCaches s) path = Some cached \<and>
        answered env (Some (delta_token d)) (rd_world s) pages w' \<and>
        read_values x = apply_graph_delta_changes cached (page_objects pages) \<and>
        (\<exists>d'. map_get (rd_deltaStates s') path = Some d' \<and> Some (delta_token d') = last_delta_link None pages)))"
  using assms(1)
proof (cases rule: read_collection_cases)
  case full
  with full_read_complete [OF full(2) assms(2)] show ?thesis by blast
next
  case (incremental d cached y)
  from incremental(3) show ?thesis
  proof (cases rule: read_all_outcome)
    case stopped
    with incremental show ?thesis by (cases y) auto
  next
    case (finished z pages w)
    with incremental finished_as_stores [OF finished(3)] show ?thesis by (auto simp: merged_values_def)
  qed
next
  case (resync d cached s1)
  with full_read_complete [OF resync(4) assms(2)] show ?thesis by blast
qed

text \<open>The states of a reader: any sequence of reads, whatever they return or throw.\<close>

inductive reader_step :: "'w graph_env \<Rightarrow> 'w collection_reader \<Rightarrow> 'w collection_reader \<Rightarrow> bool" for env where
  collection: "read_collection_result env path label s = Some (r, s') \<Longrightarrow> reader_step env s s'"
| one_record: "read_record env path label skipped s = Some (v, s') \<Longrightarrow> reader_step env s s'"

inductive reader_steps :: "'w graph_env \<Rightarrow> 'w collection_reader \<Rightarrow> 'w collection_reader \<Rightarrow> bool" for env where
  unused: "reader_steps env s s"
| used: "reader_steps env s s1 \<Longrightarrow> reader_step env s1 s2 \<Longrightarrow> reader_steps env s s2"

text \<open>Every path with a cursor has cached objects.\<close>

definition cursors_cached :: "'w collection_reader \<Rightarrow> bool" where
  "cursors_cached s \<longleftrightarrow> (\<forall>p. map_get (rd_deltaStates s) p \<noteq> None \<longrightarrow> map_get (rd_collectionCaches s) p \<noteq> None)"

lemma read_all_cursors:
  assumes "read_all_pages env key start label cached s = Some (r, s')" "cursors_cached s"
  shows "cursors_cached s'"
  using assms(1)
proof (cases rule: read_all_outcome)
  case stopped
  with assms(2) show ?thesis by (fastforce simp: cursors_cached_def)
next
  case (finished x pages w)
  from assms(2) finished_as_stores(2,7) [OF finished(3)] show ?thesis
    unfolding cursors_cached_def by (metis option.distinct(1))
qed

lemma full_read_cursors:
  assumes "full_read env path label s = Some (r, s')" "cursors_cached s"
  shows "cursors_cached s'"
  using assms by (auto simp: full_read_def split: option.splits sum.splits dest: read_all_cursors)

lemma collection_cursors:
  assumes "read_collection_result env path label s = Some (r, s')" "cursors_cached s"
  shows "cursors_cached s'"
  using assms(1)
proof (cases rule: read_collection_cases)
  case full
  with assms(2) show ?thesis by (auto intro: full_read_cursors)
next
  case (incremental d cached x)
  with assms(2) show ?thesis by (auto intro: read_all_cursors)
next
  case (resync d cached s1)
  have "cursors_cached s1" using resync(3) assms(2) by (rule read_all_cursors)
  then have "cursors_cached (push_warning (full_resync label) (s1\<lparr>rd_deltaStates := map_delete path (rd_deltaStates s1)\<rparr>))"
    by (simp add: cursors_cached_def)
  with resync(4) show ?thesis by (rule full_read_cursors)
qed

lemma record_keeps_cursors:
  assumes "read_record_from env path label skipped k s = Some y"
  shows "rd_deltaStates (snd y) = rd_deltaStates s \<and> rd_collectionCaches (snd y) = rd_collectionCaches s"
proof (rule read_record_from.raw_induct [where P = "\<lambda>env path label skipped k s y.
    rd_deltaStates (snd y) = rd_deltaStates s \<and> rd_collectionCaches (snd y) = rd_collectionCaches s", OF _ assms])
qed (fastforce simp: Let_def split: prod.splits sum.splits if_splits)

lemma reader_steps_cursors: "reader_steps env s s' \<Longrightarrow> cursors_cached s \<Longrightarrow> cursors_cached s'"
proof (induction rule: reader_steps.induct)
  case (used s s1 s2)
  from used.hyps(2) show ?case
  proof cases
    case (collection path label r)
    then show ?thesis using used by (auto intro: collection_cursors)
  next
    case (one_record path label skipped v)
    then show ?thesis using used record_keeps_cursors [of env path label skipped 0 s1 "(v, s2)"]
      by (simp add: read_record_def cursors_cached_def)
  qed
qed

lemma full_read_incomplete:
  assumes "full_read env path label s = Some (Inr x, s')" "\<not> read_completed x"
  shows "rd_deltaStates s' = rd_deltaStates s"
  using assms(1) by (cases rule: full_read_outcome) (use assms(2) in \<open>auto dest: finished_as_stores(1)\<close>)

text \<open>
  a read that did not reach the last page leaves no delta cursor for its path, so the next read
  of the collection starts over: an incremental read never builds on objects that are known to be
  incomplete. The cursors of the other collections stay as they are.
\<close>
theorem incomplete_reads_leave_no_cursor:
  assumes "reader_steps env (new_reader maxPages maxRetries w) s"
    "read_collection_result env path label s = Some (Inr x, s')" "\<not> read_completed x"
  shows "map_get (rd_deltaStates s') path = None \<and>
    (\<forall>p. p \<noteq> path \<longrightarrow> map_get (rd_deltaStates s') p = map_get (rd_deltaStates s) p)"
proof -
  have "cursors_cached (new_reader maxPages maxRetries w)" by (simp add: cursors_cached_def new_reader_def)
  with assms(1) have cached: "cursors_cached s" by (rule reader_steps_cursors)
  show ?thesis
    using assms(2)
  proof (cases rule: read_collection_cases)
    case full
    with cached full_read_incomplete [OF full(2) assms(3)] show ?thesis by (auto simp: cursors_cached_def)
  next
    case (incremental d c y)
    from incremental(3) show ?thesis
    proof (cases rule: read_all_outcome)
      case stopped
      with incremental show ?thesis by (cases y) auto
    next
      case (finished z pages w)
      with incremental finished_as_stores(1) [OF finished(3)] assms(3) show ?thesis by auto
    qed
  next
    case (resync d c s1)
    from resync(3) have "rd_deltaStates s1 = rd_deltaStates s" by (cases rule: read_all_outcome) auto
    with full_read_incomplete [OF resync(4) assms(3)] show ?thesis by simp
  qed
qed

subsection \<open>Delta changes\<close>

text \<open>
  The state of one object under a list of changes: its last change, which for a tombstone of an object
  that was there still shows the fields the tombstone does not have.
\<close>

definition changed_object :: "json_record \<Rightarrow> json_record option \<Rightarrow> json_record" where
  "changed_object c previous =
     (case previous of Some v \<Rightarrow> if is_graph_tombstone c then spread v c else c | None \<Rightarrow> c)"

definition object_after :: "string \<Rightarrow> json_record option \<Rightarrow> json_record list \<Rightarrow> json_record option" where
  "object_after i previous changes =
     fold (\<lambda>c p. if object_id c = Some i then Some (changed_object c p) else p) changes previous"

definition with_id :: "string \<Rightarrow> json_record list \<Rightarrow> json_record list" where
  "with_id i vs = filter (\<lambda>v. object_id v = Some i) vs"

text \<open>An object as \<open>JSON.parse\<close> gives it has no key twice.\<close>

lemma spread_get:
  "wf_map fs \<Longrightarrow> map_get (spread base fs) k = (case map_get fs k of Some v \<Rightarrow> Some v | None \<Rightarrow> map_get base k)"
  unfolding spread_def
proof (induction fs arbitrary: base)
  case (Cons p fs)
  obtain k' v where p: "p = (k', v)" by (cases p)
  with Cons.prems have "k' \<notin> fst ` set fs" "wf_map fs" by simp_all
  with Cons.IH show ?case by (auto simp: p split: option.split dest: map_of_SomeD intro: rev_image_eqI)
qed simp

lemma changed_object_id: "wf_map c \<Longrightarrow> object_id c = Some i \<Longrightarrow> object_id (changed_object c p) = Some i"
  by (auto simp: changed_object_def object_id_def spread_get split: option.splits js.splits if_splits)

lemma objects_by_id_get: "map_get (objects_by_id vs) i = (if with_id i vs = [] then None else Some (last (with_id i vs)))"
proof (induction vs rule: rev_induct)
  case Nil
  then show ?case by (simp add: objects_by_id_def with_id_def)
next
  case (snoc v vs)
  then show ?case by (auto simp: objects_by_id_def with_id_def split: option.split)
qed

definition ids_ok :: "(string, json_record) js_map \<Rightarrow> bool" where
  "ids_ok m \<longleftrightarrow> wf_map m \<and> (\<forall>(k, v) \<in> set m. object_id v = Some k)"

lemma ids_ok_set [intro]: "ids_ok m \<Longrightarrow> object_id v = Some i \<Longrightarrow> ids_ok (map_set i v m)"
  using set_map_set_subset [of i v m] by (auto simp: ids_ok_def)

lemma ids_ok_values:
  assumes "ids_ok m"
  shows "with_id i (map_values m) = (case map_get m i of None \<Rightarrow> [] | Some v \<Rightarrow> [v])"
    "filter (\<lambda>v. object_id v = None) (map_values m) = []"
proof -
  have "with_id i (map_values m) = (case map_get m i of None \<Rightarrow> [] | Some v \<Rightarrow> [v]) \<and>
      filter (\<lambda>v. object_id v = None) (map_values m) = []"
    using assms
  proof (induction m)
    case (Cons p m)
    obtain k v where p: "p = (k, v)" by (cases p)
    with Cons.prems have "object_id v = Some k" "ids_ok m" "map_get m k = None"
      by (auto simp: ids_ok_def map_of_eq_None_iff)
    with Cons.IH p show ?case by (auto simp: with_id_def)
  qed (simp add: with_id_def)
  then show "with_id i (map_values m) = (case map_get m i of None \<Rightarrow> [] | Some v \<Rightarrow> [v])"
    "filter (\<lambda>v. object_id v = None) (map_values m) = []" by simp_all
qed

lemma ids_ok_objects: "ids_ok (objects_by_id vs)"
proof (induction vs rule: rev_induct)
  case Nil
  show ?case by (simp add: objects_by_id_def ids_ok_def)
next
  case (snoc v vs)
  then show ?case by (auto simp: objects_by_id_def split: option.split)
qed

lemma apply_change_simp:
  "apply_change c (anonymous, m) =
     (case object_id c of None \<Rightarrow> (anonymous @ [c], m)
      | Some i \<Rightarrow> (anonymous, map_set i (changed_object c (map_get m i)) m))"
  by (simp add: apply_change_def changed_object_def split: option.split)

lemma changes_fold:
  assumes "\<forall>c \<in> set changes. wf_map c" "ids_ok m"
  shows "\<exists>m'. fold apply_change changes (anonymous, m) = (anonymous @ filter (\<lambda>c. object_id c = None) changes, m') \<and>
    ids_ok m' \<and> (\<forall>i. map_get m' i = object_after i (map_get m i) changes)"
  using assms
proof (induction changes arbitrary: anonymous m)
  case Nil
  then show ?case by (simp add: object_after_def)
next
  case (Cons c changes)
  show ?case
  proof (cases "object_id c")
    case None
    with Cons.IH [of m "anonymous @ [c]"] Cons.prems show ?thesis by (simp add: apply_change_simp object_after_def)
  next
    case (Some k)
    let ?m = "map_set k (changed_object c (map_get m k)) m"
    have "ids_ok ?m" using Cons.prems Some by (intro ids_ok_set changed_object_id) auto
    with Cons.IH [of ?m anonymous] Cons.prems Some show ?thesis
      by (auto simp: apply_change_simp object_after_def)
  qed
qed

lemma object_after_present:
  "object_after i p changes \<noteq> None \<longleftrightarrow> p \<noteq> None \<or> with_id i changes \<noteq> []"
  by (induction changes arbitrary: p) (auto simp: object_after_def with_id_def)

lemma delta_merge:
  assumes "\<forall>c \<in> set changes. wf_map c"
  shows "with_id i (apply_graph_delta_changes cached changes) =
      (case object_after i (if with_id i cached = [] then None else Some (last (with_id i cached))) changes of
         None \<Rightarrow> [] | Some v \<Rightarrow> [v])"
    "filter (\<lambda>v. object_id v = None) (apply_graph_delta_changes cached changes) =
      filter (\<lambda>v. object_id v = None) (cached @ changes)"
    "with_id i (cached @ changes) \<noteq> [] \<Longrightarrow> with_id i (apply_graph_delta_changes cached changes) \<noteq> []"
proof -
  have ids: "ids_ok (objects_by_id cached)" by (rule ids_ok_objects)
  from changes_fold [OF assms ids] obtain m where
    m: "fold apply_change changes (filter (\<lambda>v. object_id v = None) cached, objects_by_id cached) =
        (filter (\<lambda>v. object_id v = None) (cached @ changes), m)" "ids_ok m"
      "\<forall>i. map_get m i = object_after i (map_get (objects_by_id cached) i) changes" by fastforce
  have merged: "apply_graph_delta_changes cached changes = filter (\<lambda>v. object_id v = None) (cached @ changes) @ map_values m"
    by (simp add: apply_graph_delta_changes_def m(1) del: filter_append)
  have none: "with_id i (filter (\<lambda>v. object_id v = None) vs) = []" for vs
    by (auto simp: with_id_def filter_empty_conv)
  show latest: "with_id i (apply_graph_delta_changes cached changes) =
      (case object_after i (if with_id i cached = [] then None else Some (last (with_id i cached))) changes of
         None \<Rightarrow> [] | Some v \<Rightarrow> [v])"
    using ids_ok_values(1) [OF m(2), of i] m(3) none [of "cached @ changes"]
    by (simp add: merged objects_by_id_get with_id_def)
  show "filter (\<lambda>v. object_id v = None) (apply_graph_delta_changes cached changes) =
      filter (\<lambda>v. object_id v = None) (cached @ changes)"
    using ids_ok_values(2) [OF m(2)] by (simp add: merged)
  assume "with_id i (cached @ changes) \<noteq> []"
  then have "(if with_id i cached = [] then None else Some (last (with_id i cached))) \<noteq> None \<or> with_id i changes \<noteq> []"
    by (auto simp: with_id_def)
  then have "object_after i (if with_id i cached = [] then None else Some (last (with_id i cached))) changes \<noteq> None"
    by (simp only: object_after_present)
  then obtain v where "object_after i (if with_id i cached = [] then None else Some (last (with_id i cached))) changes = Some v"
    by (auto simp del: not_None_eq)
  then show "with_id i (apply_graph_delta_changes cached changes) \<noteq> []"
    by (simp only: latest option.case list.distinct not_False_eq_True)
qed

text \<open>
  C19: merging delta changes is exact: the objects without an id are those of the cache followed by
  those of the changes; every id has at most one object, and the object is the state of that id after
  all changes, in their order. No object is lost: a tombstone keeps the object, marked as removed.
\<close>
theorem delta_changes_give_the_latest_state:
  assumes "\<forall>c \<in> set changes. wf_map c"
  shows "with_id i (apply_graph_delta_changes cached changes) =
      (case object_after i (if with_id i cached = [] then None else Some (last (with_id i cached))) changes of
         None \<Rightarrow> [] | Some v \<Rightarrow> [v]) \<and>
    filter (\<lambda>v. object_id v = None) (apply_graph_delta_changes cached changes) =
      filter (\<lambda>v. object_id v = None) (cached @ changes) \<and>
    (with_id i (cached @ changes) \<noteq> [] \<longrightarrow> with_id i (apply_graph_delta_changes cached changes) \<noteq> [])"
  using delta_merge [OF assms] by blast

subsection \<open>A sample client\<close>

definition sample_object :: json_record where
  "sample_object = [(''id'', JStr ''u1''), (''displayName'', JStr ''Alice'')]"

definition sample_tombstone :: json_record where
  "sample_tombstone = [(''id'', JStr ''u1''), (''@removed'', JObj [(''reason'', JStr ''deleted'')])]"

text \<open>A client that answers every path with one page of the given status.\<close>

definition sample_page :: "int \<Rightarrow> collection_page" where
  "sample_page status =
    \<lparr>page_value = [sample_object], page_nextLink = None, page_deltaLink = Some ''delta-1'', page_status = Some status,
     page_retryAfterSeconds = None\<rparr>"

definition sample_env :: "int \<Rightarrow> unit graph_env" where
  "sample_env status =
    \<lparr>env_list = (\<lambda>p w. (Inr (sample_page status), w)),
     env_get = (\<lambda>p w. (Inr \<lparr>resp_value = None, resp_status = Some status, resp_retryAfterSeconds = None\<rparr>, w)),
     env_now = (\<lambda>w. (''2026-05-21T17:00:00.000Z'', w)), env_sleep = (\<lambda>ms w. w)\<rparr>"

lemmas sample_read_defs = read_collection_result_def full_read_def read_all_pages_def new_reader_def
  read_collection_pages.simps sample_env_def sample_page_def give_up_def cache_collection_def finish_read_def Let_def

lemma completed_reads_return_every_page_witness:
  "\<exists>s'. read_collection_result (sample_env 200) ''/users'' Scope_subjects (new_reader 10 2 ()) =
      Some (Inr \<lparr>read_values = [sample_object], read_completed = True\<rparr>, s') \<and>
    map_get (rd_collectionCaches s') ''/users'' = Some [sample_object]"
proof -
  obtain s' where s': "read_collection_result (sample_env 200) ''/users'' Scope_subjects (new_reader 10 2 ()) =
      Some (Inr \<lparr>read_values = [sample_object], read_completed = True\<rparr>, s')"
    by (simp add: sample_read_defs)
  with completed_reads_return_every_page [OF s'] show ?thesis by simp
qed

lemma incomplete_reads_leave_no_cursor_witness:
  "\<exists>s'. read_collection_result (sample_env 503) ''/users'' Scope_subjects (new_reader 10 2 ()) =
      Some (Inr \<lparr>read_values = [], read_completed = False\<rparr>, s') \<and>
    map_get (rd_deltaStates s') ''/users'' = None \<and>
    map_get (rd_deltaStates s') ''/groups'' = map_get (rd_deltaStates (new_reader 10 2 ())) ''/groups''"
proof -
  obtain s' where s': "read_collection_result (sample_env 503) ''/users'' Scope_subjects (new_reader 10 2 ()) =
      Some (Inr \<lparr>read_values = [], read_completed = False\<rparr>, s')"
    by (simp add: sample_read_defs)
  with incomplete_reads_leave_no_cursor [OF unused s'] show ?thesis by simp
qed

lemma delta_changes_give_the_latest_state_witness:
  "with_id ''u1'' (apply_graph_delta_changes [sample_object] [sample_tombstone]) =
      [[(''id'', JStr ''u1''), (''displayName'', JStr ''Alice''), (''@removed'', JObj [(''reason'', JStr ''deleted'')])]] \<and>
    filter (\<lambda>v. object_id v = None) (apply_graph_delta_changes [sample_object] [sample_tombstone]) = []"
proof -
  have wf: "\<forall>c \<in> set [sample_tombstone]. wf_map c" by (simp add: sample_tombstone_def)
  show ?thesis
    using delta_changes_give_the_latest_state [OF wf, where i = "''u1''" and cached = "[sample_object]"]
    by (simp add: sample_object_def sample_tombstone_def with_id_def object_id_def object_after_def changed_object_def
        is_graph_tombstone_def js_truthy_def spread_def)
qed

end
