(* ===== verification/Job_Runner.thy ===== *)
theory Job_Runner
  imports Evidence_Export Runtime_Discovery Job_Queue_Adapter
begin

text \<open>
  Working off the queue: \<open>packages/api/src/job-queue-runner.ts\<close>. A drain reserves one job, runs the
  runtime flow its kind asks for, and reports the outcome back to the queue.

  The queue adapter and the external store it shares with other processes are part of what the app's
  repositories act on, because the adapter is also the app's job repository when none is configured:
  \<open>queue_access\<close> says where. An evidence job exports a package with the \<open>evidence_services\<close> of
  \<open>Runtime_Evidence\<close>. Approvals and controls, which the queue keeps as JSON, are read with their
  declared types.
\<close>

subsection \<open>Errors\<close>

text \<open>The messages of the errors of the queue; the last one is the engine's own.\<close>

primrec queue_error_text :: "queue_error \<Rightarrow> string" where
  "queue_error_text (Secret_material path) =
     path @ '' contains secret material and cannot be persisted by a production adapter.''"
| "queue_error_text (Evidence_crosses_tenant label) =
     label @ '' must include matching evidence.tenantBoundary for production persistence.''"
| "queue_error_text (Report_crosses_tenant i) =
     ''Enforcement readiness report '' @ i @ '' crosses the configured tenant boundary.''"
| "queue_error_text No_tenant_boundary = ''Reference job queue adapters require a tenant boundary.''"
| "queue_error_text No_idempotency_key = ''Reference queue jobs require an idempotency key.''"
| "queue_error_text No_connector_id = ''Reference queue jobs require a connector id.''"
| "queue_error_text No_enforcement_evidence =
     ''Reference queue enforcement jobs require approval, control, and readiness evidence before enqueue.''"
| "queue_error_text (Idempotency_key_reused key) =
     ''Reference queue idempotency key '' @ key @ '' was reused for a different job request.''"
| "queue_error_text (Job_does_not_exist i) = ''Reference queue job '' @ i @ '' does not exist.''"
| "queue_error_text (Job_not_running operation i status) =
     ''Cannot '' @ operation @ '' production queue job '' @ i @ '' because it is '' @ job_status_text status @ ''.''"
| "queue_error_text (Lease_expired operation i lease) =
     ''Cannot '' @ operation @ '' production queue job '' @ i @ '' because its worker lease expired at '' @ lease @ ''.''"
| "queue_error_text (Reserved_by_other_worker i owner worker) =
     ''Reference queue job '' @ i @ '' is reserved by worker '' @ owner @ '', not '' @ worker @ ''.''"
| "queue_error_text (Not_dead_lettered i) =
     ''Reference queue job '' @ i @ '' is not dead-lettered and cannot be replayed.''"
| "queue_error_text (Has_been_recorded label i) =
     label @ '' '' @ (case i of JStr s \<Rightarrow> s | _ \<Rightarrow> ''undefined'') @ '' has already been recorded.''"
| "queue_error_text (Backup_does_not_exist i) = ''Reference job queue backup '' @ i @ '' does not exist.''"
| "queue_error_text Wrong_envelope =
     ''Reference job queue store must use the production-job-queue-store:v1 envelope.''"
| "queue_error_text Wrong_tenant_boundary =
     ''Reference job queue store tenant boundary does not match the configured tenant boundary.''"
| "queue_error_text Wrong_jobs_hash = ''Reference job queue store hash does not match the stored job payload.''"
| "queue_error_text Wrong_queue_hash = ''Reference job queue store hash does not match the stored queue payload.''"
| "queue_error_text Write_conflict = ''Reference job queue write conflict persisted after retry.''"
| "queue_error_text Invalid_time = ''Invalid time value''"
| "queue_error_text Type_error = ''TypeError''"

definition queue_thrown :: "queue_error \<Rightarrow> app_error" where
  "queue_thrown e = Raised (Error_object (queue_error_text e))"

fun error_message :: "app_error \<Rightarrow> string" where
  "error_message (Local_app_error status code message) = message"
| "error_message (Raised (Error_object message)) = message"
| "error_message (Raised (Other_value v)) = ''Unknown queued job execution failure.''"

definition plain_error :: "string \<Rightarrow> app_error" where
  "plain_error m = Raised (Error_object m)"

subsection \<open>Reading the payload\<close>

definition required_string :: "json_record \<Rightarrow> string \<Rightarrow> string \<Rightarrow> ('c, 'p, string) run" where
  "required_string p k label =
     (case text_field_opt p k of
        Some s \<Rightarrow> if s \<noteq> [] then give s else raise (plain_error (label @ '' payload requires '' @ k @ ''.''))
      | None \<Rightarrow> raise (plain_error (label @ '' payload requires '' @ k @ ''.'')))"

definition read_provisioning_mode :: "json_record \<Rightarrow> provisioning_mode option" where
  "read_provisioning_mode p =
     (let mode = text_field_opt p ''mode'' in
      if mode = Some ''dry_run'' then Some Dry_run
      else if mode = Some ''enforcement'' then Some Enforcement else None)"

definition read_evidence_format :: "json_record \<Rightarrow> evidence_format" where
  "read_evidence_format p =
     (let format = text_field_opt p ''format'' in
      if format = Some ''zip'' then Format_zip
      else if format = Some ''markdown'' then Format_markdown else Format_json)"

definition read_controls :: "json_record \<Rightarrow> string list" where
  "read_controls p =
     (case payload_field p ''controls'' of
        JArr vs \<Rightarrow> if list_all (\<lambda>v. js_typeof v = ''string'') vs then map (\<lambda>v. case v of JStr s \<Rightarrow> s | _ \<Rightarrow> []) vs else []
      | _ \<Rightarrow> [])"

definition approval_of :: "json_record \<Rightarrow> provisioning_approval" where
  "approval_of r =
    \<lparr>approverId = text_field r ''approverId'', changeTicket = text_field r ''changeTicket'',
     approvedAt = text_field r ''approvedAt'', approval_expiresAt = text_field_opt r ''expiresAt'',
     approval_reason = text_field_opt r ''reason''\<rparr>"

definition control_of :: "json_record \<Rightarrow> enforcement_control" where
  "control_of r =
     (let flag = (\<lambda>k. payload_field r k = JBool True) in
      \<lparr>syntheticOnly = flag ''syntheticOnly'', liveProviderWrites = flag ''liveProviderWrites'',
       incidentMode = flag ''incidentMode'', breakGlass = flag ''breakGlass''\<rparr>)"

definition queued_approver :: "queued_job \<Rightarrow> canonical_id \<Rightarrow> canonical_id" where
  "queued_approver j who =
     coalesce (text_field_opt (qj_payload j) ''approverId'')
       (coalesce (Option.bind (qj_approval j) (\<lambda>a. text_field_opt a ''approverId'')) who)"

subsection \<open>Running a job\<close>

datatype queued_result =
    Ran_discovery discovery_run
  | Ran_reconciliation reconciliation_run
  | Ran_provisioning "provisioning_job option"
  | Ran_evidence json_record

text \<open>The request for a provisioning job a queued job makes, given the plan, the key and the mode.\<close>

definition queued_request ::
  "queued_job \<Rightarrow> canonical_id \<Rightarrow> canonical_id \<Rightarrow> string \<Rightarrow> provisioning_mode option \<Rightarrow> job_request" where
  "queued_request j who planId key mode =
    \<lparr>jr_planId = planId, jr_approverId = queued_approver j who, jr_idempotencyKey = key, jr_mode = mode,
     jr_approval = map_option approval_of (qj_approval j), jr_control = map_option control_of (qj_control j)\<rparr>"

definition run_queued_provisioning :: "runtime \<Rightarrow> queued_job \<Rightarrow> ('c, 'p, provisioning_job option) run" where
  "run_queued_provisioning rt j =
     andthen (required_string (qj_payload j) ''planId'' (''Queued provisioning job '' @ qj_id j)) (\<lambda>planId.
     andthen (look app_actor) (\<lambda>who.
       create_provisioning_job rt
         (queued_request j who planId
            (coalesce (text_field_opt (qj_payload j) ''jobIdempotencyKey'')
               (coalesce (text_field_opt (qj_payload j) ''idempotencyKey'') (qj_idempotencyKey j)))
            (read_provisioning_mode (qj_payload j)))))"

definition run_queued_revocation :: "runtime \<Rightarrow> queued_job \<Rightarrow> ('c, 'p, provisioning_job option) run" where
  "run_queued_revocation rt j =
     (let jobKey = coalesce (text_field_opt (qj_payload j) ''jobIdempotencyKey'') (qj_idempotencyKey j @ '':job'') in
      if truthy (text_field_opt (qj_payload j) ''planId'')
      then andthen (look app_actor) (\<lambda>who.
             create_provisioning_job rt
               (queued_request j who (text_field (qj_payload j) ''planId'') jobKey (read_provisioning_mode (qj_payload j))))
      else
        andthen (required_string (qj_payload j) ''nativeGrantId'' (''Queued revocation job '' @ qj_id j)) (\<lambda>grant.
        andthen (create_revocation_plan rt grant (Some (qj_connectorId j))
                   \<lparr>opt_mode = Some (coalesce (read_provisioning_mode (qj_payload j)) Dry_run),
                    opt_approval = map_option approval_of (qj_approval j),
                    opt_control = map_option control_of (qj_control j),
                    opt_readinessReportId = qj_readinessReportId j\<rparr>
                   (Some (coalesce (text_field_opt (qj_payload j) ''planIdempotencyKey'') (qj_idempotencyKey j @ '':plan''))))
          (\<lambda>plan.
        andthen (look app_actor) (\<lambda>who.
          create_provisioning_job rt (queued_request j who (entity_id plan) jobKey (Some (plan_mode plan)))))))"

definition execute_queued_job ::
  "runtime \<Rightarrow> 'p evidence_services \<Rightarrow> queued_job \<Rightarrow> ('c, 'p, queued_result) run" where
  "execute_queued_job rt services j =
     (case qj_kind j of
        Kind_discovery \<Rightarrow> andthen (sync_connector rt (qj_connectorId j)) (\<lambda>r. give (Ran_discovery r))
      | Kind_reconciliation \<Rightarrow>
          andthen (run_reconciliation rt (qj_connectorId j) None no_schedule_patch) (\<lambda>r. give (Ran_reconciliation r))
      | Kind_provisioning \<Rightarrow> andthen (run_queued_provisioning rt j) (\<lambda>r. give (Ran_provisioning r))
      | Kind_revocation \<Rightarrow> andthen (run_queued_revocation rt j) (\<lambda>r. give (Ran_provisioning r))
      | Kind_evidence \<Rightarrow>
          andthen (export_evidence rt services (read_controls (qj_payload j)) (read_evidence_format (qj_payload j)))
            (\<lambda>e. give (Ran_evidence e)))"

subsection \<open>Draining the queue\<close>

record ('p, 's) queue_access =
  qx_read :: "'p \<Rightarrow> queue_adapter \<times> 's"
  qx_write :: "queue_adapter \<times> 's \<Rightarrow> 'p \<Rightarrow> 'p"

definition ask_queue ::
  "('p, 's) queue_access \<Rightarrow> (queue_adapter \<times> 's \<Rightarrow> ('a, 's) outcome) \<Rightarrow> ('c, 'p, 'a) run" where
  "ask_queue x f a =
     (case f (qx_read x (app_disk a)) of
        (r, st) \<Rightarrow> (map_sum queue_thrown id r, a\<lparr>app_disk := qx_write x st (app_disk a)\<rparr>))"

definition attempt :: "('c, 'p, 'a) run \<Rightarrow> ('c, 'p, app_error + 'a) run" where
  "attempt m a = (case m a of (r, b) \<Rightarrow> (Inr r, b))"

datatype drain_status = Drain_idle | Drain_completed | Drain_failed | Drain_dead_lettered

record drain_result =
  drain_status :: drain_status
  drain_queueJob :: "queued_job option"
  drain_result :: "queued_result option"
  drain_error :: "string option"

definition idle_drain :: "drain_result" where
  "idle_drain = \<lparr>drain_status = Drain_idle, drain_queueJob = None, drain_result = None, drain_error = None\<rparr>"

definition complete_reserved ::
  "runtime \<Rightarrow> ('p, 's) queue_access \<Rightarrow> 's adapter_options \<Rightarrow> 'p evidence_services \<Rightarrow>
   canonical_id \<Rightarrow> queued_job \<Rightarrow> ('c, 'p, queued_job \<times> queued_result) run" where
  "complete_reserved rt x opts services worker j =
     andthen (execute_queued_job rt services j) (\<lambda>result.
     andthen (perform app_now) (\<lambda>completedAt.
     andthen (ask_queue x (complete_job opts completedAt (qj_id j) (Some worker) (Some completedAt))) (\<lambda>completed.
       give (completed, result))))"

definition fail_reserved ::
  "('p, 's) queue_access \<Rightarrow> 's adapter_options \<Rightarrow> canonical_id \<Rightarrow> queued_job \<Rightarrow> app_error \<Rightarrow> ('c, 'p, drain_result) run" where
  "fail_reserved x opts worker j e =
     andthen (perform app_now) (\<lambda>failedAt.
     andthen (ask_queue x (record_job_failure opts failedAt (qj_id j) (Some worker) (Some failedAt) (error_message e))) (\<lambda>failed.
       give \<lparr>drain_status = (if qj_status failed = Dead_lettered then Drain_dead_lettered else Drain_failed),
             drain_queueJob = Some failed, drain_result = None, drain_error = Some (error_message e)\<rparr>))"

definition drain_next_queued_job ::
  "runtime \<Rightarrow> ('p, 's) queue_access \<Rightarrow> 's adapter_options option \<Rightarrow> 'p evidence_services \<Rightarrow>
   canonical_id option \<Rightarrow> string option \<Rightarrow> ('c, 'p, drain_result) run" where
  "drain_next_queued_job rt x queue services workerId reservedAt =
     (case queue of
        None \<Rightarrow> give idle_drain
      | Some opts \<Rightarrow>
          (let worker = coalesce workerId ''worker:local-runtime'' in
           andthen (case reservedAt of Some t \<Rightarrow> give t | None \<Rightarrow> perform app_now) (\<lambda>t.
           andthen (ask_queue x (reserve_next_job opts t worker (Some t) None)) (\<lambda>reserved.
             case reserved of
               None \<Rightarrow> give idle_drain
             | Some j \<Rightarrow>
                 andthen (attempt (complete_reserved rt x opts services worker j)) (\<lambda>outcome.
                   case outcome of
                     Inr (completed, result) \<Rightarrow>
                       give \<lparr>drain_status = Drain_completed, drain_queueJob = Some completed,
                             drain_result = Some result, drain_error = None\<rparr>
                   | Inl e \<Rightarrow> fail_reserved x opts worker j e)))))"

end
