(* ===== verification/Audit_Adapter.thy ===== *)
theory Audit_Adapter
  imports Audit_Store
begin

text \<open>
  The reference audit adapter, \<open>ReferenceAuditEvidenceAdapter\<close>: the integrity validator
  (\<open>reference-audit-integrity.ts\<close>), the audit log, the retained evidence packages, the signed windows,
  the SIEM delivery log and the backups, on the in-memory store. An operation gives the error it
  throws or its result, and the store it leaves. \<open>now\<close> is what the clock of the adapter would say.
\<close>

subsection \<open>The adapter and its signer\<close>

record window_signer =
  ws_keyId :: canonical_id
  ws_algorithm :: string
  ws_sign :: "js \<Rightarrow> string"
  ws_verify :: "js \<Rightarrow> string \<Rightarrow> bool"

text \<open>\<open>hmac key text\<close> is the hexadecimal HMAC of \<open>node:crypto\<close>.\<close>

definition hmac_window_signer :: "runtime \<Rightarrow> (string \<Rightarrow> string \<Rightarrow> string) \<Rightarrow> canonical_id \<Rightarrow> string \<Rightarrow> window_signer" where
  "hmac_window_signer rt hmac keyId keyMaterial =
     (let signature = (\<lambda>v. ''hmac-sha256:'' @ hmac keyMaterial (stable_stringify rt v))
      in \<lparr>ws_keyId = keyId, ws_algorithm = ''hmac-sha256'', ws_sign = signature, ws_verify = (\<lambda>v s. signature v = s)\<rparr>)"

definition signing_key_error :: "string \<Rightarrow> string option" where
  "signing_key_error k =
     (if trim k = [] then Some ''Reference audit signing key material is required.''
      else if length k < 32 then Some ''Reference audit signing key material must be at least 32 characters.''
      else None)"

record audit_adapter =
  aa_tenantBoundary :: string
  aa_location :: string
  aa_retentionPolicy :: retention_policy
  aa_signer :: window_signer

record audit_adapter_options =
  ao_tenantBoundary :: string
  ao_location :: string
  ao_retentionDays :: "rat option"
  ao_retentionPolicyId :: "canonical_id option"
  ao_signingKeyId :: "canonical_id option"
  ao_signingKeyMaterial :: string

subsection \<open>Findings\<close>

text \<open>\<open>auditRecordFindings\<close>: what is wrong with one record, given the position it should have and the
  event ids before it.\<close>

definition tag :: "bool \<Rightarrow> audit_integrity_finding \<Rightarrow> audit_integrity_finding list" where
  "tag wrong f = (if wrong then [f] else [])"

definition one_record_findings :: "runtime \<Rightarrow> string \<Rightarrow> nat \<Rightarrow> canonical_id list \<Rightarrow> audit_record \<Rightarrow> audit_integrity_finding list" where
  "one_record_findings rt tenantBoundary expectedSequence seen r =
     (let i = eventId (ar_event r);
          expectedEventHash = audit_event_hash rt (ar_event r);
          expectedRecordHash = hash_record rt (audit_record_fields r)
      in tag (ar_version r \<noteq> ''production-audit-event-record:v1'')
           (finding ''AUDIT_RECORD_VERSION_MISMATCH'' ''Stored production audit record has an unsupported version.'' i None None) @
         tag (i \<in> set seen)
           (finding ''AUDIT_RECORD_DUPLICATE_EVENT_ID'' ''Stored production audit record duplicates a prior event identifier.'' i None None) @
         tag (ar_tenantBoundary r \<noteq> tenantBoundary)
           (finding ''AUDIT_TENANT_BOUNDARY_MISMATCH'' ''Stored production audit record tenant boundary does not match the adapter.'' i None None) @
         tag (ar_sequence r \<noteq> expectedSequence)
           (finding ''AUDIT_RECORD_SEQUENCE_MISMATCH'' ''Stored production audit record sequence does not match append-only order.'' i
              (Some (nat_str expectedSequence)) (Some (nat_str (ar_sequence r)))) @
         tag (ar_eventHash r \<noteq> expectedEventHash)
           (finding ''AUDIT_RECORD_HASH_MISMATCH'' ''Stored production audit record hash does not match the current event payload.'' i
              (Some expectedEventHash) (Some (ar_eventHash r))) @
         tag (ar_previousEventHash r \<noteq> previousEventHash (ar_event r))
           (finding ''AUDIT_RECORD_PREVIOUS_HASH_MISMATCH''
              ''Stored production audit record previous hash does not match the event previousEventHash.'' i
              (Some (coalesce (previousEventHash (ar_event r)) ''<none>'')) (Some (coalesce (ar_previousEventHash r) ''<none>''))) @
         tag (ar_recordHash r \<noteq> expectedRecordHash)
           (finding ''AUDIT_RECORD_ENVELOPE_HASH_MISMATCH'' ''Stored production audit record envelope hash does not match the current record.'' i
              (Some expectedRecordHash) (Some (ar_recordHash r))) @
         secret_findings (''Audit event '' @ i) (event_js (ar_event r)))"

fun audit_findings_from :: "runtime \<Rightarrow> string \<Rightarrow> nat \<Rightarrow> canonical_id list \<Rightarrow> audit_record list \<Rightarrow> audit_integrity_finding list" where
  "audit_findings_from rt tb n seen [] = []"
| "audit_findings_from rt tb n seen (r # rs) =
     one_record_findings rt tb (Suc n) seen r @ audit_findings_from rt tb (Suc n) (set_add (eventId (ar_event r)) seen) rs"

definition audit_record_findings :: "runtime \<Rightarrow> string \<Rightarrow> audit_record list \<Rightarrow> audit_integrity_finding list" where
  "audit_record_findings rt tb rs = audit_findings_from rt tb 0 [] rs"

definition manifest_hash :: "json_record \<Rightarrow> string" where
  "manifest_hash e = (case object_field_opt e ''integrityManifest'' of Some m \<Rightarrow> text_field m ''packageHash'' | None \<Rightarrow> [])"

definition receipt_hash :: "json_record \<Rightarrow> string option" where
  "receipt_hash e = Option.bind (object_field_opt e ''storageReceipt'') (\<lambda>r. text_field_opt r ''packageHash'')"

definition one_evidence_findings :: "runtime \<Rightarrow> string \<Rightarrow> evidence_record \<Rightarrow> audit_integrity_finding list" where
  "one_evidence_findings rt tenantBoundary r =
     (let i = ed_exportId r;
          expectedRecordHash = hash_record rt (evidence_record_fields r)
      in tag (ed_version r \<noteq> ''production-evidence-package-record:v1'')
           (finding ''EVIDENCE_RECORD_VERSION_MISMATCH'' ''Stored production evidence record has an unsupported version.'' i None None) @
         tag (ed_tenantBoundary r \<noteq> tenantBoundary)
           (finding ''EVIDENCE_TENANT_BOUNDARY_MISMATCH'' ''Stored production evidence record tenant boundary does not match the adapter.'' i None None) @
         tag (ed_packageHash r \<noteq> manifest_hash (ed_evidence r))
           (finding ''EVIDENCE_PACKAGE_HASH_MISMATCH''
              ''Stored production evidence package hash does not match the integrity manifest.'' i
              (Some (manifest_hash (ed_evidence r))) (Some (ed_packageHash r))) @
         tag (er_packageHash (ed_receipt r) \<noteq> ed_packageHash r \<or> receipt_hash (ed_evidence r) \<noteq> Some (ed_packageHash r))
           (finding ''EVIDENCE_RECEIPT_HASH_MISMATCH'' ''Stored production evidence receipt does not match the retained package hash.'' i None None) @
         tag (ed_recordHash r \<noteq> expectedRecordHash)
           (finding ''EVIDENCE_RECORD_ENVELOPE_HASH_MISMATCH''
              ''Stored production evidence record envelope hash does not match the current record.'' i
              (Some expectedRecordHash) (Some (ed_recordHash r))) @
         secret_findings (''Evidence package '' @ i) (JObj (ed_evidence r)))"

definition evidence_record_findings :: "runtime \<Rightarrow> string \<Rightarrow> evidence_record list \<Rightarrow> audit_integrity_finding list" where
  "evidence_record_findings rt tb rs = concat (map (one_evidence_findings rt tb) rs)"

definition events_in :: "string \<Rightarrow> string \<Rightarrow> audit_record list \<Rightarrow> audit_event list" where
  "events_in periodStart periodEnd rs =
     filter (\<lambda>e. periodStart \<le> occurredAt e \<and> occurredAt e \<le> periodEnd) (map ar_event rs)"

definition first_event_hash :: "runtime \<Rightarrow> audit_event list \<Rightarrow> string option" where
  "first_event_hash rt es = (if es = [] then None else Some (audit_event_hash rt (hd es)))"

definition one_window_findings :: "runtime \<Rightarrow> string \<Rightarrow> window_signer \<Rightarrow> audit_record list \<Rightarrow> signed_window \<Rightarrow> audit_integrity_finding list" where
  "one_window_findings rt tenantBoundary signer rs w =
     (let i = sw_windowId w;
          events = events_in (sw_periodStart w) (sw_periodEnd w) rs;
          expectedRecordHash = hash_record rt (window_fields w)
      in tag (sw_tenantBoundary w \<noteq> tenantBoundary)
           (finding ''AUDIT_WINDOW_TENANT_BOUNDARY_MISMATCH'' ''Signed audit window tenant boundary does not match the adapter.'' i None None) @
         tag (sw_eventCount w \<noteq> length events)
           (finding ''AUDIT_WINDOW_EVENT_COUNT_MISMATCH'' ''Signed audit window event count no longer matches retained events.'' i
              (Some (nat_str (length events))) (Some (nat_str (sw_eventCount w)))) @
         tag (stable_stringify rt (texts_js (sw_sourceEventIds w)) \<noteq> stable_stringify rt (texts_js (map eventId events)))
           (finding ''AUDIT_WINDOW_SOURCE_EVENTS_MISMATCH''
              ''Signed audit window source event identifiers no longer match retained events.'' i None None) @
         tag (sw_firstEventHash w \<noteq> first_event_hash rt events)
           (finding ''AUDIT_WINDOW_FIRST_HASH_MISMATCH'' ''Signed audit window first event hash no longer matches retained events.'' i None None) @
         tag (sw_lastEventHash w \<noteq> last_hash rt events)
           (finding ''AUDIT_WINDOW_LAST_HASH_MISMATCH'' ''Signed audit window last event hash no longer matches retained events.'' i None None) @
         tag (sw_signatureAlgorithm w \<noteq> ws_algorithm signer)
           (finding ''AUDIT_WINDOW_SIGNATURE_ALGORITHM_MISMATCH'' ''Signed audit window algorithm does not match the configured signer.'' i
              (Some (ws_algorithm signer)) (Some (sw_signatureAlgorithm w))) @
         tag (sw_signingKeyId w \<noteq> ws_keyId signer)
           (finding ''AUDIT_WINDOW_SIGNING_KEY_MISMATCH'' ''Signed audit window key does not match the configured signer.'' i
              (Some (ws_keyId signer)) (Some (sw_signingKeyId w))) @
         tag (\<not> ws_verify signer (JObj (signature_payload w)) (sw_signatureHash w))
           (finding ''AUDIT_WINDOW_SIGNATURE_MISMATCH''
              ''Signed audit window signature hash does not match the retained window metadata.'' i None None) @
         tag (sw_recordHash w \<noteq> expectedRecordHash)
           (finding ''AUDIT_WINDOW_RECORD_HASH_MISMATCH'' ''Signed audit window envelope hash does not match the current record.'' i
              (Some expectedRecordHash) (Some (sw_recordHash w))))"

definition signed_window_findings ::
  "runtime \<Rightarrow> string \<Rightarrow> window_signer \<Rightarrow> signed_window list \<Rightarrow> audit_record list \<Rightarrow> audit_integrity_finding list" where
  "signed_window_findings rt tb signer ws rs = concat (map (one_window_findings rt tb signer rs) ws)"

definition delivery_window_findings :: "runtime \<Rightarrow> signed_window option \<Rightarrow> siem_delivery \<Rightarrow> audit_integrity_finding list" where
  "delivery_window_findings rt window d =
     (case window of
        None \<Rightarrow> [finding ''SIEM_DELIVERY_WINDOW_MISSING'' ''SIEM delivery references an unsigned audit window.'' (sd_deliveryId d) None None]
      | Some w \<Rightarrow>
          tag (stable_stringify rt (texts_js (sd_sourceEventIds d)) \<noteq> stable_stringify rt (texts_js (sw_sourceEventIds w)))
            (finding ''SIEM_DELIVERY_SOURCE_EVENTS_MISMATCH''
               ''SIEM delivery source event identifiers do not match the signed audit window.'' (sd_deliveryId d) None None) @
          tag (sd_lastEventHash d \<noteq> sw_lastEventHash w)
            (finding ''SIEM_DELIVERY_LAST_HASH_MISMATCH''
               ''SIEM delivery last event hash does not match the signed audit window.'' (sd_deliveryId d) None None))"

definition replayed_delivery :: "siem_delivery list \<Rightarrow> siem_delivery \<Rightarrow> bool" where
  "replayed_delivery ds d = list_ex (\<lambda>x. sd_replayOfDeliveryId x = Some (sd_deliveryId d) \<and> sd_status x = Delivered) ds"

definition one_delivery_findings ::
  "runtime \<Rightarrow> string \<Rightarrow> siem_delivery list \<Rightarrow> signed_window list \<Rightarrow> bool \<Rightarrow> siem_delivery \<Rightarrow> audit_integrity_finding list" where
  "one_delivery_findings rt tenantBoundary ds ws includeOperationalFailures d =
     (let i = sd_deliveryId d;
          expectedRecordHash = hash_record rt (delivery_fields d)
      in tag (sd_tenantBoundary d \<noteq> tenantBoundary)
           (finding ''SIEM_DELIVERY_TENANT_BOUNDARY_MISMATCH'' ''SIEM delivery tenant boundary does not match the adapter.'' i None None) @
         delivery_window_findings rt (find (\<lambda>w. sw_windowId w = sd_windowId d) ws) d @
         tag (includeOperationalFailures \<and> sd_status d = Delivery_failed \<and> \<not> replayed_delivery ds d)
           \<lparr>finding_code = ''SIEM_DELIVERY_FAILED'',
            finding_message = ''SIEM delivery failure is security-relevant until a replay delivery succeeds.'',
            finding_severity = Sev_high, finding_eventId = Some i, finding_expected = None,
            finding_actual = Some (coalesce (sd_error d) ''delivery failed'')\<rparr> @
         tag (sd_recordHash d \<noteq> expectedRecordHash)
           (finding ''SIEM_DELIVERY_RECORD_HASH_MISMATCH'' ''SIEM delivery envelope hash does not match the current record.'' i
              (Some expectedRecordHash) (Some (sd_recordHash d))) @
         secret_findings (''SIEM delivery '' @ i) (stored_js (delivery_fields d) (sd_recordHash d)))"

definition siem_delivery_findings ::
  "runtime \<Rightarrow> string \<Rightarrow> siem_delivery list \<Rightarrow> signed_window list \<Rightarrow> bool \<Rightarrow> audit_integrity_finding list" where
  "siem_delivery_findings rt tb ds ws operational = concat (map (one_delivery_findings rt tb ds ws operational) ds)"

text \<open>The first error of several checks.\<close>

fun first_message :: "string option list \<Rightarrow> string option" where
  "first_message [] = None"
| "first_message (None # es) = first_message es"
| "first_message (Some e # es) = Some e"

definition validate_store_state :: "runtime \<Rightarrow> audit_adapter \<Rightarrow> audit_store \<Rightarrow> string option" where
  "validate_store_state rt a st =
     first_message
      [assert_no_integrity_findings (audit_record_findings rt (aa_tenantBoundary a) (read_audit_records st))
         ''Stored production audit log integrity check failed'',
       assert_no_integrity_findings (evidence_record_findings rt (aa_tenantBoundary a) (read_evidence_records st))
         ''Stored production evidence integrity check failed'',
       assert_no_integrity_findings
         (signed_window_findings rt (aa_tenantBoundary a) (aa_signer a) (as_signedWindows st) (read_audit_records st))
         ''Stored production signed audit window integrity check failed'',
       assert_no_integrity_findings
         (siem_delivery_findings rt (aa_tenantBoundary a) (as_siemDeliveries st) (as_signedWindows st) False)
         ''Stored production SIEM delivery integrity check failed'']"

definition trusted_audit_records :: "runtime \<Rightarrow> audit_adapter \<Rightarrow> audit_store \<Rightarrow> string + audit_record list" where
  "trusted_audit_records rt a st =
     (let rs = read_audit_records st in
      case assert_no_integrity_findings (audit_record_findings rt (aa_tenantBoundary a) rs)
             ''Stored production audit log integrity check failed'' of
        Some e \<Rightarrow> Inl e | None \<Rightarrow> Inr rs)"

definition trusted_evidence_records :: "runtime \<Rightarrow> audit_adapter \<Rightarrow> audit_store \<Rightarrow> string + evidence_record list" where
  "trusted_evidence_records rt a st =
     (let rs = read_evidence_records st in
      case assert_no_integrity_findings (evidence_record_findings rt (aa_tenantBoundary a) rs)
             ''Stored production evidence integrity check failed'' of
        Some e \<Rightarrow> Inl e | None \<Rightarrow> Inr rs)"

definition verify_integrity :: "runtime \<Rightarrow> audit_adapter \<Rightarrow> string \<Rightarrow> audit_store \<Rightarrow> audit_integrity_report" where
  "verify_integrity rt a occ st =
     (let rs = read_audit_records st;
          report = verify_audit_chain rt (map ar_event rs) occ;
          found = audit_record_findings rt (aa_tenantBoundary a) rs @
            signed_window_findings rt (aa_tenantBoundary a) (aa_signer a) (as_signedWindows st) rs @
            siem_delivery_findings rt (aa_tenantBoundary a) (as_siemDeliveries st) (as_signedWindows st) True @
            findings report
      in report\<lparr>integrity_status := (if integrity_status report = Verified \<and> found = [] then Verified else Failed),
                findings := found\<rparr>)"

definition validate_backup :: "runtime \<Rightarrow> audit_adapter \<Rightarrow> audit_backup \<Rightarrow> string option" where
  "validate_backup rt a b =
     (if ab_tenantBoundary b \<noteq> aa_tenantBoundary a
      then Some (''Reference audit backup '' @ ab_id b @ '' tenant boundary does not match the adapter.'')
      else if ab_backupHash b \<noteq> hash_backup rt b
      then Some (''Reference audit backup '' @ ab_id b @ '' hash does not match the stored snapshot.'')
      else
        (let s = ab_snapshot b in
         first_message
          [assert_no_integrity_findings (audit_record_findings rt (aa_tenantBoundary a) (as_auditRecords s))
             ''Reference audit backup event integrity check failed'',
           assert_no_integrity_findings (evidence_record_findings rt (aa_tenantBoundary a) (as_evidenceRecords s))
             ''Reference audit backup evidence integrity check failed'',
           assert_no_integrity_findings
             (signed_window_findings rt (aa_tenantBoundary a) (aa_signer a) (as_signedWindows s) (as_auditRecords s))
             ''Reference audit backup signed-window integrity check failed'',
           assert_no_integrity_findings
             (siem_delivery_findings rt (aa_tenantBoundary a) (as_siemDeliveries s) (as_signedWindows s) False)
             ''Reference audit backup SIEM delivery integrity check failed'']))"

end
