(* ===== verification/Audit_Operations.thy ===== *)
theory Audit_Operations
  imports Audit_Adapter
begin

text \<open>
  The operations of the reference audit adapter: appending and listing events
  (\<open>reference-audit-log-storage.ts\<close>), retaining evidence packages
  (\<open>reference-audit-evidence-retention.ts\<close>), signing windows (\<open>reference-audit-signed-windows.ts\<close>),
  recording and replaying SIEM deliveries (\<open>reference-audit-siem.ts\<close>), backups
  (\<open>reference-audit-backups.ts\<close>), and the constructor (\<open>reference-audit.ts\<close>).
\<close>

text \<open>Running the checks of an operation in order.\<close>

definition check_then :: "string option \<Rightarrow> (string + 'a) \<times> 's \<Rightarrow> 's \<Rightarrow> (string + 'a) \<times> 's" where
  "check_then e r st = (case e of Some m \<Rightarrow> (Inl m, st) | None \<Rightarrow> r)"

subsection \<open>Events\<close>

record audit_receipt =
  rc_eventId :: canonical_id
  rc_sequence :: nat
  rc_eventHash :: string
  rc_previousEventHash :: "string option"
  rc_storedAt :: string
  rc_location :: string

definition with_audit_hash :: "runtime \<Rightarrow> audit_record \<Rightarrow> audit_record" where
  "with_audit_hash rt r = r\<lparr>ar_recordHash := hash_record rt (audit_record_fields r)\<rparr>"

definition new_audit_record :: "runtime \<Rightarrow> audit_adapter \<Rightarrow> audit_event \<Rightarrow> string \<Rightarrow> nat \<Rightarrow> audit_record" where
  "new_audit_record rt a e storedAt n =
     with_audit_hash rt
      \<lparr>ar_version = ''production-audit-event-record:v1'', ar_tenantBoundary = aa_tenantBoundary a, ar_sequence = n,
       ar_storedAt = storedAt, ar_eventHash = audit_event_hash rt e, ar_previousEventHash = previousEventHash e,
       ar_retentionPolicy = aa_retentionPolicy a, ar_event = clone_event e, ar_recordHash = []\<rparr>"

definition append_event_error :: "audit_event \<Rightarrow> audit_record list \<Rightarrow> string option" where
  "append_event_error e rs =
     (if eventId e \<in> set (map (\<lambda>r. eventId (ar_event r)) rs)
      then Some (''Audit event '' @ eventId e @ '' has already been appended.'')
      else if previousEventHash e \<noteq> (if rs = [] then None else Some (ar_eventHash (last rs)))
      then Some ''Audit event previousEventHash does not match the current production audit tail.''
      else None)"

definition append_stored_event ::
  "runtime \<Rightarrow> audit_adapter \<Rightarrow> audit_event \<Rightarrow> string \<Rightarrow> audit_store \<Rightarrow> (string + audit_receipt) \<times> audit_store" where
  "append_stored_event rt a e storedAt st =
     check_then (first_message
       [assert_no_secrets (event_js e) (''Audit event '' @ eventId e),
        assert_optional_tenant_boundary rt (payload e) (aa_tenantBoundary a) (''Audit event '' @ eventId e)])
     (case trusted_audit_records rt a st of
        Inl m \<Rightarrow> (Inl m, st)
      | Inr rs \<Rightarrow>
          check_then (append_event_error e rs)
          (let r = new_audit_record rt a e storedAt (length rs + 1) in
           case append_audit_record r st of
             Inl m \<Rightarrow> (Inl m, st)
           | Inr st' \<Rightarrow>
               (Inr \<lparr>rc_eventId = eventId e, rc_sequence = ar_sequence r, rc_eventHash = ar_eventHash r,
                     rc_previousEventHash = previousEventHash e, rc_storedAt = storedAt,
                     rc_location = aa_location a @ ''#event:'' @ nat_str (ar_sequence r)\<rparr>, st')) st) st"

definition list_stored_audit_events :: "runtime \<Rightarrow> audit_adapter \<Rightarrow> audit_store \<Rightarrow> string + audit_event list" where
  "list_stored_audit_events rt a st = map_sum id (map (clone_event \<circ> ar_event)) (trusted_audit_records rt a st)"

subsection \<open>Evidence packages\<close>

definition with_evidence_hash :: "runtime \<Rightarrow> evidence_record \<Rightarrow> evidence_record" where
  "with_evidence_hash rt r = r\<lparr>ed_recordHash := hash_record rt (evidence_record_fields r)\<rparr>"

definition new_evidence_record :: "runtime \<Rightarrow> audit_adapter \<Rightarrow> json_record \<Rightarrow> string \<Rightarrow> evidence_record" where
  "new_evidence_record rt a e storedAt =
     (let i = text_field e ''exportId'';
          receipt = \<lparr>er_exportId = i, er_packageHash = manifest_hash e, er_storedAt = storedAt,
                     er_location = aa_location a @ ''#evidence:'' @ i\<rparr>
      in with_evidence_hash rt
          \<lparr>ed_version = ''production-evidence-package-record:v1'', ed_tenantBoundary = aa_tenantBoundary a, ed_exportId = i,
           ed_storedAt = storedAt, ed_packageHash = manifest_hash e, ed_retentionPolicy = aa_retentionPolicy a,
           ed_evidence = spread (clone_record e) [(''storageReceipt'', receipt_js receipt)], ed_receipt = receipt, ed_recordHash = []\<rparr>)"

definition write_evidence_export ::
  "runtime \<Rightarrow> audit_adapter \<Rightarrow> json_record \<Rightarrow> string \<Rightarrow> audit_store \<Rightarrow> (string + evidence_receipt) \<times> audit_store" where
  "write_evidence_export rt a e storedAt st =
     check_then (assert_no_secrets (JObj e) (''Evidence package '' @ text_field e ''exportId''))
     (case trusted_evidence_records rt a st of
        Inl m \<Rightarrow> (Inl m, st)
      | Inr rs \<Rightarrow>
          if text_field e ''exportId'' \<in> set (map ed_exportId rs)
          then (Inl (''Evidence package '' @ text_field e ''exportId'' @ '' has already been retained.''), st)
          else
            (let r = new_evidence_record rt a e storedAt in
             case append_evidence_record r st of
               Inl m \<Rightarrow> (Inl m, st)
             | Inr st' \<Rightarrow> (Inr (ed_receipt r), st'))) st"

definition read_evidence_export :: "runtime \<Rightarrow> audit_adapter \<Rightarrow> string \<Rightarrow> audit_store \<Rightarrow> string + json_record option" where
  "read_evidence_export rt a i st =
     map_sum id (\<lambda>rs. map_option (clone_record \<circ> ed_evidence) (find (\<lambda>r. ed_exportId r = i) rs)) (trusted_evidence_records rt a st)"

subsection \<open>Signed windows\<close>

record window_request =
  wr_windowId :: canonical_id
  wr_periodStart :: string
  wr_periodEnd :: string
  wr_signedAt :: "string option"
  wr_signingKeyId :: "canonical_id option"

definition signed :: "runtime \<Rightarrow> window_signer \<Rightarrow> signed_window \<Rightarrow> signed_window" where
  "signed rt s w =
     (let w1 = w\<lparr>sw_signatureHash := ws_sign s (JObj (signature_payload w))\<rparr>
      in w1\<lparr>sw_recordHash := hash_record rt (window_fields w1)\<rparr>)"

definition new_window :: "runtime \<Rightarrow> audit_adapter \<Rightarrow> window_request \<Rightarrow> string \<Rightarrow> audit_event list \<Rightarrow> signed_window" where
  "new_window rt a req now events =
     signed rt (aa_signer a)
      \<lparr>sw_tenantBoundary = aa_tenantBoundary a, sw_windowId = wr_windowId req, sw_periodStart = wr_periodStart req,
       sw_periodEnd = wr_periodEnd req, sw_signedAt = coalesce (wr_signedAt req) now,
       sw_signingKeyId = coalesce (wr_signingKeyId req) (ws_keyId (aa_signer a)), sw_eventCount = length events,
       sw_sourceEventIds = map eventId events, sw_firstEventHash = first_event_hash rt events,
       sw_lastEventHash = last_hash rt events, sw_retentionPolicy = aa_retentionPolicy a,
       sw_signatureAlgorithm = ws_algorithm (aa_signer a), sw_signatureHash = [], sw_recordHash = []\<rparr>"

definition sign_audit_window ::
  "runtime \<Rightarrow> audit_adapter \<Rightarrow> window_request \<Rightarrow> string \<Rightarrow> audit_store \<Rightarrow> (string + signed_window) \<times> audit_store" where
  "sign_audit_window rt a req now st =
     (case trusted_audit_records rt a st of
        Inl m \<Rightarrow> (Inl m, st)
      | Inr rs \<Rightarrow>
          (let events = events_in (wr_periodStart req) (wr_periodEnd req) rs;
               keyId = coalesce (wr_signingKeyId req) (ws_keyId (aa_signer a))
           in if keyId \<noteq> ws_keyId (aa_signer a)
              then (Inl (''Reference audit window signer '' @ keyId @ '' is not configured for this adapter.''), st)
              else
                (let w = new_window rt a req now events in
                 case append_signed_window w st of Inl m \<Rightarrow> (Inl m, st) | Inr st' \<Rightarrow> (Inr w, st'))))"

definition list_signed_audit_windows :: "runtime \<Rightarrow> audit_adapter \<Rightarrow> audit_store \<Rightarrow> string + signed_window list" where
  "list_signed_audit_windows rt a st =
     (case assert_no_integrity_findings
             (signed_window_findings rt (aa_tenantBoundary a) (aa_signer a) (as_signedWindows st) (read_audit_records st))
             ''Reference signed audit window integrity check failed'' of
        Some m \<Rightarrow> Inl m | None \<Rightarrow> Inr (as_signedWindows st))"

subsection \<open>SIEM deliveries\<close>

record delivery_request =
  dr_windowId :: canonical_id
  dr_destination :: string
  dr_status :: delivery_status
  dr_attemptedAt :: "string option"
  dr_deliveredAt :: "string option"
  dr_error :: "string option"

definition delivery_request_js :: "delivery_request \<Rightarrow> js" where
  "delivery_request_js r = JObj
    [(''windowId'', JStr (dr_windowId r)), (''destination'', JStr (dr_destination r)), (''status'', JStr (delivery_status_text (dr_status r))),
     (''attemptedAt'', opt_str (dr_attemptedAt r)), (''deliveredAt'', opt_str (dr_deliveredAt r)), (''error'', opt_str (dr_error r))]"

definition with_delivery_hash :: "runtime \<Rightarrow> siem_delivery \<Rightarrow> siem_delivery" where
  "with_delivery_hash rt d = d\<lparr>sd_recordHash := hash_record rt (delivery_fields d)\<rparr>"

definition delivered_when :: "delivery_status \<Rightarrow> string option \<Rightarrow> string \<Rightarrow> string option" where
  "delivered_when status deliveredAt attemptedAt =
     (if status = Delivered then Some (coalesce deliveredAt attemptedAt) else deliveredAt)"

definition new_delivery :: "runtime \<Rightarrow> audit_adapter \<Rightarrow> delivery_request \<Rightarrow> string \<Rightarrow> signed_window \<Rightarrow> siem_delivery" where
  "new_delivery rt a req attemptedAt w =
     with_delivery_hash rt
      \<lparr>sd_tenantBoundary = aa_tenantBoundary a,
       sd_deliveryId = ''siem-delivery:'' @ take 24 (sha256 rt (JObj
         [(''windowId'', JStr (dr_windowId req)), (''attemptedAt'', JStr attemptedAt), (''destination'', JStr (dr_destination req))])),
       sd_windowId = dr_windowId req, sd_destination = dr_destination req, sd_status = dr_status req, sd_attemptedAt = attemptedAt,
       sd_sourceEventIds = sw_sourceEventIds w, sd_eventCount = sw_eventCount w, sd_lastEventHash = sw_lastEventHash w,
       sd_deliveredAt = delivered_when (dr_status req) (dr_deliveredAt req) attemptedAt, sd_error = dr_error req,
       sd_replayOfDeliveryId = None, sd_recordHash = []\<rparr>"

definition record_siem_delivery ::
  "runtime \<Rightarrow> audit_adapter \<Rightarrow> delivery_request \<Rightarrow> string \<Rightarrow> audit_store \<Rightarrow> (string + siem_delivery) \<times> audit_store" where
  "record_siem_delivery rt a req now st =
     (case list_signed_audit_windows rt a st of
        Inl m \<Rightarrow> (Inl m, st)
      | Inr ws \<Rightarrow>
          (case find (\<lambda>w. sw_windowId w = dr_windowId req) ws of
             None \<Rightarrow> (Inl (''Reference audit window '' @ dr_windowId req @ '' must be signed before SIEM delivery is recorded.''), st)
           | Some w \<Rightarrow>
               if dr_status req = Delivery_failed \<and> \<not> truthy (dr_error req)
               then (Inl ''Failed SIEM deliveries require an error message.'', st)
               else
                 check_then (assert_no_secrets (delivery_request_js req) (''SIEM delivery '' @ dr_windowId req))
                 (let d = new_delivery rt a req (coalesce (dr_attemptedAt req) now) w in
                  case append_siem_delivery d st of Inl m \<Rightarrow> (Inl m, st) | Inr st' \<Rightarrow> (Inr d, st')) st))"

record siem_replay =
  rq_deliveryId :: canonical_id
  rq_attemptedAt :: "string option"
  rq_destination :: "string option"
  rq_status :: "delivery_status option"
  rq_deliveredAt :: "string option"
  rq_error :: "string option"

definition siem_replay_js :: "siem_replay \<Rightarrow> js" where
  "siem_replay_js r = JObj
    [(''deliveryId'', JStr (rq_deliveryId r)), (''attemptedAt'', opt_str (rq_attemptedAt r)),
     (''destination'', opt_str (rq_destination r)), (''status'', opt_str (map_option delivery_status_text (rq_status r))),
     (''deliveredAt'', opt_str (rq_deliveredAt r)), (''error'', opt_str (rq_error r))]"

definition replay_delivery :: "runtime \<Rightarrow> audit_adapter \<Rightarrow> siem_replay \<Rightarrow> string \<Rightarrow> siem_delivery \<Rightarrow> siem_delivery" where
  "replay_delivery rt a req attemptedAt failed =
     (let status = coalesce (rq_status req) Delivered in
      with_delivery_hash rt
       \<lparr>sd_tenantBoundary = aa_tenantBoundary a,
        sd_deliveryId = ''siem-delivery:'' @ take 24 (sha256 rt (JObj
          [(''replayOfDeliveryId'', JStr (rq_deliveryId req)), (''attemptedAt'', JStr attemptedAt)])),
        sd_windowId = sd_windowId failed, sd_destination = coalesce (rq_destination req) (sd_destination failed),
        sd_status = status, sd_attemptedAt = attemptedAt, sd_sourceEventIds = sd_sourceEventIds failed,
        sd_eventCount = sd_eventCount failed, sd_lastEventHash = sd_lastEventHash failed,
        sd_deliveredAt = delivered_when status (rq_deliveredAt req) attemptedAt, sd_error = rq_error req,
        sd_replayOfDeliveryId = Some (sd_deliveryId failed), sd_recordHash = []\<rparr>)"

definition replay_siem_delivery ::
  "runtime \<Rightarrow> audit_adapter \<Rightarrow> siem_replay \<Rightarrow> string \<Rightarrow> audit_store \<Rightarrow> (string + siem_delivery) \<times> audit_store" where
  "replay_siem_delivery rt a req now st =
     (case find (\<lambda>d. sd_deliveryId d = rq_deliveryId req) (as_siemDeliveries st) of
        None \<Rightarrow> (Inl (''Reference SIEM delivery '' @ rq_deliveryId req @ '' does not exist.''), st)
      | Some failed \<Rightarrow>
          if sd_status failed \<noteq> Delivery_failed
          then (Inl (''Reference SIEM delivery '' @ rq_deliveryId req @ '' is not failed and cannot be replayed.''), st)
          else if coalesce (rq_status req) Delivered = Delivery_failed \<and> \<not> truthy (rq_error req)
          then (Inl ''Failed SIEM replay deliveries require an error message.'', st)
          else
            check_then (assert_no_secrets (siem_replay_js req) (''SIEM delivery replay '' @ rq_deliveryId req))
            (let d = replay_delivery rt a req (coalesce (rq_attemptedAt req) now) failed in
             case append_siem_delivery d st of Inl m \<Rightarrow> (Inl m, st) | Inr st' \<Rightarrow> (Inr d, st')) st)"

definition list_siem_deliveries :: "runtime \<Rightarrow> audit_adapter \<Rightarrow> audit_store \<Rightarrow> string + siem_delivery list" where
  "list_siem_deliveries rt a st =
     (case assert_no_integrity_findings
             (siem_delivery_findings rt (aa_tenantBoundary a) (as_siemDeliveries st) (as_signedWindows st) False)
             ''Reference SIEM delivery integrity check failed'' of
        Some m \<Rightarrow> Inl m | None \<Rightarrow> Inr (as_siemDeliveries st))"

subsection \<open>Backups\<close>

definition current_snapshot :: "audit_store \<Rightarrow> audit_snapshot" where
  "current_snapshot st =
    \<lparr>as_auditRecords = read_audit_records st, as_evidenceRecords = read_evidence_records st,
     as_signedWindows = as_signedWindows st, as_siemDeliveries = as_siemDeliveries st,
     as_backupMetadata = read_backup_metadata st\<rparr>"

definition audit_entity_counts :: "audit_store \<Rightarrow> json_record" where
  "audit_entity_counts st =
    [(''auditEvents'', js_nat (length (as_auditRecords st))), (''evidencePackages'', js_nat (length (as_evidenceRecords st))),
     (''signedAuditWindows'', js_nat (length (as_signedWindows st))), (''siemDeliveries'', js_nat (length (as_siemDeliveries st)))]"

definition new_backup_metadata :: "runtime \<Rightarrow> audit_adapter \<Rightarrow> canonical_id \<Rightarrow> string \<Rightarrow> audit_store \<Rightarrow> backup_metadata" where
  "new_backup_metadata rt a i created st =
    \<lparr>bm_id = i, bm_component = ''audit'', bm_createdAt = created, bm_location = aa_location a @ ''#backup:'' @ i,
     bm_snapshotHash = hash_reference rt (JObj (snapshot_fields (current_snapshot st))),
     bm_tenantBoundary = aa_tenantBoundary a, bm_entityCounts = audit_entity_counts st\<rparr>"

definition new_backup :: "runtime \<Rightarrow> audit_adapter \<Rightarrow> canonical_id \<Rightarrow> string \<Rightarrow> audit_store \<Rightarrow> audit_backup" where
  "new_backup rt a i created st =
     (let s = current_snapshot st;
          b = \<lparr>ab_version = ''production-audit-store-backup:v1'', ab_id = i, ab_tenantBoundary = aa_tenantBoundary a,
               ab_createdAt = created,
               ab_snapshot = s\<lparr>as_backupMetadata := as_backupMetadata s @ [new_backup_metadata rt a i created st]\<rparr>,
               ab_backupHash = []\<rparr>
      in b\<lparr>ab_backupHash := hash_backup rt b\<rparr>)"

definition create_audit_backup ::
  "runtime \<Rightarrow> audit_adapter \<Rightarrow> canonical_id \<Rightarrow> string \<Rightarrow> audit_store \<Rightarrow> (string + backup_metadata) \<times> audit_store" where
  "create_audit_backup rt a i created st =
     check_then (validate_store_state rt a st)
     (let b = new_backup rt a i created st in
      (Inr (new_backup_metadata rt a i created st),
       write_backup_metadata (as_backupMetadata (ab_snapshot b)) (write_stored_backup i b st))) st"

record restore_receipt =
  rr_restoredAt :: string
  rr_location :: string
  rr_tenantBoundary :: string
  rr_eventCount :: nat
  rr_evidencePackageCount :: nat
  rr_signedWindowCount :: nat
  rr_siemDeliveryCount :: nat
  rr_backupId :: canonical_id

definition restore_audit_backup ::
  "runtime \<Rightarrow> audit_adapter \<Rightarrow> canonical_id \<Rightarrow> string \<Rightarrow> audit_store \<Rightarrow> (string + restore_receipt) \<times> audit_store" where
  "restore_audit_backup rt a i restoredAt st =
     (case read_stored_backup i st of
        None \<Rightarrow> (Inl (''Reference audit backup '' @ i @ '' does not exist.''), st)
      | Some b \<Rightarrow>
          check_then (validate_backup rt a b)
          (let s = ab_snapshot b in
           (Inr \<lparr>rr_restoredAt = restoredAt, rr_location = aa_location a, rr_tenantBoundary = aa_tenantBoundary a,
                 rr_eventCount = length (as_auditRecords s), rr_evidencePackageCount = length (as_evidenceRecords s),
                 rr_signedWindowCount = length (as_signedWindows s), rr_siemDeliveryCount = length (as_siemDeliveries s),
                 rr_backupId = i\<rparr>, restore_snapshot s st)) st)"

subsection \<open>The constructor\<close>

definition audit_adapter_of :: "runtime \<Rightarrow> (string \<Rightarrow> string \<Rightarrow> string) \<Rightarrow> audit_adapter_options \<Rightarrow> audit_adapter" where
  "audit_adapter_of rt hmac o' =
    \<lparr>aa_tenantBoundary = ao_tenantBoundary o', aa_location = ao_location o',
     aa_retentionPolicy = \<lparr>rtp_policyId = coalesce (ao_retentionPolicyId o') ''retention:audit:default'',
       rtp_retentionDays = coalesce (ao_retentionDays o') 2555, rtp_legalHold = False\<rparr>,
     aa_signer = hmac_window_signer rt hmac (coalesce (ao_signingKeyId o') ''signing-key:audit-window:default'')
       (ao_signingKeyMaterial o')\<rparr>"

definition create_audit_adapter ::
  "runtime \<Rightarrow> (string \<Rightarrow> string \<Rightarrow> string) \<Rightarrow> audit_adapter_options \<Rightarrow> audit_store \<Rightarrow> string + audit_adapter" where
  "create_audit_adapter rt hmac o' st =
     (case first_message
        [if ao_tenantBoundary o' = [] then Some ''Reference audit adapters require a tenant boundary.'' else None,
         assert_no_secrets (JStr (ao_location o')) ''production audit location'',
         signing_key_error (ao_signingKeyMaterial o'),
         validate_store_state rt (audit_adapter_of rt hmac o') st] of
        Some m \<Rightarrow> Inl m
      | None \<Rightarrow> Inr (audit_adapter_of rt hmac o'))"

end
