(* ===== verification/Audit_Laws.thy ===== *)
theory Audit_Laws
  imports Audit_Operations
begin

text \<open>
  What the operations of the audit adapter do to its store: copying through JSON keeps hashes and
  brings no secret in, the checks of one record at a time, and the steps of the store.
\<close>

subsection \<open>Copies\<close>

lemma filter_defined_clone:
  "filter (\<lambda>(k, v). v \<noteq> JUndefined) (map (\<lambda>(k, v). (k, js_clone v)) fs) =
     map (\<lambda>(k, v). (k, js_clone v)) (filter (\<lambda>(k, v). v \<noteq> JUndefined) fs)"
  by (induction fs) (auto split: prod.splits)

lemma stringify_clone: "js_wf v \<Longrightarrow> stable_stringify rt (js_clone v) = stable_stringify rt v"
proof (induction v)
  case (JArr vs)
  have "map (stable_stringify rt) (map (\<lambda>v. if v = JUndefined then JNull else js_clone v) vs) = map (stable_stringify rt) vs"
    using JArr by (auto simp: list_all_iff)
  then show ?case by (simp only: js_clone.simps stable_stringify.simps)
next
  case (JObj fs)
  let ?d = "filter (\<lambda>(k, v). v \<noteq> JUndefined) fs"
  have "map (\<lambda>(k, v). (k, stable_stringify rt v)) (map (\<lambda>(k, v). (k, js_clone v)) ?d) = map (\<lambda>(k, v). (k, stable_stringify rt v)) ?d"
    using JObj by (auto simp: list_all_iff)
  then show ?case by (simp only: js_clone.simps stable_stringify.simps filter_defined_clone filter_filter conj_absorb)
qed simp_all

lemma stringify_defined:
  "stable_stringify rt (JObj (filter (\<lambda>(k, v). v \<noteq> JUndefined) fs)) = stable_stringify rt (JObj fs)"
  by (simp only: stable_stringify.simps filter_filter) (simp add: case_prod_unfold)

lemma clone_opt_str [simp]: "js_clone (opt_str s) = opt_str s"
  by (simp add: opt_str_def split: option.split)

lemma clone_event_hash:
  assumes "js_wf (JObj (payload e))"
  shows "audit_event_hash rt (clone_event e) = audit_event_hash rt e"
proof -
  have "js_clone (event_js e) = JObj (filter (\<lambda>(k, v). v \<noteq> JUndefined) (event_fields (clone_event e)))"
    by (simp add: event_js_def event_fields_def clone_event_def clone_record_def)
  then have "stable_stringify rt (event_js (clone_event e)) = stable_stringify rt (js_clone (event_js e))"
    by (simp only: stringify_defined) (simp add: event_js_def)
  with assms show ?thesis
    by (simp add: audit_event_hash_def hash_reference_def sha256_def stringify_clone event_js_wf)
qed

lemma clone_idem [simp]:
  "clone_event (clone_event e) = clone_event e"
  "clone_audit_record (clone_audit_record r) = clone_audit_record r"
  "clone_evidence_record (clone_evidence_record d) = clone_evidence_record d"
  by (simp_all add: clone_event_def clone_audit_record_def clone_evidence_record_def)

lemma clone_event_simps [simp]:
  "eventId (clone_event e) = eventId e" "previousEventHash (clone_event e) = previousEventHash e"
  "occurredAt (clone_event e) = occurredAt e" "payloadHash (clone_event e) = payloadHash e"
  by (simp_all add: clone_event_def)

lemma clone_metadata_idem [simp]: "clone_backup (clone_backup b) = clone_backup b"
  by (simp add: clone_backup_def)

lemma clone_snapshot_idem [simp]: "clone_snapshot (clone_snapshot s) = clone_snapshot s"
  by (simp add: clone_snapshot_def comp_def)

subsection \<open>Secrets\<close>

fun js_strings :: "js \<Rightarrow> string set" where
  "js_strings (JStr s) = {s}"
| "js_strings (JArr vs) = (\<Union>v \<in> set vs. js_strings v)"
| "js_strings (JObj fs) = (\<Union>(k, v) \<in> set fs. js_strings v)"
| "js_strings _ = {}"

definition free_of_secrets :: "js \<Rightarrow> bool" where
  "free_of_secrets v \<longleftrightarrow> (\<forall>k \<in> field_names v. \<not> is_secret_material_sensitive_key k) \<and> (\<forall>s \<in> js_strings v. \<not> is_sensitive_string s)"

lemma secret_findings_iff:
  "secret_findings path v = [] \<longleftrightarrow> free_of_secrets v"
  "secret_findings_items path i vs = [] \<longleftrightarrow> (\<forall>v \<in> set vs. free_of_secrets v)"
  "secret_findings_fields path fs = [] \<longleftrightarrow> (\<forall>(k, v) \<in> set fs. \<not> is_secret_material_sensitive_key k \<and> free_of_secrets v)"
  by (induction path v and path i vs and path fs rule: secret_findings_secret_findings_items_secret_findings_fields.induct)
    (auto simp: free_of_secrets_def Let_def)

lemma js_strings_clone: "js_strings (js_clone v) \<subseteq> js_strings v"
  by (induction v rule: js_clone.induct) (fastforce split: if_splits)+

lemma secret_free_clone: "free_of_secrets v \<Longrightarrow> free_of_secrets (js_clone v)"
  using field_names_clone [of v] js_strings_clone [of v] by (auto simp: free_of_secrets_def)

lemma assert_no_secrets_None [simp]: "assert_no_secrets v path = None \<longleftrightarrow> free_of_secrets v"
  using secret_findings_iff(1) [of path v] by (auto simp: assert_no_secrets_def split: list.split)

lemma secret_free_obj: "free_of_secrets (JObj fs) \<longleftrightarrow> (\<forall>(k, v) \<in> set fs. \<not> is_secret_material_sensitive_key k \<and> free_of_secrets v)"
  by (auto simp: free_of_secrets_def)

lemma clone_record_js: "JObj (clone_record fs) = js_clone (JObj fs)"
  by (simp add: clone_record_def)

lemma secret_free_event: "free_of_secrets (event_js e) \<Longrightarrow> free_of_secrets (event_js (clone_event e))"
  unfolding event_js_def secret_free_obj [of "event_fields _"]
  by (simp add: event_fields_def clone_event_def clone_record_js secret_free_clone del: js_clone.simps)

text \<open>Nothing shorter than \<open>token=\<close> is a secret.\<close>

lemma short_not_sensitive:
  assumes "length s < 6"
  shows "\<not> is_sensitive_string s"
proof -
  have "6 \<le> rx_least bearer_or_basic" "6 \<le> rx_least named_secret" "6 \<le> rx_least vendor_key" "6 \<le> rx_least web_token"
    "6 \<le> rx_least private_key"
    by (simp_all add: bearer_or_basic_def named_secret_def vendor_key_def web_token_def private_key_def at_least_def maybe_def
        spaces_def sensitive_names_def separated_def Let_def)
  with assms rx_test_least [of _ s] show ?thesis unfolding is_sensitive_string_def by (meson le_trans not_le)
qed

lemma assert_no_integrity_findings_None [simp]: "assert_no_integrity_findings fs label = None \<longleftrightarrow> fs = []"
  by (auto simp: assert_no_integrity_findings_def split: list.split)

lemma first_message_None [simp]: "first_message es = None \<longleftrightarrow> (\<forall>e \<in> set es. e = None)"
  by (induction es rule: first_message.induct) auto

lemma check_then_Inr [simp]: "check_then e r st = (Inr x, st') \<longleftrightarrow> e = None \<and> r = (Inr x, st')"
  by (auto simp: check_then_def split: option.split)

subsection \<open>Records that pass\<close>

definition audit_record_ok :: "runtime \<Rightarrow> string \<Rightarrow> nat \<Rightarrow> audit_record \<Rightarrow> bool" where
  "audit_record_ok rt tb n r \<longleftrightarrow> ar_version r = ''production-audit-event-record:v1'' \<and> ar_tenantBoundary r = tb \<and> ar_sequence r = n \<and>
     ar_eventHash r = audit_event_hash rt (ar_event r) \<and> ar_previousEventHash r = previousEventHash (ar_event r) \<and>
     ar_recordHash r = hash_record rt (audit_record_fields r) \<and> free_of_secrets (event_js (ar_event r))"

lemma tag_Nil [simp]: "tag b f = [] \<longleftrightarrow> \<not> b"
  by (simp add: tag_def)

lemma one_record_Nil: "one_record_findings rt tb n seen r = [] \<longleftrightarrow> eventId (ar_event r) \<notin> set seen \<and> audit_record_ok rt tb n r"
  by (auto simp: one_record_findings_def Let_def audit_record_ok_def secret_findings_iff)

lemma audit_findings_Nil:
  "audit_findings_from rt tb n seen rs = [] \<longleftrightarrow>
     distinct (map (\<lambda>r. eventId (ar_event r)) rs) \<and> (\<forall>r \<in> set rs. eventId (ar_event r) \<notin> set seen) \<and>
     (\<forall>i < length rs. audit_record_ok rt tb (Suc (n + i)) (rs ! i))"
proof (induction rs arbitrary: n seen)
  case (Cons r rs)
  show ?case
    by (simp add: Cons.IH one_record_Nil All_less_Suc2 set_set_add) (fastforce simp: image_iff)
qed simp

lemma audit_record_findings_Nil:
  "audit_record_findings rt tb rs = [] \<longleftrightarrow>
     distinct (map (\<lambda>r. eventId (ar_event r)) rs) \<and> (\<forall>i < length rs. audit_record_ok rt tb (Suc i) (rs ! i))"
  by (simp add: audit_record_findings_def audit_findings_Nil)

lemma audit_record_findings_snoc:
  "audit_record_findings rt tb (rs @ [r]) = [] \<longleftrightarrow>
     audit_record_findings rt tb rs = [] \<and> eventId (ar_event r) \<notin> set (map (\<lambda>r. eventId (ar_event r)) rs) \<and>
     audit_record_ok rt tb (Suc (length rs)) r"
  by (auto simp: audit_record_findings_Nil nth_append All_less_Suc)

subsection \<open>Linked events\<close>

text \<open>The condition of the chain without the hashes of the payloads, which appending does not check.\<close>

fun linked_from :: "runtime \<Rightarrow> string option \<Rightarrow> audit_event list \<Rightarrow> bool" where
  "linked_from rt h [] = True"
| "linked_from rt h (e # es) = (previousEventHash e = h \<and> linked_from rt (Some (audit_event_hash rt e)) es)"

lemma chained_from_linked:
  "chained_from rt h es \<longleftrightarrow> linked_from rt h es \<and> (\<forall>e \<in> set es. payloadHash e = audit_payload_hash rt (payload e))"
  by (induction es arbitrary: h) auto

lemma linked_from_snoc:
  "linked_from rt h (es @ [e]) \<longleftrightarrow>
     linked_from rt h es \<and> previousEventHash e = (if es = [] then h else Some (audit_event_hash rt (last es)))"
  by (induction es arbitrary: h) auto


subsection \<open>Steps of the store\<close>

text \<open>
  Everything that is appended comes from JSON: an array has no absent element. The receipt of an
  evidence package, made of the time and the location, is to look like no secret either.
\<close>

inductive audit_write :: "runtime \<Rightarrow> audit_adapter \<Rightarrow> audit_store \<Rightarrow> audit_store \<Rightarrow> bool" for rt a where
  append: "js_wf (JObj (payload e)) \<Longrightarrow> audit_write rt a st (snd (append_stored_event rt a e storedAt st))"
| evidence: "js_wf (JObj e) \<Longrightarrow> free_of_secrets (receipt_js (ed_receipt (new_evidence_record rt a e storedAt))) \<Longrightarrow>
    audit_write rt a st (snd (write_evidence_export rt a e storedAt st))"
| sign: "audit_write rt a st (snd (sign_audit_window rt a wreq now st))"
| deliver: "audit_write rt a st (snd (record_siem_delivery rt a dreq now st))"
| replay: "audit_write rt a st (snd (replay_siem_delivery rt a rreq now st))"
| backup: "audit_write rt a st (snd (create_audit_backup rt a i created st))"

inductive audit_step :: "runtime \<Rightarrow> audit_adapter \<Rightarrow> audit_store \<Rightarrow> audit_store \<Rightarrow> bool" for rt a where
  written: "audit_write rt a st st' \<Longrightarrow> audit_step rt a st st'"
| restore: "audit_step rt a st (snd (restore_audit_backup rt a i restoredAt st))"

text \<open>An operation that appends either throws and changes nothing, or adds one record.\<close>

lemma appended_event:
  obtains (refused) m where "append_stored_event rt a e storedAt st = (Inl m, st)"
  | (appended) rc where "append_stored_event rt a e storedAt st =
        (Inr rc, st\<lparr>as_auditRecords := as_auditRecords st @
           [clone_audit_record (new_audit_record rt a e storedAt (length (as_auditRecords st) + 1))]\<rparr>)"
      "free_of_secrets (event_js e)" "append_event_error e (read_audit_records st) = None"
      "audit_record_findings rt (aa_tenantBoundary a) (read_audit_records st) = []"
proof (cases "append_stored_event rt a e storedAt st")
  case (Pair r st')
  then show ?thesis
    using refused appended
    by (auto simp: append_stored_event_def check_then_def trusted_audit_records_def append_audit_record_def Let_def read_audit_records_def
        split: option.splits sum.splits if_splits)
qed

lemma written_evidence:
  obtains (refused) m where "write_evidence_export rt a e storedAt st = (Inl m, st)"
  | (appended) rc where "write_evidence_export rt a e storedAt st =
        (Inr rc, st\<lparr>as_evidenceRecords := as_evidenceRecords st @ [clone_evidence_record (new_evidence_record rt a e storedAt)]\<rparr>)"
      "free_of_secrets (JObj e)" "evidence_record_findings rt (aa_tenantBoundary a) (read_evidence_records st) = []"
proof (cases "write_evidence_export rt a e storedAt st")
  case (Pair r st')
  then show ?thesis
    using refused appended
    by (auto simp: write_evidence_export_def check_then_def trusted_evidence_records_def append_evidence_record_def Let_def
        split: option.splits sum.splits if_splits)
qed

lemma signed_window_added:
  obtains (refused) m where "sign_audit_window rt a req now st = (Inl m, st)"
  | (added) w where "sign_audit_window rt a req now st = (Inr w, st\<lparr>as_signedWindows := as_signedWindows st @ [w]\<rparr>)"
      "w = new_window rt a req now (events_in (wr_periodStart req) (wr_periodEnd req) (read_audit_records st))"
      "coalesce (wr_signingKeyId req) (ws_keyId (aa_signer a)) = ws_keyId (aa_signer a)"
proof (cases "sign_audit_window rt a req now st")
  case (Pair r st')
  then show ?thesis
    using refused added
    by (auto simp: sign_audit_window_def trusted_audit_records_def append_signed_window_def Let_def
        split: option.splits sum.splits if_splits)
qed

lemma delivery_added:
  obtains (refused) m where "record_siem_delivery rt a req now st = (Inl m, st)"
  | (added) d where "record_siem_delivery rt a req now st = (Inr d, st\<lparr>as_siemDeliveries := as_siemDeliveries st @ [d]\<rparr>)"
proof (cases "record_siem_delivery rt a req now st")
  case (Pair r st')
  then show ?thesis
    using refused added
    by (auto simp: record_siem_delivery_def check_then_def append_siem_delivery_def Let_def
        split: option.splits sum.splits if_splits)
qed

lemma replay_added:
  obtains (refused) m where "replay_siem_delivery rt a req now st = (Inl m, st)"
  | (added) d where "replay_siem_delivery rt a req now st = (Inr d, st\<lparr>as_siemDeliveries := as_siemDeliveries st @ [d]\<rparr>)"
proof (cases "replay_siem_delivery rt a req now st")
  case (Pair r st')
  then show ?thesis
    using refused added
    by (auto simp: replay_siem_delivery_def check_then_def append_siem_delivery_def Let_def
        split: option.splits sum.splits if_splits)
qed

lemma backup_written:
  obtains (refused) m where "create_audit_backup rt a i created st = (Inl m, st)"
  | (written) b where "b = new_backup rt a i created st" "validate_store_state rt a st = None"
      "create_audit_backup rt a i created st = (Inr (new_backup_metadata rt a i created st),
         write_backup_metadata (as_backupMetadata (ab_snapshot b)) (write_stored_backup i b st))"
  by (cases "validate_store_state rt a st") (auto simp: create_audit_backup_def check_then_def Let_def)

text \<open>Writing only adds to what is stored.\<close>

definition extends_store :: "audit_store \<Rightarrow> audit_store \<Rightarrow> bool" where
  "extends_store st st' \<longleftrightarrow> (\<exists>rs ws. as_auditRecords st' = as_auditRecords st @ rs \<and> as_signedWindows st' = as_signedWindows st @ ws)"

lemma write_extends: "audit_write rt a st st' \<Longrightarrow> extends_store st st'"
proof (induction rule: audit_write.induct)
  case (append e st storedAt)
  show ?case by (cases rule: appended_event [of rt a e storedAt st]) (auto simp: extends_store_def)
next
  case (evidence e storedAt st)
  show ?case by (cases rule: written_evidence [of rt a e storedAt st]) (auto simp: extends_store_def)
next
  case (sign st wreq now)
  show ?case by (cases rule: signed_window_added [of rt a wreq now st]) (auto simp: extends_store_def)
next
  case (deliver st dreq now)
  show ?case by (cases rule: delivery_added [of rt a dreq now st]) (auto simp: extends_store_def)
next
  case (replay st rreq now)
  show ?case by (cases rule: replay_added [of rt a rreq now st]) (auto simp: extends_store_def)
next
  case (backup st i created)
  show ?case
    by (cases rule: backup_written [of rt a i created st])
      (auto simp: extends_store_def write_backup_metadata_def write_stored_backup_def)
qed

lemma writes_extend: "(audit_write rt a)\<^sup>*\<^sup>* st st' \<Longrightarrow> extends_store st st'"
  by (induction rule: rtranclp_induct) (force simp: extends_store_def dest!: write_extends)+

end
