(* ===== verification/Audit_Properties.thy ===== *)
theory Audit_Properties
  imports Audit_Laws
begin

text \<open>
  What the reference audit log promises: whatever is appended, signed, delivered, backed up and
  restored, the stored log stays trusted and linked; what its verification means; what a signed
  window detects, and what a late event does to it; and that a restored backup is what was saved.
\<close>

subsection \<open>The stored log stays trusted\<close>

definition snapshot_ok :: "runtime \<Rightarrow> audit_adapter \<Rightarrow> 'a audit_snapshot_scheme \<Rightarrow> bool" where
  "snapshot_ok rt a s \<longleftrightarrow>
     map clone_audit_record (as_auditRecords s) = as_auditRecords s \<and>
     map clone_evidence_record (as_evidenceRecords s) = as_evidenceRecords s \<and>
     audit_record_findings rt (aa_tenantBoundary a) (as_auditRecords s) = [] \<and>
     evidence_record_findings rt (aa_tenantBoundary a) (as_evidenceRecords s) = [] \<and>
     linked_from rt None (map ar_event (as_auditRecords s))"

definition audit_store_inv :: "runtime \<Rightarrow> audit_adapter \<Rightarrow> audit_store \<Rightarrow> bool" where
  "audit_store_inv rt a st \<longleftrightarrow> snapshot_ok rt a st \<and> (\<forall>b \<in> set (map_values (as_backups st)). snapshot_ok rt a (ab_snapshot b))"

lemma snapshot_reads:
  "snapshot_ok rt a st \<Longrightarrow> read_audit_records st = as_auditRecords st \<and> read_evidence_records st = as_evidenceRecords st"
  by (simp add: snapshot_ok_def read_audit_records_def read_evidence_records_def)

lemma event_hash_of_record: "ar_event (new_audit_record rt a e t n) = clone_event e"
  by (simp add: new_audit_record_def with_audit_hash_def)

lemma clone_new_record [simp]: "clone_audit_record (new_audit_record rt a e t n) = new_audit_record rt a e t n"
  by (simp add: clone_audit_record_def new_audit_record_def with_audit_hash_def)

lemma new_audit_record_ok:
  assumes "js_wf (JObj (payload e))" "free_of_secrets (event_js e)"
  shows "audit_record_ok rt (aa_tenantBoundary a) n (new_audit_record rt a e t n)"
  using assms clone_event_hash [of e rt] secret_free_event [of e]
  by (simp add: audit_record_ok_def new_audit_record_def with_audit_hash_def audit_record_fields_def)

lemma appended_ok:
  assumes "audit_store_inv rt a st" "js_wf (JObj (payload e))"
  shows "audit_store_inv rt a (snd (append_stored_event rt a e t st))"
proof (cases rule: appended_event [of rt a e t st])
  case (refused m)
  with assms show ?thesis by simp
next
  case (appended rc)
  let ?rs = "as_auditRecords st" and ?r = "new_audit_record rt a e t (length (as_auditRecords st) + 1)"
  from assms have ok: "snapshot_ok rt a st" by (simp add: audit_store_inv_def)
  note reads = snapshot_reads [OF ok]
  from appended(3) reads have fresh: "eventId e \<notin> set (map (\<lambda>r. eventId (ar_event r)) ?rs)"
    and tail: "previousEventHash e = (if ?rs = [] then None else Some (ar_eventHash (last ?rs)))"
    by (auto simp: append_event_error_def split: if_splits)
  have "audit_record_findings rt (aa_tenantBoundary a) (?rs @ [?r]) = []"
    using ok fresh new_audit_record_ok [OF assms(2) appended(2)]
    by (simp add: audit_record_findings_snoc snapshot_ok_def event_hash_of_record)
  moreover have "linked_from rt None (map ar_event (?rs @ [?r]))"
  proof (cases "?rs = []")
    case True
    with tail show ?thesis by (simp add: event_hash_of_record)
  next
    case False
    from ok have "\<forall>i < length ?rs. audit_record_ok rt (aa_tenantBoundary a) (Suc i) (?rs ! i)"
      by (simp add: snapshot_ok_def audit_record_findings_Nil)
    from this [rule_format, of "length ?rs - 1"] have "ar_eventHash (last ?rs) = audit_event_hash rt (ar_event (last ?rs))"
      using False by (simp add: audit_record_ok_def last_conv_nth)
    with tail False ok show ?thesis
      by (simp add: linked_from_snoc event_hash_of_record last_map snapshot_ok_def)
  qed
  ultimately show ?thesis
    using assms appended(1) by (simp add: audit_store_inv_def snapshot_ok_def)
qed

lemma payload_field_clone:
  "distinct (map fst fs) \<Longrightarrow> payload_field (clone_record fs) k = js_clone (payload_field fs k)"
  by (induction fs) (auto simp: payload_field_def clone_record_def map_of_eq_None_iff [THEN iffD2] split: option.splits)

lemma clone_defined_set:
  "\<forall>(k, v) \<in> set fs. v \<noteq> JUndefined \<Longrightarrow> v \<noteq> JUndefined \<Longrightarrow> clone_record (map_set k v fs) = map_set k (js_clone v) (clone_record fs)"
  by (induction fs) (auto simp: clone_record_def)


lemma receipt_js_clone [simp]: "js_clone (receipt_js r) = receipt_js r"
  by (simp add: receipt_js_def)

lemma receipt_js_defined [simp]: "receipt_js r \<noteq> JUndefined"
  by (simp add: receipt_js_def)

lemma clone_record_defined: "\<forall>(k, v) \<in> set (clone_record fs). v \<noteq> JUndefined"
  by (auto simp: clone_record_def)

definition retained :: "json_record \<Rightarrow> evidence_receipt \<Rightarrow> json_record" where
  "retained e r = map_set ''storageReceipt'' (receipt_js r) (clone_record e)"

lemma ed_evidence_new: "ed_evidence (new_evidence_record rt a e t) = retained e (ed_receipt (new_evidence_record rt a e t))"
  by (simp add: new_evidence_record_def with_evidence_hash_def Let_def retained_def spread_def)

lemma clone_retained [simp]: "clone_record (retained e r) = retained e r"
  using clone_defined_set [OF clone_record_defined, of "receipt_js r" ] by (simp add: retained_def)

lemma text_field_clone: "distinct (map fst fs) \<Longrightarrow> text_field (clone_record fs) k = text_field fs k"
  by (cases "payload_field fs k") (simp_all add: text_field_def payload_field_clone)

lemma payload_field_wf:
  assumes "js_wf (JObj e)" "payload_field e k = JObj fs"
  shows "distinct (map fst fs)"
proof -
  from assms(2) have "(k, JObj fs) \<in> set e" by (cases "map_get e k") (auto simp: payload_field_def dest: map_of_SomeD)
  with assms(1) show ?thesis by (auto simp: list_all_iff)
qed

lemma retained_fields:
  assumes "js_wf (JObj e)"
  shows "manifest_hash (retained e r) = manifest_hash e" "receipt_hash (retained e r) = Some (er_packageHash r)"
proof -
  have "payload_field (retained e r) ''integrityManifest'' = js_clone (payload_field e ''integrityManifest'')"
    using payload_field_clone [of e "''integrityManifest''"] assms by (simp add: retained_def payload_field_def)
  then show "manifest_hash (retained e r) = manifest_hash e"
    using payload_field_wf [OF assms] text_field_clone
    by (cases "payload_field e ''integrityManifest''")
      (simp_all add: manifest_hash_def object_field_opt_def clone_record_def [symmetric])
  show "receipt_hash (retained e r) = Some (er_packageHash r)"
    by (simp add: receipt_hash_def retained_def object_field_opt_def payload_field_def receipt_js_def text_field_opt_def)
qed

lemma set_map_set: "set (map_set k v fs) \<subseteq> insert (k, v) (set fs)"
  by (induction fs) auto

lemma secret_free_retained:
  assumes "free_of_secrets (JObj e)" "free_of_secrets (receipt_js r)"
  shows "free_of_secrets (JObj (retained e r))"
proof -
  have "free_of_secrets (JObj (clone_record e))"
    using secret_free_clone [OF assms(1)] by (simp add: clone_record_js)
  moreover have "\<not> is_secret_material_sensitive_key ''storageReceipt''" by code_simp
  ultimately show ?thesis
    using assms(2) set_map_set [of "''storageReceipt''" "receipt_js r" "clone_record e"]
    by (auto simp: secret_free_obj retained_def)
qed

lemma clone_new_evidence [simp]: "clone_evidence_record (new_evidence_record rt a e t) = new_evidence_record rt a e t"
  using clone_retained [of e "ed_receipt (new_evidence_record rt a e t)"]
  by (simp add: clone_evidence_record_def flip: ed_evidence_new)

lemma new_evidence_ok:
  assumes "js_wf (JObj e)" "free_of_secrets (JObj e)" "free_of_secrets (receipt_js (ed_receipt (new_evidence_record rt a e t)))"
  shows "one_evidence_findings rt (aa_tenantBoundary a) (new_evidence_record rt a e t) = []"
proof -
  let ?r = "new_evidence_record rt a e t"
  have "ed_evidence ?r = retained e (ed_receipt ?r)" by (rule ed_evidence_new)
  moreover have "ed_packageHash ?r = manifest_hash e" "er_packageHash (ed_receipt ?r) = manifest_hash e"
    "ed_version ?r = ''production-evidence-package-record:v1''" "ed_tenantBoundary ?r = aa_tenantBoundary a"
    "ed_recordHash ?r = hash_record rt (evidence_record_fields ?r)"
    by (simp_all add: new_evidence_record_def with_evidence_hash_def Let_def evidence_record_fields_def)
  ultimately show ?thesis
    using retained_fields [OF assms(1)] secret_free_retained [OF assms(2,3)]
    by (simp add: one_evidence_findings_def Let_def secret_findings_iff del: secret_findings.simps)
qed

lemma evidence_ok:
  assumes "audit_store_inv rt a st" "js_wf (JObj e)" "free_of_secrets (receipt_js (ed_receipt (new_evidence_record rt a e t)))"
  shows "audit_store_inv rt a (snd (write_evidence_export rt a e t st))"
proof (cases rule: written_evidence [of rt a e t st])
  case (appended rc)
  with assms new_evidence_ok [OF assms(2) appended(2) assms(3)] show ?thesis
    by (simp add: audit_store_inv_def snapshot_ok_def evidence_record_findings_def)
qed (use assms in simp)

lemma current_snapshot_ok: "audit_store_inv rt a st \<Longrightarrow> snapshot_ok rt a (current_snapshot st)"
  by (simp add: audit_store_inv_def snapshot_ok_def current_snapshot_def read_audit_records_def read_evidence_records_def)

lemma backup_ok:
  assumes "audit_store_inv rt a st"
  shows "audit_store_inv rt a (snd (create_audit_backup rt a i created st))"
proof (cases rule: backup_written [of rt a i created st])
  case (written b)
  have "snapshot_ok rt a (ab_snapshot (clone_audit_backup b))"
    using current_snapshot_ok [OF assms]
    by (simp add: written(1) new_backup_def Let_def clone_audit_backup_def clone_snapshot_def snapshot_ok_def)
  with written assms set_map_set [of i "clone_audit_backup b" "as_backups st"] show ?thesis
    by (fastforce simp: audit_store_inv_def snapshot_ok_def write_backup_metadata_def write_stored_backup_def)
qed (use assms in simp)

lemma restored_ok:
  assumes "audit_store_inv rt a st"
  shows "audit_store_inv rt a (snd (restore_audit_backup rt a i t st))"
proof (cases "read_stored_backup i st")
  case None
  with assms show ?thesis by (simp add: restore_audit_backup_def)
next
  case (Some b)
  then obtain b0 where b0: "map_get (as_backups st) i = Some b0" "b = clone_audit_backup b0"
    by (auto simp: read_stored_backup_def)
  with assms map_get_mem [OF b0(1)] have ok: "snapshot_ok rt a (ab_snapshot b0)" by (auto simp: audit_store_inv_def)
  then have "snapshot_ok rt a (restore_snapshot (ab_snapshot b) st)"
    by (simp add: b0(2) restore_snapshot_def clone_audit_backup_def audit_snapshot.defs snapshot_ok_def clone_snapshot_def)
  moreover have "as_backups (restore_snapshot (ab_snapshot b) st) = as_backups st"
    by (simp add: restore_snapshot_def audit_snapshot.defs)
  ultimately show ?thesis
    using assms Some by (auto simp: restore_audit_backup_def check_then_def Let_def audit_store_inv_def split: option.split)
qed

lemma write_ok: "audit_write rt a st st' \<Longrightarrow> audit_store_inv rt a st \<Longrightarrow> audit_store_inv rt a st'"
proof (induction rule: audit_write.induct)
  case (sign st wreq now)
  then show ?case
    by (cases rule: signed_window_added [of rt a wreq now st]) (auto simp: audit_store_inv_def snapshot_ok_def)
next
  case (deliver st dreq now)
  then show ?case by (cases rule: delivery_added [of rt a dreq now st]) (auto simp: audit_store_inv_def snapshot_ok_def)
next
  case (replay st rreq now)
  then show ?case by (cases rule: replay_added [of rt a rreq now st]) (auto simp: audit_store_inv_def snapshot_ok_def)
qed (auto intro: appended_ok evidence_ok backup_ok)

lemma reachable_ok:
  assumes "(audit_step rt a)\<^sup>*\<^sup>* empty_audit_store st"
  shows "audit_store_inv rt a st"
  using assms
proof (induction rule: rtranclp_induct)
  case base
  show ?case
    by (simp add: audit_store_inv_def snapshot_ok_def empty_audit_store_def audit_record_findings_def evidence_record_findings_def)
next
  case (step st st')
  from step(2,3) show ?case by cases (auto intro: write_ok restored_ok)
qed


subsection \<open>A sample log\<close>

definition sample_audit_options :: audit_adapter_options where
  "sample_audit_options = \<lparr>ao_tenantBoundary = ''t'', ao_location = ''store'', ao_retentionDays = None, ao_retentionPolicyId = None,
     ao_signingKeyId = None, ao_signingKeyMaterial = ''kkkkkkkkkkkkkkkkkkkkkkkkkkkkkkkkkkkk''\<rparr>"

definition sample_audit_adapter :: audit_adapter where
  "sample_audit_adapter = audit_adapter_of sample_runtime (\<lambda>k m. m) sample_audit_options"

definition sample_audit_event :: audit_event where
  "sample_audit_event = \<lparr>eventId = ''e'', eventType = ''x'', occurredAt = ''b'', actor = ''a'', event_subjectId = None,
     event_resourceId = None, correlationId = ''c'', event_policyVersion = None, event_relationshipVersion = None,
     payloadHash = ''h'', previousEventHash = None, payload = []\<rparr>"

definition sample_window_request :: window_request where
  "sample_window_request = \<lparr>wr_windowId = ''w'', wr_periodStart = ''a'', wr_periodEnd = ''c'', wr_signedAt = None, wr_signingKeyId = None\<rparr>"

definition sample_signed :: audit_store where
  "sample_signed = snd (sign_audit_window sample_runtime sample_audit_adapter sample_window_request ''now'' empty_audit_store)"

definition sample_late :: audit_store where
  "sample_late = snd (append_stored_event sample_runtime sample_audit_adapter sample_audit_event ''now'' sample_signed)"

lemma sample_sign:
  "sign_audit_window sample_runtime sample_audit_adapter sample_window_request ''now'' empty_audit_store =
     (Inr (new_window sample_runtime sample_audit_adapter sample_window_request ''now'' []), sample_signed)"
  "as_auditRecords sample_signed = []"
  by (simp_all add: sample_signed_def sign_audit_window_def empty_audit_store_def trusted_audit_records_def read_audit_records_def Let_def
      audit_record_findings_def assert_no_integrity_findings_def append_signed_window_def events_in_def sample_window_request_def)

lemma payload_sample: "payload sample_audit_event = []" and previous_sample: "previousEventHash sample_audit_event = None"
  by (simp_all add: sample_audit_event_def)

lemma sample_append:
  assumes "as_auditRecords st = []"
  shows "\<exists>rc. append_stored_event sample_runtime sample_audit_adapter sample_audit_event ''now'' st =
    (Inr rc, st\<lparr>as_auditRecords := [new_audit_record sample_runtime sample_audit_adapter sample_audit_event ''now'' 1]\<rparr>)"
proof -
  have free: "free_of_secrets (event_js sample_audit_event)"
    using short_not_sensitive
    by (simp add: event_js_def event_fields_def sample_audit_event_def free_of_secrets_def opt_str_def) code_simp
  have none: "assert_no_secrets (event_js sample_audit_event) l = None" "assert_no_integrity_findings [] l = None" for l
    using free by simp_all
  show ?thesis
    using assms
    by (simp add: none append_stored_event_def check_then_def assert_optional_tenant_boundary_def payload_field_def
        trusted_audit_records_def read_audit_records_def Let_def audit_record_findings_def append_event_error_def append_audit_record_def
        payload_sample previous_sample)
qed

lemma sample_late_records:
  "as_auditRecords sample_late = [new_audit_record sample_runtime sample_audit_adapter sample_audit_event ''now'' 1]"
  using sample_append [OF sample_sign(2)] by (auto simp: sample_late_def)

lemma sample_log_steps:
  "audit_write sample_runtime sample_audit_adapter empty_audit_store sample_signed"
  "audit_write sample_runtime sample_audit_adapter sample_signed sample_late"
  unfolding sample_signed_def sample_late_def
  by (rule audit_write.sign, rule audit_write.append) (simp add: sample_audit_event_def)

lemma sample_writes: "(audit_write sample_runtime sample_audit_adapter)\<^sup>*\<^sup>* sample_signed sample_late"
  using sample_log_steps(2) by (rule r_into_rtranclp)

lemma sample_reached: "(audit_step sample_runtime sample_audit_adapter)\<^sup>*\<^sup>* empty_audit_store sample_late"
  using sample_log_steps by (meson audit_step.written rtranclp.rtrancl_refl rtranclp.rtrancl_into_rtrancl)

subsection \<open>The log\<close>

text \<open>
  C30: whatever is appended, retained, signed, delivered, backed up and restored, in any order and with
  whatever outcome, the stored audit log passes its own checks: it can be listed, every event in it
  names the hash of the one before, and no event is in it twice; the evidence packages pass theirs.
\<close>
theorem stored_audit_log_stays_trusted:
  assumes "(audit_step rt a)\<^sup>*\<^sup>* empty_audit_store st"
  shows "list_stored_audit_events rt a st = Inr (map ar_event (as_auditRecords st)) \<and>
    linked_from rt None (map ar_event (as_auditRecords st)) \<and> distinct (map eventId (map ar_event (as_auditRecords st))) \<and>
    trusted_evidence_records rt a st = Inr (as_evidenceRecords st)"
proof -
  have ok: "snapshot_ok rt a st" using reachable_ok [OF assms] by (simp add: audit_store_inv_def)
  have copies: "map (clone_event \<circ> ar_event) (as_auditRecords st) = map ar_event (as_auditRecords st)"
  proof -
    have "map (clone_event \<circ> ar_event) (as_auditRecords st) = map ar_event (map clone_audit_record (as_auditRecords st))"
      by (simp add: clone_audit_record_def)
    with ok show ?thesis by (simp add: snapshot_ok_def)
  qed
  from ok have passes: "audit_record_findings rt (aa_tenantBoundary a) (as_auditRecords st) = []"
    "evidence_record_findings rt (aa_tenantBoundary a) (as_evidenceRecords st) = []"
    "linked_from rt None (map ar_event (as_auditRecords st))" by (simp_all add: snapshot_ok_def)
  have none: "assert_no_integrity_findings [] label = None" for label by simp
  from passes copies snapshot_reads [OF ok] show ?thesis
    using passes(1) [unfolded audit_record_findings_Nil]
    by (simp add: list_stored_audit_events_def trusted_audit_records_def trusted_evidence_records_def Let_def comp_def none)
qed

lemma stored_audit_log_stays_trusted_witness:
  "list_stored_audit_events sample_runtime sample_audit_adapter sample_late = Inr (map ar_event (as_auditRecords sample_late)) \<and>
     length (as_auditRecords sample_late) = 1"
  using stored_audit_log_stays_trusted [OF sample_reached] by (simp add: sample_late_records)

subsection \<open>What verification means\<close>

text \<open>
  the integrity report of a log the adapter wrote says \<open>verified\<close> exactly when every event matches the
  hash of its payload, every signed window still has the events it was signed over, and every failed
  SIEM delivery was delivered by a replay; nothing else can go wrong.
\<close>
theorem audit_verification_means:
  assumes "(audit_step rt a)\<^sup>*\<^sup>* empty_audit_store st"
  shows "integrity_status (verify_integrity rt a t st) = Verified \<longleftrightarrow>
    (\<forall>e \<in> set (map ar_event (as_auditRecords st)). payloadHash e = audit_payload_hash rt (payload e)) \<and>
    signed_window_findings rt (aa_tenantBoundary a) (aa_signer a) (as_signedWindows st) (as_auditRecords st) = [] \<and>
    siem_delivery_findings rt (aa_tenantBoundary a) (as_siemDeliveries st) (as_signedWindows st) False = [] \<and>
    (\<forall>d \<in> set (as_siemDeliveries st). sd_status d = Delivery_failed \<longrightarrow> replayed_delivery (as_siemDeliveries st) d)"
proof -
  have ok: "snapshot_ok rt a st" using reachable_ok [OF assms] by (simp add: audit_store_inv_def)
  have siem: "siem_delivery_findings rt tb ds ws True = [] \<longleftrightarrow>
      siem_delivery_findings rt tb ds ws False = [] \<and> (\<forall>d \<in> set ds. sd_status d = Delivery_failed \<longrightarrow> replayed_delivery ds d)"
    for tb ds ws by (auto simp: siem_delivery_findings_def one_delivery_findings_def Let_def)
  have "findings (verify_audit_chain rt es t) = [] \<longleftrightarrow> chained_from rt None es" for es
    using no_findings [of rt None es] by (simp add: verify_audit_chain_def Let_def)
  then show ?thesis
    using ok snapshot_reads [OF ok]
    by (auto simp: verify_integrity_def Let_def siem verified_iff_chained_from chained_from_linked snapshot_ok_def)
qed

lemma audit_verification_means_witness:
  "integrity_status (verify_integrity sample_runtime sample_audit_adapter ''now'' empty_audit_store) = Verified"
  using audit_verification_means [OF rtranclp.rtrancl_refl, of sample_runtime sample_audit_adapter "''now''"]
  by (simp add: empty_audit_store_def signed_window_findings_def siem_delivery_findings_def)

text \<open>
  appending does not compare the payload with its hash: an event with a wrong payload hash is
  accepted and acknowledged, and from then on, whatever is written, verification fails.
\<close>
theorem wrong_payload_hash_is_accepted_for_good:
  assumes "append_stored_event rt a e t st = (Inr rc, st1)" "js_wf (JObj (payload e))"
    and "payloadHash e \<noteq> audit_payload_hash rt (payload e)" "(audit_write rt a)\<^sup>*\<^sup>* st1 st2"
  shows "integrity_status (verify_integrity rt a now st2) = Failed"
proof -
  let ?r = "new_audit_record rt a e t (length (as_auditRecords st) + 1)"
  have "?r \<in> set (as_auditRecords st1)" using assms(1) by (cases rule: appended_event [of rt a e t st]) auto
  moreover have "ar_event ?r = clone_event e" by (rule event_hash_of_record)
  ultimately obtain r where st1: "r \<in> set (as_auditRecords st1)" "ar_event r = clone_event e" by blast
  then have "clone_event e \<in> set (map ar_event (read_audit_records st2))"
    using writes_extend [OF assms(4)]
    by (force simp: extends_store_def read_audit_records_def clone_audit_record_def image_iff)
  moreover have "payloadHash (clone_event e) \<noteq> audit_payload_hash rt (payload (clone_event e))"
    using assms(2,3) by (simp add: audit_payload_hash_def hash_reference_def sha256_def clone_event_def clone_record_js stringify_clone
        del: js_clone.simps)
  ultimately have "integrity_status (verify_audit_chain rt (map ar_event (read_audit_records st2)) now) \<noteq> Verified"
    unfolding verified_iff_chained_from chained_from_linked by blast
  then show ?thesis by (simp add: verify_integrity_def Let_def)
qed

lemma wrong_payload_hash_is_accepted_for_good_witness:
  "integrity_status (verify_integrity sample_runtime sample_audit_adapter ''now'' sample_late) = Failed"
proof -
  obtain rc where run: "append_stored_event sample_runtime sample_audit_adapter sample_audit_event ''now'' sample_signed = (Inr rc, sample_late)"
    using sample_append [OF sample_sign(2)] by (auto simp: sample_late_def)
  have "payloadHash sample_audit_event \<noteq> audit_payload_hash sample_runtime (payload sample_audit_event)"
    by (simp add: sample_audit_event_def audit_payload_hash_def hash_reference_def)
  moreover have "js_wf (JObj (payload sample_audit_event))" by (simp add: sample_audit_event_def)
  ultimately show ?thesis using wrong_payload_hash_is_accepted_for_good [OF run _ _ rtranclp.rtrancl_refl] by blast
qed

subsection \<open>Backups\<close>

text \<open>
  C33: restoring a backup brings back exactly the events, packages, windows and deliveries the store had
  when it was made, whatever was written in between, and the backup passes its own checks.
\<close>
theorem backups_restore_what_they_saved:
  assumes "create_audit_backup rt a i created st = (Inr m, st1)"
    and "map_get (as_backups st2) i = map_get (as_backups st1) i"
  shows "\<exists>rc. restore_audit_backup rt a i t st2 = (Inr rc, audit_snapshot.extend
      (current_snapshot st\<lparr>as_backupMetadata := read_backup_metadata st @ [m]\<rparr>) \<lparr>as_backups = as_backups st2\<rparr>) \<and>
    rr_eventCount rc = length (as_auditRecords st)"
proof -
  let ?s = "current_snapshot st\<lparr>as_backupMetadata := read_backup_metadata st @ [m]\<rparr>"
  let ?b = "new_backup rt a i created st"
  from assms(1) have valid: "validate_store_state rt a st = None" and m: "m = new_backup_metadata rt a i created st"
    and st1: "st1 = write_backup_metadata (as_backupMetadata (ab_snapshot ?b)) (write_stored_backup i ?b st)"
    by (cases rule: backup_written [of rt a i created st]; simp)+
  have s: "ab_snapshot ?b = ?s" by (simp add: new_backup_def Let_def m current_snapshot_def)
  have "clone_backup m = m"
    by (simp add: m new_backup_metadata_def clone_backup_def audit_entity_counts_def clone_record_def js_nat_def)
  then have "clone_snapshot ?s = ?s"
    by (simp add: clone_snapshot_def current_snapshot_def read_audit_records_def read_evidence_records_def read_backup_metadata_def)
  with s have b: "clone_audit_backup ?b = ?b" by (simp add: clone_audit_backup_def)
  have stored: "read_stored_backup i st2 = Some ?b"
    using assms(2) by (simp add: read_stored_backup_def st1 write_backup_metadata_def write_stored_backup_def b)
  have "hash_backup rt ?b = ab_backupHash ?b" by (simp add: new_backup_def Let_def hash_backup_def)
  moreover have "ab_tenantBoundary ?b = aa_tenantBoundary a" by (simp add: new_backup_def Let_def)
  ultimately have "validate_backup rt a ?b = None"
    using valid by (simp add: validate_backup_def validate_store_state_def Let_def s current_snapshot_def)
  with stored \<open>clone_snapshot ?s = ?s\<close> show ?thesis
    by (simp add: restore_audit_backup_def check_then_def Let_def s restore_snapshot_def) (simp add: current_snapshot_def read_audit_records_def)
qed

lemma backups_restore_what_they_saved_witness:
  "\<exists>m st1 rc st2. create_audit_backup sample_runtime sample_audit_adapter ''b'' ''now'' empty_audit_store = (Inr m, st1) \<and>
     restore_audit_backup sample_runtime sample_audit_adapter ''b'' ''now'' st1 = (Inr rc, st2) \<and> as_backupMetadata st2 = [m]"
proof -
  have none: "assert_no_integrity_findings [] l = None" for l by simp
  have "\<exists>m st1. create_audit_backup sample_runtime sample_audit_adapter ''b'' ''now'' empty_audit_store = (Inr m, st1)"
    by (cases rule: backup_written [of sample_runtime sample_audit_adapter "''b''" "''now''" empty_audit_store])
      (simp_all add: create_audit_backup_def check_then_def validate_store_state_def empty_audit_store_def read_audit_records_def
        read_evidence_records_def audit_record_findings_def evidence_record_findings_def signed_window_findings_def
        siem_delivery_findings_def none Let_def)
  then obtain m st1 where made: "create_audit_backup sample_runtime sample_audit_adapter ''b'' ''now'' empty_audit_store = (Inr m, st1)" by blast
  from backups_restore_what_they_saved [OF made HOL.refl, of "''now''"] show ?thesis
    using made by (auto simp: audit_snapshot.defs empty_audit_store_def read_backup_metadata_def)
qed

subsection \<open>Signed windows\<close>

definition in_window :: "signed_window \<Rightarrow> audit_event \<Rightarrow> bool" where
  "in_window w e \<longleftrightarrow> sw_periodStart w \<le> occurredAt e \<and> occurredAt e \<le> sw_periodEnd w"

definition signer_agrees :: "window_signer \<Rightarrow> bool" where
  "signer_agrees s \<longleftrightarrow> (\<forall>v. ws_verify s v (ws_sign s v))"

lemma hmac_agrees: "signer_agrees (hmac_window_signer rt hmac k m)"
  by (simp add: signer_agrees_def hmac_window_signer_def Let_def)

lemma read_appended: "extends_store st st' \<Longrightarrow>
    \<exists>rs. as_auditRecords st' = as_auditRecords st @ rs \<and> read_audit_records st' = read_audit_records st @ map clone_audit_record rs"
  by (auto simp: extends_store_def read_audit_records_def)

lemma events_in_append: "events_in p q (rs @ rs') = events_in p q rs @ events_in p q rs'"
  by (simp add: events_in_def)

lemma events_in_clones: "events_in p q (map clone_audit_record rs) = [] \<longleftrightarrow> (\<forall>r \<in> set rs. \<not> (p \<le> occurredAt (ar_event r) \<and> occurredAt (ar_event r) \<le> q))"
  by (auto simp: events_in_def filter_empty_conv clone_audit_record_def)

lemma signed_ok:
  assumes "signer_agrees s"
  shows "ws_verify s (JObj (signature_payload (signed rt s w))) (sw_signatureHash (signed rt s w))"
    "sw_recordHash (signed rt s w) = hash_record rt (window_fields (signed rt s w))"
  using assms by (simp_all add: signed_def Let_def signature_payload_def window_fields_def signer_agrees_def)

lemma signed_window_intact:
  assumes "sign_audit_window rt a req now st = (Inr w, st1)" "signer_agrees (aa_signer a)"
  shows "one_window_findings rt (aa_tenantBoundary a) (aa_signer a) (read_audit_records st1) w = []" "w \<in> set (as_signedWindows st1)"
    "sw_eventCount w = length (events_in (sw_periodStart w) (sw_periodEnd w) (read_audit_records st1))"
proof -
  let ?es = "events_in (wr_periodStart req) (wr_periodEnd req) (read_audit_records st)"
  from assms(1) have w: "w = new_window rt a req now ?es" and st1: "st1 = st\<lparr>as_signedWindows := as_signedWindows st @ [w]\<rparr>"
    and key: "coalesce (wr_signingKeyId req) (ws_keyId (aa_signer a)) = ws_keyId (aa_signer a)"
    by (cases rule: signed_window_added [of rt a req now st]; simp)+
  have read: "read_audit_records st1 = read_audit_records st" by (simp add: st1 read_audit_records_def)
  have fields: "sw_periodStart w = wr_periodStart req" "sw_periodEnd w = wr_periodEnd req" "sw_eventCount w = length ?es"
    "sw_tenantBoundary w = aa_tenantBoundary a" "sw_sourceEventIds w = map eventId ?es" "sw_firstEventHash w = first_event_hash rt ?es"
    "sw_lastEventHash w = last_hash rt ?es" "sw_signatureAlgorithm w = ws_algorithm (aa_signer a)" "sw_signingKeyId w = ws_keyId (aa_signer a)"
    using key by (simp_all add: w new_window_def signed_def Let_def)
  have signature: "ws_verify (aa_signer a) (JObj (signature_payload w)) (sw_signatureHash w)" "sw_recordHash w = hash_record rt (window_fields w)"
    unfolding w new_window_def by (rule signed_ok [OF assms(2)])+
  show "one_window_findings rt (aa_tenantBoundary a) (aa_signer a) (read_audit_records st1) w = []"
    using signature by (simp add: one_window_findings_def Let_def fields read)
  show "w \<in> set (as_signedWindows st1)" by (simp add: st1)
  show "sw_eventCount w = length (events_in (sw_periodStart w) (sw_periodEnd w) (read_audit_records st1))" by (simp add: fields read)
qed

lemma sample_signer: "signer_agrees (aa_signer sample_audit_adapter)"
  by (simp add: sample_audit_adapter_def audit_adapter_of_def hmac_agrees)

lemma in_late_window:
  "in_window (new_window sample_runtime sample_audit_adapter sample_window_request ''now'' [])
     (ar_event (new_audit_record sample_runtime sample_audit_adapter sample_audit_event ''now'' 1))"
proof -
  have "(''a'' :: string) \<le> ''b''" "(''b'' :: string) \<le> ''c''" by code_simp+
  then show ?thesis
    by (simp add: in_window_def new_window_def signed_def Let_def sample_window_request_def event_hash_of_record sample_audit_event_def)
qed

text \<open>
  C31: a signed window is found intact as long as no event is appended whose time lies in its period, and
  is reported as soon as one is: signing freezes the period, also its future.
\<close>
theorem signed_windows_detect_late_events:
  assumes "sign_audit_window rt a req now st = (Inr w, st1)" "signer_agrees (aa_signer a)" "(audit_write rt a)\<^sup>*\<^sup>* st1 st2"
  shows "one_window_findings rt (aa_tenantBoundary a) (aa_signer a) (read_audit_records st2) w = [] \<longleftrightarrow>
    (\<forall>r \<in> set (drop (length (as_auditRecords st1)) (as_auditRecords st2)). \<not> in_window w (ar_event r))"
proof -
  note intact = signed_window_intact [OF assms(1,2)]
  obtain rs where rs: "as_auditRecords st2 = as_auditRecords st1 @ rs"
    "read_audit_records st2 = read_audit_records st1 @ map clone_audit_record rs"
    using read_appended [OF writes_extend [OF assms(3)]] by blast
  let ?late = "events_in (sw_periodStart w) (sw_periodEnd w) (map clone_audit_record rs)"
  have "one_window_findings rt (aa_tenantBoundary a) (aa_signer a) (read_audit_records st2) w = [] \<longleftrightarrow> ?late = []"
    using intact(1,3) by (auto simp: one_window_findings_def Let_def rs(2) events_in_append)
  then show ?thesis by (simp add: rs(1) events_in_clones in_window_def)
qed

lemma signed_windows_detect_late_events_witness:
  "one_window_findings sample_runtime (aa_tenantBoundary sample_audit_adapter) (aa_signer sample_audit_adapter) (read_audit_records sample_late)
     (new_window sample_runtime sample_audit_adapter sample_window_request ''now'' []) \<noteq> []"
  using signed_windows_detect_late_events [OF sample_sign(1) sample_signer sample_writes]
  using in_late_window by (simp add: sample_late_records sample_sign(2))

lemma late_event_found:
  assumes "w \<in> set (as_signedWindows st1)"
    and "sw_eventCount w = length (events_in (sw_periodStart w) (sw_periodEnd w) (read_audit_records st1))"
    and "(audit_write rt a)\<^sup>*\<^sup>* st1 st2" "r \<in> set (drop (length (as_auditRecords st1)) (as_auditRecords st2))" "in_window w (ar_event r)"
  shows "signed_window_findings rt (aa_tenantBoundary a) (aa_signer a) (as_signedWindows st2) (read_audit_records st2) \<noteq> []"
proof -
  note ext = writes_extend [OF assms(3)]
  obtain rs where rs: "as_auditRecords st2 = as_auditRecords st1 @ rs"
    "read_audit_records st2 = read_audit_records st1 @ map clone_audit_record rs"
    using read_appended [OF ext] by blast
  have "events_in (sw_periodStart w) (sw_periodEnd w) (map clone_audit_record rs) \<noteq> []"
    using assms(4,5) by (auto simp: rs(1) events_in_clones in_window_def)
  then have "one_window_findings rt (aa_tenantBoundary a) (aa_signer a) (read_audit_records st2) w \<noteq> []"
    using assms(2) by (auto simp: one_window_findings_def Let_def rs(2) events_in_append)
  moreover have "w \<in> set (as_signedWindows st2)" using assms(1) ext by (auto simp: extends_store_def)
  ultimately show ?thesis by (auto simp: signed_window_findings_def)
qed

text \<open>
  C32: one event that arrives late, in a period already signed, disables the adapter until a backup is
  restored: from then on, and whatever is written later (events, evidence, windows, deliveries and
  backups, but no restoration, which could remove the event again), windows cannot be listed, no SIEM
  delivery can be recorded, no backup can be made, and no adapter can be created on the store.
\<close>
theorem late_events_disable_the_adapter:
  assumes "sign_audit_window rt a req now st = (Inr w, st1)" "signer_agrees (aa_signer a)" "(audit_write rt a)\<^sup>*\<^sup>* st1 st2"
    and "r \<in> set (drop (length (as_auditRecords st1)) (as_auditRecords st2))" "in_window w (ar_event r)"
  shows "(\<exists>m. list_signed_audit_windows rt a st2 = Inl m) \<and> (\<forall>dreq t. \<exists>m. record_siem_delivery rt a dreq t st2 = (Inl m, st2)) \<and>
    (\<forall>i t. \<exists>m. create_audit_backup rt a i t st2 = (Inl m, st2)) \<and>
    (\<forall>hmac o'. audit_adapter_of rt hmac o' = a \<longrightarrow> (\<exists>m. create_audit_adapter rt hmac o' st2 = Inl m))"
proof -
  note intact = signed_window_intact [OF assms(1,2)]
  have late: "signed_window_findings rt (aa_tenantBoundary a) (aa_signer a) (as_signedWindows st2) (read_audit_records st2) \<noteq> []"
    by (rule late_event_found [OF intact(2,3) assms(3-5)])
  then obtain m where m: "list_signed_audit_windows rt a st2 = Inl m"
    by (cases "signed_window_findings rt (aa_tenantBoundary a) (aa_signer a) (as_signedWindows st2) (read_audit_records st2)")
      (simp_all add: list_signed_audit_windows_def assert_no_integrity_findings_def)
  from late have invalid: "validate_store_state rt a st2 \<noteq> None" by (simp add: validate_store_state_def)
  then obtain m' where m': "validate_store_state rt a st2 = Some m'" by blast
  have "\<exists>m. create_audit_adapter rt hmac o' st2 = Inl m" if "audit_adapter_of rt hmac o' = a" for hmac o'
  proof -
    have "first_message [if ao_tenantBoundary o' = [] then Some ''Reference audit adapters require a tenant boundary.'' else None,
         assert_no_secrets (JStr (ao_location o')) ''production audit location'',
         signing_key_error (ao_signingKeyMaterial o'), validate_store_state rt a st2] \<noteq> None"
      using invalid by simp
    then show ?thesis unfolding create_audit_adapter_def that by (auto simp del: first_message_None)
  qed
  with m m' show ?thesis by (simp add: record_siem_delivery_def create_audit_backup_def check_then_def)
qed

lemma late_events_disable_the_adapter_witness:
  "\<exists>m. create_audit_adapter sample_runtime (\<lambda>k m. m) sample_audit_options sample_late = Inl m"
proof -
  let ?r = "new_audit_record sample_runtime sample_audit_adapter sample_audit_event ''now'' 1"
  have "?r \<in> set (drop (length (as_auditRecords sample_signed)) (as_auditRecords sample_late))"
    by (simp add: sample_late_records sample_sign(2))
  from late_events_disable_the_adapter [OF sample_sign(1) sample_signer sample_writes this in_late_window]
  show ?thesis using sample_audit_adapter_def by metis
qed

end
