(* ===== verification/Governance_Properties.thy ===== *)
theory Governance_Properties
  imports Governance Job_Queue_Properties
begin

text \<open>
  What a governance run does: it drops nothing, covers every drift finding, and run again on its own
  records it changes none of them; drift findings whose ids read the same once normalised share one record.
\<close>

lemma bind_result_Inr: "bind_result r f = Inr y \<longleftrightarrow> (\<exists>x. r = Inr x \<and> f x = Inr y)"
  by (cases r) (simp_all add: bind_result_def)

lemma bind_result_Inr_simp [simp]: "bind_result (Inr x) f = f x"
  by (simp add: bind_result_def)

lemma ids_agree [simp]:
  "governance_finding_id a = governance_finding_id b \<longleftrightarrow> governance_evidence_id a = governance_evidence_id b"
  "exception_request_id a = exception_request_id b \<longleftrightarrow> governance_evidence_id a = governance_evidence_id b"
  by (simp_all add: governance_finding_id_def exception_request_id_def)

subsection \<open>One drift finding\<close>

lemma built_finding:
  assumes "build_governance_finding f existing generated expires = Inr g"
  shows "entity_id g = governance_finding_id (entity_id f)" "gov_severity g = drift_severity f"
    "gov_weakness g = ''Native '' @ drift_nativeAccess f @ '' access for '' @ drift_subjectId f @ '' on '' @ drift_resourceId f @
       '' differs from intended '' @ drift_intendedAccess f @ '' access.''"
    "\<exists>rem. gov_status g = governance_status_of f rem generated expires"
  using assms by (auto simp: build_governance_finding_def bind_result_Inr)

lemma built_request:
  assumes "build_exception_request f g existing generated = Inr r"
  shows "entity_id r = exception_request_id (entity_id f)" "exc_findingId r = entity_id g"
  using assms by (auto simp: build_exception_request_def bind_result_Inr Let_def)

lemma governed:
  assumes "govern_finding generated f (fs, rs) = Inr (fs', rs')"
  obtains g r expires where
    "exception_expires_at f (map_get rs (exception_request_id (entity_id f))) = Inr expires"
    "build_governance_finding f (map_get fs (governance_finding_id (entity_id f))) generated expires = Inr g"
    "fs' = map_set (governance_finding_id (entity_id f))
       (if requires_exception_request f then g\<lparr>gov_exceptionRequestId := Some (exception_request_id (entity_id f))\<rparr> else g) fs"
    "if requires_exception_request f
     then build_exception_request f g (map_get rs (exception_request_id (entity_id f))) generated = Inr r \<and>
       rs' = map_set (exception_request_id (entity_id f)) r rs
     else rs' = rs"
proof -
  from assms obtain expires g where e: "exception_expires_at f (map_get rs (exception_request_id (entity_id f))) = Inr expires"
    and g: "build_governance_finding f (map_get fs (governance_finding_id (entity_id f))) generated expires = Inr g"
    by (auto simp: govern_finding_def Let_def bind_result_Inr)
  note id = built_finding(1) [OF g]
  have "updatedAt g = Some generated" using g by (auto simp: build_governance_finding_def bind_result_Inr)
  then have upd: "g\<lparr>gov_exceptionRequestId := x, updatedAt := Some generated\<rparr> = g\<lparr>gov_exceptionRequestId := x\<rparr>" for x by simp
  show ?thesis
  proof (cases "requires_exception_request f")
    case True
    with assms e g obtain r where r: "build_exception_request f g (map_get rs (exception_request_id (entity_id f))) generated = Inr r"
      by (auto simp: govern_finding_def Let_def bind_result_Inr)
    with assms e g True that [OF e g] show ?thesis
      by (simp add: govern_finding_def Let_def id built_request(1) [OF r] upd)
  next
    case False
    with assms e g that [OF e g] show ?thesis by (simp add: govern_finding_def Let_def id)
  qed
qed


subsection \<open>A run\<close>

definition maps_keyed :: "governance_maps \<Rightarrow> bool" where
  "maps_keyed maps \<longleftrightarrow> keyed entity_id (fst maps) \<and> keyed entity_id (snd maps)"

lemma keyed_set_at: "keyed key m \<Longrightarrow> k = key v \<Longrightarrow> keyed key (map_set k v m)"
  by simp

text \<open>What one drift finding leaves behind, and that later ones leave it there.\<close>

definition covered :: "drift_finding \<Rightarrow> governance_maps \<Rightarrow> bool" where
  "covered f maps \<longleftrightarrow> (\<exists>g. map_get (fst maps) (governance_finding_id (entity_id f)) = Some g \<and>
     (requires_exception_request f \<longrightarrow>
       (\<exists>r. map_get (snd maps) (exception_request_id (entity_id f)) = Some r \<and> exc_findingId r = entity_id g)))"

lemma governed_keyed:
  assumes "govern_finding generated f maps = Inr maps'" "maps_keyed maps"
  shows "maps_keyed maps'"
proof -
  obtain fs rs fs' rs' where m: "maps = (fs, rs)" "maps' = (fs', rs')" by (cases maps, cases maps')
  from assms(1) [unfolded m] assms(2) show ?thesis
    by (cases rule: governed)
      (auto simp: maps_keyed_def m built_finding(1) built_request(1) intro!: keyed_set_at split: if_splits)
qed

lemma governed_covers:
  assumes "govern_finding generated f maps = Inr maps'"
  shows "covered f maps'"
proof -
  obtain fs rs fs' rs' where m: "maps = (fs, rs)" "maps' = (fs', rs')" by (cases maps, cases maps')
  from assms [unfolded m] show ?thesis
    by (cases rule: governed) (auto simp: covered_def m built_request(2) built_finding(1) split: if_splits)
qed

lemma governed_keeps:
  assumes "govern_finding generated f maps = Inr maps'" "maps_keyed maps"
  shows "covered h maps \<Longrightarrow> covered h maps'"
    and "fst ` set (fst maps) \<subseteq> fst ` set (fst maps')" and "fst ` set (snd maps) \<subseteq> fst ` set (snd maps')"
proof -
  obtain fs rs fs' rs' where m: "maps = (fs, rs)" "maps' = (fs', rs')" by (cases maps, cases maps')
  from assms(2) have k: "keyed entity_id fs" "keyed entity_id rs" by (simp_all add: maps_keyed_def m)
  show "covered h maps \<Longrightarrow> covered h maps'"
    using assms(1) [unfolded m] keyed_get [OF k(1)]
    by (cases rule: governed)
      (auto simp: covered_def m built_request(2) built_finding(1) split: if_splits)
  show "fst ` set (fst maps) \<subseteq> fst ` set (fst maps')"
    using assms(1) [unfolded m] by (cases rule: governed) (auto simp: m dom_update)
  show "fst ` set (snd maps) \<subseteq> fst ` set (snd maps')"
    using assms(1) [unfolded m] by (cases rule: governed) (auto simp: m dom_update split: if_splits)
qed

lemma run_keeps:
  assumes "govern_findings generated fs maps = Inr maps'" "maps_keyed maps"
  shows "maps_keyed maps' \<and> (\<forall>h. covered h maps \<longrightarrow> covered h maps') \<and>
    fst ` set (fst maps) \<subseteq> fst ` set (fst maps') \<and> fst ` set (snd maps) \<subseteq> fst ` set (snd maps')"
  using assms
proof (induction fs arbitrary: maps)
  case (Cons f fs)
  then obtain m where m: "govern_finding generated f maps = Inr m" "govern_findings generated fs m = Inr maps'"
    by (auto simp: bind_result_Inr)
  from Cons.IH [OF m(2) governed_keyed [OF m(1) Cons.prems(2)]] governed_keeps [OF m(1) Cons.prems(2)]
  show ?case by (meson subset_trans)
qed simp

lemma run_covers:
  assumes "govern_findings generated fs maps = Inr maps'" "maps_keyed maps" "f \<in> set fs"
  shows "covered f maps'"
  using assms
proof (induction fs arbitrary: maps)
  case (Cons h fs)
  then obtain m where m: "govern_finding generated h maps = Inr m" "govern_findings generated fs m = Inr maps'"
    by (auto simp: bind_result_Inr)
  note keyed = governed_keyed [OF m(1) Cons.prems(2)]
  show ?case
  proof (cases "f \<in> set fs")
    case True
    with Cons.IH [OF m(2) keyed] show ?thesis by simp
  next
    case False
    with Cons.prems(3) governed_covers [OF m(1)] run_keeps [OF m(2) keyed] show ?thesis by auto
  qed
qed simp


lemma keyed_put_all: "keyed key m \<Longrightarrow> keyed key (map_put_all key vs m)"
  by (induction vs arbitrary: m) (simp_all add: map_put_all_def)

lemma keys_put_all: "fst ` set (map_put_all key vs m) = key ` set vs \<union> fst ` set m"
  by (induction vs arbitrary: m) (auto simp: map_put_all_def dom_update)

lemma keyed_to_id_map [simp]: "keyed entity_id (to_id_map xs)"
  by (simp add: to_id_map_def keyed_put_all)

lemma in_to_id_map: "entity_id ` set xs \<subseteq> fst ` set (to_id_map xs)"
  by (simp add: to_id_map_def keys_put_all)

lemma keyed_keys: "keyed entity_id m \<Longrightarrow> map entity_id (map_values m) = map fst m"
  by (auto simp: keyed_def)

lemma keyed_ids: "keyed entity_id m \<Longrightarrow> entity_id ` set (map_values m) = fst ` set m"
  using keyed_keys [of m] by (metis list.set_map)

lemma keyed_distinct: "keyed entity_id m \<Longrightarrow> distinct (map entity_id (map_values m))"
  using keyed_keys [of m] by (metis keyed_wf wf_map_def)

lemma mset_insert_job: "mset (insert_job cmp x xs) = add_mset x (mset xs)"
  by (induction xs) auto

lemma mset_sort_jobs: "mset (sort_jobs cmp xs) = mset xs"
  by (induction xs) (simp_all add: sort_jobs_def mset_insert_job)

lemma sorted_ids:
  "set (sort_by_id collate xs) = set xs" "distinct (map entity_id (sort_by_id collate xs)) \<longleftrightarrow> distinct (map entity_id xs)"
proof -
  have "mset (map entity_id (sort_by_id collate xs)) = mset (map entity_id xs)"
    by (simp only: sort_by_id_def mset_map mset_sort_jobs)
  then show "distinct (map entity_id (sort_by_id collate xs)) \<longleftrightarrow> distinct (map entity_id xs)"
    by (rule mset_eq_imp_distinct_iff)
qed (simp add: sort_by_id_def)

lemma covered_values:
  assumes "covered f (fs, rs)" "keyed entity_id fs" "keyed entity_id rs"
  shows "\<exists>g \<in> set (map_values fs). entity_id g = governance_finding_id (entity_id f) \<and>
    (requires_exception_request f \<longrightarrow>
      (\<exists>r \<in> set (map_values rs). entity_id r = exception_request_id (entity_id f) \<and> exc_findingId r = entity_id g))"
proof -
  from assms(1) obtain g where g: "map_get fs (governance_finding_id (entity_id f)) = Some g"
    and r: "requires_exception_request f \<Longrightarrow>
      \<exists>r. map_get rs (exception_request_id (entity_id f)) = Some r \<and> exc_findingId r = entity_id g"
    by (auto simp: covered_def)
  have "\<exists>r \<in> set (map_values rs). entity_id r = exception_request_id (entity_id f) \<and> exc_findingId r = entity_id g"
    if "requires_exception_request f"
    using r [OF that] keyed_get [OF assms(3)] map_get_mem by metis
  with g keyed_get [OF assms(2) g] map_get_mem [OF g] show ?thesis by blast
qed

subsection \<open>A sample run\<close>

definition sample_drift :: "canonical_id \<Rightarrow> drift_severity \<Rightarrow> drift_finding_status \<Rightarrow> drift_finding" where
  "sample_drift i severity status =
    \<lparr>entity_id = i, version = ''v'', createdAt = ''2026-01-01T00:00:00.000Z'', updatedAt = None,
     drift_resourceId = ''r'', drift_subjectId = ''s'', drift_nativeGrantId = None, drift_nativeAccess = ''write'',
     drift_intendedAccess = ''none'', drift_severity = severity, drift_lifecycleState = Ds_accepted, drift_ownerId = ''o'',
     drift_assigneeId = ''o'', drift_detectedAt = ''2026-01-01T00:00:00.000Z'', drift_exceptionExpiresAt = None,
     drift_sourceConnectorId = ''c'', drift_recommendedAction = Do_revoke, drift_status = status,
     drift_schedule = \<lparr>cadence = Cadence_manual, scheduledAt = [], windowStart = None, windowEnd = None, nextRunAt = None,
       gracePeriodHours = 0, overdue = False\<rparr>,
     drift_hookEvidence = [], drift_remediation = \<lparr>remediation_approval = None, remediation_approvedAt = None, remediation_dryRunRepair = None\<rparr>,
     drift_autoRepairPolicy = default_auto_repair_policy severity Do_revoke\<rparr>"

definition sample_governance :: governance_input where
  "sample_governance = \<lparr>gi_generatedAt = ''2026-01-02T00:00:00.000Z'', gi_subjectCount = 1, gi_resourceCount = 1, gi_sourceEventIds = [],
     gi_driftFindings = [sample_drift ''a/b'' Drift_critical Df_open, sample_drift ''a b'' Drift_low Df_resolved],
     gi_existingCampaigns = [], gi_existingFindings = [], gi_existingExceptionRequests = []\<rparr>"

lemma sample_days:
  "add_days ''2026-01-01T00:00:00.000Z'' 14 = Inr ''2026-01-15T00:00:00.000Z''"
  "add_days ''2026-01-01T00:00:00.000Z'' 30 = Inr ''2026-01-31T00:00:00.000Z''"
  "add_days ''2026-01-02T00:00:00.000Z'' 30 = Inr ''2026-02-01T00:00:00.000Z''"
  by code_simp+

text \<open>A drift finding with a proper date can always be governed, whatever records there are.\<close>

lemma kept_or_days_Inr: "add_days from n = Inr d \<Longrightarrow> \<exists>e. kept_or_days kept from n = Inr e"
  by (cases kept) (simp_all add: kept_or_days_def)

lemma kept_pair: "add_days from n = Inr d \<Longrightarrow>
    \<exists>e. kept_or_days (map_option g existing) (coalesce (map_option h existing) from) n = Inr e"
  by (cases existing) (simp_all add: kept_or_days_def)

lemma governing_succeeds:
  assumes "add_days (drift_detectedAt f) 14 = Inr d" "add_days (drift_detectedAt f) 30 = Inr e"
  shows "\<exists>m. govern_finding generated f maps = Inr m"
proof -
  obtain fs rs where m: "maps = (fs, rs)" by (cases maps)
  let ?x = "map_get rs (exception_request_id (entity_id f))" and ?g = "map_get fs (governance_finding_id (entity_id f))"
  obtain t where "exception_expires_at f ?x = Inr t"
    using kept_pair [OF assms(2)] unfolding exception_expires_at_def by blast
  moreover obtain due where "kept_or_days (map_option rem_dueAt (map_option gov_remediation ?g)) (drift_detectedAt f) 14 = Inr due"
    using kept_or_days_Inr [OF assms(1)] by blast
  then obtain rem where "build_remediation_tracking f (map_option gov_remediation ?g) generated = Inr rem"
    by (simp add: build_remediation_tracking_def Let_def)
  then obtain g where "build_governance_finding f ?g generated t = Inr g" by (simp add: build_governance_finding_def)
  moreover obtain expires review where
      "kept_or_days (map_option exc_expiresAt ?x) (coalesce (map_option exc_requestedAt ?x) (drift_detectedAt f)) 30 = Inr expires"
      "kept_or_days (map_option exc_reviewRequiredAt ?x) (coalesce (map_option exc_requestedAt ?x) (drift_detectedAt f)) 14 = Inr review"
    using kept_pair [OF assms(1)] kept_pair [OF assms(2)] by metis
  then obtain r where "build_exception_request f g ?x generated = Inr r" by (simp add: build_exception_request_def Let_def)
  ultimately show ?thesis by (simp add: m govern_finding_def Let_def)
qed

lemma sample_maps:
  obtains maps where "govern_findings (gi_generatedAt sample_governance) (gi_driftFindings sample_governance) start = Inr maps"
proof -
  have ok: "\<exists>m. govern_finding generated (sample_drift i s t) maps = Inr m" for generated i s t maps
    by (rule governing_succeeds [of _ "''2026-01-15T00:00:00.000Z''" "''2026-01-31T00:00:00.000Z''"]) (simp_all add: sample_drift_def sample_days)
  obtain m where m: "govern_finding ''2026-01-02T00:00:00.000Z'' (sample_drift ''a/b'' Drift_critical Df_open) start = Inr m" using ok by blast
  obtain m' where "govern_finding ''2026-01-02T00:00:00.000Z'' (sample_drift ''a b'' Drift_low Df_resolved) m = Inr m'" using ok by blast
  with m that show ?thesis by (simp add: sample_governance_def)
qed

lemma sample_governed:
  obtains out where "build_access_review_governance sample_collate sample_governance = Inr out"
proof -
  obtain maps where maps: "govern_findings (gi_generatedAt sample_governance) (gi_driftFindings sample_governance) ([], []) = Inr maps"
    by (rule sample_maps)
  obtain fs rs where m: "maps = (fs, rs)" by (cases maps)
  have empty: "gi_existingCampaigns sample_governance = []" "gi_existingFindings sample_governance = []"
    "gi_existingExceptionRequests sample_governance = []" "to_id_map [] = []"
    by (simp_all add: sample_governance_def to_id_map_def map_put_all_def)
  have generated: "gi_generatedAt sample_governance = ''2026-01-02T00:00:00.000Z''" by (simp add: sample_governance_def)
  obtain c where "build_access_review_campaign None sample_governance (filter (\<lambda>f. gov_campaignId f = local_campaign_id) (map_values fs))
      (filter (\<lambda>r. exc_campaignId r = local_campaign_id) (map_values rs)) = Inr c"
    by (simp add: build_access_review_campaign_def Let_def kept_or_days_def generated sample_days)
  with maps have "build_access_review_governance sample_collate sample_governance =
      Inr \<lparr>gr_campaigns = sort_by_id sample_collate (map_values (map_set (entity_id c) c [])),
        gr_findings = sort_by_id sample_collate (map_values fs), gr_exceptionRequests = sort_by_id sample_collate (map_values rs)\<rparr>"
    by (simp add: build_access_review_governance_def Let_def m empty)
  with that show ?thesis by blast
qed

lemma sample_collide: "governance_evidence_id ''a/b'' = governance_evidence_id ''a b''"
  by code_simp

text \<open>
  C27: a governance run drops nothing and covers everything: every finding and request of earlier runs is
  still there under its id, each id occurs once, every drift finding has its governance finding, and
  one that is high, critical or to be excepted has a request that names it.
\<close>
theorem governance_covers_every_drift_finding:
  assumes "build_access_review_governance collate input = Inr out"
  shows "distinct (map entity_id (gr_findings out)) \<and> distinct (map entity_id (gr_exceptionRequests out)) \<and>
    entity_id ` set (gi_existingFindings input) \<subseteq> entity_id ` set (gr_findings out) \<and>
    entity_id ` set (gi_existingExceptionRequests input) \<subseteq> entity_id ` set (gr_exceptionRequests out) \<and>
    (\<forall>f \<in> set (gi_driftFindings input). \<exists>g \<in> set (gr_findings out). entity_id g = governance_finding_id (entity_id f) \<and>
       (requires_exception_request f \<longrightarrow>
         (\<exists>r \<in> set (gr_exceptionRequests out). entity_id r = exception_request_id (entity_id f) \<and> exc_findingId r = entity_id g)))"
proof -
  let ?maps = "(to_id_map (gi_existingFindings input), to_id_map (gi_existingExceptionRequests input))"
  from assms obtain fs rs where run: "govern_findings (gi_generatedAt input) (gi_driftFindings input) ?maps = Inr (fs, rs)"
    and out: "gr_findings out = sort_by_id collate (map_values fs)" "gr_exceptionRequests out = sort_by_id collate (map_values rs)"
    by (auto simp: build_access_review_governance_def Let_def bind_result_Inr)
  have start: "maps_keyed ?maps" by (simp add: maps_keyed_def)
  note kept = run_keeps [OF run start]
  then have k: "keyed entity_id fs" "keyed entity_id rs" by (simp_all add: maps_keyed_def)
  have "\<forall>f \<in> set (gi_driftFindings input). \<exists>g \<in> set (gr_findings out). entity_id g = governance_finding_id (entity_id f) \<and>
       (requires_exception_request f \<longrightarrow>
         (\<exists>r \<in> set (gr_exceptionRequests out). entity_id r = exception_request_id (entity_id f) \<and> exc_findingId r = entity_id g))"
    unfolding out sorted_ids by (intro ballI covered_values [OF run_covers [OF run start] k])
  moreover have "entity_id ` set (gi_existingFindings input) \<subseteq> entity_id ` set (gr_findings out)"
    unfolding out sorted_ids keyed_ids [OF k(1)] by (rule subset_trans [OF in_to_id_map]) (use kept in simp)
  moreover have "entity_id ` set (gi_existingExceptionRequests input) \<subseteq> entity_id ` set (gr_exceptionRequests out)"
    unfolding out sorted_ids keyed_ids [OF k(2)] by (rule subset_trans [OF in_to_id_map]) (use kept in simp)
  moreover have "distinct (map entity_id (gr_findings out))" "distinct (map entity_id (gr_exceptionRequests out))"
    unfolding out sorted_ids using keyed_distinct k by blast+
  ultimately show ?thesis by blast
qed

lemma governance_covers_every_drift_finding_witness:
  "\<exists>out. build_access_review_governance sample_collate sample_governance = Inr out \<and>
     (\<exists>g \<in> set (gr_findings out). entity_id g = governance_finding_id ''a/b'')"
proof -
  obtain out where out: "build_access_review_governance sample_collate sample_governance = Inr out" by (rule sample_governed)
  have "sample_drift ''a/b'' Drift_critical Df_open \<in> set (gi_driftFindings sample_governance)" by (simp add: sample_governance_def)
  moreover have "entity_id (sample_drift ''a/b'' Drift_critical Df_open) = ''a/b''" by (simp add: sample_drift_def)
  ultimately show ?thesis using governance_covers_every_drift_finding [OF out] out by metis
qed


subsection \<open>Colliding ids\<close>

lemma governed_elsewhere:
  assumes "govern_finding generated f maps = Inr maps'" "governance_evidence_id (entity_id f) \<noteq> governance_evidence_id i"
  shows "map_get (fst maps') (governance_finding_id i) = map_get (fst maps) (governance_finding_id i)"
    "map_get (snd maps') (exception_request_id i) = map_get (snd maps) (exception_request_id i)"
proof -
  obtain fs rs fs' rs' where m: "maps = (fs, rs)" "maps' = (fs', rs')" by (cases maps, cases maps')
  from assms(1) [unfolded m] assms(2)
  show "map_get (fst maps') (governance_finding_id i) = map_get (fst maps) (governance_finding_id i)"
    by (cases rule: governed) (auto simp: m)
  from assms(1) [unfolded m] assms(2)
  show "map_get (snd maps') (exception_request_id i) = map_get (snd maps) (exception_request_id i)"
    by (cases rule: governed) (auto simp: m split: if_splits)
qed

lemma run_elsewhere:
  assumes "govern_findings generated fs maps = Inr maps'" "\<forall>f \<in> set fs. governance_evidence_id (entity_id f) \<noteq> governance_evidence_id i"
  shows "map_get (fst maps') (governance_finding_id i) = map_get (fst maps) (governance_finding_id i) \<and>
    map_get (snd maps') (exception_request_id i) = map_get (snd maps) (exception_request_id i)"
  using assms
proof (induction fs arbitrary: maps)
  case (Cons f fs)
  then obtain m where m: "govern_finding generated f maps = Inr m" "govern_findings generated fs m = Inr maps'"
    by (auto simp: bind_result_Inr)
  with Cons governed_elsewhere [OF m(1), of i] show ?case by auto
qed simp

lemma run_append:
  "govern_findings generated (fs @ gs) maps = bind_result (govern_findings generated fs maps) (govern_findings generated gs)"
  by (induction fs arbitrary: maps) (auto simp: bind_result_def split: sum.split)

lemma governed_shows:
  assumes "govern_finding generated f maps = Inr maps'"
  shows "\<exists>g rem expires. map_get (fst maps') (governance_finding_id (entity_id f)) = Some g \<and> gov_severity g = drift_severity f \<and>
    gov_status g = governance_status_of f rem generated expires"
proof -
  obtain fs rs fs' rs' where m: "maps = (fs, rs)" "maps' = (fs', rs')" by (cases maps, cases maps')
  from assms [unfolded m] show ?thesis
  proof (cases rule: governed)
    case (1 g r expires)
    obtain rem where "gov_status g = governance_status_of f rem generated expires" using built_finding(4) [OF 1(2)] by blast
    with 1 built_finding(2) [OF 1(2)] show ?thesis by (auto simp: m split: if_splits)
  qed
qed

text \<open>
  C28: drift findings whose ids differ only in characters the governance ids cannot hold, or in case,
  share one record, which reports the last of them: when that one is resolved the record says
  remediated, whatever the severity and state of the others.
\<close>
theorem colliding_ids_hide_findings:
  assumes "build_access_review_governance collate input = Inr out"
    and "gi_driftFindings input = fs @ f # gs @ h # ks" "governance_evidence_id (entity_id f) = governance_evidence_id (entity_id h)"
    and "\<forall>k \<in> set ks. governance_evidence_id (entity_id k) \<noteq> governance_evidence_id (entity_id h)"
    and "drift_status h = Df_resolved"
  shows "\<forall>g \<in> set (gr_findings out). entity_id g = governance_finding_id (entity_id f) \<longrightarrow>
    gov_severity g = drift_severity h \<and> gov_status g = Gov_remediated"
proof -
  let ?maps = "(to_id_map (gi_existingFindings input), to_id_map (gi_existingExceptionRequests input))"
  from assms(1) obtain ms rs where run: "govern_findings (gi_generatedAt input) (gi_driftFindings input) ?maps = Inr (ms, rs)"
    and out: "gr_findings out = sort_by_id collate (map_values ms)"
    by (auto simp: build_access_review_governance_def Let_def bind_result_Inr)
  have keyed: "keyed entity_id ms" using run_keeps [OF run] by (simp add: maps_keyed_def)
  have "gi_driftFindings input = (fs @ f # gs) @ h # ks" using assms(2) by simp
  with run obtain m1 m2 where m: "govern_finding (gi_generatedAt input) h m1 = Inr m2"
      "govern_findings (gi_generatedAt input) ks m2 = Inr (ms, rs)"
    by (auto simp: run_append bind_result_Inr)
  from governed_shows [OF m(1)] obtain g where g: "map_get (fst m2) (governance_finding_id (entity_id h)) = Some g"
    "gov_severity g = drift_severity h" "gov_status g = Gov_remediated"
    using assms(5) by (auto simp: governance_status_of_def)
  have last: "map_get ms (governance_finding_id (entity_id h)) = Some g"
    using run_elsewhere [OF m(2) assms(4)] g(1) by simp
  have "x = g" if "x \<in> set (gr_findings out)" "entity_id x = governance_finding_id (entity_id f)" for x
  proof -
    from that(1) obtain k where kx: "(k, x) \<in> set ms" by (auto simp: out sorted_ids)
    with keyed that(2) assms(3) have "k = governance_finding_id (entity_id h)" by (auto simp: keyed_def)
    with wf_map_get [OF keyed_wf [OF keyed] kx] last show ?thesis by simp
  qed
  with g show ?thesis by blast
qed

lemma colliding_ids_hide_findings_witness:
  "\<exists>out. build_access_review_governance sample_collate sample_governance = Inr out \<and>
     (\<forall>g \<in> set (gr_findings out). entity_id g = governance_finding_id ''a/b'' \<longrightarrow> gov_status g = Gov_remediated)"
proof -
  obtain out where out: "build_access_review_governance sample_collate sample_governance = Inr out" by (rule sample_governed)
  have list: "gi_driftFindings sample_governance =
      [] @ sample_drift ''a/b'' Drift_critical Df_open # [] @ sample_drift ''a b'' Drift_low Df_resolved # []"
    by (simp add: sample_governance_def)
  have fields: "entity_id (sample_drift i x y) = i" "drift_status (sample_drift i x y) = y" for i x y by (simp_all add: sample_drift_def)
  from colliding_ids_hide_findings [OF out list] out show ?thesis by (auto simp: fields sample_collide)
qed


subsection \<open>Running again\<close>

lemma kept_refs_again [simp]: "kept_refs (Some (kept_refs kept fresh)) fresh = kept_refs kept fresh"
  by (simp add: kept_refs_def split: option.split list.split)

lemma kept_approvals_again [simp]: "kept_approvals (Some (kept_approvals kept fresh)) other = kept_approvals kept fresh"
  by (simp add: kept_approvals_def split: option.split list.split)

lemma kept_some [simp]: "kept_or_days (Some d) from days = Inr d"
  by (simp add: kept_or_days_def)

lemma remediation_again:
  assumes "build_remediation_tracking f existing generated = Inr rem"
  shows "build_remediation_tracking f (Some rem) generated = Inr rem"
  using assms by (auto simp: build_remediation_tracking_def bind_result_Inr Let_def)

lemma finding_again:
  assumes "build_governance_finding f existing generated expires = Inr g"
  shows "build_governance_finding f (Some (g\<lparr>gov_exceptionRequestId := x\<rparr>)) generated expires = Inr (g\<lparr>gov_exceptionRequestId := x\<rparr>)"
  using assms by (auto simp: build_governance_finding_def bind_result_Inr remediation_again)

lemma risk_again:
  "build_risk_acceptance (Some (build_risk_acceptance existing f request generated expires review)) f request generated expires review =
   build_risk_acceptance existing f request generated expires review"
  by (auto simp: build_risk_acceptance_def Let_def risk_status_of_def split: option.split)

lemma request_again:
  assumes "build_exception_request f g existing generated = Inr r"
  shows "build_exception_request f (g\<lparr>gov_exceptionRequestId := x\<rparr>) (Some r) generated = Inr r"
  using assms by (auto simp: build_exception_request_def bind_result_Inr Let_def risk_again)

lemma set_present: "map_get m k = Some v \<Longrightarrow> map_set k v m = m"
  by (induction m) auto

lemma governed_again:
  assumes "govern_finding generated f maps = Inr m"
    and "map_get (fst maps') (governance_finding_id (entity_id f)) = map_get (fst m) (governance_finding_id (entity_id f))"
    and "map_get (snd maps') (exception_request_id (entity_id f)) = map_get (snd m) (exception_request_id (entity_id f))"
  shows "govern_finding generated f maps' = Inr maps'"
proof -
  obtain fs rs fs1 rs1 fs2 rs2 where m: "maps = (fs, rs)" "m = (fs1, rs1)" "maps' = (fs2, rs2)" by (cases maps, cases m, cases maps')
  from assms(1) [unfolded m] show ?thesis
  proof (cases rule: governed)
    case (1 g r expires)
    let ?fid = "governance_finding_id (entity_id f)" and ?rid = "exception_request_id (entity_id f)"
    have updated: "updatedAt g = Some generated" using 1(2) by (auto simp: build_governance_finding_def bind_result_Inr)
    have id: "entity_id g = ?fid" by (rule built_finding(1) [OF 1(2)])
    show ?thesis
    proof (cases "requires_exception_request f")
      case True
      let ?g = "g\<lparr>gov_exceptionRequestId := Some ?rid\<rparr>"
      from 1 True have r: "build_exception_request f g (map_get rs ?rid) generated = Inr r" by simp
      from 1 True assms(2,3) have found: "map_get fs2 ?fid = Some ?g" "map_get rs2 ?rid = Some r" by (simp_all add: m)
      have "exc_expiresAt r = expires"
        using r 1(1) by (auto simp: build_exception_request_def exception_expires_at_def bind_result_Inr Let_def)
      then have e: "exception_expires_at f (Some r) = Inr expires" by (simp add: exception_expires_at_def)
      have same: "?g\<lparr>gov_exceptionRequestId := Some ?rid, updatedAt := Some generated\<rparr> = ?g" using updated by simp
      show ?thesis
        using found e finding_again [OF 1(2), of "Some ?rid"] request_again [OF r, of "Some ?rid"] True id built_request(1) [OF r] updated
        by (simp add: m govern_finding_def Let_def set_present)
    next
      case False
      from 1 False assms(2,3) have found: "map_get fs2 ?fid = Some g" "map_get rs2 ?rid = map_get rs ?rid" by (simp_all add: m)
      with 1(1) finding_again [OF 1(2), of "gov_exceptionRequestId g"] False id show ?thesis
        by (simp add: m govern_finding_def Let_def set_present)
    qed
  qed
qed

lemma run_again:
  assumes "govern_findings generated fs maps = Inr m" "distinct (map (\<lambda>f. governance_evidence_id (entity_id f)) fs)"
    and "\<forall>f \<in> set fs. map_get (fst maps') (governance_finding_id (entity_id f)) = map_get (fst m) (governance_finding_id (entity_id f)) \<and>
      map_get (snd maps') (exception_request_id (entity_id f)) = map_get (snd m) (exception_request_id (entity_id f))"
  shows "govern_findings generated fs maps' = Inr maps'"
  using assms
proof (induction fs arbitrary: maps)
  case (Cons f fs)
  then obtain m1 where m1: "govern_finding generated f maps = Inr m1" "govern_findings generated fs m1 = Inr m"
    by (auto simp: bind_result_Inr)
  have "\<forall>h \<in> set fs. governance_evidence_id (entity_id h) \<noteq> governance_evidence_id (entity_id f)" using Cons.prems(2) by (simp add: image_iff) metis
  from run_elsewhere [OF m1(2) this] Cons.prems(3) governed_again [OF m1(1), of maps'] have "govern_finding generated f maps' = Inr maps'"
    by simp
  with Cons.IH [OF m1(2)] Cons.prems show ?case by simp
qed simp

text \<open>
  C29: governing again what was just governed, at the same time, changes no record and throws nothing,
  provided that the drift findings keep distinct ids when these are normalized: due dates,
  acceptance, owners and plans are taken over from the records, not computed anew. Two findings
  whose normalized ids coincide share one record, which a second run may change.
\<close>
theorem governing_again_changes_nothing:
  assumes "govern_findings generated fs maps = Inr maps'" "distinct (map (\<lambda>f. governance_evidence_id (entity_id f)) fs)"
  shows "govern_findings generated fs maps' = Inr maps'"
  by (rule run_again [OF assms]) simp

lemma governing_again_changes_nothing_witness:
  "\<exists>maps. govern_findings ''now'' [sample_drift ''a'' Drift_high Df_open] ([], []) = Inr maps \<and>
     govern_findings ''now'' [sample_drift ''a'' Drift_high Df_open] maps = Inr maps"
proof -
  have "\<exists>m. govern_finding ''now'' (sample_drift ''a'' Drift_high Df_open) ([], []) = Inr m"
    by (rule governing_succeeds [of _ "''2026-01-15T00:00:00.000Z''" "''2026-01-31T00:00:00.000Z''"]) (simp_all add: sample_drift_def sample_days)
  then obtain maps where run: "govern_findings ''now'' [sample_drift ''a'' Drift_high Df_open] ([], []) = Inr maps" by auto
  from governing_again_changes_nothing [OF run] run show ?thesis by auto
qed

end
