(* ===== verification/Evidence_Properties.thy ===== *)
theory Evidence_Properties
  imports Evidence_Export Enforcement_Properties
begin

text \<open>
  What the signatures on evidence packages are worth: a package the verifier accepts has exactly the
  content that was signed, every package the export builds is accepted by a verifier that trusts its
  key, and which malformed packages the verifier throws on.
\<close>

subsection \<open>Packages as lists of fields\<close>

lemma canonical_content_set [simp]: "k \<in> set attestation_names \<Longrightarrow> canonical_content (map_set k v e) = canonical_content e"
  by (induction e) (auto simp: canonical_content_def)

lemma canonical_content_idem: "\<forall>k \<in> set attestation_names. k \<notin> fst ` set e \<Longrightarrow> canonical_content e = e"
  unfolding canonical_content_def by (rule filter_True) force

lemma content_names: "map fst (build_package_content d k) =
  [''exportId'', ''framework'', ''controls'', ''periodStart'', ''periodEnd'', ''generatedAt'', ''evidenceTypes'', ''sourceEventIds'',
   ''responsibleRole'', ''format'', ''auditIntegrity'', ''controlMappings'', ''artifacts'', ''conmonMetrics'', ''poamItems'',
   ''siemExport'', ''systemBoundary'', ''dataFlows'', ''controlStatements'', ''accessReviews'', ''exceptionRegister'',
   ''operationalEvidence'', ''poamExport'', ''oscal'', ''controlTraceViews'']"
  by (simp add: build_package_content_def draft_fields_def Let_def)

lemma content_has: "k \<in> fst ` set (build_package_content d i) \<longleftrightarrow> k \<in> set (map fst (build_package_content d i))"
  by simp

lemma content_canonical [simp]: "canonical_content (build_package_content d k) = build_package_content d k"
  by (rule canonical_content_idem) (simp only: content_has content_names attestation_names_def, simp)

lemma field_set [simp]: "field (JObj (map_set k v e)) n = (if n = k then v else field (JObj e) n)"
  by (simp add: coalesce_def)

lemmas package_fields = build_package_content_def draft_fields_def Let_def coalesce_def

lemma content_fields:
  "field (JObj (build_package_content d k)) ''exportId'' = JStr (dr_exportId d)"
  "field (JObj (build_package_content d k)) ''generatedAt'' = JStr (dr_generatedAt d)"
  "field (JObj (build_package_content d k)) ''periodStart'' = JStr (dr_periodStart d)"
  "field (JObj (build_package_content d k)) ''periodEnd'' = JStr (dr_periodEnd d)"
  "field (JObj (build_package_content d k)) ''controls'' = strings_js (dr_controls d)"
  "field (JObj (build_package_content d k)) ''sourceEventIds'' = strings_js (dr_sourceEventIds d)"
  "field (JObj (build_package_content d k)) ''controlMappings'' = JArr (map mapping_js (dr_controlMappings d))"
  "field (JObj (build_package_content d k)) ''poamItems'' = JArr (map poam_item_js (dr_poamItems d))"
  "field (JObj (build_package_content d k)) ''systemBoundary'' = boundary_js (dr_systemBoundary d)"
  by (simp_all add: package_fields)

definition draft_poam :: "evidence_draft \<Rightarrow> js" where
  "draft_poam d = build_poam_export (dr_exportId d) (dr_poamItems d) (dr_controls d) (dr_generatedAt d)"

definition draft_oscal :: "evidence_draft \<Rightarrow> js" where
  "draft_oscal d = build_oscal_artifacts d (build_deployment_scope d) (draft_poam d)"

definition draft_traces :: "evidence_draft \<Rightarrow> string \<Rightarrow> js list" where
  "draft_traces d k = build_control_trace_views (dr_exportId d) (dr_controlMappings d) (dr_controlStatements d)
     (build_deployment_scope d) (draft_oscal d) (signed_package_id (dr_exportId d), k)"

definition plain_draft :: "evidence_draft \<Rightarrow> bool" where
  "plain_draft d \<longleftrightarrow> dr_poamExport d = None \<and> dr_oscal d = None \<and> dr_controlTraceViews d = None"

lemma built_fields:
  assumes "plain_draft d"
  shows "field (JObj (build_package_content d k)) ''poamExport'' = draft_poam d"
    "field (JObj (build_package_content d k)) ''oscal'' = draft_oscal d"
    "field (JObj (build_package_content d k)) ''controlTraceViews'' = JArr (draft_traces d k)"
  using assms by (simp_all add: package_fields plain_draft_def draft_poam_def draft_oscal_def draft_traces_def)


lemma field_canonical: "n \<notin> set attestation_names \<Longrightarrow> field (JObj (canonical_content e)) n = field (JObj e) n"
  by (induction e) (auto simp: canonical_content_def coalesce_def)

lemma list_all_map_fields: "(\<And>x. x \<in> set xs \<Longrightarrow> P (f x)) \<Longrightarrow> list_all P (map f xs)"
  by (simp add: list_all_iff)

subsection \<open>What a signer signs\<close>

definition issued_content :: "evidence_signer \<Rightarrow> evidence_draft \<Rightarrow> json_record" where
  "issued_content s d = build_package_content d (es_keyId s)"

definition signed_metadata :: "runtime \<Rightarrow> evidence_signer \<Rightarrow> evidence_draft \<Rightarrow> json_record" where
  "signed_metadata rt s d = unsigned_package s (attach_integrity_manifest rt (issued_content s d))"

lemma attached_fields [simp]:
  "field (JObj (attach_integrity_manifest rt e)) n = (if n = ''integrityManifest'' then integrity_manifest rt e else field (JObj e) n)"
  unfolding attach_integrity_manifest_def by (rule field_set)

lemma signed_metadata_fields:
  assumes "plain_draft d"
  shows "signed_metadata rt s d =
   [(''packageId'', JStr (signed_package_id (dr_exportId d))),
    (''packageHash'', JStr (hash_reference rt (JObj (issued_content s d)))), (''hashAlgorithm'', JStr ''sha256''),
    (''canonicalization'', JStr ''stable-json''), (''signatureAlgorithm'', JStr (es_algorithm s)),
    (''keyId'', JStr (es_keyId s)), (''signedAt'', JStr (dr_generatedAt d)), (''signerRole'', JStr (es_role s)),
    (''deploymentScope'', scope_js (build_deployment_scope d)),
    (''sourceEventIds'', strings_js (dr_sourceEventIds d)),
    (''reviewedStatementRefs'', strings_js (map (control_statement_ref \<circ> cs_controlId) (dr_controlStatements d))),
    (''controlTraceIds'', JArr (map (\<lambda>t. field t ''traceId'') (draft_traces d (es_keyId s)))),
    (''version'', JStr ''signed-evidence-package:v1'')]"
proof -
  have "field (JObj (build_package_content d k)) ''controlStatements'' = JArr (map statement_js (dr_controlStatements d))" for k
    by (simp add: package_fields)
  moreover have "field (field (draft_oscal d) ''systemSecurityPlan'') ''deploymentScope'' = scope_js (build_deployment_scope d)"
    by (simp add: draft_oscal_def build_oscal_artifacts_def Let_def coalesce_def)
  ultimately show ?thesis
    unfolding signed_metadata_def unsigned_package_def issued_content_def Let_def
    by (simp add: content_fields built_fields [OF assms] text_of_def items_of_def statement_js_def coalesce_def comp_def
        integrity_manifest_def del: field.simps) (simp add: coalesce_def)
qed

lemma strings_wf [simp]: "js_wf (strings_js xs)"
  by (simp add: strings_js_def list_all_iff)

lemma trace_ids: "field t ''traceId'' \<noteq> JUndefined \<and> js_wf (field t ''traceId'')" if "t \<in> set (draft_traces d k)"
  using that by (auto simp: draft_traces_def build_control_trace_views_def Let_def coalesce_def)

lemma signed_metadata_wf: "plain_draft d \<Longrightarrow> js_wf (JObj (signed_metadata rt s d))"
  by (simp add: signed_metadata_fields scope_js_def list_all_iff trace_ids)


definition signed_texts :: "runtime \<Rightarrow> (evidence_signer \<times> evidence_draft) set \<Rightarrow> string set" where
  "signed_texts rt issued = (\<lambda>(s, d). stable_stringify rt (JObj (signed_metadata rt s d))) ` issued"

definition issued_texts :: "runtime \<Rightarrow> (evidence_signer \<times> evidence_draft) set \<Rightarrow> string set" where
  "issued_texts rt issued = (\<lambda>(s, d). stable_stringify rt (JObj (issued_content s d))) ` issued"

subsection \<open>What a check that passes has seen\<close>

lemma compare_pass: "vc_pass (compare_check rt n s f expected actual) \<longleftrightarrow> strict_equals actual expected"
  by (simp add: compare_check_def check_pass_def check_fail_def)

lemma equals_text [simp]: "strict_equals v (JStr s) \<longleftrightarrow> v = JStr s"
  by (cases v) auto

lemma run_check_pass: "vc_pass (run_check rt n s (Inr c)) \<longleftrightarrow> vc_pass c" "\<not> vc_pass (run_check rt n s (Inl e))"
  by (simp_all add: run_check_def check_fail_def)

lemma package_hash_pass: "vc_pass (package_hash_check rt e) \<longleftrightarrow>
  field (field (JObj e) ''integrityManifest'') ''packageHash'' = JStr (hash_reference rt (JObj (canonical_content e)))"
  by (simp add: package_hash_check_def compare_pass)

lemma verified_checks:
  assumes "verify_package engine rt keys wallClock given e = Inr r" "vr_verified r"
  shows "vc_pass (package_hash_check rt e)" "vc_pass (signed_hash_check rt e)"
    "\<exists>c. signature_check engine rt keys e = Inr c \<and> vc_pass c"
proof -
  let ?s = "run_check rt ''signed_package_signature'' ''Signed package proof signature verifies.'' (signature_check engine rt keys e)"
  from assms have "vc_pass (package_hash_check rt e) \<and> vc_pass (signed_hash_check rt e) \<and> vc_pass ?s"
    unfolding verify_package_def Let_def by (auto simp: bind_result_def split: sum.splits)
  then show "vc_pass (package_hash_check rt e)" "vc_pass (signed_hash_check rt e)"
    "\<exists>c. signature_check engine rt keys e = Inr c \<and> vc_pass c"
    using run_check_pass by (auto, cases "signature_check engine rt keys e") auto
qed

lemma signature_pass:
  assumes "signature_check engine rt keys e = Inr c" "vc_pass c"
  shows "\<exists>i k sig. (i, k) \<in> set keys \<and>
    tk_verify k (stable_stringify rt (without_signature (field (JObj e) ''signedPackage''))) sig"
  using assms unfolding signature_check_def verify_signed_signature_def Let_def
  by (auto simp: check_fail_def check_pass_def bind_result_def split: if_splits option.splits js.splits sum.splits dest: map_of_SomeD)

lemma without_signature_field: "field (without_signature v) ''packageHash'' = field v ''packageHash''"
proof (cases v)
  case (JObj fs)
  have "map_of (filter (\<lambda>(k, w). k \<noteq> ''signature'') fs) ''packageHash'' = map_of fs ''packageHash''"
    by (induction fs) auto
  with JObj show ?thesis by (simp add: without_signature_def)
qed (auto simp: without_signature_def coalesce_def)


lemma field_wf: "js_wf v \<Longrightarrow> field v n = JUndefined \<or> js_wf (field v n)"
  by (cases v) (auto simp: coalesce_def list_all_iff split: option.splits dest: map_of_SomeD)

lemma without_signature_wf: "v = JUndefined \<or> js_wf v \<Longrightarrow> js_wf (without_signature v)"
  by (cases v) (auto simp: without_signature_def list_all_iff distinct_map_filter)

lemma without_signature_obj: "\<exists>fs. without_signature v = JObj fs"
  by (simp add: without_signature_def)

lemma canon_text_field:
  assumes "js_canon (JObj fs) = js_canon (JObj gs)" "distinct (map fst gs)" "map_of fs k = Some (JStr s)"
  shows "map_of gs k = Some (JStr s)"
proof -
  from assms(3) have "(k, JStr s) \<in> set fs" by (rule map_of_SomeD)
  with canon_fields [OF assms(1), of k "JStr s"] obtain v where v: "(k, v) \<in> set gs" "v \<noteq> JUndefined" "JStr s = js_canon v"
    by auto
  from v(3) have "v = JStr s" by (cases v) auto
  with v(1) assms(2) show ?thesis by simp
qed

subsection \<open>A package as it was issued\<close>

definition as_issued :: "runtime \<Rightarrow> evidence_signer \<Rightarrow> evidence_draft \<Rightarrow> json_record \<Rightarrow> bool" where
  "as_issued rt s d e \<longleftrightarrow> plain_draft d \<and> canonical_content e = issued_content s d \<and>
     field (JObj e) ''integrityManifest'' = integrity_manifest rt (issued_content s d) \<and>
     field (JObj e) ''signedPackage'' = JObj (signed_metadata rt s d @
       [(''signature'', JStr (es_sign s (stable_stringify rt (JObj (signed_metadata rt s d)))))])"

lemma issued_field: "as_issued rt s d e \<Longrightarrow> n \<notin> set attestation_names \<Longrightarrow> field (JObj e) n = field (JObj (issued_content s d)) n"
  using field_canonical [of n e] by (simp add: as_issued_def)

lemma as_issued_attached:
  assumes "plain_draft d" "n \<in> {''verifierChecks'', ''storageReceipt''}"
  shows "as_issued rt s d (attach_signed_package rt s (attach_integrity_manifest rt (issued_content s d)))"
    "as_issued rt s d e \<Longrightarrow> as_issued rt s d (map_set n v e)"
  using assms
  by (auto simp: as_issued_def attach_signed_package_def Let_def signed_metadata_def attestation_names_def issued_content_def
      attach_integrity_manifest_def simp del: field.simps)

lemma issued_package_hash:
  assumes "as_issued rt s d e"
  shows "vc_pass (package_hash_check rt e)" "vc_pass (signed_hash_check rt e)"
proof -
  let ?h = "JStr (hash_reference rt (JObj (issued_content s d)))"
  from assms have d: "plain_draft d" by (simp add: as_issued_def)
  have "field (integrity_manifest rt (issued_content s d)) ''packageHash'' = ?h"
    by (simp add: integrity_manifest_def issued_content_def coalesce_def)
  moreover have "field (JObj (signed_metadata rt s d @ x)) ''packageHash'' = ?h" for x
    by (simp add: signed_metadata_fields [OF d] coalesce_def)
  ultimately show "vc_pass (package_hash_check rt e)" "vc_pass (signed_hash_check rt e)"
    using assms by (simp_all add: package_hash_pass signed_hash_check_def compare_pass as_issued_def del: field.simps)
qed

lemma issued_sections:
  assumes "as_issued rt s d e"
  shows "\<exists>cs. verify_section_hashes engine rt e = Inr cs \<and> list_all vc_pass cs"
proof -
  let ?c = "issued_content s d"
  have "field (integrity_manifest rt ?c) ''sections'' = JArr (map (section_hash rt ?c) section_names)"
    by (simp add: integrity_manifest_def coalesce_def)
  moreover have "vc_pass (section_check rt ?c (section_hash rt ?c n))" if "n \<in> set section_names" for n
  proof -
    have "n \<in> fst ` set ?c"
      unfolding issued_content_def content_has content_names using that by (auto simp: section_names_def)
    moreover have "field (section_hash rt ?c n) ''name'' = JStr n"
      "field (section_hash rt ?c n) ''hash'' = JStr (hash_reference rt (field (JObj ?c) n))"
      by (simp_all add: section_hash_def Let_def coalesce_def)
    ultimately show ?thesis by (simp add: section_check_def Let_def compare_pass del: field.simps)
  qed
  moreover have "\<not> list_ex (\<lambda>v. v = JUndefined \<or> v = JNull) (map (section_hash rt ?c) section_names)"
    by (auto simp: list_ex_iff section_hash_def Let_def)
  ultimately show ?thesis
    using assms by (auto simp: verify_section_hashes_def as_issued_def or_nullish_def section_names_def list_all_iff simp del: field.simps)
qed

text \<open>\<open>trusts\<close>: the verifier holds the key that belongs to the signer, and it accepts each of its signatures.\<close>

definition accepts_text :: "key_registry \<Rightarrow> evidence_signer \<Rightarrow> string \<Rightarrow> bool" where
  "accepts_text keys s m \<longleftrightarrow> (\<exists>sig k. map_get keys (es_keyId s) = Some k \<and> tk_algorithm k = es_algorithm s \<and>
     es_sign s m = es_algorithm s @ '':'' @ sig \<and> tk_verify k m sig)"

definition trusts :: "key_registry \<Rightarrow> evidence_signer \<Rightarrow> bool" where
  "trusts keys s \<longleftrightarrow> (\<forall>m. accepts_text keys s m)"

lemma issued_signature:
  assumes "as_issued rt s d e" "accepts_text keys s (stable_stringify rt (JObj (signed_metadata rt s d)))"
  shows "\<exists>c. signature_check engine rt keys e = Inr c \<and> vc_pass c"
proof -
  from assms(1) have d: "plain_draft d" by (simp add: as_issued_def)
  obtain t where t: "stable_stringify rt (JObj (signed_metadata rt s d)) = t" by blast
  obtain sig k where k: "map_get keys (es_keyId s) = Some k" "tk_algorithm k = es_algorithm s"
    "es_sign s t = es_algorithm s @ '':'' @ sig" "tk_verify k t sig"
    using assms(2) unfolding accepts_text_def t by blast
  let ?v = "JObj (signed_metadata rt s d @ [(''signature'', JStr (es_algorithm s @ '':'' @ sig))])"
  from assms(1) have v: "field (JObj e) ''signedPackage'' = ?v" by (simp only: as_issued_def t k(3))
  have fields: "field ?v ''keyId'' = JStr (es_keyId s)" "field ?v ''signatureAlgorithm'' = JStr (es_algorithm s)"
    "field ?v ''signature'' = JStr (es_algorithm s @ '':'' @ sig)"
    by (simp_all add: signed_metadata_fields [OF d] coalesce_def)
  have "without_signature ?v = JObj (signed_metadata rt s d)"
    by (simp add: without_signature_def signed_metadata_fields [OF d])
  then have "verify_signed_signature engine rt ?v k = Inr True"
    unfolding verify_signed_signature_def fields by (simp only: t) (simp add: k(4))
  moreover have "\<not> is_falsy ?v" by (simp add: is_falsy_def)
  ultimately show ?thesis
    using k(1,2) unfolding signature_check_def Let_def v fields
    by (simp add: bind_result_def check_pass_def)
qed

lemma map_field_texts: "map_field engine n (JArr (map (\<lambda>x. JObj (f x)) xs)) = Inr (map (\<lambda>x. field (JObj (f x)) n) xs)"
  by (simp add: map_field_def list_ex_iff comp_def)

lemma issued_scope_fields:
  assumes "as_issued rt s d e"
  shows "field (JObj e) ''systemBoundary'' = boundary_js (dr_systemBoundary d)"
    "field (JObj e) ''periodStart'' = JStr (dr_periodStart d)" "field (JObj e) ''periodEnd'' = JStr (dr_periodEnd d)"
    "field (JObj e) ''controls'' = strings_js (dr_controls d)"
    "field (JObj e) ''poamItems'' = JArr (map poam_item_js (dr_poamItems d))"
    "field (JObj e) ''poamExport'' = draft_poam d" "field (JObj e) ''oscal'' = draft_oscal d"
    "field (JObj e) ''controlTraceViews'' = JArr (draft_traces d (es_keyId s))"
    "field (JObj e) ''controlMappings'' = JArr (map mapping_js (dr_controlMappings d))"
proof -
  from assms have "plain_draft d" by (simp add: as_issued_def)
  then show "field (JObj e) ''systemBoundary'' = boundary_js (dr_systemBoundary d)"
    "field (JObj e) ''periodStart'' = JStr (dr_periodStart d)" "field (JObj e) ''periodEnd'' = JStr (dr_periodEnd d)"
    "field (JObj e) ''controls'' = strings_js (dr_controls d)"
    "field (JObj e) ''poamItems'' = JArr (map poam_item_js (dr_poamItems d))"
    "field (JObj e) ''poamExport'' = draft_poam d" "field (JObj e) ''oscal'' = draft_oscal d"
    "field (JObj e) ''controlTraceViews'' = JArr (draft_traces d (es_keyId s))"
    "field (JObj e) ''controlMappings'' = JArr (map mapping_js (dr_controlMappings d))"
    by (simp_all add: issued_field [OF assms] attestation_names_def issued_content_def content_fields built_fields del: field.simps)
qed

lemma issued_metadata:
  assumes "as_issued rt s d e"
  shows "field (field (JObj e) ''signedPackage'') ''deploymentScope'' = scope_js (build_deployment_scope d)"
    "field (field (JObj e) ''signedPackage'') ''packageId'' = JStr (signed_package_id (dr_exportId d))"
    "field (field (JObj e) ''signedPackage'') ''keyId'' = JStr (es_keyId s)"
proof -
  from assms have d: "plain_draft d" by (simp add: as_issued_def)
  show "field (field (JObj e) ''signedPackage'') ''deploymentScope'' = scope_js (build_deployment_scope d)"
    "field (field (JObj e) ''signedPackage'') ''packageId'' = JStr (signed_package_id (dr_exportId d))"
    "field (field (JObj e) ''signedPackage'') ''keyId'' = JStr (es_keyId s)"
    using assms unfolding as_issued_def
    by (simp_all add: signed_metadata_fields [OF d] coalesce_def del: stable_stringify.simps)
qed

lemma issued_scope:
  assumes "as_issued rt s d e" "dr_periodStart d \<noteq> []" "dr_periodEnd d \<noteq> []"
  shows "\<exists>c. deployment_scope_check engine rt e = Inr c \<and> vc_pass c"
proof -
  let ?b = "boundary_js (dr_systemBoundary d)"
  have fields: "field ?b ''components'' = JArr (map component_js (sb_components (dr_systemBoundary d)))"
    "field ?b ''boundaryId'' = JStr (sb_boundaryId (dr_systemBoundary d))"
    "field ?b ''environment'' = JStr (sb_environment (dr_systemBoundary d))"
    "field ?b ''liveTenantData'' = JBool (sb_liveTenantData (dr_systemBoundary d))"
    by (simp_all add: boundary_js_def coalesce_def)
  have ids: "map_field engine ''id'' (JArr (map component_js cs)) = Inr (map JStr (map bc_id cs))" for cs
    using map_field_texts [of engine "''id''"] by (simp add: component_js_def coalesce_def comp_def map_field_def list_ex_iff)
  have "\<not> is_falsy ?b" by (simp add: is_falsy_def boundary_js_def)
  moreover have "\<not> is_falsy (JStr x)" if "x \<noteq> []" for x using that by (simp add: is_falsy_def)
  moreover have "\<not> is_falsy (JArr x)" for x by (simp add: is_falsy_def)
  ultimately have "expected_scope engine e = Inr (scope_js (build_deployment_scope d))"
    using assms(2,3)
    by (simp add: expected_scope_def issued_scope_fields [OF assms(1)] fields ids Let_def bind_result_def or_nullish_def
        scope_js_def build_deployment_scope_def strings_js_def del: field.simps)
  moreover have "strict_equals x x" if "x = stable_comparable rt (scope_js y)" for x y
    using that by (simp add: stable_comparable_def scope_js_def)
  ultimately show ?thesis
    by (simp add: deployment_scope_check_def bind_result_def compare_pass issued_metadata [OF assms(1)] del: field.simps)
qed

lemma issued_oscal:
  assumes "as_issued rt s d e"
  shows "vc_pass (oscal_check rt e)"
proof -
  have "\<not> is_falsy (field (draft_oscal d) n)"
    if "n \<in> {''componentDefinition'', ''systemSecurityPlan'', ''assessmentResults'', ''planOfActionAndMilestones''}" for n
    using that by (auto simp: draft_oscal_def build_oscal_artifacts_def Let_def coalesce_def is_falsy_def draft_poam_def build_poam_export_def)
  then show ?thesis
    by (simp add: oscal_check_def issued_scope_fields [OF assms] Let_def check_pass_def del: field.simps)
qed

lemma issued_poam:
  assumes "as_issued rt s d e"
  shows "\<exists>c. poam_check engine rt e = Inr c \<and> vc_pass c"
proof -
  have "field (draft_poam d) ''items'' = JArr (map poam_item_js (dr_poamItems d))"
    by (simp add: draft_poam_def build_poam_export_def coalesce_def)
  moreover have "map_field engine ''id'' (JArr (map poam_item_js is)) = Inr (map (JStr \<circ> pi_id) is)" for "is"
    by (simp add: map_field_def list_ex_iff poam_item_js_def coalesce_def comp_def)
  ultimately show ?thesis
    by (simp add: poam_check_def issued_scope_fields [OF assms] or_nullish_def bind_result_def compare_pass del: field.simps)
qed

definition trace_of :: "evidence_draft \<Rightarrow> string \<Rightarrow> control_mapping \<Rightarrow> js" where
  "trace_of d k m = hd (build_control_trace_views (dr_exportId d) [m] (dr_controlStatements d)
     (build_deployment_scope d) (draft_oscal d) (signed_package_id (dr_exportId d), k))"

lemma draft_traces_map: "draft_traces d k = map (trace_of d k) (dr_controlMappings d)"
  by (simp add: draft_traces_def trace_of_def build_control_trace_views_def)

definition reviewed_draft :: "evidence_draft \<Rightarrow> bool" where
  "reviewed_draft d \<longleftrightarrow> dr_periodStart d \<noteq> [] \<and> dr_periodEnd d \<noteq> [] \<and>
     (\<forall>s \<in> set (dr_controlStatements d). cs_reviewedAt s \<noteq> [] \<and> cs_reviewerRole s \<noteq> []) \<and>
     (\<forall>m \<in> set (dr_controlMappings d). \<forall>n \<in> set (dr_controlMappings d).
        cm_controlId m = cm_controlId n \<longrightarrow> cm_sourceEventIds m = cm_sourceEventIds n)"

lemma reviewed_nonempty:
  assumes "reviewed_draft d"
  shows "coalesce (map_option cs_reviewerRole (statement_for (dr_controlStatements d) m)) ''Security Control Assessor'' \<noteq> []"
    "coalesce (map_option cs_reviewedAt (statement_for (dr_controlStatements d) m)) (ds_periodEnd (build_deployment_scope d)) \<noteq> []"
  using assms
  by (auto simp: reviewed_draft_def statement_for_def coalesce_def build_deployment_scope_def Let_def find_Some_iff split: option.splits)

lemma trace_fields:
  "field (trace_of d k m) ''controlId'' = JStr (cm_controlId m)"
  "field (trace_of d k m) ''sourceEventIds'' = strings_js (cm_sourceEventIds m)"
  "field (trace_of d k m) ''deploymentScope'' = scope_js (build_deployment_scope d)"
  "field (field (trace_of d k m) ''signatureRef'') ''packageId'' = JStr (signed_package_id (dr_exportId d))"
  "field (field (trace_of d k m) ''signatureRef'') ''keyId'' = JStr k"
  "field (field (trace_of d k m) ''reviewedStatement'') ''reviewedAt'' =
     JStr (coalesce (map_option cs_reviewedAt (statement_for (dr_controlStatements d) m)) (ds_periodEnd (build_deployment_scope d)))"
  "field (field (trace_of d k m) ''reviewedStatement'') ''reviewerRole'' =
     JStr (coalesce (map_option cs_reviewerRole (statement_for (dr_controlStatements d) m)) ''Security Control Assessor'')"
  "\<exists>fs. trace_of d k m = JObj fs" "\<exists>fs. field (trace_of d k m) ''signatureRef'' = JObj fs"
  "\<exists>fs. field (trace_of d k m) ''reviewedStatement'' = JObj fs"
  by (simp_all add: trace_of_def build_control_trace_views_def Let_def)

lemma strict_field_obj: "v = JObj fs \<Longrightarrow> strict_field engine v n = Inr (field v n)"
  by (simp add: strict_field_def)

lemma issued_trace_complete:
  assumes "reviewed_draft d" "keyId \<noteq> []" "cm_sourceEventIds n = cm_sourceEventIds m"
  shows "trace_is_complete engine rt (Some (trace_of d keyId n)) (strings_js (cm_sourceEventIds m))
    (JStr (signed_package_id (dr_exportId d))) (JStr keyId) (scope_js (build_deployment_scope d)) = Inr True"
proof -
  obtain fs where t: "trace_of d keyId n = JObj fs" using trace_fields(8) by blast
  obtain gs where r: "field (trace_of d keyId n) ''signatureRef'' = JObj gs" using trace_fields(9) by blast
  obtain hs where s: "field (trace_of d keyId n) ''reviewedStatement'' = JObj hs" using trace_fields(10) by blast
  have truthy: "\<not> is_falsy (trace_of d keyId n)" "\<not> is_falsy (JStr (signed_package_id x))" "\<not> is_falsy (JStr keyId)"
    "\<not> is_falsy (scope_js y)" for x y
    using assms(2) by (simp_all add: t is_falsy_def signed_package_id_def scope_js_def)
  have spread: "spread_items engine (strings_js xs) = Inr (map JStr xs)" for xs by (simp add: spread_items_def strings_js_def)
  have reviewed: "\<not> is_falsy (JStr x)" if "x \<noteq> []" for x using that by (simp add: is_falsy_def)
  show ?thesis
    using reviewed_nonempty [OF assms(1), of n]
    by (simp add: trace_is_complete_def truthy strict_field_obj [OF r] strict_field_obj [OF s] trace_fields(1-7) spread
        assms(3) bind_result_def reviewed del: field.simps)
qed

lemma find_mem: "find P xs = Some u \<Longrightarrow> u \<in> set xs \<and> P u"
  by (induction xs) (auto split: if_splits)

lemma find_rev_mem: "t \<in> set ts \<Longrightarrow> P t \<Longrightarrow> \<exists>u \<in> set ts. P u \<and> find P (rev ts) = Some u"
  by (cases "find P (rev ts)") (auto simp: find_None_iff dest: find_mem)

lemma issued_trace_for:
  assumes "m \<in> set (dr_controlMappings d)"
  shows "\<exists>n \<in> set (dr_controlMappings d). cm_controlId n = cm_controlId m \<and>
    trace_for (draft_traces d k) (JStr (cm_controlId m)) = Some (trace_of d k n)"
proof -
  let ?p = "\<lambda>t. strict_equals (field t ''controlId'') (JStr (cm_controlId m))"
  have "trace_of d k m \<in> set (draft_traces d k)" "?p (trace_of d k m)"
    using assms by (simp_all add: draft_traces_map trace_fields(1) del: field.simps)
  from find_rev_mem [of _ _ ?p, OF this] obtain n where "n \<in> set (dr_controlMappings d)" "?p (trace_of d k n)"
    "find ?p (rev (draft_traces d k)) = Some (trace_of d k n)"
    unfolding draft_traces_map by auto
  then show ?thesis by (intro bexI [of _ n]) (simp_all add: trace_for_def trace_fields(1) del: field.simps)
qed

lemma mapping_fields:
  "field (mapping_js m) ''controlId'' = JStr (cm_controlId m)"
  "field (mapping_js m) ''sourceEventIds'' = strings_js (cm_sourceEventIds m)"
  "strict_field engine (mapping_js m) ''controlId'' = Inr (JStr (cm_controlId m))"
  by (simp_all add: mapping_js_def strict_field_def coalesce_def)

lemma issued_missing_traces:
  assumes "as_issued rt s d e" "reviewed_draft d" "es_keyId s \<noteq> []" "set ms \<subseteq> set (dr_controlMappings d)"
  shows "missing_traces engine rt (draft_traces d (es_keyId s)) e (map mapping_js ms) = Inr []"
  using assms(4)
proof (induction ms)
  case (Cons m ms)
  from Cons.prems have m: "m \<in> set (dr_controlMappings d)" "set ms \<subseteq> set (dr_controlMappings d)" by simp_all
  from issued_trace_for [OF m(1), of "es_keyId s"]
  obtain n where n: "n \<in> set (dr_controlMappings d)" "cm_controlId n = cm_controlId m"
    "trace_for (draft_traces d (es_keyId s)) (JStr (cm_controlId m)) = Some (trace_of d (es_keyId s) n)"
    by blast
  from assms(2) n(1,2) m(1) have "cm_sourceEventIds n = cm_sourceEventIds m" unfolding reviewed_draft_def by blast
  note complete = issued_trace_complete [OF assms(2,3) this, of engine rt]
  have "missing_traces engine rt (draft_traces d (es_keyId s)) e (mapping_js m # map mapping_js ms) = Inr []"
    by (subst missing_traces.simps(2), simp only: Let_def mapping_fields bind_result_def sum.case n(3) issued_metadata [OF assms(1)])
      (simp only: complete Cons.IH [OF m(2)] sum.case if_True)
  then show ?case by (simp only: list.map)
qed simp

lemma issued_traces:
  assumes "as_issued rt s d e" "reviewed_draft d" "es_keyId s \<noteq> []"
  shows "\<exists>c. trace_check engine rt e = Inr c \<and> vc_pass c"
proof -
  have "trace_of d k m \<noteq> JUndefined \<and> trace_of d k m \<noteq> JNull" for k m using trace_fields(8) [of d k m] by auto
  then have "map_field engine ''controlId'' (JArr (draft_traces d (es_keyId s))) =
      Inr (map (\<lambda>x. field x ''controlId'') (draft_traces d (es_keyId s)))"
    by (simp add: map_field_def list_ex_iff draft_traces_map)
  then have "missing_control_trace_ids engine rt e = Inr []"
    using issued_missing_traces [OF assms subset_refl, of engine]
    by (simp add: missing_control_trace_ids_def issued_scope_fields [OF assms(1)] or_nullish_def
        bind_result_def items_of_def Let_def del: field.simps)
  then show ?thesis by (simp add: trace_check_def bind_result_def check_pass_def)
qed

lemma issued_package_verifies:
  assumes "as_issued rt s d e" "accepts_text keys s (stable_stringify rt (JObj (signed_metadata rt s d)))"
    and "reviewed_draft d" "es_keyId s \<noteq> []"
  shows "\<exists>r. verify_evidence_export engine rt keys wallClock given (JObj e) = Inr r \<and> vr_verified r"
proof -
  obtain cs where "verify_section_hashes engine rt e = Inr cs" "list_all vc_pass cs" using issued_sections [OF assms(1)] by blast
  moreover obtain c1 where "signature_check engine rt keys e = Inr c1" "vc_pass c1" using issued_signature [OF assms(1,2)] by blast
  moreover obtain c2 where "deployment_scope_check engine rt e = Inr c2" "vc_pass c2"
    using issued_scope [OF assms(1), of engine] assms(3) by (auto simp: reviewed_draft_def)
  moreover obtain c3 where "poam_check engine rt e = Inr c3" "vc_pass c3" using issued_poam [OF assms(1)] by blast
  moreover obtain c4 where "trace_check engine rt e = Inr c4" "vc_pass c4" using issued_traces [OF assms(1,3,4)] by blast
  ultimately show ?thesis
    using issued_package_hash [OF assms(1)] issued_oscal [OF assms(1)]
    by (simp add: verify_evidence_export_def verify_package_def bind_result_def Let_def run_check_pass)
qed

subsection \<open>Properties\<close>

text \<open>
  C24: a package that the verifier accepts was issued: if the trusted keys accept no message but those
  signed for a draft that was issued, SHA-256 does not collide on the contents at hand, and the package
  is an object as JSON gives it (no name twice), then its content, everything but the manifest, the
  signature, the embedded checks and the receipt, has the canonical text of the content of an issued
  package: no field can be changed, added or removed without the verifier noticing.
\<close>
theorem verified_packages_were_issued:
  assumes verified: "verify_evidence_export engine rt keys wallClock given (JObj p) = Inr r" "vr_verified r"
    and json: "js_wf (JObj p)" "number_text_ok rt"
    and plain: "\<forall>(s, d) \<in> issued. plain_draft d"
    and unforged: "\<forall>(i, k) \<in> set keys. \<forall>m t. tk_verify k m t \<longrightarrow> m \<in> signed_texts rt issued"
    and hash: "inj_on (sha256_hex rt) (insert (stable_stringify rt (JObj (canonical_content p))) (issued_texts rt issued))"
  shows "stable_stringify rt (JObj (canonical_content p)) \<in> issued_texts rt issued"
proof -
  let ?signed = "field (JObj p) ''signedPackage''"
  from verified have checks: "vc_pass (package_hash_check rt p)" "vc_pass (signed_hash_check rt p)"
    "\<exists>c. signature_check engine rt keys p = Inr c \<and> vc_pass c"
    using verified_checks [of engine rt keys wallClock given p r] by (auto simp: verify_evidence_export_def)
  from checks(3) obtain i k sig where "(i, k) \<in> set keys" "tk_verify k (stable_stringify rt (without_signature ?signed)) sig"
    using signature_pass by blast
  with unforged have "stable_stringify rt (without_signature ?signed) \<in> signed_texts rt issued" by blast
  then obtain s d where sd: "(s, d) \<in> issued"
    "stable_stringify rt (without_signature ?signed) = stable_stringify rt (JObj (signed_metadata rt s d))"
    by (auto simp: signed_texts_def)
  from sd(1) plain have d: "plain_draft d" by blast
  obtain fs where fs: "without_signature ?signed = JObj fs" using without_signature_obj by blast
  have wf: "js_wf (JObj fs)"
    using without_signature_wf [OF field_wf [OF json(1), of "''signedPackage''"]] by (simp only: fs)
  have canon: "js_canon (JObj (signed_metadata rt s d)) = js_canon (JObj fs)"
    using stringify_inject [OF json(2) wf signed_metadata_wf [OF d, of rt s]] sd(2) by (simp only: fs)
  have "map_of (signed_metadata rt s d) ''packageHash'' = Some (JStr (hash_reference rt (JObj (issued_content s d))))"
    by (simp add: signed_metadata_fields [OF d])
  from canon_text_field [OF canon _ this] wf
  have "field (JObj fs) ''packageHash'' = JStr (hash_reference rt (JObj (issued_content s d)))"
    by (simp add: coalesce_def)
  then have "field ?signed ''packageHash'' = JStr (hash_reference rt (JObj (issued_content s d)))"
    using without_signature_field [of ?signed] by (simp only: fs)
  with checks(1,2) have "hash_reference rt (JObj (canonical_content p)) = hash_reference rt (JObj (issued_content s d))"
    by (simp add: package_hash_pass signed_hash_check_def compare_pass del: field.simps)
  then have "sha256_hex rt (stable_stringify rt (JObj (canonical_content p))) = sha256_hex rt (stable_stringify rt (JObj (issued_content s d)))"
    by (simp add: hash_reference_def sha256_def)
  moreover have mem: "stable_stringify rt (JObj (issued_content s d)) \<in> issued_texts rt issued"
    using sd(1) by (force simp: issued_texts_def)
  ultimately have "stable_stringify rt (JObj (canonical_content p)) = stable_stringify rt (JObj (issued_content s d))"
    using hash by (auto dest: inj_onD)
  with mem show ?thesis by simp
qed


lemma finalized_as_issued:
  assumes "finalize_evidence_export engine rt s keys None None wallClock d = Inr p" "plain_draft d"
  shows "as_issued rt s d p"
proof -
  let ?q = "attach_signed_package rt s (attach_integrity_manifest rt (issued_content s d))"
  from assms(1) obtain v where "p = map_set ''verifierChecks'' v ?q"
    by (auto simp: finalize_evidence_export_def Let_def issued_content_def coalesce_def split: sum.splits)
      (auto simp: map_sum_def split: sum.splits)
  with as_issued_attached [of d "''verifierChecks''"] assms(2) show ?thesis by simp
qed


lemma mapping_id [simp]: "cm_controlId (build_control_mapping es c) = c"
  by (simp add: build_control_mapping_def Let_def split: option.splits)

lemma runtime_draft:
  assumes "d = evidence_draft_of a controls fmt fw generated start stop es report g poam"
  shows "plain_draft d" "start \<noteq> [] \<Longrightarrow> stop \<noteq> [] \<Longrightarrow> generated \<noteq> [] \<Longrightarrow> reviewed_draft d"
    "dr_periodStart d = start" "dr_periodEnd d = stop" "dr_generatedAt d = generated"
  using assms
  by (auto simp: plain_draft_def reviewed_draft_def evidence_draft_of_def Let_def build_control_statement_def)

text \<open>What a run returns, if it returns.\<close>

definition yields :: "('a \<Rightarrow> bool) \<Rightarrow> ('c, 'p, 'a) run \<Rightarrow> bool" where
  "yields P m \<longleftrightarrow> (\<forall>a x b. m a = (Inr x, b) \<longrightarrow> P x)"

lemma yields_give: "P x \<Longrightarrow> yields P (give x)"
  by (simp add: yields_def give_def)

lemma yields_andthen: "(\<And>x. yields P (f x)) \<Longrightarrow> yields P (andthen m f)"
  unfolding yields_def andthen_Inr by blast

lemma yields_look: "(\<And>a. yields P (f (g a))) \<Longrightarrow> yields P (andthen (look g) f)"
  unfolding yields_def andthen_Inr look_def by blast

lemma yields_lift_thrown: "(\<And>x. r = Inr x \<Longrightarrow> yields P (f x)) \<Longrightarrow> yields P (andthen (lift_thrown r) f)"
  by (cases r) (simp_all add: lift_thrown_def yields_def andthen_Inr give_def raise_def)

lemma finalized_export:
  assumes "finalize_evidence_export engine rt s keys None None wallClock
      (evidence_draft_of a controls fmt fw generated start stop es report g poam) = Inr q"
  shows "\<exists>d. as_issued rt s d (case x of None \<Rightarrow> q | Some r \<Rightarrow> map_set ''storageReceipt'' (JObj r) q) \<and>
    (dr_periodStart d \<noteq> [] \<longrightarrow> dr_periodEnd d \<noteq> [] \<longrightarrow> dr_generatedAt d \<noteq> [] \<longrightarrow> reviewed_draft d)"
proof -
  let ?d = "evidence_draft_of a controls fmt fw generated start stop es report g poam"
  note d = runtime_draft [of ?d, OF refl]
  from finalized_as_issued [OF assms d(1)] have "as_issued rt s ?d q" .
  then have "as_issued rt s ?d (case x of None \<Rightarrow> q | Some r \<Rightarrow> map_set ''storageReceipt'' (JObj r) q)"
    using as_issued_attached(2) [OF d(1), of "''storageReceipt''"] by (simp split: option.split)
  with d show ?thesis by metis
qed

lemma exported_as_issued:
  "yields (\<lambda>p. \<exists>d. as_issued rt (es_signer services) d p \<and>
      (dr_periodStart d \<noteq> [] \<longrightarrow> dr_periodEnd d \<noteq> [] \<longrightarrow> dr_generatedAt d \<noteq> [] \<longrightarrow> reviewed_draft d))
    (export_evidence_package rt services controls fmt framework from until)"
  unfolding export_evidence_package_def Let_def
  by (intro yields_look yields_lift_thrown yields_andthen yields_give) (rule finalized_export)

text \<open>
  C25: a package that the runtime exports passes the verifier, with its storage receipt if it has one:
  when the verifier trusts the key of the signer, and the times of the package are not empty texts,
  then, under whatever time and whatever messages of the engine, no check throws and every check passes.
\<close>
theorem exported_packages_verify:
  assumes "export_evidence_package rt services controls fmt framework from until a = (Inr p, b)"
    and "trusts (es_keys services) (es_signer services)" "es_keyId (es_signer services) \<noteq> []"
    and "\<forall>n \<in> {''periodStart'', ''periodEnd'', ''generatedAt''}. field (JObj p) n \<noteq> JStr []"
  shows "\<exists>r. verify_evidence_export engine rt (es_keys services) wallClock given (JObj p) = Inr r \<and> vr_verified r"
proof -
  obtain d where d: "as_issued rt (es_signer services) d p"
    "dr_periodStart d \<noteq> [] \<longrightarrow> dr_periodEnd d \<noteq> [] \<longrightarrow> dr_generatedAt d \<noteq> [] \<longrightarrow> reviewed_draft d"
    using exported_as_issued [of rt services controls fmt framework "from" until] assms(1) unfolding yields_def by metis
  have "field (JObj p) ''generatedAt'' = JStr (dr_generatedAt d)"
    using issued_field [OF d(1), of "''generatedAt''"]
    by (simp add: attestation_names_def issued_content_def content_fields del: field.simps)
  with assms(4) issued_scope_fields(2,3) [OF d(1)] d(2) have "reviewed_draft d" by simp
  from issued_package_verifies [OF d(1) _ this assms(3)] assms(2) show ?thesis by (simp add: trusts_def)
qed

subsection \<open>An export of an app that has just started\<close>

lemma finalize_returns:
  assumes "plain_draft d"
  shows "\<exists>p. finalize_evidence_export engine rt s keys None None wallClock d = Inr p"
proof -
  let ?q = "map_set ''verifierChecks'' (JArr []) (attach_signed_package rt s (attach_integrity_manifest rt (issued_content s d)))"
  have "as_issued rt s d ?q" using as_issued_attached [OF assms, of "''verifierChecks''"] by simp
  from issued_sections [OF this] obtain cs where "verify_section_hashes engine rt ?q = Inr cs" by blast
  then show ?thesis
    by (simp add: finalize_evidence_export_def Let_def coalesce_def issued_content_def verify_evidence_export_def verify_package_def
        bind_result_def)
qed

lemma perform_step: "andthen (perform f) g a = g (fst (f a)) (snd (f a))"
  by (simp add: andthen_def perform_def split: prod.split)

lemma look_step: "andthen (look f) g a = g (f a) a"
  by (simp add: andthen_def look_def)

lemma lift_thrown_step: "andthen (lift_thrown (Inr x)) g a = g x a"
  by (simp add: andthen_def lift_thrown_def give_def)

lemma lift_range_step: "andthen (lift_range (Inr x)) g a = g x a"
  by (simp add: andthen_def lift_range_def give_def)

lemma change_step: "andthen (change f) g a = g () (f a)"
  by (simp add: andthen_def change_def)

lemma always_returns:
  "\<exists>x b. collect_each (\<lambda>v. change (g v)) vs a = (Inr x, b)"
  "\<exists>x b. audit rt i p a = (Inr x, b)"
  "\<exists>x b. write_package services package t a = (Inr x, b)"
proof -
  show "\<exists>x b. collect_each (\<lambda>v. change (g v)) vs a = (Inr x, b)"
  proof (induction vs arbitrary: a)
    case (Cons v vs)
    from Cons.IH [of "g v a"] obtain xs b where "collect_each (\<lambda>v. change (g v)) vs (g v a) = (Inr xs, b)" by blast
    then have "collect_each (\<lambda>v. change (g v)) (v # vs) a = (Inr (() # xs), b)"
      unfolding collect_each.simps change_step by (simp only: andthen_simps give_def)
    then show ?case by blast
  qed (simp add: give_def)
  show "\<exists>x b. audit rt i p a = (Inr x, b)"
    by (simp add: audit_def perform_def split: prod.split)
  show "\<exists>x b. write_package services package t a = (Inr x, b)"
    by (auto simp: write_package_def split: option.split prod.split sum.split)
qed

lemma materialize_returns:
  assumes "list_drift_findings (app_store a) no_drift_filter = []" "list_campaigns (app_store a) = []"
    and "add_days t 30 = Inr due"
  shows "\<exists>g b. materialize_governance collate es t a = (Inr g, b)"
proof -
  have bound: "bind_result (Inr x) f = f x" for x :: 'y and f :: "'y \<Rightarrow> range_error + 'z"
    by (simp add: bind_result_def)
  have built: "\<exists>g. build_access_review_governance collate input = Inr g"
    if "gi_generatedAt input = t" "gi_driftFindings input = []" "gi_existingCampaigns input = []" for input
  proof -
    have "\<exists>c. build_access_review_campaign None input fs rs = Inr c" for fs rs
      using assms(3) that(1) by (simp add: build_access_review_campaign_def kept_or_days_def bind_result_def Let_def)
    moreover have "map_get (to_id_map ([] :: access_review_campaign list)) i = None" for i
      by (simp add: to_id_map_def map_put_all_def)
    ultimately show ?thesis
      unfolding build_access_review_governance_def Let_def that(2,3) govern_findings.simps bound prod.case
      by (metis bound)
  qed
  then obtain g where g: "build_access_review_governance collate
      \<lparr>gi_generatedAt = t, gi_subjectCount = length (list_subjects (app_store a)), gi_resourceCount = length (list_resources (app_store a)),
       gi_sourceEventIds = source_event_ids_for_access_review es, gi_driftFindings = list_drift_findings (app_store a) no_drift_filter,
       gi_existingCampaigns = list_campaigns (app_store a), gi_existingFindings = list_governance_findings (app_store a) None None,
       gi_existingExceptionRequests = list_exception_requests (app_store a) None\<rparr> = Inr g"
    using built assms(1,2) by (metis governance_input.select_convs(1,5,6))
  obtain x1 b1 where c1: "collect_each (\<lambda>c. change (\<lambda>a. persist_job (Write_campaign c) t (with_store (upsert_campaign c) a)))
      (gr_campaigns g) a = (Inr x1, b1)"
    using always_returns(1) [of "\<lambda>c a. persist_job (Write_campaign c) t (with_store (upsert_campaign c) a)"] by blast
  obtain x2 b2 where c2: "collect_each (\<lambda>f. change (\<lambda>a. persist_job (Write_governance_finding f) t
      (with_store (upsert_governance_finding f) a))) (gr_findings g) b1 = (Inr x2, b2)"
    using always_returns(1) [of "\<lambda>f a. persist_job (Write_governance_finding f) t (with_store (upsert_governance_finding f) a)"] by blast
  obtain x3 b3 where c3: "collect_each (\<lambda>r. change (\<lambda>a. persist_job (Write_exception_request r) t
      (with_store (upsert_exception_request r) a))) (gr_exceptionRequests g) b2 = (Inr x3, b3)"
    using always_returns(1) [of "\<lambda>r a. persist_job (Write_exception_request r) t (with_store (upsert_exception_request r) a)"] by blast
  show ?thesis
    unfolding materialize_governance_def Let_def look_step g lift_range_step
    by (simp only: andthen_simps(2) c1 c2 c3 give_def) blast
qed

lemma export_returns:
  assumes "verify_runtime_audit_integrity rt (app_clock a (app_ticks a)) (snd (app_now a)) = Inr report"
    and "list_drift_findings (app_store a) no_drift_filter = []" "list_campaigns (app_store a) = []"
    and "add_days (app_clock a (app_ticks a)) 30 = Inr due"
  shows "\<exists>p b d. export_evidence_package rt services controls fmt framework from until a = (Inr p, b) \<and>
    as_issued rt (es_signer services) d p \<and>
    dr_periodStart d = coalesce from (first_time (list_audit_events (app_store a) no_audit_filter) (app_clock a (app_ticks a))) \<and>
    dr_periodEnd d = coalesce until (app_clock a (app_ticks a)) \<and> dr_generatedAt d = app_clock a (app_ticks a)"
proof -
  let ?t = "app_clock a (app_ticks a)" and ?a = "snd (app_now a)"
  let ?all = "list_audit_events (app_store ?a) no_audit_filter"
  let ?start = "coalesce from (first_time ?all ?t)" and ?stop = "coalesce until ?t"
  let ?es = "events_between ?start ?stop ?all"
  have now: "fst (app_now a) = ?t" "app_store ?a = app_store a" by (simp_all add: app_now_def app_store_def)
  obtain g b1 where g: "materialize_governance (es_collate services) ?es ?t ?a = (Inr g, b1)"
    using materialize_returns [of ?a ?t due] assms(2-4) by (metis now(2))
  obtain poam where poam: "build_poam_items (map (build_control_mapping ?es) controls) report ?t (gr_findings g) = Inr poam"
    using assms(4) by (auto simp: build_poam_items_def bind_result_def)
  let ?d = "evidence_draft_of b1 controls fmt (coalesce framework Nist_800_53) ?t ?start ?stop ?es report g poam"
  obtain p where p: "finalize_evidence_export (es_engine services) rt (es_signer services) (es_keys services) None None
      (es_wallClock services) ?d = Inr p"
    using finalize_returns [of ?d] runtime_draft(1) [OF refl] by metis
  let ?i = "evidence_audit ''evidence.generated'' (app_actor b1) (''corr:evidence:'' @ compact_timestamp ?t) p"
  obtain e b2 where e: "audit rt ?i False b1 = (Inr e, b2)" using always_returns(2) by blast
  obtain v b3 where v: "write_package services p (occurredAt e) b2 = (Inr v, b3)" using always_returns(3) by blast
  let ?p = "case v of None \<Rightarrow> p | Some r \<Rightarrow> map_set ''storageReceipt'' (JObj r) p"
  note d = runtime_draft [of ?d, OF refl]
  have "as_issued rt (es_signer services) ?d ?p"
    using finalized_as_issued [OF p d(1)] as_issued_attached(2) [OF d(1), of "''storageReceipt''"] by (simp split: option.split)
  moreover have "\<exists>b. export_evidence_package rt services controls fmt framework from until a = (Inr ?p, b)"
    unfolding export_evidence_package_def perform_step look_step now(1) Let_def assms(1) lift_thrown_step
    by (simp only: andthen_simps(2) g poam lift_range_step look_step p lift_thrown_step e v change_step give_def) blast
  ultimately show ?thesis using d(3-5) now(2) by metis
qed

subsection \<open>Witnesses\<close>

definition sample_signer :: evidence_signer where
  "sample_signer = create_evidence_signer ''key'' (\<lambda>m. m) None None"

definition sample_services :: "unit evidence_services" where
  "sample_services =
    \<lparr>es_engine = (\<lambda>k. k), es_signer = sample_signer,
     es_keys = [(''key'', \<lparr>tk_algorithm = default_signature_algorithm, tk_verify = (\<lambda>m sig. sig = m)\<rparr>)],
     es_wallClock = ''2026'', es_collate = (\<lambda>s t. 0), es_repository = None\<rparr>"

lemma sample_trusted: "trusts (es_keys sample_services) (es_signer sample_services)" "es_keyId (es_signer sample_services) \<noteq> []"
  by (simp_all add: trusts_def accepts_text_def sample_services_def sample_signer_def create_evidence_signer_def Let_def coalesce_def)

lemma exported_packages_verify_witness:
  "\<exists>a p b. create_local_app quiet_runtime empty_options = Inr a \<and>
     export_evidence_package quiet_runtime sample_services [''AC-2''] Format_json None None None a = (Inr p, b) \<and>
     (\<exists>r. verify_evidence_export (\<lambda>k. k) quiet_runtime (es_keys sample_services) ''2027'' None (JObj p) = Inr r \<and> vr_verified r)"
proof -
  obtain a where a: "create_local_app quiet_runtime empty_options = Inr a" "app_store a = empty_store"
    "app_persistence a = no_persistence" "app_clock a = (\<lambda>_. ''2026'')" by (rule empty_start)
  have "case add_days ''2026'' 30 of Inl _ \<Rightarrow> False | Inr _ \<Rightarrow> True" by code_simp
  then obtain due where "add_days ''2026'' 30 = Inr due" by (auto split: sum.splits)
  moreover have "verify_runtime_audit_integrity quiet_runtime ''2026'' (snd (app_now a)) = Inr (verify_audit_chain quiet_runtime [] ''2026'')"
    using a by (simp add: verify_runtime_audit_integrity_def authoritative_audit_events_def initial_audit_events_def
        list_audit_events_def app_now_def app_store_def empty_store_def no_persistence_def)
  moreover have "list_drift_findings (app_store a) no_drift_filter = []" "list_campaigns (app_store a) = []"
    "list_audit_events (app_store a) no_audit_filter = []"
    by (simp_all add: a(2) list_drift_findings_def list_campaigns_def list_audit_events_def empty_store_def)
  ultimately obtain p b d where p:
      "export_evidence_package quiet_runtime sample_services [''AC-2''] Format_json None None None a = (Inr p, b)"
      "as_issued quiet_runtime (es_signer sample_services) d p"
      "dr_periodStart d = ''2026''" "dr_periodEnd d = ''2026''" "dr_generatedAt d = ''2026''"
    using export_returns [of quiet_runtime a "verify_audit_chain quiet_runtime [] ''2026''" due sample_services "[''AC-2'']" Format_json
        None None None]
    by (simp add: a(4) coalesce_def first_time_def) blast
  have "\<forall>n \<in> {''periodStart'', ''periodEnd'', ''generatedAt''}. field (JObj p) n = JStr ''2026''"
    using issued_field [OF p(2)] p(3-5) by (simp add: attestation_names_def issued_content_def content_fields del: field.simps)
  then have "\<forall>n \<in> {''periodStart'', ''periodEnd'', ''generatedAt''}. field (JObj p) n \<noteq> JStr []" by simp
  from exported_packages_verify [OF p(1) sample_trusted this] a(1) p(1) show ?thesis by blast
qed

text \<open>A signer of one draft, and a key that accepts what it signed for that draft and nothing else.\<close>

definition ratio_runtime :: runtime where
  "ratio_runtime = \<lparr>sha256_hex = (\<lambda>s. s), number_text = ratio_text\<rparr>"

definition sample_evidence :: evidence_draft where
  "sample_evidence =
    \<lparr>dr_exportId = ''evidence:1'', dr_framework = Nist_800_53, dr_controls = [''AC-2''], dr_periodStart = ''2026'', dr_periodEnd = ''2027'',
     dr_generatedAt = ''2027'', dr_evidenceTypes = [], dr_sourceEventIds = [], dr_responsibleRole = ''ISSO'', dr_format = Format_json,
     dr_auditIntegrity = JObj [], dr_controlMappings = [build_control_mapping [] ''AC-2''], dr_artifacts = [], dr_conmonMetrics = [],
     dr_poamItems = [], dr_siemExport = JObj [],
     dr_systemBoundary = \<lparr>sb_boundaryId = ''b'', sb_name = ''b'', sb_description = [], sb_environment = ''local_proof_point'',
       sb_liveTenantData = False, sb_components = [], sb_externalSystems = [], sb_assumptions = [], sb_version = ''system-boundary:v1''\<rparr>,
     dr_dataFlows = [], dr_controlStatements = [build_control_statement [] ''2027'' (build_control_mapping [] ''AC-2'')],
     dr_accessReviews = [], dr_exceptionRegister = [], dr_operationalEvidence = [],
     dr_poamExport = None, dr_oscal = None, dr_controlTraceViews = None\<rparr>"

definition sample_package :: json_record where
  "sample_package = attach_signed_package ratio_runtime sample_signer
     (attach_integrity_manifest ratio_runtime (issued_content sample_signer sample_evidence))"

lemma set_wf: "js_wf (JObj e) \<Longrightarrow> js_wf v \<Longrightarrow> js_wf (JObj (map_set k v e))"
proof -
  assume "js_wf (JObj e)" "js_wf v"
  moreover from this(1) have "distinct (map fst (map_set k v e))" by (simp add: distinct_update)
  ultimately show ?thesis using set_map_set_subset [of k v e] by (fastforce simp: list_all_iff)
qed

lemma manifest_wf: "js_wf (field (JObj e) ''generatedAt'') \<Longrightarrow> js_wf (integrity_manifest rt e)"
  by (simp add: integrity_manifest_def verifier_documentation_def section_hash_def js_nat_def list_all_iff Let_def
      split: js.split del: field.simps)

lemma sample_package_json: "js_wf (JObj sample_package)"
proof -
  let ?c = "issued_content sample_signer sample_evidence"
  have d: "plain_draft sample_evidence" by (simp add: plain_draft_def sample_evidence_def)
  have "js_wf (JObj ?c)" by code_simp
  moreover have "js_wf (integrity_manifest ratio_runtime ?c)"
    by (rule manifest_wf) (simp add: issued_content_def content_fields del: field.simps)
  ultimately have content: "js_wf (JObj (attach_integrity_manifest ratio_runtime ?c))"
    unfolding attach_integrity_manifest_def by (rule set_wf)
  have "js_wf (JObj (signed_metadata ratio_runtime sample_signer sample_evidence @ [(''signature'', JStr x)]))" for x
    using signed_metadata_wf [OF d, of ratio_runtime sample_signer] by (simp add: signed_metadata_fields [OF d])
  with content show ?thesis
    unfolding sample_package_def attach_signed_package_def Let_def signed_metadata_def by (intro set_wf)
qed

lemma verified_packages_were_issued_witness:
  "stable_stringify ratio_runtime (JObj (canonical_content sample_package)) \<in>
     issued_texts ratio_runtime {(sample_signer, sample_evidence)}"
proof -
  let ?m = "stable_stringify ratio_runtime (JObj (signed_metadata ratio_runtime sample_signer sample_evidence))"
  let ?keys = "[(''key'', \<lparr>tk_algorithm = default_signature_algorithm, tk_verify = (\<lambda>m sig. m = ?m \<and> sig = m)\<rparr>)]"
  let ?issued = "{(sample_signer, sample_evidence)}"
  have d: "plain_draft sample_evidence" by (simp add: plain_draft_def sample_evidence_def)
  have accepts: "accepts_text ?keys sample_signer ?m"
    by (simp add: accepts_text_def sample_signer_def create_evidence_signer_def Let_def coalesce_def del: stable_stringify.simps)
  have reviewed: "reviewed_draft sample_evidence"
    by (simp add: reviewed_draft_def sample_evidence_def build_control_statement_def)
  have key: "es_keyId sample_signer \<noteq> []" by (simp add: sample_signer_def create_evidence_signer_def Let_def)
  have "as_issued ratio_runtime sample_signer sample_evidence sample_package"
    unfolding sample_package_def using as_issued_attached(1) [OF d] by blast
  from issued_package_verifies [OF this accepts reviewed key] obtain r where
    r: "verify_evidence_export (\<lambda>k. k) ratio_runtime ?keys ''2027'' None (JObj sample_package) = Inr r" "vr_verified r" by blast
  have numbers: "number_text_ok ratio_runtime" unfolding ratio_runtime_def by (rule ratio_text_ok)
  have plain: "\<forall>(s, d) \<in> ?issued. plain_draft d" using d by simp
  have unforged: "\<forall>(i, k) \<in> set ?keys. \<forall>m t. tk_verify k m t \<longrightarrow> m \<in> signed_texts ratio_runtime ?issued"
    by (simp add: signed_texts_def del: stable_stringify.simps)
  have hash: "inj_on (sha256_hex ratio_runtime) x" for x
    by (simp add: ratio_runtime_def)
  from verified_packages_were_issued [OF r sample_package_json numbers plain unforged hash] show ?thesis .
qed

end
