(* ===== verification/Admin_Authorization.thy ===== *)
theory Admin_Authorization
  imports Runtime_State Js_Regexp "HOL-Library.Sublist"
begin

text \<open>
  The description of the administrative boundary, \<open>packages/core/src/admin-authorization.ts\<close>: the
  descriptor, the search for secret material in it, and the seven checks of its readiness. Durations
  are numbers, not only integers. The keys of the descriptor are read in the order of the interface.
\<close>

subsection \<open>The descriptor\<close>

datatype admin_authentication_mode = Local_bearer_token | Idp_gateway | Mtls_authentication
datatype admin_ingress_mode = No_ingress | Identity_aware_gateway | Mtls_gateway
datatype admin_secrets_manager =
    Local_env | External_secret_manager | Aws_secrets_manager | Azure_key_vault | Gcp_secret_manager | Hashicorp_vault

record admin_authentication =
  auth_mode :: admin_authentication_mode
  auth_provider :: string
  auth_issuer :: "string option"
  auth_subjectClaim :: string
  auth_groupsClaim :: "string option"
  auth_mfaRequired :: bool
  auth_sessionTtlMinutes :: rat
  auth_revocationSlaMinutes :: rat
  auth_evidenceRefs :: "string list"

record admin_ingress =
  ing_mode :: admin_ingress_mode
  ing_mtlsRequired :: bool
  ing_trustedIdentityHeaders :: "string list"
  ing_certificateAuthorityRef :: "string option"
  ing_evidenceRefs :: "string list"

record admin_rebac =
  adr_policyId :: "canonical_id option"
  adr_separate :: bool
  adr_leastPrivilegeRoles :: "string list"
  adr_roleBindings :: "string list"
  adr_revocationSlaMinutes :: rat
  adr_evidenceRefs :: "string list"

record admin_secrets =
  sec_manager :: admin_secrets_manager
  sec_secretRefs :: "string list"
  sec_rotationDays :: rat
  sec_noPlaintextEnvironmentSecrets :: bool
  sec_evidenceRefs :: "string list"

record admin_emergency =
  eme_breakGlassApprovalRequired :: bool
  eme_breakGlassApproverRoles :: "string list"
  eme_temporaryElevationMaxMinutes :: rat
  eme_incidentModeNotificationTargets :: "string list"
  eme_postActionReviewRequired :: bool
  eme_evidenceRefs :: "string list"

record admin_audit =
  aud_auditEventTypes :: "string list"
  aud_evidenceExportRequired :: bool
  aud_evidenceRefs :: "string list"

record admin_descriptor =
  ad_version :: string
  ad_authentication :: admin_authentication
  ad_ingress :: admin_ingress
  ad_adminRebac :: admin_rebac
  ad_secrets :: admin_secrets
  ad_emergency :: admin_emergency
  ad_audit :: admin_audit

datatype admin_readiness_status = Admin_ready | Admin_blocked

record admin_readiness_check =
  adc_name :: string
  adc_status :: check_status
  adc_message :: string
  adc_evidence :: json_record

record admin_readiness_report =
  adm_id :: canonical_id
  adm_status :: admin_readiness_status
  adm_checkedAt :: iso_date_time
  adm_descriptorVersion :: string
  adm_authenticationMode :: admin_authentication_mode
  adm_checks :: "admin_readiness_check list"
  adm_version :: string

fun authentication_mode_text :: "admin_authentication_mode \<Rightarrow> string" where
  "authentication_mode_text Local_bearer_token = ''local_bearer_token''"
| "authentication_mode_text Idp_gateway = ''idp_gateway''"
| "authentication_mode_text Mtls_authentication = ''mtls_gateway''"

fun ingress_mode_text :: "admin_ingress_mode \<Rightarrow> string" where
  "ingress_mode_text No_ingress = ''none''"
| "ingress_mode_text Identity_aware_gateway = ''identity_aware_gateway''"
| "ingress_mode_text Mtls_gateway = ''mtls_gateway''"

fun secrets_manager_text :: "admin_secrets_manager \<Rightarrow> string" where
  "secrets_manager_text Local_env = ''local_env''"
| "secrets_manager_text External_secret_manager = ''external_secret_manager''"
| "secrets_manager_text Aws_secrets_manager = ''aws_secrets_manager''"
| "secrets_manager_text Azure_key_vault = ''azure_key_vault''"
| "secrets_manager_text Gcp_secret_manager = ''gcp_secret_manager''"
| "secrets_manager_text Hashicorp_vault = ''hashicorp_vault''"

definition admin_texts :: "string list \<Rightarrow> js" where
  "admin_texts ss = JArr (map JStr ss)"

definition descriptor_js :: "admin_descriptor \<Rightarrow> js" where
  "descriptor_js d =
     (let a = ad_authentication d; i = ad_ingress d; r = ad_adminRebac d; s = ad_secrets d; e = ad_emergency d; u = ad_audit d
      in JObj
       [(''version'', JStr (ad_version d)),
        (''authentication'', JObj
          [(''mode'', JStr (authentication_mode_text (auth_mode a))), (''provider'', JStr (auth_provider a)),
           (''issuer'', opt_str (auth_issuer a)), (''subjectClaim'', JStr (auth_subjectClaim a)),
           (''groupsClaim'', opt_str (auth_groupsClaim a)), (''mfaRequired'', JBool (auth_mfaRequired a)),
           (''sessionTtlMinutes'', JNum (auth_sessionTtlMinutes a)),
           (''revocationSlaMinutes'', JNum (auth_revocationSlaMinutes a)), (''evidenceRefs'', admin_texts (auth_evidenceRefs a))]),
        (''ingress'', JObj
          [(''mode'', JStr (ingress_mode_text (ing_mode i))), (''mtlsRequired'', JBool (ing_mtlsRequired i)),
           (''trustedIdentityHeaders'', admin_texts (ing_trustedIdentityHeaders i)),
           (''certificateAuthorityRef'', opt_str (ing_certificateAuthorityRef i)), (''evidenceRefs'', admin_texts (ing_evidenceRefs i))]),
        (''adminRebac'', JObj
          [(''policyId'', opt_str (adr_policyId r)), (''separateFromApplicationAuthorization'', JBool (adr_separate r)),
           (''leastPrivilegeRoles'', admin_texts (adr_leastPrivilegeRoles r)), (''roleBindings'', admin_texts (adr_roleBindings r)),
           (''revocationSlaMinutes'', JNum (adr_revocationSlaMinutes r)), (''evidenceRefs'', admin_texts (adr_evidenceRefs r))]),
        (''secrets'', JObj
          [(''manager'', JStr (secrets_manager_text (sec_manager s))), (''secretRefs'', admin_texts (sec_secretRefs s)),
           (''rotationDays'', JNum (sec_rotationDays s)),
           (''noPlaintextEnvironmentSecrets'', JBool (sec_noPlaintextEnvironmentSecrets s)),
           (''evidenceRefs'', admin_texts (sec_evidenceRefs s))]),
        (''emergency'', JObj
          [(''breakGlassApprovalRequired'', JBool (eme_breakGlassApprovalRequired e)),
           (''breakGlassApproverRoles'', admin_texts (eme_breakGlassApproverRoles e)),
           (''temporaryElevationMaxMinutes'', JNum (eme_temporaryElevationMaxMinutes e)),
           (''incidentModeNotificationTargets'', admin_texts (eme_incidentModeNotificationTargets e)),
           (''postActionReviewRequired'', JBool (eme_postActionReviewRequired e)),
           (''evidenceRefs'', admin_texts (eme_evidenceRefs e))]),
        (''audit'', JObj
          [(''auditEventTypes'', admin_texts (aud_auditEventTypes u)),
           (''evidenceExportRequired'', JBool (aud_evidenceExportRequired u)),
           (''evidenceRefs'', admin_texts (aud_evidenceRefs u))])])"

text \<open>\<open>createLocalBearerTokenAdminAuthorizationDescriptor\<close> and its default argument.\<close>

definition default_evidence_refs :: "string list" where
  "default_evidence_refs = [''docs/security-model.md#authentication'']"

definition local_bearer_token_descriptor :: "string list \<Rightarrow> admin_descriptor" where
  "local_bearer_token_descriptor refs =
     \<lparr>ad_version = ''admin-authorization:v1'',
      ad_authentication = \<lparr>auth_mode = Local_bearer_token, auth_provider = ''local-api-key-proof-point'', auth_issuer = None,
        auth_subjectClaim = ''bearer-token'', auth_groupsClaim = None, auth_mfaRequired = False, auth_sessionTtlMinutes = 0,
        auth_revocationSlaMinutes = 1440, auth_evidenceRefs = refs\<rparr>,
      ad_ingress = \<lparr>ing_mode = No_ingress, ing_mtlsRequired = False, ing_trustedIdentityHeaders = [],
        ing_certificateAuthorityRef = None, ing_evidenceRefs = refs\<rparr>,
      ad_adminRebac = \<lparr>adr_policyId = None, adr_separate = False, adr_leastPrivilegeRoles = [], adr_roleBindings = [],
        adr_revocationSlaMinutes = 1440, adr_evidenceRefs = refs\<rparr>,
      ad_secrets = \<lparr>sec_manager = Local_env, sec_secretRefs = [], sec_rotationDays = 365,
        sec_noPlaintextEnvironmentSecrets = False, sec_evidenceRefs = refs\<rparr>,
      ad_emergency = \<lparr>eme_breakGlassApprovalRequired = False, eme_breakGlassApproverRoles = [],
        eme_temporaryElevationMaxMinutes = 1440, eme_incidentModeNotificationTargets = [],
        eme_postActionReviewRequired = False, eme_evidenceRefs = refs\<rparr>,
      ad_audit = \<lparr>aud_auditEventTypes = [''api.authentication_failed''], aud_evidenceExportRequired = False,
        aud_evidenceRefs = refs\<rparr>\<rparr>"

subsection \<open>Secret material\<close>

definition bearer_value :: rx where
  "bearer_value = in_order [Word_boundary, literal_i ''Bearer'', at_least 1 (Any_of is_space), at_least 8 (Any_of (alnum_or ''._~+/=-''))]"

definition sk_value :: rx where
  "sk_value = in_order [Word_boundary, literal ''sk-'', at_least 16 (Any_of (alnum_or ''_-'')), Word_boundary]"

definition github_value :: rx where
  "github_value = in_order [Word_boundary, literal ''gh'', Any_of (\<lambda>c. c \<in> set ''pousr''), literal ''_'',
     at_least 16 (Any_of (alnum_or ''_'')), Word_boundary]"

definition jwt_value :: rx where
  "jwt_value = in_order [Word_boundary, literal ''eyJ'', at_least 10 (Any_of (alnum_or ''_-'')), literal ''.'',
     at_least 10 (Any_of (alnum_or ''_-'')), literal ''.'', at_least 10 (Any_of (alnum_or ''_-'')), Word_boundary]"

definition looks_like_secret_value :: "string \<Rightarrow> bool" where
  "looks_like_secret_value s \<longleftrightarrow> rx_test bearer_value s \<or> rx_test sk_value s \<or> rx_test github_value s \<or> rx_test jwt_value s"

definition secret_key_names :: "string list" where
  "secret_key_names =
    [''accesskey'', ''accesstoken'', ''apikey'', ''apisecret'', ''apitoken'', ''authorization'', ''authtoken'', ''bearertoken'',
     ''clientkey'', ''clientsecret'', ''cookie'', ''encryptionkey'', ''hmackey'', ''idtoken'', ''password'', ''privatekey'',
     ''refreshtoken'', ''secret'', ''sessiontoken'', ''signingkey'', ''token'', ''xapikey'']"

definition is_secret_key_name :: "string \<Rightarrow> bool" where
  "is_secret_key_name k \<longleftrightarrow> to_lower_case (filter is_alphanumeric k) \<in> set secret_key_names"

definition is_allowed_reference :: "string \<Rightarrow> bool" where
  "is_allowed_reference s \<longleftrightarrow>
     (let t = to_lower_case (trim s) in
      t = ''[redacted]'' \<or> t = ''redacted'' \<or> prefix ''ref:'' t \<or> prefix ''secretref:'' t \<or> prefix ''vault:'' t \<or>
      prefix ''aws-secrets-manager:'' t \<or> prefix ''azure-key-vault:'' t \<or> prefix ''gcp-secret-manager:'' t)"

text \<open>\<open>inspectForSecretMaterial\<close>: the path the thrown error names, or nothing.\<close>

fun inspect :: "string \<Rightarrow> js \<Rightarrow> string option" and
  inspect_items :: "string \<Rightarrow> nat \<Rightarrow> js list \<Rightarrow> string option" and
  inspect_fields :: "string \<Rightarrow> (string \<times> js) list \<Rightarrow> string option" where
  "inspect path (JStr s) = (if looks_like_secret_value s \<and> \<not> is_allowed_reference s then Some path else None)"
| "inspect path (JArr vs) = inspect_items path 0 vs"
| "inspect path (JObj fs) = inspect_fields path fs"
| "inspect path _ = None"
| "inspect_items path i [] = None"
| "inspect_items path i (v # vs) =
     (case inspect (path @ ''['' @ nat_str i @ '']'') v of Some p \<Rightarrow> Some p | None \<Rightarrow> inspect_items path (Suc i) vs)"
| "inspect_fields path [] = None"
| "inspect_fields path ((k, v) # fs) =
     (let here = path @ ''.'' @ k in
      if (case v of JStr s \<Rightarrow> is_secret_key_name k \<and> \<not> is_allowed_reference s | _ \<Rightarrow> False) then Some here
      else case inspect here v of Some p \<Rightarrow> Some p | None \<Rightarrow> inspect_fields path fs)"

definition assert_descriptor_safe :: "admin_descriptor \<Rightarrow> js_thrown option" where
  "assert_descriptor_safe d =
     map_option (\<lambda>p. Error_object (p @ '' contains secret material and must reference redacted external secret handles instead.''))
       (inspect ''adminAuthorization'' (descriptor_js d))"

subsection \<open>Readiness\<close>

definition has_text :: "string option \<Rightarrow> bool" where
  "has_text s = (case s of None \<Rightarrow> False | Some t \<Rightarrow> trim t \<noteq> [])"

definition admin_check :: "string \<Rightarrow> bool \<Rightarrow> string \<Rightarrow> string \<Rightarrow> json_record \<Rightarrow> admin_readiness_check" where
  "admin_check name ready passed failed evidence =
     \<lparr>adc_name = name, adc_status = (if ready then Check_pass else Check_fail),
      adc_message = (if ready then passed else failed), adc_evidence = evidence\<rparr>"

definition identity_provider_ready :: "admin_authentication \<Rightarrow> bool" where
  "identity_provider_ready a \<longleftrightarrow>
     auth_mode a \<noteq> Local_bearer_token \<and> has_text (Some (auth_provider a)) \<and> has_text (auth_issuer a) \<and>
     has_text (Some (auth_subjectClaim a)) \<and> auth_mfaRequired a \<and>
     auth_sessionTtlMinutes a > 0 \<and> auth_sessionTtlMinutes a \<le> 480 \<and>
     auth_revocationSlaMinutes a > 0 \<and> auth_revocationSlaMinutes a \<le> 60 \<and> auth_evidenceRefs a \<noteq> []"

definition identity_provider_check :: "admin_descriptor \<Rightarrow> admin_readiness_check" where
  "identity_provider_check d =
     (let a = ad_authentication d in
      admin_check ''production_identity_provider'' (identity_provider_ready a)
        ''Admin authentication is delegated to an approved identity provider with MFA and revocation evidence.''
        ''Local bearer-token proof points are not production admin authentication; configure an approved IdP-backed boundary with MFA, bounded sessions, revocation SLA, and retained evidence.''
        [(''mode'', JStr (authentication_mode_text (auth_mode a))), (''provider'', JStr (auth_provider a)),
         (''issuerConfigured'', JBool (has_text (auth_issuer a))), (''subjectClaim'', JStr (auth_subjectClaim a)),
         (''groupsClaimConfigured'', JBool (has_text (auth_groupsClaim a))), (''mfaRequired'', JBool (auth_mfaRequired a)),
         (''sessionTtlMinutes'', JNum (auth_sessionTtlMinutes a)), (''revocationSlaMinutes'', JNum (auth_revocationSlaMinutes a)),
         (''evidenceRefCount'', js_nat (length (auth_evidenceRefs a)))])"

definition gateway_ready :: "admin_ingress \<Rightarrow> bool" where
  "gateway_ready i \<longleftrightarrow>
     (if ing_mode i = Identity_aware_gateway then ing_trustedIdentityHeaders i \<noteq> [] \<and> ing_evidenceRefs i \<noteq> []
      else ing_mode i = Mtls_gateway \<and> ing_mtlsRequired i \<and> has_text (ing_certificateAuthorityRef i) \<and> ing_evidenceRefs i \<noteq> [])"

definition gateway_or_mtls_check :: "admin_descriptor \<Rightarrow> admin_readiness_check" where
  "gateway_or_mtls_check d =
     (let i = ad_ingress d in
      admin_check ''gateway_or_mtls_boundary'' (gateway_ready i)
        ''Admin traffic is constrained by an identity-aware gateway or mTLS gateway before reaching the API.''
        ''Production admin access must enter through an identity-aware gateway or mTLS gateway with retained boundary evidence.''
        [(''mode'', JStr (ingress_mode_text (ing_mode i))), (''mtlsRequired'', JBool (ing_mtlsRequired i)),
         (''trustedIdentityHeaderCount'', js_nat (length (ing_trustedIdentityHeaders i))),
         (''certificateAuthorityConfigured'', JBool (has_text (ing_certificateAuthorityRef i))),
         (''evidenceRefCount'', js_nat (length (ing_evidenceRefs i)))])"

definition admin_rebac_ready :: "admin_rebac \<Rightarrow> bool" where
  "admin_rebac_ready r \<longleftrightarrow>
     has_text (adr_policyId r) \<and> adr_separate r \<and> adr_leastPrivilegeRoles r \<noteq> [] \<and> adr_roleBindings r \<noteq> [] \<and>
     adr_revocationSlaMinutes r > 0 \<and> adr_revocationSlaMinutes r \<le> 60 \<and> adr_evidenceRefs r \<noteq> []"

definition admin_rebac_check :: "admin_descriptor \<Rightarrow> admin_readiness_check" where
  "admin_rebac_check d =
     (let r = ad_adminRebac d in
      admin_check ''internal_admin_rebac'' (admin_rebac_ready r)
        ''Administrative authorization is governed by a separate least-privilege ReBAC policy.''
        ''Define an internal admin ReBAC policy that is separate from application authorization, role-limited, revocable, and evidenced.''
        [(''policyConfigured'', JBool (has_text (adr_policyId r))),
         (''separateFromApplicationAuthorization'', JBool (adr_separate r)),
         (''leastPrivilegeRoleCount'', js_nat (length (adr_leastPrivilegeRoles r))),
         (''roleBindingCount'', js_nat (length (adr_roleBindings r))),
         (''revocationSlaMinutes'', JNum (adr_revocationSlaMinutes r)),
         (''evidenceRefCount'', js_nat (length (adr_evidenceRefs r)))])"

definition secrets_manager_ready :: "admin_secrets \<Rightarrow> bool" where
  "secrets_manager_ready s \<longleftrightarrow>
     sec_manager s \<noteq> Local_env \<and> sec_secretRefs s \<noteq> [] \<and> sec_rotationDays s > 0 \<and> sec_rotationDays s \<le> 90 \<and>
     sec_noPlaintextEnvironmentSecrets s \<and> sec_evidenceRefs s \<noteq> []"

definition secrets_manager_check :: "admin_descriptor \<Rightarrow> admin_readiness_check" where
  "secrets_manager_check d =
     (let s = ad_secrets d in
      admin_check ''secrets_manager_integration'' (secrets_manager_ready s)
        ''Admin authentication and emergency credentials are referenced from an approved secrets manager with rotation evidence.''
        ''Production admin controls must use an approved secrets manager, avoid plaintext environment secrets, and retain rotation evidence.''
        [(''manager'', JStr (secrets_manager_text (sec_manager s))), (''secretRefCount'', js_nat (length (sec_secretRefs s))),
         (''rotationDays'', JNum (sec_rotationDays s)),
         (''noPlaintextEnvironmentSecrets'', JBool (sec_noPlaintextEnvironmentSecrets s)),
         (''evidenceRefCount'', js_nat (length (sec_evidenceRefs s)))])"

definition break_glass_ready :: "admin_emergency \<Rightarrow> bool" where
  "break_glass_ready e \<longleftrightarrow>
     eme_breakGlassApprovalRequired e \<and> length (eme_breakGlassApproverRoles e) \<ge> 2 \<and>
     eme_temporaryElevationMaxMinutes e > 0 \<and> eme_temporaryElevationMaxMinutes e \<le> 120 \<and> eme_evidenceRefs e \<noteq> []"

definition break_glass_approval_check :: "admin_descriptor \<Rightarrow> admin_readiness_check" where
  "break_glass_approval_check d =
     (let e = ad_emergency d in
      admin_check ''break_glass_approval'' (break_glass_ready e)
        ''Break-glass access requires multi-role approval, bounded elevation, and retained evidence.''
        ''Break-glass admin access must require approval, short-lived elevation, and retained emergency evidence.''
        [(''approvalRequired'', JBool (eme_breakGlassApprovalRequired e)),
         (''approverRoleCount'', js_nat (length (eme_breakGlassApproverRoles e))),
         (''temporaryElevationMaxMinutes'', JNum (eme_temporaryElevationMaxMinutes e)),
         (''evidenceRefCount'', js_nat (length (eme_evidenceRefs e)))])"

definition notification_ready :: "admin_emergency \<Rightarrow> bool" where
  "notification_ready e \<longleftrightarrow> eme_incidentModeNotificationTargets e \<noteq> [] \<and> eme_evidenceRefs e \<noteq> []"

definition incident_notification_check :: "admin_descriptor \<Rightarrow> admin_readiness_check" where
  "incident_notification_check d =
     (let e = ad_emergency d in
      admin_check ''incident_mode_notifications'' (notification_ready e)
        ''Incident-mode and emergency admin actions notify retained operational channels.''
        ''Incident-mode and emergency admin workflows must notify reviewed channels such as SIEM, paging, ticketing, or incident command.''
        [(''notificationTargetCount'', js_nat (length (eme_incidentModeNotificationTargets e))),
         (''evidenceRefCount'', js_nat (length (eme_evidenceRefs e)))])"

definition post_action_ready :: "admin_emergency \<Rightarrow> admin_audit \<Rightarrow> bool" where
  "post_action_ready e u \<longleftrightarrow>
     eme_postActionReviewRequired e \<and> aud_evidenceExportRequired u \<and>
     list_all (\<lambda>t. t \<in> set (aud_auditEventTypes u)) [''admin.action'', ''admin.post_action_review''] \<and> aud_evidenceRefs u \<noteq> []"

definition post_action_review_check :: "admin_descriptor \<Rightarrow> admin_readiness_check" where
  "post_action_review_check d =
     (let e = ad_emergency d; u = ad_audit d in
      admin_check ''post_action_review_evidence'' (post_action_ready e u)
        ''Emergency and privileged admin actions require post-action review evidence and exportable audit events.''
        ''Production admin workflows must retain post-action review evidence tied to admin action audit events.''
        [(''postActionReviewRequired'', JBool (eme_postActionReviewRequired e)),
         (''evidenceExportRequired'', JBool (aud_evidenceExportRequired u)),
         (''auditEventTypes'', admin_texts (aud_auditEventTypes u)),
         (''evidenceRefCount'', js_nat (length (aud_evidenceRefs u)))])"

definition admin_checks :: "admin_descriptor \<Rightarrow> admin_readiness_check list" where
  "admin_checks d =
     [identity_provider_check d, gateway_or_mtls_check d, admin_rebac_check d, secrets_manager_check d,
      break_glass_approval_check d, incident_notification_check d, post_action_review_check d]"

definition assess_admin_authorization :: "admin_descriptor \<Rightarrow> iso_date_time \<Rightarrow> js_thrown + admin_readiness_report" where
  "assess_admin_authorization d t =
     (case assert_descriptor_safe d of
        Some e \<Rightarrow> Inl e
      | None \<Rightarrow>
          Inr \<lparr>adm_id = ''admin-authorization:'' @ compact_timestamp t,
               adm_status = (if list_ex (\<lambda>c. adc_status c = Check_fail) (admin_checks d) then Admin_blocked else Admin_ready),
               adm_checkedAt = t, adm_descriptorVersion = ad_version d,
               adm_authenticationMode = auth_mode (ad_authentication d), adm_checks = admin_checks d,
               adm_version = ''admin-authorization-readiness:v1''\<rparr>)"

end
