(* ===== verification/Api_Readiness.thy ===== *)
theory Api_Readiness
  imports Admin_Authorization Evidence_Export
begin

text \<open>
  The readiness probe, \<open>packages/api/src/api-readiness.ts\<close>. What a repository says of its backend
  (\<open>describePersistence\<close>) is given by the caller: the three fields shown as evidence, or nothing.
\<close>

datatype runtime_readiness_status = Runtime_ready | Runtime_ready_with_warnings | Runtime_not_ready

record runtime_readiness_check =
  rc_name :: string
  rc_status :: check_status
  rc_message :: string
  rc_evidence :: json_record

record runtime_readiness =
  ready_status :: runtime_readiness_status
  ready_checkedAt :: string
  ready_checks :: "runtime_readiness_check list"

definition probe_check :: "string \<Rightarrow> check_status \<Rightarrow> string \<Rightarrow> json_record \<Rightarrow> runtime_readiness_check" where
  "probe_check name status message evidence =
     \<lparr>rc_name = name, rc_status = status, rc_message = message, rc_evidence = evidence\<rparr>"

definition configured_check ::
  "string \<Rightarrow> bool \<Rightarrow> check_status \<Rightarrow> string \<Rightarrow> string \<Rightarrow> json_record \<Rightarrow> runtime_readiness_check" where
  "configured_check name configured otherwise present absent details =
     probe_check name (if configured then Check_pass else otherwise) (if configured then present else absent)
       ((''configured'', JBool configured) # details)"

definition degraded_component_text :: "degraded_component \<Rightarrow> string" where
  "degraded_component_text c =
     (case c of Degraded_audit \<Rightarrow> ''audit'' | Degraded_evidence \<Rightarrow> ''evidence'' | Degraded_graph \<Rightarrow> ''graph''
      | Degraded_job \<Rightarrow> ''job'' | Degraded_state \<Rightarrow> ''state'')"

definition summarize_readiness :: "runtime_readiness_check list \<Rightarrow> runtime_readiness_status" where
  "summarize_readiness checks =
     (if list_ex (\<lambda>c. rc_status c = Check_fail) checks then Runtime_not_ready
      else if list_ex (\<lambda>c. rc_status c = Check_warn) checks then Runtime_ready_with_warnings
      else Runtime_ready)"

definition admin_check_js :: "admin_readiness_check \<Rightarrow> js" where
  "admin_check_js c = JObj [(''name'', JStr (adc_name c)), (''status'', JStr (check_status_text (adc_status c)))]"

definition readiness_checks ::
  "(string \<Rightarrow> json_record) \<Rightarrow> bool \<Rightarrow> bool \<Rightarrow> admin_readiness_report \<Rightarrow> ('c, 'p) local_app \<Rightarrow> runtime_readiness_check list" where
  "readiness_checks backend hasKeys hasEvidence admin a =
     (let per = app_persistence a; ds = app_degradations a; n = length (app_connectors a); adminReady = (adm_status admin = Admin_ready)
      in [probe_check ''api_runtime'' Check_pass ''API runtime accepted the readiness probe.'' [],
          configured_check ''api_authentication'' hasKeys Check_warn
            ''Bearer-token guard is configured for protected API routes.''
            ''Bearer-token guard is not configured; only local development should run without API keys.'' [],
          configured_check ''admin_authorization'' adminReady Check_warn
            ''Production admin authorization controls are described and evidence-backed.''
            ''Admin authorization is still using local proof-point controls; production deployments must configure IdP or mTLS gateway authentication, internal admin ReBAC, secrets-manager handling, break-glass approval, incident notifications, and post-action review evidence.''
            [(''authenticationMode'', JStr (authentication_mode_text (adm_authenticationMode admin))),
             (''descriptorVersion'', JStr (adm_descriptorVersion admin)),
             (''checkStatuses'', JArr (map admin_check_js (adm_checks admin)))],
          configured_check ''state_repository'' (stateRepository per \<noteq> None) Check_warn
            ''Runtime state snapshot repository is configured.''
            ''Runtime state snapshot repository is not configured; state is in-memory only.'' [],
          configured_check ''graph_repository'' (graphRepository per \<noteq> None) Check_warn
            ''Runtime graph repository is configured.''
            ''Runtime graph repository is not configured; graph state is in-memory only.'' (backend ''graph''),
          configured_check ''job_repository'' (jobRepository per \<noteq> None) Check_warn
            ''Runtime job repository is configured.''
            ''Runtime job repository is not configured; job state is in-memory only.'' (backend ''job''),
          configured_check ''audit_repository'' (auditRepository per \<noteq> None) Check_warn
            ''Audit repository is configured.''
            ''Audit repository is not configured; audit events are in-memory only.'' (backend ''audit''),
          configured_check ''evidence_repository'' hasEvidence Check_warn
            ''Evidence package repository is configured for local proof-point persistence.''
            ''Evidence package repository is not configured; evidence packages are generated in-memory only.'' [],
          probe_check ''persistence_degradation'' (if ds \<noteq> [] then Check_warn else Check_pass)
            (if ds \<noteq> [] then ''Runtime persistence has recorded degraded local proof-point writes.''
             else ''Runtime persistence has not recorded degraded local proof-point writes.'')
            [(''degradedWrites'', js_nat (length ds)),
             (''components'', strings_js (sort (remdups (map (degraded_component_text \<circ> degraded_component) ds))))],
          configured_check ''connectors'' (n > 0) Check_fail (nat_str n @ '' connector adapters are registered.'')
            ''No connector adapters are registered.'' []])"

definition build_runtime_readiness ::
  "(string \<Rightarrow> json_record) \<Rightarrow> bool \<Rightarrow> bool \<Rightarrow> admin_descriptor \<Rightarrow> ('c, 'p, runtime_readiness) run" where
  "build_runtime_readiness backend hasKeys hasEvidence descriptor =
     andthen (perform app_now) (\<lambda>t.
     andthen (lift_thrown (assess_admin_authorization descriptor t)) (\<lambda>admin.
     andthen (look (readiness_checks backend hasKeys hasEvidence admin)) (\<lambda>checks.
     andthen (perform app_now) (\<lambda>checkedAt.
       give \<lparr>ready_status = summarize_readiness checks, ready_checkedAt = checkedAt, ready_checks = checks\<rparr>))))"

end
