(* ===== verification/Request_Schemas.thy ===== *)
theory Request_Schemas
  imports Js_Date Js_Regexp
begin

text \<open>
  The schemas of request bodies, \<open>packages/api/src/request-schemas.ts\<close>. A schema is the value of a
  datatype with the keywords the file uses; \<open>schema_valid\<close> is what JSON Schema says of them. The
  validator, Ajv, is a parameter: a function from a schema and a value to the errors it reports, an
  instance path and a message each. \<open>ajv_conforms\<close> is its documented behaviour: it reports no error
  exactly for valid values.
\<close>

subsection \<open>Schemas\<close>

datatype schema =
    Const js
  | Enum "string list"
  | Text nat
  | Id_text
  | Date_time
  | Boolean
  | Integer_from int
  | Array_of nat bool schema
  | Closed_object "string list" "(string \<times> schema) list"
  | Any_object
  | Texts_object nat

definition iso_date_time_pattern :: rx where
  "iso_date_time_pattern =
     (let d = Any_of is_digit in
      in_order [times 4 d, literal ''-'', times 2 d, literal ''-'', times 2 d, literal ''T'', times 2 d, literal '':'',
        times 2 d, literal '':'', times 2 d, maybe (Then (literal ''.'') (at_least 1 d)),
        Or (literal ''Z'') (in_order [Any_of (\<lambda>c. c \<in> set ''+-''), times 2 d, literal '':'', times 2 d])])"

text \<open>A match from the start of the text to its end.\<close>

definition rx_whole :: "rx \<Rightarrow> string \<Rightarrow> bool" where
  "rx_whole r s = list_ex (\<lambda>y. snd y = []) (rx_ends r (None, s))"

definition date_time_text :: "string \<Rightarrow> bool" where
  "date_time_text s \<longleftrightarrow> rx_whole iso_date_time_pattern s \<and> date_parse s \<noteq> None"

definition id_char :: "char \<Rightarrow> bool" where
  "id_char c \<longleftrightarrow> lower_letter c \<or> is_digit c \<or> c \<in> set ''_:-''"

definition id_text :: "string \<Rightarrow> bool" where
  "id_text s \<longleftrightarrow> s \<noteq> [] \<and> list_all id_char s"

lemma size_field: "f \<in> set fs \<Longrightarrow> size (snd f) \<le> size_list (size_prod (\<lambda>_. 0) size) fs"
  by (induction fs) auto

lemma size_item: "x \<in> set vs \<Longrightarrow> size x \<le> size_list size vs"
  by (induction vs) auto

function schema_valid :: "schema \<Rightarrow> js \<Rightarrow> bool" where
  "schema_valid (Const c) v \<longleftrightarrow> v = c"
| "schema_valid (Enum ss) v \<longleftrightarrow> (case v of JStr s \<Rightarrow> s \<in> set ss | _ \<Rightarrow> False)"
| "schema_valid (Text n) v \<longleftrightarrow> (case v of JStr s \<Rightarrow> length s \<ge> n | _ \<Rightarrow> False)"
| "schema_valid Id_text v \<longleftrightarrow> (case v of JStr s \<Rightarrow> id_text s | _ \<Rightarrow> False)"
| "schema_valid Date_time v \<longleftrightarrow> (case v of JStr s \<Rightarrow> date_time_text s | _ \<Rightarrow> False)"
| "schema_valid Boolean v \<longleftrightarrow> (case v of JBool _ \<Rightarrow> True | _ \<Rightarrow> False)"
| "schema_valid (Integer_from n) v \<longleftrightarrow> (case v of JNum q \<Rightarrow> q = of_int \<lfloor>q\<rfloor> \<and> of_int n \<le> q | _ \<Rightarrow> False)"
| "schema_valid (Array_of n uniq t) v \<longleftrightarrow>
     (case v of JArr vs \<Rightarrow> length vs \<ge> n \<and> (uniq \<longrightarrow> distinct vs) \<and> list_all (schema_valid t) vs | _ \<Rightarrow> False)"
| "schema_valid (Closed_object required ps) v \<longleftrightarrow>
     (case v of
        JObj fs \<Rightarrow> list_all (\<lambda>k. k \<in> set (map fst fs)) required \<and>
          list_all (\<lambda>f. list_ex (\<lambda>p. fst p = fst f) ps \<and> list_all (\<lambda>p. fst p = fst f \<longrightarrow> schema_valid (snd p) (snd f)) ps) fs
      | _ \<Rightarrow> False)"
| "schema_valid Any_object v \<longleftrightarrow> (case v of JObj _ \<Rightarrow> True | _ \<Rightarrow> False)"
| "schema_valid (Texts_object n) v \<longleftrightarrow>
     (case v of JObj fs \<Rightarrow> length fs \<ge> n \<and> list_all (\<lambda>f. case snd f of JStr _ \<Rightarrow> True | _ \<Rightarrow> False) fs | _ \<Rightarrow> False)"
  by pat_completeness auto

termination
  by (relation "measure (\<lambda>(t, v). size t + size v)")
    (auto dest!: size_item size_field)

subsection \<open>The schemas of the file\<close>

definition policy_model_schema :: schema where
  "policy_model_schema =
   Closed_object [''schemaVersion'', ''id'', ''version'', ''resourceTypes'', ''relations'', ''actions'', ''inheritanceRules'', ''denyRules'', ''contextConstraints'', ''classificationConstraints'', ''tenantBoundary'', ''migrations'']
    [(''schemaVersion'', Const (JStr ''access-kit.policy-model.v1'')),
     (''id'', Id_text),
     (''version'', Text 1),
     (''resourceTypes'', Array_of 1 False Any_object),
     (''relations'', Array_of 1 False Any_object),
     (''actions'', Array_of 1 False Any_object),
     (''inheritanceRules'', Array_of 1 False Any_object),
     (''denyRules'', Array_of 1 False Any_object),
     (''contextConstraints'', Array_of 0 False Any_object),
     (''classificationConstraints'', Array_of 1 False Any_object),
     (''tenantBoundary'', Any_object),
     (''migrations'', Array_of 0 False Any_object),
     (''caveats'', Array_of 0 False Any_object),
     (''conditionalRelationships'', Array_of 0 False Any_object),
     (''explanation'', Any_object),
     (''metadata'', Any_object)]"

definition enforcement_control_schema :: schema where
  "enforcement_control_schema =
   Closed_object [''syntheticOnly'', ''liveProviderWrites'', ''incidentMode'', ''breakGlass'']
    [(''syntheticOnly'', Boolean),
     (''liveProviderWrites'', Boolean),
     (''incidentMode'', Boolean),
     (''breakGlass'', Boolean)]"

definition auto_repair_policy_schema :: schema where
  "auto_repair_policy_schema =
   Closed_object [''enabled'', ''allowedActions'', ''maxSeverity'', ''requireApproval'', ''requireConnectorReadiness'', ''liveProviderWrites'']
    [(''enabled'', Boolean),
     (''allowedActions'', Array_of 0 True (Enum [''revoke'', ''repair'', ''review''])),
     (''maxSeverity'', Enum [''low'', ''medium'', ''high'', ''critical'']),
     (''requireApproval'', Boolean),
     (''requireConnectorReadiness'', Boolean),
     (''liveProviderWrites'', Boolean),
     (''reason'', Text 1)]"

definition provisioning_approval_schema :: schema where
  "provisioning_approval_schema =
   Closed_object [''decision'', ''approverId'', ''changeTicket'', ''approvedAt'']
    [(''decision'', Const (JStr ''approved'')),
     (''approverId'', Text 1),
     (''changeTicket'', Text 1),
     (''approvedAt'', Text 1),
     (''expiresAt'', Text 1),
     (''reason'', Text 1)]"

definition decision_request_schema :: schema where
  "decision_request_schema =
   Closed_object [''subjectId'', ''action'', ''resourceId'']
    [(''subjectId'', Text 1),
     (''action'', Text 1),
     (''resourceId'', Text 1),
     (''context'', Any_object),
     (''policyVersion'', Text 1),
     (''modelVersion'', Text 1),
     (''relationshipVersion'', Text 1),
     (''tupleVersion'', Text 1),
     (''contextVersion'', Text 1),
     (''asOf'', Date_time)]"

definition connector_sync_schema :: schema where
  "connector_sync_schema =
   Closed_object [''mode'']
    [(''mode'', Const (JStr ''read_only''))]"

definition decision_batch_schema :: schema where
  "decision_batch_schema =
   Closed_object [''requests'']
    [(''requests'', Array_of 1 False decision_request_schema)]"

definition enforcement_readiness_schema :: schema where
  "enforcement_readiness_schema =
   Closed_object [''control'']
    [(''mode'', Const (JStr ''enforcement'')),
     (''control'', enforcement_control_schema),
     (''requiredApproverRole'', Text 1),
     (''changeTicketPattern'', Text 1)]"

definition hook_evidence_schema :: schema where
  "hook_evidence_schema =
   Closed_object [''system'', ''referenceId'', ''status'', ''recordedAt'']
    [(''system'', Enum [''ticket'', ''siem'']),
     (''referenceId'', Text 1),
     (''status'', Enum [''pending'', ''linked'', ''notified'', ''failed'']),
     (''recordedAt'', Date_time),
     (''url'', Text 1),
     (''evidence'', Any_object)]"

definition drift_remediation_schema :: schema where
  "drift_remediation_schema =
   Closed_object [''approval'', ''autoRepairPolicy'']
    [(''approval'', provisioning_approval_schema),
     (''autoRepairPolicy'', auto_repair_policy_schema),
     (''readinessReportId'', Text 1),
     (''hookEvidence'', Array_of 0 False hook_evidence_schema)]"

definition policy_draft_schema :: schema where
  "policy_draft_schema =
   Closed_object [''name'', ''model'', ''tests'']
    [(''name'', Text 1),
     (''model'', policy_model_schema),
     (''tests'', Array_of 0 False Any_object)]"

definition policy_publish_schema :: schema where
  "policy_publish_schema =
   Closed_object [''changeTicket'', ''approverId'']
    [(''changeTicket'', Text 1),
     (''approverId'', Text 1)]"

definition policy_rollback_schema :: schema where
  "policy_rollback_schema =
   Closed_object [''targetVersion'', ''changeTicket'', ''approverId'']
    [(''targetVersion'', Text 1),
     (''changeTicket'', Text 1),
     (''approverId'', Text 1)]"

definition provisioning_job_schema :: schema where
  "provisioning_job_schema =
   Closed_object [''planId'', ''approverId'']
    [(''planId'', Text 1),
     (''approverId'', Text 1),
     (''mode'', Enum [''dry_run'', ''enforcement'']),
     (''dryRun'', Boolean),
     (''approval'', provisioning_approval_schema),
     (''control'', enforcement_control_schema)]"

definition provisioning_plan_schema :: schema where
  "provisioning_plan_schema =
   Closed_object [''dryRun'']
    [(''subjectId'', Text 1),
     (''action'', Text 1),
     (''resourceId'', Text 1),
     (''context'', Any_object),
     (''mode'', Enum [''dry_run'', ''enforcement'']),
     (''dryRun'', Boolean),
     (''grantId'', Text 1),
     (''connectorId'', Text 0),
     (''approval'', provisioning_approval_schema),
     (''control'', enforcement_control_schema),
     (''readinessReportId'', Text 1)]"

definition schedule_schema :: schema where
  "schedule_schema =
   Closed_object []
    [(''cadence'', Enum [''manual'', ''hourly'', ''daily'', ''weekly'']),
     (''scheduledAt'', Date_time),
     (''windowStart'', Date_time),
     (''windowEnd'', Date_time),
     (''nextRunAt'', Date_time),
     (''gracePeriodHours'', Integer_from 0),
     (''overdue'', Boolean)]"

definition reconciliation_run_schema :: schema where
  "reconciliation_run_schema =
   Closed_object [''connectorId'', ''dryRun'']
    [(''connectorId'', Text 1),
     (''dryRun'', Const (JBool True)),
     (''trigger'', Enum [''manual'', ''scheduled'']),
     (''schedule'', schedule_schema)]"

definition subject_schema :: schema where
  "subject_schema =
   Closed_object [''id'', ''type'', ''displayName'', ''sourceSystem'', ''lifecycleState'', ''identifiers'', ''version'', ''createdAt'']
    [(''id'', Id_text),
     (''type'', Enum [''user'', ''group'', ''service_account'', ''service_principal'', ''managed_identity'', ''device'', ''workload'']),
     (''displayName'', Text 1),
     (''sourceSystem'', Text 1),
     (''lifecycleState'', Enum [''active'', ''inactive'', ''suspended'', ''terminated'', ''deleted'']),
     (''identifiers'', Texts_object 1),
     (''attributes'', Any_object),
     (''version'', Text 1),
     (''createdAt'', Date_time),
     (''updatedAt'', Date_time),
     (''lastSeenAt'', Date_time)]"

definition resource_schema :: schema where
  "resource_schema =
   Closed_object [''id'', ''type'', ''displayName'', ''sourceSystem'', ''ownerId'', ''dataStewardId'', ''technicalOwnerId'', ''classification'', ''lifecycleState'', ''version'', ''createdAt'']
    [(''id'', Id_text),
     (''type'', Enum [''organization'', ''workspace'', ''application'', ''sharepoint_site'', ''team'', ''folder'', ''document'', ''power_app'', ''flow'', ''dataverse_environment'', ''aws_account'', ''aws_role'', ''dataset'', ''api'']),
     (''displayName'', Text 1),
     (''sourceSystem'', Text 1),
     (''ownerId'', Id_text),
     (''dataStewardId'', Id_text),
     (''technicalOwnerId'', Id_text),
     (''classification'', Text 1),
     (''lifecycleState'', Enum [''active'', ''inactive'', ''suspended'', ''terminated'', ''deleted'']),
     (''parentId'', Id_text),
     (''attributes'', Any_object),
     (''version'', Text 1),
     (''createdAt'', Date_time),
     (''updatedAt'', Date_time),
     (''lastSeenAt'', Date_time)]"

definition relationship_schema :: schema where
  "relationship_schema =
   Closed_object [''id'', ''subjectId'', ''relation'', ''objectId'', ''sourceSystem'', ''assertedAt'', ''status'', ''version'', ''createdAt'']
    [(''id'', Id_text),
     (''subjectId'', Id_text),
     (''relation'', Text 1),
     (''objectId'', Id_text),
     (''sourceSystem'', Text 1),
     (''assertedAt'', Date_time),
     (''assertedBy'', Id_text),
     (''expiresAt'', Date_time),
     (''status'', Enum [''active'', ''expired'', ''deleted'']),
     (''attributes'', Any_object),
     (''version'', Text 1),
     (''createdAt'', Date_time),
     (''updatedAt'', Date_time)]"

datatype request_schema_name =
    Connector_sync_body
  | Decision_batch_body
  | Decision_request_body
  | Drift_remediation_body
  | Enforcement_readiness_body
  | Policy_draft_body
  | Policy_publish_body
  | Policy_rollback_body
  | Provisioning_job_body
  | Provisioning_plan_body
  | Reconciliation_run_body
  | Relationship_body
  | Resource_body
  | Subject_body

fun request_schema :: "request_schema_name \<Rightarrow> schema" where
  "request_schema Connector_sync_body = connector_sync_schema"
| "request_schema Decision_batch_body = decision_batch_schema"
| "request_schema Decision_request_body = decision_request_schema"
| "request_schema Drift_remediation_body = drift_remediation_schema"
| "request_schema Enforcement_readiness_body = enforcement_readiness_schema"
| "request_schema Policy_draft_body = policy_draft_schema"
| "request_schema Policy_publish_body = policy_publish_schema"
| "request_schema Policy_rollback_body = policy_rollback_schema"
| "request_schema Provisioning_job_body = provisioning_job_schema"
| "request_schema Provisioning_plan_body = provisioning_plan_schema"
| "request_schema Reconciliation_run_body = reconciliation_run_schema"
| "request_schema Relationship_body = relationship_schema"
| "request_schema Resource_body = resource_schema"
| "request_schema Subject_body = subject_schema"

subsection \<open>Validation\<close>

type_synonym ajv = "schema \<Rightarrow> js \<Rightarrow> (string \<times> string option) list"

definition ajv_conforms :: "ajv \<Rightarrow> bool" where
  "ajv_conforms ajv \<longleftrightarrow> (\<forall>t v. ajv t v = [] \<longleftrightarrow> schema_valid t v)"

definition validate_request_schema :: "ajv \<Rightarrow> request_schema_name \<Rightarrow> js \<Rightarrow> string list" where
  "validate_request_schema ajv name v =
     map (\<lambda>(path, message). (if path = [] then ''/'' else path) @ '' '' @ coalesce message ''failed schema validation'')
       (ajv (request_schema name) v)"

end
