(* ===== verification/Request_Decoders.thy ===== *)
theory Request_Decoders
  imports Request_Schemas Runtime_Discovery Runtime_Reconciliation Evidence_Package
begin

text \<open>
  The decoders of request bodies, \<open>packages/api/src/request-decoders.ts\<close>: each checks the body
  against its schema and reads it as the record the runtime takes. TypeScript's casts have no
  effect at run time: the \<open>read\<close> functions say which record a JSON value is, field by field, and are
  only used behind a schema that makes every field what they expect. How a policy draft of untyped
  JSON is a typed draft is a parameter, since its schema leaves the parts of the model open.
\<close>

datatype http_error = Http_error nat string string

subsection \<open>Reading JSON\<close>

definition read_opt_text :: "js \<Rightarrow> string option" where
  "read_opt_text v = (case v of JStr s \<Rightarrow> Some s | _ \<Rightarrow> None)"

definition read_text :: "js \<Rightarrow> string" where
  "read_text v = coalesce (read_opt_text v) []"

definition read_opt_bool :: "js \<Rightarrow> bool option" where
  "read_opt_bool v = (case v of JBool b \<Rightarrow> Some b | _ \<Rightarrow> None)"

definition read_bool :: "js \<Rightarrow> bool" where
  "read_bool v = (v = JBool True)"

definition read_opt_object :: "js \<Rightarrow> json_record option" where
  "read_opt_object v = (case v of JObj fs \<Rightarrow> Some fs | _ \<Rightarrow> None)"

definition read_items :: "js \<Rightarrow> js list" where
  "read_items v = (case v of JArr vs \<Rightarrow> vs | _ \<Rightarrow> [])"

definition read_texts_object :: "js \<Rightarrow> (string \<times> string) list" where
  "read_texts_object v = (case v of JObj fs \<Rightarrow> map (\<lambda>(k, w). (k, read_text w)) fs | _ \<Rightarrow> [])"

definition read_opt_as :: "('a \<Rightarrow> string) \<Rightarrow> 'a list \<Rightarrow> js \<Rightarrow> 'a option" where
  "read_opt_as text all v = (case v of JStr s \<Rightarrow> find (\<lambda>x. text x = s) all | _ \<Rightarrow> None)"

definition read_as :: "('a \<Rightarrow> string) \<Rightarrow> 'a list \<Rightarrow> js \<Rightarrow> 'a" where
  "read_as text all v = coalesce (read_opt_as text all v) (hd all)"

definition all_subject_types :: "subject_type list" where
  "all_subject_types = [User, Group, Service_account, Service_principal, Managed_identity, Device, Workload]"

definition all_resource_types :: "resource_type list" where
  "all_resource_types = [Organization, Workspace, Application, Sharepoint_site, Team, Folder, Document, Power_app, Flow,
     Dataverse_environment, Aws_account, Aws_role, Dataset, Api]"

definition all_lifecycle_states :: "lifecycle_state list" where
  "all_lifecycle_states = [Active, Inactive, Suspended, Terminated, Deleted]"

definition all_tuple_statuses :: "tuple_status list" where
  "all_tuple_statuses = [Tuple_active, Tuple_expired, Tuple_deleted]"

definition all_drift_severities :: "drift_severity list" where
  "all_drift_severities = [Drift_low, Drift_medium, Drift_high, Drift_critical]"

definition all_recommended_actions :: "drift_recommended_action list" where
  "all_recommended_actions = [Do_revoke, Do_repair, Do_review]"

subsection \<open>Records\<close>

definition read_decision_request :: "js \<Rightarrow> decision_request" where
  "read_decision_request v =
     \<lparr>req_subjectId = read_text (field v ''subjectId''), req_action = read_text (field v ''action''),
      req_resourceId = read_text (field v ''resourceId''), req_context = read_opt_object (field v ''context''),
      req_policyVersion = read_opt_text (field v ''policyVersion''), req_modelVersion = read_opt_text (field v ''modelVersion''),
      req_relationshipVersion = read_opt_text (field v ''relationshipVersion''),
      req_tupleVersion = read_opt_text (field v ''tupleVersion''),
      req_contextVersion = read_opt_text (field v ''contextVersion''), req_asOf = read_opt_text (field v ''asOf'')\<rparr>"

definition read_subject :: "js \<Rightarrow> subject" where
  "read_subject v =
     \<lparr>entity_id = read_text (field v ''id''), version = read_text (field v ''version''),
      createdAt = read_text (field v ''createdAt''), updatedAt = read_opt_text (field v ''updatedAt''),
      displayName = read_text (field v ''displayName''), sourceSystem = read_text (field v ''sourceSystem''),
      lifecycleState = read_as lifecycle_text all_lifecycle_states (field v ''lifecycleState''),
      attributes = read_opt_object (field v ''attributes''), lastSeenAt = read_opt_text (field v ''lastSeenAt''),
      subject_type = read_as subject_type_text all_subject_types (field v ''type''),
      identifiers = read_texts_object (field v ''identifiers'')\<rparr>"

definition read_resource :: "js \<Rightarrow> resource" where
  "read_resource v =
     \<lparr>entity_id = read_text (field v ''id''), version = read_text (field v ''version''),
      createdAt = read_text (field v ''createdAt''), updatedAt = read_opt_text (field v ''updatedAt''),
      displayName = read_text (field v ''displayName''), sourceSystem = read_text (field v ''sourceSystem''),
      lifecycleState = read_as lifecycle_text all_lifecycle_states (field v ''lifecycleState''),
      attributes = read_opt_object (field v ''attributes''), lastSeenAt = read_opt_text (field v ''lastSeenAt''),
      resource_type = read_as resource_type_text all_resource_types (field v ''type''),
      ownerId = read_text (field v ''ownerId''), dataStewardId = read_text (field v ''dataStewardId''),
      technicalOwnerId = read_text (field v ''technicalOwnerId''), classification = read_text (field v ''classification''),
      parentId = read_opt_text (field v ''parentId'')\<rparr>"

definition read_relationship :: "js \<Rightarrow> relationship" where
  "read_relationship v =
     \<lparr>entity_id = read_text (field v ''id''), version = read_text (field v ''version''),
      createdAt = read_text (field v ''createdAt''), updatedAt = read_opt_text (field v ''updatedAt''),
      subjectId = read_text (field v ''subjectId''), relation = read_text (field v ''relation''),
      objectId = read_text (field v ''objectId''), tuple_sourceSystem = read_text (field v ''sourceSystem''),
      assertedAt = read_text (field v ''assertedAt''), assertedBy = read_opt_text (field v ''assertedBy''),
      expiresAt = read_opt_text (field v ''expiresAt''),
      tuple_status = read_as tuple_status_text all_tuple_statuses (field v ''status''),
      tuple_attributes = read_opt_object (field v ''attributes'')\<rparr>"

definition read_schedule :: "js \<Rightarrow> schedule_patch" where
  "read_schedule v =
     \<lparr>sp_cadence = read_opt_as cadence_text [Cadence_manual, Cadence_hourly, Cadence_daily, Cadence_weekly] (field v ''cadence''),
      sp_scheduledAt = read_opt_text (field v ''scheduledAt''), sp_windowStart = read_opt_text (field v ''windowStart''),
      sp_windowEnd = read_opt_text (field v ''windowEnd''), sp_nextRunAt = read_opt_text (field v ''nextRunAt''),
      sp_gracePeriodHours = (case field v ''gracePeriodHours'' of JNum q \<Rightarrow> Some \<lfloor>q\<rfloor> | _ \<Rightarrow> None),
      sp_overdue = read_opt_bool (field v ''overdue'')\<rparr>"

definition read_repair_policy :: "js \<Rightarrow> drift_auto_repair_policy" where
  "read_repair_policy v =
     \<lparr>repair_enabled = read_bool (field v ''enabled''),
      repair_allowedActions =
        map (read_as recommended_action_text all_recommended_actions) (read_items (field v ''allowedActions'')),
      repair_maxSeverity = read_as severity_text all_drift_severities (field v ''maxSeverity''),
      repair_requireApproval = read_bool (field v ''requireApproval''),
      repair_requireConnectorReadiness = read_bool (field v ''requireConnectorReadiness''),
      repair_liveProviderWrites = read_bool (field v ''liveProviderWrites''),
      repair_reason = read_opt_text (field v ''reason'')\<rparr>"

definition read_hook :: "js \<Rightarrow> drift_hook_evidence" where
  "read_hook v =
     \<lparr>hook_system = read_as hook_system_text [Hook_ticket, Hook_siem] (field v ''system''),
      hook_referenceId = read_text (field v ''referenceId''),
      hook_status = read_as hook_status_text [Hook_pending, Hook_linked, Hook_notified, Hook_failed] (field v ''status''),
      hook_recordedAt = read_text (field v ''recordedAt''), hook_url = read_opt_text (field v ''url''),
      hook_evidence = read_opt_object (field v ''evidence'')\<rparr>"

definition read_approval :: "js \<Rightarrow> provisioning_approval" where
  "read_approval v =
     \<lparr>approverId = read_text (field v ''approverId''), changeTicket = read_text (field v ''changeTicket''),
      approvedAt = read_text (field v ''approvedAt''), approval_expiresAt = read_opt_text (field v ''expiresAt''),
      approval_reason = read_opt_text (field v ''reason'')\<rparr>"

subsection \<open>Schema-backed decoding\<close>

definition decode_schema_backed :: "ajv \<Rightarrow> request_schema_name \<Rightarrow> js \<Rightarrow> string \<Rightarrow> string \<Rightarrow> http_error + js" where
  "decode_schema_backed ajv name v code message =
     (let errors = validate_request_schema ajv name v
      in if errors \<noteq> [] then Inl (Http_error 400 code (message @ '': '' @ join ''; '' errors)) else Inr v)"

definition decode_decision_request :: "ajv \<Rightarrow> js \<Rightarrow> http_error + decision_request" where
  "decode_decision_request ajv v =
     map_sum id read_decision_request (decode_schema_backed ajv Decision_request_body v ''INVALID_DECISION_REQUEST''
       ''Decision requests require subjectId, action, and resourceId'')"

definition decode_decision_batch :: "ajv \<Rightarrow> js \<Rightarrow> http_error + decision_request list" where
  "decode_decision_batch ajv v =
     map_sum id (\<lambda>w. map read_decision_request (read_items (field w ''requests'')))
       (decode_schema_backed ajv Decision_batch_body v ''INVALID_BATCH_REQUESTS''
         ''batch-check requires a requests array of decision requests'')"

definition decode_subject :: "ajv \<Rightarrow> js \<Rightarrow> http_error + subject" where
  "decode_subject ajv v =
     map_sum id read_subject (decode_schema_backed ajv Subject_body v ''INVALID_SUBJECT'' ''subjects require the canonical subject schema'')"

definition decode_resource :: "ajv \<Rightarrow> js \<Rightarrow> http_error + resource" where
  "decode_resource ajv v =
     map_sum id read_resource (decode_schema_backed ajv Resource_body v ''INVALID_RESOURCE'' ''resources require the canonical resource schema'')"

definition decode_relationship :: "ajv \<Rightarrow> js \<Rightarrow> http_error + relationship" where
  "decode_relationship ajv v =
     map_sum id read_relationship (decode_schema_backed ajv Relationship_body v ''INVALID_RELATIONSHIP''
       ''relationships require the canonical relationship schema'')"

definition decode_policy_draft :: "(js \<Rightarrow> policy_draft) \<Rightarrow> ajv \<Rightarrow> js \<Rightarrow> http_error + policy_draft" where
  "decode_policy_draft read_draft ajv v =
     map_sum id read_draft (decode_schema_backed ajv Policy_draft_body v ''INVALID_POLICY_DRAFT'' ''policy drafts require name, model, and tests'')"

text \<open>\<open>Some True\<close> is the mode test.\<close>

definition decode_policy_validation_mode :: "js \<Rightarrow> bool option" where
  "decode_policy_validation_mode v =
     (if \<not> is_record v then None
      else if field v ''mode'' = JStr ''validate'' then Some False
      else if field v ''mode'' = JStr ''test'' then Some True else None)"

definition decode_policy_publish :: "ajv \<Rightarrow> js \<Rightarrow> http_error + string \<times> string" where
  "decode_policy_publish ajv v =
     map_sum id (\<lambda>w. (read_text (field w ''changeTicket''), read_text (field w ''approverId'')))
       (decode_schema_backed ajv Policy_publish_body v ''INVALID_POLICY_PUBLISH_REQUEST'' ''policy publish requires changeTicket and approverId'')"

definition decode_policy_rollback :: "ajv \<Rightarrow> js \<Rightarrow> http_error + string \<times> string \<times> string" where
  "decode_policy_rollback ajv v =
     map_sum id (\<lambda>w. (read_text (field w ''targetVersion''), read_text (field w ''changeTicket''), read_text (field w ''approverId'')))
       (decode_schema_backed ajv Policy_rollback_body v ''INVALID_POLICY_ROLLBACK_REQUEST''
         ''policy rollback requires targetVersion, changeTicket, and approverId'')"

subsection \<open>Provisioning\<close>

definition dry_run_required :: "string \<Rightarrow> http_error" where
  "dry_run_required message = Http_error 400 ''DRY_RUN_REQUIRED'' message"

definition decode_provisioning_mode :: "js \<Rightarrow> js \<Rightarrow> http_error + provisioning_mode" where
  "decode_provisioning_mode mode dryRun =
     (if mode = JUndefined then
        if dryRun = JBool True then Inr Dry_run
        else Inl (dry_run_required
          ''Provisioning defaults to dry-run; enforcement must explicitly request mode: enforcement and dryRun: false'')
      else if mode = JStr ''dry_run'' then
        if dryRun = JBool True then Inr Dry_run else Inl (dry_run_required ''Dry-run provisioning requires dryRun: true'')
      else if mode = JStr ''enforcement'' then
        if dryRun = JBool False then Inr Enforcement
        else Inl (Http_error 400 ''ENFORCEMENT_DRY_RUN_FALSE_REQUIRED'' ''Controlled enforcement requires dryRun: false'')
      else Inl (Http_error 400 ''INVALID_PROVISIONING_MODE'' ''mode must be dry_run or enforcement''))"

definition is_text :: "js \<Rightarrow> bool" where
  "is_text v = (case v of JStr _ \<Rightarrow> True | _ \<Rightarrow> False)"

definition is_boolean :: "js \<Rightarrow> bool" where
  "is_boolean v = (case v of JBool _ \<Rightarrow> True | _ \<Rightarrow> False)"

definition invalid_approval :: "string \<Rightarrow> http_error" where
  "invalid_approval message = Http_error 400 ''INVALID_PROVISIONING_APPROVAL'' message"

definition decode_approval_date_time :: "string \<Rightarrow> string \<Rightarrow> http_error option" where
  "decode_approval_date_time s name =
     (if date_parse s = None then Some (invalid_approval (''approval.'' @ name @ '' must be a valid date-time'')) else None)"

definition decode_provisioning_approval :: "js \<Rightarrow> http_error + provisioning_approval option" where
  "decode_provisioning_approval v =
     (if v = JUndefined then Inr None
      else if \<not> is_record v \<or> field v ''decision'' \<noteq> JStr ''approved'' \<or> \<not> is_text (field v ''approverId'') \<or>
        \<not> is_text (field v ''changeTicket'') \<or> \<not> is_text (field v ''approvedAt'') \<or>
        field v ''expiresAt'' \<noteq> JUndefined \<and> \<not> is_text (field v ''expiresAt'') \<or>
        field v ''reason'' \<noteq> JUndefined \<and> \<not> is_text (field v ''reason'')
      then Inl (invalid_approval ''approval must include decision: approved, approverId, changeTicket, and approvedAt'')
      else let approval = read_approval v in
        case decode_approval_date_time (approvedAt approval) ''approvedAt'' of
          Some e \<Rightarrow> Inl e
        | None \<Rightarrow>
            (case Option.bind (approval_expiresAt approval) (\<lambda>s. decode_approval_date_time s ''expiresAt'') of
               Some e \<Rightarrow> Inl e
             | None \<Rightarrow> Inr (Some approval)))"

definition read_control :: "js \<Rightarrow> enforcement_control" where
  "read_control v =
     \<lparr>syntheticOnly = read_bool (field v ''syntheticOnly''), liveProviderWrites = read_bool (field v ''liveProviderWrites''),
      incidentMode = read_bool (field v ''incidentMode''), breakGlass = read_bool (field v ''breakGlass'')\<rparr>"

definition decode_enforcement_control :: "js \<Rightarrow> http_error + enforcement_control option" where
  "decode_enforcement_control v =
     (if v = JUndefined then Inr None
      else if \<not> is_record v \<or>
        \<not> list_all (\<lambda>k. is_boolean (field v k)) [''syntheticOnly'', ''liveProviderWrites'', ''incidentMode'', ''breakGlass'']
      then Inl (Http_error 400 ''INVALID_ENFORCEMENT_CONTROL''
        ''control must include syntheticOnly, liveProviderWrites, incidentMode, and breakGlass booleans'')
      else Inr (Some (read_control v)))"

definition decode_required_control :: "js \<Rightarrow> http_error + enforcement_control" where
  "decode_required_control v =
     bind_result (decode_enforcement_control v) (\<lambda>control. case control of
         None \<Rightarrow> Inl (Http_error 400 ''INVALID_ENFORCEMENT_CONTROL'' ''control is required for enforcement readiness checks'')
       | Some c \<Rightarrow> Inr c)"

definition decode_nonempty :: "string \<Rightarrow> string \<Rightarrow> js \<Rightarrow> http_error + string option" where
  "decode_nonempty code name v =
     (if v = JUndefined then Inr None
      else if \<not> is_text v \<or> v = JStr []
      then Inl (Http_error 400 code (name @ '' must be a non-empty string when provided''))
      else Inr (Some (read_text v)))"

definition decode_readiness_report_id :: "js \<Rightarrow> http_error + string option" where
  "decode_readiness_report_id = decode_nonempty ''INVALID_READINESS_REPORT_ID'' ''readinessReportId''"

definition decode_connector_id :: "js \<Rightarrow> http_error + string option" where
  "decode_connector_id = decode_nonempty ''INVALID_CONNECTOR_ID'' ''connectorId''"

definition decode_provisioning_execution :: "js \<Rightarrow> http_error + execution_options" where
  "decode_provisioning_execution v =
     bind_result (decode_provisioning_mode (field v ''mode'') (field v ''dryRun'')) (\<lambda>mode.
     bind_result (decode_provisioning_approval (field v ''approval'')) (\<lambda>approval.
     bind_result (decode_enforcement_control (field v ''control'')) (\<lambda>control.
     bind_result (decode_readiness_report_id (field v ''readinessReportId'')) (\<lambda>report.
       Inr \<lparr>opt_mode = Some mode, opt_approval = approval, opt_control = control, opt_readinessReportId = report\<rparr>))))"

definition truthy_text :: "js \<Rightarrow> bool" where
  "truthy_text v = (case v of JStr (_ # _) \<Rightarrow> True | _ \<Rightarrow> False)"

definition decode_provisioning_decision_request :: "js \<Rightarrow> decision_request option" where
  "decode_provisioning_decision_request v =
     (if is_falsy (field v ''subjectId'') \<or> is_falsy (field v ''action'') \<or> is_falsy (field v ''resourceId'')
      then None
      else Some \<lparr>req_subjectId = read_text (field v ''subjectId''), req_action = read_text (field v ''action''),
        req_resourceId = read_text (field v ''resourceId''), req_context = read_opt_object (field v ''context''),
        req_policyVersion = None, req_modelVersion = None, req_relationshipVersion = None, req_tupleVersion = None,
        req_contextVersion = None, req_asOf = None\<rparr>)"

datatype plan_request =
    Decision_plan decision_request "string option" execution_options
  | Revocation_plan canonical_id "string option" execution_options

definition decode_provisioning_plan :: "ajv \<Rightarrow> js \<Rightarrow> http_error + plan_request" where
  "decode_provisioning_plan ajv v =
     bind_result (decode_schema_backed ajv Provisioning_plan_body v ''INVALID_PROVISIONING_REQUEST''
       ''Provisioning plans require a dry-run or controlled enforcement request'') (\<lambda>w.
     bind_result (decode_provisioning_execution w) (\<lambda>execution.
     bind_result (decode_connector_id (field w ''connectorId'')) (\<lambda>connectorId.
       if field w ''grantId'' \<noteq> JUndefined then Inr (Revocation_plan (read_text (field w ''grantId'')) connectorId execution)
       else case decode_provisioning_decision_request w of
           None \<Rightarrow> Inl (Http_error 400 ''INVALID_PROVISIONING_REQUEST''
             ''Provisioning plans require subjectId, action, and resourceId or a grantId'')
         | Some req \<Rightarrow> Inr (Decision_plan req connectorId execution))))"

text \<open>The job request without its idempotency key, which is a header.\<close>

definition decode_provisioning_job :: "ajv \<Rightarrow> js \<Rightarrow> http_error + (string \<Rightarrow> job_request)" where
  "decode_provisioning_job ajv v =
     (if is_record v \<and> \<not> truthy_text (field v ''planId'')
      then Inl (Http_error 400 ''MISSING_PLAN_ID'' ''planId is required'')
      else if is_record v \<and> \<not> truthy_text (field v ''approverId'')
      then Inl (Http_error 400 ''MISSING_APPROVER_ID'' ''approverId is required'')
      else
        bind_result (decode_schema_backed ajv Provisioning_job_body v ''INVALID_PROVISIONING_JOB_REQUEST''
          ''Provisioning jobs require planId and approverId'') (\<lambda>w.
        bind_result (decode_provisioning_mode (field w ''mode'') (field w ''dryRun'')) (\<lambda>mode.
        bind_result (decode_provisioning_approval (field w ''approval'')) (\<lambda>approval.
        bind_result (decode_enforcement_control (field w ''control'')) (\<lambda>control.
          Inr (\<lambda>key. \<lparr>jr_planId = read_text (field w ''planId''), jr_approverId = read_text (field w ''approverId''),
            jr_idempotencyKey = key, jr_mode = Some mode, jr_approval = approval, jr_control = control\<rparr>))))))"

subsection \<open>Reconciliation and connectors\<close>

definition decode_reconciliation_run ::
  "ajv \<Rightarrow> js \<Rightarrow> http_error + string \<times> reconciliation_trigger option \<times> schedule_patch" where
  "decode_reconciliation_run ajv v =
     map_sum id (\<lambda>w. (read_text (field w ''connectorId''),
         read_opt_as trigger_text [Manual_trigger, Scheduled_trigger] (field w ''trigger''),
         if field w ''schedule'' = JUndefined then no_schedule_patch else read_schedule (field w ''schedule'')))
       (decode_schema_backed ajv Reconciliation_run_body v ''INVALID_RECONCILIATION_REQUEST''
         ''Reconciliation runs require connectorId and dryRun: true'')"

definition is_provisioning_approval :: "js \<Rightarrow> bool" where
  "is_provisioning_approval v \<longleftrightarrow>
     is_record v \<and> field v ''decision'' = JStr ''approved'' \<and> is_text (field v ''approverId'') \<and>
     is_text (field v ''changeTicket'') \<and> is_text (field v ''approvedAt'')"

definition is_auto_repair_policy :: "js \<Rightarrow> bool" where
  "is_auto_repair_policy v \<longleftrightarrow>
     is_record v \<and> is_boolean (field v ''enabled'') \<and>
     (case field v ''allowedActions'' of
        JArr vs \<Rightarrow> list_all (\<lambda>x. x \<in> {JStr ''revoke'', JStr ''repair'', JStr ''review''}) vs | _ \<Rightarrow> False) \<and>
     (case field v ''maxSeverity'' of JStr s \<Rightarrow> s \<in> set (map severity_text all_drift_severities) | _ \<Rightarrow> False) \<and>
     is_boolean (field v ''requireApproval'') \<and> is_boolean (field v ''requireConnectorReadiness'') \<and>
     is_boolean (field v ''liveProviderWrites'')"

definition is_hook_evidence_array :: "js \<Rightarrow> bool" where
  "is_hook_evidence_array v \<longleftrightarrow>
     (case v of
        JArr vs \<Rightarrow> list_all (\<lambda>h. is_record h \<and> field h ''system'' \<in> {JStr ''ticket'', JStr ''siem''} \<and>
          is_text (field h ''referenceId'') \<and>
          field h ''status'' \<in> {JStr ''pending'', JStr ''linked'', JStr ''notified'', JStr ''failed''} \<and>
          is_text (field h ''recordedAt'')) vs
      | _ \<Rightarrow> False)"

definition invalid_remediation :: "string \<Rightarrow> http_error" where
  "invalid_remediation message = Http_error 400 ''INVALID_DRIFT_REMEDIATION_REQUEST'' message"

definition decode_drift_remediation :: "ajv \<Rightarrow> js \<Rightarrow> http_error + remediation_request" where
  "decode_drift_remediation ajv v =
     bind_result (decode_schema_backed ajv Drift_remediation_body v ''INVALID_DRIFT_REMEDIATION_REQUEST''
       ''Drift remediation requires approval, autoRepairPolicy, and dry-run hook evidence'') (\<lambda>w.
       if \<not> is_provisioning_approval (field w ''approval'')
       then Inl (invalid_remediation ''approval must match the provisioning approval shape'')
       else if \<not> is_auto_repair_policy (field w ''autoRepairPolicy'')
       then Inl (invalid_remediation ''autoRepairPolicy must include safe dry-run controls'')
       else if field w ''hookEvidence'' \<noteq> JUndefined \<and> \<not> is_hook_evidence_array (field w ''hookEvidence'')
       then Inl (invalid_remediation ''hookEvidence must contain ticket or SIEM hook evidence'')
       else bind_result (decode_readiness_report_id (field w ''readinessReportId'')) (\<lambda>report.
         Inr \<lparr>rq_approval = Some (read_approval (field w ''approval'')),
              rq_autoRepairPolicy = read_repair_policy (field w ''autoRepairPolicy''),
              rq_readinessReportId = report,
              rq_hookEvidence =
                (if field w ''hookEvidence'' = JUndefined then None
                 else Some (map read_hook (read_items (field w ''hookEvidence''))))\<rparr>))"

definition assert_regular_expression :: "(string \<Rightarrow> (string \<Rightarrow> bool) option) \<Rightarrow> string \<Rightarrow> http_error option" where
  "assert_regular_expression regexp pattern =
     (if is_safe_change_ticket_pattern regexp pattern then None
      else Some (Http_error 400 ''INVALID_CHANGE_TICKET_PATTERN''
        ''changeTicketPattern must be a valid safe regular expression without groups, alternation, or backreferences''))"

definition decode_enforcement_readiness ::
  "(string \<Rightarrow> (string \<Rightarrow> bool) option) \<Rightarrow> ajv \<Rightarrow> js \<Rightarrow> http_error + readiness_request" where
  "decode_enforcement_readiness regexp ajv v =
     bind_result (decode_schema_backed ajv Enforcement_readiness_body v ''INVALID_ENFORCEMENT_READINESS_REQUEST''
       ''Enforcement readiness requires a control block'') (\<lambda>w.
       if field w ''mode'' \<noteq> JUndefined \<and> field w ''mode'' \<noteq> JStr ''enforcement''
       then Inl (Http_error 400 ''INVALID_ENFORCEMENT_READINESS_MODE'' ''enforcement readiness mode must be enforcement'')
       else if field w ''requiredApproverRole'' \<noteq> JUndefined \<and> is_falsy (field w ''requiredApproverRole'')
       then Inl (Http_error 400 ''INVALID_APPROVER_ROLE'' ''requiredApproverRole must be a non-empty string when provided'')
       else if field w ''changeTicketPattern'' \<noteq> JUndefined \<and> is_falsy (field w ''changeTicketPattern'')
       then Inl (Http_error 400 ''INVALID_CHANGE_TICKET_PATTERN'' ''changeTicketPattern must be a non-empty string when provided'')
       else case Option.bind (read_opt_text (field w ''changeTicketPattern'')) (assert_regular_expression regexp) of
           Some e \<Rightarrow> Inl e
         | None \<Rightarrow>
             map_sum id (\<lambda>control. \<lparr>rr_control = control,
                 rr_requiredApproverRole = read_opt_text (field w ''requiredApproverRole''),
                 rr_changeTicketPattern = read_opt_text (field w ''changeTicketPattern'')\<rparr>)
               (decode_required_control (field w ''control'')))"

definition decode_connector_sync :: "ajv \<Rightarrow> js \<Rightarrow> http_error + unit" where
  "decode_connector_sync ajv v =
     bind_result (decode_schema_backed ajv Connector_sync_body v ''UNSUPPORTED_CONNECTOR_MODE'' ''connector sync requires mode read_only'') (\<lambda>w.
       if field w ''mode'' = JStr ''read_only'' then Inr ()
       else if field w ''mode'' = JUndefined
       then Inl (Http_error 400 ''MISSING_CONNECTOR_MODE'' ''connector sync mode is required and must be read_only'')
       else Inl (Http_error 400 ''UNSUPPORTED_CONNECTOR_MODE'' ''Phase 2 connector sync supports read_only mode only''))"

end
