(* ===== verification/Api_Server.thy ===== *)
theory Api_Server
  imports Api_Auth Api_Readiness Request_Decoders
begin

text \<open>
  The HTTP API, \<open>packages/api/src/server.ts\<close>, with \<open>api-http.ts\<close>, \<open>api-routes.ts\<close> and
  \<open>request-audit-context.ts\<close>: authentication, routing, the query parameters, and the flow of the
  runtime each route calls. A request is served to its end before the next; the body of a response is
  the value handed to \<open>sendJson\<close>. \<open>HttpError\<close> and \<open>RebacLocalAppError\<close> are one error here, since the
  server answers both alike; anything else it catches is an internal error.
\<close>

subsection \<open>Requests and responses\<close>

text \<open>
  What a request finds outside the program: Ajv, \<open>JSON.parse\<close> of the bytes of the body,
  \<open>decodeURIComponent\<close> (nothing where it throws), the reading of a policy draft, the services of the
  evidence endpoints, the descriptions of the backends, the clocks, and a fresh identifier.
\<close>

record 'p api_env =
  ae_runtime :: runtime
  ae_ajv :: ajv
  ae_parse :: "nat list \<Rightarrow> js option"
  ae_decodeComponent :: "string \<Rightarrow> string option"
  ae_readDraft :: "js \<Rightarrow> policy_draft"
  ae_services :: "'p evidence_services"
  ae_backend :: "string \<Rightarrow> json_record"
  ae_wallClock :: int
  ae_timing :: "nat \<Rightarrow> rat \<times> rat"
  ae_uuid :: string

record connector_summary =
  con_sum_id :: string
  con_sum_mode :: connector_mode
  con_sum_provider :: string
  con_sum_tenantBoundary :: string
  con_sum_requiredReadScopes :: "string list"
  con_sum_capabilities :: connector_capabilities

datatype api_body =
    Error_body string string string
  | Health_body
  | Readiness_body runtime_readiness
  | Decision_body decision_result
  | Results_body "decision_result list"
  | Decisions_body "decision_result list"
  | Subject_answer subject
  | Subjects_body "subject list"
  | Resource_answer resource
  | Resources_body "resource list"
  | Grants_body "native_grant list"
  | Relationship_answer relationship
  | Relationships_body "relationship list"
  | Policy_body policy_summary
  | Policies_body "policy_summary list"
  | Validation_body policy_validation
  | Plan_body provisioning_plan
  | Job_body provisioning_job
  | Reconciliation_body reconciliation_run
  | Drift_body drift_finding
  | Drifts_body "drift_finding list"
  | Discoveries_body "discovery_run list"
  | Discovery_body discovery_run
  | Connectors_body "connector_summary list"
  | Connector_test_body bool "connector_health_check list"
  | Readiness_reports_body "enforcement_readiness_report list"
  | Readiness_report_body enforcement_readiness_report
  | Events_body "audit_event list"
  | Integrity_body audit_integrity_report
  | Audit_export_body audit_event_export
  | Package_body json_record
  | Verification_body verification_report

record api_response =
  status_code :: nat
  challenge :: "string option"
  body :: api_body

definition send_json :: "nat \<Rightarrow> api_body \<Rightarrow> api_response" where
  "send_json n b = \<lparr>status_code = n, challenge = None, body = b\<rparr>"

definition not_found :: api_response where
  "not_found = send_json 404 (Error_body ''NOT_FOUND'' ''Route or object was not found'' ''corr:not-found'')"

type_synonym ('c, 'p) route = "('c, 'p, api_response) run"

definition http_raise :: "nat \<Rightarrow> string \<Rightarrow> string \<Rightarrow> ('c, 'p, 'a) run" where
  "http_raise n code message = raise (Local_app_error n code message)"

definition lift_http :: "http_error + 'a \<Rightarrow> ('c, 'p, 'a) run" where
  "lift_http r = (case r of Inl (Http_error n code message) \<Rightarrow> http_raise n code message | Inr x \<Rightarrow> give x)"

definition reply :: "nat \<Rightarrow> api_body \<Rightarrow> ('c, 'p) route" where
  "reply n b = give (send_json n b)"

definition found_or_not :: "nat \<Rightarrow> ('a \<Rightarrow> api_body) \<Rightarrow> 'a option \<Rightarrow> ('c, 'p) route" where
  "found_or_not n f x = (case x of None \<Rightarrow> give not_found | Some y \<Rightarrow> reply n (f y))"

subsection \<open>Reading a request\<close>

definition max_request_body_bytes :: nat where
  "max_request_body_bytes = 1024 * 1024"

fun body_too_large :: "nat \<Rightarrow> nat list list \<Rightarrow> bool" where
  "body_too_large bytesRead [] = False"
| "body_too_large bytesRead (c # cs) =
     (bytesRead + length c > max_request_body_bytes \<or> body_too_large (bytesRead + length c) cs)"

definition read_json :: "'p api_env \<Rightarrow> http_request \<Rightarrow> ('c, 'p, js) run" where
  "read_json env r =
     (if body_too_large 0 (rq_body r)
      then http_raise 413 ''REQUEST_BODY_TOO_LARGE'' (''Request body exceeds '' @ nat_str max_request_body_bytes @ '' bytes'')
      else if concat (rq_body r) = [] then give (JObj [])
      else case ae_parse env (concat (rq_body r)) of
          Some v \<Rightarrow> give v
        | None \<Rightarrow> http_raise 400 ''INVALID_JSON'' ''Request body must be valid JSON'')"

definition read_idempotency_key :: "http_request \<Rightarrow> ('c, 'p, string) run" where
  "read_idempotency_key r =
     (case rq_idempotencyKey r of
        Some k \<Rightarrow> if length k \<ge> 8 then give k
          else http_raise 400 ''MISSING_IDEMPOTENCY_KEY'' ''Idempotency-Key header is required''
      | None \<Rightarrow> http_raise 400 ''MISSING_IDEMPOTENCY_KEY'' ''Idempotency-Key header is required'')"

fun split_on :: "char \<Rightarrow> string \<Rightarrow> string list" where
  "split_on c [] = [[]]"
| "split_on c (d # ds) =
     (if d = c then [] # split_on c ds
      else case split_on c ds of [] \<Rightarrow> [[d]] | s # ss \<Rightarrow> (d # s) # ss)"

fun decode_segments :: "(string \<Rightarrow> string option) \<Rightarrow> string list \<Rightarrow> string list option" where
  "decode_segments f [] = Some []"
| "decode_segments f (s # ss) =
     (case f s of None \<Rightarrow> None | Some t \<Rightarrow> map_option (Cons t) (decode_segments f ss))"

definition path_segments :: "(string \<Rightarrow> string option) \<Rightarrow> string \<Rightarrow> string list option" where
  "path_segments f path = decode_segments f (filter (\<lambda>s. s \<noteq> []) (split_on CHR ''/'' path))"

definition segment :: "string list \<Rightarrow> nat \<Rightarrow> string option" where
  "segment ss i = (if i < length ss then Some (ss ! i) else None)"

definition query :: "http_request \<Rightarrow> string \<Rightarrow> string option" where
  "query r name = map_get (rq_search r) name"

text \<open>A query parameter that must be one of the given values, if it is there and not empty.\<close>

definition read_choice :: "('a \<Rightarrow> string) \<Rightarrow> 'a list \<Rightarrow> string \<Rightarrow> string \<Rightarrow> string option \<Rightarrow> ('c, 'p, 'a option) run" where
  "read_choice text all code message v =
     (case v of
        Some (c # cs) \<Rightarrow>
          (case find (\<lambda>x. text x = c # cs) all of Some x \<Rightarrow> give (Some x) | None \<Rightarrow> http_raise 400 code message)
      | _ \<Rightarrow> give None)"

definition read_discovery_status :: "string option \<Rightarrow> ('c, 'p, discovery_run_status option) run" where
  "read_discovery_status =
     read_choice run_status_text [Run_queued, Run_running, Run_completed, Run_completed_with_warnings, Run_failed]
       ''INVALID_DISCOVERY_STATUS'' ''status must be a valid discovery run status''"

definition read_readiness_status :: "string option \<Rightarrow> ('c, 'p, enforcement_readiness_status option) run" where
  "read_readiness_status =
     read_choice readiness_status_text [Readiness_ready, Readiness_blocked]
       ''INVALID_ENFORCEMENT_READINESS_STATUS'' ''status must be ready or blocked''"

definition read_native_grant_type :: "string option \<Rightarrow> ('c, 'p, native_grant_type option) run" where
  "read_native_grant_type =
     read_choice runtime_grant_type_text [Direct_grant, Inherited_grant, Group_grant]
       ''INVALID_NATIVE_GRANT_TYPE'' ''grantType must be direct, inherited, or group''"

definition read_native_principal_type :: "string option \<Rightarrow> ('c, 'p, native_principal_type option) run" where
  "read_native_principal_type =
     read_choice principal_type_text [Principal_user, Principal_group, Principal_service_account, Principal_service_principal,
         Principal_managed_identity, Principal_external_user, Principal_unknown]
       ''INVALID_NATIVE_PRINCIPAL_TYPE'' ''principalType is not supported''"

definition read_evidence_framework :: "string option \<Rightarrow> ('c, 'p, evidence_framework) run" where
  "read_evidence_framework v =
     andthen (read_choice framework_text [Nist_800_53, Fedramp_rev5, Custom_framework]
       ''INVALID_EVIDENCE_FRAMEWORK'' ''framework must be nist-800-53, fedramp-rev5, or custom'' v)
       (\<lambda>f. give (coalesce f Nist_800_53))"

definition read_audit_export_target :: "string option \<Rightarrow> ('c, 'p, export_target option) run" where
  "read_audit_export_target =
     read_choice export_target_text [Operator_download, Siem_forwarder]
       ''INVALID_AUDIT_EXPORT_TARGET'' ''target must be operator_download or siem_forwarder''"

definition read_drift_severity :: "string option \<Rightarrow> ('c, 'p, drift_severity option) run" where
  "read_drift_severity =
     read_choice severity_text all_drift_severities
       ''INVALID_DRIFT_SEVERITY'' ''severity must be one of low, medium, high, or critical''"

definition read_drift_status :: "string option \<Rightarrow> ('c, 'p, drift_finding_status option) run" where
  "read_drift_status =
     read_choice drift_status_text [Df_open, Df_accepted, Df_repairing, Df_resolved]
       ''INVALID_DRIFT_STATUS'' ''status must be one of open, accepted, repairing, or resolved''"

definition read_drift_lifecycle_state :: "string option \<Rightarrow> ('c, 'p, drift_lifecycle_state option) run" where
  "read_drift_lifecycle_state =
     read_choice lifecycle_state_text
       [Ds_open, Ds_triaged, Ds_accepted, Ds_remediation_pending, Ds_repairing, Ds_resolved, Ds_expired_exception]
       ''INVALID_DRIFT_LIFECYCLE_STATE'' ''lifecycleState must be a valid drift lifecycle state''"

text \<open>\<open>readOptionalDateTime\<close> and \<open>readAuditFilterDateTime\<close>, which differ in their code.\<close>

definition read_date_time :: "string \<Rightarrow> string \<Rightarrow> string option \<Rightarrow> ('c, 'p, string option) run" where
  "read_date_time code name v =
     (case v of
        Some (c # cs) \<Rightarrow>
          (case Option.bind (date_parse (c # cs)) to_iso_string of
             Some t \<Rightarrow> give (Some t)
           | None \<Rightarrow> http_raise 400 code (name @ '' must be a valid date-time''))
      | _ \<Rightarrow> give None)"

text \<open>\<open>/^[A-Z]{2}-[0-9]+(?:\([0-9]+\))?$/\<close>\<close>

definition control_id_pattern :: rx where
  "control_id_pattern =
     in_order [times 2 (Any_of upper_letter), literal ''-'', at_least 1 (Any_of is_digit),
       maybe (in_order [literal ''('', at_least 1 (Any_of is_digit), literal '')''])]"

definition read_evidence_controls :: "string option \<Rightarrow> ('c, 'p, string list) run" where
  "read_evidence_controls v =
     (let controls = filter (\<lambda>s. s \<noteq> []) (map trim (split_on CHR '','' (coalesce v ''AC-2,AC-3,AU-2''))) in
      if controls = [] then http_raise 400 ''INVALID_EVIDENCE_CONTROLS'' ''controls must include at least one control id''
      else if list_ex (\<lambda>c. \<not> rx_whole control_id_pattern c) controls
      then http_raise 400 ''INVALID_EVIDENCE_CONTROLS'' ''controls must be comma-separated control ids such as AC-3 or AU-6(1)''
      else give controls)"

definition read_export_format :: "string option \<Rightarrow> ('c, 'p, evidence_format) run" where
  "read_export_format v =
     (case find (\<lambda>f. evidence_format_text f = coalesce v ''json'') [Format_json, Format_zip, Format_markdown] of
        Some f \<Rightarrow> give f
      | None \<Rightarrow> http_raise 400 ''INVALID_EVIDENCE_FORMAT'' ''format must be one of json, zip, or markdown'')"

definition assert_period :: "string \<Rightarrow> string option \<Rightarrow> string option \<Rightarrow> ('c, 'p, unit) run" where
  "assert_period code from until =
     (case (from, until) of
        (Some s, Some t) \<Rightarrow> if t < s then http_raise 400 code ''from must be before to'' else give ()
      | _ \<Rightarrow> give ())"

definition is_get :: "http_request \<Rightarrow> bool" where "is_get r \<longleftrightarrow> rq_method r = Some ''GET''"
definition is_post :: "http_request \<Rightarrow> bool" where "is_post r \<longleftrightarrow> rq_method r = Some ''POST''"

subsection \<open>The graph\<close>

definition route_decision :: "'p api_env \<Rightarrow> http_request \<Rightarrow> string list \<Rightarrow> ('c, 'p) route" where
  "route_decision env r ss =
     (let rt = ae_runtime env; decided = (\<lambda>explained.
        andthen (read_json env r) (\<lambda>v.
        andthen (lift_http (decode_decision_request (ae_ajv env) v)) (\<lambda>req.
        andthen (decide_and_persist rt explained req (ae_timing env 0)) (\<lambda>d. reply 200 (Decision_body d)))))
      in if \<not> is_post r then give not_found
         else if segment ss 2 = Some ''check'' then decided False
         else if segment ss 2 = Some ''explain'' then decided True
         else if segment ss 2 = Some ''batch-check'' then
           andthen (read_json env r) (\<lambda>v.
           andthen (lift_http (decode_decision_batch (ae_ajv env) v)) (\<lambda>reqs.
           andthen (collect_each (\<lambda>(i, req). decide_and_persist rt False req (ae_timing env i)) (enumerate 0 reqs)) (\<lambda>ds.
             reply 200 (Results_body ds))))
         else give not_found)"

text \<open>\<open>segments[2]\<close> where it is there and not empty.\<close>

definition named_segment :: "string list \<Rightarrow> string option" where
  "named_segment ss = (case segment ss 2 of Some (c # cs) \<Rightarrow> Some (c # cs) | _ \<Rightarrow> None)"

definition route_subjects :: "'p api_env \<Rightarrow> http_request \<Rightarrow> string list \<Rightarrow> ('c, 'p) route" where
  "route_subjects env r ss =
     (if length ss = 2 \<and> is_get r then
        andthen (look (\<lambda>a. list_subjects (app_store a))) (\<lambda>xs. reply 200 (Subjects_body xs))
      else if length ss = 2 \<and> is_post r then
        andthen (read_json env r) (\<lambda>v.
        andthen (lift_http (decode_subject (ae_ajv env) v)) (\<lambda>s.
        andthen (create_subject (ae_runtime env) s) (\<lambda>s. reply 201 (Subject_answer s))))
      else case named_segment ss of
        None \<Rightarrow> give not_found
      | Some i \<Rightarrow>
          if length ss = 3 \<and> is_get r then
            andthen (look (\<lambda>a. get_subject (app_store a) i)) (found_or_not 200 Subject_answer)
          else if segment ss 3 = Some ''access'' \<and> is_get r then
            andthen (look (\<lambda>a. filter (\<lambda>d. res_subjectId d = i) (list_decisions (app_store a)))) (\<lambda>ds. reply 200 (Decisions_body ds))
          else give not_found)"

definition route_resources :: "'p api_env \<Rightarrow> http_request \<Rightarrow> string list \<Rightarrow> ('c, 'p) route" where
  "route_resources env r ss =
     (if length ss = 2 \<and> is_get r then
        andthen (look (\<lambda>a. list_resources (app_store a))) (\<lambda>xs. reply 200 (Resources_body xs))
      else if length ss = 2 \<and> is_post r then
        andthen (read_json env r) (\<lambda>v.
        andthen (lift_http (decode_resource (ae_ajv env) v)) (\<lambda>x.
        andthen (create_resource (ae_runtime env) x) (\<lambda>x. reply 201 (Resource_answer x))))
      else case named_segment ss of
        None \<Rightarrow> give not_found
      | Some i \<Rightarrow>
          if length ss = 3 \<and> is_get r then
            andthen (look (\<lambda>a. get_resource (app_store a) i)) (found_or_not 200 Resource_answer)
          else if segment ss 3 = Some ''access'' \<and> is_get r then
            andthen (look (\<lambda>a. filter (\<lambda>d. res_resourceId d = i) (list_decisions (app_store a)))) (\<lambda>ds. reply 200 (Decisions_body ds))
          else if segment ss 3 = Some ''native-access'' \<and> is_get r then
            andthen (read_native_grant_type (query r ''grantType'')) (\<lambda>grantType.
            andthen (read_native_principal_type (query r ''principalType'')) (\<lambda>principalType.
            andthen (read_native_access (ae_runtime env) i
              \<lparr>naf_sourceConnectorId = query r ''connectorId'', naf_subjectId = query r ''subjectId'',
               naf_nativePermission = query r ''nativePermission'', naf_grantType = grantType, naf_principalType = principalType\<rparr>)
              (\<lambda>gs. reply 200 (Grants_body gs))))
          else give not_found)"

definition route_relationships :: "'p api_env \<Rightarrow> http_request \<Rightarrow> string list \<Rightarrow> ('c, 'p) route" where
  "route_relationships env r ss =
     (if length ss \<noteq> 2 then give not_found
      else if is_get r then
        andthen (look (\<lambda>a. list_relationships (app_store a)
          \<lparr>rf_subjectId = query r ''subjectId'', rf_objectId = query r ''objectId'', rf_relation = query r ''relation''\<rparr>))
          (\<lambda>ts. reply 200 (Relationships_body ts))
      else if rq_method r = Some ''PUT'' then
        andthen (read_json env r) (\<lambda>v.
        andthen (lift_http (decode_relationship (ae_ajv env) v)) (\<lambda>t.
        andthen (put_relationship (ae_runtime env) t) (\<lambda>t. reply 200 (Relationship_answer t))))
      else if rq_method r = Some ''DELETE'' then
        (case query r ''relationshipId'' of
           Some (c # cs) \<Rightarrow> andthen (remove_relationship (ae_runtime env) (c # cs)) (found_or_not 200 Relationship_answer)
         | _ \<Rightarrow> reply 400 (Error_body ''MISSING_RELATIONSHIP_ID'' ''relationshipId query parameter is required'' ''corr:bad-request''))
      else give not_found)"

subsection \<open>Policies\<close>

definition route_policies :: "'p api_env \<Rightarrow> http_request \<Rightarrow> string list \<Rightarrow> ('c, 'p) route" where
  "route_policies env r ss =
     (let rt = ae_runtime env in
      if length ss = 2 \<and> is_get r then andthen (look list_policy_summaries) (\<lambda>ps. reply 200 (Policies_body ps))
      else if length ss = 2 \<and> is_post r then
        andthen (read_json env r) (\<lambda>v.
        andthen (lift_http (decode_policy_draft (ae_readDraft env) (ae_ajv env) v)) (\<lambda>draft.
        andthen (read_idempotency_key r) (\<lambda>key.
        andthen (create_policy rt draft key) (\<lambda>p. reply 201 (Policy_body p)))))
      else case named_segment ss of
        None \<Rightarrow> give not_found
      | Some i \<Rightarrow>
          if length ss \<noteq> 4 \<or> \<not> is_post r then give not_found
          else andthen (read_json env r) (\<lambda>v.
            if segment ss 3 = Some ''validate'' then
              (case decode_policy_validation_mode v of
                 None \<Rightarrow> http_raise 400 ''INVALID_POLICY_VALIDATION_REQUEST'' ''policy validation requires mode validate or test''
               | Some test \<Rightarrow> andthen (validate_policy rt i test) (\<lambda>x. reply 200 (Validation_body x)))
            else if segment ss 3 = Some ''publish'' then
              andthen (lift_http (decode_policy_publish (ae_ajv env) v)) (\<lambda>(ticket, approver).
              andthen (read_idempotency_key r) (\<lambda>key.
              andthen (publish_policy rt i ticket approver key) (\<lambda>p. reply 200 (Policy_body p))))
            else if segment ss 3 = Some ''rollback'' then
              andthen (lift_http (decode_policy_rollback (ae_ajv env) v)) (\<lambda>(target, ticket, approver).
              andthen (read_idempotency_key r) (\<lambda>key.
              andthen (rollback_policy rt i target ticket approver key) (\<lambda>p. reply 200 (Policy_body p))))
            else give not_found))"

subsection \<open>Provisioning\<close>

definition route_provisioning :: "'p api_env \<Rightarrow> http_request \<Rightarrow> string list \<Rightarrow> ('c, 'p) route" where
  "route_provisioning env r ss =
     (let rt = ae_runtime env in
      if segment ss 2 = Some ''plans'' \<and> length ss = 3 \<and> is_post r then
        andthen (read_idempotency_key r) (\<lambda>key.
        andthen (read_json env r) (\<lambda>v.
        andthen (lift_http (decode_provisioning_plan (ae_ajv env) v)) (\<lambda>req.
        andthen (case req of
            Revocation_plan grantId connectorId execution \<Rightarrow> create_revocation_plan rt grantId connectorId execution (Some key)
          | Decision_plan dreq connectorId execution \<Rightarrow>
              create_provisioning_plan rt dreq (ae_timing env 0) connectorId execution (Some key)) (\<lambda>p. reply 201 (Plan_body p)))))
      else if segment ss 2 = Some ''jobs'' \<and> length ss = 3 \<and> is_post r then
        andthen (read_json env r) (\<lambda>v.
        andthen (lift_http (decode_provisioning_job (ae_ajv env) v)) (\<lambda>req.
        andthen (read_idempotency_key r) (\<lambda>key.
        andthen (create_provisioning_job rt (req key)) (found_or_not 202 Job_body))))
      else if segment ss 2 = Some ''jobs'' \<and> length ss = 4 \<and> is_get r then
        andthen (look (\<lambda>a. get_provisioning_job (app_store a) (ss ! 3))) (found_or_not 200 Job_body)
      else give not_found)"

subsection \<open>Reconciliation, discovery and connectors\<close>

definition route_reconciliation :: "'p api_env \<Rightarrow> http_request \<Rightarrow> string list \<Rightarrow> ('c, 'p) route" where
  "route_reconciliation env r ss =
     (let rt = ae_runtime env in
      if segment ss 2 = Some ''run'' \<and> is_post r then
        andthen (read_json env r) (\<lambda>v.
        andthen (lift_http (decode_reconciliation_run (ae_ajv env) v)) (\<lambda>(connectorId, trigger, schedule).
        andthen (run_reconciliation rt connectorId trigger schedule) (\<lambda>run. reply 202 (Reconciliation_body run))))
      else if segment ss 2 = Some ''findings'' \<and> length ss = 3 \<and> is_get r then
        andthen (read_drift_severity (query r ''severity'')) (\<lambda>severity.
        andthen (read_drift_status (query r ''status'')) (\<lambda>status.
        andthen (read_drift_lifecycle_state (query r ''lifecycleState'')) (\<lambda>state.
        andthen (look (\<lambda>a. list_drift_findings (app_store a)
          \<lparr>dff_severity = severity, dff_status = status, dff_lifecycleState = state, dff_ownerId = query r ''ownerId'',
           dff_assigneeId = query r ''assigneeId''\<rparr>)) (\<lambda>fs. reply 200 (Drifts_body fs)))))
      else if segment ss 2 = Some ''findings'' \<and> (case segment ss 3 of Some (_ # _) \<Rightarrow> True | _ \<Rightarrow> False) \<and>
          segment ss 4 = Some ''remediation'' \<and> is_post r then
        andthen (read_json env r) (\<lambda>v.
        andthen (lift_http (decode_drift_remediation (ae_ajv env) v)) (\<lambda>req.
        andthen (read_idempotency_key r) (\<lambda>key.
        andthen (plan_drift_remediation_dry_run rt (ss ! 3) req (ae_timing env 0) key) (found_or_not 202 Drift_body))))
      else give not_found)"

definition route_discovery :: "http_request \<Rightarrow> string list \<Rightarrow> ('c, 'p) route" where
  "route_discovery r ss =
     (if segment ss 2 = Some ''runs'' \<and> is_get r then
        andthen (read_discovery_status (query r ''status'')) (\<lambda>status.
        andthen (look (\<lambda>a. list_discovery_runs (app_store a) (query r ''connectorId'') status)) (\<lambda>rs. reply 200 (Discoveries_body rs)))
      else give not_found)"

definition connector_summary_of :: "'c connector_adapter \<Rightarrow> connector_summary" where
  "connector_summary_of c =
     \<lparr>con_sum_id = con_id c, con_sum_mode = con_mode c, con_sum_provider = provider_of c, con_sum_tenantBoundary = boundary_of c,
      con_sum_requiredReadScopes = coalesce (con_requiredReadScopes c) [], con_sum_capabilities = con_capabilities c\<rparr>"

definition route_connectors :: "'p api_env \<Rightarrow> http_request \<Rightarrow> string list \<Rightarrow> ('c, 'p) route" where
  "route_connectors env r ss =
     (let rt = ae_runtime env in
      if length ss = 2 \<and> is_get r then
        andthen (look (\<lambda>a. map connector_summary_of (app_connector_list a))) (\<lambda>cs. reply 200 (Connectors_body cs))
      else case named_segment ss of
        None \<Rightarrow> give not_found
      | Some i \<Rightarrow>
          if segment ss 3 = Some ''test'' \<and> is_post r then
            andthen (test_connector i) (\<lambda>(ok, checks). reply 200 (Connector_test_body ok checks))
          else if segment ss 3 = Some ''enforcement-readiness'' \<and> is_get r then
            andthen (read_readiness_status (query r ''status'')) (\<lambda>status.
            andthen (get_connector i) (\<lambda>_.
            andthen (look (\<lambda>a. list_readiness_reports (app_store a) (Some i) status)) (\<lambda>rs. reply 200 (Readiness_reports_body rs))))
          else if segment ss 3 = Some ''enforcement-readiness'' \<and> is_post r then
            andthen (read_json env r) (\<lambda>v.
            andthen (look app_regexp) (\<lambda>regexp.
            andthen (lift_http (decode_enforcement_readiness regexp (ae_ajv env) v)) (\<lambda>req.
            andthen (check_enforcement_readiness rt i req) (\<lambda>report. reply 200 (Readiness_report_body report)))))
          else if segment ss 3 = Some ''sync'' \<and> is_post r then
            andthen (read_json env r) (\<lambda>v.
            andthen (lift_http (decode_connector_sync (ae_ajv env) v)) (\<lambda>_.
            andthen (sync_connector rt i) (\<lambda>run. reply 202 (Discovery_body run))))
          else give not_found)"

subsection \<open>Audit and evidence\<close>

definition route_audit :: "'p api_env \<Rightarrow> http_request \<Rightarrow> string list \<Rightarrow> ('c, 'p) route option" where
  "route_audit env r ss =
     (if segment ss 2 = Some ''export'' \<and> is_get r then Some
        (andthen (read_date_time ''INVALID_EVIDENCE_PERIOD'' ''from'' (query r ''from'')) (\<lambda>from.
         andthen (read_date_time ''INVALID_EVIDENCE_PERIOD'' ''to'' (query r ''to'')) (\<lambda>until.
         andthen (assert_period ''INVALID_AUDIT_EXPORT_PERIOD'' from until) (\<lambda>_.
         andthen (read_audit_export_target (query r ''target'')) (\<lambda>target.
         andthen (export_audit_events (ae_runtime env) from until target) (\<lambda>x. reply 200 (Audit_export_body x)))))))
      else if segment ss 2 = Some ''events'' \<and> is_get r then Some
        (andthen (read_date_time ''INVALID_AUDIT_FILTER'' ''from'' (query r ''from'')) (\<lambda>from.
         andthen (look (\<lambda>a. list_audit_events (app_store a)
           \<lparr>aef_subjectId = query r ''subjectId'', aef_resourceId = query r ''resourceId'', aef_from = from\<rparr>))
           (\<lambda>es. reply 200 (Events_body es))))
      else if segment ss 2 = Some ''integrity'' \<and> is_get r then Some
        (andthen (verify_audit_integrity (ae_runtime env)) (\<lambda>x. reply 200 (Integrity_body x)))
      else None)"

definition route_evidence :: "'p api_env \<Rightarrow> http_request \<Rightarrow> string list \<Rightarrow> ('c, 'p) route option" where
  "route_evidence env r ss =
     (if segment ss 2 = Some ''export'' \<and> is_get r then Some
        (andthen (read_evidence_controls (query r ''controls'')) (\<lambda>controls.
         andthen (read_evidence_framework (query r ''framework'')) (\<lambda>framework.
         andthen (read_date_time ''INVALID_EVIDENCE_PERIOD'' ''from'' (query r ''from'')) (\<lambda>from.
         andthen (read_date_time ''INVALID_EVIDENCE_PERIOD'' ''to'' (query r ''to'')) (\<lambda>until.
         andthen (read_export_format (query r ''format'')) (\<lambda>fmt.
         andthen (assert_period ''INVALID_EVIDENCE_PERIOD'' from until) (\<lambda>_.
         andthen (export_evidence_package (ae_runtime env) (ae_services env) controls fmt (Some framework) from until)
           (\<lambda>p. reply 200 (Package_body p)))))))))
      else if segment ss 2 = Some ''verify'' \<and> is_post r then Some
        (andthen (read_idempotency_key r) (\<lambda>key.
         andthen (read_json env r) (\<lambda>v.
         andthen (verify_evidence_package (ae_runtime env) (ae_services env) v key) (\<lambda>report. reply 200 (Verification_body report)))))
      else None)"

subsection \<open>The server\<close>

record ('c, 'p) api_server =
  sv_app :: "('c, 'p) local_app"
  sv_keys :: "parsed_api_key list"
  sv_samples :: authentication_samples
  sv_scope :: string
  sv_admin :: admin_descriptor

definition create_api_server ::
  "('c, 'p) local_app \<Rightarrow> string list option \<Rightarrow> string \<Rightarrow> admin_descriptor \<Rightarrow> js_thrown + ('c, 'p) api_server" where
  "create_api_server a keys scope descriptor =
     map_sum id (\<lambda>parsed. \<lparr>sv_app = a, sv_keys = parsed, sv_samples = [], sv_scope = scope, sv_admin = descriptor\<rparr>)
       (parse_api_keys keys)"

definition with_request_audit_actor :: "canonical_id \<Rightarrow> ('c, 'p, 'a) run \<Rightarrow> ('c, 'p, 'a) run" where
  "with_request_audit_actor who m a =
     (case m (a\<lparr>app_requestActor := Some who\<rparr>) of (x, b) \<Rightarrow> (x, b\<lparr>app_requestActor := app_requestActor a\<rparr>))"

definition route_authenticated :: "'p api_env \<Rightarrow> http_request \<Rightarrow> string list \<Rightarrow> ('c, 'p) route" where
  "route_authenticated env r ss =
     (let area = segment ss 1 in
      if area = Some ''decision'' then route_decision env r ss
      else if area = Some ''subjects'' then route_subjects env r ss
      else if area = Some ''resources'' then route_resources env r ss
      else if area = Some ''relationships'' then route_relationships env r ss
      else if area = Some ''policies'' then route_policies env r ss
      else if area = Some ''provisioning'' then route_provisioning env r ss
      else if area = Some ''reconciliation'' then route_reconciliation env r ss
      else if area = Some ''discovery'' then route_discovery r ss
      else if area = Some ''audit'' then coalesce (route_audit env r ss) (give not_found)
      else if area = Some ''evidence'' then coalesce (route_evidence env r ss) (give not_found)
      else if area = Some ''connectors'' then route_connectors env r ss
      else give not_found)"

definition unauthenticated :: "authentication_failure \<Rightarrow> api_response" where
  "unauthenticated f =
     \<lparr>status_code = 401, challenge = Some (bearer_challenge f),
      body = Error_body ''UNAUTHENTICATED'' ''A valid bearer token is required.'' ''corr:unauthenticated''\<rparr>"

text \<open>The reply of the handler to what it caught.\<close>

definition error_response :: "string \<Rightarrow> app_error \<Rightarrow> api_response" where
  "error_response uuid e =
     (case e of
        Local_app_error n code message \<Rightarrow> send_json n (Error_body code message ''corr:bad-request'')
      | Raised _ \<Rightarrow> send_json 500 (Error_body ''INTERNAL_ERROR'' ''An internal error occurred.'' (''corr:internal-error:'' @ uuid)))"

definition settled :: "'p api_env \<Rightarrow> ('c, 'p) route \<Rightarrow> ('c, 'p) api_server \<Rightarrow> api_response \<times> ('c, 'p) api_server" where
  "settled env m sv =
     (case m (sv_app sv) of
        (Inr x, b) \<Rightarrow> (x, sv\<lparr>sv_app := b\<rparr>)
      | (Inl e, b) \<Rightarrow> (error_response (ae_uuid env) e, sv\<lparr>sv_app := b\<rparr>))"

definition route_request :: "'p api_env \<Rightarrow> http_request \<Rightarrow> ('c, 'p) api_server \<Rightarrow> api_response \<times> ('c, 'p) api_server" where
  "route_request env r sv =
     (case path_segments (ae_decodeComponent env) (rq_pathname r) of
        None \<Rightarrow> (error_response (ae_uuid env) (Raised (Error_object ''URI malformed'')), sv)
      | Some ss \<Rightarrow>
          let method = coalesce (rq_method r) ''GET'' in
          if method = ''GET'' \<and> rq_pathname r = ''/v1/health'' then (send_json 200 Health_body, sv)
          else if method = ''GET'' \<and> rq_pathname r = ''/v1/ready'' then
            settled env
              (andthen (build_runtime_readiness (ae_backend env) (sv_keys sv \<noteq> []) (es_repository (ae_services env) \<noteq> None) (sv_admin sv))
                 (\<lambda>x. reply (if ready_status x = Runtime_not_ready then 503 else 200) (Readiness_body x))) sv
          else if segment ss 0 \<noteq> Some ''v1'' then (not_found, sv)
          else case authenticate_request r (sv_keys sv) of
              Refused f \<Rightarrow>
                (case record_authentication_failure (ae_runtime env) (ae_wallClock env) r f (sv_scope sv) (sv_samples sv) (sv_app sv) of
                   (samples, b) \<Rightarrow> (unauthenticated f, sv\<lparr>sv_app := b, sv_samples := samples\<rparr>))
            | Authenticated label \<Rightarrow>
                settled env
                  (with_request_audit_actor (resolve_request_audit_actor (app_actor (sv_app sv)) label) (route_authenticated env r ss)) sv)"

text \<open>\<open>API_ROUTE_SURFACES\<close>, the documented routes; \<open>None\<close> stands for a parameter of the path.\<close>

definition api_route_surfaces :: "(string \<times> string option list) list" where
  "api_route_surfaces =
    [(''GET'', [Some ''health'']), (''GET'', [Some ''ready'']),
     (''POST'', [Some ''decision'', Some ''check'']), (''POST'', [Some ''decision'', Some ''explain'']),
     (''POST'', [Some ''decision'', Some ''batch-check'']), (''GET'', [Some ''subjects'']), (''POST'', [Some ''subjects'']),
     (''GET'', [Some ''subjects'', None]), (''GET'', [Some ''subjects'', None, Some ''access'']), (''GET'', [Some ''resources'']),
     (''POST'', [Some ''resources'']), (''GET'', [Some ''resources'', None]), (''GET'', [Some ''resources'', None, Some ''access'']),
     (''GET'', [Some ''resources'', None, Some ''native-access'']), (''GET'', [Some ''relationships'']),
     (''PUT'', [Some ''relationships'']), (''DELETE'', [Some ''relationships'']), (''GET'', [Some ''policies'']),
     (''POST'', [Some ''policies'']), (''POST'', [Some ''policies'', None, Some ''validate'']),
     (''POST'', [Some ''policies'', None, Some ''publish'']), (''POST'', [Some ''policies'', None, Some ''rollback'']),
     (''POST'', [Some ''provisioning'', Some ''plans'']), (''POST'', [Some ''provisioning'', Some ''jobs'']),
     (''GET'', [Some ''provisioning'', Some ''jobs'', None]), (''POST'', [Some ''reconciliation'', Some ''run'']),
     (''GET'', [Some ''reconciliation'', Some ''findings'']),
     (''POST'', [Some ''reconciliation'', Some ''findings'', None, Some ''remediation'']),
     (''GET'', [Some ''discovery'', Some ''runs'']), (''GET'', [Some ''audit'', Some ''events'']),
     (''GET'', [Some ''audit'', Some ''integrity'']), (''GET'', [Some ''audit'', Some ''export'']),
     (''GET'', [Some ''evidence'', Some ''export'']), (''POST'', [Some ''evidence'', Some ''verify'']), (''GET'', [Some ''connectors'']),
     (''POST'', [Some ''connectors'', None, Some ''test'']), (''GET'', [Some ''connectors'', None, Some ''enforcement-readiness'']),
     (''POST'', [Some ''connectors'', None, Some ''enforcement-readiness'']), (''POST'', [Some ''connectors'', None, Some ''sync''])]"

end
