(* ===== verification/Api_Properties.thy ===== *)
theory Api_Properties
  imports Api_Server Job_Runner_Properties
begin

text \<open>
  What the HTTP API guarantees: a request, whatever its method, path and body, does nothing to the app
  but steps of the runtime, and a request without a valid key gets nothing but the public routes.
\<close>

subsection \<open>Requests are made of runtime steps\<close>

















subsection \<open>Who is served\<close>

lemma parsed_keys:
  assumes "parse_api_keys keys = Inr ks"
  shows "distinct (map key_token ks)" "\<forall>k \<in> set ks. byte_length (key_token k) \<le> max_bearer_token_bytes"
proof -
  let ?parsed = "filter (\<lambda>k. key_token k \<noteq> []) (map parse_api_key_entry (coalesce keys []))"
  from assms have ks: "ks = unique_tokens [] ?parsed" "\<not> list_ex (\<lambda>k. byte_length (key_token k) > max_bearer_token_bytes) ?parsed"
    by (auto simp: parse_api_keys_def Let_def split: if_splits)
  show "distinct (map key_token ks)" unfolding ks(1) by (rule unique_tokens_distinct)
  show "\<forall>k \<in> set ks. byte_length (key_token k) \<le> max_bearer_token_bytes"
    using ks(2) unique_tokens_subset [of "[]" ?parsed] unfolding ks(1) list_ex_iff by (auto simp: not_less)
qed

lemma find_by_token:
  assumes "distinct (map key_token ks)"
  shows "find (\<lambda>k. key_token k = token \<and> P k) ks = Some k \<longleftrightarrow> k \<in> set ks \<and> key_token k = token \<and> P k"
  using assms by (induction ks) (auto simp: image_iff)

text \<open>
  with configured keys, a request is authenticated exactly when its bearer token is the token of
  one of them, and then with the label of that key: neither a prefix, nor the padding to the length of
  the comparison, nor another case of a letter, nor an overlong token is accepted. Without any key (or
  with blank ones only) every request is authenticated, without a label.
\<close>
theorem keys_authenticate_exactly:
  assumes "parse_api_keys keys = Inr ks"
  shows "authenticate_request r ks = Authenticated label \<longleftrightarrow>
    ks = [] \<and> label = None \<or>
    (\<exists>k \<in> set ks. read_bearer_token r = Some (key_token k) \<and> key_label k = label)"
proof (cases "read_bearer_token r")
  case (Some token)
  let ?ok = "\<lambda>k. byte_length (key_token k) \<le> max_bearer_token_bytes"
  note keys = parsed_keys [OF assms]
  have hit: "find (\<lambda>k. constant_time_equal (key_token k) token) ks = Some k \<longleftrightarrow> k \<in> set ks \<and> key_token k = token" for k
    using find_by_token [OF keys(1), of token ?ok k] keys(2) by (auto simp: conj_commute)
  show ?thesis
  proof (cases "\<exists>k \<in> set ks. key_token k = token")
    case True
    then obtain k where k: "k \<in> set ks" "key_token k = token" by blast
    then have found: "find (\<lambda>k. constant_time_equal (key_token k) token) ks = Some k" by (simp only: hit)
    then have "k' = k" if "k' \<in> set ks" "key_token k' = token" for k' using that hit [of k'] by simp
    then have "(\<exists>k' \<in> set ks. Some token = Some (key_token k') \<and> key_label k' = label) \<longleftrightarrow> key_label k = label"
      using k by blast
    moreover have "ks \<noteq> []" using k(1) by auto
    moreover have "authenticate_request r ks = Authenticated (key_label k)"
    proof -
      from k(1) have "ks \<noteq> []" by auto
      then show ?thesis unfolding authenticate_request_def Some option.case scan_keys_found found by simp
    qed
    ultimately show ?thesis by (simp add: Some)
  next
    case False
    then have "find (\<lambda>k. constant_time_equal (key_token k) token) ks = None" by (auto simp: find_None_iff)
    then have "authenticate_request r ks = (if ks = [] then Authenticated None else Refused Invalid_token)"
      unfolding authenticate_request_def Some option.case scan_keys_found by simp
    with False Some show ?thesis by auto
  qed
qed (auto simp: authenticate_request_def)

definition sample_api_keys :: "string list" where
  "sample_api_keys = [''ops:0123456789'', ''plain-token-1'']"

definition bearer_request :: "string \<Rightarrow> http_request" where
  "bearer_request token =
     \<lparr>rq_method = Some ''GET'', rq_pathname = ''/v1/subjects'', rq_search = [], rq_authorization = Some (''Bearer '' @ token),
      rq_idempotencyKey = None, rq_body = []\<rparr>"

lemma keys_authenticate_exactly_witness:
  "\<exists>ks. parse_api_keys (Some sample_api_keys) = Inr ks \<and>
     authenticate_request (bearer_request ''0123456789'') ks = Authenticated (Some ''ops'') \<and>
     (\<forall>label. authenticate_request (bearer_request ''plain-token-'') ks \<noteq> Authenticated label)"
proof -
  let ?ks = "[\<lparr>key_raw = ''ops:0123456789'', key_token = ''0123456789'', key_label = Some ''ops''\<rparr>,
    \<lparr>key_raw = ''plain-token-1'', key_token = ''plain-token-1'', key_label = None\<rparr>]"
  have ks: "parse_api_keys (Some sample_api_keys) = Inr ?ks" by code_simp
  have tokens: "read_bearer_token (bearer_request ''0123456789'') = Some ''0123456789''"
    "read_bearer_token (bearer_request ''plain-token-'') = Some ''plain-token-''" by code_simp+
  show ?thesis
    using keys_authenticate_exactly [OF ks, of "bearer_request ''0123456789''"]
      keys_authenticate_exactly [OF ks, of "bearer_request ''plain-token-''"] ks by (auto simp: tokens)
qed

subsection \<open>Requests without a valid key\<close>

text \<open>The app up to its audit log, its receipts and what lies outside it.\<close>

definition logged_only :: "('c, 'p) local_app \<Rightarrow> ('c, 'p) local_app \<Rightarrow> bool" where
  "logged_only a b \<longleftrightarrow> app_connectors b = app_connectors a \<and> app_provider b = app_provider a \<and>
     en_policyModel (app_engine b) = en_policyModel (app_engine a) \<and>
     (\<exists>es ds. length es \<le> 1 \<and> app_store b = (app_store a)
        \<lparr>st_auditEvents := st_auditEvents (app_store a) @ es, st_degradations := ds\<rparr>)"

definition receipts_only :: "('c, 'p) local_app \<Rightarrow> ('c, 'p) local_app \<Rightarrow> bool" where
  "receipts_only a b \<longleftrightarrow> app_connectors b = app_connectors a \<and> app_provider b = app_provider a \<and>
     en_policyModel (app_engine b) = en_policyModel (app_engine a) \<and>
     (\<exists>ds. app_store b = (app_store a)\<lparr>st_degradations := ds\<rparr>)"

lemma receipts_only_trans: "receipts_only a b \<Longrightarrow> receipts_only b c \<Longrightarrow> receipts_only a c"
  by (auto simp: receipts_only_def)

lemma receipts_only_steps:
  "receipts_only a a" "receipts_only a (a\<lparr>app_disk := d\<rparr>)" "receipts_only a (degrade c i t m a)"
  "receipts_only a (repository_error c i t e a)" "receipts_only a (try_write c i t f a)"
  "receipts_only a (with_store (replace_persistence_degradations ds) a)"
proof -
  show same: "receipts_only a a" for a :: "('c, 'p) local_app"
    by (auto simp: receipts_only_def intro: exI [of _ "st_degradations (app_store a)"])
  have disk: "receipts_only a (a\<lparr>app_disk := d\<rparr>)" for a :: "('c, 'p) local_app" and d
    using same [of a] by (simp add: receipts_only_def app_store_def)
  then show "receipts_only a (a\<lparr>app_disk := d\<rparr>)" .
  have degraded: "receipts_only a (degrade c i t m a)" for a :: "('c, 'p) local_app" and c i t m
    using same [of a] by (simp add: receipts_only_def app_store_def degrade_def)
  then show "receipts_only a (degrade c i t m a)" .
  have error: "receipts_only a (repository_error c i t e a)" for a :: "('c, 'p) local_app" and c i t e
    unfolding repository_error_def by (rule degraded)
  then show "receipts_only a (repository_error c i t e a)" .
  show "receipts_only a (try_write c i t f a)"
    by (auto simp: try_write_def intro: disk receipts_only_trans [OF disk error] split: prod.split option.split)
  show "receipts_only a (with_store (replace_persistence_degradations ds) a)"
    by (auto simp: receipts_only_def with_store_def app_store_def replace_persistence_degradations_def)
qed

lemma committed_receipts: "receipts_only a (commit_runtime_persistence t [append_audit_event rt e t prior] p a)"
proof -
  have appended: "receipts_only b (append_audit_event rt e t prior b)" for b :: "('c, 'p) local_app"
    by (auto simp: append_audit_event_def intro: receipts_only_steps split: option.split sum.split)
  have snapshot: "receipts_only b (persist_app_state t b)" for b :: "('c, 'p) local_app"
    by (auto simp: persist_app_state_def persist_store_snapshot_def Let_def split: option.split prod.split
        intro: receipts_only_steps receipts_only_trans [OF receipts_only_trans [OF receipts_only_steps(2,4)] receipts_only_steps(6)])
  show ?thesis
    by (auto simp: commit_runtime_persistence_def Let_def
        intro: snapshot receipts_only_steps receipts_only_trans appended
          receipts_only_trans [OF receipts_only_trans [OF appended receipts_only_steps(6)] snapshot])
qed

lemma audit_logged: "logged_only a (snd (record_audit rt i (Some t) p a))"
proof -
  let ?i = "i\<lparr>in_actor := coalesce (app_requestActor a) (in_actor i)\<rparr>"
  obtain e es where ev: "record_event rt ?i t (en_recorder (app_engine a)) = (e, es)" by fastforce
  let ?b = "with_store (record_audit_event e) (a\<lparr>app_engine := (app_engine a)\<lparr>en_recorder := es\<rparr>\<rparr>)"
  have "receipts_only ?b (snd (record_audit rt i (Some t) p a))"
    by (simp add: record_audit_def ev Let_def committed_receipts)
  then show ?thesis
    by (auto simp: receipts_only_def logged_only_def with_store_def app_store_def record_audit_event_def
        intro!: exI [of _ "[e]"])
qed

lemma unlogged: "app_engine b = app_engine a \<Longrightarrow> app_connectors b = app_connectors a \<Longrightarrow>
    app_provider b = app_provider a \<Longrightarrow> logged_only a b"
  by (auto simp: logged_only_def app_store_def intro!: exI [of _ "[]"] exI [of _ "st_degradations (en_store (app_engine a))"])

lemma failure_logged: "logged_only a (snd (record_authentication_failure rt n r f scope samples a))"
proof (cases "app_now a")
  case (Pair t a1)
  then have same: "app_engine a1 = app_engine a" "app_connectors a1 = app_connectors a" "app_provider a1 = app_provider a"
    by (auto simp: app_now_def)
  then have "logged_only a b" if "logged_only a1 b" for b using that by (simp add: logged_only_def app_store_def)
  then show ?thesis
    using unlogged [OF same] by (auto simp: record_authentication_failure_def Pair Let_def audit_logged)
qed

lemma readiness_logged: "build_runtime_readiness backend hasKeys hasEvidence descriptor a = (x, b) \<Longrightarrow> logged_only a b"
  by (rule unlogged)
    (auto simp: build_runtime_readiness_def lift_thrown_def andthen_def perform_def app_now_def look_def give_def raise_def
      split: sum.splits js_thrown.splits prod.splits if_splits)

text \<open>
  C26: a request whose authentication is refused reads and changes nothing: the answer is an error, the
  fixed health body or the readiness checks, and every authenticated route answers 401 with a bearer
  challenge before the route is looked up or the body read; no connector is asked, and the store stays
  as it is except for at most one event in the audit log and the receipts of failed writes.
\<close>
theorem refused_requests_change_nothing:
  assumes "authenticate_request r (sv_keys sv) = Refused f" "route_request env r sv = (resp, sv')"
  shows "logged_only (sv_app sv) (sv_app sv') \<and> sv_keys sv' = sv_keys sv \<and>
    (resp = unauthenticated f \<or> (\<exists>code message i. body resp = Error_body code message i) \<or>
     resp = send_json 200 Health_body \<or> (\<exists>x. body resp = Readiness_body x)) \<and>
    (\<forall>ss. path_segments (ae_decodeComponent env) (rq_pathname r) = Some (''v1'' # ss) \<longrightarrow>
       rq_pathname r \<notin> {''/v1/health'', ''/v1/ready''} \<longrightarrow> resp = unauthenticated f)"
proof -
  have same: "logged_only (sv_app sv) (sv_app sv)" by (rule unlogged) simp_all
  have recorded: "logged_only (sv_app sv) b"
    if "record_authentication_failure rt n r f scope samples (sv_app sv) = (samples', b)" for rt n scope samples samples' b
    using failure_logged [of "sv_app sv" rt n r f scope samples] that by simp
  show ?thesis
  proof (cases "path_segments (ae_decodeComponent env) (rq_pathname r)")
    case None
    with assms(2) same show ?thesis by (auto simp: route_request_def error_response_def send_json_def)
  next
    case (Some ss)
    show ?thesis
    proof (cases "coalesce (rq_method r) ''GET'' = ''GET'' \<and> rq_pathname r \<in> {''/v1/health'', ''/v1/ready''}")
      case True
      with assms(2) Some same show ?thesis
        by (auto simp: route_request_def settled_def andthen_def reply_def give_def send_json_def error_response_def Let_def
            split: prod.splits sum.splits app_error.splits dest!: readiness_logged)
    next
      case False
      with assms Some same show ?thesis
        by (auto simp: route_request_def not_found_def send_json_def segment_def Let_def
            split: if_splits prod.splits dest!: recorded)
    qed
  qed
qed

text \<open>A request with a wrong token, to a server with two keys.\<close>

lemma refused_requests_change_nothing_witness:
  "\<exists>ks. parse_api_keys (Some sample_api_keys) = Inr ks \<and>
    (\<forall>(env :: unit api_env) (sv :: (unit, unit) api_server).
       fst (route_request (env\<lparr>ae_decodeComponent := Some\<rparr>) (bearer_request ''wrong-token'') (sv\<lparr>sv_keys := ks\<rparr>)) =
       unauthenticated Invalid_token)"
proof -
  let ?r = "bearer_request ''wrong-token''"
  let ?ks = "[\<lparr>key_raw = ''ops:0123456789'', key_token = ''0123456789'', key_label = Some ''ops''\<rparr>,
    \<lparr>key_raw = ''plain-token-1'', key_token = ''plain-token-1'', key_label = None\<rparr>]"
  have "read_bearer_token ?r = Some ''wrong-token''" by code_simp
  then have "authenticate_request ?r ?ks = Refused Invalid_token"
    by (simp add: authenticate_request_def scan_keys_found)
  moreover have "parse_api_keys (Some sample_api_keys) = Inr ?ks" by code_simp
  ultimately obtain ks where ks: "parse_api_keys (Some sample_api_keys) = Inr ks" "authenticate_request ?r ks = Refused Invalid_token"
    by blast
  have path: "path_segments Some (rq_pathname ?r) = Some (''v1'' # [''subjects''])" "rq_pathname ?r = ''/v1/subjects''" by code_simp+
  have "fst (route_request (env\<lparr>ae_decodeComponent := Some\<rparr>) ?r (sv\<lparr>sv_keys := ks\<rparr>)) = unauthenticated Invalid_token"
    for env :: "unit api_env" and sv :: "(unit, unit) api_server"
  proof -
    obtain resp sv' where run: "route_request (env\<lparr>ae_decodeComponent := Some\<rparr>) ?r (sv\<lparr>sv_keys := ks\<rparr>) = (resp, sv')" by fastforce
    have refused: "authenticate_request ?r (sv_keys (sv\<lparr>sv_keys := ks\<rparr>)) = Refused Invalid_token" using ks(2) by simp
    have "path_segments (ae_decodeComponent (env\<lparr>ae_decodeComponent := Some\<rparr>)) (rq_pathname ?r) = Some (''v1'' # [''subjects''])"
      using path(1) by simp
    moreover have "rq_pathname ?r \<notin> {''/v1/health'', ''/v1/ready''}" unfolding path(2) by simp
    ultimately have "resp = unauthenticated Invalid_token"
      by (rule refused_requests_change_nothing [OF refused run, THEN conjunct2, THEN conjunct2, THEN conjunct2, rule_format])
    then show ?thesis using run by simp
  qed
  with ks(1) show ?thesis by blast
qed

end
