(* ===== verification/Spec2Isabelle.thy ===== *)
theory Spec2Isabelle
  imports Policy_Validation Rebac_Store Audit_Chain Decision_Runtime Job_Adapter_Properties Policy_Properties
    Graph_Reader_Properties Job_Runner_Properties Audit_Properties Governance_Properties
    Evidence_Properties Api_Properties
begin

text \<open>
  Access Kit: a relationship-based access control (ReBAC) control plane, its authorization core
  \<open>packages/core/src\<close>, its API and runtime \<open>packages/api/src\<close>, and of the connectors the mock one and
  the collection reader of \<open>packages/connectors-microsoft-graph\<close>.

  \<^bold>\<open>The program.\<close> An in-memory store holds subjects, resources, relationship tuples and the
  evidence records of provisioning, drift and governance. A policy model names relations and says
  which of them grant an action, which are followed transitively (membership, containment), which
  deny, and which are conditional on caveats. The decision engine answers whether a subject may
  act on a resource as of an instant: it checks the instant, the two nodes, their lifecycle and
  the tenant boundary, looks for a path to a deny relation, then for a path to a grant, evaluates
  the caveats of that path, and stores the decision with an event of a hash-chained audit log.

  The runtime wraps engine and store in an app with connectors to providers and with repositories for
  graph, jobs, state, audit events and evidence packages. Its flows discover and write the graph, plan
  and apply provisioning, reconcile drift, keep policies, and export audit events and signed evidence
  packages; each writes audit events, and a repository that throws leaves a receipt of degradation.
  The HTTP API authenticates a request, decodes it and runs one flow. Work on connectors can also go
  through a job queue that several processes share: jobs are enqueued under idempotency keys, leased
  to workers, retried with backoff or dead-lettered, and every change is one compare-and-exchange of a
  record in an external snapshot store. A reference audit log keeps events, evidence packages, signed
  windows, deliveries and backups outside the process.

  \<^bold>\<open>Theories: the core.\<close>
  \<^item> \<open>Prelude\<close>: insertion-ordered maps and sets as JavaScript has them, optional values and
    truthiness, list filters, and the lemmas every component uses.
  \<^item> \<open>Js_Values\<close>, \<open>Js_Date\<close>, \<open>Js_Regexp\<close>: JSON values, the string functions the code calls,
    \<open>stableStringify\<close> of \<open>audit.ts\<close> with its parser (unique readability), \<open>Date.parse\<close> and
    \<open>toISOString\<close>, and the regular expressions of the code.
  \<^item> \<open>Domain\<close>, \<open>Domain_Records\<close>: the records of \<open>domain/*.ts\<close>.
  \<^item> \<open>Policy_Model\<close>, \<open>Policy_Validation\<close>: \<open>policy-model.ts\<close>; what compilation means, and that
    validation is strong enough for it.
  \<^item> \<open>Rebac_Store\<close>: \<open>store.ts\<close>; one contract for keyed collections and one for write-once
    collections (locales \<open>keyed_collection\<close>, \<open>recorded_collection\<close>), interpreted on every collection
    of the store; the step relation of its operations and the invariant of reachable stores.
  \<^item> \<open>Audit_Chain\<close>: \<open>audit.ts\<close>; the recorder, verification, and the chain they maintain.
  \<^item> \<open>Decision_Runtime\<close>: \<open>decision-runtime.ts\<close>; version pins, bounds, cache metadata, fixtures.
  \<^item> \<open>Graph_Search\<close>, \<open>Engine_Paths\<close>: the breadth-first searches of \<open>engine.ts\<close>. The locales
    \<open>scanning\<close> and \<open>search\<close> state what one pass over a node's relationships does and prove that the
    queue loop finds a path exactly when there is one within the bounds; \<open>findAllowPath\<close> and
    \<open>findDenyPath\<close> are instances.
  \<^item> \<open>Caveats\<close>, \<open>Decision_Engine\<close>: the rest of \<open>engine.ts\<close>. \<open>Engine_State\<close>: the invariant of the
    engine's cache, the engines a program can reach, and the abstract specification \<open>verdict\<close> of a
    decision. \<open>Engine_Decisions\<close>, \<open>Engine_Evidence\<close>: what the engine guarantees about its decisions,
    and about the decision records and the audit log it leaves behind.

  \<^bold>\<open>Theories: the job queue and the audit log outside the process.\<close>
  \<^item> \<open>Secret_Material\<close>: \<open>secret-material-heuristics.ts\<close>, \<open>reference-repository-security-utils.ts\<close>.
  \<^item> \<open>Job_Queue\<close>, \<open>Job_Queue_Laws\<close>, \<open>Job_Queue_Properties\<close>: the queue of \<open>reference-job-queue.ts\<close>, what
    each operation does to it, and the queue as a state machine (\<open>queue_step\<close>, \<open>job_change\<close>, \<open>queue_inv\<close>).
  \<^item> \<open>Job_Store\<close>, \<open>Job_Queue_Adapter\<close>: the stored record with its checks
    (\<open>reference-job-snapshot-store.ts\<close>, \<open>repository-envelopes.ts\<close>), the in-memory snapshot store of
    \<open>reference-repositories.ts\<close>, and \<open>ReferenceJobQueueAdapter\<close>. \<open>Job_Adapter_Laws\<close>,
    \<open>Job_Adapter_Properties\<close>: the contract of an external store (locale \<open>external_store\<close>,
    interpreted on the in-memory store), atomic commits under interference by other processes, and the
    invariant of every stored record and backup, restoring included.
  \<^item> \<open>Audit_Store\<close>, \<open>Audit_Adapter\<close>, \<open>Audit_Operations\<close>: \<open>reference-audit*.ts\<close>. \<open>Audit_Laws\<close> has the
    operations as steps, \<open>audit_write\<close> without and \<open>audit_step\<close> with the restoring of backups;
    \<open>Audit_Properties\<close> shows what the log, the signed windows and the backups guarantee, and what one
    late event does to them.

  \<^bold>\<open>Theories: the runtime and the API.\<close>
  \<^item> \<open>Provisioning_Records\<close>, \<open>Drift_Lifecycle\<close>, \<open>Governance\<close>: \<open>provisioning\<close> and \<open>drift\<close> records,
    \<open>drift-lifecycle.ts\<close>, \<open>governance.ts\<close>; \<open>Governance_Properties\<close> shows that no finding is lost.
  \<^item> \<open>Connector_Adapter\<close>, \<open>Mock_Connector\<close>: a connector is a record of calls on the state of its
    provider; \<open>watched\<close> logs the calls. \<open>Graph_Reader\<close>, \<open>Graph_Reader_Laws\<close>,
    \<open>Graph_Reader_Properties\<close>: the collection reader of the Microsoft Graph connector, which ends
    whatever the client answers and returns every page.
  \<^item> \<open>Runtime_State\<close>, \<open>Runtime_Startup\<close>, \<open>Enforcement\<close>, \<open>Provisioning_Jobs\<close>, \<open>Runtime_Discovery\<close>,
    \<open>Runtime_Reconciliation\<close>, \<open>Runtime_Policies\<close>: \<open>runtime-*.ts\<close> and \<open>local-app.ts\<close>. A flow is a
    computation \<open>run\<close> on the app that may throw.
  \<^item> \<open>Evidence_Package\<close>, \<open>Evidence_Integrity\<close>: \<open>evidence-package-builder.ts\<close>,
    \<open>evidence-integrity.ts\<close>; \<open>Runtime_Evidence\<close>, \<open>Evidence_Export\<close>: \<open>runtime-evidence.ts\<close>,
    \<open>runtime-evidence-export.ts\<close>; \<open>Evidence_Properties\<close>: what a signature is worth.
  \<^item> \<open>Runtime_Laws\<close>, \<open>Flow_Laws\<close>: locales for relations that hold across each primitive effect
    (\<open>app_order\<close> and its extensions), and the proof, once, that they hold across every flow.
    \<open>Runtime_Reach\<close> has the flows as steps (\<open>app_flow\<close>: every flow but the creation of a job, exports
    and refused authentications included; \<open>app_step\<close>: all) and interprets the locales.
    \<open>Runtime_Properties\<close>, \<open>Enforcement_Properties\<close>, \<open>Policy_Properties\<close> draw the conclusions.
  \<^item> \<open>Job_Runner\<close>, \<open>Job_Runner_Properties\<close>: \<open>job-queue-runner.ts\<close>; a worker is made of runtime steps.
  \<^item> \<open>Admin_Authorization\<close>, \<open>Api_Auth\<close>, \<open>Api_Readiness\<close>, \<open>Request_Schemas\<close>, \<open>Request_Decoders\<close>,
    \<open>Api_Server\<close>: \<open>admin-authorization.ts\<close>, \<open>api-*.ts\<close>, \<open>request-*.ts\<close>, \<open>server.ts\<close>. \<open>Api_Properties\<close>:
    a request is made of runtime steps, and what it needs to be authenticated.

  \<^bold>\<open>Conventions.\<close> Strings are character lists, so code units up to 255. An optional field is an
  \<open>option\<close>. A \<open>Map\<close> is an association list in insertion order. An exception is \<open>Inl\<close> of an error
  datatype. SHA-256 and the text of a number are fields of a \<open>runtime\<close> record, the first argument of
  what uses them: what rests on them states it as a hypothesis (no collision among the texts at hand).
  Other code that is not in the repository is a parameter where it is used: Ed25519 and HMAC, Ajv,
  \<open>JSON.parse\<close>, \<open>decodeURIComponent\<close>, the constructor of regular expressions for change tickets,
  \<open>localeCompare\<close>, the messages of the engine's own errors, provider and repositories. Clock readings
  are a function of the number of readings; what happens outside the app between two flows is the
  step \<open>outside\<close>.

  \<^bold>\<open>Bounds.\<close> The searches terminate by the traversal bounds, which are always positive, and the graph
  reader by its page and retry limits; no fuel is used. A commit makes the code's five attempts.
  Delays and attempt limits are rational numbers where the code has numbers; the rounding of floating
  point is not modelled.

  \<^bold>\<open>Not modelled.\<close> \<open>Date.parse\<close> beyond the ISO format (implementation-defined text is taken as
  invalid), local time zones, the checks that decoded records have arrays of objects (stored records
  are typed), strings beyond code unit 255, the interleaving of two flows of one process at their
  awaits (a flow runs to its end), and the parts PROJECT.json lists as not modelled: sockets, SQL, the
  HTTP clients of providers, reading of the environment, clients, scripts and demonstration data.
\<close>

end
